(* ===== verification/Prelude.thy ===== *)
theory Prelude
  imports
    "HOL-Library.Word"
    "HOL-Library.AList"
    "HOL-Library.Char_ord"
    "HOL-Library.List_Lexorder"
begin

text \<open>
  Shared vocabulary of the development: Rust's integer types and their checked, saturating and
  wrapping arithmetic, byte strings and their big-endian integers, the outcome type of code that
  can panic or wait for fresh randomness, hash maps as association lists, ordered maps as sorted
  association lists, and the generic locale from which every component takes the lemma that an
  invariant kept by one operation is kept by every sequence of operations.
\<close>

named_theorems int_bounds \<open>the ranges of the signed integer types, unfolded\<close>
named_theorems wire_simps \<open>big-endian integers and byte-string slicing\<close>

section \<open>Integers\<close>

text \<open>
  Signed integers are mathematical integers together with a range predicate; every operation of
  the source that can leave the range is written with the checked, saturating or wrapping
  operation it uses. \<open>usize\<close> is 64 bits wide.
\<close>

type_synonym i8 = int
type_synonym i16 = int
type_synonym i32 = int
type_synonym i64 = int
type_synonym u16 = nat
type_synonym usize = nat
type_synonym u8 = "8 word"
type_synonym f64 = "64 word"
type_synonym bytes = "u8 list"

definition in_i8 :: "int \<Rightarrow> bool" where
  [int_bounds]: "in_i8 x \<longleftrightarrow> - (2 ^ 7) \<le> x \<and> x < 2 ^ 7"

definition in_i16 :: "int \<Rightarrow> bool" where
  [int_bounds]: "in_i16 x \<longleftrightarrow> - (2 ^ 15) \<le> x \<and> x < 2 ^ 15"

definition in_i32 :: "int \<Rightarrow> bool" where
  [int_bounds]: "in_i32 x \<longleftrightarrow> - (2 ^ 31) \<le> x \<and> x < 2 ^ 31"

definition in_i64 :: "int \<Rightarrow> bool" where
  [int_bounds]: "in_i64 x \<longleftrightarrow> - (2 ^ 63) \<le> x \<and> x < 2 ^ 63"

definition i32_max :: i32 where
  "i32_max = 2 ^ 31 - 1"

definition i32_min :: i32 where
  "i32_min = - (2 ^ 31)"

definition u64_max :: nat where
  "u64_max = 2 ^ 64 - 1"

definition wrap :: "nat \<Rightarrow> int \<Rightarrow> int" where
  "wrap w x = (x + 2 ^ (w - 1)) mod 2 ^ w - 2 ^ (w - 1)"

abbreviation wrap_i32 :: "int \<Rightarrow> i32" where
  "wrap_i32 \<equiv> wrap 32"

abbreviation wrap_i64 :: "int \<Rightarrow> i64" where
  "wrap_i64 \<equiv> wrap 64"

definition checked_add_i32 :: "i32 \<Rightarrow> i32 \<Rightarrow> i32 option" where
  "checked_add_i32 a b = (if in_i32 (a + b) then Some (a + b) else None)"

definition checked_add_i64 :: "i64 \<Rightarrow> i64 \<Rightarrow> i64 option" where
  "checked_add_i64 a b = (if in_i64 (a + b) then Some (a + b) else None)"

definition checked_add_usize :: "usize \<Rightarrow> usize \<Rightarrow> usize option" where
  "checked_add_usize a b = (if a + b \<le> u64_max then Some (a + b) else None)"

definition saturating_add_i32 :: "i32 \<Rightarrow> i32 \<Rightarrow> i32" where
  "saturating_add_i32 a b = max i32_min (min i32_max (a + b))"

definition saturating_add_u64 :: "nat \<Rightarrow> nat \<Rightarrow> nat" where
  "saturating_add_u64 a b = min u64_max (a + b)"

text \<open>Rust's \<open>%\<close> by a positive divisor takes the sign of the dividend.\<close>

definition rust_rem :: "int \<Rightarrow> int \<Rightarrow> int" where
  "rust_rem a b = (if a < 0 then - ((- a) mod b) else a mod b)"

text \<open>\<open>usize::try_from\<close> of a signed value: an error exactly on negative values.\<close>

definition usize_try_from :: "int \<Rightarrow> usize option" where
  "usize_try_from x = (if x < 0 then None else Some (nat x))"

text \<open>\<open>i32::try_from\<close> of an unsigned value.\<close>

definition i32_try_from :: "usize \<Rightarrow> i32 option" where
  "i32_try_from n = (if int n \<le> i32_max then Some (int n) else None)"

lemma wrap_in_range:
  assumes "0 < w" and "- (2 ^ (w - 1)) \<le> x" and "x < 2 ^ (w - 1)"
  shows "wrap w x = x"
proof -
  have "(2::int) ^ w = 2 * 2 ^ (w - 1)"
    using assms(1) by (cases w) simp_all
  then have "(x + 2 ^ (w - 1)) mod 2 ^ w = x + 2 ^ (w - 1)"
    using assms(2,3) by (intro mod_pos_pos_trivial) linarith+
  then show ?thesis by (simp add: wrap_def)
qed

lemma wrap_i64_id: "in_i64 x \<Longrightarrow> wrap_i64 x = x"
  by (rule wrap_in_range) (simp_all add: in_i64_def)

lemma wrap_i32_id: "in_i32 x \<Longrightarrow> wrap_i32 x = x"
  by (rule wrap_in_range) (simp_all add: in_i32_def)

lemma wrap_bounds:
  assumes "0 < w"
  shows "- (2 ^ (w - 1)) \<le> wrap w x \<and> wrap w x < 2 ^ (w - 1)"
proof -
  have two: "(2::int) ^ w = 2 * 2 ^ (w - 1)"
    using assms by (cases w) simp_all
  have "0 \<le> (x + 2 ^ (w - 1)) mod 2 ^ w" and "(x + 2 ^ (w - 1)) mod 2 ^ w < 2 ^ w"
    by simp_all
  then show ?thesis
    unfolding wrap_def using two by linarith
qed

lemma in_i32_wrap [simp]: "in_i32 (wrap_i32 x)"
  using wrap_bounds [of 32 x] by (simp add: in_i32_def)

lemma in_i64_wrap [simp]: "in_i64 (wrap_i64 x)"
  using wrap_bounds [of 64 x] by (simp add: in_i64_def)

lemma in_i16_wrap [simp]: "in_i16 (wrap 16 x)"
  using wrap_bounds [of 16 x] by (simp add: in_i16_def)

lemma wrap_mod: "wrap w (x mod 2 ^ w) = wrap w x"
  by (simp add: wrap_def mod_simps)

lemma checked_add_i32_Some:
  "checked_add_i32 a b = Some c \<longleftrightarrow> c = a + b \<and> in_i32 (a + b)"
  by (auto simp: checked_add_i32_def)

lemma checked_add_i64_Some:
  "checked_add_i64 a b = Some c \<longleftrightarrow> c = a + b \<and> in_i64 (a + b)"
  by (auto simp: checked_add_i64_def)

text \<open>Evaluation by small steps: compare as integers, not as unary numbers.\<close>

lemma saturating_add_u64_code [code]:
  "saturating_add_u64 a b = (if int a + int b \<le> 2 ^ 64 - 1 then a + b else nat (2 ^ 64 - 1))"
  by (auto simp: saturating_add_u64_def u64_max_def min_def)

lemma checked_add_usize_code [code]:
  "checked_add_usize a b = (if int a + int b \<le> 2 ^ 64 - 1 then Some (a + b) else None)"
  by (auto simp: checked_add_usize_def u64_max_def)

lemma usize_try_from_Some [simp]:
  "usize_try_from x = Some n \<longleftrightarrow> 0 \<le> x \<and> n = nat x"
  by (auto simp: usize_try_from_def)

section \<open>Outcomes: panics and waiting for randomness\<close>

text \<open>
  Code that can panic returns \<open>Inl (Panic message)\<close> there; \<open>Exhausted\<close> is the outcome of the
  loop that draws random identifiers when the supplied draws run out before one is accepted.
\<close>

datatype abort = Panic string | Exhausted

type_synonym 'a run = "abort + 'a"

text \<open>Rust's \<open>?\<close>: continue with the value, or return the error at once.\<close>

definition try_bind :: "'e + 'a \<Rightarrow> ('a \<Rightarrow> 'e + 'b) \<Rightarrow> 'e + 'b" where
  "try_bind m f = (case m of Inl e \<Rightarrow> Inl e | Inr x \<Rightarrow> f x)"

lemma try_bind_simps [simp]:
  "try_bind (Inl e) f = Inl e"
  "try_bind (Inr x) f = f x"
  by (simp_all add: try_bind_def)

lemma try_bind_Inr: "try_bind m f = Inr y \<longleftrightarrow> (\<exists>x. m = Inr x \<and> f x = Inr y)"
  by (cases m) simp_all

lemma try_bind_Inl:
  "try_bind m f = Inl e \<longleftrightarrow> m = Inl e \<or> (\<exists>x. m = Inr x \<and> f x = Inl e)"
  by (cases m) simp_all

text \<open>\<open>Option::expect\<close>: a panic with the given message on \<open>None\<close>.\<close>

definition expect :: "string \<Rightarrow> 'a option \<Rightarrow> 'a run" where
  "expect msg x = (case x of None \<Rightarrow> Inl (Panic msg) | Some v \<Rightarrow> Inr v)"

lemma expect_simps [simp]:
  "expect msg None = Inl (Panic msg)"
  "expect msg (Some v) = Inr v"
  by (simp_all add: expect_def)

lemma expect_Inr [simp]: "expect msg x = Inr v \<longleftrightarrow> x = Some v"
  by (cases x) simp_all

text \<open>A loop over a list whose body returns an element and a new state.\<close>

fun map_run :: "('a \<Rightarrow> 's \<Rightarrow> ('b \<times> 's) run) \<Rightarrow> 'a list \<Rightarrow> 's \<Rightarrow> ('b list \<times> 's) run" where
  "map_run f [] s = Inr ([], s)"
| "map_run f (x # xs) s =
     try_bind (f x s) (\<lambda>(y, s'). try_bind (map_run f xs s') (\<lambda>(ys, s''). Inr (y # ys, s'')))"

lemma map_run_invariant:
  assumes step: "\<And>x s y s'. x \<in> set xs \<Longrightarrow> I s \<Longrightarrow> f x s = Inr (y, s') \<Longrightarrow> I s'"
    and "I s" and "map_run f xs s = Inr (ys, s')"
  shows "I s'"
  using assms
proof (induction xs arbitrary: s ys)
  case Nil
  then show ?case by simp
next
  case (Cons x xs)
  from Cons.prems(3) obtain y s1 ys' where
    hd: "f x s = Inr (y, s1)" and tl: "map_run f xs s1 = Inr (ys', s')"
    by (auto simp: try_bind_Inr)
  have "I s1" by (rule Cons.prems(1) [OF _ Cons.prems(2) hd]) simp
  moreover have "\<And>z s y s'. z \<in> set xs \<Longrightarrow> I s \<Longrightarrow> f z s = Inr (y, s') \<Longrightarrow> I s'"
    by (rule Cons.prems(1)) simp_all
  ultimately show ?case using tl by (intro Cons.IH)
qed

lemma map_run_total:
  assumes step: "\<And>x s n. x \<in> set xs \<Longrightarrow> I (Suc n) s \<Longrightarrow> \<exists>y s'. f x s = Inr (y, s') \<and> I n s'"
    and "I (length xs + n) s"
  shows "\<exists>ys s'. map_run f xs s = Inr (ys, s') \<and> I n s'"
  using assms
proof (induction xs arbitrary: s)
  case (Cons x xs)
  from Cons.prems obtain y s1 where "f x s = Inr (y, s1)" "I (length xs + n) s1"
    by (metis add_Suc length_Cons list.set_intros(1))
  with Cons.IH [of s1] Cons.prems(1) show ?case by fastforce
qed simp

lemma map_run_no_panic:
  assumes "\<And>x s. x \<in> set xs \<Longrightarrow> f x s \<noteq> Inl e"
  shows "map_run f xs s \<noteq> Inl e"
  using assms
proof (induction xs arbitrary: s)
  case (Cons x xs)
  then have "f x s \<noteq> Inl e" and "\<And>s. map_run f xs s \<noteq> Inl e" by simp_all
  then show ?case by (auto simp: try_bind_Inl)
qed simp

lemma map_run_pure: "(\<And>x s. f x s = Inr (g x, s)) \<Longrightarrow> map_run f xs s = Inr (map g xs, s)"
  by (induction xs) simp_all

text \<open>What holds between each element and its result, in order.\<close>

lemma map_run_all2:
  assumes "\<And>x s y s'. x \<in> set xs \<Longrightarrow> f x s = Inr (y, s') \<Longrightarrow> R x y"
    and "map_run f xs s = Inr (ys, s')"
  shows "list_all2 R xs ys"
  using assms
proof (induction xs arbitrary: s ys)
  case (Cons x xs)
  from Cons.prems(2) obtain y s1 zs where "f x s = Inr (y, s1)" "map_run f xs s1 = Inr (zs, s')"
    "ys = y # zs" by (auto simp: try_bind_Inr)
  with Cons show ?case by (metis list.rel_intros(2) list.set_intros(1,2))
qed simp

lemma map_run_length: "map_run f xs s = Inr (ys, s') \<Longrightarrow> length ys = length xs"
  by (induction xs arbitrary: s ys) (auto simp: try_bind_Inr)

text \<open>The same for a body that cannot fail.\<close>

fun map_acc :: "('a \<Rightarrow> 's \<Rightarrow> 'b \<times> 's) \<Rightarrow> 'a list \<Rightarrow> 's \<Rightarrow> 'b list \<times> 's" where
  "map_acc f [] s = ([], s)"
| "map_acc f (x # xs) s =
     (case f x s of (y, s1) \<Rightarrow> (case map_acc f xs s1 of (ys, s2) \<Rightarrow> (y # ys, s2)))"

lemma map_acc_Cons:
  "map_acc f (x # xs) s =
     (fst (f x s) # fst (map_acc f xs (snd (f x s))), snd (map_acc f xs (snd (f x s))))"
  by (simp add: case_prod_unfold)

lemma map_acc_invariant:
  assumes "\<And>x s. x \<in> set xs \<Longrightarrow> I s \<Longrightarrow> I (snd (f x s))" and "I s"
  shows "I (snd (map_acc f xs s))"
  using assms
proof (induction xs arbitrary: s)
  case (Cons x xs)
  then show ?case by (simp only: map_acc_Cons) simp
qed simp

lemma map_acc_all2:
  assumes "\<And>x s. x \<in> set xs \<Longrightarrow> R x (fst (f x s))"
  shows "list_all2 R xs (fst (map_acc f xs s))"
  using assms
proof (induction xs arbitrary: s)
  case (Cons x xs)
  then show ?case by (simp only: map_acc_Cons) simp
qed simp

lemma map_acc_length [simp]: "length (fst (map_acc f xs s)) = length xs"
proof (induction xs arbitrary: s)
  case (Cons x xs)
  then show ?case by (simp only: map_acc_Cons) simp
qed simp

text \<open>One element of the result, from the state its predecessors leave.\<close>

lemma map_acc_nth:
  "i < length xs \<Longrightarrow> fst (map_acc f xs s) ! i = fst (f (xs ! i) (snd (map_acc f (take i xs) s)))"
proof (induction xs arbitrary: i s)
  case (Cons x xs)
  then show ?case by (cases i) (simp_all only: map_acc_Cons take_Suc_Cons nth_Cons_0 nth_Cons_Suc fst_conv snd_conv
        take_0 map_acc.simps(1) length_Cons Suc_less_eq)
qed simp

lemma map_acc_take: "take i (fst (map_acc f xs s)) = fst (map_acc f (take i xs) s)"
proof (induction xs arbitrary: i s)
  case (Cons x xs)
  then show ?case by (cases i) (simp_all only: map_acc_Cons take_Suc_Cons fst_conv take_0 map_acc.simps(1))
qed simp

text \<open>An invariant between the state and everything produced so far.\<close>

lemma map_acc_collects:
  assumes "\<And>x s zs. x \<in> set xs \<Longrightarrow> I s zs \<Longrightarrow> I (snd (f x s)) (zs @ g (fst (f x s)))" and "I s zs"
  shows "I (snd (map_acc f xs s)) (zs @ concat (map g (fst (map_acc f xs s))))"
  using assms
proof (induction xs arbitrary: s zs)
  case (Cons x xs)
  have "I (snd (f x s)) (zs @ g (fst (f x s)))" using Cons.prems by simp
  from Cons.IH [OF _ this] Cons.prems(1) show ?case
    by (simp only: map_acc_Cons) (simp only: fst_conv snd_conv list.map concat.simps append_assoc list.set_intros)
qed simp

section \<open>Byte strings\<close>

definition be_nat :: "bytes \<Rightarrow> nat" where
  "be_nat bs = foldl (\<lambda>a b. a * 256 + unat b) 0 bs"

fun be_bytes :: "nat \<Rightarrow> int \<Rightarrow> bytes" where
  "be_bytes 0 x = []"
| "be_bytes (Suc n) x = be_bytes n (x div 256) @ [word_of_int x]"

text \<open>\<open>slice i n bs\<close> is Rust's \<open>bs[i..i + n]\<close>; its users check the length first.\<close>

definition slice :: "nat \<Rightarrow> nat \<Rightarrow> 'a list \<Rightarrow> 'a list" where
  "slice i n xs = take n (drop i xs)"

lemma length_be_bytes [simp]: "length (be_bytes n x) = n"
  by (induction n arbitrary: x) simp_all

lemma be_nat_snoc: "be_nat (bs @ [b]) = be_nat bs * 256 + unat b"
  by (simp add: be_nat_def)

lemma int_be_nat_be_bytes: "int (be_nat (be_bytes n x)) = x mod 256 ^ n"
proof (induction n arbitrary: x)
  case 0
  then show ?case by (simp add: be_nat_def)
next
  case (Suc n)
  have "int (unat (word_of_int x :: u8)) = x mod 256"
    by (simp add: uint_word_of_int)
  then have "int (be_nat (be_bytes (Suc n) x)) = (x div 256) mod 256 ^ n * 256 + x mod 256"
    using Suc.IH [of "x div 256"] by (simp add: be_nat_snoc)
  also have "\<dots> = x mod (256 * 256 ^ n)"
    by (subst zmod_zmult2_eq) simp_all
  finally show ?case by simp
qed

lemma length_slice [simp]: "length (slice i n xs) = min n (length xs - i)"
  by (simp add: slice_def)

lemma slice_append_skip [wire_simps]:
  "length xs \<le> i \<Longrightarrow> slice i n (xs @ ys) = slice (i - length xs) n ys"
  by (simp add: slice_def)

lemma slice_append_exact [wire_simps]: "length xs = n \<Longrightarrow> slice 0 n (xs @ ys) = xs"
  by (simp add: slice_def)

lemma wrap_i64_be_bytes [wire_simps]:
  "in_i64 x \<Longrightarrow> wrap_i64 (int (be_nat (be_bytes 8 x))) = x"
  using wrap_mod [of 64 x] by (simp add: int_be_nat_be_bytes wrap_i64_id)

lemma wrap_i32_be_bytes [wire_simps]:
  "in_i32 x \<Longrightarrow> wrap_i32 (int (be_nat (be_bytes 4 x))) = x"
  using wrap_mod [of 32 x] by (simp add: int_be_nat_be_bytes wrap_i32_id)

section \<open>Identifiers\<close>

type_synonym uuid = "128 word"

definition nil_uuid :: uuid where
  "nil_uuid = 0"

section \<open>Decimal numbers\<close>

text \<open>What \<open>format!("{n}")\<close> writes for an unsigned integer.\<close>

fun show_nat :: "nat \<Rightarrow> string" where
  "show_nat n =
     (if n < 10 then [char_of (48 + n)] else show_nat (n div 10) @ [char_of (48 + n mod 10)])"

declare show_nat.simps [simp del]

definition parse_nat :: "string \<Rightarrow> nat" where
  "parse_nat s = foldl (\<lambda>a c. a * 10 + (of_char c - 48)) 0 s"

lemma parse_show_nat [simp]: "parse_nat (show_nat n) = n"
proof (induction n rule: show_nat.induct)
  case (1 n)
  then show ?case by (subst show_nat.simps) (auto simp: parse_nat_def)
qed

lemma show_nat_digits: "c \<in> set (show_nat n) \<Longrightarrow> 48 \<le> (of_char c :: nat) \<and> (of_char c :: nat) \<le> 57"
proof (induction n rule: show_nat.induct)
  case (1 n)
  show ?case
  proof (cases "n < 10")
    case True
    with "1.prems" show ?thesis by (subst (asm) show_nat.simps) auto
  next
    case False
    with "1.prems" "1.IH" show ?thesis by (subst (asm) show_nat.simps) auto
  qed
qed

section \<open>Hash maps\<close>

text \<open>
  A \<open>HashMap\<close> is an association list with distinct keys. Rust leaves the iteration order of a
  hash map open; here it is the order of the list, so a statement about every such list is a
  statement about every iteration order.
\<close>

type_synonym ('k, 'v) hash_map = "('k \<times> 'v) list"

definition hm_ok :: "('k, 'v) hash_map \<Rightarrow> bool" where
  "hm_ok m \<longleftrightarrow> distinct (map fst m)"

abbreviation keys :: "('k, 'v) hash_map \<Rightarrow> 'k set" where
  "keys m \<equiv> fst ` set m"

lemma map_of_eq_None_keys: "map_of m k = None \<longleftrightarrow> k \<notin> keys m"
  by (simp add: map_of_eq_None_iff)

lemma map_of_Some_keys: "map_of m k = Some v \<Longrightarrow> k \<in> keys m"
  by (force dest: map_of_SomeD)

lemma hm_ok_Nil [simp]: "hm_ok []"
  by (simp add: hm_ok_def)

lemma hm_ok_update [simp]: "hm_ok m \<Longrightarrow> hm_ok (AList.update k v m)"
  by (simp add: hm_ok_def distinct_update)

lemma keys_update [simp]: "keys (AList.update k v m) = insert k (keys m)"
  by (induction m) auto

lemma hm_ok_delete [simp]: "hm_ok m \<Longrightarrow> hm_ok (AList.delete k m)"
  by (simp add: hm_ok_def distinct_delete)

lemma map_fst_map_entry [simp]: "map fst (AList.map_entry k f m) = map fst m"
  by (induction m) auto

lemma hm_ok_map_entry [simp]: "hm_ok (AList.map_entry k f m) = hm_ok m"
  by (simp add: hm_ok_def)

lemma map_of_map_entry:
  "map_of (AList.map_entry k f m) x = (if x = k then map_option f (map_of m k) else map_of m x)"
  by (induction m) auto

lemma map_of_map_keyed:
  "map_of (map (\<lambda>(k, v). (k, f k v)) m) x = map_option (f x) (map_of m x)"
  by (induction m) auto

section \<open>Ordered maps\<close>

text \<open>A \<open>BTreeMap\<close> is an association list with strictly increasing keys.\<close>

type_synonym ('k, 'v) btree_map = "('k \<times> 'v) list"

fun bt_insert :: "'k::linorder \<Rightarrow> 'v \<Rightarrow> ('k, 'v) btree_map \<Rightarrow> ('k, 'v) btree_map" where
  "bt_insert k v [] = [(k, v)]"
| "bt_insert k v ((k', v') # m) =
     (if k = k' then (k, v) # m
      else if k < k' then (k, v) # (k', v') # m
      else (k', v') # bt_insert k v m)"

definition bt_ok :: "('k::linorder, 'v) btree_map \<Rightarrow> bool" where
  "bt_ok m \<longleftrightarrow> sorted_wrt (<) (map fst m)"

lemma map_of_bt_insert [simp]: "map_of (bt_insert k v m) = (map_of m)(k \<mapsto> v)"
  by (induction m) auto

lemma keys_bt_insert [simp]: "keys (bt_insert k v m) = insert k (keys m)"
  by (simp flip: dom_map_of_conv_image_fst)

lemma bt_ok_insert [simp]: "bt_ok m \<Longrightarrow> bt_ok (bt_insert k v m)"
proof (induction m)
  case Nil
  then show ?case by (simp add: bt_ok_def)
next
  case (Cons p m)
  obtain k' v' where p: "p = (k', v')" by (cases p)
  from Cons show ?case
    using keys_bt_insert [of k v m] by (fastforce simp: p bt_ok_def)
qed

lemma bt_ok_distinct: "bt_ok m \<Longrightarrow> distinct (map fst m)"
  by (simp add: bt_ok_def strict_sorted_iff)

section \<open>Sequences of operations\<close>

text \<open>
  The contract every component keeps with its callers: an invariant that each operation
  preserves. Whatever a client does with the operations, in whatever order, the invariant holds
  afterwards, and with it every fact that follows from the invariant.
\<close>

locale guarded_ops =
  fixes exec :: "'op \<Rightarrow> 's \<Rightarrow> 's"
    and inv :: "'s \<Rightarrow> bool"
  assumes exec_inv: "inv s \<Longrightarrow> inv (exec op s)"
begin

lemma run_inv: "inv s \<Longrightarrow> inv (fold exec ops s)"
  by (induction ops arbitrary: s) (simp_all add: exec_inv)

lemma run_split_inv:
  assumes "inv s"
  shows "inv (fold exec before s) \<and> inv (fold exec (before @ after) s)"
  using run_inv [OF assms] by blast

end

text \<open>A component whose entries, once made, are found for good.\<close>

locale registry = guarded_ops exec inv
  for exec :: "'op \<Rightarrow> 's \<Rightarrow> 's" and inv :: "'s \<Rightarrow> bool" +
  fixes find :: "'s \<Rightarrow> 'k \<Rightarrow> 'v option"
  assumes find_kept: "inv s \<Longrightarrow> find s k = Some v \<Longrightarrow> find (exec op s) k = Some v"
begin

lemma run_find: "inv s \<Longrightarrow> find s k = Some v \<Longrightarrow> find (fold exec ops s) k = Some v"
  by (induction ops arbitrary: s) (simp_all add: exec_inv find_kept)

end

end
