(* ===== verification/Api_Keys.thy ===== *)
theory Api_Keys
  imports Prelude
begin

text \<open>
  The API keys of the Kafka protocol (\<open>ApiKey\<close> in \<open>src/crates/kafka-protocol/src/messages.rs\<close>). A key is its
  discriminant; the tables hold, for each of them, its name, the schema versions it is valid for
  and the versions of the headers its requests and responses carry.
\<close>

type_synonym api_key = i16

text \<open>\<open>if version >= n { a } else { b }\<close>, or a constant.\<close>

datatype header_rule = Always i16 | FromVersion i16 i16 i16

fun header_version :: "header_rule \<Rightarrow> i16 \<Rightarrow> i16" where
  "header_version (Always h) version = h"
| "header_version (FromVersion n a b) version = (if version \<ge> n then a else b)"

definition api_key_table :: "(api_key \<times> string) list" where
  "api_key_table =
     [(0, ''Produce''), (1, ''Fetch''),
      (2, ''ListOffsets''), (3, ''Metadata''),
      (8, ''OffsetCommit''), (9, ''OffsetFetch''),
      (10, ''FindCoordinator''), (11, ''JoinGroup''),
      (12, ''Heartbeat''), (13, ''LeaveGroup''),
      (14, ''SyncGroup''), (15, ''DescribeGroups''),
      (16, ''ListGroups''), (17, ''SaslHandshake''),
      (18, ''ApiVersions''), (19, ''CreateTopics''),
      (20, ''DeleteTopics''), (21, ''DeleteRecords''),
      (22, ''InitProducerId''), (23, ''OffsetForLeaderEpoch''),
      (24, ''AddPartitionsToTxn''), (25, ''AddOffsetsToTxn''),
      (26, ''EndTxn''), (27, ''WriteTxnMarkers''),
      (28, ''TxnOffsetCommit''), (29, ''DescribeAcls''),
      (30, ''CreateAcls''), (31, ''DeleteAcls''),
      (32, ''DescribeConfigs''), (33, ''AlterConfigs''),
      (34, ''AlterReplicaLogDirs''), (35, ''DescribeLogDirs''),
      (36, ''SaslAuthenticate''), (37, ''CreatePartitions''),
      (38, ''CreateDelegationToken''), (39, ''RenewDelegationToken''),
      (40, ''ExpireDelegationToken''), (41, ''DescribeDelegationToken''),
      (42, ''DeleteGroups''), (43, ''ElectLeaders''),
      (44, ''IncrementalAlterConfigs''), (45, ''AlterPartitionReassignments''),
      (46, ''ListPartitionReassignments''), (47, ''OffsetDelete''),
      (48, ''DescribeClientQuotas''), (49, ''AlterClientQuotas''),
      (50, ''DescribeUserScramCredentials''), (51, ''AlterUserScramCredentials''),
      (52, ''Vote''), (53, ''BeginQuorumEpoch''),
      (54, ''EndQuorumEpoch''), (55, ''DescribeQuorum''),
      (56, ''AlterPartition''), (57, ''UpdateFeatures''),
      (58, ''Envelope''), (59, ''FetchSnapshot''),
      (60, ''DescribeCluster''), (61, ''DescribeProducers''),
      (62, ''BrokerRegistration''), (63, ''BrokerHeartbeat''),
      (64, ''UnregisterBroker''), (65, ''DescribeTransactions''),
      (66, ''ListTransactions''), (67, ''AllocateProducerIds''),
      (68, ''ConsumerGroupHeartbeat''), (69, ''ConsumerGroupDescribe''),
      (70, ''ControllerRegistration''), (71, ''GetTelemetrySubscriptions''),
      (72, ''PushTelemetry''), (73, ''AssignReplicasToDirs''),
      (74, ''ListConfigResources''), (75, ''DescribeTopicPartitions''),
      (76, ''ShareGroupHeartbeat''), (77, ''ShareGroupDescribe''),
      (78, ''ShareFetch''), (79, ''ShareAcknowledge''),
      (80, ''AddRaftVoter''), (81, ''RemoveRaftVoter''),
      (82, ''UpdateRaftVoter''), (83, ''InitializeShareGroupState''),
      (84, ''ReadShareGroupState''), (85, ''WriteShareGroupState''),
      (86, ''DeleteShareGroupState''), (87, ''ReadShareGroupStateSummary''),
      (88, ''StreamsGroupHeartbeat''), (89, ''StreamsGroupDescribe''),
      (90, ''DescribeShareGroupOffsets''), (91, ''AlterShareGroupOffsets''),
      (92, ''DeleteShareGroupOffsets'')]"

definition valid_version_table :: "(api_key \<times> i16 \<times> i16) list" where
  "valid_version_table =
     [(0, 3, 13), (1, 4, 18), (2, 1, 11), (3, 0, 13), (8, 2, 10),
      (9, 1, 10), (10, 0, 6), (11, 0, 9), (12, 0, 4), (13, 0, 5),
      (14, 0, 5), (15, 0, 6), (16, 0, 5), (17, 0, 1), (18, 0, 4),
      (19, 2, 7), (20, 1, 6), (21, 0, 2), (22, 0, 6), (23, 2, 4),
      (24, 0, 5), (25, 0, 4), (26, 0, 5), (27, 1, 2), (28, 0, 5),
      (29, 1, 3), (30, 1, 3), (31, 1, 3), (32, 1, 4), (33, 0, 2),
      (34, 1, 2), (35, 1, 5), (36, 0, 2), (37, 0, 3), (38, 1, 3),
      (39, 1, 2), (40, 1, 2), (41, 1, 3), (42, 0, 2), (43, 0, 2),
      (44, 0, 1), (45, 0, 1), (46, 0, 0), (47, 0, 0), (48, 0, 1),
      (49, 0, 1), (50, 0, 0), (51, 0, 0), (52, 0, 2), (53, 0, 1),
      (54, 0, 1), (55, 0, 2), (56, 2, 3), (57, 0, 2), (58, 0, 0),
      (59, 0, 1), (60, 0, 2), (61, 0, 0), (62, 0, 4), (63, 0, 2),
      (64, 0, 0), (65, 0, 0), (66, 0, 2), (67, 0, 0), (68, 0, 1),
      (69, 0, 1), (70, 0, 0), (71, 0, 0), (72, 0, 0), (73, 0, 0),
      (74, 0, 1), (75, 0, 0), (76, 1, 1), (77, 1, 1), (78, 1, 2),
      (79, 1, 2), (80, 0, 1), (81, 0, 0), (82, 0, 0), (83, 0, 0),
      (84, 0, 0), (85, 0, 1), (86, 0, 0), (87, 0, 1), (88, 0, 0),
      (89, 0, 0), (90, 0, 1), (91, 0, 0), (92, 0, 0)]"

definition request_header_table :: "(api_key \<times> header_rule) list" where
  "request_header_table =
     [(0, FromVersion 9 2 1), (1, FromVersion 12 2 1), (2, FromVersion 6 2 1),
      (3, FromVersion 9 2 1), (8, FromVersion 8 2 1), (9, FromVersion 6 2 1),
      (10, FromVersion 3 2 1), (11, FromVersion 6 2 1), (12, FromVersion 4 2 1),
      (13, FromVersion 4 2 1), (14, FromVersion 4 2 1), (15, FromVersion 5 2 1),
      (16, FromVersion 3 2 1), (17, Always 1), (18, FromVersion 3 2 1),
      (19, FromVersion 5 2 1), (20, FromVersion 4 2 1), (21, FromVersion 2 2 1),
      (22, FromVersion 2 2 1), (23, FromVersion 4 2 1), (24, FromVersion 3 2 1),
      (25, FromVersion 3 2 1), (26, FromVersion 3 2 1), (27, Always 2),
      (28, FromVersion 3 2 1), (29, FromVersion 2 2 1), (30, FromVersion 2 2 1),
      (31, FromVersion 2 2 1), (32, FromVersion 4 2 1), (33, FromVersion 2 2 1),
      (34, FromVersion 2 2 1), (35, FromVersion 2 2 1), (36, FromVersion 2 2 1),
      (37, FromVersion 2 2 1), (38, FromVersion 2 2 1), (39, FromVersion 2 2 1),
      (40, FromVersion 2 2 1), (41, FromVersion 2 2 1), (42, FromVersion 2 2 1),
      (43, FromVersion 2 2 1), (44, FromVersion 1 2 1), (45, Always 2),
      (46, Always 2), (47, Always 1), (48, FromVersion 1 2 1),
      (49, FromVersion 1 2 1), (50, Always 2), (51, Always 2),
      (52, Always 2), (53, FromVersion 1 2 1), (54, FromVersion 1 2 1),
      (55, Always 2), (56, Always 2), (57, Always 2),
      (58, Always 2), (59, Always 2), (60, Always 2),
      (61, Always 2), (62, Always 2), (63, Always 2),
      (64, Always 2), (65, Always 2), (66, Always 2),
      (67, Always 2), (68, Always 2), (69, Always 2),
      (70, Always 2), (71, Always 2), (72, Always 2),
      (73, Always 2), (74, Always 2), (75, Always 2),
      (76, Always 2), (77, Always 2), (78, Always 2),
      (79, Always 2), (80, Always 2), (81, Always 2),
      (82, Always 2), (83, Always 2), (84, Always 2),
      (85, Always 2), (86, Always 2), (87, Always 2),
      (88, Always 2), (89, Always 2), (90, Always 2),
      (91, Always 2), (92, Always 2)]"

definition response_header_table :: "(api_key \<times> header_rule) list" where
  "response_header_table =
     [(0, FromVersion 9 1 0), (1, FromVersion 12 1 0), (2, FromVersion 6 1 0),
      (3, FromVersion 9 1 0), (8, FromVersion 8 1 0), (9, FromVersion 6 1 0),
      (10, FromVersion 3 1 0), (11, FromVersion 6 1 0), (12, FromVersion 4 1 0),
      (13, FromVersion 4 1 0), (14, FromVersion 4 1 0), (15, FromVersion 5 1 0),
      (16, FromVersion 3 1 0), (17, Always 0), (18, Always 0),
      (19, FromVersion 5 1 0), (20, FromVersion 4 1 0), (21, FromVersion 2 1 0),
      (22, FromVersion 2 1 0), (23, FromVersion 4 1 0), (24, FromVersion 3 1 0),
      (25, FromVersion 3 1 0), (26, FromVersion 3 1 0), (27, Always 1),
      (28, FromVersion 3 1 0), (29, FromVersion 2 1 0), (30, FromVersion 2 1 0),
      (31, FromVersion 2 1 0), (32, FromVersion 4 1 0), (33, FromVersion 2 1 0),
      (34, FromVersion 2 1 0), (35, FromVersion 2 1 0), (36, FromVersion 2 1 0),
      (37, FromVersion 2 1 0), (38, FromVersion 2 1 0), (39, FromVersion 2 1 0),
      (40, FromVersion 2 1 0), (41, FromVersion 2 1 0), (42, FromVersion 2 1 0),
      (43, FromVersion 2 1 0), (44, FromVersion 1 1 0), (45, Always 1),
      (46, Always 1), (47, Always 0), (48, FromVersion 1 1 0),
      (49, FromVersion 1 1 0), (50, Always 1), (51, Always 1),
      (52, Always 1), (53, FromVersion 1 1 0), (54, FromVersion 1 1 0),
      (55, Always 1), (56, Always 1), (57, Always 1),
      (58, Always 1), (59, Always 1), (60, Always 1),
      (61, Always 1), (62, Always 1), (63, Always 1),
      (64, Always 1), (65, Always 1), (66, Always 1),
      (67, Always 1), (68, Always 1), (69, Always 1),
      (70, Always 1), (71, Always 1), (72, Always 1),
      (73, Always 1), (74, Always 1), (75, Always 1),
      (76, Always 1), (77, Always 1), (78, Always 1),
      (79, Always 1), (80, Always 1), (81, Always 1),
      (82, Always 1), (83, Always 1), (84, Always 1),
      (85, Always 1), (86, Always 1), (87, Always 1),
      (88, Always 1), (89, Always 1), (90, Always 1),
      (91, Always 1), (92, Always 1)]"

section \<open>Lookups\<close>

text \<open>\<open>ApiKey::try_from\<close>. The other functions are called on keys of the enumeration only.\<close>

definition api_key_try_from :: "i16 \<Rightarrow> api_key option" where
  "api_key_try_from v = (if list_ex (\<lambda>(k, _). k = v) api_key_table then Some v else None)"

definition valid_versions :: "api_key \<Rightarrow> i16 \<times> i16" where
  "valid_versions k = (case map_of valid_version_table k of Some r \<Rightarrow> r | None \<Rightarrow> (0, - 1))"

definition request_header_version :: "api_key \<Rightarrow> i16 \<Rightarrow> i16" where
  "request_header_version k version =
     (case map_of request_header_table k of Some r \<Rightarrow> header_version r version | None \<Rightarrow> 0)"

definition response_header_version :: "api_key \<Rightarrow> i16 \<Rightarrow> i16" where
  "response_header_version k version =
     (case map_of response_header_table k of Some r \<Rightarrow> header_version r version | None \<Rightarrow> 0)"

abbreviation Produce_key :: api_key where "Produce_key \<equiv> 0"
abbreviation Fetch_key :: api_key where "Fetch_key \<equiv> 1"
abbreviation ListOffsets_key :: api_key where "ListOffsets_key \<equiv> 2"
abbreviation Metadata_key :: api_key where "Metadata_key \<equiv> 3"
abbreviation OffsetCommit_key :: api_key where "OffsetCommit_key \<equiv> 8"
abbreviation OffsetFetch_key :: api_key where "OffsetFetch_key \<equiv> 9"
abbreviation FindCoordinator_key :: api_key where "FindCoordinator_key \<equiv> 10"
abbreviation JoinGroup_key :: api_key where "JoinGroup_key \<equiv> 11"
abbreviation Heartbeat_key :: api_key where "Heartbeat_key \<equiv> 12"
abbreviation LeaveGroup_key :: api_key where "LeaveGroup_key \<equiv> 13"
abbreviation SyncGroup_key :: api_key where "SyncGroup_key \<equiv> 14"
abbreviation DescribeGroups_key :: api_key where "DescribeGroups_key \<equiv> 15"
abbreviation ListGroups_key :: api_key where "ListGroups_key \<equiv> 16"
abbreviation ApiVersions_key :: api_key where "ApiVersions_key \<equiv> 18"
abbreviation CreateTopics_key :: api_key where "CreateTopics_key \<equiv> 19"
abbreviation InitProducerId_key :: api_key where "InitProducerId_key \<equiv> 22"
abbreviation DescribeConfigs_key :: api_key where "DescribeConfigs_key \<equiv> 32"
abbreviation DescribeCluster_key :: api_key where "DescribeCluster_key \<equiv> 60"
abbreviation DescribeTopicPartitions_key :: api_key where "DescribeTopicPartitions_key \<equiv> 75"

section \<open>The tables agree\<close>

lemma table_keys:
  "map fst valid_version_table = map fst api_key_table"
  "map fst request_header_table = map fst api_key_table"
  "map fst response_header_table = map fst api_key_table"
  by code_simp+

lemma known_key_in:
  assumes "api_key_try_from v = Some k" and "map fst t = map fst api_key_table"
  shows "k = v \<and> (\<exists>r. map_of t k = Some r \<and> (k, r) \<in> set t)"
proof -
  have "k = v" "k \<in> fst ` set api_key_table"
    using assms(1) by (force simp: api_key_try_from_def list_ex_iff split: if_splits)+
  moreover have "fst ` set t = fst ` set api_key_table"
    using assms(2) by (metis list.set_map)
  ultimately have "map_of t k \<noteq> None" by (simp add: map_of_eq_None_iff)
  then obtain r where "map_of t k = Some r" by blast
  with \<open>k = v\<close> show ?thesis by (auto dest: map_of_SomeD)
qed

definition header_range :: "i16 \<Rightarrow> i16 \<Rightarrow> header_rule \<Rightarrow> bool" where
  "header_range lo hi r \<longleftrightarrow>
     (case r of Always h \<Rightarrow> lo \<le> h \<and> h \<le> hi
      | FromVersion n a b \<Rightarrow> lo \<le> a \<and> a \<le> hi \<and> lo \<le> b \<and> b \<le> hi)"

lemma header_range_version: "header_range lo hi r \<Longrightarrow> lo \<le> header_version r v \<and> header_version r v \<le> hi"
  by (cases r) (simp_all add: header_range_def)

lemma header_tables_in_range:
  "list_all (header_range 1 2 \<circ> snd) request_header_table"
  "list_all (header_range 0 1 \<circ> snd) response_header_table"
  by code_simp+

text \<open>Every key has request headers of version 1 or 2 and response headers of version 0 or 1.\<close>

lemma header_versions:
  assumes "api_key_try_from v = Some k"
  shows "request_header_version k version \<in> {1, 2}" and "response_header_version k version \<in> {0, 1}"
proof -
  from known_key_in [OF assms table_keys(2)] obtain r where
    r: "map_of request_header_table k = Some r" "(k, r) \<in> set request_header_table" by blast
  have "header_range 1 2 r" using header_tables_in_range(1) r(2) by (auto simp: list_all_iff)
  from header_range_version [OF this, of version] r(1)
  show "request_header_version k version \<in> {1, 2}" by (auto simp: request_header_version_def)
  from known_key_in [OF assms table_keys(3)] obtain r where
    r: "map_of response_header_table k = Some r" "(k, r) \<in> set response_header_table" by blast
  have "header_range 0 1 r" using header_tables_in_range(2) r(2) by (auto simp: list_all_iff)
  from header_range_version [OF this, of version] r(1)
  show "response_header_version k version \<in> {0, 1}" by (auto simp: response_header_version_def)
qed

end
