(* ===== verification/Messages_Cluster.thy ===== *)
theory Messages_Cluster
  imports Prelude
begin

text \<open>
  Messages about topics and the cluster: metadata, topic creation and description, cluster and
  configuration description, coordinator lookup and version negotiation
  (\<open>src/crates/kafka-protocol/src/messages/\<close>). Every message is a record with the fields of the Rust
  structure, and its \<open>_default\<close> is the value of \<open>Default::default()\<close>; a chain of \<open>with_\<close> calls is a
  record update. Strings are sequences of UTF-8 bytes; the identifier newtypes are their contents.
\<close>

section \<open>Metadata\<close>

record metadata_request_topic =
  mrqt_topic_id :: uuid
  mrqt_name :: "string option"
  mrqt_unknown_tagged_fields :: "(i32, bytes) btree_map"

definition metadata_request_topic_default :: metadata_request_topic where
  "metadata_request_topic_default =
     \<lparr>mrqt_topic_id = nil_uuid, mrqt_name = Some [], mrqt_unknown_tagged_fields = []\<rparr>"

record metadata_request =
  mrq_topics :: "metadata_request_topic list option"
  mrq_allow_auto_topic_creation :: bool
  mrq_include_cluster_authorized_operations :: bool
  mrq_include_topic_authorized_operations :: bool
  mrq_unknown_tagged_fields :: "(i32, bytes) btree_map"

definition metadata_request_default :: metadata_request where
  "metadata_request_default =
     \<lparr>mrq_topics = Some [], mrq_allow_auto_topic_creation = True,
      mrq_include_cluster_authorized_operations = False, mrq_include_topic_authorized_operations = False,
      mrq_unknown_tagged_fields = []\<rparr>"

record metadata_response_broker =
  mrsb_node_id :: i32
  mrsb_host :: string
  mrsb_port :: i32
  mrsb_rack :: "string option"
  mrsb_unknown_tagged_fields :: "(i32, bytes) btree_map"

definition metadata_response_broker_default :: metadata_response_broker where
  "metadata_response_broker_default =
     \<lparr>mrsb_node_id = 0, mrsb_host = [], mrsb_port = 0, mrsb_rack = None,
      mrsb_unknown_tagged_fields = []\<rparr>"

record metadata_response_partition =
  mrsp_error_code :: i16
  mrsp_partition_index :: i32
  mrsp_leader_id :: i32
  mrsp_leader_epoch :: i32
  mrsp_replica_nodes :: "i32 list"
  mrsp_isr_nodes :: "i32 list"
  mrsp_offline_replicas :: "i32 list"
  mrsp_unknown_tagged_fields :: "(i32, bytes) btree_map"

definition metadata_response_partition_default :: metadata_response_partition where
  "metadata_response_partition_default =
     \<lparr>mrsp_error_code = 0, mrsp_partition_index = 0, mrsp_leader_id = 0, mrsp_leader_epoch = - 1,
      mrsp_replica_nodes = [], mrsp_isr_nodes = [], mrsp_offline_replicas = [],
      mrsp_unknown_tagged_fields = []\<rparr>"

record metadata_response_topic =
  mrst_error_code :: i16
  mrst_name :: "string option"
  mrst_topic_id :: uuid
  mrst_is_internal :: bool
  mrst_partitions :: "metadata_response_partition list"
  mrst_topic_authorized_operations :: i32
  mrst_unknown_tagged_fields :: "(i32, bytes) btree_map"

definition metadata_response_topic_default :: metadata_response_topic where
  "metadata_response_topic_default =
     \<lparr>mrst_error_code = 0, mrst_name = Some [], mrst_topic_id = nil_uuid,
      mrst_is_internal = False, mrst_partitions = [], mrst_topic_authorized_operations = - 2147483648,
      mrst_unknown_tagged_fields = []\<rparr>"

record metadata_response =
  mrs_throttle_time_ms :: i32
  mrs_brokers :: "metadata_response_broker list"
  mrs_cluster_id :: "string option"
  mrs_controller_id :: i32
  mrs_topics :: "metadata_response_topic list"
  mrs_cluster_authorized_operations :: i32
  mrs_error_code :: i16
  mrs_unknown_tagged_fields :: "(i32, bytes) btree_map"

definition metadata_response_default :: metadata_response where
  "metadata_response_default =
     \<lparr>mrs_throttle_time_ms = 0, mrs_brokers = [], mrs_cluster_id = None, mrs_controller_id = - 1,
      mrs_topics = [], mrs_cluster_authorized_operations = - 2147483648, mrs_error_code = 0,
      mrs_unknown_tagged_fields = []\<rparr>"

section \<open>Create topics\<close>

record creatable_replica_assignment =
  cra_partition_index :: i32
  cra_broker_ids :: "i32 list"
  cra_unknown_tagged_fields :: "(i32, bytes) btree_map"

definition creatable_replica_assignment_default :: creatable_replica_assignment where
  "creatable_replica_assignment_default =
     \<lparr>cra_partition_index = 0, cra_broker_ids = [], cra_unknown_tagged_fields = []\<rparr>"

record creatable_topic_config =
  ctc_name :: string
  ctc_value :: "string option"
  ctc_unknown_tagged_fields :: "(i32, bytes) btree_map"

definition creatable_topic_config_default :: creatable_topic_config where
  "creatable_topic_config_default =
     \<lparr>ctc_name = [], ctc_value = Some [], ctc_unknown_tagged_fields = []\<rparr>"

record creatable_topic =
  ctopic_name :: string
  ctopic_num_partitions :: i32
  ctopic_replication_factor :: i16
  ctopic_assignments :: "creatable_replica_assignment list"
  ctopic_configs :: "creatable_topic_config list"
  ctopic_unknown_tagged_fields :: "(i32, bytes) btree_map"

definition creatable_topic_default :: creatable_topic where
  "creatable_topic_default =
     \<lparr>ctopic_name = [], ctopic_num_partitions = 0, ctopic_replication_factor = 0,
      ctopic_assignments = [], ctopic_configs = [], ctopic_unknown_tagged_fields = []\<rparr>"

record create_topics_request =
  ctrq_topics :: "creatable_topic list"
  ctrq_timeout_ms :: i32
  ctrq_validate_only :: bool
  ctrq_unknown_tagged_fields :: "(i32, bytes) btree_map"

definition create_topics_request_default :: create_topics_request where
  "create_topics_request_default =
     \<lparr>ctrq_topics = [], ctrq_timeout_ms = 60000, ctrq_validate_only = False,
      ctrq_unknown_tagged_fields = []\<rparr>"

record creatable_topic_configs =
  ctcs_name :: string
  ctcs_value :: "string option"
  ctcs_read_only :: bool
  ctcs_config_source :: i8
  ctcs_is_sensitive :: bool
  ctcs_unknown_tagged_fields :: "(i32, bytes) btree_map"

definition creatable_topic_configs_default :: creatable_topic_configs where
  "creatable_topic_configs_default =
     \<lparr>ctcs_name = [], ctcs_value = Some [], ctcs_read_only = False, ctcs_config_source = - 1,
      ctcs_is_sensitive = False, ctcs_unknown_tagged_fields = []\<rparr>"

record creatable_topic_result =
  ctr_name :: string
  ctr_topic_id :: uuid
  ctr_error_code :: i16
  ctr_error_message :: "string option"
  ctr_topic_config_error_code :: i16
  ctr_num_partitions :: i32
  ctr_replication_factor :: i16
  ctr_configs :: "creatable_topic_configs list option"
  ctr_unknown_tagged_fields :: "(i32, bytes) btree_map"

definition creatable_topic_result_default :: creatable_topic_result where
  "creatable_topic_result_default =
     \<lparr>ctr_name = [], ctr_topic_id = nil_uuid, ctr_error_code = 0, ctr_error_message = Some [],
      ctr_topic_config_error_code = 0, ctr_num_partitions = - 1, ctr_replication_factor = - 1,
      ctr_configs = Some [], ctr_unknown_tagged_fields = []\<rparr>"

record create_topics_response =
  ctrs_throttle_time_ms :: i32
  ctrs_topics :: "creatable_topic_result list"
  ctrs_unknown_tagged_fields :: "(i32, bytes) btree_map"

definition create_topics_response_default :: create_topics_response where
  "create_topics_response_default =
     \<lparr>ctrs_throttle_time_ms = 0, ctrs_topics = [], ctrs_unknown_tagged_fields = []\<rparr>"

section \<open>Describe topic partitions\<close>

record request_cursor =
  qc_topic_name :: string
  qc_partition_index :: i32
  qc_unknown_tagged_fields :: "(i32, bytes) btree_map"

definition request_cursor_default :: request_cursor where
  "request_cursor_default =
     \<lparr>qc_topic_name = [], qc_partition_index = 0, qc_unknown_tagged_fields = []\<rparr>"

record topic_request =
  trq_name :: string
  trq_unknown_tagged_fields :: "(i32, bytes) btree_map"

definition topic_request_default :: topic_request where
  "topic_request_default =
     \<lparr>trq_name = [], trq_unknown_tagged_fields = []\<rparr>"

record describe_topic_partitions_request =
  dtprq_topics :: "topic_request list"
  dtprq_response_partition_limit :: i32
  dtprq_cursor :: "request_cursor option"
  dtprq_unknown_tagged_fields :: "(i32, bytes) btree_map"

definition describe_topic_partitions_request_default :: describe_topic_partitions_request where
  "describe_topic_partitions_request_default =
     \<lparr>dtprq_topics = [], dtprq_response_partition_limit = 2000, dtprq_cursor = None,
      dtprq_unknown_tagged_fields = []\<rparr>"

record response_cursor =
  sc_topic_name :: string
  sc_partition_index :: i32
  sc_unknown_tagged_fields :: "(i32, bytes) btree_map"

definition response_cursor_default :: response_cursor where
  "response_cursor_default =
     \<lparr>sc_topic_name = [], sc_partition_index = 0, sc_unknown_tagged_fields = []\<rparr>"

record describe_topic_partitions_response_partition =
  dtprsp_error_code :: i16
  dtprsp_partition_index :: i32
  dtprsp_leader_id :: i32
  dtprsp_leader_epoch :: i32
  dtprsp_replica_nodes :: "i32 list"
  dtprsp_isr_nodes :: "i32 list"
  dtprsp_eligible_leader_replicas :: "i32 list option"
  dtprsp_last_known_elr :: "i32 list option"
  dtprsp_offline_replicas :: "i32 list"
  dtprsp_unknown_tagged_fields :: "(i32, bytes) btree_map"

definition describe_topic_partitions_response_partition_default :: describe_topic_partitions_response_partition where
  "describe_topic_partitions_response_partition_default =
     \<lparr>dtprsp_error_code = 0, dtprsp_partition_index = 0, dtprsp_leader_id = 0,
      dtprsp_leader_epoch = - 1, dtprsp_replica_nodes = [], dtprsp_isr_nodes = [],
      dtprsp_eligible_leader_replicas = None, dtprsp_last_known_elr = None, dtprsp_offline_replicas = [],
      dtprsp_unknown_tagged_fields = []\<rparr>"

record describe_topic_partitions_response_topic =
  dtprst_error_code :: i16
  dtprst_name :: "string option"
  dtprst_topic_id :: uuid
  dtprst_is_internal :: bool
  dtprst_partitions :: "describe_topic_partitions_response_partition list"
  dtprst_topic_authorized_operations :: i32
  dtprst_unknown_tagged_fields :: "(i32, bytes) btree_map"

definition describe_topic_partitions_response_topic_default :: describe_topic_partitions_response_topic where
  "describe_topic_partitions_response_topic_default =
     \<lparr>dtprst_error_code = 0, dtprst_name = Some [], dtprst_topic_id = nil_uuid,
      dtprst_is_internal = False, dtprst_partitions = [],
      dtprst_topic_authorized_operations = - 2147483648, dtprst_unknown_tagged_fields = []\<rparr>"

record describe_topic_partitions_response =
  dtprs_throttle_time_ms :: i32
  dtprs_topics :: "describe_topic_partitions_response_topic list"
  dtprs_next_cursor :: "response_cursor option"
  dtprs_unknown_tagged_fields :: "(i32, bytes) btree_map"

definition describe_topic_partitions_response_default :: describe_topic_partitions_response where
  "describe_topic_partitions_response_default =
     \<lparr>dtprs_throttle_time_ms = 0, dtprs_topics = [], dtprs_next_cursor = None,
      dtprs_unknown_tagged_fields = []\<rparr>"

section \<open>Describe cluster\<close>

record describe_cluster_request =
  dcrq_include_cluster_authorized_operations :: bool
  dcrq_endpoint_type :: i8
  dcrq_include_fenced_brokers :: bool
  dcrq_unknown_tagged_fields :: "(i32, bytes) btree_map"

definition describe_cluster_request_default :: describe_cluster_request where
  "describe_cluster_request_default =
     \<lparr>dcrq_include_cluster_authorized_operations = False, dcrq_endpoint_type = 1,
      dcrq_include_fenced_brokers = False, dcrq_unknown_tagged_fields = []\<rparr>"

record describe_cluster_broker =
  dcb_broker_id :: i32
  dcb_host :: string
  dcb_port :: i32
  dcb_rack :: "string option"
  dcb_is_fenced :: bool
  dcb_unknown_tagged_fields :: "(i32, bytes) btree_map"

definition describe_cluster_broker_default :: describe_cluster_broker where
  "describe_cluster_broker_default =
     \<lparr>dcb_broker_id = 0, dcb_host = [], dcb_port = 0, dcb_rack = None, dcb_is_fenced = False,
      dcb_unknown_tagged_fields = []\<rparr>"

record describe_cluster_response =
  dcrs_throttle_time_ms :: i32
  dcrs_error_code :: i16
  dcrs_error_message :: "string option"
  dcrs_endpoint_type :: i8
  dcrs_cluster_id :: string
  dcrs_controller_id :: i32
  dcrs_brokers :: "describe_cluster_broker list"
  dcrs_cluster_authorized_operations :: i32
  dcrs_unknown_tagged_fields :: "(i32, bytes) btree_map"

definition describe_cluster_response_default :: describe_cluster_response where
  "describe_cluster_response_default =
     \<lparr>dcrs_throttle_time_ms = 0, dcrs_error_code = 0, dcrs_error_message = None,
      dcrs_endpoint_type = 1, dcrs_cluster_id = [], dcrs_controller_id = - 1, dcrs_brokers = [],
      dcrs_cluster_authorized_operations = - 2147483648, dcrs_unknown_tagged_fields = []\<rparr>"

section \<open>Describe configs\<close>

record describe_configs_resource =
  dcfr_resource_type :: i8
  dcfr_resource_name :: string
  dcfr_configuration_keys :: "string list option"
  dcfr_unknown_tagged_fields :: "(i32, bytes) btree_map"

definition describe_configs_resource_default :: describe_configs_resource where
  "describe_configs_resource_default =
     \<lparr>dcfr_resource_type = 0, dcfr_resource_name = [], dcfr_configuration_keys = Some [],
      dcfr_unknown_tagged_fields = []\<rparr>"

record describe_configs_request =
  dcfrq_resources :: "describe_configs_resource list"
  dcfrq_include_synonyms :: bool
  dcfrq_include_documentation :: bool
  dcfrq_unknown_tagged_fields :: "(i32, bytes) btree_map"

definition describe_configs_request_default :: describe_configs_request where
  "describe_configs_request_default =
     \<lparr>dcfrq_resources = [], dcfrq_include_synonyms = False, dcfrq_include_documentation = False,
      dcfrq_unknown_tagged_fields = []\<rparr>"

record describe_configs_synonym =
  dcfs_name :: string
  dcfs_value :: "string option"
  dcfs_source :: i8
  dcfs_unknown_tagged_fields :: "(i32, bytes) btree_map"

definition describe_configs_synonym_default :: describe_configs_synonym where
  "describe_configs_synonym_default =
     \<lparr>dcfs_name = [], dcfs_value = Some [], dcfs_source = 0,
      dcfs_unknown_tagged_fields = []\<rparr>"

record describe_configs_resource_result =
  dcfrr_name :: string
  dcfrr_value :: "string option"
  dcfrr_read_only :: bool
  dcfrr_config_source :: i8
  dcfrr_is_sensitive :: bool
  dcfrr_synonyms :: "describe_configs_synonym list"
  dcfrr_config_type :: i8
  dcfrr_documentation :: "string option"
  dcfrr_unknown_tagged_fields :: "(i32, bytes) btree_map"

definition describe_configs_resource_result_default :: describe_configs_resource_result where
  "describe_configs_resource_result_default =
     \<lparr>dcfrr_name = [], dcfrr_value = Some [], dcfrr_read_only = False, dcfrr_config_source = - 1,
      dcfrr_is_sensitive = False, dcfrr_synonyms = [], dcfrr_config_type = 0,
      dcfrr_documentation = Some [], dcfrr_unknown_tagged_fields = []\<rparr>"

record describe_configs_result =
  dcfres_error_code :: i16
  dcfres_error_message :: "string option"
  dcfres_resource_type :: i8
  dcfres_resource_name :: string
  dcfres_configs :: "describe_configs_resource_result list"
  dcfres_unknown_tagged_fields :: "(i32, bytes) btree_map"

definition describe_configs_result_default :: describe_configs_result where
  "describe_configs_result_default =
     \<lparr>dcfres_error_code = 0, dcfres_error_message = Some [], dcfres_resource_type = 0,
      dcfres_resource_name = [], dcfres_configs = [], dcfres_unknown_tagged_fields = []\<rparr>"

record describe_configs_response =
  dcfrs_throttle_time_ms :: i32
  dcfrs_results :: "describe_configs_result list"
  dcfrs_unknown_tagged_fields :: "(i32, bytes) btree_map"

definition describe_configs_response_default :: describe_configs_response where
  "describe_configs_response_default =
     \<lparr>dcfrs_throttle_time_ms = 0, dcfrs_results = [], dcfrs_unknown_tagged_fields = []\<rparr>"

section \<open>Find coordinator\<close>

record find_coordinator_request =
  fcrq_key :: string
  fcrq_key_type :: i8
  fcrq_coordinator_keys :: "string list"
  fcrq_unknown_tagged_fields :: "(i32, bytes) btree_map"

definition find_coordinator_request_default :: find_coordinator_request where
  "find_coordinator_request_default =
     \<lparr>fcrq_key = [], fcrq_key_type = 0, fcrq_coordinator_keys = [],
      fcrq_unknown_tagged_fields = []\<rparr>"

record coordinator =
  coord_key :: string
  coord_node_id :: i32
  coord_host :: string
  coord_port :: i32
  coord_error_code :: i16
  coord_error_message :: "string option"
  coord_unknown_tagged_fields :: "(i32, bytes) btree_map"

definition coordinator_default :: coordinator where
  "coordinator_default =
     \<lparr>coord_key = [], coord_node_id = 0, coord_host = [], coord_port = 0, coord_error_code = 0,
      coord_error_message = Some [], coord_unknown_tagged_fields = []\<rparr>"

record find_coordinator_response =
  fcrs_throttle_time_ms :: i32
  fcrs_error_code :: i16
  fcrs_error_message :: "string option"
  fcrs_node_id :: i32
  fcrs_host :: string
  fcrs_port :: i32
  fcrs_coordinators :: "coordinator list"
  fcrs_unknown_tagged_fields :: "(i32, bytes) btree_map"

definition find_coordinator_response_default :: find_coordinator_response where
  "find_coordinator_response_default =
     \<lparr>fcrs_throttle_time_ms = 0, fcrs_error_code = 0, fcrs_error_message = Some [],
      fcrs_node_id = 0, fcrs_host = [], fcrs_port = 0, fcrs_coordinators = [],
      fcrs_unknown_tagged_fields = []\<rparr>"

section \<open>Api versions\<close>

record api_versions_request =
  avrq_client_software_name :: string
  avrq_client_software_version :: string
  avrq_unknown_tagged_fields :: "(i32, bytes) btree_map"

definition api_versions_request_default :: api_versions_request where
  "api_versions_request_default =
     \<lparr>avrq_client_software_name = [], avrq_client_software_version = [],
      avrq_unknown_tagged_fields = []\<rparr>"

record api_version =
  apiv_api_key :: i16
  apiv_min_version :: i16
  apiv_max_version :: i16
  apiv_unknown_tagged_fields :: "(i32, bytes) btree_map"

definition api_version_default :: api_version where
  "api_version_default =
     \<lparr>apiv_api_key = 0, apiv_min_version = 0, apiv_max_version = 0,
      apiv_unknown_tagged_fields = []\<rparr>"

record supported_feature_key =
  sfk_name :: string
  sfk_min_version :: i16
  sfk_max_version :: i16
  sfk_unknown_tagged_fields :: "(i32, bytes) btree_map"

definition supported_feature_key_default :: supported_feature_key where
  "supported_feature_key_default =
     \<lparr>sfk_name = [], sfk_min_version = 0, sfk_max_version = 0,
      sfk_unknown_tagged_fields = []\<rparr>"

record finalized_feature_key =
  ffk_name :: string
  ffk_max_version_level :: i16
  ffk_min_version_level :: i16
  ffk_unknown_tagged_fields :: "(i32, bytes) btree_map"

definition finalized_feature_key_default :: finalized_feature_key where
  "finalized_feature_key_default =
     \<lparr>ffk_name = [], ffk_max_version_level = 0, ffk_min_version_level = 0,
      ffk_unknown_tagged_fields = []\<rparr>"

record api_versions_response =
  avrs_error_code :: i16
  avrs_api_keys :: "api_version list"
  avrs_throttle_time_ms :: i32
  avrs_supported_features :: "supported_feature_key list"
  avrs_finalized_features_epoch :: i64
  avrs_finalized_features :: "finalized_feature_key list"
  avrs_zk_migration_ready :: bool
  avrs_unknown_tagged_fields :: "(i32, bytes) btree_map"

definition api_versions_response_default :: api_versions_response where
  "api_versions_response_default =
     \<lparr>avrs_error_code = 0, avrs_api_keys = [], avrs_throttle_time_ms = 0,
      avrs_supported_features = [], avrs_finalized_features_epoch = - 1, avrs_finalized_features = [],
      avrs_zk_migration_ready = False, avrs_unknown_tagged_fields = []\<rparr>"

end
