(* ===== verification/Capabilities.thy ===== *)
theory Capabilities
  imports Api_Keys Messages_Cluster
begin

text \<open>
  The APIs the broker supports (\<open>src/src/kafka/capabilities.rs\<close>) and the ApiVersions handler that advertises them
  (\<open>api_versions.rs\<close>). Lookups use the binary search of the Rust standard library, which is
  shown to agree with a search from the front.
\<close>

section \<open>Binary search\<close>

text \<open>
  \<open>binary_search_by\<close> of a slice with keys \<open>xs\<close>: the interval of length \<open>len\<close> from \<open>base\<close> is halved
  until one element is left.
\<close>

function bsearch :: "int list \<Rightarrow> int \<Rightarrow> usize \<Rightarrow> usize \<Rightarrow> usize" where
  "bsearch xs key base len =
     (if len > 1
      then let half = len div 2; mid = base + half
           in bsearch xs key (if xs ! mid > key then base else mid) (len - half)
      else base)"
  by pat_completeness auto
termination
  by (relation "measure (\<lambda>(xs, key, base, len). len)") auto

declare bsearch.simps [simp del]

definition binary_search :: "int list \<Rightarrow> int \<Rightarrow> usize + usize" where
  "binary_search xs key =
     (if xs = [] then Inl 0
      else let base = bsearch xs key 0 (length xs)
           in if xs ! base = key then Inr base
              else Inl (base + (if xs ! base < key then 1 else 0)))"

section \<open>The capability table\<close>

record version_window =
  vw_min :: i16
  vw_max :: i16

record api_capability =
  ac_api_key :: api_key
  ac_name :: string
  ac_supported :: version_window
  ac_kafka_4_3 :: version_window
  ac_proof_scenarios :: "string list"

definition capability_supports :: "api_capability \<Rightarrow> i16 \<Rightarrow> bool" where
  "capability_supports c version \<longleftrightarrow> vw_min (ac_supported c) \<le> version \<and> version \<le> vw_max (ac_supported c)"

definition api :: "api_key \<Rightarrow> string \<Rightarrow> i16 \<Rightarrow> i16 \<Rightarrow> i16 \<Rightarrow> i16 \<Rightarrow> string list \<Rightarrow> api_capability" where
  "api key name lo hi kafka_lo kafka_hi scenarios =
     \<lparr>ac_api_key = key, ac_name = name, ac_supported = \<lparr>vw_min = lo, vw_max = hi\<rparr>,
      ac_kafka_4_3 = \<lparr>vw_min = kafka_lo, vw_max = kafka_hi\<rparr>, ac_proof_scenarios = scenarios\<rparr>"

definition CAPABILITIES :: "api_capability list" where
  "CAPABILITIES =
     [
      api Produce_key ''Produce'' 7 7 3 13
        [''apache-kafka-java-4.3.1'', ''confluent-kafka-2.15.0'', ''confluent-kafka-flow-2.13.2'', ''franz-go-1.21.6'', ''rskafka-0.6.0''],
      api Fetch_key ''Fetch'' 4 4 4 18
        [''apache-kafka-java-4.3.1'', ''confluent-kafka-2.15.0'', ''confluent-kafka-flow-2.13.2'', ''franz-go-1.21.6'', ''kafbat-1.5.0'', ''rskafka-0.6.0''],
      api ListOffsets_key ''ListOffsets'' 3 3 1 11
        [''apache-kafka-java-4.3.1'', ''confluent-kafka-2.15.0'', ''confluent-kafka-flow-2.13.2'', ''franz-go-1.21.6'', ''kafbat-1.5.0'', ''rskafka-0.6.0''],
      api Metadata_key ''Metadata'' 4 13 0 13
        [''apache-kafka-java-4.3.1'', ''confluent-kafka-2.15.0'', ''confluent-kafka-flow-2.13.2'', ''franz-go-1.21.6'', ''kafbat-1.5.0'', ''rskafka-0.6.0''],
      api OffsetCommit_key ''OffsetCommit'' 7 7 2 10
        [''confluent-kafka-2.15.0''],
      api OffsetFetch_key ''OffsetFetch'' 5 5 1 10
        [''confluent-kafka-2.15.0'', ''confluent-kafka-flow-2.13.2'', ''kafbat-1.5.0''],
      api FindCoordinator_key ''FindCoordinator'' 2 2 0 6
        [''confluent-kafka-2.15.0'', ''confluent-kafka-flow-2.13.2'', ''kafbat-1.5.0''],
      api JoinGroup_key ''JoinGroup'' 5 5 0 9
        [''confluent-kafka-2.15.0'', ''confluent-kafka-flow-2.13.2''],
      api Heartbeat_key ''Heartbeat'' 3 3 0 4
        [''confluent-kafka-2.15.0'', ''confluent-kafka-flow-2.13.2''],
      api LeaveGroup_key ''LeaveGroup'' 1 3 0 5
        [''confluent-kafka-2.15.0'', ''confluent-kafka-flow-2.13.2''],
      api SyncGroup_key ''SyncGroup'' 3 3 0 5
        [''confluent-kafka-2.15.0'', ''confluent-kafka-flow-2.13.2''],
      api DescribeGroups_key ''DescribeGroups'' 0 0 0 6
        [''kafbat-1.5.0''],
      api ListGroups_key ''ListGroups'' 0 0 0 5
        [''kafbat-1.5.0''],
      api ApiVersions_key ''ApiVersions'' 3 4 0 4
        [''apache-kafka-java-4.3.1'', ''confluent-kafka-2.15.0'', ''confluent-kafka-flow-2.13.2'', ''franz-go-1.21.6'', ''kafbat-1.5.0'', ''rskafka-0.6.0''],
      api CreateTopics_key ''CreateTopics'' 4 7 2 7
        [''apache-kafka-java-4.3.1'', ''confluent-kafka-2.15.0'', ''confluent-kafka-flow-2.13.2'', ''franz-go-1.21.6'', ''rskafka-0.6.0''],
      api InitProducerId_key ''InitProducerId'' 0 0 0 6
        [''apache-kafka-java-4.3.1'', ''confluent-kafka-2.15.0'', ''confluent-kafka-flow-2.13.2''],
      api DescribeConfigs_key ''DescribeConfigs'' 1 1 1 4
        [''kafbat-1.5.0''],
      api DescribeCluster_key ''DescribeCluster'' 2 2 0 2
        [''apache-kafka-java-4.3.1''],
      api DescribeTopicPartitions_key ''DescribeTopicPartitions'' 0 0 0 0
        [''apache-kafka-java-4.3.1'']]"

definition capability :: "api_key \<Rightarrow> api_capability option" where
  "capability key =
     (case binary_search (map ac_api_key CAPABILITIES) key of
        Inl _ \<Rightarrow> None
      | Inr index \<Rightarrow> Some (CAPABILITIES ! index))"

definition api_versions_respond :: api_versions_response where
  "api_versions_respond =
     api_versions_response_default
       \<lparr>avrs_api_keys :=
          map (\<lambda>c. api_version_default
                 \<lparr>apiv_api_key := ac_api_key c, apiv_min_version := vw_min (ac_supported c),
                  apiv_max_version := vw_max (ac_supported c)\<rparr>) CAPABILITIES\<rparr>"

section \<open>The search is exact\<close>

lemma bsearch_step:
  "bsearch xs key base len =
     (if len > 1 then bsearch xs key (if xs ! (base + len div 2) > key then base else base + len div 2) (len - len div 2)
      else base)"
  by (subst bsearch.simps) (simp add: Let_def)

lemma bsearch_range: "0 < len \<Longrightarrow> base \<le> bsearch xs key base len \<and> bsearch xs key base len < base + len"
proof (induction len arbitrary: base rule: less_induct)
  case (less len)
  show ?case
  proof (cases "len > 1")
    case True
    let ?b = "if xs ! (base + len div 2) > key then base else base + len div 2"
    have "?b \<le> bsearch xs key ?b (len - len div 2)" "bsearch xs key ?b (len - len div 2) < ?b + (len - len div 2)"
      using less.IH [of "len - len div 2" ?b] True by simp_all
    moreover have "base \<le> ?b" "?b + (len - len div 2) \<le> base + len" by simp_all
    moreover have "bsearch xs key base len = bsearch xs key ?b (len - len div 2)"
      using bsearch_step [of xs key base len] True by (simp only: if_True)
    ultimately show ?thesis by linarith
  next
    case False
    with less.prems bsearch_step [of xs key base len] show ?thesis by simp
  qed
qed

lemma bsearch_finds:
  assumes "sorted_wrt (<) xs" and "base + len \<le> length xs" and "base \<le> i" and "i < base + len"
  shows "bsearch xs (xs ! i) base len = i"
  using assms
proof (induction len arbitrary: base rule: less_induct)
  case (less len)
  show ?case
  proof (cases "len > 1")
    case True
    let ?mid = "base + len div 2"
    have mid: "?mid < length xs" using less.prems True by linarith
    have half: "len - len div 2 < len" using True by simp
    show ?thesis
    proof (cases "i < ?mid")
      case below: True
      have "xs ! i < xs ! ?mid" by (rule sorted_wrt_nth_less [OF less.prems(1) below mid])
      then have "bsearch xs (xs ! i) base len = bsearch xs (xs ! i) base (len - len div 2)"
        using bsearch_step [of xs "xs ! i" base len] True by simp
      also have "\<dots> = i" using less.prems below by (intro less.IH [OF half]) linarith+
      finally show ?thesis .
    next
      case above: False
      have "\<not> xs ! i < xs ! ?mid"
      proof (cases "i = ?mid")
        case False
        then have "xs ! ?mid < xs ! i"
          using above less.prems by (intro sorted_wrt_nth_less [OF less.prems(1)]) linarith+
        then show ?thesis by simp
      qed simp
      then have "bsearch xs (xs ! i) base len = bsearch xs (xs ! i) ?mid (len - len div 2)"
        using bsearch_step [of xs "xs ! i" base len] True by simp
      also have "\<dots> = i" using less.prems above by (intro less.IH [OF half]) linarith+
      finally show ?thesis .
    qed
  next
    case False
    with less.prems show ?thesis by (simp add: bsearch_step [of xs "xs ! i" base len])
  qed
qed

lemma binary_search_found:
  assumes "sorted_wrt (<) xs" and "i < length xs" and "xs ! i = key"
  shows "binary_search xs key = Inr i"
proof -
  have "bsearch xs key 0 (length xs) = i"
    using bsearch_finds [OF assms(1), of 0 "length xs" i] assms(2,3) by simp
  with assms(2,3) show ?thesis by (auto simp: binary_search_def)
qed

lemma binary_search_missing:
  assumes "key \<notin> set xs"
  shows "\<exists>n. binary_search xs key = Inl n"
proof (cases "xs = []")
  case False
  then have "bsearch xs key 0 (length xs) < length xs" using bsearch_range [of "length xs" 0 xs key] by simp
  then have "xs ! bsearch xs key 0 (length xs) \<noteq> key" using assms nth_mem by metis
  with False show ?thesis by (simp add: binary_search_def Let_def)
qed (simp add: binary_search_def)

lemma binary_search_find:
  assumes "sorted_wrt (<) (map f cs)"
  shows "(case binary_search (map f cs) key of Inl _ \<Rightarrow> None | Inr i \<Rightarrow> Some (cs ! i)) =
    find (\<lambda>c. f c = key) cs"
proof (cases "key \<in> f ` set cs")
  case True
  then obtain i where i: "i < length cs" "f (cs ! i) = key" by (auto simp: in_set_conv_nth)
  then have "binary_search (map f cs) key = Inr i" by (intro binary_search_found [OF assms]) simp_all
  moreover have "f (cs ! j) \<noteq> key" if "j < i" for j
    using sorted_wrt_nth_less [OF assms that] that i by auto
  ultimately have "find (\<lambda>c. f c = key) cs = Some (cs ! i)"
    using i unfolding find_Some_iff by (intro exI [of _ i]) auto
  with \<open>binary_search (map f cs) key = Inr i\<close> show ?thesis by simp
next
  case False
  then have "find (\<lambda>c. f c = key) cs = None" by (auto simp: find_None_iff)
  with binary_search_missing [of key "map f cs"] False show ?thesis by auto
qed

lemma CAPABILITIES_sorted: "sorted_wrt (<) (map ac_api_key CAPABILITIES)"
  by (simp add: CAPABILITIES_def api_def)

lemma capability_find: "capability key = find (\<lambda>c. ac_api_key c = key) CAPABILITIES"
  unfolding capability_def by (rule binary_search_find [OF CAPABILITIES_sorted])

text \<open>
  C39: looking up a capability by binary search finds exactly what a search from the front of the table
  finds. What is supported is what ApiVersions advertises: a version of an API is supported exactly
  when an entry of the response covers it; and all of it lies within the versions the schema
  of the API is valid for and within those of Kafka 4.3.
\<close>

theorem capability_is_advertised:
  "capability key = find (\<lambda>c. ac_api_key c = key) CAPABILITIES \<and>
   ((case capability key of None \<Rightarrow> False | Some c \<Rightarrow> capability_supports c version) \<longleftrightarrow>
      list_ex (\<lambda>v. apiv_api_key v = key \<and> apiv_min_version v \<le> version \<and> version \<le> apiv_max_version v)
        (avrs_api_keys api_versions_respond)) \<and>
   list_all (\<lambda>c. let (lo, hi) = valid_versions (ac_api_key c)
      in api_key_try_from (ac_api_key c) = Some (ac_api_key c) \<and>
         vw_min (ac_supported c) \<le> vw_max (ac_supported c) \<and>
         lo \<le> vw_min (ac_supported c) \<and> vw_max (ac_supported c) \<le> hi \<and>
         vw_min (ac_kafka_4_3 c) \<le> vw_min (ac_supported c) \<and>
         vw_max (ac_supported c) \<le> vw_max (ac_kafka_4_3 c)) CAPABILITIES"
proof (intro conjI)
  show lookup: "capability key = find (\<lambda>c. ac_api_key c = key) CAPABILITIES"
    by (rule capability_find)
  have unique: "c = d" if "c \<in> set CAPABILITIES" "d \<in> set CAPABILITIES" "ac_api_key c = ac_api_key d" for c d
    using that CAPABILITIES_sorted by (auto simp: strict_sorted_iff distinct_map inj_on_def)
  show "(case capability key of None \<Rightarrow> False | Some c \<Rightarrow> capability_supports c version) \<longleftrightarrow>
      list_ex (\<lambda>v. apiv_api_key v = key \<and> apiv_min_version v \<le> version \<and> version \<le> apiv_max_version v)
        (avrs_api_keys api_versions_respond)"
  proof (cases "find (\<lambda>c. ac_api_key c = key) CAPABILITIES")
    case None
    then show ?thesis
      by (simp add: lookup list_ex_iff api_versions_respond_def) (auto simp: find_None_iff)
  next
    case (Some c)
    then have "c \<in> set CAPABILITIES" "ac_api_key c = key" by (auto simp: find_Some_iff)
    with unique Some show ?thesis
      by (auto simp: lookup list_ex_iff api_versions_respond_def capability_supports_def)
  qed
  show "list_all (\<lambda>c. let (lo, hi) = valid_versions (ac_api_key c)
      in api_key_try_from (ac_api_key c) = Some (ac_api_key c) \<and>
         vw_min (ac_supported c) \<le> vw_max (ac_supported c) \<and>
         lo \<le> vw_min (ac_supported c) \<and> vw_max (ac_supported c) \<le> hi \<and>
         vw_min (ac_kafka_4_3 c) \<le> vw_min (ac_supported c) \<and>
         vw_max (ac_supported c) \<le> vw_max (ac_kafka_4_3 c)) CAPABILITIES"
    by code_simp
qed

end
