(* ===== verification/Wire.thy ===== *)
theory Wire
  imports Prelude
begin

text \<open>
  The fixed-width primitives of the Kafka wire format (\<open>crates/kafka-protocol/src/protocol\<close>,
  \<open>buf.rs\<close> and \<open>types.rs\<close>). A read buffer is the list of its remaining bytes; a decoder takes the
  buffer and returns the value with what remains, or the error that \<open>?\<close> propagates.
\<close>

section \<open>Buffers\<close>

datatype wire_error = NotEnoughBytes | Bail string

type_synonym 'a decoder = "bytes \<Rightarrow> wire_error + 'a \<times> bytes"

definition try_get_bytes :: "usize \<Rightarrow> bytes decoder" where
  "try_get_bytes n buf =
     (if length buf < n then Inl NotEnoughBytes else Inr (take n buf, drop n buf))"

definition try_peek_bytes :: "usize \<Rightarrow> usize \<Rightarrow> bytes \<Rightarrow> wire_error + bytes" where
  "try_peek_bytes from_index to_index buf =
     (if length buf < to_index then Inl NotEnoughBytes
      else Inr (slice from_index (to_index - from_index) buf))"

section \<open>Fixed-width integers\<close>

text \<open>\<open>sint_decode n\<close> reads an \<open>n\<close>-byte big-endian two's complement integer.\<close>

definition sint_decode :: "nat \<Rightarrow> int decoder" where
  "sint_decode n buf =
     try_bind (try_get_bytes n buf) (\<lambda>(bs, rest). Inr (wrap (8 * n) (int (be_nat bs)), rest))"

definition Int8_decode :: "i8 decoder" where
  "Int8_decode = sint_decode 1"

definition Int16_decode :: "i16 decoder" where
  "Int16_decode = sint_decode 2"

definition Int32_decode :: "i32 decoder" where
  "Int32_decode = sint_decode 4"

definition Int64_decode :: "i64 decoder" where
  "Int64_decode = sint_decode 8"

definition UInt32_decode :: "nat decoder" where
  "UInt32_decode buf =
     try_bind (try_get_bytes 4 buf) (\<lambda>(bs, rest). Inr (be_nat bs, rest))"

definition Int8_encode :: "i8 \<Rightarrow> bytes" where
  "Int8_encode = be_bytes 1"

definition Int16_encode :: "i16 \<Rightarrow> bytes" where
  "Int16_encode = be_bytes 2"

definition Int32_encode :: "i32 \<Rightarrow> bytes" where
  "Int32_encode = be_bytes 4"

definition Int64_encode :: "i64 \<Rightarrow> bytes" where
  "Int64_encode = be_bytes 8"

lemmas int_codec_defs =
  Int8_decode_def Int16_decode_def Int32_decode_def Int64_decode_def
  Int8_encode_def Int16_encode_def Int32_encode_def Int64_encode_def

section \<open>Lemmas\<close>

lemma try_get_bytes_Inr:
  "try_get_bytes n buf = Inr (bs, rest) \<longleftrightarrow> buf = bs @ rest \<and> length bs = n"
  by (auto simp: try_get_bytes_def)

lemma sint_decode_Inr:
  "sint_decode n buf = Inr (x, rest) \<longleftrightarrow>
     (\<exists>bs. buf = bs @ rest \<and> length bs = n \<and> x = wrap (8 * n) (int (be_nat bs)))"
  by (auto simp: sint_decode_def try_bind_Inr try_get_bytes_Inr)

lemma sint_roundtrip:
  assumes "0 < n" and "- (2 ^ (8 * n - 1)) \<le> x" and "x < 2 ^ (8 * n - 1)"
  shows "sint_decode n (be_bytes n x @ rest) = Inr (x, rest)"
proof -
  have "(256::int) ^ n = 2 ^ (8 * n)"
    by (simp add: power_mult)
  then have "wrap (8 * n) (int (be_nat (be_bytes n x))) = wrap (8 * n) x"
    by (simp add: int_be_nat_be_bytes wrap_mod)
  also have "\<dots> = x"
    using assms by (intro wrap_in_range) simp_all
  finally show ?thesis
    by (auto simp: sint_decode_Inr)
qed

section \<open>Codecs\<close>

text \<open>
  The contract of an encoder and a decoder of one wire type: on the values the encoder accepts
  the decoder returns the value and leaves the bytes that follow untouched.
\<close>

locale wire_codec =
  fixes enc :: "'a \<Rightarrow> bytes"
    and dec :: "'a decoder"
    and ok :: "'a \<Rightarrow> bool"
  assumes dec_enc: "ok x \<Longrightarrow> dec (enc x @ rest) = Inr (x, rest)"
begin

lemma enc_inj: "ok x \<Longrightarrow> ok y \<Longrightarrow> enc x @ r = enc y @ s \<Longrightarrow> x = y \<and> r = s"
  by (metis dec_enc prod.inject sum.inject(2))

lemma dec_enc_last: "ok x \<Longrightarrow> dec (enc x) = Inr (x, [])"
  using dec_enc [of x "[]"] by simp

end

lemma sint_codec:
  assumes "0 < n" and "\<And>x. ok x \<Longrightarrow> - (2 ^ (8 * n - 1)) \<le> x \<and> x < 2 ^ (8 * n - 1)"
  shows "wire_codec (be_bytes n) (sint_decode n) ok"
  using assms by unfold_locales (blast intro: sint_roundtrip)

interpretation int8: wire_codec Int8_encode Int8_decode in_i8
  by (unfold int_codec_defs, rule sint_codec) (simp_all add: in_i8_def)

interpretation int16: wire_codec Int16_encode Int16_decode in_i16
  by (unfold int_codec_defs, rule sint_codec) (simp_all add: in_i16_def)

interpretation int32: wire_codec Int32_encode Int32_decode in_i32
  by (unfold int_codec_defs, rule sint_codec) (simp_all add: in_i32_def)

interpretation int64: wire_codec Int64_encode Int64_decode in_i64
  by (unfold int_codec_defs, rule sint_codec) (simp_all add: in_i64_def)

end
