(* ===== verification/Wire_Types.thy ===== *)
theory Wire_Types
  imports Wire
begin

unbundle bit_operations_syntax

text \<open>
  The variable-width types of the Kafka wire format (\<open>crates/kafka-protocol/src/protocol/types.rs\<close>):
  variable-length integers, strings, byte sequences and arrays in their plain and compact forms.
  An encoder returns the bytes it appends, or the error of a value that does not fit. Strings are
  the sequences of their UTF-8 bytes, one character each.
\<close>

section \<open>Variable-length integers\<close>

definition try_get_u8 :: "8 word decoder" where
  "try_get_u8 buf = (case buf of [] \<Rightarrow> Inl NotEnoughBytes | b # rest \<Rightarrow> Inr (b, rest))"

text \<open>\<open>while value >= 0x80 { put_u8((value as u8) | 0x80); value >>= 7 }\<close>, for either width.\<close>

function uvar_encode :: "nat \<Rightarrow> bytes" where
  "uvar_encode v =
     (if v \<ge> 0x80 then (word_of_nat v OR 0x80) # uvar_encode (drop_bit 7 v) else [word_of_nat v])"
  by pat_completeness auto
termination
  by (relation "measure id") (simp_all add: drop_bit_eq_div)

declare uvar_encode.simps [simp del]

text \<open>
  The loop \<open>for i in 0..rounds\<close> on an integer of width \<open>w\<close>, bits shifted out of which are lost. It
  stops at a byte without continuation bit and, silently, after the last round.
\<close>

fun uvar_loop :: "nat \<Rightarrow> nat \<Rightarrow> nat \<Rightarrow> nat \<Rightarrow> nat decoder" where
  "uvar_loop w 0 i v buf = Inr (v, buf)"
| "uvar_loop w (Suc rounds) i v buf =
     try_bind (try_get_u8 buf) (\<lambda>(b, rest).
     let v' = v OR take_bit w (push_bit (i * 7) (unat b AND 0x7F))
     in if b < 0x80 then Inr (v', rest) else uvar_loop w rounds (i + 1) v' rest)"

definition UnsignedVarInt_encode :: "nat \<Rightarrow> bytes" where
  "UnsignedVarInt_encode = uvar_encode"

definition UnsignedVarInt_decode :: "nat decoder" where
  "UnsignedVarInt_decode = uvar_loop 32 5 0 0"

definition UnsignedVarLong_encode :: "nat \<Rightarrow> bytes" where
  "UnsignedVarLong_encode = uvar_encode"

definition UnsignedVarLong_decode :: "nat decoder" where
  "UnsignedVarLong_decode = uvar_loop 64 10 0 0"

definition UnsignedVarInt_compute_size :: "nat \<Rightarrow> usize" where
  "UnsignedVarInt_compute_size v =
     (if v \<le> 0x7f then 1 else if v \<le> 0x3fff then 2 else if v \<le> 0x1fffff then 3
      else if v \<le> 0xfffffff then 4 else 5)"

text \<open>\<open>((value << 1) ^ (value >> (w - 1))) as u32\<close> or \<open>u64\<close>, and back.\<close>

definition zigzag :: "nat \<Rightarrow> int \<Rightarrow> nat" where
  "zigzag w v = nat (take_bit w (wrap w (push_bit 1 v) XOR drop_bit (w - 1) v))"

definition unzigzag :: "nat \<Rightarrow> nat \<Rightarrow> int" where
  "unzigzag w z = wrap w (int (drop_bit 1 z)) XOR - int (z AND 1)"

definition VarInt_encode :: "i32 \<Rightarrow> bytes" where
  "VarInt_encode v = UnsignedVarInt_encode (zigzag 32 v)"

definition VarInt_decode :: "i32 decoder" where
  "VarInt_decode buf =
     try_bind (UnsignedVarInt_decode buf) (\<lambda>(z, rest). Inr (unzigzag 32 z, rest))"

definition VarLong_encode :: "i64 \<Rightarrow> bytes" where
  "VarLong_encode v = UnsignedVarLong_encode (zigzag 64 v)"

definition VarLong_decode :: "i64 decoder" where
  "VarLong_decode buf =
     try_bind (UnsignedVarLong_decode buf) (\<lambda>(z, rest). Inr (unzigzag 64 z, rest))"

section \<open>The variable-length integers round trip\<close>

lemma uvar_byte_nat: "unat ((word_of_nat v :: 8 word) OR 0x80) = take_bit 7 v + 0x80"
proof -
  have eighty: "bit (0x80::nat) n \<longleftrightarrow> n = 7" for n
    using bit_exp_iff [of 7 n, where ?'a = nat] by auto
  have "unat ((word_of_nat v :: 8 word) OR 0x80) = take_bit 8 v OR 0x80"
    by (simp add: unsigned_or_eq unsigned_of_nat)
  also have "\<dots> = take_bit 7 v OR 0x80"
    by (rule bit_eqI) (auto simp: bit_simps eighty)
  also have "\<dots> = take_bit 7 v + 0x80"
    by (rule disjunctive_add_eq_or [symmetric], rule bit_eqI) (auto simp: bit_simps eighty)
  finally show ?thesis .
qed

lemma uvar_byte_more:
  "unat ((word_of_nat v :: 8 word) OR 0x80) AND 0x7F = take_bit 7 v"
  "\<not> (word_of_nat v :: 8 word) OR 0x80 < 0x80"
proof -
  have "x AND 0x7F = take_bit 7 x" for x :: nat
    by (simp add: take_bit_eq_mask mask_eq_exp_minus_1)
  then show "unat ((word_of_nat v :: 8 word) OR 0x80) AND 0x7F = take_bit 7 v"
    by (simp add: uvar_byte_nat take_bit_eq_mod)
  show "\<not> (word_of_nat v :: 8 word) OR 0x80 < 0x80"
    unfolding word_less_nat_alt uvar_byte_nat by simp
qed

lemma uvar_byte_last:
  assumes "v < 0x80"
  shows "unat (word_of_nat v :: 8 word) AND 0x7F = v" and "(word_of_nat v :: 8 word) < 0x80"
proof -
  have v: "unat (word_of_nat v :: 8 word) = v"
    using assms by (simp add: unsigned_of_nat take_bit_eq_mod)
  have "x AND 0x7F = take_bit 7 x" for x :: nat
    by (simp add: take_bit_eq_mask mask_eq_exp_minus_1)
  then show "unat (word_of_nat v :: 8 word) AND 0x7F = v"
    using assms by (simp add: v take_bit_eq_mod)
  show "(word_of_nat v :: 8 word) < 0x80"
    using assms by (simp add: word_less_nat_alt v)
qed

lemma or_push_split: "(acc OR push_bit k (take_bit 7 v)) OR push_bit (k + 7) (drop_bit 7 v) = acc OR push_bit k v"
  for acc v k :: nat
proof (rule bit_eqI)
  fix n
  show "bit ((acc OR push_bit k (take_bit 7 v)) OR push_bit (k + 7) (drop_bit 7 v)) n \<longleftrightarrow> bit (acc OR push_bit k v) n"
  proof (cases "k + 7 \<le> n")
    case True
    then have "7 + (n - (k + 7)) = n - k" by simp
    with True show ?thesis by (auto simp: bit_simps)
  next
    case False
    then show ?thesis by (auto simp: bit_simps)
  qed
qed

lemma take_push_small: "v < 2 ^ n \<Longrightarrow> take_bit w (push_bit k v) = push_bit k v" if "n + k \<le> w" for v :: nat
proof -
  assume "v < 2 ^ n"
  then have "push_bit k v < 2 ^ (n + k)" by (simp add: push_bit_eq_mult power_add)
  also have "\<dots> \<le> 2 ^ w" using that by (simp add: power_increasing)
  finally show ?thesis by (simp add: take_bit_nat_eq_self)
qed

text \<open>
  From round \<open>i\<close> on, the loop reads what the encoder wrote of a value that fits the bits left, if the
  rounds left cover them.
\<close>

lemma uvar_loop_encode:
  assumes "v < 2 ^ (w - 7 * i)" and "w \<le> 7 * (i + rounds)" and "7 * i < w"
  shows "uvar_loop w rounds i acc (uvar_encode v @ rest) = Inr (acc OR push_bit (i * 7) v, rest)"
  using assms
proof (induction v arbitrary: rounds i acc rule: uvar_encode.induct)
  case (1 v)
  from "1.prems" obtain m where m: "rounds = Suc m" by (cases rounds) auto
  show ?case
  proof (cases "0x80 \<le> v")
    case True
    have big: "(2::nat) ^ 7 < 2 ^ (w - 7 * i)" using True "1.prems"(1) by simp
    then have room: "7 < w - 7 * i" by (rule power_less_imp_less_exp [rotated]) simp
    have "w - 7 * i = 7 + (w - 7 * Suc i)" using room by simp
    with "1.prems"(1) have "v < 2 ^ 7 * 2 ^ (w - 7 * Suc i)" by (simp only: power_add)
    then have small: "drop_bit 7 v < 2 ^ (w - 7 * Suc i)"
      by (simp add: drop_bit_eq_div less_mult_imp_div_less mult.commute)
    have "take_bit 7 v < 2 ^ 7" by (rule take_bit_nat_less_exp)
    with room have keep: "take_bit w (push_bit (i * 7) (take_bit 7 v)) = push_bit (i * 7) (take_bit 7 v)"
      by (intro take_push_small [where n = 7]) auto
    have "uvar_loop w rounds i acc (uvar_encode v @ rest) =
        uvar_loop w m (Suc i) (acc OR push_bit (i * 7) (take_bit 7 v)) (uvar_encode (drop_bit 7 v) @ rest)"
      using True by (subst uvar_encode.simps) (simp add: m try_get_u8_def uvar_byte_more keep Let_def del: push_bit_and take_bit_and)
    also have "\<dots> = Inr ((acc OR push_bit (i * 7) (take_bit 7 v)) OR push_bit (Suc i * 7) (drop_bit 7 v), rest)"
      using "1.prems" room by (intro "1.IH" True small) (simp_all add: m)
    also have "Suc i * 7 = i * 7 + 7" by simp
    finally show ?thesis by (simp only: or_push_split)
  next
    case False
    then have "take_bit w (push_bit (i * 7) v) = push_bit (i * 7) v"
      using "1.prems" by (intro take_push_small [where n = "w - 7 * i"]) auto
    with False show ?thesis
      by (subst uvar_encode.simps) (simp add: m try_get_u8_def uvar_byte_last Let_def del: push_bit_and take_bit_and)
  qed
qed

lemma zigzag_eq:
  assumes "0 < w" and "- (2 ^ (w - 1)) \<le> v" and "v < 2 ^ (w - 1)"
  shows "zigzag w v = (if 0 \<le> v then nat (2 * v) else nat (- 2 * v - 1))"
proof -
  have two: "(2::int) ^ w = 2 * 2 ^ (w - 1)" using assms(1) by (cases w) simp_all
  have sign: "drop_bit (w - 1) v = (if 0 \<le> v then 0 else - 1)"
  proof (cases "0 \<le> v")
    case True
    with assms(3) show ?thesis by (simp add: drop_bit_eq_div)
  next
    case False
    then have "v div 2 ^ (w - 1) = - 1"
      using assms(2) by (intro int_div_pos_eq [of v "2 ^ (w - 1)" "- 1" "v + 2 ^ (w - 1)"]) auto
    with False show ?thesis by (simp add: drop_bit_eq_div)
  qed
  have low: "take_bit w (wrap w x) = take_bit w x" for x
    by (simp add: wrap_def take_bit_eq_mod mod_diff_left_eq)
  have "take_bit w (wrap w (push_bit 1 v) XOR drop_bit (w - 1) v) =
      take_bit w (take_bit w (push_bit 1 v) XOR take_bit w (drop_bit (w - 1) v))"
    by (simp add: low)
  also have "\<dots> = take_bit w (push_bit 1 v XOR drop_bit (w - 1) v)" by simp
  also have "\<dots> = (if 0 \<le> v then 2 * v else - 2 * v - 1)"
  proof (cases "0 \<le> v")
    case True
    with assms(3) two show ?thesis unfolding sign by (simp add: take_bit_int_eq_self push_bit_eq_mult)
  next
    case False
    have "push_bit 1 v XOR - 1 = - 2 * v - 1"
      by (simp add: push_bit_eq_mult not_eq_complement)
    with False assms(2) two show ?thesis
      unfolding sign by (simp add: take_bit_int_eq_self)
  qed
  finally show ?thesis by (simp add: zigzag_def)
qed

lemma unzigzag_zigzag:
  assumes "0 < w" and "- (2 ^ (w - 1)) \<le> v" and "v < 2 ^ (w - 1)"
  shows "unzigzag w (zigzag w v) = v"
proof (cases "0 \<le> v")
  case True
  then have z: "zigzag w v = 2 * nat v" by (simp add: zigzag_eq [OF assms] nat_mult_distrib)
  have "wrap w v = v" using assms by (intro wrap_in_range) auto
  with True show ?thesis by (simp add: z unzigzag_def drop_bit_eq_div and_one_eq)
next
  case False
  let ?k = "nat (- v - 1)"
  have z: "zigzag w v = 2 * ?k + 1" using False by (simp add: zigzag_eq [OF assms])
  have half: "drop_bit (Suc 0) (Suc (2 * ?k)) = ?k" by (simp add: drop_bit_eq_div)
  have "wrap w (- v - 1) = - v - 1" using assms False by (intro wrap_in_range) auto
  with False show ?thesis
    by (simp add: z unzigzag_def half and_one_eq not_eq_complement)
qed

lemma zigzag_less:
  assumes "0 < w" and "- (2 ^ (w - 1)) \<le> v" and "v < 2 ^ (w - 1)"
  shows "zigzag w v < 2 ^ w"
  unfolding zigzag_def by (simp add: nat_less_iff take_bit_int_less_exp del: take_bit_xor)

definition in_u32 :: "nat \<Rightarrow> bool" where
  "in_u32 n \<longleftrightarrow> n < 2 ^ 32"

interpretation uvar32: wire_codec UnsignedVarInt_encode UnsignedVarInt_decode in_u32
  by unfold_locales
    (simp add: UnsignedVarInt_encode_def UnsignedVarInt_decode_def in_u32_def uvar_loop_encode)

interpretation uvar64: wire_codec UnsignedVarLong_encode UnsignedVarLong_decode "\<lambda>n. n < 2 ^ 64"
  by unfold_locales
    (simp add: UnsignedVarLong_encode_def UnsignedVarLong_decode_def uvar_loop_encode)

interpretation varint: wire_codec VarInt_encode VarInt_decode in_i32
proof unfold_locales
  fix v rest
  assume v: "in_i32 v"
  have "in_u32 (zigzag 32 v)" using v zigzag_less [of 32 v] by (simp add: in_i32_def in_u32_def)
  moreover have "unzigzag 32 (zigzag 32 v) = v"
    using v by (intro unzigzag_zigzag) (simp_all add: in_i32_def)
  ultimately show "VarInt_decode (VarInt_encode v @ rest) = Inr (v, rest)"
    by (simp add: VarInt_decode_def VarInt_encode_def uvar32.dec_enc)
qed

interpretation varlong: wire_codec VarLong_encode VarLong_decode in_i64
proof unfold_locales
  fix v rest
  assume v: "in_i64 v"
  have "zigzag 64 v < 2 ^ 64" using v zigzag_less [of 64 v] by (simp add: in_i64_def)
  moreover have "unzigzag 64 (zigzag 64 v) = v"
    using v by (intro unzigzag_zigzag) (simp_all add: in_i64_def)
  ultimately show "VarLong_decode (VarLong_encode v @ rest) = Inr (v, rest)"
    by (simp add: VarLong_decode_def VarLong_encode_def uvar64.dec_enc)
qed

section \<open>Strings, byte sequences and arrays\<close>

definition Boolean_encode :: "bool \<Rightarrow> bytes" where
  "Boolean_encode v = [if v then 1 else 0]"

definition Boolean_decode :: "bool decoder" where
  "Boolean_decode buf = try_bind (try_get_u8 buf) (\<lambda>(b, rest). Inr (b \<noteq> 0, rest))"

text \<open>\<open>std::str::from_utf8\<close>: the well-formed byte sequences of the Unicode standard.\<close>

definition utf8_tail :: "8 word \<Rightarrow> bool" where
  "utf8_tail b \<longleftrightarrow> 0x80 \<le> b \<and> b \<le> 0xBF"

fun utf8_valid :: "bytes \<Rightarrow> bool" where
  "utf8_valid [] = True"
| "utf8_valid (a # rest) =
     (if a < 0x80 then utf8_valid rest
      else if 0xC2 \<le> a \<and> a \<le> 0xDF
      then (case rest of b # rest' \<Rightarrow> utf8_tail b \<and> utf8_valid rest' | [] \<Rightarrow> False)
      else if 0xE0 \<le> a \<and> a \<le> 0xEF
      then (case rest of
              b # c # rest' \<Rightarrow>
                utf8_tail b \<and> (a = 0xE0 \<longrightarrow> 0xA0 \<le> b) \<and> (a = 0xED \<longrightarrow> b \<le> 0x9F) \<and>
                utf8_tail c \<and> utf8_valid rest'
            | _ \<Rightarrow> False)
      else if 0xF0 \<le> a \<and> a \<le> 0xF4
      then (case rest of
              b # c # d # rest' \<Rightarrow>
                utf8_tail b \<and> (a = 0xF0 \<longrightarrow> 0x90 \<le> b) \<and> (a = 0xF4 \<longrightarrow> b \<le> 0x8F) \<and>
                utf8_tail c \<and> utf8_tail d \<and> utf8_valid rest'
            | _ \<Rightarrow> False)
      else False)"

definition str_bytes :: "string \<Rightarrow> bytes" where
  "str_bytes s = map (\<lambda>c. word_of_nat (of_char c)) s"

definition bytes_str :: "bytes \<Rightarrow> string" where
  "bytes_str bs = map (\<lambda>b. char_of (unat b)) bs"

definition StrBytes_try_from :: "bytes \<Rightarrow> wire_error + string" where
  "StrBytes_try_from bs =
     (if utf8_valid bs then Inr (bytes_str bs) else Inl (Bail ''invalid utf-8 sequence''))"

definition String_encode :: "string option \<Rightarrow> wire_error + bytes" where
  "String_encode v =
     (case v of
        Some s \<Rightarrow>
          if length s > 32767 then Inl (Bail ''String is too long to encode'')
          else Inr (Int16_encode (int (length s)) @ str_bytes s)
      | None \<Rightarrow> Inr (Int16_encode (- 1)))"

definition String_decode :: "string option decoder" where
  "String_decode buf =
     try_bind (Int16_decode buf) (\<lambda>(n, rest).
     if n = - 1 then Inr (None, rest)
     else if n \<ge> 0
     then try_bind (try_get_bytes (nat n) rest) (\<lambda>(bs, rest').
          try_bind (StrBytes_try_from bs) (\<lambda>s. Inr (Some s, rest')))
     else Inl (Bail ''String length is negative''))"

definition CompactString_encode :: "string option \<Rightarrow> wire_error + bytes" where
  "CompactString_encode v =
     (case v of
        Some s \<Rightarrow>
          if length s \<ge> 2 ^ 32 - 1 then Inl (Bail ''CompactString is too long to encode'')
          else Inr (UnsignedVarInt_encode (length s + 1) @ str_bytes s)
      | None \<Rightarrow> Inr (UnsignedVarInt_encode 0))"

definition CompactString_decode :: "string option decoder" where
  "CompactString_decode buf =
     try_bind (UnsignedVarInt_decode buf) (\<lambda>(n, rest).
     if n = 0 then Inr (None, rest)
     else try_bind (try_get_bytes (n - 1) rest) (\<lambda>(bs, rest').
          try_bind (StrBytes_try_from bs) (\<lambda>s. Inr (Some s, rest'))))"

definition Bytes_encode :: "bytes option \<Rightarrow> wire_error + bytes" where
  "Bytes_encode v =
     (case v of
        Some s \<Rightarrow>
          if length s > 2 ^ 31 - 1 then Inl (Bail ''Data is too long to encode'')
          else Inr (Int32_encode (int (length s)) @ s)
      | None \<Rightarrow> Inr (Int32_encode (- 1)))"

definition Bytes_decode :: "bytes option decoder" where
  "Bytes_decode buf =
     try_bind (Int32_decode buf) (\<lambda>(n, rest).
     if n = - 1 then Inr (None, rest)
     else if n \<ge> 0 then try_bind (try_get_bytes (nat n) rest) (\<lambda>(bs, rest'). Inr (Some bs, rest'))
     else Inl (Bail ''Data length is negative''))"

definition CompactBytes_encode :: "bytes option \<Rightarrow> wire_error + bytes" where
  "CompactBytes_encode v =
     (case v of
        Some s \<Rightarrow>
          if length s \<ge> 2 ^ 32 - 1 then Inl (Bail ''CompactBytes is too long to encode'')
          else Inr (UnsignedVarInt_encode (length s + 1) @ s)
      | None \<Rightarrow> Inr (UnsignedVarInt_encode 0))"

definition CompactBytes_decode :: "bytes option decoder" where
  "CompactBytes_decode buf =
     try_bind (UnsignedVarInt_decode buf) (\<lambda>(n, rest).
     if n = 0 then Inr (None, rest)
     else try_bind (try_get_bytes (n - 1) rest) (\<lambda>(bs, rest'). Inr (Some bs, rest')))"

text \<open>The loops over the items of an array.\<close>

fun encode_items :: "('a \<Rightarrow> wire_error + bytes) \<Rightarrow> 'a list \<Rightarrow> wire_error + bytes" where
  "encode_items enc [] = Inr []"
| "encode_items enc (x # xs) =
     try_bind (enc x) (\<lambda>bs. try_bind (encode_items enc xs) (\<lambda>bs'. Inr (bs @ bs')))"

fun decode_items :: "'a decoder \<Rightarrow> nat \<Rightarrow> 'a list decoder" where
  "decode_items dec 0 buf = Inr ([], buf)"
| "decode_items dec (Suc n) buf =
     try_bind (dec buf) (\<lambda>(x, rest).
     try_bind (decode_items dec n rest) (\<lambda>(xs, rest'). Inr (x # xs, rest')))"

definition Array_encode :: "('a \<Rightarrow> wire_error + bytes) \<Rightarrow> 'a list option \<Rightarrow> wire_error + bytes" where
  "Array_encode enc v =
     (case v of
        Some a \<Rightarrow>
          if length a > 2 ^ 31 - 1 then Inl (Bail ''Array is too long to encode'')
          else try_bind (encode_items enc a) (\<lambda>bs. Inr (Int32_encode (int (length a)) @ bs))
      | None \<Rightarrow> Inr (Int32_encode (- 1)))"

definition Array_decode :: "'a decoder \<Rightarrow> 'a list option decoder" where
  "Array_decode dec buf =
     try_bind (Int32_decode buf) (\<lambda>(n, rest).
     if n = - 1 then Inr (None, rest)
     else if n \<ge> 0 then try_bind (decode_items dec (nat n) rest) (\<lambda>(xs, rest'). Inr (Some xs, rest'))
     else Inl (Bail ''Array length is negative''))"

definition CompactArray_encode :: "('a \<Rightarrow> wire_error + bytes) \<Rightarrow> 'a list option \<Rightarrow> wire_error + bytes" where
  "CompactArray_encode enc v =
     (case v of
        Some a \<Rightarrow>
          if length a \<ge> 2 ^ 32 - 1 then Inl (Bail ''CompactArray is too long to encode'')
          else try_bind (encode_items enc a) (\<lambda>bs. Inr (UnsignedVarInt_encode (length a + 1) @ bs))
      | None \<Rightarrow> Inr (UnsignedVarInt_encode 0))"

definition CompactArray_decode :: "'a decoder \<Rightarrow> 'a list option decoder" where
  "CompactArray_decode dec buf =
     try_bind (UnsignedVarInt_decode buf) (\<lambda>(n, rest).
     if n = 0 then Inr (None, rest)
     else try_bind (decode_items dec (n - 1) rest) (\<lambda>(xs, rest'). Inr (Some xs, rest')))"

text \<open>The decoders of the types without \<open>Option\<close>: no value is an error.\<close>

definition required :: "string \<Rightarrow> 'a option decoder \<Rightarrow> 'a decoder" where
  "required message dec buf =
     try_bind (dec buf) (\<lambda>(v, rest). case v of None \<Rightarrow> Inl (Bail message) | Some x \<Rightarrow> Inr (x, rest))"

section \<open>Codecs that may refuse a value\<close>

text \<open>
  The contract of an encoder that may fail: values within its bounds are encoded, and the decoder
  returns them and leaves the bytes that follow untouched.
\<close>

locale fallible_codec =
  fixes enc :: "'a \<Rightarrow> wire_error + bytes"
    and dec :: "'a decoder"
    and ok :: "'a \<Rightarrow> bool"
  assumes encodes: "ok x \<Longrightarrow> \<exists>bs. enc x = Inr bs \<and> (\<forall>rest. dec (bs @ rest) = Inr (x, rest))"
begin

lemma dec_enc: "ok x \<Longrightarrow> enc x = Inr bs \<Longrightarrow> dec (bs @ rest) = Inr (x, rest)"
  using encodes [of x] by auto

lemma items:
  "list_all ok xs \<Longrightarrow>
   \<exists>bs. encode_items enc xs = Inr bs \<and> (\<forall>rest. decode_items dec (length xs) (bs @ rest) = Inr (xs, rest))"
proof (induction xs)
  case (Cons x xs)
  then obtain bs where bs: "encode_items enc xs = Inr bs"
    "\<And>rest. decode_items dec (length xs) (bs @ rest) = Inr (xs, rest)" by auto
  from Cons.prems encodes [of x] obtain b where "enc x = Inr b" "\<And>rest. dec (b @ rest) = Inr (x, rest)"
    by auto
  with bs show ?case by simp
qed simp

end

sublocale wire_codec \<subseteq> fallible: fallible_codec "\<lambda>x. Inr (enc x)" dec ok
  by unfold_locales (simp add: dec_enc)

lemma bytes_str_bytes [simp]: "bytes_str (str_bytes s) = s"
  by (simp add: bytes_str_def str_bytes_def comp_def unsigned_of_nat take_bit_nat_eq_self)

lemma length_str_bytes [simp]: "length (str_bytes s) = length s"
  by (simp add: str_bytes_def)

text \<open>What fits: a string of the plain and of the compact form, a list likewise.\<close>

definition string_ok :: "nat \<Rightarrow> string option \<Rightarrow> bool" where
  "string_ok n v \<longleftrightarrow> (case v of None \<Rightarrow> True | Some s \<Rightarrow> length s \<le> n \<and> utf8_valid (str_bytes s))"

definition seq_ok :: "nat \<Rightarrow> ('a \<Rightarrow> bool) \<Rightarrow> 'a list option \<Rightarrow> bool" where
  "seq_ok n ok v \<longleftrightarrow> (case v of None \<Rightarrow> True | Some xs \<Rightarrow> length xs \<le> n \<and> list_all ok xs)"

lemma try_get_append [simp]: "try_get_bytes (length bs) (bs @ rest) = Inr (bs, rest)"
  by (simp add: try_get_bytes_Inr)

lemma in_range_lengths [simp]:
  "n \<le> 32767 \<Longrightarrow> in_i16 (int n)" "n \<le> 2 ^ 31 - 1 \<Longrightarrow> in_i32 (int n)" "n < 2 ^ 32 - 1 \<Longrightarrow> in_u32 (Suc n)"
  "in_i16 (- 1)" "in_i32 (- 1)" "in_u32 0"
  by (simp_all add: in_i16_def in_i32_def in_u32_def)

interpretation nullable_string: fallible_codec String_encode String_decode "string_ok 32767"
proof unfold_locales
  fix v :: "string option"
  assume v: "string_ok 32767 v"
  show "\<exists>bs. String_encode v = Inr bs \<and> (\<forall>rest. String_decode (bs @ rest) = Inr (v, rest))"
  proof (cases v)
    case None
    then show ?thesis by (simp add: String_encode_def String_decode_def int16.dec_enc)
  next
    case (Some s)
    with v have s: "length s \<le> 32767" "utf8_valid (str_bytes s)" by (simp_all add: string_ok_def)
    have "try_get_bytes (length s) (str_bytes s @ rest) = Inr (str_bytes s, rest)" for rest
      using try_get_append [of "str_bytes s"] by simp
    with s Some show ?thesis
      by (simp add: String_encode_def String_decode_def int16.dec_enc StrBytes_try_from_def)
  qed
qed

interpretation compact_string:
  fallible_codec CompactString_encode CompactString_decode "string_ok (2 ^ 32 - 2)"
proof unfold_locales
  fix v :: "string option"
  assume v: "string_ok (2 ^ 32 - 2) v"
  show "\<exists>bs. CompactString_encode v = Inr bs \<and> (\<forall>rest. CompactString_decode (bs @ rest) = Inr (v, rest))"
  proof (cases v)
    case None
    then show ?thesis by (simp add: CompactString_encode_def CompactString_decode_def uvar32.dec_enc)
  next
    case (Some s)
    with v have s: "length s < 2 ^ 32 - 1" "utf8_valid (str_bytes s)" by (simp_all add: string_ok_def)
    have "try_get_bytes (length s) (str_bytes s @ rest) = Inr (str_bytes s, rest)" for rest
      using try_get_append [of "str_bytes s"] by simp
    with s Some show ?thesis
      by (simp add: CompactString_encode_def CompactString_decode_def uvar32.dec_enc StrBytes_try_from_def
          not_le)
  qed
qed

lemma array_codec:
  assumes "fallible_codec enc dec ok"
  shows "fallible_codec (Array_encode enc) (Array_decode dec) (seq_ok (2 ^ 31 - 1) ok)"
proof unfold_locales
  fix v
  assume v: "seq_ok (2 ^ 31 - 1) ok v"
  show "\<exists>bs. Array_encode enc v = Inr bs \<and> (\<forall>rest. Array_decode dec (bs @ rest) = Inr (v, rest))"
  proof (cases v)
    case None
    then show ?thesis by (simp add: Array_encode_def Array_decode_def int32.dec_enc)
  next
    case (Some xs)
    with v have len: "length xs \<le> 2 ^ 31 - 1" and "list_all ok xs" by (simp_all add: seq_ok_def)
    from fallible_codec.items [OF assms this(2)] obtain bs where "encode_items enc xs = Inr bs"
      "\<And>rest. decode_items dec (length xs) (bs @ rest) = Inr (xs, rest)" by auto
    with Some len show ?thesis
      by (simp add: Array_encode_def Array_decode_def int32.dec_enc)
  qed
qed

lemma compact_array_codec:
  assumes "fallible_codec enc dec ok"
  shows "fallible_codec (CompactArray_encode enc) (CompactArray_decode dec) (seq_ok (2 ^ 32 - 2) ok)"
proof unfold_locales
  fix v
  assume v: "seq_ok (2 ^ 32 - 2) ok v"
  show "\<exists>bs. CompactArray_encode enc v = Inr bs \<and> (\<forall>rest. CompactArray_decode dec (bs @ rest) = Inr (v, rest))"
  proof (cases v)
    case None
    then show ?thesis by (simp add: CompactArray_encode_def CompactArray_decode_def uvar32.dec_enc)
  next
    case (Some xs)
    with v have len: "length xs < 2 ^ 32 - 1" and "list_all ok xs" by (simp_all add: seq_ok_def)
    from fallible_codec.items [OF assms this(2)] obtain bs where "encode_items enc xs = Inr bs"
      "\<And>rest. decode_items dec (length xs) (bs @ rest) = Inr (xs, rest)" by auto
    with Some len show ?thesis
      by (simp add: CompactArray_encode_def CompactArray_decode_def uvar32.dec_enc not_le)
  qed
qed

interpretation nullable_bytes: fallible_codec Bytes_encode Bytes_decode "seq_ok (2 ^ 31 - 1) (\<lambda>_. True)"
proof unfold_locales
  fix v :: "bytes option"
  assume "seq_ok (2 ^ 31 - 1) (\<lambda>_. True) v"
  then show "\<exists>bs. Bytes_encode v = Inr bs \<and> (\<forall>rest. Bytes_decode (bs @ rest) = Inr (v, rest))"
    by (cases v) (simp_all add: Bytes_encode_def Bytes_decode_def int32.dec_enc seq_ok_def)
qed

interpretation compact_bytes:
  fallible_codec CompactBytes_encode CompactBytes_decode "seq_ok (2 ^ 32 - 2) (\<lambda>_. True)"
proof unfold_locales
  fix v :: "bytes option"
  assume v: "seq_ok (2 ^ 32 - 2) (\<lambda>_. True) v"
  show "\<exists>bs. CompactBytes_encode v = Inr bs \<and> (\<forall>rest. CompactBytes_decode (bs @ rest) = Inr (v, rest))"
  proof (cases v)
    case (Some s)
    with v have "length s < 2 ^ 32 - 1" by (simp add: seq_ok_def)
    with Some show ?thesis
      by (simp add: CompactBytes_encode_def CompactBytes_decode_def uvar32.dec_enc not_le)
  qed (simp add: CompactBytes_encode_def CompactBytes_decode_def uvar32.dec_enc)
qed

lemma length_uvar_encode:
  "length (uvar_encode v) = (if v < 128 then 1 else Suc (length (uvar_encode (v div 128))))"
  by (subst uvar_encode.simps) (simp add: drop_bit_eq_div)

lemma uvar_encode_size:
  assumes "v < 2 ^ 32"
  shows "length (uvar_encode v) = UnsignedVarInt_compute_size v"
proof -
  have "v div 128 div 128 div 128 div 128 < 128" using assms by simp
  then show ?thesis
    unfolding UnsignedVarInt_compute_size_def
    by (subst length_uvar_encode, subst length_uvar_encode, subst length_uvar_encode,
        subst length_uvar_encode, subst length_uvar_encode) (auto simp: div_le_mono)
qed

text \<open>
  Zigzag variable-length integers lose nothing and keep their bounds. Every 32-bit integer is encoded in
  as many bytes as the size computation announces, at most five, and read back exactly, whatever
  follows it; likewise every 64-bit integer.
\<close>

theorem varint_round_trip:
  assumes "in_i32 v" and "in_i64 l"
  shows "VarInt_decode (VarInt_encode v @ rest) = Inr (v, rest) \<and>
    length (VarInt_encode v) = UnsignedVarInt_compute_size (zigzag 32 v) \<and>
    length (VarInt_encode v) \<le> 5 \<and>
    VarLong_decode (VarLong_encode l @ rest) = Inr (l, rest)"
proof -
  have "zigzag 32 v < 2 ^ 32" using assms(1) zigzag_less [of 32 v] by (simp add: in_i32_def)
  from uvar_encode_size [OF this]
  have "length (VarInt_encode v) = UnsignedVarInt_compute_size (zigzag 32 v)"
    by (simp add: VarInt_encode_def UnsignedVarInt_encode_def)
  then show ?thesis
    by (simp add: varint.dec_enc assms(1) varlong.dec_enc assms(2) UnsignedVarInt_compute_size_def)
qed

theorem varint_round_trip_witness:
  "VarInt_decode (VarInt_encode (- 300) @ [9]) = Inr (- 300, [9]) \<and> length (VarInt_encode (- 300)) \<le> 5"
  using varint_round_trip [of "- 300" 0 "[9]"] by (simp add: in_i32_def in_i64_def)

end
