(* ===== verification/Message_Codec.thy ===== *)
theory Message_Codec
  imports Wire_Types
begin

text \<open>
  What the generated codecs of the messages are made of
  (\<open>crates/kafka-protocol/src/protocol/mod.rs\<close> and \<open>types.rs\<close>): an encoder is the sequence of its
  fallible writes, a decoder threads the buffer through its reads, and the size computation
  adds up. Then the sizes of the types, structures as types, and the tagged fields of flexible versions.
  The contract \<open>sized_codec\<close> says that a value which fits is encoded, in as many bytes as its
  size computation announces, and is what the decoder returns; the rules for \<open>coded\<close> prove it for a message
  field by field.
\<close>

section \<open>Sequences\<close>

text \<open>A read followed by what comes after it, a value without a read, and \<open>bail!\<close>.\<close>

definition get :: "'a decoder \<Rightarrow> ('a \<Rightarrow> 'b decoder) \<Rightarrow> 'b decoder" where
  "get d k buf = try_bind (d buf) (\<lambda>(x, rest). k x rest)"

definition give :: "'a \<Rightarrow> 'a decoder" where
  "give x buf = Inr (x, buf)"

definition refuse :: "wire_error \<Rightarrow> 'a decoder" where
  "refuse e buf = Inl e"

text \<open>The writes of an encoder, and the summands of a size, up to the first error.\<close>

fun puts :: "(wire_error + bytes) list \<Rightarrow> wire_error + bytes" where
  "puts [] = Inr []"
| "puts (e # es) = try_bind e (\<lambda>bs. try_bind (puts es) (\<lambda>bs'. Inr (bs @ bs')))"

fun sums :: "(wire_error + usize) list \<Rightarrow> wire_error + usize" where
  "sums [] = Inr 0"
| "sums (z # zs) = try_bind z (\<lambda>n. try_bind (sums zs) (\<lambda>m. Inr (n + m)))"

definition UNSUPPORTED_VERSION :: wire_error where
  "UNSUPPORTED_VERSION = Bail ''specified version not supported by this message type''"

text \<open>A field that the version lacks must not be set.\<close>

definition unset :: "'b \<Rightarrow> bool \<Rightarrow> wire_error + 'b" where
  "unset nothing c =
     (if c then Inr nothing
      else Inl (Bail ''A field is set that is not available on the selected protocol version''))"

text \<open>The decoders of the types without \<open>Option\<close>.\<close>

abbreviation String_required :: "string decoder" where
  "String_required \<equiv> required ''String length is negative (-1)'' String_decode"

abbreviation CompactString_required :: "string decoder" where
  "CompactString_required \<equiv> required ''CompactString length is negative (-1)'' CompactString_decode"

abbreviation Bytes_required :: "bytes decoder" where
  "Bytes_required \<equiv> required ''Data length is negative (-1)'' Bytes_decode"

abbreviation CompactBytes_required :: "bytes decoder" where
  "CompactBytes_required \<equiv> required ''Data length is negative (-1)'' CompactBytes_decode"

abbreviation Array_required :: "'a decoder \<Rightarrow> 'a list decoder" where
  "Array_required dec \<equiv> required ''Array length is negative (-1)'' (Array_decode dec)"

abbreviation CompactArray_required :: "'a decoder \<Rightarrow> 'a list decoder" where
  "CompactArray_required dec \<equiv> required ''CompactArray length is negative (-1)'' (CompactArray_decode dec)"

section \<open>Sizes and structures\<close>

definition String_compute_size :: "string option \<Rightarrow> wire_error + usize" where
  "String_compute_size v =
     (case v of
        Some s \<Rightarrow> if length s > 32767 then Inl (Bail ''String is too long to encode'') else Inr (2 + length s)
      | None \<Rightarrow> Inr 2)"

definition CompactString_compute_size :: "string option \<Rightarrow> wire_error + usize" where
  "CompactString_compute_size v =
     (case v of
        Some s \<Rightarrow>
          if length s \<ge> 2 ^ 32 - 1 then Inl (Bail ''CompactString is too long to encode'')
          else Inr (UnsignedVarInt_compute_size (length s + 1) + length s)
      | None \<Rightarrow> Inr 1)"

definition Bytes_compute_size :: "bytes option \<Rightarrow> wire_error + usize" where
  "Bytes_compute_size v =
     (case v of
        Some s \<Rightarrow> if length s > 2 ^ 31 - 1 then Inl (Bail ''Data is too long to encode'') else Inr (4 + length s)
      | None \<Rightarrow> Inr 4)"

definition CompactBytes_compute_size :: "bytes option \<Rightarrow> wire_error + usize" where
  "CompactBytes_compute_size v =
     (case v of
        Some s \<Rightarrow>
          if length s \<ge> 2 ^ 32 - 1 then Inl (Bail ''CompactBytes is too long to encode'')
          else Inr (UnsignedVarInt_compute_size (length s + 1) + length s)
      | None \<Rightarrow> Inr 1)"

text \<open>The items of an array: the multiple of their fixed size, or the sum of their sizes.\<close>

definition items_size :: "usize option \<Rightarrow> ('a \<Rightarrow> wire_error + usize) \<Rightarrow> 'a list \<Rightarrow> wire_error + usize" where
  "items_size fixed_size siz a =
     (case fixed_size of Some n \<Rightarrow> Inr (length a * n) | None \<Rightarrow> sums (map siz a))"

definition Array_compute_size ::
  "usize option \<Rightarrow> ('a \<Rightarrow> wire_error + usize) \<Rightarrow> 'a list option \<Rightarrow> wire_error + usize" where
  "Array_compute_size fixed_size siz v =
     (case v of
        Some a \<Rightarrow>
          if length a > 2 ^ 31 - 1 then Inl (Bail ''Array is too long to encode'')
          else try_bind (items_size fixed_size siz a) (\<lambda>n. Inr (4 + n))
      | None \<Rightarrow> Inr 4)"

definition CompactArray_compute_size ::
  "usize option \<Rightarrow> ('a \<Rightarrow> wire_error + usize) \<Rightarrow> 'a list option \<Rightarrow> wire_error + usize" where
  "CompactArray_compute_size fixed_size siz v =
     (case v of
        Some a \<Rightarrow>
          if length a \<ge> 2 ^ 32 - 1 then Inl (Bail ''CompactArray is too long to encode'')
          else try_bind (items_size fixed_size siz a) (\<lambda>n. Inr (UnsignedVarInt_compute_size (length a + 1) + n))
      | None \<Rightarrow> Inr 1)"

text \<open>A UUID is its sixteen bytes.\<close>

definition Uuid_encode :: "uuid \<Rightarrow> bytes" where
  "Uuid_encode u = be_bytes 16 (uint u)"

definition Uuid_decode :: "uuid decoder" where
  "Uuid_decode buf = try_bind (try_get_bytes 16 buf) (\<lambda>(bs, rest). Inr (word_of_nat (be_nat bs), rest))"

text \<open>A structure that may be absent, with the codec of the structure.\<close>

definition OptionStruct_encode :: "('a \<Rightarrow> wire_error + bytes) \<Rightarrow> 'a option \<Rightarrow> wire_error + bytes" where
  "OptionStruct_encode enc v =
     (case v of Some x \<Rightarrow> puts [Inr (Int8_encode 1), enc x] | None \<Rightarrow> Inr (Int8_encode (- 1)))"

definition OptionStruct_compute_size :: "('a \<Rightarrow> wire_error + usize) \<Rightarrow> 'a option \<Rightarrow> wire_error + usize" where
  "OptionStruct_compute_size siz v =
     (case v of Some x \<Rightarrow> try_bind (siz x) (\<lambda>n. Inr (1 + n)) | None \<Rightarrow> Inr 1)"

definition OptionStruct_decode :: "'a decoder \<Rightarrow> 'a option decoder" where
  "OptionStruct_decode dec =
     get Int8_decode (\<lambda>present. if present = 1 then get dec (\<lambda>x. give (Some x)) else give None)"

section \<open>Tagged fields\<close>

text \<open>\<open>write_unknown_tagged_fields(buf, lo.., fields)\<close>; \<open>k as u32\<close> of a key.\<close>

fun write_tagged :: "i32 \<Rightarrow> (i32, bytes) btree_map \<Rightarrow> wire_error + bytes" where
  "write_tagged lo [] = Inr []"
| "write_tagged lo ((k, v) # tags) =
     (if k < lo then write_tagged lo tags
      else if length v > 2 ^ 32 - 1 then Inl (Bail ''Tagged field is too long to encode'')
      else try_bind (write_tagged lo tags) (\<lambda>bs.
           Inr (UnsignedVarInt_encode (nat (k mod 2 ^ 32)) @ UnsignedVarInt_encode (length v) @ v @ bs)))"

fun tagged_size :: "(i32, bytes) btree_map \<Rightarrow> wire_error + usize" where
  "tagged_size [] = Inr 0"
| "tagged_size ((k, v) # tags) =
     (if length v > 2 ^ 32 - 1 then Inl (Bail ''Tagged field is too long to encode'')
      else try_bind (tagged_size tags) (\<lambda>n.
           Inr (UnsignedVarInt_compute_size (nat (k mod 2 ^ 32)) + UnsignedVarInt_compute_size (length v) +
                length v + n)))"

text \<open>A known tagged field: its tag, its size and its value.\<close>

definition put_tag :: "nat \<Rightarrow> wire_error + usize \<Rightarrow> wire_error + bytes \<Rightarrow> wire_error + bytes" where
  "put_tag tag z e =
     try_bind z (\<lambda>computed_size.
     if computed_size > 2 ^ 32 - 1 then Inl (Bail ''Tagged field is too large to encode'')
     else puts [Inr (UnsignedVarInt_encode tag), Inr (UnsignedVarInt_encode computed_size), e])"

definition tag_size :: "nat \<Rightarrow> wire_error + usize \<Rightarrow> wire_error + usize" where
  "tag_size tag z =
     try_bind z (\<lambda>computed_size.
     if computed_size > 2 ^ 32 - 1 then Inl (Bail ''Tagged field is too large to encode'')
     else Inr (UnsignedVarInt_compute_size tag + UnsignedVarInt_compute_size computed_size + computed_size))"

text \<open>
  The tagged fields of a structure: how many there are, the known ones that are present, and the
  unknown ones from the first unknown tag on.
\<close>

definition put_tags ::
  "(bool \<times> (wire_error + bytes)) list \<Rightarrow> i32 \<Rightarrow> (i32, bytes) btree_map \<Rightarrow> wire_error + bytes" where
  "put_tags known lo unknown =
     (let num_tagged_fields = length unknown + length (filter fst known)
      in if num_tagged_fields > 2 ^ 32 - 1 then Inl (Bail ''Too many tagged fields to encode'')
         else puts (Inr (UnsignedVarInt_encode num_tagged_fields) # map snd (filter fst known) @
                    [write_tagged lo unknown]))"

definition tags_size ::
  "(bool \<times> (wire_error + usize)) list \<Rightarrow> (i32, bytes) btree_map \<Rightarrow> wire_error + usize" where
  "tags_size known unknown =
     (let num_tagged_fields = length unknown + length (filter fst known)
      in if num_tagged_fields > 2 ^ 32 - 1 then Inl (Bail ''Too many tagged fields to encode'')
         else sums (Inr (UnsignedVarInt_compute_size num_tagged_fields) # map snd (filter fst known) @
                    [tagged_size unknown]))"

text \<open>
  The loop over the tagged fields. \<open>known\<close> is the match on the tag: the read of a known field, which
  updates the values read so far, or none for the catch-all arm; \<open>tag as i32\<close> is the key.
\<close>

fun read_tags ::
  "(nat \<Rightarrow> 'k \<Rightarrow> 'k decoder option) \<Rightarrow> nat \<Rightarrow> 'k \<times> (i32, bytes) btree_map \<Rightarrow>
   ('k \<times> (i32, bytes) btree_map) decoder" where
  "read_tags known 0 s = give s"
| "read_tags known (Suc n) s =
     get UnsignedVarInt_decode (\<lambda>tag.
     get UnsignedVarInt_decode (\<lambda>len.
     get (case known tag (fst s) of
            Some d \<Rightarrow> get d (\<lambda>k. give (k, snd s))
          | None \<Rightarrow> get (try_get_bytes len) (\<lambda>v. give (fst s, bt_insert (wrap_i32 (int tag)) v (snd s))))
       (read_tags known n)))"

definition get_tags ::
  "(nat \<Rightarrow> 'k \<Rightarrow> 'k decoder option) \<Rightarrow> 'k \<Rightarrow> ('k \<times> (i32, bytes) btree_map) decoder" where
  "get_tags known k = get UnsignedVarInt_decode (\<lambda>n. read_tags known n (k, []))"

definition get_unknown_tags :: "(i32, bytes) btree_map decoder" where
  "get_unknown_tags = get (get_tags (\<lambda>_ _. None) ()) (\<lambda>s. give (snd s))"

section \<open>The contract\<close>

definition coded :: "wire_error + bytes \<Rightarrow> 'a decoder \<Rightarrow> wire_error + usize \<Rightarrow> 'a \<Rightarrow> bool" where
  "coded e d z x \<longleftrightarrow> (\<exists>bs. e = Inr bs \<and> z = Inr (length bs) \<and> (\<forall>rest. d (bs @ rest) = Inr (x, rest)))"

locale sized_codec =
  fixes enc :: "'a \<Rightarrow> wire_error + bytes"
    and dec :: "'a decoder"
    and siz :: "'a \<Rightarrow> wire_error + usize"
    and ok :: "'a \<Rightarrow> bool"
  assumes codes: "ok x \<Longrightarrow> coded (enc x) dec (siz x) x"
begin

lemma decodes: "ok x \<Longrightarrow> enc x = Inr bs \<Longrightarrow> dec (bs @ rest) = Inr (x, rest)"
  using codes [of x] by (auto simp: coded_def)

lemma items_coded:
  "list_all ok xs \<Longrightarrow>
   \<exists>bs. encode_items enc xs = Inr bs \<and> sums (map siz xs) = Inr (length bs) \<and>
        (\<forall>rest. decode_items dec (length xs) (bs @ rest) = Inr (xs, rest))"
proof (induction xs)
  case (Cons x xs)
  then obtain bs where bs: "encode_items enc xs = Inr bs" "sums (map siz xs) = Inr (length bs)"
    "\<And>rest. decode_items dec (length xs) (bs @ rest) = Inr (xs, rest)" by auto
  from Cons.prems codes [of x] obtain b where "enc x = Inr b" "siz x = Inr (length b)"
    "\<And>rest. dec (b @ rest) = Inr (x, rest)" by (auto simp: coded_def)
  with bs show ?case by simp
qed simp

lemma fixed_items:
  assumes "\<And>x. siz x = Inr n" and "list_all ok xs" and "encode_items enc xs = Inr bs"
  shows "length bs = length xs * n"
proof -
  have "sums (map siz xs) = Inr (length xs * n)" by (induction xs) (simp_all add: assms(1))
  with items_coded [OF assms(2)] assms(3) show ?thesis by auto
qed

end

sublocale sized_codec \<subseteq> sized: fallible_codec enc dec ok
  by unfold_locales (use codes in \<open>auto simp: coded_def\<close>)

section \<open>Rules for sequences\<close>

named_theorems coded_intros "rules that prove a codec correct along its definition"

lemma sized_codecI: "(\<And>x. ok x \<Longrightarrow> coded (enc x) dec (siz x) x) \<Longrightarrow> sized_codec enc dec siz ok"
  by unfold_locales

lemma coded_puts [coded_intros]:
  assumes "coded e d z x" and "coded (puts es) (k x) (sums zs) y"
  shows "coded (puts (e # es)) (get d k) (sums (z # zs)) y"
  using assms by (auto simp: coded_def get_def)

lemma coded_done [coded_intros]: "s = r \<Longrightarrow> coded (puts []) (give r) (sums []) s"
  by (simp add: coded_def give_def)

lemma coded_if [coded_intros]:
  assumes "c \<Longrightarrow> coded e d z x" and "\<not> c \<Longrightarrow> coded e' d' z' x"
  shows "coded (if c then e else e') (if c then d else d') (if c then z else z') x"
  using assms by simp

lemma coded_absent [coded_intros]: "x = y \<Longrightarrow> coded (Inr []) (give y) (Inr 0) x"
  by (simp add: coded_def give_def)

lemma coded_unset [coded_intros]: "c \<Longrightarrow> x = y \<Longrightarrow> coded (unset [] c) (give y) (unset 0 c) x"
  by (simp add: coded_def give_def unset_def)

lemma coded_versions [coded_intros]:
  "\<not> c \<Longrightarrow> coded e d z x \<Longrightarrow> coded (if c then Inl m else e) (if c then refuse m' else d) z x"
  by simp

section \<open>Rules for the types\<close>

lemma length_be_bytes_codecs [simp]:
  "length (Int8_encode a) = 1" "length (Int16_encode b) = 2" "length (Int32_encode c) = 4"
  "length (Int64_encode d) = 8"
  by (simp_all add: int_codec_defs)

interpretation sized_int8: sized_codec "\<lambda>x. Inr (Int8_encode x)" Int8_decode "\<lambda>_. Inr 1" in_i8
  by unfold_locales (simp add: coded_def int8.dec_enc)

interpretation sized_int16: sized_codec "\<lambda>x. Inr (Int16_encode x)" Int16_decode "\<lambda>_. Inr 2" in_i16
  by unfold_locales (simp add: coded_def int16.dec_enc)

interpretation sized_int32: sized_codec "\<lambda>x. Inr (Int32_encode x)" Int32_decode "\<lambda>_. Inr 4" in_i32
  by unfold_locales (simp add: coded_def int32.dec_enc)

interpretation sized_int64: sized_codec "\<lambda>x. Inr (Int64_encode x)" Int64_decode "\<lambda>_. Inr 8" in_i64
  by unfold_locales (simp add: coded_def int64.dec_enc)

lemma Boolean_decode_encode: "Boolean_decode (Boolean_encode b @ rest) = Inr (b, rest)"
  by (cases b) (simp_all add: Boolean_encode_def Boolean_decode_def try_get_u8_def)

interpretation sized_boolean: sized_codec "\<lambda>x. Inr (Boolean_encode x)" Boolean_decode "\<lambda>_. Inr 1" "\<lambda>_. True"
  by unfold_locales (simp add: coded_def Boolean_decode_encode, simp add: Boolean_encode_def)

lemma Uuid_decode_encode: "Uuid_decode (Uuid_encode u @ rest) = Inr (u, rest)"
proof -
  have "int (be_nat (Uuid_encode u)) = uint u mod 256 ^ 16"
    by (simp add: Uuid_encode_def int_be_nat_be_bytes)
  also have "\<dots> = uint u"
    using uint_lt2p [of u] by (intro mod_pos_pos_trivial) simp_all
  finally have "word_of_nat (be_nat (Uuid_encode u)) = u" by (metis of_int_of_nat_eq word_of_int_uint)
  moreover have "length (Uuid_encode u) = 16" by (simp add: Uuid_encode_def)
  ultimately show ?thesis using try_get_append [of "Uuid_encode u" rest] by (simp add: Uuid_decode_def)
qed

interpretation sized_uuid: sized_codec "\<lambda>x. Inr (Uuid_encode x)" Uuid_decode "\<lambda>_. Inr 16" "\<lambda>_. True"
  by unfold_locales (simp add: coded_def Uuid_decode_encode, simp add: Uuid_encode_def)

lemma length_uvar32 [simp]:
  "v < 2 ^ 32 \<Longrightarrow> length (UnsignedVarInt_encode v) = UnsignedVarInt_compute_size v"
  by (simp add: UnsignedVarInt_encode_def uvar_encode_size)

interpretation sized_uvar:
  sized_codec "\<lambda>v. Inr (UnsignedVarInt_encode v)" UnsignedVarInt_decode "\<lambda>v. Inr (UnsignedVarInt_compute_size v)"
    in_u32
  by unfold_locales (simp add: coded_def uvar32.dec_enc in_u32_def)

text \<open>The size of a value that was encoded.\<close>

lemma coded_size:
  assumes "\<exists>bs. enc x = Inr bs \<and> (\<forall>rest. dec (bs @ rest) = Inr (x, rest))"
    and "\<And>bs. enc x = Inr bs \<Longrightarrow> z = Inr (length bs)"
  shows "coded (enc x) dec z x"
  using assms by (auto simp: coded_def)

lemma compact_size_zero [simp]: "UnsignedVarInt_compute_size 0 = 1"
  by (simp add: UnsignedVarInt_compute_size_def)

lemma coded_required:
  "coded e d z (Some x) \<Longrightarrow> coded e (required m d) z x"
  by (auto simp: coded_def required_def)

interpretation sized_string: sized_codec String_encode String_decode String_compute_size "string_ok 32767"
  by unfold_locales
    (rule coded_size [OF nullable_string.encodes],
     auto simp: String_encode_def String_compute_size_def split: option.splits if_splits)

interpretation sized_compact_string:
  sized_codec CompactString_encode CompactString_decode CompactString_compute_size "string_ok (2 ^ 32 - 2)"
  by unfold_locales
    (rule coded_size [OF compact_string.encodes],
     auto simp: CompactString_encode_def CompactString_compute_size_def split: option.splits if_splits)

interpretation sized_bytes:
  sized_codec Bytes_encode Bytes_decode Bytes_compute_size "seq_ok (2 ^ 31 - 1) (\<lambda>_. True)"
  by unfold_locales
    (rule coded_size [OF nullable_bytes.encodes],
     auto simp: Bytes_encode_def Bytes_compute_size_def split: option.splits if_splits)

interpretation sized_compact_bytes:
  sized_codec CompactBytes_encode CompactBytes_decode CompactBytes_compute_size "seq_ok (2 ^ 32 - 2) (\<lambda>_. True)"
  by unfold_locales
    (rule coded_size [OF compact_bytes.encodes],
     auto simp: CompactBytes_encode_def CompactBytes_compute_size_def split: option.splits if_splits)

definition fixed_ok :: "usize option \<Rightarrow> ('a \<Rightarrow> wire_error + usize) \<Rightarrow> bool" where
  "fixed_ok fixed_size siz \<longleftrightarrow> (case fixed_size of None \<Rightarrow> True | Some n \<Rightarrow> \<forall>x. siz x = Inr n)"

lemma fixed_ok_intros [coded_intros]: "fixed_ok None siz" "fixed_ok (Some n) (\<lambda>_. Inr n)"
  by (simp_all add: fixed_ok_def)

lemma items_size_coded:
  assumes "sized_codec enc dec siz ok" and "fixed_ok fixed_size siz" and "list_all ok xs"
    and "encode_items enc xs = Inr bs"
  shows "items_size fixed_size siz xs = Inr (length bs)"
  using sized_codec.items_coded [OF assms(1,3)] sized_codec.fixed_items [OF assms(1) _ assms(3,4)] assms(2,4)
  by (auto simp: items_size_def fixed_ok_def split: option.splits)

lemma sized_fallible: "sized_codec enc dec siz ok \<Longrightarrow> fallible_codec enc dec ok"
  by unfold_locales (metis coded_def sized_codec.codes)

lemma coded_array [coded_intros]:
  assumes "sized_codec enc dec siz ok" and "fixed_ok fixed_size siz" and "seq_ok (2 ^ 31 - 1) ok v"
  shows "coded (Array_encode enc v) (Array_decode dec) (Array_compute_size fixed_size siz v) v"
proof (rule coded_size)
  show "\<exists>bs. Array_encode enc v = Inr bs \<and> (\<forall>rest. Array_decode dec (bs @ rest) = Inr (v, rest))"
    by (rule fallible_codec.encodes [OF array_codec [OF sized_fallible [OF assms(1)]] assms(3)])
  show "Array_compute_size fixed_size siz v = Inr (length bs)" if "Array_encode enc v = Inr bs" for bs
    using that assms(3) items_size_coded [OF assms(1,2)]
    by (auto simp: Array_encode_def Array_compute_size_def seq_ok_def try_bind_Inr split: option.splits if_splits)
qed

lemma coded_compact_array [coded_intros]:
  assumes "sized_codec enc dec siz ok" and "fixed_ok fixed_size siz" and "seq_ok (2 ^ 32 - 2) ok v"
  shows "coded (CompactArray_encode enc v) (CompactArray_decode dec)
    (CompactArray_compute_size fixed_size siz v) v"
proof (rule coded_size)
  show "\<exists>bs. CompactArray_encode enc v = Inr bs \<and> (\<forall>rest. CompactArray_decode dec (bs @ rest) = Inr (v, rest))"
    by (rule fallible_codec.encodes [OF compact_array_codec [OF sized_fallible [OF assms(1)]] assms(3)])
  show "CompactArray_compute_size fixed_size siz v = Inr (length bs)" if "CompactArray_encode enc v = Inr bs" for bs
    using that assms(3) items_size_coded [OF assms(1,2)]
    by (auto simp: CompactArray_encode_def CompactArray_compute_size_def seq_ok_def try_bind_Inr
        split: option.splits if_splits)
qed

lemmas coded_types [coded_intros] =
  sized_int8.codes sized_int16.codes sized_int32.codes sized_int64.codes
  sized_boolean.codes [OF TrueI] sized_uuid.codes [OF TrueI]
  sized_string.codes sized_compact_string.codes sized_bytes.codes sized_compact_bytes.codes

lemmas coded_required_types [coded_intros] =
  coded_required [OF sized_string.codes] coded_required [OF sized_compact_string.codes]
  coded_required [OF sized_bytes.codes] coded_required [OF sized_compact_bytes.codes]
  coded_required [OF coded_array] coded_required [OF coded_compact_array]

lemma sized_required:
  assumes "sized_codec enc dec siz ok"
  shows "sized_codec (\<lambda>x. enc (Some x)) (required m dec) (\<lambda>x. siz (Some x)) (\<lambda>x. ok (Some x))"
  by unfold_locales (blast intro: coded_required sized_codec.codes [OF assms])

lemmas sized_items [coded_intros] =
  sized_int32.sized_codec_axioms sized_int8.sized_codec_axioms sized_int64.sized_codec_axioms
  sized_required [OF sized_string.sized_codec_axioms]
  sized_required [OF sized_compact_string.sized_codec_axioms]

lemma coded_option_struct [coded_intros]:
  assumes "sized_codec enc dec siz ok" and "case v of None \<Rightarrow> True | Some x \<Rightarrow> ok x"
  shows "coded (OptionStruct_encode enc v) (OptionStruct_decode dec) (OptionStruct_compute_size siz v) v"
proof -
  have "Int8_decode (Int8_encode 1 @ rest) = Inr (1, rest)" "Int8_decode (Int8_encode (- 1) @ rest) = Inr (- 1, rest)"
    for rest by (simp_all add: int8.dec_enc in_i8_def)
  then show ?thesis
    using sized_codec.codes [OF assms(1)] assms(2)
    by (cases v) (force simp: coded_def OptionStruct_encode_def OptionStruct_decode_def
        OptionStruct_compute_size_def get_def give_def)+
qed

section \<open>Rules for tagged fields\<close>

text \<open>
  The tags a structure can keep: keys from its first unknown tag on. A key below it is counted
  but not written; the decoder makes a negative key of a tag from 2^31 on.
\<close>

definition tags_ok :: "i32 \<Rightarrow> (i32, bytes) btree_map \<Rightarrow> bool" where
  "tags_ok lo tags \<longleftrightarrow> bt_ok tags \<and> length tags + nat lo < 2 ^ 32 \<and>
     list_all (\<lambda>(k, v). 0 \<le> lo \<and> lo \<le> k \<and> in_i32 k \<and> length v < 2 ^ 32) tags"

lemma tags_ok_Nil [simp]: "tags_ok lo [] \<longleftrightarrow> nat lo < 2 ^ 32"
  by (simp add: tags_ok_def bt_ok_def)

lemma bt_insert_append:
  "list_all (\<lambda>(k', _). k' < k) m \<Longrightarrow> bt_insert k v m = m @ [(k, v)]"
  by (induction m) auto

lemma tag_wire: "0 \<le> k \<Longrightarrow> in_i32 k \<Longrightarrow> in_u32 (nat (k mod 2 ^ 32)) \<and> wrap_i32 (int (nat (k mod 2 ^ 32))) = k"
  by (simp add: in_u32_def in_i32_def wrap_i32_id)

text \<open>The unknown fields, for a match whose known arms are all below them.\<close>

lemma unknown_tags:
  assumes "list_all (\<lambda>(k, v). 0 \<le> lo \<and> lo \<le> k \<and> in_i32 k \<and> length v < 2 ^ 32) tags"
    and "bt_ok (before @ tags)" and "\<And>tag. nat lo \<le> tag \<Longrightarrow> known tag k = None"
  shows "\<exists>bs. write_tagged lo tags = Inr bs \<and> tagged_size tags = Inr (length bs) \<and>
    (\<forall>rest. read_tags known (length tags) (k, before) (bs @ rest) = Inr ((k, before @ tags), rest))"
  using assms(1,2)
proof (induction tags arbitrary: before)
  case (Cons kv tags)
  obtain i v where kv: "kv = (i, v)" by (cases kv)
  with Cons.prems have i: "0 \<le> i" "lo \<le> i" "in_i32 i" "length v < 2 ^ 32" by simp_all
  have "bt_ok ((before @ [(i, v)]) @ tags)" using Cons.prems(2) by (simp add: kv)
  from Cons.IH [OF _ this] Cons.prems(1) obtain bs where bs: "write_tagged lo tags = Inr bs"
    "tagged_size tags = Inr (length bs)"
    "\<And>rest. read_tags known (length tags) (k, before @ [(i, v)]) (bs @ rest) =
      Inr ((k, before @ (i, v) # tags), rest)"
    by auto
  have "bt_insert i v before = before @ [(i, v)]"
    using Cons.prems(2) by (intro bt_insert_append) (auto simp: kv bt_ok_def sorted_wrt_append list_all_iff)
  moreover have "known (nat (i mod 2 ^ 32)) k = None"
    using i by (intro assms(3)) (simp add: in_i32_def nat_mono)
  moreover note wire = tag_wire [OF i(1,3)]
  moreover have "nat (i mod 2 ^ 32) < 2 ^ 32" "in_u32 (length v)" using wire i(4) by (simp_all add: in_u32_def)
  ultimately show ?case
    using i bs by (simp add: kv uvar32.dec_enc get_def give_def)
qed (simp add: give_def)

lemma coded_unknown_tags [coded_intros]:
  assumes "tags_ok 0 tags"
  shows "coded (put_tags [] 0 tags) get_unknown_tags (tags_size [] tags) tags"
proof -
  from unknown_tags [of 0 tags "[]" "\<lambda>_ _. None" "()"] assms obtain bs where
    "write_tagged 0 tags = Inr bs" "tagged_size tags = Inr (length bs)"
    "\<And>rest. read_tags (\<lambda>_ _. None) (length tags) ((), []) (bs @ rest) = Inr (((), tags), rest)"
    by (auto simp: tags_ok_def)
  moreover have "length tags < 2 ^ 32" using assms by (simp add: tags_ok_def)
  ultimately show ?thesis
    by (simp add: coded_def put_tags_def tags_size_def get_unknown_tags_def get_tags_def get_def give_def
        uvar32.dec_enc in_u32_def)
qed

text \<open>The known fields: what they are written as is read back by the arms of the match, one after the other.\<close>

definition tags_coded ::
  "(nat \<Rightarrow> 'k \<Rightarrow> 'k decoder option) \<Rightarrow> (bool \<times> (wire_error + bytes)) list \<Rightarrow> (bool \<times> (wire_error + usize)) list \<Rightarrow>
   'k \<Rightarrow> 'k \<Rightarrow> bool" where
  "tags_coded known es zs k k' \<longleftrightarrow>
     map fst es = map fst zs \<and>
     (\<exists>bs. puts (map snd (filter fst es)) = Inr bs \<and> sums (map snd (filter fst zs)) = Inr (length bs) \<and>
        (\<forall>n u rest. read_tags known (length (filter fst es) + n) (k, u) (bs @ rest) =
           read_tags known n (k', u) rest))"

lemma tags_coded_Nil [coded_intros]: "k = k' \<Longrightarrow> tags_coded known [] [] k k'"
  by (simp add: tags_coded_def)

definition tag_fits :: "wire_error + usize \<Rightarrow> bool" where
  "tag_fits z \<longleftrightarrow> (case z of Inl _ \<Rightarrow> False | Inr n \<Rightarrow> n < 2 ^ 32)"

lemma tags_coded_Cons [coded_intros]:
  assumes "known tag k = Some d" and "c \<Longrightarrow> coded e d z k1" and "\<not> c \<Longrightarrow> k1 = k" and "c \<Longrightarrow> tag_fits z"
    and "tag < 2 ^ 32" and "tags_coded known es zs k1 k'"
  shows "tags_coded known ((c, put_tag tag z e) # es) ((c, tag_size tag z) # zs) k k'"
proof (cases c)
  case True
  from assms(2) [OF True] obtain b where b: "e = Inr b" "z = Inr (length b)" "\<And>rest. d (b @ rest) = Inr (k1, rest)"
    by (auto simp: coded_def)
  from assms(6) obtain bs where "puts (map snd (filter fst es)) = Inr bs"
    "sums (map snd (filter fst zs)) = Inr (length bs)" "map fst es = map fst zs"
    "\<And>n u rest. read_tags known (length (filter fst es) + n) (k1, u) (bs @ rest) = read_tags known n (k', u) rest"
    by (auto simp: tags_coded_def)
  with assms(1,4,5) b True show ?thesis
    by (simp add: tags_coded_def put_tag_def tag_size_def tag_fits_def get_def give_def uvar32.dec_enc in_u32_def)
next
  case False
  with assms(3,6) show ?thesis by (simp add: tags_coded_def)
qed

lemma coded_tag_value [coded_intros]: "coded e d z x \<Longrightarrow> coded e (get d (\<lambda>x. give (g x))) z (g x)"
  by (auto simp: coded_def get_def give_def)

lemma coded_tag_version [coded_intros]: "c \<Longrightarrow> coded e d z x \<Longrightarrow> coded e (if c then d else refuse m) z x"
  by simp

lemma tag_fits_simps [simp]: "tag_fits (Inr n) \<longleftrightarrow> n < 2 ^ 32"
  by (simp add: tag_fits_def)

lemma puts_append:
  "puts (es @ es') = try_bind (puts es) (\<lambda>bs. try_bind (puts es') (\<lambda>bs'. Inr (bs @ bs')))"
  by (induction es) (auto simp: try_bind_def split: sum.split)

lemma sums_append:
  "sums (zs @ zs') = try_bind (sums zs) (\<lambda>n. try_bind (sums zs') (\<lambda>m. Inr (n + m)))"
  by (induction zs) (auto simp: try_bind_def split: sum.split)

lemma coded_tags [coded_intros]:
  assumes "tags_coded known es zs k k'" and "tags_ok lo tags" and "length es \<le> nat lo"
    and "\<And>tag. nat lo \<le> tag \<Longrightarrow> known tag k' = None"
  shows "coded (put_tags es lo tags) (get_tags known k) (tags_size zs tags) (k', tags)"
proof -
  from unknown_tags [of lo tags "[]" known k'] assms(2,4) obtain bs where
    w: "write_tagged lo tags = Inr bs" "tagged_size tags = Inr (length bs)"
    "\<And>rest. read_tags known (length tags) (k', []) (bs @ rest) = Inr ((k', tags), rest)"
    by (auto simp: tags_ok_def)
  from assms(1) obtain b where
    b: "puts (map snd (filter fst es)) = Inr b" "sums (map snd (filter fst zs)) = Inr (length b)"
    and same: "map fst es = map fst zs"
    and r: "\<And>n u rest. read_tags known (length (filter fst es) + n) (k, u) (b @ rest) = read_tags known n (k', u) rest"
    by (auto simp: tags_coded_def)
  have "length (filter fst es) \<le> length es" by simp
  then have "length tags + length (filter fst es) < 2 ^ 32" using assms(2,3) unfolding tags_ok_def by linarith
  moreover have "length (filter fst zs) = length (filter fst es)"
    using arg_cong [OF same, of "\<lambda>bs. length (filter id bs)"] by (simp add: filter_map comp_def)
  ultimately show ?thesis
    using w b r [of "length tags"]
    by (simp add: coded_def put_tags_def tags_size_def get_tags_def get_def uvar32.dec_enc in_u32_def
        puts_append sums_append add.commute [of "length tags"])
qed

end
