(* ===== verification/Messages_Log.thy ===== *)
theory Messages_Log
  imports Prelude
begin

text \<open>
  Messages of the record path: requests and responses to produce, fetch and list offsets and to
  allocate a producer identifier
  (\<open>src/crates/kafka-protocol/src/messages/\<close>). Every message is a record with the fields of the Rust
  structure, and its \<open>_default\<close> is the value of \<open>Default::default()\<close>; a chain of \<open>with_\<close> calls is a
  record update. Strings are sequences of UTF-8 bytes; the identifier newtypes are their contents.
\<close>

section \<open>Produce\<close>

record partition_produce_data =
  ppd_index :: i32
  ppd_records :: "bytes option"
  ppd_unknown_tagged_fields :: "(i32, bytes) btree_map"

definition partition_produce_data_default :: partition_produce_data where
  "partition_produce_data_default =
     \<lparr>ppd_index = 0, ppd_records = Some [], ppd_unknown_tagged_fields = []\<rparr>"

record topic_produce_data =
  tpd_name :: string
  tpd_topic_id :: uuid
  tpd_partition_data :: "partition_produce_data list"
  tpd_unknown_tagged_fields :: "(i32, bytes) btree_map"

definition topic_produce_data_default :: topic_produce_data where
  "topic_produce_data_default =
     \<lparr>tpd_name = [], tpd_topic_id = nil_uuid, tpd_partition_data = [],
      tpd_unknown_tagged_fields = []\<rparr>"

record produce_request =
  prq_transactional_id :: "string option"
  prq_acks :: i16
  prq_timeout_ms :: i32
  prq_topic_data :: "topic_produce_data list"
  prq_unknown_tagged_fields :: "(i32, bytes) btree_map"

definition produce_request_default :: produce_request where
  "produce_request_default =
     \<lparr>prq_transactional_id = None, prq_acks = 0, prq_timeout_ms = 0, prq_topic_data = [],
      prq_unknown_tagged_fields = []\<rparr>"

record batch_index_and_error_message =
  biaem_batch_index :: i32
  biaem_batch_index_error_message :: "string option"
  biaem_unknown_tagged_fields :: "(i32, bytes) btree_map"

definition batch_index_and_error_message_default :: batch_index_and_error_message where
  "batch_index_and_error_message_default =
     \<lparr>biaem_batch_index = 0, biaem_batch_index_error_message = None,
      biaem_unknown_tagged_fields = []\<rparr>"

record produce_leader_id_and_epoch =
  pliae_leader_id :: i32
  pliae_leader_epoch :: i32
  pliae_unknown_tagged_fields :: "(i32, bytes) btree_map"

definition produce_leader_id_and_epoch_default :: produce_leader_id_and_epoch where
  "produce_leader_id_and_epoch_default =
     \<lparr>pliae_leader_id = - 1, pliae_leader_epoch = - 1, pliae_unknown_tagged_fields = []\<rparr>"

record produce_node_endpoint =
  pne_node_id :: i32
  pne_host :: string
  pne_port :: i32
  pne_rack :: "string option"
  pne_unknown_tagged_fields :: "(i32, bytes) btree_map"

definition produce_node_endpoint_default :: produce_node_endpoint where
  "produce_node_endpoint_default =
     \<lparr>pne_node_id = 0, pne_host = [], pne_port = 0, pne_rack = None,
      pne_unknown_tagged_fields = []\<rparr>"

record partition_produce_response =
  pprs_index :: i32
  pprs_error_code :: i16
  pprs_base_offset :: i64
  pprs_log_append_time_ms :: i64
  pprs_log_start_offset :: i64
  pprs_record_errors :: "batch_index_and_error_message list"
  pprs_error_message :: "string option"
  pprs_current_leader :: produce_leader_id_and_epoch
  pprs_unknown_tagged_fields :: "(i32, bytes) btree_map"

definition partition_produce_response_default :: partition_produce_response where
  "partition_produce_response_default =
     \<lparr>pprs_index = 0, pprs_error_code = 0, pprs_base_offset = 0, pprs_log_append_time_ms = - 1,
      pprs_log_start_offset = - 1, pprs_record_errors = [], pprs_error_message = None,
      pprs_current_leader = produce_leader_id_and_epoch_default, pprs_unknown_tagged_fields = []\<rparr>"

record topic_produce_response =
  tprs_name :: string
  tprs_topic_id :: uuid
  tprs_partition_responses :: "partition_produce_response list"
  tprs_unknown_tagged_fields :: "(i32, bytes) btree_map"

definition topic_produce_response_default :: topic_produce_response where
  "topic_produce_response_default =
     \<lparr>tprs_name = [], tprs_topic_id = nil_uuid, tprs_partition_responses = [],
      tprs_unknown_tagged_fields = []\<rparr>"

record produce_response =
  prs_responses :: "topic_produce_response list"
  prs_throttle_time_ms :: i32
  prs_node_endpoints :: "produce_node_endpoint list"
  prs_unknown_tagged_fields :: "(i32, bytes) btree_map"

definition produce_response_default :: produce_response where
  "produce_response_default =
     \<lparr>prs_responses = [], prs_throttle_time_ms = 0, prs_node_endpoints = [],
      prs_unknown_tagged_fields = []\<rparr>"

section \<open>Fetch\<close>

record fetch_partition =
  fpart_partition :: i32
  fpart_current_leader_epoch :: i32
  fpart_fetch_offset :: i64
  fpart_last_fetched_epoch :: i32
  fpart_log_start_offset :: i64
  fpart_partition_max_bytes :: i32
  fpart_replica_directory_id :: uuid
  fpart_high_watermark :: i64
  fpart_unknown_tagged_fields :: "(i32, bytes) btree_map"

definition fetch_partition_default :: fetch_partition where
  "fetch_partition_default =
     \<lparr>fpart_partition = 0, fpart_current_leader_epoch = - 1, fpart_fetch_offset = 0,
      fpart_last_fetched_epoch = - 1, fpart_log_start_offset = - 1, fpart_partition_max_bytes = 0,
      fpart_replica_directory_id = nil_uuid, fpart_high_watermark = 9223372036854775807,
      fpart_unknown_tagged_fields = []\<rparr>"

record replica_state =
  rst_replica_id :: i32
  rst_replica_epoch :: i64
  rst_unknown_tagged_fields :: "(i32, bytes) btree_map"

definition replica_state_default :: replica_state where
  "replica_state_default =
     \<lparr>rst_replica_id = - 1, rst_replica_epoch = - 1, rst_unknown_tagged_fields = []\<rparr>"

record fetch_topic =
  ftopic_topic :: string
  ftopic_topic_id :: uuid
  ftopic_partitions :: "fetch_partition list"
  ftopic_unknown_tagged_fields :: "(i32, bytes) btree_map"

definition fetch_topic_default :: fetch_topic where
  "fetch_topic_default =
     \<lparr>ftopic_topic = [], ftopic_topic_id = nil_uuid, ftopic_partitions = [],
      ftopic_unknown_tagged_fields = []\<rparr>"

record forgotten_topic =
  forgot_topic :: string
  forgot_topic_id :: uuid
  forgot_partitions :: "i32 list"
  forgot_unknown_tagged_fields :: "(i32, bytes) btree_map"

definition forgotten_topic_default :: forgotten_topic where
  "forgotten_topic_default =
     \<lparr>forgot_topic = [], forgot_topic_id = nil_uuid, forgot_partitions = [],
      forgot_unknown_tagged_fields = []\<rparr>"

record fetch_request =
  frq_cluster_id :: "string option"
  frq_replica_id :: i32
  frq_replica_state :: replica_state
  frq_max_wait_ms :: i32
  frq_min_bytes :: i32
  frq_max_bytes :: i32
  frq_isolation_level :: i8
  frq_session_id :: i32
  frq_session_epoch :: i32
  frq_topics :: "fetch_topic list"
  frq_forgotten_topics_data :: "forgotten_topic list"
  frq_rack_id :: string
  frq_unknown_tagged_fields :: "(i32, bytes) btree_map"

definition fetch_request_default :: fetch_request where
  "fetch_request_default =
     \<lparr>frq_cluster_id = None, frq_replica_id = - 1, frq_replica_state = replica_state_default,
      frq_max_wait_ms = 0, frq_min_bytes = 0, frq_max_bytes = 2147483647, frq_isolation_level = 0,
      frq_session_id = 0, frq_session_epoch = - 1, frq_topics = [], frq_forgotten_topics_data = [],
      frq_rack_id = [], frq_unknown_tagged_fields = []\<rparr>"

record aborted_transaction =
  atxn_producer_id :: i64
  atxn_first_offset :: i64
  atxn_unknown_tagged_fields :: "(i32, bytes) btree_map"

definition aborted_transaction_default :: aborted_transaction where
  "aborted_transaction_default =
     \<lparr>atxn_producer_id = 0, atxn_first_offset = 0, atxn_unknown_tagged_fields = []\<rparr>"

record epoch_end_offset =
  eeo_epoch :: i32
  eeo_end_offset :: i64
  eeo_unknown_tagged_fields :: "(i32, bytes) btree_map"

definition epoch_end_offset_default :: epoch_end_offset where
  "epoch_end_offset_default =
     \<lparr>eeo_epoch = - 1, eeo_end_offset = - 1, eeo_unknown_tagged_fields = []\<rparr>"

record fetch_leader_id_and_epoch =
  fliae_leader_id :: i32
  fliae_leader_epoch :: i32
  fliae_unknown_tagged_fields :: "(i32, bytes) btree_map"

definition fetch_leader_id_and_epoch_default :: fetch_leader_id_and_epoch where
  "fetch_leader_id_and_epoch_default =
     \<lparr>fliae_leader_id = - 1, fliae_leader_epoch = - 1, fliae_unknown_tagged_fields = []\<rparr>"

record snapshot_id =
  snap_end_offset :: i64
  snap_epoch :: i32
  snap_unknown_tagged_fields :: "(i32, bytes) btree_map"

definition snapshot_id_default :: snapshot_id where
  "snapshot_id_default =
     \<lparr>snap_end_offset = - 1, snap_epoch = - 1, snap_unknown_tagged_fields = []\<rparr>"

record partition_data =
  pdata_partition_index :: i32
  pdata_error_code :: i16
  pdata_high_watermark :: i64
  pdata_last_stable_offset :: i64
  pdata_log_start_offset :: i64
  pdata_diverging_epoch :: epoch_end_offset
  pdata_current_leader :: fetch_leader_id_and_epoch
  pdata_snapshot_id :: snapshot_id
  pdata_aborted_transactions :: "aborted_transaction list option"
  pdata_preferred_read_replica :: i32
  pdata_records :: "bytes option"
  pdata_unknown_tagged_fields :: "(i32, bytes) btree_map"

definition partition_data_default :: partition_data where
  "partition_data_default =
     \<lparr>pdata_partition_index = 0, pdata_error_code = 0, pdata_high_watermark = 0,
      pdata_last_stable_offset = - 1, pdata_log_start_offset = - 1,
      pdata_diverging_epoch = epoch_end_offset_default,
      pdata_current_leader = fetch_leader_id_and_epoch_default, pdata_snapshot_id = snapshot_id_default,
      pdata_aborted_transactions = Some [], pdata_preferred_read_replica = - 1, pdata_records = Some [],
      pdata_unknown_tagged_fields = []\<rparr>"

record fetchable_topic_response =
  ftrs_topic :: string
  ftrs_topic_id :: uuid
  ftrs_partitions :: "partition_data list"
  ftrs_unknown_tagged_fields :: "(i32, bytes) btree_map"

definition fetchable_topic_response_default :: fetchable_topic_response where
  "fetchable_topic_response_default =
     \<lparr>ftrs_topic = [], ftrs_topic_id = nil_uuid, ftrs_partitions = [],
      ftrs_unknown_tagged_fields = []\<rparr>"

record fetch_node_endpoint =
  fne_node_id :: i32
  fne_host :: string
  fne_port :: i32
  fne_rack :: "string option"
  fne_unknown_tagged_fields :: "(i32, bytes) btree_map"

definition fetch_node_endpoint_default :: fetch_node_endpoint where
  "fetch_node_endpoint_default =
     \<lparr>fne_node_id = 0, fne_host = [], fne_port = 0, fne_rack = None,
      fne_unknown_tagged_fields = []\<rparr>"

record fetch_response =
  frs_throttle_time_ms :: i32
  frs_error_code :: i16
  frs_session_id :: i32
  frs_responses :: "fetchable_topic_response list"
  frs_node_endpoints :: "fetch_node_endpoint list"
  frs_unknown_tagged_fields :: "(i32, bytes) btree_map"

definition fetch_response_default :: fetch_response where
  "fetch_response_default =
     \<lparr>frs_throttle_time_ms = 0, frs_error_code = 0, frs_session_id = 0, frs_responses = [],
      frs_node_endpoints = [], frs_unknown_tagged_fields = []\<rparr>"

section \<open>List offsets\<close>

record list_offsets_partition =
  lop_partition_index :: i32
  lop_current_leader_epoch :: i32
  lop_timestamp :: i64
  lop_unknown_tagged_fields :: "(i32, bytes) btree_map"

definition list_offsets_partition_default :: list_offsets_partition where
  "list_offsets_partition_default =
     \<lparr>lop_partition_index = 0, lop_current_leader_epoch = - 1, lop_timestamp = 0,
      lop_unknown_tagged_fields = []\<rparr>"

record list_offsets_topic =
  lot_name :: string
  lot_partitions :: "list_offsets_partition list"
  lot_unknown_tagged_fields :: "(i32, bytes) btree_map"

definition list_offsets_topic_default :: list_offsets_topic where
  "list_offsets_topic_default =
     \<lparr>lot_name = [], lot_partitions = [], lot_unknown_tagged_fields = []\<rparr>"

record list_offsets_request =
  lorq_replica_id :: i32
  lorq_isolation_level :: i8
  lorq_topics :: "list_offsets_topic list"
  lorq_timeout_ms :: i32
  lorq_unknown_tagged_fields :: "(i32, bytes) btree_map"

definition list_offsets_request_default :: list_offsets_request where
  "list_offsets_request_default =
     \<lparr>lorq_replica_id = 0, lorq_isolation_level = 0, lorq_topics = [], lorq_timeout_ms = 0,
      lorq_unknown_tagged_fields = []\<rparr>"

record list_offsets_partition_response =
  loprs_partition_index :: i32
  loprs_error_code :: i16
  loprs_timestamp :: i64
  loprs_offset :: i64
  loprs_leader_epoch :: i32
  loprs_unknown_tagged_fields :: "(i32, bytes) btree_map"

definition list_offsets_partition_response_default :: list_offsets_partition_response where
  "list_offsets_partition_response_default =
     \<lparr>loprs_partition_index = 0, loprs_error_code = 0, loprs_timestamp = - 1, loprs_offset = - 1,
      loprs_leader_epoch = - 1, loprs_unknown_tagged_fields = []\<rparr>"

record list_offsets_topic_response =
  lotrs_name :: string
  lotrs_partitions :: "list_offsets_partition_response list"
  lotrs_unknown_tagged_fields :: "(i32, bytes) btree_map"

definition list_offsets_topic_response_default :: list_offsets_topic_response where
  "list_offsets_topic_response_default =
     \<lparr>lotrs_name = [], lotrs_partitions = [], lotrs_unknown_tagged_fields = []\<rparr>"

record list_offsets_response =
  lors_throttle_time_ms :: i32
  lors_topics :: "list_offsets_topic_response list"
  lors_unknown_tagged_fields :: "(i32, bytes) btree_map"

definition list_offsets_response_default :: list_offsets_response where
  "list_offsets_response_default =
     \<lparr>lors_throttle_time_ms = 0, lors_topics = [], lors_unknown_tagged_fields = []\<rparr>"

section \<open>Init producer id\<close>

record init_producer_id_request =
  ipirq_transactional_id :: "string option"
  ipirq_transaction_timeout_ms :: i32
  ipirq_producer_id :: i64
  ipirq_producer_epoch :: i16
  ipirq_enable_2_pc :: bool
  ipirq_keep_prepared_txn :: bool
  ipirq_unknown_tagged_fields :: "(i32, bytes) btree_map"

definition init_producer_id_request_default :: init_producer_id_request where
  "init_producer_id_request_default =
     \<lparr>ipirq_transactional_id = Some [], ipirq_transaction_timeout_ms = 0, ipirq_producer_id = - 1,
      ipirq_producer_epoch = - 1, ipirq_enable_2_pc = False, ipirq_keep_prepared_txn = False,
      ipirq_unknown_tagged_fields = []\<rparr>"

record init_producer_id_response =
  ipirs_throttle_time_ms :: i32
  ipirs_error_code :: i16
  ipirs_producer_id :: i64
  ipirs_producer_epoch :: i16
  ipirs_ongoing_txn_producer_id :: i64
  ipirs_ongoing_txn_producer_epoch :: i16
  ipirs_unknown_tagged_fields :: "(i32, bytes) btree_map"

definition init_producer_id_response_default :: init_producer_id_response where
  "init_producer_id_response_default =
     \<lparr>ipirs_throttle_time_ms = 0, ipirs_error_code = 0, ipirs_producer_id = - 1,
      ipirs_producer_epoch = 0, ipirs_ongoing_txn_producer_id = - 1,
      ipirs_ongoing_txn_producer_epoch = - 1, ipirs_unknown_tagged_fields = []\<rparr>"

end
