(* ===== verification/Codec_Log.thy ===== *)
theory Codec_Log
  imports Message_Codec Messages_Log
begin

text \<open>
  The codecs of the messages produce, fetch, list offsets, init producer id
  (\<open>src/crates/kafka-protocol/src/messages/\<close>): the encoder, the size computation and the decoder of every structure,
  for every version of its schema, what a structure must satisfy to be sent in a version, and that it then comes back.
\<close>

section \<open>Produce\<close>

definition PartitionProduceData_encode :: "partition_produce_data \<Rightarrow> i16 \<Rightarrow> wire_error + bytes" where
  "PartitionProduceData_encode s version =
     (if version < 3 \<or> version > 13 then Inl UNSUPPORTED_VERSION
      else puts
        [Inr (Int32_encode (ppd_index s)),
         if version \<ge> 9 then CompactBytes_encode (ppd_records s) else Bytes_encode (ppd_records s),
         if version \<ge> 9 then put_tags [] 0 (ppd_unknown_tagged_fields s) else Inr []])"

definition PartitionProduceData_compute_size :: "partition_produce_data \<Rightarrow> i16 \<Rightarrow> wire_error + usize" where
  "PartitionProduceData_compute_size s version =
     sums
       [Inr 4,
        if version \<ge> 9
         then CompactBytes_compute_size (ppd_records s)
         else Bytes_compute_size (ppd_records s),
        if version \<ge> 9 then tags_size [] (ppd_unknown_tagged_fields s) else Inr 0]"

definition PartitionProduceData_decode :: "i16 \<Rightarrow> partition_produce_data decoder" where
  "PartitionProduceData_decode version =
     (if version < 3 \<or> version > 13 then refuse UNSUPPORTED_VERSION
      else
        get Int32_decode (\<lambda>index.
        get (if version \<ge> 9 then CompactBytes_decode else Bytes_decode) (\<lambda>records.
        get (if version \<ge> 9 then get_unknown_tags else give []) (\<lambda>unknown_tagged_fields.
        give \<lparr>ppd_index = index, ppd_records = records,
               ppd_unknown_tagged_fields = unknown_tagged_fields\<rparr>))))"

definition PartitionProduceData_ok :: "i16 \<Rightarrow> partition_produce_data \<Rightarrow> bool" where
  "PartitionProduceData_ok version s \<longleftrightarrow>
     \<not> (version < 3 \<or> version > 13) \<and>
     in_i32 (ppd_index s) \<and>
     (if version \<ge> 9
       then seq_ok (2 ^ 32 - 2) (\<lambda>_. True) (ppd_records s)
       else seq_ok (2 ^ 31 - 1) (\<lambda>_. True) (ppd_records s)) \<and>
     (if version \<ge> 9 then tags_ok 0 (ppd_unknown_tagged_fields s) else ppd_unknown_tagged_fields s = [])"

lemma PartitionProduceData_codec [coded_intros]:
  "sized_codec (\<lambda>s. PartitionProduceData_encode s version) (PartitionProduceData_decode version)
     (\<lambda>s. PartitionProduceData_compute_size s version) (PartitionProduceData_ok version)"
  unfolding PartitionProduceData_encode_def PartitionProduceData_decode_def PartitionProduceData_compute_size_def
  by (rule sized_codecI) (rule coded_intros | (simp add: PartitionProduceData_ok_def; fail))+

lemmas PartitionProduceData_coded [coded_intros] = sized_codec.codes [OF PartitionProduceData_codec]

definition TopicProduceData_encode :: "topic_produce_data \<Rightarrow> i16 \<Rightarrow> wire_error + bytes" where
  "TopicProduceData_encode s version =
     (if version < 3 \<or> version > 13 then Inl UNSUPPORTED_VERSION
      else puts
        [if version \<le> 12
          then if version \<ge> 9
                then CompactString_encode (Some (tpd_name s))
                else String_encode (Some (tpd_name s))
          else Inr [],
         if version \<ge> 13 then Inr (Uuid_encode (tpd_topic_id s)) else Inr [],
         if version \<ge> 9
          then CompactArray_encode (\<lambda>x. PartitionProduceData_encode x version) (Some (tpd_partition_data s))
          else Array_encode (\<lambda>x. PartitionProduceData_encode x version) (Some (tpd_partition_data s)),
         if version \<ge> 9 then put_tags [] 0 (tpd_unknown_tagged_fields s) else Inr []])"

definition TopicProduceData_compute_size :: "topic_produce_data \<Rightarrow> i16 \<Rightarrow> wire_error + usize" where
  "TopicProduceData_compute_size s version =
     sums
       [if version \<le> 12
         then if version \<ge> 9
               then CompactString_compute_size (Some (tpd_name s))
               else String_compute_size (Some (tpd_name s))
         else Inr 0,
        if version \<ge> 13 then Inr 16 else Inr 0,
        if version \<ge> 9
         then CompactArray_compute_size None (\<lambda>x. PartitionProduceData_compute_size x version) (Some (tpd_partition_data s))
         else Array_compute_size None (\<lambda>x. PartitionProduceData_compute_size x version) (Some (tpd_partition_data s)),
        if version \<ge> 9 then tags_size [] (tpd_unknown_tagged_fields s) else Inr 0]"

definition TopicProduceData_decode :: "i16 \<Rightarrow> topic_produce_data decoder" where
  "TopicProduceData_decode version =
     (if version < 3 \<or> version > 13 then refuse UNSUPPORTED_VERSION
      else
        get (if version \<le> 12
              then if version \<ge> 9 then CompactString_required else String_required
              else give []) (\<lambda>name.
        get (if version \<ge> 13 then Uuid_decode else give nil_uuid) (\<lambda>topic_id.
        get (if version \<ge> 9
              then CompactArray_required (PartitionProduceData_decode version)
              else Array_required (PartitionProduceData_decode version)) (\<lambda>partition_data.
        get (if version \<ge> 9 then get_unknown_tags else give []) (\<lambda>unknown_tagged_fields.
        give \<lparr>tpd_name = name, tpd_topic_id = topic_id, tpd_partition_data = partition_data,
               tpd_unknown_tagged_fields = unknown_tagged_fields\<rparr>)))))"

definition TopicProduceData_ok :: "i16 \<Rightarrow> topic_produce_data \<Rightarrow> bool" where
  "TopicProduceData_ok version s \<longleftrightarrow>
     \<not> (version < 3 \<or> version > 13) \<and>
     (if version \<le> 12
       then if version \<ge> 9
             then string_ok (2 ^ 32 - 2) (Some (tpd_name s))
             else string_ok 32767 (Some (tpd_name s))
       else tpd_name s = []) \<and>
     (if version \<ge> 13 then True else tpd_topic_id s = nil_uuid) \<and>
     (if version \<ge> 9
       then seq_ok (2 ^ 32 - 2) (PartitionProduceData_ok version) (Some (tpd_partition_data s))
       else seq_ok (2 ^ 31 - 1) (PartitionProduceData_ok version) (Some (tpd_partition_data s))) \<and>
     (if version \<ge> 9 then tags_ok 0 (tpd_unknown_tagged_fields s) else tpd_unknown_tagged_fields s = [])"

lemma TopicProduceData_codec [coded_intros]:
  "sized_codec (\<lambda>s. TopicProduceData_encode s version) (TopicProduceData_decode version)
     (\<lambda>s. TopicProduceData_compute_size s version) (TopicProduceData_ok version)"
  unfolding TopicProduceData_encode_def TopicProduceData_decode_def TopicProduceData_compute_size_def
  by (rule sized_codecI) (rule coded_intros | (clarsimp simp: TopicProduceData_ok_def; fail))+

lemmas TopicProduceData_coded [coded_intros] = sized_codec.codes [OF TopicProduceData_codec]

definition ProduceRequest_encode :: "produce_request \<Rightarrow> i16 \<Rightarrow> wire_error + bytes" where
  "ProduceRequest_encode s version =
     (if version < 3 \<or> version > 13 then Inl UNSUPPORTED_VERSION
      else puts
        [if version \<ge> 9
          then CompactString_encode (prq_transactional_id s)
          else String_encode (prq_transactional_id s),
         Inr (Int16_encode (prq_acks s)),
         Inr (Int32_encode (prq_timeout_ms s)),
         if version \<ge> 9
          then CompactArray_encode (\<lambda>x. TopicProduceData_encode x version) (Some (prq_topic_data s))
          else Array_encode (\<lambda>x. TopicProduceData_encode x version) (Some (prq_topic_data s)),
         if version \<ge> 9 then put_tags [] 0 (prq_unknown_tagged_fields s) else Inr []])"

definition ProduceRequest_compute_size :: "produce_request \<Rightarrow> i16 \<Rightarrow> wire_error + usize" where
  "ProduceRequest_compute_size s version =
     sums
       [if version \<ge> 9
         then CompactString_compute_size (prq_transactional_id s)
         else String_compute_size (prq_transactional_id s),
        Inr 2,
        Inr 4,
        if version \<ge> 9
         then CompactArray_compute_size None (\<lambda>x. TopicProduceData_compute_size x version) (Some (prq_topic_data s))
         else Array_compute_size None (\<lambda>x. TopicProduceData_compute_size x version) (Some (prq_topic_data s)),
        if version \<ge> 9 then tags_size [] (prq_unknown_tagged_fields s) else Inr 0]"

definition ProduceRequest_decode :: "i16 \<Rightarrow> produce_request decoder" where
  "ProduceRequest_decode version =
     (if version < 3 \<or> version > 13 then refuse UNSUPPORTED_VERSION
      else
        get (if version \<ge> 9 then CompactString_decode else String_decode) (\<lambda>transactional_id.
        get Int16_decode (\<lambda>acks.
        get Int32_decode (\<lambda>timeout_ms.
        get (if version \<ge> 9
              then CompactArray_required (TopicProduceData_decode version)
              else Array_required (TopicProduceData_decode version)) (\<lambda>topic_data.
        get (if version \<ge> 9 then get_unknown_tags else give []) (\<lambda>unknown_tagged_fields.
        give \<lparr>prq_transactional_id = transactional_id, prq_acks = acks,
               prq_timeout_ms = timeout_ms, prq_topic_data = topic_data,
               prq_unknown_tagged_fields = unknown_tagged_fields\<rparr>))))))"

definition ProduceRequest_ok :: "i16 \<Rightarrow> produce_request \<Rightarrow> bool" where
  "ProduceRequest_ok version s \<longleftrightarrow>
     \<not> (version < 3 \<or> version > 13) \<and>
     (if version \<ge> 9
       then string_ok (2 ^ 32 - 2) (prq_transactional_id s)
       else string_ok 32767 (prq_transactional_id s)) \<and>
     in_i16 (prq_acks s) \<and>
     in_i32 (prq_timeout_ms s) \<and>
     (if version \<ge> 9
       then seq_ok (2 ^ 32 - 2) (TopicProduceData_ok version) (Some (prq_topic_data s))
       else seq_ok (2 ^ 31 - 1) (TopicProduceData_ok version) (Some (prq_topic_data s))) \<and>
     (if version \<ge> 9 then tags_ok 0 (prq_unknown_tagged_fields s) else prq_unknown_tagged_fields s = [])"

lemma ProduceRequest_codec [coded_intros]:
  "sized_codec (\<lambda>s. ProduceRequest_encode s version) (ProduceRequest_decode version)
     (\<lambda>s. ProduceRequest_compute_size s version) (ProduceRequest_ok version)"
  unfolding ProduceRequest_encode_def ProduceRequest_decode_def ProduceRequest_compute_size_def
  by (rule sized_codecI) (rule coded_intros | (simp add: ProduceRequest_ok_def; fail))+

lemmas ProduceRequest_coded [coded_intros] = sized_codec.codes [OF ProduceRequest_codec]

definition BatchIndexAndErrorMessage_encode :: "batch_index_and_error_message \<Rightarrow> i16 \<Rightarrow> wire_error + bytes" where
  "BatchIndexAndErrorMessage_encode s version =
     (if version < 3 \<or> version > 13 then Inl UNSUPPORTED_VERSION
      else puts
        [if version \<ge> 8
          then Inr (Int32_encode (biaem_batch_index s))
          else unset [] (biaem_batch_index s = 0),
         if version \<ge> 8
          then if version \<ge> 9
                then CompactString_encode (biaem_batch_index_error_message s)
                else String_encode (biaem_batch_index_error_message s)
          else unset [] (biaem_batch_index_error_message s = None),
         if version \<ge> 9 then put_tags [] 0 (biaem_unknown_tagged_fields s) else Inr []])"

definition BatchIndexAndErrorMessage_compute_size :: "batch_index_and_error_message \<Rightarrow> i16 \<Rightarrow> wire_error + usize" where
  "BatchIndexAndErrorMessage_compute_size s version =
     sums
       [if version \<ge> 8 then Inr 4 else unset 0 (biaem_batch_index s = 0),
        if version \<ge> 8
         then if version \<ge> 9
               then CompactString_compute_size (biaem_batch_index_error_message s)
               else String_compute_size (biaem_batch_index_error_message s)
         else unset 0 (biaem_batch_index_error_message s = None),
        if version \<ge> 9 then tags_size [] (biaem_unknown_tagged_fields s) else Inr 0]"

definition BatchIndexAndErrorMessage_decode :: "i16 \<Rightarrow> batch_index_and_error_message decoder" where
  "BatchIndexAndErrorMessage_decode version =
     (if version < 3 \<or> version > 13 then refuse UNSUPPORTED_VERSION
      else
        get (if version \<ge> 8 then Int32_decode else give 0) (\<lambda>batch_index.
        get (if version \<ge> 8
              then if version \<ge> 9 then CompactString_decode else String_decode
              else give None) (\<lambda>batch_index_error_message.
        get (if version \<ge> 9 then get_unknown_tags else give []) (\<lambda>unknown_tagged_fields.
        give \<lparr>biaem_batch_index = batch_index,
               biaem_batch_index_error_message = batch_index_error_message,
               biaem_unknown_tagged_fields = unknown_tagged_fields\<rparr>))))"

definition BatchIndexAndErrorMessage_ok :: "i16 \<Rightarrow> batch_index_and_error_message \<Rightarrow> bool" where
  "BatchIndexAndErrorMessage_ok version s \<longleftrightarrow>
     \<not> (version < 3 \<or> version > 13) \<and>
     (if version \<ge> 8 then in_i32 (biaem_batch_index s) else biaem_batch_index s = 0) \<and>
     (if version \<ge> 8
       then if version \<ge> 9
             then string_ok (2 ^ 32 - 2) (biaem_batch_index_error_message s)
             else string_ok 32767 (biaem_batch_index_error_message s)
       else biaem_batch_index_error_message s = None) \<and>
     (if version \<ge> 9 then tags_ok 0 (biaem_unknown_tagged_fields s) else biaem_unknown_tagged_fields s = [])"

lemma BatchIndexAndErrorMessage_codec [coded_intros]:
  "sized_codec (\<lambda>s. BatchIndexAndErrorMessage_encode s version) (BatchIndexAndErrorMessage_decode version)
     (\<lambda>s. BatchIndexAndErrorMessage_compute_size s version) (BatchIndexAndErrorMessage_ok version)"
  unfolding BatchIndexAndErrorMessage_encode_def BatchIndexAndErrorMessage_decode_def BatchIndexAndErrorMessage_compute_size_def
  by (rule sized_codecI) (rule coded_intros | (simp add: BatchIndexAndErrorMessage_ok_def; fail))+

lemmas BatchIndexAndErrorMessage_coded [coded_intros] = sized_codec.codes [OF BatchIndexAndErrorMessage_codec]

definition ProduceLeaderIdAndEpoch_encode :: "produce_leader_id_and_epoch \<Rightarrow> i16 \<Rightarrow> wire_error + bytes" where
  "ProduceLeaderIdAndEpoch_encode s version =
     (if version < 3 \<or> version > 13 then Inl UNSUPPORTED_VERSION
      else puts
        [if version \<ge> 10
          then Inr (Int32_encode (pliae_leader_id s))
          else unset [] (pliae_leader_id s = - 1),
         if version \<ge> 10
          then Inr (Int32_encode (pliae_leader_epoch s))
          else unset [] (pliae_leader_epoch s = - 1),
         if version \<ge> 9 then put_tags [] 0 (pliae_unknown_tagged_fields s) else Inr []])"

definition ProduceLeaderIdAndEpoch_compute_size :: "produce_leader_id_and_epoch \<Rightarrow> i16 \<Rightarrow> wire_error + usize" where
  "ProduceLeaderIdAndEpoch_compute_size s version =
     sums
       [if version \<ge> 10 then Inr 4 else unset 0 (pliae_leader_id s = - 1),
        if version \<ge> 10 then Inr 4 else unset 0 (pliae_leader_epoch s = - 1),
        if version \<ge> 9 then tags_size [] (pliae_unknown_tagged_fields s) else Inr 0]"

definition ProduceLeaderIdAndEpoch_decode :: "i16 \<Rightarrow> produce_leader_id_and_epoch decoder" where
  "ProduceLeaderIdAndEpoch_decode version =
     (if version < 3 \<or> version > 13 then refuse UNSUPPORTED_VERSION
      else
        get (if version \<ge> 10 then Int32_decode else give (- 1)) (\<lambda>leader_id.
        get (if version \<ge> 10 then Int32_decode else give (- 1)) (\<lambda>leader_epoch.
        get (if version \<ge> 9 then get_unknown_tags else give []) (\<lambda>unknown_tagged_fields.
        give \<lparr>pliae_leader_id = leader_id, pliae_leader_epoch = leader_epoch,
               pliae_unknown_tagged_fields = unknown_tagged_fields\<rparr>))))"

definition ProduceLeaderIdAndEpoch_ok :: "i16 \<Rightarrow> produce_leader_id_and_epoch \<Rightarrow> bool" where
  "ProduceLeaderIdAndEpoch_ok version s \<longleftrightarrow>
     \<not> (version < 3 \<or> version > 13) \<and>
     (if version \<ge> 10 then in_i32 (pliae_leader_id s) else pliae_leader_id s = - 1) \<and>
     (if version \<ge> 10 then in_i32 (pliae_leader_epoch s) else pliae_leader_epoch s = - 1) \<and>
     (if version \<ge> 9 then tags_ok 0 (pliae_unknown_tagged_fields s) else pliae_unknown_tagged_fields s = [])"

lemma ProduceLeaderIdAndEpoch_codec [coded_intros]:
  "sized_codec (\<lambda>s. ProduceLeaderIdAndEpoch_encode s version) (ProduceLeaderIdAndEpoch_decode version)
     (\<lambda>s. ProduceLeaderIdAndEpoch_compute_size s version) (ProduceLeaderIdAndEpoch_ok version)"
  unfolding ProduceLeaderIdAndEpoch_encode_def ProduceLeaderIdAndEpoch_decode_def ProduceLeaderIdAndEpoch_compute_size_def
  by (rule sized_codecI) (rule coded_intros | (simp add: ProduceLeaderIdAndEpoch_ok_def; fail))+

lemmas ProduceLeaderIdAndEpoch_coded [coded_intros] = sized_codec.codes [OF ProduceLeaderIdAndEpoch_codec]

definition ProduceNodeEndpoint_encode :: "produce_node_endpoint \<Rightarrow> i16 \<Rightarrow> wire_error + bytes" where
  "ProduceNodeEndpoint_encode s version =
     (if version < 3 \<or> version > 13 then Inl UNSUPPORTED_VERSION
      else puts
        [if version \<ge> 10 then Inr (Int32_encode (pne_node_id s)) else unset [] (pne_node_id s = 0),
         if version \<ge> 10 then CompactString_encode (Some (pne_host s)) else unset [] (pne_host s = []),
         if version \<ge> 10 then Inr (Int32_encode (pne_port s)) else unset [] (pne_port s = 0),
         if version \<ge> 10 then CompactString_encode (pne_rack s) else unset [] (pne_rack s = None),
         if version \<ge> 9 then put_tags [] 0 (pne_unknown_tagged_fields s) else Inr []])"

definition ProduceNodeEndpoint_compute_size :: "produce_node_endpoint \<Rightarrow> i16 \<Rightarrow> wire_error + usize" where
  "ProduceNodeEndpoint_compute_size s version =
     sums
       [if version \<ge> 10 then Inr 4 else unset 0 (pne_node_id s = 0),
        if version \<ge> 10
         then CompactString_compute_size (Some (pne_host s))
         else unset 0 (pne_host s = []),
        if version \<ge> 10 then Inr 4 else unset 0 (pne_port s = 0),
        if version \<ge> 10 then CompactString_compute_size (pne_rack s) else unset 0 (pne_rack s = None),
        if version \<ge> 9 then tags_size [] (pne_unknown_tagged_fields s) else Inr 0]"

definition ProduceNodeEndpoint_decode :: "i16 \<Rightarrow> produce_node_endpoint decoder" where
  "ProduceNodeEndpoint_decode version =
     (if version < 3 \<or> version > 13 then refuse UNSUPPORTED_VERSION
      else
        get (if version \<ge> 10 then Int32_decode else give 0) (\<lambda>node_id.
        get (if version \<ge> 10 then CompactString_required else give []) (\<lambda>host.
        get (if version \<ge> 10 then Int32_decode else give 0) (\<lambda>port.
        get (if version \<ge> 10 then CompactString_decode else give None) (\<lambda>rack.
        get (if version \<ge> 9 then get_unknown_tags else give []) (\<lambda>unknown_tagged_fields.
        give \<lparr>pne_node_id = node_id, pne_host = host, pne_port = port, pne_rack = rack,
               pne_unknown_tagged_fields = unknown_tagged_fields\<rparr>))))))"

definition ProduceNodeEndpoint_ok :: "i16 \<Rightarrow> produce_node_endpoint \<Rightarrow> bool" where
  "ProduceNodeEndpoint_ok version s \<longleftrightarrow>
     \<not> (version < 3 \<or> version > 13) \<and>
     (if version \<ge> 10 then in_i32 (pne_node_id s) else pne_node_id s = 0) \<and>
     (if version \<ge> 10 then string_ok (2 ^ 32 - 2) (Some (pne_host s)) else pne_host s = []) \<and>
     (if version \<ge> 10 then in_i32 (pne_port s) else pne_port s = 0) \<and>
     (if version \<ge> 10 then string_ok (2 ^ 32 - 2) (pne_rack s) else pne_rack s = None) \<and>
     (if version \<ge> 9 then tags_ok 0 (pne_unknown_tagged_fields s) else pne_unknown_tagged_fields s = [])"

lemma ProduceNodeEndpoint_codec [coded_intros]:
  "sized_codec (\<lambda>s. ProduceNodeEndpoint_encode s version) (ProduceNodeEndpoint_decode version)
     (\<lambda>s. ProduceNodeEndpoint_compute_size s version) (ProduceNodeEndpoint_ok version)"
  unfolding ProduceNodeEndpoint_encode_def ProduceNodeEndpoint_decode_def ProduceNodeEndpoint_compute_size_def
  by (rule sized_codecI) (rule coded_intros | (simp add: ProduceNodeEndpoint_ok_def; fail))+

lemmas ProduceNodeEndpoint_coded [coded_intros] = sized_codec.codes [OF ProduceNodeEndpoint_codec]

definition PartitionProduceResponse_encode :: "partition_produce_response \<Rightarrow> i16 \<Rightarrow> wire_error + bytes" where
  "PartitionProduceResponse_encode s version =
     (if version < 3 \<or> version > 13 then Inl UNSUPPORTED_VERSION
      else puts
        [Inr (Int32_encode (pprs_index s)),
         Inr (Int16_encode (pprs_error_code s)),
         Inr (Int64_encode (pprs_base_offset s)),
         Inr (Int64_encode (pprs_log_append_time_ms s)),
         if version \<ge> 5 then Inr (Int64_encode (pprs_log_start_offset s)) else Inr [],
         if version \<ge> 8
          then if version \<ge> 9
                then CompactArray_encode (\<lambda>x. BatchIndexAndErrorMessage_encode x version) (Some (pprs_record_errors s))
                else Array_encode (\<lambda>x. BatchIndexAndErrorMessage_encode x version) (Some (pprs_record_errors s))
          else Inr [],
         if version \<ge> 8
          then if version \<ge> 9
                then CompactString_encode (pprs_error_message s)
                else String_encode (pprs_error_message s)
          else Inr [],
         if version \<ge> 9 then put_tags 
             [(version \<ge> 10 \<and> pprs_current_leader s \<noteq> produce_leader_id_and_epoch_default, put_tag 0 (ProduceLeaderIdAndEpoch_compute_size (pprs_current_leader s) version) (ProduceLeaderIdAndEpoch_encode (pprs_current_leader s) version))] 1 (pprs_unknown_tagged_fields s) else Inr []])"

definition PartitionProduceResponse_compute_size :: "partition_produce_response \<Rightarrow> i16 \<Rightarrow> wire_error + usize" where
  "PartitionProduceResponse_compute_size s version =
     sums
       [Inr 4,
        Inr 2,
        Inr 8,
        Inr 8,
        if version \<ge> 5 then Inr 8 else Inr 0,
        if version \<ge> 8
         then if version \<ge> 9
               then CompactArray_compute_size None (\<lambda>x. BatchIndexAndErrorMessage_compute_size x version) (Some (pprs_record_errors s))
               else Array_compute_size None (\<lambda>x. BatchIndexAndErrorMessage_compute_size x version) (Some (pprs_record_errors s))
         else Inr 0,
        if version \<ge> 8
         then if version \<ge> 9
               then CompactString_compute_size (pprs_error_message s)
               else String_compute_size (pprs_error_message s)
         else Inr 0,
        if version \<ge> 9 then tags_size 
            [(version \<ge> 10 \<and> pprs_current_leader s \<noteq> produce_leader_id_and_epoch_default, tag_size 0 (ProduceLeaderIdAndEpoch_compute_size (pprs_current_leader s) version))] (pprs_unknown_tagged_fields s) else Inr 0]"

definition PartitionProduceResponse_decode :: "i16 \<Rightarrow> partition_produce_response decoder" where
  "PartitionProduceResponse_decode version =
     (if version < 3 \<or> version > 13 then refuse UNSUPPORTED_VERSION
      else
        get Int32_decode (\<lambda>index.
        get Int16_decode (\<lambda>error_code.
        get Int64_decode (\<lambda>base_offset.
        get Int64_decode (\<lambda>log_append_time_ms.
        get (if version \<ge> 5 then Int64_decode else give (- 1)) (\<lambda>log_start_offset.
        get (if version \<ge> 8
              then if version \<ge> 9
                    then CompactArray_required (BatchIndexAndErrorMessage_decode version)
                    else Array_required (BatchIndexAndErrorMessage_decode version)
              else give []) (\<lambda>record_errors.
        get (if version \<ge> 8
              then if version \<ge> 9 then CompactString_decode else String_decode
              else give None) (\<lambda>error_message.
        get (if version \<ge> 9
             then get_tags (\<lambda>tag current_leader.
              if tag = 0 then Some (if version \<ge> 10 then get (ProduceLeaderIdAndEpoch_decode version) (\<lambda>x. give x)
                   else refuse (Bail ''Tag is not valid for version''))
              else None) produce_leader_id_and_epoch_default
             else give (produce_leader_id_and_epoch_default, [])) (\<lambda>(current_leader, unknown_tagged_fields).
        give \<lparr>pprs_index = index, pprs_error_code = error_code, pprs_base_offset = base_offset,
               pprs_log_append_time_ms = log_append_time_ms, pprs_log_start_offset = log_start_offset,
               pprs_record_errors = record_errors, pprs_error_message = error_message,
               pprs_current_leader = current_leader, pprs_unknown_tagged_fields = unknown_tagged_fields\<rparr>)))))))))"

definition PartitionProduceResponse_ok :: "i16 \<Rightarrow> partition_produce_response \<Rightarrow> bool" where
  "PartitionProduceResponse_ok version s \<longleftrightarrow>
     \<not> (version < 3 \<or> version > 13) \<and>
     in_i32 (pprs_index s) \<and>
     in_i16 (pprs_error_code s) \<and>
     in_i64 (pprs_base_offset s) \<and>
     in_i64 (pprs_log_append_time_ms s) \<and>
     (if version \<ge> 5 then in_i64 (pprs_log_start_offset s) else pprs_log_start_offset s = - 1) \<and>
     (if version \<ge> 8
       then if version \<ge> 9
             then seq_ok (2 ^ 32 - 2) (BatchIndexAndErrorMessage_ok version) (Some (pprs_record_errors s))
             else seq_ok (2 ^ 31 - 1) (BatchIndexAndErrorMessage_ok version) (Some (pprs_record_errors s))
       else pprs_record_errors s = []) \<and>
     (if version \<ge> 8
       then if version \<ge> 9
             then string_ok (2 ^ 32 - 2) (pprs_error_message s)
             else string_ok 32767 (pprs_error_message s)
       else pprs_error_message s = None) \<and>
     (if version \<ge> 10 \<and> version \<ge> 9 then ProduceLeaderIdAndEpoch_ok version (pprs_current_leader s) \<and> tag_fits (ProduceLeaderIdAndEpoch_compute_size (pprs_current_leader s) version) else pprs_current_leader s = produce_leader_id_and_epoch_default) \<and>
     (if version \<ge> 9 then tags_ok 1 (pprs_unknown_tagged_fields s) else pprs_unknown_tagged_fields s = [])"

lemma PartitionProduceResponse_codec [coded_intros]:
  "sized_codec (\<lambda>s. PartitionProduceResponse_encode s version) (PartitionProduceResponse_decode version)
     (\<lambda>s. PartitionProduceResponse_compute_size s version) (PartitionProduceResponse_ok version)"
  unfolding PartitionProduceResponse_encode_def PartitionProduceResponse_decode_def PartitionProduceResponse_compute_size_def
  by (rule sized_codecI) (rule coded_intros | simp only: prod.case | (simp add: PartitionProduceResponse_ok_def; fail)
    | (auto simp: PartitionProduceResponse_ok_def split: if_splits; fail))+

lemmas PartitionProduceResponse_coded [coded_intros] = sized_codec.codes [OF PartitionProduceResponse_codec]

definition TopicProduceResponse_encode :: "topic_produce_response \<Rightarrow> i16 \<Rightarrow> wire_error + bytes" where
  "TopicProduceResponse_encode s version =
     (if version < 3 \<or> version > 13 then Inl UNSUPPORTED_VERSION
      else puts
        [if version \<le> 12
          then if version \<ge> 9
                then CompactString_encode (Some (tprs_name s))
                else String_encode (Some (tprs_name s))
          else Inr [],
         if version \<ge> 13 then Inr (Uuid_encode (tprs_topic_id s)) else Inr [],
         if version \<ge> 9
          then CompactArray_encode (\<lambda>x. PartitionProduceResponse_encode x version) (Some (tprs_partition_responses s))
          else Array_encode (\<lambda>x. PartitionProduceResponse_encode x version) (Some (tprs_partition_responses s)),
         if version \<ge> 9 then put_tags [] 0 (tprs_unknown_tagged_fields s) else Inr []])"

definition TopicProduceResponse_compute_size :: "topic_produce_response \<Rightarrow> i16 \<Rightarrow> wire_error + usize" where
  "TopicProduceResponse_compute_size s version =
     sums
       [if version \<le> 12
         then if version \<ge> 9
               then CompactString_compute_size (Some (tprs_name s))
               else String_compute_size (Some (tprs_name s))
         else Inr 0,
        if version \<ge> 13 then Inr 16 else Inr 0,
        if version \<ge> 9
         then CompactArray_compute_size None (\<lambda>x. PartitionProduceResponse_compute_size x version) (Some (tprs_partition_responses s))
         else Array_compute_size None (\<lambda>x. PartitionProduceResponse_compute_size x version) (Some (tprs_partition_responses s)),
        if version \<ge> 9 then tags_size [] (tprs_unknown_tagged_fields s) else Inr 0]"

definition TopicProduceResponse_decode :: "i16 \<Rightarrow> topic_produce_response decoder" where
  "TopicProduceResponse_decode version =
     (if version < 3 \<or> version > 13 then refuse UNSUPPORTED_VERSION
      else
        get (if version \<le> 12
              then if version \<ge> 9 then CompactString_required else String_required
              else give []) (\<lambda>name.
        get (if version \<ge> 13 then Uuid_decode else give nil_uuid) (\<lambda>topic_id.
        get (if version \<ge> 9
              then CompactArray_required (PartitionProduceResponse_decode version)
              else Array_required (PartitionProduceResponse_decode version)) (\<lambda>partition_responses.
        get (if version \<ge> 9 then get_unknown_tags else give []) (\<lambda>unknown_tagged_fields.
        give \<lparr>tprs_name = name, tprs_topic_id = topic_id,
               tprs_partition_responses = partition_responses,
               tprs_unknown_tagged_fields = unknown_tagged_fields\<rparr>)))))"

definition TopicProduceResponse_ok :: "i16 \<Rightarrow> topic_produce_response \<Rightarrow> bool" where
  "TopicProduceResponse_ok version s \<longleftrightarrow>
     \<not> (version < 3 \<or> version > 13) \<and>
     (if version \<le> 12
       then if version \<ge> 9
             then string_ok (2 ^ 32 - 2) (Some (tprs_name s))
             else string_ok 32767 (Some (tprs_name s))
       else tprs_name s = []) \<and>
     (if version \<ge> 13 then True else tprs_topic_id s = nil_uuid) \<and>
     (if version \<ge> 9
       then seq_ok (2 ^ 32 - 2) (PartitionProduceResponse_ok version) (Some (tprs_partition_responses s))
       else seq_ok (2 ^ 31 - 1) (PartitionProduceResponse_ok version) (Some (tprs_partition_responses s))) \<and>
     (if version \<ge> 9 then tags_ok 0 (tprs_unknown_tagged_fields s) else tprs_unknown_tagged_fields s = [])"

lemma TopicProduceResponse_codec [coded_intros]:
  "sized_codec (\<lambda>s. TopicProduceResponse_encode s version) (TopicProduceResponse_decode version)
     (\<lambda>s. TopicProduceResponse_compute_size s version) (TopicProduceResponse_ok version)"
  unfolding TopicProduceResponse_encode_def TopicProduceResponse_decode_def TopicProduceResponse_compute_size_def
  by (rule sized_codecI) (rule coded_intros | (clarsimp simp: TopicProduceResponse_ok_def; fail))+

lemmas TopicProduceResponse_coded [coded_intros] = sized_codec.codes [OF TopicProduceResponse_codec]

definition ProduceResponse_encode :: "produce_response \<Rightarrow> i16 \<Rightarrow> wire_error + bytes" where
  "ProduceResponse_encode s version =
     (if version < 3 \<or> version > 13 then Inl UNSUPPORTED_VERSION
      else puts
        [if version \<ge> 9
          then CompactArray_encode (\<lambda>x. TopicProduceResponse_encode x version) (Some (prs_responses s))
          else Array_encode (\<lambda>x. TopicProduceResponse_encode x version) (Some (prs_responses s)),
         Inr (Int32_encode (prs_throttle_time_ms s)),
         if version \<ge> 9 then put_tags 
             [(version \<ge> 10 \<and> prs_node_endpoints s \<noteq> [], put_tag 0 (CompactArray_compute_size None (\<lambda>x. ProduceNodeEndpoint_compute_size x version) (Some (prs_node_endpoints s))) (CompactArray_encode (\<lambda>x. ProduceNodeEndpoint_encode x version) (Some (prs_node_endpoints s))))] 1 (prs_unknown_tagged_fields s) else Inr []])"

definition ProduceResponse_compute_size :: "produce_response \<Rightarrow> i16 \<Rightarrow> wire_error + usize" where
  "ProduceResponse_compute_size s version =
     sums
       [if version \<ge> 9
         then CompactArray_compute_size None (\<lambda>x. TopicProduceResponse_compute_size x version) (Some (prs_responses s))
         else Array_compute_size None (\<lambda>x. TopicProduceResponse_compute_size x version) (Some (prs_responses s)),
        Inr 4,
        if version \<ge> 9 then tags_size 
            [(version \<ge> 10 \<and> prs_node_endpoints s \<noteq> [], tag_size 0 (CompactArray_compute_size None (\<lambda>x. ProduceNodeEndpoint_compute_size x version) (Some (prs_node_endpoints s))))] (prs_unknown_tagged_fields s) else Inr 0]"

definition ProduceResponse_decode :: "i16 \<Rightarrow> produce_response decoder" where
  "ProduceResponse_decode version =
     (if version < 3 \<or> version > 13 then refuse UNSUPPORTED_VERSION
      else
        get (if version \<ge> 9
              then CompactArray_required (TopicProduceResponse_decode version)
              else Array_required (TopicProduceResponse_decode version)) (\<lambda>responses.
        get Int32_decode (\<lambda>throttle_time_ms.
        get (if version \<ge> 9
             then get_tags (\<lambda>tag node_endpoints.
              if tag = 0 then Some (if version \<ge> 10 then get (CompactArray_required (ProduceNodeEndpoint_decode version)) (\<lambda>x. give x)
                   else refuse (Bail ''Tag is not valid for version''))
              else None) []
             else give ([], [])) (\<lambda>(node_endpoints, unknown_tagged_fields).
        give \<lparr>prs_responses = responses, prs_throttle_time_ms = throttle_time_ms,
               prs_node_endpoints = node_endpoints, prs_unknown_tagged_fields = unknown_tagged_fields\<rparr>))))"

definition ProduceResponse_ok :: "i16 \<Rightarrow> produce_response \<Rightarrow> bool" where
  "ProduceResponse_ok version s \<longleftrightarrow>
     \<not> (version < 3 \<or> version > 13) \<and>
     (if version \<ge> 9
       then seq_ok (2 ^ 32 - 2) (TopicProduceResponse_ok version) (Some (prs_responses s))
       else seq_ok (2 ^ 31 - 1) (TopicProduceResponse_ok version) (Some (prs_responses s))) \<and>
     in_i32 (prs_throttle_time_ms s) \<and>
     (if version \<ge> 10 \<and> version \<ge> 9 then seq_ok (2 ^ 32 - 2) (ProduceNodeEndpoint_ok version) (Some (prs_node_endpoints s)) \<and> tag_fits (CompactArray_compute_size None (\<lambda>x. ProduceNodeEndpoint_compute_size x version) (Some (prs_node_endpoints s))) else prs_node_endpoints s = []) \<and>
     (if version \<ge> 9 then tags_ok 1 (prs_unknown_tagged_fields s) else prs_unknown_tagged_fields s = [])"

lemma ProduceResponse_codec [coded_intros]:
  "sized_codec (\<lambda>s. ProduceResponse_encode s version) (ProduceResponse_decode version)
     (\<lambda>s. ProduceResponse_compute_size s version) (ProduceResponse_ok version)"
  unfolding ProduceResponse_encode_def ProduceResponse_decode_def ProduceResponse_compute_size_def
  by (rule sized_codecI) (rule coded_intros | simp only: prod.case | (simp add: ProduceResponse_ok_def; fail)
    | (auto simp: ProduceResponse_ok_def split: if_splits; fail))+

lemmas ProduceResponse_coded [coded_intros] = sized_codec.codes [OF ProduceResponse_codec]

section \<open>Fetch\<close>

definition FetchPartition_encode :: "fetch_partition \<Rightarrow> i16 \<Rightarrow> wire_error + bytes" where
  "FetchPartition_encode s version =
     (if version < 4 \<or> version > 18 then Inl UNSUPPORTED_VERSION
      else puts
        [Inr (Int32_encode (fpart_partition s)),
         if version \<ge> 9 then Inr (Int32_encode (fpart_current_leader_epoch s)) else Inr [],
         Inr (Int64_encode (fpart_fetch_offset s)),
         if version \<ge> 12
          then Inr (Int32_encode (fpart_last_fetched_epoch s))
          else unset [] (fpart_last_fetched_epoch s = - 1),
         if version \<ge> 5 then Inr (Int64_encode (fpart_log_start_offset s)) else Inr [],
         Inr (Int32_encode (fpart_partition_max_bytes s)),
         if version \<ge> 12 then put_tags 
             [(version \<ge> 17 \<and> fpart_replica_directory_id s \<noteq> nil_uuid, put_tag 0 (Inr 16) (Inr (Uuid_encode (fpart_replica_directory_id s)))),
              (version \<ge> 18 \<and> fpart_high_watermark s \<noteq> 9223372036854775807, put_tag 1 (Inr 8) (Inr (Int64_encode (fpart_high_watermark s))))] 2 (fpart_unknown_tagged_fields s) else Inr []])"

definition FetchPartition_compute_size :: "fetch_partition \<Rightarrow> i16 \<Rightarrow> wire_error + usize" where
  "FetchPartition_compute_size s version =
     sums
       [Inr 4,
        if version \<ge> 9 then Inr 4 else Inr 0,
        Inr 8,
        if version \<ge> 12 then Inr 4 else unset 0 (fpart_last_fetched_epoch s = - 1),
        if version \<ge> 5 then Inr 8 else Inr 0,
        Inr 4,
        if version \<ge> 12 then tags_size 
            [(version \<ge> 17 \<and> fpart_replica_directory_id s \<noteq> nil_uuid, tag_size 0 (Inr 16)),
             (version \<ge> 18 \<and> fpart_high_watermark s \<noteq> 9223372036854775807, tag_size 1 (Inr 8))] (fpart_unknown_tagged_fields s) else Inr 0]"

definition FetchPartition_decode :: "i16 \<Rightarrow> fetch_partition decoder" where
  "FetchPartition_decode version =
     (if version < 4 \<or> version > 18 then refuse UNSUPPORTED_VERSION
      else
        get Int32_decode (\<lambda>partition.
        get (if version \<ge> 9 then Int32_decode else give (- 1)) (\<lambda>current_leader_epoch.
        get Int64_decode (\<lambda>fetch_offset.
        get (if version \<ge> 12 then Int32_decode else give (- 1)) (\<lambda>last_fetched_epoch.
        get (if version \<ge> 5 then Int64_decode else give (- 1)) (\<lambda>log_start_offset.
        get Int32_decode (\<lambda>partition_max_bytes.
        get (if version \<ge> 12
             then get_tags (\<lambda>tag (replica_directory_id, high_watermark).
              if tag = 0 then Some (if version \<ge> 17 then get Uuid_decode (\<lambda>x. give (x, high_watermark))
                   else refuse (Bail ''Tag is not valid for version''))
              else if tag = 1 then Some (if version \<ge> 18 then get Int64_decode (\<lambda>x. give (replica_directory_id, x))
                   else refuse (Bail ''Tag is not valid for version''))
              else None) (nil_uuid, 9223372036854775807)
             else give ((nil_uuid, 9223372036854775807), [])) (\<lambda>((replica_directory_id, high_watermark), unknown_tagged_fields).
        give \<lparr>fpart_partition = partition, fpart_current_leader_epoch = current_leader_epoch,
               fpart_fetch_offset = fetch_offset, fpart_last_fetched_epoch = last_fetched_epoch,
               fpart_log_start_offset = log_start_offset,
               fpart_partition_max_bytes = partition_max_bytes,
               fpart_replica_directory_id = replica_directory_id,
               fpart_high_watermark = high_watermark,
               fpart_unknown_tagged_fields = unknown_tagged_fields\<rparr>))))))))"

definition FetchPartition_ok :: "i16 \<Rightarrow> fetch_partition \<Rightarrow> bool" where
  "FetchPartition_ok version s \<longleftrightarrow>
     \<not> (version < 4 \<or> version > 18) \<and>
     in_i32 (fpart_partition s) \<and>
     (if version \<ge> 9 then in_i32 (fpart_current_leader_epoch s) else fpart_current_leader_epoch s = - 1) \<and>
     in_i64 (fpart_fetch_offset s) \<and>
     (if version \<ge> 12 then in_i32 (fpart_last_fetched_epoch s) else fpart_last_fetched_epoch s = - 1) \<and>
     (if version \<ge> 5 then in_i64 (fpart_log_start_offset s) else fpart_log_start_offset s = - 1) \<and>
     in_i32 (fpart_partition_max_bytes s) \<and>
     (if version \<ge> 17 \<and> version \<ge> 12 then True else fpart_replica_directory_id s = nil_uuid) \<and>
     (if version \<ge> 18 \<and> version \<ge> 12 then in_i64 (fpart_high_watermark s) else fpart_high_watermark s = 9223372036854775807) \<and>
     (if version \<ge> 12 then tags_ok 2 (fpart_unknown_tagged_fields s) else fpart_unknown_tagged_fields s = [])"

lemma FetchPartition_codec [coded_intros]:
  "sized_codec (\<lambda>s. FetchPartition_encode s version) (FetchPartition_decode version)
     (\<lambda>s. FetchPartition_compute_size s version) (FetchPartition_ok version)"
  unfolding FetchPartition_encode_def FetchPartition_decode_def FetchPartition_compute_size_def
  by (rule sized_codecI) (rule coded_intros | simp only: prod.case | (simp add: FetchPartition_ok_def; fail)
    | (auto simp: FetchPartition_ok_def split: if_splits; fail))+

lemmas FetchPartition_coded [coded_intros] = sized_codec.codes [OF FetchPartition_codec]

definition ReplicaState_encode :: "replica_state \<Rightarrow> i16 \<Rightarrow> wire_error + bytes" where
  "ReplicaState_encode s version =
     (if version < 4 \<or> version > 18 then Inl UNSUPPORTED_VERSION
      else puts
        [if version \<ge> 15
          then Inr (Int32_encode (rst_replica_id s))
          else unset [] (rst_replica_id s = - 1),
         if version \<ge> 15
          then Inr (Int64_encode (rst_replica_epoch s))
          else unset [] (rst_replica_epoch s = - 1),
         if version \<ge> 12 then put_tags [] 0 (rst_unknown_tagged_fields s) else Inr []])"

definition ReplicaState_compute_size :: "replica_state \<Rightarrow> i16 \<Rightarrow> wire_error + usize" where
  "ReplicaState_compute_size s version =
     sums
       [if version \<ge> 15 then Inr 4 else unset 0 (rst_replica_id s = - 1),
        if version \<ge> 15 then Inr 8 else unset 0 (rst_replica_epoch s = - 1),
        if version \<ge> 12 then tags_size [] (rst_unknown_tagged_fields s) else Inr 0]"

definition ReplicaState_decode :: "i16 \<Rightarrow> replica_state decoder" where
  "ReplicaState_decode version =
     (if version < 4 \<or> version > 18 then refuse UNSUPPORTED_VERSION
      else
        get (if version \<ge> 15 then Int32_decode else give (- 1)) (\<lambda>replica_id.
        get (if version \<ge> 15 then Int64_decode else give (- 1)) (\<lambda>replica_epoch.
        get (if version \<ge> 12 then get_unknown_tags else give []) (\<lambda>unknown_tagged_fields.
        give \<lparr>rst_replica_id = replica_id, rst_replica_epoch = replica_epoch,
               rst_unknown_tagged_fields = unknown_tagged_fields\<rparr>))))"

definition ReplicaState_ok :: "i16 \<Rightarrow> replica_state \<Rightarrow> bool" where
  "ReplicaState_ok version s \<longleftrightarrow>
     \<not> (version < 4 \<or> version > 18) \<and>
     (if version \<ge> 15 then in_i32 (rst_replica_id s) else rst_replica_id s = - 1) \<and>
     (if version \<ge> 15 then in_i64 (rst_replica_epoch s) else rst_replica_epoch s = - 1) \<and>
     (if version \<ge> 12 then tags_ok 0 (rst_unknown_tagged_fields s) else rst_unknown_tagged_fields s = [])"

lemma ReplicaState_codec [coded_intros]:
  "sized_codec (\<lambda>s. ReplicaState_encode s version) (ReplicaState_decode version)
     (\<lambda>s. ReplicaState_compute_size s version) (ReplicaState_ok version)"
  unfolding ReplicaState_encode_def ReplicaState_decode_def ReplicaState_compute_size_def
  by (rule sized_codecI) (rule coded_intros | (simp add: ReplicaState_ok_def; fail))+

lemmas ReplicaState_coded [coded_intros] = sized_codec.codes [OF ReplicaState_codec]

definition FetchTopic_encode :: "fetch_topic \<Rightarrow> i16 \<Rightarrow> wire_error + bytes" where
  "FetchTopic_encode s version =
     (if version < 4 \<or> version > 18 then Inl UNSUPPORTED_VERSION
      else puts
        [if version \<le> 12
          then if version \<ge> 12
                then CompactString_encode (Some (ftopic_topic s))
                else String_encode (Some (ftopic_topic s))
          else Inr [],
         if version \<ge> 13 then Inr (Uuid_encode (ftopic_topic_id s)) else Inr [],
         if version \<ge> 12
          then CompactArray_encode (\<lambda>x. FetchPartition_encode x version) (Some (ftopic_partitions s))
          else Array_encode (\<lambda>x. FetchPartition_encode x version) (Some (ftopic_partitions s)),
         if version \<ge> 12 then put_tags [] 0 (ftopic_unknown_tagged_fields s) else Inr []])"

definition FetchTopic_compute_size :: "fetch_topic \<Rightarrow> i16 \<Rightarrow> wire_error + usize" where
  "FetchTopic_compute_size s version =
     sums
       [if version \<le> 12
         then if version \<ge> 12
               then CompactString_compute_size (Some (ftopic_topic s))
               else String_compute_size (Some (ftopic_topic s))
         else Inr 0,
        if version \<ge> 13 then Inr 16 else Inr 0,
        if version \<ge> 12
         then CompactArray_compute_size None (\<lambda>x. FetchPartition_compute_size x version) (Some (ftopic_partitions s))
         else Array_compute_size None (\<lambda>x. FetchPartition_compute_size x version) (Some (ftopic_partitions s)),
        if version \<ge> 12 then tags_size [] (ftopic_unknown_tagged_fields s) else Inr 0]"

definition FetchTopic_decode :: "i16 \<Rightarrow> fetch_topic decoder" where
  "FetchTopic_decode version =
     (if version < 4 \<or> version > 18 then refuse UNSUPPORTED_VERSION
      else
        get (if version \<le> 12
              then if version \<ge> 12 then CompactString_required else String_required
              else give []) (\<lambda>topic.
        get (if version \<ge> 13 then Uuid_decode else give nil_uuid) (\<lambda>topic_id.
        get (if version \<ge> 12
              then CompactArray_required (FetchPartition_decode version)
              else Array_required (FetchPartition_decode version)) (\<lambda>partitions.
        get (if version \<ge> 12 then get_unknown_tags else give []) (\<lambda>unknown_tagged_fields.
        give \<lparr>ftopic_topic = topic, ftopic_topic_id = topic_id, ftopic_partitions = partitions,
               ftopic_unknown_tagged_fields = unknown_tagged_fields\<rparr>)))))"

definition FetchTopic_ok :: "i16 \<Rightarrow> fetch_topic \<Rightarrow> bool" where
  "FetchTopic_ok version s \<longleftrightarrow>
     \<not> (version < 4 \<or> version > 18) \<and>
     (if version \<le> 12
       then if version \<ge> 12
             then string_ok (2 ^ 32 - 2) (Some (ftopic_topic s))
             else string_ok 32767 (Some (ftopic_topic s))
       else ftopic_topic s = []) \<and>
     (if version \<ge> 13 then True else ftopic_topic_id s = nil_uuid) \<and>
     (if version \<ge> 12
       then seq_ok (2 ^ 32 - 2) (FetchPartition_ok version) (Some (ftopic_partitions s))
       else seq_ok (2 ^ 31 - 1) (FetchPartition_ok version) (Some (ftopic_partitions s))) \<and>
     (if version \<ge> 12 then tags_ok 0 (ftopic_unknown_tagged_fields s) else ftopic_unknown_tagged_fields s = [])"

lemma FetchTopic_codec [coded_intros]:
  "sized_codec (\<lambda>s. FetchTopic_encode s version) (FetchTopic_decode version)
     (\<lambda>s. FetchTopic_compute_size s version) (FetchTopic_ok version)"
  unfolding FetchTopic_encode_def FetchTopic_decode_def FetchTopic_compute_size_def
  by (rule sized_codecI) (rule coded_intros | (simp add: FetchTopic_ok_def; fail))+

lemmas FetchTopic_coded [coded_intros] = sized_codec.codes [OF FetchTopic_codec]

definition ForgottenTopic_encode :: "forgotten_topic \<Rightarrow> i16 \<Rightarrow> wire_error + bytes" where
  "ForgottenTopic_encode s version =
     (if version < 4 \<or> version > 18 then Inl UNSUPPORTED_VERSION
      else puts
        [if version \<ge> 7 \<and> version \<le> 12
          then if version \<ge> 12
                then CompactString_encode (Some (forgot_topic s))
                else String_encode (Some (forgot_topic s))
          else Inr [],
         if version \<ge> 13 then Inr (Uuid_encode (forgot_topic_id s)) else Inr [],
         if version \<ge> 7
          then if version \<ge> 12
                then CompactArray_encode (\<lambda>x. Inr (Int32_encode x)) (Some (forgot_partitions s))
                else Array_encode (\<lambda>x. Inr (Int32_encode x)) (Some (forgot_partitions s))
          else unset [] (forgot_partitions s = []),
         if version \<ge> 12 then put_tags [] 0 (forgot_unknown_tagged_fields s) else Inr []])"

definition ForgottenTopic_compute_size :: "forgotten_topic \<Rightarrow> i16 \<Rightarrow> wire_error + usize" where
  "ForgottenTopic_compute_size s version =
     sums
       [if version \<ge> 7 \<and> version \<le> 12
         then if version \<ge> 12
               then CompactString_compute_size (Some (forgot_topic s))
               else String_compute_size (Some (forgot_topic s))
         else Inr 0,
        if version \<ge> 13 then Inr 16 else Inr 0,
        if version \<ge> 7
         then if version \<ge> 12
               then CompactArray_compute_size (Some 4) (\<lambda>_. Inr 4) (Some (forgot_partitions s))
               else Array_compute_size (Some 4) (\<lambda>_. Inr 4) (Some (forgot_partitions s))
         else unset 0 (forgot_partitions s = []),
        if version \<ge> 12 then tags_size [] (forgot_unknown_tagged_fields s) else Inr 0]"

definition ForgottenTopic_decode :: "i16 \<Rightarrow> forgotten_topic decoder" where
  "ForgottenTopic_decode version =
     (if version < 4 \<or> version > 18 then refuse UNSUPPORTED_VERSION
      else
        get (if version \<ge> 7 \<and> version \<le> 12
              then if version \<ge> 12 then CompactString_required else String_required
              else give []) (\<lambda>topic.
        get (if version \<ge> 13 then Uuid_decode else give nil_uuid) (\<lambda>topic_id.
        get (if version \<ge> 7
              then if version \<ge> 12
                    then CompactArray_required Int32_decode
                    else Array_required Int32_decode
              else give []) (\<lambda>partitions.
        get (if version \<ge> 12 then get_unknown_tags else give []) (\<lambda>unknown_tagged_fields.
        give \<lparr>forgot_topic = topic, forgot_topic_id = topic_id, forgot_partitions = partitions,
               forgot_unknown_tagged_fields = unknown_tagged_fields\<rparr>)))))"

definition ForgottenTopic_ok :: "i16 \<Rightarrow> forgotten_topic \<Rightarrow> bool" where
  "ForgottenTopic_ok version s \<longleftrightarrow>
     \<not> (version < 4 \<or> version > 18) \<and>
     (if version \<ge> 7 \<and> version \<le> 12
       then if version \<ge> 12
             then string_ok (2 ^ 32 - 2) (Some (forgot_topic s))
             else string_ok 32767 (Some (forgot_topic s))
       else forgot_topic s = []) \<and>
     (if version \<ge> 13 then True else forgot_topic_id s = nil_uuid) \<and>
     (if version \<ge> 7
       then if version \<ge> 12
             then seq_ok (2 ^ 32 - 2) in_i32 (Some (forgot_partitions s))
             else seq_ok (2 ^ 31 - 1) in_i32 (Some (forgot_partitions s))
       else forgot_partitions s = []) \<and>
     (if version \<ge> 12 then tags_ok 0 (forgot_unknown_tagged_fields s) else forgot_unknown_tagged_fields s = [])"

lemma ForgottenTopic_codec [coded_intros]:
  "sized_codec (\<lambda>s. ForgottenTopic_encode s version) (ForgottenTopic_decode version)
     (\<lambda>s. ForgottenTopic_compute_size s version) (ForgottenTopic_ok version)"
  unfolding ForgottenTopic_encode_def ForgottenTopic_decode_def ForgottenTopic_compute_size_def
  by (rule sized_codecI) (rule coded_intros | (simp add: ForgottenTopic_ok_def; fail))+

lemmas ForgottenTopic_coded [coded_intros] = sized_codec.codes [OF ForgottenTopic_codec]

definition FetchRequest_encode :: "fetch_request \<Rightarrow> i16 \<Rightarrow> wire_error + bytes" where
  "FetchRequest_encode s version =
     (if version < 4 \<or> version > 18 then Inl UNSUPPORTED_VERSION
      else puts
        [if version \<le> 14
          then Inr (Int32_encode (frq_replica_id s))
          else unset [] (frq_replica_id s = - 1),
         Inr (Int32_encode (frq_max_wait_ms s)),
         Inr (Int32_encode (frq_min_bytes s)),
         Inr (Int32_encode (frq_max_bytes s)),
         Inr (Int8_encode (frq_isolation_level s)),
         if version \<ge> 7 then Inr (Int32_encode (frq_session_id s)) else Inr [],
         if version \<ge> 7 then Inr (Int32_encode (frq_session_epoch s)) else Inr [],
         if version \<ge> 12
          then CompactArray_encode (\<lambda>x. FetchTopic_encode x version) (Some (frq_topics s))
          else Array_encode (\<lambda>x. FetchTopic_encode x version) (Some (frq_topics s)),
         if version \<ge> 7
          then if version \<ge> 12
                then CompactArray_encode (\<lambda>x. ForgottenTopic_encode x version) (Some (frq_forgotten_topics_data s))
                else Array_encode (\<lambda>x. ForgottenTopic_encode x version) (Some (frq_forgotten_topics_data s))
          else unset [] (frq_forgotten_topics_data s = []),
         if version \<ge> 11
          then if version \<ge> 12
                then CompactString_encode (Some (frq_rack_id s))
                else String_encode (Some (frq_rack_id s))
          else Inr [],
         if version \<ge> 12 then put_tags 
             [(frq_cluster_id s \<noteq> None, put_tag 0 (CompactString_compute_size (frq_cluster_id s)) (CompactString_encode (frq_cluster_id s))),
              (version \<ge> 15 \<and> frq_replica_state s \<noteq> replica_state_default, put_tag 1 (ReplicaState_compute_size (frq_replica_state s) version) (ReplicaState_encode (frq_replica_state s) version))] 2 (frq_unknown_tagged_fields s) else Inr []])"

definition FetchRequest_compute_size :: "fetch_request \<Rightarrow> i16 \<Rightarrow> wire_error + usize" where
  "FetchRequest_compute_size s version =
     sums
       [if version \<le> 14 then Inr 4 else unset 0 (frq_replica_id s = - 1),
        Inr 4,
        Inr 4,
        Inr 4,
        Inr 1,
        if version \<ge> 7 then Inr 4 else Inr 0,
        if version \<ge> 7 then Inr 4 else Inr 0,
        if version \<ge> 12
         then CompactArray_compute_size None (\<lambda>x. FetchTopic_compute_size x version) (Some (frq_topics s))
         else Array_compute_size None (\<lambda>x. FetchTopic_compute_size x version) (Some (frq_topics s)),
        if version \<ge> 7
         then if version \<ge> 12
               then CompactArray_compute_size None (\<lambda>x. ForgottenTopic_compute_size x version) (Some (frq_forgotten_topics_data s))
               else Array_compute_size None (\<lambda>x. ForgottenTopic_compute_size x version) (Some (frq_forgotten_topics_data s))
         else unset 0 (frq_forgotten_topics_data s = []),
        if version \<ge> 11
         then if version \<ge> 12
               then CompactString_compute_size (Some (frq_rack_id s))
               else String_compute_size (Some (frq_rack_id s))
         else Inr 0,
        if version \<ge> 12 then tags_size 
            [(frq_cluster_id s \<noteq> None, tag_size 0 (CompactString_compute_size (frq_cluster_id s))),
             (version \<ge> 15 \<and> frq_replica_state s \<noteq> replica_state_default, tag_size 1 (ReplicaState_compute_size (frq_replica_state s) version))] (frq_unknown_tagged_fields s) else Inr 0]"

definition FetchRequest_decode :: "i16 \<Rightarrow> fetch_request decoder" where
  "FetchRequest_decode version =
     (if version < 4 \<or> version > 18 then refuse UNSUPPORTED_VERSION
      else
        get (if version \<le> 14 then Int32_decode else give (- 1)) (\<lambda>replica_id.
        get Int32_decode (\<lambda>max_wait_ms.
        get Int32_decode (\<lambda>min_bytes.
        get Int32_decode (\<lambda>max_bytes.
        get Int8_decode (\<lambda>isolation_level.
        get (if version \<ge> 7 then Int32_decode else give 0) (\<lambda>session_id.
        get (if version \<ge> 7 then Int32_decode else give (- 1)) (\<lambda>session_epoch.
        get (if version \<ge> 12
              then CompactArray_required (FetchTopic_decode version)
              else Array_required (FetchTopic_decode version)) (\<lambda>topics.
        get (if version \<ge> 7
              then if version \<ge> 12
                    then CompactArray_required (ForgottenTopic_decode version)
                    else Array_required (ForgottenTopic_decode version)
              else give []) (\<lambda>forgotten_topics_data.
        get (if version \<ge> 11
              then if version \<ge> 12 then CompactString_required else String_required
              else give []) (\<lambda>rack_id.
        get (if version \<ge> 12
             then get_tags (\<lambda>tag (cluster_id, replica_state).
              if tag = 0 then Some (get CompactString_decode (\<lambda>x. give (x, replica_state)))
              else if tag = 1 then Some (if version \<ge> 15 then get (ReplicaState_decode version) (\<lambda>x. give (cluster_id, x))
                   else refuse (Bail ''Tag is not valid for version''))
              else None) (None, replica_state_default)
             else give ((None, replica_state_default), [])) (\<lambda>((cluster_id, replica_state), unknown_tagged_fields).
        give \<lparr>frq_cluster_id = cluster_id, frq_replica_id = replica_id,
               frq_replica_state = replica_state, frq_max_wait_ms = max_wait_ms,
               frq_min_bytes = min_bytes, frq_max_bytes = max_bytes,
               frq_isolation_level = isolation_level, frq_session_id = session_id,
               frq_session_epoch = session_epoch, frq_topics = topics,
               frq_forgotten_topics_data = forgotten_topics_data, frq_rack_id = rack_id,
               frq_unknown_tagged_fields = unknown_tagged_fields\<rparr>))))))))))))"

definition FetchRequest_ok :: "i16 \<Rightarrow> fetch_request \<Rightarrow> bool" where
  "FetchRequest_ok version s \<longleftrightarrow>
     \<not> (version < 4 \<or> version > 18) \<and>
     (if version \<le> 14 then in_i32 (frq_replica_id s) else frq_replica_id s = - 1) \<and>
     in_i32 (frq_max_wait_ms s) \<and>
     in_i32 (frq_min_bytes s) \<and>
     in_i32 (frq_max_bytes s) \<and>
     in_i8 (frq_isolation_level s) \<and>
     (if version \<ge> 7 then in_i32 (frq_session_id s) else frq_session_id s = 0) \<and>
     (if version \<ge> 7 then in_i32 (frq_session_epoch s) else frq_session_epoch s = - 1) \<and>
     (if version \<ge> 12
       then seq_ok (2 ^ 32 - 2) (FetchTopic_ok version) (Some (frq_topics s))
       else seq_ok (2 ^ 31 - 1) (FetchTopic_ok version) (Some (frq_topics s))) \<and>
     (if version \<ge> 7
       then if version \<ge> 12
             then seq_ok (2 ^ 32 - 2) (ForgottenTopic_ok version) (Some (frq_forgotten_topics_data s))
             else seq_ok (2 ^ 31 - 1) (ForgottenTopic_ok version) (Some (frq_forgotten_topics_data s))
       else frq_forgotten_topics_data s = []) \<and>
     (if version \<ge> 11
       then if version \<ge> 12
             then string_ok (2 ^ 32 - 2) (Some (frq_rack_id s))
             else string_ok 32767 (Some (frq_rack_id s))
       else frq_rack_id s = []) \<and>
     (if version \<ge> 12 then string_ok (2 ^ 32 - 2) (frq_cluster_id s) \<and> tag_fits (CompactString_compute_size (frq_cluster_id s)) else frq_cluster_id s = None) \<and>
     (if version \<ge> 15 \<and> version \<ge> 12 then ReplicaState_ok version (frq_replica_state s) \<and> tag_fits (ReplicaState_compute_size (frq_replica_state s) version) else frq_replica_state s = replica_state_default) \<and>
     (if version \<ge> 12 then tags_ok 2 (frq_unknown_tagged_fields s) else frq_unknown_tagged_fields s = [])"

lemma FetchRequest_codec [coded_intros]:
  "sized_codec (\<lambda>s. FetchRequest_encode s version) (FetchRequest_decode version)
     (\<lambda>s. FetchRequest_compute_size s version) (FetchRequest_ok version)"
  unfolding FetchRequest_encode_def FetchRequest_decode_def FetchRequest_compute_size_def
  by (rule sized_codecI) (rule coded_intros | simp only: prod.case | (simp add: FetchRequest_ok_def; fail)
    | (auto simp: FetchRequest_ok_def split: if_splits; fail))+

lemmas FetchRequest_coded [coded_intros] = sized_codec.codes [OF FetchRequest_codec]

definition AbortedTransaction_encode :: "aborted_transaction \<Rightarrow> i16 \<Rightarrow> wire_error + bytes" where
  "AbortedTransaction_encode s version =
     (if version < 4 \<or> version > 18 then Inl UNSUPPORTED_VERSION
      else puts
        [Inr (Int64_encode (atxn_producer_id s)),
         Inr (Int64_encode (atxn_first_offset s)),
         if version \<ge> 12 then put_tags [] 0 (atxn_unknown_tagged_fields s) else Inr []])"

definition AbortedTransaction_compute_size :: "aborted_transaction \<Rightarrow> i16 \<Rightarrow> wire_error + usize" where
  "AbortedTransaction_compute_size s version =
     sums
       [Inr 8,
        Inr 8,
        if version \<ge> 12 then tags_size [] (atxn_unknown_tagged_fields s) else Inr 0]"

definition AbortedTransaction_decode :: "i16 \<Rightarrow> aborted_transaction decoder" where
  "AbortedTransaction_decode version =
     (if version < 4 \<or> version > 18 then refuse UNSUPPORTED_VERSION
      else
        get Int64_decode (\<lambda>producer_id.
        get Int64_decode (\<lambda>first_offset.
        get (if version \<ge> 12 then get_unknown_tags else give []) (\<lambda>unknown_tagged_fields.
        give \<lparr>atxn_producer_id = producer_id, atxn_first_offset = first_offset,
               atxn_unknown_tagged_fields = unknown_tagged_fields\<rparr>))))"

definition AbortedTransaction_ok :: "i16 \<Rightarrow> aborted_transaction \<Rightarrow> bool" where
  "AbortedTransaction_ok version s \<longleftrightarrow>
     \<not> (version < 4 \<or> version > 18) \<and>
     in_i64 (atxn_producer_id s) \<and>
     in_i64 (atxn_first_offset s) \<and>
     (if version \<ge> 12 then tags_ok 0 (atxn_unknown_tagged_fields s) else atxn_unknown_tagged_fields s = [])"

lemma AbortedTransaction_codec [coded_intros]:
  "sized_codec (\<lambda>s. AbortedTransaction_encode s version) (AbortedTransaction_decode version)
     (\<lambda>s. AbortedTransaction_compute_size s version) (AbortedTransaction_ok version)"
  unfolding AbortedTransaction_encode_def AbortedTransaction_decode_def AbortedTransaction_compute_size_def
  by (rule sized_codecI) (rule coded_intros | (simp add: AbortedTransaction_ok_def; fail))+

lemmas AbortedTransaction_coded [coded_intros] = sized_codec.codes [OF AbortedTransaction_codec]

definition EpochEndOffset_encode :: "epoch_end_offset \<Rightarrow> i16 \<Rightarrow> wire_error + bytes" where
  "EpochEndOffset_encode s version =
     (if version < 4 \<or> version > 18 then Inl UNSUPPORTED_VERSION
      else puts
        [if version \<ge> 12 then Inr (Int32_encode (eeo_epoch s)) else unset [] (eeo_epoch s = - 1),
         if version \<ge> 12
          then Inr (Int64_encode (eeo_end_offset s))
          else unset [] (eeo_end_offset s = - 1),
         if version \<ge> 12 then put_tags [] 0 (eeo_unknown_tagged_fields s) else Inr []])"

definition EpochEndOffset_compute_size :: "epoch_end_offset \<Rightarrow> i16 \<Rightarrow> wire_error + usize" where
  "EpochEndOffset_compute_size s version =
     sums
       [if version \<ge> 12 then Inr 4 else unset 0 (eeo_epoch s = - 1),
        if version \<ge> 12 then Inr 8 else unset 0 (eeo_end_offset s = - 1),
        if version \<ge> 12 then tags_size [] (eeo_unknown_tagged_fields s) else Inr 0]"

definition EpochEndOffset_decode :: "i16 \<Rightarrow> epoch_end_offset decoder" where
  "EpochEndOffset_decode version =
     (if version < 4 \<or> version > 18 then refuse UNSUPPORTED_VERSION
      else
        get (if version \<ge> 12 then Int32_decode else give (- 1)) (\<lambda>epoch.
        get (if version \<ge> 12 then Int64_decode else give (- 1)) (\<lambda>end_offset.
        get (if version \<ge> 12 then get_unknown_tags else give []) (\<lambda>unknown_tagged_fields.
        give \<lparr>eeo_epoch = epoch, eeo_end_offset = end_offset,
               eeo_unknown_tagged_fields = unknown_tagged_fields\<rparr>))))"

definition EpochEndOffset_ok :: "i16 \<Rightarrow> epoch_end_offset \<Rightarrow> bool" where
  "EpochEndOffset_ok version s \<longleftrightarrow>
     \<not> (version < 4 \<or> version > 18) \<and>
     (if version \<ge> 12 then in_i32 (eeo_epoch s) else eeo_epoch s = - 1) \<and>
     (if version \<ge> 12 then in_i64 (eeo_end_offset s) else eeo_end_offset s = - 1) \<and>
     (if version \<ge> 12 then tags_ok 0 (eeo_unknown_tagged_fields s) else eeo_unknown_tagged_fields s = [])"

lemma EpochEndOffset_codec [coded_intros]:
  "sized_codec (\<lambda>s. EpochEndOffset_encode s version) (EpochEndOffset_decode version)
     (\<lambda>s. EpochEndOffset_compute_size s version) (EpochEndOffset_ok version)"
  unfolding EpochEndOffset_encode_def EpochEndOffset_decode_def EpochEndOffset_compute_size_def
  by (rule sized_codecI) (rule coded_intros | (simp add: EpochEndOffset_ok_def; fail))+

lemmas EpochEndOffset_coded [coded_intros] = sized_codec.codes [OF EpochEndOffset_codec]

definition FetchLeaderIdAndEpoch_encode :: "fetch_leader_id_and_epoch \<Rightarrow> i16 \<Rightarrow> wire_error + bytes" where
  "FetchLeaderIdAndEpoch_encode s version =
     (if version < 4 \<or> version > 18 then Inl UNSUPPORTED_VERSION
      else puts
        [if version \<ge> 12
          then Inr (Int32_encode (fliae_leader_id s))
          else unset [] (fliae_leader_id s = - 1),
         if version \<ge> 12
          then Inr (Int32_encode (fliae_leader_epoch s))
          else unset [] (fliae_leader_epoch s = - 1),
         if version \<ge> 12 then put_tags [] 0 (fliae_unknown_tagged_fields s) else Inr []])"

definition FetchLeaderIdAndEpoch_compute_size :: "fetch_leader_id_and_epoch \<Rightarrow> i16 \<Rightarrow> wire_error + usize" where
  "FetchLeaderIdAndEpoch_compute_size s version =
     sums
       [if version \<ge> 12 then Inr 4 else unset 0 (fliae_leader_id s = - 1),
        if version \<ge> 12 then Inr 4 else unset 0 (fliae_leader_epoch s = - 1),
        if version \<ge> 12 then tags_size [] (fliae_unknown_tagged_fields s) else Inr 0]"

definition FetchLeaderIdAndEpoch_decode :: "i16 \<Rightarrow> fetch_leader_id_and_epoch decoder" where
  "FetchLeaderIdAndEpoch_decode version =
     (if version < 4 \<or> version > 18 then refuse UNSUPPORTED_VERSION
      else
        get (if version \<ge> 12 then Int32_decode else give (- 1)) (\<lambda>leader_id.
        get (if version \<ge> 12 then Int32_decode else give (- 1)) (\<lambda>leader_epoch.
        get (if version \<ge> 12 then get_unknown_tags else give []) (\<lambda>unknown_tagged_fields.
        give \<lparr>fliae_leader_id = leader_id, fliae_leader_epoch = leader_epoch,
               fliae_unknown_tagged_fields = unknown_tagged_fields\<rparr>))))"

definition FetchLeaderIdAndEpoch_ok :: "i16 \<Rightarrow> fetch_leader_id_and_epoch \<Rightarrow> bool" where
  "FetchLeaderIdAndEpoch_ok version s \<longleftrightarrow>
     \<not> (version < 4 \<or> version > 18) \<and>
     (if version \<ge> 12 then in_i32 (fliae_leader_id s) else fliae_leader_id s = - 1) \<and>
     (if version \<ge> 12 then in_i32 (fliae_leader_epoch s) else fliae_leader_epoch s = - 1) \<and>
     (if version \<ge> 12 then tags_ok 0 (fliae_unknown_tagged_fields s) else fliae_unknown_tagged_fields s = [])"

lemma FetchLeaderIdAndEpoch_codec [coded_intros]:
  "sized_codec (\<lambda>s. FetchLeaderIdAndEpoch_encode s version) (FetchLeaderIdAndEpoch_decode version)
     (\<lambda>s. FetchLeaderIdAndEpoch_compute_size s version) (FetchLeaderIdAndEpoch_ok version)"
  unfolding FetchLeaderIdAndEpoch_encode_def FetchLeaderIdAndEpoch_decode_def FetchLeaderIdAndEpoch_compute_size_def
  by (rule sized_codecI) (rule coded_intros | (simp add: FetchLeaderIdAndEpoch_ok_def; fail))+

lemmas FetchLeaderIdAndEpoch_coded [coded_intros] = sized_codec.codes [OF FetchLeaderIdAndEpoch_codec]

definition SnapshotId_encode :: "snapshot_id \<Rightarrow> i16 \<Rightarrow> wire_error + bytes" where
  "SnapshotId_encode s version =
     (if version < 4 \<or> version > 18 then Inl UNSUPPORTED_VERSION
      else puts
        [Inr (Int64_encode (snap_end_offset s)),
         Inr (Int32_encode (snap_epoch s)),
         if version \<ge> 12 then put_tags [] 0 (snap_unknown_tagged_fields s) else Inr []])"

definition SnapshotId_compute_size :: "snapshot_id \<Rightarrow> i16 \<Rightarrow> wire_error + usize" where
  "SnapshotId_compute_size s version =
     sums
       [Inr 8,
        Inr 4,
        if version \<ge> 12 then tags_size [] (snap_unknown_tagged_fields s) else Inr 0]"

definition SnapshotId_decode :: "i16 \<Rightarrow> snapshot_id decoder" where
  "SnapshotId_decode version =
     (if version < 4 \<or> version > 18 then refuse UNSUPPORTED_VERSION
      else
        get Int64_decode (\<lambda>end_offset.
        get Int32_decode (\<lambda>epoch.
        get (if version \<ge> 12 then get_unknown_tags else give []) (\<lambda>unknown_tagged_fields.
        give \<lparr>snap_end_offset = end_offset, snap_epoch = epoch,
               snap_unknown_tagged_fields = unknown_tagged_fields\<rparr>))))"

definition SnapshotId_ok :: "i16 \<Rightarrow> snapshot_id \<Rightarrow> bool" where
  "SnapshotId_ok version s \<longleftrightarrow>
     \<not> (version < 4 \<or> version > 18) \<and>
     in_i64 (snap_end_offset s) \<and>
     in_i32 (snap_epoch s) \<and>
     (if version \<ge> 12 then tags_ok 0 (snap_unknown_tagged_fields s) else snap_unknown_tagged_fields s = [])"

lemma SnapshotId_codec [coded_intros]:
  "sized_codec (\<lambda>s. SnapshotId_encode s version) (SnapshotId_decode version)
     (\<lambda>s. SnapshotId_compute_size s version) (SnapshotId_ok version)"
  unfolding SnapshotId_encode_def SnapshotId_decode_def SnapshotId_compute_size_def
  by (rule sized_codecI) (rule coded_intros | (simp add: SnapshotId_ok_def; fail))+

lemmas SnapshotId_coded [coded_intros] = sized_codec.codes [OF SnapshotId_codec]

definition PartitionData_encode :: "partition_data \<Rightarrow> i16 \<Rightarrow> wire_error + bytes" where
  "PartitionData_encode s version =
     (if version < 4 \<or> version > 18 then Inl UNSUPPORTED_VERSION
      else puts
        [Inr (Int32_encode (pdata_partition_index s)),
         Inr (Int16_encode (pdata_error_code s)),
         Inr (Int64_encode (pdata_high_watermark s)),
         Inr (Int64_encode (pdata_last_stable_offset s)),
         if version \<ge> 5 then Inr (Int64_encode (pdata_log_start_offset s)) else Inr [],
         if version \<ge> 12
          then CompactArray_encode (\<lambda>x. AbortedTransaction_encode x version) (pdata_aborted_transactions s)
          else Array_encode (\<lambda>x. AbortedTransaction_encode x version) (pdata_aborted_transactions s),
         if version \<ge> 11
          then Inr (Int32_encode (pdata_preferred_read_replica s))
          else unset [] (pdata_preferred_read_replica s = - 1),
         if version \<ge> 12 then CompactBytes_encode (pdata_records s) else Bytes_encode (pdata_records s),
         if version \<ge> 12 then put_tags 
             [(pdata_diverging_epoch s \<noteq> epoch_end_offset_default, put_tag 0 (EpochEndOffset_compute_size (pdata_diverging_epoch s) version) (EpochEndOffset_encode (pdata_diverging_epoch s) version)),
              (pdata_current_leader s \<noteq> fetch_leader_id_and_epoch_default, put_tag 1 (FetchLeaderIdAndEpoch_compute_size (pdata_current_leader s) version) (FetchLeaderIdAndEpoch_encode (pdata_current_leader s) version)),
              (pdata_snapshot_id s \<noteq> snapshot_id_default, put_tag 2 (SnapshotId_compute_size (pdata_snapshot_id s) version) (SnapshotId_encode (pdata_snapshot_id s) version))] 3 (pdata_unknown_tagged_fields s) else Inr []])"

definition PartitionData_compute_size :: "partition_data \<Rightarrow> i16 \<Rightarrow> wire_error + usize" where
  "PartitionData_compute_size s version =
     sums
       [Inr 4,
        Inr 2,
        Inr 8,
        Inr 8,
        if version \<ge> 5 then Inr 8 else Inr 0,
        if version \<ge> 12
         then CompactArray_compute_size None (\<lambda>x. AbortedTransaction_compute_size x version) (pdata_aborted_transactions s)
         else Array_compute_size None (\<lambda>x. AbortedTransaction_compute_size x version) (pdata_aborted_transactions s),
        if version \<ge> 11 then Inr 4 else unset 0 (pdata_preferred_read_replica s = - 1),
        if version \<ge> 12
         then CompactBytes_compute_size (pdata_records s)
         else Bytes_compute_size (pdata_records s),
        if version \<ge> 12 then tags_size 
            [(pdata_diverging_epoch s \<noteq> epoch_end_offset_default, tag_size 0 (EpochEndOffset_compute_size (pdata_diverging_epoch s) version)),
             (pdata_current_leader s \<noteq> fetch_leader_id_and_epoch_default, tag_size 1 (FetchLeaderIdAndEpoch_compute_size (pdata_current_leader s) version)),
             (pdata_snapshot_id s \<noteq> snapshot_id_default, tag_size 2 (SnapshotId_compute_size (pdata_snapshot_id s) version))] (pdata_unknown_tagged_fields s) else Inr 0]"

definition PartitionData_decode :: "i16 \<Rightarrow> partition_data decoder" where
  "PartitionData_decode version =
     (if version < 4 \<or> version > 18 then refuse UNSUPPORTED_VERSION
      else
        get Int32_decode (\<lambda>partition_index.
        get Int16_decode (\<lambda>error_code.
        get Int64_decode (\<lambda>high_watermark.
        get Int64_decode (\<lambda>last_stable_offset.
        get (if version \<ge> 5 then Int64_decode else give (- 1)) (\<lambda>log_start_offset.
        get (if version \<ge> 12
              then CompactArray_decode (AbortedTransaction_decode version)
              else Array_decode (AbortedTransaction_decode version)) (\<lambda>aborted_transactions.
        get (if version \<ge> 11 then Int32_decode else give (- 1)) (\<lambda>preferred_read_replica.
        get (if version \<ge> 12 then CompactBytes_decode else Bytes_decode) (\<lambda>records.
        get (if version \<ge> 12
             then get_tags (\<lambda>tag (diverging_epoch, current_leader, snapshot_id).
              if tag = 0 then Some (get (EpochEndOffset_decode version) (\<lambda>x. give (x, current_leader, snapshot_id)))
              else if tag = 1 then Some (get (FetchLeaderIdAndEpoch_decode version) (\<lambda>x. give (diverging_epoch, x, snapshot_id)))
              else if tag = 2 then Some (get (SnapshotId_decode version) (\<lambda>x. give (diverging_epoch, current_leader, x)))
              else None) (epoch_end_offset_default, fetch_leader_id_and_epoch_default, snapshot_id_default)
             else give ((epoch_end_offset_default, fetch_leader_id_and_epoch_default, snapshot_id_default), [])) (\<lambda>((diverging_epoch, current_leader, snapshot_id), unknown_tagged_fields).
        give \<lparr>pdata_partition_index = partition_index, pdata_error_code = error_code,
               pdata_high_watermark = high_watermark, pdata_last_stable_offset = last_stable_offset,
               pdata_log_start_offset = log_start_offset, pdata_diverging_epoch = diverging_epoch,
               pdata_current_leader = current_leader, pdata_snapshot_id = snapshot_id,
               pdata_aborted_transactions = aborted_transactions,
               pdata_preferred_read_replica = preferred_read_replica, pdata_records = records,
               pdata_unknown_tagged_fields = unknown_tagged_fields\<rparr>))))))))))"

definition PartitionData_ok :: "i16 \<Rightarrow> partition_data \<Rightarrow> bool" where
  "PartitionData_ok version s \<longleftrightarrow>
     \<not> (version < 4 \<or> version > 18) \<and>
     in_i32 (pdata_partition_index s) \<and>
     in_i16 (pdata_error_code s) \<and>
     in_i64 (pdata_high_watermark s) \<and>
     in_i64 (pdata_last_stable_offset s) \<and>
     (if version \<ge> 5 then in_i64 (pdata_log_start_offset s) else pdata_log_start_offset s = - 1) \<and>
     (if version \<ge> 12
       then seq_ok (2 ^ 32 - 2) (AbortedTransaction_ok version) (pdata_aborted_transactions s)
       else seq_ok (2 ^ 31 - 1) (AbortedTransaction_ok version) (pdata_aborted_transactions s)) \<and>
     (if version \<ge> 11
       then in_i32 (pdata_preferred_read_replica s)
       else pdata_preferred_read_replica s = - 1) \<and>
     (if version \<ge> 12
       then seq_ok (2 ^ 32 - 2) (\<lambda>_. True) (pdata_records s)
       else seq_ok (2 ^ 31 - 1) (\<lambda>_. True) (pdata_records s)) \<and>
     (if version \<ge> 12 then EpochEndOffset_ok version (pdata_diverging_epoch s) \<and> tag_fits (EpochEndOffset_compute_size (pdata_diverging_epoch s) version) else pdata_diverging_epoch s = epoch_end_offset_default) \<and>
     (if version \<ge> 12 then FetchLeaderIdAndEpoch_ok version (pdata_current_leader s) \<and> tag_fits (FetchLeaderIdAndEpoch_compute_size (pdata_current_leader s) version) else pdata_current_leader s = fetch_leader_id_and_epoch_default) \<and>
     (if version \<ge> 12 then SnapshotId_ok version (pdata_snapshot_id s) \<and> tag_fits (SnapshotId_compute_size (pdata_snapshot_id s) version) else pdata_snapshot_id s = snapshot_id_default) \<and>
     (if version \<ge> 12 then tags_ok 3 (pdata_unknown_tagged_fields s) else pdata_unknown_tagged_fields s = [])"

lemma PartitionData_codec [coded_intros]:
  "sized_codec (\<lambda>s. PartitionData_encode s version) (PartitionData_decode version)
     (\<lambda>s. PartitionData_compute_size s version) (PartitionData_ok version)"
  unfolding PartitionData_encode_def PartitionData_decode_def PartitionData_compute_size_def
  by (rule sized_codecI) (rule coded_intros | simp only: prod.case | (simp add: PartitionData_ok_def; fail)
    | (auto simp: PartitionData_ok_def split: if_splits; fail))+

lemmas PartitionData_coded [coded_intros] = sized_codec.codes [OF PartitionData_codec]

definition FetchableTopicResponse_encode :: "fetchable_topic_response \<Rightarrow> i16 \<Rightarrow> wire_error + bytes" where
  "FetchableTopicResponse_encode s version =
     (if version < 4 \<or> version > 18 then Inl UNSUPPORTED_VERSION
      else puts
        [if version \<le> 12
          then if version \<ge> 12
                then CompactString_encode (Some (ftrs_topic s))
                else String_encode (Some (ftrs_topic s))
          else Inr [],
         if version \<ge> 13 then Inr (Uuid_encode (ftrs_topic_id s)) else Inr [],
         if version \<ge> 12
          then CompactArray_encode (\<lambda>x. PartitionData_encode x version) (Some (ftrs_partitions s))
          else Array_encode (\<lambda>x. PartitionData_encode x version) (Some (ftrs_partitions s)),
         if version \<ge> 12 then put_tags [] 0 (ftrs_unknown_tagged_fields s) else Inr []])"

definition FetchableTopicResponse_compute_size :: "fetchable_topic_response \<Rightarrow> i16 \<Rightarrow> wire_error + usize" where
  "FetchableTopicResponse_compute_size s version =
     sums
       [if version \<le> 12
         then if version \<ge> 12
               then CompactString_compute_size (Some (ftrs_topic s))
               else String_compute_size (Some (ftrs_topic s))
         else Inr 0,
        if version \<ge> 13 then Inr 16 else Inr 0,
        if version \<ge> 12
         then CompactArray_compute_size None (\<lambda>x. PartitionData_compute_size x version) (Some (ftrs_partitions s))
         else Array_compute_size None (\<lambda>x. PartitionData_compute_size x version) (Some (ftrs_partitions s)),
        if version \<ge> 12 then tags_size [] (ftrs_unknown_tagged_fields s) else Inr 0]"

definition FetchableTopicResponse_decode :: "i16 \<Rightarrow> fetchable_topic_response decoder" where
  "FetchableTopicResponse_decode version =
     (if version < 4 \<or> version > 18 then refuse UNSUPPORTED_VERSION
      else
        get (if version \<le> 12
              then if version \<ge> 12 then CompactString_required else String_required
              else give []) (\<lambda>topic.
        get (if version \<ge> 13 then Uuid_decode else give nil_uuid) (\<lambda>topic_id.
        get (if version \<ge> 12
              then CompactArray_required (PartitionData_decode version)
              else Array_required (PartitionData_decode version)) (\<lambda>partitions.
        get (if version \<ge> 12 then get_unknown_tags else give []) (\<lambda>unknown_tagged_fields.
        give \<lparr>ftrs_topic = topic, ftrs_topic_id = topic_id, ftrs_partitions = partitions,
               ftrs_unknown_tagged_fields = unknown_tagged_fields\<rparr>)))))"

definition FetchableTopicResponse_ok :: "i16 \<Rightarrow> fetchable_topic_response \<Rightarrow> bool" where
  "FetchableTopicResponse_ok version s \<longleftrightarrow>
     \<not> (version < 4 \<or> version > 18) \<and>
     (if version \<le> 12
       then if version \<ge> 12
             then string_ok (2 ^ 32 - 2) (Some (ftrs_topic s))
             else string_ok 32767 (Some (ftrs_topic s))
       else ftrs_topic s = []) \<and>
     (if version \<ge> 13 then True else ftrs_topic_id s = nil_uuid) \<and>
     (if version \<ge> 12
       then seq_ok (2 ^ 32 - 2) (PartitionData_ok version) (Some (ftrs_partitions s))
       else seq_ok (2 ^ 31 - 1) (PartitionData_ok version) (Some (ftrs_partitions s))) \<and>
     (if version \<ge> 12 then tags_ok 0 (ftrs_unknown_tagged_fields s) else ftrs_unknown_tagged_fields s = [])"

lemma FetchableTopicResponse_codec [coded_intros]:
  "sized_codec (\<lambda>s. FetchableTopicResponse_encode s version) (FetchableTopicResponse_decode version)
     (\<lambda>s. FetchableTopicResponse_compute_size s version) (FetchableTopicResponse_ok version)"
  unfolding FetchableTopicResponse_encode_def FetchableTopicResponse_decode_def FetchableTopicResponse_compute_size_def
  by (rule sized_codecI) (rule coded_intros | (simp add: FetchableTopicResponse_ok_def; fail))+

lemmas FetchableTopicResponse_coded [coded_intros] = sized_codec.codes [OF FetchableTopicResponse_codec]

definition FetchNodeEndpoint_encode :: "fetch_node_endpoint \<Rightarrow> i16 \<Rightarrow> wire_error + bytes" where
  "FetchNodeEndpoint_encode s version =
     (if version < 4 \<or> version > 18 then Inl UNSUPPORTED_VERSION
      else puts
        [if version \<ge> 16 then Inr (Int32_encode (fne_node_id s)) else unset [] (fne_node_id s = 0),
         if version \<ge> 16 then CompactString_encode (Some (fne_host s)) else unset [] (fne_host s = []),
         if version \<ge> 16 then Inr (Int32_encode (fne_port s)) else unset [] (fne_port s = 0),
         if version \<ge> 16 then CompactString_encode (fne_rack s) else unset [] (fne_rack s = None),
         if version \<ge> 12 then put_tags [] 0 (fne_unknown_tagged_fields s) else Inr []])"

definition FetchNodeEndpoint_compute_size :: "fetch_node_endpoint \<Rightarrow> i16 \<Rightarrow> wire_error + usize" where
  "FetchNodeEndpoint_compute_size s version =
     sums
       [if version \<ge> 16 then Inr 4 else unset 0 (fne_node_id s = 0),
        if version \<ge> 16
         then CompactString_compute_size (Some (fne_host s))
         else unset 0 (fne_host s = []),
        if version \<ge> 16 then Inr 4 else unset 0 (fne_port s = 0),
        if version \<ge> 16 then CompactString_compute_size (fne_rack s) else unset 0 (fne_rack s = None),
        if version \<ge> 12 then tags_size [] (fne_unknown_tagged_fields s) else Inr 0]"

definition FetchNodeEndpoint_decode :: "i16 \<Rightarrow> fetch_node_endpoint decoder" where
  "FetchNodeEndpoint_decode version =
     (if version < 4 \<or> version > 18 then refuse UNSUPPORTED_VERSION
      else
        get (if version \<ge> 16 then Int32_decode else give 0) (\<lambda>node_id.
        get (if version \<ge> 16 then CompactString_required else give []) (\<lambda>host.
        get (if version \<ge> 16 then Int32_decode else give 0) (\<lambda>port.
        get (if version \<ge> 16 then CompactString_decode else give None) (\<lambda>rack.
        get (if version \<ge> 12 then get_unknown_tags else give []) (\<lambda>unknown_tagged_fields.
        give \<lparr>fne_node_id = node_id, fne_host = host, fne_port = port, fne_rack = rack,
               fne_unknown_tagged_fields = unknown_tagged_fields\<rparr>))))))"

definition FetchNodeEndpoint_ok :: "i16 \<Rightarrow> fetch_node_endpoint \<Rightarrow> bool" where
  "FetchNodeEndpoint_ok version s \<longleftrightarrow>
     \<not> (version < 4 \<or> version > 18) \<and>
     (if version \<ge> 16 then in_i32 (fne_node_id s) else fne_node_id s = 0) \<and>
     (if version \<ge> 16 then string_ok (2 ^ 32 - 2) (Some (fne_host s)) else fne_host s = []) \<and>
     (if version \<ge> 16 then in_i32 (fne_port s) else fne_port s = 0) \<and>
     (if version \<ge> 16 then string_ok (2 ^ 32 - 2) (fne_rack s) else fne_rack s = None) \<and>
     (if version \<ge> 12 then tags_ok 0 (fne_unknown_tagged_fields s) else fne_unknown_tagged_fields s = [])"

lemma FetchNodeEndpoint_codec [coded_intros]:
  "sized_codec (\<lambda>s. FetchNodeEndpoint_encode s version) (FetchNodeEndpoint_decode version)
     (\<lambda>s. FetchNodeEndpoint_compute_size s version) (FetchNodeEndpoint_ok version)"
  unfolding FetchNodeEndpoint_encode_def FetchNodeEndpoint_decode_def FetchNodeEndpoint_compute_size_def
  by (rule sized_codecI) (rule coded_intros | (simp add: FetchNodeEndpoint_ok_def; fail))+

lemmas FetchNodeEndpoint_coded [coded_intros] = sized_codec.codes [OF FetchNodeEndpoint_codec]

definition FetchResponse_encode :: "fetch_response \<Rightarrow> i16 \<Rightarrow> wire_error + bytes" where
  "FetchResponse_encode s version =
     (if version < 4 \<or> version > 18 then Inl UNSUPPORTED_VERSION
      else puts
        [Inr (Int32_encode (frs_throttle_time_ms s)),
         if version \<ge> 7 then Inr (Int16_encode (frs_error_code s)) else Inr [],
         if version \<ge> 7 then Inr (Int32_encode (frs_session_id s)) else unset [] (frs_session_id s = 0),
         if version \<ge> 12
          then CompactArray_encode (\<lambda>x. FetchableTopicResponse_encode x version) (Some (frs_responses s))
          else Array_encode (\<lambda>x. FetchableTopicResponse_encode x version) (Some (frs_responses s)),
         if version \<ge> 12 then put_tags 
             [(version \<ge> 16 \<and> frs_node_endpoints s \<noteq> [], put_tag 0 (CompactArray_compute_size None (\<lambda>x. FetchNodeEndpoint_compute_size x version) (Some (frs_node_endpoints s))) (CompactArray_encode (\<lambda>x. FetchNodeEndpoint_encode x version) (Some (frs_node_endpoints s))))] 1 (frs_unknown_tagged_fields s) else Inr []])"

definition FetchResponse_compute_size :: "fetch_response \<Rightarrow> i16 \<Rightarrow> wire_error + usize" where
  "FetchResponse_compute_size s version =
     sums
       [Inr 4,
        if version \<ge> 7 then Inr 2 else Inr 0,
        if version \<ge> 7 then Inr 4 else unset 0 (frs_session_id s = 0),
        if version \<ge> 12
         then CompactArray_compute_size None (\<lambda>x. FetchableTopicResponse_compute_size x version) (Some (frs_responses s))
         else Array_compute_size None (\<lambda>x. FetchableTopicResponse_compute_size x version) (Some (frs_responses s)),
        if version \<ge> 12 then tags_size 
            [(version \<ge> 16 \<and> frs_node_endpoints s \<noteq> [], tag_size 0 (CompactArray_compute_size None (\<lambda>x. FetchNodeEndpoint_compute_size x version) (Some (frs_node_endpoints s))))] (frs_unknown_tagged_fields s) else Inr 0]"

definition FetchResponse_decode :: "i16 \<Rightarrow> fetch_response decoder" where
  "FetchResponse_decode version =
     (if version < 4 \<or> version > 18 then refuse UNSUPPORTED_VERSION
      else
        get Int32_decode (\<lambda>throttle_time_ms.
        get (if version \<ge> 7 then Int16_decode else give 0) (\<lambda>error_code.
        get (if version \<ge> 7 then Int32_decode else give 0) (\<lambda>session_id.
        get (if version \<ge> 12
              then CompactArray_required (FetchableTopicResponse_decode version)
              else Array_required (FetchableTopicResponse_decode version)) (\<lambda>responses.
        get (if version \<ge> 12
             then get_tags (\<lambda>tag node_endpoints.
              if tag = 0 then Some (if version \<ge> 16 then get (CompactArray_required (FetchNodeEndpoint_decode version)) (\<lambda>x. give x)
                   else refuse (Bail ''Tag is not valid for version''))
              else None) []
             else give ([], [])) (\<lambda>(node_endpoints, unknown_tagged_fields).
        give \<lparr>frs_throttle_time_ms = throttle_time_ms, frs_error_code = error_code,
               frs_session_id = session_id, frs_responses = responses,
               frs_node_endpoints = node_endpoints, frs_unknown_tagged_fields = unknown_tagged_fields\<rparr>))))))"

definition FetchResponse_ok :: "i16 \<Rightarrow> fetch_response \<Rightarrow> bool" where
  "FetchResponse_ok version s \<longleftrightarrow>
     \<not> (version < 4 \<or> version > 18) \<and>
     in_i32 (frs_throttle_time_ms s) \<and>
     (if version \<ge> 7 then in_i16 (frs_error_code s) else frs_error_code s = 0) \<and>
     (if version \<ge> 7 then in_i32 (frs_session_id s) else frs_session_id s = 0) \<and>
     (if version \<ge> 12
       then seq_ok (2 ^ 32 - 2) (FetchableTopicResponse_ok version) (Some (frs_responses s))
       else seq_ok (2 ^ 31 - 1) (FetchableTopicResponse_ok version) (Some (frs_responses s))) \<and>
     (if version \<ge> 16 \<and> version \<ge> 12 then seq_ok (2 ^ 32 - 2) (FetchNodeEndpoint_ok version) (Some (frs_node_endpoints s)) \<and> tag_fits (CompactArray_compute_size None (\<lambda>x. FetchNodeEndpoint_compute_size x version) (Some (frs_node_endpoints s))) else frs_node_endpoints s = []) \<and>
     (if version \<ge> 12 then tags_ok 1 (frs_unknown_tagged_fields s) else frs_unknown_tagged_fields s = [])"

lemma FetchResponse_codec [coded_intros]:
  "sized_codec (\<lambda>s. FetchResponse_encode s version) (FetchResponse_decode version)
     (\<lambda>s. FetchResponse_compute_size s version) (FetchResponse_ok version)"
  unfolding FetchResponse_encode_def FetchResponse_decode_def FetchResponse_compute_size_def
  by (rule sized_codecI) (rule coded_intros | simp only: prod.case | (simp add: FetchResponse_ok_def; fail)
    | (auto simp: FetchResponse_ok_def split: if_splits; fail))+

lemmas FetchResponse_coded [coded_intros] = sized_codec.codes [OF FetchResponse_codec]

section \<open>List offsets\<close>

definition ListOffsetsPartition_encode :: "list_offsets_partition \<Rightarrow> i16 \<Rightarrow> wire_error + bytes" where
  "ListOffsetsPartition_encode s version =
     (if version < 1 \<or> version > 11 then Inl UNSUPPORTED_VERSION
      else puts
        [Inr (Int32_encode (lop_partition_index s)),
         if version \<ge> 4 then Inr (Int32_encode (lop_current_leader_epoch s)) else Inr [],
         Inr (Int64_encode (lop_timestamp s)),
         if version \<ge> 6 then put_tags [] 0 (lop_unknown_tagged_fields s) else Inr []])"

definition ListOffsetsPartition_compute_size :: "list_offsets_partition \<Rightarrow> i16 \<Rightarrow> wire_error + usize" where
  "ListOffsetsPartition_compute_size s version =
     sums
       [Inr 4,
        if version \<ge> 4 then Inr 4 else Inr 0,
        Inr 8,
        if version \<ge> 6 then tags_size [] (lop_unknown_tagged_fields s) else Inr 0]"

definition ListOffsetsPartition_decode :: "i16 \<Rightarrow> list_offsets_partition decoder" where
  "ListOffsetsPartition_decode version =
     (if version < 1 \<or> version > 11 then refuse UNSUPPORTED_VERSION
      else
        get Int32_decode (\<lambda>partition_index.
        get (if version \<ge> 4 then Int32_decode else give (- 1)) (\<lambda>current_leader_epoch.
        get Int64_decode (\<lambda>timestamp.
        get (if version \<ge> 6 then get_unknown_tags else give []) (\<lambda>unknown_tagged_fields.
        give \<lparr>lop_partition_index = partition_index,
               lop_current_leader_epoch = current_leader_epoch, lop_timestamp = timestamp,
               lop_unknown_tagged_fields = unknown_tagged_fields\<rparr>)))))"

definition ListOffsetsPartition_ok :: "i16 \<Rightarrow> list_offsets_partition \<Rightarrow> bool" where
  "ListOffsetsPartition_ok version s \<longleftrightarrow>
     \<not> (version < 1 \<or> version > 11) \<and>
     in_i32 (lop_partition_index s) \<and>
     (if version \<ge> 4 then in_i32 (lop_current_leader_epoch s) else lop_current_leader_epoch s = - 1) \<and>
     in_i64 (lop_timestamp s) \<and>
     (if version \<ge> 6 then tags_ok 0 (lop_unknown_tagged_fields s) else lop_unknown_tagged_fields s = [])"

lemma ListOffsetsPartition_codec [coded_intros]:
  "sized_codec (\<lambda>s. ListOffsetsPartition_encode s version) (ListOffsetsPartition_decode version)
     (\<lambda>s. ListOffsetsPartition_compute_size s version) (ListOffsetsPartition_ok version)"
  unfolding ListOffsetsPartition_encode_def ListOffsetsPartition_decode_def ListOffsetsPartition_compute_size_def
  by (rule sized_codecI) (rule coded_intros | (simp add: ListOffsetsPartition_ok_def; fail))+

lemmas ListOffsetsPartition_coded [coded_intros] = sized_codec.codes [OF ListOffsetsPartition_codec]

definition ListOffsetsTopic_encode :: "list_offsets_topic \<Rightarrow> i16 \<Rightarrow> wire_error + bytes" where
  "ListOffsetsTopic_encode s version =
     (if version < 1 \<or> version > 11 then Inl UNSUPPORTED_VERSION
      else puts
        [if version \<ge> 6
          then CompactString_encode (Some (lot_name s))
          else String_encode (Some (lot_name s)),
         if version \<ge> 6
          then CompactArray_encode (\<lambda>x. ListOffsetsPartition_encode x version) (Some (lot_partitions s))
          else Array_encode (\<lambda>x. ListOffsetsPartition_encode x version) (Some (lot_partitions s)),
         if version \<ge> 6 then put_tags [] 0 (lot_unknown_tagged_fields s) else Inr []])"

definition ListOffsetsTopic_compute_size :: "list_offsets_topic \<Rightarrow> i16 \<Rightarrow> wire_error + usize" where
  "ListOffsetsTopic_compute_size s version =
     sums
       [if version \<ge> 6
         then CompactString_compute_size (Some (lot_name s))
         else String_compute_size (Some (lot_name s)),
        if version \<ge> 6
         then CompactArray_compute_size None (\<lambda>x. ListOffsetsPartition_compute_size x version) (Some (lot_partitions s))
         else Array_compute_size None (\<lambda>x. ListOffsetsPartition_compute_size x version) (Some (lot_partitions s)),
        if version \<ge> 6 then tags_size [] (lot_unknown_tagged_fields s) else Inr 0]"

definition ListOffsetsTopic_decode :: "i16 \<Rightarrow> list_offsets_topic decoder" where
  "ListOffsetsTopic_decode version =
     (if version < 1 \<or> version > 11 then refuse UNSUPPORTED_VERSION
      else
        get (if version \<ge> 6 then CompactString_required else String_required) (\<lambda>name.
        get (if version \<ge> 6
              then CompactArray_required (ListOffsetsPartition_decode version)
              else Array_required (ListOffsetsPartition_decode version)) (\<lambda>partitions.
        get (if version \<ge> 6 then get_unknown_tags else give []) (\<lambda>unknown_tagged_fields.
        give \<lparr>lot_name = name, lot_partitions = partitions,
               lot_unknown_tagged_fields = unknown_tagged_fields\<rparr>))))"

definition ListOffsetsTopic_ok :: "i16 \<Rightarrow> list_offsets_topic \<Rightarrow> bool" where
  "ListOffsetsTopic_ok version s \<longleftrightarrow>
     \<not> (version < 1 \<or> version > 11) \<and>
     (if version \<ge> 6
       then string_ok (2 ^ 32 - 2) (Some (lot_name s))
       else string_ok 32767 (Some (lot_name s))) \<and>
     (if version \<ge> 6
       then seq_ok (2 ^ 32 - 2) (ListOffsetsPartition_ok version) (Some (lot_partitions s))
       else seq_ok (2 ^ 31 - 1) (ListOffsetsPartition_ok version) (Some (lot_partitions s))) \<and>
     (if version \<ge> 6 then tags_ok 0 (lot_unknown_tagged_fields s) else lot_unknown_tagged_fields s = [])"

lemma ListOffsetsTopic_codec [coded_intros]:
  "sized_codec (\<lambda>s. ListOffsetsTopic_encode s version) (ListOffsetsTopic_decode version)
     (\<lambda>s. ListOffsetsTopic_compute_size s version) (ListOffsetsTopic_ok version)"
  unfolding ListOffsetsTopic_encode_def ListOffsetsTopic_decode_def ListOffsetsTopic_compute_size_def
  by (rule sized_codecI) (rule coded_intros | (simp add: ListOffsetsTopic_ok_def; fail))+

lemmas ListOffsetsTopic_coded [coded_intros] = sized_codec.codes [OF ListOffsetsTopic_codec]

definition ListOffsetsRequest_encode :: "list_offsets_request \<Rightarrow> i16 \<Rightarrow> wire_error + bytes" where
  "ListOffsetsRequest_encode s version =
     (if version < 1 \<or> version > 11 then Inl UNSUPPORTED_VERSION
      else puts
        [Inr (Int32_encode (lorq_replica_id s)),
         if version \<ge> 2
          then Inr (Int8_encode (lorq_isolation_level s))
          else unset [] (lorq_isolation_level s = 0),
         if version \<ge> 6
          then CompactArray_encode (\<lambda>x. ListOffsetsTopic_encode x version) (Some (lorq_topics s))
          else Array_encode (\<lambda>x. ListOffsetsTopic_encode x version) (Some (lorq_topics s)),
         if version \<ge> 10 then Inr (Int32_encode (lorq_timeout_ms s)) else Inr [],
         if version \<ge> 6 then put_tags [] 0 (lorq_unknown_tagged_fields s) else Inr []])"

definition ListOffsetsRequest_compute_size :: "list_offsets_request \<Rightarrow> i16 \<Rightarrow> wire_error + usize" where
  "ListOffsetsRequest_compute_size s version =
     sums
       [Inr 4,
        if version \<ge> 2 then Inr 1 else unset 0 (lorq_isolation_level s = 0),
        if version \<ge> 6
         then CompactArray_compute_size None (\<lambda>x. ListOffsetsTopic_compute_size x version) (Some (lorq_topics s))
         else Array_compute_size None (\<lambda>x. ListOffsetsTopic_compute_size x version) (Some (lorq_topics s)),
        if version \<ge> 10 then Inr 4 else Inr 0,
        if version \<ge> 6 then tags_size [] (lorq_unknown_tagged_fields s) else Inr 0]"

definition ListOffsetsRequest_decode :: "i16 \<Rightarrow> list_offsets_request decoder" where
  "ListOffsetsRequest_decode version =
     (if version < 1 \<or> version > 11 then refuse UNSUPPORTED_VERSION
      else
        get Int32_decode (\<lambda>replica_id.
        get (if version \<ge> 2 then Int8_decode else give 0) (\<lambda>isolation_level.
        get (if version \<ge> 6
              then CompactArray_required (ListOffsetsTopic_decode version)
              else Array_required (ListOffsetsTopic_decode version)) (\<lambda>topics.
        get (if version \<ge> 10 then Int32_decode else give 0) (\<lambda>timeout_ms.
        get (if version \<ge> 6 then get_unknown_tags else give []) (\<lambda>unknown_tagged_fields.
        give \<lparr>lorq_replica_id = replica_id, lorq_isolation_level = isolation_level,
               lorq_topics = topics, lorq_timeout_ms = timeout_ms,
               lorq_unknown_tagged_fields = unknown_tagged_fields\<rparr>))))))"

definition ListOffsetsRequest_ok :: "i16 \<Rightarrow> list_offsets_request \<Rightarrow> bool" where
  "ListOffsetsRequest_ok version s \<longleftrightarrow>
     \<not> (version < 1 \<or> version > 11) \<and>
     in_i32 (lorq_replica_id s) \<and>
     (if version \<ge> 2 then in_i8 (lorq_isolation_level s) else lorq_isolation_level s = 0) \<and>
     (if version \<ge> 6
       then seq_ok (2 ^ 32 - 2) (ListOffsetsTopic_ok version) (Some (lorq_topics s))
       else seq_ok (2 ^ 31 - 1) (ListOffsetsTopic_ok version) (Some (lorq_topics s))) \<and>
     (if version \<ge> 10 then in_i32 (lorq_timeout_ms s) else lorq_timeout_ms s = 0) \<and>
     (if version \<ge> 6 then tags_ok 0 (lorq_unknown_tagged_fields s) else lorq_unknown_tagged_fields s = [])"

lemma ListOffsetsRequest_codec [coded_intros]:
  "sized_codec (\<lambda>s. ListOffsetsRequest_encode s version) (ListOffsetsRequest_decode version)
     (\<lambda>s. ListOffsetsRequest_compute_size s version) (ListOffsetsRequest_ok version)"
  unfolding ListOffsetsRequest_encode_def ListOffsetsRequest_decode_def ListOffsetsRequest_compute_size_def
  by (rule sized_codecI) (rule coded_intros | (simp add: ListOffsetsRequest_ok_def; fail))+

lemmas ListOffsetsRequest_coded [coded_intros] = sized_codec.codes [OF ListOffsetsRequest_codec]

definition ListOffsetsPartitionResponse_encode :: "list_offsets_partition_response \<Rightarrow> i16 \<Rightarrow> wire_error + bytes" where
  "ListOffsetsPartitionResponse_encode s version =
     (if version < 1 \<or> version > 11 then Inl UNSUPPORTED_VERSION
      else puts
        [Inr (Int32_encode (loprs_partition_index s)),
         Inr (Int16_encode (loprs_error_code s)),
         Inr (Int64_encode (loprs_timestamp s)),
         Inr (Int64_encode (loprs_offset s)),
         if version \<ge> 4
          then Inr (Int32_encode (loprs_leader_epoch s))
          else unset [] (loprs_leader_epoch s = - 1),
         if version \<ge> 6 then put_tags [] 0 (loprs_unknown_tagged_fields s) else Inr []])"

definition ListOffsetsPartitionResponse_compute_size :: "list_offsets_partition_response \<Rightarrow> i16 \<Rightarrow> wire_error + usize" where
  "ListOffsetsPartitionResponse_compute_size s version =
     sums
       [Inr 4,
        Inr 2,
        Inr 8,
        Inr 8,
        if version \<ge> 4 then Inr 4 else unset 0 (loprs_leader_epoch s = - 1),
        if version \<ge> 6 then tags_size [] (loprs_unknown_tagged_fields s) else Inr 0]"

definition ListOffsetsPartitionResponse_decode :: "i16 \<Rightarrow> list_offsets_partition_response decoder" where
  "ListOffsetsPartitionResponse_decode version =
     (if version < 1 \<or> version > 11 then refuse UNSUPPORTED_VERSION
      else
        get Int32_decode (\<lambda>partition_index.
        get Int16_decode (\<lambda>error_code.
        get Int64_decode (\<lambda>timestamp.
        get Int64_decode (\<lambda>offset.
        get (if version \<ge> 4 then Int32_decode else give (- 1)) (\<lambda>leader_epoch.
        get (if version \<ge> 6 then get_unknown_tags else give []) (\<lambda>unknown_tagged_fields.
        give \<lparr>loprs_partition_index = partition_index, loprs_error_code = error_code,
               loprs_timestamp = timestamp, loprs_offset = offset, loprs_leader_epoch = leader_epoch,
               loprs_unknown_tagged_fields = unknown_tagged_fields\<rparr>)))))))"

definition ListOffsetsPartitionResponse_ok :: "i16 \<Rightarrow> list_offsets_partition_response \<Rightarrow> bool" where
  "ListOffsetsPartitionResponse_ok version s \<longleftrightarrow>
     \<not> (version < 1 \<or> version > 11) \<and>
     in_i32 (loprs_partition_index s) \<and>
     in_i16 (loprs_error_code s) \<and>
     in_i64 (loprs_timestamp s) \<and>
     in_i64 (loprs_offset s) \<and>
     (if version \<ge> 4 then in_i32 (loprs_leader_epoch s) else loprs_leader_epoch s = - 1) \<and>
     (if version \<ge> 6 then tags_ok 0 (loprs_unknown_tagged_fields s) else loprs_unknown_tagged_fields s = [])"

lemma ListOffsetsPartitionResponse_codec [coded_intros]:
  "sized_codec (\<lambda>s. ListOffsetsPartitionResponse_encode s version) (ListOffsetsPartitionResponse_decode version)
     (\<lambda>s. ListOffsetsPartitionResponse_compute_size s version) (ListOffsetsPartitionResponse_ok version)"
  unfolding ListOffsetsPartitionResponse_encode_def ListOffsetsPartitionResponse_decode_def ListOffsetsPartitionResponse_compute_size_def
  by (rule sized_codecI) (rule coded_intros | (simp add: ListOffsetsPartitionResponse_ok_def; fail))+

lemmas ListOffsetsPartitionResponse_coded [coded_intros] = sized_codec.codes [OF ListOffsetsPartitionResponse_codec]

definition ListOffsetsTopicResponse_encode :: "list_offsets_topic_response \<Rightarrow> i16 \<Rightarrow> wire_error + bytes" where
  "ListOffsetsTopicResponse_encode s version =
     (if version < 1 \<or> version > 11 then Inl UNSUPPORTED_VERSION
      else puts
        [if version \<ge> 6
          then CompactString_encode (Some (lotrs_name s))
          else String_encode (Some (lotrs_name s)),
         if version \<ge> 6
          then CompactArray_encode (\<lambda>x. ListOffsetsPartitionResponse_encode x version) (Some (lotrs_partitions s))
          else Array_encode (\<lambda>x. ListOffsetsPartitionResponse_encode x version) (Some (lotrs_partitions s)),
         if version \<ge> 6 then put_tags [] 0 (lotrs_unknown_tagged_fields s) else Inr []])"

definition ListOffsetsTopicResponse_compute_size :: "list_offsets_topic_response \<Rightarrow> i16 \<Rightarrow> wire_error + usize" where
  "ListOffsetsTopicResponse_compute_size s version =
     sums
       [if version \<ge> 6
         then CompactString_compute_size (Some (lotrs_name s))
         else String_compute_size (Some (lotrs_name s)),
        if version \<ge> 6
         then CompactArray_compute_size None (\<lambda>x. ListOffsetsPartitionResponse_compute_size x version) (Some (lotrs_partitions s))
         else Array_compute_size None (\<lambda>x. ListOffsetsPartitionResponse_compute_size x version) (Some (lotrs_partitions s)),
        if version \<ge> 6 then tags_size [] (lotrs_unknown_tagged_fields s) else Inr 0]"

definition ListOffsetsTopicResponse_decode :: "i16 \<Rightarrow> list_offsets_topic_response decoder" where
  "ListOffsetsTopicResponse_decode version =
     (if version < 1 \<or> version > 11 then refuse UNSUPPORTED_VERSION
      else
        get (if version \<ge> 6 then CompactString_required else String_required) (\<lambda>name.
        get (if version \<ge> 6
              then CompactArray_required (ListOffsetsPartitionResponse_decode version)
              else Array_required (ListOffsetsPartitionResponse_decode version)) (\<lambda>partitions.
        get (if version \<ge> 6 then get_unknown_tags else give []) (\<lambda>unknown_tagged_fields.
        give \<lparr>lotrs_name = name, lotrs_partitions = partitions,
               lotrs_unknown_tagged_fields = unknown_tagged_fields\<rparr>))))"

definition ListOffsetsTopicResponse_ok :: "i16 \<Rightarrow> list_offsets_topic_response \<Rightarrow> bool" where
  "ListOffsetsTopicResponse_ok version s \<longleftrightarrow>
     \<not> (version < 1 \<or> version > 11) \<and>
     (if version \<ge> 6
       then string_ok (2 ^ 32 - 2) (Some (lotrs_name s))
       else string_ok 32767 (Some (lotrs_name s))) \<and>
     (if version \<ge> 6
       then seq_ok (2 ^ 32 - 2) (ListOffsetsPartitionResponse_ok version) (Some (lotrs_partitions s))
       else seq_ok (2 ^ 31 - 1) (ListOffsetsPartitionResponse_ok version) (Some (lotrs_partitions s))) \<and>
     (if version \<ge> 6 then tags_ok 0 (lotrs_unknown_tagged_fields s) else lotrs_unknown_tagged_fields s = [])"

lemma ListOffsetsTopicResponse_codec [coded_intros]:
  "sized_codec (\<lambda>s. ListOffsetsTopicResponse_encode s version) (ListOffsetsTopicResponse_decode version)
     (\<lambda>s. ListOffsetsTopicResponse_compute_size s version) (ListOffsetsTopicResponse_ok version)"
  unfolding ListOffsetsTopicResponse_encode_def ListOffsetsTopicResponse_decode_def ListOffsetsTopicResponse_compute_size_def
  by (rule sized_codecI) (rule coded_intros | (simp add: ListOffsetsTopicResponse_ok_def; fail))+

lemmas ListOffsetsTopicResponse_coded [coded_intros] = sized_codec.codes [OF ListOffsetsTopicResponse_codec]

definition ListOffsetsResponse_encode :: "list_offsets_response \<Rightarrow> i16 \<Rightarrow> wire_error + bytes" where
  "ListOffsetsResponse_encode s version =
     (if version < 1 \<or> version > 11 then Inl UNSUPPORTED_VERSION
      else puts
        [if version \<ge> 2 then Inr (Int32_encode (lors_throttle_time_ms s)) else Inr [],
         if version \<ge> 6
          then CompactArray_encode (\<lambda>x. ListOffsetsTopicResponse_encode x version) (Some (lors_topics s))
          else Array_encode (\<lambda>x. ListOffsetsTopicResponse_encode x version) (Some (lors_topics s)),
         if version \<ge> 6 then put_tags [] 0 (lors_unknown_tagged_fields s) else Inr []])"

definition ListOffsetsResponse_compute_size :: "list_offsets_response \<Rightarrow> i16 \<Rightarrow> wire_error + usize" where
  "ListOffsetsResponse_compute_size s version =
     sums
       [if version \<ge> 2 then Inr 4 else Inr 0,
        if version \<ge> 6
         then CompactArray_compute_size None (\<lambda>x. ListOffsetsTopicResponse_compute_size x version) (Some (lors_topics s))
         else Array_compute_size None (\<lambda>x. ListOffsetsTopicResponse_compute_size x version) (Some (lors_topics s)),
        if version \<ge> 6 then tags_size [] (lors_unknown_tagged_fields s) else Inr 0]"

definition ListOffsetsResponse_decode :: "i16 \<Rightarrow> list_offsets_response decoder" where
  "ListOffsetsResponse_decode version =
     (if version < 1 \<or> version > 11 then refuse UNSUPPORTED_VERSION
      else
        get (if version \<ge> 2 then Int32_decode else give 0) (\<lambda>throttle_time_ms.
        get (if version \<ge> 6
              then CompactArray_required (ListOffsetsTopicResponse_decode version)
              else Array_required (ListOffsetsTopicResponse_decode version)) (\<lambda>topics.
        get (if version \<ge> 6 then get_unknown_tags else give []) (\<lambda>unknown_tagged_fields.
        give \<lparr>lors_throttle_time_ms = throttle_time_ms, lors_topics = topics,
               lors_unknown_tagged_fields = unknown_tagged_fields\<rparr>))))"

definition ListOffsetsResponse_ok :: "i16 \<Rightarrow> list_offsets_response \<Rightarrow> bool" where
  "ListOffsetsResponse_ok version s \<longleftrightarrow>
     \<not> (version < 1 \<or> version > 11) \<and>
     (if version \<ge> 2 then in_i32 (lors_throttle_time_ms s) else lors_throttle_time_ms s = 0) \<and>
     (if version \<ge> 6
       then seq_ok (2 ^ 32 - 2) (ListOffsetsTopicResponse_ok version) (Some (lors_topics s))
       else seq_ok (2 ^ 31 - 1) (ListOffsetsTopicResponse_ok version) (Some (lors_topics s))) \<and>
     (if version \<ge> 6 then tags_ok 0 (lors_unknown_tagged_fields s) else lors_unknown_tagged_fields s = [])"

lemma ListOffsetsResponse_codec [coded_intros]:
  "sized_codec (\<lambda>s. ListOffsetsResponse_encode s version) (ListOffsetsResponse_decode version)
     (\<lambda>s. ListOffsetsResponse_compute_size s version) (ListOffsetsResponse_ok version)"
  unfolding ListOffsetsResponse_encode_def ListOffsetsResponse_decode_def ListOffsetsResponse_compute_size_def
  by (rule sized_codecI) (rule coded_intros | (simp add: ListOffsetsResponse_ok_def; fail))+

lemmas ListOffsetsResponse_coded [coded_intros] = sized_codec.codes [OF ListOffsetsResponse_codec]

section \<open>Init producer id\<close>

definition InitProducerIdRequest_encode :: "init_producer_id_request \<Rightarrow> i16 \<Rightarrow> wire_error + bytes" where
  "InitProducerIdRequest_encode s version =
     (if version < 0 \<or> version > 6 then Inl UNSUPPORTED_VERSION
      else puts
        [if version \<ge> 2
          then CompactString_encode (ipirq_transactional_id s)
          else String_encode (ipirq_transactional_id s),
         Inr (Int32_encode (ipirq_transaction_timeout_ms s)),
         if version \<ge> 3
          then Inr (Int64_encode (ipirq_producer_id s))
          else unset [] (ipirq_producer_id s = - 1),
         if version \<ge> 3
          then Inr (Int16_encode (ipirq_producer_epoch s))
          else unset [] (ipirq_producer_epoch s = - 1),
         if version \<ge> 6
          then Inr (Boolean_encode (ipirq_enable_2_pc s))
          else unset [] (\<not> ipirq_enable_2_pc s),
         if version \<ge> 6
          then Inr (Boolean_encode (ipirq_keep_prepared_txn s))
          else unset [] (\<not> ipirq_keep_prepared_txn s),
         if version \<ge> 2 then put_tags [] 0 (ipirq_unknown_tagged_fields s) else Inr []])"

definition InitProducerIdRequest_compute_size :: "init_producer_id_request \<Rightarrow> i16 \<Rightarrow> wire_error + usize" where
  "InitProducerIdRequest_compute_size s version =
     sums
       [if version \<ge> 2
         then CompactString_compute_size (ipirq_transactional_id s)
         else String_compute_size (ipirq_transactional_id s),
        Inr 4,
        if version \<ge> 3 then Inr 8 else unset 0 (ipirq_producer_id s = - 1),
        if version \<ge> 3 then Inr 2 else unset 0 (ipirq_producer_epoch s = - 1),
        if version \<ge> 6 then Inr 1 else unset 0 (\<not> ipirq_enable_2_pc s),
        if version \<ge> 6 then Inr 1 else unset 0 (\<not> ipirq_keep_prepared_txn s),
        if version \<ge> 2 then tags_size [] (ipirq_unknown_tagged_fields s) else Inr 0]"

definition InitProducerIdRequest_decode :: "i16 \<Rightarrow> init_producer_id_request decoder" where
  "InitProducerIdRequest_decode version =
     (if version < 0 \<or> version > 6 then refuse UNSUPPORTED_VERSION
      else
        get (if version \<ge> 2 then CompactString_decode else String_decode) (\<lambda>transactional_id.
        get Int32_decode (\<lambda>transaction_timeout_ms.
        get (if version \<ge> 3 then Int64_decode else give (- 1)) (\<lambda>producer_id.
        get (if version \<ge> 3 then Int16_decode else give (- 1)) (\<lambda>producer_epoch.
        get (if version \<ge> 6 then Boolean_decode else give False) (\<lambda>enable_2_pc.
        get (if version \<ge> 6 then Boolean_decode else give False) (\<lambda>keep_prepared_txn.
        get (if version \<ge> 2 then get_unknown_tags else give []) (\<lambda>unknown_tagged_fields.
        give \<lparr>ipirq_transactional_id = transactional_id,
               ipirq_transaction_timeout_ms = transaction_timeout_ms, ipirq_producer_id = producer_id,
               ipirq_producer_epoch = producer_epoch, ipirq_enable_2_pc = enable_2_pc,
               ipirq_keep_prepared_txn = keep_prepared_txn,
               ipirq_unknown_tagged_fields = unknown_tagged_fields\<rparr>))))))))"

definition InitProducerIdRequest_ok :: "i16 \<Rightarrow> init_producer_id_request \<Rightarrow> bool" where
  "InitProducerIdRequest_ok version s \<longleftrightarrow>
     \<not> (version < 0 \<or> version > 6) \<and>
     (if version \<ge> 2
       then string_ok (2 ^ 32 - 2) (ipirq_transactional_id s)
       else string_ok 32767 (ipirq_transactional_id s)) \<and>
     in_i32 (ipirq_transaction_timeout_ms s) \<and>
     (if version \<ge> 3 then in_i64 (ipirq_producer_id s) else ipirq_producer_id s = - 1) \<and>
     (if version \<ge> 3 then in_i16 (ipirq_producer_epoch s) else ipirq_producer_epoch s = - 1) \<and>
     (if version \<ge> 6 then True else \<not> ipirq_enable_2_pc s) \<and>
     (if version \<ge> 6 then True else \<not> ipirq_keep_prepared_txn s) \<and>
     (if version \<ge> 2 then tags_ok 0 (ipirq_unknown_tagged_fields s) else ipirq_unknown_tagged_fields s = [])"

lemma InitProducerIdRequest_codec [coded_intros]:
  "sized_codec (\<lambda>s. InitProducerIdRequest_encode s version) (InitProducerIdRequest_decode version)
     (\<lambda>s. InitProducerIdRequest_compute_size s version) (InitProducerIdRequest_ok version)"
  unfolding InitProducerIdRequest_encode_def InitProducerIdRequest_decode_def InitProducerIdRequest_compute_size_def
  by (rule sized_codecI) (rule coded_intros | (clarsimp simp: InitProducerIdRequest_ok_def; fail))+

lemmas InitProducerIdRequest_coded [coded_intros] = sized_codec.codes [OF InitProducerIdRequest_codec]

definition InitProducerIdResponse_encode :: "init_producer_id_response \<Rightarrow> i16 \<Rightarrow> wire_error + bytes" where
  "InitProducerIdResponse_encode s version =
     (if version < 0 \<or> version > 6 then Inl UNSUPPORTED_VERSION
      else puts
        [Inr (Int32_encode (ipirs_throttle_time_ms s)),
         Inr (Int16_encode (ipirs_error_code s)),
         Inr (Int64_encode (ipirs_producer_id s)),
         Inr (Int16_encode (ipirs_producer_epoch s)),
         if version \<ge> 6
          then Inr (Int64_encode (ipirs_ongoing_txn_producer_id s))
          else unset [] (ipirs_ongoing_txn_producer_id s = - 1),
         if version \<ge> 6
          then Inr (Int16_encode (ipirs_ongoing_txn_producer_epoch s))
          else unset [] (ipirs_ongoing_txn_producer_epoch s = - 1),
         if version \<ge> 2 then put_tags [] 0 (ipirs_unknown_tagged_fields s) else Inr []])"

definition InitProducerIdResponse_compute_size :: "init_producer_id_response \<Rightarrow> i16 \<Rightarrow> wire_error + usize" where
  "InitProducerIdResponse_compute_size s version =
     sums
       [Inr 4,
        Inr 2,
        Inr 8,
        Inr 2,
        if version \<ge> 6 then Inr 8 else unset 0 (ipirs_ongoing_txn_producer_id s = - 1),
        if version \<ge> 6 then Inr 2 else unset 0 (ipirs_ongoing_txn_producer_epoch s = - 1),
        if version \<ge> 2 then tags_size [] (ipirs_unknown_tagged_fields s) else Inr 0]"

definition InitProducerIdResponse_decode :: "i16 \<Rightarrow> init_producer_id_response decoder" where
  "InitProducerIdResponse_decode version =
     (if version < 0 \<or> version > 6 then refuse UNSUPPORTED_VERSION
      else
        get Int32_decode (\<lambda>throttle_time_ms.
        get Int16_decode (\<lambda>error_code.
        get Int64_decode (\<lambda>producer_id.
        get Int16_decode (\<lambda>producer_epoch.
        get (if version \<ge> 6 then Int64_decode else give (- 1)) (\<lambda>ongoing_txn_producer_id.
        get (if version \<ge> 6 then Int16_decode else give (- 1)) (\<lambda>ongoing_txn_producer_epoch.
        get (if version \<ge> 2 then get_unknown_tags else give []) (\<lambda>unknown_tagged_fields.
        give \<lparr>ipirs_throttle_time_ms = throttle_time_ms, ipirs_error_code = error_code,
               ipirs_producer_id = producer_id, ipirs_producer_epoch = producer_epoch,
               ipirs_ongoing_txn_producer_id = ongoing_txn_producer_id,
               ipirs_ongoing_txn_producer_epoch = ongoing_txn_producer_epoch,
               ipirs_unknown_tagged_fields = unknown_tagged_fields\<rparr>))))))))"

definition InitProducerIdResponse_ok :: "i16 \<Rightarrow> init_producer_id_response \<Rightarrow> bool" where
  "InitProducerIdResponse_ok version s \<longleftrightarrow>
     \<not> (version < 0 \<or> version > 6) \<and>
     in_i32 (ipirs_throttle_time_ms s) \<and>
     in_i16 (ipirs_error_code s) \<and>
     in_i64 (ipirs_producer_id s) \<and>
     in_i16 (ipirs_producer_epoch s) \<and>
     (if version \<ge> 6
       then in_i64 (ipirs_ongoing_txn_producer_id s)
       else ipirs_ongoing_txn_producer_id s = - 1) \<and>
     (if version \<ge> 6
       then in_i16 (ipirs_ongoing_txn_producer_epoch s)
       else ipirs_ongoing_txn_producer_epoch s = - 1) \<and>
     (if version \<ge> 2 then tags_ok 0 (ipirs_unknown_tagged_fields s) else ipirs_unknown_tagged_fields s = [])"

lemma InitProducerIdResponse_codec [coded_intros]:
  "sized_codec (\<lambda>s. InitProducerIdResponse_encode s version) (InitProducerIdResponse_decode version)
     (\<lambda>s. InitProducerIdResponse_compute_size s version) (InitProducerIdResponse_ok version)"
  unfolding InitProducerIdResponse_encode_def InitProducerIdResponse_decode_def InitProducerIdResponse_compute_size_def
  by (rule sized_codecI) (rule coded_intros | (clarsimp simp: InitProducerIdResponse_ok_def; fail))+

lemmas InitProducerIdResponse_coded [coded_intros] = sized_codec.codes [OF InitProducerIdResponse_codec]

end
