(* ===== verification/Codec_Topics.thy ===== *)
theory Codec_Topics
  imports Message_Codec Messages_Cluster
begin

text \<open>
  The codecs of the messages metadata, create topics, describe topic partitions
  (\<open>src/crates/kafka-protocol/src/messages/\<close>): the encoder, the size computation and the decoder of every structure,
  for every version of its schema, what a structure must satisfy to be sent in a version, and that it then comes back.
\<close>

section \<open>Metadata\<close>

definition MetadataRequestTopic_encode :: "metadata_request_topic \<Rightarrow> i16 \<Rightarrow> wire_error + bytes" where
  "MetadataRequestTopic_encode s version =
     (if version < 0 \<or> version > 13 then Inl UNSUPPORTED_VERSION
      else puts
        [if version \<ge> 10 then Inr (Uuid_encode (mrqt_topic_id s)) else Inr [],
         if version \<ge> 9 then CompactString_encode (mrqt_name s) else String_encode (mrqt_name s),
         if version \<ge> 9 then put_tags [] 0 (mrqt_unknown_tagged_fields s) else Inr []])"

definition MetadataRequestTopic_compute_size :: "metadata_request_topic \<Rightarrow> i16 \<Rightarrow> wire_error + usize" where
  "MetadataRequestTopic_compute_size s version =
     sums
       [if version \<ge> 10 then Inr 16 else Inr 0,
        if version \<ge> 9
         then CompactString_compute_size (mrqt_name s)
         else String_compute_size (mrqt_name s),
        if version \<ge> 9 then tags_size [] (mrqt_unknown_tagged_fields s) else Inr 0]"

definition MetadataRequestTopic_decode :: "i16 \<Rightarrow> metadata_request_topic decoder" where
  "MetadataRequestTopic_decode version =
     (if version < 0 \<or> version > 13 then refuse UNSUPPORTED_VERSION
      else
        get (if version \<ge> 10 then Uuid_decode else give nil_uuid) (\<lambda>topic_id.
        get (if version \<ge> 9 then CompactString_decode else String_decode) (\<lambda>name.
        get (if version \<ge> 9 then get_unknown_tags else give []) (\<lambda>unknown_tagged_fields.
        give \<lparr>mrqt_topic_id = topic_id, mrqt_name = name,
               mrqt_unknown_tagged_fields = unknown_tagged_fields\<rparr>))))"

definition MetadataRequestTopic_ok :: "i16 \<Rightarrow> metadata_request_topic \<Rightarrow> bool" where
  "MetadataRequestTopic_ok version s \<longleftrightarrow>
     \<not> (version < 0 \<or> version > 13) \<and>
     (if version \<ge> 10 then True else mrqt_topic_id s = nil_uuid) \<and>
     (if version \<ge> 9 then string_ok (2 ^ 32 - 2) (mrqt_name s) else string_ok 32767 (mrqt_name s)) \<and>
     (if version \<ge> 9 then tags_ok 0 (mrqt_unknown_tagged_fields s) else mrqt_unknown_tagged_fields s = [])"

lemma MetadataRequestTopic_codec [coded_intros]:
  "sized_codec (\<lambda>s. MetadataRequestTopic_encode s version) (MetadataRequestTopic_decode version)
     (\<lambda>s. MetadataRequestTopic_compute_size s version) (MetadataRequestTopic_ok version)"
  unfolding MetadataRequestTopic_encode_def MetadataRequestTopic_decode_def MetadataRequestTopic_compute_size_def
  by (rule sized_codecI) (rule coded_intros | (simp add: MetadataRequestTopic_ok_def; fail))+

lemmas MetadataRequestTopic_coded [coded_intros] = sized_codec.codes [OF MetadataRequestTopic_codec]

definition MetadataRequest_encode :: "metadata_request \<Rightarrow> i16 \<Rightarrow> wire_error + bytes" where
  "MetadataRequest_encode s version =
     (if version < 0 \<or> version > 13 then Inl UNSUPPORTED_VERSION
      else puts
        [if version \<ge> 9
          then CompactArray_encode (\<lambda>x. MetadataRequestTopic_encode x version) (mrq_topics s)
          else Array_encode (\<lambda>x. MetadataRequestTopic_encode x version) (mrq_topics s),
         if version \<ge> 4
          then Inr (Boolean_encode (mrq_allow_auto_topic_creation s))
          else unset [] (mrq_allow_auto_topic_creation s),
         if version \<ge> 8 \<and> version \<le> 10
          then Inr (Boolean_encode (mrq_include_cluster_authorized_operations s))
          else unset [] (\<not> mrq_include_cluster_authorized_operations s),
         if version \<ge> 8
          then Inr (Boolean_encode (mrq_include_topic_authorized_operations s))
          else unset [] (\<not> mrq_include_topic_authorized_operations s),
         if version \<ge> 9 then put_tags [] 0 (mrq_unknown_tagged_fields s) else Inr []])"

definition MetadataRequest_compute_size :: "metadata_request \<Rightarrow> i16 \<Rightarrow> wire_error + usize" where
  "MetadataRequest_compute_size s version =
     sums
       [if version \<ge> 9
         then CompactArray_compute_size None (\<lambda>x. MetadataRequestTopic_compute_size x version) (mrq_topics s)
         else Array_compute_size None (\<lambda>x. MetadataRequestTopic_compute_size x version) (mrq_topics s),
        if version \<ge> 4 then Inr 1 else unset 0 (mrq_allow_auto_topic_creation s),
        if version \<ge> 8 \<and> version \<le> 10
         then Inr 1
         else unset 0 (\<not> mrq_include_cluster_authorized_operations s),
        if version \<ge> 8 then Inr 1 else unset 0 (\<not> mrq_include_topic_authorized_operations s),
        if version \<ge> 9 then tags_size [] (mrq_unknown_tagged_fields s) else Inr 0]"

definition MetadataRequest_decode :: "i16 \<Rightarrow> metadata_request decoder" where
  "MetadataRequest_decode version =
     (if version < 0 \<or> version > 13 then refuse UNSUPPORTED_VERSION
      else
        get (if version \<ge> 9
              then CompactArray_decode (MetadataRequestTopic_decode version)
              else Array_decode (MetadataRequestTopic_decode version)) (\<lambda>topics.
        get (if version \<ge> 4 then Boolean_decode else give True) (\<lambda>allow_auto_topic_creation.
        get (if version \<ge> 8 \<and> version \<le> 10 then Boolean_decode else give False) (\<lambda>include_cluster_authorized_operations.
        get (if version \<ge> 8 then Boolean_decode else give False) (\<lambda>include_topic_authorized_operations.
        get (if version \<ge> 9 then get_unknown_tags else give []) (\<lambda>unknown_tagged_fields.
        give \<lparr>mrq_topics = topics, mrq_allow_auto_topic_creation = allow_auto_topic_creation,
               mrq_include_cluster_authorized_operations = include_cluster_authorized_operations,
               mrq_include_topic_authorized_operations = include_topic_authorized_operations,
               mrq_unknown_tagged_fields = unknown_tagged_fields\<rparr>))))))"

definition MetadataRequest_ok :: "i16 \<Rightarrow> metadata_request \<Rightarrow> bool" where
  "MetadataRequest_ok version s \<longleftrightarrow>
     \<not> (version < 0 \<or> version > 13) \<and>
     (if version \<ge> 9
       then seq_ok (2 ^ 32 - 2) (MetadataRequestTopic_ok version) (mrq_topics s)
       else seq_ok (2 ^ 31 - 1) (MetadataRequestTopic_ok version) (mrq_topics s)) \<and>
     (if version \<ge> 4 then True else mrq_allow_auto_topic_creation s) \<and>
     (if version \<ge> 8 \<and> version \<le> 10 then True else \<not> mrq_include_cluster_authorized_operations s) \<and>
     (if version \<ge> 8 then True else \<not> mrq_include_topic_authorized_operations s) \<and>
     (if version \<ge> 9 then tags_ok 0 (mrq_unknown_tagged_fields s) else mrq_unknown_tagged_fields s = [])"

lemma MetadataRequest_codec [coded_intros]:
  "sized_codec (\<lambda>s. MetadataRequest_encode s version) (MetadataRequest_decode version)
     (\<lambda>s. MetadataRequest_compute_size s version) (MetadataRequest_ok version)"
  unfolding MetadataRequest_encode_def MetadataRequest_decode_def MetadataRequest_compute_size_def
  by (rule sized_codecI) (rule coded_intros | (simp add: MetadataRequest_ok_def; fail))+

lemmas MetadataRequest_coded [coded_intros] = sized_codec.codes [OF MetadataRequest_codec]

definition MetadataResponseBroker_encode :: "metadata_response_broker \<Rightarrow> i16 \<Rightarrow> wire_error + bytes" where
  "MetadataResponseBroker_encode s version =
     (if version < 0 \<or> version > 13 then Inl UNSUPPORTED_VERSION
      else puts
        [Inr (Int32_encode (mrsb_node_id s)),
         if version \<ge> 9
          then CompactString_encode (Some (mrsb_host s))
          else String_encode (Some (mrsb_host s)),
         Inr (Int32_encode (mrsb_port s)),
         if version \<ge> 1
          then if version \<ge> 9 then CompactString_encode (mrsb_rack s) else String_encode (mrsb_rack s)
          else Inr [],
         if version \<ge> 9 then put_tags [] 0 (mrsb_unknown_tagged_fields s) else Inr []])"

definition MetadataResponseBroker_compute_size :: "metadata_response_broker \<Rightarrow> i16 \<Rightarrow> wire_error + usize" where
  "MetadataResponseBroker_compute_size s version =
     sums
       [Inr 4,
        if version \<ge> 9
         then CompactString_compute_size (Some (mrsb_host s))
         else String_compute_size (Some (mrsb_host s)),
        Inr 4,
        if version \<ge> 1
         then if version \<ge> 9
               then CompactString_compute_size (mrsb_rack s)
               else String_compute_size (mrsb_rack s)
         else Inr 0,
        if version \<ge> 9 then tags_size [] (mrsb_unknown_tagged_fields s) else Inr 0]"

definition MetadataResponseBroker_decode :: "i16 \<Rightarrow> metadata_response_broker decoder" where
  "MetadataResponseBroker_decode version =
     (if version < 0 \<or> version > 13 then refuse UNSUPPORTED_VERSION
      else
        get Int32_decode (\<lambda>node_id.
        get (if version \<ge> 9 then CompactString_required else String_required) (\<lambda>host.
        get Int32_decode (\<lambda>port.
        get (if version \<ge> 1
              then if version \<ge> 9 then CompactString_decode else String_decode
              else give None) (\<lambda>rack.
        get (if version \<ge> 9 then get_unknown_tags else give []) (\<lambda>unknown_tagged_fields.
        give \<lparr>mrsb_node_id = node_id, mrsb_host = host, mrsb_port = port, mrsb_rack = rack,
               mrsb_unknown_tagged_fields = unknown_tagged_fields\<rparr>))))))"

definition MetadataResponseBroker_ok :: "i16 \<Rightarrow> metadata_response_broker \<Rightarrow> bool" where
  "MetadataResponseBroker_ok version s \<longleftrightarrow>
     \<not> (version < 0 \<or> version > 13) \<and>
     in_i32 (mrsb_node_id s) \<and>
     (if version \<ge> 9
       then string_ok (2 ^ 32 - 2) (Some (mrsb_host s))
       else string_ok 32767 (Some (mrsb_host s))) \<and>
     in_i32 (mrsb_port s) \<and>
     (if version \<ge> 1
       then if version \<ge> 9 then string_ok (2 ^ 32 - 2) (mrsb_rack s) else string_ok 32767 (mrsb_rack s)
       else mrsb_rack s = None) \<and>
     (if version \<ge> 9 then tags_ok 0 (mrsb_unknown_tagged_fields s) else mrsb_unknown_tagged_fields s = [])"

lemma MetadataResponseBroker_codec [coded_intros]:
  "sized_codec (\<lambda>s. MetadataResponseBroker_encode s version) (MetadataResponseBroker_decode version)
     (\<lambda>s. MetadataResponseBroker_compute_size s version) (MetadataResponseBroker_ok version)"
  unfolding MetadataResponseBroker_encode_def MetadataResponseBroker_decode_def MetadataResponseBroker_compute_size_def
  by (rule sized_codecI) (rule coded_intros | (simp add: MetadataResponseBroker_ok_def; fail))+

lemmas MetadataResponseBroker_coded [coded_intros] = sized_codec.codes [OF MetadataResponseBroker_codec]

definition MetadataResponsePartition_encode :: "metadata_response_partition \<Rightarrow> i16 \<Rightarrow> wire_error + bytes" where
  "MetadataResponsePartition_encode s version =
     (if version < 0 \<or> version > 13 then Inl UNSUPPORTED_VERSION
      else puts
        [Inr (Int16_encode (mrsp_error_code s)),
         Inr (Int32_encode (mrsp_partition_index s)),
         Inr (Int32_encode (mrsp_leader_id s)),
         if version \<ge> 7 then Inr (Int32_encode (mrsp_leader_epoch s)) else Inr [],
         if version \<ge> 9
          then CompactArray_encode (\<lambda>x. Inr (Int32_encode x)) (Some (mrsp_replica_nodes s))
          else Array_encode (\<lambda>x. Inr (Int32_encode x)) (Some (mrsp_replica_nodes s)),
         if version \<ge> 9
          then CompactArray_encode (\<lambda>x. Inr (Int32_encode x)) (Some (mrsp_isr_nodes s))
          else Array_encode (\<lambda>x. Inr (Int32_encode x)) (Some (mrsp_isr_nodes s)),
         if version \<ge> 5
          then if version \<ge> 9
                then CompactArray_encode (\<lambda>x. Inr (Int32_encode x)) (Some (mrsp_offline_replicas s))
                else Array_encode (\<lambda>x. Inr (Int32_encode x)) (Some (mrsp_offline_replicas s))
          else Inr [],
         if version \<ge> 9 then put_tags [] 0 (mrsp_unknown_tagged_fields s) else Inr []])"

definition MetadataResponsePartition_compute_size :: "metadata_response_partition \<Rightarrow> i16 \<Rightarrow> wire_error + usize" where
  "MetadataResponsePartition_compute_size s version =
     sums
       [Inr 2,
        Inr 4,
        Inr 4,
        if version \<ge> 7 then Inr 4 else Inr 0,
        if version \<ge> 9
         then CompactArray_compute_size (Some 4) (\<lambda>_. Inr 4) (Some (mrsp_replica_nodes s))
         else Array_compute_size (Some 4) (\<lambda>_. Inr 4) (Some (mrsp_replica_nodes s)),
        if version \<ge> 9
         then CompactArray_compute_size (Some 4) (\<lambda>_. Inr 4) (Some (mrsp_isr_nodes s))
         else Array_compute_size (Some 4) (\<lambda>_. Inr 4) (Some (mrsp_isr_nodes s)),
        if version \<ge> 5
         then if version \<ge> 9
               then CompactArray_compute_size (Some 4) (\<lambda>_. Inr 4) (Some (mrsp_offline_replicas s))
               else Array_compute_size (Some 4) (\<lambda>_. Inr 4) (Some (mrsp_offline_replicas s))
         else Inr 0,
        if version \<ge> 9 then tags_size [] (mrsp_unknown_tagged_fields s) else Inr 0]"

definition MetadataResponsePartition_decode :: "i16 \<Rightarrow> metadata_response_partition decoder" where
  "MetadataResponsePartition_decode version =
     (if version < 0 \<or> version > 13 then refuse UNSUPPORTED_VERSION
      else
        get Int16_decode (\<lambda>error_code.
        get Int32_decode (\<lambda>partition_index.
        get Int32_decode (\<lambda>leader_id.
        get (if version \<ge> 7 then Int32_decode else give (- 1)) (\<lambda>leader_epoch.
        get (if version \<ge> 9 then CompactArray_required Int32_decode else Array_required Int32_decode) (\<lambda>replica_nodes.
        get (if version \<ge> 9 then CompactArray_required Int32_decode else Array_required Int32_decode) (\<lambda>isr_nodes.
        get (if version \<ge> 5
              then if version \<ge> 9
                    then CompactArray_required Int32_decode
                    else Array_required Int32_decode
              else give []) (\<lambda>offline_replicas.
        get (if version \<ge> 9 then get_unknown_tags else give []) (\<lambda>unknown_tagged_fields.
        give \<lparr>mrsp_error_code = error_code, mrsp_partition_index = partition_index,
               mrsp_leader_id = leader_id, mrsp_leader_epoch = leader_epoch,
               mrsp_replica_nodes = replica_nodes, mrsp_isr_nodes = isr_nodes,
               mrsp_offline_replicas = offline_replicas,
               mrsp_unknown_tagged_fields = unknown_tagged_fields\<rparr>)))))))))"

definition MetadataResponsePartition_ok :: "i16 \<Rightarrow> metadata_response_partition \<Rightarrow> bool" where
  "MetadataResponsePartition_ok version s \<longleftrightarrow>
     \<not> (version < 0 \<or> version > 13) \<and>
     in_i16 (mrsp_error_code s) \<and>
     in_i32 (mrsp_partition_index s) \<and>
     in_i32 (mrsp_leader_id s) \<and>
     (if version \<ge> 7 then in_i32 (mrsp_leader_epoch s) else mrsp_leader_epoch s = - 1) \<and>
     (if version \<ge> 9
       then seq_ok (2 ^ 32 - 2) in_i32 (Some (mrsp_replica_nodes s))
       else seq_ok (2 ^ 31 - 1) in_i32 (Some (mrsp_replica_nodes s))) \<and>
     (if version \<ge> 9
       then seq_ok (2 ^ 32 - 2) in_i32 (Some (mrsp_isr_nodes s))
       else seq_ok (2 ^ 31 - 1) in_i32 (Some (mrsp_isr_nodes s))) \<and>
     (if version \<ge> 5
       then if version \<ge> 9
             then seq_ok (2 ^ 32 - 2) in_i32 (Some (mrsp_offline_replicas s))
             else seq_ok (2 ^ 31 - 1) in_i32 (Some (mrsp_offline_replicas s))
       else mrsp_offline_replicas s = []) \<and>
     (if version \<ge> 9 then tags_ok 0 (mrsp_unknown_tagged_fields s) else mrsp_unknown_tagged_fields s = [])"

lemma MetadataResponsePartition_codec [coded_intros]:
  "sized_codec (\<lambda>s. MetadataResponsePartition_encode s version) (MetadataResponsePartition_decode version)
     (\<lambda>s. MetadataResponsePartition_compute_size s version) (MetadataResponsePartition_ok version)"
  unfolding MetadataResponsePartition_encode_def MetadataResponsePartition_decode_def MetadataResponsePartition_compute_size_def
  by (rule sized_codecI) (rule coded_intros | (simp add: MetadataResponsePartition_ok_def; fail))+

lemmas MetadataResponsePartition_coded [coded_intros] = sized_codec.codes [OF MetadataResponsePartition_codec]

definition MetadataResponseTopic_encode :: "metadata_response_topic \<Rightarrow> i16 \<Rightarrow> wire_error + bytes" where
  "MetadataResponseTopic_encode s version =
     (if version < 0 \<or> version > 13 then Inl UNSUPPORTED_VERSION
      else puts
        [Inr (Int16_encode (mrst_error_code s)),
         if version \<ge> 9 then CompactString_encode (mrst_name s) else String_encode (mrst_name s),
         if version \<ge> 10 then Inr (Uuid_encode (mrst_topic_id s)) else Inr [],
         if version \<ge> 1 then Inr (Boolean_encode (mrst_is_internal s)) else Inr [],
         if version \<ge> 9
          then CompactArray_encode (\<lambda>x. MetadataResponsePartition_encode x version) (Some (mrst_partitions s))
          else Array_encode (\<lambda>x. MetadataResponsePartition_encode x version) (Some (mrst_partitions s)),
         if version \<ge> 8
          then Inr (Int32_encode (mrst_topic_authorized_operations s))
          else unset [] (mrst_topic_authorized_operations s = - 2147483648),
         if version \<ge> 9 then put_tags [] 0 (mrst_unknown_tagged_fields s) else Inr []])"

definition MetadataResponseTopic_compute_size :: "metadata_response_topic \<Rightarrow> i16 \<Rightarrow> wire_error + usize" where
  "MetadataResponseTopic_compute_size s version =
     sums
       [Inr 2,
        if version \<ge> 9
         then CompactString_compute_size (mrst_name s)
         else String_compute_size (mrst_name s),
        if version \<ge> 10 then Inr 16 else Inr 0,
        if version \<ge> 1 then Inr 1 else Inr 0,
        if version \<ge> 9
         then CompactArray_compute_size None (\<lambda>x. MetadataResponsePartition_compute_size x version) (Some (mrst_partitions s))
         else Array_compute_size None (\<lambda>x. MetadataResponsePartition_compute_size x version) (Some (mrst_partitions s)),
        if version \<ge> 8 then Inr 4 else unset 0 (mrst_topic_authorized_operations s = - 2147483648),
        if version \<ge> 9 then tags_size [] (mrst_unknown_tagged_fields s) else Inr 0]"

definition MetadataResponseTopic_decode :: "i16 \<Rightarrow> metadata_response_topic decoder" where
  "MetadataResponseTopic_decode version =
     (if version < 0 \<or> version > 13 then refuse UNSUPPORTED_VERSION
      else
        get Int16_decode (\<lambda>error_code.
        get (if version \<ge> 9 then CompactString_decode else String_decode) (\<lambda>name.
        get (if version \<ge> 10 then Uuid_decode else give nil_uuid) (\<lambda>topic_id.
        get (if version \<ge> 1 then Boolean_decode else give False) (\<lambda>is_internal.
        get (if version \<ge> 9
              then CompactArray_required (MetadataResponsePartition_decode version)
              else Array_required (MetadataResponsePartition_decode version)) (\<lambda>partitions.
        get (if version \<ge> 8 then Int32_decode else give (- 2147483648)) (\<lambda>topic_authorized_operations.
        get (if version \<ge> 9 then get_unknown_tags else give []) (\<lambda>unknown_tagged_fields.
        give \<lparr>mrst_error_code = error_code, mrst_name = name, mrst_topic_id = topic_id,
               mrst_is_internal = is_internal, mrst_partitions = partitions,
               mrst_topic_authorized_operations = topic_authorized_operations,
               mrst_unknown_tagged_fields = unknown_tagged_fields\<rparr>))))))))"

definition MetadataResponseTopic_ok :: "i16 \<Rightarrow> metadata_response_topic \<Rightarrow> bool" where
  "MetadataResponseTopic_ok version s \<longleftrightarrow>
     \<not> (version < 0 \<or> version > 13) \<and>
     in_i16 (mrst_error_code s) \<and>
     (if version \<ge> 9 then string_ok (2 ^ 32 - 2) (mrst_name s) else string_ok 32767 (mrst_name s)) \<and>
     (if version \<ge> 10 then True else mrst_topic_id s = nil_uuid) \<and>
     (if version \<ge> 1 then True else \<not> mrst_is_internal s) \<and>
     (if version \<ge> 9
       then seq_ok (2 ^ 32 - 2) (MetadataResponsePartition_ok version) (Some (mrst_partitions s))
       else seq_ok (2 ^ 31 - 1) (MetadataResponsePartition_ok version) (Some (mrst_partitions s))) \<and>
     (if version \<ge> 8
       then in_i32 (mrst_topic_authorized_operations s)
       else mrst_topic_authorized_operations s = - 2147483648) \<and>
     (if version \<ge> 9 then tags_ok 0 (mrst_unknown_tagged_fields s) else mrst_unknown_tagged_fields s = [])"

lemma MetadataResponseTopic_codec [coded_intros]:
  "sized_codec (\<lambda>s. MetadataResponseTopic_encode s version) (MetadataResponseTopic_decode version)
     (\<lambda>s. MetadataResponseTopic_compute_size s version) (MetadataResponseTopic_ok version)"
  unfolding MetadataResponseTopic_encode_def MetadataResponseTopic_decode_def MetadataResponseTopic_compute_size_def
  by (rule sized_codecI) (rule coded_intros | (simp add: MetadataResponseTopic_ok_def; fail))+

lemmas MetadataResponseTopic_coded [coded_intros] = sized_codec.codes [OF MetadataResponseTopic_codec]

definition MetadataResponse_encode :: "metadata_response \<Rightarrow> i16 \<Rightarrow> wire_error + bytes" where
  "MetadataResponse_encode s version =
     (if version < 0 \<or> version > 13 then Inl UNSUPPORTED_VERSION
      else puts
        [if version \<ge> 3 then Inr (Int32_encode (mrs_throttle_time_ms s)) else Inr [],
         if version \<ge> 9
          then CompactArray_encode (\<lambda>x. MetadataResponseBroker_encode x version) (Some (mrs_brokers s))
          else Array_encode (\<lambda>x. MetadataResponseBroker_encode x version) (Some (mrs_brokers s)),
         if version \<ge> 2
          then if version \<ge> 9
                then CompactString_encode (mrs_cluster_id s)
                else String_encode (mrs_cluster_id s)
          else Inr [],
         if version \<ge> 1 then Inr (Int32_encode (mrs_controller_id s)) else Inr [],
         if version \<ge> 9
          then CompactArray_encode (\<lambda>x. MetadataResponseTopic_encode x version) (Some (mrs_topics s))
          else Array_encode (\<lambda>x. MetadataResponseTopic_encode x version) (Some (mrs_topics s)),
         if version \<ge> 8 \<and> version \<le> 10
          then Inr (Int32_encode (mrs_cluster_authorized_operations s))
          else unset [] (mrs_cluster_authorized_operations s = - 2147483648),
         if version \<ge> 13 then Inr (Int16_encode (mrs_error_code s)) else Inr [],
         if version \<ge> 9 then put_tags [] 0 (mrs_unknown_tagged_fields s) else Inr []])"

definition MetadataResponse_compute_size :: "metadata_response \<Rightarrow> i16 \<Rightarrow> wire_error + usize" where
  "MetadataResponse_compute_size s version =
     sums
       [if version \<ge> 3 then Inr 4 else Inr 0,
        if version \<ge> 9
         then CompactArray_compute_size None (\<lambda>x. MetadataResponseBroker_compute_size x version) (Some (mrs_brokers s))
         else Array_compute_size None (\<lambda>x. MetadataResponseBroker_compute_size x version) (Some (mrs_brokers s)),
        if version \<ge> 2
         then if version \<ge> 9
               then CompactString_compute_size (mrs_cluster_id s)
               else String_compute_size (mrs_cluster_id s)
         else Inr 0,
        if version \<ge> 1 then Inr 4 else Inr 0,
        if version \<ge> 9
         then CompactArray_compute_size None (\<lambda>x. MetadataResponseTopic_compute_size x version) (Some (mrs_topics s))
         else Array_compute_size None (\<lambda>x. MetadataResponseTopic_compute_size x version) (Some (mrs_topics s)),
        if version \<ge> 8 \<and> version \<le> 10
         then Inr 4
         else unset 0 (mrs_cluster_authorized_operations s = - 2147483648),
        if version \<ge> 13 then Inr 2 else Inr 0,
        if version \<ge> 9 then tags_size [] (mrs_unknown_tagged_fields s) else Inr 0]"

definition MetadataResponse_decode :: "i16 \<Rightarrow> metadata_response decoder" where
  "MetadataResponse_decode version =
     (if version < 0 \<or> version > 13 then refuse UNSUPPORTED_VERSION
      else
        get (if version \<ge> 3 then Int32_decode else give 0) (\<lambda>throttle_time_ms.
        get (if version \<ge> 9
              then CompactArray_required (MetadataResponseBroker_decode version)
              else Array_required (MetadataResponseBroker_decode version)) (\<lambda>brokers.
        get (if version \<ge> 2
              then if version \<ge> 9 then CompactString_decode else String_decode
              else give None) (\<lambda>cluster_id.
        get (if version \<ge> 1 then Int32_decode else give (- 1)) (\<lambda>controller_id.
        get (if version \<ge> 9
              then CompactArray_required (MetadataResponseTopic_decode version)
              else Array_required (MetadataResponseTopic_decode version)) (\<lambda>topics.
        get (if version \<ge> 8 \<and> version \<le> 10 then Int32_decode else give (- 2147483648)) (\<lambda>cluster_authorized_operations.
        get (if version \<ge> 13 then Int16_decode else give 0) (\<lambda>error_code.
        get (if version \<ge> 9 then get_unknown_tags else give []) (\<lambda>unknown_tagged_fields.
        give \<lparr>mrs_throttle_time_ms = throttle_time_ms, mrs_brokers = brokers,
               mrs_cluster_id = cluster_id, mrs_controller_id = controller_id, mrs_topics = topics,
               mrs_cluster_authorized_operations = cluster_authorized_operations,
               mrs_error_code = error_code, mrs_unknown_tagged_fields = unknown_tagged_fields\<rparr>)))))))))"

definition MetadataResponse_ok :: "i16 \<Rightarrow> metadata_response \<Rightarrow> bool" where
  "MetadataResponse_ok version s \<longleftrightarrow>
     \<not> (version < 0 \<or> version > 13) \<and>
     (if version \<ge> 3 then in_i32 (mrs_throttle_time_ms s) else mrs_throttle_time_ms s = 0) \<and>
     (if version \<ge> 9
       then seq_ok (2 ^ 32 - 2) (MetadataResponseBroker_ok version) (Some (mrs_brokers s))
       else seq_ok (2 ^ 31 - 1) (MetadataResponseBroker_ok version) (Some (mrs_brokers s))) \<and>
     (if version \<ge> 2
       then if version \<ge> 9
             then string_ok (2 ^ 32 - 2) (mrs_cluster_id s)
             else string_ok 32767 (mrs_cluster_id s)
       else mrs_cluster_id s = None) \<and>
     (if version \<ge> 1 then in_i32 (mrs_controller_id s) else mrs_controller_id s = - 1) \<and>
     (if version \<ge> 9
       then seq_ok (2 ^ 32 - 2) (MetadataResponseTopic_ok version) (Some (mrs_topics s))
       else seq_ok (2 ^ 31 - 1) (MetadataResponseTopic_ok version) (Some (mrs_topics s))) \<and>
     (if version \<ge> 8 \<and> version \<le> 10
       then in_i32 (mrs_cluster_authorized_operations s)
       else mrs_cluster_authorized_operations s = - 2147483648) \<and>
     (if version \<ge> 13 then in_i16 (mrs_error_code s) else mrs_error_code s = 0) \<and>
     (if version \<ge> 9 then tags_ok 0 (mrs_unknown_tagged_fields s) else mrs_unknown_tagged_fields s = [])"

lemma MetadataResponse_codec [coded_intros]:
  "sized_codec (\<lambda>s. MetadataResponse_encode s version) (MetadataResponse_decode version)
     (\<lambda>s. MetadataResponse_compute_size s version) (MetadataResponse_ok version)"
  unfolding MetadataResponse_encode_def MetadataResponse_decode_def MetadataResponse_compute_size_def
  by (rule sized_codecI) (rule coded_intros | (clarsimp simp: MetadataResponse_ok_def; fail))+

lemmas MetadataResponse_coded [coded_intros] = sized_codec.codes [OF MetadataResponse_codec]

section \<open>Create topics\<close>

definition CreatableReplicaAssignment_encode :: "creatable_replica_assignment \<Rightarrow> i16 \<Rightarrow> wire_error + bytes" where
  "CreatableReplicaAssignment_encode s version =
     (if version < 2 \<or> version > 7 then Inl UNSUPPORTED_VERSION
      else puts
        [Inr (Int32_encode (cra_partition_index s)),
         if version \<ge> 5
          then CompactArray_encode (\<lambda>x. Inr (Int32_encode x)) (Some (cra_broker_ids s))
          else Array_encode (\<lambda>x. Inr (Int32_encode x)) (Some (cra_broker_ids s)),
         if version \<ge> 5 then put_tags [] 0 (cra_unknown_tagged_fields s) else Inr []])"

definition CreatableReplicaAssignment_compute_size :: "creatable_replica_assignment \<Rightarrow> i16 \<Rightarrow> wire_error + usize" where
  "CreatableReplicaAssignment_compute_size s version =
     sums
       [Inr 4,
        if version \<ge> 5
         then CompactArray_compute_size (Some 4) (\<lambda>_. Inr 4) (Some (cra_broker_ids s))
         else Array_compute_size (Some 4) (\<lambda>_. Inr 4) (Some (cra_broker_ids s)),
        if version \<ge> 5 then tags_size [] (cra_unknown_tagged_fields s) else Inr 0]"

definition CreatableReplicaAssignment_decode :: "i16 \<Rightarrow> creatable_replica_assignment decoder" where
  "CreatableReplicaAssignment_decode version =
     (if version < 2 \<or> version > 7 then refuse UNSUPPORTED_VERSION
      else
        get Int32_decode (\<lambda>partition_index.
        get (if version \<ge> 5 then CompactArray_required Int32_decode else Array_required Int32_decode) (\<lambda>broker_ids.
        get (if version \<ge> 5 then get_unknown_tags else give []) (\<lambda>unknown_tagged_fields.
        give \<lparr>cra_partition_index = partition_index, cra_broker_ids = broker_ids,
               cra_unknown_tagged_fields = unknown_tagged_fields\<rparr>))))"

definition CreatableReplicaAssignment_ok :: "i16 \<Rightarrow> creatable_replica_assignment \<Rightarrow> bool" where
  "CreatableReplicaAssignment_ok version s \<longleftrightarrow>
     \<not> (version < 2 \<or> version > 7) \<and>
     in_i32 (cra_partition_index s) \<and>
     (if version \<ge> 5
       then seq_ok (2 ^ 32 - 2) in_i32 (Some (cra_broker_ids s))
       else seq_ok (2 ^ 31 - 1) in_i32 (Some (cra_broker_ids s))) \<and>
     (if version \<ge> 5 then tags_ok 0 (cra_unknown_tagged_fields s) else cra_unknown_tagged_fields s = [])"

lemma CreatableReplicaAssignment_codec [coded_intros]:
  "sized_codec (\<lambda>s. CreatableReplicaAssignment_encode s version) (CreatableReplicaAssignment_decode version)
     (\<lambda>s. CreatableReplicaAssignment_compute_size s version) (CreatableReplicaAssignment_ok version)"
  unfolding CreatableReplicaAssignment_encode_def CreatableReplicaAssignment_decode_def CreatableReplicaAssignment_compute_size_def
  by (rule sized_codecI) (rule coded_intros | (simp add: CreatableReplicaAssignment_ok_def; fail))+

lemmas CreatableReplicaAssignment_coded [coded_intros] = sized_codec.codes [OF CreatableReplicaAssignment_codec]

definition CreatableTopicConfig_encode :: "creatable_topic_config \<Rightarrow> i16 \<Rightarrow> wire_error + bytes" where
  "CreatableTopicConfig_encode s version =
     (if version < 2 \<or> version > 7 then Inl UNSUPPORTED_VERSION
      else puts
        [if version \<ge> 5
          then CompactString_encode (Some (ctc_name s))
          else String_encode (Some (ctc_name s)),
         if version \<ge> 5 then CompactString_encode (ctc_value s) else String_encode (ctc_value s),
         if version \<ge> 5 then put_tags [] 0 (ctc_unknown_tagged_fields s) else Inr []])"

definition CreatableTopicConfig_compute_size :: "creatable_topic_config \<Rightarrow> i16 \<Rightarrow> wire_error + usize" where
  "CreatableTopicConfig_compute_size s version =
     sums
       [if version \<ge> 5
         then CompactString_compute_size (Some (ctc_name s))
         else String_compute_size (Some (ctc_name s)),
        if version \<ge> 5
         then CompactString_compute_size (ctc_value s)
         else String_compute_size (ctc_value s),
        if version \<ge> 5 then tags_size [] (ctc_unknown_tagged_fields s) else Inr 0]"

definition CreatableTopicConfig_decode :: "i16 \<Rightarrow> creatable_topic_config decoder" where
  "CreatableTopicConfig_decode version =
     (if version < 2 \<or> version > 7 then refuse UNSUPPORTED_VERSION
      else
        get (if version \<ge> 5 then CompactString_required else String_required) (\<lambda>name.
        get (if version \<ge> 5 then CompactString_decode else String_decode) (\<lambda>value.
        get (if version \<ge> 5 then get_unknown_tags else give []) (\<lambda>unknown_tagged_fields.
        give \<lparr>ctc_name = name, ctc_value = value,
               ctc_unknown_tagged_fields = unknown_tagged_fields\<rparr>))))"

definition CreatableTopicConfig_ok :: "i16 \<Rightarrow> creatable_topic_config \<Rightarrow> bool" where
  "CreatableTopicConfig_ok version s \<longleftrightarrow>
     \<not> (version < 2 \<or> version > 7) \<and>
     (if version \<ge> 5
       then string_ok (2 ^ 32 - 2) (Some (ctc_name s))
       else string_ok 32767 (Some (ctc_name s))) \<and>
     (if version \<ge> 5 then string_ok (2 ^ 32 - 2) (ctc_value s) else string_ok 32767 (ctc_value s)) \<and>
     (if version \<ge> 5 then tags_ok 0 (ctc_unknown_tagged_fields s) else ctc_unknown_tagged_fields s = [])"

lemma CreatableTopicConfig_codec [coded_intros]:
  "sized_codec (\<lambda>s. CreatableTopicConfig_encode s version) (CreatableTopicConfig_decode version)
     (\<lambda>s. CreatableTopicConfig_compute_size s version) (CreatableTopicConfig_ok version)"
  unfolding CreatableTopicConfig_encode_def CreatableTopicConfig_decode_def CreatableTopicConfig_compute_size_def
  by (rule sized_codecI) (rule coded_intros | (simp add: CreatableTopicConfig_ok_def; fail))+

lemmas CreatableTopicConfig_coded [coded_intros] = sized_codec.codes [OF CreatableTopicConfig_codec]

definition CreatableTopic_encode :: "creatable_topic \<Rightarrow> i16 \<Rightarrow> wire_error + bytes" where
  "CreatableTopic_encode s version =
     (if version < 2 \<or> version > 7 then Inl UNSUPPORTED_VERSION
      else puts
        [if version \<ge> 5
          then CompactString_encode (Some (ctopic_name s))
          else String_encode (Some (ctopic_name s)),
         Inr (Int32_encode (ctopic_num_partitions s)),
         Inr (Int16_encode (ctopic_replication_factor s)),
         if version \<ge> 5
          then CompactArray_encode (\<lambda>x. CreatableReplicaAssignment_encode x version) (Some (ctopic_assignments s))
          else Array_encode (\<lambda>x. CreatableReplicaAssignment_encode x version) (Some (ctopic_assignments s)),
         if version \<ge> 5
          then CompactArray_encode (\<lambda>x. CreatableTopicConfig_encode x version) (Some (ctopic_configs s))
          else Array_encode (\<lambda>x. CreatableTopicConfig_encode x version) (Some (ctopic_configs s)),
         if version \<ge> 5 then put_tags [] 0 (ctopic_unknown_tagged_fields s) else Inr []])"

definition CreatableTopic_compute_size :: "creatable_topic \<Rightarrow> i16 \<Rightarrow> wire_error + usize" where
  "CreatableTopic_compute_size s version =
     sums
       [if version \<ge> 5
         then CompactString_compute_size (Some (ctopic_name s))
         else String_compute_size (Some (ctopic_name s)),
        Inr 4,
        Inr 2,
        if version \<ge> 5
         then CompactArray_compute_size None (\<lambda>x. CreatableReplicaAssignment_compute_size x version) (Some (ctopic_assignments s))
         else Array_compute_size None (\<lambda>x. CreatableReplicaAssignment_compute_size x version) (Some (ctopic_assignments s)),
        if version \<ge> 5
         then CompactArray_compute_size None (\<lambda>x. CreatableTopicConfig_compute_size x version) (Some (ctopic_configs s))
         else Array_compute_size None (\<lambda>x. CreatableTopicConfig_compute_size x version) (Some (ctopic_configs s)),
        if version \<ge> 5 then tags_size [] (ctopic_unknown_tagged_fields s) else Inr 0]"

definition CreatableTopic_decode :: "i16 \<Rightarrow> creatable_topic decoder" where
  "CreatableTopic_decode version =
     (if version < 2 \<or> version > 7 then refuse UNSUPPORTED_VERSION
      else
        get (if version \<ge> 5 then CompactString_required else String_required) (\<lambda>name.
        get Int32_decode (\<lambda>num_partitions.
        get Int16_decode (\<lambda>replication_factor.
        get (if version \<ge> 5
              then CompactArray_required (CreatableReplicaAssignment_decode version)
              else Array_required (CreatableReplicaAssignment_decode version)) (\<lambda>assignments.
        get (if version \<ge> 5
              then CompactArray_required (CreatableTopicConfig_decode version)
              else Array_required (CreatableTopicConfig_decode version)) (\<lambda>configs.
        get (if version \<ge> 5 then get_unknown_tags else give []) (\<lambda>unknown_tagged_fields.
        give \<lparr>ctopic_name = name, ctopic_num_partitions = num_partitions,
               ctopic_replication_factor = replication_factor, ctopic_assignments = assignments,
               ctopic_configs = configs, ctopic_unknown_tagged_fields = unknown_tagged_fields\<rparr>)))))))"

definition CreatableTopic_ok :: "i16 \<Rightarrow> creatable_topic \<Rightarrow> bool" where
  "CreatableTopic_ok version s \<longleftrightarrow>
     \<not> (version < 2 \<or> version > 7) \<and>
     (if version \<ge> 5
       then string_ok (2 ^ 32 - 2) (Some (ctopic_name s))
       else string_ok 32767 (Some (ctopic_name s))) \<and>
     in_i32 (ctopic_num_partitions s) \<and>
     in_i16 (ctopic_replication_factor s) \<and>
     (if version \<ge> 5
       then seq_ok (2 ^ 32 - 2) (CreatableReplicaAssignment_ok version) (Some (ctopic_assignments s))
       else seq_ok (2 ^ 31 - 1) (CreatableReplicaAssignment_ok version) (Some (ctopic_assignments s))) \<and>
     (if version \<ge> 5
       then seq_ok (2 ^ 32 - 2) (CreatableTopicConfig_ok version) (Some (ctopic_configs s))
       else seq_ok (2 ^ 31 - 1) (CreatableTopicConfig_ok version) (Some (ctopic_configs s))) \<and>
     (if version \<ge> 5 then tags_ok 0 (ctopic_unknown_tagged_fields s) else ctopic_unknown_tagged_fields s = [])"

lemma CreatableTopic_codec [coded_intros]:
  "sized_codec (\<lambda>s. CreatableTopic_encode s version) (CreatableTopic_decode version)
     (\<lambda>s. CreatableTopic_compute_size s version) (CreatableTopic_ok version)"
  unfolding CreatableTopic_encode_def CreatableTopic_decode_def CreatableTopic_compute_size_def
  by (rule sized_codecI) (rule coded_intros | (simp add: CreatableTopic_ok_def; fail))+

lemmas CreatableTopic_coded [coded_intros] = sized_codec.codes [OF CreatableTopic_codec]

definition CreateTopicsRequest_encode :: "create_topics_request \<Rightarrow> i16 \<Rightarrow> wire_error + bytes" where
  "CreateTopicsRequest_encode s version =
     (if version < 2 \<or> version > 7 then Inl UNSUPPORTED_VERSION
      else puts
        [if version \<ge> 5
          then CompactArray_encode (\<lambda>x. CreatableTopic_encode x version) (Some (ctrq_topics s))
          else Array_encode (\<lambda>x. CreatableTopic_encode x version) (Some (ctrq_topics s)),
         Inr (Int32_encode (ctrq_timeout_ms s)),
         Inr (Boolean_encode (ctrq_validate_only s)),
         if version \<ge> 5 then put_tags [] 0 (ctrq_unknown_tagged_fields s) else Inr []])"

definition CreateTopicsRequest_compute_size :: "create_topics_request \<Rightarrow> i16 \<Rightarrow> wire_error + usize" where
  "CreateTopicsRequest_compute_size s version =
     sums
       [if version \<ge> 5
         then CompactArray_compute_size None (\<lambda>x. CreatableTopic_compute_size x version) (Some (ctrq_topics s))
         else Array_compute_size None (\<lambda>x. CreatableTopic_compute_size x version) (Some (ctrq_topics s)),
        Inr 4,
        Inr 1,
        if version \<ge> 5 then tags_size [] (ctrq_unknown_tagged_fields s) else Inr 0]"

definition CreateTopicsRequest_decode :: "i16 \<Rightarrow> create_topics_request decoder" where
  "CreateTopicsRequest_decode version =
     (if version < 2 \<or> version > 7 then refuse UNSUPPORTED_VERSION
      else
        get (if version \<ge> 5
              then CompactArray_required (CreatableTopic_decode version)
              else Array_required (CreatableTopic_decode version)) (\<lambda>topics.
        get Int32_decode (\<lambda>timeout_ms.
        get Boolean_decode (\<lambda>validate_only.
        get (if version \<ge> 5 then get_unknown_tags else give []) (\<lambda>unknown_tagged_fields.
        give \<lparr>ctrq_topics = topics, ctrq_timeout_ms = timeout_ms,
               ctrq_validate_only = validate_only, ctrq_unknown_tagged_fields = unknown_tagged_fields\<rparr>)))))"

definition CreateTopicsRequest_ok :: "i16 \<Rightarrow> create_topics_request \<Rightarrow> bool" where
  "CreateTopicsRequest_ok version s \<longleftrightarrow>
     \<not> (version < 2 \<or> version > 7) \<and>
     (if version \<ge> 5
       then seq_ok (2 ^ 32 - 2) (CreatableTopic_ok version) (Some (ctrq_topics s))
       else seq_ok (2 ^ 31 - 1) (CreatableTopic_ok version) (Some (ctrq_topics s))) \<and>
     in_i32 (ctrq_timeout_ms s) \<and>
     (if version \<ge> 5 then tags_ok 0 (ctrq_unknown_tagged_fields s) else ctrq_unknown_tagged_fields s = [])"

lemma CreateTopicsRequest_codec [coded_intros]:
  "sized_codec (\<lambda>s. CreateTopicsRequest_encode s version) (CreateTopicsRequest_decode version)
     (\<lambda>s. CreateTopicsRequest_compute_size s version) (CreateTopicsRequest_ok version)"
  unfolding CreateTopicsRequest_encode_def CreateTopicsRequest_decode_def CreateTopicsRequest_compute_size_def
  by (rule sized_codecI) (rule coded_intros | (simp add: CreateTopicsRequest_ok_def; fail))+

lemmas CreateTopicsRequest_coded [coded_intros] = sized_codec.codes [OF CreateTopicsRequest_codec]

definition CreatableTopicConfigs_encode :: "creatable_topic_configs \<Rightarrow> i16 \<Rightarrow> wire_error + bytes" where
  "CreatableTopicConfigs_encode s version =
     (if version < 2 \<or> version > 7 then Inl UNSUPPORTED_VERSION
      else puts
        [if version \<ge> 5 then CompactString_encode (Some (ctcs_name s)) else unset [] (ctcs_name s = []),
         if version \<ge> 5 then CompactString_encode (ctcs_value s) else unset [] (ctcs_value s = Some []),
         if version \<ge> 5 then Inr (Boolean_encode (ctcs_read_only s)) else unset [] (\<not> ctcs_read_only s),
         if version \<ge> 5 then Inr (Int8_encode (ctcs_config_source s)) else Inr [],
         if version \<ge> 5
          then Inr (Boolean_encode (ctcs_is_sensitive s))
          else unset [] (\<not> ctcs_is_sensitive s),
         if version \<ge> 5 then put_tags [] 0 (ctcs_unknown_tagged_fields s) else Inr []])"

definition CreatableTopicConfigs_compute_size :: "creatable_topic_configs \<Rightarrow> i16 \<Rightarrow> wire_error + usize" where
  "CreatableTopicConfigs_compute_size s version =
     sums
       [if version \<ge> 5
         then CompactString_compute_size (Some (ctcs_name s))
         else unset 0 (ctcs_name s = []),
        if version \<ge> 5
         then CompactString_compute_size (ctcs_value s)
         else unset 0 (ctcs_value s = Some []),
        if version \<ge> 5 then Inr 1 else unset 0 (\<not> ctcs_read_only s),
        if version \<ge> 5 then Inr 1 else Inr 0,
        if version \<ge> 5 then Inr 1 else unset 0 (\<not> ctcs_is_sensitive s),
        if version \<ge> 5 then tags_size [] (ctcs_unknown_tagged_fields s) else Inr 0]"

definition CreatableTopicConfigs_decode :: "i16 \<Rightarrow> creatable_topic_configs decoder" where
  "CreatableTopicConfigs_decode version =
     (if version < 2 \<or> version > 7 then refuse UNSUPPORTED_VERSION
      else
        get (if version \<ge> 5 then CompactString_required else give []) (\<lambda>name.
        get (if version \<ge> 5 then CompactString_decode else give (Some [])) (\<lambda>value.
        get (if version \<ge> 5 then Boolean_decode else give False) (\<lambda>read_only.
        get (if version \<ge> 5 then Int8_decode else give (- 1)) (\<lambda>config_source.
        get (if version \<ge> 5 then Boolean_decode else give False) (\<lambda>is_sensitive.
        get (if version \<ge> 5 then get_unknown_tags else give []) (\<lambda>unknown_tagged_fields.
        give \<lparr>ctcs_name = name, ctcs_value = value, ctcs_read_only = read_only,
               ctcs_config_source = config_source, ctcs_is_sensitive = is_sensitive,
               ctcs_unknown_tagged_fields = unknown_tagged_fields\<rparr>)))))))"

definition CreatableTopicConfigs_ok :: "i16 \<Rightarrow> creatable_topic_configs \<Rightarrow> bool" where
  "CreatableTopicConfigs_ok version s \<longleftrightarrow>
     \<not> (version < 2 \<or> version > 7) \<and>
     (if version \<ge> 5 then string_ok (2 ^ 32 - 2) (Some (ctcs_name s)) else ctcs_name s = []) \<and>
     (if version \<ge> 5 then string_ok (2 ^ 32 - 2) (ctcs_value s) else ctcs_value s = Some []) \<and>
     (if version \<ge> 5 then True else \<not> ctcs_read_only s) \<and>
     (if version \<ge> 5 then in_i8 (ctcs_config_source s) else ctcs_config_source s = - 1) \<and>
     (if version \<ge> 5 then True else \<not> ctcs_is_sensitive s) \<and>
     (if version \<ge> 5 then tags_ok 0 (ctcs_unknown_tagged_fields s) else ctcs_unknown_tagged_fields s = [])"

lemma CreatableTopicConfigs_codec [coded_intros]:
  "sized_codec (\<lambda>s. CreatableTopicConfigs_encode s version) (CreatableTopicConfigs_decode version)
     (\<lambda>s. CreatableTopicConfigs_compute_size s version) (CreatableTopicConfigs_ok version)"
  unfolding CreatableTopicConfigs_encode_def CreatableTopicConfigs_decode_def CreatableTopicConfigs_compute_size_def
  by (rule sized_codecI) (rule coded_intros | (simp add: CreatableTopicConfigs_ok_def; fail))+

lemmas CreatableTopicConfigs_coded [coded_intros] = sized_codec.codes [OF CreatableTopicConfigs_codec]

definition CreatableTopicResult_encode :: "creatable_topic_result \<Rightarrow> i16 \<Rightarrow> wire_error + bytes" where
  "CreatableTopicResult_encode s version =
     (if version < 2 \<or> version > 7 then Inl UNSUPPORTED_VERSION
      else puts
        [if version \<ge> 5
          then CompactString_encode (Some (ctr_name s))
          else String_encode (Some (ctr_name s)),
         if version \<ge> 7 then Inr (Uuid_encode (ctr_topic_id s)) else Inr [],
         Inr (Int16_encode (ctr_error_code s)),
         if version \<ge> 5
          then CompactString_encode (ctr_error_message s)
          else String_encode (ctr_error_message s),
         if version \<ge> 5 then Inr (Int32_encode (ctr_num_partitions s)) else Inr [],
         if version \<ge> 5 then Inr (Int16_encode (ctr_replication_factor s)) else Inr [],
         if version \<ge> 5
          then CompactArray_encode (\<lambda>x. CreatableTopicConfigs_encode x version) (ctr_configs s)
          else Inr [],
         if version \<ge> 5 then put_tags 
             [(ctr_topic_config_error_code s \<noteq> 0, put_tag 0 (Inr 2) (Inr (Int16_encode (ctr_topic_config_error_code s))))] 1 (ctr_unknown_tagged_fields s) else Inr []])"

definition CreatableTopicResult_compute_size :: "creatable_topic_result \<Rightarrow> i16 \<Rightarrow> wire_error + usize" where
  "CreatableTopicResult_compute_size s version =
     sums
       [if version \<ge> 5
         then CompactString_compute_size (Some (ctr_name s))
         else String_compute_size (Some (ctr_name s)),
        if version \<ge> 7 then Inr 16 else Inr 0,
        Inr 2,
        if version \<ge> 5
         then CompactString_compute_size (ctr_error_message s)
         else String_compute_size (ctr_error_message s),
        if version \<ge> 5 then Inr 4 else Inr 0,
        if version \<ge> 5 then Inr 2 else Inr 0,
        if version \<ge> 5
         then CompactArray_compute_size None (\<lambda>x. CreatableTopicConfigs_compute_size x version) (ctr_configs s)
         else Inr 0,
        if version \<ge> 5 then tags_size 
            [(ctr_topic_config_error_code s \<noteq> 0, tag_size 0 (Inr 2))] (ctr_unknown_tagged_fields s) else Inr 0]"

definition CreatableTopicResult_decode :: "i16 \<Rightarrow> creatable_topic_result decoder" where
  "CreatableTopicResult_decode version =
     (if version < 2 \<or> version > 7 then refuse UNSUPPORTED_VERSION
      else
        get (if version \<ge> 5 then CompactString_required else String_required) (\<lambda>name.
        get (if version \<ge> 7 then Uuid_decode else give nil_uuid) (\<lambda>topic_id.
        get Int16_decode (\<lambda>error_code.
        get (if version \<ge> 5 then CompactString_decode else String_decode) (\<lambda>error_message.
        get (if version \<ge> 5 then Int32_decode else give (- 1)) (\<lambda>num_partitions.
        get (if version \<ge> 5 then Int16_decode else give (- 1)) (\<lambda>replication_factor.
        get (if version \<ge> 5
              then CompactArray_decode (CreatableTopicConfigs_decode version)
              else give (Some [])) (\<lambda>configs.
        get (if version \<ge> 5
             then get_tags (\<lambda>tag topic_config_error_code.
              if tag = 0 then Some (get Int16_decode (\<lambda>x. give x))
              else None) 0
             else give (0, [])) (\<lambda>(topic_config_error_code, unknown_tagged_fields).
        give \<lparr>ctr_name = name, ctr_topic_id = topic_id, ctr_error_code = error_code,
               ctr_error_message = error_message,
               ctr_topic_config_error_code = topic_config_error_code,
               ctr_num_partitions = num_partitions, ctr_replication_factor = replication_factor,
               ctr_configs = configs, ctr_unknown_tagged_fields = unknown_tagged_fields\<rparr>)))))))))"

definition CreatableTopicResult_ok :: "i16 \<Rightarrow> creatable_topic_result \<Rightarrow> bool" where
  "CreatableTopicResult_ok version s \<longleftrightarrow>
     \<not> (version < 2 \<or> version > 7) \<and>
     (if version \<ge> 5
       then string_ok (2 ^ 32 - 2) (Some (ctr_name s))
       else string_ok 32767 (Some (ctr_name s))) \<and>
     (if version \<ge> 7 then True else ctr_topic_id s = nil_uuid) \<and>
     in_i16 (ctr_error_code s) \<and>
     (if version \<ge> 5
       then string_ok (2 ^ 32 - 2) (ctr_error_message s)
       else string_ok 32767 (ctr_error_message s)) \<and>
     (if version \<ge> 5 then in_i32 (ctr_num_partitions s) else ctr_num_partitions s = - 1) \<and>
     (if version \<ge> 5 then in_i16 (ctr_replication_factor s) else ctr_replication_factor s = - 1) \<and>
     (if version \<ge> 5
       then seq_ok (2 ^ 32 - 2) (CreatableTopicConfigs_ok version) (ctr_configs s)
       else ctr_configs s = Some []) \<and>
     (if version \<ge> 5 then in_i16 (ctr_topic_config_error_code s) else ctr_topic_config_error_code s = 0) \<and>
     (if version \<ge> 5 then tags_ok 1 (ctr_unknown_tagged_fields s) else ctr_unknown_tagged_fields s = [])"

lemma CreatableTopicResult_codec [coded_intros]:
  "sized_codec (\<lambda>s. CreatableTopicResult_encode s version) (CreatableTopicResult_decode version)
     (\<lambda>s. CreatableTopicResult_compute_size s version) (CreatableTopicResult_ok version)"
  unfolding CreatableTopicResult_encode_def CreatableTopicResult_decode_def CreatableTopicResult_compute_size_def
  by (rule sized_codecI) (rule coded_intros | simp only: prod.case | (simp add: CreatableTopicResult_ok_def; fail)
    | (auto simp: CreatableTopicResult_ok_def split: if_splits; fail))+

lemmas CreatableTopicResult_coded [coded_intros] = sized_codec.codes [OF CreatableTopicResult_codec]

definition CreateTopicsResponse_encode :: "create_topics_response \<Rightarrow> i16 \<Rightarrow> wire_error + bytes" where
  "CreateTopicsResponse_encode s version =
     (if version < 2 \<or> version > 7 then Inl UNSUPPORTED_VERSION
      else puts
        [Inr (Int32_encode (ctrs_throttle_time_ms s)),
         if version \<ge> 5
          then CompactArray_encode (\<lambda>x. CreatableTopicResult_encode x version) (Some (ctrs_topics s))
          else Array_encode (\<lambda>x. CreatableTopicResult_encode x version) (Some (ctrs_topics s)),
         if version \<ge> 5 then put_tags [] 0 (ctrs_unknown_tagged_fields s) else Inr []])"

definition CreateTopicsResponse_compute_size :: "create_topics_response \<Rightarrow> i16 \<Rightarrow> wire_error + usize" where
  "CreateTopicsResponse_compute_size s version =
     sums
       [Inr 4,
        if version \<ge> 5
         then CompactArray_compute_size None (\<lambda>x. CreatableTopicResult_compute_size x version) (Some (ctrs_topics s))
         else Array_compute_size None (\<lambda>x. CreatableTopicResult_compute_size x version) (Some (ctrs_topics s)),
        if version \<ge> 5 then tags_size [] (ctrs_unknown_tagged_fields s) else Inr 0]"

definition CreateTopicsResponse_decode :: "i16 \<Rightarrow> create_topics_response decoder" where
  "CreateTopicsResponse_decode version =
     (if version < 2 \<or> version > 7 then refuse UNSUPPORTED_VERSION
      else
        get Int32_decode (\<lambda>throttle_time_ms.
        get (if version \<ge> 5
              then CompactArray_required (CreatableTopicResult_decode version)
              else Array_required (CreatableTopicResult_decode version)) (\<lambda>topics.
        get (if version \<ge> 5 then get_unknown_tags else give []) (\<lambda>unknown_tagged_fields.
        give \<lparr>ctrs_throttle_time_ms = throttle_time_ms, ctrs_topics = topics,
               ctrs_unknown_tagged_fields = unknown_tagged_fields\<rparr>))))"

definition CreateTopicsResponse_ok :: "i16 \<Rightarrow> create_topics_response \<Rightarrow> bool" where
  "CreateTopicsResponse_ok version s \<longleftrightarrow>
     \<not> (version < 2 \<or> version > 7) \<and>
     in_i32 (ctrs_throttle_time_ms s) \<and>
     (if version \<ge> 5
       then seq_ok (2 ^ 32 - 2) (CreatableTopicResult_ok version) (Some (ctrs_topics s))
       else seq_ok (2 ^ 31 - 1) (CreatableTopicResult_ok version) (Some (ctrs_topics s))) \<and>
     (if version \<ge> 5 then tags_ok 0 (ctrs_unknown_tagged_fields s) else ctrs_unknown_tagged_fields s = [])"

lemma CreateTopicsResponse_codec [coded_intros]:
  "sized_codec (\<lambda>s. CreateTopicsResponse_encode s version) (CreateTopicsResponse_decode version)
     (\<lambda>s. CreateTopicsResponse_compute_size s version) (CreateTopicsResponse_ok version)"
  unfolding CreateTopicsResponse_encode_def CreateTopicsResponse_decode_def CreateTopicsResponse_compute_size_def
  by (rule sized_codecI) (rule coded_intros | (simp add: CreateTopicsResponse_ok_def; fail))+

lemmas CreateTopicsResponse_coded [coded_intros] = sized_codec.codes [OF CreateTopicsResponse_codec]

section \<open>Describe topic partitions\<close>

definition RequestCursor_encode :: "request_cursor \<Rightarrow> i16 \<Rightarrow> wire_error + bytes" where
  "RequestCursor_encode s version =
     (if version \<noteq> 0 then Inl UNSUPPORTED_VERSION
      else puts
        [CompactString_encode (Some (qc_topic_name s)),
         Inr (Int32_encode (qc_partition_index s)),
         put_tags [] 0 (qc_unknown_tagged_fields s)])"

definition RequestCursor_compute_size :: "request_cursor \<Rightarrow> i16 \<Rightarrow> wire_error + usize" where
  "RequestCursor_compute_size s version =
     sums
       [CompactString_compute_size (Some (qc_topic_name s)),
        Inr 4,
        tags_size [] (qc_unknown_tagged_fields s)]"

definition RequestCursor_decode :: "i16 \<Rightarrow> request_cursor decoder" where
  "RequestCursor_decode version =
     (if version \<noteq> 0 then refuse UNSUPPORTED_VERSION
      else
        get CompactString_required (\<lambda>topic_name.
        get Int32_decode (\<lambda>partition_index.
        get (get_unknown_tags) (\<lambda>unknown_tagged_fields.
        give \<lparr>qc_topic_name = topic_name, qc_partition_index = partition_index,
               qc_unknown_tagged_fields = unknown_tagged_fields\<rparr>))))"

definition RequestCursor_ok :: "i16 \<Rightarrow> request_cursor \<Rightarrow> bool" where
  "RequestCursor_ok version s \<longleftrightarrow>
     \<not> (version \<noteq> 0) \<and>
     string_ok (2 ^ 32 - 2) (Some (qc_topic_name s)) \<and>
     in_i32 (qc_partition_index s) \<and>
     tags_ok 0 (qc_unknown_tagged_fields s)"

lemma RequestCursor_codec [coded_intros]:
  "sized_codec (\<lambda>s. RequestCursor_encode s version) (RequestCursor_decode version)
     (\<lambda>s. RequestCursor_compute_size s version) (RequestCursor_ok version)"
  unfolding RequestCursor_encode_def RequestCursor_decode_def RequestCursor_compute_size_def
  by (rule sized_codecI) (rule coded_intros | (clarsimp simp: RequestCursor_ok_def; fail))+

lemmas RequestCursor_coded [coded_intros] = sized_codec.codes [OF RequestCursor_codec]

definition TopicRequest_encode :: "topic_request \<Rightarrow> i16 \<Rightarrow> wire_error + bytes" where
  "TopicRequest_encode s version =
     (if version \<noteq> 0 then Inl UNSUPPORTED_VERSION
      else puts
        [CompactString_encode (Some (trq_name s)),
         put_tags [] 0 (trq_unknown_tagged_fields s)])"

definition TopicRequest_compute_size :: "topic_request \<Rightarrow> i16 \<Rightarrow> wire_error + usize" where
  "TopicRequest_compute_size s version =
     sums
       [CompactString_compute_size (Some (trq_name s)),
        tags_size [] (trq_unknown_tagged_fields s)]"

definition TopicRequest_decode :: "i16 \<Rightarrow> topic_request decoder" where
  "TopicRequest_decode version =
     (if version \<noteq> 0 then refuse UNSUPPORTED_VERSION
      else
        get CompactString_required (\<lambda>name.
        get (get_unknown_tags) (\<lambda>unknown_tagged_fields.
        give \<lparr>trq_name = name, trq_unknown_tagged_fields = unknown_tagged_fields\<rparr>)))"

definition TopicRequest_ok :: "i16 \<Rightarrow> topic_request \<Rightarrow> bool" where
  "TopicRequest_ok version s \<longleftrightarrow>
     \<not> (version \<noteq> 0) \<and>
     string_ok (2 ^ 32 - 2) (Some (trq_name s)) \<and>
     tags_ok 0 (trq_unknown_tagged_fields s)"

lemma TopicRequest_codec [coded_intros]:
  "sized_codec (\<lambda>s. TopicRequest_encode s version) (TopicRequest_decode version)
     (\<lambda>s. TopicRequest_compute_size s version) (TopicRequest_ok version)"
  unfolding TopicRequest_encode_def TopicRequest_decode_def TopicRequest_compute_size_def
  by (rule sized_codecI) (rule coded_intros | (clarsimp simp: TopicRequest_ok_def; fail))+

lemmas TopicRequest_coded [coded_intros] = sized_codec.codes [OF TopicRequest_codec]

definition DescribeTopicPartitionsRequest_encode :: "describe_topic_partitions_request \<Rightarrow> i16 \<Rightarrow> wire_error + bytes" where
  "DescribeTopicPartitionsRequest_encode s version =
     (if version \<noteq> 0 then Inl UNSUPPORTED_VERSION
      else puts
        [CompactArray_encode (\<lambda>x. TopicRequest_encode x version) (Some (dtprq_topics s)),
         Inr (Int32_encode (dtprq_response_partition_limit s)),
         OptionStruct_encode (\<lambda>x. RequestCursor_encode x version) (dtprq_cursor s),
         put_tags [] 0 (dtprq_unknown_tagged_fields s)])"

definition DescribeTopicPartitionsRequest_compute_size :: "describe_topic_partitions_request \<Rightarrow> i16 \<Rightarrow> wire_error + usize" where
  "DescribeTopicPartitionsRequest_compute_size s version =
     sums
       [CompactArray_compute_size None (\<lambda>x. TopicRequest_compute_size x version) (Some (dtprq_topics s)),
        Inr 4,
        OptionStruct_compute_size (\<lambda>x. RequestCursor_compute_size x version) (dtprq_cursor s),
        tags_size [] (dtprq_unknown_tagged_fields s)]"

definition DescribeTopicPartitionsRequest_decode :: "i16 \<Rightarrow> describe_topic_partitions_request decoder" where
  "DescribeTopicPartitionsRequest_decode version =
     (if version \<noteq> 0 then refuse UNSUPPORTED_VERSION
      else
        get (CompactArray_required (TopicRequest_decode version)) (\<lambda>topics.
        get Int32_decode (\<lambda>response_partition_limit.
        get (OptionStruct_decode (RequestCursor_decode version)) (\<lambda>cursor.
        get (get_unknown_tags) (\<lambda>unknown_tagged_fields.
        give \<lparr>dtprq_topics = topics, dtprq_response_partition_limit = response_partition_limit,
               dtprq_cursor = cursor, dtprq_unknown_tagged_fields = unknown_tagged_fields\<rparr>)))))"

definition DescribeTopicPartitionsRequest_ok :: "i16 \<Rightarrow> describe_topic_partitions_request \<Rightarrow> bool" where
  "DescribeTopicPartitionsRequest_ok version s \<longleftrightarrow>
     \<not> (version \<noteq> 0) \<and>
     seq_ok (2 ^ 32 - 2) (TopicRequest_ok version) (Some (dtprq_topics s)) \<and>
     in_i32 (dtprq_response_partition_limit s) \<and>
     (case dtprq_cursor s of None \<Rightarrow> True | Some x \<Rightarrow> RequestCursor_ok version x) \<and>
     tags_ok 0 (dtprq_unknown_tagged_fields s)"

lemma DescribeTopicPartitionsRequest_codec [coded_intros]:
  "sized_codec (\<lambda>s. DescribeTopicPartitionsRequest_encode s version) (DescribeTopicPartitionsRequest_decode version)
     (\<lambda>s. DescribeTopicPartitionsRequest_compute_size s version) (DescribeTopicPartitionsRequest_ok version)"
  unfolding DescribeTopicPartitionsRequest_encode_def DescribeTopicPartitionsRequest_decode_def DescribeTopicPartitionsRequest_compute_size_def
  by (rule sized_codecI) (rule coded_intros | (clarsimp simp: DescribeTopicPartitionsRequest_ok_def; fail))+

lemmas DescribeTopicPartitionsRequest_coded [coded_intros] = sized_codec.codes [OF DescribeTopicPartitionsRequest_codec]

definition ResponseCursor_encode :: "response_cursor \<Rightarrow> i16 \<Rightarrow> wire_error + bytes" where
  "ResponseCursor_encode s version =
     (if version \<noteq> 0 then Inl UNSUPPORTED_VERSION
      else puts
        [CompactString_encode (Some (sc_topic_name s)),
         Inr (Int32_encode (sc_partition_index s)),
         put_tags [] 0 (sc_unknown_tagged_fields s)])"

definition ResponseCursor_compute_size :: "response_cursor \<Rightarrow> i16 \<Rightarrow> wire_error + usize" where
  "ResponseCursor_compute_size s version =
     sums
       [CompactString_compute_size (Some (sc_topic_name s)),
        Inr 4,
        tags_size [] (sc_unknown_tagged_fields s)]"

definition ResponseCursor_decode :: "i16 \<Rightarrow> response_cursor decoder" where
  "ResponseCursor_decode version =
     (if version \<noteq> 0 then refuse UNSUPPORTED_VERSION
      else
        get CompactString_required (\<lambda>topic_name.
        get Int32_decode (\<lambda>partition_index.
        get (get_unknown_tags) (\<lambda>unknown_tagged_fields.
        give \<lparr>sc_topic_name = topic_name, sc_partition_index = partition_index,
               sc_unknown_tagged_fields = unknown_tagged_fields\<rparr>))))"

definition ResponseCursor_ok :: "i16 \<Rightarrow> response_cursor \<Rightarrow> bool" where
  "ResponseCursor_ok version s \<longleftrightarrow>
     \<not> (version \<noteq> 0) \<and>
     string_ok (2 ^ 32 - 2) (Some (sc_topic_name s)) \<and>
     in_i32 (sc_partition_index s) \<and>
     tags_ok 0 (sc_unknown_tagged_fields s)"

lemma ResponseCursor_codec [coded_intros]:
  "sized_codec (\<lambda>s. ResponseCursor_encode s version) (ResponseCursor_decode version)
     (\<lambda>s. ResponseCursor_compute_size s version) (ResponseCursor_ok version)"
  unfolding ResponseCursor_encode_def ResponseCursor_decode_def ResponseCursor_compute_size_def
  by (rule sized_codecI) (rule coded_intros | (clarsimp simp: ResponseCursor_ok_def; fail))+

lemmas ResponseCursor_coded [coded_intros] = sized_codec.codes [OF ResponseCursor_codec]

definition DescribeTopicPartitionsResponsePartition_encode :: "describe_topic_partitions_response_partition \<Rightarrow> i16 \<Rightarrow> wire_error + bytes" where
  "DescribeTopicPartitionsResponsePartition_encode s version =
     (if version \<noteq> 0 then Inl UNSUPPORTED_VERSION
      else puts
        [Inr (Int16_encode (dtprsp_error_code s)),
         Inr (Int32_encode (dtprsp_partition_index s)),
         Inr (Int32_encode (dtprsp_leader_id s)),
         Inr (Int32_encode (dtprsp_leader_epoch s)),
         CompactArray_encode (\<lambda>x. Inr (Int32_encode x)) (Some (dtprsp_replica_nodes s)),
         CompactArray_encode (\<lambda>x. Inr (Int32_encode x)) (Some (dtprsp_isr_nodes s)),
         CompactArray_encode (\<lambda>x. Inr (Int32_encode x)) (dtprsp_eligible_leader_replicas s),
         CompactArray_encode (\<lambda>x. Inr (Int32_encode x)) (dtprsp_last_known_elr s),
         CompactArray_encode (\<lambda>x. Inr (Int32_encode x)) (Some (dtprsp_offline_replicas s)),
         put_tags [] 0 (dtprsp_unknown_tagged_fields s)])"

definition DescribeTopicPartitionsResponsePartition_compute_size :: "describe_topic_partitions_response_partition \<Rightarrow> i16 \<Rightarrow> wire_error + usize" where
  "DescribeTopicPartitionsResponsePartition_compute_size s version =
     sums
       [Inr 2,
        Inr 4,
        Inr 4,
        Inr 4,
        CompactArray_compute_size (Some 4) (\<lambda>_. Inr 4) (Some (dtprsp_replica_nodes s)),
        CompactArray_compute_size (Some 4) (\<lambda>_. Inr 4) (Some (dtprsp_isr_nodes s)),
        CompactArray_compute_size (Some 4) (\<lambda>_. Inr 4) (dtprsp_eligible_leader_replicas s),
        CompactArray_compute_size (Some 4) (\<lambda>_. Inr 4) (dtprsp_last_known_elr s),
        CompactArray_compute_size (Some 4) (\<lambda>_. Inr 4) (Some (dtprsp_offline_replicas s)),
        tags_size [] (dtprsp_unknown_tagged_fields s)]"

definition DescribeTopicPartitionsResponsePartition_decode :: "i16 \<Rightarrow> describe_topic_partitions_response_partition decoder" where
  "DescribeTopicPartitionsResponsePartition_decode version =
     (if version \<noteq> 0 then refuse UNSUPPORTED_VERSION
      else
        get Int16_decode (\<lambda>error_code.
        get Int32_decode (\<lambda>partition_index.
        get Int32_decode (\<lambda>leader_id.
        get Int32_decode (\<lambda>leader_epoch.
        get (CompactArray_required Int32_decode) (\<lambda>replica_nodes.
        get (CompactArray_required Int32_decode) (\<lambda>isr_nodes.
        get (CompactArray_decode Int32_decode) (\<lambda>eligible_leader_replicas.
        get (CompactArray_decode Int32_decode) (\<lambda>last_known_elr.
        get (CompactArray_required Int32_decode) (\<lambda>offline_replicas.
        get (get_unknown_tags) (\<lambda>unknown_tagged_fields.
        give \<lparr>dtprsp_error_code = error_code, dtprsp_partition_index = partition_index,
               dtprsp_leader_id = leader_id, dtprsp_leader_epoch = leader_epoch,
               dtprsp_replica_nodes = replica_nodes, dtprsp_isr_nodes = isr_nodes,
               dtprsp_eligible_leader_replicas = eligible_leader_replicas,
               dtprsp_last_known_elr = last_known_elr, dtprsp_offline_replicas = offline_replicas,
               dtprsp_unknown_tagged_fields = unknown_tagged_fields\<rparr>)))))))))))"

definition DescribeTopicPartitionsResponsePartition_ok :: "i16 \<Rightarrow> describe_topic_partitions_response_partition \<Rightarrow> bool" where
  "DescribeTopicPartitionsResponsePartition_ok version s \<longleftrightarrow>
     \<not> (version \<noteq> 0) \<and>
     in_i16 (dtprsp_error_code s) \<and>
     in_i32 (dtprsp_partition_index s) \<and>
     in_i32 (dtprsp_leader_id s) \<and>
     in_i32 (dtprsp_leader_epoch s) \<and>
     seq_ok (2 ^ 32 - 2) in_i32 (Some (dtprsp_replica_nodes s)) \<and>
     seq_ok (2 ^ 32 - 2) in_i32 (Some (dtprsp_isr_nodes s)) \<and>
     seq_ok (2 ^ 32 - 2) in_i32 (dtprsp_eligible_leader_replicas s) \<and>
     seq_ok (2 ^ 32 - 2) in_i32 (dtprsp_last_known_elr s) \<and>
     seq_ok (2 ^ 32 - 2) in_i32 (Some (dtprsp_offline_replicas s)) \<and>
     tags_ok 0 (dtprsp_unknown_tagged_fields s)"

lemma DescribeTopicPartitionsResponsePartition_codec [coded_intros]:
  "sized_codec (\<lambda>s. DescribeTopicPartitionsResponsePartition_encode s version) (DescribeTopicPartitionsResponsePartition_decode version)
     (\<lambda>s. DescribeTopicPartitionsResponsePartition_compute_size s version) (DescribeTopicPartitionsResponsePartition_ok version)"
  unfolding DescribeTopicPartitionsResponsePartition_encode_def DescribeTopicPartitionsResponsePartition_decode_def DescribeTopicPartitionsResponsePartition_compute_size_def
  by (rule sized_codecI) (rule coded_intros | (clarsimp simp: DescribeTopicPartitionsResponsePartition_ok_def; fail))+

lemmas DescribeTopicPartitionsResponsePartition_coded [coded_intros] = sized_codec.codes [OF DescribeTopicPartitionsResponsePartition_codec]

definition DescribeTopicPartitionsResponseTopic_encode :: "describe_topic_partitions_response_topic \<Rightarrow> i16 \<Rightarrow> wire_error + bytes" where
  "DescribeTopicPartitionsResponseTopic_encode s version =
     (if version \<noteq> 0 then Inl UNSUPPORTED_VERSION
      else puts
        [Inr (Int16_encode (dtprst_error_code s)),
         CompactString_encode (dtprst_name s),
         Inr (Uuid_encode (dtprst_topic_id s)),
         Inr (Boolean_encode (dtprst_is_internal s)),
         CompactArray_encode (\<lambda>x. DescribeTopicPartitionsResponsePartition_encode x version) (Some (dtprst_partitions s)),
         Inr (Int32_encode (dtprst_topic_authorized_operations s)),
         put_tags [] 0 (dtprst_unknown_tagged_fields s)])"

definition DescribeTopicPartitionsResponseTopic_compute_size :: "describe_topic_partitions_response_topic \<Rightarrow> i16 \<Rightarrow> wire_error + usize" where
  "DescribeTopicPartitionsResponseTopic_compute_size s version =
     sums
       [Inr 2,
        CompactString_compute_size (dtprst_name s),
        Inr 16,
        Inr 1,
        CompactArray_compute_size None (\<lambda>x. DescribeTopicPartitionsResponsePartition_compute_size x version) (Some (dtprst_partitions s)),
        Inr 4,
        tags_size [] (dtprst_unknown_tagged_fields s)]"

definition DescribeTopicPartitionsResponseTopic_decode :: "i16 \<Rightarrow> describe_topic_partitions_response_topic decoder" where
  "DescribeTopicPartitionsResponseTopic_decode version =
     (if version \<noteq> 0 then refuse UNSUPPORTED_VERSION
      else
        get Int16_decode (\<lambda>error_code.
        get CompactString_decode (\<lambda>name.
        get Uuid_decode (\<lambda>topic_id.
        get Boolean_decode (\<lambda>is_internal.
        get (CompactArray_required (DescribeTopicPartitionsResponsePartition_decode version)) (\<lambda>partitions.
        get Int32_decode (\<lambda>topic_authorized_operations.
        get (get_unknown_tags) (\<lambda>unknown_tagged_fields.
        give \<lparr>dtprst_error_code = error_code, dtprst_name = name, dtprst_topic_id = topic_id,
               dtprst_is_internal = is_internal, dtprst_partitions = partitions,
               dtprst_topic_authorized_operations = topic_authorized_operations,
               dtprst_unknown_tagged_fields = unknown_tagged_fields\<rparr>))))))))"

definition DescribeTopicPartitionsResponseTopic_ok :: "i16 \<Rightarrow> describe_topic_partitions_response_topic \<Rightarrow> bool" where
  "DescribeTopicPartitionsResponseTopic_ok version s \<longleftrightarrow>
     \<not> (version \<noteq> 0) \<and>
     in_i16 (dtprst_error_code s) \<and>
     string_ok (2 ^ 32 - 2) (dtprst_name s) \<and>
     seq_ok (2 ^ 32 - 2) (DescribeTopicPartitionsResponsePartition_ok version) (Some (dtprst_partitions s)) \<and>
     in_i32 (dtprst_topic_authorized_operations s) \<and>
     tags_ok 0 (dtprst_unknown_tagged_fields s)"

lemma DescribeTopicPartitionsResponseTopic_codec [coded_intros]:
  "sized_codec (\<lambda>s. DescribeTopicPartitionsResponseTopic_encode s version) (DescribeTopicPartitionsResponseTopic_decode version)
     (\<lambda>s. DescribeTopicPartitionsResponseTopic_compute_size s version) (DescribeTopicPartitionsResponseTopic_ok version)"
  unfolding DescribeTopicPartitionsResponseTopic_encode_def DescribeTopicPartitionsResponseTopic_decode_def DescribeTopicPartitionsResponseTopic_compute_size_def
  by (rule sized_codecI) (rule coded_intros | (clarsimp simp: DescribeTopicPartitionsResponseTopic_ok_def; fail))+

lemmas DescribeTopicPartitionsResponseTopic_coded [coded_intros] = sized_codec.codes [OF DescribeTopicPartitionsResponseTopic_codec]

definition DescribeTopicPartitionsResponse_encode :: "describe_topic_partitions_response \<Rightarrow> i16 \<Rightarrow> wire_error + bytes" where
  "DescribeTopicPartitionsResponse_encode s version =
     (if version \<noteq> 0 then Inl UNSUPPORTED_VERSION
      else puts
        [Inr (Int32_encode (dtprs_throttle_time_ms s)),
         CompactArray_encode (\<lambda>x. DescribeTopicPartitionsResponseTopic_encode x version) (Some (dtprs_topics s)),
         OptionStruct_encode (\<lambda>x. ResponseCursor_encode x version) (dtprs_next_cursor s),
         put_tags [] 0 (dtprs_unknown_tagged_fields s)])"

definition DescribeTopicPartitionsResponse_compute_size :: "describe_topic_partitions_response \<Rightarrow> i16 \<Rightarrow> wire_error + usize" where
  "DescribeTopicPartitionsResponse_compute_size s version =
     sums
       [Inr 4,
        CompactArray_compute_size None (\<lambda>x. DescribeTopicPartitionsResponseTopic_compute_size x version) (Some (dtprs_topics s)),
        OptionStruct_compute_size (\<lambda>x. ResponseCursor_compute_size x version) (dtprs_next_cursor s),
        tags_size [] (dtprs_unknown_tagged_fields s)]"

definition DescribeTopicPartitionsResponse_decode :: "i16 \<Rightarrow> describe_topic_partitions_response decoder" where
  "DescribeTopicPartitionsResponse_decode version =
     (if version \<noteq> 0 then refuse UNSUPPORTED_VERSION
      else
        get Int32_decode (\<lambda>throttle_time_ms.
        get (CompactArray_required (DescribeTopicPartitionsResponseTopic_decode version)) (\<lambda>topics.
        get (OptionStruct_decode (ResponseCursor_decode version)) (\<lambda>next_cursor.
        get (get_unknown_tags) (\<lambda>unknown_tagged_fields.
        give \<lparr>dtprs_throttle_time_ms = throttle_time_ms, dtprs_topics = topics,
               dtprs_next_cursor = next_cursor, dtprs_unknown_tagged_fields = unknown_tagged_fields\<rparr>)))))"

definition DescribeTopicPartitionsResponse_ok :: "i16 \<Rightarrow> describe_topic_partitions_response \<Rightarrow> bool" where
  "DescribeTopicPartitionsResponse_ok version s \<longleftrightarrow>
     \<not> (version \<noteq> 0) \<and>
     in_i32 (dtprs_throttle_time_ms s) \<and>
     seq_ok (2 ^ 32 - 2) (DescribeTopicPartitionsResponseTopic_ok version) (Some (dtprs_topics s)) \<and>
     (case dtprs_next_cursor s of None \<Rightarrow> True | Some x \<Rightarrow> ResponseCursor_ok version x) \<and>
     tags_ok 0 (dtprs_unknown_tagged_fields s)"

lemma DescribeTopicPartitionsResponse_codec [coded_intros]:
  "sized_codec (\<lambda>s. DescribeTopicPartitionsResponse_encode s version) (DescribeTopicPartitionsResponse_decode version)
     (\<lambda>s. DescribeTopicPartitionsResponse_compute_size s version) (DescribeTopicPartitionsResponse_ok version)"
  unfolding DescribeTopicPartitionsResponse_encode_def DescribeTopicPartitionsResponse_decode_def DescribeTopicPartitionsResponse_compute_size_def
  by (rule sized_codecI) (rule coded_intros | (clarsimp simp: DescribeTopicPartitionsResponse_ok_def; fail))+

lemmas DescribeTopicPartitionsResponse_coded [coded_intros] = sized_codec.codes [OF DescribeTopicPartitionsResponse_codec]

end
