(* ===== verification/Codec_Cluster.thy ===== *)
theory Codec_Cluster
  imports Message_Codec Messages_Cluster
begin

text \<open>
  The codecs of the messages describe cluster, describe configs, find coordinator, api versions
  (\<open>src/crates/kafka-protocol/src/messages/\<close>): the encoder, the size computation and the decoder of every structure,
  for every version of its schema, what a structure must satisfy to be sent in a version, and that it then comes back.
\<close>

section \<open>Describe cluster\<close>

definition DescribeClusterRequest_encode :: "describe_cluster_request \<Rightarrow> i16 \<Rightarrow> wire_error + bytes" where
  "DescribeClusterRequest_encode s version =
     (if version < 0 \<or> version > 2 then Inl UNSUPPORTED_VERSION
      else puts
        [Inr (Boolean_encode (dcrq_include_cluster_authorized_operations s)),
         if version \<ge> 1
          then Inr (Int8_encode (dcrq_endpoint_type s))
          else unset [] (dcrq_endpoint_type s = 1),
         if version \<ge> 2
          then Inr (Boolean_encode (dcrq_include_fenced_brokers s))
          else unset [] (\<not> dcrq_include_fenced_brokers s),
         put_tags [] 0 (dcrq_unknown_tagged_fields s)])"

definition DescribeClusterRequest_compute_size :: "describe_cluster_request \<Rightarrow> i16 \<Rightarrow> wire_error + usize" where
  "DescribeClusterRequest_compute_size s version =
     sums
       [Inr 1,
        if version \<ge> 1 then Inr 1 else unset 0 (dcrq_endpoint_type s = 1),
        if version \<ge> 2 then Inr 1 else unset 0 (\<not> dcrq_include_fenced_brokers s),
        tags_size [] (dcrq_unknown_tagged_fields s)]"

definition DescribeClusterRequest_decode :: "i16 \<Rightarrow> describe_cluster_request decoder" where
  "DescribeClusterRequest_decode version =
     (if version < 0 \<or> version > 2 then refuse UNSUPPORTED_VERSION
      else
        get Boolean_decode (\<lambda>include_cluster_authorized_operations.
        get (if version \<ge> 1 then Int8_decode else give 1) (\<lambda>endpoint_type.
        get (if version \<ge> 2 then Boolean_decode else give False) (\<lambda>include_fenced_brokers.
        get (get_unknown_tags) (\<lambda>unknown_tagged_fields.
        give \<lparr>
               dcrq_include_cluster_authorized_operations = include_cluster_authorized_operations,
               dcrq_endpoint_type = endpoint_type,
               dcrq_include_fenced_brokers = include_fenced_brokers,
               dcrq_unknown_tagged_fields = unknown_tagged_fields\<rparr>)))))"

definition DescribeClusterRequest_ok :: "i16 \<Rightarrow> describe_cluster_request \<Rightarrow> bool" where
  "DescribeClusterRequest_ok version s \<longleftrightarrow>
     \<not> (version < 0 \<or> version > 2) \<and>
     (if version \<ge> 1 then in_i8 (dcrq_endpoint_type s) else dcrq_endpoint_type s = 1) \<and>
     (if version \<ge> 2 then True else \<not> dcrq_include_fenced_brokers s) \<and>
     tags_ok 0 (dcrq_unknown_tagged_fields s)"

lemma DescribeClusterRequest_codec [coded_intros]:
  "sized_codec (\<lambda>s. DescribeClusterRequest_encode s version) (DescribeClusterRequest_decode version)
     (\<lambda>s. DescribeClusterRequest_compute_size s version) (DescribeClusterRequest_ok version)"
  unfolding DescribeClusterRequest_encode_def DescribeClusterRequest_decode_def DescribeClusterRequest_compute_size_def
  by (rule sized_codecI) (rule coded_intros | (clarsimp simp: DescribeClusterRequest_ok_def; fail))+

lemmas DescribeClusterRequest_coded [coded_intros] = sized_codec.codes [OF DescribeClusterRequest_codec]

definition DescribeClusterBroker_encode :: "describe_cluster_broker \<Rightarrow> i16 \<Rightarrow> wire_error + bytes" where
  "DescribeClusterBroker_encode s version =
     (if version < 0 \<or> version > 2 then Inl UNSUPPORTED_VERSION
      else puts
        [Inr (Int32_encode (dcb_broker_id s)),
         CompactString_encode (Some (dcb_host s)),
         Inr (Int32_encode (dcb_port s)),
         CompactString_encode (dcb_rack s),
         if version \<ge> 2 then Inr (Boolean_encode (dcb_is_fenced s)) else unset [] (\<not> dcb_is_fenced s),
         put_tags [] 0 (dcb_unknown_tagged_fields s)])"

definition DescribeClusterBroker_compute_size :: "describe_cluster_broker \<Rightarrow> i16 \<Rightarrow> wire_error + usize" where
  "DescribeClusterBroker_compute_size s version =
     sums
       [Inr 4,
        CompactString_compute_size (Some (dcb_host s)),
        Inr 4,
        CompactString_compute_size (dcb_rack s),
        if version \<ge> 2 then Inr 1 else unset 0 (\<not> dcb_is_fenced s),
        tags_size [] (dcb_unknown_tagged_fields s)]"

definition DescribeClusterBroker_decode :: "i16 \<Rightarrow> describe_cluster_broker decoder" where
  "DescribeClusterBroker_decode version =
     (if version < 0 \<or> version > 2 then refuse UNSUPPORTED_VERSION
      else
        get Int32_decode (\<lambda>broker_id.
        get CompactString_required (\<lambda>host.
        get Int32_decode (\<lambda>port.
        get CompactString_decode (\<lambda>rack.
        get (if version \<ge> 2 then Boolean_decode else give False) (\<lambda>is_fenced.
        get (get_unknown_tags) (\<lambda>unknown_tagged_fields.
        give \<lparr>dcb_broker_id = broker_id, dcb_host = host, dcb_port = port, dcb_rack = rack,
               dcb_is_fenced = is_fenced, dcb_unknown_tagged_fields = unknown_tagged_fields\<rparr>)))))))"

definition DescribeClusterBroker_ok :: "i16 \<Rightarrow> describe_cluster_broker \<Rightarrow> bool" where
  "DescribeClusterBroker_ok version s \<longleftrightarrow>
     \<not> (version < 0 \<or> version > 2) \<and>
     in_i32 (dcb_broker_id s) \<and>
     string_ok (2 ^ 32 - 2) (Some (dcb_host s)) \<and>
     in_i32 (dcb_port s) \<and>
     string_ok (2 ^ 32 - 2) (dcb_rack s) \<and>
     (if version \<ge> 2 then True else \<not> dcb_is_fenced s) \<and>
     tags_ok 0 (dcb_unknown_tagged_fields s)"

lemma DescribeClusterBroker_codec [coded_intros]:
  "sized_codec (\<lambda>s. DescribeClusterBroker_encode s version) (DescribeClusterBroker_decode version)
     (\<lambda>s. DescribeClusterBroker_compute_size s version) (DescribeClusterBroker_ok version)"
  unfolding DescribeClusterBroker_encode_def DescribeClusterBroker_decode_def DescribeClusterBroker_compute_size_def
  by (rule sized_codecI) (rule coded_intros | (clarsimp simp: DescribeClusterBroker_ok_def; fail))+

lemmas DescribeClusterBroker_coded [coded_intros] = sized_codec.codes [OF DescribeClusterBroker_codec]

definition DescribeClusterResponse_encode :: "describe_cluster_response \<Rightarrow> i16 \<Rightarrow> wire_error + bytes" where
  "DescribeClusterResponse_encode s version =
     (if version < 0 \<or> version > 2 then Inl UNSUPPORTED_VERSION
      else puts
        [Inr (Int32_encode (dcrs_throttle_time_ms s)),
         Inr (Int16_encode (dcrs_error_code s)),
         CompactString_encode (dcrs_error_message s),
         if version \<ge> 1
          then Inr (Int8_encode (dcrs_endpoint_type s))
          else unset [] (dcrs_endpoint_type s = 1),
         CompactString_encode (Some (dcrs_cluster_id s)),
         Inr (Int32_encode (dcrs_controller_id s)),
         CompactArray_encode (\<lambda>x. DescribeClusterBroker_encode x version) (Some (dcrs_brokers s)),
         Inr (Int32_encode (dcrs_cluster_authorized_operations s)),
         put_tags [] 0 (dcrs_unknown_tagged_fields s)])"

definition DescribeClusterResponse_compute_size :: "describe_cluster_response \<Rightarrow> i16 \<Rightarrow> wire_error + usize" where
  "DescribeClusterResponse_compute_size s version =
     sums
       [Inr 4,
        Inr 2,
        CompactString_compute_size (dcrs_error_message s),
        if version \<ge> 1 then Inr 1 else unset 0 (dcrs_endpoint_type s = 1),
        CompactString_compute_size (Some (dcrs_cluster_id s)),
        Inr 4,
        CompactArray_compute_size None (\<lambda>x. DescribeClusterBroker_compute_size x version) (Some (dcrs_brokers s)),
        Inr 4,
        tags_size [] (dcrs_unknown_tagged_fields s)]"

definition DescribeClusterResponse_decode :: "i16 \<Rightarrow> describe_cluster_response decoder" where
  "DescribeClusterResponse_decode version =
     (if version < 0 \<or> version > 2 then refuse UNSUPPORTED_VERSION
      else
        get Int32_decode (\<lambda>throttle_time_ms.
        get Int16_decode (\<lambda>error_code.
        get CompactString_decode (\<lambda>error_message.
        get (if version \<ge> 1 then Int8_decode else give 1) (\<lambda>endpoint_type.
        get CompactString_required (\<lambda>cluster_id.
        get Int32_decode (\<lambda>controller_id.
        get (CompactArray_required (DescribeClusterBroker_decode version)) (\<lambda>brokers.
        get Int32_decode (\<lambda>cluster_authorized_operations.
        get (get_unknown_tags) (\<lambda>unknown_tagged_fields.
        give \<lparr>dcrs_throttle_time_ms = throttle_time_ms, dcrs_error_code = error_code,
               dcrs_error_message = error_message, dcrs_endpoint_type = endpoint_type,
               dcrs_cluster_id = cluster_id, dcrs_controller_id = controller_id,
               dcrs_brokers = brokers,
               dcrs_cluster_authorized_operations = cluster_authorized_operations,
               dcrs_unknown_tagged_fields = unknown_tagged_fields\<rparr>))))))))))"

definition DescribeClusterResponse_ok :: "i16 \<Rightarrow> describe_cluster_response \<Rightarrow> bool" where
  "DescribeClusterResponse_ok version s \<longleftrightarrow>
     \<not> (version < 0 \<or> version > 2) \<and>
     in_i32 (dcrs_throttle_time_ms s) \<and>
     in_i16 (dcrs_error_code s) \<and>
     string_ok (2 ^ 32 - 2) (dcrs_error_message s) \<and>
     (if version \<ge> 1 then in_i8 (dcrs_endpoint_type s) else dcrs_endpoint_type s = 1) \<and>
     string_ok (2 ^ 32 - 2) (Some (dcrs_cluster_id s)) \<and>
     in_i32 (dcrs_controller_id s) \<and>
     seq_ok (2 ^ 32 - 2) (DescribeClusterBroker_ok version) (Some (dcrs_brokers s)) \<and>
     in_i32 (dcrs_cluster_authorized_operations s) \<and>
     tags_ok 0 (dcrs_unknown_tagged_fields s)"

lemma DescribeClusterResponse_codec [coded_intros]:
  "sized_codec (\<lambda>s. DescribeClusterResponse_encode s version) (DescribeClusterResponse_decode version)
     (\<lambda>s. DescribeClusterResponse_compute_size s version) (DescribeClusterResponse_ok version)"
  unfolding DescribeClusterResponse_encode_def DescribeClusterResponse_decode_def DescribeClusterResponse_compute_size_def
  by (rule sized_codecI) (rule coded_intros | (simp add: DescribeClusterResponse_ok_def; fail))+

lemmas DescribeClusterResponse_coded [coded_intros] = sized_codec.codes [OF DescribeClusterResponse_codec]

section \<open>Describe configs\<close>

definition DescribeConfigsResource_encode :: "describe_configs_resource \<Rightarrow> i16 \<Rightarrow> wire_error + bytes" where
  "DescribeConfigsResource_encode s version =
     (if version < 1 \<or> version > 4 then Inl UNSUPPORTED_VERSION
      else puts
        [Inr (Int8_encode (dcfr_resource_type s)),
         if version \<ge> 4
          then CompactString_encode (Some (dcfr_resource_name s))
          else String_encode (Some (dcfr_resource_name s)),
         if version \<ge> 4
          then CompactArray_encode (\<lambda>x. CompactString_encode (Some x)) (dcfr_configuration_keys s)
          else Array_encode (\<lambda>x. String_encode (Some x)) (dcfr_configuration_keys s),
         if version \<ge> 4 then put_tags [] 0 (dcfr_unknown_tagged_fields s) else Inr []])"

definition DescribeConfigsResource_compute_size :: "describe_configs_resource \<Rightarrow> i16 \<Rightarrow> wire_error + usize" where
  "DescribeConfigsResource_compute_size s version =
     sums
       [Inr 1,
        if version \<ge> 4
         then CompactString_compute_size (Some (dcfr_resource_name s))
         else String_compute_size (Some (dcfr_resource_name s)),
        if version \<ge> 4
         then CompactArray_compute_size None (\<lambda>x. CompactString_compute_size (Some x)) (dcfr_configuration_keys s)
         else Array_compute_size None (\<lambda>x. String_compute_size (Some x)) (dcfr_configuration_keys s),
        if version \<ge> 4 then tags_size [] (dcfr_unknown_tagged_fields s) else Inr 0]"

definition DescribeConfigsResource_decode :: "i16 \<Rightarrow> describe_configs_resource decoder" where
  "DescribeConfigsResource_decode version =
     (if version < 1 \<or> version > 4 then refuse UNSUPPORTED_VERSION
      else
        get Int8_decode (\<lambda>resource_type.
        get (if version \<ge> 4 then CompactString_required else String_required) (\<lambda>resource_name.
        get (if version \<ge> 4
              then CompactArray_decode CompactString_required
              else Array_decode String_required) (\<lambda>configuration_keys.
        get (if version \<ge> 4 then get_unknown_tags else give []) (\<lambda>unknown_tagged_fields.
        give \<lparr>dcfr_resource_type = resource_type, dcfr_resource_name = resource_name,
               dcfr_configuration_keys = configuration_keys,
               dcfr_unknown_tagged_fields = unknown_tagged_fields\<rparr>)))))"

definition DescribeConfigsResource_ok :: "i16 \<Rightarrow> describe_configs_resource \<Rightarrow> bool" where
  "DescribeConfigsResource_ok version s \<longleftrightarrow>
     \<not> (version < 1 \<or> version > 4) \<and>
     in_i8 (dcfr_resource_type s) \<and>
     (if version \<ge> 4
       then string_ok (2 ^ 32 - 2) (Some (dcfr_resource_name s))
       else string_ok 32767 (Some (dcfr_resource_name s))) \<and>
     (if version \<ge> 4
       then seq_ok (2 ^ 32 - 2) (\<lambda>x. string_ok (2 ^ 32 - 2) (Some x)) (dcfr_configuration_keys s)
       else seq_ok (2 ^ 31 - 1) (\<lambda>x. string_ok 32767 (Some x)) (dcfr_configuration_keys s)) \<and>
     (if version \<ge> 4 then tags_ok 0 (dcfr_unknown_tagged_fields s) else dcfr_unknown_tagged_fields s = [])"

lemma DescribeConfigsResource_codec [coded_intros]:
  "sized_codec (\<lambda>s. DescribeConfigsResource_encode s version) (DescribeConfigsResource_decode version)
     (\<lambda>s. DescribeConfigsResource_compute_size s version) (DescribeConfigsResource_ok version)"
  unfolding DescribeConfigsResource_encode_def DescribeConfigsResource_decode_def DescribeConfigsResource_compute_size_def
  by (rule sized_codecI) (rule coded_intros | (clarsimp simp: DescribeConfigsResource_ok_def; fail))+

lemmas DescribeConfigsResource_coded [coded_intros] = sized_codec.codes [OF DescribeConfigsResource_codec]

definition DescribeConfigsRequest_encode :: "describe_configs_request \<Rightarrow> i16 \<Rightarrow> wire_error + bytes" where
  "DescribeConfigsRequest_encode s version =
     (if version < 1 \<or> version > 4 then Inl UNSUPPORTED_VERSION
      else puts
        [if version \<ge> 4
          then CompactArray_encode (\<lambda>x. DescribeConfigsResource_encode x version) (Some (dcfrq_resources s))
          else Array_encode (\<lambda>x. DescribeConfigsResource_encode x version) (Some (dcfrq_resources s)),
         Inr (Boolean_encode (dcfrq_include_synonyms s)),
         if version \<ge> 3
          then Inr (Boolean_encode (dcfrq_include_documentation s))
          else unset [] (\<not> dcfrq_include_documentation s),
         if version \<ge> 4 then put_tags [] 0 (dcfrq_unknown_tagged_fields s) else Inr []])"

definition DescribeConfigsRequest_compute_size :: "describe_configs_request \<Rightarrow> i16 \<Rightarrow> wire_error + usize" where
  "DescribeConfigsRequest_compute_size s version =
     sums
       [if version \<ge> 4
         then CompactArray_compute_size None (\<lambda>x. DescribeConfigsResource_compute_size x version) (Some (dcfrq_resources s))
         else Array_compute_size None (\<lambda>x. DescribeConfigsResource_compute_size x version) (Some (dcfrq_resources s)),
        Inr 1,
        if version \<ge> 3 then Inr 1 else unset 0 (\<not> dcfrq_include_documentation s),
        if version \<ge> 4 then tags_size [] (dcfrq_unknown_tagged_fields s) else Inr 0]"

definition DescribeConfigsRequest_decode :: "i16 \<Rightarrow> describe_configs_request decoder" where
  "DescribeConfigsRequest_decode version =
     (if version < 1 \<or> version > 4 then refuse UNSUPPORTED_VERSION
      else
        get (if version \<ge> 4
              then CompactArray_required (DescribeConfigsResource_decode version)
              else Array_required (DescribeConfigsResource_decode version)) (\<lambda>resources.
        get Boolean_decode (\<lambda>include_synonyms.
        get (if version \<ge> 3 then Boolean_decode else give False) (\<lambda>include_documentation.
        get (if version \<ge> 4 then get_unknown_tags else give []) (\<lambda>unknown_tagged_fields.
        give \<lparr>dcfrq_resources = resources, dcfrq_include_synonyms = include_synonyms,
               dcfrq_include_documentation = include_documentation,
               dcfrq_unknown_tagged_fields = unknown_tagged_fields\<rparr>)))))"

definition DescribeConfigsRequest_ok :: "i16 \<Rightarrow> describe_configs_request \<Rightarrow> bool" where
  "DescribeConfigsRequest_ok version s \<longleftrightarrow>
     \<not> (version < 1 \<or> version > 4) \<and>
     (if version \<ge> 4
       then seq_ok (2 ^ 32 - 2) (DescribeConfigsResource_ok version) (Some (dcfrq_resources s))
       else seq_ok (2 ^ 31 - 1) (DescribeConfigsResource_ok version) (Some (dcfrq_resources s))) \<and>
     (if version \<ge> 3 then True else \<not> dcfrq_include_documentation s) \<and>
     (if version \<ge> 4 then tags_ok 0 (dcfrq_unknown_tagged_fields s) else dcfrq_unknown_tagged_fields s = [])"

lemma DescribeConfigsRequest_codec [coded_intros]:
  "sized_codec (\<lambda>s. DescribeConfigsRequest_encode s version) (DescribeConfigsRequest_decode version)
     (\<lambda>s. DescribeConfigsRequest_compute_size s version) (DescribeConfigsRequest_ok version)"
  unfolding DescribeConfigsRequest_encode_def DescribeConfigsRequest_decode_def DescribeConfigsRequest_compute_size_def
  by (rule sized_codecI) (rule coded_intros | (clarsimp simp: DescribeConfigsRequest_ok_def; fail))+

lemmas DescribeConfigsRequest_coded [coded_intros] = sized_codec.codes [OF DescribeConfigsRequest_codec]

definition DescribeConfigsSynonym_encode :: "describe_configs_synonym \<Rightarrow> i16 \<Rightarrow> wire_error + bytes" where
  "DescribeConfigsSynonym_encode s version =
     (if version < 1 \<or> version > 4 then Inl UNSUPPORTED_VERSION
      else puts
        [if version \<ge> 4
          then CompactString_encode (Some (dcfs_name s))
          else String_encode (Some (dcfs_name s)),
         if version \<ge> 4 then CompactString_encode (dcfs_value s) else String_encode (dcfs_value s),
         Inr (Int8_encode (dcfs_source s)),
         if version \<ge> 4 then put_tags [] 0 (dcfs_unknown_tagged_fields s) else Inr []])"

definition DescribeConfigsSynonym_compute_size :: "describe_configs_synonym \<Rightarrow> i16 \<Rightarrow> wire_error + usize" where
  "DescribeConfigsSynonym_compute_size s version =
     sums
       [if version \<ge> 4
         then CompactString_compute_size (Some (dcfs_name s))
         else String_compute_size (Some (dcfs_name s)),
        if version \<ge> 4
         then CompactString_compute_size (dcfs_value s)
         else String_compute_size (dcfs_value s),
        Inr 1,
        if version \<ge> 4 then tags_size [] (dcfs_unknown_tagged_fields s) else Inr 0]"

definition DescribeConfigsSynonym_decode :: "i16 \<Rightarrow> describe_configs_synonym decoder" where
  "DescribeConfigsSynonym_decode version =
     (if version < 1 \<or> version > 4 then refuse UNSUPPORTED_VERSION
      else
        get (if version \<ge> 4 then CompactString_required else String_required) (\<lambda>name.
        get (if version \<ge> 4 then CompactString_decode else String_decode) (\<lambda>value.
        get Int8_decode (\<lambda>source.
        get (if version \<ge> 4 then get_unknown_tags else give []) (\<lambda>unknown_tagged_fields.
        give \<lparr>dcfs_name = name, dcfs_value = value, dcfs_source = source,
               dcfs_unknown_tagged_fields = unknown_tagged_fields\<rparr>)))))"

definition DescribeConfigsSynonym_ok :: "i16 \<Rightarrow> describe_configs_synonym \<Rightarrow> bool" where
  "DescribeConfigsSynonym_ok version s \<longleftrightarrow>
     \<not> (version < 1 \<or> version > 4) \<and>
     (if version \<ge> 4
       then string_ok (2 ^ 32 - 2) (Some (dcfs_name s))
       else string_ok 32767 (Some (dcfs_name s))) \<and>
     (if version \<ge> 4 then string_ok (2 ^ 32 - 2) (dcfs_value s) else string_ok 32767 (dcfs_value s)) \<and>
     in_i8 (dcfs_source s) \<and>
     (if version \<ge> 4 then tags_ok 0 (dcfs_unknown_tagged_fields s) else dcfs_unknown_tagged_fields s = [])"

lemma DescribeConfigsSynonym_codec [coded_intros]:
  "sized_codec (\<lambda>s. DescribeConfigsSynonym_encode s version) (DescribeConfigsSynonym_decode version)
     (\<lambda>s. DescribeConfigsSynonym_compute_size s version) (DescribeConfigsSynonym_ok version)"
  unfolding DescribeConfigsSynonym_encode_def DescribeConfigsSynonym_decode_def DescribeConfigsSynonym_compute_size_def
  by (rule sized_codecI) (rule coded_intros | (clarsimp simp: DescribeConfigsSynonym_ok_def; fail))+

lemmas DescribeConfigsSynonym_coded [coded_intros] = sized_codec.codes [OF DescribeConfigsSynonym_codec]

definition DescribeConfigsResourceResult_encode :: "describe_configs_resource_result \<Rightarrow> i16 \<Rightarrow> wire_error + bytes" where
  "DescribeConfigsResourceResult_encode s version =
     (if version < 1 \<or> version > 4 then Inl UNSUPPORTED_VERSION
      else puts
        [if version \<ge> 4
          then CompactString_encode (Some (dcfrr_name s))
          else String_encode (Some (dcfrr_name s)),
         if version \<ge> 4 then CompactString_encode (dcfrr_value s) else String_encode (dcfrr_value s),
         Inr (Boolean_encode (dcfrr_read_only s)),
         Inr (Int8_encode (dcfrr_config_source s)),
         Inr (Boolean_encode (dcfrr_is_sensitive s)),
         if version \<ge> 4
          then CompactArray_encode (\<lambda>x. DescribeConfigsSynonym_encode x version) (Some (dcfrr_synonyms s))
          else Array_encode (\<lambda>x. DescribeConfigsSynonym_encode x version) (Some (dcfrr_synonyms s)),
         if version \<ge> 3 then Inr (Int8_encode (dcfrr_config_type s)) else Inr [],
         if version \<ge> 3
          then if version \<ge> 4
                then CompactString_encode (dcfrr_documentation s)
                else String_encode (dcfrr_documentation s)
          else Inr [],
         if version \<ge> 4 then put_tags [] 0 (dcfrr_unknown_tagged_fields s) else Inr []])"

definition DescribeConfigsResourceResult_compute_size :: "describe_configs_resource_result \<Rightarrow> i16 \<Rightarrow> wire_error + usize" where
  "DescribeConfigsResourceResult_compute_size s version =
     sums
       [if version \<ge> 4
         then CompactString_compute_size (Some (dcfrr_name s))
         else String_compute_size (Some (dcfrr_name s)),
        if version \<ge> 4
         then CompactString_compute_size (dcfrr_value s)
         else String_compute_size (dcfrr_value s),
        Inr 1,
        Inr 1,
        Inr 1,
        if version \<ge> 4
         then CompactArray_compute_size None (\<lambda>x. DescribeConfigsSynonym_compute_size x version) (Some (dcfrr_synonyms s))
         else Array_compute_size None (\<lambda>x. DescribeConfigsSynonym_compute_size x version) (Some (dcfrr_synonyms s)),
        if version \<ge> 3 then Inr 1 else Inr 0,
        if version \<ge> 3
         then if version \<ge> 4
               then CompactString_compute_size (dcfrr_documentation s)
               else String_compute_size (dcfrr_documentation s)
         else Inr 0,
        if version \<ge> 4 then tags_size [] (dcfrr_unknown_tagged_fields s) else Inr 0]"

definition DescribeConfigsResourceResult_decode :: "i16 \<Rightarrow> describe_configs_resource_result decoder" where
  "DescribeConfigsResourceResult_decode version =
     (if version < 1 \<or> version > 4 then refuse UNSUPPORTED_VERSION
      else
        get (if version \<ge> 4 then CompactString_required else String_required) (\<lambda>name.
        get (if version \<ge> 4 then CompactString_decode else String_decode) (\<lambda>value.
        get Boolean_decode (\<lambda>read_only.
        get Int8_decode (\<lambda>config_source.
        get Boolean_decode (\<lambda>is_sensitive.
        get (if version \<ge> 4
              then CompactArray_required (DescribeConfigsSynonym_decode version)
              else Array_required (DescribeConfigsSynonym_decode version)) (\<lambda>synonyms.
        get (if version \<ge> 3 then Int8_decode else give 0) (\<lambda>config_type.
        get (if version \<ge> 3
              then if version \<ge> 4 then CompactString_decode else String_decode
              else give (Some [])) (\<lambda>documentation.
        get (if version \<ge> 4 then get_unknown_tags else give []) (\<lambda>unknown_tagged_fields.
        give \<lparr>dcfrr_name = name, dcfrr_value = value, dcfrr_read_only = read_only,
               dcfrr_config_source = config_source, dcfrr_is_sensitive = is_sensitive,
               dcfrr_synonyms = synonyms, dcfrr_config_type = config_type,
               dcfrr_documentation = documentation, dcfrr_unknown_tagged_fields = unknown_tagged_fields\<rparr>))))))))))"

definition DescribeConfigsResourceResult_ok :: "i16 \<Rightarrow> describe_configs_resource_result \<Rightarrow> bool" where
  "DescribeConfigsResourceResult_ok version s \<longleftrightarrow>
     \<not> (version < 1 \<or> version > 4) \<and>
     (if version \<ge> 4
       then string_ok (2 ^ 32 - 2) (Some (dcfrr_name s))
       else string_ok 32767 (Some (dcfrr_name s))) \<and>
     (if version \<ge> 4 then string_ok (2 ^ 32 - 2) (dcfrr_value s) else string_ok 32767 (dcfrr_value s)) \<and>
     in_i8 (dcfrr_config_source s) \<and>
     (if version \<ge> 4
       then seq_ok (2 ^ 32 - 2) (DescribeConfigsSynonym_ok version) (Some (dcfrr_synonyms s))
       else seq_ok (2 ^ 31 - 1) (DescribeConfigsSynonym_ok version) (Some (dcfrr_synonyms s))) \<and>
     (if version \<ge> 3 then in_i8 (dcfrr_config_type s) else dcfrr_config_type s = 0) \<and>
     (if version \<ge> 3
       then if version \<ge> 4
             then string_ok (2 ^ 32 - 2) (dcfrr_documentation s)
             else string_ok 32767 (dcfrr_documentation s)
       else dcfrr_documentation s = Some []) \<and>
     (if version \<ge> 4 then tags_ok 0 (dcfrr_unknown_tagged_fields s) else dcfrr_unknown_tagged_fields s = [])"

lemma DescribeConfigsResourceResult_codec [coded_intros]:
  "sized_codec (\<lambda>s. DescribeConfigsResourceResult_encode s version) (DescribeConfigsResourceResult_decode version)
     (\<lambda>s. DescribeConfigsResourceResult_compute_size s version) (DescribeConfigsResourceResult_ok version)"
  unfolding DescribeConfigsResourceResult_encode_def DescribeConfigsResourceResult_decode_def DescribeConfigsResourceResult_compute_size_def
  by (rule sized_codecI) (rule coded_intros | (clarsimp simp: DescribeConfigsResourceResult_ok_def; fail))+

lemmas DescribeConfigsResourceResult_coded [coded_intros] = sized_codec.codes [OF DescribeConfigsResourceResult_codec]

definition DescribeConfigsResult_encode :: "describe_configs_result \<Rightarrow> i16 \<Rightarrow> wire_error + bytes" where
  "DescribeConfigsResult_encode s version =
     (if version < 1 \<or> version > 4 then Inl UNSUPPORTED_VERSION
      else puts
        [Inr (Int16_encode (dcfres_error_code s)),
         if version \<ge> 4
          then CompactString_encode (dcfres_error_message s)
          else String_encode (dcfres_error_message s),
         Inr (Int8_encode (dcfres_resource_type s)),
         if version \<ge> 4
          then CompactString_encode (Some (dcfres_resource_name s))
          else String_encode (Some (dcfres_resource_name s)),
         if version \<ge> 4
          then CompactArray_encode (\<lambda>x. DescribeConfigsResourceResult_encode x version) (Some (dcfres_configs s))
          else Array_encode (\<lambda>x. DescribeConfigsResourceResult_encode x version) (Some (dcfres_configs s)),
         if version \<ge> 4 then put_tags [] 0 (dcfres_unknown_tagged_fields s) else Inr []])"

definition DescribeConfigsResult_compute_size :: "describe_configs_result \<Rightarrow> i16 \<Rightarrow> wire_error + usize" where
  "DescribeConfigsResult_compute_size s version =
     sums
       [Inr 2,
        if version \<ge> 4
         then CompactString_compute_size (dcfres_error_message s)
         else String_compute_size (dcfres_error_message s),
        Inr 1,
        if version \<ge> 4
         then CompactString_compute_size (Some (dcfres_resource_name s))
         else String_compute_size (Some (dcfres_resource_name s)),
        if version \<ge> 4
         then CompactArray_compute_size None (\<lambda>x. DescribeConfigsResourceResult_compute_size x version) (Some (dcfres_configs s))
         else Array_compute_size None (\<lambda>x. DescribeConfigsResourceResult_compute_size x version) (Some (dcfres_configs s)),
        if version \<ge> 4 then tags_size [] (dcfres_unknown_tagged_fields s) else Inr 0]"

definition DescribeConfigsResult_decode :: "i16 \<Rightarrow> describe_configs_result decoder" where
  "DescribeConfigsResult_decode version =
     (if version < 1 \<or> version > 4 then refuse UNSUPPORTED_VERSION
      else
        get Int16_decode (\<lambda>error_code.
        get (if version \<ge> 4 then CompactString_decode else String_decode) (\<lambda>error_message.
        get Int8_decode (\<lambda>resource_type.
        get (if version \<ge> 4 then CompactString_required else String_required) (\<lambda>resource_name.
        get (if version \<ge> 4
              then CompactArray_required (DescribeConfigsResourceResult_decode version)
              else Array_required (DescribeConfigsResourceResult_decode version)) (\<lambda>configs.
        get (if version \<ge> 4 then get_unknown_tags else give []) (\<lambda>unknown_tagged_fields.
        give \<lparr>dcfres_error_code = error_code, dcfres_error_message = error_message,
               dcfres_resource_type = resource_type, dcfres_resource_name = resource_name,
               dcfres_configs = configs, dcfres_unknown_tagged_fields = unknown_tagged_fields\<rparr>)))))))"

definition DescribeConfigsResult_ok :: "i16 \<Rightarrow> describe_configs_result \<Rightarrow> bool" where
  "DescribeConfigsResult_ok version s \<longleftrightarrow>
     \<not> (version < 1 \<or> version > 4) \<and>
     in_i16 (dcfres_error_code s) \<and>
     (if version \<ge> 4
       then string_ok (2 ^ 32 - 2) (dcfres_error_message s)
       else string_ok 32767 (dcfres_error_message s)) \<and>
     in_i8 (dcfres_resource_type s) \<and>
     (if version \<ge> 4
       then string_ok (2 ^ 32 - 2) (Some (dcfres_resource_name s))
       else string_ok 32767 (Some (dcfres_resource_name s))) \<and>
     (if version \<ge> 4
       then seq_ok (2 ^ 32 - 2) (DescribeConfigsResourceResult_ok version) (Some (dcfres_configs s))
       else seq_ok (2 ^ 31 - 1) (DescribeConfigsResourceResult_ok version) (Some (dcfres_configs s))) \<and>
     (if version \<ge> 4 then tags_ok 0 (dcfres_unknown_tagged_fields s) else dcfres_unknown_tagged_fields s = [])"

lemma DescribeConfigsResult_codec [coded_intros]:
  "sized_codec (\<lambda>s. DescribeConfigsResult_encode s version) (DescribeConfigsResult_decode version)
     (\<lambda>s. DescribeConfigsResult_compute_size s version) (DescribeConfigsResult_ok version)"
  unfolding DescribeConfigsResult_encode_def DescribeConfigsResult_decode_def DescribeConfigsResult_compute_size_def
  by (rule sized_codecI) (rule coded_intros | (clarsimp simp: DescribeConfigsResult_ok_def; fail))+

lemmas DescribeConfigsResult_coded [coded_intros] = sized_codec.codes [OF DescribeConfigsResult_codec]

definition DescribeConfigsResponse_encode :: "describe_configs_response \<Rightarrow> i16 \<Rightarrow> wire_error + bytes" where
  "DescribeConfigsResponse_encode s version =
     (if version < 1 \<or> version > 4 then Inl UNSUPPORTED_VERSION
      else puts
        [Inr (Int32_encode (dcfrs_throttle_time_ms s)),
         if version \<ge> 4
          then CompactArray_encode (\<lambda>x. DescribeConfigsResult_encode x version) (Some (dcfrs_results s))
          else Array_encode (\<lambda>x. DescribeConfigsResult_encode x version) (Some (dcfrs_results s)),
         if version \<ge> 4 then put_tags [] 0 (dcfrs_unknown_tagged_fields s) else Inr []])"

definition DescribeConfigsResponse_compute_size :: "describe_configs_response \<Rightarrow> i16 \<Rightarrow> wire_error + usize" where
  "DescribeConfigsResponse_compute_size s version =
     sums
       [Inr 4,
        if version \<ge> 4
         then CompactArray_compute_size None (\<lambda>x. DescribeConfigsResult_compute_size x version) (Some (dcfrs_results s))
         else Array_compute_size None (\<lambda>x. DescribeConfigsResult_compute_size x version) (Some (dcfrs_results s)),
        if version \<ge> 4 then tags_size [] (dcfrs_unknown_tagged_fields s) else Inr 0]"

definition DescribeConfigsResponse_decode :: "i16 \<Rightarrow> describe_configs_response decoder" where
  "DescribeConfigsResponse_decode version =
     (if version < 1 \<or> version > 4 then refuse UNSUPPORTED_VERSION
      else
        get Int32_decode (\<lambda>throttle_time_ms.
        get (if version \<ge> 4
              then CompactArray_required (DescribeConfigsResult_decode version)
              else Array_required (DescribeConfigsResult_decode version)) (\<lambda>results.
        get (if version \<ge> 4 then get_unknown_tags else give []) (\<lambda>unknown_tagged_fields.
        give \<lparr>dcfrs_throttle_time_ms = throttle_time_ms, dcfrs_results = results,
               dcfrs_unknown_tagged_fields = unknown_tagged_fields\<rparr>))))"

definition DescribeConfigsResponse_ok :: "i16 \<Rightarrow> describe_configs_response \<Rightarrow> bool" where
  "DescribeConfigsResponse_ok version s \<longleftrightarrow>
     \<not> (version < 1 \<or> version > 4) \<and>
     in_i32 (dcfrs_throttle_time_ms s) \<and>
     (if version \<ge> 4
       then seq_ok (2 ^ 32 - 2) (DescribeConfigsResult_ok version) (Some (dcfrs_results s))
       else seq_ok (2 ^ 31 - 1) (DescribeConfigsResult_ok version) (Some (dcfrs_results s))) \<and>
     (if version \<ge> 4 then tags_ok 0 (dcfrs_unknown_tagged_fields s) else dcfrs_unknown_tagged_fields s = [])"

lemma DescribeConfigsResponse_codec [coded_intros]:
  "sized_codec (\<lambda>s. DescribeConfigsResponse_encode s version) (DescribeConfigsResponse_decode version)
     (\<lambda>s. DescribeConfigsResponse_compute_size s version) (DescribeConfigsResponse_ok version)"
  unfolding DescribeConfigsResponse_encode_def DescribeConfigsResponse_decode_def DescribeConfigsResponse_compute_size_def
  by (rule sized_codecI) (rule coded_intros | (clarsimp simp: DescribeConfigsResponse_ok_def; fail))+

lemmas DescribeConfigsResponse_coded [coded_intros] = sized_codec.codes [OF DescribeConfigsResponse_codec]

section \<open>Find coordinator\<close>

definition FindCoordinatorRequest_encode :: "find_coordinator_request \<Rightarrow> i16 \<Rightarrow> wire_error + bytes" where
  "FindCoordinatorRequest_encode s version =
     (if version < 0 \<or> version > 6 then Inl UNSUPPORTED_VERSION
      else puts
        [if version \<le> 3
          then if version \<ge> 3
                then CompactString_encode (Some (fcrq_key s))
                else String_encode (Some (fcrq_key s))
          else unset [] (fcrq_key s = []),
         if version \<ge> 1 then Inr (Int8_encode (fcrq_key_type s)) else unset [] (fcrq_key_type s = 0),
         if version \<ge> 4
          then CompactArray_encode (\<lambda>x. CompactString_encode (Some x)) (Some (fcrq_coordinator_keys s))
          else unset [] (fcrq_coordinator_keys s = []),
         if version \<ge> 3 then put_tags [] 0 (fcrq_unknown_tagged_fields s) else Inr []])"

definition FindCoordinatorRequest_compute_size :: "find_coordinator_request \<Rightarrow> i16 \<Rightarrow> wire_error + usize" where
  "FindCoordinatorRequest_compute_size s version =
     sums
       [if version \<le> 3
         then if version \<ge> 3
               then CompactString_compute_size (Some (fcrq_key s))
               else String_compute_size (Some (fcrq_key s))
         else unset 0 (fcrq_key s = []),
        if version \<ge> 1 then Inr 1 else unset 0 (fcrq_key_type s = 0),
        if version \<ge> 4
         then CompactArray_compute_size None (\<lambda>x. CompactString_compute_size (Some x)) (Some (fcrq_coordinator_keys s))
         else unset 0 (fcrq_coordinator_keys s = []),
        if version \<ge> 3 then tags_size [] (fcrq_unknown_tagged_fields s) else Inr 0]"

definition FindCoordinatorRequest_decode :: "i16 \<Rightarrow> find_coordinator_request decoder" where
  "FindCoordinatorRequest_decode version =
     (if version < 0 \<or> version > 6 then refuse UNSUPPORTED_VERSION
      else
        get (if version \<le> 3
              then if version \<ge> 3 then CompactString_required else String_required
              else give []) (\<lambda>key.
        get (if version \<ge> 1 then Int8_decode else give 0) (\<lambda>key_type.
        get (if version \<ge> 4 then CompactArray_required CompactString_required else give []) (\<lambda>coordinator_keys.
        get (if version \<ge> 3 then get_unknown_tags else give []) (\<lambda>unknown_tagged_fields.
        give \<lparr>fcrq_key = key, fcrq_key_type = key_type,
               fcrq_coordinator_keys = coordinator_keys,
               fcrq_unknown_tagged_fields = unknown_tagged_fields\<rparr>)))))"

definition FindCoordinatorRequest_ok :: "i16 \<Rightarrow> find_coordinator_request \<Rightarrow> bool" where
  "FindCoordinatorRequest_ok version s \<longleftrightarrow>
     \<not> (version < 0 \<or> version > 6) \<and>
     (if version \<le> 3
       then if version \<ge> 3
             then string_ok (2 ^ 32 - 2) (Some (fcrq_key s))
             else string_ok 32767 (Some (fcrq_key s))
       else fcrq_key s = []) \<and>
     (if version \<ge> 1 then in_i8 (fcrq_key_type s) else fcrq_key_type s = 0) \<and>
     (if version \<ge> 4
       then seq_ok (2 ^ 32 - 2) (\<lambda>x. string_ok (2 ^ 32 - 2) (Some x)) (Some (fcrq_coordinator_keys s))
       else fcrq_coordinator_keys s = []) \<and>
     (if version \<ge> 3 then tags_ok 0 (fcrq_unknown_tagged_fields s) else fcrq_unknown_tagged_fields s = [])"

lemma FindCoordinatorRequest_codec [coded_intros]:
  "sized_codec (\<lambda>s. FindCoordinatorRequest_encode s version) (FindCoordinatorRequest_decode version)
     (\<lambda>s. FindCoordinatorRequest_compute_size s version) (FindCoordinatorRequest_ok version)"
  unfolding FindCoordinatorRequest_encode_def FindCoordinatorRequest_decode_def FindCoordinatorRequest_compute_size_def
  by (rule sized_codecI) (rule coded_intros | (simp add: FindCoordinatorRequest_ok_def; fail))+

lemmas FindCoordinatorRequest_coded [coded_intros] = sized_codec.codes [OF FindCoordinatorRequest_codec]

definition Coordinator_encode :: "coordinator \<Rightarrow> i16 \<Rightarrow> wire_error + bytes" where
  "Coordinator_encode s version =
     (if version < 0 \<or> version > 6 then Inl UNSUPPORTED_VERSION
      else puts
        [if version \<ge> 4 then CompactString_encode (Some (coord_key s)) else unset [] (coord_key s = []),
         if version \<ge> 4 then Inr (Int32_encode (coord_node_id s)) else unset [] (coord_node_id s = 0),
         if version \<ge> 4
          then CompactString_encode (Some (coord_host s))
          else unset [] (coord_host s = []),
         if version \<ge> 4 then Inr (Int32_encode (coord_port s)) else unset [] (coord_port s = 0),
         if version \<ge> 4
          then Inr (Int16_encode (coord_error_code s))
          else unset [] (coord_error_code s = 0),
         if version \<ge> 4 then CompactString_encode (coord_error_message s) else Inr [],
         if version \<ge> 3 then put_tags [] 0 (coord_unknown_tagged_fields s) else Inr []])"

definition Coordinator_compute_size :: "coordinator \<Rightarrow> i16 \<Rightarrow> wire_error + usize" where
  "Coordinator_compute_size s version =
     sums
       [if version \<ge> 4
         then CompactString_compute_size (Some (coord_key s))
         else unset 0 (coord_key s = []),
        if version \<ge> 4 then Inr 4 else unset 0 (coord_node_id s = 0),
        if version \<ge> 4
         then CompactString_compute_size (Some (coord_host s))
         else unset 0 (coord_host s = []),
        if version \<ge> 4 then Inr 4 else unset 0 (coord_port s = 0),
        if version \<ge> 4 then Inr 2 else unset 0 (coord_error_code s = 0),
        if version \<ge> 4 then CompactString_compute_size (coord_error_message s) else Inr 0,
        if version \<ge> 3 then tags_size [] (coord_unknown_tagged_fields s) else Inr 0]"

definition Coordinator_decode :: "i16 \<Rightarrow> coordinator decoder" where
  "Coordinator_decode version =
     (if version < 0 \<or> version > 6 then refuse UNSUPPORTED_VERSION
      else
        get (if version \<ge> 4 then CompactString_required else give []) (\<lambda>key.
        get (if version \<ge> 4 then Int32_decode else give 0) (\<lambda>node_id.
        get (if version \<ge> 4 then CompactString_required else give []) (\<lambda>host.
        get (if version \<ge> 4 then Int32_decode else give 0) (\<lambda>port.
        get (if version \<ge> 4 then Int16_decode else give 0) (\<lambda>error_code.
        get (if version \<ge> 4 then CompactString_decode else give (Some [])) (\<lambda>error_message.
        get (if version \<ge> 3 then get_unknown_tags else give []) (\<lambda>unknown_tagged_fields.
        give \<lparr>coord_key = key, coord_node_id = node_id, coord_host = host, coord_port = port,
               coord_error_code = error_code, coord_error_message = error_message,
               coord_unknown_tagged_fields = unknown_tagged_fields\<rparr>))))))))"

definition Coordinator_ok :: "i16 \<Rightarrow> coordinator \<Rightarrow> bool" where
  "Coordinator_ok version s \<longleftrightarrow>
     \<not> (version < 0 \<or> version > 6) \<and>
     (if version \<ge> 4 then string_ok (2 ^ 32 - 2) (Some (coord_key s)) else coord_key s = []) \<and>
     (if version \<ge> 4 then in_i32 (coord_node_id s) else coord_node_id s = 0) \<and>
     (if version \<ge> 4 then string_ok (2 ^ 32 - 2) (Some (coord_host s)) else coord_host s = []) \<and>
     (if version \<ge> 4 then in_i32 (coord_port s) else coord_port s = 0) \<and>
     (if version \<ge> 4 then in_i16 (coord_error_code s) else coord_error_code s = 0) \<and>
     (if version \<ge> 4
       then string_ok (2 ^ 32 - 2) (coord_error_message s)
       else coord_error_message s = Some []) \<and>
     (if version \<ge> 3 then tags_ok 0 (coord_unknown_tagged_fields s) else coord_unknown_tagged_fields s = [])"

lemma Coordinator_codec [coded_intros]:
  "sized_codec (\<lambda>s. Coordinator_encode s version) (Coordinator_decode version)
     (\<lambda>s. Coordinator_compute_size s version) (Coordinator_ok version)"
  unfolding Coordinator_encode_def Coordinator_decode_def Coordinator_compute_size_def
  by (rule sized_codecI) (rule coded_intros | (simp add: Coordinator_ok_def; fail))+

lemmas Coordinator_coded [coded_intros] = sized_codec.codes [OF Coordinator_codec]

definition FindCoordinatorResponse_encode :: "find_coordinator_response \<Rightarrow> i16 \<Rightarrow> wire_error + bytes" where
  "FindCoordinatorResponse_encode s version =
     (if version < 0 \<or> version > 6 then Inl UNSUPPORTED_VERSION
      else puts
        [if version \<ge> 1 then Inr (Int32_encode (fcrs_throttle_time_ms s)) else Inr [],
         if version \<le> 3
          then Inr (Int16_encode (fcrs_error_code s))
          else unset [] (fcrs_error_code s = 0),
         if version \<ge> 1 \<and> version \<le> 3
          then if version \<ge> 3
                then CompactString_encode (fcrs_error_message s)
                else String_encode (fcrs_error_message s)
          else Inr [],
         if version \<le> 3 then Inr (Int32_encode (fcrs_node_id s)) else unset [] (fcrs_node_id s = 0),
         if version \<le> 3
          then if version \<ge> 3
                then CompactString_encode (Some (fcrs_host s))
                else String_encode (Some (fcrs_host s))
          else unset [] (fcrs_host s = []),
         if version \<le> 3 then Inr (Int32_encode (fcrs_port s)) else unset [] (fcrs_port s = 0),
         if version \<ge> 4
          then CompactArray_encode (\<lambda>x. Coordinator_encode x version) (Some (fcrs_coordinators s))
          else unset [] (fcrs_coordinators s = []),
         if version \<ge> 3 then put_tags [] 0 (fcrs_unknown_tagged_fields s) else Inr []])"

definition FindCoordinatorResponse_compute_size :: "find_coordinator_response \<Rightarrow> i16 \<Rightarrow> wire_error + usize" where
  "FindCoordinatorResponse_compute_size s version =
     sums
       [if version \<ge> 1 then Inr 4 else Inr 0,
        if version \<le> 3 then Inr 2 else unset 0 (fcrs_error_code s = 0),
        if version \<ge> 1 \<and> version \<le> 3
         then if version \<ge> 3
               then CompactString_compute_size (fcrs_error_message s)
               else String_compute_size (fcrs_error_message s)
         else Inr 0,
        if version \<le> 3 then Inr 4 else unset 0 (fcrs_node_id s = 0),
        if version \<le> 3
         then if version \<ge> 3
               then CompactString_compute_size (Some (fcrs_host s))
               else String_compute_size (Some (fcrs_host s))
         else unset 0 (fcrs_host s = []),
        if version \<le> 3 then Inr 4 else unset 0 (fcrs_port s = 0),
        if version \<ge> 4
         then CompactArray_compute_size None (\<lambda>x. Coordinator_compute_size x version) (Some (fcrs_coordinators s))
         else unset 0 (fcrs_coordinators s = []),
        if version \<ge> 3 then tags_size [] (fcrs_unknown_tagged_fields s) else Inr 0]"

definition FindCoordinatorResponse_decode :: "i16 \<Rightarrow> find_coordinator_response decoder" where
  "FindCoordinatorResponse_decode version =
     (if version < 0 \<or> version > 6 then refuse UNSUPPORTED_VERSION
      else
        get (if version \<ge> 1 then Int32_decode else give 0) (\<lambda>throttle_time_ms.
        get (if version \<le> 3 then Int16_decode else give 0) (\<lambda>error_code.
        get (if version \<ge> 1 \<and> version \<le> 3
              then if version \<ge> 3 then CompactString_decode else String_decode
              else give (Some [])) (\<lambda>error_message.
        get (if version \<le> 3 then Int32_decode else give 0) (\<lambda>node_id.
        get (if version \<le> 3
              then if version \<ge> 3 then CompactString_required else String_required
              else give []) (\<lambda>host.
        get (if version \<le> 3 then Int32_decode else give 0) (\<lambda>port.
        get (if version \<ge> 4 then CompactArray_required (Coordinator_decode version) else give []) (\<lambda>coordinators.
        get (if version \<ge> 3 then get_unknown_tags else give []) (\<lambda>unknown_tagged_fields.
        give \<lparr>fcrs_throttle_time_ms = throttle_time_ms, fcrs_error_code = error_code,
               fcrs_error_message = error_message, fcrs_node_id = node_id, fcrs_host = host,
               fcrs_port = port, fcrs_coordinators = coordinators,
               fcrs_unknown_tagged_fields = unknown_tagged_fields\<rparr>)))))))))"

definition FindCoordinatorResponse_ok :: "i16 \<Rightarrow> find_coordinator_response \<Rightarrow> bool" where
  "FindCoordinatorResponse_ok version s \<longleftrightarrow>
     \<not> (version < 0 \<or> version > 6) \<and>
     (if version \<ge> 1 then in_i32 (fcrs_throttle_time_ms s) else fcrs_throttle_time_ms s = 0) \<and>
     (if version \<le> 3 then in_i16 (fcrs_error_code s) else fcrs_error_code s = 0) \<and>
     (if version \<ge> 1 \<and> version \<le> 3
       then if version \<ge> 3
             then string_ok (2 ^ 32 - 2) (fcrs_error_message s)
             else string_ok 32767 (fcrs_error_message s)
       else fcrs_error_message s = Some []) \<and>
     (if version \<le> 3 then in_i32 (fcrs_node_id s) else fcrs_node_id s = 0) \<and>
     (if version \<le> 3
       then if version \<ge> 3
             then string_ok (2 ^ 32 - 2) (Some (fcrs_host s))
             else string_ok 32767 (Some (fcrs_host s))
       else fcrs_host s = []) \<and>
     (if version \<le> 3 then in_i32 (fcrs_port s) else fcrs_port s = 0) \<and>
     (if version \<ge> 4
       then seq_ok (2 ^ 32 - 2) (Coordinator_ok version) (Some (fcrs_coordinators s))
       else fcrs_coordinators s = []) \<and>
     (if version \<ge> 3 then tags_ok 0 (fcrs_unknown_tagged_fields s) else fcrs_unknown_tagged_fields s = [])"

lemma FindCoordinatorResponse_codec [coded_intros]:
  "sized_codec (\<lambda>s. FindCoordinatorResponse_encode s version) (FindCoordinatorResponse_decode version)
     (\<lambda>s. FindCoordinatorResponse_compute_size s version) (FindCoordinatorResponse_ok version)"
  unfolding FindCoordinatorResponse_encode_def FindCoordinatorResponse_decode_def FindCoordinatorResponse_compute_size_def
  by (rule sized_codecI) (rule coded_intros | (simp add: FindCoordinatorResponse_ok_def; fail))+

lemmas FindCoordinatorResponse_coded [coded_intros] = sized_codec.codes [OF FindCoordinatorResponse_codec]

section \<open>Api versions\<close>

definition ApiVersionsRequest_encode :: "api_versions_request \<Rightarrow> i16 \<Rightarrow> wire_error + bytes" where
  "ApiVersionsRequest_encode s version =
     (if version < 0 \<or> version > 4 then Inl UNSUPPORTED_VERSION
      else puts
        [if version \<ge> 3 then CompactString_encode (Some (avrq_client_software_name s)) else Inr [],
         if version \<ge> 3 then CompactString_encode (Some (avrq_client_software_version s)) else Inr [],
         if version \<ge> 3 then put_tags [] 0 (avrq_unknown_tagged_fields s) else Inr []])"

definition ApiVersionsRequest_compute_size :: "api_versions_request \<Rightarrow> i16 \<Rightarrow> wire_error + usize" where
  "ApiVersionsRequest_compute_size s version =
     sums
       [if version \<ge> 3 then CompactString_compute_size (Some (avrq_client_software_name s)) else Inr 0,
        if version \<ge> 3
         then CompactString_compute_size (Some (avrq_client_software_version s))
         else Inr 0,
        if version \<ge> 3 then tags_size [] (avrq_unknown_tagged_fields s) else Inr 0]"

definition ApiVersionsRequest_decode :: "i16 \<Rightarrow> api_versions_request decoder" where
  "ApiVersionsRequest_decode version =
     (if version < 0 \<or> version > 4 then refuse UNSUPPORTED_VERSION
      else
        get (if version \<ge> 3 then CompactString_required else give []) (\<lambda>client_software_name.
        get (if version \<ge> 3 then CompactString_required else give []) (\<lambda>client_software_version.
        get (if version \<ge> 3 then get_unknown_tags else give []) (\<lambda>unknown_tagged_fields.
        give \<lparr>avrq_client_software_name = client_software_name,
               avrq_client_software_version = client_software_version,
               avrq_unknown_tagged_fields = unknown_tagged_fields\<rparr>))))"

definition ApiVersionsRequest_ok :: "i16 \<Rightarrow> api_versions_request \<Rightarrow> bool" where
  "ApiVersionsRequest_ok version s \<longleftrightarrow>
     \<not> (version < 0 \<or> version > 4) \<and>
     (if version \<ge> 3
       then string_ok (2 ^ 32 - 2) (Some (avrq_client_software_name s))
       else avrq_client_software_name s = []) \<and>
     (if version \<ge> 3
       then string_ok (2 ^ 32 - 2) (Some (avrq_client_software_version s))
       else avrq_client_software_version s = []) \<and>
     (if version \<ge> 3 then tags_ok 0 (avrq_unknown_tagged_fields s) else avrq_unknown_tagged_fields s = [])"

lemma ApiVersionsRequest_codec [coded_intros]:
  "sized_codec (\<lambda>s. ApiVersionsRequest_encode s version) (ApiVersionsRequest_decode version)
     (\<lambda>s. ApiVersionsRequest_compute_size s version) (ApiVersionsRequest_ok version)"
  unfolding ApiVersionsRequest_encode_def ApiVersionsRequest_decode_def ApiVersionsRequest_compute_size_def
  by (rule sized_codecI) (rule coded_intros | (simp add: ApiVersionsRequest_ok_def; fail))+

lemmas ApiVersionsRequest_coded [coded_intros] = sized_codec.codes [OF ApiVersionsRequest_codec]

definition ApiVersion_encode :: "api_version \<Rightarrow> i16 \<Rightarrow> wire_error + bytes" where
  "ApiVersion_encode s version =
     (if version < 0 \<or> version > 4 then Inl UNSUPPORTED_VERSION
      else puts
        [Inr (Int16_encode (apiv_api_key s)),
         Inr (Int16_encode (apiv_min_version s)),
         Inr (Int16_encode (apiv_max_version s)),
         if version \<ge> 3 then put_tags [] 0 (apiv_unknown_tagged_fields s) else Inr []])"

definition ApiVersion_compute_size :: "api_version \<Rightarrow> i16 \<Rightarrow> wire_error + usize" where
  "ApiVersion_compute_size s version =
     sums
       [Inr 2,
        Inr 2,
        Inr 2,
        if version \<ge> 3 then tags_size [] (apiv_unknown_tagged_fields s) else Inr 0]"

definition ApiVersion_decode :: "i16 \<Rightarrow> api_version decoder" where
  "ApiVersion_decode version =
     (if version < 0 \<or> version > 4 then refuse UNSUPPORTED_VERSION
      else
        get Int16_decode (\<lambda>api_key.
        get Int16_decode (\<lambda>min_version.
        get Int16_decode (\<lambda>max_version.
        get (if version \<ge> 3 then get_unknown_tags else give []) (\<lambda>unknown_tagged_fields.
        give \<lparr>apiv_api_key = api_key, apiv_min_version = min_version,
               apiv_max_version = max_version, apiv_unknown_tagged_fields = unknown_tagged_fields\<rparr>)))))"

definition ApiVersion_ok :: "i16 \<Rightarrow> api_version \<Rightarrow> bool" where
  "ApiVersion_ok version s \<longleftrightarrow>
     \<not> (version < 0 \<or> version > 4) \<and>
     in_i16 (apiv_api_key s) \<and>
     in_i16 (apiv_min_version s) \<and>
     in_i16 (apiv_max_version s) \<and>
     (if version \<ge> 3 then tags_ok 0 (apiv_unknown_tagged_fields s) else apiv_unknown_tagged_fields s = [])"

lemma ApiVersion_codec [coded_intros]:
  "sized_codec (\<lambda>s. ApiVersion_encode s version) (ApiVersion_decode version)
     (\<lambda>s. ApiVersion_compute_size s version) (ApiVersion_ok version)"
  unfolding ApiVersion_encode_def ApiVersion_decode_def ApiVersion_compute_size_def
  by (rule sized_codecI) (rule coded_intros | (simp add: ApiVersion_ok_def; fail))+

lemmas ApiVersion_coded [coded_intros] = sized_codec.codes [OF ApiVersion_codec]

definition SupportedFeatureKey_encode :: "supported_feature_key \<Rightarrow> i16 \<Rightarrow> wire_error + bytes" where
  "SupportedFeatureKey_encode s version =
     (if version < 0 \<or> version > 4 then Inl UNSUPPORTED_VERSION
      else puts
        [if version \<ge> 3 then CompactString_encode (Some (sfk_name s)) else unset [] (sfk_name s = []),
         if version \<ge> 3
          then Inr (Int16_encode (sfk_min_version s))
          else unset [] (sfk_min_version s = 0),
         if version \<ge> 3
          then Inr (Int16_encode (sfk_max_version s))
          else unset [] (sfk_max_version s = 0),
         if version \<ge> 3 then put_tags [] 0 (sfk_unknown_tagged_fields s) else Inr []])"

definition SupportedFeatureKey_compute_size :: "supported_feature_key \<Rightarrow> i16 \<Rightarrow> wire_error + usize" where
  "SupportedFeatureKey_compute_size s version =
     sums
       [if version \<ge> 3
         then CompactString_compute_size (Some (sfk_name s))
         else unset 0 (sfk_name s = []),
        if version \<ge> 3 then Inr 2 else unset 0 (sfk_min_version s = 0),
        if version \<ge> 3 then Inr 2 else unset 0 (sfk_max_version s = 0),
        if version \<ge> 3 then tags_size [] (sfk_unknown_tagged_fields s) else Inr 0]"

definition SupportedFeatureKey_decode :: "i16 \<Rightarrow> supported_feature_key decoder" where
  "SupportedFeatureKey_decode version =
     (if version < 0 \<or> version > 4 then refuse UNSUPPORTED_VERSION
      else
        get (if version \<ge> 3 then CompactString_required else give []) (\<lambda>name.
        get (if version \<ge> 3 then Int16_decode else give 0) (\<lambda>min_version.
        get (if version \<ge> 3 then Int16_decode else give 0) (\<lambda>max_version.
        get (if version \<ge> 3 then get_unknown_tags else give []) (\<lambda>unknown_tagged_fields.
        give \<lparr>sfk_name = name, sfk_min_version = min_version, sfk_max_version = max_version,
               sfk_unknown_tagged_fields = unknown_tagged_fields\<rparr>)))))"

definition SupportedFeatureKey_ok :: "i16 \<Rightarrow> supported_feature_key \<Rightarrow> bool" where
  "SupportedFeatureKey_ok version s \<longleftrightarrow>
     \<not> (version < 0 \<or> version > 4) \<and>
     (if version \<ge> 3 then string_ok (2 ^ 32 - 2) (Some (sfk_name s)) else sfk_name s = []) \<and>
     (if version \<ge> 3 then in_i16 (sfk_min_version s) else sfk_min_version s = 0) \<and>
     (if version \<ge> 3 then in_i16 (sfk_max_version s) else sfk_max_version s = 0) \<and>
     (if version \<ge> 3 then tags_ok 0 (sfk_unknown_tagged_fields s) else sfk_unknown_tagged_fields s = [])"

lemma SupportedFeatureKey_codec [coded_intros]:
  "sized_codec (\<lambda>s. SupportedFeatureKey_encode s version) (SupportedFeatureKey_decode version)
     (\<lambda>s. SupportedFeatureKey_compute_size s version) (SupportedFeatureKey_ok version)"
  unfolding SupportedFeatureKey_encode_def SupportedFeatureKey_decode_def SupportedFeatureKey_compute_size_def
  by (rule sized_codecI) (rule coded_intros | (simp add: SupportedFeatureKey_ok_def; fail))+

lemmas SupportedFeatureKey_coded [coded_intros] = sized_codec.codes [OF SupportedFeatureKey_codec]

definition FinalizedFeatureKey_encode :: "finalized_feature_key \<Rightarrow> i16 \<Rightarrow> wire_error + bytes" where
  "FinalizedFeatureKey_encode s version =
     (if version < 0 \<or> version > 4 then Inl UNSUPPORTED_VERSION
      else puts
        [if version \<ge> 3 then CompactString_encode (Some (ffk_name s)) else unset [] (ffk_name s = []),
         if version \<ge> 3
          then Inr (Int16_encode (ffk_max_version_level s))
          else unset [] (ffk_max_version_level s = 0),
         if version \<ge> 3
          then Inr (Int16_encode (ffk_min_version_level s))
          else unset [] (ffk_min_version_level s = 0),
         if version \<ge> 3 then put_tags [] 0 (ffk_unknown_tagged_fields s) else Inr []])"

definition FinalizedFeatureKey_compute_size :: "finalized_feature_key \<Rightarrow> i16 \<Rightarrow> wire_error + usize" where
  "FinalizedFeatureKey_compute_size s version =
     sums
       [if version \<ge> 3
         then CompactString_compute_size (Some (ffk_name s))
         else unset 0 (ffk_name s = []),
        if version \<ge> 3 then Inr 2 else unset 0 (ffk_max_version_level s = 0),
        if version \<ge> 3 then Inr 2 else unset 0 (ffk_min_version_level s = 0),
        if version \<ge> 3 then tags_size [] (ffk_unknown_tagged_fields s) else Inr 0]"

definition FinalizedFeatureKey_decode :: "i16 \<Rightarrow> finalized_feature_key decoder" where
  "FinalizedFeatureKey_decode version =
     (if version < 0 \<or> version > 4 then refuse UNSUPPORTED_VERSION
      else
        get (if version \<ge> 3 then CompactString_required else give []) (\<lambda>name.
        get (if version \<ge> 3 then Int16_decode else give 0) (\<lambda>max_version_level.
        get (if version \<ge> 3 then Int16_decode else give 0) (\<lambda>min_version_level.
        get (if version \<ge> 3 then get_unknown_tags else give []) (\<lambda>unknown_tagged_fields.
        give \<lparr>ffk_name = name, ffk_max_version_level = max_version_level,
               ffk_min_version_level = min_version_level,
               ffk_unknown_tagged_fields = unknown_tagged_fields\<rparr>)))))"

definition FinalizedFeatureKey_ok :: "i16 \<Rightarrow> finalized_feature_key \<Rightarrow> bool" where
  "FinalizedFeatureKey_ok version s \<longleftrightarrow>
     \<not> (version < 0 \<or> version > 4) \<and>
     (if version \<ge> 3 then string_ok (2 ^ 32 - 2) (Some (ffk_name s)) else ffk_name s = []) \<and>
     (if version \<ge> 3 then in_i16 (ffk_max_version_level s) else ffk_max_version_level s = 0) \<and>
     (if version \<ge> 3 then in_i16 (ffk_min_version_level s) else ffk_min_version_level s = 0) \<and>
     (if version \<ge> 3 then tags_ok 0 (ffk_unknown_tagged_fields s) else ffk_unknown_tagged_fields s = [])"

lemma FinalizedFeatureKey_codec [coded_intros]:
  "sized_codec (\<lambda>s. FinalizedFeatureKey_encode s version) (FinalizedFeatureKey_decode version)
     (\<lambda>s. FinalizedFeatureKey_compute_size s version) (FinalizedFeatureKey_ok version)"
  unfolding FinalizedFeatureKey_encode_def FinalizedFeatureKey_decode_def FinalizedFeatureKey_compute_size_def
  by (rule sized_codecI) (rule coded_intros | (simp add: FinalizedFeatureKey_ok_def; fail))+

lemmas FinalizedFeatureKey_coded [coded_intros] = sized_codec.codes [OF FinalizedFeatureKey_codec]

definition ApiVersionsResponse_encode :: "api_versions_response \<Rightarrow> i16 \<Rightarrow> wire_error + bytes" where
  "ApiVersionsResponse_encode s version =
     (if version < 0 \<or> version > 4 then Inl UNSUPPORTED_VERSION
      else puts
        [Inr (Int16_encode (avrs_error_code s)),
         if version \<ge> 3
          then CompactArray_encode (\<lambda>x. ApiVersion_encode x version) (Some (avrs_api_keys s))
          else Array_encode (\<lambda>x. ApiVersion_encode x version) (Some (avrs_api_keys s)),
         if version \<ge> 1 then Inr (Int32_encode (avrs_throttle_time_ms s)) else Inr [],
         if version \<ge> 3 then put_tags 
             [(avrs_supported_features s \<noteq> [], put_tag 0 (CompactArray_compute_size None (\<lambda>x. SupportedFeatureKey_compute_size x version) (Some (avrs_supported_features s))) (CompactArray_encode (\<lambda>x. SupportedFeatureKey_encode x version) (Some (avrs_supported_features s)))),
              (avrs_finalized_features_epoch s \<noteq> - 1, put_tag 1 (Inr 8) (Inr (Int64_encode (avrs_finalized_features_epoch s)))),
              (avrs_finalized_features s \<noteq> [], put_tag 2 (CompactArray_compute_size None (\<lambda>x. FinalizedFeatureKey_compute_size x version) (Some (avrs_finalized_features s))) (CompactArray_encode (\<lambda>x. FinalizedFeatureKey_encode x version) (Some (avrs_finalized_features s)))),
              (avrs_zk_migration_ready s, put_tag 3 (Inr 1) (Inr (Boolean_encode (avrs_zk_migration_ready s))))] 4 (avrs_unknown_tagged_fields s) else Inr []])"

definition ApiVersionsResponse_compute_size :: "api_versions_response \<Rightarrow> i16 \<Rightarrow> wire_error + usize" where
  "ApiVersionsResponse_compute_size s version =
     sums
       [Inr 2,
        if version \<ge> 3
         then CompactArray_compute_size None (\<lambda>x. ApiVersion_compute_size x version) (Some (avrs_api_keys s))
         else Array_compute_size None (\<lambda>x. ApiVersion_compute_size x version) (Some (avrs_api_keys s)),
        if version \<ge> 1 then Inr 4 else Inr 0,
        if version \<ge> 3 then tags_size 
            [(avrs_supported_features s \<noteq> [], tag_size 0 (CompactArray_compute_size None (\<lambda>x. SupportedFeatureKey_compute_size x version) (Some (avrs_supported_features s)))),
             (avrs_finalized_features_epoch s \<noteq> - 1, tag_size 1 (Inr 8)),
             (avrs_finalized_features s \<noteq> [], tag_size 2 (CompactArray_compute_size None (\<lambda>x. FinalizedFeatureKey_compute_size x version) (Some (avrs_finalized_features s)))),
             (avrs_zk_migration_ready s, tag_size 3 (Inr 1))] (avrs_unknown_tagged_fields s) else Inr 0]"

definition ApiVersionsResponse_decode :: "i16 \<Rightarrow> api_versions_response decoder" where
  "ApiVersionsResponse_decode version =
     (if version < 0 \<or> version > 4 then refuse UNSUPPORTED_VERSION
      else
        get Int16_decode (\<lambda>error_code.
        get (if version \<ge> 3
              then CompactArray_required (ApiVersion_decode version)
              else Array_required (ApiVersion_decode version)) (\<lambda>api_keys.
        get (if version \<ge> 1 then Int32_decode else give 0) (\<lambda>throttle_time_ms.
        get (if version \<ge> 3
             then get_tags (\<lambda>tag (supported_features, finalized_features_epoch, finalized_features, zk_migration_ready).
              if tag = 0 then Some (get (CompactArray_required (SupportedFeatureKey_decode version)) (\<lambda>x. give (x, finalized_features_epoch, finalized_features, zk_migration_ready)))
              else if tag = 1 then Some (get Int64_decode (\<lambda>x. give (supported_features, x, finalized_features, zk_migration_ready)))
              else if tag = 2 then Some (get (CompactArray_required (FinalizedFeatureKey_decode version)) (\<lambda>x. give (supported_features, finalized_features_epoch, x, zk_migration_ready)))
              else if tag = 3 then Some (get Boolean_decode (\<lambda>x. give (supported_features, finalized_features_epoch, finalized_features, x)))
              else None) ([], - 1, [], False)
             else give (([], - 1, [], False), [])) (\<lambda>((supported_features, finalized_features_epoch, finalized_features, zk_migration_ready), unknown_tagged_fields).
        give \<lparr>avrs_error_code = error_code, avrs_api_keys = api_keys,
               avrs_throttle_time_ms = throttle_time_ms, avrs_supported_features = supported_features,
               avrs_finalized_features_epoch = finalized_features_epoch,
               avrs_finalized_features = finalized_features,
               avrs_zk_migration_ready = zk_migration_ready,
               avrs_unknown_tagged_fields = unknown_tagged_fields\<rparr>)))))"

definition ApiVersionsResponse_ok :: "i16 \<Rightarrow> api_versions_response \<Rightarrow> bool" where
  "ApiVersionsResponse_ok version s \<longleftrightarrow>
     \<not> (version < 0 \<or> version > 4) \<and>
     in_i16 (avrs_error_code s) \<and>
     (if version \<ge> 3
       then seq_ok (2 ^ 32 - 2) (ApiVersion_ok version) (Some (avrs_api_keys s))
       else seq_ok (2 ^ 31 - 1) (ApiVersion_ok version) (Some (avrs_api_keys s))) \<and>
     (if version \<ge> 1 then in_i32 (avrs_throttle_time_ms s) else avrs_throttle_time_ms s = 0) \<and>
     (if version \<ge> 3 then seq_ok (2 ^ 32 - 2) (SupportedFeatureKey_ok version) (Some (avrs_supported_features s)) \<and> tag_fits (CompactArray_compute_size None (\<lambda>x. SupportedFeatureKey_compute_size x version) (Some (avrs_supported_features s))) else avrs_supported_features s = []) \<and>
     (if version \<ge> 3 then in_i64 (avrs_finalized_features_epoch s) else avrs_finalized_features_epoch s = - 1) \<and>
     (if version \<ge> 3 then seq_ok (2 ^ 32 - 2) (FinalizedFeatureKey_ok version) (Some (avrs_finalized_features s)) \<and> tag_fits (CompactArray_compute_size None (\<lambda>x. FinalizedFeatureKey_compute_size x version) (Some (avrs_finalized_features s))) else avrs_finalized_features s = []) \<and>
     (if version \<ge> 3 then True else avrs_zk_migration_ready s = False) \<and>
     (if version \<ge> 3 then tags_ok 4 (avrs_unknown_tagged_fields s) else avrs_unknown_tagged_fields s = [])"

lemma ApiVersionsResponse_codec [coded_intros]:
  "sized_codec (\<lambda>s. ApiVersionsResponse_encode s version) (ApiVersionsResponse_decode version)
     (\<lambda>s. ApiVersionsResponse_compute_size s version) (ApiVersionsResponse_ok version)"
  unfolding ApiVersionsResponse_encode_def ApiVersionsResponse_decode_def ApiVersionsResponse_compute_size_def
  by (rule sized_codecI) (rule coded_intros | simp only: prod.case | (simp add: ApiVersionsResponse_ok_def; fail)
    | (auto simp: ApiVersionsResponse_ok_def split: if_splits; fail))+

lemmas ApiVersionsResponse_coded [coded_intros] = sized_codec.codes [OF ApiVersionsResponse_codec]

end
