(* ===== verification/Messages_Group.thy ===== *)
theory Messages_Group
  imports Prelude
begin

text \<open>
  Messages of the consumer group protocol
  (\<open>src/crates/kafka-protocol/src/messages/\<close>). Every message is a record with the fields of the Rust
  structure, and its \<open>_default\<close> is the value of \<open>Default::default()\<close>; a chain of \<open>with_\<close> calls is a
  record update. Strings are sequences of UTF-8 bytes; the identifier newtypes are their contents.
\<close>

section \<open>Join group\<close>

record join_group_request_protocol =
  jgrqp_name :: string
  jgrqp_metadata :: bytes
  jgrqp_unknown_tagged_fields :: "(i32, bytes) btree_map"

definition join_group_request_protocol_default :: join_group_request_protocol where
  "join_group_request_protocol_default =
     \<lparr>jgrqp_name = [], jgrqp_metadata = [], jgrqp_unknown_tagged_fields = []\<rparr>"

record join_group_request =
  jgrq_group_id :: string
  jgrq_session_timeout_ms :: i32
  jgrq_rebalance_timeout_ms :: i32
  jgrq_member_id :: string
  jgrq_group_instance_id :: "string option"
  jgrq_protocol_type :: string
  jgrq_protocols :: "join_group_request_protocol list"
  jgrq_reason :: "string option"
  jgrq_unknown_tagged_fields :: "(i32, bytes) btree_map"

definition join_group_request_default :: join_group_request where
  "join_group_request_default =
     \<lparr>jgrq_group_id = [], jgrq_session_timeout_ms = 0, jgrq_rebalance_timeout_ms = - 1,
      jgrq_member_id = [], jgrq_group_instance_id = None, jgrq_protocol_type = [], jgrq_protocols = [],
      jgrq_reason = None, jgrq_unknown_tagged_fields = []\<rparr>"

record join_group_response_member =
  jgrsm_member_id :: string
  jgrsm_group_instance_id :: "string option"
  jgrsm_metadata :: bytes
  jgrsm_unknown_tagged_fields :: "(i32, bytes) btree_map"

definition join_group_response_member_default :: join_group_response_member where
  "join_group_response_member_default =
     \<lparr>jgrsm_member_id = [], jgrsm_group_instance_id = None, jgrsm_metadata = [],
      jgrsm_unknown_tagged_fields = []\<rparr>"

record join_group_response =
  jgrs_throttle_time_ms :: i32
  jgrs_error_code :: i16
  jgrs_generation_id :: i32
  jgrs_protocol_type :: "string option"
  jgrs_protocol_name :: "string option"
  jgrs_leader :: string
  jgrs_skip_assignment :: bool
  jgrs_member_id :: string
  jgrs_members :: "join_group_response_member list"
  jgrs_unknown_tagged_fields :: "(i32, bytes) btree_map"

definition join_group_response_default :: join_group_response where
  "join_group_response_default =
     \<lparr>jgrs_throttle_time_ms = 0, jgrs_error_code = 0, jgrs_generation_id = - 1,
      jgrs_protocol_type = None, jgrs_protocol_name = Some [], jgrs_leader = [],
      jgrs_skip_assignment = False, jgrs_member_id = [], jgrs_members = [],
      jgrs_unknown_tagged_fields = []\<rparr>"

section \<open>Sync group\<close>

record sync_group_request_assignment =
  sgrqa_member_id :: string
  sgrqa_assignment :: bytes
  sgrqa_unknown_tagged_fields :: "(i32, bytes) btree_map"

definition sync_group_request_assignment_default :: sync_group_request_assignment where
  "sync_group_request_assignment_default =
     \<lparr>sgrqa_member_id = [], sgrqa_assignment = [], sgrqa_unknown_tagged_fields = []\<rparr>"

record sync_group_request =
  sgrq_group_id :: string
  sgrq_generation_id :: i32
  sgrq_member_id :: string
  sgrq_group_instance_id :: "string option"
  sgrq_protocol_type :: "string option"
  sgrq_protocol_name :: "string option"
  sgrq_assignments :: "sync_group_request_assignment list"
  sgrq_unknown_tagged_fields :: "(i32, bytes) btree_map"

definition sync_group_request_default :: sync_group_request where
  "sync_group_request_default =
     \<lparr>sgrq_group_id = [], sgrq_generation_id = 0, sgrq_member_id = [],
      sgrq_group_instance_id = None, sgrq_protocol_type = None, sgrq_protocol_name = None,
      sgrq_assignments = [], sgrq_unknown_tagged_fields = []\<rparr>"

record sync_group_response =
  sgrs_throttle_time_ms :: i32
  sgrs_error_code :: i16
  sgrs_protocol_type :: "string option"
  sgrs_protocol_name :: "string option"
  sgrs_assignment :: bytes
  sgrs_unknown_tagged_fields :: "(i32, bytes) btree_map"

definition sync_group_response_default :: sync_group_response where
  "sync_group_response_default =
     \<lparr>sgrs_throttle_time_ms = 0, sgrs_error_code = 0, sgrs_protocol_type = None,
      sgrs_protocol_name = None, sgrs_assignment = [], sgrs_unknown_tagged_fields = []\<rparr>"

section \<open>Heartbeat\<close>

record heartbeat_request =
  hrq_group_id :: string
  hrq_generation_id :: i32
  hrq_member_id :: string
  hrq_group_instance_id :: "string option"
  hrq_unknown_tagged_fields :: "(i32, bytes) btree_map"

definition heartbeat_request_default :: heartbeat_request where
  "heartbeat_request_default =
     \<lparr>hrq_group_id = [], hrq_generation_id = 0, hrq_member_id = [], hrq_group_instance_id = None,
      hrq_unknown_tagged_fields = []\<rparr>"

record heartbeat_response =
  hrs_throttle_time_ms :: i32
  hrs_error_code :: i16
  hrs_unknown_tagged_fields :: "(i32, bytes) btree_map"

definition heartbeat_response_default :: heartbeat_response where
  "heartbeat_response_default =
     \<lparr>hrs_throttle_time_ms = 0, hrs_error_code = 0, hrs_unknown_tagged_fields = []\<rparr>"

section \<open>Leave group\<close>

record member_identity =
  mident_member_id :: string
  mident_group_instance_id :: "string option"
  mident_reason :: "string option"
  mident_unknown_tagged_fields :: "(i32, bytes) btree_map"

definition member_identity_default :: member_identity where
  "member_identity_default =
     \<lparr>mident_member_id = [], mident_group_instance_id = None, mident_reason = None,
      mident_unknown_tagged_fields = []\<rparr>"

record leave_group_request =
  lvrq_group_id :: string
  lvrq_member_id :: string
  lvrq_members :: "member_identity list"
  lvrq_unknown_tagged_fields :: "(i32, bytes) btree_map"

definition leave_group_request_default :: leave_group_request where
  "leave_group_request_default =
     \<lparr>lvrq_group_id = [], lvrq_member_id = [], lvrq_members = [],
      lvrq_unknown_tagged_fields = []\<rparr>"

record member_response =
  memrs_member_id :: string
  memrs_group_instance_id :: "string option"
  memrs_error_code :: i16
  memrs_unknown_tagged_fields :: "(i32, bytes) btree_map"

definition member_response_default :: member_response where
  "member_response_default =
     \<lparr>memrs_member_id = [], memrs_group_instance_id = Some [], memrs_error_code = 0,
      memrs_unknown_tagged_fields = []\<rparr>"

record leave_group_response =
  lvrs_throttle_time_ms :: i32
  lvrs_error_code :: i16
  lvrs_members :: "member_response list"
  lvrs_unknown_tagged_fields :: "(i32, bytes) btree_map"

definition leave_group_response_default :: leave_group_response where
  "leave_group_response_default =
     \<lparr>lvrs_throttle_time_ms = 0, lvrs_error_code = 0, lvrs_members = [],
      lvrs_unknown_tagged_fields = []\<rparr>"

section \<open>List groups\<close>

record list_groups_request =
  lsrq_states_filter :: "string list"
  lsrq_types_filter :: "string list"
  lsrq_unknown_tagged_fields :: "(i32, bytes) btree_map"

definition list_groups_request_default :: list_groups_request where
  "list_groups_request_default =
     \<lparr>lsrq_states_filter = [], lsrq_types_filter = [], lsrq_unknown_tagged_fields = []\<rparr>"

record listed_group =
  listed_group_id :: string
  listed_protocol_type :: string
  listed_group_state :: string
  listed_group_type :: string
  listed_unknown_tagged_fields :: "(i32, bytes) btree_map"

definition listed_group_default :: listed_group where
  "listed_group_default =
     \<lparr>listed_group_id = [], listed_protocol_type = [], listed_group_state = [],
      listed_group_type = [], listed_unknown_tagged_fields = []\<rparr>"

record list_groups_response =
  lsrs_throttle_time_ms :: i32
  lsrs_error_code :: i16
  lsrs_groups :: "listed_group list"
  lsrs_unknown_tagged_fields :: "(i32, bytes) btree_map"

definition list_groups_response_default :: list_groups_response where
  "list_groups_response_default =
     \<lparr>lsrs_throttle_time_ms = 0, lsrs_error_code = 0, lsrs_groups = [],
      lsrs_unknown_tagged_fields = []\<rparr>"

section \<open>Describe groups\<close>

record describe_groups_request =
  dgrq_groups :: "string list"
  dgrq_include_authorized_operations :: bool
  dgrq_unknown_tagged_fields :: "(i32, bytes) btree_map"

definition describe_groups_request_default :: describe_groups_request where
  "describe_groups_request_default =
     \<lparr>dgrq_groups = [], dgrq_include_authorized_operations = False,
      dgrq_unknown_tagged_fields = []\<rparr>"

record described_group_member =
  dgm_member_id :: string
  dgm_group_instance_id :: "string option"
  dgm_client_id :: string
  dgm_client_host :: string
  dgm_member_metadata :: bytes
  dgm_member_assignment :: bytes
  dgm_unknown_tagged_fields :: "(i32, bytes) btree_map"

definition described_group_member_default :: described_group_member where
  "described_group_member_default =
     \<lparr>dgm_member_id = [], dgm_group_instance_id = None, dgm_client_id = [], dgm_client_host = [],
      dgm_member_metadata = [], dgm_member_assignment = [], dgm_unknown_tagged_fields = []\<rparr>"

record described_group =
  dgroup_error_code :: i16
  dgroup_error_message :: "string option"
  dgroup_group_id :: string
  dgroup_group_state :: string
  dgroup_protocol_type :: string
  dgroup_protocol_data :: string
  dgroup_members :: "described_group_member list"
  dgroup_authorized_operations :: i32
  dgroup_unknown_tagged_fields :: "(i32, bytes) btree_map"

definition described_group_default :: described_group where
  "described_group_default =
     \<lparr>dgroup_error_code = 0, dgroup_error_message = None, dgroup_group_id = [],
      dgroup_group_state = [], dgroup_protocol_type = [], dgroup_protocol_data = [], dgroup_members = [],
      dgroup_authorized_operations = - 2147483648, dgroup_unknown_tagged_fields = []\<rparr>"

record describe_groups_response =
  dgrs_throttle_time_ms :: i32
  dgrs_groups :: "described_group list"
  dgrs_unknown_tagged_fields :: "(i32, bytes) btree_map"

definition describe_groups_response_default :: describe_groups_response where
  "describe_groups_response_default =
     \<lparr>dgrs_throttle_time_ms = 0, dgrs_groups = [], dgrs_unknown_tagged_fields = []\<rparr>"

section \<open>Offset commit\<close>

record offset_commit_request_partition =
  ocrqp_partition_index :: i32
  ocrqp_committed_offset :: i64
  ocrqp_committed_leader_epoch :: i32
  ocrqp_committed_metadata :: "string option"
  ocrqp_unknown_tagged_fields :: "(i32, bytes) btree_map"

definition offset_commit_request_partition_default :: offset_commit_request_partition where
  "offset_commit_request_partition_default =
     \<lparr>ocrqp_partition_index = 0, ocrqp_committed_offset = 0, ocrqp_committed_leader_epoch = - 1,
      ocrqp_committed_metadata = Some [], ocrqp_unknown_tagged_fields = []\<rparr>"

record offset_commit_request_topic =
  ocrqt_name :: string
  ocrqt_topic_id :: uuid
  ocrqt_partitions :: "offset_commit_request_partition list"
  ocrqt_unknown_tagged_fields :: "(i32, bytes) btree_map"

definition offset_commit_request_topic_default :: offset_commit_request_topic where
  "offset_commit_request_topic_default =
     \<lparr>ocrqt_name = [], ocrqt_topic_id = nil_uuid, ocrqt_partitions = [],
      ocrqt_unknown_tagged_fields = []\<rparr>"

record offset_commit_request =
  ocrq_group_id :: string
  ocrq_generation_id_or_member_epoch :: i32
  ocrq_member_id :: string
  ocrq_group_instance_id :: "string option"
  ocrq_retention_time_ms :: i64
  ocrq_topics :: "offset_commit_request_topic list"
  ocrq_unknown_tagged_fields :: "(i32, bytes) btree_map"

definition offset_commit_request_default :: offset_commit_request where
  "offset_commit_request_default =
     \<lparr>ocrq_group_id = [], ocrq_generation_id_or_member_epoch = - 1, ocrq_member_id = [],
      ocrq_group_instance_id = None, ocrq_retention_time_ms = - 1, ocrq_topics = [],
      ocrq_unknown_tagged_fields = []\<rparr>"

record offset_commit_response_partition =
  ocrsp_partition_index :: i32
  ocrsp_error_code :: i16
  ocrsp_unknown_tagged_fields :: "(i32, bytes) btree_map"

definition offset_commit_response_partition_default :: offset_commit_response_partition where
  "offset_commit_response_partition_default =
     \<lparr>ocrsp_partition_index = 0, ocrsp_error_code = 0, ocrsp_unknown_tagged_fields = []\<rparr>"

record offset_commit_response_topic =
  ocrst_name :: string
  ocrst_topic_id :: uuid
  ocrst_partitions :: "offset_commit_response_partition list"
  ocrst_unknown_tagged_fields :: "(i32, bytes) btree_map"

definition offset_commit_response_topic_default :: offset_commit_response_topic where
  "offset_commit_response_topic_default =
     \<lparr>ocrst_name = [], ocrst_topic_id = nil_uuid, ocrst_partitions = [],
      ocrst_unknown_tagged_fields = []\<rparr>"

record offset_commit_response =
  ocrs_throttle_time_ms :: i32
  ocrs_topics :: "offset_commit_response_topic list"
  ocrs_unknown_tagged_fields :: "(i32, bytes) btree_map"

definition offset_commit_response_default :: offset_commit_response where
  "offset_commit_response_default =
     \<lparr>ocrs_throttle_time_ms = 0, ocrs_topics = [], ocrs_unknown_tagged_fields = []\<rparr>"

section \<open>Offset fetch\<close>

record offset_fetch_request_topic =
  ofrqt_name :: string
  ofrqt_partition_indexes :: "i32 list"
  ofrqt_unknown_tagged_fields :: "(i32, bytes) btree_map"

definition offset_fetch_request_topic_default :: offset_fetch_request_topic where
  "offset_fetch_request_topic_default =
     \<lparr>ofrqt_name = [], ofrqt_partition_indexes = [], ofrqt_unknown_tagged_fields = []\<rparr>"

record offset_fetch_request_topics =
  ofrqts_name :: string
  ofrqts_topic_id :: uuid
  ofrqts_partition_indexes :: "i32 list"
  ofrqts_unknown_tagged_fields :: "(i32, bytes) btree_map"

definition offset_fetch_request_topics_default :: offset_fetch_request_topics where
  "offset_fetch_request_topics_default =
     \<lparr>ofrqts_name = [], ofrqts_topic_id = nil_uuid, ofrqts_partition_indexes = [],
      ofrqts_unknown_tagged_fields = []\<rparr>"

record offset_fetch_request_group =
  ofrqg_group_id :: string
  ofrqg_member_id :: "string option"
  ofrqg_member_epoch :: i32
  ofrqg_topics :: "offset_fetch_request_topics list option"
  ofrqg_unknown_tagged_fields :: "(i32, bytes) btree_map"

definition offset_fetch_request_group_default :: offset_fetch_request_group where
  "offset_fetch_request_group_default =
     \<lparr>ofrqg_group_id = [], ofrqg_member_id = None, ofrqg_member_epoch = - 1,
      ofrqg_topics = Some [], ofrqg_unknown_tagged_fields = []\<rparr>"

record offset_fetch_request =
  ofrq_group_id :: string
  ofrq_topics :: "offset_fetch_request_topic list option"
  ofrq_groups :: "offset_fetch_request_group list"
  ofrq_require_stable :: bool
  ofrq_unknown_tagged_fields :: "(i32, bytes) btree_map"

definition offset_fetch_request_default :: offset_fetch_request where
  "offset_fetch_request_default =
     \<lparr>ofrq_group_id = [], ofrq_topics = Some [], ofrq_groups = [], ofrq_require_stable = False,
      ofrq_unknown_tagged_fields = []\<rparr>"

record offset_fetch_response_partition =
  ofrsp_partition_index :: i32
  ofrsp_committed_offset :: i64
  ofrsp_committed_leader_epoch :: i32
  ofrsp_metadata :: "string option"
  ofrsp_error_code :: i16
  ofrsp_unknown_tagged_fields :: "(i32, bytes) btree_map"

definition offset_fetch_response_partition_default :: offset_fetch_response_partition where
  "offset_fetch_response_partition_default =
     \<lparr>ofrsp_partition_index = 0, ofrsp_committed_offset = 0, ofrsp_committed_leader_epoch = - 1,
      ofrsp_metadata = Some [], ofrsp_error_code = 0, ofrsp_unknown_tagged_fields = []\<rparr>"

record offset_fetch_response_topic =
  ofrst_name :: string
  ofrst_partitions :: "offset_fetch_response_partition list"
  ofrst_unknown_tagged_fields :: "(i32, bytes) btree_map"

definition offset_fetch_response_topic_default :: offset_fetch_response_topic where
  "offset_fetch_response_topic_default =
     \<lparr>ofrst_name = [], ofrst_partitions = [], ofrst_unknown_tagged_fields = []\<rparr>"

record offset_fetch_response_partitions =
  ofrsps_partition_index :: i32
  ofrsps_committed_offset :: i64
  ofrsps_committed_leader_epoch :: i32
  ofrsps_metadata :: "string option"
  ofrsps_error_code :: i16
  ofrsps_unknown_tagged_fields :: "(i32, bytes) btree_map"

definition offset_fetch_response_partitions_default :: offset_fetch_response_partitions where
  "offset_fetch_response_partitions_default =
     \<lparr>ofrsps_partition_index = 0, ofrsps_committed_offset = 0,
      ofrsps_committed_leader_epoch = - 1, ofrsps_metadata = Some [], ofrsps_error_code = 0,
      ofrsps_unknown_tagged_fields = []\<rparr>"

record offset_fetch_response_topics =
  ofrsts_name :: string
  ofrsts_topic_id :: uuid
  ofrsts_partitions :: "offset_fetch_response_partitions list"
  ofrsts_unknown_tagged_fields :: "(i32, bytes) btree_map"

definition offset_fetch_response_topics_default :: offset_fetch_response_topics where
  "offset_fetch_response_topics_default =
     \<lparr>ofrsts_name = [], ofrsts_topic_id = nil_uuid, ofrsts_partitions = [],
      ofrsts_unknown_tagged_fields = []\<rparr>"

record offset_fetch_response_group =
  ofrsg_group_id :: string
  ofrsg_topics :: "offset_fetch_response_topics list"
  ofrsg_error_code :: i16
  ofrsg_unknown_tagged_fields :: "(i32, bytes) btree_map"

definition offset_fetch_response_group_default :: offset_fetch_response_group where
  "offset_fetch_response_group_default =
     \<lparr>ofrsg_group_id = [], ofrsg_topics = [], ofrsg_error_code = 0,
      ofrsg_unknown_tagged_fields = []\<rparr>"

record offset_fetch_response =
  ofrs_throttle_time_ms :: i32
  ofrs_topics :: "offset_fetch_response_topic list"
  ofrs_error_code :: i16
  ofrs_groups :: "offset_fetch_response_group list"
  ofrs_unknown_tagged_fields :: "(i32, bytes) btree_map"

definition offset_fetch_response_default :: offset_fetch_response where
  "offset_fetch_response_default =
     \<lparr>ofrs_throttle_time_ms = 0, ofrs_topics = [], ofrs_error_code = 0, ofrs_groups = [],
      ofrs_unknown_tagged_fields = []\<rparr>"

end
