(* ===== verification/Codec_Members.thy ===== *)
theory Codec_Members
  imports Message_Codec Messages_Group
begin

text \<open>
  The codecs of the messages join group, sync group, heartbeat, leave group
  (\<open>src/crates/kafka-protocol/src/messages/\<close>): the encoder, the size computation and the decoder of every structure,
  for every version of its schema, what a structure must satisfy to be sent in a version, and that it then comes back.
\<close>

section \<open>Join group\<close>

definition JoinGroupRequestProtocol_encode :: "join_group_request_protocol \<Rightarrow> i16 \<Rightarrow> wire_error + bytes" where
  "JoinGroupRequestProtocol_encode s version =
     (if version < 0 \<or> version > 9 then Inl UNSUPPORTED_VERSION
      else puts
        [if version \<ge> 6
          then CompactString_encode (Some (jgrqp_name s))
          else String_encode (Some (jgrqp_name s)),
         if version \<ge> 6
          then CompactBytes_encode (Some (jgrqp_metadata s))
          else Bytes_encode (Some (jgrqp_metadata s)),
         if version \<ge> 6 then put_tags [] 0 (jgrqp_unknown_tagged_fields s) else Inr []])"

definition JoinGroupRequestProtocol_compute_size :: "join_group_request_protocol \<Rightarrow> i16 \<Rightarrow> wire_error + usize" where
  "JoinGroupRequestProtocol_compute_size s version =
     sums
       [if version \<ge> 6
         then CompactString_compute_size (Some (jgrqp_name s))
         else String_compute_size (Some (jgrqp_name s)),
        if version \<ge> 6
         then CompactBytes_compute_size (Some (jgrqp_metadata s))
         else Bytes_compute_size (Some (jgrqp_metadata s)),
        if version \<ge> 6 then tags_size [] (jgrqp_unknown_tagged_fields s) else Inr 0]"

definition JoinGroupRequestProtocol_decode :: "i16 \<Rightarrow> join_group_request_protocol decoder" where
  "JoinGroupRequestProtocol_decode version =
     (if version < 0 \<or> version > 9 then refuse UNSUPPORTED_VERSION
      else
        get (if version \<ge> 6 then CompactString_required else String_required) (\<lambda>name.
        get (if version \<ge> 6 then CompactBytes_required else Bytes_required) (\<lambda>metadata.
        get (if version \<ge> 6 then get_unknown_tags else give []) (\<lambda>unknown_tagged_fields.
        give \<lparr>jgrqp_name = name, jgrqp_metadata = metadata,
               jgrqp_unknown_tagged_fields = unknown_tagged_fields\<rparr>))))"

definition JoinGroupRequestProtocol_ok :: "i16 \<Rightarrow> join_group_request_protocol \<Rightarrow> bool" where
  "JoinGroupRequestProtocol_ok version s \<longleftrightarrow>
     \<not> (version < 0 \<or> version > 9) \<and>
     (if version \<ge> 6
       then string_ok (2 ^ 32 - 2) (Some (jgrqp_name s))
       else string_ok 32767 (Some (jgrqp_name s))) \<and>
     (if version \<ge> 6
       then seq_ok (2 ^ 32 - 2) (\<lambda>_. True) (Some (jgrqp_metadata s))
       else seq_ok (2 ^ 31 - 1) (\<lambda>_. True) (Some (jgrqp_metadata s))) \<and>
     (if version \<ge> 6 then tags_ok 0 (jgrqp_unknown_tagged_fields s) else jgrqp_unknown_tagged_fields s = [])"

lemma JoinGroupRequestProtocol_codec [coded_intros]:
  "sized_codec (\<lambda>s. JoinGroupRequestProtocol_encode s version) (JoinGroupRequestProtocol_decode version)
     (\<lambda>s. JoinGroupRequestProtocol_compute_size s version) (JoinGroupRequestProtocol_ok version)"
  unfolding JoinGroupRequestProtocol_encode_def JoinGroupRequestProtocol_decode_def JoinGroupRequestProtocol_compute_size_def
  by (rule sized_codecI) (rule coded_intros | (simp add: JoinGroupRequestProtocol_ok_def; fail))+

lemmas JoinGroupRequestProtocol_coded [coded_intros] = sized_codec.codes [OF JoinGroupRequestProtocol_codec]

definition JoinGroupRequest_encode :: "join_group_request \<Rightarrow> i16 \<Rightarrow> wire_error + bytes" where
  "JoinGroupRequest_encode s version =
     (if version < 0 \<or> version > 9 then Inl UNSUPPORTED_VERSION
      else puts
        [if version \<ge> 6
          then CompactString_encode (Some (jgrq_group_id s))
          else String_encode (Some (jgrq_group_id s)),
         Inr (Int32_encode (jgrq_session_timeout_ms s)),
         if version \<ge> 1 then Inr (Int32_encode (jgrq_rebalance_timeout_ms s)) else Inr [],
         if version \<ge> 6
          then CompactString_encode (Some (jgrq_member_id s))
          else String_encode (Some (jgrq_member_id s)),
         if version \<ge> 5
          then if version \<ge> 6
                then CompactString_encode (jgrq_group_instance_id s)
                else String_encode (jgrq_group_instance_id s)
          else unset [] (jgrq_group_instance_id s = None),
         if version \<ge> 6
          then CompactString_encode (Some (jgrq_protocol_type s))
          else String_encode (Some (jgrq_protocol_type s)),
         if version \<ge> 6
          then CompactArray_encode (\<lambda>x. JoinGroupRequestProtocol_encode x version) (Some (jgrq_protocols s))
          else Array_encode (\<lambda>x. JoinGroupRequestProtocol_encode x version) (Some (jgrq_protocols s)),
         if version \<ge> 8 then CompactString_encode (jgrq_reason s) else Inr [],
         if version \<ge> 6 then put_tags [] 0 (jgrq_unknown_tagged_fields s) else Inr []])"

definition JoinGroupRequest_compute_size :: "join_group_request \<Rightarrow> i16 \<Rightarrow> wire_error + usize" where
  "JoinGroupRequest_compute_size s version =
     sums
       [if version \<ge> 6
         then CompactString_compute_size (Some (jgrq_group_id s))
         else String_compute_size (Some (jgrq_group_id s)),
        Inr 4,
        if version \<ge> 1 then Inr 4 else Inr 0,
        if version \<ge> 6
         then CompactString_compute_size (Some (jgrq_member_id s))
         else String_compute_size (Some (jgrq_member_id s)),
        if version \<ge> 5
         then if version \<ge> 6
               then CompactString_compute_size (jgrq_group_instance_id s)
               else String_compute_size (jgrq_group_instance_id s)
         else unset 0 (jgrq_group_instance_id s = None),
        if version \<ge> 6
         then CompactString_compute_size (Some (jgrq_protocol_type s))
         else String_compute_size (Some (jgrq_protocol_type s)),
        if version \<ge> 6
         then CompactArray_compute_size None (\<lambda>x. JoinGroupRequestProtocol_compute_size x version) (Some (jgrq_protocols s))
         else Array_compute_size None (\<lambda>x. JoinGroupRequestProtocol_compute_size x version) (Some (jgrq_protocols s)),
        if version \<ge> 8 then CompactString_compute_size (jgrq_reason s) else Inr 0,
        if version \<ge> 6 then tags_size [] (jgrq_unknown_tagged_fields s) else Inr 0]"

definition JoinGroupRequest_decode :: "i16 \<Rightarrow> join_group_request decoder" where
  "JoinGroupRequest_decode version =
     (if version < 0 \<or> version > 9 then refuse UNSUPPORTED_VERSION
      else
        get (if version \<ge> 6 then CompactString_required else String_required) (\<lambda>group_id.
        get Int32_decode (\<lambda>session_timeout_ms.
        get (if version \<ge> 1 then Int32_decode else give (- 1)) (\<lambda>rebalance_timeout_ms.
        get (if version \<ge> 6 then CompactString_required else String_required) (\<lambda>member_id.
        get (if version \<ge> 5
              then if version \<ge> 6 then CompactString_decode else String_decode
              else give None) (\<lambda>group_instance_id.
        get (if version \<ge> 6 then CompactString_required else String_required) (\<lambda>protocol_type.
        get (if version \<ge> 6
              then CompactArray_required (JoinGroupRequestProtocol_decode version)
              else Array_required (JoinGroupRequestProtocol_decode version)) (\<lambda>protocols.
        get (if version \<ge> 8 then CompactString_decode else give None) (\<lambda>reason.
        get (if version \<ge> 6 then get_unknown_tags else give []) (\<lambda>unknown_tagged_fields.
        give \<lparr>jgrq_group_id = group_id, jgrq_session_timeout_ms = session_timeout_ms,
               jgrq_rebalance_timeout_ms = rebalance_timeout_ms, jgrq_member_id = member_id,
               jgrq_group_instance_id = group_instance_id, jgrq_protocol_type = protocol_type,
               jgrq_protocols = protocols, jgrq_reason = reason,
               jgrq_unknown_tagged_fields = unknown_tagged_fields\<rparr>))))))))))"

definition JoinGroupRequest_ok :: "i16 \<Rightarrow> join_group_request \<Rightarrow> bool" where
  "JoinGroupRequest_ok version s \<longleftrightarrow>
     \<not> (version < 0 \<or> version > 9) \<and>
     (if version \<ge> 6
       then string_ok (2 ^ 32 - 2) (Some (jgrq_group_id s))
       else string_ok 32767 (Some (jgrq_group_id s))) \<and>
     in_i32 (jgrq_session_timeout_ms s) \<and>
     (if version \<ge> 1 then in_i32 (jgrq_rebalance_timeout_ms s) else jgrq_rebalance_timeout_ms s = - 1) \<and>
     (if version \<ge> 6
       then string_ok (2 ^ 32 - 2) (Some (jgrq_member_id s))
       else string_ok 32767 (Some (jgrq_member_id s))) \<and>
     (if version \<ge> 5
       then if version \<ge> 6
             then string_ok (2 ^ 32 - 2) (jgrq_group_instance_id s)
             else string_ok 32767 (jgrq_group_instance_id s)
       else jgrq_group_instance_id s = None) \<and>
     (if version \<ge> 6
       then string_ok (2 ^ 32 - 2) (Some (jgrq_protocol_type s))
       else string_ok 32767 (Some (jgrq_protocol_type s))) \<and>
     (if version \<ge> 6
       then seq_ok (2 ^ 32 - 2) (JoinGroupRequestProtocol_ok version) (Some (jgrq_protocols s))
       else seq_ok (2 ^ 31 - 1) (JoinGroupRequestProtocol_ok version) (Some (jgrq_protocols s))) \<and>
     (if version \<ge> 8 then string_ok (2 ^ 32 - 2) (jgrq_reason s) else jgrq_reason s = None) \<and>
     (if version \<ge> 6 then tags_ok 0 (jgrq_unknown_tagged_fields s) else jgrq_unknown_tagged_fields s = [])"

lemma JoinGroupRequest_codec [coded_intros]:
  "sized_codec (\<lambda>s. JoinGroupRequest_encode s version) (JoinGroupRequest_decode version)
     (\<lambda>s. JoinGroupRequest_compute_size s version) (JoinGroupRequest_ok version)"
  unfolding JoinGroupRequest_encode_def JoinGroupRequest_decode_def JoinGroupRequest_compute_size_def
  by (rule sized_codecI) (rule coded_intros | (simp add: JoinGroupRequest_ok_def; fail))+

lemmas JoinGroupRequest_coded [coded_intros] = sized_codec.codes [OF JoinGroupRequest_codec]

definition JoinGroupResponseMember_encode :: "join_group_response_member \<Rightarrow> i16 \<Rightarrow> wire_error + bytes" where
  "JoinGroupResponseMember_encode s version =
     (if version < 0 \<or> version > 9 then Inl UNSUPPORTED_VERSION
      else puts
        [if version \<ge> 6
          then CompactString_encode (Some (jgrsm_member_id s))
          else String_encode (Some (jgrsm_member_id s)),
         if version \<ge> 5
          then if version \<ge> 6
                then CompactString_encode (jgrsm_group_instance_id s)
                else String_encode (jgrsm_group_instance_id s)
          else Inr [],
         if version \<ge> 6
          then CompactBytes_encode (Some (jgrsm_metadata s))
          else Bytes_encode (Some (jgrsm_metadata s)),
         if version \<ge> 6 then put_tags [] 0 (jgrsm_unknown_tagged_fields s) else Inr []])"

definition JoinGroupResponseMember_compute_size :: "join_group_response_member \<Rightarrow> i16 \<Rightarrow> wire_error + usize" where
  "JoinGroupResponseMember_compute_size s version =
     sums
       [if version \<ge> 6
         then CompactString_compute_size (Some (jgrsm_member_id s))
         else String_compute_size (Some (jgrsm_member_id s)),
        if version \<ge> 5
         then if version \<ge> 6
               then CompactString_compute_size (jgrsm_group_instance_id s)
               else String_compute_size (jgrsm_group_instance_id s)
         else Inr 0,
        if version \<ge> 6
         then CompactBytes_compute_size (Some (jgrsm_metadata s))
         else Bytes_compute_size (Some (jgrsm_metadata s)),
        if version \<ge> 6 then tags_size [] (jgrsm_unknown_tagged_fields s) else Inr 0]"

definition JoinGroupResponseMember_decode :: "i16 \<Rightarrow> join_group_response_member decoder" where
  "JoinGroupResponseMember_decode version =
     (if version < 0 \<or> version > 9 then refuse UNSUPPORTED_VERSION
      else
        get (if version \<ge> 6 then CompactString_required else String_required) (\<lambda>member_id.
        get (if version \<ge> 5
              then if version \<ge> 6 then CompactString_decode else String_decode
              else give None) (\<lambda>group_instance_id.
        get (if version \<ge> 6 then CompactBytes_required else Bytes_required) (\<lambda>metadata.
        get (if version \<ge> 6 then get_unknown_tags else give []) (\<lambda>unknown_tagged_fields.
        give \<lparr>jgrsm_member_id = member_id, jgrsm_group_instance_id = group_instance_id,
               jgrsm_metadata = metadata, jgrsm_unknown_tagged_fields = unknown_tagged_fields\<rparr>)))))"

definition JoinGroupResponseMember_ok :: "i16 \<Rightarrow> join_group_response_member \<Rightarrow> bool" where
  "JoinGroupResponseMember_ok version s \<longleftrightarrow>
     \<not> (version < 0 \<or> version > 9) \<and>
     (if version \<ge> 6
       then string_ok (2 ^ 32 - 2) (Some (jgrsm_member_id s))
       else string_ok 32767 (Some (jgrsm_member_id s))) \<and>
     (if version \<ge> 5
       then if version \<ge> 6
             then string_ok (2 ^ 32 - 2) (jgrsm_group_instance_id s)
             else string_ok 32767 (jgrsm_group_instance_id s)
       else jgrsm_group_instance_id s = None) \<and>
     (if version \<ge> 6
       then seq_ok (2 ^ 32 - 2) (\<lambda>_. True) (Some (jgrsm_metadata s))
       else seq_ok (2 ^ 31 - 1) (\<lambda>_. True) (Some (jgrsm_metadata s))) \<and>
     (if version \<ge> 6 then tags_ok 0 (jgrsm_unknown_tagged_fields s) else jgrsm_unknown_tagged_fields s = [])"

lemma JoinGroupResponseMember_codec [coded_intros]:
  "sized_codec (\<lambda>s. JoinGroupResponseMember_encode s version) (JoinGroupResponseMember_decode version)
     (\<lambda>s. JoinGroupResponseMember_compute_size s version) (JoinGroupResponseMember_ok version)"
  unfolding JoinGroupResponseMember_encode_def JoinGroupResponseMember_decode_def JoinGroupResponseMember_compute_size_def
  by (rule sized_codecI) (rule coded_intros | (simp add: JoinGroupResponseMember_ok_def; fail))+

lemmas JoinGroupResponseMember_coded [coded_intros] = sized_codec.codes [OF JoinGroupResponseMember_codec]

definition JoinGroupResponse_encode :: "join_group_response \<Rightarrow> i16 \<Rightarrow> wire_error + bytes" where
  "JoinGroupResponse_encode s version =
     (if version < 0 \<or> version > 9 then Inl UNSUPPORTED_VERSION
      else puts
        [if version \<ge> 2 then Inr (Int32_encode (jgrs_throttle_time_ms s)) else Inr [],
         Inr (Int16_encode (jgrs_error_code s)),
         Inr (Int32_encode (jgrs_generation_id s)),
         if version \<ge> 7 then CompactString_encode (jgrs_protocol_type s) else Inr [],
         if version \<ge> 6
          then CompactString_encode (jgrs_protocol_name s)
          else String_encode (jgrs_protocol_name s),
         if version \<ge> 6
          then CompactString_encode (Some (jgrs_leader s))
          else String_encode (Some (jgrs_leader s)),
         if version \<ge> 9
          then Inr (Boolean_encode (jgrs_skip_assignment s))
          else unset [] (\<not> jgrs_skip_assignment s),
         if version \<ge> 6
          then CompactString_encode (Some (jgrs_member_id s))
          else String_encode (Some (jgrs_member_id s)),
         if version \<ge> 6
          then CompactArray_encode (\<lambda>x. JoinGroupResponseMember_encode x version) (Some (jgrs_members s))
          else Array_encode (\<lambda>x. JoinGroupResponseMember_encode x version) (Some (jgrs_members s)),
         if version \<ge> 6 then put_tags [] 0 (jgrs_unknown_tagged_fields s) else Inr []])"

definition JoinGroupResponse_compute_size :: "join_group_response \<Rightarrow> i16 \<Rightarrow> wire_error + usize" where
  "JoinGroupResponse_compute_size s version =
     sums
       [if version \<ge> 2 then Inr 4 else Inr 0,
        Inr 2,
        Inr 4,
        if version \<ge> 7 then CompactString_compute_size (jgrs_protocol_type s) else Inr 0,
        if version \<ge> 6
         then CompactString_compute_size (jgrs_protocol_name s)
         else String_compute_size (jgrs_protocol_name s),
        if version \<ge> 6
         then CompactString_compute_size (Some (jgrs_leader s))
         else String_compute_size (Some (jgrs_leader s)),
        if version \<ge> 9 then Inr 1 else unset 0 (\<not> jgrs_skip_assignment s),
        if version \<ge> 6
         then CompactString_compute_size (Some (jgrs_member_id s))
         else String_compute_size (Some (jgrs_member_id s)),
        if version \<ge> 6
         then CompactArray_compute_size None (\<lambda>x. JoinGroupResponseMember_compute_size x version) (Some (jgrs_members s))
         else Array_compute_size None (\<lambda>x. JoinGroupResponseMember_compute_size x version) (Some (jgrs_members s)),
        if version \<ge> 6 then tags_size [] (jgrs_unknown_tagged_fields s) else Inr 0]"

definition JoinGroupResponse_decode :: "i16 \<Rightarrow> join_group_response decoder" where
  "JoinGroupResponse_decode version =
     (if version < 0 \<or> version > 9 then refuse UNSUPPORTED_VERSION
      else
        get (if version \<ge> 2 then Int32_decode else give 0) (\<lambda>throttle_time_ms.
        get Int16_decode (\<lambda>error_code.
        get Int32_decode (\<lambda>generation_id.
        get (if version \<ge> 7 then CompactString_decode else give None) (\<lambda>protocol_type.
        get (if version \<ge> 6 then CompactString_decode else String_decode) (\<lambda>protocol_name.
        get (if version \<ge> 6 then CompactString_required else String_required) (\<lambda>leader.
        get (if version \<ge> 9 then Boolean_decode else give False) (\<lambda>skip_assignment.
        get (if version \<ge> 6 then CompactString_required else String_required) (\<lambda>member_id.
        get (if version \<ge> 6
              then CompactArray_required (JoinGroupResponseMember_decode version)
              else Array_required (JoinGroupResponseMember_decode version)) (\<lambda>members.
        get (if version \<ge> 6 then get_unknown_tags else give []) (\<lambda>unknown_tagged_fields.
        give \<lparr>jgrs_throttle_time_ms = throttle_time_ms, jgrs_error_code = error_code,
               jgrs_generation_id = generation_id, jgrs_protocol_type = protocol_type,
               jgrs_protocol_name = protocol_name, jgrs_leader = leader,
               jgrs_skip_assignment = skip_assignment, jgrs_member_id = member_id,
               jgrs_members = members, jgrs_unknown_tagged_fields = unknown_tagged_fields\<rparr>)))))))))))"

definition JoinGroupResponse_ok :: "i16 \<Rightarrow> join_group_response \<Rightarrow> bool" where
  "JoinGroupResponse_ok version s \<longleftrightarrow>
     \<not> (version < 0 \<or> version > 9) \<and>
     (if version \<ge> 2 then in_i32 (jgrs_throttle_time_ms s) else jgrs_throttle_time_ms s = 0) \<and>
     in_i16 (jgrs_error_code s) \<and>
     in_i32 (jgrs_generation_id s) \<and>
     (if version \<ge> 7 then string_ok (2 ^ 32 - 2) (jgrs_protocol_type s) else jgrs_protocol_type s = None) \<and>
     (if version \<ge> 6
       then string_ok (2 ^ 32 - 2) (jgrs_protocol_name s)
       else string_ok 32767 (jgrs_protocol_name s)) \<and>
     (if version \<ge> 6
       then string_ok (2 ^ 32 - 2) (Some (jgrs_leader s))
       else string_ok 32767 (Some (jgrs_leader s))) \<and>
     (if version \<ge> 9 then True else \<not> jgrs_skip_assignment s) \<and>
     (if version \<ge> 6
       then string_ok (2 ^ 32 - 2) (Some (jgrs_member_id s))
       else string_ok 32767 (Some (jgrs_member_id s))) \<and>
     (if version \<ge> 6
       then seq_ok (2 ^ 32 - 2) (JoinGroupResponseMember_ok version) (Some (jgrs_members s))
       else seq_ok (2 ^ 31 - 1) (JoinGroupResponseMember_ok version) (Some (jgrs_members s))) \<and>
     (if version \<ge> 6 then tags_ok 0 (jgrs_unknown_tagged_fields s) else jgrs_unknown_tagged_fields s = [])"

lemma JoinGroupResponse_codec [coded_intros]:
  "sized_codec (\<lambda>s. JoinGroupResponse_encode s version) (JoinGroupResponse_decode version)
     (\<lambda>s. JoinGroupResponse_compute_size s version) (JoinGroupResponse_ok version)"
  unfolding JoinGroupResponse_encode_def JoinGroupResponse_decode_def JoinGroupResponse_compute_size_def
  by (rule sized_codecI) (rule coded_intros | (clarsimp simp: JoinGroupResponse_ok_def; fail))+

lemmas JoinGroupResponse_coded [coded_intros] = sized_codec.codes [OF JoinGroupResponse_codec]

section \<open>Sync group\<close>

definition SyncGroupRequestAssignment_encode :: "sync_group_request_assignment \<Rightarrow> i16 \<Rightarrow> wire_error + bytes" where
  "SyncGroupRequestAssignment_encode s version =
     (if version < 0 \<or> version > 5 then Inl UNSUPPORTED_VERSION
      else puts
        [if version \<ge> 4
          then CompactString_encode (Some (sgrqa_member_id s))
          else String_encode (Some (sgrqa_member_id s)),
         if version \<ge> 4
          then CompactBytes_encode (Some (sgrqa_assignment s))
          else Bytes_encode (Some (sgrqa_assignment s)),
         if version \<ge> 4 then put_tags [] 0 (sgrqa_unknown_tagged_fields s) else Inr []])"

definition SyncGroupRequestAssignment_compute_size :: "sync_group_request_assignment \<Rightarrow> i16 \<Rightarrow> wire_error + usize" where
  "SyncGroupRequestAssignment_compute_size s version =
     sums
       [if version \<ge> 4
         then CompactString_compute_size (Some (sgrqa_member_id s))
         else String_compute_size (Some (sgrqa_member_id s)),
        if version \<ge> 4
         then CompactBytes_compute_size (Some (sgrqa_assignment s))
         else Bytes_compute_size (Some (sgrqa_assignment s)),
        if version \<ge> 4 then tags_size [] (sgrqa_unknown_tagged_fields s) else Inr 0]"

definition SyncGroupRequestAssignment_decode :: "i16 \<Rightarrow> sync_group_request_assignment decoder" where
  "SyncGroupRequestAssignment_decode version =
     (if version < 0 \<or> version > 5 then refuse UNSUPPORTED_VERSION
      else
        get (if version \<ge> 4 then CompactString_required else String_required) (\<lambda>member_id.
        get (if version \<ge> 4 then CompactBytes_required else Bytes_required) (\<lambda>assignment.
        get (if version \<ge> 4 then get_unknown_tags else give []) (\<lambda>unknown_tagged_fields.
        give \<lparr>sgrqa_member_id = member_id, sgrqa_assignment = assignment,
               sgrqa_unknown_tagged_fields = unknown_tagged_fields\<rparr>))))"

definition SyncGroupRequestAssignment_ok :: "i16 \<Rightarrow> sync_group_request_assignment \<Rightarrow> bool" where
  "SyncGroupRequestAssignment_ok version s \<longleftrightarrow>
     \<not> (version < 0 \<or> version > 5) \<and>
     (if version \<ge> 4
       then string_ok (2 ^ 32 - 2) (Some (sgrqa_member_id s))
       else string_ok 32767 (Some (sgrqa_member_id s))) \<and>
     (if version \<ge> 4
       then seq_ok (2 ^ 32 - 2) (\<lambda>_. True) (Some (sgrqa_assignment s))
       else seq_ok (2 ^ 31 - 1) (\<lambda>_. True) (Some (sgrqa_assignment s))) \<and>
     (if version \<ge> 4 then tags_ok 0 (sgrqa_unknown_tagged_fields s) else sgrqa_unknown_tagged_fields s = [])"

lemma SyncGroupRequestAssignment_codec [coded_intros]:
  "sized_codec (\<lambda>s. SyncGroupRequestAssignment_encode s version) (SyncGroupRequestAssignment_decode version)
     (\<lambda>s. SyncGroupRequestAssignment_compute_size s version) (SyncGroupRequestAssignment_ok version)"
  unfolding SyncGroupRequestAssignment_encode_def SyncGroupRequestAssignment_decode_def SyncGroupRequestAssignment_compute_size_def
  by (rule sized_codecI) (rule coded_intros | (simp add: SyncGroupRequestAssignment_ok_def; fail))+

lemmas SyncGroupRequestAssignment_coded [coded_intros] = sized_codec.codes [OF SyncGroupRequestAssignment_codec]

definition SyncGroupRequest_encode :: "sync_group_request \<Rightarrow> i16 \<Rightarrow> wire_error + bytes" where
  "SyncGroupRequest_encode s version =
     (if version < 0 \<or> version > 5 then Inl UNSUPPORTED_VERSION
      else puts
        [if version \<ge> 4
          then CompactString_encode (Some (sgrq_group_id s))
          else String_encode (Some (sgrq_group_id s)),
         Inr (Int32_encode (sgrq_generation_id s)),
         if version \<ge> 4
          then CompactString_encode (Some (sgrq_member_id s))
          else String_encode (Some (sgrq_member_id s)),
         if version \<ge> 3
          then if version \<ge> 4
                then CompactString_encode (sgrq_group_instance_id s)
                else String_encode (sgrq_group_instance_id s)
          else unset [] (sgrq_group_instance_id s = None),
         if version \<ge> 5 then CompactString_encode (sgrq_protocol_type s) else Inr [],
         if version \<ge> 5 then CompactString_encode (sgrq_protocol_name s) else Inr [],
         if version \<ge> 4
          then CompactArray_encode (\<lambda>x. SyncGroupRequestAssignment_encode x version) (Some (sgrq_assignments s))
          else Array_encode (\<lambda>x. SyncGroupRequestAssignment_encode x version) (Some (sgrq_assignments s)),
         if version \<ge> 4 then put_tags [] 0 (sgrq_unknown_tagged_fields s) else Inr []])"

definition SyncGroupRequest_compute_size :: "sync_group_request \<Rightarrow> i16 \<Rightarrow> wire_error + usize" where
  "SyncGroupRequest_compute_size s version =
     sums
       [if version \<ge> 4
         then CompactString_compute_size (Some (sgrq_group_id s))
         else String_compute_size (Some (sgrq_group_id s)),
        Inr 4,
        if version \<ge> 4
         then CompactString_compute_size (Some (sgrq_member_id s))
         else String_compute_size (Some (sgrq_member_id s)),
        if version \<ge> 3
         then if version \<ge> 4
               then CompactString_compute_size (sgrq_group_instance_id s)
               else String_compute_size (sgrq_group_instance_id s)
         else unset 0 (sgrq_group_instance_id s = None),
        if version \<ge> 5 then CompactString_compute_size (sgrq_protocol_type s) else Inr 0,
        if version \<ge> 5 then CompactString_compute_size (sgrq_protocol_name s) else Inr 0,
        if version \<ge> 4
         then CompactArray_compute_size None (\<lambda>x. SyncGroupRequestAssignment_compute_size x version) (Some (sgrq_assignments s))
         else Array_compute_size None (\<lambda>x. SyncGroupRequestAssignment_compute_size x version) (Some (sgrq_assignments s)),
        if version \<ge> 4 then tags_size [] (sgrq_unknown_tagged_fields s) else Inr 0]"

definition SyncGroupRequest_decode :: "i16 \<Rightarrow> sync_group_request decoder" where
  "SyncGroupRequest_decode version =
     (if version < 0 \<or> version > 5 then refuse UNSUPPORTED_VERSION
      else
        get (if version \<ge> 4 then CompactString_required else String_required) (\<lambda>group_id.
        get Int32_decode (\<lambda>generation_id.
        get (if version \<ge> 4 then CompactString_required else String_required) (\<lambda>member_id.
        get (if version \<ge> 3
              then if version \<ge> 4 then CompactString_decode else String_decode
              else give None) (\<lambda>group_instance_id.
        get (if version \<ge> 5 then CompactString_decode else give None) (\<lambda>protocol_type.
        get (if version \<ge> 5 then CompactString_decode else give None) (\<lambda>protocol_name.
        get (if version \<ge> 4
              then CompactArray_required (SyncGroupRequestAssignment_decode version)
              else Array_required (SyncGroupRequestAssignment_decode version)) (\<lambda>assignments.
        get (if version \<ge> 4 then get_unknown_tags else give []) (\<lambda>unknown_tagged_fields.
        give \<lparr>sgrq_group_id = group_id, sgrq_generation_id = generation_id,
               sgrq_member_id = member_id, sgrq_group_instance_id = group_instance_id,
               sgrq_protocol_type = protocol_type, sgrq_protocol_name = protocol_name,
               sgrq_assignments = assignments, sgrq_unknown_tagged_fields = unknown_tagged_fields\<rparr>)))))))))"

definition SyncGroupRequest_ok :: "i16 \<Rightarrow> sync_group_request \<Rightarrow> bool" where
  "SyncGroupRequest_ok version s \<longleftrightarrow>
     \<not> (version < 0 \<or> version > 5) \<and>
     (if version \<ge> 4
       then string_ok (2 ^ 32 - 2) (Some (sgrq_group_id s))
       else string_ok 32767 (Some (sgrq_group_id s))) \<and>
     in_i32 (sgrq_generation_id s) \<and>
     (if version \<ge> 4
       then string_ok (2 ^ 32 - 2) (Some (sgrq_member_id s))
       else string_ok 32767 (Some (sgrq_member_id s))) \<and>
     (if version \<ge> 3
       then if version \<ge> 4
             then string_ok (2 ^ 32 - 2) (sgrq_group_instance_id s)
             else string_ok 32767 (sgrq_group_instance_id s)
       else sgrq_group_instance_id s = None) \<and>
     (if version \<ge> 5 then string_ok (2 ^ 32 - 2) (sgrq_protocol_type s) else sgrq_protocol_type s = None) \<and>
     (if version \<ge> 5 then string_ok (2 ^ 32 - 2) (sgrq_protocol_name s) else sgrq_protocol_name s = None) \<and>
     (if version \<ge> 4
       then seq_ok (2 ^ 32 - 2) (SyncGroupRequestAssignment_ok version) (Some (sgrq_assignments s))
       else seq_ok (2 ^ 31 - 1) (SyncGroupRequestAssignment_ok version) (Some (sgrq_assignments s))) \<and>
     (if version \<ge> 4 then tags_ok 0 (sgrq_unknown_tagged_fields s) else sgrq_unknown_tagged_fields s = [])"

lemma SyncGroupRequest_codec [coded_intros]:
  "sized_codec (\<lambda>s. SyncGroupRequest_encode s version) (SyncGroupRequest_decode version)
     (\<lambda>s. SyncGroupRequest_compute_size s version) (SyncGroupRequest_ok version)"
  unfolding SyncGroupRequest_encode_def SyncGroupRequest_decode_def SyncGroupRequest_compute_size_def
  by (rule sized_codecI) (rule coded_intros | (clarsimp simp: SyncGroupRequest_ok_def; fail))+

lemmas SyncGroupRequest_coded [coded_intros] = sized_codec.codes [OF SyncGroupRequest_codec]

definition SyncGroupResponse_encode :: "sync_group_response \<Rightarrow> i16 \<Rightarrow> wire_error + bytes" where
  "SyncGroupResponse_encode s version =
     (if version < 0 \<or> version > 5 then Inl UNSUPPORTED_VERSION
      else puts
        [if version \<ge> 1 then Inr (Int32_encode (sgrs_throttle_time_ms s)) else Inr [],
         Inr (Int16_encode (sgrs_error_code s)),
         if version \<ge> 5 then CompactString_encode (sgrs_protocol_type s) else Inr [],
         if version \<ge> 5 then CompactString_encode (sgrs_protocol_name s) else Inr [],
         if version \<ge> 4
          then CompactBytes_encode (Some (sgrs_assignment s))
          else Bytes_encode (Some (sgrs_assignment s)),
         if version \<ge> 4 then put_tags [] 0 (sgrs_unknown_tagged_fields s) else Inr []])"

definition SyncGroupResponse_compute_size :: "sync_group_response \<Rightarrow> i16 \<Rightarrow> wire_error + usize" where
  "SyncGroupResponse_compute_size s version =
     sums
       [if version \<ge> 1 then Inr 4 else Inr 0,
        Inr 2,
        if version \<ge> 5 then CompactString_compute_size (sgrs_protocol_type s) else Inr 0,
        if version \<ge> 5 then CompactString_compute_size (sgrs_protocol_name s) else Inr 0,
        if version \<ge> 4
         then CompactBytes_compute_size (Some (sgrs_assignment s))
         else Bytes_compute_size (Some (sgrs_assignment s)),
        if version \<ge> 4 then tags_size [] (sgrs_unknown_tagged_fields s) else Inr 0]"

definition SyncGroupResponse_decode :: "i16 \<Rightarrow> sync_group_response decoder" where
  "SyncGroupResponse_decode version =
     (if version < 0 \<or> version > 5 then refuse UNSUPPORTED_VERSION
      else
        get (if version \<ge> 1 then Int32_decode else give 0) (\<lambda>throttle_time_ms.
        get Int16_decode (\<lambda>error_code.
        get (if version \<ge> 5 then CompactString_decode else give None) (\<lambda>protocol_type.
        get (if version \<ge> 5 then CompactString_decode else give None) (\<lambda>protocol_name.
        get (if version \<ge> 4 then CompactBytes_required else Bytes_required) (\<lambda>assignment.
        get (if version \<ge> 4 then get_unknown_tags else give []) (\<lambda>unknown_tagged_fields.
        give \<lparr>sgrs_throttle_time_ms = throttle_time_ms, sgrs_error_code = error_code,
               sgrs_protocol_type = protocol_type, sgrs_protocol_name = protocol_name,
               sgrs_assignment = assignment, sgrs_unknown_tagged_fields = unknown_tagged_fields\<rparr>)))))))"

definition SyncGroupResponse_ok :: "i16 \<Rightarrow> sync_group_response \<Rightarrow> bool" where
  "SyncGroupResponse_ok version s \<longleftrightarrow>
     \<not> (version < 0 \<or> version > 5) \<and>
     (if version \<ge> 1 then in_i32 (sgrs_throttle_time_ms s) else sgrs_throttle_time_ms s = 0) \<and>
     in_i16 (sgrs_error_code s) \<and>
     (if version \<ge> 5 then string_ok (2 ^ 32 - 2) (sgrs_protocol_type s) else sgrs_protocol_type s = None) \<and>
     (if version \<ge> 5 then string_ok (2 ^ 32 - 2) (sgrs_protocol_name s) else sgrs_protocol_name s = None) \<and>
     (if version \<ge> 4
       then seq_ok (2 ^ 32 - 2) (\<lambda>_. True) (Some (sgrs_assignment s))
       else seq_ok (2 ^ 31 - 1) (\<lambda>_. True) (Some (sgrs_assignment s))) \<and>
     (if version \<ge> 4 then tags_ok 0 (sgrs_unknown_tagged_fields s) else sgrs_unknown_tagged_fields s = [])"

lemma SyncGroupResponse_codec [coded_intros]:
  "sized_codec (\<lambda>s. SyncGroupResponse_encode s version) (SyncGroupResponse_decode version)
     (\<lambda>s. SyncGroupResponse_compute_size s version) (SyncGroupResponse_ok version)"
  unfolding SyncGroupResponse_encode_def SyncGroupResponse_decode_def SyncGroupResponse_compute_size_def
  by (rule sized_codecI) (rule coded_intros | (clarsimp simp: SyncGroupResponse_ok_def; fail))+

lemmas SyncGroupResponse_coded [coded_intros] = sized_codec.codes [OF SyncGroupResponse_codec]

section \<open>Heartbeat\<close>

definition HeartbeatRequest_encode :: "heartbeat_request \<Rightarrow> i16 \<Rightarrow> wire_error + bytes" where
  "HeartbeatRequest_encode s version =
     (if version < 0 \<or> version > 4 then Inl UNSUPPORTED_VERSION
      else puts
        [if version \<ge> 4
          then CompactString_encode (Some (hrq_group_id s))
          else String_encode (Some (hrq_group_id s)),
         Inr (Int32_encode (hrq_generation_id s)),
         if version \<ge> 4
          then CompactString_encode (Some (hrq_member_id s))
          else String_encode (Some (hrq_member_id s)),
         if version \<ge> 3
          then if version \<ge> 4
                then CompactString_encode (hrq_group_instance_id s)
                else String_encode (hrq_group_instance_id s)
          else unset [] (hrq_group_instance_id s = None),
         if version \<ge> 4 then put_tags [] 0 (hrq_unknown_tagged_fields s) else Inr []])"

definition HeartbeatRequest_compute_size :: "heartbeat_request \<Rightarrow> i16 \<Rightarrow> wire_error + usize" where
  "HeartbeatRequest_compute_size s version =
     sums
       [if version \<ge> 4
         then CompactString_compute_size (Some (hrq_group_id s))
         else String_compute_size (Some (hrq_group_id s)),
        Inr 4,
        if version \<ge> 4
         then CompactString_compute_size (Some (hrq_member_id s))
         else String_compute_size (Some (hrq_member_id s)),
        if version \<ge> 3
         then if version \<ge> 4
               then CompactString_compute_size (hrq_group_instance_id s)
               else String_compute_size (hrq_group_instance_id s)
         else unset 0 (hrq_group_instance_id s = None),
        if version \<ge> 4 then tags_size [] (hrq_unknown_tagged_fields s) else Inr 0]"

definition HeartbeatRequest_decode :: "i16 \<Rightarrow> heartbeat_request decoder" where
  "HeartbeatRequest_decode version =
     (if version < 0 \<or> version > 4 then refuse UNSUPPORTED_VERSION
      else
        get (if version \<ge> 4 then CompactString_required else String_required) (\<lambda>group_id.
        get Int32_decode (\<lambda>generation_id.
        get (if version \<ge> 4 then CompactString_required else String_required) (\<lambda>member_id.
        get (if version \<ge> 3
              then if version \<ge> 4 then CompactString_decode else String_decode
              else give None) (\<lambda>group_instance_id.
        get (if version \<ge> 4 then get_unknown_tags else give []) (\<lambda>unknown_tagged_fields.
        give \<lparr>hrq_group_id = group_id, hrq_generation_id = generation_id,
               hrq_member_id = member_id, hrq_group_instance_id = group_instance_id,
               hrq_unknown_tagged_fields = unknown_tagged_fields\<rparr>))))))"

definition HeartbeatRequest_ok :: "i16 \<Rightarrow> heartbeat_request \<Rightarrow> bool" where
  "HeartbeatRequest_ok version s \<longleftrightarrow>
     \<not> (version < 0 \<or> version > 4) \<and>
     (if version \<ge> 4
       then string_ok (2 ^ 32 - 2) (Some (hrq_group_id s))
       else string_ok 32767 (Some (hrq_group_id s))) \<and>
     in_i32 (hrq_generation_id s) \<and>
     (if version \<ge> 4
       then string_ok (2 ^ 32 - 2) (Some (hrq_member_id s))
       else string_ok 32767 (Some (hrq_member_id s))) \<and>
     (if version \<ge> 3
       then if version \<ge> 4
             then string_ok (2 ^ 32 - 2) (hrq_group_instance_id s)
             else string_ok 32767 (hrq_group_instance_id s)
       else hrq_group_instance_id s = None) \<and>
     (if version \<ge> 4 then tags_ok 0 (hrq_unknown_tagged_fields s) else hrq_unknown_tagged_fields s = [])"

lemma HeartbeatRequest_codec [coded_intros]:
  "sized_codec (\<lambda>s. HeartbeatRequest_encode s version) (HeartbeatRequest_decode version)
     (\<lambda>s. HeartbeatRequest_compute_size s version) (HeartbeatRequest_ok version)"
  unfolding HeartbeatRequest_encode_def HeartbeatRequest_decode_def HeartbeatRequest_compute_size_def
  by (rule sized_codecI) (rule coded_intros | (clarsimp simp: HeartbeatRequest_ok_def; fail))+

lemmas HeartbeatRequest_coded [coded_intros] = sized_codec.codes [OF HeartbeatRequest_codec]

definition HeartbeatResponse_encode :: "heartbeat_response \<Rightarrow> i16 \<Rightarrow> wire_error + bytes" where
  "HeartbeatResponse_encode s version =
     (if version < 0 \<or> version > 4 then Inl UNSUPPORTED_VERSION
      else puts
        [if version \<ge> 1 then Inr (Int32_encode (hrs_throttle_time_ms s)) else Inr [],
         Inr (Int16_encode (hrs_error_code s)),
         if version \<ge> 4 then put_tags [] 0 (hrs_unknown_tagged_fields s) else Inr []])"

definition HeartbeatResponse_compute_size :: "heartbeat_response \<Rightarrow> i16 \<Rightarrow> wire_error + usize" where
  "HeartbeatResponse_compute_size s version =
     sums
       [if version \<ge> 1 then Inr 4 else Inr 0,
        Inr 2,
        if version \<ge> 4 then tags_size [] (hrs_unknown_tagged_fields s) else Inr 0]"

definition HeartbeatResponse_decode :: "i16 \<Rightarrow> heartbeat_response decoder" where
  "HeartbeatResponse_decode version =
     (if version < 0 \<or> version > 4 then refuse UNSUPPORTED_VERSION
      else
        get (if version \<ge> 1 then Int32_decode else give 0) (\<lambda>throttle_time_ms.
        get Int16_decode (\<lambda>error_code.
        get (if version \<ge> 4 then get_unknown_tags else give []) (\<lambda>unknown_tagged_fields.
        give \<lparr>hrs_throttle_time_ms = throttle_time_ms, hrs_error_code = error_code,
               hrs_unknown_tagged_fields = unknown_tagged_fields\<rparr>))))"

definition HeartbeatResponse_ok :: "i16 \<Rightarrow> heartbeat_response \<Rightarrow> bool" where
  "HeartbeatResponse_ok version s \<longleftrightarrow>
     \<not> (version < 0 \<or> version > 4) \<and>
     (if version \<ge> 1 then in_i32 (hrs_throttle_time_ms s) else hrs_throttle_time_ms s = 0) \<and>
     in_i16 (hrs_error_code s) \<and>
     (if version \<ge> 4 then tags_ok 0 (hrs_unknown_tagged_fields s) else hrs_unknown_tagged_fields s = [])"

lemma HeartbeatResponse_codec [coded_intros]:
  "sized_codec (\<lambda>s. HeartbeatResponse_encode s version) (HeartbeatResponse_decode version)
     (\<lambda>s. HeartbeatResponse_compute_size s version) (HeartbeatResponse_ok version)"
  unfolding HeartbeatResponse_encode_def HeartbeatResponse_decode_def HeartbeatResponse_compute_size_def
  by (rule sized_codecI) (rule coded_intros | (clarsimp simp: HeartbeatResponse_ok_def; fail))+

lemmas HeartbeatResponse_coded [coded_intros] = sized_codec.codes [OF HeartbeatResponse_codec]

section \<open>Leave group\<close>

definition MemberIdentity_encode :: "member_identity \<Rightarrow> i16 \<Rightarrow> wire_error + bytes" where
  "MemberIdentity_encode s version =
     (if version < 0 \<or> version > 5 then Inl UNSUPPORTED_VERSION
      else puts
        [if version \<ge> 3
          then if version \<ge> 4
                then CompactString_encode (Some (mident_member_id s))
                else String_encode (Some (mident_member_id s))
          else unset [] (mident_member_id s = []),
         if version \<ge> 3
          then if version \<ge> 4
                then CompactString_encode (mident_group_instance_id s)
                else String_encode (mident_group_instance_id s)
          else unset [] (mident_group_instance_id s = None),
         if version \<ge> 5 then CompactString_encode (mident_reason s) else Inr [],
         if version \<ge> 4 then put_tags [] 0 (mident_unknown_tagged_fields s) else Inr []])"

definition MemberIdentity_compute_size :: "member_identity \<Rightarrow> i16 \<Rightarrow> wire_error + usize" where
  "MemberIdentity_compute_size s version =
     sums
       [if version \<ge> 3
         then if version \<ge> 4
               then CompactString_compute_size (Some (mident_member_id s))
               else String_compute_size (Some (mident_member_id s))
         else unset 0 (mident_member_id s = []),
        if version \<ge> 3
         then if version \<ge> 4
               then CompactString_compute_size (mident_group_instance_id s)
               else String_compute_size (mident_group_instance_id s)
         else unset 0 (mident_group_instance_id s = None),
        if version \<ge> 5 then CompactString_compute_size (mident_reason s) else Inr 0,
        if version \<ge> 4 then tags_size [] (mident_unknown_tagged_fields s) else Inr 0]"

definition MemberIdentity_decode :: "i16 \<Rightarrow> member_identity decoder" where
  "MemberIdentity_decode version =
     (if version < 0 \<or> version > 5 then refuse UNSUPPORTED_VERSION
      else
        get (if version \<ge> 3
              then if version \<ge> 4 then CompactString_required else String_required
              else give []) (\<lambda>member_id.
        get (if version \<ge> 3
              then if version \<ge> 4 then CompactString_decode else String_decode
              else give None) (\<lambda>group_instance_id.
        get (if version \<ge> 5 then CompactString_decode else give None) (\<lambda>reason.
        get (if version \<ge> 4 then get_unknown_tags else give []) (\<lambda>unknown_tagged_fields.
        give \<lparr>mident_member_id = member_id, mident_group_instance_id = group_instance_id,
               mident_reason = reason, mident_unknown_tagged_fields = unknown_tagged_fields\<rparr>)))))"

definition MemberIdentity_ok :: "i16 \<Rightarrow> member_identity \<Rightarrow> bool" where
  "MemberIdentity_ok version s \<longleftrightarrow>
     \<not> (version < 0 \<or> version > 5) \<and>
     (if version \<ge> 3
       then if version \<ge> 4
             then string_ok (2 ^ 32 - 2) (Some (mident_member_id s))
             else string_ok 32767 (Some (mident_member_id s))
       else mident_member_id s = []) \<and>
     (if version \<ge> 3
       then if version \<ge> 4
             then string_ok (2 ^ 32 - 2) (mident_group_instance_id s)
             else string_ok 32767 (mident_group_instance_id s)
       else mident_group_instance_id s = None) \<and>
     (if version \<ge> 5 then string_ok (2 ^ 32 - 2) (mident_reason s) else mident_reason s = None) \<and>
     (if version \<ge> 4 then tags_ok 0 (mident_unknown_tagged_fields s) else mident_unknown_tagged_fields s = [])"

lemma MemberIdentity_codec [coded_intros]:
  "sized_codec (\<lambda>s. MemberIdentity_encode s version) (MemberIdentity_decode version)
     (\<lambda>s. MemberIdentity_compute_size s version) (MemberIdentity_ok version)"
  unfolding MemberIdentity_encode_def MemberIdentity_decode_def MemberIdentity_compute_size_def
  by (rule sized_codecI) (rule coded_intros | (clarsimp simp: MemberIdentity_ok_def; fail))+

lemmas MemberIdentity_coded [coded_intros] = sized_codec.codes [OF MemberIdentity_codec]

definition LeaveGroupRequest_encode :: "leave_group_request \<Rightarrow> i16 \<Rightarrow> wire_error + bytes" where
  "LeaveGroupRequest_encode s version =
     (if version < 0 \<or> version > 5 then Inl UNSUPPORTED_VERSION
      else puts
        [if version \<ge> 4
          then CompactString_encode (Some (lvrq_group_id s))
          else String_encode (Some (lvrq_group_id s)),
         if version \<le> 2
          then String_encode (Some (lvrq_member_id s))
          else unset [] (lvrq_member_id s = []),
         if version \<ge> 3
          then if version \<ge> 4
                then CompactArray_encode (\<lambda>x. MemberIdentity_encode x version) (Some (lvrq_members s))
                else Array_encode (\<lambda>x. MemberIdentity_encode x version) (Some (lvrq_members s))
          else unset [] (lvrq_members s = []),
         if version \<ge> 4 then put_tags [] 0 (lvrq_unknown_tagged_fields s) else Inr []])"

definition LeaveGroupRequest_compute_size :: "leave_group_request \<Rightarrow> i16 \<Rightarrow> wire_error + usize" where
  "LeaveGroupRequest_compute_size s version =
     sums
       [if version \<ge> 4
         then CompactString_compute_size (Some (lvrq_group_id s))
         else String_compute_size (Some (lvrq_group_id s)),
        if version \<le> 2
         then String_compute_size (Some (lvrq_member_id s))
         else unset 0 (lvrq_member_id s = []),
        if version \<ge> 3
         then if version \<ge> 4
               then CompactArray_compute_size None (\<lambda>x. MemberIdentity_compute_size x version) (Some (lvrq_members s))
               else Array_compute_size None (\<lambda>x. MemberIdentity_compute_size x version) (Some (lvrq_members s))
         else unset 0 (lvrq_members s = []),
        if version \<ge> 4 then tags_size [] (lvrq_unknown_tagged_fields s) else Inr 0]"

definition LeaveGroupRequest_decode :: "i16 \<Rightarrow> leave_group_request decoder" where
  "LeaveGroupRequest_decode version =
     (if version < 0 \<or> version > 5 then refuse UNSUPPORTED_VERSION
      else
        get (if version \<ge> 4 then CompactString_required else String_required) (\<lambda>group_id.
        get (if version \<le> 2 then String_required else give []) (\<lambda>member_id.
        get (if version \<ge> 3
              then if version \<ge> 4
                    then CompactArray_required (MemberIdentity_decode version)
                    else Array_required (MemberIdentity_decode version)
              else give []) (\<lambda>members.
        get (if version \<ge> 4 then get_unknown_tags else give []) (\<lambda>unknown_tagged_fields.
        give \<lparr>lvrq_group_id = group_id, lvrq_member_id = member_id, lvrq_members = members,
               lvrq_unknown_tagged_fields = unknown_tagged_fields\<rparr>)))))"

definition LeaveGroupRequest_ok :: "i16 \<Rightarrow> leave_group_request \<Rightarrow> bool" where
  "LeaveGroupRequest_ok version s \<longleftrightarrow>
     \<not> (version < 0 \<or> version > 5) \<and>
     (if version \<ge> 4
       then string_ok (2 ^ 32 - 2) (Some (lvrq_group_id s))
       else string_ok 32767 (Some (lvrq_group_id s))) \<and>
     (if version \<le> 2 then string_ok 32767 (Some (lvrq_member_id s)) else lvrq_member_id s = []) \<and>
     (if version \<ge> 3
       then if version \<ge> 4
             then seq_ok (2 ^ 32 - 2) (MemberIdentity_ok version) (Some (lvrq_members s))
             else seq_ok (2 ^ 31 - 1) (MemberIdentity_ok version) (Some (lvrq_members s))
       else lvrq_members s = []) \<and>
     (if version \<ge> 4 then tags_ok 0 (lvrq_unknown_tagged_fields s) else lvrq_unknown_tagged_fields s = [])"

lemma LeaveGroupRequest_codec [coded_intros]:
  "sized_codec (\<lambda>s. LeaveGroupRequest_encode s version) (LeaveGroupRequest_decode version)
     (\<lambda>s. LeaveGroupRequest_compute_size s version) (LeaveGroupRequest_ok version)"
  unfolding LeaveGroupRequest_encode_def LeaveGroupRequest_decode_def LeaveGroupRequest_compute_size_def
  by (rule sized_codecI) (rule coded_intros | (simp add: LeaveGroupRequest_ok_def; fail))+

lemmas LeaveGroupRequest_coded [coded_intros] = sized_codec.codes [OF LeaveGroupRequest_codec]

definition MemberResponse_encode :: "member_response \<Rightarrow> i16 \<Rightarrow> wire_error + bytes" where
  "MemberResponse_encode s version =
     (if version < 0 \<or> version > 5 then Inl UNSUPPORTED_VERSION
      else puts
        [if version \<ge> 3
          then if version \<ge> 4
                then CompactString_encode (Some (memrs_member_id s))
                else String_encode (Some (memrs_member_id s))
          else unset [] (memrs_member_id s = []),
         if version \<ge> 3
          then if version \<ge> 4
                then CompactString_encode (memrs_group_instance_id s)
                else String_encode (memrs_group_instance_id s)
          else unset [] (memrs_group_instance_id s = Some []),
         if version \<ge> 3
          then Inr (Int16_encode (memrs_error_code s))
          else unset [] (memrs_error_code s = 0),
         if version \<ge> 4 then put_tags [] 0 (memrs_unknown_tagged_fields s) else Inr []])"

definition MemberResponse_compute_size :: "member_response \<Rightarrow> i16 \<Rightarrow> wire_error + usize" where
  "MemberResponse_compute_size s version =
     sums
       [if version \<ge> 3
         then if version \<ge> 4
               then CompactString_compute_size (Some (memrs_member_id s))
               else String_compute_size (Some (memrs_member_id s))
         else unset 0 (memrs_member_id s = []),
        if version \<ge> 3
         then if version \<ge> 4
               then CompactString_compute_size (memrs_group_instance_id s)
               else String_compute_size (memrs_group_instance_id s)
         else unset 0 (memrs_group_instance_id s = Some []),
        if version \<ge> 3 then Inr 2 else unset 0 (memrs_error_code s = 0),
        if version \<ge> 4 then tags_size [] (memrs_unknown_tagged_fields s) else Inr 0]"

definition MemberResponse_decode :: "i16 \<Rightarrow> member_response decoder" where
  "MemberResponse_decode version =
     (if version < 0 \<or> version > 5 then refuse UNSUPPORTED_VERSION
      else
        get (if version \<ge> 3
              then if version \<ge> 4 then CompactString_required else String_required
              else give []) (\<lambda>member_id.
        get (if version \<ge> 3
              then if version \<ge> 4 then CompactString_decode else String_decode
              else give (Some [])) (\<lambda>group_instance_id.
        get (if version \<ge> 3 then Int16_decode else give 0) (\<lambda>error_code.
        get (if version \<ge> 4 then get_unknown_tags else give []) (\<lambda>unknown_tagged_fields.
        give \<lparr>memrs_member_id = member_id, memrs_group_instance_id = group_instance_id,
               memrs_error_code = error_code, memrs_unknown_tagged_fields = unknown_tagged_fields\<rparr>)))))"

definition MemberResponse_ok :: "i16 \<Rightarrow> member_response \<Rightarrow> bool" where
  "MemberResponse_ok version s \<longleftrightarrow>
     \<not> (version < 0 \<or> version > 5) \<and>
     (if version \<ge> 3
       then if version \<ge> 4
             then string_ok (2 ^ 32 - 2) (Some (memrs_member_id s))
             else string_ok 32767 (Some (memrs_member_id s))
       else memrs_member_id s = []) \<and>
     (if version \<ge> 3
       then if version \<ge> 4
             then string_ok (2 ^ 32 - 2) (memrs_group_instance_id s)
             else string_ok 32767 (memrs_group_instance_id s)
       else memrs_group_instance_id s = Some []) \<and>
     (if version \<ge> 3 then in_i16 (memrs_error_code s) else memrs_error_code s = 0) \<and>
     (if version \<ge> 4 then tags_ok 0 (memrs_unknown_tagged_fields s) else memrs_unknown_tagged_fields s = [])"

lemma MemberResponse_codec [coded_intros]:
  "sized_codec (\<lambda>s. MemberResponse_encode s version) (MemberResponse_decode version)
     (\<lambda>s. MemberResponse_compute_size s version) (MemberResponse_ok version)"
  unfolding MemberResponse_encode_def MemberResponse_decode_def MemberResponse_compute_size_def
  by (rule sized_codecI) (rule coded_intros | (simp add: MemberResponse_ok_def; fail))+

lemmas MemberResponse_coded [coded_intros] = sized_codec.codes [OF MemberResponse_codec]

definition LeaveGroupResponse_encode :: "leave_group_response \<Rightarrow> i16 \<Rightarrow> wire_error + bytes" where
  "LeaveGroupResponse_encode s version =
     (if version < 0 \<or> version > 5 then Inl UNSUPPORTED_VERSION
      else puts
        [if version \<ge> 1 then Inr (Int32_encode (lvrs_throttle_time_ms s)) else Inr [],
         Inr (Int16_encode (lvrs_error_code s)),
         if version \<ge> 3
          then if version \<ge> 4
                then CompactArray_encode (\<lambda>x. MemberResponse_encode x version) (Some (lvrs_members s))
                else Array_encode (\<lambda>x. MemberResponse_encode x version) (Some (lvrs_members s))
          else unset [] (lvrs_members s = []),
         if version \<ge> 4 then put_tags [] 0 (lvrs_unknown_tagged_fields s) else Inr []])"

definition LeaveGroupResponse_compute_size :: "leave_group_response \<Rightarrow> i16 \<Rightarrow> wire_error + usize" where
  "LeaveGroupResponse_compute_size s version =
     sums
       [if version \<ge> 1 then Inr 4 else Inr 0,
        Inr 2,
        if version \<ge> 3
         then if version \<ge> 4
               then CompactArray_compute_size None (\<lambda>x. MemberResponse_compute_size x version) (Some (lvrs_members s))
               else Array_compute_size None (\<lambda>x. MemberResponse_compute_size x version) (Some (lvrs_members s))
         else unset 0 (lvrs_members s = []),
        if version \<ge> 4 then tags_size [] (lvrs_unknown_tagged_fields s) else Inr 0]"

definition LeaveGroupResponse_decode :: "i16 \<Rightarrow> leave_group_response decoder" where
  "LeaveGroupResponse_decode version =
     (if version < 0 \<or> version > 5 then refuse UNSUPPORTED_VERSION
      else
        get (if version \<ge> 1 then Int32_decode else give 0) (\<lambda>throttle_time_ms.
        get Int16_decode (\<lambda>error_code.
        get (if version \<ge> 3
              then if version \<ge> 4
                    then CompactArray_required (MemberResponse_decode version)
                    else Array_required (MemberResponse_decode version)
              else give []) (\<lambda>members.
        get (if version \<ge> 4 then get_unknown_tags else give []) (\<lambda>unknown_tagged_fields.
        give \<lparr>lvrs_throttle_time_ms = throttle_time_ms, lvrs_error_code = error_code,
               lvrs_members = members, lvrs_unknown_tagged_fields = unknown_tagged_fields\<rparr>)))))"

definition LeaveGroupResponse_ok :: "i16 \<Rightarrow> leave_group_response \<Rightarrow> bool" where
  "LeaveGroupResponse_ok version s \<longleftrightarrow>
     \<not> (version < 0 \<or> version > 5) \<and>
     (if version \<ge> 1 then in_i32 (lvrs_throttle_time_ms s) else lvrs_throttle_time_ms s = 0) \<and>
     in_i16 (lvrs_error_code s) \<and>
     (if version \<ge> 3
       then if version \<ge> 4
             then seq_ok (2 ^ 32 - 2) (MemberResponse_ok version) (Some (lvrs_members s))
             else seq_ok (2 ^ 31 - 1) (MemberResponse_ok version) (Some (lvrs_members s))
       else lvrs_members s = []) \<and>
     (if version \<ge> 4 then tags_ok 0 (lvrs_unknown_tagged_fields s) else lvrs_unknown_tagged_fields s = [])"

lemma LeaveGroupResponse_codec [coded_intros]:
  "sized_codec (\<lambda>s. LeaveGroupResponse_encode s version) (LeaveGroupResponse_decode version)
     (\<lambda>s. LeaveGroupResponse_compute_size s version) (LeaveGroupResponse_ok version)"
  unfolding LeaveGroupResponse_encode_def LeaveGroupResponse_decode_def LeaveGroupResponse_compute_size_def
  by (rule sized_codecI) (rule coded_intros | (simp add: LeaveGroupResponse_ok_def; fail))+

lemmas LeaveGroupResponse_coded [coded_intros] = sized_codec.codes [OF LeaveGroupResponse_codec]

end
