(* ===== verification/Codec_Groups.thy ===== *)
theory Codec_Groups
  imports Message_Codec Messages_Group
begin

text \<open>
  The codecs of the messages list groups, describe groups, offset commit, offset fetch
  (\<open>src/crates/kafka-protocol/src/messages/\<close>): the encoder, the size computation and the decoder of every structure,
  for every version of its schema, what a structure must satisfy to be sent in a version, and that it then comes back.
\<close>

section \<open>List groups\<close>

definition ListGroupsRequest_encode :: "list_groups_request \<Rightarrow> i16 \<Rightarrow> wire_error + bytes" where
  "ListGroupsRequest_encode s version =
     (if version < 0 \<or> version > 5 then Inl UNSUPPORTED_VERSION
      else puts
        [if version \<ge> 4
          then CompactArray_encode (\<lambda>x. CompactString_encode (Some x)) (Some (lsrq_states_filter s))
          else unset [] (lsrq_states_filter s = []),
         if version \<ge> 5
          then CompactArray_encode (\<lambda>x. CompactString_encode (Some x)) (Some (lsrq_types_filter s))
          else unset [] (lsrq_types_filter s = []),
         if version \<ge> 3 then put_tags [] 0 (lsrq_unknown_tagged_fields s) else Inr []])"

definition ListGroupsRequest_compute_size :: "list_groups_request \<Rightarrow> i16 \<Rightarrow> wire_error + usize" where
  "ListGroupsRequest_compute_size s version =
     sums
       [if version \<ge> 4
         then CompactArray_compute_size None (\<lambda>x. CompactString_compute_size (Some x)) (Some (lsrq_states_filter s))
         else unset 0 (lsrq_states_filter s = []),
        if version \<ge> 5
         then CompactArray_compute_size None (\<lambda>x. CompactString_compute_size (Some x)) (Some (lsrq_types_filter s))
         else unset 0 (lsrq_types_filter s = []),
        if version \<ge> 3 then tags_size [] (lsrq_unknown_tagged_fields s) else Inr 0]"

definition ListGroupsRequest_decode :: "i16 \<Rightarrow> list_groups_request decoder" where
  "ListGroupsRequest_decode version =
     (if version < 0 \<or> version > 5 then refuse UNSUPPORTED_VERSION
      else
        get (if version \<ge> 4 then CompactArray_required CompactString_required else give []) (\<lambda>states_filter.
        get (if version \<ge> 5 then CompactArray_required CompactString_required else give []) (\<lambda>types_filter.
        get (if version \<ge> 3 then get_unknown_tags else give []) (\<lambda>unknown_tagged_fields.
        give \<lparr>lsrq_states_filter = states_filter, lsrq_types_filter = types_filter,
               lsrq_unknown_tagged_fields = unknown_tagged_fields\<rparr>))))"

definition ListGroupsRequest_ok :: "i16 \<Rightarrow> list_groups_request \<Rightarrow> bool" where
  "ListGroupsRequest_ok version s \<longleftrightarrow>
     \<not> (version < 0 \<or> version > 5) \<and>
     (if version \<ge> 4
       then seq_ok (2 ^ 32 - 2) (\<lambda>x. string_ok (2 ^ 32 - 2) (Some x)) (Some (lsrq_states_filter s))
       else lsrq_states_filter s = []) \<and>
     (if version \<ge> 5
       then seq_ok (2 ^ 32 - 2) (\<lambda>x. string_ok (2 ^ 32 - 2) (Some x)) (Some (lsrq_types_filter s))
       else lsrq_types_filter s = []) \<and>
     (if version \<ge> 3 then tags_ok 0 (lsrq_unknown_tagged_fields s) else lsrq_unknown_tagged_fields s = [])"

lemma ListGroupsRequest_codec [coded_intros]:
  "sized_codec (\<lambda>s. ListGroupsRequest_encode s version) (ListGroupsRequest_decode version)
     (\<lambda>s. ListGroupsRequest_compute_size s version) (ListGroupsRequest_ok version)"
  unfolding ListGroupsRequest_encode_def ListGroupsRequest_decode_def ListGroupsRequest_compute_size_def
  by (rule sized_codecI) (rule coded_intros | (clarsimp simp: ListGroupsRequest_ok_def; fail))+

lemmas ListGroupsRequest_coded [coded_intros] = sized_codec.codes [OF ListGroupsRequest_codec]

definition ListedGroup_encode :: "listed_group \<Rightarrow> i16 \<Rightarrow> wire_error + bytes" where
  "ListedGroup_encode s version =
     (if version < 0 \<or> version > 5 then Inl UNSUPPORTED_VERSION
      else puts
        [if version \<ge> 3
          then CompactString_encode (Some (listed_group_id s))
          else String_encode (Some (listed_group_id s)),
         if version \<ge> 3
          then CompactString_encode (Some (listed_protocol_type s))
          else String_encode (Some (listed_protocol_type s)),
         if version \<ge> 4 then CompactString_encode (Some (listed_group_state s)) else Inr [],
         if version \<ge> 5 then CompactString_encode (Some (listed_group_type s)) else Inr [],
         if version \<ge> 3 then put_tags [] 0 (listed_unknown_tagged_fields s) else Inr []])"

definition ListedGroup_compute_size :: "listed_group \<Rightarrow> i16 \<Rightarrow> wire_error + usize" where
  "ListedGroup_compute_size s version =
     sums
       [if version \<ge> 3
         then CompactString_compute_size (Some (listed_group_id s))
         else String_compute_size (Some (listed_group_id s)),
        if version \<ge> 3
         then CompactString_compute_size (Some (listed_protocol_type s))
         else String_compute_size (Some (listed_protocol_type s)),
        if version \<ge> 4 then CompactString_compute_size (Some (listed_group_state s)) else Inr 0,
        if version \<ge> 5 then CompactString_compute_size (Some (listed_group_type s)) else Inr 0,
        if version \<ge> 3 then tags_size [] (listed_unknown_tagged_fields s) else Inr 0]"

definition ListedGroup_decode :: "i16 \<Rightarrow> listed_group decoder" where
  "ListedGroup_decode version =
     (if version < 0 \<or> version > 5 then refuse UNSUPPORTED_VERSION
      else
        get (if version \<ge> 3 then CompactString_required else String_required) (\<lambda>group_id.
        get (if version \<ge> 3 then CompactString_required else String_required) (\<lambda>protocol_type.
        get (if version \<ge> 4 then CompactString_required else give []) (\<lambda>group_state.
        get (if version \<ge> 5 then CompactString_required else give []) (\<lambda>group_type.
        get (if version \<ge> 3 then get_unknown_tags else give []) (\<lambda>unknown_tagged_fields.
        give \<lparr>listed_group_id = group_id, listed_protocol_type = protocol_type,
               listed_group_state = group_state, listed_group_type = group_type,
               listed_unknown_tagged_fields = unknown_tagged_fields\<rparr>))))))"

definition ListedGroup_ok :: "i16 \<Rightarrow> listed_group \<Rightarrow> bool" where
  "ListedGroup_ok version s \<longleftrightarrow>
     \<not> (version < 0 \<or> version > 5) \<and>
     (if version \<ge> 3
       then string_ok (2 ^ 32 - 2) (Some (listed_group_id s))
       else string_ok 32767 (Some (listed_group_id s))) \<and>
     (if version \<ge> 3
       then string_ok (2 ^ 32 - 2) (Some (listed_protocol_type s))
       else string_ok 32767 (Some (listed_protocol_type s))) \<and>
     (if version \<ge> 4
       then string_ok (2 ^ 32 - 2) (Some (listed_group_state s))
       else listed_group_state s = []) \<and>
     (if version \<ge> 5
       then string_ok (2 ^ 32 - 2) (Some (listed_group_type s))
       else listed_group_type s = []) \<and>
     (if version \<ge> 3 then tags_ok 0 (listed_unknown_tagged_fields s) else listed_unknown_tagged_fields s = [])"

lemma ListedGroup_codec [coded_intros]:
  "sized_codec (\<lambda>s. ListedGroup_encode s version) (ListedGroup_decode version)
     (\<lambda>s. ListedGroup_compute_size s version) (ListedGroup_ok version)"
  unfolding ListedGroup_encode_def ListedGroup_decode_def ListedGroup_compute_size_def
  by (rule sized_codecI) (rule coded_intros | (clarsimp simp: ListedGroup_ok_def; fail))+

lemmas ListedGroup_coded [coded_intros] = sized_codec.codes [OF ListedGroup_codec]

definition ListGroupsResponse_encode :: "list_groups_response \<Rightarrow> i16 \<Rightarrow> wire_error + bytes" where
  "ListGroupsResponse_encode s version =
     (if version < 0 \<or> version > 5 then Inl UNSUPPORTED_VERSION
      else puts
        [if version \<ge> 1 then Inr (Int32_encode (lsrs_throttle_time_ms s)) else Inr [],
         Inr (Int16_encode (lsrs_error_code s)),
         if version \<ge> 3
          then CompactArray_encode (\<lambda>x. ListedGroup_encode x version) (Some (lsrs_groups s))
          else Array_encode (\<lambda>x. ListedGroup_encode x version) (Some (lsrs_groups s)),
         if version \<ge> 3 then put_tags [] 0 (lsrs_unknown_tagged_fields s) else Inr []])"

definition ListGroupsResponse_compute_size :: "list_groups_response \<Rightarrow> i16 \<Rightarrow> wire_error + usize" where
  "ListGroupsResponse_compute_size s version =
     sums
       [if version \<ge> 1 then Inr 4 else Inr 0,
        Inr 2,
        if version \<ge> 3
         then CompactArray_compute_size None (\<lambda>x. ListedGroup_compute_size x version) (Some (lsrs_groups s))
         else Array_compute_size None (\<lambda>x. ListedGroup_compute_size x version) (Some (lsrs_groups s)),
        if version \<ge> 3 then tags_size [] (lsrs_unknown_tagged_fields s) else Inr 0]"

definition ListGroupsResponse_decode :: "i16 \<Rightarrow> list_groups_response decoder" where
  "ListGroupsResponse_decode version =
     (if version < 0 \<or> version > 5 then refuse UNSUPPORTED_VERSION
      else
        get (if version \<ge> 1 then Int32_decode else give 0) (\<lambda>throttle_time_ms.
        get Int16_decode (\<lambda>error_code.
        get (if version \<ge> 3
              then CompactArray_required (ListedGroup_decode version)
              else Array_required (ListedGroup_decode version)) (\<lambda>groups.
        get (if version \<ge> 3 then get_unknown_tags else give []) (\<lambda>unknown_tagged_fields.
        give \<lparr>lsrs_throttle_time_ms = throttle_time_ms, lsrs_error_code = error_code,
               lsrs_groups = groups, lsrs_unknown_tagged_fields = unknown_tagged_fields\<rparr>)))))"

definition ListGroupsResponse_ok :: "i16 \<Rightarrow> list_groups_response \<Rightarrow> bool" where
  "ListGroupsResponse_ok version s \<longleftrightarrow>
     \<not> (version < 0 \<or> version > 5) \<and>
     (if version \<ge> 1 then in_i32 (lsrs_throttle_time_ms s) else lsrs_throttle_time_ms s = 0) \<and>
     in_i16 (lsrs_error_code s) \<and>
     (if version \<ge> 3
       then seq_ok (2 ^ 32 - 2) (ListedGroup_ok version) (Some (lsrs_groups s))
       else seq_ok (2 ^ 31 - 1) (ListedGroup_ok version) (Some (lsrs_groups s))) \<and>
     (if version \<ge> 3 then tags_ok 0 (lsrs_unknown_tagged_fields s) else lsrs_unknown_tagged_fields s = [])"

lemma ListGroupsResponse_codec [coded_intros]:
  "sized_codec (\<lambda>s. ListGroupsResponse_encode s version) (ListGroupsResponse_decode version)
     (\<lambda>s. ListGroupsResponse_compute_size s version) (ListGroupsResponse_ok version)"
  unfolding ListGroupsResponse_encode_def ListGroupsResponse_decode_def ListGroupsResponse_compute_size_def
  by (rule sized_codecI) (rule coded_intros | (simp add: ListGroupsResponse_ok_def; fail))+

lemmas ListGroupsResponse_coded [coded_intros] = sized_codec.codes [OF ListGroupsResponse_codec]

section \<open>Describe groups\<close>

definition DescribeGroupsRequest_encode :: "describe_groups_request \<Rightarrow> i16 \<Rightarrow> wire_error + bytes" where
  "DescribeGroupsRequest_encode s version =
     (if version < 0 \<or> version > 6 then Inl UNSUPPORTED_VERSION
      else puts
        [if version \<ge> 5
          then CompactArray_encode (\<lambda>x. CompactString_encode (Some x)) (Some (dgrq_groups s))
          else Array_encode (\<lambda>x. String_encode (Some x)) (Some (dgrq_groups s)),
         if version \<ge> 3
          then Inr (Boolean_encode (dgrq_include_authorized_operations s))
          else unset [] (\<not> dgrq_include_authorized_operations s),
         if version \<ge> 5 then put_tags [] 0 (dgrq_unknown_tagged_fields s) else Inr []])"

definition DescribeGroupsRequest_compute_size :: "describe_groups_request \<Rightarrow> i16 \<Rightarrow> wire_error + usize" where
  "DescribeGroupsRequest_compute_size s version =
     sums
       [if version \<ge> 5
         then CompactArray_compute_size None (\<lambda>x. CompactString_compute_size (Some x)) (Some (dgrq_groups s))
         else Array_compute_size None (\<lambda>x. String_compute_size (Some x)) (Some (dgrq_groups s)),
        if version \<ge> 3 then Inr 1 else unset 0 (\<not> dgrq_include_authorized_operations s),
        if version \<ge> 5 then tags_size [] (dgrq_unknown_tagged_fields s) else Inr 0]"

definition DescribeGroupsRequest_decode :: "i16 \<Rightarrow> describe_groups_request decoder" where
  "DescribeGroupsRequest_decode version =
     (if version < 0 \<or> version > 6 then refuse UNSUPPORTED_VERSION
      else
        get (if version \<ge> 5
              then CompactArray_required CompactString_required
              else Array_required String_required) (\<lambda>groups.
        get (if version \<ge> 3 then Boolean_decode else give False) (\<lambda>include_authorized_operations.
        get (if version \<ge> 5 then get_unknown_tags else give []) (\<lambda>unknown_tagged_fields.
        give \<lparr>dgrq_groups = groups,
               dgrq_include_authorized_operations = include_authorized_operations,
               dgrq_unknown_tagged_fields = unknown_tagged_fields\<rparr>))))"

definition DescribeGroupsRequest_ok :: "i16 \<Rightarrow> describe_groups_request \<Rightarrow> bool" where
  "DescribeGroupsRequest_ok version s \<longleftrightarrow>
     \<not> (version < 0 \<or> version > 6) \<and>
     (if version \<ge> 5
       then seq_ok (2 ^ 32 - 2) (\<lambda>x. string_ok (2 ^ 32 - 2) (Some x)) (Some (dgrq_groups s))
       else seq_ok (2 ^ 31 - 1) (\<lambda>x. string_ok 32767 (Some x)) (Some (dgrq_groups s))) \<and>
     (if version \<ge> 3 then True else \<not> dgrq_include_authorized_operations s) \<and>
     (if version \<ge> 5 then tags_ok 0 (dgrq_unknown_tagged_fields s) else dgrq_unknown_tagged_fields s = [])"

lemma DescribeGroupsRequest_codec [coded_intros]:
  "sized_codec (\<lambda>s. DescribeGroupsRequest_encode s version) (DescribeGroupsRequest_decode version)
     (\<lambda>s. DescribeGroupsRequest_compute_size s version) (DescribeGroupsRequest_ok version)"
  unfolding DescribeGroupsRequest_encode_def DescribeGroupsRequest_decode_def DescribeGroupsRequest_compute_size_def
  by (rule sized_codecI) (rule coded_intros | (simp add: DescribeGroupsRequest_ok_def; fail))+

lemmas DescribeGroupsRequest_coded [coded_intros] = sized_codec.codes [OF DescribeGroupsRequest_codec]

definition DescribedGroupMember_encode :: "described_group_member \<Rightarrow> i16 \<Rightarrow> wire_error + bytes" where
  "DescribedGroupMember_encode s version =
     (if version < 0 \<or> version > 6 then Inl UNSUPPORTED_VERSION
      else puts
        [if version \<ge> 5
          then CompactString_encode (Some (dgm_member_id s))
          else String_encode (Some (dgm_member_id s)),
         if version \<ge> 4
          then if version \<ge> 5
                then CompactString_encode (dgm_group_instance_id s)
                else String_encode (dgm_group_instance_id s)
          else Inr [],
         if version \<ge> 5
          then CompactString_encode (Some (dgm_client_id s))
          else String_encode (Some (dgm_client_id s)),
         if version \<ge> 5
          then CompactString_encode (Some (dgm_client_host s))
          else String_encode (Some (dgm_client_host s)),
         if version \<ge> 5
          then CompactBytes_encode (Some (dgm_member_metadata s))
          else Bytes_encode (Some (dgm_member_metadata s)),
         if version \<ge> 5
          then CompactBytes_encode (Some (dgm_member_assignment s))
          else Bytes_encode (Some (dgm_member_assignment s)),
         if version \<ge> 5 then put_tags [] 0 (dgm_unknown_tagged_fields s) else Inr []])"

definition DescribedGroupMember_compute_size :: "described_group_member \<Rightarrow> i16 \<Rightarrow> wire_error + usize" where
  "DescribedGroupMember_compute_size s version =
     sums
       [if version \<ge> 5
         then CompactString_compute_size (Some (dgm_member_id s))
         else String_compute_size (Some (dgm_member_id s)),
        if version \<ge> 4
         then if version \<ge> 5
               then CompactString_compute_size (dgm_group_instance_id s)
               else String_compute_size (dgm_group_instance_id s)
         else Inr 0,
        if version \<ge> 5
         then CompactString_compute_size (Some (dgm_client_id s))
         else String_compute_size (Some (dgm_client_id s)),
        if version \<ge> 5
         then CompactString_compute_size (Some (dgm_client_host s))
         else String_compute_size (Some (dgm_client_host s)),
        if version \<ge> 5
         then CompactBytes_compute_size (Some (dgm_member_metadata s))
         else Bytes_compute_size (Some (dgm_member_metadata s)),
        if version \<ge> 5
         then CompactBytes_compute_size (Some (dgm_member_assignment s))
         else Bytes_compute_size (Some (dgm_member_assignment s)),
        if version \<ge> 5 then tags_size [] (dgm_unknown_tagged_fields s) else Inr 0]"

definition DescribedGroupMember_decode :: "i16 \<Rightarrow> described_group_member decoder" where
  "DescribedGroupMember_decode version =
     (if version < 0 \<or> version > 6 then refuse UNSUPPORTED_VERSION
      else
        get (if version \<ge> 5 then CompactString_required else String_required) (\<lambda>member_id.
        get (if version \<ge> 4
              then if version \<ge> 5 then CompactString_decode else String_decode
              else give None) (\<lambda>group_instance_id.
        get (if version \<ge> 5 then CompactString_required else String_required) (\<lambda>client_id.
        get (if version \<ge> 5 then CompactString_required else String_required) (\<lambda>client_host.
        get (if version \<ge> 5 then CompactBytes_required else Bytes_required) (\<lambda>member_metadata.
        get (if version \<ge> 5 then CompactBytes_required else Bytes_required) (\<lambda>member_assignment.
        get (if version \<ge> 5 then get_unknown_tags else give []) (\<lambda>unknown_tagged_fields.
        give \<lparr>dgm_member_id = member_id, dgm_group_instance_id = group_instance_id,
               dgm_client_id = client_id, dgm_client_host = client_host,
               dgm_member_metadata = member_metadata, dgm_member_assignment = member_assignment,
               dgm_unknown_tagged_fields = unknown_tagged_fields\<rparr>))))))))"

definition DescribedGroupMember_ok :: "i16 \<Rightarrow> described_group_member \<Rightarrow> bool" where
  "DescribedGroupMember_ok version s \<longleftrightarrow>
     \<not> (version < 0 \<or> version > 6) \<and>
     (if version \<ge> 5
       then string_ok (2 ^ 32 - 2) (Some (dgm_member_id s))
       else string_ok 32767 (Some (dgm_member_id s))) \<and>
     (if version \<ge> 4
       then if version \<ge> 5
             then string_ok (2 ^ 32 - 2) (dgm_group_instance_id s)
             else string_ok 32767 (dgm_group_instance_id s)
       else dgm_group_instance_id s = None) \<and>
     (if version \<ge> 5
       then string_ok (2 ^ 32 - 2) (Some (dgm_client_id s))
       else string_ok 32767 (Some (dgm_client_id s))) \<and>
     (if version \<ge> 5
       then string_ok (2 ^ 32 - 2) (Some (dgm_client_host s))
       else string_ok 32767 (Some (dgm_client_host s))) \<and>
     (if version \<ge> 5
       then seq_ok (2 ^ 32 - 2) (\<lambda>_. True) (Some (dgm_member_metadata s))
       else seq_ok (2 ^ 31 - 1) (\<lambda>_. True) (Some (dgm_member_metadata s))) \<and>
     (if version \<ge> 5
       then seq_ok (2 ^ 32 - 2) (\<lambda>_. True) (Some (dgm_member_assignment s))
       else seq_ok (2 ^ 31 - 1) (\<lambda>_. True) (Some (dgm_member_assignment s))) \<and>
     (if version \<ge> 5 then tags_ok 0 (dgm_unknown_tagged_fields s) else dgm_unknown_tagged_fields s = [])"

lemma DescribedGroupMember_codec [coded_intros]:
  "sized_codec (\<lambda>s. DescribedGroupMember_encode s version) (DescribedGroupMember_decode version)
     (\<lambda>s. DescribedGroupMember_compute_size s version) (DescribedGroupMember_ok version)"
  unfolding DescribedGroupMember_encode_def DescribedGroupMember_decode_def DescribedGroupMember_compute_size_def
  by (rule sized_codecI) (rule coded_intros | (simp add: DescribedGroupMember_ok_def; fail))+

lemmas DescribedGroupMember_coded [coded_intros] = sized_codec.codes [OF DescribedGroupMember_codec]

definition DescribedGroup_encode :: "described_group \<Rightarrow> i16 \<Rightarrow> wire_error + bytes" where
  "DescribedGroup_encode s version =
     (if version < 0 \<or> version > 6 then Inl UNSUPPORTED_VERSION
      else puts
        [Inr (Int16_encode (dgroup_error_code s)),
         if version \<ge> 6
          then CompactString_encode (dgroup_error_message s)
          else unset [] (dgroup_error_message s = None),
         if version \<ge> 5
          then CompactString_encode (Some (dgroup_group_id s))
          else String_encode (Some (dgroup_group_id s)),
         if version \<ge> 5
          then CompactString_encode (Some (dgroup_group_state s))
          else String_encode (Some (dgroup_group_state s)),
         if version \<ge> 5
          then CompactString_encode (Some (dgroup_protocol_type s))
          else String_encode (Some (dgroup_protocol_type s)),
         if version \<ge> 5
          then CompactString_encode (Some (dgroup_protocol_data s))
          else String_encode (Some (dgroup_protocol_data s)),
         if version \<ge> 5
          then CompactArray_encode (\<lambda>x. DescribedGroupMember_encode x version) (Some (dgroup_members s))
          else Array_encode (\<lambda>x. DescribedGroupMember_encode x version) (Some (dgroup_members s)),
         if version \<ge> 3
          then Inr (Int32_encode (dgroup_authorized_operations s))
          else unset [] (dgroup_authorized_operations s = - 2147483648),
         if version \<ge> 5 then put_tags [] 0 (dgroup_unknown_tagged_fields s) else Inr []])"

definition DescribedGroup_compute_size :: "described_group \<Rightarrow> i16 \<Rightarrow> wire_error + usize" where
  "DescribedGroup_compute_size s version =
     sums
       [Inr 2,
        if version \<ge> 6
         then CompactString_compute_size (dgroup_error_message s)
         else unset 0 (dgroup_error_message s = None),
        if version \<ge> 5
         then CompactString_compute_size (Some (dgroup_group_id s))
         else String_compute_size (Some (dgroup_group_id s)),
        if version \<ge> 5
         then CompactString_compute_size (Some (dgroup_group_state s))
         else String_compute_size (Some (dgroup_group_state s)),
        if version \<ge> 5
         then CompactString_compute_size (Some (dgroup_protocol_type s))
         else String_compute_size (Some (dgroup_protocol_type s)),
        if version \<ge> 5
         then CompactString_compute_size (Some (dgroup_protocol_data s))
         else String_compute_size (Some (dgroup_protocol_data s)),
        if version \<ge> 5
         then CompactArray_compute_size None (\<lambda>x. DescribedGroupMember_compute_size x version) (Some (dgroup_members s))
         else Array_compute_size None (\<lambda>x. DescribedGroupMember_compute_size x version) (Some (dgroup_members s)),
        if version \<ge> 3 then Inr 4 else unset 0 (dgroup_authorized_operations s = - 2147483648),
        if version \<ge> 5 then tags_size [] (dgroup_unknown_tagged_fields s) else Inr 0]"

definition DescribedGroup_decode :: "i16 \<Rightarrow> described_group decoder" where
  "DescribedGroup_decode version =
     (if version < 0 \<or> version > 6 then refuse UNSUPPORTED_VERSION
      else
        get Int16_decode (\<lambda>error_code.
        get (if version \<ge> 6 then CompactString_decode else give None) (\<lambda>error_message.
        get (if version \<ge> 5 then CompactString_required else String_required) (\<lambda>group_id.
        get (if version \<ge> 5 then CompactString_required else String_required) (\<lambda>group_state.
        get (if version \<ge> 5 then CompactString_required else String_required) (\<lambda>protocol_type.
        get (if version \<ge> 5 then CompactString_required else String_required) (\<lambda>protocol_data.
        get (if version \<ge> 5
              then CompactArray_required (DescribedGroupMember_decode version)
              else Array_required (DescribedGroupMember_decode version)) (\<lambda>members.
        get (if version \<ge> 3 then Int32_decode else give (- 2147483648)) (\<lambda>authorized_operations.
        get (if version \<ge> 5 then get_unknown_tags else give []) (\<lambda>unknown_tagged_fields.
        give \<lparr>dgroup_error_code = error_code, dgroup_error_message = error_message,
               dgroup_group_id = group_id, dgroup_group_state = group_state,
               dgroup_protocol_type = protocol_type, dgroup_protocol_data = protocol_data,
               dgroup_members = members, dgroup_authorized_operations = authorized_operations,
               dgroup_unknown_tagged_fields = unknown_tagged_fields\<rparr>))))))))))"

definition DescribedGroup_ok :: "i16 \<Rightarrow> described_group \<Rightarrow> bool" where
  "DescribedGroup_ok version s \<longleftrightarrow>
     \<not> (version < 0 \<or> version > 6) \<and>
     in_i16 (dgroup_error_code s) \<and>
     (if version \<ge> 6
       then string_ok (2 ^ 32 - 2) (dgroup_error_message s)
       else dgroup_error_message s = None) \<and>
     (if version \<ge> 5
       then string_ok (2 ^ 32 - 2) (Some (dgroup_group_id s))
       else string_ok 32767 (Some (dgroup_group_id s))) \<and>
     (if version \<ge> 5
       then string_ok (2 ^ 32 - 2) (Some (dgroup_group_state s))
       else string_ok 32767 (Some (dgroup_group_state s))) \<and>
     (if version \<ge> 5
       then string_ok (2 ^ 32 - 2) (Some (dgroup_protocol_type s))
       else string_ok 32767 (Some (dgroup_protocol_type s))) \<and>
     (if version \<ge> 5
       then string_ok (2 ^ 32 - 2) (Some (dgroup_protocol_data s))
       else string_ok 32767 (Some (dgroup_protocol_data s))) \<and>
     (if version \<ge> 5
       then seq_ok (2 ^ 32 - 2) (DescribedGroupMember_ok version) (Some (dgroup_members s))
       else seq_ok (2 ^ 31 - 1) (DescribedGroupMember_ok version) (Some (dgroup_members s))) \<and>
     (if version \<ge> 3
       then in_i32 (dgroup_authorized_operations s)
       else dgroup_authorized_operations s = - 2147483648) \<and>
     (if version \<ge> 5 then tags_ok 0 (dgroup_unknown_tagged_fields s) else dgroup_unknown_tagged_fields s = [])"

lemma DescribedGroup_codec [coded_intros]:
  "sized_codec (\<lambda>s. DescribedGroup_encode s version) (DescribedGroup_decode version)
     (\<lambda>s. DescribedGroup_compute_size s version) (DescribedGroup_ok version)"
  unfolding DescribedGroup_encode_def DescribedGroup_decode_def DescribedGroup_compute_size_def
  by (rule sized_codecI) (rule coded_intros | (clarsimp simp: DescribedGroup_ok_def; fail))+

lemmas DescribedGroup_coded [coded_intros] = sized_codec.codes [OF DescribedGroup_codec]

definition DescribeGroupsResponse_encode :: "describe_groups_response \<Rightarrow> i16 \<Rightarrow> wire_error + bytes" where
  "DescribeGroupsResponse_encode s version =
     (if version < 0 \<or> version > 6 then Inl UNSUPPORTED_VERSION
      else puts
        [if version \<ge> 1 then Inr (Int32_encode (dgrs_throttle_time_ms s)) else Inr [],
         if version \<ge> 5
          then CompactArray_encode (\<lambda>x. DescribedGroup_encode x version) (Some (dgrs_groups s))
          else Array_encode (\<lambda>x. DescribedGroup_encode x version) (Some (dgrs_groups s)),
         if version \<ge> 5 then put_tags [] 0 (dgrs_unknown_tagged_fields s) else Inr []])"

definition DescribeGroupsResponse_compute_size :: "describe_groups_response \<Rightarrow> i16 \<Rightarrow> wire_error + usize" where
  "DescribeGroupsResponse_compute_size s version =
     sums
       [if version \<ge> 1 then Inr 4 else Inr 0,
        if version \<ge> 5
         then CompactArray_compute_size None (\<lambda>x. DescribedGroup_compute_size x version) (Some (dgrs_groups s))
         else Array_compute_size None (\<lambda>x. DescribedGroup_compute_size x version) (Some (dgrs_groups s)),
        if version \<ge> 5 then tags_size [] (dgrs_unknown_tagged_fields s) else Inr 0]"

definition DescribeGroupsResponse_decode :: "i16 \<Rightarrow> describe_groups_response decoder" where
  "DescribeGroupsResponse_decode version =
     (if version < 0 \<or> version > 6 then refuse UNSUPPORTED_VERSION
      else
        get (if version \<ge> 1 then Int32_decode else give 0) (\<lambda>throttle_time_ms.
        get (if version \<ge> 5
              then CompactArray_required (DescribedGroup_decode version)
              else Array_required (DescribedGroup_decode version)) (\<lambda>groups.
        get (if version \<ge> 5 then get_unknown_tags else give []) (\<lambda>unknown_tagged_fields.
        give \<lparr>dgrs_throttle_time_ms = throttle_time_ms, dgrs_groups = groups,
               dgrs_unknown_tagged_fields = unknown_tagged_fields\<rparr>))))"

definition DescribeGroupsResponse_ok :: "i16 \<Rightarrow> describe_groups_response \<Rightarrow> bool" where
  "DescribeGroupsResponse_ok version s \<longleftrightarrow>
     \<not> (version < 0 \<or> version > 6) \<and>
     (if version \<ge> 1 then in_i32 (dgrs_throttle_time_ms s) else dgrs_throttle_time_ms s = 0) \<and>
     (if version \<ge> 5
       then seq_ok (2 ^ 32 - 2) (DescribedGroup_ok version) (Some (dgrs_groups s))
       else seq_ok (2 ^ 31 - 1) (DescribedGroup_ok version) (Some (dgrs_groups s))) \<and>
     (if version \<ge> 5 then tags_ok 0 (dgrs_unknown_tagged_fields s) else dgrs_unknown_tagged_fields s = [])"

lemma DescribeGroupsResponse_codec [coded_intros]:
  "sized_codec (\<lambda>s. DescribeGroupsResponse_encode s version) (DescribeGroupsResponse_decode version)
     (\<lambda>s. DescribeGroupsResponse_compute_size s version) (DescribeGroupsResponse_ok version)"
  unfolding DescribeGroupsResponse_encode_def DescribeGroupsResponse_decode_def DescribeGroupsResponse_compute_size_def
  by (rule sized_codecI) (rule coded_intros | (simp add: DescribeGroupsResponse_ok_def; fail))+

lemmas DescribeGroupsResponse_coded [coded_intros] = sized_codec.codes [OF DescribeGroupsResponse_codec]

section \<open>Offset commit\<close>

definition OffsetCommitRequestPartition_encode :: "offset_commit_request_partition \<Rightarrow> i16 \<Rightarrow> wire_error + bytes" where
  "OffsetCommitRequestPartition_encode s version =
     (if version < 2 \<or> version > 10 then Inl UNSUPPORTED_VERSION
      else puts
        [Inr (Int32_encode (ocrqp_partition_index s)),
         Inr (Int64_encode (ocrqp_committed_offset s)),
         if version \<ge> 6 then Inr (Int32_encode (ocrqp_committed_leader_epoch s)) else Inr [],
         if version \<ge> 8
          then CompactString_encode (ocrqp_committed_metadata s)
          else String_encode (ocrqp_committed_metadata s),
         if version \<ge> 8 then put_tags [] 0 (ocrqp_unknown_tagged_fields s) else Inr []])"

definition OffsetCommitRequestPartition_compute_size :: "offset_commit_request_partition \<Rightarrow> i16 \<Rightarrow> wire_error + usize" where
  "OffsetCommitRequestPartition_compute_size s version =
     sums
       [Inr 4,
        Inr 8,
        if version \<ge> 6 then Inr 4 else Inr 0,
        if version \<ge> 8
         then CompactString_compute_size (ocrqp_committed_metadata s)
         else String_compute_size (ocrqp_committed_metadata s),
        if version \<ge> 8 then tags_size [] (ocrqp_unknown_tagged_fields s) else Inr 0]"

definition OffsetCommitRequestPartition_decode :: "i16 \<Rightarrow> offset_commit_request_partition decoder" where
  "OffsetCommitRequestPartition_decode version =
     (if version < 2 \<or> version > 10 then refuse UNSUPPORTED_VERSION
      else
        get Int32_decode (\<lambda>partition_index.
        get Int64_decode (\<lambda>committed_offset.
        get (if version \<ge> 6 then Int32_decode else give (- 1)) (\<lambda>committed_leader_epoch.
        get (if version \<ge> 8 then CompactString_decode else String_decode) (\<lambda>committed_metadata.
        get (if version \<ge> 8 then get_unknown_tags else give []) (\<lambda>unknown_tagged_fields.
        give \<lparr>ocrqp_partition_index = partition_index,
               ocrqp_committed_offset = committed_offset,
               ocrqp_committed_leader_epoch = committed_leader_epoch,
               ocrqp_committed_metadata = committed_metadata,
               ocrqp_unknown_tagged_fields = unknown_tagged_fields\<rparr>))))))"

definition OffsetCommitRequestPartition_ok :: "i16 \<Rightarrow> offset_commit_request_partition \<Rightarrow> bool" where
  "OffsetCommitRequestPartition_ok version s \<longleftrightarrow>
     \<not> (version < 2 \<or> version > 10) \<and>
     in_i32 (ocrqp_partition_index s) \<and>
     in_i64 (ocrqp_committed_offset s) \<and>
     (if version \<ge> 6
       then in_i32 (ocrqp_committed_leader_epoch s)
       else ocrqp_committed_leader_epoch s = - 1) \<and>
     (if version \<ge> 8
       then string_ok (2 ^ 32 - 2) (ocrqp_committed_metadata s)
       else string_ok 32767 (ocrqp_committed_metadata s)) \<and>
     (if version \<ge> 8 then tags_ok 0 (ocrqp_unknown_tagged_fields s) else ocrqp_unknown_tagged_fields s = [])"

lemma OffsetCommitRequestPartition_codec [coded_intros]:
  "sized_codec (\<lambda>s. OffsetCommitRequestPartition_encode s version) (OffsetCommitRequestPartition_decode version)
     (\<lambda>s. OffsetCommitRequestPartition_compute_size s version) (OffsetCommitRequestPartition_ok version)"
  unfolding OffsetCommitRequestPartition_encode_def OffsetCommitRequestPartition_decode_def OffsetCommitRequestPartition_compute_size_def
  by (rule sized_codecI) (rule coded_intros | (simp add: OffsetCommitRequestPartition_ok_def; fail))+

lemmas OffsetCommitRequestPartition_coded [coded_intros] = sized_codec.codes [OF OffsetCommitRequestPartition_codec]

definition OffsetCommitRequestTopic_encode :: "offset_commit_request_topic \<Rightarrow> i16 \<Rightarrow> wire_error + bytes" where
  "OffsetCommitRequestTopic_encode s version =
     (if version < 2 \<or> version > 10 then Inl UNSUPPORTED_VERSION
      else puts
        [if version \<le> 9
          then if version \<ge> 8
                then CompactString_encode (Some (ocrqt_name s))
                else String_encode (Some (ocrqt_name s))
          else Inr [],
         if version \<ge> 10 then Inr (Uuid_encode (ocrqt_topic_id s)) else Inr [],
         if version \<ge> 8
          then CompactArray_encode (\<lambda>x. OffsetCommitRequestPartition_encode x version) (Some (ocrqt_partitions s))
          else Array_encode (\<lambda>x. OffsetCommitRequestPartition_encode x version) (Some (ocrqt_partitions s)),
         if version \<ge> 8 then put_tags [] 0 (ocrqt_unknown_tagged_fields s) else Inr []])"

definition OffsetCommitRequestTopic_compute_size :: "offset_commit_request_topic \<Rightarrow> i16 \<Rightarrow> wire_error + usize" where
  "OffsetCommitRequestTopic_compute_size s version =
     sums
       [if version \<le> 9
         then if version \<ge> 8
               then CompactString_compute_size (Some (ocrqt_name s))
               else String_compute_size (Some (ocrqt_name s))
         else Inr 0,
        if version \<ge> 10 then Inr 16 else Inr 0,
        if version \<ge> 8
         then CompactArray_compute_size None (\<lambda>x. OffsetCommitRequestPartition_compute_size x version) (Some (ocrqt_partitions s))
         else Array_compute_size None (\<lambda>x. OffsetCommitRequestPartition_compute_size x version) (Some (ocrqt_partitions s)),
        if version \<ge> 8 then tags_size [] (ocrqt_unknown_tagged_fields s) else Inr 0]"

definition OffsetCommitRequestTopic_decode :: "i16 \<Rightarrow> offset_commit_request_topic decoder" where
  "OffsetCommitRequestTopic_decode version =
     (if version < 2 \<or> version > 10 then refuse UNSUPPORTED_VERSION
      else
        get (if version \<le> 9
              then if version \<ge> 8 then CompactString_required else String_required
              else give []) (\<lambda>name.
        get (if version \<ge> 10 then Uuid_decode else give nil_uuid) (\<lambda>topic_id.
        get (if version \<ge> 8
              then CompactArray_required (OffsetCommitRequestPartition_decode version)
              else Array_required (OffsetCommitRequestPartition_decode version)) (\<lambda>partitions.
        get (if version \<ge> 8 then get_unknown_tags else give []) (\<lambda>unknown_tagged_fields.
        give \<lparr>ocrqt_name = name, ocrqt_topic_id = topic_id, ocrqt_partitions = partitions,
               ocrqt_unknown_tagged_fields = unknown_tagged_fields\<rparr>)))))"

definition OffsetCommitRequestTopic_ok :: "i16 \<Rightarrow> offset_commit_request_topic \<Rightarrow> bool" where
  "OffsetCommitRequestTopic_ok version s \<longleftrightarrow>
     \<not> (version < 2 \<or> version > 10) \<and>
     (if version \<le> 9
       then if version \<ge> 8
             then string_ok (2 ^ 32 - 2) (Some (ocrqt_name s))
             else string_ok 32767 (Some (ocrqt_name s))
       else ocrqt_name s = []) \<and>
     (if version \<ge> 10 then True else ocrqt_topic_id s = nil_uuid) \<and>
     (if version \<ge> 8
       then seq_ok (2 ^ 32 - 2) (OffsetCommitRequestPartition_ok version) (Some (ocrqt_partitions s))
       else seq_ok (2 ^ 31 - 1) (OffsetCommitRequestPartition_ok version) (Some (ocrqt_partitions s))) \<and>
     (if version \<ge> 8 then tags_ok 0 (ocrqt_unknown_tagged_fields s) else ocrqt_unknown_tagged_fields s = [])"

lemma OffsetCommitRequestTopic_codec [coded_intros]:
  "sized_codec (\<lambda>s. OffsetCommitRequestTopic_encode s version) (OffsetCommitRequestTopic_decode version)
     (\<lambda>s. OffsetCommitRequestTopic_compute_size s version) (OffsetCommitRequestTopic_ok version)"
  unfolding OffsetCommitRequestTopic_encode_def OffsetCommitRequestTopic_decode_def OffsetCommitRequestTopic_compute_size_def
  by (rule sized_codecI) (rule coded_intros | (clarsimp simp: OffsetCommitRequestTopic_ok_def; fail))+

lemmas OffsetCommitRequestTopic_coded [coded_intros] = sized_codec.codes [OF OffsetCommitRequestTopic_codec]

definition OffsetCommitRequest_encode :: "offset_commit_request \<Rightarrow> i16 \<Rightarrow> wire_error + bytes" where
  "OffsetCommitRequest_encode s version =
     (if version < 2 \<or> version > 10 then Inl UNSUPPORTED_VERSION
      else puts
        [if version \<ge> 8
          then CompactString_encode (Some (ocrq_group_id s))
          else String_encode (Some (ocrq_group_id s)),
         Inr (Int32_encode (ocrq_generation_id_or_member_epoch s)),
         if version \<ge> 8
          then CompactString_encode (Some (ocrq_member_id s))
          else String_encode (Some (ocrq_member_id s)),
         if version \<ge> 7
          then if version \<ge> 8
                then CompactString_encode (ocrq_group_instance_id s)
                else String_encode (ocrq_group_instance_id s)
          else unset [] (ocrq_group_instance_id s = None),
         if version \<le> 4 then Inr (Int64_encode (ocrq_retention_time_ms s)) else Inr [],
         if version \<ge> 8
          then CompactArray_encode (\<lambda>x. OffsetCommitRequestTopic_encode x version) (Some (ocrq_topics s))
          else Array_encode (\<lambda>x. OffsetCommitRequestTopic_encode x version) (Some (ocrq_topics s)),
         if version \<ge> 8 then put_tags [] 0 (ocrq_unknown_tagged_fields s) else Inr []])"

definition OffsetCommitRequest_compute_size :: "offset_commit_request \<Rightarrow> i16 \<Rightarrow> wire_error + usize" where
  "OffsetCommitRequest_compute_size s version =
     sums
       [if version \<ge> 8
         then CompactString_compute_size (Some (ocrq_group_id s))
         else String_compute_size (Some (ocrq_group_id s)),
        Inr 4,
        if version \<ge> 8
         then CompactString_compute_size (Some (ocrq_member_id s))
         else String_compute_size (Some (ocrq_member_id s)),
        if version \<ge> 7
         then if version \<ge> 8
               then CompactString_compute_size (ocrq_group_instance_id s)
               else String_compute_size (ocrq_group_instance_id s)
         else unset 0 (ocrq_group_instance_id s = None),
        if version \<le> 4 then Inr 8 else Inr 0,
        if version \<ge> 8
         then CompactArray_compute_size None (\<lambda>x. OffsetCommitRequestTopic_compute_size x version) (Some (ocrq_topics s))
         else Array_compute_size None (\<lambda>x. OffsetCommitRequestTopic_compute_size x version) (Some (ocrq_topics s)),
        if version \<ge> 8 then tags_size [] (ocrq_unknown_tagged_fields s) else Inr 0]"

definition OffsetCommitRequest_decode :: "i16 \<Rightarrow> offset_commit_request decoder" where
  "OffsetCommitRequest_decode version =
     (if version < 2 \<or> version > 10 then refuse UNSUPPORTED_VERSION
      else
        get (if version \<ge> 8 then CompactString_required else String_required) (\<lambda>group_id.
        get Int32_decode (\<lambda>generation_id_or_member_epoch.
        get (if version \<ge> 8 then CompactString_required else String_required) (\<lambda>member_id.
        get (if version \<ge> 7
              then if version \<ge> 8 then CompactString_decode else String_decode
              else give None) (\<lambda>group_instance_id.
        get (if version \<le> 4 then Int64_decode else give (- 1)) (\<lambda>retention_time_ms.
        get (if version \<ge> 8
              then CompactArray_required (OffsetCommitRequestTopic_decode version)
              else Array_required (OffsetCommitRequestTopic_decode version)) (\<lambda>topics.
        get (if version \<ge> 8 then get_unknown_tags else give []) (\<lambda>unknown_tagged_fields.
        give \<lparr>ocrq_group_id = group_id,
               ocrq_generation_id_or_member_epoch = generation_id_or_member_epoch,
               ocrq_member_id = member_id, ocrq_group_instance_id = group_instance_id,
               ocrq_retention_time_ms = retention_time_ms, ocrq_topics = topics,
               ocrq_unknown_tagged_fields = unknown_tagged_fields\<rparr>))))))))"

definition OffsetCommitRequest_ok :: "i16 \<Rightarrow> offset_commit_request \<Rightarrow> bool" where
  "OffsetCommitRequest_ok version s \<longleftrightarrow>
     \<not> (version < 2 \<or> version > 10) \<and>
     (if version \<ge> 8
       then string_ok (2 ^ 32 - 2) (Some (ocrq_group_id s))
       else string_ok 32767 (Some (ocrq_group_id s))) \<and>
     in_i32 (ocrq_generation_id_or_member_epoch s) \<and>
     (if version \<ge> 8
       then string_ok (2 ^ 32 - 2) (Some (ocrq_member_id s))
       else string_ok 32767 (Some (ocrq_member_id s))) \<and>
     (if version \<ge> 7
       then if version \<ge> 8
             then string_ok (2 ^ 32 - 2) (ocrq_group_instance_id s)
             else string_ok 32767 (ocrq_group_instance_id s)
       else ocrq_group_instance_id s = None) \<and>
     (if version \<le> 4 then in_i64 (ocrq_retention_time_ms s) else ocrq_retention_time_ms s = - 1) \<and>
     (if version \<ge> 8
       then seq_ok (2 ^ 32 - 2) (OffsetCommitRequestTopic_ok version) (Some (ocrq_topics s))
       else seq_ok (2 ^ 31 - 1) (OffsetCommitRequestTopic_ok version) (Some (ocrq_topics s))) \<and>
     (if version \<ge> 8 then tags_ok 0 (ocrq_unknown_tagged_fields s) else ocrq_unknown_tagged_fields s = [])"

lemma OffsetCommitRequest_codec [coded_intros]:
  "sized_codec (\<lambda>s. OffsetCommitRequest_encode s version) (OffsetCommitRequest_decode version)
     (\<lambda>s. OffsetCommitRequest_compute_size s version) (OffsetCommitRequest_ok version)"
  unfolding OffsetCommitRequest_encode_def OffsetCommitRequest_decode_def OffsetCommitRequest_compute_size_def
  by (rule sized_codecI) (rule coded_intros | (simp add: OffsetCommitRequest_ok_def; fail))+

lemmas OffsetCommitRequest_coded [coded_intros] = sized_codec.codes [OF OffsetCommitRequest_codec]

definition OffsetCommitResponsePartition_encode :: "offset_commit_response_partition \<Rightarrow> i16 \<Rightarrow> wire_error + bytes" where
  "OffsetCommitResponsePartition_encode s version =
     (if version < 2 \<or> version > 10 then Inl UNSUPPORTED_VERSION
      else puts
        [Inr (Int32_encode (ocrsp_partition_index s)),
         Inr (Int16_encode (ocrsp_error_code s)),
         if version \<ge> 8 then put_tags [] 0 (ocrsp_unknown_tagged_fields s) else Inr []])"

definition OffsetCommitResponsePartition_compute_size :: "offset_commit_response_partition \<Rightarrow> i16 \<Rightarrow> wire_error + usize" where
  "OffsetCommitResponsePartition_compute_size s version =
     sums
       [Inr 4,
        Inr 2,
        if version \<ge> 8 then tags_size [] (ocrsp_unknown_tagged_fields s) else Inr 0]"

definition OffsetCommitResponsePartition_decode :: "i16 \<Rightarrow> offset_commit_response_partition decoder" where
  "OffsetCommitResponsePartition_decode version =
     (if version < 2 \<or> version > 10 then refuse UNSUPPORTED_VERSION
      else
        get Int32_decode (\<lambda>partition_index.
        get Int16_decode (\<lambda>error_code.
        get (if version \<ge> 8 then get_unknown_tags else give []) (\<lambda>unknown_tagged_fields.
        give \<lparr>ocrsp_partition_index = partition_index, ocrsp_error_code = error_code,
               ocrsp_unknown_tagged_fields = unknown_tagged_fields\<rparr>))))"

definition OffsetCommitResponsePartition_ok :: "i16 \<Rightarrow> offset_commit_response_partition \<Rightarrow> bool" where
  "OffsetCommitResponsePartition_ok version s \<longleftrightarrow>
     \<not> (version < 2 \<or> version > 10) \<and>
     in_i32 (ocrsp_partition_index s) \<and>
     in_i16 (ocrsp_error_code s) \<and>
     (if version \<ge> 8 then tags_ok 0 (ocrsp_unknown_tagged_fields s) else ocrsp_unknown_tagged_fields s = [])"

lemma OffsetCommitResponsePartition_codec [coded_intros]:
  "sized_codec (\<lambda>s. OffsetCommitResponsePartition_encode s version) (OffsetCommitResponsePartition_decode version)
     (\<lambda>s. OffsetCommitResponsePartition_compute_size s version) (OffsetCommitResponsePartition_ok version)"
  unfolding OffsetCommitResponsePartition_encode_def OffsetCommitResponsePartition_decode_def OffsetCommitResponsePartition_compute_size_def
  by (rule sized_codecI) (rule coded_intros | (simp add: OffsetCommitResponsePartition_ok_def; fail))+

lemmas OffsetCommitResponsePartition_coded [coded_intros] = sized_codec.codes [OF OffsetCommitResponsePartition_codec]

definition OffsetCommitResponseTopic_encode :: "offset_commit_response_topic \<Rightarrow> i16 \<Rightarrow> wire_error + bytes" where
  "OffsetCommitResponseTopic_encode s version =
     (if version < 2 \<or> version > 10 then Inl UNSUPPORTED_VERSION
      else puts
        [if version \<le> 9
          then if version \<ge> 8
                then CompactString_encode (Some (ocrst_name s))
                else String_encode (Some (ocrst_name s))
          else Inr [],
         if version \<ge> 10 then Inr (Uuid_encode (ocrst_topic_id s)) else Inr [],
         if version \<ge> 8
          then CompactArray_encode (\<lambda>x. OffsetCommitResponsePartition_encode x version) (Some (ocrst_partitions s))
          else Array_encode (\<lambda>x. OffsetCommitResponsePartition_encode x version) (Some (ocrst_partitions s)),
         if version \<ge> 8 then put_tags [] 0 (ocrst_unknown_tagged_fields s) else Inr []])"

definition OffsetCommitResponseTopic_compute_size :: "offset_commit_response_topic \<Rightarrow> i16 \<Rightarrow> wire_error + usize" where
  "OffsetCommitResponseTopic_compute_size s version =
     sums
       [if version \<le> 9
         then if version \<ge> 8
               then CompactString_compute_size (Some (ocrst_name s))
               else String_compute_size (Some (ocrst_name s))
         else Inr 0,
        if version \<ge> 10 then Inr 16 else Inr 0,
        if version \<ge> 8
         then CompactArray_compute_size None (\<lambda>x. OffsetCommitResponsePartition_compute_size x version) (Some (ocrst_partitions s))
         else Array_compute_size None (\<lambda>x. OffsetCommitResponsePartition_compute_size x version) (Some (ocrst_partitions s)),
        if version \<ge> 8 then tags_size [] (ocrst_unknown_tagged_fields s) else Inr 0]"

definition OffsetCommitResponseTopic_decode :: "i16 \<Rightarrow> offset_commit_response_topic decoder" where
  "OffsetCommitResponseTopic_decode version =
     (if version < 2 \<or> version > 10 then refuse UNSUPPORTED_VERSION
      else
        get (if version \<le> 9
              then if version \<ge> 8 then CompactString_required else String_required
              else give []) (\<lambda>name.
        get (if version \<ge> 10 then Uuid_decode else give nil_uuid) (\<lambda>topic_id.
        get (if version \<ge> 8
              then CompactArray_required (OffsetCommitResponsePartition_decode version)
              else Array_required (OffsetCommitResponsePartition_decode version)) (\<lambda>partitions.
        get (if version \<ge> 8 then get_unknown_tags else give []) (\<lambda>unknown_tagged_fields.
        give \<lparr>ocrst_name = name, ocrst_topic_id = topic_id, ocrst_partitions = partitions,
               ocrst_unknown_tagged_fields = unknown_tagged_fields\<rparr>)))))"

definition OffsetCommitResponseTopic_ok :: "i16 \<Rightarrow> offset_commit_response_topic \<Rightarrow> bool" where
  "OffsetCommitResponseTopic_ok version s \<longleftrightarrow>
     \<not> (version < 2 \<or> version > 10) \<and>
     (if version \<le> 9
       then if version \<ge> 8
             then string_ok (2 ^ 32 - 2) (Some (ocrst_name s))
             else string_ok 32767 (Some (ocrst_name s))
       else ocrst_name s = []) \<and>
     (if version \<ge> 10 then True else ocrst_topic_id s = nil_uuid) \<and>
     (if version \<ge> 8
       then seq_ok (2 ^ 32 - 2) (OffsetCommitResponsePartition_ok version) (Some (ocrst_partitions s))
       else seq_ok (2 ^ 31 - 1) (OffsetCommitResponsePartition_ok version) (Some (ocrst_partitions s))) \<and>
     (if version \<ge> 8 then tags_ok 0 (ocrst_unknown_tagged_fields s) else ocrst_unknown_tagged_fields s = [])"

lemma OffsetCommitResponseTopic_codec [coded_intros]:
  "sized_codec (\<lambda>s. OffsetCommitResponseTopic_encode s version) (OffsetCommitResponseTopic_decode version)
     (\<lambda>s. OffsetCommitResponseTopic_compute_size s version) (OffsetCommitResponseTopic_ok version)"
  unfolding OffsetCommitResponseTopic_encode_def OffsetCommitResponseTopic_decode_def OffsetCommitResponseTopic_compute_size_def
  by (rule sized_codecI) (rule coded_intros | (clarsimp simp: OffsetCommitResponseTopic_ok_def; fail))+

lemmas OffsetCommitResponseTopic_coded [coded_intros] = sized_codec.codes [OF OffsetCommitResponseTopic_codec]

definition OffsetCommitResponse_encode :: "offset_commit_response \<Rightarrow> i16 \<Rightarrow> wire_error + bytes" where
  "OffsetCommitResponse_encode s version =
     (if version < 2 \<or> version > 10 then Inl UNSUPPORTED_VERSION
      else puts
        [if version \<ge> 3 then Inr (Int32_encode (ocrs_throttle_time_ms s)) else Inr [],
         if version \<ge> 8
          then CompactArray_encode (\<lambda>x. OffsetCommitResponseTopic_encode x version) (Some (ocrs_topics s))
          else Array_encode (\<lambda>x. OffsetCommitResponseTopic_encode x version) (Some (ocrs_topics s)),
         if version \<ge> 8 then put_tags [] 0 (ocrs_unknown_tagged_fields s) else Inr []])"

definition OffsetCommitResponse_compute_size :: "offset_commit_response \<Rightarrow> i16 \<Rightarrow> wire_error + usize" where
  "OffsetCommitResponse_compute_size s version =
     sums
       [if version \<ge> 3 then Inr 4 else Inr 0,
        if version \<ge> 8
         then CompactArray_compute_size None (\<lambda>x. OffsetCommitResponseTopic_compute_size x version) (Some (ocrs_topics s))
         else Array_compute_size None (\<lambda>x. OffsetCommitResponseTopic_compute_size x version) (Some (ocrs_topics s)),
        if version \<ge> 8 then tags_size [] (ocrs_unknown_tagged_fields s) else Inr 0]"

definition OffsetCommitResponse_decode :: "i16 \<Rightarrow> offset_commit_response decoder" where
  "OffsetCommitResponse_decode version =
     (if version < 2 \<or> version > 10 then refuse UNSUPPORTED_VERSION
      else
        get (if version \<ge> 3 then Int32_decode else give 0) (\<lambda>throttle_time_ms.
        get (if version \<ge> 8
              then CompactArray_required (OffsetCommitResponseTopic_decode version)
              else Array_required (OffsetCommitResponseTopic_decode version)) (\<lambda>topics.
        get (if version \<ge> 8 then get_unknown_tags else give []) (\<lambda>unknown_tagged_fields.
        give \<lparr>ocrs_throttle_time_ms = throttle_time_ms, ocrs_topics = topics,
               ocrs_unknown_tagged_fields = unknown_tagged_fields\<rparr>))))"

definition OffsetCommitResponse_ok :: "i16 \<Rightarrow> offset_commit_response \<Rightarrow> bool" where
  "OffsetCommitResponse_ok version s \<longleftrightarrow>
     \<not> (version < 2 \<or> version > 10) \<and>
     (if version \<ge> 3 then in_i32 (ocrs_throttle_time_ms s) else ocrs_throttle_time_ms s = 0) \<and>
     (if version \<ge> 8
       then seq_ok (2 ^ 32 - 2) (OffsetCommitResponseTopic_ok version) (Some (ocrs_topics s))
       else seq_ok (2 ^ 31 - 1) (OffsetCommitResponseTopic_ok version) (Some (ocrs_topics s))) \<and>
     (if version \<ge> 8 then tags_ok 0 (ocrs_unknown_tagged_fields s) else ocrs_unknown_tagged_fields s = [])"

lemma OffsetCommitResponse_codec [coded_intros]:
  "sized_codec (\<lambda>s. OffsetCommitResponse_encode s version) (OffsetCommitResponse_decode version)
     (\<lambda>s. OffsetCommitResponse_compute_size s version) (OffsetCommitResponse_ok version)"
  unfolding OffsetCommitResponse_encode_def OffsetCommitResponse_decode_def OffsetCommitResponse_compute_size_def
  by (rule sized_codecI) (rule coded_intros | (simp add: OffsetCommitResponse_ok_def; fail))+

lemmas OffsetCommitResponse_coded [coded_intros] = sized_codec.codes [OF OffsetCommitResponse_codec]

section \<open>Offset fetch\<close>

definition OffsetFetchRequestTopic_encode :: "offset_fetch_request_topic \<Rightarrow> i16 \<Rightarrow> wire_error + bytes" where
  "OffsetFetchRequestTopic_encode s version =
     (if version < 1 \<or> version > 10 then Inl UNSUPPORTED_VERSION
      else puts
        [if version \<le> 7
          then if version \<ge> 6
                then CompactString_encode (Some (ofrqt_name s))
                else String_encode (Some (ofrqt_name s))
          else unset [] (ofrqt_name s = []),
         if version \<le> 7
          then if version \<ge> 6
                then CompactArray_encode (\<lambda>x. Inr (Int32_encode x)) (Some (ofrqt_partition_indexes s))
                else Array_encode (\<lambda>x. Inr (Int32_encode x)) (Some (ofrqt_partition_indexes s))
          else unset [] (ofrqt_partition_indexes s = []),
         if version \<ge> 6 then put_tags [] 0 (ofrqt_unknown_tagged_fields s) else Inr []])"

definition OffsetFetchRequestTopic_compute_size :: "offset_fetch_request_topic \<Rightarrow> i16 \<Rightarrow> wire_error + usize" where
  "OffsetFetchRequestTopic_compute_size s version =
     sums
       [if version \<le> 7
         then if version \<ge> 6
               then CompactString_compute_size (Some (ofrqt_name s))
               else String_compute_size (Some (ofrqt_name s))
         else unset 0 (ofrqt_name s = []),
        if version \<le> 7
         then if version \<ge> 6
               then CompactArray_compute_size (Some 4) (\<lambda>_. Inr 4) (Some (ofrqt_partition_indexes s))
               else Array_compute_size (Some 4) (\<lambda>_. Inr 4) (Some (ofrqt_partition_indexes s))
         else unset 0 (ofrqt_partition_indexes s = []),
        if version \<ge> 6 then tags_size [] (ofrqt_unknown_tagged_fields s) else Inr 0]"

definition OffsetFetchRequestTopic_decode :: "i16 \<Rightarrow> offset_fetch_request_topic decoder" where
  "OffsetFetchRequestTopic_decode version =
     (if version < 1 \<or> version > 10 then refuse UNSUPPORTED_VERSION
      else
        get (if version \<le> 7
              then if version \<ge> 6 then CompactString_required else String_required
              else give []) (\<lambda>name.
        get (if version \<le> 7
              then if version \<ge> 6
                    then CompactArray_required Int32_decode
                    else Array_required Int32_decode
              else give []) (\<lambda>partition_indexes.
        get (if version \<ge> 6 then get_unknown_tags else give []) (\<lambda>unknown_tagged_fields.
        give \<lparr>ofrqt_name = name, ofrqt_partition_indexes = partition_indexes,
               ofrqt_unknown_tagged_fields = unknown_tagged_fields\<rparr>))))"

definition OffsetFetchRequestTopic_ok :: "i16 \<Rightarrow> offset_fetch_request_topic \<Rightarrow> bool" where
  "OffsetFetchRequestTopic_ok version s \<longleftrightarrow>
     \<not> (version < 1 \<or> version > 10) \<and>
     (if version \<le> 7
       then if version \<ge> 6
             then string_ok (2 ^ 32 - 2) (Some (ofrqt_name s))
             else string_ok 32767 (Some (ofrqt_name s))
       else ofrqt_name s = []) \<and>
     (if version \<le> 7
       then if version \<ge> 6
             then seq_ok (2 ^ 32 - 2) in_i32 (Some (ofrqt_partition_indexes s))
             else seq_ok (2 ^ 31 - 1) in_i32 (Some (ofrqt_partition_indexes s))
       else ofrqt_partition_indexes s = []) \<and>
     (if version \<ge> 6 then tags_ok 0 (ofrqt_unknown_tagged_fields s) else ofrqt_unknown_tagged_fields s = [])"

lemma OffsetFetchRequestTopic_codec [coded_intros]:
  "sized_codec (\<lambda>s. OffsetFetchRequestTopic_encode s version) (OffsetFetchRequestTopic_decode version)
     (\<lambda>s. OffsetFetchRequestTopic_compute_size s version) (OffsetFetchRequestTopic_ok version)"
  unfolding OffsetFetchRequestTopic_encode_def OffsetFetchRequestTopic_decode_def OffsetFetchRequestTopic_compute_size_def
  by (rule sized_codecI) (rule coded_intros | (simp add: OffsetFetchRequestTopic_ok_def; fail))+

lemmas OffsetFetchRequestTopic_coded [coded_intros] = sized_codec.codes [OF OffsetFetchRequestTopic_codec]

definition OffsetFetchRequestTopics_encode :: "offset_fetch_request_topics \<Rightarrow> i16 \<Rightarrow> wire_error + bytes" where
  "OffsetFetchRequestTopics_encode s version =
     (if version < 1 \<or> version > 10 then Inl UNSUPPORTED_VERSION
      else puts
        [if version \<ge> 8 \<and> version \<le> 9 then CompactString_encode (Some (ofrqts_name s)) else Inr [],
         if version \<ge> 10 then Inr (Uuid_encode (ofrqts_topic_id s)) else Inr [],
         if version \<ge> 8
          then CompactArray_encode (\<lambda>x. Inr (Int32_encode x)) (Some (ofrqts_partition_indexes s))
          else unset [] (ofrqts_partition_indexes s = []),
         if version \<ge> 6 then put_tags [] 0 (ofrqts_unknown_tagged_fields s) else Inr []])"

definition OffsetFetchRequestTopics_compute_size :: "offset_fetch_request_topics \<Rightarrow> i16 \<Rightarrow> wire_error + usize" where
  "OffsetFetchRequestTopics_compute_size s version =
     sums
       [if version \<ge> 8 \<and> version \<le> 9 then CompactString_compute_size (Some (ofrqts_name s)) else Inr 0,
        if version \<ge> 10 then Inr 16 else Inr 0,
        if version \<ge> 8
         then CompactArray_compute_size (Some 4) (\<lambda>_. Inr 4) (Some (ofrqts_partition_indexes s))
         else unset 0 (ofrqts_partition_indexes s = []),
        if version \<ge> 6 then tags_size [] (ofrqts_unknown_tagged_fields s) else Inr 0]"

definition OffsetFetchRequestTopics_decode :: "i16 \<Rightarrow> offset_fetch_request_topics decoder" where
  "OffsetFetchRequestTopics_decode version =
     (if version < 1 \<or> version > 10 then refuse UNSUPPORTED_VERSION
      else
        get (if version \<ge> 8 \<and> version \<le> 9 then CompactString_required else give []) (\<lambda>name.
        get (if version \<ge> 10 then Uuid_decode else give nil_uuid) (\<lambda>topic_id.
        get (if version \<ge> 8 then CompactArray_required Int32_decode else give []) (\<lambda>partition_indexes.
        get (if version \<ge> 6 then get_unknown_tags else give []) (\<lambda>unknown_tagged_fields.
        give \<lparr>ofrqts_name = name, ofrqts_topic_id = topic_id,
               ofrqts_partition_indexes = partition_indexes,
               ofrqts_unknown_tagged_fields = unknown_tagged_fields\<rparr>)))))"

definition OffsetFetchRequestTopics_ok :: "i16 \<Rightarrow> offset_fetch_request_topics \<Rightarrow> bool" where
  "OffsetFetchRequestTopics_ok version s \<longleftrightarrow>
     \<not> (version < 1 \<or> version > 10) \<and>
     (if version \<ge> 8 \<and> version \<le> 9
       then string_ok (2 ^ 32 - 2) (Some (ofrqts_name s))
       else ofrqts_name s = []) \<and>
     (if version \<ge> 10 then True else ofrqts_topic_id s = nil_uuid) \<and>
     (if version \<ge> 8
       then seq_ok (2 ^ 32 - 2) in_i32 (Some (ofrqts_partition_indexes s))
       else ofrqts_partition_indexes s = []) \<and>
     (if version \<ge> 6 then tags_ok 0 (ofrqts_unknown_tagged_fields s) else ofrqts_unknown_tagged_fields s = [])"

lemma OffsetFetchRequestTopics_codec [coded_intros]:
  "sized_codec (\<lambda>s. OffsetFetchRequestTopics_encode s version) (OffsetFetchRequestTopics_decode version)
     (\<lambda>s. OffsetFetchRequestTopics_compute_size s version) (OffsetFetchRequestTopics_ok version)"
  unfolding OffsetFetchRequestTopics_encode_def OffsetFetchRequestTopics_decode_def OffsetFetchRequestTopics_compute_size_def
  by (rule sized_codecI) (rule coded_intros | (clarsimp simp: OffsetFetchRequestTopics_ok_def; fail))+

lemmas OffsetFetchRequestTopics_coded [coded_intros] = sized_codec.codes [OF OffsetFetchRequestTopics_codec]

definition OffsetFetchRequestGroup_encode :: "offset_fetch_request_group \<Rightarrow> i16 \<Rightarrow> wire_error + bytes" where
  "OffsetFetchRequestGroup_encode s version =
     (if version < 1 \<or> version > 10 then Inl UNSUPPORTED_VERSION
      else puts
        [if version \<ge> 8
          then CompactString_encode (Some (ofrqg_group_id s))
          else unset [] (ofrqg_group_id s = []),
         if version \<ge> 9 then CompactString_encode (ofrqg_member_id s) else Inr [],
         if version \<ge> 9 then Inr (Int32_encode (ofrqg_member_epoch s)) else Inr [],
         if version \<ge> 8
          then CompactArray_encode (\<lambda>x. OffsetFetchRequestTopics_encode x version) (ofrqg_topics s)
          else unset [] (ofrqg_topics s = Some []),
         if version \<ge> 6 then put_tags [] 0 (ofrqg_unknown_tagged_fields s) else Inr []])"

definition OffsetFetchRequestGroup_compute_size :: "offset_fetch_request_group \<Rightarrow> i16 \<Rightarrow> wire_error + usize" where
  "OffsetFetchRequestGroup_compute_size s version =
     sums
       [if version \<ge> 8
         then CompactString_compute_size (Some (ofrqg_group_id s))
         else unset 0 (ofrqg_group_id s = []),
        if version \<ge> 9 then CompactString_compute_size (ofrqg_member_id s) else Inr 0,
        if version \<ge> 9 then Inr 4 else Inr 0,
        if version \<ge> 8
         then CompactArray_compute_size None (\<lambda>x. OffsetFetchRequestTopics_compute_size x version) (ofrqg_topics s)
         else unset 0 (ofrqg_topics s = Some []),
        if version \<ge> 6 then tags_size [] (ofrqg_unknown_tagged_fields s) else Inr 0]"

definition OffsetFetchRequestGroup_decode :: "i16 \<Rightarrow> offset_fetch_request_group decoder" where
  "OffsetFetchRequestGroup_decode version =
     (if version < 1 \<or> version > 10 then refuse UNSUPPORTED_VERSION
      else
        get (if version \<ge> 8 then CompactString_required else give []) (\<lambda>group_id.
        get (if version \<ge> 9 then CompactString_decode else give None) (\<lambda>member_id.
        get (if version \<ge> 9 then Int32_decode else give (- 1)) (\<lambda>member_epoch.
        get (if version \<ge> 8
              then CompactArray_decode (OffsetFetchRequestTopics_decode version)
              else give (Some [])) (\<lambda>topics.
        get (if version \<ge> 6 then get_unknown_tags else give []) (\<lambda>unknown_tagged_fields.
        give \<lparr>ofrqg_group_id = group_id, ofrqg_member_id = member_id,
               ofrqg_member_epoch = member_epoch, ofrqg_topics = topics,
               ofrqg_unknown_tagged_fields = unknown_tagged_fields\<rparr>))))))"

definition OffsetFetchRequestGroup_ok :: "i16 \<Rightarrow> offset_fetch_request_group \<Rightarrow> bool" where
  "OffsetFetchRequestGroup_ok version s \<longleftrightarrow>
     \<not> (version < 1 \<or> version > 10) \<and>
     (if version \<ge> 8 then string_ok (2 ^ 32 - 2) (Some (ofrqg_group_id s)) else ofrqg_group_id s = []) \<and>
     (if version \<ge> 9 then string_ok (2 ^ 32 - 2) (ofrqg_member_id s) else ofrqg_member_id s = None) \<and>
     (if version \<ge> 9 then in_i32 (ofrqg_member_epoch s) else ofrqg_member_epoch s = - 1) \<and>
     (if version \<ge> 8
       then seq_ok (2 ^ 32 - 2) (OffsetFetchRequestTopics_ok version) (ofrqg_topics s)
       else ofrqg_topics s = Some []) \<and>
     (if version \<ge> 6 then tags_ok 0 (ofrqg_unknown_tagged_fields s) else ofrqg_unknown_tagged_fields s = [])"

lemma OffsetFetchRequestGroup_codec [coded_intros]:
  "sized_codec (\<lambda>s. OffsetFetchRequestGroup_encode s version) (OffsetFetchRequestGroup_decode version)
     (\<lambda>s. OffsetFetchRequestGroup_compute_size s version) (OffsetFetchRequestGroup_ok version)"
  unfolding OffsetFetchRequestGroup_encode_def OffsetFetchRequestGroup_decode_def OffsetFetchRequestGroup_compute_size_def
  by (rule sized_codecI) (rule coded_intros | (simp add: OffsetFetchRequestGroup_ok_def; fail))+

lemmas OffsetFetchRequestGroup_coded [coded_intros] = sized_codec.codes [OF OffsetFetchRequestGroup_codec]

definition OffsetFetchRequest_encode :: "offset_fetch_request \<Rightarrow> i16 \<Rightarrow> wire_error + bytes" where
  "OffsetFetchRequest_encode s version =
     (if version < 1 \<or> version > 10 then Inl UNSUPPORTED_VERSION
      else puts
        [if version \<le> 7
          then if version \<ge> 6
                then CompactString_encode (Some (ofrq_group_id s))
                else String_encode (Some (ofrq_group_id s))
          else unset [] (ofrq_group_id s = []),
         if version \<le> 7
          then if version \<ge> 6
                then CompactArray_encode (\<lambda>x. OffsetFetchRequestTopic_encode x version) (ofrq_topics s)
                else Array_encode (\<lambda>x. OffsetFetchRequestTopic_encode x version) (ofrq_topics s)
          else unset [] (ofrq_topics s = Some []),
         if version \<ge> 8
          then CompactArray_encode (\<lambda>x. OffsetFetchRequestGroup_encode x version) (Some (ofrq_groups s))
          else unset [] (ofrq_groups s = []),
         if version \<ge> 7
          then Inr (Boolean_encode (ofrq_require_stable s))
          else unset [] (\<not> ofrq_require_stable s),
         if version \<ge> 6 then put_tags [] 0 (ofrq_unknown_tagged_fields s) else Inr []])"

definition OffsetFetchRequest_compute_size :: "offset_fetch_request \<Rightarrow> i16 \<Rightarrow> wire_error + usize" where
  "OffsetFetchRequest_compute_size s version =
     sums
       [if version \<le> 7
         then if version \<ge> 6
               then CompactString_compute_size (Some (ofrq_group_id s))
               else String_compute_size (Some (ofrq_group_id s))
         else unset 0 (ofrq_group_id s = []),
        if version \<le> 7
         then if version \<ge> 6
               then CompactArray_compute_size None (\<lambda>x. OffsetFetchRequestTopic_compute_size x version) (ofrq_topics s)
               else Array_compute_size None (\<lambda>x. OffsetFetchRequestTopic_compute_size x version) (ofrq_topics s)
         else unset 0 (ofrq_topics s = Some []),
        if version \<ge> 8
         then CompactArray_compute_size None (\<lambda>x. OffsetFetchRequestGroup_compute_size x version) (Some (ofrq_groups s))
         else unset 0 (ofrq_groups s = []),
        if version \<ge> 7 then Inr 1 else unset 0 (\<not> ofrq_require_stable s),
        if version \<ge> 6 then tags_size [] (ofrq_unknown_tagged_fields s) else Inr 0]"

definition OffsetFetchRequest_decode :: "i16 \<Rightarrow> offset_fetch_request decoder" where
  "OffsetFetchRequest_decode version =
     (if version < 1 \<or> version > 10 then refuse UNSUPPORTED_VERSION
      else
        get (if version \<le> 7
              then if version \<ge> 6 then CompactString_required else String_required
              else give []) (\<lambda>group_id.
        get (if version \<le> 7
              then if version \<ge> 6
                    then CompactArray_decode (OffsetFetchRequestTopic_decode version)
                    else Array_decode (OffsetFetchRequestTopic_decode version)
              else give (Some [])) (\<lambda>topics.
        get (if version \<ge> 8
              then CompactArray_required (OffsetFetchRequestGroup_decode version)
              else give []) (\<lambda>groups.
        get (if version \<ge> 7 then Boolean_decode else give False) (\<lambda>require_stable.
        get (if version \<ge> 6 then get_unknown_tags else give []) (\<lambda>unknown_tagged_fields.
        give \<lparr>ofrq_group_id = group_id, ofrq_topics = topics, ofrq_groups = groups,
               ofrq_require_stable = require_stable, ofrq_unknown_tagged_fields = unknown_tagged_fields\<rparr>))))))"

definition OffsetFetchRequest_ok :: "i16 \<Rightarrow> offset_fetch_request \<Rightarrow> bool" where
  "OffsetFetchRequest_ok version s \<longleftrightarrow>
     \<not> (version < 1 \<or> version > 10) \<and>
     (if version \<le> 7
       then if version \<ge> 6
             then string_ok (2 ^ 32 - 2) (Some (ofrq_group_id s))
             else string_ok 32767 (Some (ofrq_group_id s))
       else ofrq_group_id s = []) \<and>
     (if version \<le> 7
       then if version \<ge> 6
             then seq_ok (2 ^ 32 - 2) (OffsetFetchRequestTopic_ok version) (ofrq_topics s)
             else seq_ok (2 ^ 31 - 1) (OffsetFetchRequestTopic_ok version) (ofrq_topics s)
       else ofrq_topics s = Some []) \<and>
     (if version \<ge> 8
       then seq_ok (2 ^ 32 - 2) (OffsetFetchRequestGroup_ok version) (Some (ofrq_groups s))
       else ofrq_groups s = []) \<and>
     (if version \<ge> 7 then True else \<not> ofrq_require_stable s) \<and>
     (if version \<ge> 6 then tags_ok 0 (ofrq_unknown_tagged_fields s) else ofrq_unknown_tagged_fields s = [])"

lemma OffsetFetchRequest_codec [coded_intros]:
  "sized_codec (\<lambda>s. OffsetFetchRequest_encode s version) (OffsetFetchRequest_decode version)
     (\<lambda>s. OffsetFetchRequest_compute_size s version) (OffsetFetchRequest_ok version)"
  unfolding OffsetFetchRequest_encode_def OffsetFetchRequest_decode_def OffsetFetchRequest_compute_size_def
  by (rule sized_codecI) (rule coded_intros | (simp add: OffsetFetchRequest_ok_def; fail))+

lemmas OffsetFetchRequest_coded [coded_intros] = sized_codec.codes [OF OffsetFetchRequest_codec]

definition OffsetFetchResponsePartition_encode :: "offset_fetch_response_partition \<Rightarrow> i16 \<Rightarrow> wire_error + bytes" where
  "OffsetFetchResponsePartition_encode s version =
     (if version < 1 \<or> version > 10 then Inl UNSUPPORTED_VERSION
      else puts
        [if version \<le> 7
          then Inr (Int32_encode (ofrsp_partition_index s))
          else unset [] (ofrsp_partition_index s = 0),
         if version \<le> 7
          then Inr (Int64_encode (ofrsp_committed_offset s))
          else unset [] (ofrsp_committed_offset s = 0),
         if version \<ge> 5 \<and> version \<le> 7
          then Inr (Int32_encode (ofrsp_committed_leader_epoch s))
          else Inr [],
         if version \<le> 7
          then if version \<ge> 6
                then CompactString_encode (ofrsp_metadata s)
                else String_encode (ofrsp_metadata s)
          else unset [] (ofrsp_metadata s = Some []),
         if version \<le> 7
          then Inr (Int16_encode (ofrsp_error_code s))
          else unset [] (ofrsp_error_code s = 0),
         if version \<ge> 6 then put_tags [] 0 (ofrsp_unknown_tagged_fields s) else Inr []])"

definition OffsetFetchResponsePartition_compute_size :: "offset_fetch_response_partition \<Rightarrow> i16 \<Rightarrow> wire_error + usize" where
  "OffsetFetchResponsePartition_compute_size s version =
     sums
       [if version \<le> 7 then Inr 4 else unset 0 (ofrsp_partition_index s = 0),
        if version \<le> 7 then Inr 8 else unset 0 (ofrsp_committed_offset s = 0),
        if version \<ge> 5 \<and> version \<le> 7 then Inr 4 else Inr 0,
        if version \<le> 7
         then if version \<ge> 6
               then CompactString_compute_size (ofrsp_metadata s)
               else String_compute_size (ofrsp_metadata s)
         else unset 0 (ofrsp_metadata s = Some []),
        if version \<le> 7 then Inr 2 else unset 0 (ofrsp_error_code s = 0),
        if version \<ge> 6 then tags_size [] (ofrsp_unknown_tagged_fields s) else Inr 0]"

definition OffsetFetchResponsePartition_decode :: "i16 \<Rightarrow> offset_fetch_response_partition decoder" where
  "OffsetFetchResponsePartition_decode version =
     (if version < 1 \<or> version > 10 then refuse UNSUPPORTED_VERSION
      else
        get (if version \<le> 7 then Int32_decode else give 0) (\<lambda>partition_index.
        get (if version \<le> 7 then Int64_decode else give 0) (\<lambda>committed_offset.
        get (if version \<ge> 5 \<and> version \<le> 7 then Int32_decode else give (- 1)) (\<lambda>committed_leader_epoch.
        get (if version \<le> 7
              then if version \<ge> 6 then CompactString_decode else String_decode
              else give (Some [])) (\<lambda>metadata.
        get (if version \<le> 7 then Int16_decode else give 0) (\<lambda>error_code.
        get (if version \<ge> 6 then get_unknown_tags else give []) (\<lambda>unknown_tagged_fields.
        give \<lparr>ofrsp_partition_index = partition_index,
               ofrsp_committed_offset = committed_offset,
               ofrsp_committed_leader_epoch = committed_leader_epoch, ofrsp_metadata = metadata,
               ofrsp_error_code = error_code, ofrsp_unknown_tagged_fields = unknown_tagged_fields\<rparr>)))))))"

definition OffsetFetchResponsePartition_ok :: "i16 \<Rightarrow> offset_fetch_response_partition \<Rightarrow> bool" where
  "OffsetFetchResponsePartition_ok version s \<longleftrightarrow>
     \<not> (version < 1 \<or> version > 10) \<and>
     (if version \<le> 7 then in_i32 (ofrsp_partition_index s) else ofrsp_partition_index s = 0) \<and>
     (if version \<le> 7 then in_i64 (ofrsp_committed_offset s) else ofrsp_committed_offset s = 0) \<and>
     (if version \<ge> 5 \<and> version \<le> 7
       then in_i32 (ofrsp_committed_leader_epoch s)
       else ofrsp_committed_leader_epoch s = - 1) \<and>
     (if version \<le> 7
       then if version \<ge> 6
             then string_ok (2 ^ 32 - 2) (ofrsp_metadata s)
             else string_ok 32767 (ofrsp_metadata s)
       else ofrsp_metadata s = Some []) \<and>
     (if version \<le> 7 then in_i16 (ofrsp_error_code s) else ofrsp_error_code s = 0) \<and>
     (if version \<ge> 6 then tags_ok 0 (ofrsp_unknown_tagged_fields s) else ofrsp_unknown_tagged_fields s = [])"

lemma OffsetFetchResponsePartition_codec [coded_intros]:
  "sized_codec (\<lambda>s. OffsetFetchResponsePartition_encode s version) (OffsetFetchResponsePartition_decode version)
     (\<lambda>s. OffsetFetchResponsePartition_compute_size s version) (OffsetFetchResponsePartition_ok version)"
  unfolding OffsetFetchResponsePartition_encode_def OffsetFetchResponsePartition_decode_def OffsetFetchResponsePartition_compute_size_def
  by (rule sized_codecI) (rule coded_intros | (simp add: OffsetFetchResponsePartition_ok_def; fail))+

lemmas OffsetFetchResponsePartition_coded [coded_intros] = sized_codec.codes [OF OffsetFetchResponsePartition_codec]

definition OffsetFetchResponseTopic_encode :: "offset_fetch_response_topic \<Rightarrow> i16 \<Rightarrow> wire_error + bytes" where
  "OffsetFetchResponseTopic_encode s version =
     (if version < 1 \<or> version > 10 then Inl UNSUPPORTED_VERSION
      else puts
        [if version \<le> 7
          then if version \<ge> 6
                then CompactString_encode (Some (ofrst_name s))
                else String_encode (Some (ofrst_name s))
          else unset [] (ofrst_name s = []),
         if version \<le> 7
          then if version \<ge> 6
                then CompactArray_encode (\<lambda>x. OffsetFetchResponsePartition_encode x version) (Some (ofrst_partitions s))
                else Array_encode (\<lambda>x. OffsetFetchResponsePartition_encode x version) (Some (ofrst_partitions s))
          else unset [] (ofrst_partitions s = []),
         if version \<ge> 6 then put_tags [] 0 (ofrst_unknown_tagged_fields s) else Inr []])"

definition OffsetFetchResponseTopic_compute_size :: "offset_fetch_response_topic \<Rightarrow> i16 \<Rightarrow> wire_error + usize" where
  "OffsetFetchResponseTopic_compute_size s version =
     sums
       [if version \<le> 7
         then if version \<ge> 6
               then CompactString_compute_size (Some (ofrst_name s))
               else String_compute_size (Some (ofrst_name s))
         else unset 0 (ofrst_name s = []),
        if version \<le> 7
         then if version \<ge> 6
               then CompactArray_compute_size None (\<lambda>x. OffsetFetchResponsePartition_compute_size x version) (Some (ofrst_partitions s))
               else Array_compute_size None (\<lambda>x. OffsetFetchResponsePartition_compute_size x version) (Some (ofrst_partitions s))
         else unset 0 (ofrst_partitions s = []),
        if version \<ge> 6 then tags_size [] (ofrst_unknown_tagged_fields s) else Inr 0]"

definition OffsetFetchResponseTopic_decode :: "i16 \<Rightarrow> offset_fetch_response_topic decoder" where
  "OffsetFetchResponseTopic_decode version =
     (if version < 1 \<or> version > 10 then refuse UNSUPPORTED_VERSION
      else
        get (if version \<le> 7
              then if version \<ge> 6 then CompactString_required else String_required
              else give []) (\<lambda>name.
        get (if version \<le> 7
              then if version \<ge> 6
                    then CompactArray_required (OffsetFetchResponsePartition_decode version)
                    else Array_required (OffsetFetchResponsePartition_decode version)
              else give []) (\<lambda>partitions.
        get (if version \<ge> 6 then get_unknown_tags else give []) (\<lambda>unknown_tagged_fields.
        give \<lparr>ofrst_name = name, ofrst_partitions = partitions,
               ofrst_unknown_tagged_fields = unknown_tagged_fields\<rparr>))))"

definition OffsetFetchResponseTopic_ok :: "i16 \<Rightarrow> offset_fetch_response_topic \<Rightarrow> bool" where
  "OffsetFetchResponseTopic_ok version s \<longleftrightarrow>
     \<not> (version < 1 \<or> version > 10) \<and>
     (if version \<le> 7
       then if version \<ge> 6
             then string_ok (2 ^ 32 - 2) (Some (ofrst_name s))
             else string_ok 32767 (Some (ofrst_name s))
       else ofrst_name s = []) \<and>
     (if version \<le> 7
       then if version \<ge> 6
             then seq_ok (2 ^ 32 - 2) (OffsetFetchResponsePartition_ok version) (Some (ofrst_partitions s))
             else seq_ok (2 ^ 31 - 1) (OffsetFetchResponsePartition_ok version) (Some (ofrst_partitions s))
       else ofrst_partitions s = []) \<and>
     (if version \<ge> 6 then tags_ok 0 (ofrst_unknown_tagged_fields s) else ofrst_unknown_tagged_fields s = [])"

lemma OffsetFetchResponseTopic_codec [coded_intros]:
  "sized_codec (\<lambda>s. OffsetFetchResponseTopic_encode s version) (OffsetFetchResponseTopic_decode version)
     (\<lambda>s. OffsetFetchResponseTopic_compute_size s version) (OffsetFetchResponseTopic_ok version)"
  unfolding OffsetFetchResponseTopic_encode_def OffsetFetchResponseTopic_decode_def OffsetFetchResponseTopic_compute_size_def
  by (rule sized_codecI) (rule coded_intros | (simp add: OffsetFetchResponseTopic_ok_def; fail))+

lemmas OffsetFetchResponseTopic_coded [coded_intros] = sized_codec.codes [OF OffsetFetchResponseTopic_codec]

definition OffsetFetchResponsePartitions_encode :: "offset_fetch_response_partitions \<Rightarrow> i16 \<Rightarrow> wire_error + bytes" where
  "OffsetFetchResponsePartitions_encode s version =
     (if version < 1 \<or> version > 10 then Inl UNSUPPORTED_VERSION
      else puts
        [if version \<ge> 8
          then Inr (Int32_encode (ofrsps_partition_index s))
          else unset [] (ofrsps_partition_index s = 0),
         if version \<ge> 8
          then Inr (Int64_encode (ofrsps_committed_offset s))
          else unset [] (ofrsps_committed_offset s = 0),
         if version \<ge> 8 then Inr (Int32_encode (ofrsps_committed_leader_epoch s)) else Inr [],
         if version \<ge> 8
          then CompactString_encode (ofrsps_metadata s)
          else unset [] (ofrsps_metadata s = Some []),
         if version \<ge> 8
          then Inr (Int16_encode (ofrsps_error_code s))
          else unset [] (ofrsps_error_code s = 0),
         if version \<ge> 6 then put_tags [] 0 (ofrsps_unknown_tagged_fields s) else Inr []])"

definition OffsetFetchResponsePartitions_compute_size :: "offset_fetch_response_partitions \<Rightarrow> i16 \<Rightarrow> wire_error + usize" where
  "OffsetFetchResponsePartitions_compute_size s version =
     sums
       [if version \<ge> 8 then Inr 4 else unset 0 (ofrsps_partition_index s = 0),
        if version \<ge> 8 then Inr 8 else unset 0 (ofrsps_committed_offset s = 0),
        if version \<ge> 8 then Inr 4 else Inr 0,
        if version \<ge> 8
         then CompactString_compute_size (ofrsps_metadata s)
         else unset 0 (ofrsps_metadata s = Some []),
        if version \<ge> 8 then Inr 2 else unset 0 (ofrsps_error_code s = 0),
        if version \<ge> 6 then tags_size [] (ofrsps_unknown_tagged_fields s) else Inr 0]"

definition OffsetFetchResponsePartitions_decode :: "i16 \<Rightarrow> offset_fetch_response_partitions decoder" where
  "OffsetFetchResponsePartitions_decode version =
     (if version < 1 \<or> version > 10 then refuse UNSUPPORTED_VERSION
      else
        get (if version \<ge> 8 then Int32_decode else give 0) (\<lambda>partition_index.
        get (if version \<ge> 8 then Int64_decode else give 0) (\<lambda>committed_offset.
        get (if version \<ge> 8 then Int32_decode else give (- 1)) (\<lambda>committed_leader_epoch.
        get (if version \<ge> 8 then CompactString_decode else give (Some [])) (\<lambda>metadata.
        get (if version \<ge> 8 then Int16_decode else give 0) (\<lambda>error_code.
        get (if version \<ge> 6 then get_unknown_tags else give []) (\<lambda>unknown_tagged_fields.
        give \<lparr>ofrsps_partition_index = partition_index,
               ofrsps_committed_offset = committed_offset,
               ofrsps_committed_leader_epoch = committed_leader_epoch, ofrsps_metadata = metadata,
               ofrsps_error_code = error_code, ofrsps_unknown_tagged_fields = unknown_tagged_fields\<rparr>)))))))"

definition OffsetFetchResponsePartitions_ok :: "i16 \<Rightarrow> offset_fetch_response_partitions \<Rightarrow> bool" where
  "OffsetFetchResponsePartitions_ok version s \<longleftrightarrow>
     \<not> (version < 1 \<or> version > 10) \<and>
     (if version \<ge> 8 then in_i32 (ofrsps_partition_index s) else ofrsps_partition_index s = 0) \<and>
     (if version \<ge> 8 then in_i64 (ofrsps_committed_offset s) else ofrsps_committed_offset s = 0) \<and>
     (if version \<ge> 8
       then in_i32 (ofrsps_committed_leader_epoch s)
       else ofrsps_committed_leader_epoch s = - 1) \<and>
     (if version \<ge> 8 then string_ok (2 ^ 32 - 2) (ofrsps_metadata s) else ofrsps_metadata s = Some []) \<and>
     (if version \<ge> 8 then in_i16 (ofrsps_error_code s) else ofrsps_error_code s = 0) \<and>
     (if version \<ge> 6 then tags_ok 0 (ofrsps_unknown_tagged_fields s) else ofrsps_unknown_tagged_fields s = [])"

lemma OffsetFetchResponsePartitions_codec [coded_intros]:
  "sized_codec (\<lambda>s. OffsetFetchResponsePartitions_encode s version) (OffsetFetchResponsePartitions_decode version)
     (\<lambda>s. OffsetFetchResponsePartitions_compute_size s version) (OffsetFetchResponsePartitions_ok version)"
  unfolding OffsetFetchResponsePartitions_encode_def OffsetFetchResponsePartitions_decode_def OffsetFetchResponsePartitions_compute_size_def
  by (rule sized_codecI) (rule coded_intros | (simp add: OffsetFetchResponsePartitions_ok_def; fail))+

lemmas OffsetFetchResponsePartitions_coded [coded_intros] = sized_codec.codes [OF OffsetFetchResponsePartitions_codec]

definition OffsetFetchResponseTopics_encode :: "offset_fetch_response_topics \<Rightarrow> i16 \<Rightarrow> wire_error + bytes" where
  "OffsetFetchResponseTopics_encode s version =
     (if version < 1 \<or> version > 10 then Inl UNSUPPORTED_VERSION
      else puts
        [if version \<ge> 8 \<and> version \<le> 9 then CompactString_encode (Some (ofrsts_name s)) else Inr [],
         if version \<ge> 10 then Inr (Uuid_encode (ofrsts_topic_id s)) else Inr [],
         if version \<ge> 8
          then CompactArray_encode (\<lambda>x. OffsetFetchResponsePartitions_encode x version) (Some (ofrsts_partitions s))
          else unset [] (ofrsts_partitions s = []),
         if version \<ge> 6 then put_tags [] 0 (ofrsts_unknown_tagged_fields s) else Inr []])"

definition OffsetFetchResponseTopics_compute_size :: "offset_fetch_response_topics \<Rightarrow> i16 \<Rightarrow> wire_error + usize" where
  "OffsetFetchResponseTopics_compute_size s version =
     sums
       [if version \<ge> 8 \<and> version \<le> 9 then CompactString_compute_size (Some (ofrsts_name s)) else Inr 0,
        if version \<ge> 10 then Inr 16 else Inr 0,
        if version \<ge> 8
         then CompactArray_compute_size None (\<lambda>x. OffsetFetchResponsePartitions_compute_size x version) (Some (ofrsts_partitions s))
         else unset 0 (ofrsts_partitions s = []),
        if version \<ge> 6 then tags_size [] (ofrsts_unknown_tagged_fields s) else Inr 0]"

definition OffsetFetchResponseTopics_decode :: "i16 \<Rightarrow> offset_fetch_response_topics decoder" where
  "OffsetFetchResponseTopics_decode version =
     (if version < 1 \<or> version > 10 then refuse UNSUPPORTED_VERSION
      else
        get (if version \<ge> 8 \<and> version \<le> 9 then CompactString_required else give []) (\<lambda>name.
        get (if version \<ge> 10 then Uuid_decode else give nil_uuid) (\<lambda>topic_id.
        get (if version \<ge> 8
              then CompactArray_required (OffsetFetchResponsePartitions_decode version)
              else give []) (\<lambda>partitions.
        get (if version \<ge> 6 then get_unknown_tags else give []) (\<lambda>unknown_tagged_fields.
        give \<lparr>ofrsts_name = name, ofrsts_topic_id = topic_id, ofrsts_partitions = partitions,
               ofrsts_unknown_tagged_fields = unknown_tagged_fields\<rparr>)))))"

definition OffsetFetchResponseTopics_ok :: "i16 \<Rightarrow> offset_fetch_response_topics \<Rightarrow> bool" where
  "OffsetFetchResponseTopics_ok version s \<longleftrightarrow>
     \<not> (version < 1 \<or> version > 10) \<and>
     (if version \<ge> 8 \<and> version \<le> 9
       then string_ok (2 ^ 32 - 2) (Some (ofrsts_name s))
       else ofrsts_name s = []) \<and>
     (if version \<ge> 10 then True else ofrsts_topic_id s = nil_uuid) \<and>
     (if version \<ge> 8
       then seq_ok (2 ^ 32 - 2) (OffsetFetchResponsePartitions_ok version) (Some (ofrsts_partitions s))
       else ofrsts_partitions s = []) \<and>
     (if version \<ge> 6 then tags_ok 0 (ofrsts_unknown_tagged_fields s) else ofrsts_unknown_tagged_fields s = [])"

lemma OffsetFetchResponseTopics_codec [coded_intros]:
  "sized_codec (\<lambda>s. OffsetFetchResponseTopics_encode s version) (OffsetFetchResponseTopics_decode version)
     (\<lambda>s. OffsetFetchResponseTopics_compute_size s version) (OffsetFetchResponseTopics_ok version)"
  unfolding OffsetFetchResponseTopics_encode_def OffsetFetchResponseTopics_decode_def OffsetFetchResponseTopics_compute_size_def
  by (rule sized_codecI) (rule coded_intros | (clarsimp simp: OffsetFetchResponseTopics_ok_def; fail))+

lemmas OffsetFetchResponseTopics_coded [coded_intros] = sized_codec.codes [OF OffsetFetchResponseTopics_codec]

definition OffsetFetchResponseGroup_encode :: "offset_fetch_response_group \<Rightarrow> i16 \<Rightarrow> wire_error + bytes" where
  "OffsetFetchResponseGroup_encode s version =
     (if version < 1 \<or> version > 10 then Inl UNSUPPORTED_VERSION
      else puts
        [if version \<ge> 8
          then CompactString_encode (Some (ofrsg_group_id s))
          else unset [] (ofrsg_group_id s = []),
         if version \<ge> 8
          then CompactArray_encode (\<lambda>x. OffsetFetchResponseTopics_encode x version) (Some (ofrsg_topics s))
          else unset [] (ofrsg_topics s = []),
         if version \<ge> 8
          then Inr (Int16_encode (ofrsg_error_code s))
          else unset [] (ofrsg_error_code s = 0),
         if version \<ge> 6 then put_tags [] 0 (ofrsg_unknown_tagged_fields s) else Inr []])"

definition OffsetFetchResponseGroup_compute_size :: "offset_fetch_response_group \<Rightarrow> i16 \<Rightarrow> wire_error + usize" where
  "OffsetFetchResponseGroup_compute_size s version =
     sums
       [if version \<ge> 8
         then CompactString_compute_size (Some (ofrsg_group_id s))
         else unset 0 (ofrsg_group_id s = []),
        if version \<ge> 8
         then CompactArray_compute_size None (\<lambda>x. OffsetFetchResponseTopics_compute_size x version) (Some (ofrsg_topics s))
         else unset 0 (ofrsg_topics s = []),
        if version \<ge> 8 then Inr 2 else unset 0 (ofrsg_error_code s = 0),
        if version \<ge> 6 then tags_size [] (ofrsg_unknown_tagged_fields s) else Inr 0]"

definition OffsetFetchResponseGroup_decode :: "i16 \<Rightarrow> offset_fetch_response_group decoder" where
  "OffsetFetchResponseGroup_decode version =
     (if version < 1 \<or> version > 10 then refuse UNSUPPORTED_VERSION
      else
        get (if version \<ge> 8 then CompactString_required else give []) (\<lambda>group_id.
        get (if version \<ge> 8
              then CompactArray_required (OffsetFetchResponseTopics_decode version)
              else give []) (\<lambda>topics.
        get (if version \<ge> 8 then Int16_decode else give 0) (\<lambda>error_code.
        get (if version \<ge> 6 then get_unknown_tags else give []) (\<lambda>unknown_tagged_fields.
        give \<lparr>ofrsg_group_id = group_id, ofrsg_topics = topics, ofrsg_error_code = error_code,
               ofrsg_unknown_tagged_fields = unknown_tagged_fields\<rparr>)))))"

definition OffsetFetchResponseGroup_ok :: "i16 \<Rightarrow> offset_fetch_response_group \<Rightarrow> bool" where
  "OffsetFetchResponseGroup_ok version s \<longleftrightarrow>
     \<not> (version < 1 \<or> version > 10) \<and>
     (if version \<ge> 8 then string_ok (2 ^ 32 - 2) (Some (ofrsg_group_id s)) else ofrsg_group_id s = []) \<and>
     (if version \<ge> 8
       then seq_ok (2 ^ 32 - 2) (OffsetFetchResponseTopics_ok version) (Some (ofrsg_topics s))
       else ofrsg_topics s = []) \<and>
     (if version \<ge> 8 then in_i16 (ofrsg_error_code s) else ofrsg_error_code s = 0) \<and>
     (if version \<ge> 6 then tags_ok 0 (ofrsg_unknown_tagged_fields s) else ofrsg_unknown_tagged_fields s = [])"

lemma OffsetFetchResponseGroup_codec [coded_intros]:
  "sized_codec (\<lambda>s. OffsetFetchResponseGroup_encode s version) (OffsetFetchResponseGroup_decode version)
     (\<lambda>s. OffsetFetchResponseGroup_compute_size s version) (OffsetFetchResponseGroup_ok version)"
  unfolding OffsetFetchResponseGroup_encode_def OffsetFetchResponseGroup_decode_def OffsetFetchResponseGroup_compute_size_def
  by (rule sized_codecI) (rule coded_intros | (simp add: OffsetFetchResponseGroup_ok_def; fail))+

lemmas OffsetFetchResponseGroup_coded [coded_intros] = sized_codec.codes [OF OffsetFetchResponseGroup_codec]

definition OffsetFetchResponse_encode :: "offset_fetch_response \<Rightarrow> i16 \<Rightarrow> wire_error + bytes" where
  "OffsetFetchResponse_encode s version =
     (if version < 1 \<or> version > 10 then Inl UNSUPPORTED_VERSION
      else puts
        [if version \<ge> 3 then Inr (Int32_encode (ofrs_throttle_time_ms s)) else Inr [],
         if version \<le> 7
          then if version \<ge> 6
                then CompactArray_encode (\<lambda>x. OffsetFetchResponseTopic_encode x version) (Some (ofrs_topics s))
                else Array_encode (\<lambda>x. OffsetFetchResponseTopic_encode x version) (Some (ofrs_topics s))
          else unset [] (ofrs_topics s = []),
         if version \<ge> 2 \<and> version \<le> 7 then Inr (Int16_encode (ofrs_error_code s)) else Inr [],
         if version \<ge> 8
          then CompactArray_encode (\<lambda>x. OffsetFetchResponseGroup_encode x version) (Some (ofrs_groups s))
          else unset [] (ofrs_groups s = []),
         if version \<ge> 6 then put_tags [] 0 (ofrs_unknown_tagged_fields s) else Inr []])"

definition OffsetFetchResponse_compute_size :: "offset_fetch_response \<Rightarrow> i16 \<Rightarrow> wire_error + usize" where
  "OffsetFetchResponse_compute_size s version =
     sums
       [if version \<ge> 3 then Inr 4 else Inr 0,
        if version \<le> 7
         then if version \<ge> 6
               then CompactArray_compute_size None (\<lambda>x. OffsetFetchResponseTopic_compute_size x version) (Some (ofrs_topics s))
               else Array_compute_size None (\<lambda>x. OffsetFetchResponseTopic_compute_size x version) (Some (ofrs_topics s))
         else unset 0 (ofrs_topics s = []),
        if version \<ge> 2 \<and> version \<le> 7 then Inr 2 else Inr 0,
        if version \<ge> 8
         then CompactArray_compute_size None (\<lambda>x. OffsetFetchResponseGroup_compute_size x version) (Some (ofrs_groups s))
         else unset 0 (ofrs_groups s = []),
        if version \<ge> 6 then tags_size [] (ofrs_unknown_tagged_fields s) else Inr 0]"

definition OffsetFetchResponse_decode :: "i16 \<Rightarrow> offset_fetch_response decoder" where
  "OffsetFetchResponse_decode version =
     (if version < 1 \<or> version > 10 then refuse UNSUPPORTED_VERSION
      else
        get (if version \<ge> 3 then Int32_decode else give 0) (\<lambda>throttle_time_ms.
        get (if version \<le> 7
              then if version \<ge> 6
                    then CompactArray_required (OffsetFetchResponseTopic_decode version)
                    else Array_required (OffsetFetchResponseTopic_decode version)
              else give []) (\<lambda>topics.
        get (if version \<ge> 2 \<and> version \<le> 7 then Int16_decode else give 0) (\<lambda>error_code.
        get (if version \<ge> 8
              then CompactArray_required (OffsetFetchResponseGroup_decode version)
              else give []) (\<lambda>groups.
        get (if version \<ge> 6 then get_unknown_tags else give []) (\<lambda>unknown_tagged_fields.
        give \<lparr>ofrs_throttle_time_ms = throttle_time_ms, ofrs_topics = topics,
               ofrs_error_code = error_code, ofrs_groups = groups,
               ofrs_unknown_tagged_fields = unknown_tagged_fields\<rparr>))))))"

definition OffsetFetchResponse_ok :: "i16 \<Rightarrow> offset_fetch_response \<Rightarrow> bool" where
  "OffsetFetchResponse_ok version s \<longleftrightarrow>
     \<not> (version < 1 \<or> version > 10) \<and>
     (if version \<ge> 3 then in_i32 (ofrs_throttle_time_ms s) else ofrs_throttle_time_ms s = 0) \<and>
     (if version \<le> 7
       then if version \<ge> 6
             then seq_ok (2 ^ 32 - 2) (OffsetFetchResponseTopic_ok version) (Some (ofrs_topics s))
             else seq_ok (2 ^ 31 - 1) (OffsetFetchResponseTopic_ok version) (Some (ofrs_topics s))
       else ofrs_topics s = []) \<and>
     (if version \<ge> 2 \<and> version \<le> 7 then in_i16 (ofrs_error_code s) else ofrs_error_code s = 0) \<and>
     (if version \<ge> 8
       then seq_ok (2 ^ 32 - 2) (OffsetFetchResponseGroup_ok version) (Some (ofrs_groups s))
       else ofrs_groups s = []) \<and>
     (if version \<ge> 6 then tags_ok 0 (ofrs_unknown_tagged_fields s) else ofrs_unknown_tagged_fields s = [])"

lemma OffsetFetchResponse_codec [coded_intros]:
  "sized_codec (\<lambda>s. OffsetFetchResponse_encode s version) (OffsetFetchResponse_decode version)
     (\<lambda>s. OffsetFetchResponse_compute_size s version) (OffsetFetchResponse_ok version)"
  unfolding OffsetFetchResponse_encode_def OffsetFetchResponse_decode_def OffsetFetchResponse_compute_size_def
  by (rule sized_codecI) (rule coded_intros | (simp add: OffsetFetchResponse_ok_def; fail))+

lemmas OffsetFetchResponse_coded [coded_intros] = sized_codec.codes [OF OffsetFetchResponse_codec]

end
