(* ===== verification/Kinds.thy ===== *)
theory Kinds
  imports Api_Keys Codec_Log Codec_Topics Codec_Cluster Codec_Members Codec_Groups
begin

text \<open>
  The bodies of requests and responses by API key (\<open>RequestKind\<close> and \<open>ResponseKind\<close> of
  \<open>src/crates/kafka-protocol/src/messages.rs\<close>). There is a constructor for each API the broker serves. The bodies
  of all other keys, which the broker never looks into, are one constructor with the key; their
  codecs are the parameters \<open>other_encode\<close> and \<open>other_decode\<close>; \<open>Other_Kinds\<close> defines the decoder.
\<close>

section \<open>Bodies and their codecs\<close>

datatype request_kind =
  ProduceRequest produce_request
| FetchRequest fetch_request
| ListOffsetsRequest list_offsets_request
| MetadataRequest metadata_request
| OffsetCommitRequest offset_commit_request
| OffsetFetchRequest offset_fetch_request
| FindCoordinatorRequest find_coordinator_request
| JoinGroupRequest join_group_request
| HeartbeatRequest heartbeat_request
| LeaveGroupRequest leave_group_request
| SyncGroupRequest sync_group_request
| DescribeGroupsRequest describe_groups_request
| ListGroupsRequest list_groups_request
| ApiVersionsRequest api_versions_request
| CreateTopicsRequest create_topics_request
| InitProducerIdRequest init_producer_id_request
| DescribeConfigsRequest describe_configs_request
| DescribeClusterRequest describe_cluster_request
| DescribeTopicPartitionsRequest describe_topic_partitions_request
| OtherRequest api_key

datatype response_kind =
  ProduceResponse produce_response
| FetchResponse fetch_response
| ListOffsetsResponse list_offsets_response
| MetadataResponse metadata_response
| OffsetCommitResponse offset_commit_response
| OffsetFetchResponse offset_fetch_response
| FindCoordinatorResponse find_coordinator_response
| JoinGroupResponse join_group_response
| HeartbeatResponse heartbeat_response
| LeaveGroupResponse leave_group_response
| SyncGroupResponse sync_group_response
| DescribeGroupsResponse describe_groups_response
| ListGroupsResponse list_groups_response
| ApiVersionsResponse api_versions_response
| CreateTopicsResponse create_topics_response
| InitProducerIdResponse init_producer_id_response
| DescribeConfigsResponse describe_configs_response
| DescribeClusterResponse describe_cluster_response
| DescribeTopicPartitionsResponse describe_topic_partitions_response
| OtherResponse api_key

type_synonym other_encode = "api_key \<Rightarrow> i16 \<Rightarrow> wire_error + bytes"
type_synonym other_decode = "api_key \<Rightarrow> i16 \<Rightarrow> unit decoder"

text \<open>The API a body belongs to.\<close>

fun request_key :: "request_kind \<Rightarrow> api_key" where
  "request_key (ProduceRequest _) = Produce_key"
| "request_key (FetchRequest _) = Fetch_key"
| "request_key (ListOffsetsRequest _) = ListOffsets_key"
| "request_key (MetadataRequest _) = Metadata_key"
| "request_key (OffsetCommitRequest _) = OffsetCommit_key"
| "request_key (OffsetFetchRequest _) = OffsetFetch_key"
| "request_key (FindCoordinatorRequest _) = FindCoordinator_key"
| "request_key (JoinGroupRequest _) = JoinGroup_key"
| "request_key (HeartbeatRequest _) = Heartbeat_key"
| "request_key (LeaveGroupRequest _) = LeaveGroup_key"
| "request_key (SyncGroupRequest _) = SyncGroup_key"
| "request_key (DescribeGroupsRequest _) = DescribeGroups_key"
| "request_key (ListGroupsRequest _) = ListGroups_key"
| "request_key (ApiVersionsRequest _) = ApiVersions_key"
| "request_key (CreateTopicsRequest _) = CreateTopics_key"
| "request_key (InitProducerIdRequest _) = InitProducerId_key"
| "request_key (DescribeConfigsRequest _) = DescribeConfigs_key"
| "request_key (DescribeClusterRequest _) = DescribeCluster_key"
| "request_key (DescribeTopicPartitionsRequest _) = DescribeTopicPartitions_key"
| "request_key (OtherRequest k) = k"

fun response_key :: "response_kind \<Rightarrow> api_key" where
  "response_key (ProduceResponse _) = Produce_key"
| "response_key (FetchResponse _) = Fetch_key"
| "response_key (ListOffsetsResponse _) = ListOffsets_key"
| "response_key (MetadataResponse _) = Metadata_key"
| "response_key (OffsetCommitResponse _) = OffsetCommit_key"
| "response_key (OffsetFetchResponse _) = OffsetFetch_key"
| "response_key (FindCoordinatorResponse _) = FindCoordinator_key"
| "response_key (JoinGroupResponse _) = JoinGroup_key"
| "response_key (HeartbeatResponse _) = Heartbeat_key"
| "response_key (LeaveGroupResponse _) = LeaveGroup_key"
| "response_key (SyncGroupResponse _) = SyncGroup_key"
| "response_key (DescribeGroupsResponse _) = DescribeGroups_key"
| "response_key (ListGroupsResponse _) = ListGroups_key"
| "response_key (ApiVersionsResponse _) = ApiVersions_key"
| "response_key (CreateTopicsResponse _) = CreateTopics_key"
| "response_key (InitProducerIdResponse _) = InitProducerId_key"
| "response_key (DescribeConfigsResponse _) = DescribeConfigs_key"
| "response_key (DescribeClusterResponse _) = DescribeCluster_key"
| "response_key (DescribeTopicPartitionsResponse _) = DescribeTopicPartitions_key"
| "response_key (OtherResponse k) = k"

fun RequestKind_encode :: "other_encode \<Rightarrow> request_kind \<Rightarrow> i16 \<Rightarrow> wire_error + bytes" where
  "RequestKind_encode other (ProduceRequest x) version = ProduceRequest_encode x version"
| "RequestKind_encode other (FetchRequest x) version = FetchRequest_encode x version"
| "RequestKind_encode other (ListOffsetsRequest x) version = ListOffsetsRequest_encode x version"
| "RequestKind_encode other (MetadataRequest x) version = MetadataRequest_encode x version"
| "RequestKind_encode other (OffsetCommitRequest x) version = OffsetCommitRequest_encode x version"
| "RequestKind_encode other (OffsetFetchRequest x) version = OffsetFetchRequest_encode x version"
| "RequestKind_encode other (FindCoordinatorRequest x) version = FindCoordinatorRequest_encode x version"
| "RequestKind_encode other (JoinGroupRequest x) version = JoinGroupRequest_encode x version"
| "RequestKind_encode other (HeartbeatRequest x) version = HeartbeatRequest_encode x version"
| "RequestKind_encode other (LeaveGroupRequest x) version = LeaveGroupRequest_encode x version"
| "RequestKind_encode other (SyncGroupRequest x) version = SyncGroupRequest_encode x version"
| "RequestKind_encode other (DescribeGroupsRequest x) version = DescribeGroupsRequest_encode x version"
| "RequestKind_encode other (ListGroupsRequest x) version = ListGroupsRequest_encode x version"
| "RequestKind_encode other (ApiVersionsRequest x) version = ApiVersionsRequest_encode x version"
| "RequestKind_encode other (CreateTopicsRequest x) version = CreateTopicsRequest_encode x version"
| "RequestKind_encode other (InitProducerIdRequest x) version = InitProducerIdRequest_encode x version"
| "RequestKind_encode other (DescribeConfigsRequest x) version = DescribeConfigsRequest_encode x version"
| "RequestKind_encode other (DescribeClusterRequest x) version = DescribeClusterRequest_encode x version"
| "RequestKind_encode other (DescribeTopicPartitionsRequest x) version = DescribeTopicPartitionsRequest_encode x version"
| "RequestKind_encode other (OtherRequest k) version = other k version"

definition RequestKind_decode :: "other_decode \<Rightarrow> api_key \<Rightarrow> i16 \<Rightarrow> request_kind decoder" where
  "RequestKind_decode other key version =
     (if key = Produce_key then get (ProduceRequest_decode version) (\<lambda>x. give (ProduceRequest x))
      else if key = Fetch_key then get (FetchRequest_decode version) (\<lambda>x. give (FetchRequest x))
      else if key = ListOffsets_key then get (ListOffsetsRequest_decode version) (\<lambda>x. give (ListOffsetsRequest x))
      else if key = Metadata_key then get (MetadataRequest_decode version) (\<lambda>x. give (MetadataRequest x))
      else if key = OffsetCommit_key then get (OffsetCommitRequest_decode version) (\<lambda>x. give (OffsetCommitRequest x))
      else if key = OffsetFetch_key then get (OffsetFetchRequest_decode version) (\<lambda>x. give (OffsetFetchRequest x))
      else if key = FindCoordinator_key then get (FindCoordinatorRequest_decode version) (\<lambda>x. give (FindCoordinatorRequest x))
      else if key = JoinGroup_key then get (JoinGroupRequest_decode version) (\<lambda>x. give (JoinGroupRequest x))
      else if key = Heartbeat_key then get (HeartbeatRequest_decode version) (\<lambda>x. give (HeartbeatRequest x))
      else if key = LeaveGroup_key then get (LeaveGroupRequest_decode version) (\<lambda>x. give (LeaveGroupRequest x))
      else if key = SyncGroup_key then get (SyncGroupRequest_decode version) (\<lambda>x. give (SyncGroupRequest x))
      else if key = DescribeGroups_key then get (DescribeGroupsRequest_decode version) (\<lambda>x. give (DescribeGroupsRequest x))
      else if key = ListGroups_key then get (ListGroupsRequest_decode version) (\<lambda>x. give (ListGroupsRequest x))
      else if key = ApiVersions_key then get (ApiVersionsRequest_decode version) (\<lambda>x. give (ApiVersionsRequest x))
      else if key = CreateTopics_key then get (CreateTopicsRequest_decode version) (\<lambda>x. give (CreateTopicsRequest x))
      else if key = InitProducerId_key then get (InitProducerIdRequest_decode version) (\<lambda>x. give (InitProducerIdRequest x))
      else if key = DescribeConfigs_key then get (DescribeConfigsRequest_decode version) (\<lambda>x. give (DescribeConfigsRequest x))
      else if key = DescribeCluster_key then get (DescribeClusterRequest_decode version) (\<lambda>x. give (DescribeClusterRequest x))
      else if key = DescribeTopicPartitions_key then get (DescribeTopicPartitionsRequest_decode version) (\<lambda>x. give (DescribeTopicPartitionsRequest x))
      else get (other key version) (\<lambda>_. give (OtherRequest key)))"

fun ResponseKind_encode :: "other_encode \<Rightarrow> response_kind \<Rightarrow> i16 \<Rightarrow> wire_error + bytes" where
  "ResponseKind_encode other (ProduceResponse x) version = ProduceResponse_encode x version"
| "ResponseKind_encode other (FetchResponse x) version = FetchResponse_encode x version"
| "ResponseKind_encode other (ListOffsetsResponse x) version = ListOffsetsResponse_encode x version"
| "ResponseKind_encode other (MetadataResponse x) version = MetadataResponse_encode x version"
| "ResponseKind_encode other (OffsetCommitResponse x) version = OffsetCommitResponse_encode x version"
| "ResponseKind_encode other (OffsetFetchResponse x) version = OffsetFetchResponse_encode x version"
| "ResponseKind_encode other (FindCoordinatorResponse x) version = FindCoordinatorResponse_encode x version"
| "ResponseKind_encode other (JoinGroupResponse x) version = JoinGroupResponse_encode x version"
| "ResponseKind_encode other (HeartbeatResponse x) version = HeartbeatResponse_encode x version"
| "ResponseKind_encode other (LeaveGroupResponse x) version = LeaveGroupResponse_encode x version"
| "ResponseKind_encode other (SyncGroupResponse x) version = SyncGroupResponse_encode x version"
| "ResponseKind_encode other (DescribeGroupsResponse x) version = DescribeGroupsResponse_encode x version"
| "ResponseKind_encode other (ListGroupsResponse x) version = ListGroupsResponse_encode x version"
| "ResponseKind_encode other (ApiVersionsResponse x) version = ApiVersionsResponse_encode x version"
| "ResponseKind_encode other (CreateTopicsResponse x) version = CreateTopicsResponse_encode x version"
| "ResponseKind_encode other (InitProducerIdResponse x) version = InitProducerIdResponse_encode x version"
| "ResponseKind_encode other (DescribeConfigsResponse x) version = DescribeConfigsResponse_encode x version"
| "ResponseKind_encode other (DescribeClusterResponse x) version = DescribeClusterResponse_encode x version"
| "ResponseKind_encode other (DescribeTopicPartitionsResponse x) version = DescribeTopicPartitionsResponse_encode x version"
| "ResponseKind_encode other (OtherResponse k) version = other k version"

definition ResponseKind_decode :: "other_decode \<Rightarrow> api_key \<Rightarrow> i16 \<Rightarrow> response_kind decoder" where
  "ResponseKind_decode other key version =
     (if key = Produce_key then get (ProduceResponse_decode version) (\<lambda>x. give (ProduceResponse x))
      else if key = Fetch_key then get (FetchResponse_decode version) (\<lambda>x. give (FetchResponse x))
      else if key = ListOffsets_key then get (ListOffsetsResponse_decode version) (\<lambda>x. give (ListOffsetsResponse x))
      else if key = Metadata_key then get (MetadataResponse_decode version) (\<lambda>x. give (MetadataResponse x))
      else if key = OffsetCommit_key then get (OffsetCommitResponse_decode version) (\<lambda>x. give (OffsetCommitResponse x))
      else if key = OffsetFetch_key then get (OffsetFetchResponse_decode version) (\<lambda>x. give (OffsetFetchResponse x))
      else if key = FindCoordinator_key then get (FindCoordinatorResponse_decode version) (\<lambda>x. give (FindCoordinatorResponse x))
      else if key = JoinGroup_key then get (JoinGroupResponse_decode version) (\<lambda>x. give (JoinGroupResponse x))
      else if key = Heartbeat_key then get (HeartbeatResponse_decode version) (\<lambda>x. give (HeartbeatResponse x))
      else if key = LeaveGroup_key then get (LeaveGroupResponse_decode version) (\<lambda>x. give (LeaveGroupResponse x))
      else if key = SyncGroup_key then get (SyncGroupResponse_decode version) (\<lambda>x. give (SyncGroupResponse x))
      else if key = DescribeGroups_key then get (DescribeGroupsResponse_decode version) (\<lambda>x. give (DescribeGroupsResponse x))
      else if key = ListGroups_key then get (ListGroupsResponse_decode version) (\<lambda>x. give (ListGroupsResponse x))
      else if key = ApiVersions_key then get (ApiVersionsResponse_decode version) (\<lambda>x. give (ApiVersionsResponse x))
      else if key = CreateTopics_key then get (CreateTopicsResponse_decode version) (\<lambda>x. give (CreateTopicsResponse x))
      else if key = InitProducerId_key then get (InitProducerIdResponse_decode version) (\<lambda>x. give (InitProducerIdResponse x))
      else if key = DescribeConfigs_key then get (DescribeConfigsResponse_decode version) (\<lambda>x. give (DescribeConfigsResponse x))
      else if key = DescribeCluster_key then get (DescribeClusterResponse_decode version) (\<lambda>x. give (DescribeClusterResponse x))
      else if key = DescribeTopicPartitions_key then get (DescribeTopicPartitionsResponse_decode version) (\<lambda>x. give (DescribeTopicPartitionsResponse x))
      else get (other key version) (\<lambda>_. give (OtherResponse key)))"

section \<open>Round trip\<close>

text \<open>What a body has to satisfy in a version, and the size its message computes.\<close>

fun request_ok :: "i16 \<Rightarrow> request_kind \<Rightarrow> bool" where
  "request_ok version (ProduceRequest x) = ProduceRequest_ok version x"
| "request_ok version (FetchRequest x) = FetchRequest_ok version x"
| "request_ok version (ListOffsetsRequest x) = ListOffsetsRequest_ok version x"
| "request_ok version (MetadataRequest x) = MetadataRequest_ok version x"
| "request_ok version (OffsetCommitRequest x) = OffsetCommitRequest_ok version x"
| "request_ok version (OffsetFetchRequest x) = OffsetFetchRequest_ok version x"
| "request_ok version (FindCoordinatorRequest x) = FindCoordinatorRequest_ok version x"
| "request_ok version (JoinGroupRequest x) = JoinGroupRequest_ok version x"
| "request_ok version (HeartbeatRequest x) = HeartbeatRequest_ok version x"
| "request_ok version (LeaveGroupRequest x) = LeaveGroupRequest_ok version x"
| "request_ok version (SyncGroupRequest x) = SyncGroupRequest_ok version x"
| "request_ok version (DescribeGroupsRequest x) = DescribeGroupsRequest_ok version x"
| "request_ok version (ListGroupsRequest x) = ListGroupsRequest_ok version x"
| "request_ok version (ApiVersionsRequest x) = ApiVersionsRequest_ok version x"
| "request_ok version (CreateTopicsRequest x) = CreateTopicsRequest_ok version x"
| "request_ok version (InitProducerIdRequest x) = InitProducerIdRequest_ok version x"
| "request_ok version (DescribeConfigsRequest x) = DescribeConfigsRequest_ok version x"
| "request_ok version (DescribeClusterRequest x) = DescribeClusterRequest_ok version x"
| "request_ok version (DescribeTopicPartitionsRequest x) = DescribeTopicPartitionsRequest_ok version x"
| "request_ok version (OtherRequest k) = False"

fun request_size :: "i16 \<Rightarrow> request_kind \<Rightarrow> wire_error + usize" where
  "request_size version (ProduceRequest x) = ProduceRequest_compute_size x version"
| "request_size version (FetchRequest x) = FetchRequest_compute_size x version"
| "request_size version (ListOffsetsRequest x) = ListOffsetsRequest_compute_size x version"
| "request_size version (MetadataRequest x) = MetadataRequest_compute_size x version"
| "request_size version (OffsetCommitRequest x) = OffsetCommitRequest_compute_size x version"
| "request_size version (OffsetFetchRequest x) = OffsetFetchRequest_compute_size x version"
| "request_size version (FindCoordinatorRequest x) = FindCoordinatorRequest_compute_size x version"
| "request_size version (JoinGroupRequest x) = JoinGroupRequest_compute_size x version"
| "request_size version (HeartbeatRequest x) = HeartbeatRequest_compute_size x version"
| "request_size version (LeaveGroupRequest x) = LeaveGroupRequest_compute_size x version"
| "request_size version (SyncGroupRequest x) = SyncGroupRequest_compute_size x version"
| "request_size version (DescribeGroupsRequest x) = DescribeGroupsRequest_compute_size x version"
| "request_size version (ListGroupsRequest x) = ListGroupsRequest_compute_size x version"
| "request_size version (ApiVersionsRequest x) = ApiVersionsRequest_compute_size x version"
| "request_size version (CreateTopicsRequest x) = CreateTopicsRequest_compute_size x version"
| "request_size version (InitProducerIdRequest x) = InitProducerIdRequest_compute_size x version"
| "request_size version (DescribeConfigsRequest x) = DescribeConfigsRequest_compute_size x version"
| "request_size version (DescribeClusterRequest x) = DescribeClusterRequest_compute_size x version"
| "request_size version (DescribeTopicPartitionsRequest x) = DescribeTopicPartitionsRequest_compute_size x version"
| "request_size version (OtherRequest k) = Inr 0"

fun response_ok :: "i16 \<Rightarrow> response_kind \<Rightarrow> bool" where
  "response_ok version (ProduceResponse x) = ProduceResponse_ok version x"
| "response_ok version (FetchResponse x) = FetchResponse_ok version x"
| "response_ok version (ListOffsetsResponse x) = ListOffsetsResponse_ok version x"
| "response_ok version (MetadataResponse x) = MetadataResponse_ok version x"
| "response_ok version (OffsetCommitResponse x) = OffsetCommitResponse_ok version x"
| "response_ok version (OffsetFetchResponse x) = OffsetFetchResponse_ok version x"
| "response_ok version (FindCoordinatorResponse x) = FindCoordinatorResponse_ok version x"
| "response_ok version (JoinGroupResponse x) = JoinGroupResponse_ok version x"
| "response_ok version (HeartbeatResponse x) = HeartbeatResponse_ok version x"
| "response_ok version (LeaveGroupResponse x) = LeaveGroupResponse_ok version x"
| "response_ok version (SyncGroupResponse x) = SyncGroupResponse_ok version x"
| "response_ok version (DescribeGroupsResponse x) = DescribeGroupsResponse_ok version x"
| "response_ok version (ListGroupsResponse x) = ListGroupsResponse_ok version x"
| "response_ok version (ApiVersionsResponse x) = ApiVersionsResponse_ok version x"
| "response_ok version (CreateTopicsResponse x) = CreateTopicsResponse_ok version x"
| "response_ok version (InitProducerIdResponse x) = InitProducerIdResponse_ok version x"
| "response_ok version (DescribeConfigsResponse x) = DescribeConfigsResponse_ok version x"
| "response_ok version (DescribeClusterResponse x) = DescribeClusterResponse_ok version x"
| "response_ok version (DescribeTopicPartitionsResponse x) = DescribeTopicPartitionsResponse_ok version x"
| "response_ok version (OtherResponse k) = False"

fun response_size :: "i16 \<Rightarrow> response_kind \<Rightarrow> wire_error + usize" where
  "response_size version (ProduceResponse x) = ProduceResponse_compute_size x version"
| "response_size version (FetchResponse x) = FetchResponse_compute_size x version"
| "response_size version (ListOffsetsResponse x) = ListOffsetsResponse_compute_size x version"
| "response_size version (MetadataResponse x) = MetadataResponse_compute_size x version"
| "response_size version (OffsetCommitResponse x) = OffsetCommitResponse_compute_size x version"
| "response_size version (OffsetFetchResponse x) = OffsetFetchResponse_compute_size x version"
| "response_size version (FindCoordinatorResponse x) = FindCoordinatorResponse_compute_size x version"
| "response_size version (JoinGroupResponse x) = JoinGroupResponse_compute_size x version"
| "response_size version (HeartbeatResponse x) = HeartbeatResponse_compute_size x version"
| "response_size version (LeaveGroupResponse x) = LeaveGroupResponse_compute_size x version"
| "response_size version (SyncGroupResponse x) = SyncGroupResponse_compute_size x version"
| "response_size version (DescribeGroupsResponse x) = DescribeGroupsResponse_compute_size x version"
| "response_size version (ListGroupsResponse x) = ListGroupsResponse_compute_size x version"
| "response_size version (ApiVersionsResponse x) = ApiVersionsResponse_compute_size x version"
| "response_size version (CreateTopicsResponse x) = CreateTopicsResponse_compute_size x version"
| "response_size version (InitProducerIdResponse x) = InitProducerIdResponse_compute_size x version"
| "response_size version (DescribeConfigsResponse x) = DescribeConfigsResponse_compute_size x version"
| "response_size version (DescribeClusterResponse x) = DescribeClusterResponse_compute_size x version"
| "response_size version (DescribeTopicPartitionsResponse x) = DescribeTopicPartitionsResponse_compute_size x version"
| "response_size version (OtherResponse k) = Inr 0"

lemma request_coded:
  assumes "request_ok version body"
  shows "coded (RequestKind_encode other_enc body version) (RequestKind_decode other_dec (request_key body) version)
    (request_size version body) body"
  using assms
  by (cases body) (simp_all add: RequestKind_decode_def coded_tag_value coded_intros)

lemma response_coded:
  assumes "response_ok version body"
  shows "coded (ResponseKind_encode other_enc body version) (ResponseKind_decode other_dec (response_key body) version)
    (response_size version body) body"
  using assms
  by (cases body) (simp_all add: ResponseKind_decode_def coded_tag_value coded_intros)

lemma RequestKind_decode_key:
  "RequestKind_decode other key version buf = Inr (body, rest) \<Longrightarrow> request_key body = key"
  by (auto simp: RequestKind_decode_def get_def give_def try_bind_Inr split: if_splits)

lemma RequestKind_decode_other:
  "RequestKind_decode other key version buf = Inr (OtherRequest k, rest) \<Longrightarrow>
   k \<notin> {0, 1, 2, 3, 8, 9, 10, 11, 12, 13, 14, 15, 16, 18, 19, 22, 32, 60, 75}"
  by (auto simp: RequestKind_decode_def get_def give_def try_bind_Inr split: if_splits)

text \<open>
  C35: messages come back. Whatever the message and the version of its schema, a request or response that
  fits the version (values in range, lengths within the wire format, fields the version lacks left at
  their defaults) is encoded without error, in exactly as many bytes as its size computation
  announces, and decoding those bytes by its API key returns the same message and leaves what follows.
\<close>

theorem messages_round_trip:
  assumes "request_ok version request" and "response_ok version response"
  shows "(\<exists>bs. RequestKind_encode other_enc request version = Inr bs \<and>
      request_size version request = Inr (length bs) \<and>
      RequestKind_decode other_dec (request_key request) version (bs @ rest) = Inr (request, rest)) \<and>
    (\<exists>bs. ResponseKind_encode other_enc response version = Inr bs \<and>
      response_size version response = Inr (length bs) \<and>
      ResponseKind_decode other_dec (response_key response) version (bs @ rest) = Inr (response, rest))"
  using request_coded [OF assms(1), of other_enc other_dec] response_coded [OF assms(2), of other_enc other_dec]
  by (auto simp: coded_def)

definition sample_create :: request_kind where
  "sample_create = CreateTopicsRequest (create_topics_request_default
     \<lparr>ctrq_topics := [creatable_topic_default\<lparr>ctopic_name := ''t'', ctopic_num_partitions := 3,
        ctopic_replication_factor := 1\<rparr>], ctrq_timeout_ms := 1000\<rparr>)"

definition sample_created :: response_kind where
  "sample_created = CreateTopicsResponse (create_topics_response_default
     \<lparr>ctrs_topics := [creatable_topic_result_default\<lparr>ctr_name := ''t'', ctr_topic_id := 5\<rparr>]\<rparr>)"

lemma sample_create_ok: "request_ok 7 sample_create" "response_ok 7 sample_created"
proof -
  have "utf8_valid (str_bytes ''t'')" "utf8_valid (str_bytes [])" by code_simp+
  then show "request_ok 7 sample_create" "response_ok 7 sample_created"
    by (simp_all add: sample_create_def sample_created_def seq_ok_def string_ok_def in_i32_def in_i16_def in_i8_def
        CreateTopicsRequest_ok_def CreatableTopic_ok_def create_topics_request_default_def creatable_topic_default_def
        CreateTopicsResponse_ok_def CreatableTopicResult_ok_def create_topics_response_default_def
        creatable_topic_result_default_def)
qed

theorem messages_round_trip_witness:
  "\<exists>bs. RequestKind_encode (\<lambda>_ _. Inr []) sample_create 7 = Inr bs \<and>
     RequestKind_decode (\<lambda>_ _ buf. Inr ((), buf)) CreateTopics_key 7 (bs @ [9]) = Inr (sample_create, [9])"
proof -
  have "request_key sample_create = CreateTopics_key" by (simp add: sample_create_def)
  with messages_round_trip [OF sample_create_ok, of "\<lambda>_ _. Inr []" "\<lambda>_ _ buf. Inr ((), buf)" "[9]"]
  show ?thesis by auto
qed

end
