(* ===== verification/Codec.thy ===== *)
theory Codec
  imports Kinds
begin

text \<open>
  Requests and responses inside a frame (\<open>src/src/kafka/codec.rs\<close>, with the headers of
  \<open>src/crates/kafka-protocol/src/messages/request_header.rs\<close> and \<open>response_header.rs\<close>).
\<close>

section \<open>Headers\<close>

record request_header =
  rh_request_api_key :: i16
  rh_request_api_version :: i16
  rh_correlation_id :: i32
  rh_client_id :: "string option"
  rh_unknown_tagged_fields :: "(i32, bytes) btree_map"

record response_header =
  rsh_correlation_id :: i32
  rsh_unknown_tagged_fields :: "(i32, bytes) btree_map"

definition response_header_default :: response_header where
  "response_header_default = \<lparr>rsh_correlation_id = 0, rsh_unknown_tagged_fields = []\<rparr>"

definition RequestHeader_encode :: "request_header \<Rightarrow> i16 \<Rightarrow> wire_error + bytes" where
  "RequestHeader_encode h version =
     (if version < 1 \<or> version > 2 then Inl UNSUPPORTED_VERSION
      else puts
        [Inr (Int16_encode (rh_request_api_key h)),
         Inr (Int16_encode (rh_request_api_version h)),
         Inr (Int32_encode (rh_correlation_id h)),
         String_encode (rh_client_id h),
         if version \<ge> 2 then put_tags [] 0 (rh_unknown_tagged_fields h) else Inr []])"

definition RequestHeader_compute_size :: "request_header \<Rightarrow> i16 \<Rightarrow> wire_error + usize" where
  "RequestHeader_compute_size h version =
     sums
       [Inr 2, Inr 2, Inr 4, String_compute_size (rh_client_id h),
        if version \<ge> 2 then tags_size [] (rh_unknown_tagged_fields h) else Inr 0]"

definition RequestHeader_decode :: "i16 \<Rightarrow> request_header decoder" where
  "RequestHeader_decode version =
     (if version < 1 \<or> version > 2 then refuse UNSUPPORTED_VERSION
      else
        get Int16_decode (\<lambda>request_api_key.
        get Int16_decode (\<lambda>request_api_version.
        get Int32_decode (\<lambda>correlation_id.
        get String_decode (\<lambda>client_id.
        get (if version \<ge> 2 then get_unknown_tags else give []) (\<lambda>unknown_tagged_fields.
        give \<lparr>rh_request_api_key = request_api_key, rh_request_api_version = request_api_version,
              rh_correlation_id = correlation_id, rh_client_id = client_id,
              rh_unknown_tagged_fields = unknown_tagged_fields\<rparr>))))))"

definition ResponseHeader_encode :: "response_header \<Rightarrow> i16 \<Rightarrow> wire_error + bytes" where
  "ResponseHeader_encode h version =
     (if version < 0 \<or> version > 1 then Inl UNSUPPORTED_VERSION
      else puts
        [Inr (Int32_encode (rsh_correlation_id h)),
         if version \<ge> 1 then put_tags [] 0 (rsh_unknown_tagged_fields h) else Inr []])"

definition ResponseHeader_compute_size :: "response_header \<Rightarrow> i16 \<Rightarrow> wire_error + usize" where
  "ResponseHeader_compute_size h version =
     sums [Inr 4, if version \<ge> 1 then tags_size [] (rsh_unknown_tagged_fields h) else Inr 0]"

definition ResponseHeader_decode :: "i16 \<Rightarrow> response_header decoder" where
  "ResponseHeader_decode version =
     (if version < 0 \<or> version > 1 then refuse UNSUPPORTED_VERSION
      else
        get Int32_decode (\<lambda>correlation_id.
        get (if version \<ge> 1 then get_unknown_tags else give []) (\<lambda>unknown_tagged_fields.
        give \<lparr>rsh_correlation_id = correlation_id, rsh_unknown_tagged_fields = unknown_tagged_fields\<rparr>)))"

section \<open>Frames\<close>

record decoded_request =
  dr_header :: request_header
  dr_api_key :: api_key
  dr_body :: request_kind

definition expects_response :: "decoded_request \<Rightarrow> bool" where
  "expects_response r \<longleftrightarrow> \<not> (case dr_body r of ProduceRequest p \<Rightarrow> prq_acks p = 0 | _ \<Rightarrow> False)"

record request_prefix =
  px_raw_api_key :: i16
  px_api_version :: i16
  px_correlation_id :: i32

datatype decoded_frame =
  Request decoded_request
| UnsupportedApiVersions request_header i16

datatype decode_stage = HeaderStage | BodyStage | TrailingBytes

datatype request_decode_error =
  TruncatedPrefix
| UnknownApiKey request_prefix
| VersionOutOfSchema request_prefix api_key
| Malformed request_prefix api_key decode_stage wire_error

definition read_request_prefix :: "bytes \<Rightarrow> request_prefix" where
  "read_request_prefix frame =
     \<lparr>px_raw_api_key = wrap 16 (int (be_nat (slice 0 2 frame))),
      px_api_version = wrap 16 (int (be_nat (slice 2 2 frame))),
      px_correlation_id = wrap_i32 (int (be_nat (slice 4 4 frame)))\<rparr>"

definition decode_frame :: "other_decode \<Rightarrow> bytes \<Rightarrow> request_decode_error + decoded_frame" where
  "decode_frame other frame =
     (if length frame < 8 then Inl TruncatedPrefix
      else
        let prefix = read_request_prefix frame; version = px_api_version prefix
        in case api_key_try_from (px_raw_api_key prefix) of
             None \<Rightarrow> Inl (UnknownApiKey prefix)
           | Some api_key \<Rightarrow>
               let (lo, hi) = valid_versions api_key; outside = version < lo \<or> version > hi
               in if api_key \<noteq> ApiVersions_key \<and> outside then Inl (VersionOutOfSchema prefix api_key)
                  else case RequestHeader_decode (request_header_version api_key version) frame of
                         Inl e \<Rightarrow> Inl (Malformed prefix api_key HeaderStage e)
                       | Inr (header, rest) \<Rightarrow>
                           if api_key = ApiVersions_key \<and> outside
                           then Inr (UnsupportedApiVersions header version)
                           else case RequestKind_decode other api_key version rest of
                                  Inl e \<Rightarrow> Inl (Malformed prefix api_key BodyStage e)
                                | Inr (body, trailing) \<Rightarrow>
                                    if trailing \<noteq> []
                                    then Inl (Malformed prefix api_key TrailingBytes
                                           (Bail ''Kafka request has trailing bytes''))
                                    else Inr (Request \<lparr>dr_header = header, dr_api_key = api_key,
                                                       dr_body = body\<rparr>))"

definition encode_response ::
  "other_encode \<Rightarrow> api_key \<Rightarrow> i16 \<Rightarrow> i32 \<Rightarrow> response_kind \<Rightarrow> wire_error + bytes" where
  "encode_response other api_key version correlation_id body =
     try_bind (ResponseHeader_encode (response_header_default\<lparr>rsh_correlation_id := correlation_id\<rparr>)
         (response_header_version api_key version)) (\<lambda>header.
     try_bind (ResponseKind_encode other body version) (\<lambda>bs. Inr (header @ bs)))"

section \<open>Headers round trip\<close>

definition request_header_ok :: "i16 \<Rightarrow> request_header \<Rightarrow> bool" where
  "request_header_ok version h \<longleftrightarrow>
     \<not> (version < 1 \<or> version > 2) \<and>
     in_i16 (rh_request_api_key h) \<and> in_i16 (rh_request_api_version h) \<and> in_i32 (rh_correlation_id h) \<and>
     string_ok 32767 (rh_client_id h) \<and>
     (if version \<ge> 2 then tags_ok 0 (rh_unknown_tagged_fields h) else rh_unknown_tagged_fields h = [])"

lemma request_header_codec:
  "sized_codec (\<lambda>h. RequestHeader_encode h version) (RequestHeader_decode version)
    (\<lambda>h. RequestHeader_compute_size h version) (request_header_ok version)"
  unfolding RequestHeader_encode_def RequestHeader_decode_def RequestHeader_compute_size_def
  by (rule sized_codecI) (rule coded_intros | (simp add: request_header_ok_def; fail))+

definition response_header_ok :: "i16 \<Rightarrow> response_header \<Rightarrow> bool" where
  "response_header_ok version h \<longleftrightarrow>
     \<not> (version < 0 \<or> version > 1) \<and> in_i32 (rsh_correlation_id h) \<and>
     (if version \<ge> 1 then tags_ok 0 (rsh_unknown_tagged_fields h) else rsh_unknown_tagged_fields h = [])"

lemma response_header_codec:
  "sized_codec (\<lambda>h. ResponseHeader_encode h version) (ResponseHeader_decode version)
    (\<lambda>h. ResponseHeader_compute_size h version) (response_header_ok version)"
  unfolding ResponseHeader_encode_def ResponseHeader_decode_def ResponseHeader_compute_size_def
  by (rule sized_codecI) (rule coded_intros | (simp add: response_header_ok_def; fail))+

section \<open>Frames of requests and responses\<close>

lemma sint_decode_take:
  "sint_decode n buf = Inr (x, rest) \<Longrightarrow> x = wrap (8 * n) (int (be_nat (take n buf))) \<and> rest = drop n buf"
  by (auto simp: sint_decode_Inr)

text \<open>A decoded header repeats the fixed prefix of its frame.\<close>

lemma header_prefix:
  assumes "RequestHeader_decode version frame = Inr (h, rest)"
  shows "rh_request_api_key h = px_raw_api_key (read_request_prefix frame)"
    and "rh_request_api_version h = px_api_version (read_request_prefix frame)"
    and "rh_correlation_id h = px_correlation_id (read_request_prefix frame)"
  using assms
  by (auto simp: RequestHeader_decode_def get_def give_def refuse_def try_bind_Inr read_request_prefix_def slice_def int_codec_defs
      split: if_splits dest!: sint_decode_take)

text \<open>What a decoded request satisfies.\<close>

lemma decode_frame_request:
  assumes "decode_frame other frame = Inr (Request r)"
  obtains rest lo hi where "api_key_try_from (dr_api_key r) = Some (dr_api_key r)"
    "rh_request_api_key (dr_header r) = dr_api_key r"
    "valid_versions (dr_api_key r) = (lo, hi)"
    "lo \<le> rh_request_api_version (dr_header r)" "rh_request_api_version (dr_header r) \<le> hi"
    "rh_correlation_id (dr_header r) = px_correlation_id (read_request_prefix frame)"
    "RequestKind_decode other (dr_api_key r) (rh_request_api_version (dr_header r)) rest = Inr (dr_body r, [])"
proof -
  let ?p = "read_request_prefix frame"
  obtain k where k: "api_key_try_from (px_raw_api_key ?p) = Some k"
    using assms by (auto simp: decode_frame_def Let_def split: if_splits option.splits)
  obtain lo hi where v: "valid_versions k = (lo, hi)" by fastforce
  obtain h rest where h: "RequestHeader_decode (request_header_version k (px_api_version ?p)) frame = Inr (h, rest)"
    using assms k v by (auto simp: decode_frame_def Let_def split: if_splits sum.splits)
  note same = header_prefix [OF h]
  have r: "r = \<lparr>dr_header = h, dr_api_key = k, dr_body = dr_body r\<rparr>"
    "lo \<le> px_api_version ?p" "px_api_version ?p \<le> hi"
    "RequestKind_decode other k (px_api_version ?p) rest = Inr (dr_body r, [])"
    using assms k v h by (auto simp: decode_frame_def Let_def split: if_splits sum.splits)
  have "k = px_raw_api_key ?p" using k by (simp add: api_key_try_from_def split: if_splits)
  have "dr_header r = h" "dr_api_key r = k" by (subst r(1), simp)+
  with that [of lo hi rest] k v r(2-4) same \<open>k = px_raw_api_key ?p\<close> show thesis by simp
qed

lemma prefix_of_header:
  assumes "RequestHeader_encode h version = Inr hb" and "in_i16 (rh_request_api_key h)"
    and "in_i16 (rh_request_api_version h)" and "in_i32 (rh_correlation_id h)"
  shows "8 \<le> length hb" and "read_request_prefix (hb @ bb) =
    \<lparr>px_raw_api_key = rh_request_api_key h, px_api_version = rh_request_api_version h,
     px_correlation_id = rh_correlation_id h\<rparr>"
proof -
  from assms(1) obtain tl where hb: "hb = Int16_encode (rh_request_api_key h) @
      Int16_encode (rh_request_api_version h) @ Int32_encode (rh_correlation_id h) @ tl"
    by (auto simp: RequestHeader_encode_def try_bind_Inr split: if_splits)
  then show "8 \<le> length hb" by (simp add: int_codec_defs)
  have i16: "wrap 16 (int (be_nat (be_bytes 2 x))) = x" if "in_i16 x" for x
    using int16.dec_enc [OF that, of "[]"] by (auto simp: int_codec_defs sint_decode_Inr)
  have i32: "wrap_i32 (int (be_nat (be_bytes 4 x))) = x" if "in_i32 x" for x
    using int32.dec_enc [OF that, of "[]"] by (auto simp: int_codec_defs sint_decode_Inr)
  show "read_request_prefix (hb @ bb) =
    \<lparr>px_raw_api_key = rh_request_api_key h, px_api_version = rh_request_api_version h,
     px_correlation_id = rh_correlation_id h\<rparr>"
    using assms(2-4) by (simp add: read_request_prefix_def hb int_codec_defs slice_def i16 i32)
qed

text \<open>
  C34: a request and its response find each other. A request that fits its version, encoded by a client with
  the header version its API key and version call for, is decoded to exactly that header, key and
  body. The encoded response, likewise, starts with a header, of the version the client expects, that carries
  the correlation identifier of the request, and the client decodes the rest of the frame to
  the response.
\<close>

theorem request_response_round_trip:
  assumes "api_key_try_from k = Some k" and "valid_versions k = (lo, hi)" and "lo \<le> v" and "v \<le> hi"
    and "request_header_ok (request_header_version k v) h"
    and "rh_request_api_key h = k" and "rh_request_api_version h = v"
    and "request_key body = k" and "request_ok v body" and "response_key response = k" and "response_ok v response"
  shows "(\<exists>hb bb. RequestHeader_encode h (request_header_version k v) = Inr hb \<and>
      RequestKind_encode other_enc body v = Inr bb \<and>
      decode_frame other_dec (hb @ bb) = Inr (Request \<lparr>dr_header = h, dr_api_key = k, dr_body = body\<rparr>)) \<and>
    (\<exists>bs rest. encode_response other_enc k v (rh_correlation_id h) response = Inr bs \<and>
      ResponseHeader_decode (response_header_version k v) bs =
        Inr (\<lparr>rsh_correlation_id = rh_correlation_id h, rsh_unknown_tagged_fields = []\<rparr>, rest) \<and>
      ResponseKind_decode other_dec k v rest = Inr (response, []))"
proof
  let ?n = "request_header_version k v"
  obtain hb where hb: "RequestHeader_encode h ?n = Inr hb" "\<And>rest. RequestHeader_decode ?n (hb @ rest) = Inr (h, rest)"
    using sized_codec.codes [OF request_header_codec assms(5)] by (auto simp: coded_def)
  obtain bb where bb: "RequestKind_encode other_enc body v = Inr bb"
    "\<And>rest. RequestKind_decode other_dec k v (bb @ rest) = Inr (body, rest)"
    using request_coded [OF assms(9), of other_enc other_dec] assms(8) by (auto simp: coded_def)
  have ok: "in_i16 (rh_request_api_key h)" "in_i16 (rh_request_api_version h)" "in_i32 (rh_correlation_id h)"
    using assms(5) by (simp_all add: request_header_ok_def)
  have "decode_frame other_dec (hb @ bb) = Inr (Request \<lparr>dr_header = h, dr_api_key = k, dr_body = body\<rparr>)"
    using prefix_of_header [OF hb(1) ok] assms(1-4,6,7) hb(2) bb(2) [of "[]"] by (simp add: decode_frame_def)
  with hb(1) bb(1) show "\<exists>hb bb. RequestHeader_encode h ?n = Inr hb \<and> RequestKind_encode other_enc body v = Inr bb \<and>
      decode_frame other_dec (hb @ bb) = Inr (Request \<lparr>dr_header = h, dr_api_key = k, dr_body = body\<rparr>)" by blast
  let ?m = "response_header_version k v"
  let ?rh = "\<lparr>rsh_correlation_id = rh_correlation_id h, rsh_unknown_tagged_fields = []\<rparr>"
  have "?m \<in> {0, 1}" by (rule header_versions(2) [OF assms(1)])
  then have rh: "response_header_ok ?m ?rh" using ok(3) by (auto simp: response_header_ok_def)
  obtain rb where rb: "ResponseHeader_encode ?rh ?m = Inr rb"
    "\<And>rest. ResponseHeader_decode ?m (rb @ rest) = Inr (?rh, rest)"
    using sized_codec.codes [OF response_header_codec rh] by (auto simp: coded_def)
  obtain bs where "ResponseKind_encode other_enc response v = Inr bs"
    "\<And>rest. ResponseKind_decode other_dec k v (bs @ rest) = Inr (response, rest)"
    using response_coded [OF assms(11), of other_enc other_dec] assms(10) by (auto simp: coded_def)
  from rb this(1) this(2) [of "[]"]
  show "\<exists>bs rest. encode_response other_enc k v (rh_correlation_id h) response = Inr bs \<and>
      ResponseHeader_decode ?m bs = Inr (?rh, rest) \<and> ResponseKind_decode other_dec k v rest = Inr (response, [])"
    by (simp add: encode_response_def response_header_default_def)
qed

definition sample_header :: request_header where
  "sample_header =
     \<lparr>rh_request_api_key = CreateTopics_key, rh_request_api_version = 7, rh_correlation_id = 77,
      rh_client_id = Some ''c'', rh_unknown_tagged_fields = [(5, [1])]\<rparr>"

theorem request_response_round_trip_witness:
  "\<exists>hb bb. RequestHeader_encode sample_header 2 = Inr hb \<and>
     RequestKind_encode (\<lambda>_ _. Inr []) sample_create 7 = Inr bb \<and>
     decode_frame (\<lambda>_ _ buf. Inr ((), buf)) (hb @ bb) =
       Inr (Request \<lparr>dr_header = sample_header, dr_api_key = CreateTopics_key, dr_body = sample_create\<rparr>)"
proof -
  have k: "api_key_try_from CreateTopics_key = Some CreateTopics_key" "valid_versions CreateTopics_key = (2, 7)"
    "request_header_version CreateTopics_key 7 = 2" "utf8_valid (str_bytes ''c'')"
    by code_simp+
  have "request_header_ok 2 sample_header" "request_key sample_create = CreateTopics_key"
    "response_key sample_created = CreateTopics_key"
    using k(4) by (simp_all add: request_header_ok_def sample_header_def in_i16_def in_i32_def string_ok_def tags_ok_def
        bt_ok_def sample_create_def sample_created_def)
  from request_response_round_trip [OF k(1,2), of 7 sample_header sample_create sample_created
      "\<lambda>_ _. Inr []" "\<lambda>_ _ buf. Inr ((), buf)"] k(3) this sample_create_ok
  show ?thesis by (simp add: sample_header_def)
qed

end
