(* ===== verification/Errors.thy ===== *)
theory Errors
  imports Prelude
begin

text \<open>
  Kafka error codes (\<open>src/crates/kafka-protocol/src/error.rs\<close>). The macro \<open>define_errors!\<close> is given a
  table of kinds with their codes and whether they are retriable; it is the table here. An error
  is \<open>Unknown\<close> with a code, or a kind of the table named by its identifier, which is what
  \<open>stringify!\<close> prints.
\<close>

section \<open>The table\<close>

definition error_table :: "(string \<times> i16 \<times> bool) list" where
  "error_table = [
    (''UnknownServerError'', - 1, False),
    (''OffsetOutOfRange'', 1, False),
    (''CorruptMessage'', 2, True),
    (''UnknownTopicOrPartition'', 3, True),
    (''InvalidFetchSize'', 4, False),
    (''LeaderNotAvailable'', 5, True),
    (''NotLeaderOrFollower'', 6, True),
    (''RequestTimedOut'', 7, True),
    (''BrokerNotAvailable'', 8, False),
    (''ReplicaNotAvailable'', 9, True),
    (''MessageTooLarge'', 10, False),
    (''StaleControllerEpoch'', 11, False),
    (''OffsetMetadataTooLarge'', 12, False),
    (''NetworkException'', 13, True),
    (''CoordinatorLoadInProgress'', 14, True),
    (''CoordinatorNotAvailable'', 15, True),
    (''NotCoordinator'', 16, True),
    (''InvalidTopicException'', 17, False),
    (''RecordListTooLarge'', 18, False),
    (''NotEnoughReplicas'', 19, True),
    (''NotEnoughReplicasAfterAppend'', 20, True),
    (''InvalidRequiredAcks'', 21, False),
    (''IllegalGeneration'', 22, False),
    (''InconsistentGroupProtocol'', 23, False),
    (''InvalidGroupId'', 24, False),
    (''UnknownMemberId'', 25, False),
    (''InvalidSessionTimeout'', 26, False),
    (''RebalanceInProgress'', 27, False),
    (''InvalidCommitOffsetSize'', 28, False),
    (''TopicAuthorizationFailed'', 29, False),
    (''GroupAuthorizationFailed'', 30, False),
    (''ClusterAuthorizationFailed'', 31, False),
    (''InvalidTimestamp'', 32, False),
    (''UnsupportedSaslMechanism'', 33, False),
    (''IllegalSaslState'', 34, False),
    (''UnsupportedVersion'', 35, False),
    (''TopicAlreadyExists'', 36, False),
    (''InvalidPartitions'', 37, False),
    (''InvalidReplicationFactor'', 38, False),
    (''InvalidReplicaAssignment'', 39, False),
    (''InvalidConfig'', 40, False),
    (''NotController'', 41, True),
    (''InvalidRequest'', 42, False),
    (''UnsupportedForMessageFormat'', 43, False),
    (''PolicyViolation'', 44, False),
    (''OutOfOrderSequenceNumber'', 45, False),
    (''DuplicateSequenceNumber'', 46, False),
    (''InvalidProducerEpoch'', 47, False),
    (''InvalidTxnState'', 48, False),
    (''InvalidProducerIdMapping'', 49, False),
    (''InvalidTransactionTimeout'', 50, False),
    (''ConcurrentTransactions'', 51, False),
    (''TransactionCoordinatorFenced'', 52, False),
    (''TransactionalIdAuthorizationFailed'', 53, False),
    (''SecurityDisabled'', 54, False),
    (''OperationNotAttempted'', 55, False),
    (''KafkaStorageError'', 56, True),
    (''LogDirNotFound'', 57, False),
    (''SaslAuthenticationFailed'', 58, False),
    (''UnknownProducerId'', 59, False),
    (''ReassignmentInProgress'', 60, False),
    (''DelegationTokenAuthDisabled'', 61, False),
    (''DelegationTokenNotFound'', 62, False),
    (''DelegationTokenOwnerMismatch'', 63, False),
    (''DelegationTokenRequestNotAllowed'', 64, False),
    (''DelegationTokenAuthorizationFailed'', 65, False),
    (''DelegationTokenExpired'', 66, False),
    (''InvalidPrincipalType'', 67, False),
    (''NonEmptyGroup'', 68, False),
    (''GroupIdNotFound'', 69, False),
    (''FetchSessionIdNotFound'', 70, True),
    (''InvalidFetchSessionEpoch'', 71, True),
    (''ListenerNotFound'', 72, True),
    (''TopicDeletionDisabled'', 73, False),
    (''FencedLeaderEpoch'', 74, True),
    (''UnknownLeaderEpoch'', 75, True),
    (''UnsupportedCompressionType'', 76, False),
    (''StaleBrokerEpoch'', 77, False),
    (''OffsetNotAvailable'', 78, True),
    (''MemberIdRequired'', 79, False),
    (''PreferredLeaderNotAvailable'', 80, True),
    (''GroupMaxSizeReached'', 81, False),
    (''FencedInstanceId'', 82, False),
    (''EligibleLeadersNotAvailable'', 83, True),
    (''ElectionNotNeeded'', 84, True),
    (''NoReassignmentInProgress'', 85, False),
    (''GroupSubscribedToTopic'', 86, False),
    (''InvalidRecord'', 87, False),
    (''UnstableOffsetCommit'', 88, True),
    (''ThrottlingQuotaExceeded'', 89, True),
    (''ProducerFenced'', 90, False),
    (''ResourceNotFound'', 91, False),
    (''DuplicateResource'', 92, False),
    (''UnacceptableCredential'', 93, False),
    (''InconsistentVoterSet'', 94, False),
    (''InvalidUpdateVersion'', 95, False),
    (''FeatureUpdateFailed'', 96, False),
    (''PrincipalDeserializationFailure'', 97, False),
    (''SnapshotNotFound'', 98, False),
    (''PositionOutOfRange'', 99, False),
    (''UnknownTopicId'', 100, True),
    (''DuplicateBrokerRegistration'', 101, False),
    (''BrokerIdNotRegistered'', 102, False),
    (''InconsistentTopicId'', 103, True),
    (''InconsistentClusterId'', 104, False),
    (''TransactionalIdNotFound'', 105, False),
    (''FetchSessionTopicIdError'', 106, True),
    (''IneligibleReplica'', 107, False),
    (''NewLeaderElected'', 108, False),
    (''OffsetMovedToTieredStorage'', 109, False),
    (''FencedMemberEpoch'', 110, False),
    (''UnreleasedInstanceId'', 111, False),
    (''UnsupportedAssignor'', 112, False),
    (''StaleMemberEpoch'', 113, False),
    (''MismatchedEndpointType'', 114, False),
    (''UnsupportedEndpointType'', 115, False),
    (''UnknownControllerId'', 116, False),
    (''UnknownSubscriptionId'', 117, False),
    (''TelemetryTooLarge'', 118, False),
    (''InvalidRegistration'', 119, False),
    (''TransactionAbortable'', 120, False),
    (''InvalidRecordState'', 121, False),
    (''ShareSessionNotFound'', 122, True),
    (''InvalidShareSessionEpoch'', 123, True),
    (''FencedStateEpoch'', 124, False),
    (''InvalidVoterKey'', 125, False),
    (''DuplicateVoter'', 126, False),
    (''VoterNotFound'', 127, False),
    (''InvalidRegularExpression'', 128, False),
    (''RebootstrapRequired'', 129, False),
    (''StreamsInvalidTopology'', 130, False),
    (''StreamsInvalidTopologyEpoch'', 131, False),
    (''StreamsTopologyFenced'', 132, False),
    (''ShareSessionLimitReached'', 133, True)]"

section \<open>Errors\<close>

datatype response_error = Unknown i16 | Error string

definition try_from_code :: "i16 \<Rightarrow> response_error option" where
  "try_from_code c =
     (if c = 0 then None
      else case find (\<lambda>(_, k, _). k = c) error_table of
             Some (kind, _, _) \<Rightarrow> Some (Error kind)
           | None \<Rightarrow> Some (Unknown c))"

text \<open>A kind outside the table does not exist in the source; it is given the code 0 of success.\<close>

fun code :: "response_error \<Rightarrow> i16" where
  "code (Unknown c) = c"
| "code (Error kind) = (case map_of error_table kind of Some (c, _) \<Rightarrow> c | None \<Rightarrow> 0)"

declare code.simps(2) [simp del]

fun is_retriable :: "response_error \<Rightarrow> bool" where
  "is_retriable (Unknown c) = False"
| "is_retriable (Error kind) = (case map_of error_table kind of Some (_, r) \<Rightarrow> r | None \<Rightarrow> False)"

definition show_int :: "int \<Rightarrow> string" where
  "show_int i = (if i < 0 then CHR ''-'' # show_nat (nat (- i)) else show_nat (nat i))"

fun show_error :: "response_error \<Rightarrow> string" where
  "show_error (Unknown c) = ''Unknown error code: '' @ show_int c"
| "show_error (Error kind) = kind"

definition code_ok :: "i16 \<Rightarrow> bool" where
  "code_ok c \<longleftrightarrow> c = 0"

section \<open>Well-formed errors\<close>

text \<open>The values of the source's enumeration that a server can send.\<close>

fun error_wf :: "response_error \<Rightarrow> bool" where
  "error_wf (Unknown c) \<longleftrightarrow> in_i16 c \<and> c \<noteq> 0 \<and> c \<notin> (fst \<circ> snd) ` set error_table"
| "error_wf (Error kind) \<longleftrightarrow> map_of error_table kind \<noteq> None"

text \<open>Distinctness of a long list, decided with linearly many comparisons after sorting.\<close>

fun ascending :: "'a::linorder list \<Rightarrow> bool" where
  "ascending (x # y # xs) \<longleftrightarrow> x < y \<and> ascending (y # xs)"
| "ascending xs \<longleftrightarrow> True"

lemma ascending_strict: "ascending xs \<Longrightarrow> sorted_wrt (<) xs"
proof (induction xs rule: ascending.induct)
  case (1 x y xs)
  then show ?case by (auto intro: less_trans)
qed simp_all

lemma ascending_distinct: "ascending (sort xs) \<Longrightarrow> distinct xs"
  using ascending_strict [of "sort xs"] by (metis distinct_sort strict_sorted_iff)

text \<open>An integer key per kind, so that kinds are told apart by comparing numbers.\<close>

definition kind_key :: "string \<Rightarrow> int" where
  "kind_key s = foldl (\<lambda>a c. a * 2 + of_char c) 0 s"

lemma error_table_distinct:
  "distinct (map fst error_table)" "distinct (map (fst \<circ> snd) error_table)"
proof -
  have "ascending (sort (map (kind_key \<circ> fst) error_table))" by code_simp
  then have "distinct (map kind_key (map fst error_table))"
    using ascending_distinct by (metis map_map)
  then show "distinct (map fst error_table)" by (simp only: distinct_map)
  show "distinct (map (fst \<circ> snd) error_table)"
    by (rule ascending_distinct, code_simp)
qed

lemma error_table_codes: "\<forall>(kind, c, r) \<in> set error_table. in_i16 c \<and> c \<noteq> 0"
  by code_simp

lemma find_distinct_key:
  "distinct (map f xs) \<Longrightarrow> x \<in> set xs \<Longrightarrow> find (\<lambda>y. f y = f x) xs = Some x"
  by (induction xs) (auto simp: rev_image_eqI)

lemma find_error_code:
  "(kind, c, r) \<in> set error_table \<Longrightarrow> find (\<lambda>(_, k, _). k = c) error_table = Some (kind, c, r)"
  using find_distinct_key [OF error_table_distinct(2), of "(kind, c, r)"]
  by (simp add: case_prod_unfold comp_def)

text \<open>The codes of the errors this server sends.\<close>

lemma error_codes [simp]:
  "code (Error ''BrokerNotAvailable'') = 8"
  "code (Error ''CorruptMessage'') = 2"
  "code (Error ''DuplicateSequenceNumber'') = 46"
  "code (Error ''GroupIdNotFound'') = 69"
  "code (Error ''IllegalGeneration'') = 22"
  "code (Error ''InconsistentGroupProtocol'') = 23"
  "code (Error ''InvalidConfig'') = 40"
  "code (Error ''InvalidGroupId'') = 24"
  "code (Error ''InvalidPartitions'') = 37"
  "code (Error ''InvalidProducerEpoch'') = 47"
  "code (Error ''InvalidReplicaAssignment'') = 39"
  "code (Error ''InvalidReplicationFactor'') = 38"
  "code (Error ''InvalidRequest'') = 42"
  "code (Error ''InvalidRequiredAcks'') = 21"
  "code (Error ''InvalidTopicException'') = 17"
  "code (Error ''MemberIdRequired'') = 79"
  "code (Error ''MismatchedEndpointType'') = 114"
  "code (Error ''OffsetOutOfRange'') = 1"
  "code (Error ''OutOfOrderSequenceNumber'') = 45"
  "code (Error ''RebalanceInProgress'') = 27"
  "code (Error ''TopicAlreadyExists'') = 36"
  "code (Error ''UnknownMemberId'') = 25"
  "code (Error ''UnknownProducerId'') = 59"
  "code (Error ''UnknownServerError'') = - 1"
  "code (Error ''UnknownTopicId'') = 100"
  "code (Error ''UnknownTopicOrPartition'') = 3"
  "code (Error ''UnsupportedEndpointType'') = 115"
  "code (Error ''UnsupportedForMessageFormat'') = 43"
  "code (Error ''UnsupportedVersion'') = 35"
  by code_simp+

section \<open>Properties\<close>

lemma try_from_code_code:
  assumes "error_wf e"
  shows "try_from_code (code e) = Some e"
proof (cases e)
  case (Unknown c)
  with assms have "find (\<lambda>(_, k, _). k = c) error_table = None"
    by (force simp: find_None_iff)
  with assms Unknown show ?thesis by (simp add: try_from_code_def)
next
  case (Error kind)
  with assms obtain c r where row: "map_of error_table kind = Some (c, r)"
    by auto
  then have "(kind, c, r) \<in> set error_table" by (rule map_of_SomeD)
  with row Error show ?thesis
    using error_table_codes find_error_code by (fastforce simp: try_from_code_def code.simps)
qed

lemma code_try_from_code:
  assumes "in_i16 c" and "try_from_code c = Some e"
  shows "error_wf e \<and> code e = c"
proof (cases "find (\<lambda>(_, k, _). k = c) error_table")
  case None
  then have "c \<notin> (fst \<circ> snd) ` set error_table" by (force simp: find_None_iff)
  with None assms show ?thesis by (auto simp: try_from_code_def split: if_splits)
next
  case (Some row)
  then obtain kind r where "(kind, c, r) \<in> set error_table" "row = (kind, c, r)"
    by (auto simp: find_Some_iff in_set_conv_nth)
  with assms Some error_table_distinct(1) show ?thesis
    by (auto simp: try_from_code_def code.simps map_of_eq_Some_iff split: if_splits)
qed

text \<open>
  Error codes travel over the wire without loss. Code 0 is the only code of success; every other
  16-bit code decodes to an error whose code it is, every error of the table and every unknown
  code decodes back to itself, and two errors never share a code.
\<close>

theorem error_codes_roundtrip:
  "(\<forall>c. in_i16 c \<longrightarrow> (case try_from_code c of None \<Rightarrow> code_ok c | Some e \<Rightarrow> error_wf e \<and> code e = c)) \<and>
   (\<forall>e. error_wf e \<longrightarrow> try_from_code (code e) = Some e \<and> in_i16 (code e) \<and> \<not> code_ok (code e)) \<and>
   inj_on code (Collect error_wf)"
proof (intro conjI allI impI)
  fix c assume "in_i16 c"
  then show "case try_from_code c of None \<Rightarrow> code_ok c | Some e \<Rightarrow> error_wf e \<and> code e = c"
    using code_try_from_code
    by (auto simp: code_ok_def try_from_code_def split: option.splits if_splits)
next
  fix e assume wf: "error_wf e"
  show "try_from_code (code e) = Some e" by (rule try_from_code_code [OF wf])
  then show "\<not> code_ok (code e)" by (auto simp: code_ok_def try_from_code_def)
  show "in_i16 (code e)"
    using wf error_table_codes by (cases e) (fastforce simp: code.simps dest: map_of_SomeD)+
next
  show "inj_on code (Collect error_wf)"
    by (rule inj_onI) (metis mem_Collect_eq option.inject try_from_code_code)
qed

theorem error_codes_roundtrip_witness:
  "try_from_code (code (Error ''UnknownTopicId'')) = Some (Error ''UnknownTopicId'') \<and>
   code (Unknown 1000) = 1000"
proof -
  have "error_wf (Error ''UnknownTopicId'')" by code_simp
  then have "try_from_code (code (Error ''UnknownTopicId'')) = Some (Error ''UnknownTopicId'')"
    using error_codes_roundtrip by blast
  then show ?thesis by simp
qed

end
