(* ===== verification/Error_Response.thy ===== *)
theory Error_Response
  imports Codec Errors
begin

text \<open>
  The answers to requests whose version the schema knows but the broker does not support
  (\<open>src/src/kafka/error_response.rs\<close>): a response of the request's own kind that repeats what was asked and
  reports the error wherever a client of that version looks for one.
\<close>

section \<open>Responses\<close>

definition UNSUPPORTED_VERSION_MESSAGE :: string where
  "UNSUPPORTED_VERSION_MESSAGE = ''The version of API is not supported.''"

definition unsupported_code :: i16 where
  "unsupported_code = code (Error ''UnsupportedVersion'')"

definition unsupported_api_versions :: response_kind where
  "unsupported_api_versions =
     ApiVersionsResponse (api_versions_response_default
       \<lparr>avrs_error_code := unsupported_code,
        avrs_api_keys :=
          [api_version_default
             \<lparr>apiv_api_key := ApiVersions_key, apiv_min_version := 0, apiv_max_version := 4\<rparr>],
        avrs_throttle_time_ms := 0, avrs_supported_features := [],
        avrs_finalized_features_epoch := - 1, avrs_finalized_features := [],
        avrs_zk_migration_ready := False\<rparr>)"

definition unsupported_describe_cluster :: describe_cluster_response where
  "unsupported_describe_cluster =
     describe_cluster_response_default
       \<lparr>dcrs_error_code := unsupported_code, dcrs_error_message := Some UNSUPPORTED_VERSION_MESSAGE\<rparr>"

definition unsupported_describe_topic_partitions ::
  "describe_topic_partitions_request \<Rightarrow> describe_topic_partitions_response" where
  "unsupported_describe_topic_partitions request =
     describe_topic_partitions_response_default
       \<lparr>dtprs_topics :=
          map (\<lambda>topic. describe_topic_partitions_response_topic_default
                 \<lparr>dtprst_error_code := unsupported_code, dtprst_name := Some (trq_name topic),
                  dtprst_topic_id := nil_uuid, dtprst_is_internal := False, dtprst_partitions := []\<rparr>)
            (dtprq_topics request)\<rparr>"

definition unsupported_produce :: "produce_request \<Rightarrow> i16 \<Rightarrow> produce_response" where
  "unsupported_produce request version =
     produce_response_default
       \<lparr>prs_responses :=
          map (\<lambda>topic. topic_produce_response_default
                 \<lparr>tprs_name := tpd_name topic, tprs_topic_id := tpd_topic_id topic,
                  tprs_partition_responses :=
                    map (\<lambda>partition. partition_produce_response_default
                           \<lparr>pprs_index := ppd_index partition, pprs_error_code := unsupported_code,
                            pprs_base_offset := - 1, pprs_log_append_time_ms := - 1,
                            pprs_log_start_offset := - 1, pprs_record_errors := [],
                            pprs_error_message :=
                              (if version \<ge> 8 then Some UNSUPPORTED_VERSION_MESSAGE else None)\<rparr>)
                      (tpd_partition_data topic)\<rparr>) (prq_topic_data request),
        prs_throttle_time_ms := 0, prs_node_endpoints := []\<rparr>"

definition unsupported_fetch :: "fetch_request \<Rightarrow> fetch_response" where
  "unsupported_fetch request =
     fetch_response_default
       \<lparr>frs_throttle_time_ms := 0, frs_error_code := unsupported_code, frs_session_id := 0,
        frs_responses :=
          map (\<lambda>topic. fetchable_topic_response_default
                 \<lparr>ftrs_topic := ftopic_topic topic, ftrs_topic_id := ftopic_topic_id topic,
                  ftrs_partitions :=
                    map (\<lambda>partition. partition_data_default
                           \<lparr>pdata_partition_index := fpart_partition partition,
                            pdata_error_code := unsupported_code, pdata_high_watermark := - 1,
                            pdata_last_stable_offset := - 1, pdata_log_start_offset := - 1,
                            pdata_aborted_transactions := Some [], pdata_records := Some []\<rparr>)
                      (ftopic_partitions topic)\<rparr>) (frq_topics request),
        frs_node_endpoints := []\<rparr>"

definition unsupported_list_offsets :: "list_offsets_request \<Rightarrow> list_offsets_response" where
  "unsupported_list_offsets request =
     list_offsets_response_default
       \<lparr>lors_throttle_time_ms := 0,
        lors_topics :=
          map (\<lambda>topic. list_offsets_topic_response_default
                 \<lparr>lotrs_name := lot_name topic,
                  lotrs_partitions :=
                    map (\<lambda>partition. list_offsets_partition_response_default
                           \<lparr>loprs_partition_index := lop_partition_index partition,
                            loprs_error_code := unsupported_code, loprs_timestamp := - 1,
                            loprs_offset := - 1, loprs_leader_epoch := - 1\<rparr>)
                      (lot_partitions topic)\<rparr>) (lorq_topics request)\<rparr>"

definition unsupported_metadata :: "metadata_request \<Rightarrow> metadata_response" where
  "unsupported_metadata request =
     metadata_response_default
       \<lparr>mrs_throttle_time_ms := 0, mrs_brokers := [], mrs_cluster_id := None, mrs_controller_id := - 1,
        mrs_topics :=
          map (\<lambda>topic. metadata_response_topic_default
                 \<lparr>mrst_error_code := unsupported_code, mrst_name := mrqt_name topic,
                  mrst_topic_id := mrqt_topic_id topic, mrst_is_internal := False, mrst_partitions := []\<rparr>)
            (case mrq_topics request of None \<Rightarrow> [] | Some topics \<Rightarrow> topics),
        mrs_error_code := unsupported_code\<rparr>"

definition unsupported_offset_commit :: "offset_commit_request \<Rightarrow> offset_commit_response" where
  "unsupported_offset_commit request =
     offset_commit_response_default
       \<lparr>ocrs_throttle_time_ms := 0,
        ocrs_topics :=
          map (\<lambda>topic. offset_commit_response_topic_default
                 \<lparr>ocrst_name := ocrqt_name topic, ocrst_topic_id := ocrqt_topic_id topic,
                  ocrst_partitions :=
                    map (\<lambda>partition. offset_commit_response_partition_default
                           \<lparr>ocrsp_partition_index := ocrqp_partition_index partition,
                            ocrsp_error_code := unsupported_code\<rparr>) (ocrqt_partitions topic)\<rparr>)
            (ocrq_topics request)\<rparr>"

definition unsupported_offset_fetch :: "offset_fetch_request \<Rightarrow> i16 \<Rightarrow> offset_fetch_response" where
  "unsupported_offset_fetch request version =
     (if version < 2
      then offset_fetch_response_default
             \<lparr>ofrs_throttle_time_ms := 0,
              ofrs_topics :=
                map (\<lambda>topic. offset_fetch_response_topic_default
                       \<lparr>ofrst_name := ofrqt_name topic,
                        ofrst_partitions :=
                          map (\<lambda>index. offset_fetch_response_partition_default
                                 \<lparr>ofrsp_partition_index := index, ofrsp_committed_offset := - 1,
                                  ofrsp_committed_leader_epoch := - 1, ofrsp_metadata := None,
                                  ofrsp_error_code := unsupported_code\<rparr>)
                            (ofrqt_partition_indexes topic)\<rparr>)
                  (case ofrq_topics request of None \<Rightarrow> [] | Some topics \<Rightarrow> topics),
              ofrs_error_code := 0, ofrs_groups := []\<rparr>
      else if version \<le> 7
      then offset_fetch_response_default
             \<lparr>ofrs_throttle_time_ms := 0, ofrs_topics := [], ofrs_error_code := unsupported_code,
              ofrs_groups := []\<rparr>
      else offset_fetch_response_default
             \<lparr>ofrs_throttle_time_ms := 0, ofrs_topics := [],
              ofrs_groups :=
                map (\<lambda>g. offset_fetch_response_group_default
                       \<lparr>ofrsg_group_id := ofrqg_group_id g,
                        ofrsg_topics :=
                          map (\<lambda>topic. offset_fetch_response_topics_default
                                 \<lparr>ofrsts_name := ofrqts_name topic, ofrsts_topic_id := ofrqts_topic_id topic,
                                  ofrsts_partitions :=
                                    map (\<lambda>index. offset_fetch_response_partitions_default
                                           \<lparr>ofrsps_partition_index := index,
                                            ofrsps_committed_offset := - 1,
                                            ofrsps_committed_leader_epoch := - 1,
                                            ofrsps_metadata := None,
                                            ofrsps_error_code := unsupported_code\<rparr>)
                                      (ofrqts_partition_indexes topic)\<rparr>)
                            (case ofrqg_topics g of None \<Rightarrow> [] | Some topics \<Rightarrow> topics),
                        ofrsg_error_code := unsupported_code\<rparr>) (ofrq_groups request)\<rparr>)"

definition unsupported_find_coordinator :: "find_coordinator_request \<Rightarrow> i16 \<Rightarrow> find_coordinator_response" where
  "unsupported_find_coordinator request version =
     (if version \<le> 3
      then find_coordinator_response_default
             \<lparr>fcrs_throttle_time_ms := 0, fcrs_error_code := unsupported_code,
              fcrs_error_message := Some (if version = 0 then [] else UNSUPPORTED_VERSION_MESSAGE),
              fcrs_node_id := - 1, fcrs_host := [], fcrs_port := - 1, fcrs_coordinators := []\<rparr>
      else find_coordinator_response_default
             \<lparr>fcrs_throttle_time_ms := 0,
              fcrs_coordinators :=
                map (\<lambda>key. coordinator_default
                       \<lparr>coord_key := key, coord_node_id := - 1, coord_host := [], coord_port := - 1,
                        coord_error_code := unsupported_code,
                        coord_error_message := Some UNSUPPORTED_VERSION_MESSAGE\<rparr>)
                  (fcrq_coordinator_keys request)\<rparr>)"

definition unsupported_join_group :: join_group_response where
  "unsupported_join_group =
     join_group_response_default
       \<lparr>jgrs_throttle_time_ms := 0, jgrs_error_code := unsupported_code, jgrs_generation_id := - 1,
        jgrs_protocol_type := None, jgrs_protocol_name := Some [], jgrs_leader := [],
        jgrs_skip_assignment := False, jgrs_member_id := [], jgrs_members := []\<rparr>"

definition unsupported_heartbeat :: heartbeat_response where
  "unsupported_heartbeat =
     heartbeat_response_default\<lparr>hrs_throttle_time_ms := 0, hrs_error_code := unsupported_code\<rparr>"

definition unsupported_leave_group :: leave_group_response where
  "unsupported_leave_group =
     leave_group_response_default
       \<lparr>lvrs_throttle_time_ms := 0, lvrs_error_code := unsupported_code, lvrs_members := []\<rparr>"

definition unsupported_sync_group :: sync_group_response where
  "unsupported_sync_group =
     sync_group_response_default
       \<lparr>sgrs_throttle_time_ms := 0, sgrs_error_code := unsupported_code, sgrs_protocol_type := None,
        sgrs_protocol_name := None, sgrs_assignment := []\<rparr>"

definition unsupported_describe_groups :: "describe_groups_request \<Rightarrow> describe_groups_response" where
  "unsupported_describe_groups request =
     describe_groups_response_default
       \<lparr>dgrs_throttle_time_ms := 0,
        dgrs_groups :=
          map (\<lambda>group_id. described_group_default
                 \<lparr>dgroup_error_code := unsupported_code, dgroup_error_message := None,
                  dgroup_group_id := group_id, dgroup_group_state := [], dgroup_protocol_type := [],
                  dgroup_protocol_data := [], dgroup_members := []\<rparr>) (dgrq_groups request)\<rparr>"

definition unsupported_list_groups :: list_groups_response where
  "unsupported_list_groups =
     list_groups_response_default
       \<lparr>lsrs_throttle_time_ms := 0, lsrs_error_code := unsupported_code, lsrs_groups := []\<rparr>"

definition unsupported_create_topics :: "create_topics_request \<Rightarrow> create_topics_response" where
  "unsupported_create_topics request =
     create_topics_response_default
       \<lparr>ctrs_throttle_time_ms := 0,
        ctrs_topics :=
          map (\<lambda>topic. creatable_topic_result_default
                 \<lparr>ctr_name := ctopic_name topic, ctr_error_code := unsupported_code,
                  ctr_error_message := Some UNSUPPORTED_VERSION_MESSAGE,
                  ctr_topic_config_error_code := 0, ctr_num_partitions := - 1,
                  ctr_replication_factor := - 1, ctr_configs := Some []\<rparr>) (ctrq_topics request)\<rparr>"

definition unsupported_init_producer_id :: init_producer_id_response where
  "unsupported_init_producer_id =
     init_producer_id_response_default
       \<lparr>ipirs_throttle_time_ms := 0, ipirs_error_code := unsupported_code, ipirs_producer_id := - 1,
        ipirs_producer_epoch := - 1, ipirs_ongoing_txn_producer_id := - 1,
        ipirs_ongoing_txn_producer_epoch := - 1\<rparr>"

definition unsupported_describe_configs :: "describe_configs_request \<Rightarrow> describe_configs_response" where
  "unsupported_describe_configs request =
     describe_configs_response_default
       \<lparr>dcfrs_throttle_time_ms := 0,
        dcfrs_results :=
          map (\<lambda>resource. describe_configs_result_default
                 \<lparr>dcfres_error_code := unsupported_code,
                  dcfres_error_message := Some UNSUPPORTED_VERSION_MESSAGE,
                  dcfres_resource_type := dcfr_resource_type resource,
                  dcfres_resource_name := dcfr_resource_name resource, dcfres_configs := []\<rparr>)
            (dcfrq_resources request)\<rparr>"

datatype error_response_error = BodyMismatch api_key

definition when_key :: "api_key \<Rightarrow> api_key \<Rightarrow> 'a \<Rightarrow> error_response_error + 'a" where
  "when_key expected key answer = (if key = expected then Inr answer else Inl (BodyMismatch key))"

text \<open>The match over key and body; \<open>when_key\<close> is an arm with both, anything else a mismatch.\<close>

definition unsupported_version :: "decoded_request \<Rightarrow> error_response_error + response_kind" where
  "unsupported_version request =
     (let version = rh_request_api_version (dr_header request); key = dr_api_key request
      in case dr_body request of
           ProduceRequest body \<Rightarrow> when_key Produce_key key (ProduceResponse (unsupported_produce body version))
         | FetchRequest body \<Rightarrow> when_key Fetch_key key (FetchResponse (unsupported_fetch body))
         | ListOffsetsRequest body \<Rightarrow>
             when_key ListOffsets_key key (ListOffsetsResponse (unsupported_list_offsets body))
         | MetadataRequest body \<Rightarrow> when_key Metadata_key key (MetadataResponse (unsupported_metadata body))
         | OffsetCommitRequest body \<Rightarrow>
             when_key OffsetCommit_key key (OffsetCommitResponse (unsupported_offset_commit body))
         | OffsetFetchRequest body \<Rightarrow>
             when_key OffsetFetch_key key (OffsetFetchResponse (unsupported_offset_fetch body version))
         | FindCoordinatorRequest body \<Rightarrow>
             when_key FindCoordinator_key key
               (FindCoordinatorResponse (unsupported_find_coordinator body version))
         | JoinGroupRequest _ \<Rightarrow> when_key JoinGroup_key key (JoinGroupResponse unsupported_join_group)
         | HeartbeatRequest _ \<Rightarrow> when_key Heartbeat_key key (HeartbeatResponse unsupported_heartbeat)
         | LeaveGroupRequest _ \<Rightarrow> when_key LeaveGroup_key key (LeaveGroupResponse unsupported_leave_group)
         | SyncGroupRequest _ \<Rightarrow> when_key SyncGroup_key key (SyncGroupResponse unsupported_sync_group)
         | DescribeGroupsRequest body \<Rightarrow>
             when_key DescribeGroups_key key (DescribeGroupsResponse (unsupported_describe_groups body))
         | ListGroupsRequest _ \<Rightarrow> when_key ListGroups_key key (ListGroupsResponse unsupported_list_groups)
         | ApiVersionsRequest _ \<Rightarrow> when_key ApiVersions_key key unsupported_api_versions
         | CreateTopicsRequest body \<Rightarrow>
             when_key CreateTopics_key key (CreateTopicsResponse (unsupported_create_topics body))
         | InitProducerIdRequest _ \<Rightarrow>
             when_key InitProducerId_key key (InitProducerIdResponse unsupported_init_producer_id)
         | DescribeConfigsRequest body \<Rightarrow>
             when_key DescribeConfigs_key key (DescribeConfigsResponse (unsupported_describe_configs body))
         | DescribeClusterRequest _ \<Rightarrow>
             when_key DescribeCluster_key key (DescribeClusterResponse unsupported_describe_cluster)
         | DescribeTopicPartitionsRequest body \<Rightarrow>
             when_key DescribeTopicPartitions_key key
               (DescribeTopicPartitionsResponse (unsupported_describe_topic_partitions body))
         | OtherRequest _ \<Rightarrow> Inl (BodyMismatch key))"

section \<open>What the answers mention\<close>

text \<open>
  What a request names one by one, in the fields its version has: topics and partitions, groups, members, keys or
  resources, each as a name and an index, which is 0 where there is none.
\<close>

type_synonym answer_item = "string \<times> int"

definition or_none :: "'a list option \<Rightarrow> 'a list" where
  "or_none v = (case v of None \<Rightarrow> [] | Some xs \<Rightarrow> xs)"

fun requested_items :: "i16 \<Rightarrow> request_kind \<Rightarrow> answer_item list" where
  "requested_items v (ProduceRequest r) =
     concat (map (\<lambda>t. map (\<lambda>p. (tpd_name t, ppd_index p)) (tpd_partition_data t)) (prq_topic_data r))"
| "requested_items v (FetchRequest r) =
     concat (map (\<lambda>t. map (\<lambda>p. (ftopic_topic t, fpart_partition p)) (ftopic_partitions t)) (frq_topics r))"
| "requested_items v (ListOffsetsRequest r) =
     concat (map (\<lambda>t. map (\<lambda>p. (lot_name t, lop_partition_index p)) (lot_partitions t)) (lorq_topics r))"
| "requested_items v (MetadataRequest r) =
     map (\<lambda>t. (or_none (mrqt_name t), 0)) (or_none (mrq_topics r))"
| "requested_items v (OffsetCommitRequest r) =
     concat (map (\<lambda>t. map (\<lambda>p. (ocrqt_name t, ocrqp_partition_index p)) (ocrqt_partitions t)) (ocrq_topics r))"
| "requested_items v (OffsetFetchRequest r) =
     (if v \<le> 7
      then concat (map (\<lambda>t. map (\<lambda>i. (ofrqt_name t, i)) (ofrqt_partition_indexes t)) (or_none (ofrq_topics r)))
      else concat (map (\<lambda>g. (ofrqg_group_id g, 0) #
             concat (map (\<lambda>t. map (\<lambda>i. (ofrqts_name t, i)) (ofrqts_partition_indexes t))
               (or_none (ofrqg_topics g)))) (ofrq_groups r)))"
| "requested_items v (FindCoordinatorRequest r) =
     (if v \<le> 3 then [(fcrq_key r, 0)] else map (\<lambda>k. (k, 0)) (fcrq_coordinator_keys r))"
| "requested_items v (LeaveGroupRequest r) =
     (if v \<le> 2 then [(lvrq_member_id r, 0)] else map (\<lambda>m. (mident_member_id m, 0)) (lvrq_members r))"
| "requested_items v (DescribeGroupsRequest r) = map (\<lambda>g. (g, 0)) (dgrq_groups r)"
| "requested_items v (CreateTopicsRequest r) = map (\<lambda>t. (ctopic_name t, 0)) (ctrq_topics r)"
| "requested_items v (DescribeConfigsRequest r) =
     map (\<lambda>c. (dcfr_resource_name c, dcfr_resource_type c)) (dcfrq_resources r)"
| "requested_items v (DescribeTopicPartitionsRequest r) = map (\<lambda>t. (trq_name t, 0)) (dtprq_topics r)"
| "requested_items v _ = []"

text \<open>
  The error a response carries as a whole, where its API and version have one, and the items it lists, each
  with its error code.
\<close>

fun response_error_code :: "i16 \<Rightarrow> response_kind \<Rightarrow> i16 option" where
  "response_error_code v (FetchResponse r) = Some (frs_error_code r)"
| "response_error_code v (MetadataResponse r) = Some (mrs_error_code r)"
| "response_error_code v (OffsetFetchResponse r) = (if 2 \<le> v \<and> v \<le> 7 then Some (ofrs_error_code r) else None)"
| "response_error_code v (FindCoordinatorResponse r) = (if v \<le> 3 then Some (fcrs_error_code r) else None)"
| "response_error_code v (JoinGroupResponse r) = Some (jgrs_error_code r)"
| "response_error_code v (HeartbeatResponse r) = Some (hrs_error_code r)"
| "response_error_code v (LeaveGroupResponse r) = Some (lvrs_error_code r)"
| "response_error_code v (SyncGroupResponse r) = Some (sgrs_error_code r)"
| "response_error_code v (ListGroupsResponse r) = Some (lsrs_error_code r)"
| "response_error_code v (ApiVersionsResponse r) = Some (avrs_error_code r)"
| "response_error_code v (InitProducerIdResponse r) = Some (ipirs_error_code r)"
| "response_error_code v (DescribeClusterResponse r) = Some (dcrs_error_code r)"
| "response_error_code v _ = None"

fun answered_items :: "i16 \<Rightarrow> response_kind \<Rightarrow> (answer_item \<times> i16) list" where
  "answered_items v (ProduceResponse r) =
     concat (map (\<lambda>t. map (\<lambda>p. ((tprs_name t, pprs_index p), pprs_error_code p)) (tprs_partition_responses t))
       (prs_responses r))"
| "answered_items v (FetchResponse r) =
     concat (map (\<lambda>t. map (\<lambda>p. ((ftrs_topic t, pdata_partition_index p), pdata_error_code p)) (ftrs_partitions t))
       (frs_responses r))"
| "answered_items v (ListOffsetsResponse r) =
     concat (map (\<lambda>t. map (\<lambda>p. ((lotrs_name t, loprs_partition_index p), loprs_error_code p)) (lotrs_partitions t))
       (lors_topics r))"
| "answered_items v (MetadataResponse r) =
     map (\<lambda>t. ((or_none (mrst_name t), 0), mrst_error_code t)) (mrs_topics r)"
| "answered_items v (OffsetCommitResponse r) =
     concat (map (\<lambda>t. map (\<lambda>p. ((ocrst_name t, ocrsp_partition_index p), ocrsp_error_code p)) (ocrst_partitions t))
       (ocrs_topics r))"
| "answered_items v (OffsetFetchResponse r) =
     (if v \<le> 7
      then concat (map (\<lambda>t. map (\<lambda>p. ((ofrst_name t, ofrsp_partition_index p), ofrsp_error_code p))
             (ofrst_partitions t)) (ofrs_topics r))
      else concat (map (\<lambda>g. ((ofrsg_group_id g, 0), ofrsg_error_code g) #
             concat (map (\<lambda>t. map (\<lambda>p. ((ofrsts_name t, ofrsps_partition_index p), ofrsps_error_code p))
               (ofrsts_partitions t)) (ofrsg_topics g))) (ofrs_groups r)))"
| "answered_items v (FindCoordinatorResponse r) =
     (if v \<le> 3 then []
      else map (\<lambda>c. ((coord_key c, 0), coord_error_code c)) (fcrs_coordinators r))"
| "answered_items v (LeaveGroupResponse r) =
     (if v \<le> 2 then [] else map (\<lambda>m. ((memrs_member_id m, 0), memrs_error_code m)) (lvrs_members r))"
| "answered_items v (DescribeGroupsResponse r) =
     map (\<lambda>g. ((dgroup_group_id g, 0), dgroup_error_code g)) (dgrs_groups r)"
| "answered_items v (CreateTopicsResponse r) = map (\<lambda>t. ((ctr_name t, 0), ctr_error_code t)) (ctrs_topics r)"
| "answered_items v (DescribeConfigsResponse r) =
     map (\<lambda>c. ((dcfres_resource_name c, dcfres_resource_type c), dcfres_error_code c)) (dcfrs_results r)"
| "answered_items v (DescribeTopicPartitionsResponse r) =
     map (\<lambda>t. ((or_none (dtprst_name t), 0), dtprst_error_code t)) (dtprs_topics r)"
| "answered_items v _ = []"

text \<open>
  The requests whose error is given only once, for the response as a whole: those that name nothing one by one, or
  have a response that lists nothing, and, although both their requests and their responses have lists, OffsetFetch of
  the versions 2 to 7 and LeaveGroup from version 3 on.
\<close>

fun answered_as_whole :: "i16 \<Rightarrow> request_kind \<Rightarrow> bool" where
  "answered_as_whole v (OffsetFetchRequest _) \<longleftrightarrow> 2 \<le> v \<and> v \<le> 7"
| "answered_as_whole v (FindCoordinatorRequest _) \<longleftrightarrow> v \<le> 3"
| "answered_as_whole v (LeaveGroupRequest _) \<longleftrightarrow> True"
| "answered_as_whole v (JoinGroupRequest _) \<longleftrightarrow> True"
| "answered_as_whole v (HeartbeatRequest _) \<longleftrightarrow> True"
| "answered_as_whole v (SyncGroupRequest _) \<longleftrightarrow> True"
| "answered_as_whole v (ListGroupsRequest _) \<longleftrightarrow> True"
| "answered_as_whole v (ApiVersionsRequest _) \<longleftrightarrow> True"
| "answered_as_whole v (InitProducerIdRequest _) \<longleftrightarrow> True"
| "answered_as_whole v (DescribeClusterRequest _) \<longleftrightarrow> True"
| "answered_as_whole v _ \<longleftrightarrow> False"

lemmas unsupported_defs =
  unsupported_produce_def unsupported_fetch_def unsupported_list_offsets_def unsupported_metadata_def
  unsupported_offset_commit_def unsupported_offset_fetch_def unsupported_find_coordinator_def
  unsupported_join_group_def unsupported_heartbeat_def unsupported_leave_group_def
  unsupported_sync_group_def unsupported_describe_groups_def unsupported_list_groups_def
  unsupported_api_versions_def unsupported_create_topics_def unsupported_init_producer_id_def
  unsupported_describe_configs_def unsupported_describe_cluster_def
  unsupported_describe_topic_partitions_def

lemma unsupported_version_answers:
  assumes "request_key (dr_body request) = dr_api_key request" and "\<nexists>k. dr_body request = OtherRequest k"
  shows "\<exists>response. unsupported_version request = Inr response \<and>
    response_key response = dr_api_key request \<and>
    (let version = rh_request_api_version (dr_header request); unsupported = code (Error ''UnsupportedVersion'')
     in response_error_code version response \<in> {None, Some unsupported} \<and>
        (if answered_as_whole version (dr_body request)
         then response_error_code version response = Some unsupported \<and> answered_items version response = []
         else answered_items version response =
           map (\<lambda>item. (item, unsupported)) (requested_items version (dr_body request))))"
  using assms
  by (cases "dr_body request")
    (simp_all add: unsupported_version_def when_key_def unsupported_defs unsupported_code_def or_none_def
      map_concat comp_def Let_def split: option.split)


definition sample_unsupported :: decoded_request where
  "sample_unsupported =
     \<lparr>dr_header = \<lparr>rh_request_api_key = DescribeGroups_key, rh_request_api_version = 6, rh_correlation_id = 9,
        rh_client_id = None, rh_unknown_tagged_fields = []\<rparr>,
      dr_api_key = DescribeGroups_key,
      dr_body = DescribeGroupsRequest (describe_groups_request_default\<lparr>dgrq_groups := [''g'', ''h'']\<rparr>)\<rparr>"


end
