(* ===== verification/Producers.thy ===== *)
theory Producers
  imports Prelude
begin

text \<open>
  The producer coordinator (\<open>src/src/broker/producers.rs\<close>): it hands out process-local producer
  identifiers, all at epoch 0, and validates the identity a record set carries. The mutex around
  the coordinator makes each operation atomic, so an operation is a function on the state.
\<close>

section \<open>State and operations\<close>

record producer_identity =
  producer_id :: i64
  producer_epoch :: i16

datatype producer_error = IdExhausted | UnknownProducerId | InvalidProducerEpoch

record producer_coordinator =
  next_id :: i64
  epochs :: "(i64, i16) hash_map"

definition producers_new :: producer_coordinator where
  "producers_new = \<lparr>next_id = 0, epochs = []\<rparr>"

definition allocate ::
  "producer_coordinator \<Rightarrow> (producer_error + producer_identity) \<times> producer_coordinator" where
  "allocate c =
     (case checked_add_i64 (next_id c) 1 of
        None \<Rightarrow> (Inl IdExhausted, c)
      | Some i \<Rightarrow>
          (Inr \<lparr>producer_id = i, producer_epoch = 0\<rparr>,
           c\<lparr>next_id := i, epochs := AList.update i 0 (epochs c)\<rparr>))"

definition validate_producer ::
  "producer_coordinator \<Rightarrow> i64 \<Rightarrow> i16 \<Rightarrow> producer_error + unit" where
  "validate_producer c pid epoch =
     (case map_of (epochs c) pid of
        None \<Rightarrow> Inl UnknownProducerId
      | Some expected_epoch \<Rightarrow>
          if expected_epoch = epoch then Inr () else Inl InvalidProducerEpoch)"

text \<open>The identities handed out by \<open>n\<close> successive calls, with the state after them.\<close>

fun allocations :: "nat \<Rightarrow> producer_coordinator \<Rightarrow> producer_identity list \<times> producer_coordinator" where
  "allocations 0 c = ([], c)"
| "allocations (Suc n) c =
     (case allocate c of
        (Inl e, c') \<Rightarrow> allocations n c'
      | (Inr p, c') \<Rightarrow> (case allocations n c' of (ps, c'') \<Rightarrow> (p # ps, c'')))"

section \<open>Invariant\<close>

text \<open>Exactly the identifiers 1 to \<open>next_id\<close> are known, every one at epoch 0.\<close>

definition producers_ok :: "producer_coordinator \<Rightarrow> bool" where
  "producers_ok c \<longleftrightarrow>
     0 \<le> next_id c \<and> in_i64 (next_id c) \<and> hm_ok (epochs c) \<and>
     (\<forall>i. map_of (epochs c) i = (if 1 \<le> i \<and> i \<le> next_id c then Some 0 else None))"

lemma producers_ok_new [simp]: "producers_ok producers_new"
  by (simp add: producers_ok_def producers_new_def in_i64_def)

lemma producers_ok_allocate:
  assumes "producers_ok c"
  shows "producers_ok (snd (allocate c))"
  using assms
  by (auto simp: producers_ok_def allocate_def checked_add_i64_def update_conv' split: option.splits)

interpretation producers: guarded_ops "\<lambda>_::unit. snd \<circ> allocate" producers_ok
  by unfold_locales (simp add: producers_ok_allocate)

section \<open>Properties\<close>

lemma validate_producer_iff:
  assumes "producers_ok c"
  shows "validate_producer c i e =
    (if 1 \<le> i \<and> i \<le> next_id c then if e = 0 then Inr () else Inl InvalidProducerEpoch
     else Inl UnknownProducerId)"
  using assms by (auto simp: producers_ok_def validate_producer_def)

lemma allocate_next_id:
  assumes "allocate c = (Inr p, c')"
  shows "producer_id p = next_id c + 1 \<and> producer_epoch p = 0 \<and> next_id c' = next_id c + 1"
  using assms by (auto simp: allocate_def checked_add_i64_def split: option.splits if_splits)

lemma allocate_exhausted_iff:
  assumes "producers_ok c"
  shows "fst (allocate c) = Inl IdExhausted \<longleftrightarrow> next_id c = 2 ^ 63 - 1"
  using assms by (auto simp: allocate_def checked_add_i64_def producers_ok_def in_i64_def)

lemma allocations_range:
  assumes "producers_ok c" and "allocations n c = (ps, c')"
  shows "producers_ok c' \<and> next_id c' = min (next_id c + int n) (2 ^ 63 - 1) \<and>
    map producer_id ps = [next_id c + 1..next_id c'] \<and> (\<forall>p \<in> set ps. producer_epoch p = 0)"
  using assms
proof (induction n arbitrary: c ps)
  case 0
  then show ?case by (auto simp: producers_ok_def in_i64_def)
next
  case (Suc n)
  have ok: "producers_ok (snd (allocate c))" by (rule producers_ok_allocate [OF Suc.prems(1)])
  show ?case
  proof (cases "next_id c = 2 ^ 63 - 1")
    case True
    then have "allocate c = (Inl IdExhausted, c)"
      by (simp add: allocate_def checked_add_i64_def in_i64_def)
    with Suc.prems have "allocations n c = (ps, c')" by simp
    from Suc.IH [OF Suc.prems(1) this] True show ?thesis by simp
  next
    case False
    then have rng: "next_id c + 1 \<le> 2 ^ 63 - 1" and fit: "in_i64 (next_id c + 1)"
      using Suc.prems(1) by (auto simp: producers_ok_def in_i64_def)
    let ?c = "c\<lparr>next_id := next_id c + 1, epochs := AList.update (next_id c + 1) 0 (epochs c)\<rparr>"
    have alloc: "allocate c = (Inr \<lparr>producer_id = next_id c + 1, producer_epoch = 0\<rparr>, ?c)"
      using fit by (simp add: allocate_def checked_add_i64_def)
    with Suc.prems(2) obtain ps' where ps': "allocations n ?c = (ps', c')"
      "ps = \<lparr>producer_id = next_id c + 1, producer_epoch = 0\<rparr> # ps'"
      by (auto split: prod.splits)
    have "producers_ok ?c" using ok alloc by simp
    from Suc.IH [OF this ps'(1)] rng show ?thesis
      unfolding ps'(2) by (auto simp: upto_rec1 [of "next_id c + 1"])
  qed
qed

text \<open>
  C8: however often identifiers are requested, no two producers share one, every identity handed
  out is accepted, and nothing else is; the identifiers are 1, 2, 3, and so on, until the 63-bit space is
  exhausted.
\<close>

theorem allocated_producers_exactly_known:
  "case allocations n producers_new of (ps, c) \<Rightarrow>
     map producer_id ps = [1..min (int n) (2 ^ 63 - 1)] \<and> distinct (map producer_id ps) \<and>
     (\<forall>i e. validate_producer c i e = Inr () \<longleftrightarrow>
        (\<exists>p \<in> set ps. producer_id p = i \<and> producer_epoch p = e))"
proof -
  obtain ps c where alloc: "allocations n producers_new = (ps, c)" by fastforce
  note facts = allocations_range [OF producers_ok_new alloc]
  have new: "next_id producers_new = 0" by (simp add: producers_new_def)
  have ids: "map producer_id ps = [1..next_id c]" and nxt: "next_id c = min (int n) (2 ^ 63 - 1)"
    using facts new by simp_all
  have "(\<exists>p \<in> set ps. producer_id p = i \<and> producer_epoch p = e) \<longleftrightarrow> i \<in> set [1..next_id c] \<and> e = 0"
    for i e
    unfolding ids [symmetric] set_map using facts by blast
  then have "validate_producer c i e = Inr () \<longleftrightarrow>
      (\<exists>p \<in> set ps. producer_id p = i \<and> producer_epoch p = e)" for i e
    using validate_producer_iff [of c i e] facts by auto
  then show ?thesis
    unfolding alloc using ids by (simp add: nxt del: set_upto)
qed

end
