(* ===== verification/Batch.thy ===== *)
theory Batch
  imports Wire
begin

unbundle bit_operations_syntax

text \<open>
  Record batch headers (\<open>crates/kafka-protocol/src/records.rs\<close>): the metadata a broker reads
  without decompressing the records. The checksum function of the \<open>crc32c\<close> crate is the parameter
  \<open>crc\<close> of the definitions.
\<close>

section \<open>Batch header\<close>

datatype compression = Uncompressed | Gzip | Snappy | Lz4 | Zstd

datatype timestamp_type = Creation | LogAppend

record batch_decode_info =
  bi_record_count :: i32
  bi_timestamp_type :: timestamp_type
  bi_min_offset :: i64
  bi_min_timestamp :: i64
  bi_base_sequence :: i32
  bi_transactional :: bool
  bi_control :: bool
  bi_delete_horizon :: bool
  bi_partition_leader_epoch :: i32
  bi_producer_id :: i64
  bi_producer_epoch :: i16
  bi_compression :: compression
  bi_version :: i8

definition NO_PRODUCER_ID :: i64 where
  "NO_PRODUCER_ID = - 1"

definition NO_PRODUCER_EPOCH :: i16 where
  "NO_PRODUCER_EPOCH = - 1"

definition NO_SEQUENCE :: i32 where
  "NO_SEQUENCE = - 1"

definition MAGIC_BYTE_OFFSET :: usize where
  "MAGIC_BYTE_OFFSET = 16"

definition compression_of :: "i16 \<Rightarrow> wire_error + compression" where
  "compression_of attributes =
     (let code = attributes AND 7
      in if code = 0 then Inr Uncompressed
         else if code = 1 then Inr Gzip
         else if code = 2 then Inr Snappy
         else if code = 3 then Inr Lz4
         else if code = 4 then Inr Zstd
         else Inl (Bail ''Unknown compression algorithm used''))"

text \<open>
  The outer buffer advances over the whole batch; the inner buffer, cut to the batch length, is
  what the header fields are read from, and what is left of it are the records.
\<close>

definition decode_batch_header_inner ::
  "(bytes \<Rightarrow> nat) \<Rightarrow> i8 \<Rightarrow> (batch_decode_info \<times> bytes) decoder" where
  "decode_batch_header_inner crc version buf0 =
     try_bind (Int64_decode buf0) (\<lambda>(min_offset, buf1).
     try_bind (Int32_decode buf1) (\<lambda>(batch_length, buf2).
     if batch_length < 0 then Inl (Bail ''Unexpected negative batch size'') else
     try_bind (try_get_bytes (nat batch_length) buf2) (\<lambda>(inner0, outer).
     try_bind (Int32_decode inner0) (\<lambda>(partition_leader_epoch, inner1).
     try_bind (Int8_decode inner1) (\<lambda>(magic, inner2).
     if magic \<noteq> version then Inl (Bail ''Version mismatch'') else
     try_bind (UInt32_decode inner2) (\<lambda>(supplied_crc, inner3).
     if supplied_crc \<noteq> crc inner3 then Inl (Bail ''Cyclic redundancy check failed'') else
     try_bind (Int16_decode inner3) (\<lambda>(attributes, inner4).
     try_bind (compression_of attributes) (\<lambda>compression.
     try_bind (Int32_decode inner4) (\<lambda>(_, inner5).
     try_bind (Int64_decode inner5) (\<lambda>(min_timestamp, inner6).
     try_bind (Int64_decode inner6) (\<lambda>(_, inner7).
     try_bind (Int64_decode inner7) (\<lambda>(pid, inner8).
     try_bind (Int16_decode inner8) (\<lambda>(epoch, inner9).
     try_bind (Int32_decode inner9) (\<lambda>(base_sequence, inner10).
     try_bind (Int32_decode inner10) (\<lambda>(record_count, inner11).
     if record_count < 0 then Inl (Bail ''Unexpected negative record count'') else
     Inr ((\<lparr>bi_record_count = record_count,
            bi_timestamp_type = (if bit attributes 3 then LogAppend else Creation),
            bi_min_offset = min_offset,
            bi_min_timestamp = min_timestamp,
            bi_base_sequence = base_sequence,
            bi_transactional = bit attributes 4,
            bi_control = bit attributes 5,
            bi_delete_horizon = bit attributes 6,
            bi_partition_leader_epoch = partition_leader_epoch,
            bi_producer_id = pid,
            bi_producer_epoch = epoch,
            bi_compression = compression,
            bi_version = version\<rparr>, inner11), outer))))))))))))))))"

lemma decode_batch_header_inner_consumes:
  assumes "decode_batch_header_inner crc version buf = Inr (info, rest)"
  shows "length rest + 12 \<le> length buf"
  using assms
  by (auto simp: decode_batch_header_inner_def try_bind_Inr Int64_decode_def Int32_decode_def
      sint_decode_Inr try_get_bytes_Inr split: if_splits)

text \<open>
  The loop over all batch headers of a buffer. It stops at a batch of another format version,
  leaving the rest of the buffer unread, and ends because every batch takes at least 12 bytes.
\<close>

function decode_batch_info :: "(bytes \<Rightarrow> nat) \<Rightarrow> batch_decode_info list decoder" where
  "decode_batch_info crc buf =
     (if buf = [] then Inr ([], buf)
      else
        try_bind (try_peek_bytes MAGIC_BYTE_OFFSET (MAGIC_BYTE_OFFSET + 1) buf) (\<lambda>peeked.
        let version = sint (hd peeked)
        in if version \<noteq> 2 then Inr ([], buf)
           else case decode_batch_header_inner crc version buf of
                  Inl e \<Rightarrow> Inl e
                | Inr ((header, _), rest) \<Rightarrow>
                    try_bind (decode_batch_info crc rest) (\<lambda>(headers, rest').
                    Inr (header # headers, rest'))))"
  by pat_completeness auto
termination
  by (relation "measure (\<lambda>(crc, buf). length buf)")
    (auto dest!: decode_batch_header_inner_consumes)

declare decode_batch_info.simps [simp del]

lemma header_base_sequence_in_i32:
  assumes "decode_batch_header_inner crc version buf = Inr ((info, records), rest)"
  shows "in_i32 (bi_base_sequence info)"
  using assms
  by (auto simp: decode_batch_header_inner_def try_bind_Inr Int32_decode_def
      sint_decode_Inr split: if_splits)

lemma decode_batch_info_Cons:
  assumes "decode_batch_info crc buf = Inr (info # infos, rest)"
  shows "\<exists>records rest'. decode_batch_header_inner crc 2 buf = Inr ((info, records), rest') \<and>
    decode_batch_info crc rest' = Inr (infos, rest)"
proof -
  from assms have "buf \<noteq> []"
    by (auto simp: decode_batch_info.simps [of crc buf])
  with assms show ?thesis
    by (subst (asm) decode_batch_info.simps)
      (auto simp: try_bind_Inr Let_def split: if_splits sum.splits)
qed

section \<open>Batch layout\<close>

text \<open>The bytes of a batch field by field, as a producer lays them out, and that they decode.\<close>

lemma int_decode_be_bytes:
  "in_i64 x \<Longrightarrow> Int64_decode (be_bytes 8 x @ r) = Inr (x, r)"
  "in_i32 x \<Longrightarrow> Int32_decode (be_bytes 4 x @ r) = Inr (x, r)"
  "in_i16 x \<Longrightarrow> Int16_decode (be_bytes 2 x @ r) = Inr (x, r)"
  "in_i8 x \<Longrightarrow> Int8_decode (be_bytes (Suc 0) x @ r) = Inr (x, r)"
  using int64.dec_enc int32.dec_enc int16.dec_enc int8.dec_enc
  by (simp_all add: int_codec_defs)

lemma UInt32_decode_be_bytes:
  "n < 2 ^ 32 \<Longrightarrow> UInt32_decode (be_bytes 4 (int n) @ r) = Inr (n, r)"
proof -
  assume "n < 2 ^ 32"
  then have "int (be_nat (be_bytes 4 (int n))) = int n"
    unfolding int_be_nat_be_bytes by simp
  then show ?thesis by (simp add: UInt32_decode_def try_get_bytes_def)
qed

definition batch_content ::
  "i16 \<Rightarrow> i32 \<Rightarrow> i64 \<Rightarrow> i64 \<Rightarrow> i64 \<Rightarrow> i16 \<Rightarrow> i32 \<Rightarrow> i32 \<Rightarrow> bytes \<Rightarrow> bytes" where
  "batch_content attributes delta first_ts last_ts pid epoch seq n records =
     be_bytes 2 attributes @ be_bytes 4 delta @ be_bytes 8 first_ts @ be_bytes 8 last_ts @
     be_bytes 8 pid @ be_bytes 2 epoch @ be_bytes 4 seq @ be_bytes 4 n @ records"

definition batch_frame :: "(bytes \<Rightarrow> nat) \<Rightarrow> i64 \<Rightarrow> i32 \<Rightarrow> bytes \<Rightarrow> bytes" where
  "batch_frame crc off leader_epoch content =
     be_bytes 8 off @ be_bytes 4 (int (length content) + 9) @ be_bytes 4 leader_epoch @
     be_bytes 1 2 @ be_bytes 4 (int (crc content)) @ content"

lemma length_batch_content [simp]:
  "length (batch_content a d f l p e s n records) = 40 + length records"
  by (simp add: batch_content_def)

lemma length_batch_frame [simp]: "length (batch_frame crc off le content) = 21 + length content"
  by (simp add: batch_frame_def)

lemma decode_batch_frame:
  assumes c: "c = batch_content attributes delta first_ts last_ts pid epoch seq n records"
    and r: "in_i64 off" "in_i32 le" "in_i16 attributes" "in_i32 delta" "in_i64 first_ts"
      "in_i64 last_ts" "in_i64 pid" "in_i16 epoch" "in_i32 seq" "in_i32 n" "0 \<le> n"
      "in_i32 (int (length c) + 9)" "crc c < 2 ^ 32"
    and comp: "compression_of attributes = Inr z"
  shows "decode_batch_header_inner crc 2 (batch_frame crc off le c @ rest) =
    Inr ((\<lparr>bi_record_count = n,
            bi_timestamp_type = (if bit attributes 3 then LogAppend else Creation),
            bi_min_offset = off, bi_min_timestamp = first_ts, bi_base_sequence = seq,
            bi_transactional = bit attributes 4, bi_control = bit attributes 5,
            bi_delete_horizon = bit attributes 6, bi_partition_leader_epoch = le,
            bi_producer_id = pid, bi_producer_epoch = epoch, bi_compression = z,
            bi_version = 2\<rparr>, records), rest)"
proof -
  let ?inner = "be_bytes 4 le @ be_bytes 1 2 @ be_bytes 4 (int (crc c)) @ c"
  have "try_get_bytes (nat (int (length c) + 9)) (?inner @ rest) = Inr (?inner, rest)"
    by (simp add: try_get_bytes_Inr)
  moreover have "in_i8 2" by (simp add: in_i8_def)
  moreover have "Int16_decode c = Inr (attributes, drop 2 c)"
    using r by (simp add: c batch_content_def int_decode_be_bytes)
  moreover have "drop 2 c = be_bytes 4 delta @ be_bytes 8 first_ts @ be_bytes 8 last_ts @
     be_bytes 8 pid @ be_bytes 2 epoch @ be_bytes 4 seq @ be_bytes 4 n @ records"
    by (simp add: c batch_content_def)
  ultimately show ?thesis
    using r comp unfolding decode_batch_header_inner_def batch_frame_def
    by (simp add: int_decode_be_bytes UInt32_decode_be_bytes del: be_bytes.simps split del: if_split)
qed

end
