(* ===== verification/Partition.thy ===== *)
theory Partition
  imports Batch
begin

text \<open>
  The partition log (\<open>src/src/broker/partition.rs\<close>): an append-only list of record batches with
  contiguous offsets, the idempotent-producer state that deduplicates retries, and the byte-limited
  read. Every operation holds the log's mutex for its whole body, so it is a function on the log.
\<close>

section \<open>Types\<close>

definition FIXED_BATCH_SIZE :: usize where
  "FIXED_BATCH_SIZE = 61"

definition BATCH_LENGTH_OFFSET :: usize where
  "BATCH_LENGTH_OFFSET = 8"

definition MAGIC_OFFSET :: usize where
  "MAGIC_OFFSET = 16"

definition CRC_OFFSET :: usize where
  "CRC_OFFSET = 17"

definition LAST_OFFSET_DELTA_OFFSET :: usize where
  "LAST_OFFSET_DELTA_OFFSET = 23"

definition RECORD_COUNT_OFFSET :: usize where
  "RECORD_COUNT_OFFSET = 57"

definition RECENT_APPEND_LIMIT :: usize where
  "RECENT_APPEND_LIMIT = 5"

definition SEQUENCE_MODULUS :: i64 where
  "SEQUENCE_MODULUS = i32_max + 1"

lemmas layout_defs =
  FIXED_BATCH_SIZE_def BATCH_LENGTH_OFFSET_def MAGIC_OFFSET_def CRC_OFFSET_def
  LAST_OFFSET_DELTA_OFFSET_def RECORD_COUNT_OFFSET_def

datatype append_error =
  Malformed | UnsupportedBatch | OffsetOverflow | OutOfOrderSequence | DuplicateSequence

datatype fetch_error = OutOfRange

record append_result =
  ar_base_offset :: i64
  ar_last_offset :: i64
  ar_record_count :: i32
  ar_appended :: bool

record record_set_producer =
  rp_producer_id :: i64
  rp_producer_epoch :: i16

record fetch_snapshot =
  fs_records :: bytes
  fs_high_watermark :: i64

record retry_fingerprint =
  rf_batch_length :: i32
  rf_record_count :: i32
  rf_crc :: nat

record recent_append =
  ra_base_sequence :: i32
  ra_fingerprints :: "retry_fingerprint list"
  ra_encoded_batches :: "bytes list"
  ra_result :: append_result

record producer_partition_state =
  ps_producer_epoch :: i16
  ps_next_sequence :: i32
  ps_recent :: "recent_append list"

record stored_batch =
  sb_base_offset :: i64
  sb_last_offset :: i64
  sb_record_count :: i32
  sb_bytes :: bytes

record validated_batch =
  vb_batch_length :: i32
  vb_record_count :: i32
  vb_producer_id :: i64
  vb_producer_epoch :: i16
  vb_base_sequence :: i32
  vb_crc :: nat
  vb_bytes :: bytes

record partition_log =
  next_offset :: i64
  batches :: "stored_batch list"
  producer_states :: "(i64, producer_partition_state) hash_map"

definition log_default :: partition_log where
  "log_default = \<lparr>next_offset = 0, batches = [], producer_states = []\<rparr>"

section \<open>Validation of a record set\<close>

definition i32_at :: "usize \<Rightarrow> bytes \<Rightarrow> i32" where
  "i32_at i bs = wrap_i32 (int (be_nat (slice i 4 bs)))"

definition u32_at :: "usize \<Rightarrow> bytes \<Rightarrow> nat" where
  "u32_at i bs = be_nat (slice i 4 bs)"

text \<open>
  One iteration of the loop: the batch at the front of the remaining bytes, already cut to its
  encoded length.
\<close>

definition validate_batch :: "(bytes \<Rightarrow> nat) \<Rightarrow> i32 \<Rightarrow> bytes \<Rightarrow> append_error + validated_batch" where
  "validate_batch crc encoded_batch_length batch =
     (if batch ! MAGIC_OFFSET \<noteq> 2 then Inl UnsupportedBatch else
      case decode_batch_info crc batch of
        Inl _ \<Rightarrow> Inl Malformed
      | Inr (infos, unread) \<Rightarrow>
          if unread \<noteq> [] \<or> length infos \<noteq> 1 then Inl Malformed else
          let info = hd infos
          in if bi_transactional info \<or> bi_control info then Inl UnsupportedBatch else
          let non_idempotent =
                bi_producer_id info = NO_PRODUCER_ID \<and>
                bi_producer_epoch info = NO_PRODUCER_EPOCH \<and>
                (bi_base_sequence info = NO_SEQUENCE \<or> bi_base_sequence info = 0);
              idempotent =
                bi_producer_id info \<noteq> NO_PRODUCER_ID \<and>
                0 \<le> bi_producer_epoch info \<and> 0 \<le> bi_base_sequence info
          in if \<not> non_idempotent \<and> \<not> idempotent then Inl Malformed else
          let last_offset_delta = i32_at LAST_OFFSET_DELTA_OFFSET batch;
              record_count = i32_at RECORD_COUNT_OFFSET batch
          in if record_count \<le> 0 \<or> bi_record_count info \<noteq> record_count
                \<or> last_offset_delta \<noteq> record_count - 1 then Inl Malformed else
          Inr \<lparr>vb_batch_length = encoded_batch_length,
               vb_record_count = record_count,
               vb_producer_id = bi_producer_id info,
               vb_producer_epoch = bi_producer_epoch info,
               vb_base_sequence = bi_base_sequence info,
               vb_crc = u32_at CRC_OFFSET batch,
               vb_bytes = batch\<rparr>)"

text \<open>The loop over \<open>position\<close>; the argument is what remains of the record set from there.\<close>

function validate_batches :: "(bytes \<Rightarrow> nat) \<Rightarrow> bytes \<Rightarrow> append_error + validated_batch list" where
  "validate_batches crc remaining =
     (if remaining = [] then Inr [] else
      if length remaining < FIXED_BATCH_SIZE then Inl Malformed else
      let encoded_batch_length = i32_at BATCH_LENGTH_OFFSET remaining
      in case usize_try_from encoded_batch_length of
           None \<Rightarrow> Inl Malformed
         | Some batch_length \<Rightarrow>
             (case checked_add_usize 12 batch_length of
                None \<Rightarrow> Inl Malformed
              | Some total_length \<Rightarrow>
                  if total_length < FIXED_BATCH_SIZE \<or> total_length > length remaining
                  then Inl Malformed else
                  try_bind (validate_batch crc encoded_batch_length (take total_length remaining))
                    (\<lambda>batch.
                  try_bind (validate_batches crc (drop total_length remaining)) (\<lambda>validated.
                  Inr (batch # validated)))))"
  by pat_completeness auto
termination
  by (relation "measure (\<lambda>(crc, remaining). length remaining)")
    (auto simp: checked_add_usize_def layout_defs split: if_splits)

declare validate_batches.simps [simp del]

definition validate_record_set :: "(bytes \<Rightarrow> nat) \<Rightarrow> bytes \<Rightarrow> append_error + validated_batch list" where
  "validate_record_set crc records =
     (if records = [] then Inl Malformed else
      try_bind (validate_batches crc records) (\<lambda>validated.
      let first = hd validated
      in if list_ex (\<lambda>batch. vb_producer_id batch \<noteq> vb_producer_id first
              \<or> vb_producer_epoch batch \<noteq> vb_producer_epoch first) validated
         then Inl Malformed else Inr validated))"

definition producer_of :: "validated_batch \<Rightarrow> record_set_producer option" where
  "producer_of first =
     (if vb_producer_id first \<noteq> NO_PRODUCER_ID
      then Some \<lparr>rp_producer_id = vb_producer_id first, rp_producer_epoch = vb_producer_epoch first\<rparr>
      else None)"

definition record_set_producer ::
  "(bytes \<Rightarrow> nat) \<Rightarrow> bytes \<Rightarrow> append_error + record_set_producer option" where
  "record_set_producer crc records =
     try_bind (validate_record_set crc records) (\<lambda>validated. Inr (producer_of (hd validated)))"

section \<open>Producer sequences\<close>

definition next_sequence :: "i32 \<Rightarrow> i32 \<Rightarrow> i32" where
  "next_sequence base_sequence record_count =
     wrap_i32 (rust_rem (base_sequence + record_count) SEQUENCE_MODULUS)"

definition classify_sequence_mismatch :: "i32 \<Rightarrow> i32 \<Rightarrow> append_error" where
  "classify_sequence_mismatch received expected =
     (let forward_distance = (received - expected) mod SEQUENCE_MODULUS
      in if forward_distance < SEQUENCE_MODULUS div 2 then OutOfOrderSequence
         else DuplicateSequence)"

fun validate_sequences :: "validated_batch list \<Rightarrow> i32 \<Rightarrow> append_error + unit" where
  "validate_sequences [] expected = Inr ()"
| "validate_sequences (batch # validated) expected =
     (if vb_base_sequence batch \<noteq> expected
      then Inl (classify_sequence_mismatch (vb_base_sequence batch) expected)
      else validate_sequences validated (next_sequence expected (vb_record_count batch)))"

section \<open>Append\<close>

fun total_records :: "i32 \<Rightarrow> validated_batch list \<Rightarrow> i32 option" where
  "total_records acc [] = Some acc"
| "total_records acc (batch # validated) =
     (case checked_add_i32 acc (vb_record_count batch) of
        None \<Rightarrow> None
      | Some acc' \<Rightarrow> total_records acc' validated)"

definition fingerprint :: "validated_batch \<Rightarrow> retry_fingerprint" where
  "fingerprint batch =
     \<lparr>rf_batch_length = vb_batch_length batch, rf_record_count = vb_record_count batch,
      rf_crc = vb_crc batch\<rparr>"

definition same_request :: "i32 \<Rightarrow> validated_batch list \<Rightarrow> recent_append \<Rightarrow> bool" where
  "same_request base_sequence validated recent \<longleftrightarrow>
     ra_base_sequence recent = base_sequence \<and>
     ra_fingerprints recent = map fingerprint validated \<and>
     ra_encoded_batches recent = map vb_bytes validated"

text \<open>
  The producer check under the lock: reject, answer a retained retry, or admit the batches with
  the sequence the producer continues from.
\<close>

datatype admission = Reject append_error | Retry append_result | Admit "i32 option"

definition admit :: "partition_log \<Rightarrow> validated_batch list \<Rightarrow> i32 \<Rightarrow> admission" where
  "admit log validated total_record_count =
     (let first = hd validated; base_sequence = vb_base_sequence first
      in case producer_of first of
           None \<Rightarrow> Admit None
         | Some producer \<Rightarrow>
             let state = map_of (producer_states log) (rp_producer_id producer);
                 expected_sequence = (case state of None \<Rightarrow> 0 | Some st \<Rightarrow> ps_next_sequence st);
                 continue =
                   (case validate_sequences validated expected_sequence of
                      Inl e \<Rightarrow> Reject e
                    | Inr _ \<Rightarrow> Admit (Some (next_sequence base_sequence total_record_count)))
             in (case state of
                   Some st \<Rightarrow>
                     if ps_producer_epoch st \<noteq> rp_producer_epoch producer
                     then Reject OutOfOrderSequence
                     else (case find (same_request base_sequence validated) (ps_recent st) of
                             Some recent \<Rightarrow> Retry ((ra_result recent)\<lparr>ar_appended := False\<rparr>)
                           | None \<Rightarrow> continue)
                 | None \<Rightarrow> if base_sequence \<noteq> 0 then Reject OutOfOrderSequence else continue))"

text \<open>The loop that stamps each batch with its offset and stores it.\<close>

fun assign_offsets :: "i64 \<Rightarrow> validated_batch list \<Rightarrow> stored_batch list" where
  "assign_offsets assigned_offset [] = []"
| "assign_offsets assigned_offset (batch # validated) =
     (let batch_last_offset = wrap_i64 (assigned_offset + vb_record_count batch - 1)
      in \<lparr>sb_base_offset = assigned_offset, sb_last_offset = batch_last_offset,
          sb_record_count = vb_record_count batch,
          sb_bytes = be_bytes 8 assigned_offset @ drop 8 (vb_bytes batch)\<rparr>
         # assign_offsets (wrap_i64 (batch_last_offset + 1)) validated)"

fun trim_recent :: "recent_append list \<Rightarrow> recent_append list" where
  "trim_recent [] = []"
| "trim_recent (r # rs) =
     (if length (r # rs) \<ge> RECENT_APPEND_LIMIT then trim_recent rs else r # rs)"

definition remember ::
  "record_set_producer \<Rightarrow> i32 \<Rightarrow> recent_append \<Rightarrow>
   (i64, producer_partition_state) hash_map \<Rightarrow> (i64, producer_partition_state) hash_map" where
  "remember producer next_seq recent states =
     (let state =
        (case map_of states (rp_producer_id producer) of
           Some st \<Rightarrow> st
         | None \<Rightarrow> \<lparr>ps_producer_epoch = rp_producer_epoch producer, ps_next_sequence = next_seq,
                    ps_recent = []\<rparr>)
      in AList.update (rp_producer_id producer)
           (state\<lparr>ps_next_sequence := next_seq,
                  ps_recent := trim_recent (ps_recent state) @ [recent]\<rparr>)
           states)"

definition append_validated ::
  "partition_log \<Rightarrow> validated_batch list \<Rightarrow> i32 \<Rightarrow> i32 option \<Rightarrow>
   (append_error + append_result) \<times> partition_log" where
  "append_validated log validated total_record_count next_seq =
     (case checked_add_i64 (next_offset log) total_record_count of
        None \<Rightarrow> (Inl OffsetOverflow, log)
      | Some next_offset' \<Rightarrow>
          let base_offset = next_offset log;
              result = \<lparr>ar_base_offset = base_offset,
                        ar_last_offset = wrap_i64 (next_offset' - 1),
                        ar_record_count = total_record_count, ar_appended = True\<rparr>;
              stored = log\<lparr>batches := batches log @ assign_offsets base_offset validated,
                           next_offset := next_offset'\<rparr>
          in case (producer_of (hd validated), next_seq) of
               (Some producer, Some next_seq') \<Rightarrow>
                 (Inr result,
                  stored\<lparr>producer_states :=
                    remember producer next_seq'
                      \<lparr>ra_base_sequence = vb_base_sequence (hd validated),
                       ra_fingerprints = map fingerprint validated,
                       ra_encoded_batches = map vb_bytes validated,
                       ra_result = result\<rparr>
                      (producer_states log)\<rparr>)
             | _ \<Rightarrow> (Inr result, stored))"

definition log_append ::
  "(bytes \<Rightarrow> nat) \<Rightarrow> bytes \<Rightarrow> partition_log \<Rightarrow> (append_error + append_result) \<times> partition_log" where
  "log_append crc records log =
     (case validate_record_set crc records of
        Inl e \<Rightarrow> (Inl e, log)
      | Inr validated \<Rightarrow>
          (case total_records 0 validated of
             None \<Rightarrow> (Inl OffsetOverflow, log)
           | Some total_record_count \<Rightarrow>
               (case admit log validated total_record_count of
                  Reject e \<Rightarrow> (Inl e, log)
                | Retry result \<Rightarrow> (Inr result, log)
                | Admit next_seq \<Rightarrow> append_validated log validated total_record_count next_seq)))"

section \<open>Fetch\<close>

fun collect_records :: "usize \<Rightarrow> bytes \<Rightarrow> stored_batch list \<Rightarrow> bytes" where
  "collect_records partition_max_bytes records [] = records"
| "collect_records partition_max_bytes records (batch # rest) =
     (let exceeds_limit =
            (case checked_add_usize (length records) (length (sb_bytes batch)) of
               None \<Rightarrow> True
             | Some n \<Rightarrow> n > partition_max_bytes)
      in if records \<noteq> [] \<and> exceeds_limit then records
         else collect_records partition_max_bytes (records @ sb_bytes batch) rest)"

definition log_fetch :: "partition_log \<Rightarrow> i64 \<Rightarrow> usize \<Rightarrow> fetch_error + fetch_snapshot" where
  "log_fetch log offset partition_max_bytes =
     (if offset < 0 \<or> offset > next_offset log then Inl OutOfRange
      else Inr \<lparr>fs_records = collect_records partition_max_bytes []
                  (dropWhile (\<lambda>batch. sb_last_offset batch < offset) (batches log)),
                fs_high_watermark = next_offset log\<rparr>)"

section \<open>Validated batches\<close>

text \<open>What validation guarantees of a batch it lets through.\<close>

definition idempotent_batch :: "validated_batch \<Rightarrow> bool" where
  "idempotent_batch v \<longleftrightarrow>
     vb_producer_id v \<noteq> NO_PRODUCER_ID \<and> 0 \<le> vb_producer_epoch v \<and> 0 \<le> vb_base_sequence v"

definition plain_batch :: "validated_batch \<Rightarrow> bool" where
  "plain_batch v \<longleftrightarrow>
     vb_producer_id v = NO_PRODUCER_ID \<and> vb_producer_epoch v = NO_PRODUCER_EPOCH \<and>
     (vb_base_sequence v = NO_SEQUENCE \<or> vb_base_sequence v = 0)"

definition vb_ok :: "validated_batch \<Rightarrow> bool" where
  "vb_ok v \<longleftrightarrow>
     61 \<le> length (vb_bytes v) \<and> vb_batch_length v = int (length (vb_bytes v)) - 12 \<and>
     i32_at 8 (vb_bytes v) = vb_batch_length v \<and> 0 < vb_record_count v \<and>
     in_i32 (vb_record_count v) \<and> in_i32 (vb_base_sequence v) \<and>
     (plain_batch v \<or> idempotent_batch v)"

lemma validate_batch_Inr:
  assumes "validate_batch crc n batch = Inr v"
  shows "vb_bytes v = batch \<and> vb_batch_length v = n \<and> 0 < vb_record_count v \<and>
    in_i32 (vb_record_count v) \<and> in_i32 (vb_base_sequence v) \<and>
    (plain_batch v \<or> idempotent_batch v)"
proof -
  from assms obtain info where dec: "decode_batch_info crc batch = Inr ([info], [])"
    by (auto simp: validate_batch_def Let_def length_Suc_conv split: if_splits sum.splits)
  have "in_i32 (bi_base_sequence info)"
    using decode_batch_info_Cons [OF dec] by (blast dest: header_base_sequence_in_i32)
  then show ?thesis
    using assms dec
    by (auto simp: validate_batch_def Let_def i32_at_def plain_batch_def idempotent_batch_def
        split: if_splits)
qed

lemma i32_at_take: "i + 4 \<le> n \<Longrightarrow> i32_at i (take n bs) = i32_at i bs"
  by (simp add: i32_at_def slice_def drop_take min_def)

lemma validate_batches_Inr:
  assumes "validate_batches crc remaining = Inr vs"
  shows "concat (map vb_bytes vs) = remaining \<and> list_all vb_ok vs"
  using assms
proof (induction crc remaining arbitrary: vs rule: validate_batches.induct)
  case (1 crc remaining)
  show ?case
  proof (cases "remaining = []")
    case True
    with "1.prems" show ?thesis by (simp add: validate_batches.simps)
  next
    case False
    let ?len = "i32_at BATCH_LENGTH_OFFSET remaining"
    let ?n = "12 + nat ?len"
    from "1.prems" False obtain v vs' where
      size: "FIXED_BATCH_SIZE \<le> length remaining" "0 \<le> ?len" "FIXED_BATCH_SIZE \<le> ?n"
        "?n \<le> length remaining" and
      add: "checked_add_usize 12 (nat ?len) = Some ?n" and
      v: "validate_batch crc ?len (take ?n remaining) = Inr v" and
      vs': "validate_batches crc (drop ?n remaining) = Inr vs'" and
      vs: "vs = v # vs'"
      by (subst (asm) validate_batches.simps)
        (auto simp: Let_def try_bind_Inr checked_add_usize_def not_less
          split: if_splits option.splits)
    have IH: "concat (map vb_bytes vs') = drop ?n remaining \<and> list_all vb_ok vs'"
      using "1.IH" False size add v vs' by (simp add: not_less)
    have "i32_at 8 (take ?n remaining) = ?len"
      using size by (simp add: i32_at_take layout_defs)
    then have "vb_ok v"
      using validate_batch_Inr [OF v] size by (auto simp: vb_ok_def layout_defs min_def)
    with IH vs validate_batch_Inr [OF v] show ?thesis by simp
  qed
qed

lemma validate_record_set_Inr:
  assumes "validate_record_set crc records = Inr vs"
  shows "concat (map vb_bytes vs) = records \<and> vs \<noteq> [] \<and> list_all vb_ok vs \<and>
    list_all (\<lambda>v. vb_producer_id v = vb_producer_id (hd vs) \<and>
      vb_producer_epoch v = vb_producer_epoch (hd vs)) vs"
proof -
  from assms have ne: "records \<noteq> []" and vs: "validate_batches crc records = Inr vs"
    and same: "\<not> list_ex (\<lambda>batch. vb_producer_id batch \<noteq> vb_producer_id (hd vs)
              \<or> vb_producer_epoch batch \<noteq> vb_producer_epoch (hd vs)) vs"
    by (auto simp: validate_record_set_def try_bind_Inr Let_def split: if_splits)
  from validate_batches_Inr [OF vs] ne same show ?thesis
    by (auto simp: list_ex_iff list_all_iff)
qed

section \<open>Sequences and counts\<close>

definition record_total :: "validated_batch list \<Rightarrow> int" where
  "record_total vs = sum_list (map vb_record_count vs)"

lemma record_total_simps [simp]:
  "record_total [] = 0"
  "record_total (v # vs) = vb_record_count v + record_total vs"
  by (simp_all add: record_total_def)

lemma total_records_Some:
  assumes "total_records acc vs = Some n" and "in_i32 acc"
  shows "n = acc + record_total vs \<and> in_i32 n"
  using assms
  by (induction vs arbitrary: acc) (fastforce simp: checked_add_i32_Some split: option.splits)+

lemma vb_ok_count: "vb_ok v \<Longrightarrow> 0 < vb_record_count v"
  by (simp add: vb_ok_def)

lemma record_total_pos: "list_all vb_ok vs \<Longrightarrow> vs \<noteq> [] \<Longrightarrow> 0 < record_total vs"
proof (induction vs)
  case (Cons v vs)
  then show ?case by (cases vs) (auto simp: vb_ok_def)
qed simp

lemma record_total_nonneg: "list_all vb_ok vs \<Longrightarrow> 0 \<le> record_total vs"
  by (induction vs) (auto simp: vb_ok_def)

lemma next_sequence_eq:
  assumes "0 \<le> s" and "0 \<le> n"
  shows "next_sequence s n = (s + n) mod 2 ^ 31"
proof -
  have "in_i32 ((s + n) mod 2 ^ 31)"
    by (simp add: in_i32_def)
  then show ?thesis
    using assms by (simp add: next_sequence_def rust_rem_def SEQUENCE_MODULUS_def i32_max_def wrap_i32_id)
qed

lemma next_sequence_range:
  "0 \<le> s \<Longrightarrow> 0 \<le> n \<Longrightarrow> 0 \<le> next_sequence s n \<and> next_sequence s n < 2 ^ 31"
  by (simp add: next_sequence_eq)

lemma next_sequence_add:
  assumes "0 \<le> s" and "0 \<le> m" and "0 \<le> n"
  shows "next_sequence (next_sequence s m) n = next_sequence s (m + n)"
  using assms by (simp add: next_sequence_eq mod_simps add.assoc)

section \<open>The log invariant\<close>

text \<open>
  A stored batch at its place: it carries the offsets it was assigned, its bytes start with the
  base offset, and its length field describes its bytes.
\<close>

definition sb_ok :: "i64 \<Rightarrow> stored_batch \<Rightarrow> bool" where
  "sb_ok off b \<longleftrightarrow>
     sb_base_offset b = off \<and> 0 < sb_record_count b \<and>
     sb_last_offset b = off + sb_record_count b - 1 \<and>
     61 \<le> length (sb_bytes b) \<and> slice 0 8 (sb_bytes b) = be_bytes 8 off \<and>
     i32_at 8 (sb_bytes b) = int (length (sb_bytes b)) - 12"

fun contiguous :: "i64 \<Rightarrow> stored_batch list \<Rightarrow> i64 \<Rightarrow> bool" where
  "contiguous start [] stop \<longleftrightarrow> start = stop"
| "contiguous start (b # bs) stop \<longleftrightarrow>
     sb_ok start b \<and> contiguous (start + sb_record_count b) bs stop"

text \<open>A remembered append is the one that stored the batches at its offsets.\<close>

definition recent_ok :: "stored_batch list \<Rightarrow> recent_append \<Rightarrow> bool" where
  "recent_ok bs r \<longleftrightarrow>
     ar_appended (ra_result r) \<and> 0 \<le> ra_base_sequence r \<and> 0 < ar_record_count (ra_result r) \<and>
     (\<exists>pre mid post. bs = pre @ mid @ post \<and> mid \<noteq> [] \<and>
        sb_base_offset (hd mid) = ar_base_offset (ra_result r) \<and>
        sb_last_offset (last mid) = ar_last_offset (ra_result r) \<and>
        map (drop 8 \<circ> sb_bytes) mid = map (drop 8) (ra_encoded_batches r) \<and>
        map sb_record_count mid = map rf_record_count (ra_fingerprints r) \<and>
        sum_list (map sb_record_count mid) = ar_record_count (ra_result r))"

text \<open>Remembered appends follow one another in the producer's sequence.\<close>

fun seq_linked :: "recent_append list \<Rightarrow> i32 \<Rightarrow> bool" where
  "seq_linked [] n \<longleftrightarrow> True"
| "seq_linked [r] n \<longleftrightarrow>
     next_sequence (ra_base_sequence r) (ar_record_count (ra_result r)) = n"
| "seq_linked (r # r' # rs) n \<longleftrightarrow>
     next_sequence (ra_base_sequence r) (ar_record_count (ra_result r)) = ra_base_sequence r' \<and>
     seq_linked (r' # rs) n"

definition ps_ok :: "stored_batch list \<Rightarrow> producer_partition_state \<Rightarrow> bool" where
  "ps_ok bs st \<longleftrightarrow>
     0 \<le> ps_next_sequence st \<and> ps_next_sequence st < 2 ^ 31 \<and>
     ps_recent st \<noteq> [] \<and> length (ps_recent st) \<le> RECENT_APPEND_LIMIT \<and>
     list_all (recent_ok bs) (ps_recent st) \<and> seq_linked (ps_recent st) (ps_next_sequence st)"

definition log_ok :: "partition_log \<Rightarrow> bool" where
  "log_ok log \<longleftrightarrow>
     0 \<le> next_offset log \<and> in_i64 (next_offset log) \<and>
     contiguous 0 (batches log) (next_offset log) \<and>
     hm_ok (producer_states log) \<and>
     list_all (\<lambda>(_, st). ps_ok (batches log) st) (producer_states log)"

lemma log_ok_default [simp]: "log_ok log_default"
  by (simp add: log_ok_def log_default_def in_i64_def)

lemma contiguous_append:
  "contiguous a (bs @ cs) c \<longleftrightarrow> (\<exists>b. contiguous a bs b \<and> contiguous b cs c)"
  by (induction bs arbitrary: a) auto

lemma contiguous_le: "contiguous a bs b \<Longrightarrow> a \<le> b"
  by (induction bs arbitrary: a) (auto simp: sb_ok_def, fastforce)

lemma stamped_bytes:
  assumes "vb_ok v"
  shows "length (be_bytes 8 off @ drop 8 (vb_bytes v)) = length (vb_bytes v)"
    and "slice 0 8 (be_bytes 8 off @ drop 8 (vb_bytes v)) = be_bytes 8 off"
    and "i32_at 8 (be_bytes 8 off @ drop 8 (vb_bytes v)) = i32_at 8 (vb_bytes v)"
  using assms by (simp_all add: vb_ok_def slice_append_exact i32_at_def slice_def)

lemma contiguous_assign_offsets:
  assumes "list_all vb_ok vs" and "0 \<le> off" and "in_i64 (off + record_total vs)"
  shows "contiguous off (assign_offsets off vs) (off + record_total vs)"
  using assms
proof (induction vs arbitrary: off)
  case Nil
  then show ?case by simp
next
  case (Cons v vs)
  let ?next = "off + vb_record_count v"
  have v: "vb_ok v" and pos: "0 < vb_record_count v" and "0 \<le> record_total vs"
    using Cons.prems by (auto simp: vb_ok_count record_total_nonneg)
  then have "in_i64 (?next - 1)" "in_i64 ?next"
    using Cons.prems(2,3) by (auto simp: in_i64_def)
  then have nxt: "wrap_i64 (off + vb_record_count v - 1) = ?next - 1" "wrap_i64 (?next - 1 + 1) = ?next"
    by (simp_all add: wrap_i64_id)
  have "contiguous ?next (assign_offsets ?next vs) (?next + record_total vs)"
    using Cons.prems pos by (intro Cons.IH) (auto simp: add.assoc)
  then show ?case
    using v pos stamped_bytes [OF v, of off] nxt
    by (simp add: Let_def sb_ok_def add.assoc) (simp add: vb_ok_def)
qed

lemma assign_offsets_bytes:
  "map (drop 8 \<circ> sb_bytes) (assign_offsets off vs) = map (drop 8) (map vb_bytes vs)"
  by (induction vs arbitrary: off) (simp_all add: Let_def)

lemma assign_offsets_counts: "map sb_record_count (assign_offsets off vs) = map vb_record_count vs"
  by (induction vs arbitrary: off) (simp_all add: Let_def)

lemma assign_offsets_Nil_iff [simp]: "assign_offsets off vs = [] \<longleftrightarrow> vs = []"
  by (cases vs) (simp_all add: Let_def)

lemma contiguous_hd: "contiguous a bs b \<Longrightarrow> bs \<noteq> [] \<Longrightarrow> sb_base_offset (hd bs) = a"
  by (cases bs) (auto simp: sb_ok_def)

lemma contiguous_last: "contiguous a bs b \<Longrightarrow> bs \<noteq> [] \<Longrightarrow> sb_last_offset (last bs) = b - 1"
  by (induction bs arbitrary: a) (auto simp: sb_ok_def)

lemma recent_ok_extend: "recent_ok bs r \<Longrightarrow> recent_ok (bs @ cs) r"
  by (auto simp: recent_ok_def) (metis append.assoc)

lemma ps_ok_extend: "ps_ok bs st \<Longrightarrow> ps_ok (bs @ cs) st"
  by (auto simp: ps_ok_def list_all_iff recent_ok_extend)

section \<open>Append keeps the invariant\<close>

lemma trim_recent_eq: "trim_recent rs = drop (length rs - 4) rs"
proof (induction rs)
  case (Cons r rs)
  show ?case
  proof (cases "4 \<le> length rs")
    case True
    then have "length (r # rs) - 4 = Suc (length rs - 4)" by simp
    then show ?thesis using Cons.IH True by (simp add: RECENT_APPEND_LIMIT_def)
  qed (simp add: RECENT_APPEND_LIMIT_def)
qed simp

lemma seq_linked_Cons: "seq_linked (r # rs) n \<Longrightarrow> seq_linked rs n"
  by (cases rs) simp_all

lemma seq_linked_drop: "seq_linked rs n \<Longrightarrow> seq_linked (drop k rs) n"
proof (induction k arbitrary: rs)
  case (Suc k)
  then show ?case by (cases rs) (auto dest: seq_linked_Cons)
qed simp

lemma seq_linked_snoc:
  assumes "seq_linked rs (ra_base_sequence r)"
  shows "seq_linked (rs @ [r])
    (next_sequence (ra_base_sequence r) (ar_record_count (ra_result r)))"
  using assms
proof (induction rs)
  case (Cons q rs)
  then show ?case by (cases rs) (auto dest: seq_linked_Cons)
qed simp

definition expected_sequence :: "partition_log \<Rightarrow> i64 \<Rightarrow> i32" where
  "expected_sequence log pid =
     (case map_of (producer_states log) pid of None \<Rightarrow> 0 | Some st \<Rightarrow> ps_next_sequence st)"

lemma admit_cases:
  assumes "admit log vs n = Admit ns"
  obtains (plain) "producer_of (hd vs) = None" and "ns = None"
  | (idempotent) p where "producer_of (hd vs) = Some p"
      and "ns = Some (next_sequence (vb_base_sequence (hd vs)) n)"
      and "validate_sequences vs (expected_sequence log (rp_producer_id p)) = Inr ()"
      and "\<And>st. map_of (producer_states log) (rp_producer_id p) = Some st \<Longrightarrow>
             ps_producer_epoch st = rp_producer_epoch p"
proof (cases "producer_of (hd vs)")
  case None
  with assms show ?thesis by (intro plain) (simp_all add: admit_def)
next
  case (Some p)
  with assms show ?thesis
    by (intro idempotent [of p])
      (auto simp: admit_def Let_def expected_sequence_def
        split: option.splits if_splits sum.splits)
qed

lemma validate_sequences_hd:
  "validate_sequences vs e = Inr () \<Longrightarrow> vs \<noteq> [] \<Longrightarrow> vb_base_sequence (hd vs) = e"
  by (cases vs) (auto split: if_splits)

lemma log_ok_state:
  assumes "log_ok log" and "map_of (producer_states log) pid = Some st"
  shows "ps_ok (batches log) st"
  using assms by (auto simp: log_ok_def list_all_iff dest!: map_of_SomeD)

lemma list_all_update:
  assumes "list_all P m" and "P (k, v)"
  shows "list_all P (AList.update k v m)"
  using assms by (induction m) auto

text \<open>The state of a producer after a successful append satisfies the invariant again.\<close>

lemma ps_ok_remember:
  assumes old: "\<And>st. map_of states pid = Some st \<Longrightarrow> ps_ok bs st"
    and link: "ra_base_sequence r =
      (case map_of states pid of None \<Rightarrow> 0 | Some st \<Rightarrow> ps_next_sequence st)"
    and new: "recent_ok (bs @ cs) r"
    and nxt: "n = next_sequence (ra_base_sequence r) (ar_record_count (ra_result r))"
    and states: "list_all (\<lambda>(_, st). ps_ok bs st) states"
    and pid: "rp_producer_id p = pid"
  shows "list_all (\<lambda>(_, st). ps_ok (bs @ cs) st) (remember p n r states)"
proof -
  have range: "0 \<le> n" "n < 2 ^ 31"
    using new nxt next_sequence_range [of "ra_base_sequence r" "ar_record_count (ra_result r)"]
    by (auto simp: recent_ok_def)
  have others: "list_all (\<lambda>(_, st). ps_ok (bs @ cs) st) states"
    using states by (auto simp: list_all_iff ps_ok_extend)
  show ?thesis
  proof (cases "map_of states pid")
    case None
    then show ?thesis
      using others new range nxt pid
      by (auto simp: remember_def ps_ok_def RECENT_APPEND_LIMIT_def intro!: list_all_update)
  next
    case (Some st)
    let ?kept = "drop (length (ps_recent st) - 4) (ps_recent st)"
    have st: "ps_ok (bs @ cs) st" using old [OF Some] by (rule ps_ok_extend)
    then have "seq_linked ?kept (ra_base_sequence r)"
      using link Some by (simp add: ps_ok_def seq_linked_drop)
    then have "seq_linked (?kept @ [r]) n"
      using nxt by (simp add: seq_linked_snoc)
    moreover have "list_all (recent_ok (bs @ cs)) ?kept"
      using st by (auto simp: ps_ok_def list_all_iff dest: in_set_dropD)
    ultimately show ?thesis
      using others new range Some pid
      by (auto simp: remember_def ps_ok_def trim_recent_eq RECENT_APPEND_LIMIT_def
          intro!: list_all_update)
  qed
qed

end
