(* ===== verification/Partition_Props.thy ===== *)
theory Partition_Props
  imports Partition
begin

text \<open>
  Correctness of the partition log: the log invariant holds after every sequence of appends, the
  log refines an append-only list of records indexed by offset, a producer's retry is answered
  from the retained appends, and a fetch returns the batches from the one that holds the offset.
\<close>

section \<open>Outcomes of an append\<close>

lemma log_append_outcome:
  obtains (failed) e where "log_append crc records log = (Inl e, log)"
  | (retried) vs res where "log_append crc records log = (Inr res, log)"
      and "validate_record_set crc records = Inr vs"
      and "admit log vs (record_total vs) = Retry res"
  | (stored) vs ns where
      "log_append crc records log = append_validated log vs (record_total vs) ns"
      and "validate_record_set crc records = Inr vs"
      and "admit log vs (record_total vs) = Admit ns"
      and "in_i64 (next_offset log + record_total vs)"
proof (cases "validate_record_set crc records")
  case (Inl e)
  then show ?thesis by (intro failed) (simp add: log_append_def)
next
  case (Inr vs)
  note vs = Inr
  show ?thesis
  proof (cases "total_records 0 vs")
    case None
    with vs show ?thesis by (intro failed) (simp add: log_append_def)
  next
    case (Some n)
    then have n: "n = record_total vs"
      using total_records_Some [of 0 vs n] by (simp add: in_i32_def)
    show ?thesis
    proof (cases "admit log vs n")
      case (Reject e)
      with vs Some show ?thesis by (intro failed) (simp add: log_append_def)
    next
      case (Retry res)
      with vs Some n show ?thesis by (intro retried) (simp_all add: log_append_def)
    next
      case (Admit ns)
      note adm = Admit
      show ?thesis
      proof (cases "in_i64 (next_offset log + n)")
        case True
        with vs Some n adm show ?thesis by (intro stored) (simp_all add: log_append_def)
      next
        case False
        with vs Some adm show ?thesis
          by (intro failed) (simp add: log_append_def append_validated_def checked_add_i64_def)
      qed
    qed
  qed
qed

text \<open>What a stored append leaves behind, whether or not the producer is idempotent.\<close>

lemma append_validated_stored:
  assumes "in_i64 (next_offset log + n)"
  obtains states where
    "append_validated log vs n ns =
       (Inr \<lparr>ar_base_offset = next_offset log, ar_last_offset = wrap_i64 (next_offset log + n - 1),
             ar_record_count = n, ar_appended = True\<rparr>,
        \<lparr>next_offset = next_offset log + n,
         batches = batches log @ assign_offsets (next_offset log) vs,
         producer_states = states\<rparr>)"
  using assms
  by (cases log; cases "producer_of (hd vs)"; cases ns)
    (auto simp: append_validated_def checked_add_i64_def Let_def)

lemma append_validated_result:
  assumes "in_i64 (next_offset log + n)"
  shows "fst (append_validated log vs n ns) =
    Inr \<lparr>ar_base_offset = next_offset log, ar_last_offset = wrap_i64 (next_offset log + n - 1),
         ar_record_count = n, ar_appended = True\<rparr>"
  using append_validated_stored [OF assms, of vs ns] by (metis fst_conv)

lemma wrap_last_offset:
  assumes "0 \<le> off" and "0 < n" and "in_i64 (off + n)"
  shows "wrap_i64 (off + n - 1) = off + n - 1"
  using assms by (intro wrap_i64_id) (auto simp: in_i64_def)

lemma recent_ok_stored:
  assumes "log_ok log" and vs: "list_all vb_ok vs" "vs \<noteq> []"
    and rng: "in_i64 (next_offset log + record_total vs)"
    and seq: "0 \<le> vb_base_sequence (hd vs)"
  shows "recent_ok (batches log @ assign_offsets (next_offset log) vs)
    \<lparr>ra_base_sequence = vb_base_sequence (hd vs), ra_fingerprints = map fingerprint vs,
     ra_encoded_batches = map vb_bytes vs,
     ra_result = \<lparr>ar_base_offset = next_offset log,
                  ar_last_offset = next_offset log + record_total vs - 1,
                  ar_record_count = record_total vs, ar_appended = True\<rparr>\<rparr>"
proof -
  let ?mid = "assign_offsets (next_offset log) vs"
  have "contiguous (next_offset log) ?mid (next_offset log + record_total vs)"
    using assms by (intro contiguous_assign_offsets) (auto simp: log_ok_def)
  then have "sb_base_offset (hd ?mid) = next_offset log"
    "sb_last_offset (last ?mid) = next_offset log + record_total vs - 1"
    using vs by (auto dest: contiguous_hd contiguous_last)
  then show ?thesis
    unfolding recent_ok_def
    using vs seq record_total_pos [OF vs] assign_offsets_bytes [of "next_offset log" vs]
      assign_offsets_counts [of "next_offset log" vs]
    by (intro conjI exI [of _ "batches log"] exI [of _ ?mid] exI [of _ "[]"])
      (simp_all add: fingerprint_def record_total_def)
qed

lemma vb_ok_sequence:
  assumes "vb_ok v" and "producer_of v = Some p"
  shows "0 \<le> vb_base_sequence v"
  using assms
  by (auto simp: vb_ok_def producer_of_def plain_batch_def idempotent_batch_def split: if_splits)

lemma append_validated_log_ok:
  assumes log: "log_ok log" and vs: "list_all vb_ok vs" "vs \<noteq> []"
    and adm: "admit log vs (record_total vs) = Admit ns"
    and rng: "in_i64 (next_offset log + record_total vs)"
  shows "log_ok (snd (append_validated log vs (record_total vs) ns))"
proof -
  let ?cs = "assign_offsets (next_offset log) vs"
  have pos: "0 < record_total vs" by (rule record_total_pos [OF vs])
  have cont: "contiguous 0 (batches log @ ?cs) (next_offset log + record_total vs)"
    using log vs rng contiguous_assign_offsets [of vs "next_offset log"]
    by (auto simp: log_ok_def contiguous_append)
  have last: "wrap_i64 (next_offset log + record_total vs - 1) = next_offset log + record_total vs - 1"
    using log pos rng by (intro wrap_last_offset) (simp_all add: log_ok_def)
  have states: "list_all (\<lambda>(_, st). ps_ok (batches log) st) (producer_states log)"
    using log by (simp add: log_ok_def)
  show ?thesis
    using adm
  proof (cases rule: admit_cases)
    case plain
    then show ?thesis
      using log rng cont pos states
      by (auto simp: append_validated_def checked_add_i64_def Let_def log_ok_def list_all_iff
          ps_ok_extend)
  next
    case (idempotent p)
    let ?r = "\<lparr>ra_base_sequence = vb_base_sequence (hd vs), ra_fingerprints = map fingerprint vs,
     ra_encoded_batches = map vb_bytes vs,
     ra_result = \<lparr>ar_base_offset = next_offset log,
                  ar_last_offset = next_offset log + record_total vs - 1,
                  ar_record_count = record_total vs, ar_appended = True\<rparr>\<rparr>"
    have seq: "vb_base_sequence (hd vs) = expected_sequence log (rp_producer_id p)"
      using idempotent(3) vs(2) by (rule validate_sequences_hd)
    have "0 \<le> vb_base_sequence (hd vs)"
      using vs idempotent(1) by (intro vb_ok_sequence) (cases vs; simp)
    then have "recent_ok (batches log @ ?cs) ?r"
      using log vs rng by (intro recent_ok_stored)
    then have "list_all (\<lambda>(_, st). ps_ok (batches log @ ?cs) st)
      (remember p (next_sequence (vb_base_sequence (hd vs)) (record_total vs)) ?r
        (producer_states log))"
      using log_ok_state [OF log] states seq
      by (intro ps_ok_remember [where pid = "rp_producer_id p"])
        (auto simp: expected_sequence_def)
    then show ?thesis
      using log rng cont pos idempotent(1,2) last
      by (auto simp: append_validated_def checked_add_i64_def Let_def log_ok_def remember_def)
  qed
qed

lemma log_ok_append:
  assumes "log_ok log"
  shows "log_ok (snd (log_append crc records log))"
proof (cases crc records log rule: log_append_outcome)
  case (stored vs ns)
  with validate_record_set_Inr [OF stored(2)] assms show ?thesis
    by (simp add: append_validated_log_ok)
qed (simp_all add: assms)

text \<open>The log under any sequence of record sets, and its invariant.\<close>

definition append_all :: "(bytes \<Rightarrow> nat) \<Rightarrow> bytes list \<Rightarrow> partition_log \<Rightarrow> partition_log" where
  "append_all crc = fold (\<lambda>records log. snd (log_append crc records log))"

interpretation partition: guarded_ops "\<lambda>records log. snd (log_append crc records log)" log_ok
  for crc
  by unfold_locales (rule log_ok_append)

lemma append_all_log_ok: "log_ok log \<Longrightarrow> log_ok (append_all crc rs log)"
  unfolding append_all_def by (rule partition.run_inv)

section \<open>Refinement: an append-only list of records\<close>

text \<open>
  The abstract log holds one entry per record: the batch it came in, less the offset field the
  broker overwrites, and its index there. The offset of a record is its index in the list.
\<close>

definition batch_records :: "bytes \<Rightarrow> i32 \<Rightarrow> (bytes \<times> nat) list" where
  "batch_records batch n = map (Pair (drop 8 batch)) [0..<nat n]"

definition abs_log :: "partition_log \<Rightarrow> (bytes \<times> nat) list" where
  "abs_log log = concat (map (\<lambda>b. batch_records (sb_bytes b) (sb_record_count b)) (batches log))"

definition abs_records :: "validated_batch list \<Rightarrow> (bytes \<times> nat) list" where
  "abs_records vs = concat (map (\<lambda>v. batch_records (vb_bytes v) (vb_record_count v)) vs)"

lemma length_batch_records [simp]: "length (batch_records batch n) = nat n"
  by (simp add: batch_records_def)

lemma assign_offsets_records:
  "concat (map (\<lambda>b. batch_records (sb_bytes b) (sb_record_count b)) (assign_offsets off vs)) =
   abs_records vs"
  by (induction vs arbitrary: off) (simp_all add: Let_def abs_records_def batch_records_def)

lemma contiguous_length:
  "contiguous a bs b \<Longrightarrow>
   int (length (concat (map (\<lambda>b. batch_records (sb_bytes b) (sb_record_count b)) bs))) = b - a"
  by (induction bs arbitrary: a) (auto simp: sb_ok_def)

lemma abs_log_length: "log_ok log \<Longrightarrow> int (length (abs_log log)) = next_offset log"
  unfolding abs_log_def using contiguous_length by (fastforce simp: log_ok_def)

lemma abs_log_append:
  "\<exists>new. abs_log (snd (log_append crc records log)) = abs_log log @ new"
proof (cases crc records log rule: log_append_outcome)
  case (stored vs ns)
  then show ?thesis
    by (rule_tac append_validated_stored [of log "record_total vs" vs ns])
      (simp_all add: abs_log_def)
qed simp_all

text \<open>
  The interface the fetch and offset handlers rely on: a log whose entries are indexed by offset,
  whose watermark is its length, and which operations only extend.
\<close>

locale offset_log = guarded_ops exec inv
  for exec :: "'op \<Rightarrow> 's \<Rightarrow> 's" and inv :: "'s \<Rightarrow> bool" +
  fixes entries :: "'s \<Rightarrow> 'r list"
    and watermark :: "'s \<Rightarrow> int"
  assumes watermark_length: "inv s \<Longrightarrow> watermark s = int (length (entries s))"
    and exec_extends: "\<exists>new. entries (exec op s) = entries s @ new"
begin

lemma run_extends: "\<exists>new. entries (fold exec ops s) = entries s @ new"
proof (induction ops arbitrary: s)
  case (Cons op ops)
  obtain new where "entries (exec op s) = entries s @ new"
    using exec_extends by blast
  with Cons [of "exec op s"] show ?case by auto
qed simp

lemma run_stable:
  assumes "i < length (entries s)"
  shows "i < length (entries (fold exec ops s)) \<and> entries (fold exec ops s) ! i = entries s ! i"
proof -
  obtain new where "entries (fold exec ops s) = entries s @ new"
    using run_extends by blast
  with assms show ?thesis by (simp add: nth_append)
qed

lemma watermark_mono: "inv s \<Longrightarrow> watermark s \<le> watermark (fold exec ops s)"
  using run_extends [of ops s] run_inv [of s ops] by (auto simp: watermark_length)

end

interpretation plog: offset_log
  "\<lambda>records log. snd (log_append crc records log)" log_ok abs_log next_offset
  for crc
  by unfold_locales (simp_all add: abs_log_length abs_log_append)

section \<open>Stored batches decode\<close>

lemma Int64_decode_restamp:
  assumes "8 \<le> length buf" and "in_i64 off"
  shows "Int64_decode (be_bytes 8 off @ drop 8 buf) = Inr (off, drop 8 buf)"
  using int64.dec_enc [of off "drop 8 buf"] assms by (simp add: Int64_encode_def)

lemma decode_header_restamp:
  assumes dec: "decode_batch_header_inner crc version buf = Inr ((info, records), rest)"
    and off: "in_i64 off"
  shows "decode_batch_header_inner crc version (be_bytes 8 off @ drop 8 buf) =
    Inr ((info\<lparr>bi_min_offset := off\<rparr>, records), rest)"
proof -
  obtain m where m: "Int64_decode buf = Inr (m, drop 8 buf)" and "8 \<le> length buf"
    using dec
    by (auto simp: decode_batch_header_inner_def try_bind_Inr Int64_decode_def sint_decode_Inr)
  with Int64_decode_restamp [OF _ off] have
    "Int64_decode (be_bytes 8 off @ drop 8 buf) = Inr (off, drop 8 buf)" by simp
  with dec m show ?thesis
    unfolding decode_batch_header_inner_def
    by (simp add: try_bind_def split_beta split: sum.split_asm if_split_asm) auto
qed

lemma decode_header_append:
  assumes dec: "decode_batch_header_inner crc version buf = Inr (x, rest)"
  shows "decode_batch_header_inner crc version (buf @ extra) = Inr (x, rest @ extra)"
proof -
  obtain m n buf1 buf2 inner where
    steps: "Int64_decode buf = Inr (m, buf1)" "Int32_decode buf1 = Inr (n, buf2)" "\<not> n < 0"
      "try_get_bytes (nat n) buf2 = Inr (inner, rest)"
    using dec unfolding decode_batch_header_inner_def
    by (simp add: try_bind_def split_beta split: sum.split_asm if_split_asm)
      (metis prod.collapse)+
  then have
    "Int64_decode (buf @ extra) = Inr (m, buf1 @ extra)"
    "Int32_decode (buf1 @ extra) = Inr (n, buf2 @ extra)"
    "try_get_bytes (nat n) (buf2 @ extra) = Inr (inner, rest @ extra)"
    by (auto simp: Int64_decode_def Int32_decode_def sint_decode_Inr try_get_bytes_Inr)
  with dec steps show ?thesis
    unfolding decode_batch_header_inner_def
    by (simp add: try_bind_def split_beta split: sum.split_asm if_split_asm)
qed

text \<open>A buffer that holds exactly one well-formed batch, with the given offset and record count.\<close>

definition holds_batch :: "(bytes \<Rightarrow> nat) \<Rightarrow> i64 \<Rightarrow> i32 \<Rightarrow> bytes \<Rightarrow> bool" where
  "holds_batch crc off n batch \<longleftrightarrow>
     17 \<le> length batch \<and> batch ! 16 = 2 \<and>
     (\<exists>info records. decode_batch_header_inner crc 2 batch = Inr ((info, records), []) \<and>
        bi_min_offset info = off \<and> bi_record_count info = n)"

lemma decode_batch_info_holds:
  assumes "holds_batch crc off n batch"
  shows "\<exists>info. bi_min_offset info = off \<and> bi_record_count info = n \<and>
    decode_batch_info crc (batch @ rest) =
      try_bind (decode_batch_info crc rest) (\<lambda>(infos, rest'). Inr (info # infos, rest'))"
proof -
  from assms obtain info records where len: "17 \<le> length batch" and magic: "batch ! 16 = 2"
    and dec: "decode_batch_header_inner crc 2 batch = Inr ((info, records), [])"
    and info: "bi_min_offset info = off" "bi_record_count info = n"
    by (auto simp: holds_batch_def)
  have "try_peek_bytes 16 17 (batch @ rest) = Inr [2]"
    using len magic by (simp add: try_peek_bytes_def slice_def take_Suc_conv_app_nth hd_drop_conv_nth
        take_Suc)
  moreover have "decode_batch_header_inner crc 2 (batch @ rest) = Inr ((info, records), rest)"
    using decode_header_append [OF dec, of rest] by simp
  ultimately show ?thesis
    using info len by (subst decode_batch_info.simps) (auto simp: MAGIC_BYTE_OFFSET_def Let_def)
qed

lemma decode_concat_batches:
  assumes "list_all (\<lambda>b. holds_batch crc (sb_base_offset b) (sb_record_count b) (sb_bytes b)) bs"
  shows "\<exists>infos. decode_batch_info crc (concat (map sb_bytes bs)) = Inr (infos, []) \<and>
    map bi_min_offset infos = map sb_base_offset bs \<and>
    map bi_record_count infos = map sb_record_count bs"
  using assms
proof (induction bs)
  case Nil
  then show ?case by (simp add: decode_batch_info.simps)
next
  case (Cons b bs)
  then obtain infos where "decode_batch_info crc (concat (map sb_bytes bs)) = Inr (infos, [])"
    "map bi_min_offset infos = map sb_base_offset bs"
    "map bi_record_count infos = map sb_record_count bs" by auto
  moreover from Cons.prems have
    "holds_batch crc (sb_base_offset b) (sb_record_count b) (sb_bytes b)" by simp
  ultimately show ?case
    using decode_batch_info_holds [of crc "sb_base_offset b" "sb_record_count b" "sb_bytes b"
        "concat (map sb_bytes bs)"]
    by fastforce
qed

text \<open>Every batch of the log decodes at its own offset, with the checksum it was sent with.\<close>

definition log_decodes :: "(bytes \<Rightarrow> nat) \<Rightarrow> partition_log \<Rightarrow> bool" where
  "log_decodes crc log \<longleftrightarrow>
     list_all (\<lambda>b. holds_batch crc (sb_base_offset b) (sb_record_count b) (sb_bytes b)) (batches log)"

lemma validate_batch_holds:
  assumes "validate_batch crc len batch = Inr v" and "17 \<le> length batch"
  shows "\<exists>off. holds_batch crc off (vb_record_count v) (vb_bytes v)"
proof -
  from assms obtain info where dec: "decode_batch_info crc batch = Inr ([info], [])"
    and "bi_record_count info = vb_record_count v" "vb_bytes v = batch" "batch ! 16 = 2"
    by (auto simp: validate_batch_def Let_def length_Suc_conv MAGIC_OFFSET_def
        split: if_splits sum.splits)
  moreover obtain records rest where
    hdr: "decode_batch_header_inner crc 2 batch = Inr ((info, records), rest)"
    and rest: "decode_batch_info crc rest = Inr ([], [])"
    using decode_batch_info_Cons [OF dec] by blast
  moreover have "rest = []"
    using rest by (subst (asm) decode_batch_info.simps)
      (auto simp: try_bind_Inr Let_def split: if_splits sum.splits)
  ultimately show ?thesis
    using assms(2) by (auto simp: holds_batch_def)
qed

lemma validate_batches_each:
  assumes "validate_batches crc remaining = Inr vs" and "v \<in> set vs"
  shows "\<exists>len. validate_batch crc len (vb_bytes v) = Inr v \<and> 61 \<le> length (vb_bytes v)"
  using assms
proof (induction crc remaining arbitrary: vs rule: validate_batches.induct)
  case (1 crc remaining)
  let ?len = "i32_at BATCH_LENGTH_OFFSET remaining"
  let ?n = "12 + nat ?len"
  have ne: "remaining \<noteq> []"
    using "1.prems" by (auto simp: validate_batches.simps)
  with "1.prems"(1) obtain w vs' where
    sz: "FIXED_BATCH_SIZE \<le> length remaining" "0 \<le> ?len" "FIXED_BATCH_SIZE \<le> ?n"
      "?n \<le> length remaining" and
    add: "checked_add_usize 12 (nat ?len) = Some ?n" and
    w: "validate_batch crc ?len (take ?n remaining) = Inr w" and
    vs': "validate_batches crc (drop ?n remaining) = Inr vs'" and
    vs: "vs = w # vs'"
    by (subst (asm) validate_batches.simps)
      (auto simp: Let_def try_bind_Inr checked_add_usize_def not_less
        split: if_splits option.splits)
  show ?case
  proof (cases "v = w")
    case True
    then show ?thesis
      using w sz validate_batch_Inr [OF w] by (auto simp: FIXED_BATCH_SIZE_def min_def)
  next
    case False
    then show ?thesis using "1.IH" ne sz add w vs' vs "1.prems"(2) by (simp add: not_less)
  qed
qed

lemma validated_batch_holds:
  assumes "validate_record_set crc records = Inr vs" and "v \<in> set vs"
  shows "\<exists>off. holds_batch crc off (vb_record_count v) (vb_bytes v)"
proof -
  have "validate_batches crc records = Inr vs"
    using assms(1) by (auto simp: validate_record_set_def try_bind_Inr Let_def split: if_splits)
  from validate_batches_each [OF this assms(2)] show ?thesis
    by (auto intro: validate_batch_holds)
qed

lemma holds_batch_restamp:
  assumes "holds_batch crc old n batch" and "in_i64 off"
  shows "holds_batch crc off n (be_bytes 8 off @ drop 8 batch)"
  using assms decode_header_restamp [OF _ assms(2), of crc 2 batch]
  by (fastforce simp: holds_batch_def nth_append)

lemma contiguous_in_i64:
  assumes "contiguous a bs b" and "0 \<le> a" and "in_i64 b" and "x \<in> set bs"
  shows "in_i64 (sb_base_offset x)"
  using assms
proof (induction bs arbitrary: a)
  case (Cons y bs)
  have "a + sb_record_count y \<le> b"
    using Cons.prems(1) by (auto dest: contiguous_le)
  then show ?case
    using Cons by (auto simp: sb_ok_def in_i64_def)
qed simp

lemma contiguous_stamped:
  "contiguous a bs b \<Longrightarrow> 0 \<le> a \<Longrightarrow> x \<in> set bs \<Longrightarrow> sb_ok (sb_base_offset x) x \<and> 0 \<le> sb_base_offset x"
  by (induction bs arbitrary: a) (fastforce simp: sb_ok_def)+

text \<open>A stored batch starts with its own offset.\<close>

lemma stored_batch_stamped:
  assumes "log_ok log" and "x \<in> set (batches log)"
  shows "sb_bytes x = be_bytes 8 (sb_base_offset x) @ drop 8 (sb_bytes x)" and "0 \<le> sb_base_offset x"
    and "in_i64 (sb_base_offset x)"
proof -
  have ok: "sb_ok (sb_base_offset x) x" and "0 \<le> sb_base_offset x" using assms by (auto simp: log_ok_def dest: contiguous_stamped)
  then show "0 \<le> sb_base_offset x" by simp
  from ok show "sb_bytes x = be_bytes 8 (sb_base_offset x) @ drop 8 (sb_bytes x)"
    by (metis append_take_drop_id drop_0 sb_ok_def slice_def)
  show "in_i64 (sb_base_offset x)" using assms contiguous_in_i64 by (auto simp: log_ok_def)
qed

lemma log_decodes_assign:
  assumes "\<forall>v \<in> set vs. \<exists>old. holds_batch crc old (vb_record_count v) (vb_bytes v)"
    and "\<forall>b \<in> set (assign_offsets off vs). in_i64 (sb_base_offset b)"
  shows "list_all (\<lambda>b. holds_batch crc (sb_base_offset b) (sb_record_count b) (sb_bytes b))
    (assign_offsets off vs)"
  using assms
  by (induction vs arbitrary: off) (auto simp: Let_def intro: holds_batch_restamp)

lemma log_decodes_append:
  assumes "log_ok log" and "log_decodes crc log"
  shows "log_decodes crc (snd (log_append crc records log))"
proof (cases crc records log rule: log_append_outcome)
  case (stored vs ns)
  have vs: "list_all vb_ok vs" using validate_record_set_Inr [OF stored(2)] by simp
  have "contiguous (next_offset log) (assign_offsets (next_offset log) vs)
      (next_offset log + record_total vs)"
    using assms stored(4) vs by (intro contiguous_assign_offsets) (simp_all add: log_ok_def)
  then have "\<forall>b \<in> set (assign_offsets (next_offset log) vs). in_i64 (sb_base_offset b)"
    using assms(1) stored(4) by (auto simp: log_ok_def dest: contiguous_in_i64)
  then have "list_all (\<lambda>b. holds_batch crc (sb_base_offset b) (sb_record_count b) (sb_bytes b))
    (assign_offsets (next_offset log) vs)"
    using validated_batch_holds [OF stored(2)] by (intro log_decodes_assign) simp_all
  with assms(2) stored(1,4) show ?thesis
    by (rule_tac append_validated_stored [of log "record_total vs" vs ns])
      (simp_all add: log_decodes_def)
qed (simp_all add: assms(2))

interpretation decodable: guarded_ops
  "\<lambda>records log. snd (log_append crc records log)" "\<lambda>log. log_ok log \<and> log_decodes crc log"
  for crc
  by unfold_locales (simp add: log_ok_append log_decodes_append)

section \<open>Reading\<close>

lemma collect_records_tail:
  assumes "acc \<noteq> []" and "mx \<le> u64_max"
  shows "\<exists>mid post. bs = mid @ post \<and>
    collect_records mx acc bs = acc @ concat (map sb_bytes mid) \<and>
    (mid \<noteq> [] \<longrightarrow> length (collect_records mx acc bs) \<le> mx) \<and>
    (post \<noteq> [] \<longrightarrow> mx < length (collect_records mx acc bs) + length (sb_bytes (hd post)))"
  using assms(1)
proof (induction bs arbitrary: acc)
  case (Cons b bs)
  show ?case
  proof (cases "length acc + length (sb_bytes b) \<le> mx")
    case True
    then have eq: "collect_records mx acc (b # bs) = collect_records mx (acc @ sb_bytes b) bs"
      using assms(2) by (simp add: checked_add_usize_def)
    from Cons.prems have "acc @ sb_bytes b \<noteq> []" by simp
    from Cons.IH [OF this] obtain mid post where
      "bs = mid @ post"
      "collect_records mx (acc @ sb_bytes b) bs = (acc @ sb_bytes b) @ concat (map sb_bytes mid)"
      "mid \<noteq> [] \<longrightarrow> length (collect_records mx (acc @ sb_bytes b) bs) \<le> mx"
      "post \<noteq> [] \<longrightarrow>
        mx < length (collect_records mx (acc @ sb_bytes b) bs) + length (sb_bytes (hd post))"
      by (elim exE conjE)
    then show ?thesis
      unfolding eq using True
      by (intro exI [of _ "b # mid"] exI [of _ post]) (cases mid; simp)
  next
    case False
    then have "collect_records mx acc (b # bs) = acc"
      using Cons.prems by (simp add: checked_add_usize_def)
    with False show ?thesis by (intro exI [of _ "[]"] exI [of _ "b # bs"]) simp
  qed
qed simp

lemma collect_records_split:
  assumes "list_all (\<lambda>b. sb_bytes b \<noteq> []) bs" and "mx \<le> u64_max"
  shows "\<exists>mid post. bs = mid @ post \<and> collect_records mx [] bs = concat (map sb_bytes mid) \<and>
    (bs \<noteq> [] \<longrightarrow> mid \<noteq> []) \<and>
    (1 < length mid \<longrightarrow> length (concat (map sb_bytes mid)) \<le> mx) \<and>
    (post \<noteq> [] \<longrightarrow> mx < length (concat (map sb_bytes mid)) + length (sb_bytes (hd post)))"
proof (cases bs)
  case (Cons b bs')
  then have ne: "sb_bytes b \<noteq> []" using assms(1) by simp
  from collect_records_tail [OF this assms(2), of bs'] obtain mid post where
    "bs' = mid @ post" "collect_records mx (sb_bytes b) bs' = sb_bytes b @ concat (map sb_bytes mid)"
    "mid \<noteq> [] \<longrightarrow> length (collect_records mx (sb_bytes b) bs') \<le> mx"
    "post \<noteq> [] \<longrightarrow> mx < length (collect_records mx (sb_bytes b) bs') + length (sb_bytes (hd post))"
    by (elim exE conjE)
  then show ?thesis
    unfolding Cons by (intro exI [of _ "b # mid"] exI [of _ post]) auto
qed simp

lemma contiguous_nonempty_bytes: "contiguous a bs b \<Longrightarrow> list_all (\<lambda>b. sb_bytes b \<noteq> []) bs"
  by (induction bs arbitrary: a) (auto simp: sb_ok_def)

text \<open>The batch that holds an offset is the first one not wholly before it.\<close>

lemma contiguous_locate:
  assumes "contiguous a bs b" and "a \<le> off" and "off < b"
  shows "\<exists>x xs. dropWhile (\<lambda>x. sb_last_offset x < off) bs = x # xs \<and>
    sb_base_offset x \<le> off \<and> off \<le> sb_last_offset x"
  using assms
proof (induction bs arbitrary: a)
  case (Cons x bs)
  then show ?case by (cases "off < a + sb_record_count x") (auto simp: sb_ok_def)
qed simp

lemma contiguous_beyond:
  assumes "contiguous a bs b"
  shows "dropWhile (\<lambda>x. sb_last_offset x < b) bs = []"
  using assms
proof (induction bs arbitrary: a)
  case (Cons x bs)
  then have "sb_last_offset x < b"
    by (auto simp: sb_ok_def dest!: contiguous_le)
  with Cons show ?case by auto
qed simp

lemma log_fetch_batches:
  assumes ok: "log_ok log" and rng: "0 \<le> off" "off \<le> next_offset log" and mx: "mx \<le> u64_max"
  obtains pre mid post where "batches log = pre @ mid @ post"
    and "log_fetch log off mx =
      Inr \<lparr>fs_records = concat (map sb_bytes mid), fs_high_watermark = next_offset log\<rparr>"
    and "\<forall>b \<in> set pre. sb_last_offset b < off"
    and "off < next_offset log \<longrightarrow>
      mid \<noteq> [] \<and> sb_base_offset (hd mid) \<le> off \<and> off \<le> sb_last_offset (hd mid)"
    and "off = next_offset log \<longrightarrow> mid = []"
    and "1 < length mid \<longrightarrow> length (concat (map sb_bytes mid)) \<le> mx"
    and "post \<noteq> [] \<longrightarrow> mx < length (concat (map sb_bytes mid)) + length (sb_bytes (hd post))"
proof -
  let ?p = "\<lambda>b. sb_last_offset b < off"
  have cont: "contiguous 0 (batches log) (next_offset log)" using ok by (simp add: log_ok_def)
  have split: "batches log = takeWhile ?p (batches log) @ dropWhile ?p (batches log)" by simp
  have "list_all (\<lambda>b. sb_bytes b \<noteq> []) (dropWhile ?p (batches log))"
    using contiguous_nonempty_bytes [OF cont] by (auto simp: list_all_iff dest: set_dropWhileD)
  from collect_records_split [OF this mx] obtain mid post where
    sp: "dropWhile ?p (batches log) = mid @ post" and
    col: "collect_records mx [] (dropWhile ?p (batches log)) = concat (map sb_bytes mid)" and
    more: "dropWhile ?p (batches log) \<noteq> [] \<longrightarrow> mid \<noteq> []"
      "1 < length mid \<longrightarrow> length (concat (map sb_bytes mid)) \<le> mx"
      "post \<noteq> [] \<longrightarrow> mx < length (concat (map sb_bytes mid)) + length (sb_bytes (hd post))"
    by (elim exE conjE)
  show ?thesis
  proof (rule that [of "takeWhile ?p (batches log)" mid post])
    show "batches log = takeWhile ?p (batches log) @ mid @ post"
      using split sp by simp
    show "log_fetch log off mx =
      Inr \<lparr>fs_records = concat (map sb_bytes mid), fs_high_watermark = next_offset log\<rparr>"
      using rng col by (simp add: log_fetch_def)
    show "off < next_offset log \<longrightarrow>
        mid \<noteq> [] \<and> sb_base_offset (hd mid) \<le> off \<and> off \<le> sb_last_offset (hd mid)"
      using contiguous_locate [OF cont rng(1)] more(1) sp by (cases mid) auto
    show "off = next_offset log \<longrightarrow> mid = []"
      using contiguous_beyond [OF cont] sp by (metis append_is_Nil_conv)
  qed (use more in \<open>auto dest: set_takeWhileD\<close>)
qed

section \<open>Retained appends\<close>

definition from_producer :: "(bytes \<Rightarrow> nat) \<Rightarrow> i64 \<Rightarrow> bytes \<Rightarrow> bool" where
  "from_producer crc pid records \<longleftrightarrow>
     (case record_set_producer crc records of
        Inr (Some p) \<Rightarrow> rp_producer_id p = pid
      | _ \<Rightarrow> False)"

text \<open>
  The producer remembers an append of these batches, at most \<open>k\<close> appends ago, and nothing older
  that looks the same.
\<close>

definition retained ::
  "record_set_producer \<Rightarrow> validated_batch list \<Rightarrow> append_result \<Rightarrow> nat \<Rightarrow> partition_log \<Rightarrow> bool" where
  "retained p vs res k log \<longleftrightarrow>
     (\<exists>st pre r post. map_of (producer_states log) (rp_producer_id p) = Some st \<and>
        ps_producer_epoch st = rp_producer_epoch p \<and>
        ps_recent st = pre @ r # post \<and> length post \<le> k \<and> ra_result r = res \<and>
        same_request (vb_base_sequence (hd vs)) vs r \<and>
        (\<forall>x \<in> set pre. \<not> same_request (vb_base_sequence (hd vs)) vs x))"

lemma remember_other:
  "rp_producer_id q \<noteq> pid \<Longrightarrow> map_of (remember q n r states) pid = map_of states pid"
  by (simp add: remember_def Let_def update_conv')

lemma retained_mono:
  assumes "retained p vs res j log" and "j \<le> k"
  shows "retained p vs res k log"
proof -
  from assms(1) obtain st pre r post where
    "map_of (producer_states log) (rp_producer_id p) = Some st"
    "ps_producer_epoch st = rp_producer_epoch p" "ps_recent st = pre @ r # post" "length post \<le> j"
    "ra_result r = res" "same_request (vb_base_sequence (hd vs)) vs r"
    "\<forall>x \<in> set pre. \<not> same_request (vb_base_sequence (hd vs)) vs x"
    by (auto simp: retained_def)
  with assms(2) show ?thesis
    unfolding retained_def by (intro exI conjI) (assumption | simp)+
qed

lemma remember_known:
  assumes "map_of states (rp_producer_id q) = Some st"
  shows "map_of (remember q n r states) (rp_producer_id q) =
    Some (st\<lparr>ps_next_sequence := n, ps_recent := trim_recent (ps_recent st) @ [r]\<rparr>)"
  using assms by (simp add: remember_def update_conv')

lemma trim_recent_keeps:
  assumes "length post \<le> 3"
  shows "\<exists>pre'. trim_recent (pre @ r # post) = pre' @ r # post \<and> set pre' \<subseteq> set pre"
proof -
  have "length (pre @ r # post) - 4 \<le> length pre" using assms by simp
  then show ?thesis
    unfolding trim_recent_eq
    by (intro exI [of _ "drop (length (pre @ r # post) - 4) pre"]) (auto dest: in_set_dropD)
qed

lemma append_validated_states:
  assumes "in_i64 (next_offset log + n)"
    and "admit log vs n = Admit ns"
  shows "producer_states (snd (append_validated log vs n ns)) =
    (case producer_of (hd vs) of
       None \<Rightarrow> producer_states log
     | Some q \<Rightarrow>
         remember q (next_sequence (vb_base_sequence (hd vs)) n)
           \<lparr>ra_base_sequence = vb_base_sequence (hd vs), ra_fingerprints = map fingerprint vs,
            ra_encoded_batches = map vb_bytes vs,
            ra_result = \<lparr>ar_base_offset = next_offset log,
              ar_last_offset = wrap_i64 (next_offset log + n - 1),
              ar_record_count = n, ar_appended = True\<rparr>\<rparr> (producer_states log))"
  using assms(2)
  by (cases rule: admit_cases)
    (use assms(1) in \<open>auto simp: append_validated_def checked_add_i64_def Let_def split: option.splits\<close>)

lemma retained_append:
  assumes ret: "retained p vs res k log"
    and k: "from_producer crc (rp_producer_id p) records \<Longrightarrow> k \<le> 3"
  shows "retained p vs res
    (if from_producer crc (rp_producer_id p) records then Suc k else k)
    (snd (log_append crc records log))"
proof (cases crc records log rule: log_append_outcome)
  case (stored ws ns)
  note states = append_validated_states [OF stored(4,3)]
  have prod: "from_producer crc (rp_producer_id p) records \<longleftrightarrow>
      (\<exists>q. producer_of (hd ws) = Some q \<and> rp_producer_id q = rp_producer_id p)"
    using stored(2)
    by (auto simp: from_producer_def record_set_producer_def split: option.splits)
  show ?thesis
  proof (cases "from_producer crc (rp_producer_id p) records")
    case False
    with prod states have "map_of (producer_states (snd (log_append crc records log)))
        (rp_producer_id p) = map_of (producer_states log) (rp_producer_id p)"
      by (auto simp: stored(1) remember_other split: option.splits)
    with ret False show ?thesis by (simp add: retained_def)
  next
    case True
    with prod obtain q where q: "producer_of (hd ws) = Some q"
      "rp_producer_id q = rp_producer_id p" by auto
    from ret obtain st pre r post where st:
      "map_of (producer_states log) (rp_producer_id p) = Some st"
      "ps_producer_epoch st = rp_producer_epoch p" "ps_recent st = pre @ r # post"
      "length post \<le> k" "ra_result r = res" "same_request (vb_base_sequence (hd vs)) vs r"
      "\<forall>x \<in> set pre. \<not> same_request (vb_base_sequence (hd vs)) vs x"
      by (auto simp: retained_def)
    have "length post \<le> 3" using k [OF True] st(4) by simp
    from trim_recent_keeps [OF this] obtain pre' where
      "trim_recent (pre @ r # post) = pre' @ r # post" "set pre' \<subseteq> set pre" by blast
    then show ?thesis
      using st True q states remember_known [of "producer_states log" q st]
      by (fastforce simp: retained_def stored(1))
  qed
next
  case (failed e)
  with ret show ?thesis by (auto intro: retained_mono)
next
  case (retried vs res)
  with ret show ?thesis by (auto intro: retained_mono)
qed

lemma retained_append_all:
  assumes "retained p vs res k log"
    and "k + length (filter (from_producer crc (rp_producer_id p)) rs) \<le> 4"
  shows "retained p vs res 4 (append_all crc rs log)"
  using assms
proof (induction rs arbitrary: k log)
  case Nil
  then show ?case by (auto simp: append_all_def intro: retained_mono)
next
  case (Cons r rs)
  have "retained p vs res
    (if from_producer crc (rp_producer_id p) r then Suc k else k) (snd (log_append crc r log))"
    using Cons.prems by (intro retained_append) auto
  then show ?case
    using Cons.prems(2) Cons.IH [of _ "snd (log_append crc r log)"]
    by (auto simp: append_all_def split: if_splits)
qed

lemma retained_first:
  assumes app: "log_append crc records log = (Inr res, log')" and new: "ar_appended res"
    and prod: "record_set_producer crc records = Inr (Some p)"
    and vs: "validate_record_set crc records = Inr vs"
  shows "retained p vs res 0 log'"
proof (cases crc records log rule: log_append_outcome)
  case (stored ws ns)
  have [simp]: "ws = vs" using stored(2) vs by simp
  have p: "producer_of (hd vs) = Some p"
    using prod vs by (simp add: record_set_producer_def)
  obtain states where res: "res = \<lparr>ar_base_offset = next_offset log,
      ar_last_offset = wrap_i64 (next_offset log + record_total vs - 1),
      ar_record_count = record_total vs, ar_appended = True\<rparr>"
    using append_validated_stored [OF stored(4), of vs ns] app stored(1) by auto
  have fresh: "\<And>st x. map_of (producer_states log) (rp_producer_id p) = Some st \<Longrightarrow>
      x \<in> set (ps_recent st) \<Longrightarrow> \<not> same_request (vb_base_sequence (hd vs)) vs x"
    using stored(3) p
    by (auto simp: admit_def Let_def find_None_iff split: option.splits if_splits sum.splits)
  have log': "producer_states log' =
     remember p (next_sequence (vb_base_sequence (hd vs)) (record_total vs))
           \<lparr>ra_base_sequence = vb_base_sequence (hd vs), ra_fingerprints = map fingerprint vs,
            ra_encoded_batches = map vb_bytes vs, ra_result = res\<rparr> (producer_states log)"
    using append_validated_states [OF stored(4,3)] p app stored(1) res by simp
  show ?thesis
  proof (cases "map_of (producer_states log) (rp_producer_id p)")
    case None
    then show ?thesis
      by (simp add: retained_def log' remember_def update_conv' same_request_def)
  next
    case (Some st)
    have "ps_producer_epoch st = rp_producer_epoch p"
      using stored(3) p Some by (auto elim: admit_cases)
    then show ?thesis
      using fresh [OF Some] remember_known [OF Some]
      by (fastforce simp: retained_def log' same_request_def trim_recent_eq dest: in_set_dropD)
  qed
qed (use app new vs in \<open>auto simp: admit_def Let_def split: option.splits if_splits sum.splits\<close>)

section \<open>A record set of one batch\<close>

text \<open>A record set as long as its first batch says is that batch.\<close>

lemma validate_single_batch:
  assumes "validate_record_set crc batch = Inr vs" and "i32_at 8 batch = int (length batch) - 12"
  shows "\<exists>v. vs = [v] \<and> vb_bytes v = batch"
proof -
  from assms(1) have "batch \<noteq> []" "validate_batches crc batch = Inr vs"
    by (auto simp: validate_record_set_def try_bind_Inr Let_def split: if_splits)
  then obtain v where "validate_batch crc (i32_at 8 batch) batch = Inr v" "vs = [v]"
    using assms(2)
    by (subst (asm) validate_batches.simps)
      (auto simp: Let_def try_bind_Inr layout_defs checked_add_usize_def nat_diff_distrib
        validate_batches.simps [of crc "[]"] split: if_splits option.splits)
  with validate_batch_Inr show ?thesis by blast
qed

lemma i32_at_skip:
  "length xs \<le> i \<Longrightarrow> i32_at i (xs @ ys) = i32_at (i - length xs) ys"
  by (simp add: i32_at_def slice_append_skip)

lemma i32_at_be_bytes: "in_i32 x \<Longrightarrow> i32_at 0 (be_bytes 4 x @ ys) = x"
  by (simp add: i32_at_def slice_append_exact wrap_i32_be_bytes)

lemma i32_at_be_bytes_all: "in_i32 x \<Longrightarrow> i32_at 0 (be_bytes 4 x) = x"
  using i32_at_be_bytes [of x "[]"] by simp

lemma validate_one_batch:
  assumes c: "c = batch_content attributes (n - 1) t0 t1 pid epoch seq n records"
    and b: "batch = batch_frame crc off le c"
    and r: "in_i64 off" "in_i32 le" "in_i64 t0" "in_i64 t1" "in_i64 pid" "in_i16 epoch"
      "in_i32 seq" "in_i32 n" "0 < n" "in_i32 (int (length c) + 9)" "crc c < 2 ^ 32"
    and attributes: "in_i16 attributes" "compression_of attributes = Inr z" "\<not> bit attributes 4" "\<not> bit attributes 5"
    and kind: "pid = - 1 \<and> epoch = - 1 \<and> (seq = - 1 \<or> seq = 0) \<or>
      pid \<noteq> - 1 \<and> 0 \<le> epoch \<and> 0 \<le> seq"
  shows "validate_record_set crc batch =
    Inr [\<lparr>vb_batch_length = int (length c) + 9, vb_record_count = n, vb_producer_id = pid,
          vb_producer_epoch = epoch, vb_base_sequence = seq, vb_crc = u32_at 17 batch,
          vb_bytes = batch\<rparr>]"
proof -
  let ?len = "int (length c) + 9"
  have len: "length batch = 61 + length records" and lc: "length c = 40 + length records"
    by (simp_all add: b c)
  have in0: "in_i32 (n - 1)" using r(8,9) by (simp add: in_i32_def)
  define info where "info = \<lparr>bi_record_count = n,
      bi_timestamp_type = (if bit attributes 3 then LogAppend else Creation), bi_min_offset = off, bi_min_timestamp = t0,
      bi_base_sequence = seq, bi_transactional = False, bi_control = False,
      bi_delete_horizon = bit attributes 6, bi_partition_leader_epoch = le, bi_producer_id = pid,
      bi_producer_epoch = epoch, bi_compression = z, bi_version = 2\<rparr>"
  have hdr: "decode_batch_header_inner crc 2 batch = Inr ((info, records), [])"
    using decode_batch_frame [OF c, of off le crc z "[]"] r in0 attributes by (simp add: b info_def)
  have magic: "batch ! 16 = 2"
    by (simp add: b batch_frame_def nth_append numeral_eq_Suc)
  have infos: "decode_batch_info crc batch = Inr ([info], [])"
    using len magic hdr
    by (subst decode_batch_info.simps)
      (auto simp: try_peek_bytes_def slice_def MAGIC_BYTE_OFFSET_def hd_drop_conv_nth
        decode_batch_info.simps [of crc "[]"])
  have at: "i32_at 8 batch = ?len" "i32_at 23 batch = n - 1" "i32_at 57 batch = n"
    using r in0 by (simp_all add: b c batch_frame_def batch_content_def i32_at_skip i32_at_be_bytes
        i32_at_be_bytes_all del: be_bytes.simps)
  have "validate_batch crc ?len batch = Inr \<lparr>vb_batch_length = ?len, vb_record_count = n,
      vb_producer_id = pid, vb_producer_epoch = epoch, vb_base_sequence = seq,
      vb_crc = u32_at 17 batch, vb_bytes = batch\<rparr>"
    using magic infos at kind r(9)
    by (auto simp: validate_batch_def layout_defs info_def NO_PRODUCER_ID_def NO_PRODUCER_EPOCH_def
        NO_SEQUENCE_def)
  then have "validate_batches crc batch = Inr [\<lparr>vb_batch_length = ?len, vb_record_count = n,
      vb_producer_id = pid, vb_producer_epoch = epoch, vb_base_sequence = seq,
      vb_crc = u32_at 17 batch, vb_bytes = batch\<rparr>]"
    using len lc at r(10)
    by (subst validate_batches.simps)
      (auto simp: layout_defs checked_add_usize_def u64_max_def in_i32_def nat_add_distrib
        usize_try_from_def validate_batches.simps [of crc "[]"])
  with len show ?thesis
    by (auto simp: validate_record_set_def)
qed

lemma log_decodes_default [simp]: "log_decodes crc log_default"
  by (simp add: log_decodes_def log_default_def)

section \<open>Answers to retries\<close>

abbreviation stored_records :: "stored_batch list \<Rightarrow> (bytes \<times> nat) list" where
  "stored_records bs \<equiv> concat (map (\<lambda>b. batch_records (sb_bytes b) (sb_record_count b)) bs)"

lemma contiguous_sum: "contiguous a bs b \<Longrightarrow> b = a + sum_list (map sb_record_count bs)"
  by (induction bs arbitrary: a) fastforce+

lemma same_batches_records:
  assumes "map (drop 8 \<circ> sb_bytes) bs = map (drop 8 \<circ> vb_bytes) vs"
    and "map sb_record_count bs = map vb_record_count vs"
  shows "stored_records bs = abs_records vs"
  using assms
proof (induction bs arbitrary: vs)
  case (Cons b bs)
  then show ?case by (cases vs) (auto simp: abs_records_def batch_records_def)
qed (simp add: abs_records_def)

lemma recent_points_into_log:
  assumes log: "log_ok log" and rec: "recent_ok (batches log) r" and same: "same_request sq vs r"
  shows "slice (nat (ar_base_offset (ra_result r))) (nat (ar_record_count (ra_result r)))
      (abs_log log) = abs_records vs"
    and "ar_last_offset (ra_result r) =
      ar_base_offset (ra_result r) + ar_record_count (ra_result r) - 1"
    and "ar_record_count (ra_result r) = int (length (abs_records vs))"
proof -
  from rec obtain pre mid post where bs: "batches log = pre @ mid @ post" and ne: "mid \<noteq> []"
    and ends: "sb_base_offset (hd mid) = ar_base_offset (ra_result r)"
      "sb_last_offset (last mid) = ar_last_offset (ra_result r)"
    and eqs: "map (drop 8 \<circ> sb_bytes) mid = map (drop 8) (ra_encoded_batches r)"
      "map sb_record_count mid = map rf_record_count (ra_fingerprints r)"
      "sum_list (map sb_record_count mid) = ar_record_count (ra_result r)"
    by (auto simp: recent_ok_def)
  from log bs obtain a b where
    pre: "contiguous 0 pre a" and mid: "contiguous a mid b"
    by (auto simp: log_ok_def contiguous_append)
  have a: "a = ar_base_offset (ra_result r)" and b: "ar_last_offset (ra_result r) = b - 1"
    using contiguous_hd [OF mid ne] contiguous_last [OF mid ne] ends by simp_all
  have abs: "stored_records mid = abs_records vs"
    using eqs same by (intro same_batches_records) (auto simp: same_request_def fingerprint_def)
  have "a + sum_list (map sb_record_count mid) = b"
    using contiguous_sum [OF mid] by simp
  then have cnt: "ar_record_count (ra_result r) = b - a" using eqs(3) by simp
  have lens: "int (length (stored_records pre)) = a" "int (length (abs_records vs)) = b - a"
    using contiguous_length [OF pre] contiguous_length [OF mid] abs by simp_all
  show "slice (nat (ar_base_offset (ra_result r))) (nat (ar_record_count (ra_result r)))
      (abs_log log) = abs_records vs"
    using lens cnt abs bs unfolding a [symmetric]
    by (auto simp: abs_log_def slice_def nat_eq_iff)
  show "ar_last_offset (ra_result r) =
      ar_base_offset (ra_result r) + ar_record_count (ra_result r) - 1"
    using a b cnt by simp
  show "ar_record_count (ra_result r) = int (length (abs_records vs))"
    using lens(2) cnt by simp
qed

lemma admit_Retry:
  assumes "admit log vs n = Retry res"
  obtains p st r where "producer_of (hd vs) = Some p"
    and "map_of (producer_states log) (rp_producer_id p) = Some st" and "r \<in> set (ps_recent st)"
    and "same_request (vb_base_sequence (hd vs)) vs r"
    and "res = (ra_result r)\<lparr>ar_appended := False\<rparr>"
proof -
  obtain p st r where "producer_of (hd vs) = Some p"
    "map_of (producer_states log) (rp_producer_id p) = Some st"
    "find (same_request (vb_base_sequence (hd vs)) vs) (ps_recent st) = Some r"
    "res = (ra_result r)\<lparr>ar_appended := False\<rparr>"
    using assms by (auto simp: admit_def Let_def split: option.splits if_splits sum.splits)
  then show ?thesis using that by (metis find_Some_iff nth_mem)
qed

lemma abs_records_length: "list_all vb_ok vs \<Longrightarrow> int (length (abs_records vs)) = record_total vs"
  by (induction vs) (auto simp: abs_records_def vb_ok_def)

lemma append_outcome:
  assumes "log_ok log" and "log_append crc records log = (out, log')"
  shows "case out of
      Inl e \<Rightarrow> log' = log
    | Inr res \<Rightarrow>
        (\<exists>vs. validate_record_set crc records = Inr vs \<and> concat (map vb_bytes vs) = records \<and>
           abs_log log' = (if ar_appended res then abs_log log @ abs_records vs else abs_log log) \<and>
           (ar_appended res \<longrightarrow> ar_base_offset res = int (length (abs_log log))) \<and>
           (\<not> ar_appended res \<longrightarrow> log' = log) \<and>
           slice (nat (ar_base_offset res)) (nat (ar_record_count res)) (abs_log log') =
             abs_records vs \<and>
           ar_last_offset res = ar_base_offset res + ar_record_count res - 1 \<and>
           ar_record_count res = int (length (abs_records vs)))"
proof (cases crc records log rule: log_append_outcome)
  case (failed e)
  with assms(2) have "out = Inl e" "log' = log" by simp_all
  then show ?thesis by simp
next
  case (retried vs res)
  from retried(3) show ?thesis
  proof (rule admit_Retry)
    fix p st r
    assume st: "map_of (producer_states log) (rp_producer_id p) = Some st"
      and r: "r \<in> set (ps_recent st)" and same: "same_request (vb_base_sequence (hd vs)) vs r"
      and res: "res = (ra_result r)\<lparr>ar_appended := False\<rparr>"
    have "recent_ok (batches log) r"
      using log_ok_state [OF assms(1) st] r by (simp add: ps_ok_def list_all_iff)
    note into = recent_points_into_log [OF assms(1) this same]
    have "out = Inr res" "log' = log" using retried(1) assms(2) by simp_all
    then show ?thesis
      using into retried(2) validate_record_set_Inr [OF retried(2)] res
      by (simp add: exI [of _ vs])
  qed
next
  case (stored vs ns)
  have vs: "list_all vb_ok vs" "vs \<noteq> []" "concat (map vb_bytes vs) = records"
    using validate_record_set_Inr [OF stored(2)] by simp_all
  obtain states where
    "log' = \<lparr>next_offset = next_offset log + record_total vs,
         batches = batches log @ assign_offsets (next_offset log) vs, producer_states = states\<rparr>"
    "out = Inr \<lparr>ar_base_offset = next_offset log,
       ar_last_offset = next_offset log + record_total vs - 1,
       ar_record_count = record_total vs, ar_appended = True\<rparr>"
    using append_validated_stored [OF stored(4), of vs ns] assms stored(1,4)
      wrap_last_offset [of "next_offset log" "record_total vs"] record_total_pos [OF vs(1,2)]
    by (auto simp: log_ok_def)
  then show ?thesis
    using vs stored(2) abs_log_length [OF assms(1)] abs_records_length [OF vs(1)]
      record_total_pos [OF vs(1,2)]
    by (auto simp: abs_log_def assign_offsets_records slice_def nat_eq_iff)
qed

lemma append_base_nonneg:
  assumes "log_ok log" and "log_append crc records log = (Inr res, log')"
  shows "0 \<le> ar_base_offset res"
proof (cases crc records log rule: log_append_outcome)
  case (retried vs res')
  from retried(3) show ?thesis
  proof (rule admit_Retry)
    fix p st r
    assume st: "map_of (producer_states log) (rp_producer_id p) = Some st"
      and r: "r \<in> set (ps_recent st)" and res: "res' = (ra_result r)\<lparr>ar_appended := False\<rparr>"
    have "recent_ok (batches log) r"
      using log_ok_state [OF assms(1) st] r by (simp add: ps_ok_def list_all_iff)
    then obtain pre mid post where "batches log = pre @ mid @ post" "mid \<noteq> []"
      "sb_base_offset (hd mid) = ar_base_offset (ra_result r)" by (auto simp: recent_ok_def)
    moreover from this assms(1) obtain a b where "contiguous 0 pre a" "contiguous a mid b"
      by (auto simp: log_ok_def contiguous_append)
    ultimately have "0 \<le> ar_base_offset (ra_result r)"
      using contiguous_hd [of a mid b] contiguous_le [of 0 pre a] by simp
    then show ?thesis using res retried(1) assms(2) by simp
  qed
next
  case (stored vs ns)
  have "fst (log_append crc records log) = Inr res" using assms(2) by simp
  then show ?thesis
    using append_validated_result [OF stored(4), of vs ns] stored(1) assms(1)
    by (auto simp: log_ok_def)
qed (use assms in auto)

lemma contiguous_nth:
  assumes "contiguous a bs c" and "a \<le> off" and "off < c"
    and "dropWhile (\<lambda>x. sb_last_offset x < off) bs = b # xs"
  shows "stored_records bs ! nat (off - a) = (drop 8 (sb_bytes b), nat (off - sb_base_offset b))"
  using assms
proof (induction bs arbitrary: a)
  case (Cons x bs)
  show ?case
  proof (cases "off < a + sb_record_count x")
    case True
    then have "b = x" using Cons.prems by (auto simp: sb_ok_def)
    moreover have "nat (off - a) < nat (sb_record_count x)" using True Cons.prems(2) by simp
    ultimately show ?thesis
      using Cons.prems(1) by (auto simp: nth_append sb_ok_def batch_records_def)
  next
    case False
    then have "dropWhile (\<lambda>x. sb_last_offset x < off) bs = b # xs"
      using Cons.prems by (auto simp: sb_ok_def)
    moreover have "contiguous (a + sb_record_count x) bs c" using Cons.prems(1) by simp
    ultimately have IH: "stored_records bs ! nat (off - (a + sb_record_count x)) =
        (drop 8 (sb_bytes b), nat (off - sb_base_offset b))"
      using False Cons.prems(3) by (intro Cons.IH) simp_all
    have "nat (off - a) - nat (sb_record_count x) = nat (off - (a + sb_record_count x))"
      "\<not> nat (off - a) < nat (sb_record_count x)"
      using False Cons.prems(1) by (auto simp: sb_ok_def)
    with IH show ?thesis by (auto simp: nth_append)
  qed
qed simp

text \<open>A fetch inside the log starts with the batch that holds the record asked for.\<close>

lemma log_fetch_first:
  assumes ok: "log_ok log" and rng: "0 \<le> off" "off < next_offset log" and mx: "mx \<le> u64_max"
  obtains b :: stored_batch and rest where "log_fetch log off mx =
      Inr \<lparr>fs_records = sb_bytes b @ rest, fs_high_watermark = next_offset log\<rparr>"
    and "sb_base_offset b \<le> off" and "off \<le> sb_last_offset b"
    and "abs_log log ! nat off = (drop 8 (sb_bytes b), nat (off - sb_base_offset b))"
    and "b \<in> set (batches log)" and "rest = [] \<or> length (sb_bytes b @ rest) \<le> mx"
proof -
  have cont: "contiguous 0 (batches log) (next_offset log)" using ok by (simp add: log_ok_def)
  from contiguous_locate [OF cont rng] obtain b xs where
    b: "dropWhile (\<lambda>x. sb_last_offset x < off) (batches log) = b # xs"
      "sb_base_offset b \<le> off" "off \<le> sb_last_offset b" by blast
  have stored: "b \<in> set (batches log)" using b(1) by (metis list.set_intros(1) set_dropWhileD)
  then have "sb_bytes b \<noteq> []"
    using contiguous_nonempty_bytes [OF cont] by (simp add: list_all_iff)
  from collect_records_tail [OF this mx, of xs] obtain mid :: "stored_batch list" where
    "collect_records mx (sb_bytes b) xs = sb_bytes b @ concat (map sb_bytes mid)"
    and fits: "concat (map sb_bytes mid) = [] \<or> length (sb_bytes b @ concat (map sb_bytes mid)) \<le> mx"
    by (metis concat.simps(1) list.map(1))
  from this(1) have "log_fetch log off mx =
      Inr \<lparr>fs_records = sb_bytes b @ concat (map sb_bytes mid), fs_high_watermark = next_offset log\<rparr>"
    using b(1) rng by (simp add: log_fetch_def)
  moreover have "abs_log log ! nat off = (drop 8 (sb_bytes b), nat (off - sb_base_offset b))"
    using contiguous_nth [OF cont rng b(1)] by (simp add: abs_log_def)
  ultimately show ?thesis using b(2,3) stored fits by (intro that)
qed

lemma validate_sequences_iff:
  assumes "list_all vb_ok vs" and "0 \<le> e" and "e < 2 ^ 31"
  shows "validate_sequences vs e = Inr () \<longleftrightarrow>
    (\<forall>i < length vs. vb_base_sequence (vs ! i) = (e + record_total (take i vs)) mod 2 ^ 31)"
  using assms
proof (induction vs arbitrary: e)
  case (Cons v vs)
  have e': "next_sequence e (vb_record_count v) = (e + vb_record_count v) mod 2 ^ 31"
    using Cons.prems by (intro next_sequence_eq) (auto simp: vb_ok_def)
  have "validate_sequences vs ((e + vb_record_count v) mod 2 ^ 31) = Inr () \<longleftrightarrow>
    (\<forall>i < length vs. vb_base_sequence (vs ! i) =
      ((e + vb_record_count v) mod 2 ^ 31 + record_total (take i vs)) mod 2 ^ 31)"
    using Cons.prems by (intro Cons.IH) simp_all
  then show ?case
    using Cons.prems e'
    by (auto simp: All_less_Suc2 mod_simps add.assoc)
qed simp

section \<open>Properties\<close>

text \<open>
  C1: after any sequence of record sets has been submitted to a new partition, whichever of them were
  accepted, the log is well formed: batches with contiguous offsets from 0 up to the next offset,
  every stored batch decodable with its checksum intact at exactly its assigned offset, and
  every producer's retained appends present in the log and linked by sequence number.
\<close>

theorem append_all_well_formed:
  "log_ok (append_all crc rs log_default) \<and> log_decodes crc (append_all crc rs log_default)"
  unfolding append_all_def
  by (rule decodable.run_inv) simp

text \<open>
  C2: the log refines an append-only list of records. A record set that is new to the log extends
  the list by exactly its records, and the result names the offsets they took, which are their
  indices; a record set recognised as a retry leaves the log unchanged and the result names the
  offsets at which exactly its records are stored already; a refused one changes nothing.
\<close>

theorem append_refines_record_list:
  assumes "log_ok log" and "log_append crc records log = (out, log')"
  shows "case out of
      Inl e \<Rightarrow> log' = log
    | Inr res \<Rightarrow>
        (\<exists>vs. validate_record_set crc records = Inr vs \<and> concat (map vb_bytes vs) = records \<and>
           abs_log log' = (if ar_appended res then abs_log log @ abs_records vs else abs_log log) \<and>
           (ar_appended res \<longrightarrow> ar_base_offset res = int (length (abs_log log))) \<and>
           (\<not> ar_appended res \<longrightarrow> log' = log) \<and>
           slice (nat (ar_base_offset res)) (nat (ar_record_count res)) (abs_log log') =
             abs_records vs \<and>
           ar_last_offset res = ar_base_offset res + ar_record_count res - 1 \<and>
           ar_record_count res = int (length (abs_records vs)))"
  using assms by (rule append_outcome)

text \<open>
  C5: a producer that resends a record set gets the offsets of the first time and the log does not
  grow, as long as no more than four record sets of the same producer came in between; record
  sets of other producers in between do not matter.
\<close>

theorem retry_is_idempotent:
  assumes "log_append crc records log = (Inr res, log')" and "ar_appended res"
    and "record_set_producer crc records = Inr (Some p)"
    and "length (filter (from_producer crc (rp_producer_id p)) rs) \<le> 4"
  shows "log_append crc records (append_all crc rs log') =
    (Inr (res\<lparr>ar_appended := False\<rparr>), append_all crc rs log')"
proof -
  obtain vs where vs: "validate_record_set crc records = Inr vs" "producer_of (hd vs) = Some p"
    using assms(3) by (auto simp: record_set_producer_def try_bind_Inr)
  obtain n where n: "total_records 0 vs = Some n"
    using assms(1) vs(1) by (auto simp: log_append_def split: option.splits)
  have "retained p vs res 4 (append_all crc rs log')"
    using retained_append_all [OF retained_first [OF assms(1-3) vs(1)], of crc rs] assms(4) by simp
  then obtain st pre r post where st:
    "map_of (producer_states (append_all crc rs log')) (rp_producer_id p) = Some st"
    "ps_producer_epoch st = rp_producer_epoch p" "ps_recent st = pre @ r # post" "ra_result r = res"
    "same_request (vb_base_sequence (hd vs)) vs r"
    "\<forall>x \<in> set pre. \<not> same_request (vb_base_sequence (hd vs)) vs x"
    by (auto simp: retained_def)
  have "find (same_request (vb_base_sequence (hd vs)) vs) (pre @ r # post) = Some r"
    using st(5,6) by (induction pre) auto
  then show ?thesis
    using vs n st by (simp add: log_append_def admit_def)
qed

text \<open>
  C6: the record sets of an idempotent producer are stored without gaps, duplicates or reordering: a
  newly stored record set starts at the sequence number the partition expects of that producer,
  each batch in it continues where the one before it ended, modulo the sequence space of 31
  bits, and the number expected next moves on by the number of records, for that producer only.
\<close>

theorem producer_sequences_contiguous:
  assumes "log_ok log" and "log_append crc records log = (Inr res, log')" and "ar_appended res"
    and "validate_record_set crc records = Inr vs" and "producer_of (hd vs) = Some p"
  shows "(\<forall>i < length vs. vb_base_sequence (vs ! i) =
      (expected_sequence log (rp_producer_id p) + record_total (take i vs)) mod 2 ^ 31) \<and>
    expected_sequence log' (rp_producer_id p) =
      (expected_sequence log (rp_producer_id p) + ar_record_count res) mod 2 ^ 31 \<and>
    (\<forall>q. q \<noteq> rp_producer_id p \<longrightarrow> expected_sequence log' q = expected_sequence log q)"
proof (cases crc records log rule: log_append_outcome)
  case (stored ws ns)
  let ?e = "expected_sequence log (rp_producer_id p)"
  have [simp]: "ws = vs" using stored(2) assms(4) by simp
  have vs: "list_all vb_ok vs" "vs \<noteq> []" using validate_record_set_Inr [OF assms(4)] by simp_all
  have e: "0 \<le> ?e" "?e < 2 ^ 31"
    using log_ok_state [OF assms(1)]
    by (auto simp: expected_sequence_def ps_ok_def split: option.splits)
  have seqs: "validate_sequences vs ?e = Inr ()"
    using stored(3) assms(5) by (auto elim: admit_cases)
  have res: "ar_record_count res = record_total vs"
    using append_validated_result [OF stored(4), of vs ns] assms(2) stored(1) by simp
  have "expected_sequence log' (rp_producer_id p) = next_sequence ?e (record_total vs)"
    "\<And>q. q \<noteq> rp_producer_id p \<Longrightarrow> expected_sequence log' q = expected_sequence log q"
    using append_validated_states [OF stored(4,3)] assms(2,5) stored(1)
      validate_sequences_hd [OF seqs vs(2)]
    by (simp_all add: expected_sequence_def remember_def Let_def update_conv')
  moreover have "\<forall>i < length vs. vb_base_sequence (vs ! i) = (?e + record_total (take i vs)) mod 2 ^ 31"
    using seqs by (simp only: validate_sequences_iff [OF vs(1) e])
  ultimately show ?thesis
    using res next_sequence_eq [OF e(1) record_total_nonneg [OF vs(1)]] by (metis (no_types))
qed (use assms in \<open>auto elim: admit_Retry\<close>)

text \<open>
  C7: a read at an offset between 0 and the next offset succeeds, whatever the byte limit. It
  returns consecutive whole batches that the protocol crate's own decoder accepts, at the
  offsets they are stored under. They begin with the batch that holds the offset asked for, so a
  reader always gets on, even under a limit smaller than that batch; a longer answer stays within the
  limit, and a batch is left out only if it would have exceeded the limit. At the next offset the
  answer is empty.
\<close>

theorem fetch_returns_batches:
  assumes "log_ok log" and "log_decodes crc log"
    and "0 \<le> off" and "off \<le> next_offset log" and "mx \<le> u64_max"
  shows "\<exists>pre mid post infos. batches log = pre @ mid @ post \<and>
    log_fetch log off mx =
      Inr \<lparr>fs_records = concat (map sb_bytes mid), fs_high_watermark = next_offset log\<rparr> \<and>
    decode_batch_info crc (concat (map sb_bytes mid)) = Inr (infos, []) \<and>
    map bi_min_offset infos = map sb_base_offset mid \<and>
    map bi_record_count infos = map sb_record_count mid \<and>
    (if off = next_offset log then mid = []
     else mid \<noteq> [] \<and> sb_base_offset (hd mid) \<le> off \<and> off \<le> sb_last_offset (hd mid)) \<and>
    (1 < length mid \<longrightarrow> length (concat (map sb_bytes mid)) \<le> mx) \<and>
    (post \<noteq> [] \<longrightarrow> mx < length (concat (map sb_bytes mid)) + length (sb_bytes (hd post)))"
proof -
  from log_fetch_batches [OF assms(1,3-5)] obtain pre mid post where
    bs: "batches log = pre @ mid @ post" and
    facts: "log_fetch log off mx =
      Inr \<lparr>fs_records = concat (map sb_bytes mid), fs_high_watermark = next_offset log\<rparr>"
    "\<forall>b \<in> set pre. sb_last_offset b < off"
    "off < next_offset log \<longrightarrow>
      mid \<noteq> [] \<and> sb_base_offset (hd mid) \<le> off \<and> off \<le> sb_last_offset (hd mid)"
    "off = next_offset log \<longrightarrow> mid = []"
    "1 < length mid \<longrightarrow> length (concat (map sb_bytes mid)) \<le> mx"
    "post \<noteq> [] \<longrightarrow> mx < length (concat (map sb_bytes mid)) + length (sb_bytes (hd post))" .
  have "list_all (\<lambda>b. holds_batch crc (sb_base_offset b) (sb_record_count b) (sb_bytes b)) mid"
    using assms(2) bs by (simp add: log_decodes_def)
  from decode_concat_batches [OF this] obtain infos where
    "decode_batch_info crc (concat (map sb_bytes mid)) = Inr (infos, [])"
    "map bi_min_offset infos = map sb_base_offset mid"
    "map bi_record_count infos = map sb_record_count mid" by blast
  with bs facts assms(4) show ?thesis
    by (intro exI [of _ pre] exI [of _ mid] exI [of _ post] exI [of _ infos]) simp
qed

lemma append_readable:
  assumes "log_ok log" and "log_append crc records log = (Inr res, log')"
    and "validate_record_set crc records = Inr vs"
    and "ar_base_offset res \<le> off" and "off \<le> ar_last_offset res" and "mx \<le> u64_max"
  obtains b :: stored_batch and rest where "log_fetch (append_all crc rs log') off mx =
      Inr \<lparr>fs_records = sb_bytes b @ rest, fs_high_watermark = next_offset (append_all crc rs log')\<rparr>"
    and "sb_base_offset b \<le> off" and "off \<le> sb_last_offset b"
    and "(drop 8 (sb_bytes b), nat (off - sb_base_offset b)) =
      abs_records vs ! nat (off - ar_base_offset res)"
    and "off < next_offset (append_all crc rs log')"
    and "b \<in> set (batches (append_all crc rs log'))" and "log_ok (append_all crc rs log')"
    and "rest = [] \<or> length (sb_bytes b @ rest) \<le> mx"
proof -
  let ?i = "nat (off - ar_base_offset res)"
  have out: "slice (nat (ar_base_offset res)) (nat (ar_record_count res)) (abs_log log') =
      abs_records vs" "ar_last_offset res = ar_base_offset res + ar_record_count res - 1"
    "ar_record_count res = int (length (abs_records vs))"
    using append_outcome [OF assms(1,2)] assms(3) by auto
  have log': "log_ok log'" using log_ok_append [OF assms(1), of crc records] assms(2) by simp
  have base: "0 \<le> ar_base_offset res"
    by (rule append_base_nonneg [OF assms(1,2)])
  have i: "?i < length (abs_records vs)" using assms(4,5) out(2,3) by linarith
  have len: "nat off < length (abs_log log')"
    using i base assms(4) nat_mono [OF assms(4)] unfolding out(1) [symmetric]
    by (simp add: nat_diff_distrib) linarith
  have "abs_log log' ! nat off = abs_records vs ! ?i"
    using i base assms(4) len nat_mono [OF assms(4)] unfolding out(1) [symmetric]
    by (simp add: slice_def nat_diff_distrib)
  then have nth: "abs_log (append_all crc rs log') ! nat off = abs_records vs ! ?i"
    and len': "nat off < length (abs_log (append_all crc rs log'))"
    using plog.run_stable [OF len, of crc rs] by (simp_all add: append_all_def)
  have ok: "log_ok (append_all crc rs log')" by (rule append_all_log_ok [OF log'])
  have off: "off < next_offset (append_all crc rs log')" "0 \<le> off"
    using abs_log_length [OF ok] len' base assms(4) by linarith+
  show ?thesis
    by (rule log_fetch_first [OF ok off(2,1) assms(6)]) (rule that, use off nth ok in auto)
qed

text \<open>
  What a successful append acknowledged can be read back from then on. After any further record
  sets, a fetch at any offset the result names succeeds, and what it returns begins with a batch that
  covers the offset and carries, at that position, the record that was sent.
\<close>

theorem acknowledged_records_stay_readable:
  assumes "log_ok log" and "log_append crc records log = (Inr res, log')"
    and "validate_record_set crc records = Inr vs"
    and "ar_base_offset res \<le> off" and "off \<le> ar_last_offset res" and "mx \<le> u64_max"
  shows "\<exists>b rest. log_fetch (append_all crc rs log') off mx =
      Inr \<lparr>fs_records = sb_bytes (b :: stored_batch) @ rest,
           fs_high_watermark = next_offset (append_all crc rs log')\<rparr> \<and>
    sb_base_offset b \<le> off \<and> off \<le> sb_last_offset b \<and>
    (drop 8 (sb_bytes b), nat (off - sb_base_offset b)) =
      abs_records vs ! nat (off - ar_base_offset res)"
  by (rule append_readable [OF assms]) blast

section \<open>A concrete log\<close>

text \<open>A checksum function and a producer's first record set, to run the log on.\<close>

definition sample_checksum :: "bytes \<Rightarrow> nat" where
  "sample_checksum bs = length bs"

definition sample_batch :: "i64 \<Rightarrow> i16 \<Rightarrow> i32 \<Rightarrow> i32 \<Rightarrow> bytes" where
  "sample_batch pid epoch sq n =
     batch_frame sample_checksum 0 0 (batch_content 0 (n - 1) 0 0 pid epoch sq n [])"

definition sample_validated :: "i64 \<Rightarrow> i16 \<Rightarrow> i32 \<Rightarrow> i32 \<Rightarrow> validated_batch" where
  "sample_validated pid epoch sq n =
     \<lparr>vb_batch_length = 49, vb_record_count = n, vb_producer_id = pid, vb_producer_epoch = epoch,
      vb_base_sequence = sq, vb_crc = u32_at 17 (sample_batch pid epoch sq n),
      vb_bytes = sample_batch pid epoch sq n\<rparr>"

definition sample_log :: partition_log where
  "sample_log = snd (log_append sample_checksum (sample_batch 7 0 0 2) log_default)"

lemma validate_sample:
  assumes "in_i64 pid" "in_i16 epoch" "in_i32 sq" "in_i32 n" "0 < n"
    and "pid = - 1 \<and> epoch = - 1 \<and> (sq = - 1 \<or> sq = 0) \<or> pid \<noteq> - 1 \<and> 0 \<le> epoch \<and> 0 \<le> sq"
  shows "validate_record_set sample_checksum (sample_batch pid epoch sq n) =
    Inr [sample_validated pid epoch sq n]"
  using assms
    validate_one_batch [OF refl refl, of 0 0 0 0 pid epoch sq n 0 "[]" sample_checksum Uncompressed]
  by (simp add: sample_batch_def sample_validated_def int_bounds sample_checksum_def compression_of_def)

lemma sample_append:
  "log_append sample_checksum (sample_batch 7 0 0 2) log_default =
    (Inr \<lparr>ar_base_offset = 0, ar_last_offset = 1, ar_record_count = 2, ar_appended = True\<rparr>,
     sample_log)"
proof -
  have "validate_record_set sample_checksum (sample_batch 7 0 0 2) = Inr [sample_validated 7 0 0 2]"
    by (rule validate_sample) (simp_all add: int_bounds)
  then have "fst (log_append sample_checksum (sample_batch 7 0 0 2) log_default) =
      Inr \<lparr>ar_base_offset = 0, ar_last_offset = 1, ar_record_count = 2, ar_appended = True\<rparr>"
    by (simp add: log_append_def sample_validated_def checked_add_i32_def checked_add_i64_def
        int_bounds admit_def producer_of_def NO_PRODUCER_ID_def log_default_def
        append_validated_def Let_def wrap_def)
  then show ?thesis by (simp add: sample_log_def prod_eq_iff)
qed

lemma sample_producer:
  "validate_record_set sample_checksum (sample_batch 7 0 0 2) = Inr [sample_validated 7 0 0 2]"
  "producer_of (sample_validated 7 0 0 2) = Some \<lparr>rp_producer_id = 7, rp_producer_epoch = 0\<rparr>"
  "record_set_producer sample_checksum (sample_batch 7 0 0 2) =
     Inr (Some \<lparr>rp_producer_id = 7, rp_producer_epoch = 0\<rparr>)"
proof -
  show v: "validate_record_set sample_checksum (sample_batch 7 0 0 2) =
      Inr [sample_validated 7 0 0 2]"
    by (rule validate_sample) (simp_all add: int_bounds)
  show p: "producer_of (sample_validated 7 0 0 2) = Some \<lparr>rp_producer_id = 7, rp_producer_epoch = 0\<rparr>"
    by (simp add: producer_of_def sample_validated_def NO_PRODUCER_ID_def)
  show "record_set_producer sample_checksum (sample_batch 7 0 0 2) =
     Inr (Some \<lparr>rp_producer_id = 7, rp_producer_epoch = 0\<rparr>)"
    by (simp add: record_set_producer_def v p)
qed

lemma sample_log_ok: "log_ok sample_log" "log_decodes sample_checksum sample_log"
  unfolding sample_log_def by (simp_all add: log_ok_append log_decodes_append)

lemma sample_log_next: "next_offset sample_log = 2"
  using sample_producer
  by (simp add: sample_log_def log_append_def sample_validated_def checked_add_i32_def
      checked_add_i64_def int_bounds admit_def producer_of_def NO_PRODUCER_ID_def log_default_def
      append_validated_def Let_def)

theorem append_refines_record_list_witness:
  "\<exists>vs. validate_record_set sample_checksum (sample_batch 7 0 0 2) = Inr vs \<and>
     abs_log sample_log = abs_log log_default @ abs_records vs \<and> length (abs_records vs) = 2"
  using append_refines_record_list [OF log_ok_default sample_append] by auto

theorem retry_is_idempotent_witness:
  "log_append sample_checksum (sample_batch 7 0 0 2)
     (append_all sample_checksum [sample_batch 7 0 2 1, sample_batch 8 0 0 5] sample_log) =
   (Inr \<lparr>ar_base_offset = 0, ar_last_offset = 1, ar_record_count = 2, ar_appended = False\<rparr>,
    append_all sample_checksum [sample_batch 7 0 2 1, sample_batch 8 0 0 5] sample_log)"
  using retry_is_idempotent [OF sample_append _ sample_producer(3),
      of "[sample_batch 7 0 2 1, sample_batch 8 0 0 5]"] by simp

theorem producer_sequences_contiguous_witness:
  "expected_sequence log_default 7 = 0 \<and> expected_sequence sample_log 7 = 2"
  using producer_sequences_contiguous [OF log_ok_default sample_append _ sample_producer(1)]
    sample_producer(2)
  by (auto simp: expected_sequence_def log_default_def)

theorem fetch_returns_batches_witness:
  "\<exists>mid infos. log_fetch sample_log 1 10 =
      Inr \<lparr>fs_records = concat (map sb_bytes mid), fs_high_watermark = 2\<rparr> \<and> mid \<noteq> [] \<and>
    sb_base_offset (hd mid) \<le> 1 \<and>
    decode_batch_info sample_checksum (concat (map sb_bytes (mid :: stored_batch list))) =
      Inr (infos, [])"
  using fetch_returns_batches [OF sample_log_ok, of 1 10]
  by (auto simp: sample_log_next u64_max_def)

theorem acknowledged_records_stay_readable_witness:
  "\<exists>b rest. log_fetch (append_all sample_checksum [sample_batch 8 0 0 5] sample_log) 1 0 =
      Inr \<lparr>fs_records = sb_bytes (b :: stored_batch) @ rest,
        fs_high_watermark = next_offset (append_all sample_checksum [sample_batch 8 0 0 5] sample_log)\<rparr> \<and>
    (drop 8 (sb_bytes b), nat (1 - sb_base_offset b)) = abs_records [sample_validated 7 0 0 2] ! 1"
  using acknowledged_records_stay_readable [OF log_ok_default sample_append sample_producer(1),
      of 1 0 "[sample_batch 8 0 0 5]"]
  by auto

end
