(* ===== verification/Topics.thy ===== *)
theory Topics
  imports Partition_Props
begin

text \<open>
  The topic catalog (\<open>src/src/broker/topics.rs\<close>): topics by name, names by identifier, and the
  partition logs of every topic. Random identifiers come from an explicit list of draws, one per
  call of \<open>Uuid::new_v4\<close>; an operation returns the draws it left over. An operation that takes
  the catalog lock more than once is one definition per critical section.
\<close>

section \<open>Types\<close>

record topic_metadata =
  tm_id :: uuid
  tm_name :: string
  tm_partition_count :: nat

datatype topic_error = AlreadyExists | InvalidName | InvalidPartitions | InvalidReplicationFactor

record topic_entry =
  te_metadata :: topic_metadata
  te_partitions :: "partition_log list"

record topic_catalog =
  default_partitions :: nat
  topics_by_name :: "(string, topic_entry) btree_map"
  names_by_id :: "(uuid, string) hash_map"

definition topic_entry_new :: "topic_metadata \<Rightarrow> topic_entry" where
  "topic_entry_new metadata =
     \<lparr>te_metadata = metadata, te_partitions = replicate (tm_partition_count metadata) log_default\<rparr>"

definition catalog_new :: "nat \<Rightarrow> topic_catalog" where
  "catalog_new n = \<lparr>default_partitions = n, topics_by_name = [], names_by_id = []\<rparr>"

section \<open>Validation\<close>

definition is_ascii_alphanumeric :: "char \<Rightarrow> bool" where
  "is_ascii_alphanumeric c \<longleftrightarrow>
     (CHR ''0'' \<le> c \<and> c \<le> CHR ''9'') \<or> (CHR ''A'' \<le> c \<and> c \<le> CHR ''Z'') \<or>
     (CHR ''a'' \<le> c \<and> c \<le> CHR ''z'')"

definition validate_name :: "string \<Rightarrow> topic_error + unit" where
  "validate_name name =
     (if name \<noteq> [] \<and> length name \<le> 249 \<and> name \<noteq> ''.'' \<and> name \<noteq> ''..'' \<and>
         list_all (\<lambda>c. is_ascii_alphanumeric c \<or>
           c = CHR ''.'' \<or> c = CHR ''_'' \<or> c = CHR ''-'') name
      then Inr () else Inl InvalidName)"

definition validate_explicit_definition :: "string \<Rightarrow> i32 \<Rightarrow> i16 \<Rightarrow> topic_error + nat" where
  "validate_explicit_definition name partitions replication_factor =
     try_bind (validate_name name) (\<lambda>_.
     if partitions < 0 then Inl InvalidPartitions else
     if nat partitions = 0 then Inl InvalidPartitions else
     if replication_factor \<noteq> 1 then Inl InvalidReplicationFactor else
     Inr (nat partitions))"

section \<open>Inserting a topic\<close>

text \<open>The loop over fresh random identifiers; without an acceptable draw it does not return.\<close>

fun next_topic_id :: "topic_catalog \<Rightarrow> uuid list \<Rightarrow> (uuid \<times> uuid list) run" where
  "next_topic_id c [] = Inl Exhausted"
| "next_topic_id c (candidate # draws) =
     (if candidate \<noteq> nil_uuid \<and> map_of (names_by_id c) candidate = None
      then Inr (candidate, draws) else next_topic_id c draws)"

definition insert_topic ::
  "string \<Rightarrow> nat \<Rightarrow> topic_catalog \<Rightarrow> uuid list \<Rightarrow> (topic_metadata \<times> topic_catalog \<times> uuid list) run" where
  "insert_topic name partition_count c draws =
     try_bind (next_topic_id c draws) (\<lambda>(topic_id, draws').
     let metadata =
           \<lparr>tm_id = topic_id, tm_name = name, tm_partition_count = partition_count\<rparr>
     in Inr (metadata,
          c\<lparr>topics_by_name := bt_insert name (topic_entry_new metadata) (topics_by_name c),
            names_by_id := AList.update topic_id name (names_by_id c)\<rparr>, draws'))"

section \<open>Operations\<close>

definition create_explicit ::
  "string \<Rightarrow> i32 \<Rightarrow> i16 \<Rightarrow> topic_catalog \<Rightarrow> uuid list \<Rightarrow>
   ((topic_error + topic_metadata) \<times> topic_catalog \<times> uuid list) run" where
  "create_explicit name partitions replication_factor c draws =
     (case validate_explicit_definition name partitions replication_factor of
        Inl e \<Rightarrow> Inr (Inl e, c, draws)
      | Inr partition_count \<Rightarrow>
          if map_of (topics_by_name c) name \<noteq> None then Inr (Inl AlreadyExists, c, draws)
          else try_bind (insert_topic name partition_count c draws)
                 (\<lambda>(metadata, c', draws'). Inr (Inr metadata, c', draws')))"

definition validate_explicit :: "topic_catalog \<Rightarrow> string \<Rightarrow> i32 \<Rightarrow> i16 \<Rightarrow> topic_error + unit" where
  "validate_explicit c name partitions replication_factor =
     try_bind (validate_explicit_definition name partitions replication_factor) (\<lambda>_.
     if map_of (topics_by_name c) name \<noteq> None then Inl AlreadyExists else Inr ())"

definition get_topic :: "topic_catalog \<Rightarrow> string \<Rightarrow> topic_error + topic_metadata option" where
  "get_topic c name =
     try_bind (validate_name name)
       (\<lambda>_. Inr (map_option te_metadata (map_of (topics_by_name c) name)))"

definition get_by_id :: "topic_catalog \<Rightarrow> uuid \<Rightarrow> topic_metadata option" where
  "get_by_id c i =
     Option.bind (map_of (names_by_id c) i)
       (\<lambda>name. map_option te_metadata (map_of (topics_by_name c) name))"

text \<open>
  \<open>get_or_auto_create\<close> in two critical sections: under the read lock it may return at once; under the
  write lock it looks again before it inserts.
\<close>

definition auto_create_read ::
  "topic_catalog \<Rightarrow> string \<Rightarrow> bool \<Rightarrow> (topic_error + topic_metadata option) option" where
  "auto_create_read c name allow_auto_create =
     (case validate_name name of
        Inl e \<Rightarrow> Some (Inl e)
      | Inr _ \<Rightarrow>
          (case map_of (topics_by_name c) name of
             Some entry \<Rightarrow> Some (Inr (Some (te_metadata entry)))
           | None \<Rightarrow> if \<not> allow_auto_create then Some (Inr None) else None))"

definition auto_create_write ::
  "string \<Rightarrow> topic_catalog \<Rightarrow> uuid list \<Rightarrow> (topic_metadata \<times> topic_catalog \<times> uuid list) run" where
  "auto_create_write name c draws =
     (case map_of (topics_by_name c) name of
        Some entry \<Rightarrow> Inr (te_metadata entry, c, draws)
      | None \<Rightarrow> insert_topic name (default_partitions c) c draws)"

definition get_or_auto_create ::
  "string \<Rightarrow> bool \<Rightarrow> topic_catalog \<Rightarrow> uuid list \<Rightarrow>
   ((topic_error + topic_metadata option) \<times> topic_catalog \<times> uuid list) run" where
  "get_or_auto_create name allow_auto_create c draws =
     (case auto_create_read c name allow_auto_create of
        Some result \<Rightarrow> Inr (result, c, draws)
      | None \<Rightarrow>
          try_bind (auto_create_write name c draws)
            (\<lambda>(metadata, c', draws'). Inr (Inr (Some metadata), c', draws')))"

definition list_topics :: "topic_catalog \<Rightarrow> topic_metadata list" where
  "list_topics c = map (te_metadata \<circ> snd) (topics_by_name c)"

definition catalog_partition :: "topic_catalog \<Rightarrow> string \<Rightarrow> i32 \<Rightarrow> partition_log option" where
  "catalog_partition c topic index =
     Option.bind (usize_try_from index) (\<lambda>p.
     Option.bind (map_of (topics_by_name c) topic) (\<lambda>entry.
     if p < length (te_partitions entry) then Some (te_partitions entry ! p) else None))"

text \<open>
  The log behind a partition's shared pointer is replaced in place: what an operation on the log
  leaves there.
\<close>

definition set_partition :: "string \<Rightarrow> i32 \<Rightarrow> partition_log \<Rightarrow> topic_catalog \<Rightarrow> topic_catalog" where
  "set_partition topic index log c =
     c\<lparr>topics_by_name :=
        AList.map_entry topic
          (\<lambda>entry. entry\<lparr>te_partitions := (te_partitions entry)[nat index := log]\<rparr>)
          (topics_by_name c)\<rparr>"

section \<open>Invariant\<close>

definition entry_ok :: "(bytes \<Rightarrow> nat) \<Rightarrow> string \<Rightarrow> topic_entry \<Rightarrow> bool" where
  "entry_ok crc name e \<longleftrightarrow>
     validate_name name = Inr () \<and> tm_name (te_metadata e) = name \<and>
     tm_id (te_metadata e) \<noteq> nil_uuid \<and> 0 < tm_partition_count (te_metadata e) \<and>
     length (te_partitions e) = tm_partition_count (te_metadata e) \<and>
     (\<forall>log \<in> set (te_partitions e). log_ok log \<and> log_decodes crc log)"

text \<open>
  The two indexes are inverse to each other: every topic is found under its identifier, and every
  identifier belongs to the topic it names.
\<close>

definition catalog_ok :: "(bytes \<Rightarrow> nat) \<Rightarrow> topic_catalog \<Rightarrow> bool" where
  "catalog_ok crc c \<longleftrightarrow>
     0 < default_partitions c \<and> bt_ok (topics_by_name c) \<and> hm_ok (names_by_id c) \<and>
     (\<forall>name e. map_of (topics_by_name c) name = Some e \<longrightarrow>
        entry_ok crc name e \<and> map_of (names_by_id c) (tm_id (te_metadata e)) = Some name) \<and>
     (\<forall>i name. map_of (names_by_id c) i = Some name \<longrightarrow>
        (\<exists>e. map_of (topics_by_name c) name = Some e \<and> tm_id (te_metadata e) = i))"

lemma catalog_ok_new [simp]: "0 < n \<Longrightarrow> catalog_ok crc (catalog_new n)"
  by (simp add: catalog_ok_def catalog_new_def bt_ok_def)

lemma next_topic_id_Inr:
  "next_topic_id c draws = Inr (i, draws') \<Longrightarrow>
     i \<noteq> nil_uuid \<and> map_of (names_by_id c) i = None \<and> i \<in> set draws"
  by (induction draws) (auto split: if_splits)

lemma next_topic_id_returns:
  "(\<exists>i draws'. next_topic_id c draws = Inr (i, draws')) \<longleftrightarrow>
   (\<exists>i \<in> set draws. i \<noteq> nil_uuid \<and> map_of (names_by_id c) i = None)"
  by (induction draws) auto

lemma insert_topic_Inr:
  assumes "insert_topic name n c draws = Inr (md, c', draws')"
  shows "tm_name md = name \<and> tm_partition_count md = n \<and> tm_id md \<noteq> nil_uuid \<and>
    map_of (names_by_id c) (tm_id md) = None \<and>
    c' = c\<lparr>topics_by_name := bt_insert name (topic_entry_new md) (topics_by_name c),
           names_by_id := AList.update (tm_id md) name (names_by_id c)\<rparr>"
  using assms by (auto simp: insert_topic_def try_bind_Inr Let_def dest!: next_topic_id_Inr)

lemma entry_ok_new:
  assumes "validate_name (tm_name md) = Inr ()" and "tm_id md \<noteq> nil_uuid"
    and "0 < tm_partition_count md"
  shows "entry_ok crc (tm_name md) (topic_entry_new md)"
  using assms by (simp add: entry_ok_def topic_entry_new_def)

lemma catalog_ok_insert:
  assumes ok: "catalog_ok crc c" and ins: "insert_topic name n c draws = Inr (md, c', draws')"
    and new: "map_of (topics_by_name c) name = None" and nm: "validate_name name = Inr ()"
    and n: "0 < n"
  shows "catalog_ok crc c'"
proof -
  note md = insert_topic_Inr [OF ins]
  have entry: "entry_ok crc name (topic_entry_new md)"
    using md nm n entry_ok_new [of md crc] by simp
  have "tm_id (te_metadata e) \<noteq> tm_id md" if "map_of (topics_by_name c) x = Some e" for x e
    using ok md that by (fastforce simp: catalog_ok_def)
  moreover have "x \<noteq> name" if "map_of (names_by_id c) i = Some x" for i x
    using ok new that by (fastforce simp: catalog_ok_def)
  ultimately show ?thesis
    using ok md entry
    by (auto simp: catalog_ok_def update_conv' topic_entry_new_def)
qed

lemma validate_explicit_definition_Inr:
  "validate_explicit_definition name p r = Inr n \<longleftrightarrow>
     validate_name name = Inr () \<and> 0 < p \<and> n = nat p \<and> r = 1"
  by (auto simp: validate_explicit_definition_def try_bind_Inr)

lemma catalog_ok_create_explicit:
  assumes "catalog_ok crc c" and "create_explicit name p r c draws = Inr (out, c', draws')"
  shows "catalog_ok crc c'"
  using assms
  by (auto simp: create_explicit_def try_bind_Inr validate_explicit_definition_Inr
      split: sum.splits if_splits intro: catalog_ok_insert)

lemma catalog_ok_default: "catalog_ok crc c \<Longrightarrow> 0 < default_partitions c"
  by (simp add: catalog_ok_def)

lemma catalog_ok_auto_create_write:
  assumes "catalog_ok crc c" and "auto_create_write name c draws = Inr (md, c', draws')"
    and "validate_name name = Inr ()"
  shows "catalog_ok crc c'"
  using assms
  by (auto simp: auto_create_write_def catalog_ok_default split: option.splits
      intro: catalog_ok_insert)

lemma auto_create_read_None:
  "auto_create_read c name allow = None \<longleftrightarrow>
     validate_name name = Inr () \<and> map_of (topics_by_name c) name = None \<and> allow"
  by (auto simp: auto_create_read_def split: sum.splits option.splits)

lemma catalog_ok_get_or_auto_create:
  assumes "catalog_ok crc c" and "get_or_auto_create name allow c draws = Inr (out, c', draws')"
  shows "catalog_ok crc c'"
  using assms
  by (auto simp: get_or_auto_create_def try_bind_Inr auto_create_read_None
      split: option.splits intro: catalog_ok_auto_create_write)

lemma catalog_partition_Some:
  "catalog_partition c topic p = Some log \<longleftrightarrow>
     (\<exists>e. map_of (topics_by_name c) topic = Some e \<and> 0 \<le> p \<and>
        nat p < length (te_partitions e) \<and> log = te_partitions e ! nat p)"
  by (auto simp: catalog_partition_def bind_eq_Some_conv split: if_splits)

lemma bt_ok_map_entry [simp]: "bt_ok (AList.map_entry k f m) = bt_ok m"
  by (simp add: bt_ok_def)

lemma catalog_ok_set_partition:
  assumes ok: "catalog_ok crc c" and log: "log_ok log" "log_decodes crc log"
  shows "catalog_ok crc (set_partition topic p log c)"
proof -
  have *: "entry_ok crc x (e\<lparr>te_partitions := (te_partitions e)[i := log]\<rparr>)"
    if "entry_ok crc x e" for x e i
    using that log by (auto simp: entry_ok_def dest!: set_update_subset_insert [THEN subsetD])
  show ?thesis
    unfolding catalog_ok_def
  proof (intro conjI allI impI)
    fix x e
    assume "map_of (topics_by_name (set_partition topic p log c)) x = Some e"
    then show "entry_ok crc x e"
      "map_of (names_by_id (set_partition topic p log c)) (tm_id (te_metadata e)) = Some x"
      using ok * by (auto simp: catalog_ok_def set_partition_def map_of_map_entry split: if_splits)
  next
    fix i x
    assume "map_of (names_by_id (set_partition topic p log c)) i = Some x"
    then have "map_of (names_by_id c) i = Some x" by (simp add: set_partition_def)
    then obtain e where "map_of (topics_by_name c) x = Some e" "tm_id (te_metadata e) = i"
      using ok unfolding catalog_ok_def by blast
    then show "\<exists>e. map_of (topics_by_name (set_partition topic p log c)) x = Some e \<and>
        tm_id (te_metadata e) = i"
      by (auto simp: set_partition_def map_of_map_entry)
  qed (use ok in \<open>auto simp: catalog_ok_def set_partition_def\<close>)
qed

lemma catalog_ok_partition:
  assumes "catalog_ok crc c" and "catalog_partition c topic p = Some log"
  shows "log_ok log \<and> log_decodes crc log"
  using assms by (auto simp: catalog_ok_def catalog_partition_Some entry_ok_def)

section \<open>Any sequence of operations\<close>

text \<open>
  One critical section of the catalog, or one append to a partition. A section whose draws run out is still
  drawing and has changed nothing. The writing section of \<open>get_or_auto_create\<close> is entered with a
  valid name only.
\<close>

datatype catalog_op =
  CreateExplicit string i32 i16 "uuid list"
| AutoCreateWrite string "uuid list"
| AppendTo string i32 bytes

definition exec_catalog :: "(bytes \<Rightarrow> nat) \<Rightarrow> catalog_op \<Rightarrow> topic_catalog \<Rightarrow> topic_catalog" where
  "exec_catalog crc op c =
     (case op of
        CreateExplicit name p r draws \<Rightarrow>
          (case create_explicit name p r c draws of Inl _ \<Rightarrow> c | Inr (_, c', _) \<Rightarrow> c')
      | AutoCreateWrite name draws \<Rightarrow>
          (if validate_name name = Inr ()
           then case auto_create_write name c draws of Inl _ \<Rightarrow> c | Inr (_, c', _) \<Rightarrow> c'
           else c)
      | AppendTo topic p records \<Rightarrow>
          (case catalog_partition c topic p of
             None \<Rightarrow> c
           | Some log \<Rightarrow> set_partition topic p (snd (log_append crc records log)) c))"

definition metadata_of :: "topic_catalog \<Rightarrow> string \<Rightarrow> topic_metadata option" where
  "metadata_of c name = map_option te_metadata (map_of (topics_by_name c) name)"

lemma metadata_of_set_partition [simp]:
  "metadata_of (set_partition topic p log c) = metadata_of c"
  by (auto simp: metadata_of_def set_partition_def map_of_map_entry option.map_comp comp_def
      intro!: ext)

lemma metadata_of_insert:
  assumes "insert_topic name n c draws = Inr (md, c', draws')"
  shows "metadata_of c' = (metadata_of c)(name \<mapsto> md)"
  using insert_topic_Inr [OF assms] by (auto simp: metadata_of_def topic_entry_new_def)

lemma metadata_of_create_explicit:
  assumes "create_explicit name p r c draws = Inr (out, c', draws')"
  shows "metadata_of c' = (case out of Inl e \<Rightarrow> metadata_of c | Inr md \<Rightarrow> (metadata_of c)(name \<mapsto> md))"
    and "case out of Inl e \<Rightarrow> c' = c | Inr md \<Rightarrow> metadata_of c name = None"
  using assms
  by (auto simp: create_explicit_def try_bind_Inr metadata_of_insert metadata_of_def
      split: sum.splits if_splits)

lemma metadata_of_auto_create_write:
  assumes "auto_create_write name c draws = Inr (md, c', draws')"
  shows "metadata_of c' = (metadata_of c)(name \<mapsto> md)"
    and "metadata_of c name \<noteq> None \<Longrightarrow> metadata_of c name = Some md \<and> c' = c"
proof -
  show "metadata_of c' = (metadata_of c)(name \<mapsto> md)"
  proof (cases "map_of (topics_by_name c) name")
    case None
    with assms show ?thesis by (intro metadata_of_insert) (simp add: auto_create_write_def)
  next
    case (Some e)
    with assms show ?thesis
      by (auto simp: auto_create_write_def metadata_of_def intro!: ext)
  qed
  show "metadata_of c name = Some md \<and> c' = c" if "metadata_of c name \<noteq> None"
    using assms that by (auto simp: auto_create_write_def metadata_of_def)
qed

lemma catalog_ok_exec: "catalog_ok crc c \<Longrightarrow> catalog_ok crc (exec_catalog crc op c)"
proof (cases op)
  case (AppendTo topic p records)
  assume ok: "catalog_ok crc c"
  show ?thesis
  proof (cases "catalog_partition c topic p")
    case (Some log)
    with catalog_ok_partition [OF ok Some] ok AppendTo show ?thesis
      by (simp add: exec_catalog_def catalog_ok_set_partition log_ok_append log_decodes_append)
  qed (simp add: AppendTo exec_catalog_def ok)
qed (auto simp: exec_catalog_def split: sum.splits
      intro: catalog_ok_create_explicit catalog_ok_auto_create_write)

lemma metadata_of_exec:
  assumes "metadata_of c name = Some md"
  shows "metadata_of (exec_catalog crc op c) name = Some md"
proof (cases op)
  case (CreateExplicit x p r draws)
  show ?thesis
  proof (cases "create_explicit x p r c draws")
    case (Inr res)
    obtain out c' draws' where res: "res = (out, c', draws')" by (cases res)
    from metadata_of_create_explicit [OF Inr [unfolded res]] assms show ?thesis
      by (auto simp: exec_catalog_def CreateExplicit Inr res split: sum.splits)
  qed (simp add: exec_catalog_def CreateExplicit assms)
next
  case (AutoCreateWrite x draws)
  show ?thesis
  proof (cases "auto_create_write x c draws")
    case (Inr res)
    obtain out c' draws' where res: "res = (out, c', draws')" by (cases res)
    from metadata_of_auto_create_write [OF Inr [unfolded res]] assms show ?thesis
      by (auto simp: exec_catalog_def AutoCreateWrite Inr res)
  qed (simp add: exec_catalog_def AutoCreateWrite assms)
qed (simp add: exec_catalog_def assms split: option.splits)

interpretation catalog: registry "exec_catalog crc" "catalog_ok crc" metadata_of for crc
  by unfold_locales (simp_all add: catalog_ok_exec metadata_of_exec)

section \<open>Properties\<close>

lemma get_topic_metadata:
  "get_topic c name = (case validate_name name of Inl e \<Rightarrow> Inl e | Inr _ \<Rightarrow> Inr (metadata_of c name))"
  by (simp add: get_topic_def metadata_of_def try_bind_def split: sum.splits)

lemma metadata_of_ok:
  assumes "catalog_ok crc c" and "metadata_of c name = Some md"
  shows "validate_name name = Inr () \<and> tm_name md = name \<and> tm_id md \<noteq> nil_uuid \<and>
    0 < tm_partition_count md"
proof -
  from assms(2) obtain e where "map_of (topics_by_name c) name = Some e" "te_metadata e = md"
    by (auto simp: metadata_of_def)
  then show ?thesis using assms(1) by (auto simp: catalog_ok_def entry_ok_def)
qed

lemma get_by_id_iff:
  assumes "catalog_ok crc c"
  shows "get_by_id c i = Some md \<longleftrightarrow> metadata_of c (tm_name md) = Some md \<and> tm_id md = i"
proof
  assume "get_by_id c i = Some md"
  then obtain name e where "map_of (names_by_id c) i = Some name"
    "map_of (topics_by_name c) name = Some e" "te_metadata e = md"
    by (auto simp: get_by_id_def bind_eq_Some_conv)
  moreover have "\<exists>e. map_of (topics_by_name c) name = Some e \<and> tm_id (te_metadata e) = i"
    using assms calculation(1) unfolding catalog_ok_def by blast
  moreover have "entry_ok crc name e" using assms calculation(2) unfolding catalog_ok_def by blast
  ultimately show "metadata_of c (tm_name md) = Some md \<and> tm_id md = i"
    by (auto simp: metadata_of_def entry_ok_def)
next
  assume "metadata_of c (tm_name md) = Some md \<and> tm_id md = i"
  then obtain e where "map_of (topics_by_name c) (tm_name md) = Some e" "te_metadata e = md"
    "tm_id md = i" by (auto simp: metadata_of_def)
  moreover from this have "map_of (names_by_id c) i = Some (tm_name md)"
    using assms unfolding catalog_ok_def by blast
  ultimately show "get_by_id c i = Some md" by (simp add: get_by_id_def)
qed

definition sample_topic :: topic_metadata where
  "sample_topic = \<lparr>tm_id = 5, tm_name = ''a'', tm_partition_count = 2\<rparr>"

lemma sample_valid: "validate_name ''a'' = Inr ()"
  by code_simp

lemma sample_catalog:
  "fold (exec_catalog crc) [CreateExplicit ''a'' 2 1 [0, 5]] (catalog_new 1) =
   \<lparr>default_partitions = 1, topics_by_name = [(''a'', topic_entry_new sample_topic)],
    names_by_id = [(5, ''a'')]\<rparr>"
  by (simp add: exec_catalog_def create_explicit_def validate_explicit_definition_def sample_valid
      catalog_new_def insert_topic_def nil_uuid_def Let_def sample_topic_def)

text \<open>
  C9: whatever operations the catalog has executed, its two indexes agree: a topic found by
  identifier is the topic found under its own name, and conversely; and names found by
  listing are exactly those, in strictly increasing order, each valid and with as many partition
  logs, all well formed, as its metadata says.
\<close>

theorem catalog_indexes_agree:
  assumes "0 < n" and "c = fold (exec_catalog crc) ops (catalog_new n)"
  shows "catalog_ok crc c \<and>
    (\<forall>i md. get_by_id c i = Some md \<longleftrightarrow>
       get_topic c (tm_name md) = Inr (Some md) \<and> tm_id md = i) \<and>
    sorted_wrt (<) (map tm_name (list_topics c)) \<and>
    (\<forall>md. md \<in> set (list_topics c) \<longleftrightarrow> get_topic c (tm_name md) = Inr (Some md))"
proof -
  have ok: "catalog_ok crc c"
    unfolding assms(2) by (rule catalog.run_inv) (simp add: assms(1))
  have topic: "get_topic c (tm_name md) = Inr (Some md) \<longleftrightarrow> metadata_of c (tm_name md) = Some md"
    for md
    using metadata_of_ok [OF ok, of "tm_name md" md]
    by (cases "validate_name (tm_name md)") (auto simp: get_topic_metadata)
  have dist: "distinct (map fst (topics_by_name c))"
    using ok by (simp add: catalog_ok_def bt_ok_distinct)
  have names: "tm_name (te_metadata e) = x" if "(x, e) \<in> set (topics_by_name c)" for x e
    using ok map_of_is_SomeI [OF dist that] by (simp add: catalog_ok_def entry_ok_def)
  then have "map tm_name (list_topics c) = map fst (topics_by_name c)"
    by (auto simp: list_topics_def)
  then have sorted: "sorted_wrt (<) (map tm_name (list_topics c))"
    using ok by (simp add: catalog_ok_def bt_ok_def)
  have "md \<in> set (list_topics c) \<longleftrightarrow> metadata_of c (tm_name md) = Some md" for md
  proof -
    have "md \<in> set (list_topics c) \<longleftrightarrow>
        (\<exists>x e. (x, e) \<in> set (topics_by_name c) \<and> te_metadata e = md)"
      by (auto simp: list_topics_def image_iff Bex_def)
    also have "\<dots> \<longleftrightarrow> (\<exists>e. (tm_name md, e) \<in> set (topics_by_name c) \<and> te_metadata e = md)"
      using names by blast
    also have "\<dots> \<longleftrightarrow> metadata_of c (tm_name md) = Some md"
      unfolding metadata_of_def map_option_eq_Some map_of_eq_Some_iff [OF dist] ..
    finally show ?thesis .
  qed
  with ok topic sorted show ?thesis by (simp add: get_by_id_iff)
qed

theorem catalog_indexes_agree_witness:
  "get_by_id (fold (exec_catalog sample_checksum) [CreateExplicit ''a'' 2 1 [0, 5]] (catalog_new 1)) 5
     = Some sample_topic"
proof -
  have "get_topic (fold (exec_catalog sample_checksum) [CreateExplicit ''a'' 2 1 [0, 5]]
      (catalog_new 1)) (tm_name sample_topic) = Inr (Some sample_topic)"
    unfolding sample_catalog by (simp add: get_topic_def sample_valid sample_topic_def topic_entry_new_def)
  then show ?thesis
    using catalog_indexes_agree [OF _ refl, of 1 sample_checksum "[CreateExplicit ''a'' 2 1 [0, 5]]"]
    by (simp add: sample_topic_def)
qed

text \<open>
  C10: a topic keeps its identity. Once a name has a topic, every later sequence of operations leaves
  its identifier and its partition count as they are, found by name and by identifier.
\<close>

theorem topic_identity_is_permanent:
  assumes "catalog_ok crc c" and "get_topic c name = Inr (Some md)"
  shows "get_topic (fold (exec_catalog crc) ops c) name = Inr (Some md) \<and>
    get_by_id (fold (exec_catalog crc) ops c) (tm_id md) = Some md"
proof -
  have md: "metadata_of c name = Some md" and valid: "validate_name name = Inr ()"
    using assms(2) by (auto simp: get_topic_metadata split: sum.splits)
  then have "tm_name md = name"
    using assms(1) by (auto simp: metadata_of_def catalog_ok_def entry_ok_def)
  moreover have "metadata_of (fold (exec_catalog crc) ops c) name = Some md"
    by (rule catalog.run_find [OF assms(1) md])
  moreover have "catalog_ok crc (fold (exec_catalog crc) ops c)"
    by (rule catalog.run_inv [OF assms(1)])
  ultimately show ?thesis
    using valid by (simp add: get_topic_metadata get_by_id_iff)
qed

theorem topic_identity_is_permanent_witness:
  "get_by_id (fold (exec_catalog sample_checksum)
     [AutoCreateWrite ''a'' [7], AppendTo ''a'' 0 (sample_batch 7 0 0 2)]
     (fold (exec_catalog sample_checksum) [CreateExplicit ''a'' 2 1 [0, 5]] (catalog_new 1))) 5 =
   Some sample_topic"
proof -
  let ?c = "fold (exec_catalog sample_checksum) [CreateExplicit ''a'' 2 1 [0, 5]] (catalog_new 1)"
  have ok: "catalog_ok sample_checksum ?c" by (rule catalog.run_inv) simp
  have get: "get_topic ?c ''a'' = Inr (Some sample_topic)"
    unfolding sample_catalog by (simp add: get_topic_def sample_valid topic_entry_new_def)
  have "tm_id sample_topic = 5" by (simp add: sample_topic_def)
  then show ?thesis
    using topic_identity_is_permanent [OF ok get,
        of "[AutoCreateWrite ''a'' [7], AppendTo ''a'' 0 (sample_batch 7 0 0 2)]"]
    by metis
qed

text \<open>
  C11: concurrent automatic creation makes one topic. If two callers both missed the topic under the read
  lock, then whatever runs between their writing sections, the second is given exactly the topic
  the first one made, and creates nothing.
\<close>

theorem concurrent_auto_create_agrees:
  assumes "catalog_ok crc c0" and "auto_create_read c0 name True = None"
    and "auto_create_write name (fold (exec_catalog crc) ops1 c0) draws1 = Inr (md1, c1, rest1)"
    and "auto_create_write name (fold (exec_catalog crc) ops2 c1) draws2 = Inr (md2, c2, rest2)"
  shows "md2 = md1 \<and> c2 = fold (exec_catalog crc) ops2 c1 \<and> rest2 = draws2 \<and> tm_name md1 = name"
proof -
  have valid: "validate_name name = Inr ()" using assms(2) by (simp add: auto_create_read_None)
  have ok: "catalog_ok crc c1"
    using catalog.run_inv [OF assms(1)] assms(3) valid by (rule catalog_ok_auto_create_write)
  have md1: "metadata_of c1 name = Some md1"
    using metadata_of_auto_create_write(1) [OF assms(3)] by simp
  have "metadata_of (fold (exec_catalog crc) ops2 c1) name = Some md1"
    by (rule catalog.run_find [OF ok md1])
  moreover have "tm_name md1 = name"
    using ok md1 by (auto simp: metadata_of_def catalog_ok_def entry_ok_def)
  ultimately show ?thesis
    using assms(4) by (auto simp: metadata_of_def auto_create_write_def)
qed

theorem concurrent_auto_create_agrees_witness:
  "\<exists>c1. auto_create_write ''a'' (catalog_new 2) [5] = Inr (sample_topic, c1, []) \<and>
     auto_create_write ''a'' c1 [6] = Inr (sample_topic, c1, [6])"
proof -
  obtain c1 where c1: "auto_create_write ''a'' (catalog_new 2) [5] = Inr (sample_topic, c1, [])"
    by (simp add: auto_create_write_def catalog_new_def insert_topic_def nil_uuid_def Let_def
        sample_topic_def)
  moreover have "metadata_of c1 ''a'' = Some sample_topic"
    using metadata_of_auto_create_write(1) [OF c1] by simp
  then obtain md2 c2 rest2 where second: "auto_create_write ''a'' c1 [6] = Inr (md2, c2, rest2)"
    by (auto simp: auto_create_write_def metadata_of_def)
  moreover have "auto_create_read (catalog_new 2) ''a'' True = None"
    by (simp add: auto_create_read_None sample_valid catalog_new_def)
  then have "md2 = sample_topic \<and> c2 = c1 \<and> rest2 = [6]"
    using concurrent_auto_create_agrees [of sample_checksum "catalog_new 2" "''a''" "[]" "[5]"
        sample_topic c1 "[]" "[]" "[6]" md2 c2 rest2] c1 second
    by simp
  ultimately show ?thesis by simp
qed

end
