(* ===== verification/Group_Coordinator.thy ===== *)
theory Group_Coordinator
  imports Prelude
begin

text \<open>
  The consumer group coordinator (\<open>src/src/broker/groups.rs\<close>). A group is a state machine
  behind a mutex; every critical section is a function on the group. A request that waits is a
  first section followed by a polling section that runs again whenever the group changes or
  a deadline passes. Log output and the wake-up signal have no effect on the state and are left out.
\<close>

section \<open>Types\<close>

text \<open>Milliseconds of the monotonic clock.\<close>

type_synonym instant = nat

datatype group_state = Empty | PreparingRebalance | CompletingRebalance | Stable

record join_protocol =
  jp_name :: string
  jp_metadata :: bytes

record joined_member =
  jm_member_id :: string
  jm_metadata :: bytes

record joined_group =
  jg_generation_id :: i32
  jg_protocol_type :: string
  jg_protocol_name :: string
  jg_leader :: string
  jg_member_id :: string
  jg_members :: "joined_member list"

record completed_join =
  cj_rebalance_epoch :: nat
  cj_result :: joined_group

record member =
  m_client_id :: string
  m_session_timeout_ms :: i32
  m_rebalance_timeout_ms :: i32
  m_last_heartbeat :: instant
  m_protocols :: "join_protocol list"
  m_joined_epoch :: nat
  m_synced_generation :: i32
  m_completed_join :: "completed_join option"

record stored_offset =
  so_offset :: i64
  so_metadata :: "string option"

type_synonym topic_partition = "string \<times> i32"

record group =
  g_state :: group_state
  g_generation_id :: i32
  g_rebalance_epoch :: nat
  g_protocol_type :: string
  g_selected_protocol :: string
  g_leader_member_id :: string
  g_members :: "(string, member) hash_map"
  g_assignments :: "(string, bytes) hash_map"
  g_committed_offsets :: "(topic_partition, stored_offset) hash_map"
  g_rebalance_deadline :: "instant option"

record join_request =
  jr_group_id :: string
  jr_member_id :: string
  jr_client_id :: string
  jr_session_timeout_ms :: i32
  jr_rebalance_timeout_ms :: i32
  jr_protocol_type :: string
  jr_protocols :: "join_protocol list"

datatype join_result = MemberIdRequired string | Joined joined_group

record sync_assignment =
  sa_member_id :: string
  sa_assignment :: bytes

record offset_commit =
  oc_topic :: string
  oc_partition :: i32
  oc_offset :: i64
  oc_metadata :: "string option"

record fetched_offset =
  fo_topic :: string
  fo_partition :: i32
  fo_offset :: "i64 option"
  fo_metadata :: "string option"

record group_summary =
  gs_group_id :: string
  gs_protocol_type :: string

record group_member_description =
  gm_member_id :: string
  gm_client_id :: string
  gm_metadata :: bytes
  gm_assignment :: bytes

record group_description =
  gd_group_id :: string
  gd_state :: string
  gd_protocol_type :: string
  gd_protocol_name :: string
  gd_members :: "group_member_description list"

datatype group_error =
  UnknownMemberId | IllegalGeneration | RebalanceInProgress | InconsistentGroupProtocol
| InvalidAssignment

record group_coordinator =
  gc_groups :: "(string, group) hash_map"
  gc_pending_member_ids :: "(string \<times> string) list"
  gc_next_member_id :: nat

text \<open>
  The clock reads of one critical section: on entry, when a rebalance begins and when one completes. No
  section begins or completes a rebalance twice.
\<close>

record clock =
  ck_now :: instant
  ck_begin :: instant
  ck_complete :: instant

definition group_new :: group where
  "group_new =
     \<lparr>g_state = Empty, g_generation_id = 0, g_rebalance_epoch = 0, g_protocol_type = [],
      g_selected_protocol = [], g_leader_member_id = [], g_members = [], g_assignments = [],
      g_committed_offsets = [], g_rebalance_deadline = None\<rparr>"

definition coordinator_new :: group_coordinator where
  "coordinator_new = \<lparr>gc_groups = [], gc_pending_member_ids = [], gc_next_member_id = 1\<rparr>"

section \<open>Protocol selection\<close>

definition common_protocols :: "(string, member) hash_map \<Rightarrow> string list" where
  "common_protocols members =
     filter (\<lambda>candidate.
         list_all (\<lambda>(_, m). list_ex (\<lambda>p. jp_name p = candidate) (m_protocols m)) members)
       (concat (map (\<lambda>(_, m). map jp_name (m_protocols m)) members))"

fun tally :: "string list \<Rightarrow> (string, member) hash_map \<Rightarrow> (string, nat) btree_map \<Rightarrow>
    group_error + (string, nat) btree_map" where
  "tally common [] votes = Inr votes"
| "tally common ((_, m) # members) votes =
     (case find (\<lambda>p. jp_name p \<in> set common) (m_protocols m) of
        None \<Rightarrow> Inl InconsistentGroupProtocol
      | Some preferred \<Rightarrow>
          tally common members
            (bt_insert (jp_name preferred)
              ((case map_of votes (jp_name preferred) of None \<Rightarrow> 0 | Some n \<Rightarrow> n) + 1) votes))"

text \<open>\<open>Iterator::max_by\<close>: the later of equal elements wins.\<close>

fun max_by :: "('a \<Rightarrow> 'a \<Rightarrow> bool) \<Rightarrow> 'a list \<Rightarrow> 'a option" where
  "max_by beats [] = None"
| "max_by beats (x # xs) = Some (fold (\<lambda>y acc. if beats acc y then acc else y) xs x)"

definition more_votes :: "string \<times> nat \<Rightarrow> string \<times> nat \<Rightarrow> bool" where
  "more_votes = (\<lambda>(left_name, left_votes) (right_name, right_votes).
     left_votes > right_votes \<or> left_votes = right_votes \<and> right_name > left_name)"

definition select_protocol :: "(string, member) hash_map \<Rightarrow> group_error + string" where
  "select_protocol members =
     (if members = [] then Inl InconsistentGroupProtocol else
      try_bind (tally (common_protocols members) members []) (\<lambda>votes.
      case max_by more_votes votes of
        None \<Rightarrow> Inl InconsistentGroupProtocol
      | Some (name, _) \<Rightarrow> Inr name))"

section \<open>Deadlines\<close>

definition group_rebalance_timeout :: "group \<Rightarrow> nat" where
  "group_rebalance_timeout g =
     (let timeout_ms =
        (case map (m_rebalance_timeout_ms \<circ> snd) (g_members g) of [] \<Rightarrow> 0 | t # ts \<Rightarrow> fold max ts t)
      in nat (max timeout_ms 0))"

definition member_deadline :: "member \<Rightarrow> instant" where
  "member_deadline m = m_last_heartbeat m + nat (max (m_session_timeout_ms m) 0)"

definition extend_rebalance_deadline :: "instant \<Rightarrow> group \<Rightarrow> group" where
  "extend_rebalance_deadline now g =
     (let candidate = now + group_rebalance_timeout g
      in if (case g_rebalance_deadline g of None \<Rightarrow> True | Some deadline \<Rightarrow> candidate > deadline)
         then g\<lparr>g_rebalance_deadline := Some candidate\<rparr> else g)"

definition clear_rebalance_deadline_if_all_synced :: "group \<Rightarrow> group" where
  "clear_rebalance_deadline_if_all_synced g =
     (if list_all (\<lambda>(_, m). m_synced_generation m = g_generation_id g) (g_members g)
      then g\<lparr>g_rebalance_deadline := None\<rparr> else g)"

fun min_list_option :: "'a::linorder list \<Rightarrow> 'a option" where
  "min_list_option [] = None"
| "min_list_option (x # xs) = Some (fold min xs x)"

definition next_expiry_deadline :: "group \<Rightarrow> string option \<Rightarrow> instant option" where
  "next_expiry_deadline g active_member_id =
     (let pending = (\<lambda>m. case g_state g of
              PreparingRebalance \<Rightarrow> m_joined_epoch m \<noteq> g_rebalance_epoch g
            | CompletingRebalance \<Rightarrow> m_synced_generation m \<noteq> g_generation_id g
            | Stable \<Rightarrow> m_synced_generation m \<noteq> g_generation_id g
            | Empty \<Rightarrow> False);
          rebalance_deadline =
            (if list_ex (\<lambda>(i, m). active_member_id \<noteq> Some i \<and> pending m) (g_members g)
             then g_rebalance_deadline g else None);
          session_deadline =
            (if g_state g = Stable
             then min_list_option (map (member_deadline \<circ> snd)
                    (filter (\<lambda>(i, m). active_member_id \<noteq> Some i \<and>
                       m_synced_generation m = g_generation_id g) (g_members g)))
             else None)
      in min_list_option (List.map_filter id [rebalance_deadline, session_deadline]))"

section \<open>Rebalancing\<close>

definition begin_rebalance :: "instant \<Rightarrow> group \<Rightarrow> group" where
  "begin_rebalance t g =
     g\<lparr>g_rebalance_epoch := saturating_add_u64 (g_rebalance_epoch g) 1,
       g_state := PreparingRebalance, g_assignments := [],
       g_rebalance_deadline := Some (t + group_rebalance_timeout g)\<rparr>"

definition members_for_leader :: "group \<Rightarrow> joined_member list" where
  "members_for_leader g =
     sort_key jm_member_id
       (List.map_filter (\<lambda>(i, m).
          map_option (\<lambda>p. \<lparr>jm_member_id = i, jm_metadata = jp_metadata p\<rparr>)
            (find (\<lambda>p. jp_name p = g_selected_protocol g) (m_protocols m))) (g_members g))"

definition complete_rebalance_if_ready :: "instant \<Rightarrow> group \<Rightarrow> (group_error + bool) \<times> group" where
  "complete_rebalance_if_ready t g =
     (if g_state g \<noteq> PreparingRebalance \<or> g_members g = [] \<or>
         list_ex (\<lambda>(_, m). m_joined_epoch m \<noteq> g_rebalance_epoch g) (g_members g)
      then (Inr False, g)
      else case select_protocol (g_members g) of
             Inl e \<Rightarrow> (Inl e, g)
           | Inr selected_protocol \<Rightarrow>
               let g1 = g\<lparr>g_selected_protocol := selected_protocol,
                          g_generation_id := saturating_add_i32 (g_generation_id g) 1,
                          g_assignments := [], g_state := CompletingRebalance,
                          g_rebalance_deadline := Some (t + group_rebalance_timeout g)\<rparr>;
                   leader_members = members_for_leader g1
               in (Inr True,
                   g1\<lparr>g_members := map (\<lambda>(i, m). (i, m\<lparr>m_completed_join := Some
                        \<lparr>cj_rebalance_epoch = g_rebalance_epoch g1,
                         cj_result =
                           \<lparr>jg_generation_id = g_generation_id g1,
                            jg_protocol_type = g_protocol_type g1,
                            jg_protocol_name = g_selected_protocol g1,
                            jg_leader = g_leader_member_id g1, jg_member_id = i,
                            jg_members =
                              (if i = g_leader_member_id g1 then leader_members else [])\<rparr>\<rparr>\<rparr>))
                        (g_members g1)\<rparr>))"

definition completed_join_of :: "group \<Rightarrow> string \<Rightarrow> nat \<Rightarrow> joined_group option" where
  "completed_join_of g member_id rebalance_epoch =
     Option.bind (map_of (g_members g) member_id) (\<lambda>m.
     Option.bind (m_completed_join m) (\<lambda>completed.
     if cj_rebalance_epoch completed = rebalance_epoch then Some (cj_result completed) else None))"

definition join_matches :: "member \<Rightarrow> join_request \<Rightarrow> bool" where
  "join_matches m request \<longleftrightarrow>
     m_client_id m = jr_client_id request \<and>
     m_session_timeout_ms m = jr_session_timeout_ms request \<and>
     m_rebalance_timeout_ms m = jr_rebalance_timeout_ms request \<and>
     m_protocols m = jr_protocols request"

definition transition_after_removal :: "instant \<Rightarrow> group \<Rightarrow> group" where
  "transition_after_removal t g =
     (if g_members g = []
      then g\<lparr>g_state := Empty, g_leader_member_id := [], g_protocol_type := [],
             g_selected_protocol := [], g_assignments := [], g_rebalance_deadline := None\<rparr>
      else
        let g1 = (if map_of (g_members g) (g_leader_member_id g) = None
                  then g\<lparr>g_leader_member_id :=
                    (case min_list_option (map fst (g_members g)) of None \<Rightarrow> [] | Some i \<Rightarrow> i)\<rparr>
                  else g)
        in if g_state g1 \<noteq> PreparingRebalance then begin_rebalance t g1
           else g1\<lparr>g_assignments := []\<rparr>)"

definition is_stale :: "group \<Rightarrow> instant \<Rightarrow> member \<Rightarrow> bool" where
  "is_stale g now m =
     (let rebalance_expired =
            (case g_rebalance_deadline g of None \<Rightarrow> False | Some deadline \<Rightarrow> deadline \<le> now)
      in case g_state g of
           Empty \<Rightarrow> False
         | PreparingRebalance \<Rightarrow> rebalance_expired \<and> m_joined_epoch m \<noteq> g_rebalance_epoch g
         | CompletingRebalance \<Rightarrow>
             rebalance_expired \<and> m_synced_generation m \<noteq> g_generation_id g
         | Stable \<Rightarrow>
             let pending_sync = m_synced_generation m \<noteq> g_generation_id g
             in (rebalance_expired \<and> pending_sync) \<or>
                (\<not> pending_sync \<and> member_deadline m \<le> now))"

definition expire_stale_members :: "clock \<Rightarrow> string option \<Rightarrow> group \<Rightarrow> group" where
  "expire_stale_members ck active_member_id g =
     (let expired = map fst (filter (\<lambda>(i, m). active_member_id \<noteq> Some i \<and> is_stale g (ck_now ck) m)
                              (g_members g))
      in if expired = [] then g
         else transition_after_removal (ck_begin ck)
                (g\<lparr>g_members := fold AList.delete expired (g_members g),
                   g_assignments := fold AList.delete expired (g_assignments g)\<rparr>))"

definition validate_member_and_generation :: "group \<Rightarrow> i32 \<Rightarrow> string \<Rightarrow> group_error + unit" where
  "validate_member_and_generation g generation_id member_id =
     (if map_of (g_members g) member_id = None then Inl UnknownMemberId
      else if g_generation_id g \<noteq> generation_id then Inl IllegalGeneration
      else Inr ())"

section \<open>Sections of the requests, on one group\<close>

text \<open>\<open>get_mut(member_id).expect(message)\<close> followed by an assignment to a field.\<close>

definition modify_member :: "string \<Rightarrow> string \<Rightarrow> (member \<Rightarrow> member) \<Rightarrow> group \<Rightarrow> group run" where
  "modify_member message member_id f g =
     try_bind (expect message (map_of (g_members g) member_id)) (\<lambda>_.
     Inr (g\<lparr>g_members := AList.map_entry member_id f (g_members g)\<rparr>))"

text \<open>
  The section in which a join registers its member. \<open>JoinWait epoch\<close> sends the caller on to
  polling for the rebalance of that epoch.
\<close>

datatype join_progress = JoinDone "group_error + join_result" | JoinWait nat

text \<open>The member a join registers, keeping what a member of that identifier already had.\<close>

definition joining_member :: "join_request \<Rightarrow> instant \<Rightarrow> nat \<Rightarrow> member option \<Rightarrow> member" where
  "joining_member request now target_epoch prior_member =
     \<lparr>m_client_id = jr_client_id request, m_session_timeout_ms = jr_session_timeout_ms request,
      m_rebalance_timeout_ms = jr_rebalance_timeout_ms request, m_last_heartbeat = now,
      m_protocols = jr_protocols request, m_joined_epoch = target_epoch,
      m_synced_generation = (case prior_member of None \<Rightarrow> - 1 | Some p \<Rightarrow> m_synced_generation p),
      m_completed_join = Option.bind prior_member m_completed_join\<rparr>"

definition join_target :: "group \<Rightarrow> nat" where
  "join_target g =
     (if g_state g \<noteq> PreparingRebalance then saturating_add_u64 (g_rebalance_epoch g) 1
      else g_rebalance_epoch g)"

definition cached_join :: "join_request \<Rightarrow> group \<Rightarrow> joined_group option" where
  "cached_join request g =
     (case map_of (g_members g) (jr_member_id request) of
        None \<Rightarrow> None
      | Some m \<Rightarrow>
          if join_matches m request
          then completed_join_of g (jr_member_id request) (g_rebalance_epoch g) else None)"

definition add_joining :: "join_request \<Rightarrow> bool \<Rightarrow> clock \<Rightarrow> group \<Rightarrow> group" where
  "add_joining request may_add_member ck g =
     (let member_id = jr_member_id request;
          m = joining_member request (ck_now ck) (join_target g) (map_of (g_members g) member_id);
          g1 = g\<lparr>g_members := AList.update member_id m (g_members g)\<rparr>;
          g2 = (if g_state g \<noteq> PreparingRebalance then begin_rebalance (ck_begin ck) g1
                else if may_add_member then extend_rebalance_deadline (ck_now ck) g1 else g1);
          g3 = g2\<lparr>g_protocol_type := jr_protocol_type request\<rparr>
      in if g_leader_member_id g3 = [] then g3\<lparr>g_leader_member_id := member_id\<rparr> else g3)"

definition join_register ::
  "join_request \<Rightarrow> bool \<Rightarrow> clock \<Rightarrow> group \<Rightarrow> (join_progress \<times> group) run" where
  "join_register request may_add_member ck g0 =
     (let g = expire_stale_members ck None g0;
          member_id = jr_member_id request;
          prior_member = map_of (g_members g) member_id
      in if \<not> may_add_member \<and> prior_member = None
         then Inr (JoinDone (Inl UnknownMemberId), g)
         else if g_members g \<noteq> [] \<and> g_protocol_type g \<noteq> jr_protocol_type request
         then Inr (JoinDone (Inl InconsistentGroupProtocol), g)
         else
      let can_reuse_completed_join =
            g_state g = CompletingRebalance \<or>
            (g_state g = Stable \<and> g_leader_member_id g \<noteq> member_id)
      in case (if can_reuse_completed_join then cached_join request g else None) of
           Some cached \<Rightarrow>
             try_bind (modify_member ''cached join belongs to member'' member_id
                 (\<lambda>m. m\<lparr>m_last_heartbeat := ck_now ck\<rparr>) g)
               (\<lambda>g'. Inr (JoinDone (Inr (Joined cached)), g'))
         | None \<Rightarrow>
             (case select_protocol
                     (AList.update member_id
                        (joining_member request (ck_now ck) (join_target g) prior_member)
                        (g_members g)) of
                Inl e \<Rightarrow> Inr (JoinDone (Inl e), g)
              | Inr _ \<Rightarrow>
                  (case complete_rebalance_if_ready (ck_complete ck)
                          (add_joining request may_add_member ck g) of
                     (Inl e, g') \<Rightarrow> Inr (JoinDone (Inl e), g')
                   | (Inr _, g') \<Rightarrow> Inr (JoinWait (join_target g), g'))))"

text \<open>One turn of the loop in which a join waits; \<open>None\<close> sends the caller back to waiting.\<close>

definition join_poll ::
  "string \<Rightarrow> nat \<Rightarrow> clock \<Rightarrow> group \<Rightarrow> (group_error + join_result) option \<times> group" where
  "join_poll member_id target_epoch ck g =
     (case completed_join_of g member_id target_epoch of
        Some result \<Rightarrow> (Some (Inr (Joined result)), g)
      | None \<Rightarrow>
          if map_of (g_members g) member_id = None then (Some (Inl UnknownMemberId), g)
          else if g_rebalance_epoch g \<noteq> target_epoch then (Some (Inl RebalanceInProgress), g)
          else
            let g1 = expire_stale_members ck (Some member_id) g
            in case complete_rebalance_if_ready (ck_complete ck) g1 of
                 (Inl e, g2) \<Rightarrow> (Some (Inl e), g2)
               | (Inr _, g2) \<Rightarrow>
                   (case completed_join_of g2 member_id target_epoch of
                      Some result \<Rightarrow> (Some (Inr (Joined result)), g2)
                    | None \<Rightarrow> (None, g2)))"

definition assignments_cover :: "sync_assignment list \<Rightarrow> group \<Rightarrow> bool" where
  "assignments_cover assignments g \<longleftrightarrow>
     (let assigned_members = remdups (map sa_member_id assignments)
      in length assigned_members = length assignments \<and>
         length assigned_members = length (g_members g) \<and>
         list_all (\<lambda>(i, _). i \<in> set assigned_members) (g_members g))"

text \<open>
  One turn of the sync loop. \<open>refresh_member\<close> holds on the first turn only; \<open>None\<close> sends the
  caller back to waiting.
\<close>

definition sync_poll ::
  "i32 \<Rightarrow> string \<Rightarrow> sync_assignment list \<Rightarrow> bool \<Rightarrow> clock \<Rightarrow> group \<Rightarrow>
   ((group_error + bytes) option \<times> group) run" where
  "sync_poll generation_id member_id assignments refresh_member ck g0 =
     (let now = ck_now ck;
          g = expire_stale_members ck (if refresh_member then None else Some member_id) g0
      in case validate_member_and_generation g generation_id member_id of
           Inl e \<Rightarrow> Inr (Some (Inl e), g)
         | Inr _ \<Rightarrow>
      try_bind (if refresh_member
                then modify_member ''validated member'' member_id
                       (\<lambda>m. m\<lparr>m_last_heartbeat := now\<rparr>) g
                else Inr g) (\<lambda>g1.
      case g_state g1 of
        Stable \<Rightarrow>
          try_bind (modify_member ''validated member'' member_id
                      (\<lambda>m. m\<lparr>m_synced_generation := generation_id\<rparr>) g1) (\<lambda>g2.
          let g3 = clear_rebalance_deadline_if_all_synced g2
          in Inr (Some (case map_of (g_assignments g3) member_id of
                          None \<Rightarrow> Inl RebalanceInProgress | Some a \<Rightarrow> Inr a), g3))
      | PreparingRebalance \<Rightarrow> Inr (Some (Inl RebalanceInProgress), g1)
      | Empty \<Rightarrow> Inr (Some (Inl RebalanceInProgress), g1)
      | CompletingRebalance \<Rightarrow>
          if member_id = g_leader_member_id g1 then
            if \<not> assignments_cover assignments g1 then Inr (Some (Inl InvalidAssignment), g1)
            else
              try_bind (modify_member ''validated leader'' member_id
                          (\<lambda>m. m\<lparr>m_synced_generation := generation_id\<rparr>) g1) (\<lambda>g2.
              let g3 = g2\<lparr>g_assignments :=
                            map (\<lambda>a. (sa_member_id a, sa_assignment a)) assignments,
                          g_members :=
                            map (\<lambda>(i, m). (i, if m_synced_generation m = generation_id
                                               then m\<lparr>m_last_heartbeat := now\<rparr> else m))
                              (g_members g2),
                          g_state := Stable\<rparr>;
                  g4 = clear_rebalance_deadline_if_all_synced g3
              in Inr (Some (case map_of (g_assignments g4) member_id of
                              None \<Rightarrow> Inl RebalanceInProgress | Some a \<Rightarrow> Inr a), g4))
          else
            try_bind (modify_member ''validated follower'' member_id
                        (\<lambda>m. m\<lparr>m_synced_generation := generation_id\<rparr>) g1) (\<lambda>g2.
            Inr (None, g2))))"

definition heartbeat_section :: "i32 \<Rightarrow> string \<Rightarrow> clock \<Rightarrow> group \<Rightarrow> (group_error + unit) \<times> group" where
  "heartbeat_section generation_id member_id ck g0 =
     (let g = expire_stale_members ck None g0
      in case validate_member_and_generation g generation_id member_id of
           Inl e \<Rightarrow> (Inl e, g)
         | Inr _ \<Rightarrow>
             if map_of (g_members g) member_id = None then (Inl UnknownMemberId, g)
             else
               let g1 = g\<lparr>g_members := AList.map_entry member_id
                            (\<lambda>m. m\<lparr>m_last_heartbeat := ck_now ck\<rparr>) (g_members g)\<rparr>
               in (if g_state g1 = CompletingRebalance \<or> g_state g1 = Stable then Inr ()
                   else Inl RebalanceInProgress, g1))"

definition leave_section :: "string \<Rightarrow> clock \<Rightarrow> group \<Rightarrow> (group_error + unit) \<times> group" where
  "leave_section member_id ck g0 =
     (let g = expire_stale_members ck None g0
      in if map_of (g_members g) member_id = None then (Inl UnknownMemberId, g)
         else
           let g1 = g\<lparr>g_members := AList.delete member_id (g_members g),
                      g_assignments := AList.delete member_id (g_assignments g)\<rparr>;
               g2 = transition_after_removal (ck_begin ck) g1
           in case complete_rebalance_if_ready (ck_complete ck) g2 of
                (Inl e, g3) \<Rightarrow> (Inl e, g3)
              | (Inr _, g3) \<Rightarrow> (Inr (), g3))"

definition commit_section ::
  "i32 \<Rightarrow> string \<Rightarrow> offset_commit list \<Rightarrow> clock \<Rightarrow> group \<Rightarrow> (group_error + unit) \<times> group" where
  "commit_section generation_id member_id offsets ck g0 =
     (let g = expire_stale_members ck None g0
      in case validate_member_and_generation g generation_id member_id of
           Inl e \<Rightarrow> (Inl e, g)
         | Inr _ \<Rightarrow>
             if g_state g \<noteq> Stable then (Inl RebalanceInProgress, g)
             else (Inr (),
                   g\<lparr>g_committed_offsets :=
                      fold (\<lambda>c. AList.update (oc_topic c, oc_partition c)
                               \<lparr>so_offset = oc_offset c, so_metadata = oc_metadata c\<rparr>)
                        offsets (g_committed_offsets g)\<rparr>))"

text \<open>One turn of the background task that drives a group's deadlines.\<close>

definition drive_deadlines :: "clock \<Rightarrow> group \<Rightarrow> group" where
  "drive_deadlines ck g =
     snd (complete_rebalance_if_ready (ck_complete ck) (expire_stale_members ck None g))"

definition state_name :: "group_state \<Rightarrow> string" where
  "state_name s =
     (case s of Empty \<Rightarrow> ''Empty'' | PreparingRebalance \<Rightarrow> ''PreparingRebalance''
      | CompletingRebalance \<Rightarrow> ''CompletingRebalance'' | Stable \<Rightarrow> ''Stable'')"

definition describe_section :: "string \<Rightarrow> clock \<Rightarrow> group \<Rightarrow> group_description \<times> group" where
  "describe_section group_id ck g0 =
     (let g = expire_stale_members ck None g0;
          members = map (\<lambda>(i, m).
            \<lparr>gm_member_id = i, gm_client_id = m_client_id m,
             gm_metadata =
               (case find (\<lambda>p. jp_name p = g_selected_protocol g) (m_protocols m) of
                  None \<Rightarrow> [] | Some p \<Rightarrow> jp_metadata p),
             gm_assignment =
               (case map_of (g_assignments g) i of None \<Rightarrow> [] | Some a \<Rightarrow> a)\<rparr>) (g_members g)
      in (\<lparr>gd_group_id = group_id, gd_state = state_name (g_state g),
           gd_protocol_type = g_protocol_type g, gd_protocol_name = g_selected_protocol g,
           gd_members = sort_key gm_member_id members\<rparr>, g))"

text \<open>Rust's stable \<open>sort_by\<close> on topic, then partition.\<close>

definition fetch_section :: "topic_partition list option \<Rightarrow> group option \<Rightarrow> fetched_offset list" where
  "fetch_section requested grp =
     (case grp of
        None \<Rightarrow>
          map (\<lambda>(topic, p). \<lparr>fo_topic = topic, fo_partition = p, fo_offset = None,
                 fo_metadata = None\<rparr>) (case requested of None \<Rightarrow> [] | Some r \<Rightarrow> r)
      | Some g \<Rightarrow>
          let offsets =
            (case requested of
               Some r \<Rightarrow>
                 map (\<lambda>(topic, p).
                    let stored = map_of (g_committed_offsets g) (topic, p)
                    in \<lparr>fo_topic = topic, fo_partition = p,
                        fo_offset = map_option so_offset stored,
                        fo_metadata = Option.bind stored so_metadata\<rparr>) r
             | None \<Rightarrow>
                 map (\<lambda>((topic, p), stored).
                    \<lparr>fo_topic = topic, fo_partition = p, fo_offset = Some (so_offset stored),
                     fo_metadata = so_metadata stored\<rparr>) (g_committed_offsets g))
          in sort_key fo_topic (sort_key fo_partition offsets))"

section \<open>The coordinator\<close>

definition find_group :: "group_coordinator \<Rightarrow> string \<Rightarrow> group option" where
  "find_group c group_id = map_of (gc_groups c) group_id"

definition put_group :: "string \<Rightarrow> group \<Rightarrow> group_coordinator \<Rightarrow> group_coordinator" where
  "put_group group_id g c = c\<lparr>gc_groups := AList.update group_id g (gc_groups c)\<rparr>"

definition group_or_insert :: "string \<Rightarrow> group_coordinator \<Rightarrow> group_coordinator" where
  "group_or_insert group_id c =
     (case find_group c group_id of
        Some _ \<Rightarrow> c
      | None \<Rightarrow> put_group group_id group_new c)"

definition allocate_member_id :: "string \<Rightarrow> group_coordinator \<Rightarrow> string \<times> group_coordinator" where
  "allocate_member_id client_id c =
     (client_id @ ''-'' @ show_nat (gc_next_member_id c),
      c\<lparr>gc_next_member_id := (gc_next_member_id c + 1) mod 2 ^ 64\<rparr>)"

text \<open>
  What a join does before it reaches the group: it is refused or sent away with a member
  identifier, or goes on with the identifier it will use and whether it may add a member.
\<close>

datatype join_entry = Answer "group_error + join_result" | Proceed join_request bool

definition join_enter ::
  "join_request \<Rightarrow> bool \<Rightarrow> group_coordinator \<Rightarrow> join_entry \<times> group_coordinator" where
  "join_enter request require_known_member_id c =
     (if jr_protocols request = [] \<or> jr_protocol_type request = []
      then (Answer (Inl InconsistentGroupProtocol), c)
      else if jr_member_id request = [] then
        let (member_id, c1) = allocate_member_id (jr_client_id request) c
        in if require_known_member_id
           then (Answer (Inr (MemberIdRequired member_id)),
                 c1\<lparr>gc_pending_member_ids :=
                      List.insert (jr_group_id request, member_id) (gc_pending_member_ids c1)\<rparr>)
           else (Proceed (request\<lparr>jr_member_id := member_id\<rparr>) True, c1)
      else if (jr_group_id request, jr_member_id request) \<in> set (gc_pending_member_ids c)
      then (Proceed request True, c)
      else case find_group c (jr_group_id request) of
             None \<Rightarrow> (Answer (Inl UnknownMemberId), c)
           | Some g \<Rightarrow>
               if map_of (g_members g) (jr_member_id request) = None
               then (Answer (Inl UnknownMemberId), c)
               else (Proceed request False, c))"

definition join_settle :: "string \<Rightarrow> string \<Rightarrow> group_coordinator \<Rightarrow> group_coordinator" where
  "join_settle group_id member_id c =
     c\<lparr>gc_pending_member_ids := removeAll (group_id, member_id) (gc_pending_member_ids c)\<rparr>"

text \<open>A section on a group that must exist; a group that does not knows no members.\<close>

definition on_group ::
  "string \<Rightarrow> (group \<Rightarrow> (group_error + 'a) \<times> group) \<Rightarrow> group_coordinator \<Rightarrow>
   (group_error + 'a) \<times> group_coordinator" where
  "on_group group_id body c =
     (case find_group c group_id of
        None \<Rightarrow> (Inl UnknownMemberId, c)
      | Some g \<Rightarrow> (case body g of (r, g') \<Rightarrow> (r, put_group group_id g' c)))"

definition group_heartbeat ::
  "string \<Rightarrow> i32 \<Rightarrow> string \<Rightarrow> clock \<Rightarrow> group_coordinator \<Rightarrow> (group_error + unit) \<times> group_coordinator" where
  "group_heartbeat group_id generation_id member_id ck =
     on_group group_id (heartbeat_section generation_id member_id ck)"

definition group_leave ::
  "string \<Rightarrow> string \<Rightarrow> clock \<Rightarrow> group_coordinator \<Rightarrow> (group_error + unit) \<times> group_coordinator" where
  "group_leave group_id member_id ck = on_group group_id (leave_section member_id ck)"

definition commit_offsets ::
  "string \<Rightarrow> i32 \<Rightarrow> string \<Rightarrow> offset_commit list \<Rightarrow> clock \<Rightarrow> group_coordinator \<Rightarrow>
   (group_error + unit) \<times> group_coordinator" where
  "commit_offsets group_id generation_id member_id offsets ck =
     on_group group_id (commit_section generation_id member_id offsets ck)"

definition fetch_offsets :: "string \<Rightarrow> topic_partition list option \<Rightarrow> group_coordinator \<Rightarrow> fetched_offset list" where
  "fetch_offsets group_id requested c = fetch_section requested (find_group c group_id)"

definition list_groups :: "group_coordinator \<Rightarrow> group_summary list" where
  "list_groups c =
     map (\<lambda>(i, g). \<lparr>gs_group_id = i, gs_protocol_type = g_protocol_type g\<rparr>)
       (sort_key fst (gc_groups c))"

definition describe_group ::
  "string \<Rightarrow> clock \<Rightarrow> group_coordinator \<Rightarrow> group_description option \<times> group_coordinator" where
  "describe_group group_id ck c =
     (case find_group c group_id of
        None \<Rightarrow> (None, c)
      | Some g \<Rightarrow>
          (case describe_section group_id ck g of (d, g') \<Rightarrow> (Some d, put_group group_id g' c)))"

end
