(* ===== verification/Group_Props.thy ===== *)
theory Group_Props
  imports Group_Coordinator
begin

text \<open>
  Correctness of the group coordinator: the choice of the assignment protocol, the invariant of
  the group state machine under every interleaving of request sections and deadline turns,
  and the consequences for joins, syncs, deadlines and committed offsets.
\<close>

section \<open>Protocol selection\<close>

definition supports :: "member \<Rightarrow> string \<Rightarrow> bool" where
  "supports m c \<longleftrightarrow> c \<in> jp_name ` set (m_protocols m)"

text \<open>The protocol a member votes for: its first one that every member supports.\<close>

definition preferred :: "string set \<Rightarrow> member \<Rightarrow> string" where
  "preferred common m = jp_name (hd (filter (\<lambda>p. jp_name p \<in> common) (m_protocols m)))"

definition common_set :: "(string, member) hash_map \<Rightarrow> string set" where
  "common_set ms = {c. \<forall>m \<in> snd ` set ms. supports m c}"

lemma supports_list_ex: "list_ex (\<lambda>p. jp_name p = c) (m_protocols m) \<longleftrightarrow> supports m c"
  by (auto simp: supports_def list_ex_iff)

lemma set_common_protocols:
  assumes "ms \<noteq> []"
  shows "set (common_protocols ms) = common_set ms"
proof -
  have "set (common_protocols ms) =
      {c \<in> (\<Union>m \<in> snd ` set ms. jp_name ` set (m_protocols m)). \<forall>m \<in> snd ` set ms. supports m c}"
    by (auto simp: common_protocols_def supports_list_ex list_all_iff split_beta)
  moreover have "\<exists>m. m \<in> snd ` set ms" using assms by (cases ms) auto
  then have "{c \<in> (\<Union>m \<in> snd ` set ms. jp_name ` set (m_protocols m)).
      \<forall>m \<in> snd ` set ms. supports m c} = common_set ms"
    unfolding common_set_def supports_def by blast
  ultimately show ?thesis by simp
qed

lemma find_eq_hd_filter: "find P xs = (case filter P xs of [] \<Rightarrow> None | x # _ \<Rightarrow> Some x)"
  by (induction xs) auto

definition vote_count :: "(string, nat) btree_map \<Rightarrow> string \<Rightarrow> nat" where
  "vote_count votes c = (case map_of votes c of None \<Rightarrow> 0 | Some n \<Rightarrow> n)"

lemma vote_count_insert:
  "vote_count (bt_insert k n votes) c = (if c = k then n else vote_count votes c)"
  by (simp add: vote_count_def)

lemma tally_Inr:
  assumes "\<forall>m \<in> snd ` set ms. \<exists>p \<in> set (m_protocols m). jp_name p \<in> set common"
  shows "\<exists>votes'. tally common ms votes = Inr votes' \<and>
    (\<forall>c. vote_count votes' c =
       vote_count votes c + length (filter (\<lambda>(_, m). preferred (set common) m = c) ms)) \<and>
    keys votes' = keys votes \<union> preferred (set common) ` snd ` set ms \<and>
    (bt_ok votes \<longrightarrow> bt_ok votes')"
  using assms
proof (induction ms arbitrary: votes)
  case (Cons x ms)
  obtain i m where x: "x = (i, m)" by (cases x)
  let ?f = "filter (\<lambda>p. jp_name p \<in> set common) (m_protocols m)"
  have "?f \<noteq> []" using Cons.prems by (auto simp: x filter_empty_conv)
  then obtain p ps where f: "?f = p # ps" by (cases ?f) auto
  then have find: "find (\<lambda>p. jp_name p \<in> set common) (m_protocols m) = Some p"
    by (simp add: find_eq_hd_filter)
  have pref: "preferred (set common) m = jp_name p" by (simp add: preferred_def f)
  let ?v = "bt_insert (jp_name p) (vote_count votes (jp_name p) + 1) votes"
  from Cons.IH [of ?v] Cons.prems obtain votes' where
    "tally common ms ?v = Inr votes'"
    "\<And>c. vote_count votes' c =
       vote_count ?v c + length (filter (\<lambda>(_, m). preferred (set common) m = c) ms)"
    "keys votes' = keys ?v \<union> preferred (set common) ` snd ` set ms"
    "bt_ok ?v \<longrightarrow> bt_ok votes'"
    by auto
  then show ?case
    using find pref by (auto simp: x vote_count_insert vote_count_def)
qed simp

lemma tally_Inl:
  assumes "\<not> (\<forall>m \<in> snd ` set ms. \<exists>p \<in> set (m_protocols m). jp_name p \<in> set common)"
  shows "tally common ms votes = Inl InconsistentGroupProtocol"
  using assms
proof (induction ms arbitrary: votes)
  case (Cons x ms)
  obtain i m where x: "x = (i, m)" by (cases x)
  show ?case
  proof (cases "\<exists>p \<in> set (m_protocols m). jp_name p \<in> set common")
    case False
    then have "find (\<lambda>p. jp_name p \<in> set common) (m_protocols m) = None"
      by (auto simp: find_None_iff)
    then show ?thesis by (simp add: x)
  next
    case True
    then have "tally common ms votes' = Inl InconsistentGroupProtocol" for votes'
      using Cons.prems by (intro Cons.IH) (auto simp: x)
    then show ?thesis by (simp add: x split: option.split)
  qed
qed simp

text \<open>The winner of the vote beats every other entry; entries have distinct names.\<close>

lemma more_votes_trans: "more_votes x y \<Longrightarrow> more_votes y z \<Longrightarrow> more_votes x z"
  by (auto simp: more_votes_def)

lemma more_votes_total: "fst x \<noteq> fst y \<Longrightarrow> more_votes x y \<or> more_votes y x"
  by (auto simp: more_votes_def)

lemma max_by_fold:
  assumes "distinct (map fst (x # xs))"
  shows "\<exists>w \<in> set (x # xs). fold (\<lambda>y acc. if more_votes acc y then acc else y) xs x = w \<and>
    (\<forall>y \<in> set (x # xs). y \<noteq> w \<longrightarrow> more_votes w y)"
  using assms
proof (induction xs arbitrary: x)
  case (Cons y ys)
  let ?b = "if more_votes x y then x else y"
  let ?o = "if more_votes x y then y else x"
  have beat: "more_votes ?b ?o"
    using Cons.prems more_votes_total [of x y] by auto
  have "distinct (map fst (?b # ys))" using Cons.prems by auto
  from Cons.IH [OF this] obtain w where w: "w \<in> set (?b # ys)"
    "fold (\<lambda>y acc. if more_votes acc y then acc else y) ys ?b = w"
    "\<forall>z \<in> set (?b # ys). z \<noteq> w \<longrightarrow> more_votes w z" by blast
  have "more_votes w ?o"
    using w(3) beat more_votes_trans [of w ?b ?o] by (cases "?b = w") (simp, fastforce)
  with w show ?case by (intro bexI [of _ w]) (auto split: if_splits)
qed simp

lemma max_by_votes:
  assumes "votes \<noteq> []" and "distinct (map fst votes)"
  shows "\<exists>w \<in> set votes. max_by more_votes votes = Some w \<and>
    (\<forall>y \<in> set votes. y \<noteq> w \<longrightarrow> more_votes w y)"
proof (cases votes)
  case (Cons x xs)
  with max_by_fold [of x xs] assms(2) show ?thesis by simp
qed (use assms(1) in simp)

lemma select_protocol_Inl:
  assumes "common_set ms = {} \<or> ms = []"
  shows "select_protocol ms = Inl InconsistentGroupProtocol"
proof (cases "ms = []")
  case False
  with assms have "set (common_protocols ms) = {}" by (simp add: set_common_protocols)
  moreover have "\<exists>m. m \<in> snd ` set ms" using False by (cases ms) auto
  ultimately have "tally (common_protocols ms) ms [] = Inl InconsistentGroupProtocol"
    by (intro tally_Inl) auto
  with False show ?thesis by (simp add: select_protocol_def)
qed (simp add: select_protocol_def)

definition votes_for :: "(string, member) hash_map \<Rightarrow> string \<Rightarrow> nat" where
  "votes_for ms c = length (filter (\<lambda>(_, m). preferred (common_set ms) m = c) ms)"

lemma select_protocol_winner:
  assumes ne: "ms \<noteq> []" and c: "common_set ms \<noteq> {}"
  shows "\<exists>p. select_protocol ms = Inr p \<and> p \<in> common_set ms \<and> 0 < votes_for ms p \<and>
    (\<forall>q. q \<noteq> p \<longrightarrow> 0 < votes_for ms q \<longrightarrow>
       votes_for ms q < votes_for ms p \<or> votes_for ms q = votes_for ms p \<and> p < q)"
proof -
  have common: "set (common_protocols ms) = common_set ms" by (rule set_common_protocols [OF ne])
  have all: "\<forall>m \<in> snd ` set ms. \<exists>p \<in> set (m_protocols m). jp_name p \<in> set (common_protocols ms)"
  proof
    fix m assume "m \<in> snd ` set ms"
    moreover obtain c where "c \<in> common_set ms" using c by blast
    ultimately have "supports m c" "c \<in> common_set ms" by (auto simp: common_set_def)
    then show "\<exists>p \<in> set (m_protocols m). jp_name p \<in> set (common_protocols ms)"
      unfolding common by (auto simp: supports_def)
  qed
  obtain votes where v: "tally (common_protocols ms) ms [] = Inr votes"
    "\<And>c. vote_count votes c = votes_for ms c"
    "keys votes = preferred (common_set ms) ` snd ` set ms" "bt_ok votes"
    using tally_Inr [OF all, of "[]"]
    by (auto simp: common votes_for_def vote_count_def bt_ok_def)
  have dist: "distinct (map fst votes)" by (rule bt_ok_distinct [OF v(4)])
  have cnt: "(x, n) \<in> set votes \<Longrightarrow> n = votes_for ms x" for x n
    using v(2) [of x] dist by (simp add: vote_count_def)
  have key: "x \<in> keys votes \<longleftrightarrow> 0 < votes_for ms x" for x
    unfolding v(3) by (force simp: votes_for_def filter_empty_conv)
  have "votes \<noteq> []" using v(3) ne by (cases votes) auto
  from max_by_votes [OF this dist] obtain p n where
    w: "(p, n) \<in> set votes" "max_by more_votes votes = Some (p, n)"
    "\<And>y. y \<in> set votes \<Longrightarrow> y \<noteq> (p, n) \<Longrightarrow> more_votes (p, n) y" by force
  have sel: "select_protocol ms = Inr p"
    using ne v(1) w(2) by (simp add: select_protocol_def)
  have pos: "0 < votes_for ms p" using key w(1) by force
  then have "p \<in> preferred (common_set ms) ` snd ` set ms" using key v(3) by blast
  then obtain m where "m \<in> snd ` set ms" "preferred (common_set ms) m = p" by auto
  moreover have "filter (\<lambda>p. jp_name p \<in> common_set ms) (m_protocols m) \<noteq> []"
    using all calculation(1) unfolding common by (auto simp: filter_empty_conv)
  ultimately have "p \<in> common_set ms"
    using hd_in_set [of "filter (\<lambda>p. jp_name p \<in> common_set ms) (m_protocols m)"]
    by (auto simp: preferred_def)
  moreover have "votes_for ms q < votes_for ms p \<or> votes_for ms q = votes_for ms p \<and> p < q"
    if q: "q \<noteq> p" "0 < votes_for ms q" for q
  proof -
    obtain k where k: "(q, k) \<in> set votes" using key q(2) by force
    then show ?thesis using w(3) [OF k] q(1) cnt [OF k] cnt [OF w(1)] by (auto simp: more_votes_def)
  qed
  ultimately show ?thesis using sel pos by blast
qed

lemma select_protocol_Inr_iff:
  "(\<exists>p. select_protocol ms = Inr p) \<longleftrightarrow> ms \<noteq> [] \<and> common_set ms \<noteq> {}"
  using select_protocol_Inl [of ms] select_protocol_winner [of ms] by fastforce

section \<open>Updates that keep what a member joined with\<close>

definition same_join :: "member \<Rightarrow> member \<Rightarrow> bool" where
  "same_join m m' \<longleftrightarrow>
     m_protocols m' = m_protocols m \<and> m_joined_epoch m' = m_joined_epoch m \<and>
     m_completed_join m' = m_completed_join m"

definition same_protocols :: "(string, member) hash_map \<Rightarrow> (string, member) hash_map \<Rightarrow> bool" where
  "same_protocols ms ms' \<longleftrightarrow>
     list_all2 (\<lambda>x x'. fst x' = fst x \<and> m_protocols (snd x') = m_protocols (snd x)) ms ms'"

lemma same_protocols_map:
  "(\<And>i m. m_protocols (f i m) = m_protocols m) \<Longrightarrow>
   same_protocols ms (map (\<lambda>(i, m). (i, f i m)) ms)"
  by (induction ms) (auto simp: same_protocols_def)

lemma same_protocols_map_entry:
  "(\<And>m. m_protocols (f m) = m_protocols m) \<Longrightarrow> same_protocols ms (AList.map_entry k f ms)"
  by (induction ms) (auto simp: same_protocols_def list_all2_same intro!: list_all2_refl)

lemma same_protocols_keys: "same_protocols ms ms' \<Longrightarrow> map fst ms' = map fst ms"
  unfolding same_protocols_def by (induction rule: list_all2_induct) auto

lemma same_protocols_common: "same_protocols ms ms' \<Longrightarrow> common_protocols ms' = common_protocols ms"
proof -
  assume sp: "same_protocols ms ms'"
  then have "concat (map (\<lambda>(_, m). map jp_name (m_protocols m)) ms') =
      concat (map (\<lambda>(_, m). map jp_name (m_protocols m)) ms)"
    unfolding same_protocols_def by (induction rule: list_all2_induct) auto
  moreover have "list_all (\<lambda>(_, m). list_ex (\<lambda>p. jp_name p = c) (m_protocols m)) ms' =
      list_all (\<lambda>(_, m). list_ex (\<lambda>p. jp_name p = c) (m_protocols m)) ms" for c
    using sp unfolding same_protocols_def by (induction rule: list_all2_induct) auto
  ultimately show ?thesis by (simp add: common_protocols_def)
qed

lemma same_protocols_select:
  assumes "same_protocols ms ms'"
  shows "select_protocol ms' = select_protocol ms"
proof -
  have "tally common ms' votes = tally common ms votes" for common votes
    using assms unfolding same_protocols_def
    by (induction arbitrary: votes rule: list_all2_induct) (auto split: option.splits)
  moreover have "ms' = [] \<longleftrightarrow> ms = []" using same_protocols_keys [OF assms] by (metis map_is_Nil_conv)
  ultimately show ?thesis by (simp add: select_protocol_def same_protocols_common [OF assms])
qed

lemma same_protocols_leader_members:
  assumes "same_protocols (g_members g) (g_members g')"
    and "g_selected_protocol g' = g_selected_protocol g"
  shows "members_for_leader g' = members_for_leader g"
proof -
  have "List.map_filter (\<lambda>(i, m). map_option (\<lambda>p. \<lparr>jm_member_id = i, jm_metadata = jp_metadata p\<rparr>)
        (find (\<lambda>p. jp_name p = s) (m_protocols m))) ms' =
      List.map_filter (\<lambda>(i, m). map_option (\<lambda>p. \<lparr>jm_member_id = i, jm_metadata = jp_metadata p\<rparr>)
        (find (\<lambda>p. jp_name p = s) (m_protocols m))) ms"
    if "same_protocols ms ms'" for ms ms' s
    using that unfolding same_protocols_def
    by (induction rule: list_all2_induct) (auto simp: List.map_filter_simps split: option.splits)
  from this [OF assms(1)] show ?thesis by (simp add: members_for_leader_def assms(2))
qed

lemma common_set_mono: "set ms' \<subseteq> set ms \<Longrightarrow> common_set ms \<subseteq> common_set ms'"
  by (auto simp: common_set_def)

lemma same_protocols_common_set:
  "same_protocols ms ms' \<Longrightarrow> common_set ms' = common_set ms"
  unfolding same_protocols_def common_set_def
  by (induction rule: list_all2_induct) (auto simp: supports_def)

section \<open>The group invariant\<close>

text \<open>
  The answer a member's join has been given for the present generation: the same generation,
  protocol and leader for all, and the member list for the leader alone.
\<close>

definition join_answer :: "group \<Rightarrow> string \<Rightarrow> completed_join" where
  "join_answer g i =
     \<lparr>cj_rebalance_epoch = g_rebalance_epoch g,
      cj_result =
        \<lparr>jg_generation_id = g_generation_id g, jg_protocol_type = g_protocol_type g,
         jg_protocol_name = g_selected_protocol g, jg_leader = g_leader_member_id g,
         jg_member_id = i,
         jg_members = (if i = g_leader_member_id g then members_for_leader g else [])\<rparr>\<rparr>"

definition agreed :: "group \<Rightarrow> bool" where
  "agreed g \<longleftrightarrow>
     select_protocol (g_members g) = Inr (g_selected_protocol g) \<and>
     (\<forall>(i, m) \<in> set (g_members g).
        m_joined_epoch m = g_rebalance_epoch g \<and> m_completed_join m = Some (join_answer g i))"

definition all_synced :: "group \<Rightarrow> bool" where
  "all_synced g \<longleftrightarrow> (\<forall>(i, m) \<in> set (g_members g). m_synced_generation m = g_generation_id g)"

text \<open>What holds of the members in every state but \<open>Empty\<close>.\<close>

definition members_ok :: "group \<Rightarrow> bool" where
  "members_ok g \<longleftrightarrow>
     hm_ok (g_members g) \<and> [] \<notin> keys (g_members g) \<and> g_members g \<noteq> [] \<and>
     g_protocol_type g \<noteq> [] \<and> common_set (g_members g) \<noteq> {}"

definition group_ok :: "group \<Rightarrow> bool" where
  "group_ok g \<longleftrightarrow>
     (case g_state g of
        Empty \<Rightarrow> g_members g = [] \<and> g_leader_member_id g = [] \<and> g_protocol_type g = [] \<and>
          g_selected_protocol g = [] \<and> g_assignments g = [] \<and> g_rebalance_deadline g = None
      | PreparingRebalance \<Rightarrow> members_ok g \<and> g_leader_member_id g \<in> keys (g_members g) \<and>
          g_assignments g = [] \<and> g_rebalance_deadline g \<noteq> None
      | CompletingRebalance \<Rightarrow> members_ok g \<and> g_leader_member_id g \<in> keys (g_members g) \<and>
          g_assignments g = [] \<and> g_rebalance_deadline g \<noteq> None \<and> agreed g
      | Stable \<Rightarrow> members_ok g \<and> g_leader_member_id g \<in> keys (g_members g) \<and>
          hm_ok (g_assignments g) \<and> keys (g_assignments g) = keys (g_members g) \<and>
          (g_rebalance_deadline g = None \<longleftrightarrow> all_synced g) \<and> agreed g)"

lemma group_ok_new [simp]: "group_ok group_new"
  by (simp add: group_ok_def group_new_def)

lemma group_ok_members:
  assumes "group_ok g" and "g_members g \<noteq> []"
  shows "members_ok g \<and> g_leader_member_id g \<in> keys (g_members g) \<and> g_state g \<noteq> Empty"
  using assms by (auto simp: group_ok_def split: group_state.splits)

lemma members_ok_cong:
  assumes "same_protocols (g_members g) (g_members g')" and "g_protocol_type g' = g_protocol_type g"
  shows "members_ok g' = members_ok g"
proof -
  note keys = same_protocols_keys [OF assms(1)]
  then have "keys (g_members g') = keys (g_members g)" by (metis list.set_map)
  moreover have "g_members g' = [] \<longleftrightarrow> g_members g = []" using keys by (metis map_is_Nil_conv)
  ultimately show ?thesis
    by (simp add: members_ok_def hm_ok_def keys assms(2) same_protocols_common_set [OF assms(1)])
qed

lemma group_ok_begin:
  assumes "members_ok g" and "g_leader_member_id g \<in> keys (g_members g)"
  shows "group_ok (begin_rebalance t g)"
  using assms by (simp add: group_ok_def begin_rebalance_def members_ok_def)

section \<open>Every section keeps the invariant\<close>

lemma complete_cases:
  obtains (not_ready) "complete_rebalance_if_ready t g = (Inr False, g)"
      and "g_state g \<noteq> PreparingRebalance \<or> g_members g = [] \<or>
        (\<exists>(i, m) \<in> set (g_members g). m_joined_epoch m \<noteq> g_rebalance_epoch g)"
  | (no_protocol) e where "complete_rebalance_if_ready t g = (Inl e, g)"
      and "g_members g \<noteq> []" and "select_protocol (g_members g) = Inl e"
  | (completed) p g' where "complete_rebalance_if_ready t g = (Inr True, g')"
      and "g_state g = PreparingRebalance"
      and "\<forall>(i, m) \<in> set (g_members g). m_joined_epoch m = g_rebalance_epoch g"
      and "select_protocol (g_members g) = Inr p"
      and "g' = g\<lparr>g_selected_protocol := p,
                  g_generation_id := saturating_add_i32 (g_generation_id g) 1,
                  g_assignments := [], g_state := CompletingRebalance,
                  g_rebalance_deadline := Some (t + group_rebalance_timeout g),
                  g_members := map (\<lambda>(i, m). (i, m\<lparr>m_completed_join := Some (join_answer g' i)\<rparr>))
                    (g_members g)\<rparr>"
proof (cases "g_state g \<noteq> PreparingRebalance \<or> g_members g = [] \<or>
    list_ex (\<lambda>(_, m). m_joined_epoch m \<noteq> g_rebalance_epoch g) (g_members g)")
  case True
  then show ?thesis
    by (intro not_ready) (auto simp: complete_rebalance_if_ready_def list_ex_iff)
next
  case False
  show ?thesis
  proof (cases "select_protocol (g_members g)")
    case (Inl e)
    with False show ?thesis by (intro no_protocol) (auto simp: complete_rebalance_if_ready_def)
  next
    case (Inr p)
    let ?g1 = "g\<lparr>g_selected_protocol := p,
                g_generation_id := saturating_add_i32 (g_generation_id g) 1,
                g_assignments := [], g_state := CompletingRebalance,
                g_rebalance_deadline := Some (t + group_rebalance_timeout g)\<rparr>"
    let ?g' = "?g1\<lparr>g_members := map (\<lambda>(i, m). (i, m\<lparr>m_completed_join := Some (join_answer ?g1 i)\<rparr>))
                 (g_members g)\<rparr>"
    have "members_for_leader ?g' = members_for_leader ?g1"
      by (rule same_protocols_leader_members) (simp_all add: same_protocols_map)
    then have "join_answer ?g' = join_answer ?g1" by (simp add: join_answer_def fun_eq_iff)
    moreover have "complete_rebalance_if_ready t g = (Inr True, ?g')"
      using False Inr by (simp add: complete_rebalance_if_ready_def Let_def join_answer_def)
    ultimately show ?thesis
      using False Inr by (intro completed [of ?g' p]) (auto simp: list_ex_iff)
  qed
qed

lemma group_ok_complete:
  assumes ok: "group_ok g"
  shows "group_ok (snd (complete_rebalance_if_ready t g)) \<and>
    (\<exists>b. fst (complete_rebalance_if_ready t g) = Inr b)"
proof (cases t g rule: complete_cases)
  case not_ready
  then show ?thesis using ok by auto
next
  case (no_protocol e)
  then have "common_set (g_members g) \<noteq> {}"
    using group_ok_members [OF ok] by (simp add: members_ok_def)
  then show ?thesis using no_protocol select_protocol_winner [of "g_members g"] by auto
next
  case (completed p g')
  have prep: "members_ok g" "g_leader_member_id g \<in> keys (g_members g)"
    using ok completed(2) by (simp_all add: group_ok_def)
  have mem: "g_members g' = map (\<lambda>(i, m). (i, m\<lparr>m_completed_join := Some (join_answer g' i)\<rparr>))
      (g_members g)"
    by (subst completed(5)) simp
  have eqs: "g_protocol_type g' = g_protocol_type g" "g_leader_member_id g' = g_leader_member_id g"
    "g_state g' = CompletingRebalance" "g_assignments g' = []" "g_rebalance_deadline g' \<noteq> None"
    "g_selected_protocol g' = p" "g_rebalance_epoch g' = g_rebalance_epoch g"
    by (subst completed(5), simp)+
  have sp: "same_protocols (g_members g) (g_members g')"
    unfolding mem by (rule same_protocols_map) simp
  have "agreed g'"
    using completed(3,4) eqs same_protocols_select [OF sp] by (auto simp: agreed_def mem)
  moreover have "keys (g_members g') = keys (g_members g)"
    using same_protocols_keys [OF sp] by (metis list.set_map)
  ultimately have "group_ok g'"
    using prep eqs members_ok_cong [OF sp] by (simp add: group_ok_def)
  then show ?thesis using completed(1) by auto
qed

lemma min_list_option_in: "xs \<noteq> [] \<Longrightarrow> \<exists>x \<in> set xs. min_list_option xs = Some x \<and> (\<forall>y \<in> set xs. x \<le> y)"
proof (cases xs)
  case (Cons x ys)
  have "fold min ys x \<in> set (x # ys) \<and> (\<forall>y \<in> set (x # ys). fold min ys x \<le> y)"
  proof (induction ys arbitrary: x)
    case (Cons z zs)
    from Cons [of "min z x"] show ?case by (auto simp: min_def split: if_splits)
  qed simp
  with Cons show ?thesis by simp
qed simp

lemma group_ok_transition:
  assumes mem: "g_members g \<noteq> [] \<Longrightarrow> members_ok g \<and> g_state g \<noteq> Empty"
    and dl: "g_state g = PreparingRebalance \<Longrightarrow> g_rebalance_deadline g \<noteq> None"
  shows "group_ok (transition_after_removal t g)"
proof (cases "g_members g = []")
  case True
  then show ?thesis by (simp add: transition_after_removal_def group_ok_def)
next
  case False
  let ?g1 = "if map_of (g_members g) (g_leader_member_id g) = None
             then g\<lparr>g_leader_member_id :=
               (case min_list_option (map fst (g_members g)) of None \<Rightarrow> [] | Some i \<Rightarrow> i)\<rparr> else g"
  obtain i where "i \<in> keys (g_members g)" "min_list_option (map fst (g_members g)) = Some i"
    using min_list_option_in [of "map fst (g_members g)"] False by auto
  then have leader: "g_leader_member_id ?g1 \<in> keys (g_members ?g1)"
    by (auto dest: map_of_Some_keys simp: map_of_eq_None_keys)
  have "members_ok g" "g_state g \<noteq> Empty" using mem False by simp_all
  then have mok: "members_ok ?g1" by (simp add: members_ok_def)
  have eq: "transition_after_removal t g =
      (if g_state ?g1 \<noteq> PreparingRebalance then begin_rebalance t ?g1 else ?g1\<lparr>g_assignments := []\<rparr>)"
    using False by (simp only: transition_after_removal_def if_False Let_def)
  show ?thesis
  proof (cases "g_state g = PreparingRebalance")
    case True
    with mok leader dl show ?thesis
      unfolding eq by (auto simp: group_ok_def members_ok_def)
  next
    case False
    with group_ok_begin [OF mok leader] show ?thesis unfolding eq by simp
  qed
qed

lemma fold_delete_eq:
  "fold AList.delete ks (m :: ('k \<times> 'v) list) = filter (\<lambda>(k, _). k \<notin> set ks) m"
  by (induction ks arbitrary: m) (auto simp: AList.delete_eq intro!: filter_cong)

lemma members_ok_remove:
  assumes "members_ok g" and "set ms \<subseteq> set (g_members g)" and "distinct (map fst ms)" and "ms \<noteq> []"
  shows "members_ok (g\<lparr>g_members := ms, g_assignments := as\<rparr>)"
  using assms common_set_mono [OF assms(2)] by (auto simp: members_ok_def hm_ok_def)

lemma group_ok_deadline:
  "group_ok g \<Longrightarrow> g_state g = PreparingRebalance \<Longrightarrow> g_rebalance_deadline g \<noteq> None"
  by (simp add: group_ok_def)

lemma group_ok_remove:
  assumes ok: "group_ok g" and ms: "set ms \<subseteq> set (g_members g)" "distinct (map fst ms)"
  shows "group_ok (transition_after_removal t (g\<lparr>g_members := ms, g_assignments := as\<rparr>))"
proof (rule group_ok_transition)
  assume "g_members (g\<lparr>g_members := ms, g_assignments := as\<rparr>) \<noteq> []"
  then have ne: "ms \<noteq> []" by simp
  then have "g_members g \<noteq> []" using ms(1) by (cases ms) auto
  from group_ok_members [OF ok this] members_ok_remove [OF _ ms ne, of as] show
    "members_ok (g\<lparr>g_members := ms, g_assignments := as\<rparr>) \<and>
     g_state (g\<lparr>g_members := ms, g_assignments := as\<rparr>) \<noteq> Empty" by simp
qed (use group_ok_deadline [OF ok] in simp)

lemma group_ok_distinct: "group_ok g \<Longrightarrow> distinct (map fst (g_members g))"
  using group_ok_members [of g] by (cases "g_members g = []") (auto simp: members_ok_def hm_ok_def)

lemma group_ok_expire: "group_ok g \<Longrightarrow> group_ok (expire_stale_members ck active g)"
proof -
  assume ok: "group_ok g"
  have "distinct (map fst (filter P (g_members g)))" for P
    using group_ok_distinct [OF ok] by (rule distinct_map_filter)
  then show ?thesis
    using ok by (auto simp: expire_stale_members_def Let_def fold_delete_eq intro!: group_ok_remove)
qed

definition touched :: "(string, member) hash_map \<Rightarrow> (string, member) hash_map \<Rightarrow> bool" where
  "touched ms ms' \<longleftrightarrow> list_all2 (\<lambda>x x'. fst x' = fst x \<and> same_join (snd x) (snd x')) ms ms'"

lemma touched_map: "(\<And>i m. same_join m (f i m)) \<Longrightarrow> touched ms (map (\<lambda>(i, m). (i, f i m)) ms)"
  by (induction ms) (auto simp: touched_def)

lemma touched_refl: "touched ms ms"
  by (simp add: touched_def same_join_def list_all2_same)

lemma touched_map_entry: "(\<And>m. same_join m (f m)) \<Longrightarrow> touched ms (AList.map_entry k f ms)"
proof (induction ms)
  case (Cons x ms)
  then show ?case using touched_refl [of ms] by (cases x) (auto simp: touched_def same_join_def)
qed (simp add: touched_def)

lemma touched_trans: "touched ms ms' \<Longrightarrow> touched ms' ms'' \<Longrightarrow> touched ms ms''"
  unfolding touched_def
  by (rule list_all2_trans [of "\<lambda>x x'. fst x' = fst x \<and> same_join (snd x) (snd x')"])
    (auto simp: same_join_def)

lemma touched_protocols: "touched ms ms' \<Longrightarrow> same_protocols ms ms'"
  unfolding touched_def same_protocols_def
  by (erule list_all2_mono) (simp add: same_join_def)

lemma touched_origin:
  assumes "touched ms ms'" and "x' \<in> set ms'"
  shows "\<exists>x \<in> set ms. fst x' = fst x \<and> same_join (snd x) (snd x')"
  using assms unfolding touched_def by (induction rule: list_all2_induct) auto

text \<open>A section that only touches members leaves everything the members agreed on.\<close>

definition same_round :: "group \<Rightarrow> group \<Rightarrow> bool" where
  "same_round g g' \<longleftrightarrow>
     touched (g_members g) (g_members g') \<and> g_selected_protocol g' = g_selected_protocol g \<and>
     g_rebalance_epoch g' = g_rebalance_epoch g \<and> g_generation_id g' = g_generation_id g \<and>
     g_protocol_type g' = g_protocol_type g \<and> g_leader_member_id g' = g_leader_member_id g"

lemma same_round_facts:
  assumes "same_round g g'"
  shows "members_ok g' = members_ok g" and "keys (g_members g') = keys (g_members g)"
    and "agreed g \<Longrightarrow> agreed g'"
proof -
  have sp: "same_protocols (g_members g) (g_members g')"
    using assms by (simp add: same_round_def touched_protocols)
  show "members_ok g' = members_ok g" "keys (g_members g') = keys (g_members g)"
    using members_ok_cong [OF sp] same_protocols_keys [OF sp] assms
    by (simp_all add: same_round_def) (metis list.set_map)
  have ans: "join_answer g' = join_answer g"
    using assms same_protocols_leader_members [OF sp]
    by (simp add: same_round_def join_answer_def fun_eq_iff)
  show "agreed g'" if ag: "agreed g"
  proof -
    have "m_joined_epoch (snd x') = g_rebalance_epoch g \<and>
        m_completed_join (snd x') = Some (join_answer g (fst x'))" if x': "x' \<in> set (g_members g')" for x'
    proof -
      obtain x where "x \<in> set (g_members g)" "fst x' = fst x" "same_join (snd x) (snd x')"
        using touched_origin [OF _ x', of "g_members g"] assms
        by (auto simp: same_round_def)
      then show ?thesis using ag by (auto simp: agreed_def same_join_def split_beta)
    qed
    then show ?thesis
      using ag assms same_protocols_select [OF sp]
      by (auto simp: agreed_def ans same_round_def)
  qed
qed

lemma group_ok_touch:
  assumes ok: "group_ok g" and round: "same_round g g'" and "g_state g' = g_state g"
    and "g_assignments g' = g_assignments g" and "g_rebalance_deadline g' = g_rebalance_deadline g"
    and "g_state g = Stable \<Longrightarrow> all_synced g' = all_synced g"
  shows "group_ok g'"
proof -
  have "g_members g' = [] \<longleftrightarrow> g_members g = []"
    using round by (auto simp: same_round_def touched_def)
  then show ?thesis
    using assms same_round_facts [OF round]
    by (auto simp: group_ok_def same_round_def split: group_state.splits)
qed

lemma same_round_modify:
  "(\<And>m. same_join m (f m)) \<Longrightarrow> same_round g (g\<lparr>g_members := AList.map_entry i f (g_members g)\<rparr>)"
  by (simp add: same_round_def touched_map_entry)

lemma set_map_entry:
  assumes "distinct (map fst ms)"
  shows "(\<forall>(i, m) \<in> set (AList.map_entry k f ms). P i m) \<longleftrightarrow>
    (\<forall>(i, m) \<in> set ms. P i (if i = k then f m else m))"
  using assms by (induction ms) (auto simp: image_iff, force+)

lemma group_ok_heartbeat_member:
  assumes "group_ok g"
  shows "group_ok (g\<lparr>g_members := AList.map_entry i (\<lambda>m. m\<lparr>m_last_heartbeat := t\<rparr>) (g_members g)\<rparr>)"
proof (rule group_ok_touch [OF assms])
  show "same_round g (g\<lparr>g_members :=
      AList.map_entry i (\<lambda>m. m\<lparr>m_last_heartbeat := t\<rparr>) (g_members g)\<rparr>)"
    by (rule same_round_modify) (simp add: same_join_def)
  show "all_synced (g\<lparr>g_members := AList.map_entry i (\<lambda>m. m\<lparr>m_last_heartbeat := t\<rparr>) (g_members g)\<rparr>)
      = all_synced g"
    using group_ok_distinct [OF assms] by (simp add: all_synced_def set_map_entry if_distrib)
qed simp_all

lemma group_ok_sync_member:
  assumes ok: "group_ok g" and st: "g_state g = Stable" and gen: "n = g_generation_id g"
  shows "group_ok (clear_rebalance_deadline_if_all_synced
    (g\<lparr>g_members := AList.map_entry i (\<lambda>m. m\<lparr>m_synced_generation := n\<rparr>) (g_members g)\<rparr>))"
proof -
  let ?g1 = "g\<lparr>g_members := AList.map_entry i (\<lambda>m. m\<lparr>m_synced_generation := n\<rparr>) (g_members g)\<rparr>"
  let ?g2 = "clear_rebalance_deadline_if_all_synced ?g1"
  have mono: "all_synced g \<Longrightarrow> all_synced ?g1"
    using group_ok_distinct [OF ok] by (auto simp: all_synced_def set_map_entry gen)
  have g2: "?g2 = (if all_synced ?g1 then ?g1\<lparr>g_rebalance_deadline := None\<rparr> else ?g1)"
    by (simp add: clear_rebalance_deadline_if_all_synced_def all_synced_def list_all_iff)
  have round: "same_round g ?g2"
    using same_round_modify [of "\<lambda>m. m\<lparr>m_synced_generation := n\<rparr>" g i]
    unfolding g2 by (simp add: same_round_def same_join_def)
  have "all_synced ?g2 = all_synced ?g1" unfolding g2 by (simp add: all_synced_def)
  then have "g_rebalance_deadline ?g2 = None \<longleftrightarrow> all_synced ?g2"
    using ok st mono unfolding g2 by (auto simp: group_ok_def)
  moreover have "g_state ?g2 = Stable" "g_assignments ?g2 = g_assignments g"
    "g_leader_member_id ?g2 = g_leader_member_id g"
    using st unfolding g2 by simp_all
  ultimately show ?thesis
    using ok st same_round_facts [OF round] by (simp add: group_ok_def)
qed

lemma assignments_cover_keys:
  assumes "assignments_cover as g" and "distinct (map fst (g_members g))"
  shows "distinct (map sa_member_id as) \<and> set (map sa_member_id as) = keys (g_members g)"
proof -
  let ?ids = "map sa_member_id as"
  from assms(1) have len: "length (remdups ?ids) = length ?ids" "length ?ids = length (g_members g)"
    and sub: "keys (g_members g) \<subseteq> set ?ids"
    by (auto simp: assignments_cover_def Let_def list_all_iff)
  have dist: "distinct ?ids" using len(1) by (metis length_remdups_eq remdups_id_iff_distinct)
  have "card (keys (g_members g)) = length (g_members g)"
    using assms(2) distinct_card [of "map fst (g_members g)"] by simp
  moreover have "card (set ?ids) = length (g_members g)"
    using distinct_card [OF dist] len(2) by simp
  ultimately have "keys (g_members g) = set ?ids"
    using sub by (intro card_subset_eq) simp_all
  with dist show ?thesis by simp
qed

text \<open>The leader's assignment makes the group stable.\<close>

definition stabilise :: "i32 \<Rightarrow> string \<Rightarrow> sync_assignment list \<Rightarrow> instant \<Rightarrow> group \<Rightarrow> group" where
  "stabilise n i as now g =
     clear_rebalance_deadline_if_all_synced
       (g\<lparr>g_assignments := map (\<lambda>a. (sa_member_id a, sa_assignment a)) as,
          g_members := map (\<lambda>(j, m). (j, if m_synced_generation m = n
                                        then m\<lparr>m_last_heartbeat := now\<rparr> else m))
            (AList.map_entry i (\<lambda>m. m\<lparr>m_synced_generation := n\<rparr>) (g_members g)),
          g_state := Stable\<rparr>)"

lemma group_ok_stabilise:
  assumes ok: "group_ok g" and st: "g_state g = CompletingRebalance" and "assignments_cover as g"
  shows "group_ok (stabilise n i as now g)"
proof -
  let ?ms = "map (\<lambda>(j, m). (j, if m_synced_generation m = n then m\<lparr>m_last_heartbeat := now\<rparr> else m))
     (AList.map_entry i (\<lambda>m. m\<lparr>m_synced_generation := n\<rparr>) (g_members g))"
  let ?as = "map (\<lambda>a. (sa_member_id a, sa_assignment a)) as"
  let ?g1 = "g\<lparr>g_assignments := ?as, g_members := ?ms, g_state := Stable\<rparr>"
  have g2: "stabilise n i as now g =
      (if all_synced ?g1 then ?g1\<lparr>g_rebalance_deadline := None\<rparr> else ?g1)"
    by (simp add: stabilise_def clear_rebalance_deadline_if_all_synced_def all_synced_def list_all_iff)
  have "touched (g_members g) ?ms"
    by (rule touched_trans [OF touched_map_entry touched_map]) (auto simp: same_join_def)
  then have round: "same_round g (stabilise n i as now g)"
    unfolding g2 by (simp add: same_round_def)
  have "map fst ?as = map sa_member_id as" by simp
  then have "hm_ok ?as" "keys ?as = keys (g_members g)"
    using assignments_cover_keys [OF assms(3) group_ok_distinct [OF ok]]
    by (auto simp: hm_ok_def image_image comp_def)
  moreover have "g_rebalance_deadline (stabilise n i as now g) = None \<longleftrightarrow>
      all_synced (stabilise n i as now g)"
    using ok st unfolding g2 by (auto simp: group_ok_def all_synced_def)
  moreover have "g_state (stabilise n i as now g) = Stable"
    "g_assignments (stabilise n i as now g) = ?as"
    "g_leader_member_id (stabilise n i as now g) = g_leader_member_id g"
    unfolding g2 by simp_all
  ultimately show ?thesis
    using ok st same_round_facts [OF round] by (simp add: group_ok_def)
qed

lemma modify_member_eq:
  "map_of (g_members g) i \<noteq> None \<Longrightarrow>
   modify_member msg i f g = Inr (g\<lparr>g_members := AList.map_entry i f (g_members g)\<rparr>)"
  by (auto simp: modify_member_def)

lemma validate_member_Inr:
  "validate_member_and_generation g n i = Inr () \<longleftrightarrow>
     map_of (g_members g) i \<noteq> None \<and> g_generation_id g = n"
  by (auto simp: validate_member_and_generation_def)

abbreviation touch_member :: "instant \<Rightarrow> string \<Rightarrow> group \<Rightarrow> group" where
  "touch_member t i g \<equiv>
     g\<lparr>g_members := AList.map_entry i (\<lambda>m. m\<lparr>m_last_heartbeat := t\<rparr>) (g_members g)\<rparr>"

abbreviation mark_synced :: "i32 \<Rightarrow> string \<Rightarrow> group \<Rightarrow> group" where
  "mark_synced n i g \<equiv>
     g\<lparr>g_members := AList.map_entry i (\<lambda>m. m\<lparr>m_synced_generation := n\<rparr>) (g_members g)\<rparr>"

definition assignment_of :: "group \<Rightarrow> string \<Rightarrow> group_error + bytes" where
  "assignment_of g i =
     (case map_of (g_assignments g) i of None \<Rightarrow> Inl RebalanceInProgress | Some a \<Rightarrow> Inr a)"

lemma clear_deadline_assignments [simp]:
  "g_assignments (clear_rebalance_deadline_if_all_synced g) = g_assignments g"
  by (simp add: clear_rebalance_deadline_if_all_synced_def)

text \<open>The sync section branch by branch; it never panics.\<close>

lemma sync_poll_eq:
  fixes g0 ck i refresh
  defines "g \<equiv> expire_stale_members ck (if refresh then None else Some i) g0"
  defines "g1 \<equiv> (if refresh then touch_member (ck_now ck) i g else g)"
  shows "sync_poll n i as refresh ck g0 =
    (case validate_member_and_generation g n i of
       Inl e \<Rightarrow> Inr (Some (Inl e), g)
     | Inr _ \<Rightarrow>
        (case g_state g of
           Stable \<Rightarrow> Inr (Some (assignment_of g i),
             clear_rebalance_deadline_if_all_synced (mark_synced n i g1))
         | CompletingRebalance \<Rightarrow>
             if i = g_leader_member_id g then
               if assignments_cover as g1
               then Inr (Some (assignment_of (stabilise n i as (ck_now ck) g1) i),
                         stabilise n i as (ck_now ck) g1)
               else Inr (Some (Inl InvalidAssignment), g1)
             else Inr (None, mark_synced n i g1)
         | _ \<Rightarrow> Inr (Some (Inl RebalanceInProgress), g1)))"
proof (cases "validate_member_and_generation g n i")
  case (Inl e)
  then show ?thesis by (simp add: sync_poll_def g_def Let_def)
next
  case (Inr u)
  then have mem: "map_of (g_members g) i \<noteq> None" by (simp add: validate_member_Inr)
  then have mem1: "map_of (g_members g1) i \<noteq> None" by (simp add: g1_def map_of_map_entry)
  have refresh: "(if refresh then modify_member ''validated member'' i
      (\<lambda>m. m\<lparr>m_last_heartbeat := ck_now ck\<rparr>) g else Inr g) = Inr g1"
    using modify_member_eq [OF mem] by (simp add: g1_def)
  have same: "g_state g1 = g_state g" "g_leader_member_id g1 = g_leader_member_id g"
    "g_assignments g1 = g_assignments g"
    by (simp_all add: g1_def)
  note mod = modify_member_eq [OF mem1]
  show ?thesis
    unfolding sync_poll_def Let_def g_def [symmetric] Inr sum.case refresh try_bind_simps mod same
      assignment_of_def stabilise_def
    by (cases "g_state g"; cases "i = g_leader_member_id g"; cases "assignments_cover as g1")
      (simp_all add: same mod)
qed

lemma group_ok_mark_synced:
  assumes "group_ok g" and "g_state g = CompletingRebalance"
  shows "group_ok (mark_synced n i g)"
proof (rule group_ok_touch [OF assms(1)])
  show "same_round g (mark_synced n i g)" by (rule same_round_modify) (simp add: same_join_def)
qed (use assms(2) in simp_all)

lemma group_ok_sync:
  assumes ok: "group_ok g0" and "sync_poll n i as refresh ck g0 = Inr (r, g')"
  shows "group_ok g'"
proof -
  let ?g = "expire_stale_members ck (if refresh then None else Some i) g0"
  let ?g1 = "if refresh then touch_member (ck_now ck) i ?g else ?g"
  have g: "group_ok ?g" by (rule group_ok_expire [OF ok])
  have g1: "group_ok ?g1" "g_state ?g1 = g_state ?g" "g_generation_id ?g1 = g_generation_id ?g"
    using group_ok_heartbeat_member [OF g] g by (cases refresh; simp)+
  show ?thesis
    using assms(2) g g1 group_ok_mark_synced [OF g1(1)] group_ok_sync_member [OF g1(1)] group_ok_stabilise [OF g1(1)]
    unfolding sync_poll_eq
    by (auto simp: validate_member_Inr split: sum.splits group_state.splits if_splits)
qed

lemma group_ok_heartbeat: "group_ok g \<Longrightarrow> group_ok (snd (heartbeat_section n i ck g))"
  by (auto simp: heartbeat_section_def Let_def group_ok_expire
      intro: group_ok_heartbeat_member split: sum.splits)

lemma group_ok_leave: "group_ok g \<Longrightarrow> group_ok (snd (leave_section i ck g))"
proof -
  assume "group_ok g"
  then have g: "group_ok (expire_stale_members ck None g)" by (rule group_ok_expire)
  let ?g = "expire_stale_members ck None g"
  have "group_ok (transition_after_removal (ck_begin ck)
      (?g\<lparr>g_members := AList.delete i (g_members ?g), g_assignments := AList.delete i (g_assignments ?g)\<rparr>))"
    using group_ok_distinct [OF g]
    by (intro group_ok_remove [OF g]) (auto simp: AList.delete_eq distinct_map_filter)
  note group_ok_complete [OF this, of "ck_complete ck"]
  with g show ?thesis by (auto simp: leave_section_def Let_def split: prod.splits sum.splits)
qed

lemma group_ok_commit: "group_ok g \<Longrightarrow> group_ok (snd (commit_section n i os ck g))"
proof -
  assume "group_ok g"
  then have g: "group_ok (expire_stale_members ck None g)" by (rule group_ok_expire)
  have "group_ok (expire_stale_members ck None g\<lparr>g_committed_offsets := cs\<rparr>)" for cs
    by (rule group_ok_touch [OF g]) (simp_all add: same_round_def touched_refl all_synced_def)
  with g show ?thesis by (auto simp: commit_section_def Let_def split: sum.splits)
qed

lemma group_ok_drive: "group_ok g \<Longrightarrow> group_ok (drive_deadlines ck g)"
  using group_ok_complete [OF group_ok_expire] by (simp add: drive_deadlines_def)

lemma group_ok_join_poll: "group_ok g \<Longrightarrow> group_ok (snd (join_poll i e ck g))"
  using group_ok_complete [OF group_ok_expire, of g "ck_complete ck" ck "Some i"]
  by (auto simp: join_poll_def Let_def split: option.splits prod.splits sum.splits)

lemma join_register_cases:
  fixes g0 :: group and request :: join_request and ck :: clock
  defines "g \<equiv> expire_stale_members ck None g0"
  obtains (refused) e where "join_register request may_add ck g0 = Inr (JoinDone (Inl e), g)"
  | (cached) r where "join_register request may_add ck g0 =
        Inr (JoinDone (Inr (Joined r)), touch_member (ck_now ck) (jr_member_id request) g)"
      and "completed_join_of g (jr_member_id request) (g_rebalance_epoch g) = Some r"
      and "g_state g = CompletingRebalance \<or> g_state g = Stable"
  | (registered) p where "join_register request may_add ck g0 =
        Inr (case complete_rebalance_if_ready (ck_complete ck) (add_joining request may_add ck g) of
               (Inl e, g5) \<Rightarrow> (JoinDone (Inl e), g5)
             | (Inr _, g5) \<Rightarrow> (JoinWait (join_target g), g5))"
      and "select_protocol (AList.update (jr_member_id request)
          (joining_member request (ck_now ck) (join_target g)
            (map_of (g_members g) (jr_member_id request))) (g_members g)) = Inr p"
      and "may_add \<or> map_of (g_members g) (jr_member_id request) \<noteq> None"
proof -
  let ?i = "jr_member_id request"
  let ?prior = "map_of (g_members g) ?i"
  let ?reuse = "g_state g = CompletingRebalance \<or> g_state g = Stable \<and> g_leader_member_id g \<noteq> ?i"
  let ?cached = "cached_join request g"
  let ?ms = "AList.update ?i (joining_member request (ck_now ck) (join_target g) ?prior) (g_members g)"
  show ?thesis
  proof (cases "(\<not> may_add \<and> ?prior = None) \<or>
      g_members g \<noteq> [] \<and> g_protocol_type g \<noteq> jr_protocol_type request")
    case True
    then show ?thesis
      by (intro refused [of "if \<not> may_add \<and> ?prior = None then UnknownMemberId
            else InconsistentGroupProtocol"])
        (auto simp: join_register_def Let_def g_def [symmetric])
  next
    case False
    note go = False
    show ?thesis
    proof (cases "?reuse \<and> ?cached \<noteq> None")
      case True
      then obtain r where "?cached = Some r" by auto
      moreover from this have "?prior \<noteq> None"
        "completed_join_of g ?i (g_rebalance_epoch g) = Some r"
        by (auto simp: cached_join_def split: option.splits if_splits)
      ultimately show ?thesis
        using True go modify_member_eq [of g ?i]
        by (intro cached [of r]) (auto simp: join_register_def Let_def g_def [symmetric])
    next
      case False
      have eq: "join_register request may_add ck g0 =
        (case select_protocol ?ms of
           Inl e \<Rightarrow> Inr (JoinDone (Inl e), g)
         | Inr _ \<Rightarrow> Inr (case complete_rebalance_if_ready (ck_complete ck)
                            (add_joining request may_add ck g) of
               (Inl e, g5) \<Rightarrow> (JoinDone (Inl e), g5)
             | (Inr _, g5) \<Rightarrow> (JoinWait (join_target g), g5)))"
        using False go
        by (auto simp: join_register_def Let_def g_def [symmetric] cached_join_def
            split: sum.split prod.split option.split)
      show ?thesis
      proof (cases "select_protocol ?ms")
        case (Inl e)
        then show ?thesis by (intro refused [of e]) (simp add: eq)
      next
        case (Inr p)
        then show ?thesis using go by (intro registered [of p]) (auto simp: eq)
      qed
    qed
  qed
qed

definition valid_join :: "join_request \<Rightarrow> bool" where
  "valid_join request \<longleftrightarrow>
     jr_member_id request \<noteq> [] \<and> jr_protocols request \<noteq> [] \<and> jr_protocol_type request \<noteq> []"

lemma group_ok_add_joining:
  assumes ok: "group_ok g" and req: "valid_join request"
    and sel: "select_protocol (AList.update (jr_member_id request)
          (joining_member request (ck_now ck) (join_target g)
            (map_of (g_members g) (jr_member_id request))) (g_members g)) = Inr p"
  shows "group_ok (add_joining request may_add ck g)"
    and "g_state (add_joining request may_add ck g) = PreparingRebalance"
    and "g_rebalance_epoch (add_joining request may_add ck g) = join_target g"
    and "g_members (add_joining request may_add ck g) = AList.update (jr_member_id request)
          (joining_member request (ck_now ck) (join_target g)
            (map_of (g_members g) (jr_member_id request))) (g_members g)"
proof -
  let ?i = "jr_member_id request"
  let ?m = "joining_member request (ck_now ck) (join_target g) (map_of (g_members g) ?i)"
  let ?ms = "AList.update ?i ?m (g_members g)"
  let ?g = "add_joining request may_add ck g"
  have fields: "g_members ?g = ?ms" "g_state ?g = PreparingRebalance"
    "g_rebalance_epoch ?g = join_target g" "g_protocol_type ?g = jr_protocol_type request"
    "g_leader_member_id ?g = (if g_leader_member_id g = [] then ?i else g_leader_member_id g)"
    by (simp_all add: add_joining_def Let_def begin_rebalance_def extend_rebalance_deadline_def
        join_target_def)
  have "g_state g = PreparingRebalance \<Longrightarrow> g_assignments g = [] \<and> g_rebalance_deadline g \<noteq> None"
    using ok by (simp add: group_ok_def)
  then have dl: "g_assignments ?g = []" "g_rebalance_deadline ?g \<noteq> None"
    by (cases "g_state g = PreparingRebalance";
        simp add: add_joining_def Let_def begin_rebalance_def extend_rebalance_deadline_def)+
  have sel': "?ms \<noteq> []" "common_set ?ms \<noteq> {}" using sel select_protocol_Inr_iff by blast+
  have keys: "keys ?ms = insert ?i (keys (g_members g))" by simp
  have old: "hm_ok (g_members g)" "[] \<notin> keys (g_members g)"
    using group_ok_members [OF ok] by (cases "g_members g = []"; simp add: members_ok_def)+
  have "members_ok ?g"
    using old sel' req by (auto simp: members_ok_def fields keys valid_join_def)
  moreover have "g_leader_member_id ?g \<in> keys (g_members ?g)"
  proof (cases "g_members g = []")
    case True
    with ok have "g_leader_member_id g = []"
      by (auto simp: group_ok_def members_ok_def split: group_state.splits)
    then show ?thesis by (simp add: fields keys)
  next
    case False
    with group_ok_members [OF ok] old show ?thesis by (auto simp: fields keys)
  qed
  ultimately show "group_ok ?g" using dl by (simp add: group_ok_def fields(2))
  show "g_state ?g = PreparingRebalance" "g_rebalance_epoch ?g = join_target g" "g_members ?g = ?ms"
    by (fact fields)+
qed

lemma group_ok_join_register:
  assumes "group_ok g0" and "valid_join request"
    and "join_register request may_add ck g0 = Inr (r, g')"
  shows "group_ok g'"
proof -
  have g: "group_ok (expire_stale_members ck None g0)" by (rule group_ok_expire [OF assms(1)])
  show ?thesis
  proof (cases request may_add ck g0 rule: join_register_cases)
    case (refused e)
    with assms(3) g show ?thesis by simp
  next
    case (cached r)
    with assms(3) group_ok_heartbeat_member [OF g] show ?thesis by auto
  next
    case (registered p)
    obtain out g5 where c: "complete_rebalance_if_ready (ck_complete ck)
        (add_joining request may_add ck (expire_stale_members ck None g0)) = (out, g5)" by fastforce
    have "group_ok g5"
      using group_ok_complete [OF group_ok_add_joining(1) [OF g assms(2) registered(2)]] c
      by (metis snd_conv)
    moreover have "g' = g5" using assms(3) registered(1) c by (auto split: sum.splits)
    ultimately show ?thesis by simp
  qed
qed

text \<open>A join never panics, and never fails to select a protocol once its member is registered.\<close>

lemma join_register_total: "\<exists>r g'. join_register request may_add ck g0 = Inr (r, g')"
  by (cases request may_add ck g0 rule: join_register_cases) (auto split: prod.splits sum.splits)

lemma sync_poll_total: "\<exists>r g'. sync_poll n i as refresh ck g0 = Inr (r, g')"
  unfolding sync_poll_eq by (auto split: sum.splits group_state.splits)

section \<open>All interleavings\<close>

text \<open>
  The critical sections that change a group, in whatever order the tasks get the lock. A join
  registers only after its request has passed the entry checks.
\<close>

datatype group_op =
  JoinRegister join_request bool clock
| JoinPoll string nat clock
| SyncPoll i32 string "sync_assignment list" bool clock
| Heartbeat i32 string clock
| Leave string clock
| Commit i32 string "offset_commit list" clock
| DriveDeadlines clock
| Describe string clock

definition exec_group :: "group_op \<Rightarrow> group \<Rightarrow> group" where
  "exec_group op g =
     (case op of
        JoinRegister request may_add ck \<Rightarrow>
          (if valid_join request
           then case join_register request may_add ck g of Inl _ \<Rightarrow> g | Inr (_, g') \<Rightarrow> g'
           else g)
      | JoinPoll i e ck \<Rightarrow> snd (join_poll i e ck g)
      | SyncPoll n i as refresh ck \<Rightarrow>
          (case sync_poll n i as refresh ck g of Inl _ \<Rightarrow> g | Inr (_, g') \<Rightarrow> g')
      | Heartbeat n i ck \<Rightarrow> snd (heartbeat_section n i ck g)
      | Leave i ck \<Rightarrow> snd (leave_section i ck g)
      | Commit n i os ck \<Rightarrow> snd (commit_section n i os ck g)
      | DriveDeadlines ck \<Rightarrow> drive_deadlines ck g
      | Describe i ck \<Rightarrow> snd (describe_section i ck g))"

lemma group_ok_exec: "group_ok g \<Longrightarrow> group_ok (exec_group op g)"
  by (cases op)
    (auto simp: exec_group_def describe_section_def Let_def group_ok_heartbeat group_ok_leave
      group_ok_commit group_ok_drive group_ok_join_poll group_ok_expire
      split: sum.splits intro: group_ok_join_register group_ok_sync)

interpretation grp: guarded_ops exec_group group_ok
  by unfold_locales (rule group_ok_exec)

end
