(* ===== verification/Broker.thy ===== *)
theory Broker
  imports Producers Topics Group_Props
begin

text \<open>
  The broker's state (\<open>src/src/broker/mod.rs\<close>): its configuration, the topic catalog, the consumer
  group coordinator, the producer coordinator and the append notification. The notification is
  the number of \<open>notify_waiters\<close> calls so far: a waiter registered at count \<open>n\<close> is woken exactly
  when the count has passed \<open>n\<close>. The outcomes of the later calls of \<open>Uuid::new_v4\<close> are part of the
  state, so that handlers thread one value.

  Every handler runs as a sequence of critical sections. They are the \<open>broker_op\<close>s here, and the
  invariant of the whole broker is kept by each of them, hence by every interleaving.
\<close>

section \<open>State\<close>

record broker_state =
  bs_broker_id :: i32
  bs_auto_create_topics :: bool
  bs_force_auto_create_topics :: bool
  bs_topics :: topic_catalog
  bs_groups :: group_coordinator
  bs_producers :: producer_coordinator
  bs_append_notification :: nat
  bs_draws :: "uuid list"

definition broker_new :: "i32 \<Rightarrow> bool \<Rightarrow> bool \<Rightarrow> nat \<Rightarrow> uuid list \<Rightarrow> broker_state" where
  "broker_new broker_id auto_create_topics force_auto_create_topics n draws =
     \<lparr>bs_broker_id = broker_id, bs_auto_create_topics = auto_create_topics,
      bs_force_auto_create_topics = force_auto_create_topics, bs_topics = catalog_new n,
      bs_groups = coordinator_new, bs_producers = producers_new, bs_append_notification = 0,
      bs_draws = draws\<rparr>"

definition notify_append :: "broker_state \<Rightarrow> broker_state" where
  "notify_append b = b\<lparr>bs_append_notification := bs_append_notification b + 1\<rparr>"

section \<open>Critical sections\<close>

datatype broker_op =
  CatalogOp catalog_op
| GroupOp string group_op
| OpenGroup string
| JoinEnter join_request bool
| JoinSettle string string
| AllocateProducer
| NotifyAppend
| ConsumeDraws nat

definition exec_broker :: "(bytes \<Rightarrow> nat) \<Rightarrow> broker_op \<Rightarrow> broker_state \<Rightarrow> broker_state" where
  "exec_broker crc op b =
     (case op of
        CatalogOp cop \<Rightarrow> b\<lparr>bs_topics := exec_catalog crc cop (bs_topics b)\<rparr>
      | GroupOp i gop \<Rightarrow>
          (case find_group (bs_groups b) i of
             None \<Rightarrow> b
           | Some g \<Rightarrow> b\<lparr>bs_groups := put_group i (exec_group gop g) (bs_groups b)\<rparr>)
      | OpenGroup i \<Rightarrow> b\<lparr>bs_groups := group_or_insert i (bs_groups b)\<rparr>
      | JoinEnter request known \<Rightarrow>
          b\<lparr>bs_groups := snd (join_enter request known (bs_groups b))\<rparr>
      | JoinSettle i m \<Rightarrow> b\<lparr>bs_groups := join_settle i m (bs_groups b)\<rparr>
      | AllocateProducer \<Rightarrow> b\<lparr>bs_producers := snd (allocate (bs_producers b))\<rparr>
      | NotifyAppend \<Rightarrow> notify_append b
      | ConsumeDraws n \<Rightarrow> b\<lparr>bs_draws := drop n (bs_draws b)\<rparr>)"

text \<open>The operands an operation is called with fit their types.\<close>

definition op_ok :: "broker_op \<Rightarrow> bool" where
  "op_ok op \<longleftrightarrow> (case op of CatalogOp (CreateExplicit _ p _ _) \<Rightarrow> in_i32 p | _ \<Rightarrow> True)"

definition broker_steps :: "(bytes \<Rightarrow> nat) \<Rightarrow> broker_op list \<Rightarrow> broker_state \<Rightarrow> broker_state" where
  "broker_steps crc = fold (exec_broker crc)"

section \<open>Invariant\<close>

definition coordinator_ok :: "group_coordinator \<Rightarrow> bool" where
  "coordinator_ok c \<longleftrightarrow>
     hm_ok (gc_groups c) \<and> (\<forall>i g. find_group c i = Some g \<longrightarrow> group_ok g)"

definition broker_ok :: "(bytes \<Rightarrow> nat) \<Rightarrow> broker_state \<Rightarrow> bool" where
  "broker_ok crc b \<longleftrightarrow>
     catalog_ok crc (bs_topics b) \<and> coordinator_ok (bs_groups b) \<and> producers_ok (bs_producers b)"

lemma find_group_put [simp]:
  "find_group (put_group i g c) j = (if j = i then Some g else find_group c j)"
  by (simp add: find_group_def put_group_def update_conv')

lemma coordinator_ok_new [simp]: "coordinator_ok coordinator_new"
  by (simp add: coordinator_ok_def coordinator_new_def find_group_def)

lemma coordinator_ok_put:
  "coordinator_ok c \<Longrightarrow> group_ok g \<Longrightarrow> coordinator_ok (put_group i g c)"
  by (auto simp: coordinator_ok_def) (simp add: put_group_def)

lemma coordinator_ok_open: "coordinator_ok c \<Longrightarrow> coordinator_ok (group_or_insert i c)"
  by (simp add: group_or_insert_def coordinator_ok_put split: option.split)

lemma join_enter_groups [simp]: "gc_groups (snd (join_enter request known c)) = gc_groups c"
  by (simp add: join_enter_def allocate_member_id_def Let_def split: option.split)

lemma coordinator_ok_cong:
  "gc_groups c' = gc_groups c \<Longrightarrow> coordinator_ok c' = coordinator_ok c"
  by (simp add: coordinator_ok_def find_group_def)

lemma coordinator_ok_join [simp]:
  "coordinator_ok (snd (join_enter request known c)) = coordinator_ok c"
  "coordinator_ok (join_settle i m c) = coordinator_ok c"
  by (rule coordinator_ok_cong, simp add: join_settle_def)+

lemma coordinator_ok_group: "coordinator_ok c \<Longrightarrow> find_group c i = Some g \<Longrightarrow> group_ok g"
  by (simp add: coordinator_ok_def)

lemma broker_ok_exec: "broker_ok crc b \<Longrightarrow> broker_ok crc (exec_broker crc op b)"
  by (cases op)
    (auto simp: exec_broker_def broker_ok_def notify_append_def catalog_ok_exec coordinator_ok_open
      producers_ok_allocate split: option.split
      intro: coordinator_ok_put group_ok_exec coordinator_ok_group)

interpretation broker: guarded_ops "exec_broker crc" "broker_ok crc" for crc
  by unfold_locales (rule broker_ok_exec)

lemma broker_ok_new:
  "0 < n \<Longrightarrow> broker_ok crc (broker_new broker_id auto_create force_create n draws)"
  by (simp add: broker_ok_def broker_new_def)

section \<open>What a handler may do to the broker\<close>

text \<open>
  A state a handler leaves is reached by critical sections alone. Handlers are composed of steps,
  so this relation is what their lemmas carry.
\<close>

definition reaches :: "(bytes \<Rightarrow> nat) \<Rightarrow> broker_state \<Rightarrow> broker_state \<Rightarrow> bool" where
  "reaches crc b b' \<longleftrightarrow> (\<exists>ops. list_all op_ok ops \<and> b' = broker_steps crc ops b)"

lemma reaches_refl [simp, intro]: "reaches crc b b"
  unfolding reaches_def broker_steps_def by (rule exI [of _ "[]"]) simp

lemma reaches_step:
  assumes "reaches crc b b'" and "op_ok op"
  shows "reaches crc b (exec_broker crc op b')"
proof -
  from assms(1) obtain ops where "list_all op_ok ops" "b' = broker_steps crc ops b"
    by (auto simp: reaches_def)
  with assms(2) show ?thesis
    unfolding reaches_def by (intro exI [of _ "ops @ [op]"]) (simp add: broker_steps_def)
qed

lemma reaches_trans [trans]:
  assumes "reaches crc b b'" and "reaches crc b' b''"
  shows "reaches crc b b''"
proof -
  from assms obtain ops ops' where "list_all op_ok ops" "b' = broker_steps crc ops b"
    "list_all op_ok ops'" "b'' = broker_steps crc ops' b'"
    by (auto simp: reaches_def)
  then show ?thesis
    unfolding reaches_def by (intro exI [of _ "ops @ ops'"]) (simp add: broker_steps_def)
qed

lemma reaches_invariant:
  assumes "reaches crc b b'" and "\<And>op b. op_ok op \<Longrightarrow> I b \<Longrightarrow> I (exec_broker crc op b)" and "I b"
  shows "I b'"
proof -
  from assms(1) obtain ops where "list_all op_ok ops" and b': "b' = fold (exec_broker crc) ops b"
    by (auto simp: reaches_def broker_steps_def)
  then show ?thesis
    unfolding b' using assms(3) by (induction ops arbitrary: b) (simp_all add: assms(2))
qed

lemma reaches_ok: "reaches crc b b' \<Longrightarrow> broker_ok crc b \<Longrightarrow> broker_ok crc b'"
  by (erule reaches_invariant) (rule broker_ok_exec)

lemma reaches_exec [intro]: "op_ok op \<Longrightarrow> reaches crc b (exec_broker crc op b)"
  by (rule reaches_step) simp_all

lemma map_run_reaches:
  assumes "\<And>x s y s'. f x s = Inr (y, s') \<Longrightarrow> reaches crc s s'"
    and "map_run f xs b = Inr (ys, b')"
  shows "reaches crc b b'"
  using map_run_invariant [of xs "reaches crc b" f b ys b'] assms reaches_trans by blast

lemma broker_config [simp]:
  "bs_broker_id (exec_broker crc op b) = bs_broker_id b"
  "bs_auto_create_topics (exec_broker crc op b) = bs_auto_create_topics b"
  "bs_force_auto_create_topics (exec_broker crc op b) = bs_force_auto_create_topics b"
  by (simp_all add: exec_broker_def notify_append_def split: broker_op.split option.split)

lemma reaches_config:
  assumes "reaches crc b b'"
  shows "bs_broker_id b' = bs_broker_id b \<and> bs_auto_create_topics b' = bs_auto_create_topics b \<and>
    bs_force_auto_create_topics b' = bs_force_auto_create_topics b"
  by (rule reaches_invariant [OF assms]) simp_all

lemma exec_catalog_default [simp]: "default_partitions (exec_catalog crc op c) = default_partitions c"
  by (cases op)
    (auto simp: exec_catalog_def create_explicit_def auto_create_write_def set_partition_def
      try_bind_def dest!: insert_topic_Inr split: sum.split option.split prod.split)

lemma metadata_of_broker_exec:
  assumes "metadata_of (bs_topics b) name = Some md"
  shows "metadata_of (bs_topics (exec_broker crc op b)) name = Some md"
  using assms
  by (cases op) (auto simp: exec_broker_def notify_append_def metadata_of_exec split: option.split)

interpretation topics_of: registry "exec_broker crc" "broker_ok crc" "\<lambda>b. metadata_of (bs_topics b)" for crc
  by unfold_locales (simp_all add: broker_ok_exec metadata_of_broker_exec)

lemma reaches_topic:
  assumes "reaches crc b b'" and "broker_ok crc b" and "metadata_of (bs_topics b) name = Some md"
  shows "metadata_of (bs_topics b') name = Some md"
proof -
  from assms(1) obtain ops where "b' = fold (exec_broker crc) ops b"
    by (auto simp: reaches_def broker_steps_def)
  then show ?thesis using topics_of.run_find [OF assms(2,3)] by simp
qed

section \<open>Partition counts\<close>

text \<open>
  Every partition index of a topic fits a signed 32-bit integer. Explicit counts do by type; the
  default comes from the configuration, which allows any positive 32-bit count.
\<close>

definition counts_ok :: "broker_state \<Rightarrow> bool" where
  "counts_ok b \<longleftrightarrow>
     default_partitions (bs_topics b) \<le> 2 ^ 31 \<and>
     (\<forall>name md. metadata_of (bs_topics b) name = Some md \<longrightarrow> tm_partition_count md \<le> 2 ^ 31)"

lemma insert_topic_counts:
  assumes "insert_topic name n c draws = Inr (md, c', draws')"
  shows "metadata_of c' x = (if x = name then Some md else metadata_of c x) \<and> tm_partition_count md = n"
  using metadata_of_insert [OF assms] insert_topic_Inr [OF assms] by simp

lemma counts_ok_exec:
  assumes "counts_ok b" and "op_ok op"
  shows "counts_ok (exec_broker crc op b)"
proof (cases op)
  case (CatalogOp cop)
  have step: "metadata_of (exec_catalog crc cop (bs_topics b)) x = Some md \<Longrightarrow>
      tm_partition_count md \<le> 2 ^ 31" for x md
  proof (cases cop)
    case (CreateExplicit name p r draws)
    moreover from this assms(2) CatalogOp have "p < 2 ^ 31" by (simp add: op_ok_def in_i32_def)
    then have "nat p \<le> 2 ^ 31" by (simp add: nat_le_iff)
    ultimately show "metadata_of (exec_catalog crc cop (bs_topics b)) x = Some md \<Longrightarrow> ?thesis"
      using assms(1)
      by (auto simp: exec_catalog_def counts_ok_def create_explicit_def try_bind_def
          validate_explicit_definition_Inr
          dest!: insert_topic_counts [where x = x] split: sum.splits if_splits prod.splits)
  next
    case (AutoCreateWrite name draws)
    then show "metadata_of (exec_catalog crc cop (bs_topics b)) x = Some md \<Longrightarrow> ?thesis"
      using assms(1)
      by (auto simp: exec_catalog_def counts_ok_def auto_create_write_def
          dest!: insert_topic_counts [where x = x] split: sum.splits option.splits if_splits)
  next
    case (AppendTo t i records)
    then show "metadata_of (exec_catalog crc cop (bs_topics b)) x = Some md \<Longrightarrow> ?thesis"
      using assms(1) by (auto simp: exec_catalog_def counts_ok_def split: option.splits)
  qed
  with assms(1) show ?thesis by (auto simp: counts_ok_def CatalogOp exec_broker_def)
qed (use assms(1) in \<open>auto simp: counts_ok_def exec_broker_def notify_append_def split: option.split\<close>)

lemma reaches_counts: "reaches crc b b' \<Longrightarrow> counts_ok b \<Longrightarrow> counts_ok b'"
  by (erule reaches_invariant) (rule counts_ok_exec)

section \<open>Topic operations on the broker\<close>

text \<open>The catalog operations a handler calls, on the broker's catalog and its draws.\<close>

definition broker_auto_create ::
  "string \<Rightarrow> bool \<Rightarrow> broker_state \<Rightarrow> ((topic_error + topic_metadata option) \<times> broker_state) run" where
  "broker_auto_create name allow b =
     try_bind (get_or_auto_create name allow (bs_topics b) (bs_draws b)) (\<lambda>(out, c, draws).
     Inr (out, b\<lparr>bs_topics := c, bs_draws := draws\<rparr>))"

definition broker_create_explicit ::
  "string \<Rightarrow> i32 \<Rightarrow> i16 \<Rightarrow> broker_state \<Rightarrow> ((topic_error + topic_metadata) \<times> broker_state) run" where
  "broker_create_explicit name partitions replication_factor b =
     try_bind (create_explicit name partitions replication_factor (bs_topics b) (bs_draws b))
       (\<lambda>(out, c, draws). Inr (out, b\<lparr>bs_topics := c, bs_draws := draws\<rparr>))"

text \<open>Both run as one catalog section and the draws it used, and neither panics.\<close>

lemma next_topic_id_draws:
  "next_topic_id c draws = Inr (i, draws') \<Longrightarrow> \<exists>n. draws' = drop n draws"
proof (induction draws)
  case (Cons d draws)
  then show ?case by (auto split: if_splits intro: exI [of _ "Suc _"] exI [of _ 1])
qed simp

lemma next_topic_id_no_panic: "next_topic_id c draws \<noteq> Inl (Panic m)"
  by (induction draws) auto

lemma insert_topic_draws:
  "insert_topic name n c draws = Inr (md, c', draws') \<Longrightarrow> \<exists>k. draws' = drop k draws"
  by (auto simp: insert_topic_def try_bind_Inr Let_def dest: next_topic_id_draws)

lemma insert_topic_no_panic: "insert_topic name n c draws \<noteq> Inl (Panic m)"
  by (auto simp: insert_topic_def try_bind_Inl Let_def next_topic_id_no_panic)

lemma reaches_catalog_draws:
  assumes "c = exec_catalog crc op (bs_topics b)" and "\<exists>k. draws = drop k (bs_draws b)"
    and "op_ok (CatalogOp op)"
  shows "reaches crc b (b\<lparr>bs_topics := c, bs_draws := draws\<rparr>)"
proof -
  from assms obtain k where "b\<lparr>bs_topics := c, bs_draws := draws\<rparr> =
      exec_broker crc (ConsumeDraws k) (exec_broker crc (CatalogOp op) b)"
    by (auto simp: exec_broker_def)
  moreover have "op_ok (ConsumeDraws k)" by (simp add: op_ok_def)
  ultimately show ?thesis using assms(3) by (metis reaches_exec reaches_step)
qed

lemma reaches_same_draws:
  "draws = bs_draws b \<Longrightarrow> c = bs_topics b \<Longrightarrow> reaches crc b (b\<lparr>bs_topics := c, bs_draws := draws\<rparr>)"
  by simp

lemma broker_auto_create_reaches:
  assumes "broker_auto_create name allow b = Inr (out, b')"
  shows "reaches crc b b'"
proof (cases "auto_create_read (bs_topics b) name allow")
  case None
  from assms None obtain md c draws where
    w: "auto_create_write name (bs_topics b) (bs_draws b) = Inr (md, c, draws)"
    and b': "b' = b\<lparr>bs_topics := c, bs_draws := draws\<rparr>"
    by (auto simp: broker_auto_create_def get_or_auto_create_def try_bind_Inr)
  have "c = exec_catalog crc (AutoCreateWrite name (bs_draws b)) (bs_topics b)"
    using w None by (simp add: exec_catalog_def auto_create_read_None)
  moreover have "\<exists>k. draws = drop k (bs_draws b)"
    using w by (auto simp: auto_create_write_def split: option.splits
        dest: insert_topic_draws intro: exI [of _ 0])
  ultimately show ?thesis unfolding b' by (rule reaches_catalog_draws) (simp add: op_ok_def)
next
  case (Some r)
  with assms show ?thesis
    by (auto simp: broker_auto_create_def get_or_auto_create_def)
qed

lemma broker_auto_create_no_panic: "broker_auto_create name allow b \<noteq> Inl (Panic m)"
  by (auto simp: broker_auto_create_def get_or_auto_create_def try_bind_Inl auto_create_write_def
      insert_topic_no_panic split: option.splits)

lemma broker_auto_create_result:
  assumes "broker_auto_create name allow b = Inr (out, b')"
  shows "case out of
      Inl e \<Rightarrow> e = InvalidName \<and> b' = b \<and> validate_name name = Inl InvalidName
    | Inr None \<Rightarrow> b' = b \<and> \<not> allow \<and> metadata_of (bs_topics b) name = None \<and>
        validate_name name = Inr ()
    | Inr (Some md) \<Rightarrow> metadata_of (bs_topics b') name = Some md \<and> validate_name name = Inr ()"
proof (cases "auto_create_read (bs_topics b) name allow")
  case None
  from assms None obtain md c draws where
    "auto_create_write name (bs_topics b) (bs_draws b) = Inr (md, c, draws)"
    and "b' = b\<lparr>bs_topics := c, bs_draws := draws\<rparr>" and "out = Inr (Some md)"
    by (auto simp: broker_auto_create_def get_or_auto_create_def try_bind_Inr)
  with None show ?thesis
    by (simp add: metadata_of_auto_create_write auto_create_read_None)
next
  case (Some r)
  with assms show ?thesis
    by (auto simp: broker_auto_create_def get_or_auto_create_def auto_create_read_def
        metadata_of_def validate_name_def split: sum.splits option.splits if_splits)
qed

lemma broker_create_explicit_reaches:
  assumes "broker_create_explicit name p r b = Inr (out, b')" and "in_i32 p"
  shows "reaches crc b b'"
proof -
  from assms(1) obtain c draws where
    w: "create_explicit name p r (bs_topics b) (bs_draws b) = Inr (out, c, draws)"
    and b': "b' = b\<lparr>bs_topics := c, bs_draws := draws\<rparr>"
    by (auto simp: broker_create_explicit_def try_bind_Inr)
  have "c = exec_catalog crc (CreateExplicit name p r (bs_draws b)) (bs_topics b)"
    using w by (simp add: exec_catalog_def)
  moreover have "\<exists>k. draws = drop k (bs_draws b)"
    using w by (auto simp: create_explicit_def try_bind_Inr split: sum.splits if_splits
        dest: insert_topic_draws intro: exI [of _ 0])
  ultimately show ?thesis
    unfolding b' by (rule reaches_catalog_draws) (simp add: op_ok_def assms(2))
qed

lemma broker_create_explicit_no_panic: "broker_create_explicit name p r b \<noteq> Inl (Panic m)"
  by (auto simp: broker_create_explicit_def create_explicit_def try_bind_Inl insert_topic_no_panic
      split: sum.splits)

section \<open>Enough randomness\<close>

text \<open>
  The next draws are distinct, not nil and not in use, and there are at least \<open>n\<close> of them: what
  \<open>Uuid::new_v4\<close> yields but for collisions, which only make the loop draw again.
\<close>

definition fresh_draws :: "nat \<Rightarrow> broker_state \<Rightarrow> bool" where
  "fresh_draws n b \<longleftrightarrow>
     n \<le> length (bs_draws b) \<and> distinct (bs_draws b) \<and> nil_uuid \<notin> set (bs_draws b) \<and>
     (\<forall>i \<in> set (bs_draws b). map_of (names_by_id (bs_topics b)) i = None)"

lemma fresh_draws_mono: "fresh_draws n b \<Longrightarrow> m \<le> n \<Longrightarrow> fresh_draws m b"
  by (simp add: fresh_draws_def)

lemma insert_topic_fresh:
  assumes "fresh_draws (Suc n) b"
  obtains md c draws where "insert_topic name k (bs_topics b) (bs_draws b) = Inr (md, c, draws)"
    and "fresh_draws n (b\<lparr>bs_topics := c, bs_draws := draws\<rparr>)"
proof -
  from assms obtain d draws where d: "bs_draws b = d # draws"
    by (cases "bs_draws b") (auto simp: fresh_draws_def)
  with assms show ?thesis
    by (intro that)
      (auto simp: insert_topic_def fresh_draws_def Let_def update_conv' split: if_splits)
qed

lemma broker_auto_create_total:
  assumes "fresh_draws (Suc n) b"
  shows "\<exists>out b'. broker_auto_create name allow b = Inr (out, b') \<and> fresh_draws n b'"
proof (cases "auto_create_read (bs_topics b) name allow")
  case None
  obtain md c draws where
    "insert_topic name (default_partitions (bs_topics b)) (bs_topics b) (bs_draws b) = Inr (md, c, draws)"
    "fresh_draws n (b\<lparr>bs_topics := c, bs_draws := draws\<rparr>)"
    using insert_topic_fresh [OF assms] .
  moreover from None have "map_of (topics_by_name (bs_topics b)) name = None"
    by (simp add: auto_create_read_None)
  ultimately show ?thesis
    by (simp add: broker_auto_create_def get_or_auto_create_def auto_create_write_def None)
next
  case (Some r)
  with fresh_draws_mono [OF assms, of n] show ?thesis
    by (simp add: broker_auto_create_def get_or_auto_create_def)
qed

lemma broker_create_explicit_total:
  assumes "fresh_draws (Suc n) b"
  shows "\<exists>out b'. broker_create_explicit name p r b = Inr (out, b') \<and> fresh_draws n b'"
proof (cases "validate_explicit_definition name p r")
  case (Inl e)
  with fresh_draws_mono [OF assms, of n] show ?thesis
    by (simp add: broker_create_explicit_def create_explicit_def)
next
  case (Inr k)
  obtain md c draws where
    "insert_topic name k (bs_topics b) (bs_draws b) = Inr (md, c, draws)"
    "fresh_draws n (b\<lparr>bs_topics := c, bs_draws := draws\<rparr>)"
    using insert_topic_fresh [OF assms] .
  with Inr fresh_draws_mono [OF assms, of n] show ?thesis
    by (auto simp: broker_create_explicit_def create_explicit_def)
qed

lemma fresh_draws_cong:
  "bs_draws b' = bs_draws b \<Longrightarrow> names_by_id (bs_topics b') = names_by_id (bs_topics b) \<Longrightarrow>
     fresh_draws n b' = fresh_draws n b"
  by (simp add: fresh_draws_def)

end
