(* ===== verification/Produce.thy ===== *)
theory Produce
  imports Broker Errors Messages_Log
begin

text \<open>
  The Produce, ListOffsets and InitProducerId handlers (\<open>src/src/kafka/produce.rs\<close>,
  \<open>list_offsets.rs\<close>, \<open>init_producer_id.rs\<close>). A handler returns its response and the broker it leaves;
  \<open>unreachable!\<close> is a panic, and the lemmas show that no request reaches one. \<open>crc\<close> is the CRC-32C of
  the \<open>crc32c\<close> crate.
\<close>

section \<open>Produce\<close>

definition produce_error_partition :: "i32 \<Rightarrow> response_error \<Rightarrow> partition_produce_response" where
  "produce_error_partition index e =
     partition_produce_response_default
       \<lparr>pprs_index := index, pprs_error_code := code e, pprs_base_offset := - 1,
        pprs_log_append_time_ms := - 1, pprs_log_start_offset := 0\<rparr>"

definition append_error_response :: "append_error \<Rightarrow> response_error" where
  "append_error_response e =
     (case e of
        UnsupportedBatch \<Rightarrow> Error ''UnsupportedForMessageFormat''
      | Malformed \<Rightarrow> Error ''CorruptMessage''
      | OffsetOverflow \<Rightarrow> Error ''CorruptMessage''
      | OutOfOrderSequence \<Rightarrow> Error ''OutOfOrderSequenceNumber''
      | DuplicateSequence \<Rightarrow> Error ''DuplicateSequenceNumber'')"

definition producer_error_response :: "producer_error \<Rightarrow> response_error" where
  "producer_error_response e =
     (case e of
        UnknownProducerId \<Rightarrow> Error ''UnknownProducerId''
      | InvalidProducerEpoch \<Rightarrow> Error ''InvalidProducerEpoch''
      | IdExhausted \<Rightarrow> Error ''UnknownServerError'')"

text \<open>The identity check between inspection and append; \<open>Some\<close> error ends the request there.\<close>

definition check_producer :: "broker_state \<Rightarrow> record_set_producer option \<Rightarrow> response_error option" where
  "check_producer b producer =
     (case producer of
        None \<Rightarrow> None
      | Some p \<Rightarrow>
          (case validate_producer (bs_producers b) (rp_producer_id p) (rp_producer_epoch p) of
             Inl e \<Rightarrow> Some (producer_error_response e)
           | Inr _ \<Rightarrow> None))"

text \<open>
  Producing to one partition as a task. It touches the broker four times: the partition is looked up
  and the record set inspected, the producer is validated, the records are appended under the lock of the log, and the
  waiting fetches are notified. Other tasks may run between any two of these turns, so each is a turn of its own, and
  the task says what it will do next. The handle on the log that the lookup returns
  stays valid, because no partition is ever removed: the append finds it again under its name and index.
\<close>

datatype produce_task =
  Inspecting string partition_produce_data
| Validating string i32 bytes "record_set_producer option"
| Appending string i32 bytes
| Appended i32 append_result
| Produced partition_produce_response

definition produce_turn ::
  "(bytes \<Rightarrow> nat) \<Rightarrow> produce_task \<Rightarrow> broker_state \<Rightarrow> (produce_task \<times> broker_state) run" where
  "produce_turn crc task b =
     (case task of
        Inspecting topic request \<Rightarrow>
          (let index = ppd_index request
           in case catalog_partition (bs_topics b) topic index of
                None \<Rightarrow> Inr (Produced (produce_error_partition index (Error ''UnknownTopicOrPartition'')), b)
              | Some _ \<Rightarrow>
           case ppd_records request of
             None \<Rightarrow> Inr (Produced (produce_error_partition index (Error ''CorruptMessage'')), b)
           | Some records \<Rightarrow>
           case record_set_producer crc records of
             Inl e \<Rightarrow>
               if e = OutOfOrderSequence \<or> e = DuplicateSequence
               then Inl (Panic ''record set inspection does not validate producer sequences'')
               else Inr (Produced (produce_error_partition index (append_error_response e)), b)
           | Inr producer \<Rightarrow> Inr (Validating topic index records producer, b))
      | Validating topic index records producer \<Rightarrow>
          (case check_producer b producer of
             Some e \<Rightarrow> Inr (Produced (produce_error_partition index e), b)
           | None \<Rightarrow> Inr (Appending topic index records, b))
      | Appending topic index records \<Rightarrow>
          (case catalog_partition (bs_topics b) topic index of
             None \<Rightarrow> Inr (Produced (produce_error_partition index (Error ''UnknownTopicOrPartition'')), b)
           | Some log \<Rightarrow>
               (case log_append crc records log of
                  (out, log') \<Rightarrow>
                    Inr (case out of
                           Inl e \<Rightarrow> Produced (produce_error_partition index (append_error_response e))
                         | Inr result \<Rightarrow> Appended index result,
                         b\<lparr>bs_topics := set_partition topic index log' (bs_topics b)\<rparr>)))
      | Appended index result \<Rightarrow>
          Inr (Produced
                 (partition_produce_response_default
                    \<lparr>pprs_index := index, pprs_base_offset := ar_base_offset result,
                     pprs_log_append_time_ms := - 1, pprs_log_start_offset := 0\<rparr>),
               if ar_appended result then notify_append b else b)
      | Produced response \<Rightarrow> Inr (Produced response, b))"

fun turns_left :: "produce_task \<Rightarrow> nat" where
  "turns_left (Inspecting _ _) = 4"
| "turns_left (Validating _ _ _ _) = 3"
| "turns_left (Appending _ _ _) = 2"
| "turns_left (Appended _ _) = 1"
| "turns_left (Produced _) = 0"

lemma produce_turn_progress:
  "produce_turn crc task b = Inr (task', b') \<Longrightarrow> turns_left task \<noteq> 0 \<Longrightarrow> turns_left task' < turns_left task"
  by (cases task) (auto simp: produce_turn_def Let_def split: option.splits sum.splits if_splits prod.splits)

text \<open>The task run to its end with nothing in between: what \<open>produce_partition\<close> does on a broker at rest.\<close>

function produce_run ::
  "(bytes \<Rightarrow> nat) \<Rightarrow> produce_task \<Rightarrow> broker_state \<Rightarrow> (partition_produce_response \<times> broker_state) run" where
  "produce_run crc task b =
     (case task of
        Produced response \<Rightarrow> Inr (response, b)
      | _ \<Rightarrow>
          (case produce_turn crc task b of
             Inl e \<Rightarrow> Inl e
           | Inr (task', b') \<Rightarrow> produce_run crc task' b'))"
  by pat_completeness auto
termination
  by (relation "measure (\<lambda>(crc, task, b). turns_left task)") (auto dest: produce_turn_progress)

declare produce_run.simps [simp del]

definition produce_partition ::
  "(bytes \<Rightarrow> nat) \<Rightarrow> string \<Rightarrow> partition_produce_data \<Rightarrow> broker_state \<Rightarrow>
   (partition_produce_response \<times> broker_state) run" where
  "produce_partition crc topic request b = produce_run crc (Inspecting topic request) b"

text \<open>The turns composed.\<close>

lemma produce_partition_eq:
  "produce_partition crc topic request b =
     (let index = ppd_index request
      in case catalog_partition (bs_topics b) topic index of
           None \<Rightarrow> Inr (produce_error_partition index (Error ''UnknownTopicOrPartition''), b)
         | Some log \<Rightarrow>
      case ppd_records request of
        None \<Rightarrow> Inr (produce_error_partition index (Error ''CorruptMessage''), b)
      | Some records \<Rightarrow>
      case record_set_producer crc records of
        Inl e \<Rightarrow>
          if e = OutOfOrderSequence \<or> e = DuplicateSequence
          then Inl (Panic ''record set inspection does not validate producer sequences'')
          else Inr (produce_error_partition index (append_error_response e), b)
      | Inr producer \<Rightarrow>
      case check_producer b producer of
        Some e \<Rightarrow> Inr (produce_error_partition index e, b)
      | None \<Rightarrow>
      case log_append crc records log of
        (Inl e, log') \<Rightarrow>
          Inr (produce_error_partition index (append_error_response e),
               b\<lparr>bs_topics := set_partition topic index log' (bs_topics b)\<rparr>)
      | (Inr result, log') \<Rightarrow>
          let b' = b\<lparr>bs_topics := set_partition topic index log' (bs_topics b)\<rparr>
          in Inr (partition_produce_response_default
                    \<lparr>pprs_index := index, pprs_base_offset := ar_base_offset result,
                     pprs_log_append_time_ms := - 1, pprs_log_start_offset := 0\<rparr>,
                  if ar_appended result then notify_append b' else b'))"
proof -
  note run = produce_run.simps produce_turn_def
  show ?thesis
    by (simp add: produce_partition_def Let_def run [of crc "Inspecting topic request"] run [of crc "Validating t i r p" for t i r p]
        run [of crc "Appending t i r" for t i r] run [of crc "Appended i r" for i r] run [of crc "Produced r" for r]
        split: option.split sum.split prod.split)
qed

definition produce_topic_error ::
  "topic_produce_data \<Rightarrow> response_error option \<Rightarrow> broker_state \<Rightarrow>
   (response_error option \<times> broker_state) run" where
  "produce_topic_error topic request_error b =
     (case request_error of
        Some e \<Rightarrow> Inr (Some e, b)
      | None \<Rightarrow>
          try_bind (broker_auto_create (tpd_name topic) (bs_auto_create_topics b) b) (\<lambda>(out, b').
          case out of
            Inr (Some _) \<Rightarrow> Inr (None, b')
          | Inr None \<Rightarrow> Inr (Some (Error ''UnknownTopicOrPartition''), b')
          | Inl e \<Rightarrow>
              if e = InvalidName then Inr (Some (Error ''InvalidTopicException''), b')
              else Inl (Panic ''topic lookup returned creation-only error'')))"

text \<open>The body of the loop over the partitions of a topic.\<close>

definition produce_one ::
  "(bytes \<Rightarrow> nat) \<Rightarrow> string \<Rightarrow> response_error option \<Rightarrow> partition_produce_data \<Rightarrow> broker_state \<Rightarrow>
   (partition_produce_response \<times> broker_state) run" where
  "produce_one crc topic topic_error request b =
     (case topic_error of
        Some e \<Rightarrow> Inr (produce_error_partition (ppd_index request) e, b)
      | None \<Rightarrow> produce_partition crc topic request b)"

definition produce_topic ::
  "(bytes \<Rightarrow> nat) \<Rightarrow> response_error option \<Rightarrow> topic_produce_data \<Rightarrow> broker_state \<Rightarrow>
   (topic_produce_response \<times> broker_state) run" where
  "produce_topic crc request_error topic b =
     try_bind (produce_topic_error topic request_error b) (\<lambda>(topic_error, b1).
     try_bind
       (map_run (produce_one crc (tpd_name topic) topic_error) (tpd_partition_data topic) b1)
       (\<lambda>(partition_responses, b2).
     Inr (topic_produce_response_default
            \<lparr>tprs_name := tpd_name topic, tprs_partition_responses := partition_responses\<rparr>, b2)))"

definition produce_request_error :: "produce_request \<Rightarrow> response_error option" where
  "produce_request_error request =
     (if \<not> (- 1 \<le> prq_acks request \<and> prq_acks request \<le> 1)
      then Some (Error ''InvalidRequiredAcks'')
      else if prq_transactional_id request \<noteq> None
      then Some (Error ''UnsupportedForMessageFormat'')
      else None)"

definition produce_respond ::
  "(bytes \<Rightarrow> nat) \<Rightarrow> produce_request \<Rightarrow> broker_state \<Rightarrow> (produce_response \<times> broker_state) run" where
  "produce_respond crc request b =
     try_bind (map_run (produce_topic crc (produce_request_error request)) (prq_topic_data request) b)
       (\<lambda>(responses, b').
     Inr (produce_response_default\<lparr>prs_responses := responses, prs_throttle_time_ms := 0\<rparr>, b'))"

section \<open>List offsets\<close>

definition list_offsets_error_partition :: "i32 \<Rightarrow> response_error \<Rightarrow> list_offsets_partition_response" where
  "list_offsets_error_partition index e =
     list_offsets_partition_response_default
       \<lparr>loprs_partition_index := index, loprs_error_code := code e, loprs_timestamp := - 1,
        loprs_offset := - 1, loprs_leader_epoch := - 1\<rparr>"

definition list_offsets_partition_respond ::
  "string \<Rightarrow> list_offsets_partition \<Rightarrow> broker_state \<Rightarrow> list_offsets_partition_response" where
  "list_offsets_partition_respond topic request b =
     (let index = lop_partition_index request
      in case catalog_partition (bs_topics b) topic index of
           None \<Rightarrow> list_offsets_error_partition index (Error ''UnknownTopicOrPartition'')
         | Some log \<Rightarrow>
             let found = (\<lambda>offset. list_offsets_partition_response_default
                   \<lparr>loprs_partition_index := index, loprs_timestamp := - 1,
                    loprs_offset := offset, loprs_leader_epoch := - 1\<rparr>)
             in if lop_timestamp request = - 2 then found 0
                else if lop_timestamp request = - 1 then found (next_offset log)
                else list_offsets_error_partition index (Error ''UnsupportedForMessageFormat''))"

definition list_offsets_respond :: "list_offsets_request \<Rightarrow> broker_state \<Rightarrow> list_offsets_response" where
  "list_offsets_respond request b =
     list_offsets_response_default
       \<lparr>lors_throttle_time_ms := 0,
        lors_topics :=
          map (\<lambda>topic. list_offsets_topic_response_default
                 \<lparr>lotrs_name := lot_name topic,
                  lotrs_partitions :=
                    map (\<lambda>p. list_offsets_partition_respond (lot_name topic) p b)
                      (lot_partitions topic)\<rparr>)
            (lorq_topics request)\<rparr>"

section \<open>Producer identifiers\<close>

definition init_producer_id_error :: "response_error \<Rightarrow> init_producer_id_response" where
  "init_producer_id_error e =
     init_producer_id_response_default
       \<lparr>ipirs_throttle_time_ms := 0, ipirs_error_code := code e, ipirs_producer_id := - 1,
        ipirs_producer_epoch := - 1\<rparr>"

definition init_producer_id_respond ::
  "init_producer_id_request \<Rightarrow> broker_state \<Rightarrow> init_producer_id_response \<times> broker_state" where
  "init_producer_id_respond request b =
     (if ipirq_transactional_id request \<noteq> None
      then (init_producer_id_error (Error ''UnsupportedForMessageFormat''), b)
      else case allocate (bs_producers b) of
             (Inr identity, producers) \<Rightarrow>
               (init_producer_id_response_default
                  \<lparr>ipirs_throttle_time_ms := 0, ipirs_error_code := 0,
                   ipirs_producer_id := producer_id identity,
                   ipirs_producer_epoch := producer_epoch identity\<rparr>,
                b\<lparr>bs_producers := producers\<rparr>)
           | (Inl _, producers) \<Rightarrow>
               (init_producer_id_error (Error ''UnknownServerError''),
                b\<lparr>bs_producers := producers\<rparr>))"

section \<open>No request panics\<close>

lemma validate_batches_error:
  "validate_batches crc bs = Inl e \<Longrightarrow> e = Malformed \<or> e = UnsupportedBatch"
proof (induction crc bs rule: validate_batches.induct)
  case (1 crc remaining)
  from 1(2) show ?case
    by (subst (asm) validate_batches.simps)
      (auto simp: Let_def try_bind_Inl validate_batch_def split: if_splits option.splits sum.splits
        dest: 1(1) [rotated -1])
qed

lemma record_set_producer_error:
  "record_set_producer crc records = Inl e \<Longrightarrow> e = Malformed \<or> e = UnsupportedBatch"
  by (auto simp: record_set_producer_def validate_record_set_def try_bind_Inl Let_def
      split: if_splits dest: validate_batches_error)

lemma produce_partition_total: "\<exists>r b'. produce_partition crc topic request b = Inr (r, b')"
  using record_set_producer_error [of crc]
  by (fastforce simp: produce_partition_eq Let_def split: option.splits sum.splits prod.splits)

lemma produce_topic_error_eq:
  "produce_topic_error topic None b =
     try_bind (broker_auto_create (tpd_name topic) (bs_auto_create_topics b) b) (\<lambda>(out, b').
       Inr (case out of
              Inl _ \<Rightarrow> Some (Error ''InvalidTopicException'')
            | Inr None \<Rightarrow> Some (Error ''UnknownTopicOrPartition'')
            | Inr (Some _) \<Rightarrow> None, b'))"
proof (cases "broker_auto_create (tpd_name topic) (bs_auto_create_topics b) b")
  case (Inr r)
  then show ?thesis
    using broker_auto_create_result [of "tpd_name topic" "bs_auto_create_topics b" b "fst r" "snd r"]
    by (cases r) (auto simp: produce_topic_error_def split: sum.split option.split)
qed (simp add: produce_topic_error_def)

lemma produce_topic_error_Some [simp]: "produce_topic_error topic (Some e) b = Inr (Some e, b)"
  by (simp add: produce_topic_error_def)

lemma produce_topic_error_no_panic: "produce_topic_error topic e b \<noteq> Inl (Panic m)"
  by (cases e) (auto simp: produce_topic_error_eq try_bind_Inl broker_auto_create_no_panic)

section \<open>What producing to one partition does\<close>

lemma map_entry_same: "map_of m k = Some v \<Longrightarrow> f v = v \<Longrightarrow> AList.map_entry k f m = m"
  by (induction m) (auto split: if_splits)

lemma set_partition_same:
  assumes "catalog_partition c topic p = Some log"
  shows "set_partition topic p log c = c"
proof -
  from assms obtain e where "map_of (topics_by_name c) topic = Some e"
    "nat p < length (te_partitions e)" "log = te_partitions e ! nat p"
    by (auto simp: catalog_partition_Some)
  then show ?thesis by (simp add: set_partition_def map_entry_same)
qed

lemma catalog_partition_set:
  assumes "catalog_partition c topic p = Some log"
  shows "catalog_partition (set_partition topic p log' c) topic' q =
    (if topic' = topic \<and> q = p then Some log' else catalog_partition c topic' q)"
proof -
  from assms obtain e where "map_of (topics_by_name c) topic = Some e" "0 \<le> p"
    "nat p < length (te_partitions e)"
    by (auto simp: catalog_partition_Some)
  then show ?thesis
    by (auto simp: catalog_partition_def set_partition_def map_of_map_entry usize_try_from_def
        nth_list_update eq_nat_nat_iff)
qed

lemma produce_partition_cases:
  obtains (refused) e where
      "produce_partition crc topic request b = Inr (produce_error_partition (ppd_index request) e, b)"
      and "code e \<noteq> 0"
  | (stored) log records producer result log' where
      "catalog_partition (bs_topics b) topic (ppd_index request) = Some log"
      and "ppd_records request = Some records"
      and "record_set_producer crc records = Inr producer" and "check_producer b producer = None"
      and "log_append crc records log = (Inr result, log')"
      and "produce_partition crc topic request b =
        Inr (partition_produce_response_default
               \<lparr>pprs_index := ppd_index request, pprs_base_offset := ar_base_offset result,
                pprs_log_append_time_ms := - 1, pprs_log_start_offset := 0\<rparr>,
             (if ar_appended result then notify_append else id)
               (b\<lparr>bs_topics := set_partition topic (ppd_index request) log' (bs_topics b)\<rparr>))"
proof -
  let ?i = "ppd_index request"
  show ?thesis
  proof (cases "catalog_partition (bs_topics b) topic ?i")
    case None
    then show ?thesis by (intro refused [of "Error ''UnknownTopicOrPartition''"]) (simp_all add: produce_partition_eq)
  next
    case log: (Some log)
    show ?thesis
    proof (cases "ppd_records request")
      case None
      with log show ?thesis
        by (intro refused [of "Error ''CorruptMessage''"]) (simp_all add: produce_partition_eq)
    next
      case records: (Some records)
      show ?thesis
      proof (cases "record_set_producer crc records")
        case (Inl e)
        with log records record_set_producer_error [OF Inl] show ?thesis
          by (intro refused [of "append_error_response e"])
            (auto simp: produce_partition_eq append_error_response_def)
      next
        case producer: (Inr producer)
        show ?thesis
        proof (cases "check_producer b producer")
          case (Some e)
          with log records producer show ?thesis
            by (intro refused [of e])
              (auto simp: produce_partition_eq check_producer_def producer_error_response_def
                split: option.splits sum.splits producer_error.splits)
        next
          case check: None
          obtain out log' where app: "log_append crc records log = (out, log')" by fastforce
          show ?thesis
          proof (cases out)
            case (Inl e)
            with app have "log' = log" by (cases crc records log rule: log_append_outcome)
                (auto simp: append_validated_def checked_add_i64_def Let_def split: option.splits)
            with app Inl log records producer check set_partition_same [OF log] show ?thesis
              by (intro refused [of "append_error_response e"])
                (auto simp: produce_partition_eq append_error_response_def split: append_error.splits)
          next
            case (Inr result)
            have app: "log_append crc records log = (Inr result, log')" using app Inr by simp
            show ?thesis
              by (rule stored [OF log records producer check app])
                (simp add: produce_partition_eq Let_def log records producer check app)
          qed
        qed
      qed
    qed
  qed
qed

lemma produce_partition_reaches:
  assumes "produce_partition crc topic request b = Inr (r, b')"
  shows "reaches crc b b'"
proof (cases crc topic request b rule: produce_partition_cases)
  case (refused e)
  with assms show ?thesis by auto
next
  case (stored log records producer result log')
  let ?b = "b\<lparr>bs_topics := set_partition topic (ppd_index request) log' (bs_topics b)\<rparr>"
  have b: "reaches crc b ?b"
    using reaches_exec [of "CatalogOp (AppendTo topic (ppd_index request) records)" crc b] stored
    by (simp add: exec_broker_def exec_catalog_def op_ok_def)
  then have "reaches crc b (notify_append ?b)"
    using reaches_step [OF b, of NotifyAppend] by (simp add: exec_broker_def op_ok_def)
  with b stored(6) assms show ?thesis by (auto split: if_splits)
qed

section \<open>Whole requests\<close>

lemma error_partition_fields [simp]:
  "pprs_index (produce_error_partition i e) = i"
  "pprs_error_code (produce_error_partition i e) = code e"
  "pprs_base_offset (produce_error_partition i e) = - 1"
  by (simp_all add: produce_error_partition_def)

lemma response_default_error [simp]: "pprs_error_code partition_produce_response_default = 0"
  by (simp add: partition_produce_response_default_def)

lemma produce_topic_error_reaches:
  assumes "produce_topic_error topic e b = Inr (r, b')"
  shows "reaches crc b b'"
  using assms
  by (cases e) (auto simp: produce_topic_error_eq try_bind_Inr intro: broker_auto_create_reaches)

lemma produce_partition_fresh:
  assumes "fresh_draws n b" and "produce_partition crc topic request b = Inr (r, b')"
  shows "fresh_draws n b'"
proof (cases crc topic request b rule: produce_partition_cases)
  case (refused e)
  with assms show ?thesis by simp
next
  case (stored log records producer result log')
  from stored(6) assms(2)
  have "bs_draws b' = bs_draws b" "names_by_id (bs_topics b') = names_by_id (bs_topics b)"
    by (auto simp: notify_append_def set_partition_def)
  with assms(1) show ?thesis by (simp add: fresh_draws_def)
qed

lemma produce_topic_Inr:
  "produce_topic crc e topic b = Inr (r, b') \<longleftrightarrow>
     (\<exists>te b1 rs. produce_topic_error topic e b = Inr (te, b1) \<and>
        map_run (produce_one crc (tpd_name topic) te) (tpd_partition_data topic) b1 = Inr (rs, b') \<and>
        r = topic_produce_response_default
              \<lparr>tprs_name := tpd_name topic, tprs_partition_responses := rs\<rparr>)"
  by (auto simp: produce_topic_def try_bind_Inr)

lemma produce_one_total: "\<exists>r b'. produce_one crc topic te request b = Inr (r, b')"
  using produce_partition_total by (simp add: produce_one_def split: option.split)

lemma produce_one_reaches: "produce_one crc topic te request b = Inr (r, b') \<Longrightarrow> reaches crc b b'"
  by (auto simp: produce_one_def split: option.splits intro: produce_partition_reaches)

lemma produce_one_fresh:
  "fresh_draws n b \<Longrightarrow> produce_one crc topic te request b = Inr (r, b') \<Longrightarrow> fresh_draws n b'"
  by (auto simp: produce_one_def split: option.splits intro: produce_partition_fresh)

lemma produce_topic_reaches:
  assumes "produce_topic crc e topic b = Inr (r, b')"
  shows "reaches crc b b'"
proof -
  from assms obtain te b1 rs where err: "produce_topic_error topic e b = Inr (te, b1)"
    and run: "map_run (produce_one crc (tpd_name topic) te) (tpd_partition_data topic) b1 = Inr (rs, b')"
    unfolding produce_topic_Inr by blast
  have "reaches crc b1 b'" by (rule map_run_reaches [OF produce_one_reaches run])
  with produce_topic_error_reaches [OF err] show ?thesis by (rule reaches_trans)
qed

lemma produce_respond_reaches:
  assumes "produce_respond crc request b = Inr (r, b')"
  shows "reaches crc b b'"
  using assms map_run_reaches [OF produce_topic_reaches]
  by (auto simp: produce_respond_def try_bind_Inr)

lemma produce_topic_error_fresh:
  assumes "fresh_draws (Suc n) b"
  shows "\<exists>te b1. produce_topic_error topic e b = Inr (te, b1) \<and> fresh_draws n b1"
proof (cases e)
  case None
  obtain out b' where
    "broker_auto_create (tpd_name topic) (bs_auto_create_topics b) b = Inr (out, b')" "fresh_draws n b'"
    using broker_auto_create_total [OF assms] by blast
  with None show ?thesis by (simp add: produce_topic_error_eq)
qed (use fresh_draws_mono [OF assms, of n] in simp)

lemma produce_topic_total:
  assumes "fresh_draws (Suc n) b"
  shows "\<exists>r b'. produce_topic crc e topic b = Inr (r, b') \<and> fresh_draws n b'"
proof -
  obtain te b1 where te: "produce_topic_error topic e b = Inr (te, b1)" "fresh_draws n b1"
    using produce_topic_error_fresh [OF assms] by blast
  have "\<exists>rs b'. map_run (produce_one crc (tpd_name topic) te) (tpd_partition_data topic) b1 =
      Inr (rs, b') \<and> fresh_draws n b'"
    by (rule map_run_total [where I = "\<lambda>_. fresh_draws n"])
      (use te(2) produce_one_total produce_one_fresh in metis)+
  then show ?thesis using te(1) unfolding produce_topic_Inr by blast
qed

lemma produce_respond_total:
  assumes "fresh_draws (length (prq_topic_data request)) b"
  shows "\<exists>r b'. produce_respond crc request b = Inr (r, b')"
proof -
  have "\<exists>rs b'. map_run (produce_topic crc (produce_request_error request))
      (prq_topic_data request) b = Inr (rs, b') \<and> fresh_draws 0 b'"
    by (rule map_run_total) (use produce_topic_total assms in simp_all)
  then show ?thesis by (auto simp: produce_respond_def)
qed

lemma produce_topic_no_panic: "produce_topic crc e topic b \<noteq> Inl (Panic m)"
proof -
  have "map_run (produce_one crc (tpd_name topic) te) ps b1 \<noteq> Inl (Panic m)" for te ps b1
    by (rule map_run_no_panic) (metis produce_one_total sum.distinct(1))
  then show ?thesis
    by (auto simp: produce_topic_def try_bind_Inl produce_topic_error_no_panic)
qed

lemma produce_respond_no_panic: "produce_respond crc request b \<noteq> Inl (Panic m)"
  using map_run_no_panic [of _ "produce_topic crc (produce_request_error request)" "Panic m",
      OF produce_topic_no_panic]
  by (auto simp: produce_respond_def try_bind_Inl)

section \<open>Properties\<close>

lemma produce_one_index: "produce_one crc topic te request b = Inr (r, b') \<Longrightarrow> pprs_index r = ppd_index request"
  by (cases crc topic request b rule: produce_partition_cases)
    (auto simp: produce_one_def split: option.splits)

definition mirrors :: "topic_produce_data \<Rightarrow> topic_produce_response \<Rightarrow> bool" where
  "mirrors t r \<longleftrightarrow>
     tprs_name r = tpd_name t \<and>
     map pprs_index (tprs_partition_responses r) = map ppd_index (tpd_partition_data t)"

lemma produce_topic_mirrors:
  assumes "produce_topic crc e topic b = Inr (r, b')"
  shows "mirrors topic r"
proof -
  from assms obtain te b1 rs where
    run: "map_run (produce_one crc (tpd_name topic) te) (tpd_partition_data topic) b1 = Inr (rs, b')"
    and r: "r = topic_produce_response_default
      \<lparr>tprs_name := tpd_name topic, tprs_partition_responses := rs\<rparr>"
    unfolding produce_topic_Inr by blast
  have "list_all2 (\<lambda>request r. pprs_index r = ppd_index request) (tpd_partition_data topic) rs"
    by (rule map_run_all2 [OF produce_one_index run])
  then have "map pprs_index rs = map ppd_index (tpd_partition_data topic)"
    by (induction rule: list_all2_induct) simp_all
  with r show ?thesis by (simp add: mirrors_def)
qed

lemma produce_request_refused:
  assumes "produce_request_error request = Some e"
  shows "produce_respond crc request b =
    Inr (produce_response_default
      \<lparr>prs_responses := map (\<lambda>t. topic_produce_response_default
          \<lparr>tprs_name := tpd_name t,
           tprs_partition_responses :=
             map (\<lambda>p. produce_error_partition (ppd_index p) e) (tpd_partition_data t)\<rparr>)
         (prq_topic_data request),
       prs_throttle_time_ms := 0\<rparr>, b)"
proof -
  have one: "map_run (produce_one crc t (Some e)) ps s =
      Inr (map (\<lambda>p. produce_error_partition (ppd_index p) e) ps, s)" for t ps s
    by (rule map_run_pure) (simp add: produce_one_def)
  show ?thesis
    unfolding produce_respond_def assms
    by (subst map_run_pure) (simp_all add: produce_topic_def one)
qed

text \<open>
  C21: what producing to one partition does. The answer names the partition asked for. A refused request
  leaves the whole broker as it was and answers base offset -1. An accepted one had a record set that
  validates and, if it carries a producer identity, one the broker handed out; it touches only the log
  of that partition, where the records sent are found from the answered base offset on; and fetches
  waiting for data are notified exactly if the log grew, which it does unless the record set is a retry.
\<close>

theorem produce_partition_effect:
  assumes "broker_ok crc b" and "produce_partition crc topic request b = Inr (r, b')"
  shows "pprs_index r = ppd_index request \<and>
    (if pprs_error_code r \<noteq> 0 then b' = b \<and> pprs_base_offset r = - 1
     else \<exists>log records vs log'.
       catalog_partition (bs_topics b) topic (ppd_index request) = Some log \<and>
       ppd_records request = Some records \<and> validate_record_set crc records = Inr vs \<and>
       (case producer_of (hd vs) of
          None \<Rightarrow> True
        | Some p \<Rightarrow> validate_producer (bs_producers b) (rp_producer_id p) (rp_producer_epoch p) = Inr ()) \<and>
       (\<forall>t i. catalog_partition (bs_topics b') t i =
          (if t = topic \<and> i = ppd_index request then Some log'
           else catalog_partition (bs_topics b) t i)) \<and>
       slice (nat (pprs_base_offset r)) (length (abs_records vs)) (abs_log log') = abs_records vs \<and>
       (abs_log log' = abs_log log @ abs_records vs \<and>
          bs_append_notification b' = bs_append_notification b + 1 \<or>
        log' = log \<and> bs_append_notification b' = bs_append_notification b))"
proof (cases crc topic request b rule: produce_partition_cases)
  case (refused e)
  with assms(2) show ?thesis by auto
next
  case (stored log records producer result log')
  have "catalog_ok crc (bs_topics b)" using assms(1) by (simp add: broker_ok_def)
  then have "log_ok log" using catalog_ok_partition stored(1) by blast
  from append_outcome [OF this stored(5)] obtain vs where
    vs: "validate_record_set crc records = Inr vs"
    "abs_log log' = (if ar_appended result then abs_log log @ abs_records vs else abs_log log)"
    "slice (nat (ar_base_offset result)) (nat (ar_record_count result)) (abs_log log') = abs_records vs"
    "ar_record_count result = int (length (abs_records vs))"
    "\<not> ar_appended result \<longrightarrow> log' = log"
    by auto
  have prod: "producer = producer_of (hd vs)"
    using stored(3) vs(1) by (simp add: record_set_producer_def)
  have "case producer_of (hd vs) of None \<Rightarrow> True
      | Some p \<Rightarrow> validate_producer (bs_producers b) (rp_producer_id p) (rp_producer_epoch p) = Inr ()"
    using stored(4) unfolding prod by (auto simp: check_producer_def split: option.splits sum.splits)
  moreover have r: "pprs_index r = ppd_index request" "pprs_error_code r = 0"
      "pprs_base_offset r = ar_base_offset result"
    and b': "bs_topics b' = set_partition topic (ppd_index request) log' (bs_topics b)"
      "bs_append_notification b' = bs_append_notification b + of_bool (ar_appended result)"
    using stored(6) assms(2) by (auto simp: notify_append_def)
  moreover have "\<forall>t i. catalog_partition (bs_topics b') t i =
      (if t = topic \<and> i = ppd_index request then Some log' else catalog_partition (bs_topics b) t i)"
    unfolding b'(1) by (simp add: catalog_partition_set [OF stored(1)])
  moreover have "slice (nat (pprs_base_offset r)) (length (abs_records vs)) (abs_log log') =
      abs_records vs"
    using vs(3,4) r(3) by simp
  moreover have "abs_log log' = abs_log log @ abs_records vs \<and>
        bs_append_notification b' = bs_append_notification b + 1 \<or>
      log' = log \<and> bs_append_notification b' = bs_append_notification b"
    using vs(2,5) b'(2) by (cases "ar_appended result") simp_all
  moreover have e: "\<not> pprs_error_code r \<noteq> 0" using r(2) by simp
  ultimately show ?thesis
    using stored(1,2) vs(1) unfolding if_not_P [OF e] by (intro conjI exI)
qed

text \<open>
  C22: every Produce request is answered. With enough fresh identifiers for the topics it may create, the
  handler returns, never panicking, with a response that mirrors the request topic by topic and
  partition by partition, and leaves a well-formed broker. A request with an invalid acknowledgement
  mode or a transactional identifier changes nothing, and every partition carries its error.
\<close>

theorem produce_answers_request:
  assumes "broker_ok crc b" and "fresh_draws (length (prq_topic_data request)) b"
  shows "\<exists>resp b'. produce_respond crc request b = Inr (resp, b') \<and> broker_ok crc b' \<and>
    list_all2 mirrors (prq_topic_data request) (prs_responses resp) \<and>
    (case produce_request_error request of
       None \<Rightarrow> True
     | Some e \<Rightarrow> b' = b \<and>
         list_all (\<lambda>t. list_all (\<lambda>p. pprs_error_code p = code e) (tprs_partition_responses t))
           (prs_responses resp))"
proof -
  obtain resp b' where run: "produce_respond crc request b = Inr (resp, b')"
    using produce_respond_total [OF assms(2)] by blast
  have "broker_ok crc b'"
    using reaches_ok [OF produce_respond_reaches [OF run] assms(1)] .
  moreover have "list_all2 mirrors (prq_topic_data request) (prs_responses resp)"
    using run map_run_all2 [OF produce_topic_mirrors]
    by (auto simp: produce_respond_def try_bind_Inr)
  ultimately show ?thesis
    using run produce_request_refused [of request _ crc b]
    by (auto simp: list_all_iff split: option.split)
qed

section \<open>A concrete broker\<close>

definition sample_broker :: broker_state where
  "sample_broker =
     broker_steps sample_checksum
       (CatalogOp (CreateExplicit ''t'' 1 1 [5]) # replicate 7 AllocateProducer)
       (broker_new 1 True True 1 [9])"

definition sample_produce :: partition_produce_data where
  "sample_produce = partition_produce_data_default\<lparr>ppd_records := Some (sample_batch 7 0 0 2)\<rparr>"

lemma sample_broker_ok: "broker_ok sample_checksum sample_broker"
  unfolding sample_broker_def broker_steps_def by (rule broker.run_inv) (simp add: broker_ok_new)

lemma sample_broker_eval:
  "catalog_partition (bs_topics sample_broker) ''t'' 0 = Some log_default"
  "validate_producer (bs_producers sample_broker) 7 0 = Inr ()"
  "fresh_draws 1 sample_broker"
  by code_simp+

theorem produce_partition_effect_witness:
  "\<exists>r b'. produce_partition sample_checksum ''t'' sample_produce sample_broker = Inr (r, b') \<and>
     pprs_error_code r = 0 \<and> pprs_index r = 0 \<and>
     (\<exists>log'. catalog_partition (bs_topics b') ''t'' 0 = Some log')"
proof -
  obtain r b' where run:
    "produce_partition sample_checksum ''t'' sample_produce sample_broker = Inr (r, b')"
    using produce_partition_total by blast
  then have "pprs_error_code r = 0"
    by (auto simp: produce_partition_eq sample_produce_def partition_produce_data_default_def
        sample_broker_eval sample_producer check_producer_def sample_append Let_def)
  with produce_partition_effect [OF sample_broker_ok run] show ?thesis
    using run by (auto simp: sample_produce_def partition_produce_data_default_def)
qed

theorem produce_answers_request_witness:
  "\<exists>resp b'. produce_respond sample_checksum
      (produce_request_default\<lparr>prq_acks := 2, prq_topic_data :=
         [topic_produce_data_default\<lparr>tpd_name := ''t'', tpd_partition_data := [sample_produce]\<rparr>]\<rparr>)
      sample_broker = Inr (resp, b') \<and> b' = sample_broker"
  using produce_answers_request [OF sample_broker_ok,
      of "produce_request_default\<lparr>prq_acks := 2, prq_topic_data :=
         [topic_produce_data_default\<lparr>tpd_name := ''t'', tpd_partition_data := [sample_produce]\<rparr>]\<rparr>"]
    sample_broker_eval(3)
  by (auto simp: produce_request_error_def)

end
