(* ===== verification/Fetch.thy ===== *)
theory Fetch
  imports Produce
begin

text \<open>
  The Fetch handler (\<open>src/src/kafka/fetch.rs\<close>): one pass over the requested partitions under the
  request's byte limit, and the loop that waits for data. The pass locks one partition after the other, and other
  tasks run in between, so it reads a broker of its own for each partition: \<open>reads k\<close> is the broker at the moment
  the \<open>k\<close>-th partition of the pass is read.
  The loop is a step relation between the moments at which the task touches the broker:
  registering for the notification, taking a snapshot, waking up, and running into the deadline.
\<close>

section \<open>One pass\<close>

record fetch_round =
  fr_response :: fetch_response
  fr_record_bytes :: usize
  fr_valid_partitions :: usize

text \<open>\<open>try_from(..).unwrap_or(0)\<close>.\<close>

definition or_zero :: "i32 \<Rightarrow> nat" where
  "or_zero x = (case usize_try_from x of None \<Rightarrow> 0 | Some n \<Rightarrow> n)"

definition fetch_error_partition :: "i32 \<Rightarrow> response_error \<Rightarrow> partition_data" where
  "fetch_error_partition index e =
     partition_data_default
       \<lparr>pdata_partition_index := index, pdata_error_code := code e, pdata_high_watermark := - 1,
        pdata_last_stable_offset := - 1, pdata_aborted_transactions := Some [],
        pdata_records := Some []\<rparr>"

definition fetch_partition_respond ::
  "string \<Rightarrow> fetch_partition \<Rightarrow> usize \<Rightarrow> broker_state \<Rightarrow> partition_data" where
  "fetch_partition_respond topic request max_bytes b =
     (case catalog_partition (bs_topics b) topic (fpart_partition request) of
        None \<Rightarrow> fetch_error_partition (fpart_partition request) (Error ''UnknownTopicOrPartition'')
      | Some log \<Rightarrow>
          (case log_fetch log (fpart_fetch_offset request) max_bytes of
             Inr snap \<Rightarrow>
               partition_data_default
                 \<lparr>pdata_partition_index := fpart_partition request,
                  pdata_high_watermark := fs_high_watermark snap,
                  pdata_last_stable_offset := fs_high_watermark snap,
                  pdata_aborted_transactions := Some [],
                  pdata_records := Some (fs_records snap)\<rparr>
           | Inl OutOfRange \<Rightarrow>
               fetch_error_partition (fpart_partition request) (Error ''OffsetOutOfRange'')))"

type_synonym broker_reads = "nat \<Rightarrow> broker_state"

text \<open>
  The body of the inner loop; the state is \<open>record_bytes\<close> and \<open>valid_partitions\<close>, and how many partitions the pass has
  read so far. A partition is looked up and then locked; none is ever removed, so the
  broker at the moment of the lock, or of the failed lookup, decides both.
\<close>

definition fetch_one ::
  "usize \<Rightarrow> broker_reads \<Rightarrow> string \<Rightarrow> fetch_partition \<Rightarrow> usize \<times> usize \<times> nat \<Rightarrow>
   partition_data \<times> (usize \<times> usize \<times> nat)" where
  "fetch_one max_bytes reads topic request = (\<lambda>(record_bytes, valid_partitions, k).
     let remaining = max_bytes - record_bytes;
         partition_max = or_zero (fpart_partition_max_bytes request);
         response = fetch_partition_respond topic request (min partition_max remaining) (reads k);
         valid = (if pdata_error_code response = 0 then valid_partitions + 1 else valid_partitions)
     in case pdata_records response of
          None \<Rightarrow> (response, (record_bytes, valid, k + 1))
        | Some records \<Rightarrow>
            let exceeds_request_limit =
                  record_bytes > 0 \<and>
                  (case checked_add_usize record_bytes (length records) of
                     None \<Rightarrow> True
                   | Some n \<Rightarrow> n > max_bytes)
            in if exceeds_request_limit then (response\<lparr>pdata_records := Some []\<rparr>, (record_bytes, valid, k + 1))
               else (response, (saturating_add_u64 record_bytes (length records), valid, k + 1)))"

definition fetch_topic_respond ::
  "usize \<Rightarrow> broker_reads \<Rightarrow> fetch_topic \<Rightarrow> usize \<times> usize \<times> nat \<Rightarrow>
   fetchable_topic_response \<times> (usize \<times> usize \<times> nat)" where
  "fetch_topic_respond max_bytes reads topic s =
     (case map_acc (fetch_one max_bytes reads (ftopic_topic topic)) (ftopic_partitions topic) s of
        (partitions, s') \<Rightarrow>
          (fetchable_topic_response_default
             \<lparr>ftrs_topic := ftopic_topic topic, ftrs_partitions := partitions\<rparr>, s'))"

definition fetch_snapshot :: "fetch_request \<Rightarrow> broker_reads \<Rightarrow> fetch_round" where
  "fetch_snapshot request reads =
     (case map_acc (fetch_topic_respond (or_zero (frq_max_bytes request)) reads)
             (frq_topics request) (0, 0, 0) of
        (responses, (record_bytes, valid_partitions, _)) \<Rightarrow>
          \<lparr>fr_response = fetch_response_default
             \<lparr>frs_throttle_time_ms := 0, frs_responses := responses\<rparr>,
           fr_record_bytes = record_bytes, fr_valid_partitions = valid_partitions\<rparr>)"

section \<open>The waiting loop\<close>

datatype fetch_phase =
  Start
| Registered nat
| Waiting nat fetch_round
| Answered fetch_response

definition max_wait :: "fetch_request \<Rightarrow> nat" where
  "max_wait request = or_zero (frq_max_wait_ms request)"

definition min_bytes :: "fetch_request \<Rightarrow> usize" where
  "min_bytes request = or_zero (frq_min_bytes request)"

definition fetch_ready :: "fetch_request \<Rightarrow> instant \<Rightarrow> instant \<Rightarrow> fetch_round \<Rightarrow> bool" where
  "fetch_ready request deadline now snap \<longleftrightarrow>
     fr_record_bytes snap \<ge> min_bytes request \<or> min_bytes request = 0 \<or> max_wait request = 0 \<or>
     fr_valid_partitions snap = 0 \<or> now \<ge> deadline"

text \<open>Registering and waking up touch the broker once, at its first moment; taking a snapshot reads it partition by partition.\<close>

inductive fetch_step ::
  "fetch_request \<Rightarrow> instant \<Rightarrow> broker_reads \<Rightarrow> instant \<Rightarrow> fetch_phase \<Rightarrow> fetch_phase \<Rightarrow> bool"
  for request deadline reads now where
  fetch_register: "fetch_step request deadline reads now Start (Registered (bs_append_notification (reads 0)))"
| fetch_answer:
    "fetch_ready request deadline now (fetch_snapshot request reads) \<Longrightarrow>
     fetch_step request deadline reads now (Registered n) (Answered (fr_response (fetch_snapshot request reads)))"
| fetch_wait:
    "\<not> fetch_ready request deadline now (fetch_snapshot request reads) \<Longrightarrow>
     fetch_step request deadline reads now (Registered n) (Waiting n (fetch_snapshot request reads))"
| fetch_wake:
    "n < bs_append_notification (reads 0) \<Longrightarrow> fetch_step request deadline reads now (Waiting n snap) Start"
| fetch_timeout:
    "deadline \<le> now \<Longrightarrow> fetch_step request deadline reads now (Waiting n snap) (Answered (fr_response snap))"

inductive_cases fetch_step_Start [elim!]: "fetch_step request deadline reads now Start p"
inductive_cases fetch_step_Registered [elim!]: "fetch_step request deadline reads now (Registered n) p"
inductive_cases fetch_step_Waiting [elim!]: "fetch_step request deadline reads now (Waiting n snap) p"
inductive_cases fetch_step_Answered [elim!]: "fetch_step request deadline reads now (Answered r) p"

section \<open>The size of a response\<close>

definition payload :: "partition_data \<Rightarrow> bytes" where
  "payload p = (case pdata_records p of None \<Rightarrow> [] | Some r \<Rightarrow> r)"

definition payloads :: "fetchable_topic_response list \<Rightarrow> bytes list" where
  "payloads rs = concat (map (\<lambda>r. map payload (ftrs_partitions r)) rs)"

definition stored_in :: "broker_reads \<Rightarrow> bytes \<Rightarrow> bool" where
  "stored_in reads r \<longleftrightarrow>
     (\<exists>k t i log batch. catalog_partition (bs_topics (reads k)) t i = Some log \<and>
        batch \<in> set (batches log) \<and> r = sb_bytes batch)"

text \<open>Within the limit, or a single batch and nothing else.\<close>

definition within_limit :: "broker_reads \<Rightarrow> usize \<Rightarrow> usize \<Rightarrow> bytes list \<Rightarrow> bool" where
  "within_limit reads mx n rs \<longleftrightarrow>
     n = sum_list (map length rs) \<and>
     (n \<le> mx \<or> (\<exists>r. filter (\<lambda>r. r \<noteq> []) rs = [r] \<and> stored_in reads r))"

lemma batch_length_bound: "sb_ok off batch \<Longrightarrow> length (sb_bytes batch) < 2 ^ 32"
proof -
  assume ok: "sb_ok off batch"
  have "in_i32 (i32_at 8 (sb_bytes batch))" by (simp add: i32_at_def)
  with ok show ?thesis by (simp add: sb_ok_def in_i32_def)
qed

lemma contiguous_batch_bound:
  "contiguous a bs b \<Longrightarrow> batch \<in> set bs \<Longrightarrow> length (sb_bytes batch) < 2 ^ 32"
  by (induction bs arbitrary: a) (auto dest: batch_length_bound)

lemma log_fetch_size:
  assumes ok: "log_ok log" and mx: "mx < 2 ^ 32" and run: "log_fetch log off mx = Inr snap"
  shows "length (fs_records snap) \<le> mx \<or>
    (\<exists>batch \<in> set (batches log). fs_records snap = sb_bytes batch \<and> length (sb_bytes batch) < 2 ^ 32)"
proof -
  have rng: "0 \<le> off" "off \<le> next_offset log" using run by (auto simp: log_fetch_def split: if_splits)
  have u: "mx \<le> u64_max" using mx by (simp add: u64_max_def)
  obtain pre mid post where
    m: "batches log = pre @ mid @ post" "log_fetch log off mx =
      Inr \<lparr>fs_records = concat (map sb_bytes mid), fs_high_watermark = next_offset log\<rparr>"
    "1 < length mid \<longrightarrow> length (concat (map sb_bytes mid)) \<le> mx"
    using log_fetch_batches [OF ok rng u] by metis
  have r: "fs_records snap = concat (map sb_bytes mid)" using run m(2) by auto
  show ?thesis
  proof (cases mid)
    case Nil
    then show ?thesis by (simp add: r)
  next
    case (Cons x xs)
    show ?thesis
    proof (cases xs)
      case Nil
      with Cons m(1) r ok contiguous_batch_bound show ?thesis by (fastforce simp: log_ok_def)
    next
      case (Cons y ys)
      with \<open>mid = x # xs\<close> m(3) r show ?thesis by simp
    qed
  qed
qed

lemma or_zero_bound: "in_i32 x \<Longrightarrow> or_zero x < 2 ^ 31"
  by (auto simp: or_zero_def usize_try_from_def in_i32_def)

lemma fetch_error_payload [simp]:
  "payload (fetch_error_partition i e) = []" "pdata_error_code (fetch_error_partition i e) = code e"
  "pdata_partition_index (fetch_error_partition i e) = i"
  "pdata_records (fetch_error_partition i e) = Some []"
  by (simp_all add: fetch_error_partition_def payload_def)

lemma fetch_partition_cases:
  assumes "catalog_ok crc (bs_topics (reads k))" and "mx < 2 ^ 32"
  obtains r where "pdata_records (fetch_partition_respond topic request mx (reads k)) = Some r"
    and "length r \<le> mx \<or> stored_in reads r \<and> length r < 2 ^ 32"
proof (cases "catalog_partition (bs_topics (reads k)) topic (fpart_partition request)")
  case None
  then show ?thesis by (intro that [of "[]"]) (simp_all add: fetch_partition_respond_def)
next
  case (Some log)
  have ok: "log_ok log" using catalog_ok_partition [OF assms(1) Some] by simp
  show ?thesis
  proof (cases "log_fetch log (fpart_fetch_offset request) mx")
    case (Inl e)
    then show ?thesis
      by (intro that [of "[]"], cases e) (simp_all add: fetch_partition_respond_def Some)
  next
    case (Inr snap)
    from log_fetch_size [OF ok assms(2) Inr] Some have
      "length (fs_records snap) \<le> mx \<or> stored_in reads (fs_records snap) \<and> length (fs_records snap) < 2 ^ 32"
      by (force simp: stored_in_def)
    then show ?thesis
      by (intro that [of "fs_records snap"]) (simp_all add: fetch_partition_respond_def Some Inr)
  qed
qed

lemma sum_length_zero: "sum_list (map length rs) = 0 \<longleftrightarrow> filter (\<lambda>r. r \<noteq> []) rs = []"
  by (induction rs) auto

lemma fetch_one_within:
  assumes cat: "\<And>k. catalog_ok crc (bs_topics (reads k))" and mx: "mx < 2 ^ 32" and inv: "within_limit reads mx n rs"
  shows "within_limit reads mx (fst (snd (fetch_one mx reads topic request (n, v, k))))
    (rs @ [payload (fst (fetch_one mx reads topic request (n, v, k)))])"
proof -
  let ?lim = "min (or_zero (fpart_partition_max_bytes request)) (mx - n)"
  let ?p = "fetch_partition_respond topic request ?lim (reads k)"
  have "?lim < 2 ^ 32" using mx by linarith
  then obtain r where r: "pdata_records ?p = Some r"
      "length r \<le> ?lim \<or> stored_in reads r \<and> length r < 2 ^ 32"
    by (rule fetch_partition_cases [OF cat])
  have pay: "payload ?p = r" by (simp add: payload_def r)
  show ?thesis
  proof (cases "n = 0")
    case True
    then have "filter (\<lambda>r. r \<noteq> []) rs = []" using inv sum_length_zero by (auto simp: within_limit_def)
    moreover have "saturating_add_u64 0 (length r) = length r"
      using r(2) mx by (auto simp: saturating_add_u64_def u64_max_def)
    ultimately show ?thesis
      using True inv r pay by (auto simp: fetch_one_def within_limit_def Let_def)
  next
    case False
    show ?thesis
    proof (cases "n + length r \<le> mx")
      case fits: True
      then have "checked_add_usize n (length r) = Some (n + length r)"
        "saturating_add_u64 n (length r) = n + length r"
        using mx by (simp_all add: checked_add_usize_def saturating_add_u64_def u64_max_def)
      with False fits inv r(1) pay show ?thesis
        by (auto simp: fetch_one_def within_limit_def Let_def)
    next
      case big: False
      then have "case checked_add_usize n (length r) of None \<Rightarrow> True | Some k \<Rightarrow> k > mx"
        by (simp add: checked_add_usize_def)
      with False inv r(1) show ?thesis
        by (auto simp: fetch_one_def within_limit_def Let_def payload_def)
    qed
  qed
qed

lemma fetch_topic_within:
  assumes "\<And>k. catalog_ok crc (bs_topics (reads k))" and "mx < 2 ^ 32" and "within_limit reads mx (fst s) rs"
  shows "within_limit reads mx (fst (snd (fetch_topic_respond mx reads topic s)))
    (rs @ map payload (ftrs_partitions (fst (fetch_topic_respond mx reads topic s))))"
proof -
  have "within_limit reads mx
      (fst (snd (map_acc (fetch_one mx reads (ftopic_topic topic)) (ftopic_partitions topic) s)))
      (rs @ concat (map (\<lambda>p. [payload p])
        (fst (map_acc (fetch_one mx reads (ftopic_topic topic)) (ftopic_partitions topic) s))))"
    by (rule map_acc_collects [where I = "\<lambda>s. within_limit reads mx (fst s)"])
      (use fetch_one_within [OF assms(1,2)] assms(3) in auto)
  then show ?thesis by (simp add: fetch_topic_respond_def case_prod_unfold)
qed

lemma fetch_snapshot_within:
  assumes "\<And>k. catalog_ok crc (bs_topics (reads k))" and "in_i32 (frq_max_bytes request)"
  shows "within_limit reads (or_zero (frq_max_bytes request)) (fr_record_bytes (fetch_snapshot request reads))
    (payloads (frs_responses (fr_response (fetch_snapshot request reads))))"
proof -
  let ?mx = "or_zero (frq_max_bytes request)"
  have mx: "?mx < 2 ^ 32" using or_zero_bound [OF assms(2)] by simp
  have "within_limit reads ?mx
      (fst (snd (map_acc (fetch_topic_respond ?mx reads) (frq_topics request) (0, 0, 0))))
      ([] @ concat (map (\<lambda>r. map payload (ftrs_partitions r))
        (fst (map_acc (fetch_topic_respond ?mx reads) (frq_topics request) (0, 0, 0)))))"
    by (rule map_acc_collects [where I = "\<lambda>s. within_limit reads ?mx (fst s)"])
      (rule fetch_topic_within [OF assms(1) mx], assumption, simp add: within_limit_def)
  then show ?thesis by (simp add: fetch_snapshot_def payloads_def case_prod_unfold)
qed

section \<open>Partitions only grow\<close>

lemma partition_entry:
  "catalog_partition c t i = Some log \<Longrightarrow> \<exists>e. map_of (topics_by_name c) t = Some e"
  by (auto simp: catalog_partition_Some)

lemma catalog_partition_insert:
  assumes "insert_topic name n c draws = Inr (md, c', draws')" and "map_of (topics_by_name c) name = None"
  shows "catalog_partition c' t i =
    (if t = name \<and> 0 \<le> i \<and> nat i < n then Some log_default else catalog_partition c t i)"
  using insert_topic_Inr [OF assms(1)] assms(2)
  by (auto simp: catalog_partition_def topic_entry_new_def usize_try_from_def)

definition same_data :: "topic_catalog \<Rightarrow> topic_catalog \<Rightarrow> bool" where
  "same_data c c' \<longleftrightarrow>
     (\<forall>t i. catalog_partition c' t i = catalog_partition c t i \<or>
        catalog_partition c t i = None \<and> catalog_partition c' t i = Some log_default)"

lemma same_data_refl [simp]: "same_data c c"
  by (simp add: same_data_def)

lemma same_data_trans: "same_data c c' \<Longrightarrow> same_data c' c'' \<Longrightarrow> same_data c c''"
  unfolding same_data_def by (metis option.distinct(1))

lemma same_data_insert:
  assumes "insert_topic name n c draws = Inr (md, c', draws')" and "map_of (topics_by_name c) name = None"
  shows "same_data c c'"
  using catalog_partition_insert [OF assms] assms(2) by (auto simp: same_data_def catalog_partition_def)

fun is_append :: "broker_op \<Rightarrow> bool" where
  "is_append (CatalogOp (AppendTo _ _ _)) = True"
| "is_append _ = False"

lemma same_data_exec:
  assumes "\<not> is_append op"
  shows "same_data (bs_topics b) (bs_topics (exec_broker crc op b))"
proof (cases op)
  case (CatalogOp cop)
  then show ?thesis
  proof (cases cop)
    case (CreateExplicit name p r draws)
    with CatalogOp show ?thesis
      by (auto simp: exec_broker_def exec_catalog_def create_explicit_def try_bind_def
          split: sum.split intro: same_data_insert)
  next
    case (AutoCreateWrite name draws)
    with CatalogOp show ?thesis
      by (auto simp: exec_broker_def exec_catalog_def auto_create_write_def
          split: sum.split option.split intro: same_data_insert)
  qed (use assms in simp)
qed (auto simp: exec_broker_def notify_append_def split: option.split)

lemma append_all_snoc: "append_all crc (rs @ [r]) log = snd (log_append crc r (append_all crc rs log))"
  by (simp add: append_all_def)

lemma partition_grows_exec:
  assumes "catalog_partition (bs_topics b) t i = Some log"
  shows "\<exists>rs. catalog_partition (bs_topics (exec_broker crc op b)) t i = Some (append_all crc rs log)"
proof (cases "is_append op")
  case False
  then have "catalog_partition (bs_topics (exec_broker crc op b)) t i = Some log"
    using same_data_exec [OF False, of b crc] assms unfolding same_data_def
    by (metis option.distinct(1))
  then show ?thesis by (intro exI [of _ "[]"]) (simp add: append_all_def)
next
  case True
  then obtain t' i' r where op: "op = CatalogOp (AppendTo t' i' r)"
    by (cases op rule: is_append.cases) auto
  show ?thesis
  proof (cases "catalog_partition (bs_topics b) t' i'")
    case None
    then show ?thesis using assms
      by (intro exI [of _ "[]"]) (simp add: op exec_broker_def exec_catalog_def append_all_def)
  next
    case (Some log')
    then show ?thesis using assms
      by (intro exI [of _ "if t = t' \<and> i = i' then [r] else []"])
        (auto simp: op exec_broker_def exec_catalog_def append_all_def catalog_partition_set)
  qed
qed

lemma partition_grows:
  assumes "reaches crc b b'" and "catalog_partition (bs_topics b) t i = Some log"
  shows "\<exists>rs. catalog_partition (bs_topics b') t i = Some (append_all crc rs log)"
proof (rule reaches_invariant [OF assms(1)])
  fix op and b :: broker_state
  assume "\<exists>rs. catalog_partition (bs_topics b) t i = Some (append_all crc rs log)"
  then obtain rs where "catalog_partition (bs_topics b) t i = Some (append_all crc rs log)" by blast
  from partition_grows_exec [OF this, of crc op] obtain rs' where
    "catalog_partition (bs_topics (exec_broker crc op b)) t i =
      Some (append_all crc rs' (append_all crc rs log))" by blast
  then show "\<exists>rs. catalog_partition (bs_topics (exec_broker crc op b)) t i = Some (append_all crc rs log)"
    by (intro exI [of _ "rs @ rs'"]) (simp add: append_all_def)
next
  show "\<exists>rs. catalog_partition (bs_topics b) t i = Some (append_all crc rs log)"
    using assms(2) by (intro exI [of _ "[]"]) (simp add: append_all_def)
qed

section \<open>The environment of a waiting fetch\<close>

text \<open>
  What other tasks do while a fetch waits: produce tasks arrive and take their turns in any order, and any
  other critical section runs. A task leaves when it is done, or earlier when its connection is shut down, but only at
  an await: between the append and the notification there is none.
\<close>

fun between_append_and_notify :: "produce_task \<Rightarrow> bool" where
  "between_append_and_notify (Appended _ _) = True"
| "between_append_and_notify _ = False"

inductive env_step ::
  "(bytes \<Rightarrow> nat) \<Rightarrow> broker_state \<times> produce_task list \<Rightarrow> broker_state \<times> produce_task list \<Rightarrow> bool" for crc where
  env_arrive: "env_step crc (b, tasks) (b, Inspecting topic request # tasks)"
| env_turn:
    "i < length tasks \<Longrightarrow> produce_turn crc (tasks ! i) b = Inr (task, b') \<Longrightarrow>
     env_step crc (b, tasks) (b', tasks[i := task])"
| env_leave:
    "\<not> between_append_and_notify task \<Longrightarrow> env_step crc (b, before @ task # after) (b, before @ after)"
| env_section: "\<not> is_append op \<Longrightarrow> env_step crc (b, tasks) (exec_broker crc op b, tasks)"

text \<open>A task whose records are in the log and whose notification is still to come.\<close>

fun notification_due :: "produce_task \<Rightarrow> bool" where
  "notification_due (Appended _ result) = ar_appended result"
| "notification_due _ = False"

lemma notification_exec: "bs_append_notification b \<le> bs_append_notification (exec_broker crc op b)"
  by (simp add: exec_broker_def notify_append_def split: broker_op.split option.split)

lemma produce_turn_quiet:
  assumes "produce_turn crc task b = Inr (task', b')" and "broker_ok crc b"
  shows "bs_append_notification b \<le> bs_append_notification b' \<and> broker_ok crc b' \<and>
    (bs_append_notification b' = bs_append_notification b \<longrightarrow>
       \<not> notification_due task \<and> (notification_due task' \<or> same_data (bs_topics b) (bs_topics b')))"
proof (cases task)
  case (Appending topic index records)
  show ?thesis
  proof (cases "catalog_partition (bs_topics b) topic index")
    case None
    with assms Appending show ?thesis by (auto simp: produce_turn_def)
  next
    case (Some log)
    obtain out log' where app: "log_append crc records log = (out, log')" by fastforce
    have b': "b' = b\<lparr>bs_topics := set_partition topic index log' (bs_topics b)\<rparr>"
      using assms(1) Appending Some app by (simp add: produce_turn_def)
    have "b' = exec_broker crc (CatalogOp (AppendTo topic index records)) b"
      by (simp add: b' exec_broker_def exec_catalog_def Some app)
    then have ok: "broker_ok crc b'" using broker_ok_exec [OF assms(2)] by simp
    have "log_ok log" using assms(2) catalog_ok_partition Some by (auto simp: broker_ok_def)
    from append_outcome [OF this app] have "log' = log" if "\<nexists>result. out = Inr result \<and> ar_appended result"
      using that by (cases out) auto
    then have "notification_due task' \<or> b' = b"
      using assms(1) Appending Some app b' set_partition_same [OF Some]
      by (cases "\<exists>result. out = Inr result \<and> ar_appended result") (auto simp: produce_turn_def)
    moreover have "bs_append_notification b' = bs_append_notification b" by (simp add: b')
    ultimately show ?thesis using ok Appending by auto
  qed
next
  case (Appended index result)
  with assms broker_ok_exec [OF assms(2), of NotifyAppend] show ?thesis
    by (cases "ar_appended result") (auto simp: produce_turn_def exec_broker_def notify_append_def)
qed (use assms in \<open>auto simp: produce_turn_def Let_def split: option.splits sum.splits if_splits\<close>)

lemma env_step_quiet:
  assumes "env_step crc (b, tasks) (b', tasks')" and "broker_ok crc b"
  shows "bs_append_notification b \<le> bs_append_notification b' \<and> broker_ok crc b' \<and>
    (bs_append_notification b' = bs_append_notification b \<longrightarrow>
       (list_ex notification_due tasks \<longrightarrow> list_ex notification_due tasks') \<and>
       (list_ex notification_due tasks' \<or> same_data (bs_topics b) (bs_topics b')))"
  using assms
proof (cases rule: env_step.cases)
  case (env_turn i task)
  note quiet = produce_turn_quiet [OF env_turn(3) assms(2)]
  have "list_ex notification_due (tasks[i := task])" if "notification_due task"
    using that env_turn(2) by (auto simp: list_ex_iff intro: set_update_memI)
  moreover have "list_ex notification_due (tasks[i := task])"
    if "list_ex notification_due tasks" "\<not> notification_due (tasks ! i)"
    using that env_turn(2) unfolding list_ex_length by (metis length_list_update nth_list_update_neq)
  ultimately show ?thesis using quiet env_turn(1) by blast
next
  case (env_leave task before after)
  then have "\<not> notification_due task" by (cases task) auto
  with env_leave assms(2) show ?thesis by auto
next
  case (env_section op)
  then show ?thesis
    using notification_exec [of b crc op] same_data_exec [of op b crc] broker_ok_exec [OF assms(2)]
    by simp
qed simp

lemma env_steps_quiet:
  assumes "(env_step crc)\<^sup>*\<^sup>* st st'" and "broker_ok crc (fst st)"
  shows "bs_append_notification (fst st) \<le> bs_append_notification (fst st') \<and> broker_ok crc (fst st') \<and>
    (bs_append_notification (fst st') = bs_append_notification (fst st) \<longrightarrow>
       (list_ex notification_due (snd st) \<longrightarrow> list_ex notification_due (snd st')) \<and>
       (list_ex notification_due (snd st') \<or> same_data (bs_topics (fst st)) (bs_topics (fst st'))))"
  using assms
proof (induction rule: rtranclp_induct)
  case (step st1 st2)
  note first = step.IH [OF step.prems]
  then have "broker_ok crc (fst st1)" by simp
  note next_step = env_step_quiet [of crc "fst st1" "snd st1" "fst st2" "snd st2", unfolded prod.collapse, OF step.hyps(2) this]
  from first next_step have "bs_append_notification (fst st) \<le> bs_append_notification (fst st1)"
    "bs_append_notification (fst st1) \<le> bs_append_notification (fst st2)" by simp_all
  with first next_step show ?case by (auto intro: same_data_trans)
qed simp

text \<open>A produce task that nobody interrupts is a run of these steps.\<close>

lemma env_steps_produce:
  "produce_run crc task b = Inr (r, b') \<Longrightarrow> (env_step crc)\<^sup>*\<^sup>* (b, task # tasks) (b', Produced r # tasks)"
proof (induction crc task b rule: produce_run.induct)
  case (1 crc task b)
  show ?case
  proof (cases "\<exists>response. task = Produced response")
    case True
    with 1(5) show ?thesis by (auto simp: produce_run.simps)
  next
    case False
    with 1(5) obtain task1 b1 where turn: "produce_turn crc task b = Inr (task1, b1)" "produce_run crc task1 b1 = Inr (r, b')"
      by (cases task) (auto simp: produce_run.simps [of crc _ b] split: sum.splits)
    have "env_step crc (b, task # tasks) (b1, task1 # tasks)"
      using env_turn [of 0 "task # tasks" crc b task1 b1] turn(1) by simp
    moreover have "(env_step crc)\<^sup>*\<^sup>* (b1, task1 # tasks) (b', Produced r # tasks)"
      using 1(1-4) [OF _ turn(1) refl turn(2)] False by (cases task) auto
    ultimately show ?thesis by (rule converse_rtranclp_into_rtranclp)
  qed
qed

text \<open>The bytes a pass collects do not change while the data is the same.\<close>

lemma log_fetch_default:
  "log_fetch log_default off mx = Inr snap \<Longrightarrow> fs_records snap = []"
  by (auto simp: log_fetch_def log_default_def split: if_splits)

lemma fetch_records_same:
  assumes "same_data (bs_topics b) (bs_topics b')"
  shows "pdata_records (fetch_partition_respond topic request mx b') =
    pdata_records (fetch_partition_respond topic request mx b)"
proof -
  have "catalog_partition (bs_topics b') topic (fpart_partition request) =
      catalog_partition (bs_topics b) topic (fpart_partition request) \<or>
    catalog_partition (bs_topics b) topic (fpart_partition request) = None \<and>
      catalog_partition (bs_topics b') topic (fpart_partition request) = Some log_default"
    using assms by (simp add: same_data_def)
  then show ?thesis
  proof
    assume new: "catalog_partition (bs_topics b) topic (fpart_partition request) = None \<and>
      catalog_partition (bs_topics b') topic (fpart_partition request) = Some log_default"
    then show ?thesis
      by (cases "log_fetch log_default (fpart_fetch_offset request) mx")
        (auto simp: fetch_partition_respond_def dest: log_fetch_default split: fetch_error.split)
  qed (simp add: fetch_partition_respond_def)
qed

lemma fetch_one_bytes:
  assumes "\<And>k. same_data (bs_topics (reads k)) (bs_topics b)"
  shows "fst (snd (fetch_one mx (\<lambda>_. b) topic request (n, v', k'))) =
    fst (snd (fetch_one mx reads topic request (n, v, k)))"
  using fetch_records_same [OF assms]
  by (simp add: fetch_one_def Let_def split: option.split)

lemma map_acc_fst_cong:
  assumes "\<And>x s s'. fst s = fst s' \<Longrightarrow> fst (snd (f x s)) = fst (snd (g x s'))" and "fst s = fst s'"
  shows "fst (snd (map_acc f xs s)) = fst (snd (map_acc g xs s'))"
  using assms(2)
proof (induction xs arbitrary: s s')
  case (Cons x xs)
  show ?case by (simp only: map_acc_Cons snd_conv) (rule Cons.IH [OF assms(1) [OF Cons.prems]])
qed simp

lemma fetch_snapshot_bytes:
  assumes "\<And>k. same_data (bs_topics (reads k)) (bs_topics b)"
  shows "fr_record_bytes (fetch_snapshot request (\<lambda>_. b)) = fr_record_bytes (fetch_snapshot request reads)"
proof -
  have one: "fst (snd (fetch_one mx (\<lambda>_. b) t p s)) = fst (snd (fetch_one mx reads t p s'))"
    if "fst s = fst s'" for mx t p s s'
    using fetch_one_bytes [OF assms] that by (cases s; cases s') simp
  have "fst (snd (fetch_topic_respond mx (\<lambda>_. b) t s)) = fst (snd (fetch_topic_respond mx reads t s'))"
    if "fst s = fst s'" for mx t s s'
    using map_acc_fst_cong [OF one that]
    by (simp add: fetch_topic_respond_def case_prod_unfold)
  from map_acc_fst_cong [OF this refl] show ?thesis
    by (simp add: fetch_snapshot_def case_prod_unfold)
qed

section \<open>Properties\<close>

definition fetch_mirrors :: "fetch_topic \<Rightarrow> fetchable_topic_response \<Rightarrow> bool" where
  "fetch_mirrors t r \<longleftrightarrow>
     ftrs_topic r = ftopic_topic t \<and>
     map pdata_partition_index (ftrs_partitions r) = map fpart_partition (ftopic_partitions t)"

lemma fetch_one_index: "pdata_partition_index (fst (fetch_one mx reads t request s)) = fpart_partition request"
  by (cases s)
    (auto simp: fetch_one_def Let_def fetch_partition_respond_def
      split: option.split sum.split fetch_error.split)

lemma fetch_topic_mirrors: "fetch_mirrors t (fst (fetch_topic_respond mx reads t s))"
proof -
  have "list_all2 (\<lambda>q p. pdata_partition_index p = fpart_partition q) (ftopic_partitions t)
      (fst (map_acc (fetch_one mx reads (ftopic_topic t)) (ftopic_partitions t) s))"
    by (rule map_acc_all2) (rule fetch_one_index)
  then have "map pdata_partition_index
      (fst (map_acc (fetch_one mx reads (ftopic_topic t)) (ftopic_partitions t) s)) =
    map fpart_partition (ftopic_partitions t)"
    by (induction rule: list_all2_induct) simp_all
  then show ?thesis by (simp add: fetch_mirrors_def fetch_topic_respond_def case_prod_unfold)
qed

text \<open>
  C25: the size of a fetch response. A response answers the requested topics and partitions in order, the
  byte count the handler keeps is the size of the record data it returns, and that size stays within
  the request's limit, unless the whole response carries one single stored batch that is larger: a
  consumer gets its first batch under any limit, and never more than the limit otherwise. It holds whatever
  other tasks do between the reads of the single partitions.
\<close>

theorem fetch_response_bounded:
  assumes "\<And>k. broker_ok crc (reads k)" and "in_i32 (frq_max_bytes request)"
  shows "let snap = fetch_snapshot request reads;
             data = payloads (frs_responses (fr_response snap))
    in list_all2 fetch_mirrors (frq_topics request) (frs_responses (fr_response snap)) \<and>
       fr_record_bytes snap = sum_list (map length data) \<and>
       (fr_record_bytes snap \<le> or_zero (frq_max_bytes request) \<or>
        (\<exists>r. filter (\<lambda>r. r \<noteq> []) data = [r] \<and> stored_in reads r))"
proof -
  have "list_all2 fetch_mirrors (frq_topics request)
      (frs_responses (fr_response (fetch_snapshot request reads)))"
    using map_acc_all2 [of "frq_topics request" fetch_mirrors, OF fetch_topic_mirrors]
    by (simp add: fetch_snapshot_def case_prod_unfold)
  moreover have "catalog_ok crc (bs_topics (reads k))" for k using assms(1) [of k] by (simp add: broker_ok_def)
  note fetch_snapshot_within [where reads = reads, OF this assms(2)]
  ultimately show ?thesis unfolding Let_def within_limit_def by blast
qed

section \<open>One partition of a response\<close>

text \<open>
  The answer for the \<open>j\<close>-th partition of the \<open>i\<close>-th topic of a request, and the record data the response carries
  before it.
\<close>

definition answer_at :: "fetch_round \<Rightarrow> nat \<Rightarrow> nat \<Rightarrow> partition_data" where
  "answer_at snap i j = ftrs_partitions (frs_responses (fr_response snap) ! i) ! j"

definition bytes_before :: "fetch_round \<Rightarrow> nat \<Rightarrow> nat \<Rightarrow> nat" where
  "bytes_before snap i j =
     sum_list (map length (payloads (take i (frs_responses (fr_response snap))) @
       map payload (take j (ftrs_partitions (frs_responses (fr_response snap) ! i)))))"

definition requested_at :: "fetch_request \<Rightarrow> nat \<Rightarrow> nat \<Rightarrow> string \<Rightarrow> fetch_partition \<Rightarrow> bool" where
  "requested_at request i j topic fetch \<longleftrightarrow>
     i < length (frq_topics request) \<and> ftopic_topic (frq_topics request ! i) = topic \<and>
     j < length (ftopic_partitions (frq_topics request ! i)) \<and>
     ftopic_partitions (frq_topics request ! i) ! j = fetch"

text \<open>Each answer is one turn of the inner loop, from the bytes of the answers before it.\<close>

lemma answer_at_fetch_one:
  assumes "\<And>k. catalog_ok crc (bs_topics (reads k))" and "in_i32 (frq_max_bytes request)"
    and "requested_at request i j topic fetch"
  obtains v k where "answer_at (fetch_snapshot request reads) i j =
    fst (fetch_one (or_zero (frq_max_bytes request)) reads topic fetch
      (bytes_before (fetch_snapshot request reads) i j, v, k))"
proof -
  let ?mx = "or_zero (frq_max_bytes request)" and ?ts = "frq_topics request"
  let ?F = "fetch_topic_respond ?mx reads" and ?f = "fetch_one ?mx reads topic"
  let ?s = "snd (map_acc ?F (take i ?ts) (0, 0, 0))" and ?ps = "ftopic_partitions (?ts ! i)"
  let ?s' = "snd (map_acc ?f (take j ?ps) ?s)" and ?rs = "frs_responses (fr_response (fetch_snapshot request reads))"
  have mx: "?mx < 2 ^ 32" using or_zero_bound [OF assms(2)] by simp
  have at: "i < length ?ts" "ftopic_topic (?ts ! i) = topic" "j < length ?ps" "?ps ! j = fetch"
    using assms(3) by (simp_all add: requested_at_def)
  have rs: "?rs = fst (map_acc ?F ?ts (0, 0, 0))" by (simp add: fetch_snapshot_def case_prod_unfold)
  have ps: "ftrs_partitions (?rs ! i) = fst (map_acc ?f ?ps ?s)"
    using at(2) by (simp add: rs map_acc_nth [OF at(1)] fetch_topic_respond_def case_prod_unfold)
  have "within_limit reads ?mx (fst ?s) ([] @ concat (map (\<lambda>r. map payload (ftrs_partitions r))
      (fst (map_acc ?F (take i ?ts) (0, 0, 0)))))"
    by (rule map_acc_collects [where I = "\<lambda>s. within_limit reads ?mx (fst s)"])
      (rule fetch_topic_within [OF assms(1) mx], assumption, simp add: within_limit_def)
  then have topics: "within_limit reads ?mx (fst ?s) (payloads (take i ?rs))"
    by (simp add: payloads_def rs map_acc_take)
  have "within_limit reads ?mx (fst ?s')
      (payloads (take i ?rs) @ concat (map (\<lambda>p. [payload p]) (fst (map_acc ?f (take j ?ps) ?s))))"
    by (rule map_acc_collects [where I = "\<lambda>s. within_limit reads ?mx (fst s)"])
      (use fetch_one_within [OF assms(1) mx] topics in auto)
  then have "fst ?s' = bytes_before (fetch_snapshot request reads) i j"
    by (simp add: within_limit_def bytes_before_def ps map_acc_take)
  moreover have "answer_at (fetch_snapshot request reads) i j = fst (?f fetch ?s')"
    by (simp add: answer_at_def ps map_acc_nth [OF at(3)] at(4))
  ultimately show thesis by (metis that prod.collapse)
qed

text \<open>
  What the inner loop makes of a partition whose log yields data: it is kept if nothing came before it, or if its
  first batch fits the rest of the limit.
\<close>

lemma fetch_one_kept:
  assumes "mx < 2 ^ 32"
    and "p = fetch_partition_respond topic fetch (min (or_zero (fpart_partition_max_bytes fetch)) (mx - n)) (reads k)"
    and "pdata_records p = Some (first @ rest)"
    and "rest = [] \<or> length (first @ rest) \<le> min (or_zero (fpart_partition_max_bytes fetch)) (mx - n)"
  shows "fst (fetch_one mx reads topic fetch (n, v, k)) =
    (if n = 0 \<or> n + length first \<le> mx then p else p\<lparr>pdata_records := Some []\<rparr>)"
proof -
  let ?exceeds = "n > 0 \<and> (case checked_add_usize n (length (first @ rest)) of None \<Rightarrow> True | Some k \<Rightarrow> k > mx)"
  have "mx < u64_max" using assms(1) by (simp add: u64_max_def)
  then have "?exceeds \<longleftrightarrow> \<not> (n = 0 \<or> n + length (first @ rest) \<le> mx)"
    by (auto simp: checked_add_usize_def)
  also have "n + length (first @ rest) \<le> mx \<longleftrightarrow> n + length first \<le> mx" using assms(4) by auto
  finally have exceeds: "?exceeds \<longleftrightarrow> \<not> (n = 0 \<or> n + length first \<le> mx)" .
  show ?thesis
    unfolding fetch_one_def Let_def prod.case assms(2) [symmetric] assms(3) option.case exceeds by simp
qed

text \<open>
  What one partition answers at an acknowledged offset: the data starts with the batch that covers it, stamped with its offset.
\<close>

lemma produced_readable:
  assumes ok: "broker_ok crc b" and run: "produce_partition crc topic request b = Inr (r, b')"
    and ack: "pprs_error_code r = 0"
    and recs: "ppd_records request = Some records" "validate_record_set crc records = Inr vs"
    and later: "reaches crc b' b''" and mx: "mx \<le> u64_max"
    and part: "fpart_partition fetch = ppd_index request"
    and off: "pprs_base_offset r \<le> fpart_fetch_offset fetch"
      "fpart_fetch_offset fetch < pprs_base_offset r + int (length (abs_records vs))"
  obtains batch :: stored_batch and rest where
    "pdata_error_code (fetch_partition_respond topic fetch mx b'') = 0"
    "pdata_records (fetch_partition_respond topic fetch mx b'') = Some (sb_bytes batch @ rest)"
    "fpart_fetch_offset fetch < pdata_high_watermark (fetch_partition_respond topic fetch mx b'')"
    "sb_base_offset batch \<le> fpart_fetch_offset fetch" "fpart_fetch_offset fetch \<le> sb_last_offset batch"
    "(drop 8 (sb_bytes batch), nat (fpart_fetch_offset fetch - sb_base_offset batch)) =
       abs_records vs ! nat (fpart_fetch_offset fetch - pprs_base_offset r)"
    "sb_bytes batch = be_bytes 8 (sb_base_offset batch) @ drop 8 (sb_bytes batch)"
    "0 \<le> sb_base_offset batch" "in_i64 (sb_base_offset batch)" "rest = [] \<or> length (sb_bytes batch @ rest) \<le> mx"
    "in_i64 (pdata_high_watermark (fetch_partition_respond topic fetch mx b''))"
proof (cases crc topic request b rule: produce_partition_cases)
  case (refused e)
  with run ack have False by auto
  then show ?thesis ..
next
  case (stored log records' producer result log')
  have eq: "records' = records" using stored(2) recs(1) by simp
  have ok_log: "log_ok log" using ok catalog_ok_partition stored(1) by (auto simp: broker_ok_def)
  have base: "pprs_base_offset r = ar_base_offset result"
    and part': "catalog_partition (bs_topics b') topic (ppd_index request) = Some log'"
    using stored(6) run catalog_partition_set [OF stored(1), of log']
    by (auto simp: notify_append_def)
  have last: "ar_last_offset result = ar_base_offset result + int (length (abs_records vs)) - 1"
    using append_outcome [OF ok_log stored(5)] recs(2) eq by auto
  obtain rs where log'': "catalog_partition (bs_topics b'') topic (ppd_index request) =
      Some (append_all crc rs log')"
    using partition_grows [OF later part'] by blast
  have "fpart_fetch_offset fetch \<le> ar_last_offset result" using off last base by simp
  from append_readable [OF ok_log stored(5) [unfolded eq] recs(2) off(1) [unfolded base] this mx, of rs]
  obtain batch :: stored_batch and rest where
    b: "log_fetch (append_all crc rs log') (fpart_fetch_offset fetch) mx =
       Inr \<lparr>fs_records = sb_bytes batch @ rest, fs_high_watermark = next_offset (append_all crc rs log')\<rparr>"
    "sb_base_offset batch \<le> fpart_fetch_offset fetch" "fpart_fetch_offset fetch \<le> sb_last_offset batch"
    "(drop 8 (sb_bytes batch), nat (fpart_fetch_offset fetch - sb_base_offset batch)) =
       abs_records vs ! nat (fpart_fetch_offset fetch - ar_base_offset result)"
    "fpart_fetch_offset fetch < next_offset (append_all crc rs log')"
    "batch \<in> set (batches (append_all crc rs log'))" "log_ok (append_all crc rs log')"
    "rest = [] \<or> length (sb_bytes batch @ rest) \<le> mx" by metis
  show ?thesis
  proof (rule that [of batch rest])
    show "sb_bytes batch = be_bytes 8 (sb_base_offset batch) @ drop 8 (sb_bytes batch)"
      "0 \<le> sb_base_offset batch" "in_i64 (sb_base_offset batch)"
      by (rule stored_batch_stamped [OF b(7,6)])+
  qed (use b in \<open>simp_all add: fetch_partition_respond_def part log'' base partition_data_default_def log_ok_def\<close>)
qed

lemma acknowledged_offsets_fit:
  assumes "broker_ok crc b" and "produce_partition crc topic request b = Inr (r, b')" and "pprs_error_code r = 0"
    and "ppd_records request = Some records" "validate_record_set crc records = Inr vs" and "abs_records vs \<noteq> []"
  shows "in_i64 (pprs_base_offset r + int (length (abs_records vs)) - 1)"
proof -
  let ?off = "pprs_base_offset r + int (length (abs_records vs)) - 1"
  let ?fetch = "fetch_partition_default\<lparr>fpart_partition := ppd_index request, fpart_fetch_offset := ?off\<rparr>"
  let ?p = "fetch_partition_respond topic ?fetch 0 b'"
  have fetch: "fpart_partition ?fetch = ppd_index request" "pprs_base_offset r \<le> fpart_fetch_offset ?fetch"
    "fpart_fetch_offset ?fetch < pprs_base_offset r + int (length (abs_records vs))"
    using assms(6) by (cases "abs_records vs"; simp)+
  obtain batch :: stored_batch where
    "fpart_fetch_offset ?fetch < pdata_high_watermark ?p" "in_i64 (pdata_high_watermark ?p)"
    "0 \<le> sb_base_offset batch" "sb_base_offset batch \<le> fpart_fetch_offset ?fetch"
    by (rule produced_readable [OF assms(1-5) reaches_refl _ fetch, of 0]) simp
  then show ?thesis by (simp add: in_i64_def)
qed

text \<open>
  The same for a partition within a whole response: the batch is there if no record data precedes it or if it
  fits the rest of the request's limit.
\<close>

lemma produced_answered:
  assumes ok: "broker_ok crc b" and run: "produce_partition crc topic request b = Inr (r, b')"
    and ack: "pprs_error_code r = 0"
    and recs: "ppd_records request = Some records" "validate_record_set crc records = Inr vs"
    and later: "\<And>k. reaches crc b' (reads k)" and lim: "in_i32 (frq_max_bytes fetches)"
    and at: "requested_at fetches i j topic fetch" and part: "fpart_partition fetch = ppd_index request"
    and off: "pprs_base_offset r \<le> fpart_fetch_offset fetch"
      "fpart_fetch_offset fetch < pprs_base_offset r + int (length (abs_records vs))"
    and snap: "snap = fetch_snapshot fetches reads"
  obtains batch :: stored_batch and rest where
    "pdata_error_code (answer_at snap i j) = 0"
    "pdata_records (answer_at snap i j) =
       Some (if bytes_before snap i j = 0 \<or>
                bytes_before snap i j + length (sb_bytes batch) \<le> or_zero (frq_max_bytes fetches)
             then sb_bytes batch @ rest else [])"
    "fpart_fetch_offset fetch < pdata_high_watermark (answer_at snap i j)"
    "sb_base_offset batch \<le> fpart_fetch_offset fetch" "fpart_fetch_offset fetch \<le> sb_last_offset batch"
    "(drop 8 (sb_bytes batch), nat (fpart_fetch_offset fetch - sb_base_offset batch)) =
       abs_records vs ! nat (fpart_fetch_offset fetch - pprs_base_offset r)"
    "sb_bytes batch = be_bytes 8 (sb_base_offset batch) @ drop 8 (sb_bytes batch)"
    "0 \<le> sb_base_offset batch" "in_i64 (pdata_high_watermark (answer_at snap i j))"
proof -
  let ?mx = "or_zero (frq_max_bytes fetches)" and ?n = "bytes_before snap i j"
  let ?lim = "min (or_zero (fpart_partition_max_bytes fetch)) (?mx - ?n)"
  have reads: "broker_ok crc (reads k)" for k
    using reaches_ok [OF later reaches_ok [OF produce_partition_reaches [OF run] ok]] .
  then have cat: "catalog_ok crc (bs_topics (reads k))" for k by (simp add: broker_ok_def)
  have mx: "?mx < 2 ^ 32" using or_zero_bound [OF lim] by simp
  obtain v k where one: "answer_at snap i j = fst (fetch_one ?mx reads topic fetch (?n, v, k))"
    unfolding snap by (rule answer_at_fetch_one [OF cat lim at])
  let ?p = "fetch_partition_respond topic fetch ?lim (reads k)"
  have "?lim \<le> ?mx" by simp
  also have "\<dots> \<le> u64_max" using mx by (simp add: u64_max_def)
  finally have "?lim \<le> u64_max" .
  from produced_readable [OF ok run ack recs later this part off] obtain batch :: stored_batch and rest where
    b: "pdata_error_code ?p = 0" "pdata_records ?p = Some (sb_bytes batch @ rest)"
      "fpart_fetch_offset fetch < pdata_high_watermark ?p"
      "sb_base_offset batch \<le> fpart_fetch_offset fetch" "fpart_fetch_offset fetch \<le> sb_last_offset batch"
      "(drop 8 (sb_bytes batch), nat (fpart_fetch_offset fetch - sb_base_offset batch)) =
         abs_records vs ! nat (fpart_fetch_offset fetch - pprs_base_offset r)"
      "sb_bytes batch = be_bytes 8 (sb_base_offset batch) @ drop 8 (sb_bytes batch)"
      "0 \<le> sb_base_offset batch" "rest = [] \<or> length (sb_bytes batch @ rest) \<le> ?lim"
      "in_i64 (pdata_high_watermark ?p)"
    by metis
  have "answer_at snap i j =
      (if ?n = 0 \<or> ?n + length (sb_bytes batch) \<le> ?mx then ?p else ?p\<lparr>pdata_records := Some []\<rparr>)"
    unfolding one by (rule fetch_one_kept [where reads = reads and k = k, OF mx refl b(2,9)])
  with b show thesis by (intro that [of batch rest]) simp_all
qed

text \<open>
  C20: from acknowledgement to consumption. Once a Produce answer acknowledged a record set at a base
  offset, a Fetch request that names that partition, at any place of the request and at any of the acknowledged
  offsets, has for it an answer without error and with a high watermark beyond the offset, whatever other tasks do
  meanwhile and between the reads of the single partitions. If the response carries no record data before
  that partition, then under every byte limit its data starts with a batch that covers the offset and carries at
  that position the record that was sent; so it does behind other data if that batch fits what is left of the limit
  of the request, and otherwise the partition is left empty.
\<close>

theorem acknowledged_produce_is_fetched:
  assumes "broker_ok crc b" and "produce_partition crc topic request b = Inr (r, b')"
    and "pprs_error_code r = 0"
    and "ppd_records request = Some records" "validate_record_set crc records = Inr vs"
    and "\<And>k. reaches crc b' (reads k)" and "in_i32 (frq_max_bytes fetches)"
    and "requested_at fetches i j topic fetch" and "fpart_partition fetch = ppd_index request"
    and "pprs_base_offset r \<le> fpart_fetch_offset fetch"
      "fpart_fetch_offset fetch < pprs_base_offset r + int (length (abs_records vs))"
  shows "\<exists>batch rest.
    let snap = fetch_snapshot fetches reads; p = answer_at snap i j; off = fpart_fetch_offset fetch
    in pdata_error_code p = 0 \<and> off < pdata_high_watermark p \<and>
       pdata_records p =
         Some (if bytes_before snap i j = 0 \<or>
                  bytes_before snap i j + length (sb_bytes batch) \<le> or_zero (frq_max_bytes fetches)
               then sb_bytes (batch :: stored_batch) @ rest else []) \<and>
       sb_base_offset batch \<le> off \<and> off \<le> sb_last_offset batch \<and>
       (drop 8 (sb_bytes batch), nat (off - sb_base_offset batch)) =
         abs_records vs ! nat (off - pprs_base_offset r)"
  unfolding Let_def by (rule produced_answered [OF assms refl]) (intro exI conjI)

text \<open>
  C23: no wake-up is lost. A fetch registers for the notification, then reads the partitions one by one at
  later moments, finds too little data and waits. Meanwhile produce tasks take their turns in any order, the append
  and the notification of each being two of them, and any other critical section runs. Then
  the fetch can be woken, or some task has appended and the notification that is its next turn wakes the fetch, or
  the requested partitions hold exactly as many bytes for it as it found, which is less
  than it asked for. An append between registration and snapshot, or between two reads of the snapshot, is covered as
  well.
\<close>

theorem fetch_wakeup_not_lost:
  assumes "broker_ok crc (fst st0)" and "\<And>k. (env_step crc)\<^sup>*\<^sup>* st0 (moments k)"
    and "\<And>k. (env_step crc)\<^sup>*\<^sup>* (moments k) (b, tasks)"
    and "fetch_step request deadline (\<lambda>_. fst st0) t0 Start (Registered n)"
    and "fetch_step request deadline (\<lambda>k. fst (moments k)) t1 (Registered n) (Waiting n snap)"
  shows "fetch_step request deadline (\<lambda>_. b) t2 (Waiting n snap) Start \<or>
    (\<exists>task \<in> set tasks. \<exists>task' b'. produce_turn crc task b = Inr (task', b') \<and>
       fetch_step request deadline (\<lambda>_. b') t2 (Waiting n snap) Start) \<or>
    fr_record_bytes (fetch_snapshot request (\<lambda>_. b)) = fr_record_bytes snap \<and>
    fr_record_bytes snap < min_bytes request"
proof -
  have n: "n = bs_append_notification (fst st0)" using assms(4) by auto
  have snap: "snap = fetch_snapshot request (\<lambda>k. fst (moments k))" "fr_record_bytes snap < min_bytes request"
    using assms(5) by (auto simp: fetch_ready_def)
  note before = env_steps_quiet [OF assms(2,1)]
  then have ok: "broker_ok crc (fst (moments k))" for k by blast
  note after = env_steps_quiet [OF assms(3) ok]
  have le: "n \<le> bs_append_notification (fst (moments k))"
    "bs_append_notification (fst (moments k)) \<le> bs_append_notification b" for k
    using before [of k] after [of k] n by simp_all
  consider (woken) "n < bs_append_notification b" | (due) "list_ex notification_due tasks" "n = bs_append_notification b"
    | (quiet) "n = bs_append_notification b" "\<not> list_ex notification_due tasks"
    using le [of 0] by linarith
  then show ?thesis
  proof cases
    case woken
    then show ?thesis by (intro disjI1 fetch_wake)
  next
    case due
    then obtain task where task: "task \<in> set tasks" "notification_due task" by (auto simp: list_ex_iff)
    then obtain index result where "task = Appended index result" "ar_appended result"
      by (auto elim: notification_due.elims)
    then have "\<exists>task'. produce_turn crc task b = Inr (task', notify_append b)" by (simp add: produce_turn_def)
    moreover have "fetch_step request deadline (\<lambda>_. notify_append b) t2 (Waiting n snap) Start"
      by (rule fetch_wake) (simp add: due notify_append_def)
    ultimately show ?thesis by (elim exE) (intro disjI2 disjI1 bexI [OF _ task(1)] exI conjI)
  next
    case quiet
    have "same_data (bs_topics (fst (moments k))) (bs_topics b)" for k
      using after [of k] le [of k] quiet by simp
    from fetch_snapshot_bytes [OF this] show ?thesis using snap by simp
  qed
qed

definition fetch_rank :: "fetch_phase \<Rightarrow> nat" where
  "fetch_rank p = (case p of Answered _ \<Rightarrow> 0 | Registered _ \<Rightarrow> 1 | Start \<Rightarrow> 2 | Waiting _ _ \<Rightarrow> 3)"

text \<open>
  C24: a fetch ends. Before the deadline an unanswered fetch can always take a step, unless it waits and has
  not been notified. From the deadline on it can always take one, whatever the broker looks like, and
  every step brings it closer to its answer: after at most three steps the client has its response.
\<close>

theorem fetch_ends_at_deadline:
  "((\<nexists>p'. fetch_step request deadline reads now p p') \<longrightarrow>
      (case p of Answered _ \<Rightarrow> True
       | Waiting n _ \<Rightarrow> now < deadline \<and> bs_append_notification (reads 0) \<le> n
       | _ \<Rightarrow> False)) \<and>
   (deadline \<le> now \<and> fetch_step request deadline reads now p p' \<longrightarrow>
      fetch_rank p' < fetch_rank p \<and> fetch_rank p \<le> 3)"
proof (intro conjI impI)
  assume stuck: "\<nexists>p'. fetch_step request deadline reads now p p'"
  show "case p of Answered _ \<Rightarrow> True
      | Waiting n _ \<Rightarrow> now < deadline \<and> bs_append_notification (reads 0) \<le> n | _ \<Rightarrow> False"
  proof (cases p)
    case Start
    with stuck fetch_register show ?thesis by blast
  next
    case (Registered n)
    with stuck fetch_answer fetch_wait show ?thesis by metis
  next
    case (Waiting n snap)
    have "\<not> n < bs_append_notification (reads 0)"
      using stuck Waiting fetch_wake [of n reads request deadline now snap] by metis
    moreover have "\<not> deadline \<le> now"
      using stuck Waiting fetch_timeout [of deadline now request reads n snap] by metis
    ultimately show ?thesis by (simp add: Waiting)
  qed simp
next
  assume "deadline \<le> now \<and> fetch_step request deadline reads now p p'"
  then show "fetch_rank p' < fetch_rank p" "fetch_rank p \<le> 3"
    by (auto simp: fetch_rank_def fetch_ready_def elim!: fetch_step.cases)
qed

section \<open>A concrete fetch\<close>

definition sample_fetch :: fetch_request where
  "sample_fetch =
     fetch_request_default
       \<lparr>frq_max_wait_ms := 500, frq_min_bytes := 1, frq_max_bytes := 1000,
        frq_topics :=
          [fetch_topic_default
             \<lparr>ftopic_topic := ''t'',
              ftopic_partitions := [fetch_partition_default\<lparr>fpart_partition_max_bytes := 1000\<rparr>]\<rparr>]\<rparr>"

definition sample_produced :: broker_state where
  "sample_produced =
     (case produce_partition sample_checksum ''t'' sample_produce sample_broker of
        Inr (_, b) \<Rightarrow> b | Inl _ \<Rightarrow> sample_broker)"

definition sample_ack :: partition_produce_response where
  "sample_ack = partition_produce_response_default
     \<lparr>pprs_index := 0, pprs_base_offset := 0, pprs_log_append_time_ms := - 1,
      pprs_log_start_offset := 0\<rparr>"

lemma sample_produce_run:
  "produce_partition sample_checksum ''t'' sample_produce sample_broker = Inr (sample_ack, sample_produced)"
proof -
  have "\<exists>b'. produce_partition sample_checksum ''t'' sample_produce sample_broker = Inr (sample_ack, b')"
    by (auto simp: produce_partition_eq sample_produce_def partition_produce_data_default_def
        sample_broker_eval sample_producer check_producer_def sample_append Let_def sample_ack_def)
  then show ?thesis by (auto simp: sample_produced_def)
qed

theorem fetch_response_bounded_witness:
  "fr_record_bytes (fetch_snapshot sample_fetch (\<lambda>_. sample_broker)) =
     sum_list (map length (payloads (frs_responses (fr_response (fetch_snapshot sample_fetch (\<lambda>_. sample_broker))))))"
  using fetch_response_bounded [OF sample_broker_ok, of sample_fetch]
  by (auto simp: Let_def sample_fetch_def in_i32_def)

text \<open>A request for less than any batch: two partitions that do not exist, then the one with data.\<close>

definition sample_small_fetch :: fetch_request where
  "sample_small_fetch =
     sample_fetch
       \<lparr>frq_max_bytes := 1,
        frq_topics :=
          [fetch_topic_default
             \<lparr>ftopic_topic := ''u'', ftopic_partitions := [fetch_partition_default]\<rparr>,
           fetch_topic_default
             \<lparr>ftopic_topic := ''t'',
              ftopic_partitions :=
                [fetch_partition_default\<lparr>fpart_partition := 1\<rparr>,
                 fetch_partition_default\<lparr>fpart_fetch_offset := 1\<rparr>]\<rparr>]\<rparr>"

lemma sample_small_before:
  assumes "catalog_partition (bs_topics b) ''u'' 0 = None" and "catalog_partition (bs_topics b) ''t'' 1 = None"
  shows "bytes_before (fetch_snapshot sample_small_fetch (\<lambda>_. b)) 1 1 = 0"
  using assms
  by (simp add: bytes_before_def payloads_def fetch_snapshot_def sample_small_fetch_def fetch_topic_respond_def
      fetch_one_def Let_def fetch_partition_respond_def fetch_partition_default_def case_prod_unfold payload_def)

lemma sample_absent:
  "catalog_partition (bs_topics sample_produced) ''u'' 0 = None"
  "catalog_partition (bs_topics sample_produced) ''t'' 1 = None"
proof -
  have b: "bs_topics sample_produced = set_partition ''t'' 0 sample_log (bs_topics sample_broker)"
    by (simp add: sample_produced_def produce_partition_eq sample_produce_def partition_produce_data_default_def
        notify_append_def sample_broker_eval sample_producer check_producer_def sample_append Let_def)
  have "catalog_partition (bs_topics sample_broker) ''u'' 0 = None" "catalog_partition (bs_topics sample_broker) ''t'' 1 = None"
    by code_simp+
  then show "catalog_partition (bs_topics sample_produced) ''u'' 0 = None"
    "catalog_partition (bs_topics sample_produced) ''t'' 1 = None"
    by (simp_all add: b catalog_partition_set [OF sample_broker_eval(1)])
qed

theorem acknowledged_produce_is_fetched_witness:
  "\<exists>batch rest. pdata_records (answer_at (fetch_snapshot sample_small_fetch (\<lambda>_. sample_produced)) 1 1) =
     Some (sb_bytes (batch :: stored_batch) @ rest) \<and>
   (drop 8 (sb_bytes batch), nat (1 - sb_base_offset batch)) =
     abs_records [sample_validated 7 0 0 2] ! 1"
proof -
  have "length (abs_records [sample_validated 7 0 0 2]) = 2"
    by (simp add: abs_records_def sample_validated_def)
  moreover have "requested_at sample_small_fetch 1 1 ''t'' (fetch_partition_default\<lparr>fpart_fetch_offset := 1\<rparr>)"
    by (simp add: requested_at_def sample_small_fetch_def)
  moreover have "in_i32 (frq_max_bytes sample_small_fetch)" by (simp add: sample_small_fetch_def in_i32_def)
  ultimately show ?thesis
    using acknowledged_produce_is_fetched [OF sample_broker_ok sample_produce_run _ _ sample_producer(1)
        reaches_refl, of sample_small_fetch 1 1 "fetch_partition_default\<lparr>fpart_fetch_offset := 1\<rparr>"]
      sample_small_before [OF sample_absent]
    by (auto simp: sample_ack_def sample_produce_def fetch_partition_default_def
        partition_produce_data_default_def Let_def)
qed

theorem fetch_wakeup_not_lost_witness:
  "fetch_step sample_fetch 500 (\<lambda>_. sample_produced) 7
     (Waiting 0 (fetch_snapshot sample_fetch (\<lambda>_. sample_broker))) Start \<or>
   fr_record_bytes (fetch_snapshot sample_fetch (\<lambda>_. sample_produced)) =
     fr_record_bytes (fetch_snapshot sample_fetch (\<lambda>_. sample_broker))"
proof -
  let ?snap = "fetch_snapshot sample_fetch (\<lambda>_. sample_broker)"
  have "bs_append_notification sample_broker = 0" by code_simp
  then have reg: "fetch_step sample_fetch 500 (\<lambda>_. fst (sample_broker, [])) 0 Start (Registered 0)"
    using fetch_register [of sample_fetch 500 "\<lambda>_. sample_broker" 0] by simp
  have "\<not> fetch_ready sample_fetch 500 1 ?snap" by code_simp
  then have wait: "fetch_step sample_fetch 500 (\<lambda>k. fst (sample_broker, [])) 1 (Registered 0) (Waiting 0 ?snap)"
    using fetch_wait [of sample_fetch 500 1 "\<lambda>_. sample_broker" 0] by simp
  have "env_step sample_checksum (sample_broker, []) (sample_broker, [Inspecting ''t'' sample_produce])"
    by (rule env_arrive)
  moreover have "(env_step sample_checksum)\<^sup>*\<^sup>* (sample_broker, [Inspecting ''t'' sample_produce])
      (sample_produced, [Produced sample_ack])"
    using env_steps_produce [of sample_checksum _ sample_broker sample_ack sample_produced "[]"] sample_produce_run
    unfolding produce_partition_def by blast
  ultimately have run: "(env_step sample_checksum)\<^sup>*\<^sup>* (sample_broker, []) (sample_produced, [Produced sample_ack])"
    by (rule converse_rtranclp_into_rtranclp)
  have "broker_ok sample_checksum (fst (sample_broker, []))" using sample_broker_ok by simp
  from fetch_wakeup_not_lost [OF this rtranclp.rtrancl_refl run reg wait, of 7] show ?thesis
    by (elim disjE conjE) (simp_all add: produce_turn_def)
qed

theorem fetch_ends_at_deadline_witness:
  "fetch_rank (Answered (fr_response (fetch_snapshot sample_fetch (\<lambda>_. sample_broker)))) <
   fetch_rank (Waiting 0 (fetch_snapshot sample_fetch (\<lambda>_. sample_broker)))"
  using fetch_ends_at_deadline [of sample_fetch 500 "\<lambda>_. sample_broker" 500
      "Waiting 0 (fetch_snapshot sample_fetch (\<lambda>_. sample_broker))"
      "Answered (fr_response (fetch_snapshot sample_fetch (\<lambda>_. sample_broker)))"]
    fetch_timeout [of 500 500 sample_fetch "\<lambda>_. sample_broker" 0]
  by simp

end
