(* ===== verification/Discovery.thy ===== *)
theory Discovery
  imports Broker Errors Messages_Cluster
begin

text \<open>
  The handlers that describe the cluster and its topics: Metadata, CreateTopics, FindCoordinator,
  DescribeCluster and DescribeConfigs (\<open>src/src/kafka/metadata.rs\<close>, \<open>create_topics.rs\<close>,
  \<open>find_coordinator.rs\<close>, \<open>describe_cluster.rs\<close>, \<open>describe_configs.rs\<close>, \<open>discovery.rs\<close>).
\<close>

section \<open>Shared constants\<close>

text \<open>The address a listener advertises (\<open>src/src/config.rs\<close>).\<close>

record advertised_address =
  aa_host :: string
  aa_port :: nat

definition CLUSTER_ID :: string where
  "CLUSTER_ID = ''memkafka''"

definition TOPIC_AUTHORIZED_OPERATIONS :: i32 where
  "TOPIC_AUTHORIZED_OPERATIONS = 3576"

definition CLUSTER_AUTHORIZED_OPERATIONS :: i32 where
  "CLUSTER_AUTHORIZED_OPERATIONS = 8096"

definition optional_authorized_operations :: "bool \<Rightarrow> i32 \<Rightarrow> i32" where
  "optional_authorized_operations include value = (if include then value else i32_min)"

section \<open>Metadata\<close>

definition success_partition :: "i32 \<Rightarrow> usize \<Rightarrow> metadata_response_partition run" where
  "success_partition broker_id partition_index =
     try_bind (expect ''Kafka partition count must fit in a signed integer'' (i32_try_from partition_index))
       (\<lambda>index. Inr (metadata_response_partition_default
          \<lparr>mrsp_partition_index := index, mrsp_leader_id := broker_id, mrsp_leader_epoch := 0,
           mrsp_replica_nodes := [broker_id], mrsp_isr_nodes := [broker_id],
           mrsp_offline_replicas := []\<rparr>))"

text \<open>A loop whose body may panic, over a list.\<close>

fun map_each :: "('a \<Rightarrow> 'b run) \<Rightarrow> 'a list \<Rightarrow> 'b list run" where
  "map_each f [] = Inr []"
| "map_each f (x # xs) = try_bind (f x) (\<lambda>y. try_bind (map_each f xs) (\<lambda>ys. Inr (y # ys)))"

definition success_topic :: "topic_metadata \<Rightarrow> i32 \<Rightarrow> metadata_response_topic run" where
  "success_topic topic broker_id =
     try_bind (map_each (success_partition broker_id) [0..<tm_partition_count topic]) (\<lambda>partitions.
     Inr (metadata_response_topic_default
        \<lparr>mrst_name := Some (tm_name topic), mrst_topic_id := tm_id topic,
         mrst_partitions := partitions\<rparr>))"

definition error_topic :: "string option \<Rightarrow> uuid \<Rightarrow> response_error \<Rightarrow> metadata_response_topic" where
  "error_topic name topic_id e =
     metadata_response_topic_default
       \<lparr>mrst_error_code := code e, mrst_name := name, mrst_topic_id := topic_id, mrst_partitions := []\<rparr>"

text \<open>The loops carry the set of names or identifiers already answered.\<close>

fun metadata_topics_by_id ::
  "metadata_request_topic list \<Rightarrow> uuid list \<Rightarrow> broker_state \<Rightarrow>
   (metadata_response_topic list \<times> metadata_response_topic list) run" where
  "metadata_topics_by_id [] seen b = Inr ([], [])"
| "metadata_topics_by_id (requested # rest) seen b =
     (if mrqt_topic_id requested = nil_uuid \<or> mrqt_topic_id requested \<in> set seen
      then metadata_topics_by_id rest seen b
      else
        let seen' = mrqt_topic_id requested # seen
        in case get_by_id (bs_topics b) (mrqt_topic_id requested) of
             Some metadata \<Rightarrow>
               try_bind (success_topic metadata (bs_broker_id b)) (\<lambda>t.
               try_bind (metadata_topics_by_id rest seen' b) (\<lambda>(unknown, known). Inr (unknown, t # known)))
           | None \<Rightarrow>
               try_bind (metadata_topics_by_id rest seen' b) (\<lambda>(unknown, known).
               Inr (error_topic None (mrqt_topic_id requested) (Error ''UnknownTopicId'') # unknown,
                    known)))"

fun metadata_topics_by_name ::
  "metadata_request_topic list \<Rightarrow> string option list \<Rightarrow> broker_state \<Rightarrow>
   metadata_response_topic list run" where
  "metadata_topics_by_name [] seen b = Inr []"
| "metadata_topics_by_name (requested # rest) seen b =
     (if mrqt_name requested \<in> set seen then metadata_topics_by_name rest seen b
      else
        let seen' = mrqt_name requested # seen
        in try_bind
             (case mrqt_name requested of
                None \<Rightarrow> Inr (error_topic None nil_uuid (Error ''InvalidTopicException''))
              | Some name \<Rightarrow>
                  (case get_topic (bs_topics b) name of
                     Inr (Some metadata) \<Rightarrow> success_topic metadata (bs_broker_id b)
                   | Inr None \<Rightarrow>
                       Inr (error_topic (Some name) nil_uuid (Error ''UnknownTopicOrPartition''))
                   | Inl e \<Rightarrow>
                       if e = InvalidName
                       then Inr (error_topic (Some name) nil_uuid (Error ''InvalidTopicException''))
                       else Inl (Panic ''topic lookup returned creation-only error''))) (\<lambda>t.
           try_bind (metadata_topics_by_name rest seen' b) (\<lambda>ts. Inr (t # ts))))"

fun auto_create_requested ::
  "metadata_request_topic list \<Rightarrow> broker_state \<Rightarrow> broker_state run" where
  "auto_create_requested [] b = Inr b"
| "auto_create_requested (topic # rest) b =
     (case mrqt_name topic of
        None \<Rightarrow> auto_create_requested rest b
      | Some name \<Rightarrow>
          try_bind (broker_auto_create name True b) (\<lambda>(out, b').
          case out of
            Inl e \<Rightarrow>
              if e = InvalidName then auto_create_requested rest b'
              else Inl (Panic ''automatic topic creation returned an explicit-only error'')
          | Inr _ \<Rightarrow> auto_create_requested rest b'))"

definition topics_for_request ::
  "metadata_request \<Rightarrow> i16 \<Rightarrow> broker_state \<Rightarrow> (metadata_response_topic list \<times> broker_state) run" where
  "topics_for_request request version b =
     (case mrq_topics request of
        None \<Rightarrow>
          try_bind (map_each (\<lambda>topic. success_topic topic (bs_broker_id b)) (list_topics (bs_topics b)))
            (\<lambda>topics. Inr (topics, b))
      | Some requested \<Rightarrow>
          if requested = [] then Inr ([], b)
          else if version \<ge> 12 \<and> list_ex (\<lambda>topic. mrqt_topic_id topic \<noteq> nil_uuid) requested
          then try_bind (metadata_topics_by_id requested [] b) (\<lambda>(unknown, known). Inr (unknown @ known, b))
          else
            let allow_auto_create =
                  bs_auto_create_topics b \<and>
                  (mrq_allow_auto_topic_creation request \<or> bs_force_auto_create_topics b)
            in try_bind (if allow_auto_create then auto_create_requested requested b else Inr b)
                 (\<lambda>b'. try_bind (metadata_topics_by_name requested [] b') (\<lambda>topics. Inr (topics, b'))))"

definition metadata_request_error :: "metadata_request \<Rightarrow> i16 \<Rightarrow> response_error option" where
  "metadata_request_error request version =
     (case mrq_topics request of
        None \<Rightarrow> None
      | Some requested \<Rightarrow>
          let has_non_zero_topic_id = list_ex (\<lambda>topic. mrqt_topic_id topic \<noteq> nil_uuid) requested;
              has_null_topic_name = list_ex (\<lambda>topic. mrqt_name topic = None) requested
          in if (10 \<le> version \<and> version \<le> 11) \<and> (has_non_zero_topic_id \<or> has_null_topic_name)
             then Some (Error ''InvalidRequest'')
             else if version \<ge> 12 \<and> \<not> has_non_zero_topic_id \<and> has_null_topic_name
             then Some (Error ''UnknownServerError'')
             else None)"

definition metadata_error_response ::
  "metadata_request \<Rightarrow> i16 \<Rightarrow> response_error \<Rightarrow> metadata_response" where
  "metadata_error_response request version e =
     (let topics =
            map (\<lambda>topic. error_topic
                   (Some (case mrqt_name topic of None \<Rightarrow> [] | Some name \<Rightarrow> name))
                   (mrqt_topic_id topic) e)
              (case mrq_topics request of None \<Rightarrow> [] | Some requested \<Rightarrow> requested);
          response = metadata_response_default\<lparr>mrs_topics := topics\<rparr>
      in if version \<ge> 13 then response\<lparr>mrs_error_code := code e\<rparr> else response)"

definition metadata_respond ::
  "metadata_request \<Rightarrow> i16 \<Rightarrow> advertised_address \<Rightarrow> broker_state \<Rightarrow>
   (metadata_response \<times> broker_state) run" where
  "metadata_respond request version advertised b =
     (case metadata_request_error request version of
        Some e \<Rightarrow> Inr (metadata_error_response request version e, b)
      | None \<Rightarrow>
          try_bind (topics_for_request request version b) (\<lambda>(topics, b').
          let operations =
                optional_authorized_operations (mrq_include_topic_authorized_operations request)
                  TOPIC_AUTHORIZED_OPERATIONS
          in Inr (metadata_response_default
               \<lparr>mrs_brokers :=
                  [metadata_response_broker_default
                     \<lparr>mrsb_node_id := bs_broker_id b, mrsb_host := aa_host advertised,
                      mrsb_port := int (aa_port advertised)\<rparr>],
                mrs_cluster_id := Some CLUSTER_ID,
                mrs_controller_id := bs_broker_id b,
                mrs_topics :=
                  map (\<lambda>topic. if mrst_error_code topic \<noteq> code (Error ''UnknownTopicId'')
                         then topic\<lparr>mrst_topic_authorized_operations := operations\<rparr> else topic)
                    topics,
                mrs_cluster_authorized_operations :=
                  optional_authorized_operations (mrq_include_cluster_authorized_operations request)
                    CLUSTER_AUTHORIZED_OPERATIONS\<rparr>, b')))"

section \<open>Creating topics\<close>

definition create_error_result :: "string \<Rightarrow> response_error \<Rightarrow> string \<Rightarrow> creatable_topic_result" where
  "create_error_result name e message =
     creatable_topic_result_default
       \<lparr>ctr_name := name, ctr_error_code := code e, ctr_error_message := Some message\<rparr>"

definition show_topic_error :: "topic_error \<Rightarrow> string" where
  "show_topic_error e =
     (case e of
        AlreadyExists \<Rightarrow> ''topic already exists''
      | InvalidName \<Rightarrow> ''invalid topic name''
      | InvalidPartitions \<Rightarrow> ''partition count must be positive''
      | InvalidReplicationFactor \<Rightarrow> ''replication factor must be 1'')"

definition topic_error_response :: "topic_error \<Rightarrow> response_error" where
  "topic_error_response e =
     (case e of
        AlreadyExists \<Rightarrow> Error ''TopicAlreadyExists''
      | InvalidName \<Rightarrow> Error ''InvalidTopicException''
      | InvalidPartitions \<Rightarrow> Error ''InvalidPartitions''
      | InvalidReplicationFactor \<Rightarrow> Error ''InvalidReplicationFactor'')"

definition topic_error_result :: "string \<Rightarrow> topic_error \<Rightarrow> creatable_topic_result" where
  "topic_error_result name e = create_error_result name (topic_error_response e) (show_topic_error e)"

definition success_result_with_partition_count :: "string \<Rightarrow> i32 \<Rightarrow> creatable_topic_result" where
  "success_result_with_partition_count name partition_count =
     creatable_topic_result_default
       \<lparr>ctr_name := name, ctr_error_message := None, ctr_num_partitions := partition_count,
        ctr_replication_factor := 1, ctr_configs := Some []\<rparr>"

definition success_result :: "string \<Rightarrow> topic_metadata \<Rightarrow> creatable_topic_result run" where
  "success_result name metadata =
     try_bind (expect ''explicit Kafka partition count fits in a signed integer''
         (i32_try_from (tm_partition_count metadata))) (\<lambda>n.
     Inr ((success_result_with_partition_count name n)\<lparr>ctr_topic_id := tm_id metadata\<rparr>))"

definition create_one ::
  "bool \<Rightarrow> creatable_topic \<Rightarrow> broker_state \<Rightarrow> (creatable_topic_result \<times> broker_state) run" where
  "create_one validate_only topic b =
     (let name = ctopic_name topic
      in if ctopic_assignments topic \<noteq> []
         then Inr (create_error_result name (Error ''InvalidReplicaAssignment'')
                     ''manual replica assignments are not supported'', b)
         else if ctopic_configs topic \<noteq> []
         then Inr (create_error_result name (Error ''InvalidConfig'')
                     ''custom topic configurations are not supported'', b)
         else if validate_only
         then (case validate_explicit (bs_topics b) name (ctopic_num_partitions topic)
                      (ctopic_replication_factor topic) of
                 Inr _ \<Rightarrow> Inr (success_result_with_partition_count name (ctopic_num_partitions topic), b)
               | Inl e \<Rightarrow> Inr (topic_error_result name e, b))
         else try_bind (broker_create_explicit name (ctopic_num_partitions topic)
                          (ctopic_replication_factor topic) b) (\<lambda>(out, b').
              case out of
                Inr metadata \<Rightarrow> try_bind (success_result name metadata) (\<lambda>r. Inr (r, b'))
              | Inl e \<Rightarrow> Inr (topic_error_result name e, b')))"

definition create_topics_respond ::
  "create_topics_request \<Rightarrow> broker_state \<Rightarrow> (create_topics_response \<times> broker_state) run" where
  "create_topics_respond request b =
     try_bind (map_run (create_one (ctrq_validate_only request)) (ctrq_topics request) b)
       (\<lambda>(results, b'). Inr (create_topics_response_default\<lparr>ctrs_topics := results\<rparr>, b'))"

section \<open>Finding the coordinator\<close>

definition find_coordinator_error :: "response_error \<Rightarrow> find_coordinator_response" where
  "find_coordinator_error e =
     find_coordinator_response_default
       \<lparr>fcrs_throttle_time_ms := 0, fcrs_error_code := code e,
        fcrs_error_message := Some (show_error e), fcrs_node_id := - 1, fcrs_host := [],
        fcrs_port := - 1\<rparr>"

definition find_coordinator_respond ::
  "find_coordinator_request \<Rightarrow> advertised_address \<Rightarrow> broker_state \<Rightarrow> find_coordinator_response" where
  "find_coordinator_respond request advertised b =
     (if fcrq_key request = [] then find_coordinator_error (Error ''InvalidGroupId'')
      else if fcrq_key_type request \<noteq> 0 then find_coordinator_error (Error ''UnsupportedVersion'')
      else find_coordinator_response_default
             \<lparr>fcrs_throttle_time_ms := 0, fcrs_error_code := 0, fcrs_error_message := None,
              fcrs_node_id := bs_broker_id b, fcrs_host := aa_host advertised,
              fcrs_port := int (aa_port advertised)\<rparr>)"

section \<open>Describing the cluster\<close>

definition describe_cluster_error :: "response_error \<Rightarrow> string \<Rightarrow> describe_cluster_response" where
  "describe_cluster_error e message =
     describe_cluster_response_default
       \<lparr>dcrs_error_code := code e, dcrs_error_message := Some message\<rparr>"

definition describe_broker ::
  "describe_cluster_request \<Rightarrow> advertised_address \<Rightarrow> broker_state \<Rightarrow> describe_cluster_response" where
  "describe_broker request advertised b =
     describe_cluster_response_default
       \<lparr>dcrs_endpoint_type := 1, dcrs_cluster_id := CLUSTER_ID, dcrs_controller_id := bs_broker_id b,
        dcrs_brokers :=
          [describe_cluster_broker_default
             \<lparr>dcb_broker_id := bs_broker_id b, dcb_host := aa_host advertised,
              dcb_port := int (aa_port advertised), dcb_rack := None, dcb_is_fenced := False\<rparr>],
        dcrs_cluster_authorized_operations :=
          optional_authorized_operations (dcrq_include_cluster_authorized_operations request)
            CLUSTER_AUTHORIZED_OPERATIONS\<rparr>"

definition describe_cluster_respond ::
  "describe_cluster_request \<Rightarrow> advertised_address \<Rightarrow> broker_state \<Rightarrow> describe_cluster_response" where
  "describe_cluster_respond request advertised b =
     (if dcrq_endpoint_type request = 1 then describe_broker request advertised b
      else if dcrq_endpoint_type request = 2
      then describe_cluster_error (Error ''MismatchedEndpointType'')
             ''The request was sent to an endpoint of type BROKER, but we wanted an endpoint of type CONTROLLER''
      else describe_cluster_error (Error ''UnsupportedEndpointType'')
             (''Unsupported endpoint type '' @ show_int (dcrq_endpoint_type request)))"

section \<open>Describing configurations\<close>

definition describe_configs_error ::
  "string list \<Rightarrow> string \<Rightarrow> describe_configs_resource \<Rightarrow> response_error option" where
  "describe_configs_error topic_names broker_name resource =
     (if dcfr_resource_type resource = 2
      then if dcfr_resource_name resource \<in> set topic_names then None
           else Some (Error ''UnknownTopicOrPartition'')
      else if dcfr_resource_type resource = 4
      then if dcfr_resource_name resource = broker_name then None
           else Some (Error ''BrokerNotAvailable'')
      else Some (Error ''InvalidRequest''))"

definition describe_configs_respond ::
  "describe_configs_request \<Rightarrow> broker_state \<Rightarrow> describe_configs_response" where
  "describe_configs_respond request b =
     (let topic_names = map tm_name (list_topics (bs_topics b));
          broker_name = show_int (bs_broker_id b)
      in describe_configs_response_default
           \<lparr>dcfrs_throttle_time_ms := 0,
            dcfrs_results :=
              map (\<lambda>resource. describe_configs_result_default
                     \<lparr>dcfres_error_code :=
                        (case describe_configs_error topic_names broker_name resource of
                           None \<Rightarrow> 0 | Some e \<Rightarrow> code e),
                      dcfres_error_message := None,
                      dcfres_resource_type := dcfr_resource_type resource,
                      dcfres_resource_name := dcfr_resource_name resource, dcfres_configs := []\<rparr>)
                (dcfrq_resources request)\<rparr>)"

section \<open>Topics in a metadata response\<close>

lemma map_each_Inr: "(\<And>x. x \<in> set xs \<Longrightarrow> f x = Inr (g x)) \<Longrightarrow> map_each f xs = Inr (map g xs)"
  by (induction xs) simp_all

text \<open>A body that fails in one way only: the loop fails in that way exactly if the body does on some element.\<close>

lemma map_each_panics:
  assumes "\<And>x. (\<exists>y. f x = Inr y) \<or> f x = Inl e"
  shows "map_each f xs = Inl e \<longleftrightarrow> (\<exists>x \<in> set xs. f x = Inl e)"
    and "(\<exists>ys. map_each f xs = Inr ys) \<or> map_each f xs = Inl e"
proof (induction xs)
  case (Cons y xs)
  { case 1
    show ?case using Cons assms [of y] by (cases "f y"; cases "map_each f xs") auto
  next
    case 2
    show ?case using Cons assms [of y] by (cases "f y"; cases "map_each f xs") auto
  }
qed simp_all

definition partition_info :: "i32 \<Rightarrow> nat \<Rightarrow> metadata_response_partition" where
  "partition_info broker_id i =
     metadata_response_partition_default
       \<lparr>mrsp_partition_index := int i, mrsp_leader_id := broker_id, mrsp_leader_epoch := 0,
        mrsp_replica_nodes := [broker_id], mrsp_isr_nodes := [broker_id], mrsp_offline_replicas := []\<rparr>"

lemma success_topic_total:
  assumes "tm_partition_count md \<le> 2 ^ 31"
  shows "success_topic md broker_id =
    Inr (metadata_response_topic_default
      \<lparr>mrst_name := Some (tm_name md), mrst_topic_id := tm_id md,
       mrst_partitions := map (partition_info broker_id) [0..<tm_partition_count md]\<rparr>)"
proof -
  have "success_partition broker_id i = Inr (partition_info broker_id i)"
    if "i \<in> set [0..<tm_partition_count md]" for i
  proof -
    have "int i \<le> i32_max" using that assms by (simp add: i32_max_def)
    then show ?thesis by (simp add: success_partition_def i32_try_from_def partition_info_def)
  qed
  then have "map_each (success_partition broker_id) [0..<tm_partition_count md] =
      Inr (map (partition_info broker_id) [0..<tm_partition_count md])"
    by (rule map_each_Inr)
  then show ?thesis by (simp add: success_topic_def)
qed

definition count_panic :: abort where
  "count_panic = Panic ''Kafka partition count must fit in a signed integer''"

lemma success_topic_panics:
  "success_topic md broker_id = Inl count_panic \<longleftrightarrow> 2 ^ 31 < tm_partition_count md"
  "(\<exists>t. success_topic md broker_id = Inr t) \<or> success_topic md broker_id = Inl count_panic"
proof -
  have big: "success_partition broker_id i = Inl count_panic \<longleftrightarrow> 2 ^ 31 \<le> i" for i
    by (auto simp: success_partition_def i32_try_from_def i32_max_def count_panic_def)
  have one: "(\<exists>y. success_partition broker_id i = Inr y) \<or> success_partition broker_id i = Inl count_panic" for i
    by (auto simp: success_partition_def i32_try_from_def count_panic_def)
  note each = map_each_panics [of "success_partition broker_id", OF one, of "[0..<tm_partition_count md]"]
  have "success_topic md broker_id = Inl count_panic \<longleftrightarrow>
      map_each (success_partition broker_id) [0..<tm_partition_count md] = Inl count_panic"
    by (auto simp: success_topic_def try_bind_Inl)
  also have "\<dots> \<longleftrightarrow> 2 ^ 31 < tm_partition_count md" unfolding each(1) by (auto simp: big intro: bexI [of _ "2 ^ 31"])
  finally show "success_topic md broker_id = Inl count_panic \<longleftrightarrow> 2 ^ 31 < tm_partition_count md" .
  show "(\<exists>t. success_topic md broker_id = Inr t) \<or> success_topic md broker_id = Inl count_panic"
    using each(2) by (auto simp: success_topic_def)
qed

text \<open>What a topic of a response says about the catalog.\<close>

definition topic_answer :: "broker_state \<Rightarrow> metadata_response_topic \<Rightarrow> string \<Rightarrow> bool" where
  "topic_answer b t name \<longleftrightarrow>
     mrst_name t = Some name \<and>
     (case metadata_of (bs_topics b) name of
        Some md \<Rightarrow> mrst_error_code t = 0 \<and> mrst_topic_id t = tm_id md \<and>
          mrst_partitions t = map (partition_info (bs_broker_id b)) [0..<tm_partition_count md]
      | None \<Rightarrow> mrst_partitions t = [] \<and> mrst_topic_id t = nil_uuid \<and>
          mrst_error_code t =
            code (if validate_name name = Inr () then Error ''UnknownTopicOrPartition''
                  else Error ''InvalidTopicException''))"

definition name_answer :: "broker_state \<Rightarrow> metadata_response_topic \<Rightarrow> string option \<Rightarrow> bool" where
  "name_answer b t name \<longleftrightarrow>
     (case name of
        Some n \<Rightarrow> topic_answer b t n
      | None \<Rightarrow> mrst_name t = None \<and> mrst_error_code t = code (Error ''InvalidTopicException''))"

text \<open>The elements of a list that are not in \<open>seen\<close>, each at its first occurrence.\<close>

fun firsts :: "'a list \<Rightarrow> 'a list \<Rightarrow> 'a list" where
  "firsts [] seen = []"
| "firsts (x # xs) seen = (if x \<in> set seen then firsts xs seen else x # firsts xs (x # seen))"

lemma set_firsts: "set (firsts xs seen) = set xs - set seen"
  by (induction xs seen rule: firsts.induct) auto

lemma distinct_firsts: "distinct (firsts xs seen)"
  by (induction xs seen rule: firsts.induct) (auto simp: set_firsts)

lemma validate_name_error: "validate_name name = Inl e \<Longrightarrow> e = InvalidName"
  by (simp add: validate_name_def split: if_splits)

lemma lookup_name:
  assumes ok: "broker_ok crc b" and counts: "counts_ok b"
  shows "\<exists>t. (case get_topic (bs_topics b) name of
        Inr (Some metadata) \<Rightarrow> success_topic metadata (bs_broker_id b)
      | Inr None \<Rightarrow> Inr (error_topic (Some name) nil_uuid (Error ''UnknownTopicOrPartition''))
      | Inl e \<Rightarrow> if e = InvalidName
          then Inr (error_topic (Some name) nil_uuid (Error ''InvalidTopicException''))
          else Inl (Panic ''topic lookup returned creation-only error'')) = Inr t \<and> topic_answer b t name"
proof (cases "metadata_of (bs_topics b) name")
  case (Some md)
  have md: "validate_name name = Inr ()" "tm_name md = name"
    using metadata_of_ok [OF _ Some] ok by (auto simp: broker_ok_def)
  have "tm_partition_count md \<le> 2 ^ 31" using counts Some by (simp add: counts_ok_def)
  with md Some show ?thesis
    by (simp add: get_topic_metadata success_topic_total topic_answer_def
        metadata_response_topic_default_def)
next
  case None
  then show ?thesis
    by (cases "validate_name name")
      (auto simp: get_topic_metadata topic_answer_def error_topic_def dest: validate_name_error)
qed

lemma metadata_topics_by_name_total:
  assumes "broker_ok crc b" and "counts_ok b"
  shows "\<exists>ts. metadata_topics_by_name requested seen b = Inr ts \<and>
    list_all2 (name_answer b) ts (firsts (map mrqt_name requested) seen)"
proof (induction requested arbitrary: seen)
  case (Cons r rest)
  show ?case
  proof (cases "mrqt_name r \<in> set seen")
    case True
    with Cons.IH [of seen] show ?thesis by simp
  next
    case False
    obtain ts where ts: "metadata_topics_by_name rest (mrqt_name r # seen) b = Inr ts"
      "list_all2 (name_answer b) ts (firsts (map mrqt_name rest) (mrqt_name r # seen))"
      using Cons.IH by blast
    show ?thesis
    proof (cases "mrqt_name r")
      case None
      then have "name_answer b (error_topic None nil_uuid (Error ''InvalidTopicException'')) (mrqt_name r)"
        by (simp add: name_answer_def error_topic_def)
      with None False ts show ?thesis by (simp add: Let_def)
    next
      case (Some name)
      obtain t where "(case get_topic (bs_topics b) name of
          Inr (Some metadata) \<Rightarrow> success_topic metadata (bs_broker_id b)
        | Inr None \<Rightarrow> Inr (error_topic (Some name) nil_uuid (Error ''UnknownTopicOrPartition''))
        | Inl e \<Rightarrow> if e = InvalidName
            then Inr (error_topic (Some name) nil_uuid (Error ''InvalidTopicException''))
            else Inl (Panic ''topic lookup returned creation-only error'')) = Inr t"
        "topic_answer b t name"
        using lookup_name [OF assms] by metis
      moreover from this(2) have "name_answer b t (mrqt_name r)" by (simp add: name_answer_def Some)
      ultimately show ?thesis using Some False ts by (simp add: Let_def)
    qed
  qed
qed simp

lemma auto_create_requested_total:
  assumes "fresh_draws (length requested) b" and "broker_ok crc b"
  shows "\<exists>b'. auto_create_requested requested b = Inr b' \<and> reaches crc b b' \<and>
    (\<forall>name. Some name \<in> mrqt_name ` set requested \<and> validate_name name = Inr () \<longrightarrow>
       metadata_of (bs_topics b') name \<noteq> None)"
  using assms
proof (induction requested arbitrary: b)
  case (Cons r rest)
  show ?case
  proof (cases "mrqt_name r")
    case None
    with Cons.IH [of b] Cons.prems fresh_draws_mono show ?thesis by fastforce
  next
    case (Some name)
    from Cons.prems(1) obtain out b1 where
      step: "broker_auto_create name True b = Inr (out, b1)" "fresh_draws (length rest) b1"
      using broker_auto_create_total [of "length rest" b name True] by auto
    note reach = broker_auto_create_reaches [OF step(1), of crc]
    have ok1: "broker_ok crc b1" by (rule reaches_ok [OF reach Cons.prems(2)])
    from Cons.IH [OF step(2) ok1] obtain b' where
      b': "auto_create_requested rest b1 = Inr b'" "reaches crc b1 b'"
      "\<forall>name. Some name \<in> mrqt_name ` set rest \<and> validate_name name = Inr () \<longrightarrow>
         metadata_of (bs_topics b') name \<noteq> None" by blast
    note res = broker_auto_create_result [OF step(1)]
    have "auto_create_requested (r # rest) b = Inr b'"
      using Some step b'(1) res by (auto split: sum.splits)
    moreover have "reaches crc b b'" by (rule reaches_trans [OF reach b'(2)])
    moreover have "metadata_of (bs_topics b') name \<noteq> None" if "validate_name name = Inr ()"
    proof -
      have "\<exists>md. metadata_of (bs_topics b1) name = Some md"
        using res that by (auto split: sum.splits option.splits)
      then show ?thesis using reaches_topic [OF b'(2) ok1] by fastforce
    qed
    ultimately show ?thesis using b'(3) Some by auto
  qed
qed simp

lemma get_by_id_metadata:
  assumes "get_by_id c i = Some md"
  shows "\<exists>name. metadata_of c name = Some md"
  using assms by (auto simp: get_by_id_def metadata_of_def bind_eq_Some_conv)

definition topic_info :: "i32 \<Rightarrow> topic_metadata \<Rightarrow> metadata_response_topic" where
  "topic_info broker_id md =
     metadata_response_topic_default
       \<lparr>mrst_name := Some (tm_name md), mrst_topic_id := tm_id md,
        mrst_partitions := map (partition_info broker_id) [0..<tm_partition_count md]\<rparr>"

lemma metadata_topics_by_id_total:
  assumes "counts_ok b" and "nil_uuid \<in> set seen"
  shows "\<exists>unknown known. metadata_topics_by_id requested seen b = Inr (unknown, known) \<and>
    unknown = map (\<lambda>i. error_topic None i (Error ''UnknownTopicId''))
      (filter (\<lambda>i. get_by_id (bs_topics b) i = None) (firsts (map mrqt_topic_id requested) seen)) \<and>
    known = map (topic_info (bs_broker_id b))
      (List.map_filter (get_by_id (bs_topics b)) (firsts (map mrqt_topic_id requested) seen))"
  using assms(2)
proof (induction requested arbitrary: seen)
  case (Cons r rest)
  show ?case
  proof (cases "mrqt_topic_id r \<in> set seen")
    case True
    with Cons.IH [of seen] Cons.prems show ?thesis by simp
  next
    case False
    then have nz: "mrqt_topic_id r \<noteq> nil_uuid" using Cons.prems by metis
    note IH = Cons.IH [of "mrqt_topic_id r # seen"]
    show ?thesis
    proof (cases "get_by_id (bs_topics b) (mrqt_topic_id r)")
      case None
      with IH False nz Cons.prems show ?thesis by (auto simp: map_filter_simps)
    next
      case (Some md)
      have "tm_partition_count md \<le> 2 ^ 31"
        using get_by_id_metadata [OF Some] assms(1) by (auto simp: counts_ok_def)
      then have "success_topic md (bs_broker_id b) = Inr (topic_info (bs_broker_id b) md)"
        by (simp add: success_topic_total topic_info_def)
      with IH False nz Some Cons.prems show ?thesis by (auto simp: map_filter_simps)
    qed
  qed
qed (simp add: map_filter_simps)

text \<open>The loop skips nil identifiers without marking them; starting with nil marked is the same.\<close>

lemma metadata_topics_by_id_nil:
  "metadata_topics_by_id requested (seen @ [nil_uuid]) b = metadata_topics_by_id requested seen b"
proof (induction requested arbitrary: seen)
  case (Cons r rest)
  from Cons.IH [of "mrqt_topic_id r # seen"] Cons.IH [of seen] show ?case
    by (simp add: Let_def split: option.split)
qed simp

definition uuid_mode :: "metadata_request_topic list \<Rightarrow> i16 \<Rightarrow> bool" where
  "uuid_mode requested version \<longleftrightarrow>
     version \<ge> 12 \<and> list_ex (\<lambda>topic. mrqt_topic_id topic \<noteq> nil_uuid) requested"

definition may_auto_create :: "metadata_request \<Rightarrow> broker_state \<Rightarrow> bool" where
  "may_auto_create request b \<longleftrightarrow>
     bs_auto_create_topics b \<and> (mrq_allow_auto_topic_creation request \<or> bs_force_auto_create_topics b)"

lemma topics_for_names:
  assumes ok: "broker_ok crc b" "counts_ok b" and req: "mrq_topics request = Some requested"
    and mode: "\<not> uuid_mode requested version"
    and fresh: "may_auto_create request b \<longrightarrow> fresh_draws (length requested) b"
  shows "\<exists>ts b'. topics_for_request request version b = Inr (ts, b') \<and> reaches crc b b' \<and>
    list_all2 (name_answer b') ts (firsts (map mrqt_name requested) []) \<and>
    (if may_auto_create request b
     then \<forall>name. Some name \<in> mrqt_name ` set requested \<and> validate_name name = Inr () \<longrightarrow>
            metadata_of (bs_topics b') name \<noteq> None
     else b' = b)"
proof (cases "requested = []")
  case True
  with req show ?thesis by (auto simp: topics_for_request_def)
next
  case False
  obtain b' where b': "(if may_auto_create request b then auto_create_requested requested b else Inr b) = Inr b'"
    "reaches crc b b'"
    "if may_auto_create request b
     then \<forall>name. Some name \<in> mrqt_name ` set requested \<and> validate_name name = Inr () \<longrightarrow>
            metadata_of (bs_topics b') name \<noteq> None
     else b' = b"
  proof (cases "may_auto_create request b")
    case True
    then obtain b' where "auto_create_requested requested b = Inr b'" "reaches crc b b'"
      "\<forall>name. Some name \<in> mrqt_name ` set requested \<and> validate_name name = Inr () \<longrightarrow>
         metadata_of (bs_topics b') name \<noteq> None"
      using auto_create_requested_total [OF _ ok(1), of requested] fresh by blast
    with True show ?thesis by (intro that [of b']) simp_all
  next
    case False
    then show ?thesis by (intro that [of b]) simp_all
  qed
  obtain ts where "metadata_topics_by_name requested [] b' = Inr ts"
    "list_all2 (name_answer b') ts (firsts (map mrqt_name requested) [])"
    using metadata_topics_by_name_total reaches_ok [OF b'(2) ok(1)] reaches_counts [OF b'(2) ok(2)]
    by blast
  with b' req mode False show ?thesis
    by (auto simp: topics_for_request_def uuid_mode_def may_auto_create_def Let_def)
qed

lemma topics_for_ids:
  assumes "counts_ok b" and "mrq_topics request = Some requested" and "uuid_mode requested version"
  shows "topics_for_request request version b =
    Inr (let ids = firsts (map mrqt_topic_id requested) [nil_uuid]
         in map (\<lambda>i. error_topic None i (Error ''UnknownTopicId''))
              (filter (\<lambda>i. get_by_id (bs_topics b) i = None) ids) @
            map (topic_info (bs_broker_id b)) (List.map_filter (get_by_id (bs_topics b)) ids), b)"
proof -
  have "requested \<noteq> []" using assms(3) by (auto simp: uuid_mode_def)
  moreover have "metadata_topics_by_id requested [] b =
      (let ids = firsts (map mrqt_topic_id requested) [nil_uuid]
       in Inr (map (\<lambda>i. error_topic None i (Error ''UnknownTopicId''))
              (filter (\<lambda>i. get_by_id (bs_topics b) i = None) ids),
            map (topic_info (bs_broker_id b)) (List.map_filter (get_by_id (bs_topics b)) ids)))"
    using metadata_topics_by_id_total [OF assms(1), of "[nil_uuid]" requested]
      metadata_topics_by_id_nil [of requested "[]" b] by (auto simp: Let_def)
  ultimately show ?thesis
    using assms(2,3) by (simp add: topics_for_request_def uuid_mode_def Let_def)
qed

lemma topics_for_all:
  assumes "counts_ok b" and "mrq_topics request = None" and "broker_ok crc b"
  shows "topics_for_request request version b =
    Inr (map (topic_info (bs_broker_id b)) (list_topics (bs_topics b)), b)"
proof -
  have "success_topic md (bs_broker_id b) = Inr (topic_info (bs_broker_id b) md)"
    if "md \<in> set (list_topics (bs_topics b))" for md
  proof -
    have "bt_ok (topics_by_name (bs_topics b))"
      using assms(3) by (simp add: broker_ok_def catalog_ok_def)
    with that have "\<exists>name. metadata_of (bs_topics b) name = Some md"
      by (force simp: list_topics_def metadata_of_def dest!: bt_ok_distinct map_of_is_SomeI)
    then show ?thesis using assms(1) by (auto simp: success_topic_total topic_info_def counts_ok_def)
  qed
  then show ?thesis using assms(2) by (simp add: topics_for_request_def map_each_Inr)
qed

lemma metadata_respond_total:
  assumes ok: "broker_ok crc b" "counts_ok b"
    and fresh: "fresh_draws (case mrq_topics request of None \<Rightarrow> 0 | Some ts \<Rightarrow> length ts) b"
  shows "\<exists>r b'. metadata_respond request version adv b = Inr (r, b') \<and> reaches crc b b'"
proof -
  have "\<exists>ts b'. topics_for_request request version b = Inr (ts, b') \<and> reaches crc b b'"
  proof (cases "mrq_topics request")
    case None
    then show ?thesis using topics_for_all [OF ok(2) _ ok(1)] by auto
  next
    case (Some requested)
    show ?thesis
    proof (cases "uuid_mode requested version")
      case True
      then show ?thesis using topics_for_ids [OF ok(2) Some] by auto
    next
      case False
      then show ?thesis using topics_for_names [OF ok Some False] fresh Some by auto
    qed
  qed
  then show ?thesis by (auto simp: metadata_respond_def Let_def split: option.split)
qed

section \<open>Creating topics\<close>

lemma validate_explicit_Inr:
  "validate_explicit c name p r = Inr () \<longleftrightarrow>
     validate_explicit_definition name p r = Inr (nat p) \<and> metadata_of c name = None"
  by (auto simp: validate_explicit_def try_bind_Inr metadata_of_def validate_explicit_definition_Inr)

lemma create_explicit_validated:
  "create_explicit name p r c draws =
     (case validate_explicit c name p r of
        Inl e \<Rightarrow> Inr (Inl e, c, draws)
      | Inr _ \<Rightarrow> try_bind (insert_topic name (nat p) c draws)
          (\<lambda>(metadata, c', draws'). Inr (Inr metadata, c', draws')))"
proof (cases "validate_explicit_definition name p r")
  case (Inr n)
  then have "n = nat p" by (simp add: validate_explicit_definition_Inr)
  with Inr show ?thesis by (simp add: create_explicit_def validate_explicit_def)
qed (simp add: create_explicit_def validate_explicit_def)

lemma success_result_eq:
  assumes "int (tm_partition_count md) \<le> i32_max"
  shows "success_result name md =
    Inr ((success_result_with_partition_count name (int (tm_partition_count md)))\<lparr>ctr_topic_id := tm_id md\<rparr>)"
  using assms by (simp add: success_result_def i32_try_from_def)

lemma create_one_explicit:
  assumes "fresh_draws (Suc n) b" and "in_i32 (ctopic_num_partitions topic)"
    and "ctopic_assignments topic = []" and "ctopic_configs topic = []"
    and "validate_explicit (bs_topics b) (ctopic_name topic) (ctopic_num_partitions topic)
      (ctopic_replication_factor topic) = Inr ()"
  shows "\<exists>md b'. broker_create_explicit (ctopic_name topic) (ctopic_num_partitions topic)
        (ctopic_replication_factor topic) b = Inr (Inr md, b') \<and> fresh_draws n b' \<and>
      create_one False topic b =
        Inr ((success_result_with_partition_count (ctopic_name topic) (ctopic_num_partitions topic))
               \<lparr>ctr_topic_id := tm_id md\<rparr>, b') \<and>
      metadata_of (bs_topics b') (ctopic_name topic) = Some md"
proof -
  let ?p = "ctopic_num_partitions topic"
  obtain md c draws where ins: "insert_topic (ctopic_name topic) (nat ?p) (bs_topics b) (bs_draws b) =
      Inr (md, c, draws)" "fresh_draws n (b\<lparr>bs_topics := c, bs_draws := draws\<rparr>)"
    using insert_topic_fresh [OF assms(1)] .
  have create: "broker_create_explicit (ctopic_name topic) ?p (ctopic_replication_factor topic) b =
      Inr (Inr md, b\<lparr>bs_topics := c, bs_draws := draws\<rparr>)"
    using ins(1) assms(5) by (simp add: broker_create_explicit_def create_explicit_validated)
  have "0 < ?p"
    using assms(5) by (simp add: validate_explicit_Inr validate_explicit_definition_Inr)
  moreover have "tm_partition_count md = nat ?p" using insert_topic_Inr [OF ins(1)] by simp
  ultimately have "success_result (ctopic_name topic) md =
      Inr ((success_result_with_partition_count (ctopic_name topic) ?p)\<lparr>ctr_topic_id := tm_id md\<rparr>)"
    using assms(2) by (subst success_result_eq) (simp_all add: in_i32_def i32_max_def)
  moreover have "metadata_of c (ctopic_name topic) = Some md"
    using metadata_of_insert [OF ins(1)] by simp
  ultimately show ?thesis
    using create ins(2) assms(3,4) by (auto simp: create_one_def)
qed

lemma create_one_refused:
  assumes "\<not> (ctopic_assignments topic = [] \<and> ctopic_configs topic = [] \<and>
      validate_explicit (bs_topics b) (ctopic_name topic) (ctopic_num_partitions topic)
        (ctopic_replication_factor topic) = Inr ())"
  shows "\<exists>r. ctr_error_code r \<noteq> 0 \<and> create_one validate_only topic b = Inr (r, b) \<and>
    create_one True topic b = Inr (r, b)"
proof (cases "ctopic_assignments topic = [] \<and> ctopic_configs topic = []")
  case False
  then show ?thesis
    by (cases "ctopic_assignments topic = []") (auto simp: create_one_def create_error_result_def Let_def)
next
  case True
  with assms have "validate_explicit (bs_topics b) (ctopic_name topic)
      (ctopic_num_partitions topic) (ctopic_replication_factor topic) \<noteq> Inr ()" by simp
  then obtain e where e: "validate_explicit (bs_topics b) (ctopic_name topic)
      (ctopic_num_partitions topic) (ctopic_replication_factor topic) = Inl e"
    by (cases "validate_explicit (bs_topics b) (ctopic_name topic)
      (ctopic_num_partitions topic) (ctopic_replication_factor topic)") simp_all
  have "ctr_error_code (topic_error_result (ctopic_name topic) e) \<noteq> 0"
    by (cases e) (simp_all add: topic_error_result_def create_error_result_def topic_error_response_def)
  with True e show ?thesis
    by (intro exI [of _ "topic_error_result (ctopic_name topic) e"])
      (simp add: create_one_def broker_create_explicit_def create_explicit_validated Let_def)
qed

lemma create_one_total:
  assumes "fresh_draws (Suc n) b" and "in_i32 (ctopic_num_partitions topic)"
  shows "\<exists>r b'. create_one validate_only topic b = Inr (r, b') \<and> fresh_draws n b' \<and> reaches crc b b'"
proof (cases "ctopic_assignments topic = [] \<and> ctopic_configs topic = [] \<and>
    validate_explicit (bs_topics b) (ctopic_name topic) (ctopic_num_partitions topic)
      (ctopic_replication_factor topic) = Inr ()")
  case False
  then show ?thesis
    using create_one_refused [OF False, of validate_only] fresh_draws_mono [OF assms(1), of n] by auto
next
  case True
  show ?thesis
  proof (cases validate_only)
    case True
    then show ?thesis using \<open>ctopic_assignments topic = [] \<and> _\<close> fresh_draws_mono [OF assms(1), of n]
      by (simp add: create_one_def)
  next
    case False
    obtain md b' where "broker_create_explicit (ctopic_name topic) (ctopic_num_partitions topic)
        (ctopic_replication_factor topic) b = Inr (Inr md, b')" "fresh_draws n b'"
      "create_one False topic b =
        Inr ((success_result_with_partition_count (ctopic_name topic) (ctopic_num_partitions topic))
               \<lparr>ctr_topic_id := tm_id md\<rparr>, b')"
      using create_one_explicit [OF assms] True by blast
    with False broker_create_explicit_reaches [OF _ assms(2)] show ?thesis by auto
  qed
qed

lemma create_topics_respond_total:
  assumes "fresh_draws (length (ctrq_topics request)) b"
    and "list_all (in_i32 \<circ> ctopic_num_partitions) (ctrq_topics request)"
  shows "\<exists>r b'. create_topics_respond request b = Inr (r, b') \<and> reaches crc b b'"
proof -
  have "\<exists>rs b'. map_run (create_one (ctrq_validate_only request)) (ctrq_topics request) b = Inr (rs, b') \<and>
      fresh_draws 0 b' \<and> reaches crc b b'"
    using map_run_total [of "ctrq_topics request" "\<lambda>n b'. fresh_draws n b' \<and> reaches crc b b'"
        "create_one (ctrq_validate_only request)" 0 b] assms create_one_total reaches_trans
    by (fastforce simp: list_all_iff)
  then show ?thesis by (auto simp: create_topics_respond_def)
qed

section \<open>Properties\<close>

lemma name_answer_operations [simp]:
  "name_answer b (t\<lparr>mrst_topic_authorized_operations := x\<rparr>) name = name_answer b t name"
  by (simp add: name_answer_def topic_answer_def split: option.split)

text \<open>
  C28: a Metadata request by name is answered from the catalog. Every requested name is answered once, in
  the order of first mention: an existing topic with its identifier and the partitions
  0, 1, 2, ... all led by this broker, any other name with the error that tells an unknown topic from an
  invalid name. If the request may create topics, every valid name exists afterwards; otherwise the
  broker is unchanged.
\<close>

theorem metadata_answers_names:
  assumes "broker_ok crc b" and "counts_ok b" and "metadata_request_error request version = None"
    and "mrq_topics request = Some requested" and "\<not> uuid_mode requested version"
    and "fresh_draws (length requested) b"
  shows "\<exists>resp b'. metadata_respond request version adv b = Inr (resp, b') \<and> broker_ok crc b' \<and>
    list_all2 (name_answer b') (mrs_topics resp) (firsts (map mrqt_name requested) []) \<and>
    (if may_auto_create request b
     then \<forall>name. Some name \<in> mrqt_name ` set requested \<and> validate_name name = Inr () \<longrightarrow>
            metadata_of (bs_topics b') name \<noteq> None
     else b' = b)"
proof -
  obtain ts b' where ts: "topics_for_request request version b = Inr (ts, b')" "reaches crc b b'"
    "list_all2 (name_answer b') ts (firsts (map mrqt_name requested) [])"
    "if may_auto_create request b
     then \<forall>name. Some name \<in> mrqt_name ` set requested \<and> validate_name name = Inr () \<longrightarrow>
            metadata_of (bs_topics b') name \<noteq> None
     else b' = b"
    using topics_for_names [OF assms(1,2,4,5)] assms(6) by metis
  have "list_all2 (name_answer b')
      (map (\<lambda>t. if P t then t\<lparr>mrst_topic_authorized_operations := x\<rparr> else t) ts)
      (firsts (map mrqt_name requested) [])" for P x
    using ts(3) by (auto simp: list_all2_map1 elim!: list_all2_mono)
  then show ?thesis
    using ts reaches_ok [OF ts(2) assms(1)] assms(3)
    by (simp add: metadata_respond_def Let_def)
qed

text \<open>
  A Metadata request by identifier never creates a topic. Each identifier is answered once: first the
  unknown ones, then the known topics, both in the order of first mention.
\<close>

theorem metadata_answers_ids:
  assumes "counts_ok b" and "metadata_request_error request version = None"
    and "mrq_topics request = Some requested" and "uuid_mode requested version"
  shows "\<exists>resp. metadata_respond request version adv b = Inr (resp, b) \<and>
    (let ids = firsts (map mrqt_topic_id requested) [nil_uuid]
     in map mrst_topic_id (mrs_topics resp) =
          filter (\<lambda>i. get_by_id (bs_topics b) i = None) ids @
          map tm_id (List.map_filter (get_by_id (bs_topics b)) ids) \<and>
        map mrst_error_code (mrs_topics resp) =
          map (\<lambda>_. code (Error ''UnknownTopicId'')) (filter (\<lambda>i. get_by_id (bs_topics b) i = None) ids) @
          map (\<lambda>_. 0) (List.map_filter (get_by_id (bs_topics b)) ids))"
proof -
  have keep: "map mrst_topic_id (map (\<lambda>t. if P t then t\<lparr>mrst_topic_authorized_operations := x\<rparr> else t) ts) =
      map mrst_topic_id ts"
    "map mrst_error_code (map (\<lambda>t. if P t then t\<lparr>mrst_topic_authorized_operations := x\<rparr> else t) ts) =
      map mrst_error_code ts" for P x and ts :: "metadata_response_topic list"
    by (induction ts) auto
  show ?thesis
    using topics_for_ids [OF assms(1,3,4)] assms(2)
    by (simp add: metadata_respond_def Let_def keep del: map_map)
      (simp add: error_topic_def topic_info_def metadata_response_topic_default_def comp_def)
qed

text \<open>
  C29: validation predicts creation. A validate-only CreateTopics entry changes nothing and answers exactly
  what creating the topic would answer, the identifier apart; creating succeeds exactly if the
  prediction is free of error, then the topic exists with the requested number of partitions, and a
  refused creation changes nothing.
\<close>

theorem validate_only_predicts_creation:
  assumes "fresh_draws 1 b" and "in_i32 (ctopic_num_partitions topic)"
  shows "\<exists>predicted actual b'. create_one True topic b = Inr (predicted, b) \<and>
    create_one False topic b = Inr (actual, b') \<and>
    actual = predicted\<lparr>ctr_topic_id := ctr_topic_id actual\<rparr> \<and>
    (if ctr_error_code predicted = 0
     then metadata_of (bs_topics b) (ctopic_name topic) = None \<and>
       (\<exists>md. metadata_of (bs_topics b') (ctopic_name topic) = Some md \<and>
          tm_id md = ctr_topic_id actual \<and> int (tm_partition_count md) = ctopic_num_partitions topic)
     else b' = b)"
proof (cases "ctopic_assignments topic = [] \<and> ctopic_configs topic = [] \<and>
    validate_explicit (bs_topics b) (ctopic_name topic) (ctopic_num_partitions topic)
      (ctopic_replication_factor topic) = Inr ()")
  case False
  then obtain r where "ctr_error_code r \<noteq> 0" "create_one False topic b = Inr (r, b)"
    "create_one True topic b = Inr (r, b)"
    using create_one_refused [OF False, of False] by blast
  then show ?thesis by (intro exI [of _ r] exI [of _ b]) simp
next
  case True
  let ?r = "success_result_with_partition_count (ctopic_name topic) (ctopic_num_partitions topic)"
  have yes: "create_one True topic b = Inr (?r, b)" using True by (simp add: create_one_def)
  obtain md b' where
    md: "broker_create_explicit (ctopic_name topic) (ctopic_num_partitions topic)
       (ctopic_replication_factor topic) b = Inr (Inr md, b')"
    "create_one False topic b = Inr (?r\<lparr>ctr_topic_id := tm_id md\<rparr>, b')"
    "metadata_of (bs_topics b') (ctopic_name topic) = Some md"
    using create_one_explicit [of 0 b topic] assms True by auto
  have "int (tm_partition_count md) = ctopic_num_partitions topic"
    using md(1) True
    by (auto simp: broker_create_explicit_def create_explicit_validated try_bind_Inr
        validate_explicit_Inr validate_explicit_definition_Inr dest: insert_topic_Inr)
  with yes md True show ?thesis
    by (intro exI [of _ ?r] exI [of _ "?r\<lparr>ctr_topic_id := tm_id md\<rparr>"] exI [of _ b'])
      (simp add: success_result_with_partition_count_def creatable_topic_result_default_def
        validate_explicit_Inr)
qed

text \<open>Topics that are created for a Metadata request have the default partition count.\<close>

lemma auto_create_counts:
  assumes "broker_auto_create name allow b = Inr (out, b')"
  shows "default_partitions (bs_topics b') = default_partitions (bs_topics b) \<and>
    (metadata_of (bs_topics b') x = Some md \<longrightarrow>
       metadata_of (bs_topics b) x = Some md \<or> tm_partition_count md = default_partitions (bs_topics b))"
  using assms
  by (auto simp: broker_auto_create_def get_or_auto_create_def auto_create_write_def try_bind_Inr metadata_of_insert
      dest: insert_topic_Inr split: option.splits if_splits)

lemma auto_create_requested_counts:
  assumes "auto_create_requested requested b = Inr b'" and "metadata_of (bs_topics b') x = Some md"
    and "metadata_of (bs_topics b) x = None"
  shows "tm_partition_count md = default_partitions (bs_topics b)"
proof -
  have "default_partitions (bs_topics b') = default_partitions (bs_topics b) \<and>
    (metadata_of (bs_topics b') x = Some md \<longrightarrow>
       metadata_of (bs_topics b) x = Some md \<or> tm_partition_count md = default_partitions (bs_topics b))"
    using assms(1)
  proof (induction requested arbitrary: b)
    case (Cons r rest)
    show ?case
    proof (cases "mrqt_name r")
      case (Some name)
      with Cons.prems obtain out b1 where
        step: "broker_auto_create name True b = Inr (out, b1)" "auto_create_requested rest b1 = Inr b'"
        by (cases "broker_auto_create name True b") (fastforce split: sum.splits if_splits)+
      from Cons.IH [OF step(2)] auto_create_counts [OF step(1), of x md] show ?thesis by auto
    qed (use Cons in simp)
  qed simp
  with assms(2,3) show ?thesis by simp
qed

lemma metadata_topics_by_name_panics:
  assumes "Some name \<in> mrqt_name ` set ts" and "Some name \<notin> set seen" and "validate_name name = Inr ()"
    and "metadata_of (bs_topics b) name = Some md" and "2 ^ 31 < tm_partition_count md"
  shows "metadata_topics_by_name ts seen b = Inl count_panic"
  using assms
proof (induction ts arbitrary: seen)
  case (Cons t ts)
  let ?rest = "metadata_topics_by_name ts (mrqt_name t # seen) b"
  have rest: "?rest = Inl count_panic" if "mrqt_name t \<noteq> Some name"
    using Cons that by (intro Cons.IH) auto
  have here: "get_topic (bs_topics b) name = Inr (Some md)" "success_topic md (bs_broker_id b) = Inl count_panic"
    using Cons.prems by (simp_all add: get_topic_metadata success_topic_panics(1))
  have lookup: "get_topic (bs_topics b) n \<noteq> Inl e" if "e \<noteq> InvalidName" for n e
    using that by (auto simp: get_topic_metadata validate_name_def split: sum.splits if_splits)
  consider (seen) "mrqt_name t \<in> set seen" | (target) "mrqt_name t \<notin> set seen" "mrqt_name t = Some name"
    | (other) "mrqt_name t \<notin> set seen" "mrqt_name t \<noteq> Some name" by blast
  then show ?case
  proof cases
    case seen
    with Cons show ?thesis by (auto intro: Cons.IH)
  next
    case target
    with here show ?thesis by (simp add: Let_def)
  next
    case other
    with rest lookup success_topic_panics(2) show ?thesis
      by (auto simp: Let_def try_bind_Inl split: option.splits sum.splits)
  qed
qed simp

text \<open>
  C40: the limit of the configuration. The command line accepts any positive 32-bit default partition
  count, but with one above 2^31 a Metadata request of any version that names a missing topic it may create panics, with
  the message that the partition count must fit a signed integer, in every state of the broker; so the
  bound the other properties assume cannot be dropped.
\<close>

theorem oversized_default_panics:
  assumes "broker_ok crc b" and "2 ^ 31 < default_partitions (bs_topics b)"
    and "metadata_request_error request version = None" and "mrq_topics request = Some requested"
    and "\<not> uuid_mode requested version" and "may_auto_create request b"
    and "fresh_draws (length requested) b"
    and "Some name \<in> mrqt_name ` set requested" and "validate_name name = Inr ()"
    and "metadata_of (bs_topics b) name = None"
  shows "metadata_respond request version advertised b =
    Inl (Panic ''Kafka partition count must fit in a signed integer'')"
proof -
  from auto_create_requested_total [OF assms(7,1)] assms(8,9) obtain b' md where
    b': "auto_create_requested requested b = Inr b'" "metadata_of (bs_topics b') name = Some md"
    by blast
  then have "2 ^ 31 < tm_partition_count md" using auto_create_requested_counts [OF b' assms(10)] assms(2) by simp
  then have "metadata_topics_by_name requested [] b' = Inl count_panic"
    using metadata_topics_by_name_panics [OF assms(8) _ assms(9) b'(2)] by simp
  moreover have "requested \<noteq> []" using assms(8) by auto
  ultimately have "topics_for_request request version b = Inl count_panic"
    using assms(4-6) b'(1) by (auto simp: topics_for_request_def uuid_mode_def may_auto_create_def)
  with assms(3) show ?thesis by (simp add: metadata_respond_def count_panic_def)
qed

section \<open>Concrete requests\<close>

definition sample_address :: advertised_address where
  "sample_address = \<lparr>aa_host = ''localhost'', aa_port = 9092\<rparr>"

definition sample_names :: metadata_request where
  "sample_names = metadata_request_default
     \<lparr>mrq_topics := Some (map (\<lambda>n. metadata_request_topic_default\<lparr>mrqt_name := Some n\<rparr>)
        [''b'', ''a'', ''b'', ''a/c'']),
      mrq_allow_auto_topic_creation := True\<rparr>"

lemma new_broker_ok:
  "broker_ok crc (broker_new 1 True False 2 [5, 6, 7, 8])" "counts_ok (broker_new 1 True False 2 [5, 6, 7, 8])"
  "fresh_draws 4 (broker_new 1 True False 2 [5, 6, 7, 8])"
  by (simp add: broker_ok_new)
    (simp_all add: counts_ok_def broker_new_def catalog_new_def metadata_of_def fresh_draws_def nil_uuid_def)

theorem metadata_answers_names_witness:
  "\<exists>resp b'. metadata_respond sample_names 9 sample_address (broker_new 1 True False 2 [5, 6, 7, 8]) = Inr (resp, b') \<and>
     map mrst_name (mrs_topics resp) = [Some ''b'', Some ''a'', Some ''a/c''] \<and>
     metadata_of (bs_topics b') ''a'' \<noteq> None"
proof -
  let ?b = "broker_new 1 True False 2 [5, 6, 7, 8]"
  let ?ts = "map (\<lambda>n. metadata_request_topic_default\<lparr>mrqt_name := Some n\<rparr>) [''b'', ''a'', ''b'', ''a/c'']"
  have "metadata_request_error sample_names 9 = None" "mrq_topics sample_names = Some ?ts"
    "\<not> uuid_mode ?ts 9" "may_auto_create sample_names ?b" "validate_name ''a'' = Inr ()"
    "firsts (map mrqt_name ?ts) [] = [Some ''b'', Some ''a'', Some ''a/c'']"
    by code_simp+
  note facts = this
  have "fresh_draws (length ?ts) ?b" using new_broker_ok(3) by (simp add: numeral_eq_Suc)
  from metadata_answers_names [OF new_broker_ok(1) [of sample_checksum] new_broker_ok(2) facts(1-3) this,
      of sample_address]
  obtain resp b' where r: "metadata_respond sample_names 9 sample_address ?b = Inr (resp, b')"
    "list_all2 (name_answer b') (mrs_topics resp) [Some ''b'', Some ''a'', Some ''a/c'']"
    "Some ''a'' \<in> mrqt_name ` set ?ts \<Longrightarrow> metadata_of (bs_topics b') ''a'' \<noteq> None"
    using facts(4-6) by auto
  have "map mrst_name (mrs_topics resp) = [Some ''b'', Some ''a'', Some ''a/c'']"
    using r(2) by (auto simp: list_all2_Cons2 name_answer_def topic_answer_def)
  moreover have "metadata_of (bs_topics b') ''a'' \<noteq> None" by (rule r(3)) simp
  ultimately show ?thesis using r(1) by (intro exI conjI)
qed

theorem metadata_answers_ids_witness:
  "\<exists>resp. metadata_respond (metadata_request_default
      \<lparr>mrq_topics := Some [metadata_request_topic_default\<lparr>mrqt_topic_id := 77\<rparr>]\<rparr>) 12 sample_address
      (broker_new 1 True False 2 [5, 6, 7, 8]) = Inr (resp, broker_new 1 True False 2 [5, 6, 7, 8]) \<and>
    map mrst_topic_id (mrs_topics resp) = [77] \<and> map mrst_error_code (mrs_topics resp) = [100]"
proof -
  let ?req = "metadata_request_default
      \<lparr>mrq_topics := Some [metadata_request_topic_default\<lparr>mrqt_topic_id := 77\<rparr>]\<rparr>"
  have "metadata_request_error ?req 12 = None" "uuid_mode [metadata_request_topic_default\<lparr>mrqt_topic_id := 77\<rparr>] 12"
    by code_simp+
  from metadata_answers_ids [OF new_broker_ok(2) this(1) _ this(2), of sample_address] show ?thesis
    by (simp add: get_by_id_def broker_new_def catalog_new_def nil_uuid_def map_filter_simps Let_def)
qed

theorem validate_only_predicts_creation_witness:
  "\<exists>predicted actual b'.
     create_one True (creatable_topic_default\<lparr>ctopic_name := ''t'', ctopic_num_partitions := 3,
       ctopic_replication_factor := 1\<rparr>) (broker_new 1 True False 2 [5, 6, 7, 8]) =
       Inr (predicted, broker_new 1 True False 2 [5, 6, 7, 8]) \<and>
     create_one False (creatable_topic_default\<lparr>ctopic_name := ''t'', ctopic_num_partitions := 3,
       ctopic_replication_factor := 1\<rparr>) (broker_new 1 True False 2 [5, 6, 7, 8]) = Inr (actual, b') \<and>
     actual = predicted\<lparr>ctr_topic_id := ctr_topic_id actual\<rparr>"
  using validate_only_predicts_creation [OF fresh_draws_mono [OF new_broker_ok(3)],
      of "creatable_topic_default\<lparr>ctopic_name := ''t'', ctopic_num_partitions := 3,
       ctopic_replication_factor := 1\<rparr>"]
  by (fastforce simp: in_i32_def)

theorem oversized_default_panics_witness:
  "metadata_respond (metadata_request_default
      \<lparr>mrq_topics := Some [metadata_request_topic_default\<lparr>mrqt_name := Some ''a''\<rparr>],
       mrq_allow_auto_topic_creation := True\<rparr>) 4 sample_address
      (broker_new 1 True False (2 ^ 31 + 1) [5]) =
    Inl (Panic ''Kafka partition count must fit in a signed integer'')"
  by (rule oversized_default_panics [where crc = sample_checksum and name = "''a''"
        and requested = "[metadata_request_topic_default\<lparr>mrqt_name := Some ''a''\<rparr>]"], simp add: broker_ok_new)
    (simp_all add: sample_valid nil_uuid_def broker_new_def catalog_new_def metadata_of_def fresh_draws_def
      metadata_request_error_def metadata_request_topic_default_def uuid_mode_def may_auto_create_def)

end
