(* ===== verification/Topic_Pages.thy ===== *)
theory Topic_Pages
  imports Discovery
begin

text \<open>
  The DescribeTopicPartitions handler (\<open>src/src/kafka/describe_topic_partitions.rs\<close>): topics in name
  order, cut into pages of at most a requested number of partitions, each page ending with the
  cursor at which the next one starts. The main result is about a client that follows the cursors.
\<close>

section \<open>One page\<close>

text \<open>Collecting into a \<open>BTreeSet\<close> and iterating: ascending, without duplicates.\<close>

definition selected_names ::
  "describe_topic_partitions_request \<Rightarrow> topic_metadata list \<Rightarrow> response_error + string list" where
  "selected_names request catalog_topics =
     (if (case dtprq_cursor request of None \<Rightarrow> False | Some c \<Rightarrow> qc_partition_index c < 0)
      then Inl (Error ''InvalidRequest'')
      else
        let explicit = dtprq_topics request \<noteq> [];
            names = sort (remdups
              (if explicit then map trq_name (dtprq_topics request) else map tm_name catalog_topics))
        in if explicit \<and>
              (case dtprq_cursor request of None \<Rightarrow> False | Some c \<Rightarrow> qc_topic_name c \<notin> set names)
           then Inl (Error ''InvalidRequest'')
           else Inr (filter (\<lambda>name. case dtprq_cursor request of
                               None \<Rightarrow> True | Some c \<Rightarrow> name \<ge> qc_topic_name c) names))"

definition described_partition ::
  "i32 \<Rightarrow> usize \<Rightarrow> describe_topic_partitions_response_partition run" where
  "described_partition broker_id partition_index =
     try_bind (expect ''Kafka partition index fits in a signed integer'' (i32_try_from partition_index))
       (\<lambda>index. Inr (describe_topic_partitions_response_partition_default
          \<lparr>dtprsp_partition_index := index, dtprsp_leader_id := broker_id, dtprsp_leader_epoch := 0,
           dtprsp_replica_nodes := [broker_id], dtprsp_isr_nodes := [broker_id],
           dtprsp_eligible_leader_replicas := Some [], dtprsp_last_known_elr := Some [],
           dtprsp_offline_replicas := []\<rparr>))"

definition described_topic ::
  "topic_metadata \<Rightarrow> usize list \<Rightarrow> i32 \<Rightarrow> describe_topic_partitions_response_topic run" where
  "described_topic metadata indices broker_id =
     try_bind (map_each (described_partition broker_id) indices) (\<lambda>partitions.
     Inr (describe_topic_partitions_response_topic_default
        \<lparr>dtprst_name := Some (tm_name metadata), dtprst_topic_id := tm_id metadata,
         dtprst_is_internal := False, dtprst_partitions := partitions,
         dtprst_topic_authorized_operations := TOPIC_AUTHORIZED_OPERATIONS\<rparr>))"

definition describe_error_topic ::
  "string \<Rightarrow> response_error \<Rightarrow> describe_topic_partitions_response_topic" where
  "describe_error_topic name e =
     describe_topic_partitions_response_topic_default
       \<lparr>dtprst_error_code := code e, dtprst_name := Some name, dtprst_topic_id := nil_uuid,
        dtprst_is_internal := False, dtprst_partitions := []\<rparr>"

definition resource_error_topic ::
  "string \<Rightarrow> response_error \<Rightarrow> describe_topic_partitions_response_topic" where
  "resource_error_topic name e =
     (describe_error_topic name e)\<lparr>dtprst_topic_authorized_operations := TOPIC_AUTHORIZED_OPERATIONS\<rparr>"

definition page_cursor :: "string \<Rightarrow> usize \<Rightarrow> response_cursor run" where
  "page_cursor name partition_index =
     try_bind (expect ''Kafka continuation partition fits in a signed integer''
         (i32_try_from partition_index)) (\<lambda>index.
     Inr (response_cursor_default\<lparr>sc_topic_name := name, sc_partition_index := index\<rparr>))"

definition page_start :: "request_cursor option \<Rightarrow> topic_metadata \<Rightarrow> usize run" where
  "page_start cursor metadata =
     (case cursor of
        None \<Rightarrow> Inr 0
      | Some c \<Rightarrow>
          if qc_topic_name c = tm_name metadata
          then expect ''selected_names validated the non-negative cursor''
                 (usize_try_from (qc_partition_index c))
          else Inr 0)"

text \<open>The loop over the selected names with what remains of the page.\<close>

fun describe_names ::
  "request_cursor option \<Rightarrow> broker_state \<Rightarrow> string list \<Rightarrow> usize \<Rightarrow>
   (describe_topic_partitions_response_topic list \<times> response_cursor option) run" where
  "describe_names cursor b [] remaining = Inr ([], None)"
| "describe_names cursor b (name # names) remaining =
     (case get_topic (bs_topics b) name of
        Inr None \<Rightarrow>
          try_bind (describe_names cursor b names remaining) (\<lambda>(topics, next_cursor).
          Inr (resource_error_topic name (Error ''UnknownTopicOrPartition'') # topics, next_cursor))
      | Inl e \<Rightarrow>
          if e = InvalidName
          then try_bind (describe_names cursor b names remaining) (\<lambda>(topics, next_cursor).
               Inr (resource_error_topic name (Error ''InvalidTopicException'') # topics, next_cursor))
          else Inl (Panic ''topic lookup returned creation-only error'')
      | Inr (Some metadata) \<Rightarrow>
          try_bind (page_start cursor metadata) (\<lambda>start.
          let stop = tm_partition_count metadata;
              taken = min (stop - start) remaining
          in try_bind (described_topic metadata [start..<start + taken] (bs_broker_id b)) (\<lambda>topic.
             if start + taken < stop
             then try_bind (page_cursor name (start + taken)) (\<lambda>c. Inr ([topic], Some c))
             else if remaining - taken = 0 \<and> names \<noteq> []
             then try_bind (page_cursor (hd names) 0) (\<lambda>c. Inr ([topic], Some c))
             else try_bind (describe_names cursor b names (remaining - taken))
                    (\<lambda>(topics, next_cursor). Inr (topic # topics, next_cursor)))))"

definition describe_topic_partitions_respond ::
  "describe_topic_partitions_request \<Rightarrow> broker_state \<Rightarrow> describe_topic_partitions_response run" where
  "describe_topic_partitions_respond request b =
     (case selected_names request (list_topics (bs_topics b)) of
        Inl e \<Rightarrow>
          Inr (describe_topic_partitions_response_default
             \<lparr>dtprs_topics := map (\<lambda>topic. describe_error_topic (trq_name topic) e) (dtprq_topics request)\<rparr>)
      | Inr names \<Rightarrow>
          try_bind (expect ''a positive i32 partition limit fits in usize''
              (usize_try_from (max (dtprq_response_partition_limit request) 1))) (\<lambda>remaining.
          try_bind (describe_names (dtprq_cursor request) b names remaining) (\<lambda>(topics, next_cursor).
          Inr (describe_topic_partitions_response_default
             \<lparr>dtprs_topics := topics, dtprs_next_cursor := next_cursor\<rparr>))))"

section \<open>A client that follows the cursors\<close>

definition resume :: "describe_topic_partitions_request \<Rightarrow> response_cursor \<Rightarrow> describe_topic_partitions_request" where
  "resume request c =
     request\<lparr>dtprq_cursor := Some (request_cursor_default
       \<lparr>qc_topic_name := sc_topic_name c, qc_partition_index := sc_partition_index c\<rparr>)\<rparr>"

lemma resume_topics [simp]: "dtprq_topics (resume request c) = dtprq_topics request"
  by (simp add: resume_def)

text \<open>The pages until one carries no cursor; \<open>None\<close> when the fuel does not suffice.\<close>

fun follow_pages ::
  "nat \<Rightarrow> describe_topic_partitions_request \<Rightarrow> broker_state \<Rightarrow>
   describe_topic_partitions_response list run option" where
  "follow_pages 0 request b = None"
| "follow_pages (Suc fuel) request b =
     (case describe_topic_partitions_respond request b of
        Inl e \<Rightarrow> Some (Inl e)
      | Inr page \<Rightarrow>
          (case dtprs_next_cursor page of
             None \<Rightarrow> Some (Inr [page])
           | Some c \<Rightarrow>
               map_option (\<lambda>rest. try_bind rest (\<lambda>pages. Inr (page # pages)))
                 (follow_pages fuel (resume request c) b)))"

text \<open>What a page tells the client: per topic its error, or the partitions listed.\<close>

definition topic_entries :: "describe_topic_partitions_response_topic \<Rightarrow> (string option \<times> (i16 + i32)) list" where
  "topic_entries t =
     (if dtprst_error_code t \<noteq> 0 then [(dtprst_name t, Inl (dtprst_error_code t))]
      else map (\<lambda>p. (dtprst_name t, Inr (dtprsp_partition_index p))) (dtprst_partitions t))"

definition page_entries :: "describe_topic_partitions_response \<Rightarrow> (string option \<times> (i16 + i32)) list" where
  "page_entries page = concat (map topic_entries (dtprs_topics page))"

text \<open>The reference: every partition of every topic in order, from partition \<open>k\<close> of the first on.\<close>

fun listing :: "broker_state \<Rightarrow> string list \<Rightarrow> nat \<Rightarrow> (string option \<times> (i16 + i32)) list" where
  "listing b [] k = []"
| "listing b (name # names) k =
     (case metadata_of (bs_topics b) name of
        None \<Rightarrow>
          [(Some name, Inl (code (if validate_name name = Inr () then Error ''UnknownTopicOrPartition''
                                  else Error ''InvalidTopicException'')))]
      | Some md \<Rightarrow> map (\<lambda>i. (Some name, Inr (int i))) [k..<tm_partition_count md]) @
     listing b names 0"

definition all_names :: "describe_topic_partitions_request \<Rightarrow> broker_state \<Rightarrow> string list" where
  "all_names request b =
     sort (remdups (if dtprq_topics request \<noteq> [] then map trq_name (dtprq_topics request)
                    else map tm_name (list_topics (bs_topics b))))"

section \<open>A page is a piece of the listing\<close>

lemma described_topic_total:
  assumes "\<And>i. i \<in> set indices \<Longrightarrow> i < 2 ^ 31"
  shows "\<exists>t. described_topic md indices broker_id = Inr t \<and>
    topic_entries t = map (\<lambda>i. (Some (tm_name md), Inr (int i))) indices \<and>
    length (dtprst_partitions t) = length indices"
proof -
  have "described_partition broker_id i = Inr (describe_topic_partitions_response_partition_default
          \<lparr>dtprsp_partition_index := int i, dtprsp_leader_id := broker_id, dtprsp_leader_epoch := 0,
           dtprsp_replica_nodes := [broker_id], dtprsp_isr_nodes := [broker_id],
           dtprsp_eligible_leader_replicas := Some [], dtprsp_last_known_elr := Some [],
           dtprsp_offline_replicas := []\<rparr>)" if "i \<in> set indices" for i
  proof -
    have "int i \<le> i32_max" using assms [OF that] by (simp add: i32_max_def)
    then show ?thesis by (simp add: described_partition_def i32_try_from_def)
  qed
  note map_each_Inr [OF this, of indices]
  then show ?thesis
    by (simp add: described_topic_def topic_entries_def
        describe_topic_partitions_response_topic_default_def)
qed

lemma page_cursor_total:
  assumes "i < 2 ^ 31"
  shows "page_cursor name i =
    Inr (response_cursor_default\<lparr>sc_topic_name := name, sc_partition_index := int i\<rparr>)"
proof -
  have "int i \<le> i32_max" using assms by (simp add: i32_max_def)
  then show ?thesis by (simp add: page_cursor_def i32_try_from_def)
qed

text \<open>The cursor, if any, is at partition \<open>k\<close> of the first name, or before all of them.\<close>

definition aligned :: "request_cursor option \<Rightarrow> string list \<Rightarrow> nat \<Rightarrow> bool" where
  "aligned cursor names k \<longleftrightarrow>
     (case cursor of
        None \<Rightarrow> k = 0
      | Some c \<Rightarrow> 0 \<le> qc_partition_index c \<and>
          (case names of
             [] \<Rightarrow> True
           | n # ns \<Rightarrow>
               k = (if qc_topic_name c = n then nat (qc_partition_index c) else 0) \<and>
               qc_topic_name c \<notin> set ns))"

lemma aligned_tail: "aligned cursor (n # ns) k \<Longrightarrow> aligned cursor ns 0"
  by (cases ns) (auto simp: aligned_def split: option.splits)

lemma aligned_start:
  "aligned cursor (n # ns) k \<Longrightarrow> tm_name md = n \<Longrightarrow> page_start cursor md = Inr k"
  by (auto simp: aligned_def page_start_def usize_try_from_def split: option.splits)

definition page_ok ::
  "broker_state \<Rightarrow> string list \<Rightarrow> nat \<Rightarrow> usize \<Rightarrow>
   describe_topic_partitions_response_topic list \<Rightarrow> response_cursor option \<Rightarrow> bool" where
  "page_ok b names k remaining topics nc \<longleftrightarrow>
     sum_list (map (length \<circ> dtprst_partitions) topics) \<le> remaining \<and>
     (case nc of
        None \<Rightarrow> concat (map topic_entries topics) = listing b names k
      | Some c \<Rightarrow>
          \<exists>pre n ns. names = pre @ n # ns \<and> sc_topic_name c = n \<and> 0 \<le> sc_partition_index c \<and>
            concat (map topic_entries topics) @ listing b (n # ns) (nat (sc_partition_index c)) =
              listing b names k \<and>
            length (listing b (n # ns) (nat (sc_partition_index c))) + length (n # ns) <
              length (listing b names k) + length names)"

lemma page_ok_Some:
  assumes "sum_list (map (length \<circ> dtprst_partitions) topics) \<le> remaining"
    and "names = pre @ n # ns" and "sc_topic_name c = n" and "sc_partition_index c = int i"
    and "listing b names k = concat (map topic_entries topics) @ listing b (n # ns) i"
    and "length (listing b (n # ns) i) + length (n # ns) < length (listing b names k) + length names"
  shows "page_ok b names k remaining topics (Some c)"
  unfolding page_ok_def option.case
  by (intro conjI assms(1), rule exI [of _ pre], rule exI [of _ n], rule exI [of _ ns])
    (use assms(2-) in \<open>simp_all del: listing.simps\<close>)

lemma page_ok_prepend:
  assumes "page_ok b ns 0 r topics nc" and "listing b (n # ns) k = topic_entries t @ listing b ns 0"
    and "length (dtprst_partitions t) + r \<le> remaining"
  shows "page_ok b (n # ns) k remaining (t # topics) nc"
proof (cases nc)
  case None
  with assms show ?thesis by (simp add: page_ok_def)
next
  case (Some c)
  with assms(1) obtain pre m ms where
    p: "ns = pre @ m # ms" "sc_topic_name c = m" "0 \<le> sc_partition_index c"
    "concat (map topic_entries topics) @ listing b (m # ms) (nat (sc_partition_index c)) = listing b ns 0"
    "length (listing b (m # ms) (nat (sc_partition_index c))) + length (m # ms) <
      length (listing b ns 0) + length ns"
    by (auto simp: page_ok_def simp del: listing.simps)
  have "n # ns = (n # pre) @ m # ms" using p(1) by simp
  moreover have "sum_list (map (length \<circ> dtprst_partitions) topics) \<le> r"
    using assms(1) by (simp add: page_ok_def)
  ultimately show ?thesis
    unfolding Some
    by (intro page_ok_Some [where pre = "n # pre" and n = m and ns = ms and i = "nat (sc_partition_index c)"])
      (use p assms(2,3) in \<open>simp_all del: listing.simps\<close>)
qed

lemma upt_split: "k \<le> m \<Longrightarrow> m \<le> n \<Longrightarrow> [k..<n] = [k..<m] @ [m..<n]"
  by (metis le_iff_add upt_add_eq_append)

lemma describe_names_page:
  assumes ok: "broker_ok crc b" "counts_ok b" and "aligned cursor names k" and "0 < remaining"
  shows "\<exists>topics nc. describe_names cursor b names remaining = Inr (topics, nc) \<and>
    page_ok b names k remaining topics nc"
  using assms(3,4)
proof (induction names arbitrary: k remaining)
  case Nil
  then show ?case by (simp add: page_ok_def)
next
  case (Cons n ns)
  note tail = Cons.IH [OF aligned_tail [OF Cons.prems(1)]]
  show ?case
  proof (cases "metadata_of (bs_topics b) n")
    case None
    let ?e = "if validate_name n = Inr () then Error ''UnknownTopicOrPartition''
      else Error ''InvalidTopicException''"
    obtain topics nc where rest: "describe_names cursor b ns remaining = Inr (topics, nc)"
      "page_ok b ns 0 remaining topics nc" using tail [OF Cons.prems(2)] by blast
    have "describe_names cursor b (n # ns) remaining = Inr (resource_error_topic n ?e # topics, nc)"
      using rest(1) None
      by (cases "validate_name n") (auto simp: get_topic_metadata dest: validate_name_error)
    moreover have "page_ok b (n # ns) k remaining (resource_error_topic n ?e # topics) nc"
      by (rule page_ok_prepend [OF rest(2)])
        (simp_all add: None topic_entries_def resource_error_topic_def describe_error_topic_def)
    ultimately show ?thesis by blast
  next
    case (Some md)
    let ?stop = "tm_partition_count md" and ?taken = "min (tm_partition_count md - k) remaining"
    have md: "tm_name md = n" "validate_name n = Inr ()"
      using metadata_of_ok [OF _ Some] ok(1) by (auto simp: broker_ok_def)
    have count: "?stop \<le> 2 ^ 31" using ok(2) Some by (simp add: counts_ok_def)
    obtain t where t: "described_topic md [k..<k + ?taken] (bs_broker_id b) = Inr t"
      "topic_entries t = map (\<lambda>i. (Some n, Inr (int i))) [k..<k + ?taken]"
      "length (dtprst_partitions t) = ?taken"
      using described_topic_total [of "[k..<k + ?taken]" md "bs_broker_id b"] count md(1) by force
    have unfold: "describe_names cursor b (n # ns) remaining =
        (if k + ?taken < ?stop
         then try_bind (page_cursor n (k + ?taken)) (\<lambda>c. Inr ([t], Some c))
         else if remaining - ?taken = 0 \<and> ns \<noteq> []
         then try_bind (page_cursor (hd ns) 0) (\<lambda>c. Inr ([t], Some c))
         else try_bind (describe_names cursor b ns (remaining - ?taken))
                (\<lambda>(topics, next_cursor). Inr (t # topics, next_cursor)))"
      using Some md t(1) aligned_start [OF Cons.prems(1) md(1)]
      by (simp add: get_topic_metadata Let_def)
    consider (cut) "k + ?taken < ?stop" | (full) "\<not> k + ?taken < ?stop" "remaining - ?taken = 0" "ns \<noteq> []"
      | (more) "\<not> k + ?taken < ?stop" "\<not> (remaining - ?taken = 0 \<and> ns \<noteq> [])" by argo
    then show ?thesis
    proof cases
      case cut
      then have taken: "0 < ?taken" using Cons.prems(2) by simp
      have "[k..<?stop] = [k..<k + ?taken] @ [k + ?taken..<?stop]"
        using cut by (intro upt_split) simp_all
      then have "listing b (n # ns) k = topic_entries t @ listing b (n # ns) (k + ?taken)"
        by (simp add: Some t(2))
      moreover have "length (topic_entries t) = ?taken" by (simp add: t(2))
      ultimately have "page_ok b (n # ns) k remaining [t]
          (Some (response_cursor_default\<lparr>sc_topic_name := n, sc_partition_index := int (k + ?taken)\<rparr>))"
        using taken t(3)
        by (intro page_ok_Some [where pre = "[]" and n = n and ns = ns and i = "k + ?taken"])
          (simp_all del: listing.simps)
      moreover have "k + ?taken < 2 ^ 31" using cut count by linarith
      then have "page_cursor n (k + ?taken) =
          Inr (response_cursor_default\<lparr>sc_topic_name := n, sc_partition_index := int (k + ?taken)\<rparr>)"
        by (rule page_cursor_total)
      ultimately show ?thesis unfolding unfold if_P [OF cut] by auto
    next
      case full
      then obtain m ms where ns: "ns = m # ms" by (cases ns) auto
      have whole: "listing b (n # ns) k = topic_entries t @ listing b ns 0"
        using full(1) by (cases "k \<le> ?stop") (auto simp: Some t(2) min_def)
      have "page_ok b (n # ns) k remaining [t]
          (Some (response_cursor_default\<lparr>sc_topic_name := m, sc_partition_index := int 0\<rparr>))"
        by (intro page_ok_Some [where pre = "[n]" and n = m and ns = ms and i = 0])
          (use whole t(3) ns in \<open>simp_all del: listing.simps\<close>)
      moreover have "remaining - ?taken = 0 \<and> ns \<noteq> []" using full by simp
      ultimately show ?thesis
        unfolding unfold if_not_P [OF full(1)] using ns by (simp add: page_cursor_total)
    next
      case more
      have whole: "listing b (n # ns) k = topic_entries t @ listing b ns 0"
        using more(1) by (cases "k \<le> ?stop") (auto simp: Some t(2) min_def)
      have "\<exists>topics nc. describe_names cursor b ns (remaining - ?taken) = Inr (topics, nc) \<and>
          page_ok b ns 0 (remaining - ?taken) topics nc"
        using tail [of "remaining - ?taken"] more(2) by (cases ns) (auto simp: page_ok_def)
      then obtain topics nc where rest:
        "describe_names cursor b ns (remaining - ?taken) = Inr (topics, nc)"
        "page_ok b ns 0 (remaining - ?taken) topics nc" by blast
      have "page_ok b (n # ns) k remaining (t # topics) nc"
        by (rule page_ok_prepend [OF rest(2) whole]) (simp add: t(3))
      then show ?thesis unfolding unfold if_not_P [OF more(1)] if_not_P [OF more(2)] rest(1) by simp
    qed
  qed
qed

section \<open>Following the cursors\<close>

lemma filter_from:
  assumes "sorted_wrt (<) (pre @ (n :: string) # ns)"
  shows "filter (\<lambda>x. x \<ge> n) (pre @ n # ns) = n # ns"
proof -
  have "filter (\<lambda>x. x \<ge> n) pre = []" using assms by (auto simp: sorted_wrt_append filter_empty_conv)
  moreover have "filter (\<lambda>x. x \<ge> n) ns = ns" using assms by (auto simp: sorted_wrt_append intro!: filter_True)
  ultimately show ?thesis by simp
qed

lemma all_names_sorted: "sorted_wrt (<) (all_names request b)"
  by (simp add: all_names_def strict_sorted_iff)

definition page_limit :: "describe_topic_partitions_request \<Rightarrow> nat" where
  "page_limit request = nat (max (dtprq_response_partition_limit request) 1)"

lemma respond_page:
  assumes "broker_ok crc b" "counts_ok b"
    and "selected_names request (list_topics (bs_topics b)) = Inr names"
    and "aligned (dtprq_cursor request) names k"
  obtains page where "describe_topic_partitions_respond request b = Inr page"
    and "page_ok b names k (page_limit request) (dtprs_topics page) (dtprs_next_cursor page)"
proof -
  have "0 < page_limit request" by (simp add: page_limit_def)
  from describe_names_page [OF assms(1,2,4) this] obtain topics nc where
    "describe_names (dtprq_cursor request) b names (page_limit request) = Inr (topics, nc)"
    "page_ok b names k (page_limit request) topics nc" by blast
  then show ?thesis
    using assms(3)
    by (intro that) (auto simp: describe_topic_partitions_respond_def page_limit_def usize_try_from_def max_def)
qed

lemma selected_names_all:
  "selected_names request (list_topics (bs_topics b)) =
     (if (case dtprq_cursor request of None \<Rightarrow> False | Some c \<Rightarrow> qc_partition_index c < 0)
      then Inl (Error ''InvalidRequest'')
      else if dtprq_topics request \<noteq> [] \<and>
              (case dtprq_cursor request of
                 None \<Rightarrow> False | Some c \<Rightarrow> qc_topic_name c \<notin> set (all_names request b))
      then Inl (Error ''InvalidRequest'')
      else Inr (filter (\<lambda>name. case dtprq_cursor request of
                          None \<Rightarrow> True | Some c \<Rightarrow> name \<ge> qc_topic_name c) (all_names request b)))"
  unfolding selected_names_def all_names_def Let_def ..

lemma resume_selected:
  assumes "all_names request b = pre @ n # ns" and "sc_topic_name c = n" and "0 \<le> sc_partition_index c"
  shows "selected_names (resume request c) (list_topics (bs_topics b)) = Inr (n # ns)"
    and "aligned (dtprq_cursor (resume request c)) (n # ns) (nat (sc_partition_index c))"
    and "all_names (resume request c) b = all_names request b"
    and "page_limit (resume request c) = page_limit request"
proof -
  have srt: "sorted_wrt (<) (pre @ n # ns)" using all_names_sorted [of request b] assms(1) by simp
  have same: "all_names (resume request c) b = pre @ n # ns"
    using assms(1) unfolding all_names_def resume_topics .
  show "selected_names (resume request c) (list_topics (bs_topics b)) = Inr (n # ns)"
    unfolding selected_names_all same using assms(2,3) filter_from [OF srt]
    by (simp add: resume_def)
  have "n \<notin> set ns" using srt by (auto simp: sorted_wrt_append)
  then show "aligned (dtprq_cursor (resume request c)) (n # ns) (nat (sc_partition_index c))"
    using assms(2,3) by (simp add: aligned_def resume_def)
qed (simp_all add: all_names_def page_limit_def, simp add: resume_def)

lemma follow_pages_complete:
  assumes ok: "broker_ok crc b" "counts_ok b"
    and "selected_names request (list_topics (bs_topics b)) = Inr names"
    and "aligned (dtprq_cursor request) names k" and "all_names request b = pre @ names"
    and "length (listing b names k) + length names < fuel"
  shows "\<exists>pages. follow_pages fuel request b = Some (Inr pages) \<and>
    concat (map page_entries pages) = listing b names k \<and>
    list_all (\<lambda>page. sum_list (map (length \<circ> dtprst_partitions) (dtprs_topics page)) \<le> page_limit request) pages"
  using assms(3-)
proof (induction fuel arbitrary: request names k pre)
  case (Suc fuel)
  obtain page where page: "describe_topic_partitions_respond request b = Inr page"
    "page_ok b names k (page_limit request) (dtprs_topics page) (dtprs_next_cursor page)"
    by (rule respond_page [OF ok Suc.prems(1,2)])
  show ?case
  proof (cases "dtprs_next_cursor page")
    case None
    with page show ?thesis by (simp add: page_ok_def page_entries_def comp_def)
  next
    case (Some c)
    with page(2) obtain pre' n ns where
      c: "names = pre' @ n # ns" "sc_topic_name c = n" "0 \<le> sc_partition_index c"
      "concat (map topic_entries (dtprs_topics page)) @ listing b (n # ns) (nat (sc_partition_index c)) =
        listing b names k"
      "length (listing b (n # ns) (nat (sc_partition_index c))) + length (n # ns) <
        length (listing b names k) + length names"
      "sum_list (map (length \<circ> dtprst_partitions) (dtprs_topics page)) \<le> page_limit request"
      unfolding page_ok_def by auto
    have all: "all_names request b = (pre @ pre') @ n # ns" using Suc.prems(3) c(1) by simp
    note sel = resume_selected [OF all c(2,3)]
    have "\<exists>pages. follow_pages fuel (resume request c) b = Some (Inr pages) \<and>
        concat (map page_entries pages) = listing b (n # ns) (nat (sc_partition_index c)) \<and>
        list_all (\<lambda>page. sum_list (map (length \<circ> dtprst_partitions) (dtprs_topics page)) \<le>
          page_limit (resume request c)) pages"
      by (rule Suc.IH [OF sel(1,2), of "pre @ pre'"]) (use all sel(3) c(5) Suc.prems(4) in simp_all)
    then obtain pages where pages: "follow_pages fuel (resume request c) b = Some (Inr pages)"
      "concat (map page_entries pages) = listing b (n # ns) (nat (sc_partition_index c))"
      "list_all (\<lambda>page. sum_list (map (length \<circ> dtprst_partitions) (dtprs_topics page)) \<le>
          page_limit request) pages"
      unfolding sel(4) by blast
    have "concat (map page_entries (page # pages)) = listing b names k"
      using pages(2) c(4) by (simp add: page_entries_def del: listing.simps)
    moreover have "follow_pages (Suc fuel) request b = Some (Inr (page # pages))"
      using page(1) Some pages(1) by simp
    ultimately show ?thesis using pages(3) c(6) by (intro exI [of _ "page # pages"]) (simp add: comp_def)
  qed
qed simp

section \<open>Properties\<close>

text \<open>
  C27: paging is complete. A client that asks for topics, or for all of them, and keeps sending the cursor it
  was given gets to a last page, whatever the page limit; no page lists more partitions than
  the limit; and the pages together list exactly the requested names in name order, every partition
  of every existing topic once and in order, and every other name once with its error.
\<close>

theorem paging_lists_everything_once:
  assumes "broker_ok crc b" and "counts_ok b" and "dtprq_cursor request = None"
    and "length (listing b (all_names request b) 0) + length (all_names request b) < fuel"
  shows "\<exists>pages. follow_pages fuel request b = Some (Inr pages) \<and>
    concat (map page_entries pages) = listing b (all_names request b) 0 \<and>
    list_all (\<lambda>page. sum_list (map (length \<circ> dtprst_partitions) (dtprs_topics page)) \<le> page_limit request) pages"
proof (rule follow_pages_complete [OF assms(1,2) _ _ _ assms(4), of request "[]"])
  show "selected_names request (list_topics (bs_topics b)) = Inr (all_names request b)"
    using assms(3) by (simp add: selected_names_all)
qed (simp_all add: aligned_def assms(3))

definition sample_pages_request :: describe_topic_partitions_request where
  "sample_pages_request = describe_topic_partitions_request_default
     \<lparr>dtprq_topics := map (\<lambda>n. topic_request_default\<lparr>trq_name := n\<rparr>) [''b'', ''x'', ''a''],
      dtprq_response_partition_limit := 2\<rparr>"

definition sample_pages_broker :: broker_state where
  "sample_pages_broker = broker_steps sample_checksum
     [CatalogOp (CreateExplicit ''a'' 3 1 [5]), CatalogOp (CreateExplicit ''b'' 2 1 [6])]
     (broker_new 1 True False 2 [])"

theorem paging_lists_everything_once_witness:
  "\<exists>pages. follow_pages 20 sample_pages_request sample_pages_broker = Some (Inr pages) \<and>
     concat (map page_entries pages) =
       [(Some ''a'', Inr 0), (Some ''a'', Inr 1), (Some ''a'', Inr 2), (Some ''b'', Inr 0),
        (Some ''b'', Inr 1), (Some ''x'', Inl 3)]"
proof -
  have "reaches sample_checksum (broker_new 1 True False 2 []) sample_pages_broker"
    unfolding reaches_def sample_pages_broker_def
    by (rule exI [of _ "[CatalogOp (CreateExplicit ''a'' 3 1 [5]), CatalogOp (CreateExplicit ''b'' 2 1 [6])]"])
      (simp add: op_ok_def in_i32_def)
  moreover have "broker_ok sample_checksum (broker_new 1 True False 2 [])"
    "counts_ok (broker_new 1 True False 2 [])"
    by (simp add: broker_ok_new)
      (simp add: counts_ok_def broker_new_def catalog_new_def metadata_of_def)
  ultimately have ok: "broker_ok sample_checksum sample_pages_broker" "counts_ok sample_pages_broker"
    using reaches_ok reaches_counts by blast+
  have l: "listing sample_pages_broker (all_names sample_pages_request sample_pages_broker) 0 =
      [(Some ''a'', Inr 0), (Some ''a'', Inr 1), (Some ''a'', Inr 2), (Some ''b'', Inr 0),
        (Some ''b'', Inr 1), (Some ''x'', Inl 3)]"
    "length (all_names sample_pages_request sample_pages_broker) = 3"
    by code_simp+
  have "dtprq_cursor sample_pages_request = None"
    by (simp add: sample_pages_request_def describe_topic_partitions_request_default_def)
  from paging_lists_everything_once [OF ok this, of 20] show ?thesis by (auto simp: l)
qed

end
