(* ===== verification/Group_Theorems.thy ===== *)
theory Group_Theorems
  imports Group_Props "HOL-Library.Multiset"
begin

text \<open>
  The properties of the group coordinator: what the members of a generation are told, how
  assignments reach them, when a stalled rebalance ends, how members of old generations are fenced
  off, and what becomes of committed offsets.
\<close>

section \<open>What a section leaves alone\<close>

lemma expire_frame [simp]:
  "g_generation_id (expire_stale_members ck a g) = g_generation_id g"
  "g_committed_offsets (expire_stale_members ck a g) = g_committed_offsets g"
  by (simp_all add: expire_stale_members_def Let_def transition_after_removal_def begin_rebalance_def)

lemma transition_frame [simp]:
  "g_generation_id (transition_after_removal t g) = g_generation_id g"
  "g_committed_offsets (transition_after_removal t g) = g_committed_offsets g"
  by (simp_all add: transition_after_removal_def Let_def begin_rebalance_def)

lemma add_joining_frame [simp]:
  "g_generation_id (add_joining request may_add ck g) = g_generation_id g"
  "g_committed_offsets (add_joining request may_add ck g) = g_committed_offsets g"
  by (simp_all add: add_joining_def Let_def begin_rebalance_def extend_rebalance_deadline_def)

lemma clear_deadline_frame [simp]:
  "g_generation_id (clear_rebalance_deadline_if_all_synced g) = g_generation_id g"
  "g_committed_offsets (clear_rebalance_deadline_if_all_synced g) = g_committed_offsets g"
  by (simp_all add: clear_rebalance_deadline_if_all_synced_def)

lemma complete_frame:
  "g_committed_offsets (snd (complete_rebalance_if_ready t g)) = g_committed_offsets g"
  "g_generation_id (snd (complete_rebalance_if_ready t g)) \<in>
     {g_generation_id g, saturating_add_i32 (g_generation_id g) 1}"
  by (auto simp: complete_rebalance_if_ready_def Let_def split: sum.splits)

lemma stabilise_frame [simp]:
  "g_generation_id (stabilise n i as now g) = g_generation_id g"
  "g_committed_offsets (stabilise n i as now g) = g_committed_offsets g"
  "g_assignments (stabilise n i as now g) = map (\<lambda>a. (sa_member_id a, sa_assignment a)) as"
  "g_state (stabilise n i as now g) = Stable"
  by (simp_all add: stabilise_def clear_rebalance_deadline_if_all_synced_def)

definition advances :: "group \<Rightarrow> group \<Rightarrow> bool" where
  "advances g g' \<longleftrightarrow> g_committed_offsets g' = g_committed_offsets g \<and>
     g_generation_id g' \<in> {g_generation_id g, saturating_add_i32 (g_generation_id g) 1}"

lemma expire_frame_eq:
  "expire_stale_members ck a g = h \<Longrightarrow>
   g_generation_id h = g_generation_id g \<and> g_committed_offsets h = g_committed_offsets g"
  by auto

lemma advances_sync: "sync_poll n i as refresh ck g = Inr (r, g') \<Longrightarrow> advances g g'"
  unfolding sync_poll_eq
  by (auto simp: advances_def split: sum.splits group_state.splits if_splits dest: expire_frame_eq)

lemma advances_join_register:
  assumes "join_register request may_add ck g = Inr (r, g')"
  shows "advances g g'"
proof (cases request may_add ck g rule: join_register_cases)
  case (registered p)
  let ?g1 = "add_joining request may_add ck (expire_stale_members ck None g)"
  obtain out g5 where c: "complete_rebalance_if_ready (ck_complete ck) ?g1 = (out, g5)" by fastforce
  moreover have "g' = g5" using assms registered(1) c by (auto split: sum.splits)
  ultimately show ?thesis
    using complete_frame [of "ck_complete ck" ?g1] by (simp add: advances_def)
qed (use assms in \<open>auto simp: advances_def\<close>)

lemma advances_complete_expire:
  "advances g (snd (complete_rebalance_if_ready t (expire_stale_members ck a g)))"
  using complete_frame [of t "expire_stale_members ck a g"] by (simp add: advances_def)

lemma advances_expire: "advances g (expire_stale_members ck a g)"
  by (simp add: advances_def)

lemma advances_exec:
  assumes "\<nexists>n i os ck. op = Commit n i os ck"
  shows "advances g (exec_group op g)"
proof (cases op)
  case (JoinRegister request may_add ck)
  then show ?thesis
    using advances_join_register [of request may_add ck g]
    by (auto simp: exec_group_def advances_def split: sum.splits)
next
  case (JoinPoll i e ck)
  then show ?thesis
    using advances_complete_expire [of g "ck_complete ck" ck "Some i"]
    by (auto simp: exec_group_def join_poll_def advances_def [of g g] Let_def
        split: option.splits prod.splits sum.splits)
next
  case (SyncPoll n i as refresh ck)
  then show ?thesis
    using advances_sync [of n i as refresh ck g]
    by (auto simp: exec_group_def advances_def split: sum.splits)
next
  case (Leave i ck)
  let ?g = "expire_stale_members ck None g"
  let ?g2 = "transition_after_removal (ck_begin ck)
    (?g\<lparr>g_members := AList.delete i (g_members ?g), g_assignments := AList.delete i (g_assignments ?g)\<rparr>)"
  have "snd (leave_section i ck g) \<in> {?g, snd (complete_rebalance_if_ready (ck_complete ck) ?g2)}"
    by (auto simp: leave_section_def Let_def split: prod.splits sum.splits)
  then show ?thesis
    using complete_frame [of "ck_complete ck" ?g2] Leave by (auto simp: exec_group_def advances_def)
qed (use assms advances_complete_expire in \<open>auto simp: exec_group_def advances_def drive_deadlines_def
      describe_section_def heartbeat_section_def Let_def split: sum.splits\<close>)

lemma commit_generation [simp]:
  "g_generation_id (snd (commit_section n i os ck g)) = g_generation_id g"
  by (auto simp: commit_section_def Let_def split: sum.splits)

lemma saturating_add_mono: "in_i32 x \<Longrightarrow> x \<le> saturating_add_i32 x 1 \<and> in_i32 (saturating_add_i32 x 1)"
  by (auto simp: saturating_add_i32_def i32_max_def i32_min_def in_i32_def)

lemma generation_exec:
  assumes "in_i32 (g_generation_id g)"
  shows "g_generation_id g \<le> g_generation_id (exec_group op g) \<and> in_i32 (g_generation_id (exec_group op g))"
proof (cases "\<exists>n i os ck. op = Commit n i os ck")
  case True
  then show ?thesis using assms by (auto simp: exec_group_def)
next
  case False
  then show ?thesis
    using advances_exec [OF False, of g] saturating_add_mono [OF assms] assms
    by (auto simp: advances_def)
qed

lemma generation_run:
  assumes "in_i32 (g_generation_id g)"
  shows "g_generation_id g \<le> g_generation_id (fold exec_group ops g) \<and>
    in_i32 (g_generation_id (fold exec_group ops g))"
  using assms
proof (induction ops arbitrary: g)
  case (Cons op ops)
  from Cons.IH [of "exec_group op g"] generation_exec [OF Cons.prems, of op] show ?case by auto
qed simp

section \<open>A group of two members\<close>

definition sample_join :: "string \<Rightarrow> join_request" where
  "sample_join i =
     \<lparr>jr_group_id = ''g'', jr_member_id = i, jr_client_id = ''c'', jr_session_timeout_ms = 10,
      jr_rebalance_timeout_ms = 20, jr_protocol_type = ''consumer'',
      jr_protocols = [\<lparr>jp_name = ''range'', jp_metadata = [1]\<rparr>]\<rparr>"

definition at_time :: "instant \<Rightarrow> clock" where
  "at_time t = \<lparr>ck_now = t, ck_begin = t, ck_complete = t\<rparr>"

text \<open>Both members have joined; the leader has not yet assigned.\<close>

definition sample_completing :: group where
  "sample_completing =
     fold exec_group
       [JoinRegister (sample_join ''a'') True (at_time 0), JoinRegister (sample_join ''b'') True (at_time 1),
        JoinRegister (sample_join ''a'') True (at_time 2)] group_new"

definition sample_assignments :: "sync_assignment list" where
  "sample_assignments =
     [\<lparr>sa_member_id = ''a'', sa_assignment = [7]\<rparr>, \<lparr>sa_member_id = ''b'', sa_assignment = [8]\<rparr>]"

definition sample_stable :: group where
  "sample_stable = exec_group (SyncPoll 2 ''a'' sample_assignments True (at_time 3)) sample_completing"

lemma sample_completing_state:
  "g_state sample_completing = CompletingRebalance \<and> g_generation_id sample_completing = 2 \<and>
   g_leader_member_id sample_completing = ''a'' \<and> map fst (g_members sample_completing) = [''a'', ''b'']"
  by code_simp

lemma sample_stable_state:
  "g_state sample_stable = Stable \<and> g_generation_id sample_stable = 2"
  by code_simp

section \<open>Agreement\<close>

lemma sample_groups_ok: "group_ok sample_completing" "group_ok sample_stable"
  unfolding sample_stable_def sample_completing_def
  by (simp_all add: grp.run_inv group_ok_exec del: fold_simps)

text \<open>
  C12: under every interleaving of joins, syncs, heartbeats, leaves, commits, descriptions
  and deadline turns, a group is empty exactly when it has no members, it has a leader among its members
  otherwise, its members share a protocol, and it holds assignments for exactly its members when
  stable and none otherwise. While it is completing or stable, every member has the same
  answer to its join (generation, protocol, leader), with the member list for the leader only.
\<close>

theorem group_members_agree:
  assumes "g = fold exec_group ops group_new"
  shows "group_ok g \<and> (g_state g = Empty \<longleftrightarrow> g_members g = []) \<and>
    (g_members g \<noteq> [] \<longrightarrow> g_leader_member_id g \<in> keys (g_members g) \<and>
       common_set (g_members g) \<noteq> {}) \<and>
    keys (g_assignments g) = (if g_state g = Stable then keys (g_members g) else {}) \<and>
    (g_state g = CompletingRebalance \<or> g_state g = Stable \<longrightarrow>
       (\<forall>i \<in> keys (g_members g). completed_join_of g i (g_rebalance_epoch g) =
          Some (cj_result (join_answer g i))))"
proof -
  have ok: "group_ok g" unfolding assms by (rule grp.run_inv) simp
  have "completed_join_of g i (g_rebalance_epoch g) = Some (cj_result (join_answer g i))"
    if "agreed g" "i \<in> keys (g_members g)" for i
  proof -
    obtain m where m: "map_of (g_members g) i = Some m"
      using \<open>i \<in> keys (g_members g)\<close> by (meson map_of_eq_None_keys not_None_eq)
    then have "m_completed_join m = Some (join_answer g i)"
      using \<open>agreed g\<close> by (auto simp: agreed_def dest!: map_of_SomeD)
    then show ?thesis by (simp add: completed_join_of_def m join_answer_def)
  qed
  with ok show ?thesis
    by (auto simp: group_ok_def members_ok_def split: group_state.splits)
qed

theorem group_members_agree_witness:
  "completed_join_of sample_completing ''a'' (g_rebalance_epoch sample_completing) =
     Some (cj_result (join_answer sample_completing ''a'')) \<and>
   completed_join_of sample_completing ''b'' (g_rebalance_epoch sample_completing) =
     Some (cj_result (join_answer sample_completing ''b''))"
proof -
  have "keys (g_members sample_completing) = {''a'', ''b''}"
    using sample_completing_state by (metis list.set_map list.simps(15) list.set(1))
  then have "''a'' \<in> keys (g_members sample_completing)" "''b'' \<in> keys (g_members sample_completing)"
    by simp_all
  then show ?thesis
    using group_members_agree [OF sample_completing_def] sample_completing_state
    by (metis (no_types, lifting))
qed

text \<open>
  C13: the protocol is the one most members prefer among those all members support, and on
  equal votes the alphabetically first; it does not depend on the order in which the hash map yields the
  members. Selection fails exactly when there is no member or no common protocol.
\<close>

theorem protocol_selection_is_fair_vote:
  assumes "hm_ok ms" and "hm_ok ms'" and "set ms' = set ms"
  shows "select_protocol ms' = select_protocol ms \<and>
    ((\<exists>p. select_protocol ms = Inr p) \<longleftrightarrow> ms \<noteq> [] \<and> common_set ms \<noteq> {}) \<and>
    (\<forall>p. select_protocol ms = Inr p \<longrightarrow> p \<in> common_set ms \<and>
       (\<forall>q. q \<noteq> p \<longrightarrow> votes_for ms q \<le> votes_for ms p \<and>
          (votes_for ms q = votes_for ms p \<longrightarrow> p < q)))"
proof -
  have "distinct ms" "distinct ms'" using assms(1,2) by (simp_all add: hm_ok_def distinct_map)
  then have "mset ms' = mset ms" using assms(3) set_eq_iff_mset_eq_distinct by blast
  then have "length (filter P ms') = length (filter P ms)" for P by (metis mset_filter size_mset)
  then have votes: "votes_for ms' c = votes_for ms c" for c
    using assms(3) by (simp add: votes_for_def common_set_def)
  have common: "common_set ms' = common_set ms" by (simp add: common_set_def assms(3))
  have empty: "ms' = [] \<longleftrightarrow> ms = []" using assms(3) by (metis set_empty)
  have win: "p \<in> common_set ms \<and> 0 < votes_for ms p \<and>
      (\<forall>q. q \<noteq> p \<longrightarrow> votes_for ms q \<le> votes_for ms p \<and> (votes_for ms q = votes_for ms p \<longrightarrow> p < q))"
    if "select_protocol ms = Inr p" for p
    using select_protocol_winner [of ms] select_protocol_Inr_iff [of ms] that by fastforce
  have win': "p \<in> common_set ms \<and> 0 < votes_for ms p \<and>
      (\<forall>q. q \<noteq> p \<longrightarrow> votes_for ms q \<le> votes_for ms p \<and> (votes_for ms q = votes_for ms p \<longrightarrow> p < q))"
    if "select_protocol ms' = Inr p" for p
    using select_protocol_winner [of ms'] select_protocol_Inr_iff [of ms'] that
    unfolding votes common by fastforce
  have "select_protocol ms' = select_protocol ms"
  proof (cases "ms \<noteq> [] \<and> common_set ms \<noteq> {}")
    case True
    then obtain p p' where p: "select_protocol ms = Inr p" "select_protocol ms' = Inr p'"
      using select_protocol_Inr_iff [of ms] select_protocol_Inr_iff [of ms'] empty common by auto
    have "p = p'"
      using win [OF p(1)] win' [OF p(2)] by (metis order_antisym less_asym)
    with p show ?thesis by simp
  next
    case False
    then show ?thesis using select_protocol_Inl [of ms] select_protocol_Inl [of ms'] empty common by auto
  qed
  with win select_protocol_Inr_iff [of ms] show ?thesis by blast
qed

theorem protocol_selection_is_fair_vote_witness:
  "select_protocol (rev (g_members sample_completing)) = select_protocol (g_members sample_completing)"
proof -
  have "hm_ok (g_members sample_completing)"
    using group_ok_distinct [OF sample_groups_ok(1)] by (simp add: hm_ok_def)
  moreover from this have "hm_ok (rev (g_members sample_completing))"
    by (simp add: hm_ok_def rev_map [symmetric])
  ultimately show ?thesis
    using protocol_selection_is_fair_vote [of "g_members sample_completing"
        "rev (g_members sample_completing)"] by simp
qed

section \<open>Completing a rebalance\<close>

lemma map_sort_key: "map f (sort_key f xs) = sort (map f xs)"
  by (rule properties_for_sort [symmetric]) simp_all

lemma members_for_leader_ids:
  assumes "\<forall>m \<in> snd ` set (g_members g). supports m (g_selected_protocol g)"
  shows "map jm_member_id (members_for_leader g) = sort (map fst (g_members g))"
proof -
  let ?f = "\<lambda>(i, m). map_option (\<lambda>p. \<lparr>jm_member_id = i, jm_metadata = jp_metadata p\<rparr>)
    (find (\<lambda>p. jp_name p = g_selected_protocol g) (m_protocols m))"
  have "map jm_member_id (List.map_filter ?f ms) = map fst ms"
    if "\<forall>m \<in> snd ` set ms. supports m (g_selected_protocol g)" for ms :: "(string, member) hash_map"
    using that
  proof (induction ms)
    case (Cons x ms)
    obtain i m where x: "x = (i, m)" by (cases x)
    have "supports m (g_selected_protocol g)" using Cons.prems by (simp add: x)
    then obtain p where "find (\<lambda>p. jp_name p = g_selected_protocol g) (m_protocols m) = Some p"
      by (cases "find (\<lambda>p. jp_name p = g_selected_protocol g) (m_protocols m)")
        (auto simp: find_None_iff supports_def)
    with Cons show ?case by (simp add: x List.map_filter_simps)
  qed (simp add: List.map_filter_simps)
  with assms show ?thesis by (simp add: members_for_leader_def map_sort_key)
qed

text \<open>
  C14: a rebalance completes as soon as every member has joined it. The generation goes up by
  one, the selected protocol is one every member supports, and from then on every member that
  polls for its join is answered at once: the leader with all members in order of their identifiers,
  every other member with an empty list.
\<close>

theorem rebalance_completes_when_all_joined:
  assumes "group_ok g" and "g_state g = PreparingRebalance"
    and "\<forall>(i, m) \<in> set (g_members g). m_joined_epoch m = g_rebalance_epoch g"
    and "complete_rebalance_if_ready t g = (r, g')"
  shows "r = Inr True \<and> g_state g' = CompletingRebalance \<and>
    g_generation_id g' = saturating_add_i32 (g_generation_id g) 1 \<and>
    map fst (g_members g') = map fst (g_members g) \<and>
    g_selected_protocol g' \<in> common_set (g_members g) \<and>
    (\<forall>i \<in> keys (g_members g). \<exists>answer.
       join_poll i (g_rebalance_epoch g) ck g' = (Some (Inr (Joined answer)), g') \<and>
       jg_generation_id answer = g_generation_id g' \<and> jg_member_id answer = i \<and>
       jg_leader answer = g_leader_member_id g \<and> jg_protocol_name answer = g_selected_protocol g' \<and>
       map jm_member_id (jg_members answer) =
         (if i = g_leader_member_id g then sort (map fst (g_members g)) else []))"
proof (cases t g rule: complete_cases)
  case not_ready
  then show ?thesis using assms by (fastforce simp: group_ok_def members_ok_def)
next
  case (no_protocol e)
  then show ?thesis using group_ok_complete [OF assms(1), of t] by auto
next
  case (completed p g1)
  have g1: "g1 = g'" "r = Inr True" using completed(1) assms(4) by simp_all
  have ok: "group_ok g'" using group_ok_complete [OF assms(1), of t] assms(4) by (metis snd_conv)
  have mem: "g_members g' = map (\<lambda>(i, m). (i, m\<lparr>m_completed_join := Some (join_answer g' i)\<rparr>))
      (g_members g)" and eqs: "g_state g' = CompletingRebalance" "g_selected_protocol g' = p"
    "g_generation_id g' = saturating_add_i32 (g_generation_id g) 1"
    "g_leader_member_id g' = g_leader_member_id g" "g_rebalance_epoch g' = g_rebalance_epoch g"
    by (subst completed(5) [unfolded g1], simp)+
  have keys: "map fst (g_members g') = map fst (g_members g)" by (simp add: mem split_beta)
  have p: "p \<in> common_set (g_members g)"
    using completed(4) select_protocol_winner [of "g_members g"] select_protocol_Inr_iff [of "g_members g"]
    by auto
  then have "\<forall>m \<in> snd ` set (g_members g'). supports m (g_selected_protocol g')"
    by (auto simp: mem eqs common_set_def supports_def)
  note ids = members_for_leader_ids [OF this]
  have "completed_join_of g' i (g_rebalance_epoch g) = Some (cj_result (join_answer g' i))"
    if i: "i \<in> keys (g_members g)" for i
  proof -
    have "map_of (g_members g') i = map_option (\<lambda>m. m\<lparr>m_completed_join := Some (join_answer g' i)\<rparr>)
        (map_of (g_members g) i)"
      unfolding mem by (rule map_of_map_keyed)
    moreover obtain m where "map_of (g_members g) i = Some m"
      using i by (meson map_of_eq_None_keys not_None_eq)
    ultimately show ?thesis using eqs by (simp add: completed_join_of_def join_answer_def)
  qed
  then show ?thesis
    using g1 eqs keys p ids by (auto simp: join_poll_def join_answer_def)
qed

lemma sample_preparing:
  "group_ok (add_joining (sample_join ''a'') True (at_time 0) group_new) \<and>
   g_state (add_joining (sample_join ''a'') True (at_time 0) group_new) = PreparingRebalance \<and>
   map fst (g_members (add_joining (sample_join ''a'') True (at_time 0) group_new)) = [''a''] \<and>
   list_all (\<lambda>(i, m). m_joined_epoch m = 1)
     (g_members (add_joining (sample_join ''a'') True (at_time 0) group_new)) \<and>
   g_rebalance_epoch (add_joining (sample_join ''a'') True (at_time 0) group_new) = 1"
proof -
  have "select_protocol (AList.update (jr_member_id (sample_join ''a''))
      (joining_member (sample_join ''a'') (ck_now (at_time 0)) (join_target group_new)
        (map_of (g_members group_new) (jr_member_id (sample_join ''a'')))) (g_members group_new)) =
      Inr ''range''" by code_simp
  from group_ok_add_joining(1) [OF group_ok_new _ this]
  have "group_ok (add_joining (sample_join ''a'') True (at_time 0) group_new)"
    by (simp add: valid_join_def sample_join_def)
  moreover have "g_state (add_joining (sample_join ''a'') True (at_time 0) group_new) =
      PreparingRebalance \<and>
    map fst (g_members (add_joining (sample_join ''a'') True (at_time 0) group_new)) = [''a''] \<and>
    list_all (\<lambda>(i, m). m_joined_epoch m = 1)
      (g_members (add_joining (sample_join ''a'') True (at_time 0) group_new)) \<and>
    g_rebalance_epoch (add_joining (sample_join ''a'') True (at_time 0) group_new) = 1"
    by code_simp
  ultimately show ?thesis by blast
qed

theorem rebalance_completes_when_all_joined_witness:
  "\<exists>answer. fst (join_poll ''a'' 1 (at_time 5) (snd (complete_rebalance_if_ready 3
      (add_joining (sample_join ''a'') True (at_time 0) group_new)))) = Some (Inr (Joined answer)) \<and>
    map jm_member_id (jg_members answer) = [''a'']"
proof -
  let ?g = "add_joining (sample_join ''a'') True (at_time 0) group_new"
  obtain r g' where c: "complete_rebalance_if_ready 3 ?g = (r, g')" by fastforce
  have leader: "g_leader_member_id ?g = ''a''" by code_simp
  have "''a'' \<in> keys (g_members ?g)"
    using sample_preparing by (metis list.set_intros(1) list.set_map)
  then show ?thesis
    using rebalance_completes_when_all_joined [OF _ _ _ c, of "at_time 5"] sample_preparing leader c
    by (auto simp: list_all_iff)
qed

section \<open>Assignments\<close>

text \<open>
  What becomes of a generation once its leader has assigned: it stays stable with those very assignments, or a rebalance
  has begun or the group has emptied, or a later generation has replaced it.
\<close>

definition settled :: "i32 \<Rightarrow> (string \<times> bytes) list \<Rightarrow> group \<Rightarrow> bool" where
  "settled n as g \<longleftrightarrow>
     n < g_generation_id g \<or>
     g_generation_id g = n \<and>
       (g_state g = Stable \<and> g_assignments g = as \<or> g_state g = PreparingRebalance \<or> g_state g = Empty)"

lemma settled_cong:
  "g_generation_id g' = g_generation_id g \<Longrightarrow> g_state g' = g_state g \<Longrightarrow> g_assignments g' = g_assignments g \<Longrightarrow>
   settled n as g' = settled n as g"
  by (simp add: settled_def)

lemma settled_members [simp]:
  "settled n as (g\<lparr>g_members := ms\<rparr>) = settled n as g"
  "settled n as (g\<lparr>g_committed_offsets := os\<rparr>) = settled n as g"
  "settled n as (clear_rebalance_deadline_if_all_synced g) = settled n as g"
  by (rule settled_cong; simp add: clear_rebalance_deadline_if_all_synced_def)+

lemma transition_state: "g_state (transition_after_removal t g) \<in> {PreparingRebalance, Empty}"
  by (simp add: transition_after_removal_def Let_def begin_rebalance_def)

lemma expire_state:
  "expire_stale_members ck a g = g \<or> g_state (expire_stale_members ck a g) \<in> {PreparingRebalance, Empty}"
  using transition_state by (simp add: expire_stale_members_def Let_def)

lemma settled_transition:
  assumes "settled n as g"
  shows "settled n as (transition_after_removal t (g\<lparr>g_members := ms, g_assignments := xs\<rparr>))"
proof -
  have "g_generation_id (transition_after_removal t (g\<lparr>g_members := ms, g_assignments := xs\<rparr>)) = g_generation_id g" by simp
  with transition_state [of t "g\<lparr>g_members := ms, g_assignments := xs\<rparr>"] assms show ?thesis
    by (auto simp: settled_def)
qed

lemma settled_expire: "settled n as g \<Longrightarrow> settled n as (expire_stale_members ck a g)"
  by (simp add: expire_stale_members_def Let_def settled_transition)

lemma settled_complete:
  assumes "settled n as g" and "n < i32_max"
  shows "settled n as (snd (complete_rebalance_if_ready t g))"
  using assms
  by (auto simp: settled_def complete_rebalance_if_ready_def Let_def saturating_add_i32_def i32_min_def i32_max_def
      split: sum.splits)

lemma settled_add_joining:
  assumes "settled n as g"
  shows "settled n as (add_joining request may_add ck g)"
proof -
  have "g_state (add_joining request may_add ck g) = PreparingRebalance"
    by (auto simp: add_joining_def Let_def begin_rebalance_def extend_rebalance_deadline_def)
  with assms show ?thesis by (auto simp: settled_def)
qed

lemma settled_join_register:
  assumes "settled n as g" and "n < i32_max" and "join_register request may_add ck g = Inr (r, g')"
  shows "settled n as g'"
proof (cases request may_add ck g rule: join_register_cases)
  case (registered p)
  let ?g1 = "add_joining request may_add ck (expire_stale_members ck None g)"
  obtain out g5 where c: "complete_rebalance_if_ready (ck_complete ck) ?g1 = (out, g5)" by fastforce
  moreover have "g' = g5" using assms(3) registered(1) c by (auto split: sum.splits)
  ultimately show ?thesis
    using settled_complete [OF settled_add_joining [OF settled_expire [OF assms(1)]] assms(2)] by (metis snd_conv)
qed (use assms in \<open>auto simp: settled_expire\<close>)

lemma settled_sync:
  assumes "settled n as g" and "sync_poll m i bs refresh ck g = Inr (r, g')"
  shows "settled n as g'"
proof -
  let ?g = "expire_stale_members ck (if refresh then None else Some i) g"
  have h: "settled n as ?g" by (rule settled_expire [OF assms(1)])
  have "settled n as (stabilise m i bs t k)"
    if "g_state ?g = CompletingRebalance" "g_generation_id k = g_generation_id ?g" for t k
    using h that by (auto simp: settled_def)
  with h assms(2) show ?thesis
    unfolding sync_poll_eq by (auto split: sum.splits group_state.splits if_splits)
qed

lemma settled_exec:
  assumes "settled n as g" and "n < i32_max"
  shows "settled n as (exec_group op g)"
proof (cases op)
  case (JoinRegister request may_add ck)
  then show ?thesis
    using settled_join_register [OF assms] assms(1) by (auto simp: exec_group_def split: sum.splits)
next
  case (JoinPoll i e ck)
  then show ?thesis
    using settled_complete [OF settled_expire [OF assms(1)] assms(2), of "ck_complete ck" ck "Some i"] assms(1)
    by (auto simp: exec_group_def join_poll_def Let_def split: option.splits prod.splits sum.splits)
next
  case (SyncPoll m i bs refresh ck)
  then show ?thesis using settled_sync [OF assms(1)] assms(1) by (auto simp: exec_group_def split: sum.splits)
next
  case (Leave i ck)
  let ?g = "expire_stale_members ck None g"
  let ?g2 = "transition_after_removal (ck_begin ck)
    (?g\<lparr>g_members := AList.delete i (g_members ?g), g_assignments := AList.delete i (g_assignments ?g)\<rparr>)"
  have "snd (leave_section i ck g) \<in> {?g, snd (complete_rebalance_if_ready (ck_complete ck) ?g2)}"
    by (auto simp: leave_section_def Let_def split: prod.splits sum.splits)
  then show ?thesis
    using settled_complete [OF settled_transition [OF settled_expire [OF assms(1)]] assms(2)] settled_expire [OF assms(1)] Leave
    by (auto simp: exec_group_def)
qed (use settled_expire [OF assms(1)] settled_complete [OF settled_expire [OF assms(1)] assms(2)] in
    \<open>auto simp: exec_group_def drive_deadlines_def describe_section_def heartbeat_section_def commit_section_def Let_def
      split: sum.splits\<close>)

lemma settled_run:
  assumes "settled n as g" and "n < i32_max"
  shows "settled n as (fold exec_group ops g)"
  using assms(1) by (induction ops arbitrary: g) (simp_all add: settled_exec [OF _ assms(2)])

text \<open>What the leader's sync leaves.\<close>

lemma leader_sync_settles:
  assumes "group_ok g" and "g_state g = CompletingRebalance"
    and "sync_poll n (g_leader_member_id g) as refresh ck g = Inr (Some (Inr a), g1)"
  shows "group_ok g1" and "settled n (map (\<lambda>a. (sa_member_id a, sa_assignment a)) as) g1"
    and "g_assignments g1 = map (\<lambda>a. (sa_member_id a, sa_assignment a)) as"
proof -
  let ?i = "g_leader_member_id g"
  let ?g = "expire_stale_members ck (if refresh then None else Some ?i) g"
  let ?h = "if refresh then touch_member (ck_now ck) ?i ?g else ?g"
  have ok: "group_ok ?h" "g_state ?h = g_state ?g" "g_generation_id ?h = g_generation_id ?g"
    using group_ok_heartbeat_member group_ok_expire [OF assms(1)] by (cases refresh; simp)+
  have valid: "validate_member_and_generation ?g n ?i = Inr ()"
    using assms(3) unfolding sync_poll_eq by (auto split: sum.splits)
  have st: "g_state ?g = CompletingRebalance"
    using expire_state [of ck "if refresh then None else Some ?i" g] assms(2,3) valid
    unfolding sync_poll_eq by (auto split: group_state.splits)
  have g1: "assignments_cover as ?h" "g1 = stabilise n ?i as (ck_now ck) ?h"
    using assms(3) valid st unfolding sync_poll_eq by (auto split: if_splits)
  show "group_ok g1" unfolding g1(2) using group_ok_stabilise [OF ok(1) _ g1(1)] ok(2) st by simp
  show "settled n (map (\<lambda>a. (sa_member_id a, sa_assignment a)) as) g1"
    using valid ok(3) unfolding g1(2) by (simp add: settled_def validate_member_Inr)
  show "g_assignments g1 = map (\<lambda>a. (sa_member_id a, sa_assignment a)) as" by (simp add: g1(2))
qed

text \<open>
  Nobody's time is up in a sync of member \<open>i\<close>, which spares \<open>i\<close> itself in all its turns but the first.
\<close>

definition none_expired :: "bool \<Rightarrow> string \<Rightarrow> instant \<Rightarrow> group \<Rightarrow> bool" where
  "none_expired refresh i now g \<longleftrightarrow>
     list_all (\<lambda>(j, m). \<not> refresh \<and> j = i \<or> \<not> is_stale g now m) (g_members g)"

lemma expire_none_expired:
  "expire_stale_members ck (if refresh then None else Some i) g = g \<longleftrightarrow> none_expired refresh i (ck_now ck) g"
  if "g_state g = Stable"
proof -
  let ?a = "if refresh then None else Some i"
  have "map fst (filter (\<lambda>(j, m). ?a \<noteq> Some j \<and> is_stale g (ck_now ck) m) (g_members g)) = [] \<longleftrightarrow>
      none_expired refresh i (ck_now ck) g"
    by (auto simp: none_expired_def list_all_iff filter_empty_conv)
  moreover have "transition_after_removal t h \<noteq> g" for t h
    using transition_state [of t h] that by auto
  ultimately show ?thesis by (simp add: expire_stale_members_def Let_def)
qed

lemma sync_refused:
  assumes "g_generation_id h \<noteq> n \<or> g_state h \<in> {PreparingRebalance, Empty}"
    and "h = expire_stale_members ck (if refresh then None else Some i) g"
  shows "\<exists>g2. sync_poll n i bs refresh ck g =
    Inr (Some (Inl (if map_of (g_members g2) i = None then UnknownMemberId
                    else if g_generation_id g2 \<noteq> n then IllegalGeneration else RebalanceInProgress)), g2)"
proof (cases "map_of (g_members h) i = None \<or> g_generation_id h \<noteq> n")
  case True
  then have "sync_poll n i bs refresh ck g =
      Inr (Some (Inl (if map_of (g_members h) i = None then UnknownMemberId else IllegalGeneration)), h)"
    unfolding sync_poll_eq assms(2) [symmetric] by (auto simp: validate_member_and_generation_def)
  with True show ?thesis by auto
next
  case False
  let ?g2 = "if refresh then touch_member (ck_now ck) i h else h"
  from False have "sync_poll n i bs refresh ck g = Inr (Some (Inl RebalanceInProgress), ?g2)"
    using assms(1) unfolding sync_poll_eq assms(2) [symmetric] by (auto simp: validate_member_and_generation_def)
  moreover have "map_of (g_members ?g2) i \<noteq> None" "g_generation_id ?g2 = n"
    using False by (auto simp: map_of_map_entry)
  ultimately show ?thesis by auto
qed

text \<open>
  C15: the assignment the leader sends reaches the members. After the leader's sync has succeeded, and after any
  further sections on the group, a sync of any member the leader listed, in that generation, is answered at once. If the
  group is still stable in that generation and nobody's time is up, the answer is exactly the
  bytes the leader listed for the member, and the group stays stable. In all other cases the member gets an error that
  sends it back to joining: it is unknown if it has been removed, its generation is illegal if another
  one has been completed, and otherwise a rebalance is in progress, as when another member's time is up. No
  member is ever given another assignment than the leader's. Generations are counted to 2^31 - 1, where they stop.
\<close>

theorem sync_delivers_leader_assignment:
  assumes "group_ok g" and "g_state g = CompletingRebalance"
    and "sync_poll n (g_leader_member_id g) as refresh ck g = Inr (Some (Inr a), g1)"
    and "n < i32_max" and "sa \<in> set as" and "g' = fold exec_group ops g1"
  shows "\<exists>r g2. sync_poll n (sa_member_id sa) bs refresh' ck' g' = Inr (Some r, g2) \<and>
    (if g_state g' = Stable \<and> g_generation_id g' = n \<and> none_expired refresh' (sa_member_id sa) (ck_now ck') g'
     then r = Inr (sa_assignment sa) \<and> g_state g2 = Stable \<and> g_assignments g2 = g_assignments g1
     else r = Inl (if map_of (g_members g2) (sa_member_id sa) = None then UnknownMemberId
                   else if g_generation_id g2 \<noteq> n then IllegalGeneration else RebalanceInProgress))"
proof -
  let ?i = "sa_member_id sa" and ?as = "map (\<lambda>a. (sa_member_id a, sa_assignment a)) as"
  let ?h = "expire_stale_members ck' (if refresh' then None else Some ?i) g'"
  note g1 = leader_sync_settles [OF assms(1-3)]
  have ok: "group_ok g'" unfolding assms(6) by (rule grp.run_inv [OF g1(1)])
  have settled: "settled n ?as g'" unfolding assms(6) by (rule settled_run [OF g1(2) assms(4)])
  then have h: "settled n ?as ?h" by (rule settled_expire)
  show ?thesis
  proof (cases "g_state g' = Stable \<and> g_generation_id g' = n \<and> none_expired refresh' ?i (ck_now ck') g'")
    case True
    then have same: "?h = g'" using expire_none_expired by blast
    have asg: "g_assignments g' = ?as" using settled True by (simp add: settled_def)
    have dist: "distinct (map fst (g_assignments g'))" "keys (g_assignments g') = keys (g_members g')"
      using ok True by (simp_all add: group_ok_def hm_ok_def)
    have a: "map_of (g_assignments g') ?i = Some (sa_assignment sa)"
      using assms(5) by (intro map_of_is_SomeI [OF dist(1)]) (auto simp: asg)
    have "?i \<in> keys (g_members g')" unfolding dist(2) [symmetric] by (rule map_of_Some_keys [OF a])
    then have "map_of (g_members g') ?i \<noteq> None" unfolding map_of_eq_None_keys by blast
    then show ?thesis
      unfolding sync_poll_eq same using True a asg g1(3)
      by (simp add: validate_member_and_generation_def assignment_of_def clear_rebalance_deadline_if_all_synced_def)
  next
    case False
    have "g_state ?h \<noteq> Stable \<or> g_generation_id ?h \<noteq> n"
    proof (rule ccontr)
      assume "\<not> (g_state ?h \<noteq> Stable \<or> g_generation_id ?h \<noteq> n)"
      moreover from this have "?h = g'" using expire_state [of ck' "if refresh' then None else Some ?i" g'] by auto
      ultimately show False using False expire_none_expired by metis
    qed
    with h have "g_generation_id ?h \<noteq> n \<or> g_state ?h \<in> {PreparingRebalance, Empty}" by (auto simp: settled_def)
    from sync_refused [OF this refl, of bs] show ?thesis unfolding if_not_P [OF False] by blast
  qed
qed

theorem sync_delivers_leader_assignment_witness:
  "\<exists>g2. sync_poll 2 ''b'' [] True (at_time 5) (exec_group (Heartbeat 2 ''a'' (at_time 4)) sample_stable) =
     Inr (Some (Inr [8]), g2) \<and> g_state g2 = Stable"
proof -
  let ?g = "fold exec_group [Heartbeat 2 ''a'' (at_time 4)] sample_stable"
  have "case sync_poll 2 (g_leader_member_id sample_completing) sample_assignments True (at_time 3)
      sample_completing of Inr (Some (Inr _), _) \<Rightarrow> True | _ \<Rightarrow> False" by code_simp
  then obtain a where sync: "sync_poll 2 (g_leader_member_id sample_completing) sample_assignments True
      (at_time 3) sample_completing = Inr (Some (Inr a), sample_stable)"
    using sample_completing_state
    by (auto simp: sample_stable_def exec_group_def split: sum.splits option.splits prod.splits)
      (metis sum.exhaust)
  have "g_state ?g = Stable \<and> g_generation_id ?g = 2 \<and> none_expired True ''b'' (ck_now (at_time 5)) ?g" by code_simp
  then show ?thesis
    using sync_delivers_leader_assignment [OF sample_groups_ok(1) _ sync _ _ refl,
        of "\<lparr>sa_member_id = ''b'', sa_assignment = [8]\<rparr>" "[]" True "at_time 5" "[Heartbeat 2 ''a'' (at_time 4)]"]
      sample_completing_state
    by (auto simp: sample_assignments_def i32_max_def)
qed

section \<open>Deadlines\<close>

lemma transition_members: "g_members (transition_after_removal t g) = g_members g"
  by (simp add: transition_after_removal_def Let_def begin_rebalance_def)

lemma expire_members:
  assumes "\<not> list_all (\<lambda>(i, m). \<not> (a \<noteq> Some i \<and> is_stale g (ck_now ck) m)) (g_members g)"
    and "distinct (map fst (g_members g))"
  shows "g_members (expire_stale_members ck a g) =
    filter (\<lambda>(i, m). \<not> (a \<noteq> Some i \<and> is_stale g (ck_now ck) m)) (g_members g)"
proof -
  let ?P = "\<lambda>(i, m). a \<noteq> Some i \<and> is_stale g (ck_now ck) m"
  let ?ex = "map fst (filter ?P (g_members g))"
  have ne: "?ex \<noteq> []" using assms(1) by (auto simp: list_all_iff filter_empty_conv)
  have "i \<notin> set ?ex \<longleftrightarrow> \<not> ?P (i, m)" if "(i, m) \<in> set (g_members g)" for i m
    using that assms(2) by (force dest: eq_key_imp_eq_value)
  then have "filter (\<lambda>(k, _). k \<notin> set ?ex) (g_members g) = filter (\<lambda>x. \<not> ?P x) (g_members g)"
    by (intro filter_cong) auto
  moreover have "g_members (expire_stale_members ck a g) = fold AList.delete ?ex (g_members g)"
    using ne unfolding expire_stale_members_def Let_def by (simp only: if_False transition_members) simp
  ultimately have "g_members (expire_stale_members ck a g) = filter (\<lambda>x. \<not> ?P x) (g_members g)"
    unfolding fold_delete_eq by simp
  moreover have "filter (\<lambda>x. \<not> ?P x) (g_members g) =
      filter (\<lambda>(i, m). \<not> (a \<noteq> Some i \<and> is_stale g (ck_now ck) m)) (g_members g)"
    by (rule filter_cong) auto
  ultimately show ?thesis by simp
qed

lemma expire_none:
  assumes "list_all (\<lambda>(i, m). \<not> (a \<noteq> Some i \<and> is_stale g (ck_now ck) m)) (g_members g)"
  shows "expire_stale_members ck a g = g"
  using assms by (auto simp: expire_stale_members_def Let_def list_all_iff filter_empty_conv)

lemma filter_members:
  assumes "distinct (map fst (g_members g))"
  shows "g_members (expire_stale_members ck a g) =
    filter (\<lambda>(i, m). \<not> (a \<noteq> Some i \<and> is_stale g (ck_now ck) m)) (g_members g)"
proof (cases "list_all (\<lambda>(i, m). \<not> (a \<noteq> Some i \<and> is_stale g (ck_now ck) m)) (g_members g)")
  case True
  then have "filter (\<lambda>(i, m). \<not> (a \<noteq> Some i \<and> is_stale g (ck_now ck) m)) (g_members g) = g_members g"
    by (simp add: filter_id_conv list_all_iff)
  then show ?thesis using expire_none [OF True] by simp
qed (rule expire_members [OF _ assms])

lemma expire_preparing:
  assumes "g_state g = PreparingRebalance"
  shows "g_state (expire_stale_members ck a g) \<in> {PreparingRebalance, Empty}"
    and "g_rebalance_epoch (expire_stale_members ck a g) = g_rebalance_epoch g"
  using assms
  by (simp_all add: expire_stale_members_def Let_def transition_after_removal_def begin_rebalance_def)

text \<open>
  C16: a rebalance does not wait for ever. Once its deadline has passed, one turn of the
  deadline task drops exactly the members that have not joined: the rebalance then completes
  with the members that have, in a new generation, or the group becomes empty if none has.
\<close>

theorem expired_rebalance_completes:
  assumes "group_ok g" and "g_state g = PreparingRebalance"
    and "g_rebalance_deadline g = Some d" and "d \<le> ck_now ck"
  shows "map fst (g_members (drive_deadlines ck g)) =
      map fst (filter (\<lambda>(i, m). m_joined_epoch m = g_rebalance_epoch g) (g_members g)) \<and>
    (if \<exists>(i, m) \<in> set (g_members g). m_joined_epoch m = g_rebalance_epoch g
     then g_state (drive_deadlines ck g) = CompletingRebalance \<and>
       g_generation_id (drive_deadlines ck g) = saturating_add_i32 (g_generation_id g) 1
     else g_state (drive_deadlines ck g) = Empty)"
proof -
  let ?g = "expire_stale_members ck None g"
  let ?joined = "filter (\<lambda>(i, m). m_joined_epoch m = g_rebalance_epoch g) (g_members g)"
  have ok: "group_ok ?g" by (rule group_ok_expire [OF assms(1)])
  have mem: "g_members ?g = ?joined"
    using filter_members [OF group_ok_distinct [OF assms(1)], of ck None] assms(2-4)
    by (simp add: is_stale_def)
  have epoch: "g_rebalance_epoch ?g = g_rebalance_epoch g" by (rule expire_preparing(2) [OF assms(2)])
  have ex: "(\<exists>(i, m) \<in> set (g_members g). m_joined_epoch m = g_rebalance_epoch g) \<longleftrightarrow> ?joined \<noteq> []"
    by (auto simp: filter_empty_conv)
  show ?thesis
  proof (cases "?joined = []")
    case True
    then have "g_state ?g = Empty"
      using ok mem by (auto simp: group_ok_def members_ok_def split: group_state.splits)
    then have "drive_deadlines ck g = ?g"
      by (simp add: drive_deadlines_def complete_rebalance_if_ready_def)
    with True \<open>g_state ?g = Empty\<close> mem ex show ?thesis by simp
  next
    case False
    have prep: "g_state ?g = PreparingRebalance"
      using group_ok_members [OF ok] expire_preparing(1) [OF assms(2), of ck None] False mem by auto
    show ?thesis
    proof (cases "ck_complete ck" ?g rule: complete_cases)
      case not_ready
      then show ?thesis using prep False mem epoch by auto
    next
      case (no_protocol e)
      then show ?thesis using group_ok_complete [OF ok, of "ck_complete ck"] by auto
    next
      case (completed p g')
      have "drive_deadlines ck g = g'" using completed(1) by (simp add: drive_deadlines_def)
      moreover have "map fst (g_members g') = map fst (g_members ?g)"
        "g_state g' = CompletingRebalance"
        "g_generation_id g' = saturating_add_i32 (g_generation_id ?g) 1"
        by (subst completed(5), simp add: split_beta comp_def)+
      ultimately show ?thesis using False mem ex by simp
    qed
  qed
qed

text \<open>A group whose only joined member waits for another that never rejoins.\<close>

definition sample_waiting :: group where
  "sample_waiting =
     fold exec_group
       [JoinRegister (sample_join ''a'') True (at_time 0), JoinRegister (sample_join ''b'') True (at_time 1)]
       group_new"

theorem expired_rebalance_completes_witness:
  "map fst (g_members (drive_deadlines (at_time 21) sample_waiting)) = [''b''] \<and>
   g_state (drive_deadlines (at_time 21) sample_waiting) = CompletingRebalance"
proof -
  have "group_ok sample_waiting" unfolding sample_waiting_def by (rule grp.run_inv) simp
  moreover have "g_state sample_waiting = PreparingRebalance" by code_simp
  moreover have "g_rebalance_deadline sample_waiting = Some 21" by code_simp
  moreover have "map fst (filter (\<lambda>(i, m). m_joined_epoch m = g_rebalance_epoch sample_waiting)
      (g_members sample_waiting)) = [''b'']" by code_simp
  ultimately show ?thesis
    using expired_rebalance_completes [of sample_waiting 21 "at_time 21"]
    by (auto simp: at_time_def filter_eq_Cons_iff split: if_splits)
qed

section \<open>Fencing and committed offsets\<close>

lemma validate_stale:
  "g_generation_id g \<noteq> n \<Longrightarrow>
   validate_member_and_generation g n i \<in> {Inl UnknownMemberId, Inl IllegalGeneration}"
  by (simp add: validate_member_and_generation_def)

text \<open>
  C17: a generation that has been superseded is fenced off for good. Whatever happens next in
  the group, a commit, a heartbeat or a sync that names an older generation is refused as
  illegal or as coming from an unknown member, and the commit changes no committed offset.
\<close>

theorem superseded_generation_is_fenced:
  assumes "in_i32 (g_generation_id g)" and "n < g_generation_id g"
    and "g' = fold exec_group ops g"
  shows "fst (commit_section n i os ck g') \<in> {Inl UnknownMemberId, Inl IllegalGeneration} \<and>
    g_committed_offsets (snd (commit_section n i os ck g')) = g_committed_offsets g' \<and>
    fst (heartbeat_section n i ck g') \<in> {Inl UnknownMemberId, Inl IllegalGeneration} \<and>
    (\<exists>e g''. sync_poll n i as refresh ck g' = Inr (Some (Inl e), g'') \<and>
       e \<in> {UnknownMemberId, IllegalGeneration})"
proof -
  have "g_generation_id (expire_stale_members ck a g') \<noteq> n" for a
    using generation_run [OF assms(1), of ops] assms(2,3) by simp
  note stale = validate_stale [OF this]
  obtain e where e: "validate_member_and_generation (expire_stale_members ck None g') n i = Inl e"
    "e \<in> {UnknownMemberId, IllegalGeneration}"
    using stale [of None i] by blast
  obtain e' where e': "validate_member_and_generation
      (expire_stale_members ck (if refresh then None else Some i) g') n i = Inl e'"
    "e' \<in> {UnknownMemberId, IllegalGeneration}"
    using stale [of "if refresh then None else Some i" i] by blast
  have "sync_poll n i as refresh ck g' =
      Inr (Some (Inl e'), expire_stale_members ck (if refresh then None else Some i) g')"
    unfolding sync_poll_eq e'(1) by simp
  then show ?thesis
    using e e'(2) by (auto simp: commit_section_def heartbeat_section_def)
qed

theorem superseded_generation_is_fenced_witness:
  "fst (commit_section 1 ''a'' [] (at_time 9) (fold exec_group [Leave ''b'' (at_time 8)] sample_stable)) \<in>
     {Inl UnknownMemberId, Inl IllegalGeneration}"
proof -
  have "in_i32 (g_generation_id sample_stable)" "1 < g_generation_id sample_stable"
    using sample_stable_state by (simp_all add: in_i32_def)
  from superseded_generation_is_fenced [OF this refl, of "''a''" "[]" "at_time 9"
      "[Leave ''b'' (at_time 8)]"] show ?thesis by blast
qed

definition last_commit :: "offset_commit list \<Rightarrow> topic_partition \<Rightarrow> offset_commit option" where
  "last_commit os tp = find (\<lambda>c. (oc_topic c, oc_partition c) = tp) (rev os)"

lemma map_of_commits:
  "map_of (fold (\<lambda>c. AList.update (oc_topic c, oc_partition c)
       \<lparr>so_offset = oc_offset c, so_metadata = oc_metadata c\<rparr>) os m) tp =
   (case last_commit os tp of
      None \<Rightarrow> map_of m tp
    | Some c \<Rightarrow> Some \<lparr>so_offset = oc_offset c, so_metadata = oc_metadata c\<rparr>)"
  by (induction os rule: rev_induct) (auto simp: last_commit_def update_conv')

definition is_commit :: "group_op \<Rightarrow> bool" where
  "is_commit op \<longleftrightarrow> (case op of Commit n i os ck \<Rightarrow> True | _ \<Rightarrow> False)"

lemma committed_run:
  assumes "list_all (\<lambda>op. \<not> is_commit op) ops"
  shows "g_committed_offsets (fold exec_group ops g) = g_committed_offsets g"
  using assms
proof (induction ops arbitrary: g)
  case (Cons op ops)
  then have "advances g (exec_group op g)"
    by (intro advances_exec) (auto simp: is_commit_def)
  with Cons show ?case by (simp add: advances_def)
qed simp

text \<open>
  A commit is accepted exactly from a current member of the current generation of a stable
  group, and a refused commit changes no offset. What it committed is what a fetch returns,
  the last commit for a partition winning, and stays so through every later join, leave, expiry
  and rebalance until the next accepted commit; partitions it did not name keep what they had.
\<close>

theorem committed_offsets_are_fetched:
  assumes "commit_section n i os ck g = (r, g1)" and "list_all (\<lambda>op. \<not> is_commit op) ops"
  shows "(r = Inr () \<longleftrightarrow>
      (let e = expire_stale_members ck None g
       in i \<in> keys (g_members e) \<and> g_generation_id e = n \<and> g_state e = Stable)) \<and>
    fetch_section (Some [tp]) (Some (fold exec_group ops g1)) =
      (case (if r = Inr () then last_commit os tp else None) of
         Some c \<Rightarrow> [\<lparr>fo_topic = fst tp, fo_partition = snd tp, fo_offset = Some (oc_offset c),
                    fo_metadata = oc_metadata c\<rparr>]
       | None \<Rightarrow> fetch_section (Some [tp]) (Some g))"
proof -
  let ?e = "expire_stale_members ck None g"
  have mem: "map_of (g_members ?e) i = None \<longleftrightarrow> i \<notin> keys (g_members ?e)"
    by (rule map_of_eq_None_keys)
  have acc: "r = Inr () \<longleftrightarrow> i \<in> keys (g_members ?e) \<and> g_generation_id ?e = n \<and> g_state ?e = Stable"
    using assms(1) mem
    by (auto simp: commit_section_def Let_def validate_member_and_generation_def split: if_splits)
  have "g_committed_offsets g1 = (if r = Inr ()
      then fold (\<lambda>c. AList.update (oc_topic c, oc_partition c)
        \<lparr>so_offset = oc_offset c, so_metadata = oc_metadata c\<rparr>) os (g_committed_offsets g)
      else g_committed_offsets g)"
    using assms(1) by (auto simp: commit_section_def Let_def split: sum.splits if_splits)
  then have "map_of (g_committed_offsets (fold exec_group ops g1)) tp =
      (case (if r = Inr () then last_commit os tp else None) of
        None \<Rightarrow> map_of (g_committed_offsets g) tp
      | Some c \<Rightarrow> Some \<lparr>so_offset = oc_offset c, so_metadata = oc_metadata c\<rparr>)"
    by (simp add: committed_run [OF assms(2)] map_of_commits)
  with acc show ?thesis
    by (cases tp) (auto simp: fetch_section_def Let_def split: option.splits if_splits)
qed

theorem committed_offsets_are_fetched_witness:
  "fetch_section (Some [(''t'', 0)]) (Some (fold exec_group [Leave ''b'' (at_time 8), Leave ''a'' (at_time 9)]
     (snd (commit_section 2 ''a'' [\<lparr>oc_topic = ''t'', oc_partition = 0, oc_offset = 42,
        oc_metadata = None\<rparr>] (at_time 5) sample_stable)))) =
   [\<lparr>fo_topic = ''t'', fo_partition = 0, fo_offset = Some 42, fo_metadata = None\<rparr>]"
proof -
  let ?os = "[\<lparr>oc_topic = ''t'', oc_partition = 0, oc_offset = 42, oc_metadata = None\<rparr>]"
  obtain g1 where c: "commit_section 2 ''a'' ?os (at_time 5) sample_stable = (Inr (), g1)"
  proof -
    have "fst (commit_section 2 ''a'' ?os (at_time 5) sample_stable) = Inr ()" by code_simp
    then show ?thesis using that by (metis prod.collapse)
  qed
  show ?thesis
    using committed_offsets_are_fetched [OF c, of "[Leave ''b'' (at_time 8), Leave ''a'' (at_time 9)]"
        "(''t'', 0)"] c
    by (simp add: is_commit_def last_commit_def)
qed

section \<open>Sessions and member identifiers\<close>

text \<open>
  C18: a member that keeps sending heartbeats is not expelled. Until its session timeout has
  passed since its last accepted heartbeat, a synced member of a stable group survives every
  expiry, whichever request or deadline turn triggers it.
\<close>

theorem heartbeat_keeps_session:
  assumes "group_ok g" and "heartbeat_section n i ck g = (Inr (), g1)" and "g_state g1 = Stable"
    and "map_of (g_members g1) i = Some m" and "m_synced_generation m = g_generation_id g1"
    and "ck_now ck' < ck_now ck + nat (max (m_session_timeout_ms m) 0)"
  shows "map_of (g_members (expire_stale_members ck' a g1)) i = Some m"
proof -
  let ?e = "expire_stale_members ck None g"
  have ok: "group_ok g1" using group_ok_heartbeat [OF assms(1), of n i ck] assms(2) by simp
  have "g1 = touch_member (ck_now ck) i ?e"
    using assms(2)
    by (auto simp: heartbeat_section_def Let_def split: sum.splits if_splits)
  then have "m_last_heartbeat m = ck_now ck"
    using assms(4) by (auto simp: map_of_map_entry)
  then have "\<not> is_stale g1 (ck_now ck') m"
    using assms(3,5,6) by (simp add: is_stale_def member_deadline_def Let_def)
  moreover have "(i, m) \<in> set (g_members g1)" by (rule map_of_SomeD [OF assms(4)])
  moreover have "distinct (map fst (g_members (expire_stale_members ck' a g1)))"
    by (rule group_ok_distinct [OF group_ok_expire [OF ok]])
  ultimately show ?thesis
    using filter_members [OF group_ok_distinct [OF ok], of ck' a]
    by (intro map_of_is_SomeI) auto
qed

theorem heartbeat_keeps_session_witness:
  "map_of (g_members (expire_stale_members (at_time 14) None
     (snd (heartbeat_section 2 ''a'' (at_time 5) sample_stable)))) ''a'' \<noteq> None"
proof -
  let ?g1 = "snd (heartbeat_section 2 ''a'' (at_time 5) sample_stable)"
  have run: "heartbeat_section 2 ''a'' (at_time 5) sample_stable = (Inr (), ?g1)"
  proof -
    have "fst (heartbeat_section 2 ''a'' (at_time 5) sample_stable) = Inr ()" by code_simp
    then show ?thesis by (metis prod.collapse)
  qed
  have "case map_of (g_members ?g1) ''a'' of None \<Rightarrow> False
      | Some m \<Rightarrow> m_synced_generation m = g_generation_id ?g1 \<and> m_session_timeout_ms m = 10" by code_simp
  then obtain m where m: "map_of (g_members ?g1) ''a'' = Some m"
    "m_synced_generation m = g_generation_id ?g1" "m_session_timeout_ms m = 10"
    by (auto split: option.splits)
  have st: "g_state ?g1 = Stable" by code_simp
  from heartbeat_keeps_session [OF sample_groups_ok(2) run st m(1,2), of "at_time 14" None] m(3)
  show ?thesis by (simp add: at_time_def)
qed

fun allocate_ids :: "string list \<Rightarrow> group_coordinator \<Rightarrow> string list" where
  "allocate_ids [] c = []"
| "allocate_ids (client # clients) c =
     (case allocate_member_id client c of (i, c') \<Rightarrow> i # allocate_ids clients c')"

definition sequence_of :: "string \<Rightarrow> nat" where
  "sequence_of i = parse_nat (rev (takeWhile (\<lambda>c. c \<noteq> CHR ''-'') (rev i)))"

lemma sequence_of_id: "sequence_of (client @ CHR ''-'' # show_nat n) = n"
proof -
  have "\<forall>c \<in> set (show_nat n). c \<noteq> CHR ''-''" by (auto dest: show_nat_digits)
  then have "takeWhile (\<lambda>c. c \<noteq> CHR ''-'') (rev (show_nat n) @ CHR ''-'' # rev client) = rev (show_nat n)"
    by (simp add: takeWhile_tail)
  then show ?thesis by (simp add: sequence_of_def)
qed

lemma allocate_ids_sequences:
  assumes "gc_next_member_id c + length clients \<le> 2 ^ 64"
  shows "map sequence_of (allocate_ids clients c) =
    [gc_next_member_id c..<gc_next_member_id c + length clients]"
  using assms
proof (induction clients arbitrary: c)
  case (Cons client clients)
  let ?c = "c\<lparr>gc_next_member_id := (gc_next_member_id c + 1) mod 2 ^ 64\<rparr>"
  show ?case
  proof (cases "clients = []")
    case True
    then show ?thesis by (simp add: allocate_member_id_def sequence_of_id)
  next
    case False
    then have "gc_next_member_id ?c = gc_next_member_id c + 1" using Cons.prems by (cases clients) auto
    with Cons.IH [of ?c] Cons.prems False show ?thesis
      by (simp add: allocate_member_id_def sequence_of_id upt_rec [of "gc_next_member_id c"] Suc_le_eq)
  qed
qed simp

text \<open>
  No two members are given the same identifier, whatever client identifiers they present, even ones
  that contain dashes and digits themselves, until the 64-bit sequence wraps around.
\<close>

theorem member_ids_distinct:
  assumes "length clients < 2 ^ 64"
  shows "distinct (allocate_ids clients coordinator_new) \<and> [] \<notin> set (allocate_ids clients coordinator_new)"
proof -
  have "map sequence_of (allocate_ids clients coordinator_new) = [1..<1 + length clients]"
    using allocate_ids_sequences [of coordinator_new clients] assms
    by (simp add: coordinator_new_def)
  then have "distinct (map sequence_of (allocate_ids clients coordinator_new))" by simp
  moreover have "[] \<notin> set (allocate_ids clients c)" for c
    by (induction clients arbitrary: c) (auto simp: allocate_member_id_def)
  ultimately show ?thesis by (simp add: distinct_map)
qed

theorem member_ids_distinct_witness:
  "distinct (allocate_ids [''a'', ''a-1'', ''a'', []] coordinator_new)"
  using member_ids_distinct [of "[''a'', ''a-1'', ''a'', []]"] by simp

end
