(* ===== verification/Group_Handlers.thy ===== *)
theory Group_Handlers
  imports Broker Group_Theorems Errors Messages_Group
begin

text \<open>
  The consumer group handlers (\<open>src/src/kafka/join_group.rs\<close>, \<open>sync_group.rs\<close>, \<open>heartbeat.rs\<close>,
  \<open>leave_group.rs\<close>, \<open>list_groups.rs\<close>, \<open>describe_groups.rs\<close>, \<open>offset_commit.rs\<close>, \<open>offset_fetch.rs\<close>,
  \<open>group_error.rs\<close>). JoinGroup and SyncGroup may wait: their first turn and each later turn are
  definitions of their own, and a turn either answers or leaves the handler waiting. A waiting
  handler keeps its handle on the group; groups are never removed.
\<close>

section \<open>Errors\<close>

definition group_response_error :: "group_error \<Rightarrow> response_error" where
  "group_response_error e =
     (case e of
        UnknownMemberId \<Rightarrow> Error ''UnknownMemberId''
      | IllegalGeneration \<Rightarrow> Error ''IllegalGeneration''
      | RebalanceInProgress \<Rightarrow> Error ''RebalanceInProgress''
      | InconsistentGroupProtocol \<Rightarrow> Error ''InconsistentGroupProtocol''
      | InvalidAssignment \<Rightarrow> Error ''InvalidRequest'')"

text \<open>\<open>result.err().map_or(0, |error| response_error(error).code())\<close>.\<close>

definition result_code :: "group_error + 'a \<Rightarrow> i16" where
  "result_code r = (case r of Inl e \<Rightarrow> code (group_response_error e) | Inr _ \<Rightarrow> 0)"

section \<open>Join\<close>

definition effective_rebalance_timeout_ms :: "i16 \<Rightarrow> i32 \<Rightarrow> i32 \<Rightarrow> i32" where
  "effective_rebalance_timeout_ms version session_timeout_ms rebalance_timeout_ms =
     (if version = 0 then session_timeout_ms else rebalance_timeout_ms)"

definition join_error_response :: "response_error \<Rightarrow> string \<Rightarrow> join_group_response" where
  "join_error_response e member_id =
     join_group_response_default
       \<lparr>jgrs_throttle_time_ms := 0, jgrs_error_code := code e, jgrs_generation_id := - 1,
        jgrs_protocol_name := Some [], jgrs_leader := [], jgrs_member_id := member_id,
        jgrs_members := []\<rparr>"

definition join_request_of :: "join_group_request \<Rightarrow> i16 \<Rightarrow> string option \<Rightarrow> join_request" where
  "join_request_of request version client_id =
     \<lparr>jr_group_id = jgrq_group_id request, jr_member_id = jgrq_member_id request,
      jr_client_id = (case client_id of None \<Rightarrow> ''consumer'' | Some c \<Rightarrow> c),
      jr_session_timeout_ms = jgrq_session_timeout_ms request,
      jr_rebalance_timeout_ms =
        effective_rebalance_timeout_ms version (jgrq_session_timeout_ms request)
          (jgrq_rebalance_timeout_ms request),
      jr_protocol_type = jgrq_protocol_type request,
      jr_protocols =
        map (\<lambda>p. \<lparr>jp_name = jgrqp_name p, jp_metadata = jgrqp_metadata p\<rparr>) (jgrq_protocols request)\<rparr>"

definition join_answer_of :: "join_group_request \<Rightarrow> group_error + join_result \<Rightarrow> join_group_response" where
  "join_answer_of request r =
     (case r of
        Inr (MemberIdRequired member_id) \<Rightarrow> join_error_response (Error ''MemberIdRequired'') member_id
      | Inr (Joined joined) \<Rightarrow>
          join_group_response_default
            \<lparr>jgrs_throttle_time_ms := 0, jgrs_error_code := 0,
             jgrs_generation_id := jg_generation_id joined,
             jgrs_protocol_name := Some (jg_protocol_name joined), jgrs_leader := jg_leader joined,
             jgrs_member_id := jg_member_id joined,
             jgrs_members :=
               map (\<lambda>m. join_group_response_member_default
                      \<lparr>jgrsm_member_id := jm_member_id m, jgrsm_group_instance_id := None,
                       jgrsm_metadata := jm_metadata m\<rparr>) (jg_members joined)\<rparr>
      | Inl e \<Rightarrow> join_error_response (group_response_error e) (jgrq_member_id request))"

datatype join_phase = JoinAnswered join_group_response | JoinWaiting string nat

definition join_group_begin ::
  "join_group_request \<Rightarrow> i16 \<Rightarrow> string option \<Rightarrow> clock \<Rightarrow> broker_state \<Rightarrow>
   (join_phase \<times> broker_state) run" where
  "join_group_begin request version client_id ck b =
     (if jgrq_group_instance_id request \<noteq> None
      then Inr (JoinAnswered (join_error_response (Error ''UnsupportedVersion'') (jgrq_member_id request)), b)
      else
        case join_enter (join_request_of request version client_id) (version \<ge> 4) (bs_groups b) of
          (Answer r, c) \<Rightarrow> Inr (JoinAnswered (join_answer_of request r), b\<lparr>bs_groups := c\<rparr>)
        | (Proceed join may_add_member, c) \<Rightarrow>
            let group_id = jr_group_id join;
                c1 = group_or_insert group_id c;
                g = (case find_group c1 group_id of Some g \<Rightarrow> g | None \<Rightarrow> group_new)
            in try_bind (join_register join may_add_member ck g) (\<lambda>(progress, g').
               let c2 = put_group group_id g' c1
               in case progress of
                    JoinDone r \<Rightarrow> Inr (JoinAnswered (join_answer_of request r), b\<lparr>bs_groups := c2\<rparr>)
                  | JoinWait target_epoch \<Rightarrow>
                      Inr (JoinWaiting (jr_member_id join) target_epoch,
                           b\<lparr>bs_groups := join_settle group_id (jr_member_id join) c2\<rparr>)))"

definition join_group_turn ::
  "join_group_request \<Rightarrow> string \<Rightarrow> nat \<Rightarrow> clock \<Rightarrow> broker_state \<Rightarrow> join_phase \<times> broker_state" where
  "join_group_turn request member_id target_epoch ck b =
     (case find_group (bs_groups b) (jgrq_group_id request) of
        None \<Rightarrow> (JoinWaiting member_id target_epoch, b)
      | Some g \<Rightarrow>
          (case join_poll member_id target_epoch ck g of
             (r, g') \<Rightarrow>
               (case r of
                  Some answer \<Rightarrow> JoinAnswered (join_answer_of request answer)
                | None \<Rightarrow> JoinWaiting member_id target_epoch,
                b\<lparr>bs_groups := put_group (jgrq_group_id request) g' (bs_groups b)\<rparr>)))"

section \<open>Sync\<close>

datatype sync_phase = SyncAnswered sync_group_response | SyncWaiting

definition sync_answer_of :: "group_error + bytes \<Rightarrow> sync_group_response" where
  "sync_answer_of r =
     (case r of
        Inr assignment \<Rightarrow>
          sync_group_response_default
            \<lparr>sgrs_throttle_time_ms := 0, sgrs_error_code := 0, sgrs_assignment := assignment\<rparr>
      | Inl e \<Rightarrow>
          sync_group_response_default
            \<lparr>sgrs_throttle_time_ms := 0, sgrs_error_code := code (group_response_error e),
             sgrs_assignment := [], sgrs_protocol_type := None, sgrs_protocol_name := None\<rparr>)"

definition sync_group_turn ::
  "sync_group_request \<Rightarrow> bool \<Rightarrow> clock \<Rightarrow> broker_state \<Rightarrow> (sync_phase \<times> broker_state) run" where
  "sync_group_turn request refresh_member ck b =
     (if sgrq_group_instance_id request \<noteq> None
      then Inr (SyncAnswered (sync_group_response_default
             \<lparr>sgrs_error_code := code (Error ''UnsupportedVersion'')\<rparr>), b)
      else
        case find_group (bs_groups b) (sgrq_group_id request) of
          None \<Rightarrow> Inr (SyncAnswered (sync_answer_of (Inl UnknownMemberId)), b)
        | Some g \<Rightarrow>
            try_bind (sync_poll (sgrq_generation_id request) (sgrq_member_id request)
                (map (\<lambda>a. \<lparr>sa_member_id = sgrqa_member_id a, sa_assignment = sgrqa_assignment a\<rparr>)
                   (sgrq_assignments request)) refresh_member ck g) (\<lambda>(r, g').
            Inr (case r of Some answer \<Rightarrow> SyncAnswered (sync_answer_of answer) | None \<Rightarrow> SyncWaiting,
                 b\<lparr>bs_groups := put_group (sgrq_group_id request) g' (bs_groups b)\<rparr>)))"

section \<open>Heartbeat and leave\<close>

definition heartbeat_respond ::
  "heartbeat_request \<Rightarrow> clock \<Rightarrow> broker_state \<Rightarrow> heartbeat_response \<times> broker_state" where
  "heartbeat_respond request ck b =
     (let (error_code, c) =
            (if hrq_group_instance_id request \<noteq> None
             then (code (Error ''UnsupportedVersion''), bs_groups b)
             else case group_heartbeat (hrq_group_id request) (hrq_generation_id request)
                         (hrq_member_id request) ck (bs_groups b) of
                    (r, c) \<Rightarrow> (result_code r, c))
      in (heartbeat_response_default\<lparr>hrs_throttle_time_ms := 0, hrs_error_code := error_code\<rparr>,
          b\<lparr>bs_groups := c\<rparr>))"

definition leave_one ::
  "string \<Rightarrow> clock \<Rightarrow> member_identity \<Rightarrow> group_coordinator \<Rightarrow> member_response \<times> group_coordinator" where
  "leave_one group_id ck m c =
     (let (error_code, c') =
            (if mident_group_instance_id m \<noteq> None then (code (Error ''UnsupportedVersion''), c)
             else case group_leave group_id (mident_member_id m) ck c of (r, c') \<Rightarrow> (result_code r, c'))
      in (member_response_default
            \<lparr>memrs_member_id := mident_member_id m, memrs_group_instance_id := None,
             memrs_error_code := error_code\<rparr>, c'))"

text \<open>Each member leaves in a section of its own, which reads the clock anew.\<close>

definition leave_group_respond ::
  "leave_group_request \<Rightarrow> i16 \<Rightarrow> (nat \<Rightarrow> clock) \<Rightarrow> broker_state \<Rightarrow> leave_group_response \<times> broker_state" where
  "leave_group_respond request version cks b =
     (if version \<le> 2
      then case group_leave (lvrq_group_id request) (lvrq_member_id request) (cks 0) (bs_groups b) of
             (r, c) \<Rightarrow>
               (leave_group_response_default
                  \<lparr>lvrs_throttle_time_ms := 0, lvrs_error_code := result_code r\<rparr>,
                b\<lparr>bs_groups := c\<rparr>)
      else case map_acc (\<lambda>(k, m). leave_one (lvrq_group_id request) (cks k) m)
                  (enumerate 0 (lvrq_members request)) (bs_groups b) of
             (members, c) \<Rightarrow>
               (leave_group_response_default
                  \<lparr>lvrs_throttle_time_ms := 0, lvrs_error_code := 0, lvrs_members := members\<rparr>,
                b\<lparr>bs_groups := c\<rparr>))"

section \<open>Listing and describing\<close>

definition list_groups_respond :: "broker_state \<Rightarrow> list_groups_response" where
  "list_groups_respond b =
     list_groups_response_default
       \<lparr>lsrs_error_code := 0,
        lsrs_groups :=
          map (\<lambda>g. listed_group_default
                 \<lparr>listed_group_id := gs_group_id g, listed_protocol_type := gs_protocol_type g\<rparr>)
            (list_groups (bs_groups b))\<rparr>"

definition described_group :: "group_description \<Rightarrow> described_group" where
  "described_group d =
     described_group_default
       \<lparr>dgroup_error_code := 0, dgroup_group_id := gd_group_id d, dgroup_group_state := gd_state d,
        dgroup_protocol_type := gd_protocol_type d, dgroup_protocol_data := gd_protocol_name d,
        dgroup_members :=
          map (\<lambda>m. described_group_member_default
                 \<lparr>dgm_member_id := gm_member_id m, dgm_client_id := gm_client_id m,
                  dgm_client_host := [], dgm_member_metadata := gm_metadata m,
                  dgm_member_assignment := gm_assignment m\<rparr>) (gd_members d)\<rparr>"

definition missing_group :: "string \<Rightarrow> described_group" where
  "missing_group group_id =
     described_group_default
       \<lparr>dgroup_error_code := code (Error ''GroupIdNotFound''), dgroup_group_id := group_id,
        dgroup_group_state := [], dgroup_protocol_type := [], dgroup_protocol_data := [],
        dgroup_members := []\<rparr>"

definition describe_one :: "clock \<Rightarrow> string \<Rightarrow> group_coordinator \<Rightarrow> described_group \<times> group_coordinator" where
  "describe_one ck group_id c =
     (case describe_group group_id ck c of
        (Some d, c') \<Rightarrow> (described_group d, c')
      | (None, c') \<Rightarrow> (missing_group group_id, c'))"

definition describe_groups_respond ::
  "describe_groups_request \<Rightarrow> (nat \<Rightarrow> clock) \<Rightarrow> broker_state \<Rightarrow> describe_groups_response \<times> broker_state" where
  "describe_groups_respond request cks b =
     (case map_acc (\<lambda>(k, group_id). describe_one (cks k) group_id)
             (enumerate 0 (dgrq_groups request)) (bs_groups b) of
        (groups, c) \<Rightarrow>
          (describe_groups_response_default\<lparr>dgrs_groups := groups\<rparr>, b\<lparr>bs_groups := c\<rparr>))"

section \<open>Committed offsets\<close>

definition commits_of :: "offset_commit_request \<Rightarrow> offset_commit list" where
  "commits_of request =
     concat (map (\<lambda>t. map (\<lambda>p.
        \<lparr>oc_topic = ocrqt_name t, oc_partition = ocrqp_partition_index p,
         oc_offset = ocrqp_committed_offset p, oc_metadata = ocrqp_committed_metadata p\<rparr>)
        (ocrqt_partitions t)) (ocrq_topics request))"

definition offset_commit_respond ::
  "offset_commit_request \<Rightarrow> clock \<Rightarrow> broker_state \<Rightarrow> offset_commit_response \<times> broker_state" where
  "offset_commit_respond request ck b =
     (let (error_code, c) =
            (if ocrq_group_instance_id request \<noteq> None
             then (code (Error ''UnsupportedVersion''), bs_groups b)
             else case commit_offsets (ocrq_group_id request) (ocrq_generation_id_or_member_epoch request)
                         (ocrq_member_id request) (commits_of request) ck (bs_groups b) of
                    (r, c) \<Rightarrow> (result_code r, c))
      in (offset_commit_response_default
            \<lparr>ocrs_throttle_time_ms := 0,
             ocrs_topics :=
               map (\<lambda>t. offset_commit_response_topic_default
                      \<lparr>ocrst_name := ocrqt_name t,
                       ocrst_partitions :=
                         map (\<lambda>p. offset_commit_response_partition_default
                                \<lparr>ocrsp_partition_index := ocrqp_partition_index p,
                                 ocrsp_error_code := error_code\<rparr>) (ocrqt_partitions t)\<rparr>)
                 (ocrq_topics request)\<rparr>,
          b\<lparr>bs_groups := c\<rparr>))"

text \<open>\<open>entry(topic).or_default().push(partition)\<close>, for every offset in turn.\<close>

definition fetched_partition :: "fetched_offset \<Rightarrow> offset_fetch_response_partition" where
  "fetched_partition f =
     offset_fetch_response_partition_default
       \<lparr>ofrsp_partition_index := fo_partition f,
        ofrsp_committed_offset := (case fo_offset f of None \<Rightarrow> - 1 | Some x \<Rightarrow> x),
        ofrsp_committed_leader_epoch := - 1, ofrsp_metadata := fo_metadata f, ofrsp_error_code := 0\<rparr>"

definition group_by_topic :: "fetched_offset list \<Rightarrow> offset_fetch_response_topic list" where
  "group_by_topic offsets =
     map (\<lambda>(name, partitions). offset_fetch_response_topic_default
            \<lparr>ofrst_name := name, ofrst_partitions := partitions\<rparr>)
       (fold (\<lambda>f topics. bt_insert (fo_topic f)
                ((case map_of topics (fo_topic f) of None \<Rightarrow> [] | Some ps \<Rightarrow> ps) @ [fetched_partition f])
                topics) offsets [])"

definition offset_fetch_respond :: "offset_fetch_request \<Rightarrow> broker_state \<Rightarrow> offset_fetch_response" where
  "offset_fetch_respond request b =
     (let requested = map_option (\<lambda>topics.
            concat (map (\<lambda>t. map (\<lambda>p. (ofrqt_name t, p)) (ofrqt_partition_indexes t)) topics))
            (ofrq_topics request)
      in offset_fetch_response_default
           \<lparr>ofrs_throttle_time_ms := 0, ofrs_error_code := 0,
            ofrs_topics :=
              group_by_topic (fetch_offsets (ofrq_group_id request) requested (bs_groups b))\<rparr>)"

section \<open>Handlers run as critical sections\<close>

lemma op_ok_group [simp]:
  "op_ok (GroupOp i gop)" "op_ok (OpenGroup i)" "op_ok (JoinEnter request known)" "op_ok (JoinSettle i m)"
  by (simp_all add: op_ok_def)

lemma reaches_group:
  assumes "find_group (bs_groups b) i = Some g" and "g' = exec_group gop g"
  shows "reaches crc b (b\<lparr>bs_groups := put_group i g' (bs_groups b)\<rparr>)"
  using reaches_exec [of "GroupOp i gop" crc b] assms by (simp add: exec_broker_def)

lemma reaches_on_group:
  assumes "\<And>g. snd (body g) = exec_group gop g"
  shows "reaches crc b (b\<lparr>bs_groups := snd (on_group i body (bs_groups b))\<rparr>)"
proof (cases "find_group (bs_groups b) i")
  case None
  then show ?thesis by (simp add: on_group_def)
next
  case (Some g)
  have "snd (body g) = exec_group gop g" by (rule assms)
  from reaches_group [OF Some this, of crc] show ?thesis
    by (simp add: on_group_def Some case_prod_unfold)
qed

lemma heartbeat_respond_reaches: "reaches crc b (snd (heartbeat_respond request ck b))"
proof (cases "hrq_group_instance_id request")
  case None
  have "snd (heartbeat_respond request ck b) =
      b\<lparr>bs_groups := snd (group_heartbeat (hrq_group_id request) (hrq_generation_id request)
        (hrq_member_id request) ck (bs_groups b))\<rparr>"
    using None by (simp add: heartbeat_respond_def case_prod_unfold Let_def)
  then show ?thesis
    using reaches_on_group [of "heartbeat_section (hrq_generation_id request) (hrq_member_id request) ck"
        "Heartbeat (hrq_generation_id request) (hrq_member_id request) ck"]
    by (simp add: group_heartbeat_def exec_group_def)
qed (simp add: heartbeat_respond_def)

lemma group_leave_reaches:
  "reaches crc b (b\<lparr>bs_groups := snd (group_leave i m ck (bs_groups b))\<rparr>)"
  using reaches_on_group [of "leave_section m ck" "Leave m ck"]
  by (simp add: group_leave_def exec_group_def)

lemma map_acc_groups_reaches:
  assumes "\<And>x b. reaches crc b (b\<lparr>bs_groups := snd (f x (bs_groups b))\<rparr>)"
  shows "reaches crc b (b\<lparr>bs_groups := snd (map_acc f xs (bs_groups b))\<rparr>)"
proof -
  have "reaches crc b (b\<lparr>bs_groups := snd (map_acc f xs (bs_groups b))\<rparr>)"
  proof (rule map_acc_invariant [where I = "\<lambda>c. reaches crc b (b\<lparr>bs_groups := c\<rparr>)"])
    fix x c
    assume "reaches crc b (b\<lparr>bs_groups := c\<rparr>)"
    moreover have "reaches crc (b\<lparr>bs_groups := c\<rparr>) (b\<lparr>bs_groups := snd (f x c)\<rparr>)"
      using assms [of "b\<lparr>bs_groups := c\<rparr>" x] by simp
    ultimately show "reaches crc b (b\<lparr>bs_groups := snd (f x c)\<rparr>)" by (rule reaches_trans)
  qed simp
  then show ?thesis .
qed

lemma leave_group_respond_reaches: "reaches crc b (snd (leave_group_respond request version cks b))"
proof (cases "version \<le> 2")
  case True
  then show ?thesis
    using group_leave_reaches by (simp add: leave_group_respond_def case_prod_unfold)
next
  case False
  have "reaches crc b (b\<lparr>bs_groups := snd ((case x of (k, m) \<Rightarrow> leave_one i (cks k) m) (bs_groups b))\<rparr>)" for i x b
    using group_leave_reaches by (simp add: leave_one_def case_prod_unfold Let_def)
  from map_acc_groups_reaches [of crc "\<lambda>x. case x of (k, m) \<Rightarrow> leave_one (lvrq_group_id request) (cks k) m", OF this]
  show ?thesis using False by (simp add: leave_group_respond_def case_prod_unfold)
qed

lemma describe_groups_respond_reaches: "reaches crc b (snd (describe_groups_respond request cks b))"
proof -
  have "reaches crc b (b\<lparr>bs_groups := snd (describe_one ck i (bs_groups b))\<rparr>)" for ck i b
  proof (cases "find_group (bs_groups b) i")
    case None
    then show ?thesis by (simp add: describe_one_def describe_group_def)
  next
    case (Some g)
    from reaches_group [OF Some, of _ "Describe i ck" crc] Some show ?thesis
      by (simp add: describe_one_def describe_group_def exec_group_def case_prod_unfold)
  qed
  then have "reaches crc b (b\<lparr>bs_groups := snd ((case x of (k, i) \<Rightarrow> describe_one (cks k) i) (bs_groups b))\<rparr>)" for x b
    by (simp add: case_prod_unfold)
  from map_acc_groups_reaches [of crc "\<lambda>x. case x of (k, i) \<Rightarrow> describe_one (cks k) i", OF this] show ?thesis
    by (simp add: describe_groups_respond_def case_prod_unfold)
qed

lemma offset_commit_respond_reaches: "reaches crc b (snd (offset_commit_respond request ck b))"
proof (cases "ocrq_group_instance_id request")
  case None
  have "snd (offset_commit_respond request ck b) =
      b\<lparr>bs_groups := snd (commit_offsets (ocrq_group_id request) (ocrq_generation_id_or_member_epoch request)
        (ocrq_member_id request) (commits_of request) ck (bs_groups b))\<rparr>"
    using None by (simp add: offset_commit_respond_def case_prod_unfold Let_def)
  then show ?thesis
    using reaches_on_group [of "commit_section (ocrq_generation_id_or_member_epoch request)
        (ocrq_member_id request) (commits_of request) ck"
        "Commit (ocrq_generation_id_or_member_epoch request) (ocrq_member_id request) (commits_of request) ck"]
    by (simp add: commit_offsets_def exec_group_def)
qed (simp add: offset_commit_respond_def)

lemma sync_group_turn_total:
  "\<exists>r b'. sync_group_turn request refresh ck b = Inr (r, b') \<and> reaches crc b b'"
proof (cases "sgrq_group_instance_id request = None")
  case inst: True
  show ?thesis
  proof (cases "find_group (bs_groups b) (sgrq_group_id request)")
    case None
    with inst show ?thesis by (simp add: sync_group_turn_def)
  next
    case (Some g)
    let ?as = "map (\<lambda>a. \<lparr>sa_member_id = sgrqa_member_id a, sa_assignment = sgrqa_assignment a\<rparr>)
      (sgrq_assignments request)"
    obtain r g' where run: "sync_poll (sgrq_generation_id request) (sgrq_member_id request) ?as refresh ck g =
        Inr (r, g')"
      using sync_poll_total by blast
    then have "g' = exec_group (SyncPoll (sgrq_generation_id request) (sgrq_member_id request) ?as refresh ck) g"
      by (simp add: exec_group_def)
    from reaches_group [OF Some this, of crc] show ?thesis
      using inst Some run by (simp add: sync_group_turn_def)
  qed
qed (simp add: sync_group_turn_def)

lemma join_enter_valid:
  assumes "join_enter request known c = (Proceed join may_add, c')"
  shows "valid_join join \<and> jr_group_id join = jr_group_id request"
  using assms
  by (auto simp: join_enter_def valid_join_def allocate_member_id_def Let_def
      split: if_splits option.splits)

lemma find_group_or_insert:
  "find_group (group_or_insert i c) i = Some (case find_group c i of Some g \<Rightarrow> g | None \<Rightarrow> group_new)"
  by (simp add: group_or_insert_def split: option.split)

lemma join_group_begin_total:
  "\<exists>r b'. join_group_begin request version client_id ck b = Inr (r, b') \<and> reaches crc b b'"
proof (cases "jgrq_group_instance_id request = None")
  case inst: True
  let ?join = "join_request_of request version client_id"
  obtain entry c where enter: "join_enter ?join (version \<ge> 4) (bs_groups b) = (entry, c)" by fastforce
  have r1: "reaches crc b (b\<lparr>bs_groups := c\<rparr>)"
    using reaches_exec [of "JoinEnter ?join (version \<ge> 4)" crc b] enter by (simp add: exec_broker_def)
  show ?thesis
  proof (cases entry)
    case (Answer r)
    with inst enter r1 show ?thesis by (simp add: join_group_begin_def)
  next
    case (Proceed join may_add)
    let ?i = "jr_group_id join" and ?c1 = "group_or_insert (jr_group_id join) c"
    obtain g where g: "find_group ?c1 ?i = Some g" using find_group_or_insert by blast
    obtain progress g' where run: "join_register join may_add ck g = Inr (progress, g')"
      using join_register_total by blast
    have valid: "valid_join join" using join_enter_valid enter Proceed by blast
    let ?b1 = "b\<lparr>bs_groups := ?c1\<rparr>" and ?b2 = "b\<lparr>bs_groups := put_group ?i g' ?c1\<rparr>"
    have "reaches crc b ?b1"
      using reaches_step [OF r1, of "OpenGroup ?i"] by (simp add: exec_broker_def)
    moreover have "reaches crc ?b1 ?b2"
      using reaches_group [of ?b1 ?i g g' "JoinRegister join may_add ck"] g run valid
      by (simp add: exec_group_def)
    ultimately have r2: "reaches crc b ?b2" by (rule reaches_trans)
    then have "reaches crc b (b\<lparr>bs_groups := join_settle ?i (jr_member_id join) (put_group ?i g' ?c1)\<rparr>)"
      using reaches_step [OF r2, of "JoinSettle ?i (jr_member_id join)"] by (simp add: exec_broker_def)
    with r2 inst enter Proceed g run show ?thesis
      by (simp add: join_group_begin_def Let_def split: join_progress.split)
  qed
qed (simp add: join_group_begin_def)

lemma join_group_turn_reaches: "reaches crc b (snd (join_group_turn request m e ck b))"
proof (cases "find_group (bs_groups b) (jgrq_group_id request)")
  case (Some g)
  from reaches_group [OF Some, of _ "JoinPoll m e ck" crc] Some show ?thesis
    by (simp add: join_group_turn_def exec_group_def case_prod_unfold)
qed (simp add: join_group_turn_def)

end
