(* ===== verification/Router.thy ===== *)
theory Router
  imports Capabilities Error_Response Fetch Topic_Pages Group_Handlers
begin

text \<open>
  From a decoded frame to a response (\<open>src/src/kafka/request_router.rs\<close> and \<open>dispatcher.rs\<close>): routing by the
  capability table, and the dispatch of a supported request to its handler. Fetch, JoinGroup and SyncGroup may
  have to wait: their dispatch ends in a pending request, whose turns the theories of the handlers
  describe.
\<close>

section \<open>Routing\<close>

record response_envelope =
  en_api_key :: api_key
  en_encoding_version :: i16
  en_correlation_id :: i32
  en_body :: response_kind

datatype route = Dispatch decoded_request | Respond response_envelope | NoResponse

datatype route_error = UnsupportedApi api_key i16 i32 | ErrorResponse error_response_error

definition route :: "decoded_frame \<Rightarrow> route_error + route" where
  "route frame =
     (case frame of
        Request request \<Rightarrow>
          let version = rh_request_api_version (dr_header request);
              correlation_id = rh_correlation_id (dr_header request)
          in (case capability (dr_api_key request) of
                None \<Rightarrow> Inl (UnsupportedApi (dr_api_key request) version correlation_id)
              | Some c \<Rightarrow>
                  if capability_supports c version then Inr (Dispatch request)
                  else if dr_api_key request = Produce_key \<and> \<not> expects_response request then Inr NoResponse
                  else case unsupported_version request of
                         Inl e \<Rightarrow> Inl (ErrorResponse e)
                       | Inr body \<Rightarrow>
                           Inr (Respond \<lparr>en_api_key = dr_api_key request, en_encoding_version = version,
                                         en_correlation_id = correlation_id, en_body = body\<rparr>))
      | UnsupportedApiVersions header _ \<Rightarrow>
          Inr (Respond \<lparr>en_api_key = ApiVersions_key, en_encoding_version = 0,
                        en_correlation_id = rh_correlation_id header,
                        en_body = unsupported_api_versions\<rparr>))"

section \<open>Dispatch\<close>

datatype pending =
  PendingFetch fetch_request
| PendingJoin join_group_request string nat
| PendingSync sync_group_request

datatype dispatch_outcome = Completed response_kind | Pending pending

datatype dispatch_error = DispatchMismatch api_key

type_synonym dispatched = "((dispatch_error + dispatch_outcome) \<times> broker_state) run"

text \<open>An arm of the match: the handler's result for a body of the right kind.\<close>

definition answer :: "('r \<Rightarrow> response_kind) \<Rightarrow> 'r \<times> broker_state \<Rightarrow> dispatched" where
  "answer kind r = Inr (Inr (Completed (kind (fst r))), snd r)"

definition answer_run :: "('r \<Rightarrow> response_kind) \<Rightarrow> ('r \<times> broker_state) run \<Rightarrow> dispatched" where
  "answer_run kind m = try_bind m (answer kind)"

definition begin_join ::
  "join_group_request \<Rightarrow> i16 \<Rightarrow> string option \<Rightarrow> clock \<Rightarrow> broker_state \<Rightarrow> dispatched" where
  "begin_join request version client_id ck b =
     try_bind (join_group_begin request version client_id ck b) (\<lambda>(phase, b').
     case phase of
       JoinAnswered r \<Rightarrow> Inr (Inr (Completed (JoinGroupResponse r)), b')
     | JoinWaiting member_id epoch \<Rightarrow> Inr (Inr (Pending (PendingJoin request member_id epoch)), b'))"

definition begin_sync :: "sync_group_request \<Rightarrow> clock \<Rightarrow> broker_state \<Rightarrow> dispatched" where
  "begin_sync request ck b =
     try_bind (sync_group_turn request True ck b) (\<lambda>(phase, b').
     case phase of
       SyncAnswered r \<Rightarrow> Inr (Inr (Completed (SyncGroupResponse r)), b')
     | SyncWaiting \<Rightarrow> Inr (Inr (Pending (PendingSync request)), b'))"

definition dispatch ::
  "(bytes \<Rightarrow> nat) \<Rightarrow> advertised_address \<Rightarrow> (nat \<Rightarrow> clock) \<Rightarrow> decoded_request \<Rightarrow> broker_state \<Rightarrow> dispatched" where
  "dispatch crc advertised cks request b =
     (let version = rh_request_api_version (dr_header request); key = dr_api_key request;
          mismatch = Inr (Inl (DispatchMismatch key), b)
      in case dr_body request of
           ApiVersionsRequest _ \<Rightarrow>
             if key = ApiVersions_key then answer ApiVersionsResponse (api_versions_respond, b) else mismatch
         | MetadataRequest body \<Rightarrow>
             if key = Metadata_key
             then answer_run MetadataResponse (metadata_respond body version advertised b) else mismatch
         | CreateTopicsRequest body \<Rightarrow>
             if key = CreateTopics_key
             then answer_run CreateTopicsResponse (create_topics_respond body b) else mismatch
         | ProduceRequest body \<Rightarrow>
             if key = Produce_key
             then answer_run ProduceResponse (produce_respond crc body b) else mismatch
         | ListOffsetsRequest body \<Rightarrow>
             if key = ListOffsets_key
             then answer ListOffsetsResponse (list_offsets_respond body b, b) else mismatch
         | FetchRequest body \<Rightarrow>
             if key = Fetch_key then Inr (Inr (Pending (PendingFetch body)), b) else mismatch
         | FindCoordinatorRequest body \<Rightarrow>
             if key = FindCoordinator_key
             then answer FindCoordinatorResponse (find_coordinator_respond body advertised b, b) else mismatch
         | JoinGroupRequest body \<Rightarrow>
             if key = JoinGroup_key
             then begin_join body version (rh_client_id (dr_header request)) (cks 0) b else mismatch
         | SyncGroupRequest body \<Rightarrow> if key = SyncGroup_key then begin_sync body (cks 0) b else mismatch
         | HeartbeatRequest body \<Rightarrow>
             if key = Heartbeat_key then answer HeartbeatResponse (heartbeat_respond body (cks 0) b) else mismatch
         | LeaveGroupRequest body \<Rightarrow>
             if key = LeaveGroup_key
             then answer LeaveGroupResponse (leave_group_respond body version cks b) else mismatch
         | OffsetCommitRequest body \<Rightarrow>
             if key = OffsetCommit_key
             then answer OffsetCommitResponse (offset_commit_respond body (cks 0) b) else mismatch
         | OffsetFetchRequest body \<Rightarrow>
             if key = OffsetFetch_key
             then answer OffsetFetchResponse (offset_fetch_respond body b, b) else mismatch
         | ListGroupsRequest _ \<Rightarrow>
             if key = ListGroups_key then answer ListGroupsResponse (list_groups_respond b, b) else mismatch
         | DescribeGroupsRequest body \<Rightarrow>
             if key = DescribeGroups_key
             then answer DescribeGroupsResponse (describe_groups_respond body cks b) else mismatch
         | InitProducerIdRequest body \<Rightarrow>
             if key = InitProducerId_key
             then answer InitProducerIdResponse (init_producer_id_respond body b) else mismatch
         | DescribeConfigsRequest body \<Rightarrow>
             if key = DescribeConfigs_key
             then answer DescribeConfigsResponse (describe_configs_respond body b, b) else mismatch
         | DescribeClusterRequest body \<Rightarrow>
             if key = DescribeCluster_key
             then answer DescribeClusterResponse (describe_cluster_respond body advertised b, b) else mismatch
         | DescribeTopicPartitionsRequest body \<Rightarrow>
             if key = DescribeTopicPartitions_key
             then answer_run DescribeTopicPartitionsResponse
                    (try_bind (describe_topic_partitions_respond body b) (\<lambda>r. Inr (r, b))) else mismatch
         | OtherRequest _ \<Rightarrow> mismatch)"

section \<open>Handlers answer\<close>

text \<open>The names of a page start at the cursor: only the first of them can be the cursor's topic.\<close>

lemma selected_aligned:
  assumes "selected_names request topics = Inr names"
  shows "\<exists>k. aligned (dtprq_cursor request) names k"
proof (cases "dtprq_cursor request")
  case None
  then show ?thesis by (simp add: aligned_def)
next
  case (Some c)
  let ?all = "sort (remdups
    (if dtprq_topics request \<noteq> [] then map trq_name (dtprq_topics request) else map tm_name topics))"
  have names: "names = filter (\<lambda>n. n \<ge> qc_topic_name c) ?all" and c: "0 \<le> qc_partition_index c"
    using assms Some by (auto simp: selected_names_def Let_def split: if_splits)
  have "sorted_wrt (<) ?all" by (simp add: strict_sorted_iff)
  then have strict: "sorted_wrt (<) names" unfolding names by (rule sorted_wrt_filter)
  show ?thesis
  proof (cases names)
    case Nil
    with Some c show ?thesis by (simp add: aligned_def)
  next
    case (Cons n ns)
    then have "n \<in> set names" by simp
    then have "qc_topic_name c \<le> n" by (simp add: names)
    moreover have "\<forall>m \<in> set ns. n < m" using strict Cons by simp
    ultimately have "qc_topic_name c \<notin> set ns" by auto
    with Some c Cons show ?thesis by (simp add: aligned_def)
  qed
qed

lemma describe_topic_partitions_total:
  assumes "broker_ok crc b" and "counts_ok b"
  shows "\<exists>r. describe_topic_partitions_respond request b = Inr r"
proof (cases "selected_names request (list_topics (bs_topics b))")
  case (Inl e)
  then show ?thesis by (simp add: describe_topic_partitions_respond_def)
next
  case (Inr names)
  let ?limit = "max (dtprq_response_partition_limit request) 1"
  obtain k where k: "aligned (dtprq_cursor request) names k" using selected_aligned [OF Inr] by blast
  have "0 < nat ?limit" by simp
  from describe_names_page [OF assms k this] obtain topics nc where
    "describe_names (dtprq_cursor request) b names (nat ?limit) = Inr (topics, nc)" by blast
  with Inr show ?thesis by (simp add: describe_topic_partitions_respond_def usize_try_from_def)
qed

lemma init_producer_id_reaches: "reaches crc b (snd (init_producer_id_respond request b))"
  using reaches_exec [of AllocateProducer crc b]
  by (auto simp: init_producer_id_respond_def exec_broker_def op_ok_def case_prod_unfold Let_def split: prod.split sum.split)

text \<open>The draws a request may need, one for each topic it may create, and the counts it gives.\<close>

definition draws_needed :: "request_kind \<Rightarrow> nat" where
  "draws_needed body =
     (case body of
        ProduceRequest r \<Rightarrow> length (prq_topic_data r)
      | MetadataRequest r \<Rightarrow> (case mrq_topics r of None \<Rightarrow> 0 | Some ts \<Rightarrow> length ts)
      | CreateTopicsRequest r \<Rightarrow> length (ctrq_topics r)
      | _ \<Rightarrow> 0)"

definition counts_fit :: "request_kind \<Rightarrow> bool" where
  "counts_fit body \<longleftrightarrow>
     (case body of CreateTopicsRequest r \<Rightarrow> list_all (in_i32 \<circ> ctopic_num_partitions) (ctrq_topics r) | _ \<Rightarrow> True)"

fun pending_key :: "pending \<Rightarrow> api_key" where
  "pending_key (PendingFetch _) = Fetch_key"
| "pending_key (PendingJoin _ _ _) = JoinGroup_key"
| "pending_key (PendingSync _) = SyncGroup_key"

fun outcome_key :: "dispatch_outcome \<Rightarrow> api_key" where
  "outcome_key (Completed r) = response_key r"
| "outcome_key (Pending p) = pending_key p"

definition served :: "(bytes \<Rightarrow> nat) \<Rightarrow> api_key \<Rightarrow> broker_state \<Rightarrow> dispatched \<Rightarrow> bool" where
  "served crc key b d \<longleftrightarrow> (\<exists>out b'. d = Inr (Inr out, b') \<and> outcome_key out = key \<and> reaches crc b b')"

lemma served_answer:
  "(\<And>r. response_key (kind r) = key) \<Longrightarrow> reaches crc b (snd r) \<Longrightarrow> served crc key b (answer kind r)"
  by (simp add: served_def answer_def)

lemma served_answer_run:
  assumes "\<And>r. response_key (kind r) = key" and "\<exists>r b'. m = Inr (r, b') \<and> reaches crc b b'"
  shows "served crc key b (answer_run kind m)"
  using assms by (auto simp: answer_run_def served_def answer_def)

lemma served_join: "served crc JoinGroup_key b (begin_join request version client_id ck b)"
  using join_group_begin_total [of request version client_id ck b crc]
  by (auto simp: begin_join_def served_def split: join_phase.split)

lemma served_sync: "served crc SyncGroup_key b (begin_sync request ck b)"
  using sync_group_turn_total [of request True ck b crc]
  by (auto simp: begin_sync_def served_def split: sync_phase.split)

lemma dispatch_served:
  assumes "broker_ok crc b" and "counts_ok b" and "request_key (dr_body request) = dr_api_key request"
    and "\<nexists>k. dr_body request = OtherRequest k"
    and "fresh_draws (draws_needed (dr_body request)) b" and "counts_fit (dr_body request)"
  shows "served crc (dr_api_key request) b (dispatch crc advertised cks request b)"
proof (cases "dr_body request")
  case (ProduceRequest r)
  obtain resp b' where "produce_respond crc r b = Inr (resp, b')"
    using produce_respond_total [of r b crc] assms(5) ProduceRequest by (auto simp: draws_needed_def)
  with produce_respond_reaches [OF this] ProduceRequest assms(3) show ?thesis
    by (auto simp: dispatch_def intro!: served_answer_run)
next
  case (MetadataRequest r)
  with assms metadata_respond_total [OF assms(1,2), of r] show ?thesis
    by (auto simp: dispatch_def draws_needed_def intro!: served_answer_run)
next
  case (CreateTopicsRequest r)
  with assms create_topics_respond_total [of r b crc] show ?thesis
    by (auto simp: dispatch_def draws_needed_def counts_fit_def intro!: served_answer_run)
next
  case (DescribeTopicPartitionsRequest r)
  with assms describe_topic_partitions_total [OF assms(1,2), of r] show ?thesis
    by (auto simp: dispatch_def intro!: served_answer_run)
next
  case (FetchRequest r)
  with assms(3) show ?thesis by (auto simp: dispatch_def served_def)
next
  case (OtherRequest k)
  with assms(4) show ?thesis by simp
qed (use assms(3) in \<open>auto simp: dispatch_def served_join served_sync heartbeat_respond_reaches
      leave_group_respond_reaches describe_groups_respond_reaches offset_commit_respond_reaches
      init_producer_id_reaches intro!: served_answer\<close>)

section \<open>Routing and dispatch\<close>

text \<open>
  C30: a request whose body is of the kind its API key names is answered. Whatever it asks, its dispatch
  neither panics nor reports a body mismatch: it ends in a response of that API, or, for Fetch,
  JoinGroup and SyncGroup, in a request that waits; and the broker is again in a state that the operations
  of its components reach, with its invariants. The identifiers drawn for topics it may create have to be
  fresh, and the partition counts it gives are 32-bit integers.
\<close>

theorem dispatch_answers:
  assumes "broker_ok crc b" and "counts_ok b" and "request_key (dr_body request) = dr_api_key request"
    and "\<nexists>k. dr_body request = OtherRequest k"
    and "fresh_draws (draws_needed (dr_body request)) b" and "counts_fit (dr_body request)"
  shows "\<exists>outcome b'. dispatch crc advertised cks request b = Inr (Inr outcome, b') \<and>
    outcome_key outcome = dr_api_key request \<and> reaches crc b b' \<and> broker_ok crc b' \<and> counts_ok b'"
  using dispatch_served [OF assms] reaches_ok [OF _ assms(1)] reaches_counts [OF _ assms(2)]
  unfolding served_def by blast

definition supported :: "api_key \<Rightarrow> i16 \<Rightarrow> bool" where
  "supported key version \<longleftrightarrow>
     (case capability key of None \<Rightarrow> False | Some c \<Rightarrow> capability_supports c version)"

text \<open>
  Where a decoded request goes. Its API is refused, and the connection closed, exactly when the capability
  table lacks it; it is dispatched exactly when its version is supported. Every other request gets an
  answer of its own API with its version and correlation id, except a Produce request that wants no acknowledgement,
  which gets none. An ApiVersions request of an unknown version is answered in version 0. Routing
  never ends in an error for the answer itself.
\<close>

theorem route_cases:
  assumes "request_key (dr_body request) = dr_api_key request"
    and "\<nexists>k. dr_body request = OtherRequest k \<and> capability k \<noteq> None"
  shows "let key = dr_api_key request; version = rh_request_api_version (dr_header request);
             correlation_id = rh_correlation_id (dr_header request)
    in (case route (Request request) of
          Inl e \<Rightarrow> capability key = None \<and> e = UnsupportedApi key version correlation_id
        | Inr (Dispatch r) \<Rightarrow> supported key version \<and> r = request
        | Inr (Respond r) \<Rightarrow>
            capability key \<noteq> None \<and> \<not> supported key version \<and> expects_response request \<and>
            en_api_key r = key \<and> en_encoding_version r = version \<and> en_correlation_id r = correlation_id \<and>
            response_key (en_body r) = key
        | Inr NoResponse \<Rightarrow>
            key = Produce_key \<and> \<not> supported key version \<and> \<not> expects_response request) \<and>
       (case route (UnsupportedApiVersions (dr_header request) v) of
          Inr (Respond r) \<Rightarrow>
            en_api_key r = ApiVersions_key \<and> en_encoding_version r = 0 \<and>
            en_correlation_id r = correlation_id \<and> response_key (en_body r) = ApiVersions_key
        | _ \<Rightarrow> False)"
proof -
  consider (other) "capability (dr_api_key request) = None" | (known) "\<nexists>k. dr_body request = OtherRequest k"
    using assms by (cases "dr_body request") auto
  then show ?thesis
  proof cases
    case other
    then show ?thesis by (simp add: route_def unsupported_api_versions_def)
  next
    case known
    from unsupported_version_answers [OF assms(1) known] obtain response where
      "unsupported_version request = Inr response" "response_key response = dr_api_key request"
      by blast
    moreover have "expects_response request" if "dr_api_key request \<noteq> Produce_key"
      using that assms(1) by (cases "dr_body request") (simp_all add: expects_response_def)
    ultimately show ?thesis
      by (auto simp: route_def supported_def unsupported_api_versions_def Let_def split: option.split)
  qed
qed

section \<open>Examples\<close>

definition sample_request :: "api_key \<Rightarrow> i16 \<Rightarrow> request_kind \<Rightarrow> decoded_request" where
  "sample_request key version body =
     \<lparr>dr_header = \<lparr>rh_request_api_key = key, rh_request_api_version = version, rh_correlation_id = 9,
        rh_client_id = None, rh_unknown_tagged_fields = []\<rparr>, dr_api_key = key, dr_body = body\<rparr>"

theorem route_cases_witness:
  "(case route (Request (sample_request Produce_key 2
       (ProduceRequest (produce_request_default\<lparr>prq_acks := 1\<rparr>)))) of
      Inr (Respond r) \<Rightarrow> en_api_key r = Produce_key \<and> en_encoding_version r = 2 \<and> en_correlation_id r = 9
    | _ \<Rightarrow> False)"
proof -
  let ?r = "sample_request Produce_key 2 (ProduceRequest (produce_request_default\<lparr>prq_acks := 1\<rparr>))"
  have "request_key (dr_body ?r) = dr_api_key ?r" and "\<nexists>k. dr_body ?r = OtherRequest k \<and> capability k \<noteq> None"
    by (simp_all add: sample_request_def)
  note cases = route_cases [OF this, of 0]
  have c: "capability Produce_key \<noteq> None" "\<not> supported Produce_key 2" "expects_response ?r" by code_simp+
  from cases c show ?thesis
    by (auto simp: Let_def sample_request_def split: sum.splits route.splits)
qed

theorem dispatch_answers_witness:
  "\<exists>outcome b'. dispatch sample_checksum sample_address (\<lambda>_. \<lparr>ck_now = 0, ck_begin = 0, ck_complete = 0\<rparr>)
       (sample_request Metadata_key 9 (MetadataRequest sample_names)) (broker_new 1 True False 2 [5, 6, 7, 8]) =
         Inr (Inr outcome, b') \<and>
     outcome_key outcome = Metadata_key \<and> broker_ok sample_checksum b'"
proof -
  let ?b = "broker_new 1 True False 2 [5, 6, 7, 8]" and ?r = "sample_request Metadata_key 9 (MetadataRequest sample_names)"
  have "request_key (dr_body ?r) = dr_api_key ?r" and "\<nexists>k. dr_body ?r = OtherRequest k"
    and "counts_fit (dr_body ?r)"
    by (simp_all add: sample_request_def counts_fit_def)
  moreover have "draws_needed (dr_body ?r) = 4" by code_simp
  then have "fresh_draws (draws_needed (dr_body ?r)) ?b" using new_broker_ok(3) by simp
  ultimately have "\<exists>outcome b'. dispatch sample_checksum sample_address
      (\<lambda>_. \<lparr>ck_now = 0, ck_begin = 0, ck_complete = 0\<rparr>) ?r ?b = Inr (Inr outcome, b') \<and>
      outcome_key outcome = dr_api_key ?r \<and> reaches sample_checksum ?b b' \<and> broker_ok sample_checksum b' \<and>
      counts_ok b'"
    by (intro dispatch_answers new_broker_ok)
  moreover have "dr_api_key ?r = Metadata_key" by (simp add: sample_request_def)
  ultimately show ?thesis by auto
qed

end
