(* ===== verification/Frames.thy ===== *)
theory Frames
  imports Prelude
begin

text \<open>
  Length-prefixed frames over a byte stream (\<open>src/src/kafka/frame.rs\<close>). A stream is what the reads of
  it will return, in order: pieces of data of any size or a failure; when nothing is left the peer
  has closed it. A writer takes bytes until it fails.
\<close>

section \<open>Streams\<close>

datatype io_error = UnexpectedEof | WriteZero | ConnectionReset

datatype delivery = Data bytes | Failure io_error

type_synonym stream = "delivery list"

text \<open>One \<open>read\<close> into a buffer of \<open>n\<close> bytes: no bytes mean the end of the stream.\<close>

fun stream_read :: "usize \<Rightarrow> stream \<Rightarrow> io_error + (bytes \<times> stream)" where
  "stream_read n [] = Inr ([], [])"
| "stream_read n (Failure e # s) = Inl e"
| "stream_read n (Data bs # s) =
     (if length bs \<le> n then Inr (bs, s) else Inr (take n bs, Data (drop n bs) # s))"

lemma stream_read_length: "stream_read n s = Inr (bs, s') \<Longrightarrow> length bs \<le> n"
  by (cases "(n, s)" rule: stream_read.cases) (auto split: if_splits)

lemma shorter_rest: "a \<noteq> [] \<Longrightarrow> \<not> n \<le> k \<Longrightarrow> n - (k + length a) < n - k"
  by (cases a) auto

text \<open>\<open>read_exact\<close>: reads until the buffer is full.\<close>

function read_exact :: "usize \<Rightarrow> bytes \<Rightarrow> stream \<Rightarrow> io_error + (bytes \<times> stream)" where
  "read_exact n acc s =
     (if n \<le> length acc then Inr (acc, s)
      else case stream_read (n - length acc) s of
             Inl e \<Rightarrow> Inl e
           | Inr (bs, s') \<Rightarrow> if bs = [] then Inl UnexpectedEof else read_exact n (acc @ bs) s')"
  by pat_completeness auto
termination
  by (relation "measure (\<lambda>(n, acc, s). n - length acc)") (auto intro: shorter_rest)

declare read_exact.simps [simp del]

record writer =
  wr_written :: bytes
  wr_capacity :: "usize option"

definition write_all :: "bytes \<Rightarrow> writer \<Rightarrow> (io_error + unit) \<times> writer" where
  "write_all bs w =
     (case wr_capacity w of
        None \<Rightarrow> (Inr (), w\<lparr>wr_written := wr_written w @ bs\<rparr>)
      | Some n \<Rightarrow>
          if length bs \<le> n
          then (Inr (), w\<lparr>wr_written := wr_written w @ bs, wr_capacity := Some (n - length bs)\<rparr>)
          else (Inl WriteZero, w\<lparr>wr_written := wr_written w @ take n bs, wr_capacity := Some 0\<rparr>))"

section \<open>Frames\<close>

definition MAX_FRAME_SIZE :: usize where
  "MAX_FRAME_SIZE = 100 * 1024 * 1024"

datatype frame_error = Io io_error | InvalidLength i32 | TooLarge usize

definition decode_frame_length :: "i32 \<Rightarrow> frame_error + usize" where
  "decode_frame_length len =
     (case usize_try_from len of
        None \<Rightarrow> Inl (InvalidLength len)
      | Some n \<Rightarrow> if n > MAX_FRAME_SIZE then Inl (TooLarge n) else Inr n)"

text \<open>The loop over the prefix: \<open>None\<close> when the stream ends before its first byte.\<close>

function read_prefix :: "bytes \<Rightarrow> stream \<Rightarrow> io_error + (bytes option \<times> stream)" where
  "read_prefix acc s =
     (if 4 \<le> length acc then Inr (Some acc, s)
      else case stream_read (4 - length acc) s of
             Inl e \<Rightarrow> Inl e
           | Inr (bs, s') \<Rightarrow>
               if bs = [] then if acc = [] then Inr (None, s') else Inl UnexpectedEof
               else read_prefix (acc @ bs) s')"
  by pat_completeness auto
termination
  by (relation "measure (\<lambda>(acc, s). 4 - length acc)") (auto intro: shorter_rest)

declare read_prefix.simps [simp del]

definition read_frame :: "stream \<Rightarrow> frame_error + (bytes option \<times> stream)" where
  "read_frame s =
     (case read_prefix [] s of
        Inl e \<Rightarrow> Inl (Io e)
      | Inr (None, s') \<Rightarrow> Inr (None, s')
      | Inr (Some prefix, s') \<Rightarrow>
          (case decode_frame_length (wrap_i32 (int (be_nat prefix))) of
             Inl e \<Rightarrow> Inl e
           | Inr n \<Rightarrow>
               (case read_exact n [] s' of
                  Inl e \<Rightarrow> Inl (Io e)
                | Inr (body, s'') \<Rightarrow> Inr (Some body, s''))))"

definition write_frame :: "bytes \<Rightarrow> writer \<Rightarrow> ((frame_error + unit) \<times> writer) run" where
  "write_frame body w =
     (if length body > MAX_FRAME_SIZE then Inr (Inl (TooLarge (length body)), w)
      else try_bind (expect ''maximum frame size fits in i32'' (i32_try_from (length body))) (\<lambda>len.
        case write_all (be_bytes 4 len) w of
          (Inl e, w') \<Rightarrow> Inr (Inl (Io e), w')
        | (Inr _, w') \<Rightarrow>
            (case write_all body w' of
               (Inl e, w'') \<Rightarrow> Inr (Inl (Io e), w'')
             | (Inr _, w'') \<Rightarrow> Inr (Inr (), w''))))"

section \<open>Reading what a stream holds\<close>

text \<open>A stream without failures, in which every read before the end returns something.\<close>

definition steady :: "stream \<Rightarrow> bool" where
  "steady s \<longleftrightarrow> list_all (\<lambda>d. case d of Data bs \<Rightarrow> bs \<noteq> [] | Failure e \<Rightarrow> False) s"

fun delivered :: "stream \<Rightarrow> bytes" where
  "delivered [] = []"
| "delivered (Data bs # s) = bs @ delivered s"
| "delivered (Failure e # s) = delivered s"

lemma stream_read_steady:
  assumes "steady s" and "0 < n"
  obtains bs s' where "stream_read n s = Inr (bs, s')" "steady s'" "delivered s = bs @ delivered s'"
    "length bs \<le> n" "bs = [] \<longleftrightarrow> delivered s = []"
  using assms
proof (cases "(n, s)" rule: stream_read.cases)
  case (3 m bs r)
  with assms that show thesis
    by (cases "length bs \<le> n") (auto simp: steady_def)
qed (use assms that in \<open>auto simp: steady_def\<close>)

text \<open>Both loops take exactly the bytes they need from the front of the stream, or find its end.\<close>

lemma read_exact_steady:
  assumes "steady s" and "length acc \<le> n"
  shows "if n \<le> length acc + length (delivered s)
    then \<exists>s'. read_exact n acc s = Inr (acc @ take (n - length acc) (delivered s), s') \<and> steady s' \<and>
      delivered s' = drop (n - length acc) (delivered s)
    else read_exact n acc s = Inl UnexpectedEof"
  using assms
proof (induction n acc s rule: read_exact.induct)
  case (1 n acc s)
  show ?case
  proof (cases "n \<le> length acc")
    case True
    with 1 show ?thesis by (simp add: read_exact.simps [of n acc s])
  next
    case False
    then have "0 < n - length acc" by simp
    from stream_read_steady [OF 1(2) this] obtain bs s' where rd:
      "stream_read (n - length acc) s = Inr (bs, s')" "steady s'" "delivered s = bs @ delivered s'"
      "length bs \<le> n - length acc" "bs = [] \<longleftrightarrow> delivered s = []" by metis
    show ?thesis
    proof (cases "bs = []")
      case True
      with False rd show ?thesis by (simp add: read_exact.simps [of n acc s])
    next
      case more: False
      have "length (acc @ bs) \<le> n" using False rd(4) by simp
      note IH = 1(1) [OF False rd(1) refl more rd(2) this]
      with False rd more show ?thesis
        by (auto simp: read_exact.simps [of n acc s] add.assoc split: if_splits)
    qed
  qed
qed

lemma read_prefix_steady:
  assumes "steady s" and "length acc \<le> 4"
  shows "if 4 \<le> length acc + length (delivered s)
    then \<exists>s'. read_prefix acc s = Inr (Some (acc @ take (4 - length acc) (delivered s)), s') \<and> steady s' \<and>
      delivered s' = drop (4 - length acc) (delivered s)
    else if acc = [] \<and> delivered s = [] then \<exists>s'. read_prefix acc s = Inr (None, s')
    else read_prefix acc s = Inl UnexpectedEof"
  using assms
proof (induction acc s rule: read_prefix.induct)
  case (1 acc s)
  show ?case
  proof (cases "4 \<le> length acc")
    case True
    with 1 show ?thesis by (simp add: read_prefix.simps [of acc s])
  next
    case False
    then have "0 < 4 - length acc" by simp
    from stream_read_steady [OF 1(2) this] obtain bs s' where rd:
      "stream_read (4 - length acc) s = Inr (bs, s')" "steady s'" "delivered s = bs @ delivered s'"
      "length bs \<le> 4 - length acc" "bs = [] \<longleftrightarrow> delivered s = []" by metis
    show ?thesis
    proof (cases "bs = []")
      case True
      with False rd show ?thesis by (auto simp: read_prefix.simps [of acc s] read_prefix.simps [of "[]" s])
    next
      case more: False
      have "length (acc @ bs) \<le> 4" using False rd(4) by simp
      note IH = 1(1) [OF False rd(1) refl more rd(2) this]
      with False rd more show ?thesis
        by (auto simp: read_prefix.simps [of acc s] add.assoc split: if_splits)
    qed
  qed
qed

section \<open>Frames on a stream\<close>

definition frame_bytes :: "bytes \<Rightarrow> bytes" where
  "frame_bytes body = be_bytes 4 (int (length body)) @ body"

lemma length_frame_bytes [simp]: "length (frame_bytes body) = 4 + length body"
  by (simp add: frame_bytes_def)

lemma frame_length_decodes:
  "n \<le> MAX_FRAME_SIZE \<Longrightarrow> decode_frame_length (wrap_i32 (int (be_nat (be_bytes 4 (int n))))) = Inr n"
proof -
  assume n: "n \<le> MAX_FRAME_SIZE"
  then have "in_i32 (int n)" by (simp add: MAX_FRAME_SIZE_def in_i32_def)
  then have "wrap_i32 (int (be_nat (be_bytes 4 (int n)))) = int n" by (rule wrap_i32_be_bytes)
  then show ?thesis using n by (simp add: decode_frame_length_def usize_try_from_def)
qed

text \<open>A stream that starts with a whole frame gives its body and goes on behind it.\<close>

lemma read_frame_whole:
  assumes "steady s" and "delivered s = frame_bytes body @ rest" and "length body \<le> MAX_FRAME_SIZE"
  obtains s' where "read_frame s = Inr (Some body, s')" "steady s'" "delivered s' = rest"
proof -
  have four: "take 4 (delivered s) = be_bytes 4 (int (length body))" "drop 4 (delivered s) = body @ rest"
    using assms(2) by (simp_all add: frame_bytes_def)
  obtain s1 where s1: "read_prefix [] s = Inr (Some (be_bytes 4 (int (length body))), s1)"
    "steady s1" "delivered s1 = body @ rest"
    using read_prefix_steady [OF assms(1), of "[]"] assms(2) four by auto
  obtain s2 where "read_exact (length body) [] s1 = Inr (body, s2)" "steady s2" "delivered s2 = rest"
    using read_exact_steady [OF s1(2), of "[]" "length body"] s1(3) by auto
  with s1(1) frame_length_decodes [OF assms(3)] show thesis
    by (intro that [of s2]) (simp_all add: read_frame_def)
qed

lemma read_frame_end:
  assumes "steady s" and "delivered s = []"
  obtains s' where "read_frame s = Inr (None, s')"
  using read_prefix_steady [OF assms(1), of "[]"] assms(2) that by (auto simp: read_frame_def)

lemma read_frame_cut:
  assumes "steady s" and "delivered s = take k (frame_bytes body)" and "0 < k" and "k < 4 + length body"
    and "length body \<le> MAX_FRAME_SIZE"
  shows "read_frame s = Inl (Io UnexpectedEof)"
proof (cases "k < 4")
  case True
  then show ?thesis
    using read_prefix_steady [OF assms(1), of "[]"] assms(2-4) length_be_bytes [of 4 "int (length body)"]
    by (auto simp: read_frame_def frame_bytes_def simp flip: length_0_conv split: if_splits)
next
  case False
  have four: "take 4 (delivered s) = be_bytes 4 (int (length body))" "drop 4 (delivered s) = take (k - 4) body"
    using assms(2) False by (simp_all add: frame_bytes_def)
  obtain s1 where s1: "read_prefix [] s = Inr (Some (be_bytes 4 (int (length body))), s1)"
    "steady s1" "delivered s1 = take (k - 4) body"
    using read_prefix_steady [OF assms(1), of "[]"] assms(2,4) False four by auto
  have "read_exact (length body) [] s1 = Inl UnexpectedEof"
    using read_exact_steady [OF s1(2), of "[]" "length body"] s1(3) assms(4) False by auto
  with s1(1) frame_length_decodes [OF assms(5)] show ?thesis by (simp add: read_frame_def)
qed

text \<open>
  The reading side of a connection: frames until the stream ends or fails. \<open>None\<close> when the fuel is
  spent first.
\<close>

fun read_frames :: "nat \<Rightarrow> stream \<Rightarrow> (bytes list \<times> frame_error option) option" where
  "read_frames 0 s = None"
| "read_frames (Suc fuel) s =
     (case read_frame s of
        Inl e \<Rightarrow> Some ([], Some e)
      | Inr (None, s') \<Rightarrow> Some ([], None)
      | Inr (Some body, s') \<Rightarrow> map_option (\<lambda>(bodies, e). (body # bodies, e)) (read_frames fuel s'))"

fun write_frames :: "bytes list \<Rightarrow> writer \<Rightarrow> ((frame_error + unit) \<times> writer) run" where
  "write_frames [] w = Inr (Inr (), w)"
| "write_frames (body # bodies) w =
     try_bind (write_frame body w) (\<lambda>(r, w').
     case r of Inl e \<Rightarrow> Inr (Inl e, w') | Inr _ \<Rightarrow> write_frames bodies w')"

lemma write_frame_eq:
  assumes "length body \<le> MAX_FRAME_SIZE" and "wr_capacity w = None"
  shows "write_frame body w = Inr (Inr (), w\<lparr>wr_written := wr_written w @ frame_bytes body\<rparr>)"
proof -
  have "int (length body) \<le> i32_max" using assms(1) by (simp add: MAX_FRAME_SIZE_def i32_max_def)
  with assms show ?thesis
    by (simp add: write_frame_def i32_try_from_def write_all_def frame_bytes_def)
qed

lemma write_frames_eq:
  assumes "list_all (\<lambda>body. length body \<le> MAX_FRAME_SIZE) bodies" and "wr_capacity w = None"
  shows "write_frames bodies w =
    Inr (Inr (), w\<lparr>wr_written := wr_written w @ concat (map frame_bytes bodies)\<rparr>)"
  using assms by (induction bodies arbitrary: w) (simp_all add: write_frame_eq)

lemma read_frames_whole:
  assumes "list_all (\<lambda>body. length body \<le> MAX_FRAME_SIZE) bodies" and "steady s"
    and "delivered s = concat (map frame_bytes bodies) @ rest"
    and "\<And>s'. steady s' \<Longrightarrow> delivered s' = rest \<Longrightarrow> read_frames (Suc fuel) s' = Some ([], e)"
  shows "read_frames (length bodies + Suc fuel) s = Some (bodies, e)"
  using assms(1-3)
proof (induction bodies arbitrary: s)
  case (Cons body bodies)
  have "delivered s = frame_bytes body @ concat (map frame_bytes bodies) @ rest"
    using Cons.prems(3) by simp
  from read_frame_whole [OF Cons.prems(2) this] Cons.prems(1) obtain s' where
    "read_frame s = Inr (Some body, s')" "steady s'"
    "delivered s' = concat (map frame_bytes bodies) @ rest" by auto
  with Cons.IH [of s'] Cons.prems(1) show ?case by simp
qed (use assms(4) in simp)

text \<open>
  C37: frames survive the transport. Writing bodies of at most the frame limit succeeds, and however the
  network cuts the bytes into pieces, the reader gets back exactly those bodies, in order, and then
  the end of the stream. When the connection breaks inside a further frame, the reader gets
  all whole frames and then an unexpected end, never a shortened body.
\<close>

theorem frames_round_trip:
  assumes "list_all (\<lambda>body. length body \<le> MAX_FRAME_SIZE) (bodies @ [last_body])"
    and "write_frames bodies \<lparr>wr_written = [], wr_capacity = None\<rparr> = Inr (r, w)"
    and "steady s" and "delivered s = wr_written w @ take k (frame_bytes last_body)"
    and "k < length (frame_bytes last_body)" and "length bodies < fuel"
  shows "r = Inr () \<and>
    read_frames fuel s = Some (bodies, if k = 0 then None else Some (Io UnexpectedEof))"
proof -
  have b: "list_all (\<lambda>body. length body \<le> MAX_FRAME_SIZE) bodies" and l: "length last_body \<le> MAX_FRAME_SIZE"
    using assms(1) by simp_all
  have w: "r = Inr ()" "wr_written w = concat (map frame_bytes bodies)"
    using assms(2) write_frames_eq [OF b, of "\<lparr>wr_written = [], wr_capacity = None\<rparr>"] by auto
  obtain m where m: "fuel = length bodies + Suc m"
    using less_imp_Suc_add [OF assms(6)] by auto
  have "read_frames (Suc m) s' = Some ([], if k = 0 then None else Some (Io UnexpectedEof))"
    if s': "steady s'" "delivered s' = take k (frame_bytes last_body)" for s'
  proof (cases "k = 0")
    case True
    with s' obtain s'' where "read_frame s' = Inr (None, s'')"
      using read_frame_end [of s' thesis] by simp
    with True show ?thesis by simp
  next
    case False
    with read_frame_cut [OF s' _ _ l] assms(5) show ?thesis by simp
  qed
  from read_frames_whole [OF b assms(3) _ this] assms(4) w show ?thesis by (simp add: m)
qed

theorem frames_round_trip_witness:
  "read_frames 5 [Data [0, 0], Data [0, 1, 7, 0, 0], Data [0, 2, 8], Data [9, 0]] =
     Some ([[7], [8, 9]], Some (Io UnexpectedEof))"
proof -
  have "write_frames [[7], [8, 9]] \<lparr>wr_written = [], wr_capacity = None\<rparr> =
      Inr (Inr (), \<lparr>wr_written = concat (map frame_bytes [[7], [8, 9]]), wr_capacity = None\<rparr>)"
    by (subst write_frames_eq) (simp_all add: MAX_FRAME_SIZE_def)
  note written = this
  let ?s = "[Data [0, 0], Data [0, 1, 7, 0, 0], Data [0, 2, 8], Data [9, 0]]"
  have small: "list_all (\<lambda>body. length body \<le> MAX_FRAME_SIZE) ([[7], [8, 9]] @ [[1]])"
    by (simp add: MAX_FRAME_SIZE_def)
  have "steady ?s" by (simp add: steady_def)
  moreover have "delivered ?s = wr_written \<lparr>wr_written = concat (map frame_bytes [[7], [8, 9]]), wr_capacity = None\<rparr> @
      take 1 (frame_bytes [1])"
    by code_simp
  ultimately show ?thesis
    using frames_round_trip [OF small written, of ?s 1 5] by simp
qed

end
