(* ===== verification/Connection.thy ===== *)
theory Connection
  imports Router Frames
begin

text \<open>
  One connection (\<open>src/src/kafka/connection.rs\<close>): read a frame, decode it, route it, dispatch it, write the
  response. A request that has to wait suspends its connection, so \<open>handle_one\<close> ends in
  \<open>Awaiting\<close> and \<open>complete_request\<close> goes on when the handler has its response.
\<close>

section \<open>Handling a request\<close>

record connection =
  cn_in :: stream
  cn_out :: writer

datatype connection_error =
  ReadFailed frame_error
| DecodeFailed request_decode_error
| RouteFailed route_error
| DispatchFailed dispatch_error
| EncodeFailed wire_error
| WriteFailed frame_error

datatype handling = Finished "connection_error + bool" | Awaiting pending decoded_request

definition write_response ::
  "other_encode \<Rightarrow> response_envelope \<Rightarrow> connection \<Rightarrow> ((connection_error + unit) \<times> connection) run" where
  "write_response other envelope c =
     (case encode_response other (en_api_key envelope) (en_encoding_version envelope)
             (en_correlation_id envelope) (en_body envelope) of
        Inl e \<Rightarrow> Inr (Inl (EncodeFailed e), c)
      | Inr encoded \<Rightarrow>
          try_bind (write_frame encoded (cn_out c)) (\<lambda>(r, out).
          Inr (case r of Inl e \<Rightarrow> Inl (WriteFailed e) | Inr _ \<Rightarrow> Inr (), c\<lparr>cn_out := out\<rparr>)))"

definition respond :: "other_encode \<Rightarrow> response_envelope \<Rightarrow> connection \<Rightarrow> (handling \<times> connection) run" where
  "respond other envelope c =
     try_bind (write_response other envelope c) (\<lambda>(r, c').
     Inr (Finished (case r of Inl e \<Rightarrow> Inl e | Inr _ \<Rightarrow> Inr True), c'))"

definition complete_request ::
  "other_encode \<Rightarrow> decoded_request \<Rightarrow> response_kind \<Rightarrow> connection \<Rightarrow> (handling \<times> connection) run" where
  "complete_request other request body c =
     (if \<not> expects_response request then Inr (Finished (Inr True), c)
      else respond other
             \<lparr>en_api_key = dr_api_key request,
              en_encoding_version = rh_request_api_version (dr_header request),
              en_correlation_id = rh_correlation_id (dr_header request), en_body = body\<rparr> c)"

definition handle_one ::
  "other_decode \<Rightarrow> other_encode \<Rightarrow> (bytes \<Rightarrow> nat) \<Rightarrow> advertised_address \<Rightarrow> (nat \<Rightarrow> clock) \<Rightarrow> connection \<Rightarrow> broker_state \<Rightarrow>
   (handling \<times> connection \<times> broker_state) run" where
  "handle_one other_dec other_enc crc advertised cks c b =
     (case read_frame (cn_in c) of
        Inl e \<Rightarrow> Inr (Finished (Inl (ReadFailed e)), c, b)
      | Inr (None, s) \<Rightarrow> Inr (Finished (Inr False), c\<lparr>cn_in := s\<rparr>, b)
      | Inr (Some frame, s) \<Rightarrow>
          let c = c\<lparr>cn_in := s\<rparr>
          in (case decode_frame other_dec frame of
                Inl e \<Rightarrow> Inr (Finished (Inl (DecodeFailed e)), c, b)
              | Inr decoded \<Rightarrow>
                  (case route decoded of
                     Inl e \<Rightarrow> Inr (Finished (Inl (RouteFailed e)), c, b)
                   | Inr (Dispatch request) \<Rightarrow>
                       try_bind (dispatch crc advertised cks request b) (\<lambda>(r, b').
                       case r of
                         Inl e \<Rightarrow> Inr (Finished (Inl (DispatchFailed e)), c, b')
                       | Inr (Completed body) \<Rightarrow>
                           try_bind (complete_request other_enc request body c) (\<lambda>(h, c'). Inr (h, c', b'))
                       | Inr (Pending p) \<Rightarrow> Inr (Awaiting p request, c, b'))
                   | Inr (Respond envelope) \<Rightarrow>
                       try_bind (respond other_enc envelope c) (\<lambda>(h, c'). Inr (h, c', b))
                   | Inr NoResponse \<Rightarrow> Inr (Finished (Inr True), c, b))))"

section \<open>What decoding guarantees\<close>

lemma get_Inr: "get d k buf = Inr (y, rest) \<longleftrightarrow> (\<exists>x r. d buf = Inr (x, r) \<and> k x r = Inr (y, rest))"
  by (auto simp: get_def try_bind_Inr)

lemma Int32_decode_range: "Int32_decode buf = Inr (x, rest) \<Longrightarrow> in_i32 x"
  by (auto simp: Int32_decode_def sint_decode_Inr)

lemma decode_items_all:
  assumes "\<And>buf x rest. d buf = Inr (x, rest) \<Longrightarrow> P x"
  shows "decode_items d n buf = Inr (xs, rest) \<Longrightarrow> list_all P xs"
  by (induction n arbitrary: buf xs) (auto simp: try_bind_Inr dest: assms)

lemma array_all:
  assumes "\<And>buf x rest. d buf = Inr (x, rest) \<Longrightarrow> P x"
  shows "Array_required d buf = Inr (xs, rest) \<Longrightarrow> list_all P xs"
    and "CompactArray_required d buf = Inr (xs, rest) \<Longrightarrow> list_all P xs"
  by (auto simp: required_def Array_decode_def CompactArray_decode_def try_bind_Inr
      intro: decode_items_all [OF assms] split: if_splits option.splits)

lemma creatable_topic_range: "CreatableTopic_decode version buf = Inr (t, rest) \<Longrightarrow> in_i32 (ctopic_num_partitions t)"
  by (auto simp: CreatableTopic_decode_def get_Inr give_def refuse_def dest: Int32_decode_range split: if_splits)

lemma decoded_counts_fit:
  assumes "RequestKind_decode other key version buf = Inr (body, rest)"
  shows "counts_fit body"
proof (cases body)
  case (CreateTopicsRequest r)
  with assms obtain rest' where "CreateTopicsRequest_decode version buf = Inr (r, rest')"
    by (auto simp: RequestKind_decode_def get_Inr give_def split: if_splits)
  then have "list_all (\<lambda>t. in_i32 (ctopic_num_partitions t)) (ctrq_topics r)"
    by (auto simp: CreateTopicsRequest_decode_def get_Inr give_def refuse_def
        intro: array_all [OF creatable_topic_range] split: if_splits)
  with CreateTopicsRequest show ?thesis by (simp add: counts_fit_def comp_def)
qed (simp_all add: counts_fit_def)

lemma capability_keys:
  "capability key \<noteq> None \<longleftrightarrow> key \<in> {0, 1, 2, 3, 8, 9, 10, 11, 12, 13, 14, 15, 16, 18, 19, 22, 32, 60, 75}"
proof -
  have "ac_api_key ` set CAPABILITIES = {0, 1, 2, 3, 8, 9, 10, 11, 12, 13, 14, 15, 16, 18, 19, 22, 32, 60, 75}"
    by (simp add: CAPABILITIES_def api_def)
  moreover have "capability key \<noteq> None \<longleftrightarrow> key \<in> ac_api_key ` set CAPABILITIES"
    by (auto simp: capability_find find_None_iff)
  ultimately show ?thesis by simp
qed

text \<open>A decoded request is of the kind its key names; the requests outside the capability table are the other ones.\<close>

lemma decoded_request_kind:
  assumes "decode_frame other frame = Inr (Request request)"
  shows "request_key (dr_body request) = dr_api_key request" and "counts_fit (dr_body request)"
    and "capability (dr_api_key request) \<noteq> None \<Longrightarrow> \<nexists>k. dr_body request = OtherRequest k"
    and "api_key_try_from (dr_api_key request) = Some (dr_api_key request)"
    and "in_i32 (rh_correlation_id (dr_header request))"
proof -
  from assms obtain rest where d: "api_key_try_from (dr_api_key request) = Some (dr_api_key request)"
    "rh_correlation_id (dr_header request) = px_correlation_id (read_request_prefix frame)"
    "RequestKind_decode other (dr_api_key request) (rh_request_api_version (dr_header request)) rest =
       Inr (dr_body request, [])"
    by (rule decode_frame_request)
  show key: "request_key (dr_body request) = dr_api_key request" by (rule RequestKind_decode_key [OF d(3)])
  show "counts_fit (dr_body request)" by (rule decoded_counts_fit [OF d(3)])
  show "\<nexists>k. dr_body request = OtherRequest k" if "capability (dr_api_key request) \<noteq> None"
  proof
    assume "\<exists>k. dr_body request = OtherRequest k"
    then obtain k where k: "dr_body request = OtherRequest k" ..
    with key have "dr_api_key request = k" by simp
    moreover have "k \<notin> {0, 1, 2, 3, 8, 9, 10, 11, 12, 13, 14, 15, 16, 18, 19, 22, 32, 60, 75}"
      by (rule RequestKind_decode_other [OF d(3) [unfolded k]])
    ultimately show False using that unfolding capability_keys by simp
  qed
  show "api_key_try_from (dr_api_key request) = Some (dr_api_key request)" by (rule d(1))
  show "in_i32 (rh_correlation_id (dr_header request))" by (simp add: d(2) read_request_prefix_def)
qed

section \<open>What is written\<close>

text \<open>
  A frame a client can match with its request: the header of the version it expects, with the correlation
  identifier, and then the body.
\<close>

definition answer_frame :: "other_encode \<Rightarrow> decoded_request \<Rightarrow> response_kind \<Rightarrow> bytes \<Rightarrow> bool" where
  "answer_frame other request body frame \<longleftrightarrow>
     (let version = rh_request_api_version (dr_header request)
      in \<exists>bs. ResponseHeader_decode (response_header_version (dr_api_key request) version) frame =
             Inr (\<lparr>rsh_correlation_id = rh_correlation_id (dr_header request), rsh_unknown_tagged_fields = []\<rparr>, bs) \<and>
           ResponseKind_encode other body version = Inr bs)"

lemma encode_response_frame:
  assumes "api_key_try_from key = Some key" and "in_i32 correlation_id"
    and "encode_response other key version correlation_id body = Inr frame"
  shows "\<exists>bs. ResponseHeader_decode (response_header_version key version) frame =
      Inr (\<lparr>rsh_correlation_id = correlation_id, rsh_unknown_tagged_fields = []\<rparr>, bs) \<and>
    ResponseKind_encode other body version = Inr bs"
proof -
  let ?m = "response_header_version key version"
  let ?rh = "\<lparr>rsh_correlation_id = correlation_id, rsh_unknown_tagged_fields = []\<rparr>"
  have "?m \<in> {0, 1}" by (rule header_versions(2) [OF assms(1)])
  then have "response_header_ok ?m ?rh" using assms(2) by (auto simp: response_header_ok_def)
  from sized_codec.codes [OF response_header_codec this] assms(3) show ?thesis
    by (auto simp: coded_def encode_response_def response_header_default_def try_bind_Inr)
qed

text \<open>
  The outcomes of answering: the frame is written, or nothing is because the response cannot be encoded in
  the version or exceeds the frame limit.
\<close>

definition refused_frame :: "other_encode \<Rightarrow> decoded_request \<Rightarrow> response_kind \<Rightarrow> connection_error \<Rightarrow> bool" where
  "refused_frame other request body e \<longleftrightarrow>
     (case encode_response other (dr_api_key request) (rh_request_api_version (dr_header request))
             (rh_correlation_id (dr_header request)) body of
        Inl w \<Rightarrow> e = EncodeFailed w
      | Inr frame \<Rightarrow> length frame > MAX_FRAME_SIZE \<and> e = WriteFailed (TooLarge (length frame)))"

definition answered_once ::
  "other_encode \<Rightarrow> decoded_request \<Rightarrow> response_kind \<Rightarrow> connection \<Rightarrow> handling \<Rightarrow> connection \<Rightarrow> bool" where
  "answered_once other request body c h c' \<longleftrightarrow>
     cn_in c' = cn_in c \<and>
     (case h of
        Finished (Inr open) \<Rightarrow>
          open \<and> (\<exists>frame. answer_frame other request body frame \<and>
            cn_out c' = (cn_out c)\<lparr>wr_written := wr_written (cn_out c) @ frame_bytes frame\<rparr>)
      | Finished (Inl e) \<Rightarrow> cn_out c' = cn_out c \<and> refused_frame other request body e
      | Awaiting _ _ \<Rightarrow> False)"

lemma respond_once:
  assumes "api_key_try_from (dr_api_key request) = Some (dr_api_key request)"
    and "in_i32 (rh_correlation_id (dr_header request))" and "wr_capacity (cn_out c) = None"
    and "envelope = \<lparr>en_api_key = dr_api_key request,
      en_encoding_version = rh_request_api_version (dr_header request),
      en_correlation_id = rh_correlation_id (dr_header request), en_body = body\<rparr>"
  shows "\<exists>h c'. respond other envelope c = Inr (h, c') \<and> answered_once other request body c h c'"
proof (cases "encode_response other (dr_api_key request) (rh_request_api_version (dr_header request))
    (rh_correlation_id (dr_header request)) body")
  case (Inl e)
  then show ?thesis by (simp add: assms(4) respond_def write_response_def answered_once_def refused_frame_def)
next
  case (Inr frame)
  note f = encode_response_frame [OF assms(1,2) Inr]
  show ?thesis
  proof (cases "length frame \<le> MAX_FRAME_SIZE")
    case True
    with Inr f write_frame_eq [OF True assms(3)] show ?thesis
      by (auto simp: assms(4) respond_def write_response_def answered_once_def answer_frame_def Let_def)
  next
    case False
    with Inr show ?thesis
      by (simp add: assms(4) respond_def write_response_def write_frame_def answered_once_def refused_frame_def)
  qed
qed

section \<open>One request, at most one answer\<close>

text \<open>What handling a request may come to, for the connection before and after.\<close>

definition handled_once ::
  "other_encode \<Rightarrow> decoded_request \<Rightarrow> connection \<Rightarrow> handling \<Rightarrow> connection \<Rightarrow> bool" where
  "handled_once other request c h c' \<longleftrightarrow>
     (if capability (dr_api_key request) = None
      then cn_out c' = cn_out c \<and> h = Finished (Inl (RouteFailed (UnsupportedApi (dr_api_key request)
             (rh_request_api_version (dr_header request)) (rh_correlation_id (dr_header request)))))
      else if \<not> expects_response request then cn_out c' = cn_out c \<and> h = Finished (Inr True)
      else (\<exists>p. h = Awaiting p request \<and> pending_key p = dr_api_key request \<and> cn_out c' = cn_out c) \<or>
           (\<exists>body. response_key body = dr_api_key request \<and>
              answered_once other request body (c\<lparr>cn_in := cn_in c'\<rparr>) h c'))"

lemma expects_unless_produce:
  "request_key (dr_body request) = dr_api_key request \<Longrightarrow> dr_api_key request \<noteq> Produce_key \<Longrightarrow>
   expects_response request"
  by (cases "dr_body request") (simp_all add: expects_response_def)

lemma complete_request_handled:
  assumes "decode_frame other_dec frame = Inr (Request request)" and "wr_capacity (cn_out c) = None"
    and "capability (dr_api_key request) \<noteq> None" and "response_key body = dr_api_key request"
  shows "\<exists>h c'. complete_request other_enc request body (c\<lparr>cn_in := s\<rparr>) = Inr (h, c') \<and> cn_in c' = s \<and>
    handled_once other_enc request c h c'"
proof (cases "expects_response request")
  case True
  note kind = decoded_request_kind [OF assms(1)]
  have "wr_capacity (cn_out (c\<lparr>cn_in := s\<rparr>)) = None" using assms(2) by simp
  from respond_once [OF kind(4,5) this refl, of other_enc body] True assms(3,4) show ?thesis
    by (auto simp: complete_request_def handled_once_def answered_once_def)
next
  case False
  with assms(3) show ?thesis by (simp add: complete_request_def handled_once_def)
qed

lemma handle_supported:
  assumes "broker_ok crc b" and "counts_ok b" and "wr_capacity (cn_out c) = None"
    and "decode_frame other_dec frame = Inr (Request request)"
    and "fresh_draws (draws_needed (dr_body request)) b" and "capability (dr_api_key request) \<noteq> None"
  shows "\<exists>h c' b'. try_bind (dispatch crc advertised cks request b) (\<lambda>(r, b').
      case r of
        Inl e \<Rightarrow> Inr (Finished (Inl (DispatchFailed e)), c\<lparr>cn_in := s\<rparr>, b')
      | Inr (Completed body) \<Rightarrow>
          try_bind (complete_request other_enc request body (c\<lparr>cn_in := s\<rparr>)) (\<lambda>(h, c'). Inr (h, c', b'))
      | Inr (Pending p) \<Rightarrow> Inr (Awaiting p request, c\<lparr>cn_in := s\<rparr>, b')) = Inr (h, c', b') \<and>
    cn_in c' = s \<and> reaches crc b b' \<and> handled_once other_enc request c h c'"
proof -
  note kind = decoded_request_kind [OF assms(4)]
  from dispatch_served [OF assms(1,2) kind(1) kind(3) [OF assms(6)] assms(5) kind(2)] obtain oc b' where
    d: "dispatch crc advertised cks request b = Inr (Inr oc, b')" "outcome_key oc = dr_api_key request"
      "reaches crc b b'"
    unfolding served_def by blast
  show ?thesis
  proof (cases oc)
    case (Completed r)
    with complete_request_handled [OF assms(4,3,6), of r other_enc s] d show ?thesis by auto
  next
    case (Pending p)
    have "dr_api_key request \<noteq> Produce_key" using d(2) Pending by (cases p) auto
    then have "expects_response request" by (rule expects_unless_produce [OF kind(1)])
    with d Pending assms(6) show ?thesis by (simp add: handled_once_def)
  qed
qed

lemma handle_routed:
  assumes "broker_ok crc b" and "counts_ok b" and "wr_capacity (cn_out c) = None"
    and "read_frame (cn_in c) = Inr (Some frame, s)" and "decode_frame other_dec frame = Inr (Request request)"
    and "fresh_draws (draws_needed (dr_body request)) b"
  shows "\<exists>h c' b'. handle_one other_dec other_enc crc advertised cks c b = Inr (h, c', b') \<and>
    cn_in c' = s \<and> reaches crc b b' \<and> handled_once other_enc request c h c'"
proof (cases "capability (dr_api_key request)")
  case None
  then show ?thesis using assms(4,5) by (simp add: handle_one_def route_def handled_once_def)
next
  case (Some cap)
  note kind = decoded_request_kind [OF assms(5)]
  show ?thesis
  proof (cases "capability_supports cap (rh_request_api_version (dr_header request))")
    case True
    with Some handle_supported [OF assms(1-3,5,6), of advertised cks s other_enc] show ?thesis
      using assms(4,5) by (simp add: handle_one_def route_def Let_def)
  next
    case False
    obtain r where r: "unsupported_version request = Inr r" "response_key r = dr_api_key request"
      using unsupported_version_answers [OF kind(1) kind(3)] Some by blast
    show ?thesis
    proof (cases "expects_response request")
      case True
      with complete_request_handled [OF assms(5,3) _ r(2), of other_enc s] Some False r(1) show ?thesis
        using assms(4,5) by (auto simp: handle_one_def route_def complete_request_def)
    next
      case waits: False
      then have "dr_api_key request = Produce_key" using expects_unless_produce [OF kind(1)] by blast
      with waits Some False show ?thesis
        using assms(4,5) by (simp add: handle_one_def route_def handled_once_def)
    qed
  qed
qed

text \<open>
  C4: a connection answers one request at a time. A whole frame on the stream is consumed, however it arrives in
  pieces, and nothing behind it. When it holds a request, the broker does not panic and
  keeps its invariants; a request outside the capability table closes the connection without a byte of
  answer, an unacknowledged Produce gets none, and every other request is either waiting in Fetch, JoinGroup or
  SyncGroup or is answered by exactly one frame, which the client can decode with the header of its version to its own
  correlation identifier and a response of its own API; the only other outcome is a response that the version or the
  frame limit does not admit, and then nothing is written and the connection closes.
\<close>

theorem connection_answers_once:
  assumes "broker_ok crc b" and "counts_ok b" and "steady (cn_in c)" and "wr_capacity (cn_out c) = None"
    and "delivered (cn_in c) = frame_bytes frame @ rest" and "length frame \<le> MAX_FRAME_SIZE"
    and "decode_frame other_dec frame = Inr (Request request)"
    and "fresh_draws (draws_needed (dr_body request)) b"
  shows "\<exists>h c' b'. handle_one other_dec other_enc crc advertised cks c b = Inr (h, c', b') \<and>
    steady (cn_in c') \<and> delivered (cn_in c') = rest \<and> broker_ok crc b' \<and> counts_ok b' \<and>
    handled_once other_enc request c h c'"
proof -
  obtain s where s: "read_frame (cn_in c) = Inr (Some frame, s)" "steady s" "delivered s = rest"
    by (rule read_frame_whole [OF assms(3,5,6)])
  from handle_routed [OF assms(1,2,4) s(1) assms(7,8)] s(2,3) reaches_ok [OF _ assms(1)] reaches_counts [OF _ assms(2)]
  show ?thesis by metis
qed

definition sample_connection :: connection where
  "sample_connection =
     \<lparr>cn_in = [Data [0, 0, 0], Data [10, 0, 16, 0, 0], Data [0, 0, 0, 9, 255, 255, 7]],
      cn_out = \<lparr>wr_written = [], wr_capacity = None\<rparr>\<rparr>"

definition sample_list :: decoded_request where
  "sample_list =
     \<lparr>dr_header = \<lparr>rh_request_api_key = ListGroups_key, rh_request_api_version = 0, rh_correlation_id = 9,
        rh_client_id = None, rh_unknown_tagged_fields = []\<rparr>,
      dr_api_key = ListGroups_key, dr_body = ListGroupsRequest list_groups_request_default\<rparr>"

lemma sample_list_decoded:
  "decode_frame other [0, 16, 0, 0, 0, 0, 0, 9, 255, 255] = Inr (Request sample_list)"
proof -
  have key: "api_key_try_from ListGroups_key = Some ListGroups_key" "valid_versions ListGroups_key = (0, 5)"
    "request_header_version ListGroups_key 0 = 1"
    by code_simp+
  have "request_header_ok 1 (dr_header sample_list)"
    by (simp add: request_header_ok_def sample_list_def in_i16_def in_i32_def string_ok_def)
  moreover have "RequestHeader_encode (dr_header sample_list) 1 = Inr [0, 16, 0, 0, 0, 0, 0, 9, 255, 255]"
    by code_simp
  ultimately have "RequestHeader_decode 1 [0, 16, 0, 0, 0, 0, 0, 9, 255, 255] = Inr (dr_header sample_list, [])"
    using sized_codec.decodes [OF request_header_codec, of 1 "dr_header sample_list" _ "[]"] by simp
  moreover have "read_request_prefix [0, 16, 0, 0, 0, 0, 0, 9, 255, 255] =
      \<lparr>px_raw_api_key = ListGroups_key, px_api_version = 0, px_correlation_id = 9\<rparr>"
    by code_simp
  ultimately show ?thesis
    using key by (simp add: decode_frame_def sample_list_def list_groups_request_default_def RequestKind_decode_def
        ListGroupsRequest_decode_def get_def give_def)
qed

theorem connection_answers_once_witness:
  "\<exists>h c' b'. handle_one (\<lambda>_ _ buf. Inr ((), buf)) (\<lambda>_ _. Inr []) sample_checksum sample_address
       (\<lambda>_. \<lparr>ck_now = 0, ck_begin = 0, ck_complete = 0\<rparr>) sample_connection (broker_new 1 True False 2 [5, 6, 7, 8]) =
       Inr (h, c', b') \<and> delivered (cn_in c') = [7] \<and> broker_ok sample_checksum b'"
proof -
  let ?b = "broker_new 1 True False 2 [5, 6, 7, 8]" and ?frame = "[0, 16, 0, 0, 0, 0, 0, 9, 255, 255]"
  have stream: "steady (cn_in sample_connection)" "wr_capacity (cn_out sample_connection) = None"
    "delivered (cn_in sample_connection) = frame_bytes ?frame @ [7]"
    by code_simp+
  have "length ?frame \<le> MAX_FRAME_SIZE" by (simp add: MAX_FRAME_SIZE_def)
  moreover have "fresh_draws (draws_needed (dr_body sample_list)) ?b"
    using new_broker_ok(3) by (rule fresh_draws_mono) (simp add: draws_needed_def sample_list_def)
  ultimately show ?thesis
    using connection_answers_once [OF new_broker_ok(1) [of sample_checksum] new_broker_ok(2) stream _ sample_list_decoded]
    by blast
qed

end
