(* ===== verification/Serving.thy ===== *)
theory Serving
  imports Connection
begin

text \<open>
  Serving a connection (\<open>serve\<close> in \<open>src/src/kafka/connection.rs\<close>): requests are handled one after the other while the
  other connections, and the deadline tasks of the groups, work on the same broker, and until the shutdown of the
  server drops whatever the connection is doing. The loop is a step relation on its phase, the connection and the broker.

  A handler takes several locks and others run in between, so its run is not one step: while it runs, the broker moves
  by critical sections, its own and those of the others in any order, and in the end it has some response of the
  API of its request, which is all the dispatcher fixes. This covers every interleaving; that the handlers as
  defined, run without interruption, are among the runs it allows is part of what is shown. The answer is written in
  pieces. \<open>tokio::select!\<close> drops the handling of a request when the shutdown is signalled, at any of its awaits, so the
  connection may close in every phase, with a part of a frame read or a part of an answer written. The
  signal is only ever set to true (\<open>src/src/server.rs\<close>).
\<close>

section \<open>The loop\<close>

datatype waiting =
  WaitFetch fetch_request instant fetch_phase
| WaitJoin join_group_request string nat
| WaitSync sync_group_request

datatype serve_phase =
  Reading
| Running decoded_request
| Suspended waiting decoded_request
| Writing bytes
| Closed "connection_error option"

fun begin_wait :: "instant \<Rightarrow> pending \<Rightarrow> waiting" where
  "begin_wait now (PendingFetch request) = WaitFetch request (now + max_wait request) Start"
| "begin_wait now (PendingJoin request member_id epoch) = WaitJoin request member_id epoch"
| "begin_wait now (PendingSync request) = WaitSync request"

definition after_handling :: "instant \<Rightarrow> handling \<Rightarrow> serve_phase" where
  "after_handling now h =
     (case h of
        Finished (Inl e) \<Rightarrow> Closed (Some e)
      | Finished (Inr open) \<Rightarrow> if open then Reading else Closed None
      | Awaiting p request \<Rightarrow> Suspended (begin_wait now p) request)"

text \<open>
  One turn of a waiting handler: it goes on waiting or has its response. A turn of Fetch reads the broker partition by
  partition, while others work on it.
\<close>

inductive wait_turn ::
  "(bytes \<Rightarrow> nat) \<Rightarrow> clock \<Rightarrow> broker_state \<Rightarrow> waiting \<Rightarrow> waiting + response_kind \<Rightarrow> broker_state \<Rightarrow> bool"
  for crc ck b where
  fetch_goes_on:
    "(\<And>k. reaches crc b (reads k)) \<Longrightarrow> (\<And>k. reaches crc (reads k) b') \<Longrightarrow>
     fetch_step request deadline reads (ck_now ck) p p' \<Longrightarrow> \<nexists>r. p' = Answered r \<Longrightarrow>
     wait_turn crc ck b (WaitFetch request deadline p) (Inl (WaitFetch request deadline p')) b'"
| fetch_answers:
    "(\<And>k. reaches crc b (reads k)) \<Longrightarrow> (\<And>k. reaches crc (reads k) b') \<Longrightarrow>
     fetch_step request deadline reads (ck_now ck) p (Answered r) \<Longrightarrow>
     wait_turn crc ck b (WaitFetch request deadline p) (Inr (FetchResponse r)) b'"
| join_goes_on:
    "join_group_turn request member_id epoch ck b = (JoinWaiting member_id' epoch', b') \<Longrightarrow>
     wait_turn crc ck b (WaitJoin request member_id epoch) (Inl (WaitJoin request member_id' epoch')) b'"
| join_answers:
    "join_group_turn request member_id epoch ck b = (JoinAnswered r, b') \<Longrightarrow>
     wait_turn crc ck b (WaitJoin request member_id epoch) (Inr (JoinGroupResponse r)) b'"
| sync_goes_on:
    "sync_group_turn request False ck b = Inr (SyncWaiting, b') \<Longrightarrow>
     wait_turn crc ck b (WaitSync request) (Inl (WaitSync request)) b'"
| sync_answers:
    "sync_group_turn request False ck b = Inr (SyncAnswered r, b') \<Longrightarrow>
     wait_turn crc ck b (WaitSync request) (Inr (SyncGroupResponse r)) b'"

text \<open>The next request, if there is one, finds the fresh identifiers it may need.\<close>

definition enough_draws :: "other_decode \<Rightarrow> connection \<Rightarrow> broker_state \<Rightarrow> bool" where
  "enough_draws other_dec c b \<longleftrightarrow>
     (case read_frame (cn_in c) of
        Inr (Some frame, _) \<Rightarrow>
          (case decode_frame other_dec frame of
             Inr (Request request) \<Rightarrow> fresh_draws (draws_needed (dr_body request)) b
           | _ \<Rightarrow> True)
      | _ \<Rightarrow> True)"

text \<open>The part of \<open>handle_one\<close> before the handler: the end of the connection, or where the next frame is routed.\<close>

definition next_request :: "other_decode \<Rightarrow> connection \<Rightarrow> ((connection_error + bool) + route) \<times> connection" where
  "next_request other_dec c =
     (case read_frame (cn_in c) of
        Inl e \<Rightarrow> (Inl (Inl (ReadFailed e)), c)
      | Inr (None, s) \<Rightarrow> (Inl (Inr False), c\<lparr>cn_in := s\<rparr>)
      | Inr (Some frame, s) \<Rightarrow>
          let c = c\<lparr>cn_in := s\<rparr>
          in (case decode_frame other_dec frame of
                Inl e \<Rightarrow> (Inl (Inl (DecodeFailed e)), c)
              | Inr decoded \<Rightarrow>
                  (case route decoded of
                     Inl e \<Rightarrow> (Inl (Inl (RouteFailed e)), c)
                   | Inr r \<Rightarrow> (Inr r, c))))"

text \<open>The part after it: the response is encoded and becomes a frame to be written, or is refused.\<close>

definition start_writing :: "other_encode \<Rightarrow> response_envelope \<Rightarrow> serve_phase" where
  "start_writing other_enc envelope =
     (case encode_response other_enc (en_api_key envelope) (en_encoding_version envelope)
             (en_correlation_id envelope) (en_body envelope) of
        Inl e \<Rightarrow> Closed (Some (EncodeFailed e))
      | Inr out \<Rightarrow>
          if length out > MAX_FRAME_SIZE then Closed (Some (WriteFailed (TooLarge (length out))))
          else Writing (frame_bytes out))"

definition answer_phase :: "other_encode \<Rightarrow> decoded_request \<Rightarrow> response_kind \<Rightarrow> serve_phase" where
  "answer_phase other_enc request body =
     (if \<not> expects_response request then Reading
      else start_writing other_enc
             \<lparr>en_api_key = dr_api_key request,
              en_encoding_version = rh_request_api_version (dr_header request),
              en_correlation_id = rh_correlation_id (dr_header request), en_body = body\<rparr>)"

definition write_some :: "bytes \<Rightarrow> connection \<Rightarrow> connection" where
  "write_some bs c = c\<lparr>cn_out := (cn_out c)\<lparr>wr_written := wr_written (cn_out c) @ bs\<rparr>\<rparr>"

inductive serve_step ::
  "other_decode \<Rightarrow> other_encode \<Rightarrow> (bytes \<Rightarrow> nat) \<Rightarrow>
   serve_phase \<times> connection \<times> broker_state \<Rightarrow> serve_phase \<times> connection \<times> broker_state \<Rightarrow> bool"
  for other_dec other_enc crc where
  serve_end:
    "next_request other_dec c = (Inl r, c') \<Longrightarrow>
     serve_step other_dec other_enc crc (Reading, c, b) (Closed (case r of Inl e \<Rightarrow> Some e | Inr _ \<Rightarrow> None), c', b)"
| serve_dispatch:
    "next_request other_dec c = (Inr (Dispatch request), c') \<Longrightarrow>
     serve_step other_dec other_enc crc (Reading, c, b) (Running request, c', b)"
| serve_refuse:
    "next_request other_dec c = (Inr (Respond envelope), c') \<Longrightarrow>
     serve_step other_dec other_enc crc (Reading, c, b) (start_writing other_enc envelope, c', b)"
| serve_silent:
    "next_request other_dec c = (Inr NoResponse, c') \<Longrightarrow>
     serve_step other_dec other_enc crc (Reading, c, b) (Reading, c', b)"
| serve_respond:
    "response_key body = dr_api_key request \<Longrightarrow>
     serve_step other_dec other_enc crc (Running request, c, b) (answer_phase other_enc request body, c, b)"
| serve_mismatch:
    "serve_step other_dec other_enc crc (Running request, c, b) (Closed (Some (DispatchFailed e)), c, b)"
| serve_suspend:
    "pending_key p = dr_api_key request \<Longrightarrow>
     serve_step other_dec other_enc crc (Running request, c, b) (Suspended (begin_wait now p) request, c, b)"
| serve_wait:
    "wait_turn crc ck b w (Inl w') b' \<Longrightarrow>
     serve_step other_dec other_enc crc (Suspended w request, c, b) (Suspended w' request, c, b')"
| serve_complete:
    "wait_turn crc ck b w (Inr body) b' \<Longrightarrow>
     serve_step other_dec other_enc crc (Suspended w request, c, b) (answer_phase other_enc request body, c, b')"
| serve_write:
    "serve_step other_dec other_enc crc (Writing (sent @ rest), c, b) (Writing rest, write_some sent c, b)"
| serve_written: "serve_step other_dec other_enc crc (Writing [], c, b) (Reading, c, b)"
| serve_shutdown:
    "delivered (cn_in c) = taken @ delivered s \<Longrightarrow>
     serve_step other_dec other_enc crc (p, c, b) (Closed None, c\<lparr>cn_in := s\<rparr>, b)"
| serve_sections: "reaches crc b b' \<Longrightarrow> serve_step other_dec other_enc crc (p, c, b) (p, c, b')"
| serve_draws: "serve_step other_dec other_enc crc (p, c, b) (p, c, b\<lparr>bs_draws := draws\<rparr>)"

section \<open>Frames and their answers\<close>

text \<open>What a frame is answered by when the connection stays open: one frame, or none if no answer is wanted.\<close>

definition frame_answers :: "other_decode \<Rightarrow> other_encode \<Rightarrow> bytes \<Rightarrow> bytes list \<Rightarrow> bool" where
  "frame_answers other_dec other_enc frame answers \<longleftrightarrow>
     (case decode_frame other_dec frame of
        Inl _ \<Rightarrow> False
      | Inr (Request request) \<Rightarrow>
          if expects_response request
          then \<exists>body out. response_key body = dr_api_key request \<and> answer_frame other_enc request body out \<and> answers = [out]
          else answers = []
      | Inr (UnsupportedApiVersions header _) \<Rightarrow>
          \<exists>out bs. answers = [out] \<and> ResponseKind_encode other_enc unsupported_api_versions 0 = Inr bs \<and>
            ResponseHeader_decode (response_header_version ApiVersions_key 0) out =
              Inr (\<lparr>rsh_correlation_id = rh_correlation_id header, rsh_unknown_tagged_fields = []\<rparr>, bs))"

definition framed :: "bytes list \<Rightarrow> bytes" where
  "framed frames = concat (map frame_bytes frames)"

lemma framed_simps [simp]:
  "framed [] = []" "framed (f # fs) = frame_bytes f @ framed fs" "framed (fs @ gs) = framed fs @ framed gs"
  by (simp_all add: framed_def)

fun wait_key :: "waiting \<Rightarrow> api_key" where
  "wait_key (WaitFetch _ _ _) = Fetch_key"
| "wait_key (WaitJoin _ _ _) = JoinGroup_key"
| "wait_key (WaitSync _) = SyncGroup_key"

lemma wait_key_begin [simp]: "wait_key (begin_wait now p) = pending_key p"
  by (cases p) simp_all

lemma wait_turn_key:
  "wait_turn crc ck b w r b' \<Longrightarrow> (case r of Inl w' \<Rightarrow> wait_key w' | Inr body \<Rightarrow> response_key body) = wait_key w"
  by (induction rule: wait_turn.induct) simp_all

lemma wait_turn_reaches: "wait_turn crc ck b w r b' \<Longrightarrow> reaches crc b b'"
proof (induction rule: wait_turn.induct)
  case (fetch_goes_on reads b' request deadline p p')
  then show ?case by (meson reaches_trans)
next
  case (fetch_answers reads b' request deadline p r)
  then show ?case by (meson reaches_trans)
next
  case (join_goes_on request member_id epoch member_id' epoch' b')
  then show ?case using join_group_turn_reaches [of crc b request member_id epoch ck] by simp
next
  case (join_answers request member_id epoch r b')
  then show ?case using join_group_turn_reaches [of crc b request member_id epoch ck] by simp
next
  case (sync_goes_on request b')
  then show ?case using sync_group_turn_total [of request False ck b crc] by simp
next
  case (sync_answers request r b')
  then show ?case using sync_group_turn_total [of request False ck b crc] by simp
qed

section \<open>What was read\<close>

lemma be_bytes_be_nat: "length bs = n \<Longrightarrow> be_bytes n (int (be_nat bs)) = bs"
proof (induction bs arbitrary: n rule: rev_induct)
  case (snoc x bs)
  let ?v = "int (be_nat bs) * 256 + int (unat x)"
  have "int (unat x) < 256" using unsigned_less [of x] by simp
  then have upper: "?v div 256 = int (be_nat bs)" by linarith
  have "(256 :: u8) = 0" by simp
  then have lower: "(word_of_int ?v :: u8) = x"
    by (simp only: of_int_add of_int_mult of_int_numeral mult_zero_right add_0_left) simp
  have "be_bytes (Suc (length bs)) ?v = bs @ [x]"
    by (simp only: be_bytes.simps upper lower snoc.IH [OF refl])
  with snoc.prems show ?case by (auto simp: be_nat_snoc)
qed simp

lemma be_nat_less: "be_nat bs < 256 ^ length bs"
proof -
  have "int (be_nat (be_bytes (length bs) (int (be_nat bs)))) < 256 ^ length bs"
    by (simp add: int_be_nat_be_bytes)
  then show ?thesis by (simp add: be_bytes_be_nat flip: of_nat_less_iff)
qed

lemma wrap_i32_nonneg:
  assumes "0 \<le> x" and "x < 2 ^ 32" and "0 \<le> wrap_i32 x"
  shows "wrap_i32 x = x"
proof (cases "x < 2 ^ 31")
  case True
  with assms show ?thesis by (intro wrap_i32_id) (simp add: in_i32_def)
next
  case False
  with assms have "(x - 2 ^ 31 + 2 ^ 32) mod 2 ^ 32 = x - 2 ^ 31" by (subst mod_add_self2) simp
  then have "wrap_i32 x = x - 2 ^ 32" by (simp add: wrap_def add.commute)
  with assms show ?thesis by simp
qed

lemma frame_length_prefix:
  assumes "decode_frame_length (wrap_i32 (int (be_nat prefix))) = Inr n" and "length prefix = 4"
  shows "prefix = be_bytes 4 (int n)"
proof -
  have "int (be_nat prefix) < 2 ^ 32" using be_nat_less [of prefix] assms(2) by simp
  moreover have n: "0 \<le> wrap_i32 (int (be_nat prefix))" "n = nat (wrap_i32 (int (be_nat prefix)))"
    using assms(1) by (auto simp: decode_frame_length_def usize_try_from_def split: if_splits)
  ultimately have "int (be_nat prefix) = int n" using wrap_i32_nonneg [of "int (be_nat prefix)"] by simp
  with be_bytes_be_nat [OF assms(2)] show ?thesis by simp
qed

text \<open>A frame that was read is what the stream held, whole.\<close>

lemma read_frame_Some:
  assumes "steady s" and "read_frame s = Inr (Some body, s')"
  shows "delivered s = frame_bytes body @ delivered s'" and "steady s'"
proof -
  from assms(2) obtain prefix s1 n where r: "read_prefix [] s = Inr (Some prefix, s1)"
    "decode_frame_length (wrap_i32 (int (be_nat prefix))) = Inr n" "read_exact n [] s1 = Inr (body, s')"
    by (auto simp: read_frame_def split: sum.splits option.splits)
  from read_prefix_steady [OF assms(1), of "[]"] r(1) have p: "prefix = take 4 (delivered s)" "steady s1"
    "delivered s1 = drop 4 (delivered s)" "4 \<le> length (delivered s)"
    by (auto split: if_splits)
  have n: "prefix = be_bytes 4 (int n)" using frame_length_prefix [OF r(2)] p by simp
  from read_exact_steady [OF p(2), of "[]" n] r(3) have b: "body = take n (delivered s1)" "steady s'"
    "delivered s' = drop n (delivered s1)" "n \<le> length (delivered s1)"
    by (auto split: if_splits)
  then have "length body = n" by simp
  with b n p show "delivered s = frame_bytes body @ delivered s'"
    by (metis append.assoc append_take_drop_id frame_bytes_def)
  show "steady s'" by (rule b)
qed

section \<open>The header of a refused ApiVersions request\<close>

lemma unsupported_correlation:
  assumes "decode_frame other frame = Inr (UnsupportedApiVersions header version)"
  shows "in_i32 (rh_correlation_id header)"
proof -
  from assms obtain k rest where
    "RequestHeader_decode (request_header_version k (px_api_version (read_request_prefix frame))) frame = Inr (header, rest)"
    by (auto simp: decode_frame_def Let_def split: if_splits option.splits sum.splits prod.splits)
  from header_prefix(3) [OF this] show ?thesis by (simp add: read_request_prefix_def)
qed

section \<open>The invariant of the loop\<close>

text \<open>
  What the connection has done with its input since it was opened: the frames it took, in order, and behind each of
  them its answers, in the same order on the output. A request that is being handled has been taken and is not
  answered yet, and of the answer that is being written a part is on the output. A closed connection has answered a part
  of its input, and may have left a part of one more answer, the one to the next frame, if it was shut down.
\<close>

definition served_in_order :: "other_decode \<Rightarrow> other_encode \<Rightarrow> bytes \<Rightarrow> serve_phase \<Rightarrow> connection \<Rightarrow> bool" where
  "served_in_order other_dec other_enc input p c \<longleftrightarrow>
     wr_capacity (cn_out c) = None \<and>
     (\<exists>frames answers part. list_all2 (frame_answers other_dec other_enc) frames answers \<and>
        wr_written (cn_out c) = framed (concat answers) @ part \<and>
        (case p of
           Reading \<Rightarrow> part = [] \<and> steady (cn_in c) \<and> input = framed frames @ delivered (cn_in c)
         | Running request \<Rightarrow>
             part = [] \<and> steady (cn_in c) \<and> capability (dr_api_key request) \<noteq> None \<and>
             (\<exists>frame. decode_frame other_dec frame = Inr (Request request) \<and>
                input = framed (frames @ [frame]) @ delivered (cn_in c))
         | Suspended w request \<Rightarrow>
             part = [] \<and> steady (cn_in c) \<and> capability (dr_api_key request) \<noteq> None \<and>
             wait_key w = dr_api_key request \<and> expects_response request \<and>
             (\<exists>frame. decode_frame other_dec frame = Inr (Request request) \<and>
                input = framed (frames @ [frame]) @ delivered (cn_in c))
         | Writing rest \<Rightarrow>
             steady (cn_in c) \<and>
             (\<exists>frame out. frame_answers other_dec other_enc frame [out] \<and> frame_bytes out = part @ rest \<and>
                input = framed (frames @ [frame]) @ delivered (cn_in c))
         | Closed e \<Rightarrow>
             (\<exists>rest. input = framed frames @ rest) \<and>
             (part \<noteq> [] \<longrightarrow> e = None \<and>
                (\<exists>frame out more rest. frame_answers other_dec other_enc frame [out] \<and> frame_bytes out = part @ more \<and>
                   input = framed (frames @ [frame]) @ rest))))"

lemma served_shutdown:
  assumes "served_in_order other_dec other_enc input p c"
  shows "served_in_order other_dec other_enc input (Closed None) (c\<lparr>cn_in := s\<rparr>)"
proof -
  from assms obtain frames answers part where all: "wr_capacity (cn_out c) = None"
    "list_all2 (frame_answers other_dec other_enc) frames answers" "wr_written (cn_out c) = framed (concat answers) @ part"
    "\<exists>rest. input = framed frames @ rest"
    "part \<noteq> [] \<Longrightarrow> \<exists>frame out more rest. frame_answers other_dec other_enc frame [out] \<and>
       frame_bytes out = part @ more \<and> input = framed (frames @ [frame]) @ rest"
    by (cases p) (fastforce simp: served_in_order_def)+
  then show ?thesis by (auto simp: served_in_order_def intro!: exI [of _ frames] exI [of _ answers])
qed

text \<open>An answer is about to be written: the last frame taken is owed it, and nothing of it is on the output.\<close>

lemma served_start_writing:
  assumes "wr_capacity (cn_out c) = None" and "list_all2 (frame_answers other_dec other_enc) frames answers"
    and "wr_written (cn_out c) = framed (concat answers)" and "steady (cn_in c)"
    and "input = framed (frames @ [frame]) @ delivered (cn_in c)"
    and "\<And>out. encode_response other_enc (en_api_key envelope) (en_encoding_version envelope)
        (en_correlation_id envelope) (en_body envelope) = Inr out \<Longrightarrow> frame_answers other_dec other_enc frame [out]"
  shows "served_in_order other_dec other_enc input (start_writing other_enc envelope) c"
proof (cases "start_writing other_enc envelope")
  case (Writing rest)
  then obtain out where "rest = frame_bytes out" "frame_answers other_dec other_enc frame [out]"
    using assms(6) by (auto simp: start_writing_def split: sum.splits if_splits)
  with assms(1-5) Writing show ?thesis
    by (auto simp: served_in_order_def intro!: exI [of _ frames] exI [of _ answers])
next
  case (Closed e)
  with assms(1-5) show ?thesis
    by (auto simp: served_in_order_def intro!: exI [of _ frames] exI [of _ answers])
qed (auto simp: start_writing_def split: sum.splits if_splits)

lemma answer_phase_served:
  assumes "wr_capacity (cn_out c) = None" and "list_all2 (frame_answers other_dec other_enc) frames answers"
    and "wr_written (cn_out c) = framed (concat answers)" and "steady (cn_in c)"
    and "input = framed (frames @ [frame]) @ delivered (cn_in c)"
    and "decode_frame other_dec frame = Inr (Request request)" and "response_key body = dr_api_key request"
  shows "served_in_order other_dec other_enc input (answer_phase other_enc request body) c"
proof (cases "expects_response request")
  case True
  note kind = decoded_request_kind [OF assms(6)]
  have "frame_answers other_dec other_enc frame [out]"
    if "encode_response other_enc (dr_api_key request) (rh_request_api_version (dr_header request))
        (rh_correlation_id (dr_header request)) body = Inr out" for out
    using encode_response_frame [OF kind(4,5) that] True assms(6,7)
    by (auto simp: frame_answers_def answer_frame_def Let_def)
  then show ?thesis
    unfolding answer_phase_def using True by (simp, intro served_start_writing [OF assms(1-5)]) simp
next
  case False
  then have "frame_answers other_dec other_enc frame []" using assms(6) by (simp add: frame_answers_def)
  then have "list_all2 (frame_answers other_dec other_enc) (frames @ [frame]) (answers @ [[]])"
    using assms(2) by (simp add: list_all2_appendI)
  with False assms(1,3-5) show ?thesis
    by (auto simp: served_in_order_def answer_phase_def intro!: exI [of _ "frames @ [frame]"] exI [of _ "answers @ [[]]"])
qed

text \<open>What the next frame comes to.\<close>

lemma next_request_route:
  assumes "steady (cn_in c)" and "next_request other_dec c = (Inr r, c')"
  obtains frame decoded where "decode_frame other_dec frame = Inr decoded" and "route decoded = Inr r"
    and "delivered (cn_in c) = frame_bytes frame @ delivered (cn_in c')" and "steady (cn_in c')"
    and "cn_out c' = cn_out c" and "read_frame (cn_in c) = Inr (Some frame, cn_in c')"
proof -
  from assms(2) obtain frame s decoded where r: "read_frame (cn_in c) = Inr (Some frame, s)"
    "decode_frame other_dec frame = Inr decoded" "route decoded = Inr r" "c' = c\<lparr>cn_in := s\<rparr>"
    by (auto simp: next_request_def Let_def split: sum.splits option.splits)
  with read_frame_Some [OF assms(1) r(1)] show thesis by (intro that [of frame decoded]) simp_all
qed

lemma next_request_end: "next_request other_dec c = (Inl r, c') \<Longrightarrow> cn_out c' = cn_out c"
  by (auto simp: next_request_def Let_def split: sum.splits option.splits)

lemma route_Respond:
  assumes "decode_frame other_dec frame = Inr decoded" and "route decoded = Inr (Respond envelope)"
    and "encode_response other_enc (en_api_key envelope) (en_encoding_version envelope)
      (en_correlation_id envelope) (en_body envelope) = Inr out"
  shows "frame_answers other_dec other_enc frame [out]"
proof (cases decoded)
  case (Request request)
  note kind = decoded_request_kind [OF assms(1) [unfolded Request]]
  from assms(2) Request obtain body where e: "unsupported_version request = Inr body"
    "capability (dr_api_key request) \<noteq> None" "\<not> (dr_api_key request = Produce_key \<and> \<not> expects_response request)"
    "envelope = \<lparr>en_api_key = dr_api_key request, en_encoding_version = rh_request_api_version (dr_header request),
      en_correlation_id = rh_correlation_id (dr_header request), en_body = body\<rparr>"
    by (auto simp: route_def Let_def split: option.splits if_splits sum.splits)
  then have "response_key body = dr_api_key request"
    using unsupported_version_answers [OF kind(1) kind(3)] by auto
  moreover have "expects_response request" using e(3) expects_unless_produce [OF kind(1)] by blast
  moreover have "answer_frame other_enc request body out"
    using encode_response_frame [OF kind(4,5), of other_enc _ body out] assms(3) e(4)
    by (simp add: answer_frame_def Let_def)
  ultimately show ?thesis using assms(1) Request by (auto simp: frame_answers_def)
next
  case (UnsupportedApiVersions header version)
  have "api_key_try_from ApiVersions_key = Some ApiVersions_key" by code_simp
  moreover have "in_i32 (rh_correlation_id header)"
    by (rule unsupported_correlation [OF assms(1) [unfolded UnsupportedApiVersions]])
  ultimately show ?thesis
    using encode_response_frame [of ApiVersions_key "rh_correlation_id header" other_enc 0 unsupported_api_versions out]
      assms UnsupportedApiVersions
    by (auto simp: frame_answers_def route_def)
qed

lemma route_Dispatch:
  "route decoded = Inr (Dispatch request) \<Longrightarrow> decoded = Request request \<and> capability (dr_api_key request) \<noteq> None"
  by (auto simp: route_def Let_def split: decoded_frame.splits option.splits if_splits sum.splits)

lemma route_NoResponse:
  "route decoded = Inr NoResponse \<Longrightarrow> \<exists>request. decoded = Request request \<and> \<not> expects_response request"
  by (auto simp: route_def Let_def split: decoded_frame.splits option.splits if_splits sum.splits)

lemma served_taken:
  assumes "served_in_order other_dec other_enc input Reading c" and "next_request other_dec c = (Inr r, c')"
  shows "served_in_order other_dec other_enc input
    (case r of Dispatch request \<Rightarrow> Running request | Respond envelope \<Rightarrow> start_writing other_enc envelope
     | NoResponse \<Rightarrow> Reading) c'"
proof -
  from assms(1) obtain frames answers where all: "wr_capacity (cn_out c) = None" "steady (cn_in c)"
    "list_all2 (frame_answers other_dec other_enc) frames answers" "wr_written (cn_out c) = framed (concat answers)"
    "input = framed frames @ delivered (cn_in c)"
    by (auto simp: served_in_order_def)
  obtain frame decoded where f: "decode_frame other_dec frame = Inr decoded" "route decoded = Inr r"
    "delivered (cn_in c) = frame_bytes frame @ delivered (cn_in c')" "steady (cn_in c')" "cn_out c' = cn_out c"
    by (rule next_request_route [OF all(2) assms(2)])
  have input: "input = framed (frames @ [frame]) @ delivered (cn_in c')" using all(5) f(3) by simp
  show ?thesis
  proof (cases r)
    case (Dispatch request)
    with route_Dispatch [of decoded request] f all input show ?thesis
      by (auto simp: served_in_order_def intro!: exI [of _ frames] exI [of _ answers])
  next
    case (Respond envelope)
    with served_start_writing [of c' other_dec other_enc frames answers input frame envelope] route_Respond [OF f(1)] f all input
    show ?thesis by simp
  next
    case NoResponse
    with route_NoResponse [of decoded] f(2) obtain request where "decoded = Request request" "\<not> expects_response request"
      by blast
    with f(1) have "frame_answers other_dec other_enc frame []" by (simp add: frame_answers_def)
    then have "list_all2 (frame_answers other_dec other_enc) (frames @ [frame]) (answers @ [[]])"
      using all(3) by (simp add: list_all2_appendI)
    with NoResponse f all input show ?thesis
      by (auto simp: served_in_order_def intro!: exI [of _ "frames @ [frame]"] exI [of _ "answers @ [[]]"])
  qed
qed

lemma served_written:
  assumes "served_in_order other_dec other_enc input (Writing []) c"
  shows "served_in_order other_dec other_enc input Reading c"
proof -
  from assms obtain frames answers frame out where all: "wr_capacity (cn_out c) = None" "steady (cn_in c)"
    "list_all2 (frame_answers other_dec other_enc) frames answers" "frame_answers other_dec other_enc frame [out]"
    "wr_written (cn_out c) = framed (concat answers) @ frame_bytes out"
    "input = framed (frames @ [frame]) @ delivered (cn_in c)"
    by (auto simp: served_in_order_def)
  then have "list_all2 (frame_answers other_dec other_enc) (frames @ [frame]) (answers @ [[out]])"
    by (simp add: list_all2_appendI)
  with all show ?thesis
    by (auto simp: served_in_order_def intro!: exI [of _ "frames @ [frame]"] exI [of _ "answers @ [[out]]"])
qed

definition serve_inv ::
  "other_decode \<Rightarrow> other_encode \<Rightarrow> (bytes \<Rightarrow> nat) \<Rightarrow> bytes \<Rightarrow> serve_phase \<times> connection \<times> broker_state \<Rightarrow> bool" where
  "serve_inv other_dec other_enc crc input st \<longleftrightarrow>
     (case st of (p, c, b) \<Rightarrow> broker_ok crc b \<and> counts_ok b \<and> served_in_order other_dec other_enc input p c)"

lemma draws_irrelevant [simp]:
  "broker_ok crc (b\<lparr>bs_draws := draws\<rparr>) = broker_ok crc b" "counts_ok (b\<lparr>bs_draws := draws\<rparr>) = counts_ok b"
  by (simp_all add: broker_ok_def counts_ok_def)

lemma served_handled:
  assumes "served_in_order other_dec other_enc input p c" and "response_key body = dr_api_key request"
    and "p = Running request \<or> p = Suspended w request"
  shows "served_in_order other_dec other_enc input (answer_phase other_enc request body) c"
proof -
  from assms(1,3) obtain frames answers frame where "wr_capacity (cn_out c) = None" "steady (cn_in c)"
    "list_all2 (frame_answers other_dec other_enc) frames answers" "wr_written (cn_out c) = framed (concat answers)"
    "decode_frame other_dec frame = Inr (Request request)" "input = framed (frames @ [frame]) @ delivered (cn_in c)"
    by (auto simp: served_in_order_def)
  with assms(2) show ?thesis by (intro answer_phase_served)
qed

lemma served_suspended:
  assumes "served_in_order other_dec other_enc input (Running request) c" and "pending_key p = dr_api_key request"
  shows "served_in_order other_dec other_enc input (Suspended (begin_wait now p) request) c"
proof -
  from assms(1) obtain frame where "decode_frame other_dec frame = Inr (Request request)"
    by (auto simp: served_in_order_def)
  note kind = decoded_request_kind [OF this]
  have "dr_api_key request \<noteq> Produce_key" using assms(2) by (cases p) auto
  then have "expects_response request" by (rule expects_unless_produce [OF kind(1)])
  with assms show ?thesis by (auto simp: served_in_order_def)
qed

lemma serve_inv_step:
  assumes "serve_step other_dec other_enc crc st st'" and "serve_inv other_dec other_enc crc input st"
  shows "serve_inv other_dec other_enc crc input st'"
  using assms
proof (cases rule: serve_step.cases)
  case (serve_end c r c' b)
  with assms(2) next_request_end [OF serve_end(3)] show ?thesis
    by (fastforce simp: serve_inv_def served_in_order_def)
next
  case (serve_dispatch c request c' b)
  with assms(2) served_taken [OF _ serve_dispatch(3)] show ?thesis by (auto simp: serve_inv_def)
next
  case (serve_refuse c envelope c' b)
  with assms(2) served_taken [OF _ serve_refuse(3)] show ?thesis by (auto simp: serve_inv_def)
next
  case (serve_silent c c' b)
  with assms(2) served_taken [OF _ serve_silent(3)] show ?thesis by (auto simp: serve_inv_def)
next
  case (serve_respond body request c b)
  with assms(2) show ?thesis by (auto simp: serve_inv_def intro: served_handled)
next
  case (serve_mismatch request c b e)
  with assms(2) show ?thesis by (fastforce simp: serve_inv_def served_in_order_def)
next
  case (serve_suspend p request c b now)
  with assms(2) show ?thesis by (auto simp: serve_inv_def intro: served_suspended)
next
  case (serve_wait ck b w w' b' request c)
  with assms(2) wait_turn_key [OF serve_wait(3)] wait_turn_reaches [OF serve_wait(3)] show ?thesis
    by (auto simp: serve_inv_def served_in_order_def intro: reaches_ok reaches_counts)
next
  case (serve_complete ck b w body b' request c)
  then have "served_in_order other_dec other_enc input (Suspended w request) c" using assms(2) by (simp add: serve_inv_def)
  moreover from this have "wait_key w = dr_api_key request" by (auto simp: served_in_order_def)
  ultimately have "served_in_order other_dec other_enc input (answer_phase other_enc request body) c"
    using wait_turn_key [OF serve_complete(3)] by (intro served_handled) auto
  with serve_complete assms(2) wait_turn_reaches [OF serve_complete(3)] show ?thesis
    by (auto simp: serve_inv_def intro: reaches_ok reaches_counts)
next
  case (serve_write sent rest c b)
  with assms(2) show ?thesis by (auto simp: serve_inv_def served_in_order_def write_some_def) (metis append.assoc)
next
  case (serve_written c b)
  with assms(2) show ?thesis by (auto simp: serve_inv_def intro: served_written)
next
  case (serve_shutdown c taken s p b)
  with assms(2) show ?thesis by (auto simp: serve_inv_def intro: served_shutdown)
next
  case (serve_sections b b' p c)
  with assms(2) show ?thesis by (auto simp: serve_inv_def intro: reaches_ok reaches_counts)
next
  case (serve_draws p c b draws)
  with assms(2) show ?thesis by (auto simp: serve_inv_def)
qed

lemma serve_inv_steps:
  assumes "(serve_step other_dec other_enc crc)\<^sup>*\<^sup>* st st'" and "serve_inv other_dec other_enc crc input st"
  shows "serve_inv other_dec other_enc crc input st'"
  using assms by (induction rule: rtranclp_induct) (auto intro: serve_inv_step)

section \<open>The handlers as steps\<close>

text \<open>\<open>handle_one\<close> is its beginning, the handler and its end.\<close>

lemma handle_one_eq:
  "handle_one other_dec other_enc crc advertised cks c b =
     (case next_request other_dec c of
        (Inl r, c') \<Rightarrow> Inr (Finished r, c', b)
      | (Inr (Dispatch request), c') \<Rightarrow>
          try_bind (dispatch crc advertised cks request b) (\<lambda>(r, b').
          case r of
            Inl e \<Rightarrow> Inr (Finished (Inl (DispatchFailed e)), c', b')
          | Inr (Completed body) \<Rightarrow>
              try_bind (complete_request other_enc request body c') (\<lambda>(h, c''). Inr (h, c'', b'))
          | Inr (Pending p) \<Rightarrow> Inr (Awaiting p request, c', b'))
      | (Inr (Respond envelope), c') \<Rightarrow> try_bind (respond other_enc envelope c') (\<lambda>(h, c''). Inr (h, c'', b))
      | (Inr NoResponse, c') \<Rightarrow> Inr (Finished (Inr True), c', b))"
  by (simp add: handle_one_def next_request_def Let_def split: sum.split option.split prod.split route.split)

text \<open>Writing an answer in one go.\<close>

lemma respond_steps:
  assumes "wr_capacity (cn_out c) = None"
  shows "\<exists>h c'. respond other_enc envelope c = Inr (h, c') \<and>
    (serve_step other_dec other_enc crc)\<^sup>*\<^sup>* (start_writing other_enc envelope, c, b) (after_handling now h, c', b)"
proof (cases "start_writing other_enc envelope")
  case (Writing rest)
  then obtain out where out: "encode_response other_enc (en_api_key envelope) (en_encoding_version envelope)
      (en_correlation_id envelope) (en_body envelope) = Inr out" "rest = frame_bytes out" "length out \<le> MAX_FRAME_SIZE"
    by (auto simp: start_writing_def split: sum.splits if_splits)
  then have "respond other_enc envelope c = Inr (Finished (Inr True), write_some rest c)"
    using write_frame_eq [OF out(3) assms] by (simp add: respond_def write_response_def write_some_def)
  moreover have "serve_step other_dec other_enc crc (Writing rest, c, b) (Writing [], write_some rest c, b)"
    using serve_write [of other_dec other_enc crc rest "[]"] by simp
  ultimately show ?thesis
    using Writing serve_written [of other_dec other_enc crc "write_some rest c" b]
    by (auto simp: after_handling_def intro: converse_rtranclp_into_rtranclp)
next
  case (Closed e)
  then show ?thesis
    by (auto simp: start_writing_def respond_def write_response_def write_frame_def after_handling_def
        split: sum.splits if_splits)
qed (auto simp: start_writing_def split: sum.splits if_splits)

lemma complete_request_steps:
  assumes "wr_capacity (cn_out c) = None" and "response_key body = dr_api_key request"
  shows "\<exists>h c'. complete_request other_enc request body c = Inr (h, c') \<and>
    (serve_step other_dec other_enc crc)\<^sup>*\<^sup>* (Running request, c, b) (after_handling now h, c', b)"
proof -
  have first: "serve_step other_dec other_enc crc (Running request, c, b) (answer_phase other_enc request body, c, b)"
    by (rule serve_respond [OF assms(2)])
  show ?thesis
  proof (cases "expects_response request")
    case True
    from respond_steps [OF assms(1)] obtain h c' where
      "respond other_enc \<lparr>en_api_key = dr_api_key request, en_encoding_version = rh_request_api_version (dr_header request),
         en_correlation_id = rh_correlation_id (dr_header request), en_body = body\<rparr> c = Inr (h, c')"
      "(serve_step other_dec other_enc crc)\<^sup>*\<^sup>* (answer_phase other_enc request body, c, b) (after_handling now h, c', b)"
      unfolding answer_phase_def using True by (simp, blast)
    with first True show ?thesis
      by (auto simp: complete_request_def intro: converse_rtranclp_into_rtranclp)
  next
    case False
    with first show ?thesis by (auto simp: complete_request_def after_handling_def answer_phase_def)
  qed
qed

lemma handle_one_steps:
  assumes "broker_ok crc b" and "counts_ok b" and "wr_capacity (cn_out c) = None" and "steady (cn_in c)"
    and "enough_draws other_dec c b"
  shows "\<exists>h c' b'. handle_one other_dec other_enc crc advertised cks c b = Inr (h, c', b') \<and>
    (serve_step other_dec other_enc crc)\<^sup>*\<^sup>* (Reading, c, b) (after_handling now h, c', b')"
proof (cases "next_request other_dec c")
  case (Pair r c')
  show ?thesis
  proof (cases r)
    case (Inl e)
    have "after_handling now (Finished e) = Closed (case e of Inl e \<Rightarrow> Some e | Inr _ \<Rightarrow> None)"
      using Pair Inl by (auto simp: next_request_def Let_def after_handling_def split: sum.splits option.splits)
    with Pair Inl serve_end [of other_dec c e c' other_enc crc b] show ?thesis by (auto simp: handle_one_eq)
  next
    case (Inr routed)
    obtain frame decoded where f: "decode_frame other_dec frame = Inr decoded" "route decoded = Inr routed"
      "cn_out c' = cn_out c" "read_frame (cn_in c) = Inr (Some frame, cn_in c')"
      by (rule next_request_route [OF assms(4)]) (use Pair Inr in auto)
    have room: "wr_capacity (cn_out c') = None" using assms(3) f(3) by simp
    show ?thesis
    proof (cases routed)
      case (Dispatch request)
      with route_Dispatch [of decoded request] f(2) have d: "decoded = Request request"
        "capability (dr_api_key request) \<noteq> None" by auto
      note kind = decoded_request_kind [OF f(1) [unfolded d(1)]]
      have "fresh_draws (draws_needed (dr_body request)) b" using assms(5) f d(1) by (simp add: enough_draws_def)
      from dispatch_served [OF assms(1,2) kind(1) kind(3) [OF d(2)] this kind(2)] obtain oc b' where
        o: "dispatch crc advertised cks request b = Inr (Inr oc, b')" "outcome_key oc = dr_api_key request" "reaches crc b b'"
        unfolding served_def by blast
      have "serve_step other_dec other_enc crc (Reading, c, b) (Running request, c', b)"
        using Pair Inr Dispatch by (intro serve_dispatch) simp
      moreover have "serve_step other_dec other_enc crc (Running request, c', b) (Running request, c', b')"
        by (rule serve_sections [OF o(3)])
      ultimately have run: "(serve_step other_dec other_enc crc)\<^sup>*\<^sup>* (Reading, c, b) (Running request, c', b')" by simp
      show ?thesis
      proof (cases oc)
        case (Completed body)
        from complete_request_steps [OF room, of body request other_enc other_dec crc b' now] o Completed
        obtain h c'' where "complete_request other_enc request body c' = Inr (h, c'')"
          "(serve_step other_dec other_enc crc)\<^sup>*\<^sup>* (Running request, c', b') (after_handling now h, c'', b')" by auto
        with run o Completed Pair Inr Dispatch show ?thesis by (auto simp: handle_one_eq)
      next
        case (Pending p)
        then have "serve_step other_dec other_enc crc (Running request, c', b') (Suspended (begin_wait now p) request, c', b')"
          using o(2) by (intro serve_suspend) simp
        with run o Pending Pair Inr Dispatch show ?thesis by (auto simp: handle_one_eq after_handling_def)
      qed
    next
      case (Respond envelope)
      have "serve_step other_dec other_enc crc (Reading, c, b) (start_writing other_enc envelope, c', b)"
        using Pair Inr Respond by (intro serve_refuse) simp
      moreover from respond_steps [OF room] obtain h c'' where "respond other_enc envelope c' = Inr (h, c'')"
        "(serve_step other_dec other_enc crc)\<^sup>*\<^sup>* (start_writing other_enc envelope, c', b) (after_handling now h, c'', b)"
        by blast
      ultimately show ?thesis
        using Pair Inr Respond by (auto simp: handle_one_eq intro: converse_rtranclp_into_rtranclp)
    next
      case NoResponse
      with Pair Inr have "serve_step other_dec other_enc crc (Reading, c, b) (Reading, c', b)" by (intro serve_silent) simp
      with Pair Inr NoResponse show ?thesis by (auto simp: handle_one_eq after_handling_def)
    qed
  qed
qed


lemma sample_enough: "enough_draws other_dec sample_connection (broker_new 1 True False 2 [5, 6, 7, 8])"
proof -
  let ?frame = "[0, 16, 0, 0, 0, 0, 0, 9, 255, 255] :: bytes"
  have "steady (cn_in sample_connection)" "delivered (cn_in sample_connection) = frame_bytes ?frame @ [7]"
    by code_simp+
  moreover have "length ?frame \<le> MAX_FRAME_SIZE" by (simp add: MAX_FRAME_SIZE_def)
  ultimately obtain s where "read_frame (cn_in sample_connection) = Inr (Some ?frame, s)" by (rule read_frame_whole)
  moreover have "fresh_draws (draws_needed (dr_body sample_list)) (broker_new 1 True False 2 [5, 6, 7, 8])"
    using new_broker_ok(3) by (rule fresh_draws_mono) (simp add: draws_needed_def sample_list_def)
  ultimately show ?thesis by (simp add: enough_draws_def sample_list_decoded)
qed


end
