(* ===== verification/Wire_Rest.thy ===== *)
theory Wire_Rest
  imports Message_Codec
begin

text \<open>
  The types of \<open>crates/kafka-protocol/src/protocol/types.rs\<close> that no served message uses: unsigned 16-bit
  integers and floating point numbers. A floating point number is the word of its bits, which is all the codec looks at.
\<close>

definition in_u16 :: "u16 \<Rightarrow> bool" where
  "in_u16 n \<longleftrightarrow> n < 2 ^ 16"

definition UInt16_encode :: "u16 \<Rightarrow> bytes" where
  "UInt16_encode n = be_bytes 2 (int n)"

definition UInt16_decode :: "u16 decoder" where
  "UInt16_decode buf = try_bind (try_get_bytes 2 buf) (\<lambda>(bs, rest). Inr (be_nat bs, rest))"

definition Float64_encode :: "f64 \<Rightarrow> bytes" where
  "Float64_encode v = be_bytes 8 (uint v)"

definition Float64_decode :: "f64 decoder" where
  "Float64_decode buf = try_bind (try_get_bytes 8 buf) (\<lambda>(bs, rest). Inr (word_of_nat (be_nat bs), rest))"

lemma UInt16_decode_encode:
  assumes "in_u16 n"
  shows "UInt16_decode (UInt16_encode n @ rest) = Inr (n, rest)"
proof -
  have "int (be_nat (UInt16_encode n)) = int n mod 256 ^ 2" by (simp add: UInt16_encode_def int_be_nat_be_bytes)
  also have "\<dots> = int n" using assms by (intro mod_pos_pos_trivial) (simp_all add: in_u16_def)
  finally have "be_nat (UInt16_encode n) = n" by simp
  moreover have "length (UInt16_encode n) = 2" by (simp add: UInt16_encode_def)
  ultimately show ?thesis using try_get_append [of "UInt16_encode n" rest] by (simp add: UInt16_decode_def)
qed

lemma Float64_decode_encode: "Float64_decode (Float64_encode v @ rest) = Inr (v, rest)"
proof -
  have "int (be_nat (Float64_encode v)) = uint v mod 256 ^ 8" by (simp add: Float64_encode_def int_be_nat_be_bytes)
  also have "\<dots> = uint v" using uint_lt2p [of v] by (intro mod_pos_pos_trivial) simp_all
  finally have "word_of_nat (be_nat (Float64_encode v)) = v" by (metis of_int_of_nat_eq word_of_int_uint)
  moreover have "length (Float64_encode v) = 8" by (simp add: Float64_encode_def)
  ultimately show ?thesis using try_get_append [of "Float64_encode v" rest] by (simp add: Float64_decode_def)
qed

interpretation sized_uint16: sized_codec "\<lambda>x. Inr (UInt16_encode x)" UInt16_decode "\<lambda>_. Inr 2" in_u16
  by unfold_locales (simp add: coded_def UInt16_decode_encode, simp add: UInt16_encode_def)

interpretation sized_float64: sized_codec "\<lambda>x. Inr (Float64_encode x)" Float64_decode "\<lambda>_. Inr 8" "\<lambda>_. True"
  by unfold_locales (simp add: coded_def Float64_decode_encode, simp add: Float64_encode_def)

lemmas coded_rest [coded_intros] = sized_uint16.codes sized_float64.codes [OF TrueI]

lemmas sized_rest [coded_intros] = sized_int16.sized_codec_axioms sized_uuid.sized_codec_axioms

end
