(* ===== verification/Messages_Txn.thy ===== *)
theory Messages_Txn
  imports Prelude
begin

text \<open>
  Requests about transactions and producer identifiers, which the broker does not serve
  (\<open>src/crates/kafka-protocol/src/messages/\<close>). Every message is a record with the fields of the Rust structure, and its
  \<open>_default\<close> is the value of \<open>Default::default()\<close>.
\<close>

section \<open>Add offsets to txn request\<close>

record add_offsets_to_txn_request =
  aottrq_transactional_id :: string
  aottrq_producer_id :: i64
  aottrq_producer_epoch :: i16
  aottrq_group_id :: string
  aottrq_unknown_tagged_fields :: "(i32, bytes) btree_map"

definition add_offsets_to_txn_request_default :: add_offsets_to_txn_request where
  "add_offsets_to_txn_request_default =
     \<lparr>aottrq_transactional_id = [], aottrq_producer_id = 0, aottrq_producer_epoch = 0,
      aottrq_group_id = [], aottrq_unknown_tagged_fields = []\<rparr>"

section \<open>Add partitions to txn request\<close>

record add_partitions_to_txn_topic =
  apttt_name :: string
  apttt_partitions :: "i32 list"
  apttt_unknown_tagged_fields :: "(i32, bytes) btree_map"

definition add_partitions_to_txn_topic_default :: add_partitions_to_txn_topic where
  "add_partitions_to_txn_topic_default =
     \<lparr>apttt_name = [], apttt_partitions = [], apttt_unknown_tagged_fields = []\<rparr>"

record add_partitions_to_txn_transaction =
  apttt2_transactional_id :: string
  apttt2_producer_id :: i64
  apttt2_producer_epoch :: i16
  apttt2_verify_only :: bool
  apttt2_topics :: "add_partitions_to_txn_topic list"
  apttt2_unknown_tagged_fields :: "(i32, bytes) btree_map"

definition add_partitions_to_txn_transaction_default :: add_partitions_to_txn_transaction where
  "add_partitions_to_txn_transaction_default =
     \<lparr>apttt2_transactional_id = [], apttt2_producer_id = 0, apttt2_producer_epoch = 0,
      apttt2_verify_only = False, apttt2_topics = [], apttt2_unknown_tagged_fields = []\<rparr>"

record add_partitions_to_txn_request =
  apttrq_transactions :: "add_partitions_to_txn_transaction list"
  apttrq_v3_and_below_transactional_id :: string
  apttrq_v3_and_below_producer_id :: i64
  apttrq_v3_and_below_producer_epoch :: i16
  apttrq_v3_and_below_topics :: "add_partitions_to_txn_topic list"
  apttrq_unknown_tagged_fields :: "(i32, bytes) btree_map"

definition add_partitions_to_txn_request_default :: add_partitions_to_txn_request where
  "add_partitions_to_txn_request_default =
     \<lparr>apttrq_transactions = [], apttrq_v3_and_below_transactional_id = [],
      apttrq_v3_and_below_producer_id = 0, apttrq_v3_and_below_producer_epoch = 0,
      apttrq_v3_and_below_topics = [], apttrq_unknown_tagged_fields = []\<rparr>"

section \<open>End txn request\<close>

record end_txn_request =
  etrq_transactional_id :: string
  etrq_producer_id :: i64
  etrq_producer_epoch :: i16
  etrq_committed :: bool
  etrq_unknown_tagged_fields :: "(i32, bytes) btree_map"

definition end_txn_request_default :: end_txn_request where
  "end_txn_request_default =
     \<lparr>etrq_transactional_id = [], etrq_producer_id = 0, etrq_producer_epoch = 0,
      etrq_committed = False, etrq_unknown_tagged_fields = []\<rparr>"

section \<open>Txn offset commit request\<close>

record txn_offset_commit_request_partition =
  tocrqp_partition_index :: i32
  tocrqp_committed_offset :: i64
  tocrqp_committed_leader_epoch :: i32
  tocrqp_committed_metadata :: "string option"
  tocrqp_unknown_tagged_fields :: "(i32, bytes) btree_map"

definition txn_offset_commit_request_partition_default :: txn_offset_commit_request_partition where
  "txn_offset_commit_request_partition_default =
     \<lparr>tocrqp_partition_index = 0, tocrqp_committed_offset = 0,
      tocrqp_committed_leader_epoch = - 1, tocrqp_committed_metadata = Some [],
      tocrqp_unknown_tagged_fields = []\<rparr>"

record txn_offset_commit_request_topic =
  tocrqt_name :: string
  tocrqt_partitions :: "txn_offset_commit_request_partition list"
  tocrqt_unknown_tagged_fields :: "(i32, bytes) btree_map"

definition txn_offset_commit_request_topic_default :: txn_offset_commit_request_topic where
  "txn_offset_commit_request_topic_default =
     \<lparr>tocrqt_name = [], tocrqt_partitions = [], tocrqt_unknown_tagged_fields = []\<rparr>"

record txn_offset_commit_request =
  tocrq_transactional_id :: string
  tocrq_group_id :: string
  tocrq_producer_id :: i64
  tocrq_producer_epoch :: i16
  tocrq_generation_id :: i32
  tocrq_member_id :: string
  tocrq_group_instance_id :: "string option"
  tocrq_topics :: "txn_offset_commit_request_topic list"
  tocrq_unknown_tagged_fields :: "(i32, bytes) btree_map"

definition txn_offset_commit_request_default :: txn_offset_commit_request where
  "txn_offset_commit_request_default =
     \<lparr>tocrq_transactional_id = [], tocrq_group_id = [], tocrq_producer_id = 0,
      tocrq_producer_epoch = 0, tocrq_generation_id = - 1, tocrq_member_id = [],
      tocrq_group_instance_id = None, tocrq_topics = [], tocrq_unknown_tagged_fields = []\<rparr>"

section \<open>Write txn markers request\<close>

record writable_txn_marker_topic =
  wtmt_name :: string
  wtmt_partition_indexes :: "i32 list"
  wtmt_unknown_tagged_fields :: "(i32, bytes) btree_map"

definition writable_txn_marker_topic_default :: writable_txn_marker_topic where
  "writable_txn_marker_topic_default =
     \<lparr>wtmt_name = [], wtmt_partition_indexes = [], wtmt_unknown_tagged_fields = []\<rparr>"

record writable_txn_marker =
  wtm_producer_id :: i64
  wtm_producer_epoch :: i16
  wtm_transaction_result :: bool
  wtm_topics :: "writable_txn_marker_topic list"
  wtm_coordinator_epoch :: i32
  wtm_transaction_version :: i8
  wtm_unknown_tagged_fields :: "(i32, bytes) btree_map"

definition writable_txn_marker_default :: writable_txn_marker where
  "writable_txn_marker_default =
     \<lparr>wtm_producer_id = 0, wtm_producer_epoch = 0, wtm_transaction_result = False,
      wtm_topics = [], wtm_coordinator_epoch = 0, wtm_transaction_version = 0,
      wtm_unknown_tagged_fields = []\<rparr>"

record write_txn_markers_request =
  wtmrq_markers :: "writable_txn_marker list"
  wtmrq_unknown_tagged_fields :: "(i32, bytes) btree_map"

definition write_txn_markers_request_default :: write_txn_markers_request where
  "write_txn_markers_request_default =
     \<lparr>wtmrq_markers = [], wtmrq_unknown_tagged_fields = []\<rparr>"

section \<open>Describe transactions request\<close>

record describe_transactions_request =
  dtrq_transactional_ids :: "string list"
  dtrq_unknown_tagged_fields :: "(i32, bytes) btree_map"

definition describe_transactions_request_default :: describe_transactions_request where
  "describe_transactions_request_default =
     \<lparr>dtrq_transactional_ids = [], dtrq_unknown_tagged_fields = []\<rparr>"

section \<open>List transactions request\<close>

record list_transactions_request =
  ltrq_state_filters :: "string list"
  ltrq_producer_id_filters :: "i64 list"
  ltrq_duration_filter :: i64
  ltrq_transactional_id_pattern :: "string option"
  ltrq_unknown_tagged_fields :: "(i32, bytes) btree_map"

definition list_transactions_request_default :: list_transactions_request where
  "list_transactions_request_default =
     \<lparr>ltrq_state_filters = [], ltrq_producer_id_filters = [], ltrq_duration_filter = - 1,
      ltrq_transactional_id_pattern = None, ltrq_unknown_tagged_fields = []\<rparr>"

section \<open>Describe producers request\<close>

record describe_producers_request_topic_request =
  dprqtrq_name :: string
  dprqtrq_partition_indexes :: "i32 list"
  dprqtrq_unknown_tagged_fields :: "(i32, bytes) btree_map"

definition describe_producers_request_topic_request_default :: describe_producers_request_topic_request where
  "describe_producers_request_topic_request_default =
     \<lparr>dprqtrq_name = [], dprqtrq_partition_indexes = [],
      dprqtrq_unknown_tagged_fields = []\<rparr>"

record describe_producers_request =
  dprq_topics :: "describe_producers_request_topic_request list"
  dprq_unknown_tagged_fields :: "(i32, bytes) btree_map"

definition describe_producers_request_default :: describe_producers_request where
  "describe_producers_request_default =
     \<lparr>dprq_topics = [], dprq_unknown_tagged_fields = []\<rparr>"

section \<open>Allocate producer ids request\<close>

record allocate_producer_ids_request =
  apirq_broker_id :: i32
  apirq_broker_epoch :: i64
  apirq_unknown_tagged_fields :: "(i32, bytes) btree_map"

definition allocate_producer_ids_request_default :: allocate_producer_ids_request where
  "allocate_producer_ids_request_default =
     \<lparr>apirq_broker_id = 0, apirq_broker_epoch = - 1, apirq_unknown_tagged_fields = []\<rparr>"

end
