(* ===== verification/Codec_Txn.thy ===== *)
theory Codec_Txn
  imports Wire_Rest Messages_Txn
begin

text \<open>
  The codecs of the requests about transactions and producer identifiers
  (\<open>src/crates/kafka-protocol/src/messages/\<close>): the encoder, the size computation and the decoder of every structure,
  for every version of its schema, what a structure must satisfy to be sent in a version, and that it then comes back.
\<close>

section \<open>Add offsets to txn request\<close>

definition AddOffsetsToTxnRequest_encode :: "add_offsets_to_txn_request \<Rightarrow> i16 \<Rightarrow> wire_error + bytes" where
  "AddOffsetsToTxnRequest_encode s version =
     (if version < 0 \<or> version > 4 then Inl UNSUPPORTED_VERSION
      else puts
        [if version \<ge> 3
          then CompactString_encode (Some (aottrq_transactional_id s))
          else String_encode (Some (aottrq_transactional_id s)),
         Inr (Int64_encode (aottrq_producer_id s)),
         Inr (Int16_encode (aottrq_producer_epoch s)),
         if version \<ge> 3
          then CompactString_encode (Some (aottrq_group_id s))
          else String_encode (Some (aottrq_group_id s)),
         if version \<ge> 3 then put_tags [] 0 (aottrq_unknown_tagged_fields s) else Inr []])"

definition AddOffsetsToTxnRequest_compute_size :: "add_offsets_to_txn_request \<Rightarrow> i16 \<Rightarrow> wire_error + usize" where
  "AddOffsetsToTxnRequest_compute_size s version =
     sums
       [if version \<ge> 3
         then CompactString_compute_size (Some (aottrq_transactional_id s))
         else String_compute_size (Some (aottrq_transactional_id s)),
        Inr 8,
        Inr 2,
        if version \<ge> 3
         then CompactString_compute_size (Some (aottrq_group_id s))
         else String_compute_size (Some (aottrq_group_id s)),
        if version \<ge> 3 then tags_size [] (aottrq_unknown_tagged_fields s) else Inr 0]"

definition AddOffsetsToTxnRequest_decode :: "i16 \<Rightarrow> add_offsets_to_txn_request decoder" where
  "AddOffsetsToTxnRequest_decode version =
     (if version < 0 \<or> version > 4 then refuse UNSUPPORTED_VERSION
      else
        get (if version \<ge> 3 then CompactString_required else String_required) (\<lambda>transactional_id.
        get Int64_decode (\<lambda>producer_id.
        get Int16_decode (\<lambda>producer_epoch.
        get (if version \<ge> 3 then CompactString_required else String_required) (\<lambda>group_id.
        get (if version \<ge> 3 then get_unknown_tags else give []) (\<lambda>unknown_tagged_fields.
        give \<lparr>aottrq_transactional_id = transactional_id, aottrq_producer_id = producer_id,
               aottrq_producer_epoch = producer_epoch, aottrq_group_id = group_id,
               aottrq_unknown_tagged_fields = unknown_tagged_fields\<rparr>))))))"

definition AddOffsetsToTxnRequest_ok :: "i16 \<Rightarrow> add_offsets_to_txn_request \<Rightarrow> bool" where
  "AddOffsetsToTxnRequest_ok version s \<longleftrightarrow>
     \<not> (version < 0 \<or> version > 4) \<and>
     (if version \<ge> 3
       then string_ok (2 ^ 32 - 2) (Some (aottrq_transactional_id s))
       else string_ok 32767 (Some (aottrq_transactional_id s))) \<and>
     in_i64 (aottrq_producer_id s) \<and>
     in_i16 (aottrq_producer_epoch s) \<and>
     (if version \<ge> 3
       then string_ok (2 ^ 32 - 2) (Some (aottrq_group_id s))
       else string_ok 32767 (Some (aottrq_group_id s))) \<and>
     (if version \<ge> 3 then tags_ok 0 (aottrq_unknown_tagged_fields s) else aottrq_unknown_tagged_fields s = [])"

lemma AddOffsetsToTxnRequest_codec [coded_intros]:
  "sized_codec (\<lambda>s. AddOffsetsToTxnRequest_encode s version) (AddOffsetsToTxnRequest_decode version)
     (\<lambda>s. AddOffsetsToTxnRequest_compute_size s version) (AddOffsetsToTxnRequest_ok version)"
  unfolding AddOffsetsToTxnRequest_encode_def AddOffsetsToTxnRequest_decode_def AddOffsetsToTxnRequest_compute_size_def
  by (rule sized_codecI) (rule coded_intros | (simp add: AddOffsetsToTxnRequest_ok_def; fail))+

lemmas AddOffsetsToTxnRequest_coded [coded_intros] = sized_codec.codes [OF AddOffsetsToTxnRequest_codec]

section \<open>Add partitions to txn request\<close>

definition AddPartitionsToTxnTopic_encode :: "add_partitions_to_txn_topic \<Rightarrow> i16 \<Rightarrow> wire_error + bytes" where
  "AddPartitionsToTxnTopic_encode s version =
     (if version < 0 \<or> version > 5 then Inl UNSUPPORTED_VERSION
      else puts
        [if version \<ge> 3
          then CompactString_encode (Some (apttt_name s))
          else String_encode (Some (apttt_name s)),
         if version \<ge> 3
          then CompactArray_encode (\<lambda>x. Inr (Int32_encode x)) (Some (apttt_partitions s))
          else Array_encode (\<lambda>x. Inr (Int32_encode x)) (Some (apttt_partitions s)),
         if version \<ge> 3 then put_tags [] 0 (apttt_unknown_tagged_fields s) else Inr []])"

definition AddPartitionsToTxnTopic_compute_size :: "add_partitions_to_txn_topic \<Rightarrow> i16 \<Rightarrow> wire_error + usize" where
  "AddPartitionsToTxnTopic_compute_size s version =
     sums
       [if version \<ge> 3
         then CompactString_compute_size (Some (apttt_name s))
         else String_compute_size (Some (apttt_name s)),
        if version \<ge> 3
         then CompactArray_compute_size (Some 4) (\<lambda>_. Inr 4) (Some (apttt_partitions s))
         else Array_compute_size (Some 4) (\<lambda>_. Inr 4) (Some (apttt_partitions s)),
        if version \<ge> 3 then tags_size [] (apttt_unknown_tagged_fields s) else Inr 0]"

definition AddPartitionsToTxnTopic_decode :: "i16 \<Rightarrow> add_partitions_to_txn_topic decoder" where
  "AddPartitionsToTxnTopic_decode version =
     (if version < 0 \<or> version > 5 then refuse UNSUPPORTED_VERSION
      else
        get (if version \<ge> 3 then CompactString_required else String_required) (\<lambda>name.
        get (if version \<ge> 3 then CompactArray_required Int32_decode else Array_required Int32_decode) (\<lambda>partitions.
        get (if version \<ge> 3 then get_unknown_tags else give []) (\<lambda>unknown_tagged_fields.
        give \<lparr>apttt_name = name, apttt_partitions = partitions,
               apttt_unknown_tagged_fields = unknown_tagged_fields\<rparr>))))"

definition AddPartitionsToTxnTopic_ok :: "i16 \<Rightarrow> add_partitions_to_txn_topic \<Rightarrow> bool" where
  "AddPartitionsToTxnTopic_ok version s \<longleftrightarrow>
     \<not> (version < 0 \<or> version > 5) \<and>
     (if version \<ge> 3
       then string_ok (2 ^ 32 - 2) (Some (apttt_name s))
       else string_ok 32767 (Some (apttt_name s))) \<and>
     (if version \<ge> 3
       then seq_ok (2 ^ 32 - 2) in_i32 (Some (apttt_partitions s))
       else seq_ok (2 ^ 31 - 1) in_i32 (Some (apttt_partitions s))) \<and>
     (if version \<ge> 3 then tags_ok 0 (apttt_unknown_tagged_fields s) else apttt_unknown_tagged_fields s = [])"

lemma AddPartitionsToTxnTopic_codec [coded_intros]:
  "sized_codec (\<lambda>s. AddPartitionsToTxnTopic_encode s version) (AddPartitionsToTxnTopic_decode version)
     (\<lambda>s. AddPartitionsToTxnTopic_compute_size s version) (AddPartitionsToTxnTopic_ok version)"
  unfolding AddPartitionsToTxnTopic_encode_def AddPartitionsToTxnTopic_decode_def AddPartitionsToTxnTopic_compute_size_def
  by (rule sized_codecI) (rule coded_intros | (simp add: AddPartitionsToTxnTopic_ok_def; fail))+

lemmas AddPartitionsToTxnTopic_coded [coded_intros] = sized_codec.codes [OF AddPartitionsToTxnTopic_codec]

definition AddPartitionsToTxnTransaction_encode :: "add_partitions_to_txn_transaction \<Rightarrow> i16 \<Rightarrow> wire_error + bytes" where
  "AddPartitionsToTxnTransaction_encode s version =
     (if version < 0 \<or> version > 5 then Inl UNSUPPORTED_VERSION
      else puts
        [if version \<ge> 4
          then CompactString_encode (Some (apttt2_transactional_id s))
          else unset [] (apttt2_transactional_id s = []),
         if version \<ge> 4
          then Inr (Int64_encode (apttt2_producer_id s))
          else unset [] (apttt2_producer_id s = 0),
         if version \<ge> 4
          then Inr (Int16_encode (apttt2_producer_epoch s))
          else unset [] (apttt2_producer_epoch s = 0),
         if version \<ge> 4
          then Inr (Boolean_encode (apttt2_verify_only s))
          else unset [] (\<not> apttt2_verify_only s),
         if version \<ge> 4
          then CompactArray_encode (\<lambda>x. AddPartitionsToTxnTopic_encode x version) (Some (apttt2_topics s))
          else unset [] (apttt2_topics s = []),
         if version \<ge> 3 then put_tags [] 0 (apttt2_unknown_tagged_fields s) else Inr []])"

definition AddPartitionsToTxnTransaction_compute_size :: "add_partitions_to_txn_transaction \<Rightarrow> i16 \<Rightarrow> wire_error + usize" where
  "AddPartitionsToTxnTransaction_compute_size s version =
     sums
       [if version \<ge> 4
         then CompactString_compute_size (Some (apttt2_transactional_id s))
         else unset 0 (apttt2_transactional_id s = []),
        if version \<ge> 4 then Inr 8 else unset 0 (apttt2_producer_id s = 0),
        if version \<ge> 4 then Inr 2 else unset 0 (apttt2_producer_epoch s = 0),
        if version \<ge> 4 then Inr 1 else unset 0 (\<not> apttt2_verify_only s),
        if version \<ge> 4
         then CompactArray_compute_size None (\<lambda>x. AddPartitionsToTxnTopic_compute_size x version) (Some (apttt2_topics s))
         else unset 0 (apttt2_topics s = []),
        if version \<ge> 3 then tags_size [] (apttt2_unknown_tagged_fields s) else Inr 0]"

definition AddPartitionsToTxnTransaction_decode :: "i16 \<Rightarrow> add_partitions_to_txn_transaction decoder" where
  "AddPartitionsToTxnTransaction_decode version =
     (if version < 0 \<or> version > 5 then refuse UNSUPPORTED_VERSION
      else
        get (if version \<ge> 4 then CompactString_required else give []) (\<lambda>transactional_id.
        get (if version \<ge> 4 then Int64_decode else give 0) (\<lambda>producer_id.
        get (if version \<ge> 4 then Int16_decode else give 0) (\<lambda>producer_epoch.
        get (if version \<ge> 4 then Boolean_decode else give False) (\<lambda>verify_only.
        get (if version \<ge> 4
              then CompactArray_required (AddPartitionsToTxnTopic_decode version)
              else give []) (\<lambda>topics.
        get (if version \<ge> 3 then get_unknown_tags else give []) (\<lambda>unknown_tagged_fields.
        give \<lparr>apttt2_transactional_id = transactional_id, apttt2_producer_id = producer_id,
               apttt2_producer_epoch = producer_epoch, apttt2_verify_only = verify_only,
               apttt2_topics = topics, apttt2_unknown_tagged_fields = unknown_tagged_fields\<rparr>)))))))"

definition AddPartitionsToTxnTransaction_ok :: "i16 \<Rightarrow> add_partitions_to_txn_transaction \<Rightarrow> bool" where
  "AddPartitionsToTxnTransaction_ok version s \<longleftrightarrow>
     \<not> (version < 0 \<or> version > 5) \<and>
     (if version \<ge> 4
       then string_ok (2 ^ 32 - 2) (Some (apttt2_transactional_id s))
       else apttt2_transactional_id s = []) \<and>
     (if version \<ge> 4 then in_i64 (apttt2_producer_id s) else apttt2_producer_id s = 0) \<and>
     (if version \<ge> 4 then in_i16 (apttt2_producer_epoch s) else apttt2_producer_epoch s = 0) \<and>
     (if version \<ge> 4 then True else \<not> apttt2_verify_only s) \<and>
     (if version \<ge> 4
       then seq_ok (2 ^ 32 - 2) (AddPartitionsToTxnTopic_ok version) (Some (apttt2_topics s))
       else apttt2_topics s = []) \<and>
     (if version \<ge> 3 then tags_ok 0 (apttt2_unknown_tagged_fields s) else apttt2_unknown_tagged_fields s = [])"

lemma AddPartitionsToTxnTransaction_codec [coded_intros]:
  "sized_codec (\<lambda>s. AddPartitionsToTxnTransaction_encode s version) (AddPartitionsToTxnTransaction_decode version)
     (\<lambda>s. AddPartitionsToTxnTransaction_compute_size s version) (AddPartitionsToTxnTransaction_ok version)"
  unfolding AddPartitionsToTxnTransaction_encode_def AddPartitionsToTxnTransaction_decode_def AddPartitionsToTxnTransaction_compute_size_def
  by (rule sized_codecI) (rule coded_intros | (simp add: AddPartitionsToTxnTransaction_ok_def; fail))+

lemmas AddPartitionsToTxnTransaction_coded [coded_intros] = sized_codec.codes [OF AddPartitionsToTxnTransaction_codec]

definition AddPartitionsToTxnRequest_encode :: "add_partitions_to_txn_request \<Rightarrow> i16 \<Rightarrow> wire_error + bytes" where
  "AddPartitionsToTxnRequest_encode s version =
     (if version < 0 \<or> version > 5 then Inl UNSUPPORTED_VERSION
      else puts
        [if version \<ge> 4
          then CompactArray_encode (\<lambda>x. AddPartitionsToTxnTransaction_encode x version) (Some (apttrq_transactions s))
          else unset [] (apttrq_transactions s = []),
         if version \<le> 3
          then if version \<ge> 3
                then CompactString_encode (Some (apttrq_v3_and_below_transactional_id s))
                else String_encode (Some (apttrq_v3_and_below_transactional_id s))
          else unset [] (apttrq_v3_and_below_transactional_id s = []),
         if version \<le> 3
          then Inr (Int64_encode (apttrq_v3_and_below_producer_id s))
          else unset [] (apttrq_v3_and_below_producer_id s = 0),
         if version \<le> 3
          then Inr (Int16_encode (apttrq_v3_and_below_producer_epoch s))
          else unset [] (apttrq_v3_and_below_producer_epoch s = 0),
         if version \<le> 3
          then if version \<ge> 3
                then CompactArray_encode (\<lambda>x. AddPartitionsToTxnTopic_encode x version) (Some (apttrq_v3_and_below_topics s))
                else Array_encode (\<lambda>x. AddPartitionsToTxnTopic_encode x version) (Some (apttrq_v3_and_below_topics s))
          else unset [] (apttrq_v3_and_below_topics s = []),
         if version \<ge> 3 then put_tags [] 0 (apttrq_unknown_tagged_fields s) else Inr []])"

definition AddPartitionsToTxnRequest_compute_size :: "add_partitions_to_txn_request \<Rightarrow> i16 \<Rightarrow> wire_error + usize" where
  "AddPartitionsToTxnRequest_compute_size s version =
     sums
       [if version \<ge> 4
         then CompactArray_compute_size None (\<lambda>x. AddPartitionsToTxnTransaction_compute_size x version) (Some (apttrq_transactions s))
         else unset 0 (apttrq_transactions s = []),
        if version \<le> 3
         then if version \<ge> 3
               then CompactString_compute_size (Some (apttrq_v3_and_below_transactional_id s))
               else String_compute_size (Some (apttrq_v3_and_below_transactional_id s))
         else unset 0 (apttrq_v3_and_below_transactional_id s = []),
        if version \<le> 3 then Inr 8 else unset 0 (apttrq_v3_and_below_producer_id s = 0),
        if version \<le> 3 then Inr 2 else unset 0 (apttrq_v3_and_below_producer_epoch s = 0),
        if version \<le> 3
         then if version \<ge> 3
               then CompactArray_compute_size None (\<lambda>x. AddPartitionsToTxnTopic_compute_size x version) (Some (apttrq_v3_and_below_topics s))
               else Array_compute_size None (\<lambda>x. AddPartitionsToTxnTopic_compute_size x version) (Some (apttrq_v3_and_below_topics s))
         else unset 0 (apttrq_v3_and_below_topics s = []),
        if version \<ge> 3 then tags_size [] (apttrq_unknown_tagged_fields s) else Inr 0]"

definition AddPartitionsToTxnRequest_decode :: "i16 \<Rightarrow> add_partitions_to_txn_request decoder" where
  "AddPartitionsToTxnRequest_decode version =
     (if version < 0 \<or> version > 5 then refuse UNSUPPORTED_VERSION
      else
        get (if version \<ge> 4
              then CompactArray_required (AddPartitionsToTxnTransaction_decode version)
              else give []) (\<lambda>transactions.
        get (if version \<le> 3
              then if version \<ge> 3 then CompactString_required else String_required
              else give []) (\<lambda>v3_and_below_transactional_id.
        get (if version \<le> 3 then Int64_decode else give 0) (\<lambda>v3_and_below_producer_id.
        get (if version \<le> 3 then Int16_decode else give 0) (\<lambda>v3_and_below_producer_epoch.
        get (if version \<le> 3
              then if version \<ge> 3
                    then CompactArray_required (AddPartitionsToTxnTopic_decode version)
                    else Array_required (AddPartitionsToTxnTopic_decode version)
              else give []) (\<lambda>v3_and_below_topics.
        get (if version \<ge> 3 then get_unknown_tags else give []) (\<lambda>unknown_tagged_fields.
        give \<lparr>apttrq_transactions = transactions,
               apttrq_v3_and_below_transactional_id = v3_and_below_transactional_id,
               apttrq_v3_and_below_producer_id = v3_and_below_producer_id,
               apttrq_v3_and_below_producer_epoch = v3_and_below_producer_epoch,
               apttrq_v3_and_below_topics = v3_and_below_topics,
               apttrq_unknown_tagged_fields = unknown_tagged_fields\<rparr>)))))))"

definition AddPartitionsToTxnRequest_ok :: "i16 \<Rightarrow> add_partitions_to_txn_request \<Rightarrow> bool" where
  "AddPartitionsToTxnRequest_ok version s \<longleftrightarrow>
     \<not> (version < 0 \<or> version > 5) \<and>
     (if version \<ge> 4
       then seq_ok (2 ^ 32 - 2) (AddPartitionsToTxnTransaction_ok version) (Some (apttrq_transactions s))
       else apttrq_transactions s = []) \<and>
     (if version \<le> 3
       then if version \<ge> 3
             then string_ok (2 ^ 32 - 2) (Some (apttrq_v3_and_below_transactional_id s))
             else string_ok 32767 (Some (apttrq_v3_and_below_transactional_id s))
       else apttrq_v3_and_below_transactional_id s = []) \<and>
     (if version \<le> 3
       then in_i64 (apttrq_v3_and_below_producer_id s)
       else apttrq_v3_and_below_producer_id s = 0) \<and>
     (if version \<le> 3
       then in_i16 (apttrq_v3_and_below_producer_epoch s)
       else apttrq_v3_and_below_producer_epoch s = 0) \<and>
     (if version \<le> 3
       then if version \<ge> 3
             then seq_ok (2 ^ 32 - 2) (AddPartitionsToTxnTopic_ok version) (Some (apttrq_v3_and_below_topics s))
             else seq_ok (2 ^ 31 - 1) (AddPartitionsToTxnTopic_ok version) (Some (apttrq_v3_and_below_topics s))
       else apttrq_v3_and_below_topics s = []) \<and>
     (if version \<ge> 3 then tags_ok 0 (apttrq_unknown_tagged_fields s) else apttrq_unknown_tagged_fields s = [])"

lemma AddPartitionsToTxnRequest_codec [coded_intros]:
  "sized_codec (\<lambda>s. AddPartitionsToTxnRequest_encode s version) (AddPartitionsToTxnRequest_decode version)
     (\<lambda>s. AddPartitionsToTxnRequest_compute_size s version) (AddPartitionsToTxnRequest_ok version)"
  unfolding AddPartitionsToTxnRequest_encode_def AddPartitionsToTxnRequest_decode_def AddPartitionsToTxnRequest_compute_size_def
  by (rule sized_codecI) (rule coded_intros | (simp add: AddPartitionsToTxnRequest_ok_def; fail))+

lemmas AddPartitionsToTxnRequest_coded [coded_intros] = sized_codec.codes [OF AddPartitionsToTxnRequest_codec]

section \<open>End txn request\<close>

definition EndTxnRequest_encode :: "end_txn_request \<Rightarrow> i16 \<Rightarrow> wire_error + bytes" where
  "EndTxnRequest_encode s version =
     (if version < 0 \<or> version > 5 then Inl UNSUPPORTED_VERSION
      else puts
        [if version \<ge> 3
          then CompactString_encode (Some (etrq_transactional_id s))
          else String_encode (Some (etrq_transactional_id s)),
         Inr (Int64_encode (etrq_producer_id s)),
         Inr (Int16_encode (etrq_producer_epoch s)),
         Inr (Boolean_encode (etrq_committed s)),
         if version \<ge> 3 then put_tags [] 0 (etrq_unknown_tagged_fields s) else Inr []])"

definition EndTxnRequest_compute_size :: "end_txn_request \<Rightarrow> i16 \<Rightarrow> wire_error + usize" where
  "EndTxnRequest_compute_size s version =
     sums
       [if version \<ge> 3
         then CompactString_compute_size (Some (etrq_transactional_id s))
         else String_compute_size (Some (etrq_transactional_id s)),
        Inr 8,
        Inr 2,
        Inr 1,
        if version \<ge> 3 then tags_size [] (etrq_unknown_tagged_fields s) else Inr 0]"

definition EndTxnRequest_decode :: "i16 \<Rightarrow> end_txn_request decoder" where
  "EndTxnRequest_decode version =
     (if version < 0 \<or> version > 5 then refuse UNSUPPORTED_VERSION
      else
        get (if version \<ge> 3 then CompactString_required else String_required) (\<lambda>transactional_id.
        get Int64_decode (\<lambda>producer_id.
        get Int16_decode (\<lambda>producer_epoch.
        get Boolean_decode (\<lambda>committed.
        get (if version \<ge> 3 then get_unknown_tags else give []) (\<lambda>unknown_tagged_fields.
        give \<lparr>etrq_transactional_id = transactional_id, etrq_producer_id = producer_id,
               etrq_producer_epoch = producer_epoch, etrq_committed = committed,
               etrq_unknown_tagged_fields = unknown_tagged_fields\<rparr>))))))"

definition EndTxnRequest_ok :: "i16 \<Rightarrow> end_txn_request \<Rightarrow> bool" where
  "EndTxnRequest_ok version s \<longleftrightarrow>
     \<not> (version < 0 \<or> version > 5) \<and>
     (if version \<ge> 3
       then string_ok (2 ^ 32 - 2) (Some (etrq_transactional_id s))
       else string_ok 32767 (Some (etrq_transactional_id s))) \<and>
     in_i64 (etrq_producer_id s) \<and>
     in_i16 (etrq_producer_epoch s) \<and>
     (if version \<ge> 3 then tags_ok 0 (etrq_unknown_tagged_fields s) else etrq_unknown_tagged_fields s = [])"

lemma EndTxnRequest_codec [coded_intros]:
  "sized_codec (\<lambda>s. EndTxnRequest_encode s version) (EndTxnRequest_decode version)
     (\<lambda>s. EndTxnRequest_compute_size s version) (EndTxnRequest_ok version)"
  unfolding EndTxnRequest_encode_def EndTxnRequest_decode_def EndTxnRequest_compute_size_def
  by (rule sized_codecI) (rule coded_intros | (simp add: EndTxnRequest_ok_def; fail))+

lemmas EndTxnRequest_coded [coded_intros] = sized_codec.codes [OF EndTxnRequest_codec]

section \<open>Txn offset commit request\<close>

definition TxnOffsetCommitRequestPartition_encode :: "txn_offset_commit_request_partition \<Rightarrow> i16 \<Rightarrow> wire_error + bytes" where
  "TxnOffsetCommitRequestPartition_encode s version =
     (if version < 0 \<or> version > 5 then Inl UNSUPPORTED_VERSION
      else puts
        [Inr (Int32_encode (tocrqp_partition_index s)),
         Inr (Int64_encode (tocrqp_committed_offset s)),
         if version \<ge> 2 then Inr (Int32_encode (tocrqp_committed_leader_epoch s)) else Inr [],
         if version \<ge> 3
          then CompactString_encode (tocrqp_committed_metadata s)
          else String_encode (tocrqp_committed_metadata s),
         if version \<ge> 3 then put_tags [] 0 (tocrqp_unknown_tagged_fields s) else Inr []])"

definition TxnOffsetCommitRequestPartition_compute_size :: "txn_offset_commit_request_partition \<Rightarrow> i16 \<Rightarrow> wire_error + usize" where
  "TxnOffsetCommitRequestPartition_compute_size s version =
     sums
       [Inr 4,
        Inr 8,
        if version \<ge> 2 then Inr 4 else Inr 0,
        if version \<ge> 3
         then CompactString_compute_size (tocrqp_committed_metadata s)
         else String_compute_size (tocrqp_committed_metadata s),
        if version \<ge> 3 then tags_size [] (tocrqp_unknown_tagged_fields s) else Inr 0]"

definition TxnOffsetCommitRequestPartition_decode :: "i16 \<Rightarrow> txn_offset_commit_request_partition decoder" where
  "TxnOffsetCommitRequestPartition_decode version =
     (if version < 0 \<or> version > 5 then refuse UNSUPPORTED_VERSION
      else
        get Int32_decode (\<lambda>partition_index.
        get Int64_decode (\<lambda>committed_offset.
        get (if version \<ge> 2 then Int32_decode else give (- 1)) (\<lambda>committed_leader_epoch.
        get (if version \<ge> 3 then CompactString_decode else String_decode) (\<lambda>committed_metadata.
        get (if version \<ge> 3 then get_unknown_tags else give []) (\<lambda>unknown_tagged_fields.
        give \<lparr>tocrqp_partition_index = partition_index,
               tocrqp_committed_offset = committed_offset,
               tocrqp_committed_leader_epoch = committed_leader_epoch,
               tocrqp_committed_metadata = committed_metadata,
               tocrqp_unknown_tagged_fields = unknown_tagged_fields\<rparr>))))))"

definition TxnOffsetCommitRequestPartition_ok :: "i16 \<Rightarrow> txn_offset_commit_request_partition \<Rightarrow> bool" where
  "TxnOffsetCommitRequestPartition_ok version s \<longleftrightarrow>
     \<not> (version < 0 \<or> version > 5) \<and>
     in_i32 (tocrqp_partition_index s) \<and>
     in_i64 (tocrqp_committed_offset s) \<and>
     (if version \<ge> 2
       then in_i32 (tocrqp_committed_leader_epoch s)
       else tocrqp_committed_leader_epoch s = - 1) \<and>
     (if version \<ge> 3
       then string_ok (2 ^ 32 - 2) (tocrqp_committed_metadata s)
       else string_ok 32767 (tocrqp_committed_metadata s)) \<and>
     (if version \<ge> 3 then tags_ok 0 (tocrqp_unknown_tagged_fields s) else tocrqp_unknown_tagged_fields s = [])"

lemma TxnOffsetCommitRequestPartition_codec [coded_intros]:
  "sized_codec (\<lambda>s. TxnOffsetCommitRequestPartition_encode s version) (TxnOffsetCommitRequestPartition_decode version)
     (\<lambda>s. TxnOffsetCommitRequestPartition_compute_size s version) (TxnOffsetCommitRequestPartition_ok version)"
  unfolding TxnOffsetCommitRequestPartition_encode_def TxnOffsetCommitRequestPartition_decode_def TxnOffsetCommitRequestPartition_compute_size_def
  by (rule sized_codecI) (rule coded_intros | (simp add: TxnOffsetCommitRequestPartition_ok_def; fail))+

lemmas TxnOffsetCommitRequestPartition_coded [coded_intros] = sized_codec.codes [OF TxnOffsetCommitRequestPartition_codec]

definition TxnOffsetCommitRequestTopic_encode :: "txn_offset_commit_request_topic \<Rightarrow> i16 \<Rightarrow> wire_error + bytes" where
  "TxnOffsetCommitRequestTopic_encode s version =
     (if version < 0 \<or> version > 5 then Inl UNSUPPORTED_VERSION
      else puts
        [if version \<ge> 3
          then CompactString_encode (Some (tocrqt_name s))
          else String_encode (Some (tocrqt_name s)),
         if version \<ge> 3
          then CompactArray_encode (\<lambda>x. TxnOffsetCommitRequestPartition_encode x version) (Some (tocrqt_partitions s))
          else Array_encode (\<lambda>x. TxnOffsetCommitRequestPartition_encode x version) (Some (tocrqt_partitions s)),
         if version \<ge> 3 then put_tags [] 0 (tocrqt_unknown_tagged_fields s) else Inr []])"

definition TxnOffsetCommitRequestTopic_compute_size :: "txn_offset_commit_request_topic \<Rightarrow> i16 \<Rightarrow> wire_error + usize" where
  "TxnOffsetCommitRequestTopic_compute_size s version =
     sums
       [if version \<ge> 3
         then CompactString_compute_size (Some (tocrqt_name s))
         else String_compute_size (Some (tocrqt_name s)),
        if version \<ge> 3
         then CompactArray_compute_size None (\<lambda>x. TxnOffsetCommitRequestPartition_compute_size x version) (Some (tocrqt_partitions s))
         else Array_compute_size None (\<lambda>x. TxnOffsetCommitRequestPartition_compute_size x version) (Some (tocrqt_partitions s)),
        if version \<ge> 3 then tags_size [] (tocrqt_unknown_tagged_fields s) else Inr 0]"

definition TxnOffsetCommitRequestTopic_decode :: "i16 \<Rightarrow> txn_offset_commit_request_topic decoder" where
  "TxnOffsetCommitRequestTopic_decode version =
     (if version < 0 \<or> version > 5 then refuse UNSUPPORTED_VERSION
      else
        get (if version \<ge> 3 then CompactString_required else String_required) (\<lambda>name.
        get (if version \<ge> 3
              then CompactArray_required (TxnOffsetCommitRequestPartition_decode version)
              else Array_required (TxnOffsetCommitRequestPartition_decode version)) (\<lambda>partitions.
        get (if version \<ge> 3 then get_unknown_tags else give []) (\<lambda>unknown_tagged_fields.
        give \<lparr>tocrqt_name = name, tocrqt_partitions = partitions,
               tocrqt_unknown_tagged_fields = unknown_tagged_fields\<rparr>))))"

definition TxnOffsetCommitRequestTopic_ok :: "i16 \<Rightarrow> txn_offset_commit_request_topic \<Rightarrow> bool" where
  "TxnOffsetCommitRequestTopic_ok version s \<longleftrightarrow>
     \<not> (version < 0 \<or> version > 5) \<and>
     (if version \<ge> 3
       then string_ok (2 ^ 32 - 2) (Some (tocrqt_name s))
       else string_ok 32767 (Some (tocrqt_name s))) \<and>
     (if version \<ge> 3
       then seq_ok (2 ^ 32 - 2) (TxnOffsetCommitRequestPartition_ok version) (Some (tocrqt_partitions s))
       else seq_ok (2 ^ 31 - 1) (TxnOffsetCommitRequestPartition_ok version) (Some (tocrqt_partitions s))) \<and>
     (if version \<ge> 3 then tags_ok 0 (tocrqt_unknown_tagged_fields s) else tocrqt_unknown_tagged_fields s = [])"

lemma TxnOffsetCommitRequestTopic_codec [coded_intros]:
  "sized_codec (\<lambda>s. TxnOffsetCommitRequestTopic_encode s version) (TxnOffsetCommitRequestTopic_decode version)
     (\<lambda>s. TxnOffsetCommitRequestTopic_compute_size s version) (TxnOffsetCommitRequestTopic_ok version)"
  unfolding TxnOffsetCommitRequestTopic_encode_def TxnOffsetCommitRequestTopic_decode_def TxnOffsetCommitRequestTopic_compute_size_def
  by (rule sized_codecI) (rule coded_intros | (simp add: TxnOffsetCommitRequestTopic_ok_def; fail))+

lemmas TxnOffsetCommitRequestTopic_coded [coded_intros] = sized_codec.codes [OF TxnOffsetCommitRequestTopic_codec]

definition TxnOffsetCommitRequest_encode :: "txn_offset_commit_request \<Rightarrow> i16 \<Rightarrow> wire_error + bytes" where
  "TxnOffsetCommitRequest_encode s version =
     (if version < 0 \<or> version > 5 then Inl UNSUPPORTED_VERSION
      else puts
        [if version \<ge> 3
          then CompactString_encode (Some (tocrq_transactional_id s))
          else String_encode (Some (tocrq_transactional_id s)),
         if version \<ge> 3
          then CompactString_encode (Some (tocrq_group_id s))
          else String_encode (Some (tocrq_group_id s)),
         Inr (Int64_encode (tocrq_producer_id s)),
         Inr (Int16_encode (tocrq_producer_epoch s)),
         if version \<ge> 3
          then Inr (Int32_encode (tocrq_generation_id s))
          else unset [] (tocrq_generation_id s = - 1),
         if version \<ge> 3
          then CompactString_encode (Some (tocrq_member_id s))
          else unset [] (tocrq_member_id s = []),
         if version \<ge> 3
          then CompactString_encode (tocrq_group_instance_id s)
          else unset [] (tocrq_group_instance_id s = None),
         if version \<ge> 3
          then CompactArray_encode (\<lambda>x. TxnOffsetCommitRequestTopic_encode x version) (Some (tocrq_topics s))
          else Array_encode (\<lambda>x. TxnOffsetCommitRequestTopic_encode x version) (Some (tocrq_topics s)),
         if version \<ge> 3 then put_tags [] 0 (tocrq_unknown_tagged_fields s) else Inr []])"

definition TxnOffsetCommitRequest_compute_size :: "txn_offset_commit_request \<Rightarrow> i16 \<Rightarrow> wire_error + usize" where
  "TxnOffsetCommitRequest_compute_size s version =
     sums
       [if version \<ge> 3
         then CompactString_compute_size (Some (tocrq_transactional_id s))
         else String_compute_size (Some (tocrq_transactional_id s)),
        if version \<ge> 3
         then CompactString_compute_size (Some (tocrq_group_id s))
         else String_compute_size (Some (tocrq_group_id s)),
        Inr 8,
        Inr 2,
        if version \<ge> 3 then Inr 4 else unset 0 (tocrq_generation_id s = - 1),
        if version \<ge> 3
         then CompactString_compute_size (Some (tocrq_member_id s))
         else unset 0 (tocrq_member_id s = []),
        if version \<ge> 3
         then CompactString_compute_size (tocrq_group_instance_id s)
         else unset 0 (tocrq_group_instance_id s = None),
        if version \<ge> 3
         then CompactArray_compute_size None (\<lambda>x. TxnOffsetCommitRequestTopic_compute_size x version) (Some (tocrq_topics s))
         else Array_compute_size None (\<lambda>x. TxnOffsetCommitRequestTopic_compute_size x version) (Some (tocrq_topics s)),
        if version \<ge> 3 then tags_size [] (tocrq_unknown_tagged_fields s) else Inr 0]"

definition TxnOffsetCommitRequest_decode :: "i16 \<Rightarrow> txn_offset_commit_request decoder" where
  "TxnOffsetCommitRequest_decode version =
     (if version < 0 \<or> version > 5 then refuse UNSUPPORTED_VERSION
      else
        get (if version \<ge> 3 then CompactString_required else String_required) (\<lambda>transactional_id.
        get (if version \<ge> 3 then CompactString_required else String_required) (\<lambda>group_id.
        get Int64_decode (\<lambda>producer_id.
        get Int16_decode (\<lambda>producer_epoch.
        get (if version \<ge> 3 then Int32_decode else give (- 1)) (\<lambda>generation_id.
        get (if version \<ge> 3 then CompactString_required else give []) (\<lambda>member_id.
        get (if version \<ge> 3 then CompactString_decode else give None) (\<lambda>group_instance_id.
        get (if version \<ge> 3
              then CompactArray_required (TxnOffsetCommitRequestTopic_decode version)
              else Array_required (TxnOffsetCommitRequestTopic_decode version)) (\<lambda>topics.
        get (if version \<ge> 3 then get_unknown_tags else give []) (\<lambda>unknown_tagged_fields.
        give \<lparr>tocrq_transactional_id = transactional_id, tocrq_group_id = group_id,
               tocrq_producer_id = producer_id, tocrq_producer_epoch = producer_epoch,
               tocrq_generation_id = generation_id, tocrq_member_id = member_id,
               tocrq_group_instance_id = group_instance_id, tocrq_topics = topics,
               tocrq_unknown_tagged_fields = unknown_tagged_fields\<rparr>))))))))))"

definition TxnOffsetCommitRequest_ok :: "i16 \<Rightarrow> txn_offset_commit_request \<Rightarrow> bool" where
  "TxnOffsetCommitRequest_ok version s \<longleftrightarrow>
     \<not> (version < 0 \<or> version > 5) \<and>
     (if version \<ge> 3
       then string_ok (2 ^ 32 - 2) (Some (tocrq_transactional_id s))
       else string_ok 32767 (Some (tocrq_transactional_id s))) \<and>
     (if version \<ge> 3
       then string_ok (2 ^ 32 - 2) (Some (tocrq_group_id s))
       else string_ok 32767 (Some (tocrq_group_id s))) \<and>
     in_i64 (tocrq_producer_id s) \<and>
     in_i16 (tocrq_producer_epoch s) \<and>
     (if version \<ge> 3 then in_i32 (tocrq_generation_id s) else tocrq_generation_id s = - 1) \<and>
     (if version \<ge> 3 then string_ok (2 ^ 32 - 2) (Some (tocrq_member_id s)) else tocrq_member_id s = []) \<and>
     (if version \<ge> 3
       then string_ok (2 ^ 32 - 2) (tocrq_group_instance_id s)
       else tocrq_group_instance_id s = None) \<and>
     (if version \<ge> 3
       then seq_ok (2 ^ 32 - 2) (TxnOffsetCommitRequestTopic_ok version) (Some (tocrq_topics s))
       else seq_ok (2 ^ 31 - 1) (TxnOffsetCommitRequestTopic_ok version) (Some (tocrq_topics s))) \<and>
     (if version \<ge> 3 then tags_ok 0 (tocrq_unknown_tagged_fields s) else tocrq_unknown_tagged_fields s = [])"

lemma TxnOffsetCommitRequest_codec [coded_intros]:
  "sized_codec (\<lambda>s. TxnOffsetCommitRequest_encode s version) (TxnOffsetCommitRequest_decode version)
     (\<lambda>s. TxnOffsetCommitRequest_compute_size s version) (TxnOffsetCommitRequest_ok version)"
  unfolding TxnOffsetCommitRequest_encode_def TxnOffsetCommitRequest_decode_def TxnOffsetCommitRequest_compute_size_def
  by (rule sized_codecI) (rule coded_intros | (simp add: TxnOffsetCommitRequest_ok_def; fail))+

lemmas TxnOffsetCommitRequest_coded [coded_intros] = sized_codec.codes [OF TxnOffsetCommitRequest_codec]

section \<open>Write txn markers request\<close>

definition WritableTxnMarkerTopic_encode :: "writable_txn_marker_topic \<Rightarrow> i16 \<Rightarrow> wire_error + bytes" where
  "WritableTxnMarkerTopic_encode s version =
     (if version < 1 \<or> version > 2 then Inl UNSUPPORTED_VERSION
      else puts
        [CompactString_encode (Some (wtmt_name s)),
         CompactArray_encode (\<lambda>x. Inr (Int32_encode x)) (Some (wtmt_partition_indexes s)),
         put_tags [] 0 (wtmt_unknown_tagged_fields s)])"

definition WritableTxnMarkerTopic_compute_size :: "writable_txn_marker_topic \<Rightarrow> i16 \<Rightarrow> wire_error + usize" where
  "WritableTxnMarkerTopic_compute_size s version =
     sums
       [CompactString_compute_size (Some (wtmt_name s)),
        CompactArray_compute_size (Some 4) (\<lambda>_. Inr 4) (Some (wtmt_partition_indexes s)),
        tags_size [] (wtmt_unknown_tagged_fields s)]"

definition WritableTxnMarkerTopic_decode :: "i16 \<Rightarrow> writable_txn_marker_topic decoder" where
  "WritableTxnMarkerTopic_decode version =
     (if version < 1 \<or> version > 2 then refuse UNSUPPORTED_VERSION
      else
        get CompactString_required (\<lambda>name.
        get (CompactArray_required Int32_decode) (\<lambda>partition_indexes.
        get get_unknown_tags (\<lambda>unknown_tagged_fields.
        give \<lparr>wtmt_name = name, wtmt_partition_indexes = partition_indexes,
               wtmt_unknown_tagged_fields = unknown_tagged_fields\<rparr>))))"

definition WritableTxnMarkerTopic_ok :: "i16 \<Rightarrow> writable_txn_marker_topic \<Rightarrow> bool" where
  "WritableTxnMarkerTopic_ok version s \<longleftrightarrow>
     \<not> (version < 1 \<or> version > 2) \<and>
     string_ok (2 ^ 32 - 2) (Some (wtmt_name s)) \<and>
     seq_ok (2 ^ 32 - 2) in_i32 (Some (wtmt_partition_indexes s)) \<and>
     tags_ok 0 (wtmt_unknown_tagged_fields s)"

lemma WritableTxnMarkerTopic_codec [coded_intros]:
  "sized_codec (\<lambda>s. WritableTxnMarkerTopic_encode s version) (WritableTxnMarkerTopic_decode version)
     (\<lambda>s. WritableTxnMarkerTopic_compute_size s version) (WritableTxnMarkerTopic_ok version)"
  unfolding WritableTxnMarkerTopic_encode_def WritableTxnMarkerTopic_decode_def WritableTxnMarkerTopic_compute_size_def
  by (rule sized_codecI) (rule coded_intros | (simp add: WritableTxnMarkerTopic_ok_def; fail))+

lemmas WritableTxnMarkerTopic_coded [coded_intros] = sized_codec.codes [OF WritableTxnMarkerTopic_codec]

definition WritableTxnMarker_encode :: "writable_txn_marker \<Rightarrow> i16 \<Rightarrow> wire_error + bytes" where
  "WritableTxnMarker_encode s version =
     (if version < 1 \<or> version > 2 then Inl UNSUPPORTED_VERSION
      else puts
        [Inr (Int64_encode (wtm_producer_id s)),
         Inr (Int16_encode (wtm_producer_epoch s)),
         Inr (Boolean_encode (wtm_transaction_result s)),
         CompactArray_encode (\<lambda>x. WritableTxnMarkerTopic_encode x version) (Some (wtm_topics s)),
         Inr (Int32_encode (wtm_coordinator_epoch s)),
         if version \<ge> 2 then Inr (Int8_encode (wtm_transaction_version s)) else Inr [],
         put_tags [] 0 (wtm_unknown_tagged_fields s)])"

definition WritableTxnMarker_compute_size :: "writable_txn_marker \<Rightarrow> i16 \<Rightarrow> wire_error + usize" where
  "WritableTxnMarker_compute_size s version =
     sums
       [Inr 8,
        Inr 2,
        Inr 1,
        CompactArray_compute_size None (\<lambda>x. WritableTxnMarkerTopic_compute_size x version) (Some (wtm_topics s)),
        Inr 4,
        if version \<ge> 2 then Inr 1 else Inr 0,
        tags_size [] (wtm_unknown_tagged_fields s)]"

definition WritableTxnMarker_decode :: "i16 \<Rightarrow> writable_txn_marker decoder" where
  "WritableTxnMarker_decode version =
     (if version < 1 \<or> version > 2 then refuse UNSUPPORTED_VERSION
      else
        get Int64_decode (\<lambda>producer_id.
        get Int16_decode (\<lambda>producer_epoch.
        get Boolean_decode (\<lambda>transaction_result.
        get (CompactArray_required (WritableTxnMarkerTopic_decode version)) (\<lambda>topics.
        get Int32_decode (\<lambda>coordinator_epoch.
        get (if version \<ge> 2 then Int8_decode else give 0) (\<lambda>transaction_version.
        get get_unknown_tags (\<lambda>unknown_tagged_fields.
        give \<lparr>wtm_producer_id = producer_id, wtm_producer_epoch = producer_epoch,
               wtm_transaction_result = transaction_result, wtm_topics = topics,
               wtm_coordinator_epoch = coordinator_epoch,
               wtm_transaction_version = transaction_version,
               wtm_unknown_tagged_fields = unknown_tagged_fields\<rparr>))))))))"

definition WritableTxnMarker_ok :: "i16 \<Rightarrow> writable_txn_marker \<Rightarrow> bool" where
  "WritableTxnMarker_ok version s \<longleftrightarrow>
     \<not> (version < 1 \<or> version > 2) \<and>
     in_i64 (wtm_producer_id s) \<and>
     in_i16 (wtm_producer_epoch s) \<and>
     seq_ok (2 ^ 32 - 2) (WritableTxnMarkerTopic_ok version) (Some (wtm_topics s)) \<and>
     in_i32 (wtm_coordinator_epoch s) \<and>
     (if version \<ge> 2 then in_i8 (wtm_transaction_version s) else wtm_transaction_version s = 0) \<and>
     tags_ok 0 (wtm_unknown_tagged_fields s)"

lemma WritableTxnMarker_codec [coded_intros]:
  "sized_codec (\<lambda>s. WritableTxnMarker_encode s version) (WritableTxnMarker_decode version)
     (\<lambda>s. WritableTxnMarker_compute_size s version) (WritableTxnMarker_ok version)"
  unfolding WritableTxnMarker_encode_def WritableTxnMarker_decode_def WritableTxnMarker_compute_size_def
  by (rule sized_codecI) (rule coded_intros | (clarsimp simp: WritableTxnMarker_ok_def; fail))+

lemmas WritableTxnMarker_coded [coded_intros] = sized_codec.codes [OF WritableTxnMarker_codec]

definition WriteTxnMarkersRequest_encode :: "write_txn_markers_request \<Rightarrow> i16 \<Rightarrow> wire_error + bytes" where
  "WriteTxnMarkersRequest_encode s version =
     (if version < 1 \<or> version > 2 then Inl UNSUPPORTED_VERSION
      else puts
        [CompactArray_encode (\<lambda>x. WritableTxnMarker_encode x version) (Some (wtmrq_markers s)),
         put_tags [] 0 (wtmrq_unknown_tagged_fields s)])"

definition WriteTxnMarkersRequest_compute_size :: "write_txn_markers_request \<Rightarrow> i16 \<Rightarrow> wire_error + usize" where
  "WriteTxnMarkersRequest_compute_size s version =
     sums
       [CompactArray_compute_size None (\<lambda>x. WritableTxnMarker_compute_size x version) (Some (wtmrq_markers s)),
        tags_size [] (wtmrq_unknown_tagged_fields s)]"

definition WriteTxnMarkersRequest_decode :: "i16 \<Rightarrow> write_txn_markers_request decoder" where
  "WriteTxnMarkersRequest_decode version =
     (if version < 1 \<or> version > 2 then refuse UNSUPPORTED_VERSION
      else
        get (CompactArray_required (WritableTxnMarker_decode version)) (\<lambda>markers.
        get get_unknown_tags (\<lambda>unknown_tagged_fields.
        give \<lparr>wtmrq_markers = markers, wtmrq_unknown_tagged_fields = unknown_tagged_fields\<rparr>)))"

definition WriteTxnMarkersRequest_ok :: "i16 \<Rightarrow> write_txn_markers_request \<Rightarrow> bool" where
  "WriteTxnMarkersRequest_ok version s \<longleftrightarrow>
     \<not> (version < 1 \<or> version > 2) \<and>
     seq_ok (2 ^ 32 - 2) (WritableTxnMarker_ok version) (Some (wtmrq_markers s)) \<and>
     tags_ok 0 (wtmrq_unknown_tagged_fields s)"

lemma WriteTxnMarkersRequest_codec [coded_intros]:
  "sized_codec (\<lambda>s. WriteTxnMarkersRequest_encode s version) (WriteTxnMarkersRequest_decode version)
     (\<lambda>s. WriteTxnMarkersRequest_compute_size s version) (WriteTxnMarkersRequest_ok version)"
  unfolding WriteTxnMarkersRequest_encode_def WriteTxnMarkersRequest_decode_def WriteTxnMarkersRequest_compute_size_def
  by (rule sized_codecI) (rule coded_intros | (simp add: WriteTxnMarkersRequest_ok_def; fail))+

lemmas WriteTxnMarkersRequest_coded [coded_intros] = sized_codec.codes [OF WriteTxnMarkersRequest_codec]

section \<open>Describe transactions request\<close>

definition DescribeTransactionsRequest_encode :: "describe_transactions_request \<Rightarrow> i16 \<Rightarrow> wire_error + bytes" where
  "DescribeTransactionsRequest_encode s version =
     (if version \<noteq> 0 then Inl UNSUPPORTED_VERSION
      else puts
        [CompactArray_encode (\<lambda>x. CompactString_encode (Some x)) (Some (dtrq_transactional_ids s)),
         put_tags [] 0 (dtrq_unknown_tagged_fields s)])"

definition DescribeTransactionsRequest_compute_size :: "describe_transactions_request \<Rightarrow> i16 \<Rightarrow> wire_error + usize" where
  "DescribeTransactionsRequest_compute_size s version =
     sums
       [CompactArray_compute_size None (\<lambda>x. CompactString_compute_size (Some x)) (Some (dtrq_transactional_ids s)),
        tags_size [] (dtrq_unknown_tagged_fields s)]"

definition DescribeTransactionsRequest_decode :: "i16 \<Rightarrow> describe_transactions_request decoder" where
  "DescribeTransactionsRequest_decode version =
     (if version \<noteq> 0 then refuse UNSUPPORTED_VERSION
      else
        get (CompactArray_required CompactString_required) (\<lambda>transactional_ids.
        get get_unknown_tags (\<lambda>unknown_tagged_fields.
        give \<lparr>dtrq_transactional_ids = transactional_ids,
               dtrq_unknown_tagged_fields = unknown_tagged_fields\<rparr>)))"

definition DescribeTransactionsRequest_ok :: "i16 \<Rightarrow> describe_transactions_request \<Rightarrow> bool" where
  "DescribeTransactionsRequest_ok version s \<longleftrightarrow>
     \<not> (version \<noteq> 0) \<and>
     seq_ok (2 ^ 32 - 2) (\<lambda>x. string_ok (2 ^ 32 - 2) (Some x)) (Some (dtrq_transactional_ids s)) \<and>
     tags_ok 0 (dtrq_unknown_tagged_fields s)"

lemma DescribeTransactionsRequest_codec [coded_intros]:
  "sized_codec (\<lambda>s. DescribeTransactionsRequest_encode s version) (DescribeTransactionsRequest_decode version)
     (\<lambda>s. DescribeTransactionsRequest_compute_size s version) (DescribeTransactionsRequest_ok version)"
  unfolding DescribeTransactionsRequest_encode_def DescribeTransactionsRequest_decode_def DescribeTransactionsRequest_compute_size_def
  by (rule sized_codecI) (rule coded_intros | (clarsimp simp: DescribeTransactionsRequest_ok_def; fail))+

lemmas DescribeTransactionsRequest_coded [coded_intros] = sized_codec.codes [OF DescribeTransactionsRequest_codec]

section \<open>List transactions request\<close>

definition ListTransactionsRequest_encode :: "list_transactions_request \<Rightarrow> i16 \<Rightarrow> wire_error + bytes" where
  "ListTransactionsRequest_encode s version =
     (if version < 0 \<or> version > 2 then Inl UNSUPPORTED_VERSION
      else puts
        [CompactArray_encode (\<lambda>x. CompactString_encode (Some x)) (Some (ltrq_state_filters s)),
         CompactArray_encode (\<lambda>x. Inr (Int64_encode x)) (Some (ltrq_producer_id_filters s)),
         if version \<ge> 1
          then Inr (Int64_encode (ltrq_duration_filter s))
          else unset [] (ltrq_duration_filter s = - 1),
         if version \<ge> 2
          then CompactString_encode (ltrq_transactional_id_pattern s)
          else unset [] (ltrq_transactional_id_pattern s = None),
         put_tags [] 0 (ltrq_unknown_tagged_fields s)])"

definition ListTransactionsRequest_compute_size :: "list_transactions_request \<Rightarrow> i16 \<Rightarrow> wire_error + usize" where
  "ListTransactionsRequest_compute_size s version =
     sums
       [CompactArray_compute_size None (\<lambda>x. CompactString_compute_size (Some x)) (Some (ltrq_state_filters s)),
        CompactArray_compute_size (Some 8) (\<lambda>_. Inr 8) (Some (ltrq_producer_id_filters s)),
        if version \<ge> 1 then Inr 8 else unset 0 (ltrq_duration_filter s = - 1),
        if version \<ge> 2
         then CompactString_compute_size (ltrq_transactional_id_pattern s)
         else unset 0 (ltrq_transactional_id_pattern s = None),
        tags_size [] (ltrq_unknown_tagged_fields s)]"

definition ListTransactionsRequest_decode :: "i16 \<Rightarrow> list_transactions_request decoder" where
  "ListTransactionsRequest_decode version =
     (if version < 0 \<or> version > 2 then refuse UNSUPPORTED_VERSION
      else
        get (CompactArray_required CompactString_required) (\<lambda>state_filters.
        get (CompactArray_required Int64_decode) (\<lambda>producer_id_filters.
        get (if version \<ge> 1 then Int64_decode else give (- 1)) (\<lambda>duration_filter.
        get (if version \<ge> 2 then CompactString_decode else give None) (\<lambda>transactional_id_pattern.
        get get_unknown_tags (\<lambda>unknown_tagged_fields.
        give \<lparr>ltrq_state_filters = state_filters,
               ltrq_producer_id_filters = producer_id_filters, ltrq_duration_filter = duration_filter,
               ltrq_transactional_id_pattern = transactional_id_pattern,
               ltrq_unknown_tagged_fields = unknown_tagged_fields\<rparr>))))))"

definition ListTransactionsRequest_ok :: "i16 \<Rightarrow> list_transactions_request \<Rightarrow> bool" where
  "ListTransactionsRequest_ok version s \<longleftrightarrow>
     \<not> (version < 0 \<or> version > 2) \<and>
     seq_ok (2 ^ 32 - 2) (\<lambda>x. string_ok (2 ^ 32 - 2) (Some x)) (Some (ltrq_state_filters s)) \<and>
     seq_ok (2 ^ 32 - 2) in_i64 (Some (ltrq_producer_id_filters s)) \<and>
     (if version \<ge> 1 then in_i64 (ltrq_duration_filter s) else ltrq_duration_filter s = - 1) \<and>
     (if version \<ge> 2
       then string_ok (2 ^ 32 - 2) (ltrq_transactional_id_pattern s)
       else ltrq_transactional_id_pattern s = None) \<and>
     tags_ok 0 (ltrq_unknown_tagged_fields s)"

lemma ListTransactionsRequest_codec [coded_intros]:
  "sized_codec (\<lambda>s. ListTransactionsRequest_encode s version) (ListTransactionsRequest_decode version)
     (\<lambda>s. ListTransactionsRequest_compute_size s version) (ListTransactionsRequest_ok version)"
  unfolding ListTransactionsRequest_encode_def ListTransactionsRequest_decode_def ListTransactionsRequest_compute_size_def
  by (rule sized_codecI) (rule coded_intros | (clarsimp simp: ListTransactionsRequest_ok_def; fail))+

lemmas ListTransactionsRequest_coded [coded_intros] = sized_codec.codes [OF ListTransactionsRequest_codec]

section \<open>Describe producers request\<close>

definition DescribeProducersRequestTopicRequest_encode :: "describe_producers_request_topic_request \<Rightarrow> i16 \<Rightarrow> wire_error + bytes" where
  "DescribeProducersRequestTopicRequest_encode s version =
     (if version \<noteq> 0 then Inl UNSUPPORTED_VERSION
      else puts
        [CompactString_encode (Some (dprqtrq_name s)),
         CompactArray_encode (\<lambda>x. Inr (Int32_encode x)) (Some (dprqtrq_partition_indexes s)),
         put_tags [] 0 (dprqtrq_unknown_tagged_fields s)])"

definition DescribeProducersRequestTopicRequest_compute_size :: "describe_producers_request_topic_request \<Rightarrow> i16 \<Rightarrow> wire_error + usize" where
  "DescribeProducersRequestTopicRequest_compute_size s version =
     sums
       [CompactString_compute_size (Some (dprqtrq_name s)),
        CompactArray_compute_size (Some 4) (\<lambda>_. Inr 4) (Some (dprqtrq_partition_indexes s)),
        tags_size [] (dprqtrq_unknown_tagged_fields s)]"

definition DescribeProducersRequestTopicRequest_decode :: "i16 \<Rightarrow> describe_producers_request_topic_request decoder" where
  "DescribeProducersRequestTopicRequest_decode version =
     (if version \<noteq> 0 then refuse UNSUPPORTED_VERSION
      else
        get CompactString_required (\<lambda>name.
        get (CompactArray_required Int32_decode) (\<lambda>partition_indexes.
        get get_unknown_tags (\<lambda>unknown_tagged_fields.
        give \<lparr>dprqtrq_name = name, dprqtrq_partition_indexes = partition_indexes,
               dprqtrq_unknown_tagged_fields = unknown_tagged_fields\<rparr>))))"

definition DescribeProducersRequestTopicRequest_ok :: "i16 \<Rightarrow> describe_producers_request_topic_request \<Rightarrow> bool" where
  "DescribeProducersRequestTopicRequest_ok version s \<longleftrightarrow>
     \<not> (version \<noteq> 0) \<and>
     string_ok (2 ^ 32 - 2) (Some (dprqtrq_name s)) \<and>
     seq_ok (2 ^ 32 - 2) in_i32 (Some (dprqtrq_partition_indexes s)) \<and>
     tags_ok 0 (dprqtrq_unknown_tagged_fields s)"

lemma DescribeProducersRequestTopicRequest_codec [coded_intros]:
  "sized_codec (\<lambda>s. DescribeProducersRequestTopicRequest_encode s version) (DescribeProducersRequestTopicRequest_decode version)
     (\<lambda>s. DescribeProducersRequestTopicRequest_compute_size s version) (DescribeProducersRequestTopicRequest_ok version)"
  unfolding DescribeProducersRequestTopicRequest_encode_def DescribeProducersRequestTopicRequest_decode_def DescribeProducersRequestTopicRequest_compute_size_def
  by (rule sized_codecI) (rule coded_intros | (clarsimp simp: DescribeProducersRequestTopicRequest_ok_def; fail))+

lemmas DescribeProducersRequestTopicRequest_coded [coded_intros] = sized_codec.codes [OF DescribeProducersRequestTopicRequest_codec]

definition DescribeProducersRequest_encode :: "describe_producers_request \<Rightarrow> i16 \<Rightarrow> wire_error + bytes" where
  "DescribeProducersRequest_encode s version =
     (if version \<noteq> 0 then Inl UNSUPPORTED_VERSION
      else puts
        [CompactArray_encode (\<lambda>x. DescribeProducersRequestTopicRequest_encode x version) (Some (dprq_topics s)),
         put_tags [] 0 (dprq_unknown_tagged_fields s)])"

definition DescribeProducersRequest_compute_size :: "describe_producers_request \<Rightarrow> i16 \<Rightarrow> wire_error + usize" where
  "DescribeProducersRequest_compute_size s version =
     sums
       [CompactArray_compute_size None (\<lambda>x. DescribeProducersRequestTopicRequest_compute_size x version) (Some (dprq_topics s)),
        tags_size [] (dprq_unknown_tagged_fields s)]"

definition DescribeProducersRequest_decode :: "i16 \<Rightarrow> describe_producers_request decoder" where
  "DescribeProducersRequest_decode version =
     (if version \<noteq> 0 then refuse UNSUPPORTED_VERSION
      else
        get (CompactArray_required (DescribeProducersRequestTopicRequest_decode version)) (\<lambda>topics.
        get get_unknown_tags (\<lambda>unknown_tagged_fields.
        give \<lparr>dprq_topics = topics, dprq_unknown_tagged_fields = unknown_tagged_fields\<rparr>)))"

definition DescribeProducersRequest_ok :: "i16 \<Rightarrow> describe_producers_request \<Rightarrow> bool" where
  "DescribeProducersRequest_ok version s \<longleftrightarrow>
     \<not> (version \<noteq> 0) \<and>
     seq_ok (2 ^ 32 - 2) (DescribeProducersRequestTopicRequest_ok version) (Some (dprq_topics s)) \<and>
     tags_ok 0 (dprq_unknown_tagged_fields s)"

lemma DescribeProducersRequest_codec [coded_intros]:
  "sized_codec (\<lambda>s. DescribeProducersRequest_encode s version) (DescribeProducersRequest_decode version)
     (\<lambda>s. DescribeProducersRequest_compute_size s version) (DescribeProducersRequest_ok version)"
  unfolding DescribeProducersRequest_encode_def DescribeProducersRequest_decode_def DescribeProducersRequest_compute_size_def
  by (rule sized_codecI) (rule coded_intros | (clarsimp simp: DescribeProducersRequest_ok_def; fail))+

lemmas DescribeProducersRequest_coded [coded_intros] = sized_codec.codes [OF DescribeProducersRequest_codec]

section \<open>Allocate producer ids request\<close>

definition AllocateProducerIdsRequest_encode :: "allocate_producer_ids_request \<Rightarrow> i16 \<Rightarrow> wire_error + bytes" where
  "AllocateProducerIdsRequest_encode s version =
     (if version \<noteq> 0 then Inl UNSUPPORTED_VERSION
      else puts
        [Inr (Int32_encode (apirq_broker_id s)),
         Inr (Int64_encode (apirq_broker_epoch s)),
         put_tags [] 0 (apirq_unknown_tagged_fields s)])"

definition AllocateProducerIdsRequest_compute_size :: "allocate_producer_ids_request \<Rightarrow> i16 \<Rightarrow> wire_error + usize" where
  "AllocateProducerIdsRequest_compute_size s version =
     sums
       [Inr 4,
        Inr 8,
        tags_size [] (apirq_unknown_tagged_fields s)]"

definition AllocateProducerIdsRequest_decode :: "i16 \<Rightarrow> allocate_producer_ids_request decoder" where
  "AllocateProducerIdsRequest_decode version =
     (if version \<noteq> 0 then refuse UNSUPPORTED_VERSION
      else
        get Int32_decode (\<lambda>broker_id.
        get Int64_decode (\<lambda>broker_epoch.
        get get_unknown_tags (\<lambda>unknown_tagged_fields.
        give \<lparr>apirq_broker_id = broker_id, apirq_broker_epoch = broker_epoch,
               apirq_unknown_tagged_fields = unknown_tagged_fields\<rparr>))))"

definition AllocateProducerIdsRequest_ok :: "i16 \<Rightarrow> allocate_producer_ids_request \<Rightarrow> bool" where
  "AllocateProducerIdsRequest_ok version s \<longleftrightarrow>
     \<not> (version \<noteq> 0) \<and>
     in_i32 (apirq_broker_id s) \<and>
     in_i64 (apirq_broker_epoch s) \<and>
     tags_ok 0 (apirq_unknown_tagged_fields s)"

lemma AllocateProducerIdsRequest_codec [coded_intros]:
  "sized_codec (\<lambda>s. AllocateProducerIdsRequest_encode s version) (AllocateProducerIdsRequest_decode version)
     (\<lambda>s. AllocateProducerIdsRequest_compute_size s version) (AllocateProducerIdsRequest_ok version)"
  unfolding AllocateProducerIdsRequest_encode_def AllocateProducerIdsRequest_decode_def AllocateProducerIdsRequest_compute_size_def
  by (rule sized_codecI) (rule coded_intros | (clarsimp simp: AllocateProducerIdsRequest_ok_def; fail))+

lemmas AllocateProducerIdsRequest_coded [coded_intros] = sized_codec.codes [OF AllocateProducerIdsRequest_codec]

section \<open>Bodies\<close>

text \<open>The variants of \<open>RequestKind\<close> (\<open>messages.rs\<close>) with these requests, and their codecs by API key. The match on the key is exhaustive; its last arm is the last key of the group.\<close>

datatype txn_request =
  AddPartitionsToTxnRequest add_partitions_to_txn_request
| AddOffsetsToTxnRequest add_offsets_to_txn_request
| EndTxnRequest end_txn_request
| WriteTxnMarkersRequest write_txn_markers_request
| TxnOffsetCommitRequest txn_offset_commit_request
| DescribeProducersRequest describe_producers_request
| DescribeTransactionsRequest describe_transactions_request
| ListTransactionsRequest list_transactions_request
| AllocateProducerIdsRequest allocate_producer_ids_request

fun txn_request_key :: "txn_request \<Rightarrow> i16" where
  "txn_request_key (AddPartitionsToTxnRequest _) = 24"
| "txn_request_key (AddOffsetsToTxnRequest _) = 25"
| "txn_request_key (EndTxnRequest _) = 26"
| "txn_request_key (WriteTxnMarkersRequest _) = 27"
| "txn_request_key (TxnOffsetCommitRequest _) = 28"
| "txn_request_key (DescribeProducersRequest _) = 61"
| "txn_request_key (DescribeTransactionsRequest _) = 65"
| "txn_request_key (ListTransactionsRequest _) = 66"
| "txn_request_key (AllocateProducerIdsRequest _) = 67"

fun txn_request_encode :: "txn_request \<Rightarrow> i16 \<Rightarrow> wire_error + bytes" where
  "txn_request_encode (AddPartitionsToTxnRequest x) version = AddPartitionsToTxnRequest_encode x version"
| "txn_request_encode (AddOffsetsToTxnRequest x) version = AddOffsetsToTxnRequest_encode x version"
| "txn_request_encode (EndTxnRequest x) version = EndTxnRequest_encode x version"
| "txn_request_encode (WriteTxnMarkersRequest x) version = WriteTxnMarkersRequest_encode x version"
| "txn_request_encode (TxnOffsetCommitRequest x) version = TxnOffsetCommitRequest_encode x version"
| "txn_request_encode (DescribeProducersRequest x) version = DescribeProducersRequest_encode x version"
| "txn_request_encode (DescribeTransactionsRequest x) version = DescribeTransactionsRequest_encode x version"
| "txn_request_encode (ListTransactionsRequest x) version = ListTransactionsRequest_encode x version"
| "txn_request_encode (AllocateProducerIdsRequest x) version = AllocateProducerIdsRequest_encode x version"

definition txn_request_decode :: "i16 \<Rightarrow> i16 \<Rightarrow> txn_request decoder" where
  "txn_request_decode key version =
     (if key = 24 then get (AddPartitionsToTxnRequest_decode version) (\<lambda>x. give (AddPartitionsToTxnRequest x))
      else if key = 25 then get (AddOffsetsToTxnRequest_decode version) (\<lambda>x. give (AddOffsetsToTxnRequest x))
      else if key = 26 then get (EndTxnRequest_decode version) (\<lambda>x. give (EndTxnRequest x))
      else if key = 27 then get (WriteTxnMarkersRequest_decode version) (\<lambda>x. give (WriteTxnMarkersRequest x))
      else if key = 28 then get (TxnOffsetCommitRequest_decode version) (\<lambda>x. give (TxnOffsetCommitRequest x))
      else if key = 61 then get (DescribeProducersRequest_decode version) (\<lambda>x. give (DescribeProducersRequest x))
      else if key = 65 then get (DescribeTransactionsRequest_decode version) (\<lambda>x. give (DescribeTransactionsRequest x))
      else if key = 66 then get (ListTransactionsRequest_decode version) (\<lambda>x. give (ListTransactionsRequest x))
      else get (AllocateProducerIdsRequest_decode version) (\<lambda>x. give (AllocateProducerIdsRequest x)))"

fun txn_request_size :: "i16 \<Rightarrow> txn_request \<Rightarrow> wire_error + usize" where
  "txn_request_size version (AddPartitionsToTxnRequest x) = AddPartitionsToTxnRequest_compute_size x version"
| "txn_request_size version (AddOffsetsToTxnRequest x) = AddOffsetsToTxnRequest_compute_size x version"
| "txn_request_size version (EndTxnRequest x) = EndTxnRequest_compute_size x version"
| "txn_request_size version (WriteTxnMarkersRequest x) = WriteTxnMarkersRequest_compute_size x version"
| "txn_request_size version (TxnOffsetCommitRequest x) = TxnOffsetCommitRequest_compute_size x version"
| "txn_request_size version (DescribeProducersRequest x) = DescribeProducersRequest_compute_size x version"
| "txn_request_size version (DescribeTransactionsRequest x) = DescribeTransactionsRequest_compute_size x version"
| "txn_request_size version (ListTransactionsRequest x) = ListTransactionsRequest_compute_size x version"
| "txn_request_size version (AllocateProducerIdsRequest x) = AllocateProducerIdsRequest_compute_size x version"

fun txn_request_ok :: "i16 \<Rightarrow> txn_request \<Rightarrow> bool" where
  "txn_request_ok version (AddPartitionsToTxnRequest x) = AddPartitionsToTxnRequest_ok version x"
| "txn_request_ok version (AddOffsetsToTxnRequest x) = AddOffsetsToTxnRequest_ok version x"
| "txn_request_ok version (EndTxnRequest x) = EndTxnRequest_ok version x"
| "txn_request_ok version (WriteTxnMarkersRequest x) = WriteTxnMarkersRequest_ok version x"
| "txn_request_ok version (TxnOffsetCommitRequest x) = TxnOffsetCommitRequest_ok version x"
| "txn_request_ok version (DescribeProducersRequest x) = DescribeProducersRequest_ok version x"
| "txn_request_ok version (DescribeTransactionsRequest x) = DescribeTransactionsRequest_ok version x"
| "txn_request_ok version (ListTransactionsRequest x) = ListTransactionsRequest_ok version x"
| "txn_request_ok version (AllocateProducerIdsRequest x) = AllocateProducerIdsRequest_ok version x"

lemma txn_request_coded:
  "txn_request_ok version body \<Longrightarrow>
   coded (txn_request_encode body version) (txn_request_decode (txn_request_key body) version) (txn_request_size version body) body"
  by (cases body) (simp_all add: txn_request_decode_def coded_tag_value
    AddPartitionsToTxnRequest_coded AddOffsetsToTxnRequest_coded EndTxnRequest_coded WriteTxnMarkersRequest_coded TxnOffsetCommitRequest_coded DescribeProducersRequest_coded DescribeTransactionsRequest_coded ListTransactionsRequest_coded AllocateProducerIdsRequest_coded)

end
