(* ===== verification/Messages_Admin.thy ===== *)
theory Messages_Admin
  imports Prelude
begin

text \<open>
  Requests about the administration of topics, partitions and groups, which the broker does not serve
  (\<open>src/crates/kafka-protocol/src/messages/\<close>). Every message is a record with the fields of the Rust structure, and its
  \<open>_default\<close> is the value of \<open>Default::default()\<close>.
\<close>

section \<open>Create partitions request\<close>

record create_partitions_assignment =
  cpa_broker_ids :: "i32 list"
  cpa_unknown_tagged_fields :: "(i32, bytes) btree_map"

definition create_partitions_assignment_default :: create_partitions_assignment where
  "create_partitions_assignment_default =
     \<lparr>cpa_broker_ids = [], cpa_unknown_tagged_fields = []\<rparr>"

record create_partitions_topic =
  cpt_name :: string
  cpt_count :: i32
  cpt_assignments :: "create_partitions_assignment list option"
  cpt_unknown_tagged_fields :: "(i32, bytes) btree_map"

definition create_partitions_topic_default :: create_partitions_topic where
  "create_partitions_topic_default =
     \<lparr>cpt_name = [], cpt_count = 0, cpt_assignments = Some [],
      cpt_unknown_tagged_fields = []\<rparr>"

record create_partitions_request =
  cprq_topics :: "create_partitions_topic list"
  cprq_timeout_ms :: i32
  cprq_validate_only :: bool
  cprq_unknown_tagged_fields :: "(i32, bytes) btree_map"

definition create_partitions_request_default :: create_partitions_request where
  "create_partitions_request_default =
     \<lparr>cprq_topics = [], cprq_timeout_ms = 0, cprq_validate_only = False,
      cprq_unknown_tagged_fields = []\<rparr>"

section \<open>Delete topics request\<close>

record delete_topic_state =
  dts_name :: "string option"
  dts_topic_id :: uuid
  dts_unknown_tagged_fields :: "(i32, bytes) btree_map"

definition delete_topic_state_default :: delete_topic_state where
  "delete_topic_state_default =
     \<lparr>dts_name = None, dts_topic_id = nil_uuid, dts_unknown_tagged_fields = []\<rparr>"

record delete_topics_request =
  dtrq2_topics :: "delete_topic_state list"
  dtrq2_topic_names :: "string list"
  dtrq2_timeout_ms :: i32
  dtrq2_unknown_tagged_fields :: "(i32, bytes) btree_map"

definition delete_topics_request_default :: delete_topics_request where
  "delete_topics_request_default =
     \<lparr>dtrq2_topics = [], dtrq2_topic_names = [], dtrq2_timeout_ms = 0,
      dtrq2_unknown_tagged_fields = []\<rparr>"

section \<open>Delete records request\<close>

record delete_records_partition =
  drp_partition_index :: i32
  drp_offset :: i64
  drp_unknown_tagged_fields :: "(i32, bytes) btree_map"

definition delete_records_partition_default :: delete_records_partition where
  "delete_records_partition_default =
     \<lparr>drp_partition_index = 0, drp_offset = 0, drp_unknown_tagged_fields = []\<rparr>"

record delete_records_topic =
  drt_name :: string
  drt_partitions :: "delete_records_partition list"
  drt_unknown_tagged_fields :: "(i32, bytes) btree_map"

definition delete_records_topic_default :: delete_records_topic where
  "delete_records_topic_default =
     \<lparr>drt_name = [], drt_partitions = [], drt_unknown_tagged_fields = []\<rparr>"

record delete_records_request =
  drrq_topics :: "delete_records_topic list"
  drrq_timeout_ms :: i32
  drrq_unknown_tagged_fields :: "(i32, bytes) btree_map"

definition delete_records_request_default :: delete_records_request where
  "delete_records_request_default =
     \<lparr>drrq_topics = [], drrq_timeout_ms = 0, drrq_unknown_tagged_fields = []\<rparr>"

section \<open>Elect leaders request\<close>

record elect_leaders_request_topic_partitions =
  elrqtp_topic :: string
  elrqtp_partitions :: "i32 list"
  elrqtp_unknown_tagged_fields :: "(i32, bytes) btree_map"

definition elect_leaders_request_topic_partitions_default :: elect_leaders_request_topic_partitions where
  "elect_leaders_request_topic_partitions_default =
     \<lparr>elrqtp_topic = [], elrqtp_partitions = [], elrqtp_unknown_tagged_fields = []\<rparr>"

record elect_leaders_request =
  elrq_election_type :: i8
  elrq_topic_partitions :: "elect_leaders_request_topic_partitions list option"
  elrq_timeout_ms :: i32
  elrq_unknown_tagged_fields :: "(i32, bytes) btree_map"

definition elect_leaders_request_default :: elect_leaders_request where
  "elect_leaders_request_default =
     \<lparr>elrq_election_type = 0, elrq_topic_partitions = Some [], elrq_timeout_ms = 60000,
      elrq_unknown_tagged_fields = []\<rparr>"

section \<open>Alter partition reassignments request\<close>

record reassignable_partition =
  rp2_partition_index :: i32
  rp2_replicas :: "i32 list option"
  rp2_unknown_tagged_fields :: "(i32, bytes) btree_map"

definition reassignable_partition_default :: reassignable_partition where
  "reassignable_partition_default =
     \<lparr>rp2_partition_index = 0, rp2_replicas = None, rp2_unknown_tagged_fields = []\<rparr>"

record reassignable_topic =
  rt_name :: string
  rt_partitions :: "reassignable_partition list"
  rt_unknown_tagged_fields :: "(i32, bytes) btree_map"

definition reassignable_topic_default :: reassignable_topic where
  "reassignable_topic_default =
     \<lparr>rt_name = [], rt_partitions = [], rt_unknown_tagged_fields = []\<rparr>"

record alter_partition_reassignments_request =
  aprrq_timeout_ms :: i32
  aprrq_allow_replication_factor_change :: bool
  aprrq_topics :: "reassignable_topic list"
  aprrq_unknown_tagged_fields :: "(i32, bytes) btree_map"

definition alter_partition_reassignments_request_default :: alter_partition_reassignments_request where
  "alter_partition_reassignments_request_default =
     \<lparr>aprrq_timeout_ms = 60000, aprrq_allow_replication_factor_change = True, aprrq_topics = [],
      aprrq_unknown_tagged_fields = []\<rparr>"

section \<open>List partition reassignments request\<close>

record list_partition_reassignments_topics =
  lprt_name :: string
  lprt_partition_indexes :: "i32 list"
  lprt_unknown_tagged_fields :: "(i32, bytes) btree_map"

definition list_partition_reassignments_topics_default :: list_partition_reassignments_topics where
  "list_partition_reassignments_topics_default =
     \<lparr>lprt_name = [], lprt_partition_indexes = [], lprt_unknown_tagged_fields = []\<rparr>"

record list_partition_reassignments_request =
  lprrq_timeout_ms :: i32
  lprrq_topics :: "list_partition_reassignments_topics list option"
  lprrq_unknown_tagged_fields :: "(i32, bytes) btree_map"

definition list_partition_reassignments_request_default :: list_partition_reassignments_request where
  "list_partition_reassignments_request_default =
     \<lparr>lprrq_timeout_ms = 60000, lprrq_topics = None, lprrq_unknown_tagged_fields = []\<rparr>"

section \<open>Alter replica log dirs request\<close>

record alter_replica_log_dir_topic =
  arldt_name :: string
  arldt_partitions :: "i32 list"
  arldt_unknown_tagged_fields :: "(i32, bytes) btree_map"

definition alter_replica_log_dir_topic_default :: alter_replica_log_dir_topic where
  "alter_replica_log_dir_topic_default =
     \<lparr>arldt_name = [], arldt_partitions = [], arldt_unknown_tagged_fields = []\<rparr>"

record alter_replica_log_dir =
  arld_path :: string
  arld_topics :: "alter_replica_log_dir_topic list"
  arld_unknown_tagged_fields :: "(i32, bytes) btree_map"

definition alter_replica_log_dir_default :: alter_replica_log_dir where
  "alter_replica_log_dir_default =
     \<lparr>arld_path = [], arld_topics = [], arld_unknown_tagged_fields = []\<rparr>"

record alter_replica_log_dirs_request =
  arldrq_dirs :: "alter_replica_log_dir list"
  arldrq_unknown_tagged_fields :: "(i32, bytes) btree_map"

definition alter_replica_log_dirs_request_default :: alter_replica_log_dirs_request where
  "alter_replica_log_dirs_request_default =
     \<lparr>arldrq_dirs = [], arldrq_unknown_tagged_fields = []\<rparr>"

section \<open>Describe log dirs request\<close>

record describable_log_dir_topic =
  dldt_topic :: string
  dldt_partitions :: "i32 list"
  dldt_unknown_tagged_fields :: "(i32, bytes) btree_map"

definition describable_log_dir_topic_default :: describable_log_dir_topic where
  "describable_log_dir_topic_default =
     \<lparr>dldt_topic = [], dldt_partitions = [], dldt_unknown_tagged_fields = []\<rparr>"

record describe_log_dirs_request =
  dldrq_topics :: "describable_log_dir_topic list option"
  dldrq_unknown_tagged_fields :: "(i32, bytes) btree_map"

definition describe_log_dirs_request_default :: describe_log_dirs_request where
  "describe_log_dirs_request_default =
     \<lparr>dldrq_topics = Some [], dldrq_unknown_tagged_fields = []\<rparr>"

section \<open>Delete groups request\<close>

record delete_groups_request =
  dgrq2_groups_names :: "string list"
  dgrq2_unknown_tagged_fields :: "(i32, bytes) btree_map"

definition delete_groups_request_default :: delete_groups_request where
  "delete_groups_request_default =
     \<lparr>dgrq2_groups_names = [], dgrq2_unknown_tagged_fields = []\<rparr>"

section \<open>Offset delete request\<close>

record offset_delete_request_partition =
  odrqp_partition_index :: i32

definition offset_delete_request_partition_default :: offset_delete_request_partition where
  "offset_delete_request_partition_default =
     \<lparr>odrqp_partition_index = 0\<rparr>"

record offset_delete_request_topic =
  odrqt_name :: string
  odrqt_partitions :: "offset_delete_request_partition list"

definition offset_delete_request_topic_default :: offset_delete_request_topic where
  "offset_delete_request_topic_default =
     \<lparr>odrqt_name = [], odrqt_partitions = []\<rparr>"

record offset_delete_request =
  odrq_group_id :: string
  odrq_topics :: "offset_delete_request_topic list"

definition offset_delete_request_default :: offset_delete_request where
  "offset_delete_request_default =
     \<lparr>odrq_group_id = [], odrq_topics = []\<rparr>"

section \<open>Offset for leader epoch request\<close>

record offset_for_leader_partition =
  oflp_partition :: i32
  oflp_current_leader_epoch :: i32
  oflp_leader_epoch :: i32
  oflp_unknown_tagged_fields :: "(i32, bytes) btree_map"

definition offset_for_leader_partition_default :: offset_for_leader_partition where
  "offset_for_leader_partition_default =
     \<lparr>oflp_partition = 0, oflp_current_leader_epoch = - 1, oflp_leader_epoch = 0,
      oflp_unknown_tagged_fields = []\<rparr>"

record offset_for_leader_topic =
  oflt_topic :: string
  oflt_partitions :: "offset_for_leader_partition list"
  oflt_unknown_tagged_fields :: "(i32, bytes) btree_map"

definition offset_for_leader_topic_default :: offset_for_leader_topic where
  "offset_for_leader_topic_default =
     \<lparr>oflt_topic = [], oflt_partitions = [], oflt_unknown_tagged_fields = []\<rparr>"

record offset_for_leader_epoch_request =
  oflerq_replica_id :: i32
  oflerq_topics :: "offset_for_leader_topic list"
  oflerq_unknown_tagged_fields :: "(i32, bytes) btree_map"

definition offset_for_leader_epoch_request_default :: offset_for_leader_epoch_request where
  "offset_for_leader_epoch_request_default =
     \<lparr>oflerq_replica_id = - 2, oflerq_topics = [], oflerq_unknown_tagged_fields = []\<rparr>"

end
