(* ===== verification/Codec_Admin.thy ===== *)
theory Codec_Admin
  imports Codec_Txn Messages_Admin
begin

text \<open>
  The codecs of the requests about the administration of topics, partitions and groups
  (\<open>src/crates/kafka-protocol/src/messages/\<close>): the encoder, the size computation and the decoder of every structure,
  for every version of its schema, what a structure must satisfy to be sent in a version, and that it then comes back.
\<close>

section \<open>Create partitions request\<close>

definition CreatePartitionsAssignment_encode :: "create_partitions_assignment \<Rightarrow> i16 \<Rightarrow> wire_error + bytes" where
  "CreatePartitionsAssignment_encode s version =
     (if version < 0 \<or> version > 3 then Inl UNSUPPORTED_VERSION
      else puts
        [if version \<ge> 2
          then CompactArray_encode (\<lambda>x. Inr (Int32_encode x)) (Some (cpa_broker_ids s))
          else Array_encode (\<lambda>x. Inr (Int32_encode x)) (Some (cpa_broker_ids s)),
         if version \<ge> 2 then put_tags [] 0 (cpa_unknown_tagged_fields s) else Inr []])"

definition CreatePartitionsAssignment_compute_size :: "create_partitions_assignment \<Rightarrow> i16 \<Rightarrow> wire_error + usize" where
  "CreatePartitionsAssignment_compute_size s version =
     sums
       [if version \<ge> 2
         then CompactArray_compute_size (Some 4) (\<lambda>_. Inr 4) (Some (cpa_broker_ids s))
         else Array_compute_size (Some 4) (\<lambda>_. Inr 4) (Some (cpa_broker_ids s)),
        if version \<ge> 2 then tags_size [] (cpa_unknown_tagged_fields s) else Inr 0]"

definition CreatePartitionsAssignment_decode :: "i16 \<Rightarrow> create_partitions_assignment decoder" where
  "CreatePartitionsAssignment_decode version =
     (if version < 0 \<or> version > 3 then refuse UNSUPPORTED_VERSION
      else
        get (if version \<ge> 2 then CompactArray_required Int32_decode else Array_required Int32_decode) (\<lambda>broker_ids.
        get (if version \<ge> 2 then get_unknown_tags else give []) (\<lambda>unknown_tagged_fields.
        give \<lparr>cpa_broker_ids = broker_ids, cpa_unknown_tagged_fields = unknown_tagged_fields\<rparr>)))"

definition CreatePartitionsAssignment_ok :: "i16 \<Rightarrow> create_partitions_assignment \<Rightarrow> bool" where
  "CreatePartitionsAssignment_ok version s \<longleftrightarrow>
     \<not> (version < 0 \<or> version > 3) \<and>
     (if version \<ge> 2
       then seq_ok (2 ^ 32 - 2) in_i32 (Some (cpa_broker_ids s))
       else seq_ok (2 ^ 31 - 1) in_i32 (Some (cpa_broker_ids s))) \<and>
     (if version \<ge> 2 then tags_ok 0 (cpa_unknown_tagged_fields s) else cpa_unknown_tagged_fields s = [])"

lemma CreatePartitionsAssignment_codec [coded_intros]:
  "sized_codec (\<lambda>s. CreatePartitionsAssignment_encode s version) (CreatePartitionsAssignment_decode version)
     (\<lambda>s. CreatePartitionsAssignment_compute_size s version) (CreatePartitionsAssignment_ok version)"
  unfolding CreatePartitionsAssignment_encode_def CreatePartitionsAssignment_decode_def CreatePartitionsAssignment_compute_size_def
  by (rule sized_codecI) (rule coded_intros | (simp add: CreatePartitionsAssignment_ok_def; fail))+

lemmas CreatePartitionsAssignment_coded [coded_intros] = sized_codec.codes [OF CreatePartitionsAssignment_codec]

definition CreatePartitionsTopic_encode :: "create_partitions_topic \<Rightarrow> i16 \<Rightarrow> wire_error + bytes" where
  "CreatePartitionsTopic_encode s version =
     (if version < 0 \<or> version > 3 then Inl UNSUPPORTED_VERSION
      else puts
        [if version \<ge> 2
          then CompactString_encode (Some (cpt_name s))
          else String_encode (Some (cpt_name s)),
         Inr (Int32_encode (cpt_count s)),
         if version \<ge> 2
          then CompactArray_encode (\<lambda>x. CreatePartitionsAssignment_encode x version) (cpt_assignments s)
          else Array_encode (\<lambda>x. CreatePartitionsAssignment_encode x version) (cpt_assignments s),
         if version \<ge> 2 then put_tags [] 0 (cpt_unknown_tagged_fields s) else Inr []])"

definition CreatePartitionsTopic_compute_size :: "create_partitions_topic \<Rightarrow> i16 \<Rightarrow> wire_error + usize" where
  "CreatePartitionsTopic_compute_size s version =
     sums
       [if version \<ge> 2
         then CompactString_compute_size (Some (cpt_name s))
         else String_compute_size (Some (cpt_name s)),
        Inr 4,
        if version \<ge> 2
         then CompactArray_compute_size None (\<lambda>x. CreatePartitionsAssignment_compute_size x version) (cpt_assignments s)
         else Array_compute_size None (\<lambda>x. CreatePartitionsAssignment_compute_size x version) (cpt_assignments s),
        if version \<ge> 2 then tags_size [] (cpt_unknown_tagged_fields s) else Inr 0]"

definition CreatePartitionsTopic_decode :: "i16 \<Rightarrow> create_partitions_topic decoder" where
  "CreatePartitionsTopic_decode version =
     (if version < 0 \<or> version > 3 then refuse UNSUPPORTED_VERSION
      else
        get (if version \<ge> 2 then CompactString_required else String_required) (\<lambda>name.
        get Int32_decode (\<lambda>count.
        get (if version \<ge> 2
              then CompactArray_decode (CreatePartitionsAssignment_decode version)
              else Array_decode (CreatePartitionsAssignment_decode version)) (\<lambda>assignments.
        get (if version \<ge> 2 then get_unknown_tags else give []) (\<lambda>unknown_tagged_fields.
        give \<lparr>cpt_name = name, cpt_count = count, cpt_assignments = assignments,
               cpt_unknown_tagged_fields = unknown_tagged_fields\<rparr>)))))"

definition CreatePartitionsTopic_ok :: "i16 \<Rightarrow> create_partitions_topic \<Rightarrow> bool" where
  "CreatePartitionsTopic_ok version s \<longleftrightarrow>
     \<not> (version < 0 \<or> version > 3) \<and>
     (if version \<ge> 2
       then string_ok (2 ^ 32 - 2) (Some (cpt_name s))
       else string_ok 32767 (Some (cpt_name s))) \<and>
     in_i32 (cpt_count s) \<and>
     (if version \<ge> 2
       then seq_ok (2 ^ 32 - 2) (CreatePartitionsAssignment_ok version) (cpt_assignments s)
       else seq_ok (2 ^ 31 - 1) (CreatePartitionsAssignment_ok version) (cpt_assignments s)) \<and>
     (if version \<ge> 2 then tags_ok 0 (cpt_unknown_tagged_fields s) else cpt_unknown_tagged_fields s = [])"

lemma CreatePartitionsTopic_codec [coded_intros]:
  "sized_codec (\<lambda>s. CreatePartitionsTopic_encode s version) (CreatePartitionsTopic_decode version)
     (\<lambda>s. CreatePartitionsTopic_compute_size s version) (CreatePartitionsTopic_ok version)"
  unfolding CreatePartitionsTopic_encode_def CreatePartitionsTopic_decode_def CreatePartitionsTopic_compute_size_def
  by (rule sized_codecI) (rule coded_intros | (simp add: CreatePartitionsTopic_ok_def; fail))+

lemmas CreatePartitionsTopic_coded [coded_intros] = sized_codec.codes [OF CreatePartitionsTopic_codec]

definition CreatePartitionsRequest_encode :: "create_partitions_request \<Rightarrow> i16 \<Rightarrow> wire_error + bytes" where
  "CreatePartitionsRequest_encode s version =
     (if version < 0 \<or> version > 3 then Inl UNSUPPORTED_VERSION
      else puts
        [if version \<ge> 2
          then CompactArray_encode (\<lambda>x. CreatePartitionsTopic_encode x version) (Some (cprq_topics s))
          else Array_encode (\<lambda>x. CreatePartitionsTopic_encode x version) (Some (cprq_topics s)),
         Inr (Int32_encode (cprq_timeout_ms s)),
         Inr (Boolean_encode (cprq_validate_only s)),
         if version \<ge> 2 then put_tags [] 0 (cprq_unknown_tagged_fields s) else Inr []])"

definition CreatePartitionsRequest_compute_size :: "create_partitions_request \<Rightarrow> i16 \<Rightarrow> wire_error + usize" where
  "CreatePartitionsRequest_compute_size s version =
     sums
       [if version \<ge> 2
         then CompactArray_compute_size None (\<lambda>x. CreatePartitionsTopic_compute_size x version) (Some (cprq_topics s))
         else Array_compute_size None (\<lambda>x. CreatePartitionsTopic_compute_size x version) (Some (cprq_topics s)),
        Inr 4,
        Inr 1,
        if version \<ge> 2 then tags_size [] (cprq_unknown_tagged_fields s) else Inr 0]"

definition CreatePartitionsRequest_decode :: "i16 \<Rightarrow> create_partitions_request decoder" where
  "CreatePartitionsRequest_decode version =
     (if version < 0 \<or> version > 3 then refuse UNSUPPORTED_VERSION
      else
        get (if version \<ge> 2
              then CompactArray_required (CreatePartitionsTopic_decode version)
              else Array_required (CreatePartitionsTopic_decode version)) (\<lambda>topics.
        get Int32_decode (\<lambda>timeout_ms.
        get Boolean_decode (\<lambda>validate_only.
        get (if version \<ge> 2 then get_unknown_tags else give []) (\<lambda>unknown_tagged_fields.
        give \<lparr>cprq_topics = topics, cprq_timeout_ms = timeout_ms,
               cprq_validate_only = validate_only, cprq_unknown_tagged_fields = unknown_tagged_fields\<rparr>)))))"

definition CreatePartitionsRequest_ok :: "i16 \<Rightarrow> create_partitions_request \<Rightarrow> bool" where
  "CreatePartitionsRequest_ok version s \<longleftrightarrow>
     \<not> (version < 0 \<or> version > 3) \<and>
     (if version \<ge> 2
       then seq_ok (2 ^ 32 - 2) (CreatePartitionsTopic_ok version) (Some (cprq_topics s))
       else seq_ok (2 ^ 31 - 1) (CreatePartitionsTopic_ok version) (Some (cprq_topics s))) \<and>
     in_i32 (cprq_timeout_ms s) \<and>
     (if version \<ge> 2 then tags_ok 0 (cprq_unknown_tagged_fields s) else cprq_unknown_tagged_fields s = [])"

lemma CreatePartitionsRequest_codec [coded_intros]:
  "sized_codec (\<lambda>s. CreatePartitionsRequest_encode s version) (CreatePartitionsRequest_decode version)
     (\<lambda>s. CreatePartitionsRequest_compute_size s version) (CreatePartitionsRequest_ok version)"
  unfolding CreatePartitionsRequest_encode_def CreatePartitionsRequest_decode_def CreatePartitionsRequest_compute_size_def
  by (rule sized_codecI) (rule coded_intros | (simp add: CreatePartitionsRequest_ok_def; fail))+

lemmas CreatePartitionsRequest_coded [coded_intros] = sized_codec.codes [OF CreatePartitionsRequest_codec]

section \<open>Delete topics request\<close>

definition DeleteTopicState_encode :: "delete_topic_state \<Rightarrow> i16 \<Rightarrow> wire_error + bytes" where
  "DeleteTopicState_encode s version =
     (if version < 1 \<or> version > 6 then Inl UNSUPPORTED_VERSION
      else puts
        [if version \<ge> 6 then CompactString_encode (dts_name s) else unset [] (dts_name s = None),
         if version \<ge> 6
          then Inr (Uuid_encode (dts_topic_id s))
          else unset [] (dts_topic_id s = nil_uuid),
         if version \<ge> 4 then put_tags [] 0 (dts_unknown_tagged_fields s) else Inr []])"

definition DeleteTopicState_compute_size :: "delete_topic_state \<Rightarrow> i16 \<Rightarrow> wire_error + usize" where
  "DeleteTopicState_compute_size s version =
     sums
       [if version \<ge> 6 then CompactString_compute_size (dts_name s) else unset 0 (dts_name s = None),
        if version \<ge> 6 then Inr 16 else unset 0 (dts_topic_id s = nil_uuid),
        if version \<ge> 4 then tags_size [] (dts_unknown_tagged_fields s) else Inr 0]"

definition DeleteTopicState_decode :: "i16 \<Rightarrow> delete_topic_state decoder" where
  "DeleteTopicState_decode version =
     (if version < 1 \<or> version > 6 then refuse UNSUPPORTED_VERSION
      else
        get (if version \<ge> 6 then CompactString_decode else give None) (\<lambda>name.
        get (if version \<ge> 6 then Uuid_decode else give nil_uuid) (\<lambda>topic_id.
        get (if version \<ge> 4 then get_unknown_tags else give []) (\<lambda>unknown_tagged_fields.
        give \<lparr>dts_name = name, dts_topic_id = topic_id,
               dts_unknown_tagged_fields = unknown_tagged_fields\<rparr>))))"

definition DeleteTopicState_ok :: "i16 \<Rightarrow> delete_topic_state \<Rightarrow> bool" where
  "DeleteTopicState_ok version s \<longleftrightarrow>
     \<not> (version < 1 \<or> version > 6) \<and>
     (if version \<ge> 6 then string_ok (2 ^ 32 - 2) (dts_name s) else dts_name s = None) \<and>
     (if version \<ge> 6 then True else dts_topic_id s = nil_uuid) \<and>
     (if version \<ge> 4 then tags_ok 0 (dts_unknown_tagged_fields s) else dts_unknown_tagged_fields s = [])"

lemma DeleteTopicState_codec [coded_intros]:
  "sized_codec (\<lambda>s. DeleteTopicState_encode s version) (DeleteTopicState_decode version)
     (\<lambda>s. DeleteTopicState_compute_size s version) (DeleteTopicState_ok version)"
  unfolding DeleteTopicState_encode_def DeleteTopicState_decode_def DeleteTopicState_compute_size_def
  by (rule sized_codecI) (rule coded_intros | (clarsimp simp: DeleteTopicState_ok_def; fail))+

lemmas DeleteTopicState_coded [coded_intros] = sized_codec.codes [OF DeleteTopicState_codec]

definition DeleteTopicsRequest_encode :: "delete_topics_request \<Rightarrow> i16 \<Rightarrow> wire_error + bytes" where
  "DeleteTopicsRequest_encode s version =
     (if version < 1 \<or> version > 6 then Inl UNSUPPORTED_VERSION
      else puts
        [if version \<ge> 6
          then CompactArray_encode (\<lambda>x. DeleteTopicState_encode x version) (Some (dtrq2_topics s))
          else unset [] (dtrq2_topics s = []),
         if version \<le> 5
          then if version \<ge> 4
                then CompactArray_encode (\<lambda>x. CompactString_encode (Some x)) (Some (dtrq2_topic_names s))
                else Array_encode (\<lambda>x. String_encode (Some x)) (Some (dtrq2_topic_names s))
          else Inr [],
         Inr (Int32_encode (dtrq2_timeout_ms s)),
         if version \<ge> 4 then put_tags [] 0 (dtrq2_unknown_tagged_fields s) else Inr []])"

definition DeleteTopicsRequest_compute_size :: "delete_topics_request \<Rightarrow> i16 \<Rightarrow> wire_error + usize" where
  "DeleteTopicsRequest_compute_size s version =
     sums
       [if version \<ge> 6
         then CompactArray_compute_size None (\<lambda>x. DeleteTopicState_compute_size x version) (Some (dtrq2_topics s))
         else unset 0 (dtrq2_topics s = []),
        if version \<le> 5
         then if version \<ge> 4
               then CompactArray_compute_size None (\<lambda>x. CompactString_compute_size (Some x)) (Some (dtrq2_topic_names s))
               else Array_compute_size None (\<lambda>x. String_compute_size (Some x)) (Some (dtrq2_topic_names s))
         else Inr 0,
        Inr 4,
        if version \<ge> 4 then tags_size [] (dtrq2_unknown_tagged_fields s) else Inr 0]"

definition DeleteTopicsRequest_decode :: "i16 \<Rightarrow> delete_topics_request decoder" where
  "DeleteTopicsRequest_decode version =
     (if version < 1 \<or> version > 6 then refuse UNSUPPORTED_VERSION
      else
        get (if version \<ge> 6 then CompactArray_required (DeleteTopicState_decode version) else give []) (\<lambda>topics.
        get (if version \<le> 5
              then if version \<ge> 4
                    then CompactArray_required CompactString_required
                    else Array_required String_required
              else give []) (\<lambda>topic_names.
        get Int32_decode (\<lambda>timeout_ms.
        get (if version \<ge> 4 then get_unknown_tags else give []) (\<lambda>unknown_tagged_fields.
        give \<lparr>dtrq2_topics = topics, dtrq2_topic_names = topic_names,
               dtrq2_timeout_ms = timeout_ms, dtrq2_unknown_tagged_fields = unknown_tagged_fields\<rparr>)))))"

definition DeleteTopicsRequest_ok :: "i16 \<Rightarrow> delete_topics_request \<Rightarrow> bool" where
  "DeleteTopicsRequest_ok version s \<longleftrightarrow>
     \<not> (version < 1 \<or> version > 6) \<and>
     (if version \<ge> 6
       then seq_ok (2 ^ 32 - 2) (DeleteTopicState_ok version) (Some (dtrq2_topics s))
       else dtrq2_topics s = []) \<and>
     (if version \<le> 5
       then if version \<ge> 4
             then seq_ok (2 ^ 32 - 2) (\<lambda>x. string_ok (2 ^ 32 - 2) (Some x)) (Some (dtrq2_topic_names s))
             else seq_ok (2 ^ 31 - 1) (\<lambda>x. string_ok 32767 (Some x)) (Some (dtrq2_topic_names s))
       else dtrq2_topic_names s = []) \<and>
     in_i32 (dtrq2_timeout_ms s) \<and>
     (if version \<ge> 4 then tags_ok 0 (dtrq2_unknown_tagged_fields s) else dtrq2_unknown_tagged_fields s = [])"

lemma DeleteTopicsRequest_codec [coded_intros]:
  "sized_codec (\<lambda>s. DeleteTopicsRequest_encode s version) (DeleteTopicsRequest_decode version)
     (\<lambda>s. DeleteTopicsRequest_compute_size s version) (DeleteTopicsRequest_ok version)"
  unfolding DeleteTopicsRequest_encode_def DeleteTopicsRequest_decode_def DeleteTopicsRequest_compute_size_def
  by (rule sized_codecI) (rule coded_intros | (clarsimp simp: DeleteTopicsRequest_ok_def; fail))+

lemmas DeleteTopicsRequest_coded [coded_intros] = sized_codec.codes [OF DeleteTopicsRequest_codec]

section \<open>Delete records request\<close>

definition DeleteRecordsPartition_encode :: "delete_records_partition \<Rightarrow> i16 \<Rightarrow> wire_error + bytes" where
  "DeleteRecordsPartition_encode s version =
     (if version < 0 \<or> version > 2 then Inl UNSUPPORTED_VERSION
      else puts
        [Inr (Int32_encode (drp_partition_index s)),
         Inr (Int64_encode (drp_offset s)),
         if version \<ge> 2 then put_tags [] 0 (drp_unknown_tagged_fields s) else Inr []])"

definition DeleteRecordsPartition_compute_size :: "delete_records_partition \<Rightarrow> i16 \<Rightarrow> wire_error + usize" where
  "DeleteRecordsPartition_compute_size s version =
     sums
       [Inr 4,
        Inr 8,
        if version \<ge> 2 then tags_size [] (drp_unknown_tagged_fields s) else Inr 0]"

definition DeleteRecordsPartition_decode :: "i16 \<Rightarrow> delete_records_partition decoder" where
  "DeleteRecordsPartition_decode version =
     (if version < 0 \<or> version > 2 then refuse UNSUPPORTED_VERSION
      else
        get Int32_decode (\<lambda>partition_index.
        get Int64_decode (\<lambda>offset.
        get (if version \<ge> 2 then get_unknown_tags else give []) (\<lambda>unknown_tagged_fields.
        give \<lparr>drp_partition_index = partition_index, drp_offset = offset,
               drp_unknown_tagged_fields = unknown_tagged_fields\<rparr>))))"

definition DeleteRecordsPartition_ok :: "i16 \<Rightarrow> delete_records_partition \<Rightarrow> bool" where
  "DeleteRecordsPartition_ok version s \<longleftrightarrow>
     \<not> (version < 0 \<or> version > 2) \<and>
     in_i32 (drp_partition_index s) \<and>
     in_i64 (drp_offset s) \<and>
     (if version \<ge> 2 then tags_ok 0 (drp_unknown_tagged_fields s) else drp_unknown_tagged_fields s = [])"

lemma DeleteRecordsPartition_codec [coded_intros]:
  "sized_codec (\<lambda>s. DeleteRecordsPartition_encode s version) (DeleteRecordsPartition_decode version)
     (\<lambda>s. DeleteRecordsPartition_compute_size s version) (DeleteRecordsPartition_ok version)"
  unfolding DeleteRecordsPartition_encode_def DeleteRecordsPartition_decode_def DeleteRecordsPartition_compute_size_def
  by (rule sized_codecI) (rule coded_intros | (clarsimp simp: DeleteRecordsPartition_ok_def; fail))+

lemmas DeleteRecordsPartition_coded [coded_intros] = sized_codec.codes [OF DeleteRecordsPartition_codec]

definition DeleteRecordsTopic_encode :: "delete_records_topic \<Rightarrow> i16 \<Rightarrow> wire_error + bytes" where
  "DeleteRecordsTopic_encode s version =
     (if version < 0 \<or> version > 2 then Inl UNSUPPORTED_VERSION
      else puts
        [if version \<ge> 2
          then CompactString_encode (Some (drt_name s))
          else String_encode (Some (drt_name s)),
         if version \<ge> 2
          then CompactArray_encode (\<lambda>x. DeleteRecordsPartition_encode x version) (Some (drt_partitions s))
          else Array_encode (\<lambda>x. DeleteRecordsPartition_encode x version) (Some (drt_partitions s)),
         if version \<ge> 2 then put_tags [] 0 (drt_unknown_tagged_fields s) else Inr []])"

definition DeleteRecordsTopic_compute_size :: "delete_records_topic \<Rightarrow> i16 \<Rightarrow> wire_error + usize" where
  "DeleteRecordsTopic_compute_size s version =
     sums
       [if version \<ge> 2
         then CompactString_compute_size (Some (drt_name s))
         else String_compute_size (Some (drt_name s)),
        if version \<ge> 2
         then CompactArray_compute_size None (\<lambda>x. DeleteRecordsPartition_compute_size x version) (Some (drt_partitions s))
         else Array_compute_size None (\<lambda>x. DeleteRecordsPartition_compute_size x version) (Some (drt_partitions s)),
        if version \<ge> 2 then tags_size [] (drt_unknown_tagged_fields s) else Inr 0]"

definition DeleteRecordsTopic_decode :: "i16 \<Rightarrow> delete_records_topic decoder" where
  "DeleteRecordsTopic_decode version =
     (if version < 0 \<or> version > 2 then refuse UNSUPPORTED_VERSION
      else
        get (if version \<ge> 2 then CompactString_required else String_required) (\<lambda>name.
        get (if version \<ge> 2
              then CompactArray_required (DeleteRecordsPartition_decode version)
              else Array_required (DeleteRecordsPartition_decode version)) (\<lambda>partitions.
        get (if version \<ge> 2 then get_unknown_tags else give []) (\<lambda>unknown_tagged_fields.
        give \<lparr>drt_name = name, drt_partitions = partitions,
               drt_unknown_tagged_fields = unknown_tagged_fields\<rparr>))))"

definition DeleteRecordsTopic_ok :: "i16 \<Rightarrow> delete_records_topic \<Rightarrow> bool" where
  "DeleteRecordsTopic_ok version s \<longleftrightarrow>
     \<not> (version < 0 \<or> version > 2) \<and>
     (if version \<ge> 2
       then string_ok (2 ^ 32 - 2) (Some (drt_name s))
       else string_ok 32767 (Some (drt_name s))) \<and>
     (if version \<ge> 2
       then seq_ok (2 ^ 32 - 2) (DeleteRecordsPartition_ok version) (Some (drt_partitions s))
       else seq_ok (2 ^ 31 - 1) (DeleteRecordsPartition_ok version) (Some (drt_partitions s))) \<and>
     (if version \<ge> 2 then tags_ok 0 (drt_unknown_tagged_fields s) else drt_unknown_tagged_fields s = [])"

lemma DeleteRecordsTopic_codec [coded_intros]:
  "sized_codec (\<lambda>s. DeleteRecordsTopic_encode s version) (DeleteRecordsTopic_decode version)
     (\<lambda>s. DeleteRecordsTopic_compute_size s version) (DeleteRecordsTopic_ok version)"
  unfolding DeleteRecordsTopic_encode_def DeleteRecordsTopic_decode_def DeleteRecordsTopic_compute_size_def
  by (rule sized_codecI) (rule coded_intros | (clarsimp simp: DeleteRecordsTopic_ok_def; fail))+

lemmas DeleteRecordsTopic_coded [coded_intros] = sized_codec.codes [OF DeleteRecordsTopic_codec]

definition DeleteRecordsRequest_encode :: "delete_records_request \<Rightarrow> i16 \<Rightarrow> wire_error + bytes" where
  "DeleteRecordsRequest_encode s version =
     (if version < 0 \<or> version > 2 then Inl UNSUPPORTED_VERSION
      else puts
        [if version \<ge> 2
          then CompactArray_encode (\<lambda>x. DeleteRecordsTopic_encode x version) (Some (drrq_topics s))
          else Array_encode (\<lambda>x. DeleteRecordsTopic_encode x version) (Some (drrq_topics s)),
         Inr (Int32_encode (drrq_timeout_ms s)),
         if version \<ge> 2 then put_tags [] 0 (drrq_unknown_tagged_fields s) else Inr []])"

definition DeleteRecordsRequest_compute_size :: "delete_records_request \<Rightarrow> i16 \<Rightarrow> wire_error + usize" where
  "DeleteRecordsRequest_compute_size s version =
     sums
       [if version \<ge> 2
         then CompactArray_compute_size None (\<lambda>x. DeleteRecordsTopic_compute_size x version) (Some (drrq_topics s))
         else Array_compute_size None (\<lambda>x. DeleteRecordsTopic_compute_size x version) (Some (drrq_topics s)),
        Inr 4,
        if version \<ge> 2 then tags_size [] (drrq_unknown_tagged_fields s) else Inr 0]"

definition DeleteRecordsRequest_decode :: "i16 \<Rightarrow> delete_records_request decoder" where
  "DeleteRecordsRequest_decode version =
     (if version < 0 \<or> version > 2 then refuse UNSUPPORTED_VERSION
      else
        get (if version \<ge> 2
              then CompactArray_required (DeleteRecordsTopic_decode version)
              else Array_required (DeleteRecordsTopic_decode version)) (\<lambda>topics.
        get Int32_decode (\<lambda>timeout_ms.
        get (if version \<ge> 2 then get_unknown_tags else give []) (\<lambda>unknown_tagged_fields.
        give \<lparr>drrq_topics = topics, drrq_timeout_ms = timeout_ms,
               drrq_unknown_tagged_fields = unknown_tagged_fields\<rparr>))))"

definition DeleteRecordsRequest_ok :: "i16 \<Rightarrow> delete_records_request \<Rightarrow> bool" where
  "DeleteRecordsRequest_ok version s \<longleftrightarrow>
     \<not> (version < 0 \<or> version > 2) \<and>
     (if version \<ge> 2
       then seq_ok (2 ^ 32 - 2) (DeleteRecordsTopic_ok version) (Some (drrq_topics s))
       else seq_ok (2 ^ 31 - 1) (DeleteRecordsTopic_ok version) (Some (drrq_topics s))) \<and>
     in_i32 (drrq_timeout_ms s) \<and>
     (if version \<ge> 2 then tags_ok 0 (drrq_unknown_tagged_fields s) else drrq_unknown_tagged_fields s = [])"

lemma DeleteRecordsRequest_codec [coded_intros]:
  "sized_codec (\<lambda>s. DeleteRecordsRequest_encode s version) (DeleteRecordsRequest_decode version)
     (\<lambda>s. DeleteRecordsRequest_compute_size s version) (DeleteRecordsRequest_ok version)"
  unfolding DeleteRecordsRequest_encode_def DeleteRecordsRequest_decode_def DeleteRecordsRequest_compute_size_def
  by (rule sized_codecI) (rule coded_intros | (clarsimp simp: DeleteRecordsRequest_ok_def; fail))+

lemmas DeleteRecordsRequest_coded [coded_intros] = sized_codec.codes [OF DeleteRecordsRequest_codec]

section \<open>Elect leaders request\<close>

definition ElectLeadersRequestTopicPartitions_encode :: "elect_leaders_request_topic_partitions \<Rightarrow> i16 \<Rightarrow> wire_error + bytes" where
  "ElectLeadersRequestTopicPartitions_encode s version =
     (if version < 0 \<or> version > 2 then Inl UNSUPPORTED_VERSION
      else puts
        [if version \<ge> 2
          then CompactString_encode (Some (elrqtp_topic s))
          else String_encode (Some (elrqtp_topic s)),
         if version \<ge> 2
          then CompactArray_encode (\<lambda>x. Inr (Int32_encode x)) (Some (elrqtp_partitions s))
          else Array_encode (\<lambda>x. Inr (Int32_encode x)) (Some (elrqtp_partitions s)),
         if version \<ge> 2 then put_tags [] 0 (elrqtp_unknown_tagged_fields s) else Inr []])"

definition ElectLeadersRequestTopicPartitions_compute_size :: "elect_leaders_request_topic_partitions \<Rightarrow> i16 \<Rightarrow> wire_error + usize" where
  "ElectLeadersRequestTopicPartitions_compute_size s version =
     sums
       [if version \<ge> 2
         then CompactString_compute_size (Some (elrqtp_topic s))
         else String_compute_size (Some (elrqtp_topic s)),
        if version \<ge> 2
         then CompactArray_compute_size (Some 4) (\<lambda>_. Inr 4) (Some (elrqtp_partitions s))
         else Array_compute_size (Some 4) (\<lambda>_. Inr 4) (Some (elrqtp_partitions s)),
        if version \<ge> 2 then tags_size [] (elrqtp_unknown_tagged_fields s) else Inr 0]"

definition ElectLeadersRequestTopicPartitions_decode :: "i16 \<Rightarrow> elect_leaders_request_topic_partitions decoder" where
  "ElectLeadersRequestTopicPartitions_decode version =
     (if version < 0 \<or> version > 2 then refuse UNSUPPORTED_VERSION
      else
        get (if version \<ge> 2 then CompactString_required else String_required) (\<lambda>topic.
        get (if version \<ge> 2 then CompactArray_required Int32_decode else Array_required Int32_decode) (\<lambda>partitions.
        get (if version \<ge> 2 then get_unknown_tags else give []) (\<lambda>unknown_tagged_fields.
        give \<lparr>elrqtp_topic = topic, elrqtp_partitions = partitions,
               elrqtp_unknown_tagged_fields = unknown_tagged_fields\<rparr>))))"

definition ElectLeadersRequestTopicPartitions_ok :: "i16 \<Rightarrow> elect_leaders_request_topic_partitions \<Rightarrow> bool" where
  "ElectLeadersRequestTopicPartitions_ok version s \<longleftrightarrow>
     \<not> (version < 0 \<or> version > 2) \<and>
     (if version \<ge> 2
       then string_ok (2 ^ 32 - 2) (Some (elrqtp_topic s))
       else string_ok 32767 (Some (elrqtp_topic s))) \<and>
     (if version \<ge> 2
       then seq_ok (2 ^ 32 - 2) in_i32 (Some (elrqtp_partitions s))
       else seq_ok (2 ^ 31 - 1) in_i32 (Some (elrqtp_partitions s))) \<and>
     (if version \<ge> 2 then tags_ok 0 (elrqtp_unknown_tagged_fields s) else elrqtp_unknown_tagged_fields s = [])"

lemma ElectLeadersRequestTopicPartitions_codec [coded_intros]:
  "sized_codec (\<lambda>s. ElectLeadersRequestTopicPartitions_encode s version) (ElectLeadersRequestTopicPartitions_decode version)
     (\<lambda>s. ElectLeadersRequestTopicPartitions_compute_size s version) (ElectLeadersRequestTopicPartitions_ok version)"
  unfolding ElectLeadersRequestTopicPartitions_encode_def ElectLeadersRequestTopicPartitions_decode_def ElectLeadersRequestTopicPartitions_compute_size_def
  by (rule sized_codecI) (rule coded_intros | (clarsimp simp: ElectLeadersRequestTopicPartitions_ok_def; fail))+

lemmas ElectLeadersRequestTopicPartitions_coded [coded_intros] = sized_codec.codes [OF ElectLeadersRequestTopicPartitions_codec]

definition ElectLeadersRequest_encode :: "elect_leaders_request \<Rightarrow> i16 \<Rightarrow> wire_error + bytes" where
  "ElectLeadersRequest_encode s version =
     (if version < 0 \<or> version > 2 then Inl UNSUPPORTED_VERSION
      else puts
        [if version \<ge> 1
          then Inr (Int8_encode (elrq_election_type s))
          else unset [] (elrq_election_type s = 0),
         if version \<ge> 2
          then CompactArray_encode (\<lambda>x. ElectLeadersRequestTopicPartitions_encode x version) (elrq_topic_partitions s)
          else Array_encode (\<lambda>x. ElectLeadersRequestTopicPartitions_encode x version) (elrq_topic_partitions s),
         Inr (Int32_encode (elrq_timeout_ms s)),
         if version \<ge> 2 then put_tags [] 0 (elrq_unknown_tagged_fields s) else Inr []])"

definition ElectLeadersRequest_compute_size :: "elect_leaders_request \<Rightarrow> i16 \<Rightarrow> wire_error + usize" where
  "ElectLeadersRequest_compute_size s version =
     sums
       [if version \<ge> 1 then Inr 1 else unset 0 (elrq_election_type s = 0),
        if version \<ge> 2
         then CompactArray_compute_size None (\<lambda>x. ElectLeadersRequestTopicPartitions_compute_size x version) (elrq_topic_partitions s)
         else Array_compute_size None (\<lambda>x. ElectLeadersRequestTopicPartitions_compute_size x version) (elrq_topic_partitions s),
        Inr 4,
        if version \<ge> 2 then tags_size [] (elrq_unknown_tagged_fields s) else Inr 0]"

definition ElectLeadersRequest_decode :: "i16 \<Rightarrow> elect_leaders_request decoder" where
  "ElectLeadersRequest_decode version =
     (if version < 0 \<or> version > 2 then refuse UNSUPPORTED_VERSION
      else
        get (if version \<ge> 1 then Int8_decode else give 0) (\<lambda>election_type.
        get (if version \<ge> 2
              then CompactArray_decode (ElectLeadersRequestTopicPartitions_decode version)
              else Array_decode (ElectLeadersRequestTopicPartitions_decode version)) (\<lambda>topic_partitions.
        get Int32_decode (\<lambda>timeout_ms.
        get (if version \<ge> 2 then get_unknown_tags else give []) (\<lambda>unknown_tagged_fields.
        give \<lparr>elrq_election_type = election_type, elrq_topic_partitions = topic_partitions,
               elrq_timeout_ms = timeout_ms, elrq_unknown_tagged_fields = unknown_tagged_fields\<rparr>)))))"

definition ElectLeadersRequest_ok :: "i16 \<Rightarrow> elect_leaders_request \<Rightarrow> bool" where
  "ElectLeadersRequest_ok version s \<longleftrightarrow>
     \<not> (version < 0 \<or> version > 2) \<and>
     (if version \<ge> 1 then in_i8 (elrq_election_type s) else elrq_election_type s = 0) \<and>
     (if version \<ge> 2
       then seq_ok (2 ^ 32 - 2) (ElectLeadersRequestTopicPartitions_ok version) (elrq_topic_partitions s)
       else seq_ok (2 ^ 31 - 1) (ElectLeadersRequestTopicPartitions_ok version) (elrq_topic_partitions s)) \<and>
     in_i32 (elrq_timeout_ms s) \<and>
     (if version \<ge> 2 then tags_ok 0 (elrq_unknown_tagged_fields s) else elrq_unknown_tagged_fields s = [])"

lemma ElectLeadersRequest_codec [coded_intros]:
  "sized_codec (\<lambda>s. ElectLeadersRequest_encode s version) (ElectLeadersRequest_decode version)
     (\<lambda>s. ElectLeadersRequest_compute_size s version) (ElectLeadersRequest_ok version)"
  unfolding ElectLeadersRequest_encode_def ElectLeadersRequest_decode_def ElectLeadersRequest_compute_size_def
  by (rule sized_codecI) (rule coded_intros | (clarsimp simp: ElectLeadersRequest_ok_def; fail))+

lemmas ElectLeadersRequest_coded [coded_intros] = sized_codec.codes [OF ElectLeadersRequest_codec]

section \<open>Alter partition reassignments request\<close>

definition ReassignablePartition_encode :: "reassignable_partition \<Rightarrow> i16 \<Rightarrow> wire_error + bytes" where
  "ReassignablePartition_encode s version =
     (if version < 0 \<or> version > 1 then Inl UNSUPPORTED_VERSION
      else puts
        [Inr (Int32_encode (rp2_partition_index s)),
         CompactArray_encode (\<lambda>x. Inr (Int32_encode x)) (rp2_replicas s),
         put_tags [] 0 (rp2_unknown_tagged_fields s)])"

definition ReassignablePartition_compute_size :: "reassignable_partition \<Rightarrow> i16 \<Rightarrow> wire_error + usize" where
  "ReassignablePartition_compute_size s version =
     sums
       [Inr 4,
        CompactArray_compute_size (Some 4) (\<lambda>_. Inr 4) (rp2_replicas s),
        tags_size [] (rp2_unknown_tagged_fields s)]"

definition ReassignablePartition_decode :: "i16 \<Rightarrow> reassignable_partition decoder" where
  "ReassignablePartition_decode version =
     (if version < 0 \<or> version > 1 then refuse UNSUPPORTED_VERSION
      else
        get Int32_decode (\<lambda>partition_index.
        get (CompactArray_decode Int32_decode) (\<lambda>replicas.
        get get_unknown_tags (\<lambda>unknown_tagged_fields.
        give \<lparr>rp2_partition_index = partition_index, rp2_replicas = replicas,
               rp2_unknown_tagged_fields = unknown_tagged_fields\<rparr>))))"

definition ReassignablePartition_ok :: "i16 \<Rightarrow> reassignable_partition \<Rightarrow> bool" where
  "ReassignablePartition_ok version s \<longleftrightarrow>
     \<not> (version < 0 \<or> version > 1) \<and>
     in_i32 (rp2_partition_index s) \<and>
     seq_ok (2 ^ 32 - 2) in_i32 (rp2_replicas s) \<and>
     tags_ok 0 (rp2_unknown_tagged_fields s)"

lemma ReassignablePartition_codec [coded_intros]:
  "sized_codec (\<lambda>s. ReassignablePartition_encode s version) (ReassignablePartition_decode version)
     (\<lambda>s. ReassignablePartition_compute_size s version) (ReassignablePartition_ok version)"
  unfolding ReassignablePartition_encode_def ReassignablePartition_decode_def ReassignablePartition_compute_size_def
  by (rule sized_codecI) (rule coded_intros | (simp add: ReassignablePartition_ok_def; fail))+

lemmas ReassignablePartition_coded [coded_intros] = sized_codec.codes [OF ReassignablePartition_codec]

definition ReassignableTopic_encode :: "reassignable_topic \<Rightarrow> i16 \<Rightarrow> wire_error + bytes" where
  "ReassignableTopic_encode s version =
     (if version < 0 \<or> version > 1 then Inl UNSUPPORTED_VERSION
      else puts
        [CompactString_encode (Some (rt_name s)),
         CompactArray_encode (\<lambda>x. ReassignablePartition_encode x version) (Some (rt_partitions s)),
         put_tags [] 0 (rt_unknown_tagged_fields s)])"

definition ReassignableTopic_compute_size :: "reassignable_topic \<Rightarrow> i16 \<Rightarrow> wire_error + usize" where
  "ReassignableTopic_compute_size s version =
     sums
       [CompactString_compute_size (Some (rt_name s)),
        CompactArray_compute_size None (\<lambda>x. ReassignablePartition_compute_size x version) (Some (rt_partitions s)),
        tags_size [] (rt_unknown_tagged_fields s)]"

definition ReassignableTopic_decode :: "i16 \<Rightarrow> reassignable_topic decoder" where
  "ReassignableTopic_decode version =
     (if version < 0 \<or> version > 1 then refuse UNSUPPORTED_VERSION
      else
        get CompactString_required (\<lambda>name.
        get (CompactArray_required (ReassignablePartition_decode version)) (\<lambda>partitions.
        get get_unknown_tags (\<lambda>unknown_tagged_fields.
        give \<lparr>rt_name = name, rt_partitions = partitions,
               rt_unknown_tagged_fields = unknown_tagged_fields\<rparr>))))"

definition ReassignableTopic_ok :: "i16 \<Rightarrow> reassignable_topic \<Rightarrow> bool" where
  "ReassignableTopic_ok version s \<longleftrightarrow>
     \<not> (version < 0 \<or> version > 1) \<and>
     string_ok (2 ^ 32 - 2) (Some (rt_name s)) \<and>
     seq_ok (2 ^ 32 - 2) (ReassignablePartition_ok version) (Some (rt_partitions s)) \<and>
     tags_ok 0 (rt_unknown_tagged_fields s)"

lemma ReassignableTopic_codec [coded_intros]:
  "sized_codec (\<lambda>s. ReassignableTopic_encode s version) (ReassignableTopic_decode version)
     (\<lambda>s. ReassignableTopic_compute_size s version) (ReassignableTopic_ok version)"
  unfolding ReassignableTopic_encode_def ReassignableTopic_decode_def ReassignableTopic_compute_size_def
  by (rule sized_codecI) (rule coded_intros | (simp add: ReassignableTopic_ok_def; fail))+

lemmas ReassignableTopic_coded [coded_intros] = sized_codec.codes [OF ReassignableTopic_codec]

definition AlterPartitionReassignmentsRequest_encode :: "alter_partition_reassignments_request \<Rightarrow> i16 \<Rightarrow> wire_error + bytes" where
  "AlterPartitionReassignmentsRequest_encode s version =
     (if version < 0 \<or> version > 1 then Inl UNSUPPORTED_VERSION
      else puts
        [Inr (Int32_encode (aprrq_timeout_ms s)),
         if version \<ge> 1
          then Inr (Boolean_encode (aprrq_allow_replication_factor_change s))
          else unset [] (aprrq_allow_replication_factor_change s),
         CompactArray_encode (\<lambda>x. ReassignableTopic_encode x version) (Some (aprrq_topics s)),
         put_tags [] 0 (aprrq_unknown_tagged_fields s)])"

definition AlterPartitionReassignmentsRequest_compute_size :: "alter_partition_reassignments_request \<Rightarrow> i16 \<Rightarrow> wire_error + usize" where
  "AlterPartitionReassignmentsRequest_compute_size s version =
     sums
       [Inr 4,
        if version \<ge> 1 then Inr 1 else unset 0 (aprrq_allow_replication_factor_change s),
        CompactArray_compute_size None (\<lambda>x. ReassignableTopic_compute_size x version) (Some (aprrq_topics s)),
        tags_size [] (aprrq_unknown_tagged_fields s)]"

definition AlterPartitionReassignmentsRequest_decode :: "i16 \<Rightarrow> alter_partition_reassignments_request decoder" where
  "AlterPartitionReassignmentsRequest_decode version =
     (if version < 0 \<or> version > 1 then refuse UNSUPPORTED_VERSION
      else
        get Int32_decode (\<lambda>timeout_ms.
        get (if version \<ge> 1 then Boolean_decode else give True) (\<lambda>allow_replication_factor_change.
        get (CompactArray_required (ReassignableTopic_decode version)) (\<lambda>topics.
        get get_unknown_tags (\<lambda>unknown_tagged_fields.
        give \<lparr>aprrq_timeout_ms = timeout_ms,
               aprrq_allow_replication_factor_change = allow_replication_factor_change,
               aprrq_topics = topics, aprrq_unknown_tagged_fields = unknown_tagged_fields\<rparr>)))))"

definition AlterPartitionReassignmentsRequest_ok :: "i16 \<Rightarrow> alter_partition_reassignments_request \<Rightarrow> bool" where
  "AlterPartitionReassignmentsRequest_ok version s \<longleftrightarrow>
     \<not> (version < 0 \<or> version > 1) \<and>
     in_i32 (aprrq_timeout_ms s) \<and>
     (if version \<ge> 1 then True else aprrq_allow_replication_factor_change s) \<and>
     seq_ok (2 ^ 32 - 2) (ReassignableTopic_ok version) (Some (aprrq_topics s)) \<and>
     tags_ok 0 (aprrq_unknown_tagged_fields s)"

lemma AlterPartitionReassignmentsRequest_codec [coded_intros]:
  "sized_codec (\<lambda>s. AlterPartitionReassignmentsRequest_encode s version) (AlterPartitionReassignmentsRequest_decode version)
     (\<lambda>s. AlterPartitionReassignmentsRequest_compute_size s version) (AlterPartitionReassignmentsRequest_ok version)"
  unfolding AlterPartitionReassignmentsRequest_encode_def AlterPartitionReassignmentsRequest_decode_def AlterPartitionReassignmentsRequest_compute_size_def
  by (rule sized_codecI) (rule coded_intros | (clarsimp simp: AlterPartitionReassignmentsRequest_ok_def; fail))+

lemmas AlterPartitionReassignmentsRequest_coded [coded_intros] = sized_codec.codes [OF AlterPartitionReassignmentsRequest_codec]

section \<open>List partition reassignments request\<close>

definition ListPartitionReassignmentsTopics_encode :: "list_partition_reassignments_topics \<Rightarrow> i16 \<Rightarrow> wire_error + bytes" where
  "ListPartitionReassignmentsTopics_encode s version =
     (if version \<noteq> 0 then Inl UNSUPPORTED_VERSION
      else puts
        [CompactString_encode (Some (lprt_name s)),
         CompactArray_encode (\<lambda>x. Inr (Int32_encode x)) (Some (lprt_partition_indexes s)),
         put_tags [] 0 (lprt_unknown_tagged_fields s)])"

definition ListPartitionReassignmentsTopics_compute_size :: "list_partition_reassignments_topics \<Rightarrow> i16 \<Rightarrow> wire_error + usize" where
  "ListPartitionReassignmentsTopics_compute_size s version =
     sums
       [CompactString_compute_size (Some (lprt_name s)),
        CompactArray_compute_size (Some 4) (\<lambda>_. Inr 4) (Some (lprt_partition_indexes s)),
        tags_size [] (lprt_unknown_tagged_fields s)]"

definition ListPartitionReassignmentsTopics_decode :: "i16 \<Rightarrow> list_partition_reassignments_topics decoder" where
  "ListPartitionReassignmentsTopics_decode version =
     (if version \<noteq> 0 then refuse UNSUPPORTED_VERSION
      else
        get CompactString_required (\<lambda>name.
        get (CompactArray_required Int32_decode) (\<lambda>partition_indexes.
        get get_unknown_tags (\<lambda>unknown_tagged_fields.
        give \<lparr>lprt_name = name, lprt_partition_indexes = partition_indexes,
               lprt_unknown_tagged_fields = unknown_tagged_fields\<rparr>))))"

definition ListPartitionReassignmentsTopics_ok :: "i16 \<Rightarrow> list_partition_reassignments_topics \<Rightarrow> bool" where
  "ListPartitionReassignmentsTopics_ok version s \<longleftrightarrow>
     \<not> (version \<noteq> 0) \<and>
     string_ok (2 ^ 32 - 2) (Some (lprt_name s)) \<and>
     seq_ok (2 ^ 32 - 2) in_i32 (Some (lprt_partition_indexes s)) \<and>
     tags_ok 0 (lprt_unknown_tagged_fields s)"

lemma ListPartitionReassignmentsTopics_codec [coded_intros]:
  "sized_codec (\<lambda>s. ListPartitionReassignmentsTopics_encode s version) (ListPartitionReassignmentsTopics_decode version)
     (\<lambda>s. ListPartitionReassignmentsTopics_compute_size s version) (ListPartitionReassignmentsTopics_ok version)"
  unfolding ListPartitionReassignmentsTopics_encode_def ListPartitionReassignmentsTopics_decode_def ListPartitionReassignmentsTopics_compute_size_def
  by (rule sized_codecI) (rule coded_intros | (clarsimp simp: ListPartitionReassignmentsTopics_ok_def; fail))+

lemmas ListPartitionReassignmentsTopics_coded [coded_intros] = sized_codec.codes [OF ListPartitionReassignmentsTopics_codec]

definition ListPartitionReassignmentsRequest_encode :: "list_partition_reassignments_request \<Rightarrow> i16 \<Rightarrow> wire_error + bytes" where
  "ListPartitionReassignmentsRequest_encode s version =
     (if version \<noteq> 0 then Inl UNSUPPORTED_VERSION
      else puts
        [Inr (Int32_encode (lprrq_timeout_ms s)),
         CompactArray_encode (\<lambda>x. ListPartitionReassignmentsTopics_encode x version) (lprrq_topics s),
         put_tags [] 0 (lprrq_unknown_tagged_fields s)])"

definition ListPartitionReassignmentsRequest_compute_size :: "list_partition_reassignments_request \<Rightarrow> i16 \<Rightarrow> wire_error + usize" where
  "ListPartitionReassignmentsRequest_compute_size s version =
     sums
       [Inr 4,
        CompactArray_compute_size None (\<lambda>x. ListPartitionReassignmentsTopics_compute_size x version) (lprrq_topics s),
        tags_size [] (lprrq_unknown_tagged_fields s)]"

definition ListPartitionReassignmentsRequest_decode :: "i16 \<Rightarrow> list_partition_reassignments_request decoder" where
  "ListPartitionReassignmentsRequest_decode version =
     (if version \<noteq> 0 then refuse UNSUPPORTED_VERSION
      else
        get Int32_decode (\<lambda>timeout_ms.
        get (CompactArray_decode (ListPartitionReassignmentsTopics_decode version)) (\<lambda>topics.
        get get_unknown_tags (\<lambda>unknown_tagged_fields.
        give \<lparr>lprrq_timeout_ms = timeout_ms, lprrq_topics = topics,
               lprrq_unknown_tagged_fields = unknown_tagged_fields\<rparr>))))"

definition ListPartitionReassignmentsRequest_ok :: "i16 \<Rightarrow> list_partition_reassignments_request \<Rightarrow> bool" where
  "ListPartitionReassignmentsRequest_ok version s \<longleftrightarrow>
     \<not> (version \<noteq> 0) \<and>
     in_i32 (lprrq_timeout_ms s) \<and>
     seq_ok (2 ^ 32 - 2) (ListPartitionReassignmentsTopics_ok version) (lprrq_topics s) \<and>
     tags_ok 0 (lprrq_unknown_tagged_fields s)"

lemma ListPartitionReassignmentsRequest_codec [coded_intros]:
  "sized_codec (\<lambda>s. ListPartitionReassignmentsRequest_encode s version) (ListPartitionReassignmentsRequest_decode version)
     (\<lambda>s. ListPartitionReassignmentsRequest_compute_size s version) (ListPartitionReassignmentsRequest_ok version)"
  unfolding ListPartitionReassignmentsRequest_encode_def ListPartitionReassignmentsRequest_decode_def ListPartitionReassignmentsRequest_compute_size_def
  by (rule sized_codecI) (rule coded_intros | (clarsimp simp: ListPartitionReassignmentsRequest_ok_def; fail))+

lemmas ListPartitionReassignmentsRequest_coded [coded_intros] = sized_codec.codes [OF ListPartitionReassignmentsRequest_codec]

section \<open>Alter replica log dirs request\<close>

definition AlterReplicaLogDirTopic_encode :: "alter_replica_log_dir_topic \<Rightarrow> i16 \<Rightarrow> wire_error + bytes" where
  "AlterReplicaLogDirTopic_encode s version =
     (if version < 1 \<or> version > 2 then Inl UNSUPPORTED_VERSION
      else puts
        [if version \<ge> 2
          then CompactString_encode (Some (arldt_name s))
          else String_encode (Some (arldt_name s)),
         if version \<ge> 2
          then CompactArray_encode (\<lambda>x. Inr (Int32_encode x)) (Some (arldt_partitions s))
          else Array_encode (\<lambda>x. Inr (Int32_encode x)) (Some (arldt_partitions s)),
         if version \<ge> 2 then put_tags [] 0 (arldt_unknown_tagged_fields s) else Inr []])"

definition AlterReplicaLogDirTopic_compute_size :: "alter_replica_log_dir_topic \<Rightarrow> i16 \<Rightarrow> wire_error + usize" where
  "AlterReplicaLogDirTopic_compute_size s version =
     sums
       [if version \<ge> 2
         then CompactString_compute_size (Some (arldt_name s))
         else String_compute_size (Some (arldt_name s)),
        if version \<ge> 2
         then CompactArray_compute_size (Some 4) (\<lambda>_. Inr 4) (Some (arldt_partitions s))
         else Array_compute_size (Some 4) (\<lambda>_. Inr 4) (Some (arldt_partitions s)),
        if version \<ge> 2 then tags_size [] (arldt_unknown_tagged_fields s) else Inr 0]"

definition AlterReplicaLogDirTopic_decode :: "i16 \<Rightarrow> alter_replica_log_dir_topic decoder" where
  "AlterReplicaLogDirTopic_decode version =
     (if version < 1 \<or> version > 2 then refuse UNSUPPORTED_VERSION
      else
        get (if version \<ge> 2 then CompactString_required else String_required) (\<lambda>name.
        get (if version \<ge> 2 then CompactArray_required Int32_decode else Array_required Int32_decode) (\<lambda>partitions.
        get (if version \<ge> 2 then get_unknown_tags else give []) (\<lambda>unknown_tagged_fields.
        give \<lparr>arldt_name = name, arldt_partitions = partitions,
               arldt_unknown_tagged_fields = unknown_tagged_fields\<rparr>))))"

definition AlterReplicaLogDirTopic_ok :: "i16 \<Rightarrow> alter_replica_log_dir_topic \<Rightarrow> bool" where
  "AlterReplicaLogDirTopic_ok version s \<longleftrightarrow>
     \<not> (version < 1 \<or> version > 2) \<and>
     (if version \<ge> 2
       then string_ok (2 ^ 32 - 2) (Some (arldt_name s))
       else string_ok 32767 (Some (arldt_name s))) \<and>
     (if version \<ge> 2
       then seq_ok (2 ^ 32 - 2) in_i32 (Some (arldt_partitions s))
       else seq_ok (2 ^ 31 - 1) in_i32 (Some (arldt_partitions s))) \<and>
     (if version \<ge> 2 then tags_ok 0 (arldt_unknown_tagged_fields s) else arldt_unknown_tagged_fields s = [])"

lemma AlterReplicaLogDirTopic_codec [coded_intros]:
  "sized_codec (\<lambda>s. AlterReplicaLogDirTopic_encode s version) (AlterReplicaLogDirTopic_decode version)
     (\<lambda>s. AlterReplicaLogDirTopic_compute_size s version) (AlterReplicaLogDirTopic_ok version)"
  unfolding AlterReplicaLogDirTopic_encode_def AlterReplicaLogDirTopic_decode_def AlterReplicaLogDirTopic_compute_size_def
  by (rule sized_codecI) (rule coded_intros | (clarsimp simp: AlterReplicaLogDirTopic_ok_def; fail))+

lemmas AlterReplicaLogDirTopic_coded [coded_intros] = sized_codec.codes [OF AlterReplicaLogDirTopic_codec]

definition AlterReplicaLogDir_encode :: "alter_replica_log_dir \<Rightarrow> i16 \<Rightarrow> wire_error + bytes" where
  "AlterReplicaLogDir_encode s version =
     (if version < 1 \<or> version > 2 then Inl UNSUPPORTED_VERSION
      else puts
        [if version \<ge> 2
          then CompactString_encode (Some (arld_path s))
          else String_encode (Some (arld_path s)),
         if version \<ge> 2
          then CompactArray_encode (\<lambda>x. AlterReplicaLogDirTopic_encode x version) (Some (arld_topics s))
          else Array_encode (\<lambda>x. AlterReplicaLogDirTopic_encode x version) (Some (arld_topics s)),
         if version \<ge> 2 then put_tags [] 0 (arld_unknown_tagged_fields s) else Inr []])"

definition AlterReplicaLogDir_compute_size :: "alter_replica_log_dir \<Rightarrow> i16 \<Rightarrow> wire_error + usize" where
  "AlterReplicaLogDir_compute_size s version =
     sums
       [if version \<ge> 2
         then CompactString_compute_size (Some (arld_path s))
         else String_compute_size (Some (arld_path s)),
        if version \<ge> 2
         then CompactArray_compute_size None (\<lambda>x. AlterReplicaLogDirTopic_compute_size x version) (Some (arld_topics s))
         else Array_compute_size None (\<lambda>x. AlterReplicaLogDirTopic_compute_size x version) (Some (arld_topics s)),
        if version \<ge> 2 then tags_size [] (arld_unknown_tagged_fields s) else Inr 0]"

definition AlterReplicaLogDir_decode :: "i16 \<Rightarrow> alter_replica_log_dir decoder" where
  "AlterReplicaLogDir_decode version =
     (if version < 1 \<or> version > 2 then refuse UNSUPPORTED_VERSION
      else
        get (if version \<ge> 2 then CompactString_required else String_required) (\<lambda>path.
        get (if version \<ge> 2
              then CompactArray_required (AlterReplicaLogDirTopic_decode version)
              else Array_required (AlterReplicaLogDirTopic_decode version)) (\<lambda>topics.
        get (if version \<ge> 2 then get_unknown_tags else give []) (\<lambda>unknown_tagged_fields.
        give \<lparr>arld_path = path, arld_topics = topics,
               arld_unknown_tagged_fields = unknown_tagged_fields\<rparr>))))"

definition AlterReplicaLogDir_ok :: "i16 \<Rightarrow> alter_replica_log_dir \<Rightarrow> bool" where
  "AlterReplicaLogDir_ok version s \<longleftrightarrow>
     \<not> (version < 1 \<or> version > 2) \<and>
     (if version \<ge> 2
       then string_ok (2 ^ 32 - 2) (Some (arld_path s))
       else string_ok 32767 (Some (arld_path s))) \<and>
     (if version \<ge> 2
       then seq_ok (2 ^ 32 - 2) (AlterReplicaLogDirTopic_ok version) (Some (arld_topics s))
       else seq_ok (2 ^ 31 - 1) (AlterReplicaLogDirTopic_ok version) (Some (arld_topics s))) \<and>
     (if version \<ge> 2 then tags_ok 0 (arld_unknown_tagged_fields s) else arld_unknown_tagged_fields s = [])"

lemma AlterReplicaLogDir_codec [coded_intros]:
  "sized_codec (\<lambda>s. AlterReplicaLogDir_encode s version) (AlterReplicaLogDir_decode version)
     (\<lambda>s. AlterReplicaLogDir_compute_size s version) (AlterReplicaLogDir_ok version)"
  unfolding AlterReplicaLogDir_encode_def AlterReplicaLogDir_decode_def AlterReplicaLogDir_compute_size_def
  by (rule sized_codecI) (rule coded_intros | (clarsimp simp: AlterReplicaLogDir_ok_def; fail))+

lemmas AlterReplicaLogDir_coded [coded_intros] = sized_codec.codes [OF AlterReplicaLogDir_codec]

definition AlterReplicaLogDirsRequest_encode :: "alter_replica_log_dirs_request \<Rightarrow> i16 \<Rightarrow> wire_error + bytes" where
  "AlterReplicaLogDirsRequest_encode s version =
     (if version < 1 \<or> version > 2 then Inl UNSUPPORTED_VERSION
      else puts
        [if version \<ge> 2
          then CompactArray_encode (\<lambda>x. AlterReplicaLogDir_encode x version) (Some (arldrq_dirs s))
          else Array_encode (\<lambda>x. AlterReplicaLogDir_encode x version) (Some (arldrq_dirs s)),
         if version \<ge> 2 then put_tags [] 0 (arldrq_unknown_tagged_fields s) else Inr []])"

definition AlterReplicaLogDirsRequest_compute_size :: "alter_replica_log_dirs_request \<Rightarrow> i16 \<Rightarrow> wire_error + usize" where
  "AlterReplicaLogDirsRequest_compute_size s version =
     sums
       [if version \<ge> 2
         then CompactArray_compute_size None (\<lambda>x. AlterReplicaLogDir_compute_size x version) (Some (arldrq_dirs s))
         else Array_compute_size None (\<lambda>x. AlterReplicaLogDir_compute_size x version) (Some (arldrq_dirs s)),
        if version \<ge> 2 then tags_size [] (arldrq_unknown_tagged_fields s) else Inr 0]"

definition AlterReplicaLogDirsRequest_decode :: "i16 \<Rightarrow> alter_replica_log_dirs_request decoder" where
  "AlterReplicaLogDirsRequest_decode version =
     (if version < 1 \<or> version > 2 then refuse UNSUPPORTED_VERSION
      else
        get (if version \<ge> 2
              then CompactArray_required (AlterReplicaLogDir_decode version)
              else Array_required (AlterReplicaLogDir_decode version)) (\<lambda>dirs.
        get (if version \<ge> 2 then get_unknown_tags else give []) (\<lambda>unknown_tagged_fields.
        give \<lparr>arldrq_dirs = dirs, arldrq_unknown_tagged_fields = unknown_tagged_fields\<rparr>)))"

definition AlterReplicaLogDirsRequest_ok :: "i16 \<Rightarrow> alter_replica_log_dirs_request \<Rightarrow> bool" where
  "AlterReplicaLogDirsRequest_ok version s \<longleftrightarrow>
     \<not> (version < 1 \<or> version > 2) \<and>
     (if version \<ge> 2
       then seq_ok (2 ^ 32 - 2) (AlterReplicaLogDir_ok version) (Some (arldrq_dirs s))
       else seq_ok (2 ^ 31 - 1) (AlterReplicaLogDir_ok version) (Some (arldrq_dirs s))) \<and>
     (if version \<ge> 2 then tags_ok 0 (arldrq_unknown_tagged_fields s) else arldrq_unknown_tagged_fields s = [])"

lemma AlterReplicaLogDirsRequest_codec [coded_intros]:
  "sized_codec (\<lambda>s. AlterReplicaLogDirsRequest_encode s version) (AlterReplicaLogDirsRequest_decode version)
     (\<lambda>s. AlterReplicaLogDirsRequest_compute_size s version) (AlterReplicaLogDirsRequest_ok version)"
  unfolding AlterReplicaLogDirsRequest_encode_def AlterReplicaLogDirsRequest_decode_def AlterReplicaLogDirsRequest_compute_size_def
  by (rule sized_codecI) (rule coded_intros | (clarsimp simp: AlterReplicaLogDirsRequest_ok_def; fail))+

lemmas AlterReplicaLogDirsRequest_coded [coded_intros] = sized_codec.codes [OF AlterReplicaLogDirsRequest_codec]

section \<open>Describe log dirs request\<close>

definition DescribableLogDirTopic_encode :: "describable_log_dir_topic \<Rightarrow> i16 \<Rightarrow> wire_error + bytes" where
  "DescribableLogDirTopic_encode s version =
     (if version < 1 \<or> version > 5 then Inl UNSUPPORTED_VERSION
      else puts
        [if version \<ge> 2
          then CompactString_encode (Some (dldt_topic s))
          else String_encode (Some (dldt_topic s)),
         if version \<ge> 2
          then CompactArray_encode (\<lambda>x. Inr (Int32_encode x)) (Some (dldt_partitions s))
          else Array_encode (\<lambda>x. Inr (Int32_encode x)) (Some (dldt_partitions s)),
         if version \<ge> 2 then put_tags [] 0 (dldt_unknown_tagged_fields s) else Inr []])"

definition DescribableLogDirTopic_compute_size :: "describable_log_dir_topic \<Rightarrow> i16 \<Rightarrow> wire_error + usize" where
  "DescribableLogDirTopic_compute_size s version =
     sums
       [if version \<ge> 2
         then CompactString_compute_size (Some (dldt_topic s))
         else String_compute_size (Some (dldt_topic s)),
        if version \<ge> 2
         then CompactArray_compute_size (Some 4) (\<lambda>_. Inr 4) (Some (dldt_partitions s))
         else Array_compute_size (Some 4) (\<lambda>_. Inr 4) (Some (dldt_partitions s)),
        if version \<ge> 2 then tags_size [] (dldt_unknown_tagged_fields s) else Inr 0]"

definition DescribableLogDirTopic_decode :: "i16 \<Rightarrow> describable_log_dir_topic decoder" where
  "DescribableLogDirTopic_decode version =
     (if version < 1 \<or> version > 5 then refuse UNSUPPORTED_VERSION
      else
        get (if version \<ge> 2 then CompactString_required else String_required) (\<lambda>topic.
        get (if version \<ge> 2 then CompactArray_required Int32_decode else Array_required Int32_decode) (\<lambda>partitions.
        get (if version \<ge> 2 then get_unknown_tags else give []) (\<lambda>unknown_tagged_fields.
        give \<lparr>dldt_topic = topic, dldt_partitions = partitions,
               dldt_unknown_tagged_fields = unknown_tagged_fields\<rparr>))))"

definition DescribableLogDirTopic_ok :: "i16 \<Rightarrow> describable_log_dir_topic \<Rightarrow> bool" where
  "DescribableLogDirTopic_ok version s \<longleftrightarrow>
     \<not> (version < 1 \<or> version > 5) \<and>
     (if version \<ge> 2
       then string_ok (2 ^ 32 - 2) (Some (dldt_topic s))
       else string_ok 32767 (Some (dldt_topic s))) \<and>
     (if version \<ge> 2
       then seq_ok (2 ^ 32 - 2) in_i32 (Some (dldt_partitions s))
       else seq_ok (2 ^ 31 - 1) in_i32 (Some (dldt_partitions s))) \<and>
     (if version \<ge> 2 then tags_ok 0 (dldt_unknown_tagged_fields s) else dldt_unknown_tagged_fields s = [])"

lemma DescribableLogDirTopic_codec [coded_intros]:
  "sized_codec (\<lambda>s. DescribableLogDirTopic_encode s version) (DescribableLogDirTopic_decode version)
     (\<lambda>s. DescribableLogDirTopic_compute_size s version) (DescribableLogDirTopic_ok version)"
  unfolding DescribableLogDirTopic_encode_def DescribableLogDirTopic_decode_def DescribableLogDirTopic_compute_size_def
  by (rule sized_codecI) (rule coded_intros | (simp add: DescribableLogDirTopic_ok_def; fail))+

lemmas DescribableLogDirTopic_coded [coded_intros] = sized_codec.codes [OF DescribableLogDirTopic_codec]

definition DescribeLogDirsRequest_encode :: "describe_log_dirs_request \<Rightarrow> i16 \<Rightarrow> wire_error + bytes" where
  "DescribeLogDirsRequest_encode s version =
     (if version < 1 \<or> version > 5 then Inl UNSUPPORTED_VERSION
      else puts
        [if version \<ge> 2
          then CompactArray_encode (\<lambda>x. DescribableLogDirTopic_encode x version) (dldrq_topics s)
          else Array_encode (\<lambda>x. DescribableLogDirTopic_encode x version) (dldrq_topics s),
         if version \<ge> 2 then put_tags [] 0 (dldrq_unknown_tagged_fields s) else Inr []])"

definition DescribeLogDirsRequest_compute_size :: "describe_log_dirs_request \<Rightarrow> i16 \<Rightarrow> wire_error + usize" where
  "DescribeLogDirsRequest_compute_size s version =
     sums
       [if version \<ge> 2
         then CompactArray_compute_size None (\<lambda>x. DescribableLogDirTopic_compute_size x version) (dldrq_topics s)
         else Array_compute_size None (\<lambda>x. DescribableLogDirTopic_compute_size x version) (dldrq_topics s),
        if version \<ge> 2 then tags_size [] (dldrq_unknown_tagged_fields s) else Inr 0]"

definition DescribeLogDirsRequest_decode :: "i16 \<Rightarrow> describe_log_dirs_request decoder" where
  "DescribeLogDirsRequest_decode version =
     (if version < 1 \<or> version > 5 then refuse UNSUPPORTED_VERSION
      else
        get (if version \<ge> 2
              then CompactArray_decode (DescribableLogDirTopic_decode version)
              else Array_decode (DescribableLogDirTopic_decode version)) (\<lambda>topics.
        get (if version \<ge> 2 then get_unknown_tags else give []) (\<lambda>unknown_tagged_fields.
        give \<lparr>dldrq_topics = topics, dldrq_unknown_tagged_fields = unknown_tagged_fields\<rparr>)))"

definition DescribeLogDirsRequest_ok :: "i16 \<Rightarrow> describe_log_dirs_request \<Rightarrow> bool" where
  "DescribeLogDirsRequest_ok version s \<longleftrightarrow>
     \<not> (version < 1 \<or> version > 5) \<and>
     (if version \<ge> 2
       then seq_ok (2 ^ 32 - 2) (DescribableLogDirTopic_ok version) (dldrq_topics s)
       else seq_ok (2 ^ 31 - 1) (DescribableLogDirTopic_ok version) (dldrq_topics s)) \<and>
     (if version \<ge> 2 then tags_ok 0 (dldrq_unknown_tagged_fields s) else dldrq_unknown_tagged_fields s = [])"

lemma DescribeLogDirsRequest_codec [coded_intros]:
  "sized_codec (\<lambda>s. DescribeLogDirsRequest_encode s version) (DescribeLogDirsRequest_decode version)
     (\<lambda>s. DescribeLogDirsRequest_compute_size s version) (DescribeLogDirsRequest_ok version)"
  unfolding DescribeLogDirsRequest_encode_def DescribeLogDirsRequest_decode_def DescribeLogDirsRequest_compute_size_def
  by (rule sized_codecI) (rule coded_intros | (simp add: DescribeLogDirsRequest_ok_def; fail))+

lemmas DescribeLogDirsRequest_coded [coded_intros] = sized_codec.codes [OF DescribeLogDirsRequest_codec]

section \<open>Delete groups request\<close>

definition DeleteGroupsRequest_encode :: "delete_groups_request \<Rightarrow> i16 \<Rightarrow> wire_error + bytes" where
  "DeleteGroupsRequest_encode s version =
     (if version < 0 \<or> version > 2 then Inl UNSUPPORTED_VERSION
      else puts
        [if version \<ge> 2
          then CompactArray_encode (\<lambda>x. CompactString_encode (Some x)) (Some (dgrq2_groups_names s))
          else Array_encode (\<lambda>x. String_encode (Some x)) (Some (dgrq2_groups_names s)),
         if version \<ge> 2 then put_tags [] 0 (dgrq2_unknown_tagged_fields s) else Inr []])"

definition DeleteGroupsRequest_compute_size :: "delete_groups_request \<Rightarrow> i16 \<Rightarrow> wire_error + usize" where
  "DeleteGroupsRequest_compute_size s version =
     sums
       [if version \<ge> 2
         then CompactArray_compute_size None (\<lambda>x. CompactString_compute_size (Some x)) (Some (dgrq2_groups_names s))
         else Array_compute_size None (\<lambda>x. String_compute_size (Some x)) (Some (dgrq2_groups_names s)),
        if version \<ge> 2 then tags_size [] (dgrq2_unknown_tagged_fields s) else Inr 0]"

definition DeleteGroupsRequest_decode :: "i16 \<Rightarrow> delete_groups_request decoder" where
  "DeleteGroupsRequest_decode version =
     (if version < 0 \<or> version > 2 then refuse UNSUPPORTED_VERSION
      else
        get (if version \<ge> 2
              then CompactArray_required CompactString_required
              else Array_required String_required) (\<lambda>groups_names.
        get (if version \<ge> 2 then get_unknown_tags else give []) (\<lambda>unknown_tagged_fields.
        give \<lparr>dgrq2_groups_names = groups_names,
               dgrq2_unknown_tagged_fields = unknown_tagged_fields\<rparr>)))"

definition DeleteGroupsRequest_ok :: "i16 \<Rightarrow> delete_groups_request \<Rightarrow> bool" where
  "DeleteGroupsRequest_ok version s \<longleftrightarrow>
     \<not> (version < 0 \<or> version > 2) \<and>
     (if version \<ge> 2
       then seq_ok (2 ^ 32 - 2) (\<lambda>x. string_ok (2 ^ 32 - 2) (Some x)) (Some (dgrq2_groups_names s))
       else seq_ok (2 ^ 31 - 1) (\<lambda>x. string_ok 32767 (Some x)) (Some (dgrq2_groups_names s))) \<and>
     (if version \<ge> 2 then tags_ok 0 (dgrq2_unknown_tagged_fields s) else dgrq2_unknown_tagged_fields s = [])"

lemma DeleteGroupsRequest_codec [coded_intros]:
  "sized_codec (\<lambda>s. DeleteGroupsRequest_encode s version) (DeleteGroupsRequest_decode version)
     (\<lambda>s. DeleteGroupsRequest_compute_size s version) (DeleteGroupsRequest_ok version)"
  unfolding DeleteGroupsRequest_encode_def DeleteGroupsRequest_decode_def DeleteGroupsRequest_compute_size_def
  by (rule sized_codecI) (rule coded_intros | (clarsimp simp: DeleteGroupsRequest_ok_def; fail))+

lemmas DeleteGroupsRequest_coded [coded_intros] = sized_codec.codes [OF DeleteGroupsRequest_codec]

section \<open>Offset delete request\<close>

definition OffsetDeleteRequestPartition_encode :: "offset_delete_request_partition \<Rightarrow> i16 \<Rightarrow> wire_error + bytes" where
  "OffsetDeleteRequestPartition_encode s version =
     (if version \<noteq> 0 then Inl UNSUPPORTED_VERSION
      else puts
        [Inr (Int32_encode (odrqp_partition_index s))])"

definition OffsetDeleteRequestPartition_compute_size :: "offset_delete_request_partition \<Rightarrow> i16 \<Rightarrow> wire_error + usize" where
  "OffsetDeleteRequestPartition_compute_size s version =
     sums
       [Inr 4]"

definition OffsetDeleteRequestPartition_decode :: "i16 \<Rightarrow> offset_delete_request_partition decoder" where
  "OffsetDeleteRequestPartition_decode version =
     (if version \<noteq> 0 then refuse UNSUPPORTED_VERSION
      else
        get Int32_decode (\<lambda>partition_index.
        give \<lparr>odrqp_partition_index = partition_index\<rparr>))"

definition OffsetDeleteRequestPartition_ok :: "i16 \<Rightarrow> offset_delete_request_partition \<Rightarrow> bool" where
  "OffsetDeleteRequestPartition_ok version s \<longleftrightarrow>
     \<not> (version \<noteq> 0) \<and>
     in_i32 (odrqp_partition_index s)"

lemma OffsetDeleteRequestPartition_codec [coded_intros]:
  "sized_codec (\<lambda>s. OffsetDeleteRequestPartition_encode s version) (OffsetDeleteRequestPartition_decode version)
     (\<lambda>s. OffsetDeleteRequestPartition_compute_size s version) (OffsetDeleteRequestPartition_ok version)"
  unfolding OffsetDeleteRequestPartition_encode_def OffsetDeleteRequestPartition_decode_def OffsetDeleteRequestPartition_compute_size_def
  by (rule sized_codecI) (rule coded_intros | (clarsimp simp: OffsetDeleteRequestPartition_ok_def; fail))+

lemmas OffsetDeleteRequestPartition_coded [coded_intros] = sized_codec.codes [OF OffsetDeleteRequestPartition_codec]

definition OffsetDeleteRequestTopic_encode :: "offset_delete_request_topic \<Rightarrow> i16 \<Rightarrow> wire_error + bytes" where
  "OffsetDeleteRequestTopic_encode s version =
     (if version \<noteq> 0 then Inl UNSUPPORTED_VERSION
      else puts
        [String_encode (Some (odrqt_name s)),
         Array_encode (\<lambda>x. OffsetDeleteRequestPartition_encode x version) (Some (odrqt_partitions s))])"

definition OffsetDeleteRequestTopic_compute_size :: "offset_delete_request_topic \<Rightarrow> i16 \<Rightarrow> wire_error + usize" where
  "OffsetDeleteRequestTopic_compute_size s version =
     sums
       [String_compute_size (Some (odrqt_name s)),
        Array_compute_size None (\<lambda>x. OffsetDeleteRequestPartition_compute_size x version) (Some (odrqt_partitions s))]"

definition OffsetDeleteRequestTopic_decode :: "i16 \<Rightarrow> offset_delete_request_topic decoder" where
  "OffsetDeleteRequestTopic_decode version =
     (if version \<noteq> 0 then refuse UNSUPPORTED_VERSION
      else
        get String_required (\<lambda>name.
        get (Array_required (OffsetDeleteRequestPartition_decode version)) (\<lambda>partitions.
        give \<lparr>odrqt_name = name, odrqt_partitions = partitions\<rparr>)))"

definition OffsetDeleteRequestTopic_ok :: "i16 \<Rightarrow> offset_delete_request_topic \<Rightarrow> bool" where
  "OffsetDeleteRequestTopic_ok version s \<longleftrightarrow>
     \<not> (version \<noteq> 0) \<and>
     string_ok 32767 (Some (odrqt_name s)) \<and>
     seq_ok (2 ^ 31 - 1) (OffsetDeleteRequestPartition_ok version) (Some (odrqt_partitions s))"

lemma OffsetDeleteRequestTopic_codec [coded_intros]:
  "sized_codec (\<lambda>s. OffsetDeleteRequestTopic_encode s version) (OffsetDeleteRequestTopic_decode version)
     (\<lambda>s. OffsetDeleteRequestTopic_compute_size s version) (OffsetDeleteRequestTopic_ok version)"
  unfolding OffsetDeleteRequestTopic_encode_def OffsetDeleteRequestTopic_decode_def OffsetDeleteRequestTopic_compute_size_def
  by (rule sized_codecI) (rule coded_intros | (clarsimp simp: OffsetDeleteRequestTopic_ok_def; fail))+

lemmas OffsetDeleteRequestTopic_coded [coded_intros] = sized_codec.codes [OF OffsetDeleteRequestTopic_codec]

definition OffsetDeleteRequest_encode :: "offset_delete_request \<Rightarrow> i16 \<Rightarrow> wire_error + bytes" where
  "OffsetDeleteRequest_encode s version =
     (if version \<noteq> 0 then Inl UNSUPPORTED_VERSION
      else puts
        [String_encode (Some (odrq_group_id s)),
         Array_encode (\<lambda>x. OffsetDeleteRequestTopic_encode x version) (Some (odrq_topics s))])"

definition OffsetDeleteRequest_compute_size :: "offset_delete_request \<Rightarrow> i16 \<Rightarrow> wire_error + usize" where
  "OffsetDeleteRequest_compute_size s version =
     sums
       [String_compute_size (Some (odrq_group_id s)),
        Array_compute_size None (\<lambda>x. OffsetDeleteRequestTopic_compute_size x version) (Some (odrq_topics s))]"

definition OffsetDeleteRequest_decode :: "i16 \<Rightarrow> offset_delete_request decoder" where
  "OffsetDeleteRequest_decode version =
     (if version \<noteq> 0 then refuse UNSUPPORTED_VERSION
      else
        get String_required (\<lambda>group_id.
        get (Array_required (OffsetDeleteRequestTopic_decode version)) (\<lambda>topics.
        give \<lparr>odrq_group_id = group_id, odrq_topics = topics\<rparr>)))"

definition OffsetDeleteRequest_ok :: "i16 \<Rightarrow> offset_delete_request \<Rightarrow> bool" where
  "OffsetDeleteRequest_ok version s \<longleftrightarrow>
     \<not> (version \<noteq> 0) \<and>
     string_ok 32767 (Some (odrq_group_id s)) \<and>
     seq_ok (2 ^ 31 - 1) (OffsetDeleteRequestTopic_ok version) (Some (odrq_topics s))"

lemma OffsetDeleteRequest_codec [coded_intros]:
  "sized_codec (\<lambda>s. OffsetDeleteRequest_encode s version) (OffsetDeleteRequest_decode version)
     (\<lambda>s. OffsetDeleteRequest_compute_size s version) (OffsetDeleteRequest_ok version)"
  unfolding OffsetDeleteRequest_encode_def OffsetDeleteRequest_decode_def OffsetDeleteRequest_compute_size_def
  by (rule sized_codecI) (rule coded_intros | (clarsimp simp: OffsetDeleteRequest_ok_def; fail))+

lemmas OffsetDeleteRequest_coded [coded_intros] = sized_codec.codes [OF OffsetDeleteRequest_codec]

section \<open>Offset for leader epoch request\<close>

definition OffsetForLeaderPartition_encode :: "offset_for_leader_partition \<Rightarrow> i16 \<Rightarrow> wire_error + bytes" where
  "OffsetForLeaderPartition_encode s version =
     (if version < 2 \<or> version > 4 then Inl UNSUPPORTED_VERSION
      else puts
        [Inr (Int32_encode (oflp_partition s)),
         Inr (Int32_encode (oflp_current_leader_epoch s)),
         Inr (Int32_encode (oflp_leader_epoch s)),
         if version \<ge> 4 then put_tags [] 0 (oflp_unknown_tagged_fields s) else Inr []])"

definition OffsetForLeaderPartition_compute_size :: "offset_for_leader_partition \<Rightarrow> i16 \<Rightarrow> wire_error + usize" where
  "OffsetForLeaderPartition_compute_size s version =
     sums
       [Inr 4,
        Inr 4,
        Inr 4,
        if version \<ge> 4 then tags_size [] (oflp_unknown_tagged_fields s) else Inr 0]"

definition OffsetForLeaderPartition_decode :: "i16 \<Rightarrow> offset_for_leader_partition decoder" where
  "OffsetForLeaderPartition_decode version =
     (if version < 2 \<or> version > 4 then refuse UNSUPPORTED_VERSION
      else
        get Int32_decode (\<lambda>partition.
        get Int32_decode (\<lambda>current_leader_epoch.
        get Int32_decode (\<lambda>leader_epoch.
        get (if version \<ge> 4 then get_unknown_tags else give []) (\<lambda>unknown_tagged_fields.
        give \<lparr>oflp_partition = partition, oflp_current_leader_epoch = current_leader_epoch,
               oflp_leader_epoch = leader_epoch, oflp_unknown_tagged_fields = unknown_tagged_fields\<rparr>)))))"

definition OffsetForLeaderPartition_ok :: "i16 \<Rightarrow> offset_for_leader_partition \<Rightarrow> bool" where
  "OffsetForLeaderPartition_ok version s \<longleftrightarrow>
     \<not> (version < 2 \<or> version > 4) \<and>
     in_i32 (oflp_partition s) \<and>
     in_i32 (oflp_current_leader_epoch s) \<and>
     in_i32 (oflp_leader_epoch s) \<and>
     (if version \<ge> 4 then tags_ok 0 (oflp_unknown_tagged_fields s) else oflp_unknown_tagged_fields s = [])"

lemma OffsetForLeaderPartition_codec [coded_intros]:
  "sized_codec (\<lambda>s. OffsetForLeaderPartition_encode s version) (OffsetForLeaderPartition_decode version)
     (\<lambda>s. OffsetForLeaderPartition_compute_size s version) (OffsetForLeaderPartition_ok version)"
  unfolding OffsetForLeaderPartition_encode_def OffsetForLeaderPartition_decode_def OffsetForLeaderPartition_compute_size_def
  by (rule sized_codecI) (rule coded_intros | (clarsimp simp: OffsetForLeaderPartition_ok_def; fail))+

lemmas OffsetForLeaderPartition_coded [coded_intros] = sized_codec.codes [OF OffsetForLeaderPartition_codec]

definition OffsetForLeaderTopic_encode :: "offset_for_leader_topic \<Rightarrow> i16 \<Rightarrow> wire_error + bytes" where
  "OffsetForLeaderTopic_encode s version =
     (if version < 2 \<or> version > 4 then Inl UNSUPPORTED_VERSION
      else puts
        [if version \<ge> 4
          then CompactString_encode (Some (oflt_topic s))
          else String_encode (Some (oflt_topic s)),
         if version \<ge> 4
          then CompactArray_encode (\<lambda>x. OffsetForLeaderPartition_encode x version) (Some (oflt_partitions s))
          else Array_encode (\<lambda>x. OffsetForLeaderPartition_encode x version) (Some (oflt_partitions s)),
         if version \<ge> 4 then put_tags [] 0 (oflt_unknown_tagged_fields s) else Inr []])"

definition OffsetForLeaderTopic_compute_size :: "offset_for_leader_topic \<Rightarrow> i16 \<Rightarrow> wire_error + usize" where
  "OffsetForLeaderTopic_compute_size s version =
     sums
       [if version \<ge> 4
         then CompactString_compute_size (Some (oflt_topic s))
         else String_compute_size (Some (oflt_topic s)),
        if version \<ge> 4
         then CompactArray_compute_size None (\<lambda>x. OffsetForLeaderPartition_compute_size x version) (Some (oflt_partitions s))
         else Array_compute_size None (\<lambda>x. OffsetForLeaderPartition_compute_size x version) (Some (oflt_partitions s)),
        if version \<ge> 4 then tags_size [] (oflt_unknown_tagged_fields s) else Inr 0]"

definition OffsetForLeaderTopic_decode :: "i16 \<Rightarrow> offset_for_leader_topic decoder" where
  "OffsetForLeaderTopic_decode version =
     (if version < 2 \<or> version > 4 then refuse UNSUPPORTED_VERSION
      else
        get (if version \<ge> 4 then CompactString_required else String_required) (\<lambda>topic.
        get (if version \<ge> 4
              then CompactArray_required (OffsetForLeaderPartition_decode version)
              else Array_required (OffsetForLeaderPartition_decode version)) (\<lambda>partitions.
        get (if version \<ge> 4 then get_unknown_tags else give []) (\<lambda>unknown_tagged_fields.
        give \<lparr>oflt_topic = topic, oflt_partitions = partitions,
               oflt_unknown_tagged_fields = unknown_tagged_fields\<rparr>))))"

definition OffsetForLeaderTopic_ok :: "i16 \<Rightarrow> offset_for_leader_topic \<Rightarrow> bool" where
  "OffsetForLeaderTopic_ok version s \<longleftrightarrow>
     \<not> (version < 2 \<or> version > 4) \<and>
     (if version \<ge> 4
       then string_ok (2 ^ 32 - 2) (Some (oflt_topic s))
       else string_ok 32767 (Some (oflt_topic s))) \<and>
     (if version \<ge> 4
       then seq_ok (2 ^ 32 - 2) (OffsetForLeaderPartition_ok version) (Some (oflt_partitions s))
       else seq_ok (2 ^ 31 - 1) (OffsetForLeaderPartition_ok version) (Some (oflt_partitions s))) \<and>
     (if version \<ge> 4 then tags_ok 0 (oflt_unknown_tagged_fields s) else oflt_unknown_tagged_fields s = [])"

lemma OffsetForLeaderTopic_codec [coded_intros]:
  "sized_codec (\<lambda>s. OffsetForLeaderTopic_encode s version) (OffsetForLeaderTopic_decode version)
     (\<lambda>s. OffsetForLeaderTopic_compute_size s version) (OffsetForLeaderTopic_ok version)"
  unfolding OffsetForLeaderTopic_encode_def OffsetForLeaderTopic_decode_def OffsetForLeaderTopic_compute_size_def
  by (rule sized_codecI) (rule coded_intros | (clarsimp simp: OffsetForLeaderTopic_ok_def; fail))+

lemmas OffsetForLeaderTopic_coded [coded_intros] = sized_codec.codes [OF OffsetForLeaderTopic_codec]

definition OffsetForLeaderEpochRequest_encode :: "offset_for_leader_epoch_request \<Rightarrow> i16 \<Rightarrow> wire_error + bytes" where
  "OffsetForLeaderEpochRequest_encode s version =
     (if version < 2 \<or> version > 4 then Inl UNSUPPORTED_VERSION
      else puts
        [if version \<ge> 3 then Inr (Int32_encode (oflerq_replica_id s)) else Inr [],
         if version \<ge> 4
          then CompactArray_encode (\<lambda>x. OffsetForLeaderTopic_encode x version) (Some (oflerq_topics s))
          else Array_encode (\<lambda>x. OffsetForLeaderTopic_encode x version) (Some (oflerq_topics s)),
         if version \<ge> 4 then put_tags [] 0 (oflerq_unknown_tagged_fields s) else Inr []])"

definition OffsetForLeaderEpochRequest_compute_size :: "offset_for_leader_epoch_request \<Rightarrow> i16 \<Rightarrow> wire_error + usize" where
  "OffsetForLeaderEpochRequest_compute_size s version =
     sums
       [if version \<ge> 3 then Inr 4 else Inr 0,
        if version \<ge> 4
         then CompactArray_compute_size None (\<lambda>x. OffsetForLeaderTopic_compute_size x version) (Some (oflerq_topics s))
         else Array_compute_size None (\<lambda>x. OffsetForLeaderTopic_compute_size x version) (Some (oflerq_topics s)),
        if version \<ge> 4 then tags_size [] (oflerq_unknown_tagged_fields s) else Inr 0]"

definition OffsetForLeaderEpochRequest_decode :: "i16 \<Rightarrow> offset_for_leader_epoch_request decoder" where
  "OffsetForLeaderEpochRequest_decode version =
     (if version < 2 \<or> version > 4 then refuse UNSUPPORTED_VERSION
      else
        get (if version \<ge> 3 then Int32_decode else give (- 2)) (\<lambda>replica_id.
        get (if version \<ge> 4
              then CompactArray_required (OffsetForLeaderTopic_decode version)
              else Array_required (OffsetForLeaderTopic_decode version)) (\<lambda>topics.
        get (if version \<ge> 4 then get_unknown_tags else give []) (\<lambda>unknown_tagged_fields.
        give \<lparr>oflerq_replica_id = replica_id, oflerq_topics = topics,
               oflerq_unknown_tagged_fields = unknown_tagged_fields\<rparr>))))"

definition OffsetForLeaderEpochRequest_ok :: "i16 \<Rightarrow> offset_for_leader_epoch_request \<Rightarrow> bool" where
  "OffsetForLeaderEpochRequest_ok version s \<longleftrightarrow>
     \<not> (version < 2 \<or> version > 4) \<and>
     (if version \<ge> 3 then in_i32 (oflerq_replica_id s) else oflerq_replica_id s = - 2) \<and>
     (if version \<ge> 4
       then seq_ok (2 ^ 32 - 2) (OffsetForLeaderTopic_ok version) (Some (oflerq_topics s))
       else seq_ok (2 ^ 31 - 1) (OffsetForLeaderTopic_ok version) (Some (oflerq_topics s))) \<and>
     (if version \<ge> 4 then tags_ok 0 (oflerq_unknown_tagged_fields s) else oflerq_unknown_tagged_fields s = [])"

lemma OffsetForLeaderEpochRequest_codec [coded_intros]:
  "sized_codec (\<lambda>s. OffsetForLeaderEpochRequest_encode s version) (OffsetForLeaderEpochRequest_decode version)
     (\<lambda>s. OffsetForLeaderEpochRequest_compute_size s version) (OffsetForLeaderEpochRequest_ok version)"
  unfolding OffsetForLeaderEpochRequest_encode_def OffsetForLeaderEpochRequest_decode_def OffsetForLeaderEpochRequest_compute_size_def
  by (rule sized_codecI) (rule coded_intros | (clarsimp simp: OffsetForLeaderEpochRequest_ok_def; fail))+

lemmas OffsetForLeaderEpochRequest_coded [coded_intros] = sized_codec.codes [OF OffsetForLeaderEpochRequest_codec]

section \<open>Bodies\<close>

text \<open>The variants of \<open>RequestKind\<close> (\<open>messages.rs\<close>) with these requests, and their codecs by API key. The match on the key is exhaustive; its last arm is the last key of the group.\<close>

datatype admin_request =
  DeleteTopicsRequest delete_topics_request
| DeleteRecordsRequest delete_records_request
| OffsetForLeaderEpochRequest offset_for_leader_epoch_request
| AlterReplicaLogDirsRequest alter_replica_log_dirs_request
| DescribeLogDirsRequest describe_log_dirs_request
| CreatePartitionsRequest create_partitions_request
| DeleteGroupsRequest delete_groups_request
| ElectLeadersRequest elect_leaders_request
| AlterPartitionReassignmentsRequest alter_partition_reassignments_request
| ListPartitionReassignmentsRequest list_partition_reassignments_request
| OffsetDeleteRequest offset_delete_request

fun admin_request_key :: "admin_request \<Rightarrow> i16" where
  "admin_request_key (DeleteTopicsRequest _) = 20"
| "admin_request_key (DeleteRecordsRequest _) = 21"
| "admin_request_key (OffsetForLeaderEpochRequest _) = 23"
| "admin_request_key (AlterReplicaLogDirsRequest _) = 34"
| "admin_request_key (DescribeLogDirsRequest _) = 35"
| "admin_request_key (CreatePartitionsRequest _) = 37"
| "admin_request_key (DeleteGroupsRequest _) = 42"
| "admin_request_key (ElectLeadersRequest _) = 43"
| "admin_request_key (AlterPartitionReassignmentsRequest _) = 45"
| "admin_request_key (ListPartitionReassignmentsRequest _) = 46"
| "admin_request_key (OffsetDeleteRequest _) = 47"

fun admin_request_encode :: "admin_request \<Rightarrow> i16 \<Rightarrow> wire_error + bytes" where
  "admin_request_encode (DeleteTopicsRequest x) version = DeleteTopicsRequest_encode x version"
| "admin_request_encode (DeleteRecordsRequest x) version = DeleteRecordsRequest_encode x version"
| "admin_request_encode (OffsetForLeaderEpochRequest x) version = OffsetForLeaderEpochRequest_encode x version"
| "admin_request_encode (AlterReplicaLogDirsRequest x) version = AlterReplicaLogDirsRequest_encode x version"
| "admin_request_encode (DescribeLogDirsRequest x) version = DescribeLogDirsRequest_encode x version"
| "admin_request_encode (CreatePartitionsRequest x) version = CreatePartitionsRequest_encode x version"
| "admin_request_encode (DeleteGroupsRequest x) version = DeleteGroupsRequest_encode x version"
| "admin_request_encode (ElectLeadersRequest x) version = ElectLeadersRequest_encode x version"
| "admin_request_encode (AlterPartitionReassignmentsRequest x) version = AlterPartitionReassignmentsRequest_encode x version"
| "admin_request_encode (ListPartitionReassignmentsRequest x) version = ListPartitionReassignmentsRequest_encode x version"
| "admin_request_encode (OffsetDeleteRequest x) version = OffsetDeleteRequest_encode x version"

definition admin_request_decode :: "i16 \<Rightarrow> i16 \<Rightarrow> admin_request decoder" where
  "admin_request_decode key version =
     (if key = 20 then get (DeleteTopicsRequest_decode version) (\<lambda>x. give (DeleteTopicsRequest x))
      else if key = 21 then get (DeleteRecordsRequest_decode version) (\<lambda>x. give (DeleteRecordsRequest x))
      else if key = 23 then get (OffsetForLeaderEpochRequest_decode version) (\<lambda>x. give (OffsetForLeaderEpochRequest x))
      else if key = 34 then get (AlterReplicaLogDirsRequest_decode version) (\<lambda>x. give (AlterReplicaLogDirsRequest x))
      else if key = 35 then get (DescribeLogDirsRequest_decode version) (\<lambda>x. give (DescribeLogDirsRequest x))
      else if key = 37 then get (CreatePartitionsRequest_decode version) (\<lambda>x. give (CreatePartitionsRequest x))
      else if key = 42 then get (DeleteGroupsRequest_decode version) (\<lambda>x. give (DeleteGroupsRequest x))
      else if key = 43 then get (ElectLeadersRequest_decode version) (\<lambda>x. give (ElectLeadersRequest x))
      else if key = 45 then get (AlterPartitionReassignmentsRequest_decode version) (\<lambda>x. give (AlterPartitionReassignmentsRequest x))
      else if key = 46 then get (ListPartitionReassignmentsRequest_decode version) (\<lambda>x. give (ListPartitionReassignmentsRequest x))
      else get (OffsetDeleteRequest_decode version) (\<lambda>x. give (OffsetDeleteRequest x)))"

fun admin_request_size :: "i16 \<Rightarrow> admin_request \<Rightarrow> wire_error + usize" where
  "admin_request_size version (DeleteTopicsRequest x) = DeleteTopicsRequest_compute_size x version"
| "admin_request_size version (DeleteRecordsRequest x) = DeleteRecordsRequest_compute_size x version"
| "admin_request_size version (OffsetForLeaderEpochRequest x) = OffsetForLeaderEpochRequest_compute_size x version"
| "admin_request_size version (AlterReplicaLogDirsRequest x) = AlterReplicaLogDirsRequest_compute_size x version"
| "admin_request_size version (DescribeLogDirsRequest x) = DescribeLogDirsRequest_compute_size x version"
| "admin_request_size version (CreatePartitionsRequest x) = CreatePartitionsRequest_compute_size x version"
| "admin_request_size version (DeleteGroupsRequest x) = DeleteGroupsRequest_compute_size x version"
| "admin_request_size version (ElectLeadersRequest x) = ElectLeadersRequest_compute_size x version"
| "admin_request_size version (AlterPartitionReassignmentsRequest x) = AlterPartitionReassignmentsRequest_compute_size x version"
| "admin_request_size version (ListPartitionReassignmentsRequest x) = ListPartitionReassignmentsRequest_compute_size x version"
| "admin_request_size version (OffsetDeleteRequest x) = OffsetDeleteRequest_compute_size x version"

fun admin_request_ok :: "i16 \<Rightarrow> admin_request \<Rightarrow> bool" where
  "admin_request_ok version (DeleteTopicsRequest x) = DeleteTopicsRequest_ok version x"
| "admin_request_ok version (DeleteRecordsRequest x) = DeleteRecordsRequest_ok version x"
| "admin_request_ok version (OffsetForLeaderEpochRequest x) = OffsetForLeaderEpochRequest_ok version x"
| "admin_request_ok version (AlterReplicaLogDirsRequest x) = AlterReplicaLogDirsRequest_ok version x"
| "admin_request_ok version (DescribeLogDirsRequest x) = DescribeLogDirsRequest_ok version x"
| "admin_request_ok version (CreatePartitionsRequest x) = CreatePartitionsRequest_ok version x"
| "admin_request_ok version (DeleteGroupsRequest x) = DeleteGroupsRequest_ok version x"
| "admin_request_ok version (ElectLeadersRequest x) = ElectLeadersRequest_ok version x"
| "admin_request_ok version (AlterPartitionReassignmentsRequest x) = AlterPartitionReassignmentsRequest_ok version x"
| "admin_request_ok version (ListPartitionReassignmentsRequest x) = ListPartitionReassignmentsRequest_ok version x"
| "admin_request_ok version (OffsetDeleteRequest x) = OffsetDeleteRequest_ok version x"

lemma admin_request_coded:
  "admin_request_ok version body \<Longrightarrow>
   coded (admin_request_encode body version) (admin_request_decode (admin_request_key body) version) (admin_request_size version body) body"
  by (cases body) (simp_all add: admin_request_decode_def coded_tag_value
    DeleteTopicsRequest_coded DeleteRecordsRequest_coded OffsetForLeaderEpochRequest_coded AlterReplicaLogDirsRequest_coded DescribeLogDirsRequest_coded CreatePartitionsRequest_coded DeleteGroupsRequest_coded ElectLeadersRequest_coded AlterPartitionReassignmentsRequest_coded ListPartitionReassignmentsRequest_coded OffsetDeleteRequest_coded)

end
