(* ===== verification/Messages_Config.thy ===== *)
theory Messages_Config
  imports Prelude
begin

text \<open>
  Requests about configuration, quotas, features and telemetry, which the broker does not serve
  (\<open>src/crates/kafka-protocol/src/messages/\<close>). Every message is a record with the fields of the Rust structure, and its
  \<open>_default\<close> is the value of \<open>Default::default()\<close>.
\<close>

section \<open>Alter configs request\<close>

record alter_configs_request_alterable_config =
  acrqac_name :: string
  acrqac_value :: "string option"
  acrqac_unknown_tagged_fields :: "(i32, bytes) btree_map"

definition alter_configs_request_alterable_config_default :: alter_configs_request_alterable_config where
  "alter_configs_request_alterable_config_default =
     \<lparr>acrqac_name = [], acrqac_value = Some [], acrqac_unknown_tagged_fields = []\<rparr>"

record alter_configs_request_alter_configs_resource =
  acrqacr_resource_type :: i8
  acrqacr_resource_name :: string
  acrqacr_configs :: "alter_configs_request_alterable_config list"
  acrqacr_unknown_tagged_fields :: "(i32, bytes) btree_map"

definition alter_configs_request_alter_configs_resource_default :: alter_configs_request_alter_configs_resource where
  "alter_configs_request_alter_configs_resource_default =
     \<lparr>acrqacr_resource_type = 0, acrqacr_resource_name = [], acrqacr_configs = [],
      acrqacr_unknown_tagged_fields = []\<rparr>"

record alter_configs_request =
  acrq_resources :: "alter_configs_request_alter_configs_resource list"
  acrq_validate_only :: bool
  acrq_unknown_tagged_fields :: "(i32, bytes) btree_map"

definition alter_configs_request_default :: alter_configs_request where
  "alter_configs_request_default =
     \<lparr>acrq_resources = [], acrq_validate_only = False, acrq_unknown_tagged_fields = []\<rparr>"

section \<open>Incremental alter configs request\<close>

record incremental_alter_configs_request_alterable_config =
  iacrqac_name :: string
  iacrqac_config_operation :: i8
  iacrqac_value :: "string option"
  iacrqac_unknown_tagged_fields :: "(i32, bytes) btree_map"

definition incremental_alter_configs_request_alterable_config_default :: incremental_alter_configs_request_alterable_config where
  "incremental_alter_configs_request_alterable_config_default =
     \<lparr>iacrqac_name = [], iacrqac_config_operation = 0, iacrqac_value = Some [],
      iacrqac_unknown_tagged_fields = []\<rparr>"

record incremental_alter_configs_request_alter_configs_resource =
  iacrqacr_resource_type :: i8
  iacrqacr_resource_name :: string
  iacrqacr_configs :: "incremental_alter_configs_request_alterable_config list"
  iacrqacr_unknown_tagged_fields :: "(i32, bytes) btree_map"

definition incremental_alter_configs_request_alter_configs_resource_default :: incremental_alter_configs_request_alter_configs_resource where
  "incremental_alter_configs_request_alter_configs_resource_default =
     \<lparr>iacrqacr_resource_type = 0, iacrqacr_resource_name = [], iacrqacr_configs = [],
      iacrqacr_unknown_tagged_fields = []\<rparr>"

record incremental_alter_configs_request =
  iacrq_resources :: "incremental_alter_configs_request_alter_configs_resource list"
  iacrq_validate_only :: bool
  iacrq_unknown_tagged_fields :: "(i32, bytes) btree_map"

definition incremental_alter_configs_request_default :: incremental_alter_configs_request where
  "incremental_alter_configs_request_default =
     \<lparr>iacrq_resources = [], iacrq_validate_only = False, iacrq_unknown_tagged_fields = []\<rparr>"

section \<open>List config resources request\<close>

record list_config_resources_request =
  lcrrq_resource_types :: "i8 list"
  lcrrq_unknown_tagged_fields :: "(i32, bytes) btree_map"

definition list_config_resources_request_default :: list_config_resources_request where
  "list_config_resources_request_default =
     \<lparr>lcrrq_resource_types = [], lcrrq_unknown_tagged_fields = []\<rparr>"

section \<open>Alter client quotas request\<close>

record entity_data =
  ed_entity_type :: string
  ed_entity_name :: "string option"
  ed_unknown_tagged_fields :: "(i32, bytes) btree_map"

definition entity_data_default :: entity_data where
  "entity_data_default =
     \<lparr>ed_entity_type = [], ed_entity_name = Some [], ed_unknown_tagged_fields = []\<rparr>"

record op_data =
  od_key :: string
  od_value :: f64
  od_remove :: bool
  od_unknown_tagged_fields :: "(i32, bytes) btree_map"

definition op_data_default :: op_data where
  "op_data_default =
     \<lparr>od_key = [], od_value = 0, od_remove = False, od_unknown_tagged_fields = []\<rparr>"

record entry_data =
  ed2_entity :: "entity_data list"
  ed2_ops :: "op_data list"
  ed2_unknown_tagged_fields :: "(i32, bytes) btree_map"

definition entry_data_default :: entry_data where
  "entry_data_default =
     \<lparr>ed2_entity = [], ed2_ops = [], ed2_unknown_tagged_fields = []\<rparr>"

record alter_client_quotas_request =
  acqrq_entries :: "entry_data list"
  acqrq_validate_only :: bool
  acqrq_unknown_tagged_fields :: "(i32, bytes) btree_map"

definition alter_client_quotas_request_default :: alter_client_quotas_request where
  "alter_client_quotas_request_default =
     \<lparr>acqrq_entries = [], acqrq_validate_only = False, acqrq_unknown_tagged_fields = []\<rparr>"

section \<open>Describe client quotas request\<close>

record component_data =
  cd_entity_type :: string
  cd_match_type :: i8
  cd_match :: "string option"
  cd_unknown_tagged_fields :: "(i32, bytes) btree_map"

definition component_data_default :: component_data where
  "component_data_default =
     \<lparr>cd_entity_type = [], cd_match_type = 0, cd_match = Some [],
      cd_unknown_tagged_fields = []\<rparr>"

record describe_client_quotas_request =
  dcqrq_components :: "component_data list"
  dcqrq_strict :: bool
  dcqrq_unknown_tagged_fields :: "(i32, bytes) btree_map"

definition describe_client_quotas_request_default :: describe_client_quotas_request where
  "describe_client_quotas_request_default =
     \<lparr>dcqrq_components = [], dcqrq_strict = False, dcqrq_unknown_tagged_fields = []\<rparr>"

section \<open>Update features request\<close>

record feature_update_key =
  fuk_feature :: string
  fuk_max_version_level :: i16
  fuk_allow_downgrade :: bool
  fuk_upgrade_type :: i8
  fuk_unknown_tagged_fields :: "(i32, bytes) btree_map"

definition feature_update_key_default :: feature_update_key where
  "feature_update_key_default =
     \<lparr>fuk_feature = [], fuk_max_version_level = 0, fuk_allow_downgrade = False,
      fuk_upgrade_type = 1, fuk_unknown_tagged_fields = []\<rparr>"

record update_features_request =
  ufrq_timeout_ms :: i32
  ufrq_feature_updates :: "feature_update_key list"
  ufrq_validate_only :: bool
  ufrq_unknown_tagged_fields :: "(i32, bytes) btree_map"

definition update_features_request_default :: update_features_request where
  "update_features_request_default =
     \<lparr>ufrq_timeout_ms = 60000, ufrq_feature_updates = [], ufrq_validate_only = False,
      ufrq_unknown_tagged_fields = []\<rparr>"

section \<open>Get telemetry subscriptions request\<close>

record get_telemetry_subscriptions_request =
  gtsrq_client_instance_id :: uuid
  gtsrq_unknown_tagged_fields :: "(i32, bytes) btree_map"

definition get_telemetry_subscriptions_request_default :: get_telemetry_subscriptions_request where
  "get_telemetry_subscriptions_request_default =
     \<lparr>gtsrq_client_instance_id = nil_uuid, gtsrq_unknown_tagged_fields = []\<rparr>"

section \<open>Push telemetry request\<close>

record push_telemetry_request =
  ptrq_client_instance_id :: uuid
  ptrq_subscription_id :: i32
  ptrq_terminating :: bool
  ptrq_compression_type :: i8
  ptrq_metrics :: bytes
  ptrq_unknown_tagged_fields :: "(i32, bytes) btree_map"

definition push_telemetry_request_default :: push_telemetry_request where
  "push_telemetry_request_default =
     \<lparr>ptrq_client_instance_id = nil_uuid, ptrq_subscription_id = 0, ptrq_terminating = False,
      ptrq_compression_type = 0, ptrq_metrics = [], ptrq_unknown_tagged_fields = []\<rparr>"

end
