(* ===== verification/Codec_Config.thy ===== *)
theory Codec_Config
  imports Codec_Admin Messages_Config
begin

text \<open>
  The codecs of the requests about configuration, quotas, features and telemetry
  (\<open>src/crates/kafka-protocol/src/messages/\<close>): the encoder, the size computation and the decoder of every structure,
  for every version of its schema, what a structure must satisfy to be sent in a version, and that it then comes back.
\<close>

section \<open>Alter configs request\<close>

definition AlterConfigsRequestAlterableConfig_encode :: "alter_configs_request_alterable_config \<Rightarrow> i16 \<Rightarrow> wire_error + bytes" where
  "AlterConfigsRequestAlterableConfig_encode s version =
     (if version < 0 \<or> version > 2 then Inl UNSUPPORTED_VERSION
      else puts
        [if version \<ge> 2
          then CompactString_encode (Some (acrqac_name s))
          else String_encode (Some (acrqac_name s)),
         if version \<ge> 2 then CompactString_encode (acrqac_value s) else String_encode (acrqac_value s),
         if version \<ge> 2 then put_tags [] 0 (acrqac_unknown_tagged_fields s) else Inr []])"

definition AlterConfigsRequestAlterableConfig_compute_size :: "alter_configs_request_alterable_config \<Rightarrow> i16 \<Rightarrow> wire_error + usize" where
  "AlterConfigsRequestAlterableConfig_compute_size s version =
     sums
       [if version \<ge> 2
         then CompactString_compute_size (Some (acrqac_name s))
         else String_compute_size (Some (acrqac_name s)),
        if version \<ge> 2
         then CompactString_compute_size (acrqac_value s)
         else String_compute_size (acrqac_value s),
        if version \<ge> 2 then tags_size [] (acrqac_unknown_tagged_fields s) else Inr 0]"

definition AlterConfigsRequestAlterableConfig_decode :: "i16 \<Rightarrow> alter_configs_request_alterable_config decoder" where
  "AlterConfigsRequestAlterableConfig_decode version =
     (if version < 0 \<or> version > 2 then refuse UNSUPPORTED_VERSION
      else
        get (if version \<ge> 2 then CompactString_required else String_required) (\<lambda>name.
        get (if version \<ge> 2 then CompactString_decode else String_decode) (\<lambda>value.
        get (if version \<ge> 2 then get_unknown_tags else give []) (\<lambda>unknown_tagged_fields.
        give \<lparr>acrqac_name = name, acrqac_value = value,
               acrqac_unknown_tagged_fields = unknown_tagged_fields\<rparr>))))"

definition AlterConfigsRequestAlterableConfig_ok :: "i16 \<Rightarrow> alter_configs_request_alterable_config \<Rightarrow> bool" where
  "AlterConfigsRequestAlterableConfig_ok version s \<longleftrightarrow>
     \<not> (version < 0 \<or> version > 2) \<and>
     (if version \<ge> 2
       then string_ok (2 ^ 32 - 2) (Some (acrqac_name s))
       else string_ok 32767 (Some (acrqac_name s))) \<and>
     (if version \<ge> 2 then string_ok (2 ^ 32 - 2) (acrqac_value s) else string_ok 32767 (acrqac_value s)) \<and>
     (if version \<ge> 2 then tags_ok 0 (acrqac_unknown_tagged_fields s) else acrqac_unknown_tagged_fields s = [])"

lemma AlterConfigsRequestAlterableConfig_codec [coded_intros]:
  "sized_codec (\<lambda>s. AlterConfigsRequestAlterableConfig_encode s version) (AlterConfigsRequestAlterableConfig_decode version)
     (\<lambda>s. AlterConfigsRequestAlterableConfig_compute_size s version) (AlterConfigsRequestAlterableConfig_ok version)"
  unfolding AlterConfigsRequestAlterableConfig_encode_def AlterConfigsRequestAlterableConfig_decode_def AlterConfigsRequestAlterableConfig_compute_size_def
  by (rule sized_codecI) (rule coded_intros | (clarsimp simp: AlterConfigsRequestAlterableConfig_ok_def; fail))+

lemmas AlterConfigsRequestAlterableConfig_coded [coded_intros] = sized_codec.codes [OF AlterConfigsRequestAlterableConfig_codec]

definition AlterConfigsRequestAlterConfigsResource_encode :: "alter_configs_request_alter_configs_resource \<Rightarrow> i16 \<Rightarrow> wire_error + bytes" where
  "AlterConfigsRequestAlterConfigsResource_encode s version =
     (if version < 0 \<or> version > 2 then Inl UNSUPPORTED_VERSION
      else puts
        [Inr (Int8_encode (acrqacr_resource_type s)),
         if version \<ge> 2
          then CompactString_encode (Some (acrqacr_resource_name s))
          else String_encode (Some (acrqacr_resource_name s)),
         if version \<ge> 2
          then CompactArray_encode (\<lambda>x. AlterConfigsRequestAlterableConfig_encode x version) (Some (acrqacr_configs s))
          else Array_encode (\<lambda>x. AlterConfigsRequestAlterableConfig_encode x version) (Some (acrqacr_configs s)),
         if version \<ge> 2 then put_tags [] 0 (acrqacr_unknown_tagged_fields s) else Inr []])"

definition AlterConfigsRequestAlterConfigsResource_compute_size :: "alter_configs_request_alter_configs_resource \<Rightarrow> i16 \<Rightarrow> wire_error + usize" where
  "AlterConfigsRequestAlterConfigsResource_compute_size s version =
     sums
       [Inr 1,
        if version \<ge> 2
         then CompactString_compute_size (Some (acrqacr_resource_name s))
         else String_compute_size (Some (acrqacr_resource_name s)),
        if version \<ge> 2
         then CompactArray_compute_size None (\<lambda>x. AlterConfigsRequestAlterableConfig_compute_size x version) (Some (acrqacr_configs s))
         else Array_compute_size None (\<lambda>x. AlterConfigsRequestAlterableConfig_compute_size x version) (Some (acrqacr_configs s)),
        if version \<ge> 2 then tags_size [] (acrqacr_unknown_tagged_fields s) else Inr 0]"

definition AlterConfigsRequestAlterConfigsResource_decode :: "i16 \<Rightarrow> alter_configs_request_alter_configs_resource decoder" where
  "AlterConfigsRequestAlterConfigsResource_decode version =
     (if version < 0 \<or> version > 2 then refuse UNSUPPORTED_VERSION
      else
        get Int8_decode (\<lambda>resource_type.
        get (if version \<ge> 2 then CompactString_required else String_required) (\<lambda>resource_name.
        get (if version \<ge> 2
              then CompactArray_required (AlterConfigsRequestAlterableConfig_decode version)
              else Array_required (AlterConfigsRequestAlterableConfig_decode version)) (\<lambda>configs.
        get (if version \<ge> 2 then get_unknown_tags else give []) (\<lambda>unknown_tagged_fields.
        give \<lparr>acrqacr_resource_type = resource_type, acrqacr_resource_name = resource_name,
               acrqacr_configs = configs, acrqacr_unknown_tagged_fields = unknown_tagged_fields\<rparr>)))))"

definition AlterConfigsRequestAlterConfigsResource_ok :: "i16 \<Rightarrow> alter_configs_request_alter_configs_resource \<Rightarrow> bool" where
  "AlterConfigsRequestAlterConfigsResource_ok version s \<longleftrightarrow>
     \<not> (version < 0 \<or> version > 2) \<and>
     in_i8 (acrqacr_resource_type s) \<and>
     (if version \<ge> 2
       then string_ok (2 ^ 32 - 2) (Some (acrqacr_resource_name s))
       else string_ok 32767 (Some (acrqacr_resource_name s))) \<and>
     (if version \<ge> 2
       then seq_ok (2 ^ 32 - 2) (AlterConfigsRequestAlterableConfig_ok version) (Some (acrqacr_configs s))
       else seq_ok (2 ^ 31 - 1) (AlterConfigsRequestAlterableConfig_ok version) (Some (acrqacr_configs s))) \<and>
     (if version \<ge> 2 then tags_ok 0 (acrqacr_unknown_tagged_fields s) else acrqacr_unknown_tagged_fields s = [])"

lemma AlterConfigsRequestAlterConfigsResource_codec [coded_intros]:
  "sized_codec (\<lambda>s. AlterConfigsRequestAlterConfigsResource_encode s version) (AlterConfigsRequestAlterConfigsResource_decode version)
     (\<lambda>s. AlterConfigsRequestAlterConfigsResource_compute_size s version) (AlterConfigsRequestAlterConfigsResource_ok version)"
  unfolding AlterConfigsRequestAlterConfigsResource_encode_def AlterConfigsRequestAlterConfigsResource_decode_def AlterConfigsRequestAlterConfigsResource_compute_size_def
  by (rule sized_codecI) (rule coded_intros | (clarsimp simp: AlterConfigsRequestAlterConfigsResource_ok_def; fail))+

lemmas AlterConfigsRequestAlterConfigsResource_coded [coded_intros] = sized_codec.codes [OF AlterConfigsRequestAlterConfigsResource_codec]

definition AlterConfigsRequest_encode :: "alter_configs_request \<Rightarrow> i16 \<Rightarrow> wire_error + bytes" where
  "AlterConfigsRequest_encode s version =
     (if version < 0 \<or> version > 2 then Inl UNSUPPORTED_VERSION
      else puts
        [if version \<ge> 2
          then CompactArray_encode (\<lambda>x. AlterConfigsRequestAlterConfigsResource_encode x version) (Some (acrq_resources s))
          else Array_encode (\<lambda>x. AlterConfigsRequestAlterConfigsResource_encode x version) (Some (acrq_resources s)),
         Inr (Boolean_encode (acrq_validate_only s)),
         if version \<ge> 2 then put_tags [] 0 (acrq_unknown_tagged_fields s) else Inr []])"

definition AlterConfigsRequest_compute_size :: "alter_configs_request \<Rightarrow> i16 \<Rightarrow> wire_error + usize" where
  "AlterConfigsRequest_compute_size s version =
     sums
       [if version \<ge> 2
         then CompactArray_compute_size None (\<lambda>x. AlterConfigsRequestAlterConfigsResource_compute_size x version) (Some (acrq_resources s))
         else Array_compute_size None (\<lambda>x. AlterConfigsRequestAlterConfigsResource_compute_size x version) (Some (acrq_resources s)),
        Inr 1,
        if version \<ge> 2 then tags_size [] (acrq_unknown_tagged_fields s) else Inr 0]"

definition AlterConfigsRequest_decode :: "i16 \<Rightarrow> alter_configs_request decoder" where
  "AlterConfigsRequest_decode version =
     (if version < 0 \<or> version > 2 then refuse UNSUPPORTED_VERSION
      else
        get (if version \<ge> 2
              then CompactArray_required (AlterConfigsRequestAlterConfigsResource_decode version)
              else Array_required (AlterConfigsRequestAlterConfigsResource_decode version)) (\<lambda>resources.
        get Boolean_decode (\<lambda>validate_only.
        get (if version \<ge> 2 then get_unknown_tags else give []) (\<lambda>unknown_tagged_fields.
        give \<lparr>acrq_resources = resources, acrq_validate_only = validate_only,
               acrq_unknown_tagged_fields = unknown_tagged_fields\<rparr>))))"

definition AlterConfigsRequest_ok :: "i16 \<Rightarrow> alter_configs_request \<Rightarrow> bool" where
  "AlterConfigsRequest_ok version s \<longleftrightarrow>
     \<not> (version < 0 \<or> version > 2) \<and>
     (if version \<ge> 2
       then seq_ok (2 ^ 32 - 2) (AlterConfigsRequestAlterConfigsResource_ok version) (Some (acrq_resources s))
       else seq_ok (2 ^ 31 - 1) (AlterConfigsRequestAlterConfigsResource_ok version) (Some (acrq_resources s))) \<and>
     (if version \<ge> 2 then tags_ok 0 (acrq_unknown_tagged_fields s) else acrq_unknown_tagged_fields s = [])"

lemma AlterConfigsRequest_codec [coded_intros]:
  "sized_codec (\<lambda>s. AlterConfigsRequest_encode s version) (AlterConfigsRequest_decode version)
     (\<lambda>s. AlterConfigsRequest_compute_size s version) (AlterConfigsRequest_ok version)"
  unfolding AlterConfigsRequest_encode_def AlterConfigsRequest_decode_def AlterConfigsRequest_compute_size_def
  by (rule sized_codecI) (rule coded_intros | (clarsimp simp: AlterConfigsRequest_ok_def; fail))+

lemmas AlterConfigsRequest_coded [coded_intros] = sized_codec.codes [OF AlterConfigsRequest_codec]

section \<open>Incremental alter configs request\<close>

definition IncrementalAlterConfigsRequestAlterableConfig_encode :: "incremental_alter_configs_request_alterable_config \<Rightarrow> i16 \<Rightarrow> wire_error + bytes" where
  "IncrementalAlterConfigsRequestAlterableConfig_encode s version =
     (if version < 0 \<or> version > 1 then Inl UNSUPPORTED_VERSION
      else puts
        [if version \<ge> 1
          then CompactString_encode (Some (iacrqac_name s))
          else String_encode (Some (iacrqac_name s)),
         Inr (Int8_encode (iacrqac_config_operation s)),
         if version \<ge> 1 then CompactString_encode (iacrqac_value s) else String_encode (iacrqac_value s),
         if version \<ge> 1 then put_tags [] 0 (iacrqac_unknown_tagged_fields s) else Inr []])"

definition IncrementalAlterConfigsRequestAlterableConfig_compute_size :: "incremental_alter_configs_request_alterable_config \<Rightarrow> i16 \<Rightarrow> wire_error + usize" where
  "IncrementalAlterConfigsRequestAlterableConfig_compute_size s version =
     sums
       [if version \<ge> 1
         then CompactString_compute_size (Some (iacrqac_name s))
         else String_compute_size (Some (iacrqac_name s)),
        Inr 1,
        if version \<ge> 1
         then CompactString_compute_size (iacrqac_value s)
         else String_compute_size (iacrqac_value s),
        if version \<ge> 1 then tags_size [] (iacrqac_unknown_tagged_fields s) else Inr 0]"

definition IncrementalAlterConfigsRequestAlterableConfig_decode :: "i16 \<Rightarrow> incremental_alter_configs_request_alterable_config decoder" where
  "IncrementalAlterConfigsRequestAlterableConfig_decode version =
     (if version < 0 \<or> version > 1 then refuse UNSUPPORTED_VERSION
      else
        get (if version \<ge> 1 then CompactString_required else String_required) (\<lambda>name.
        get Int8_decode (\<lambda>config_operation.
        get (if version \<ge> 1 then CompactString_decode else String_decode) (\<lambda>value.
        get (if version \<ge> 1 then get_unknown_tags else give []) (\<lambda>unknown_tagged_fields.
        give \<lparr>iacrqac_name = name, iacrqac_config_operation = config_operation,
               iacrqac_value = value, iacrqac_unknown_tagged_fields = unknown_tagged_fields\<rparr>)))))"

definition IncrementalAlterConfigsRequestAlterableConfig_ok :: "i16 \<Rightarrow> incremental_alter_configs_request_alterable_config \<Rightarrow> bool" where
  "IncrementalAlterConfigsRequestAlterableConfig_ok version s \<longleftrightarrow>
     \<not> (version < 0 \<or> version > 1) \<and>
     (if version \<ge> 1
       then string_ok (2 ^ 32 - 2) (Some (iacrqac_name s))
       else string_ok 32767 (Some (iacrqac_name s))) \<and>
     in_i8 (iacrqac_config_operation s) \<and>
     (if version \<ge> 1
       then string_ok (2 ^ 32 - 2) (iacrqac_value s)
       else string_ok 32767 (iacrqac_value s)) \<and>
     (if version \<ge> 1 then tags_ok 0 (iacrqac_unknown_tagged_fields s) else iacrqac_unknown_tagged_fields s = [])"

lemma IncrementalAlterConfigsRequestAlterableConfig_codec [coded_intros]:
  "sized_codec (\<lambda>s. IncrementalAlterConfigsRequestAlterableConfig_encode s version) (IncrementalAlterConfigsRequestAlterableConfig_decode version)
     (\<lambda>s. IncrementalAlterConfigsRequestAlterableConfig_compute_size s version) (IncrementalAlterConfigsRequestAlterableConfig_ok version)"
  unfolding IncrementalAlterConfigsRequestAlterableConfig_encode_def IncrementalAlterConfigsRequestAlterableConfig_decode_def IncrementalAlterConfigsRequestAlterableConfig_compute_size_def
  by (rule sized_codecI) (rule coded_intros | (clarsimp simp: IncrementalAlterConfigsRequestAlterableConfig_ok_def; fail))+

lemmas IncrementalAlterConfigsRequestAlterableConfig_coded [coded_intros] = sized_codec.codes [OF IncrementalAlterConfigsRequestAlterableConfig_codec]

definition IncrementalAlterConfigsRequestAlterConfigsResource_encode :: "incremental_alter_configs_request_alter_configs_resource \<Rightarrow> i16 \<Rightarrow> wire_error + bytes" where
  "IncrementalAlterConfigsRequestAlterConfigsResource_encode s version =
     (if version < 0 \<or> version > 1 then Inl UNSUPPORTED_VERSION
      else puts
        [Inr (Int8_encode (iacrqacr_resource_type s)),
         if version \<ge> 1
          then CompactString_encode (Some (iacrqacr_resource_name s))
          else String_encode (Some (iacrqacr_resource_name s)),
         if version \<ge> 1
          then CompactArray_encode (\<lambda>x. IncrementalAlterConfigsRequestAlterableConfig_encode x version) (Some (iacrqacr_configs s))
          else Array_encode (\<lambda>x. IncrementalAlterConfigsRequestAlterableConfig_encode x version) (Some (iacrqacr_configs s)),
         if version \<ge> 1 then put_tags [] 0 (iacrqacr_unknown_tagged_fields s) else Inr []])"

definition IncrementalAlterConfigsRequestAlterConfigsResource_compute_size :: "incremental_alter_configs_request_alter_configs_resource \<Rightarrow> i16 \<Rightarrow> wire_error + usize" where
  "IncrementalAlterConfigsRequestAlterConfigsResource_compute_size s version =
     sums
       [Inr 1,
        if version \<ge> 1
         then CompactString_compute_size (Some (iacrqacr_resource_name s))
         else String_compute_size (Some (iacrqacr_resource_name s)),
        if version \<ge> 1
         then CompactArray_compute_size None (\<lambda>x. IncrementalAlterConfigsRequestAlterableConfig_compute_size x version) (Some (iacrqacr_configs s))
         else Array_compute_size None (\<lambda>x. IncrementalAlterConfigsRequestAlterableConfig_compute_size x version) (Some (iacrqacr_configs s)),
        if version \<ge> 1 then tags_size [] (iacrqacr_unknown_tagged_fields s) else Inr 0]"

definition IncrementalAlterConfigsRequestAlterConfigsResource_decode :: "i16 \<Rightarrow> incremental_alter_configs_request_alter_configs_resource decoder" where
  "IncrementalAlterConfigsRequestAlterConfigsResource_decode version =
     (if version < 0 \<or> version > 1 then refuse UNSUPPORTED_VERSION
      else
        get Int8_decode (\<lambda>resource_type.
        get (if version \<ge> 1 then CompactString_required else String_required) (\<lambda>resource_name.
        get (if version \<ge> 1
              then CompactArray_required (IncrementalAlterConfigsRequestAlterableConfig_decode version)
              else Array_required (IncrementalAlterConfigsRequestAlterableConfig_decode version)) (\<lambda>configs.
        get (if version \<ge> 1 then get_unknown_tags else give []) (\<lambda>unknown_tagged_fields.
        give \<lparr>iacrqacr_resource_type = resource_type, iacrqacr_resource_name = resource_name,
               iacrqacr_configs = configs, iacrqacr_unknown_tagged_fields = unknown_tagged_fields\<rparr>)))))"

definition IncrementalAlterConfigsRequestAlterConfigsResource_ok :: "i16 \<Rightarrow> incremental_alter_configs_request_alter_configs_resource \<Rightarrow> bool" where
  "IncrementalAlterConfigsRequestAlterConfigsResource_ok version s \<longleftrightarrow>
     \<not> (version < 0 \<or> version > 1) \<and>
     in_i8 (iacrqacr_resource_type s) \<and>
     (if version \<ge> 1
       then string_ok (2 ^ 32 - 2) (Some (iacrqacr_resource_name s))
       else string_ok 32767 (Some (iacrqacr_resource_name s))) \<and>
     (if version \<ge> 1
       then seq_ok (2 ^ 32 - 2) (IncrementalAlterConfigsRequestAlterableConfig_ok version) (Some (iacrqacr_configs s))
       else seq_ok (2 ^ 31 - 1) (IncrementalAlterConfigsRequestAlterableConfig_ok version) (Some (iacrqacr_configs s))) \<and>
     (if version \<ge> 1 then tags_ok 0 (iacrqacr_unknown_tagged_fields s) else iacrqacr_unknown_tagged_fields s = [])"

lemma IncrementalAlterConfigsRequestAlterConfigsResource_codec [coded_intros]:
  "sized_codec (\<lambda>s. IncrementalAlterConfigsRequestAlterConfigsResource_encode s version) (IncrementalAlterConfigsRequestAlterConfigsResource_decode version)
     (\<lambda>s. IncrementalAlterConfigsRequestAlterConfigsResource_compute_size s version) (IncrementalAlterConfigsRequestAlterConfigsResource_ok version)"
  unfolding IncrementalAlterConfigsRequestAlterConfigsResource_encode_def IncrementalAlterConfigsRequestAlterConfigsResource_decode_def IncrementalAlterConfigsRequestAlterConfigsResource_compute_size_def
  by (rule sized_codecI) (rule coded_intros | (clarsimp simp: IncrementalAlterConfigsRequestAlterConfigsResource_ok_def; fail))+

lemmas IncrementalAlterConfigsRequestAlterConfigsResource_coded [coded_intros] = sized_codec.codes [OF IncrementalAlterConfigsRequestAlterConfigsResource_codec]

definition IncrementalAlterConfigsRequest_encode :: "incremental_alter_configs_request \<Rightarrow> i16 \<Rightarrow> wire_error + bytes" where
  "IncrementalAlterConfigsRequest_encode s version =
     (if version < 0 \<or> version > 1 then Inl UNSUPPORTED_VERSION
      else puts
        [if version \<ge> 1
          then CompactArray_encode (\<lambda>x. IncrementalAlterConfigsRequestAlterConfigsResource_encode x version) (Some (iacrq_resources s))
          else Array_encode (\<lambda>x. IncrementalAlterConfigsRequestAlterConfigsResource_encode x version) (Some (iacrq_resources s)),
         Inr (Boolean_encode (iacrq_validate_only s)),
         if version \<ge> 1 then put_tags [] 0 (iacrq_unknown_tagged_fields s) else Inr []])"

definition IncrementalAlterConfigsRequest_compute_size :: "incremental_alter_configs_request \<Rightarrow> i16 \<Rightarrow> wire_error + usize" where
  "IncrementalAlterConfigsRequest_compute_size s version =
     sums
       [if version \<ge> 1
         then CompactArray_compute_size None (\<lambda>x. IncrementalAlterConfigsRequestAlterConfigsResource_compute_size x version) (Some (iacrq_resources s))
         else Array_compute_size None (\<lambda>x. IncrementalAlterConfigsRequestAlterConfigsResource_compute_size x version) (Some (iacrq_resources s)),
        Inr 1,
        if version \<ge> 1 then tags_size [] (iacrq_unknown_tagged_fields s) else Inr 0]"

definition IncrementalAlterConfigsRequest_decode :: "i16 \<Rightarrow> incremental_alter_configs_request decoder" where
  "IncrementalAlterConfigsRequest_decode version =
     (if version < 0 \<or> version > 1 then refuse UNSUPPORTED_VERSION
      else
        get (if version \<ge> 1
              then CompactArray_required (IncrementalAlterConfigsRequestAlterConfigsResource_decode version)
              else Array_required (IncrementalAlterConfigsRequestAlterConfigsResource_decode version)) (\<lambda>resources.
        get Boolean_decode (\<lambda>validate_only.
        get (if version \<ge> 1 then get_unknown_tags else give []) (\<lambda>unknown_tagged_fields.
        give \<lparr>iacrq_resources = resources, iacrq_validate_only = validate_only,
               iacrq_unknown_tagged_fields = unknown_tagged_fields\<rparr>))))"

definition IncrementalAlterConfigsRequest_ok :: "i16 \<Rightarrow> incremental_alter_configs_request \<Rightarrow> bool" where
  "IncrementalAlterConfigsRequest_ok version s \<longleftrightarrow>
     \<not> (version < 0 \<or> version > 1) \<and>
     (if version \<ge> 1
       then seq_ok (2 ^ 32 - 2) (IncrementalAlterConfigsRequestAlterConfigsResource_ok version) (Some (iacrq_resources s))
       else seq_ok (2 ^ 31 - 1) (IncrementalAlterConfigsRequestAlterConfigsResource_ok version) (Some (iacrq_resources s))) \<and>
     (if version \<ge> 1 then tags_ok 0 (iacrq_unknown_tagged_fields s) else iacrq_unknown_tagged_fields s = [])"

lemma IncrementalAlterConfigsRequest_codec [coded_intros]:
  "sized_codec (\<lambda>s. IncrementalAlterConfigsRequest_encode s version) (IncrementalAlterConfigsRequest_decode version)
     (\<lambda>s. IncrementalAlterConfigsRequest_compute_size s version) (IncrementalAlterConfigsRequest_ok version)"
  unfolding IncrementalAlterConfigsRequest_encode_def IncrementalAlterConfigsRequest_decode_def IncrementalAlterConfigsRequest_compute_size_def
  by (rule sized_codecI) (rule coded_intros | (clarsimp simp: IncrementalAlterConfigsRequest_ok_def; fail))+

lemmas IncrementalAlterConfigsRequest_coded [coded_intros] = sized_codec.codes [OF IncrementalAlterConfigsRequest_codec]

section \<open>List config resources request\<close>

definition ListConfigResourcesRequest_encode :: "list_config_resources_request \<Rightarrow> i16 \<Rightarrow> wire_error + bytes" where
  "ListConfigResourcesRequest_encode s version =
     (if version < 0 \<or> version > 1 then Inl UNSUPPORTED_VERSION
      else puts
        [if version \<ge> 1
          then CompactArray_encode (\<lambda>x. Inr (Int8_encode x)) (Some (lcrrq_resource_types s))
          else unset [] (lcrrq_resource_types s = []),
         put_tags [] 0 (lcrrq_unknown_tagged_fields s)])"

definition ListConfigResourcesRequest_compute_size :: "list_config_resources_request \<Rightarrow> i16 \<Rightarrow> wire_error + usize" where
  "ListConfigResourcesRequest_compute_size s version =
     sums
       [if version \<ge> 1
         then CompactArray_compute_size (Some 1) (\<lambda>_. Inr 1) (Some (lcrrq_resource_types s))
         else unset 0 (lcrrq_resource_types s = []),
        tags_size [] (lcrrq_unknown_tagged_fields s)]"

definition ListConfigResourcesRequest_decode :: "i16 \<Rightarrow> list_config_resources_request decoder" where
  "ListConfigResourcesRequest_decode version =
     (if version < 0 \<or> version > 1 then refuse UNSUPPORTED_VERSION
      else
        get (if version \<ge> 1 then CompactArray_required Int8_decode else give []) (\<lambda>resource_types.
        get get_unknown_tags (\<lambda>unknown_tagged_fields.
        give \<lparr>lcrrq_resource_types = resource_types,
               lcrrq_unknown_tagged_fields = unknown_tagged_fields\<rparr>)))"

definition ListConfigResourcesRequest_ok :: "i16 \<Rightarrow> list_config_resources_request \<Rightarrow> bool" where
  "ListConfigResourcesRequest_ok version s \<longleftrightarrow>
     \<not> (version < 0 \<or> version > 1) \<and>
     (if version \<ge> 1
       then seq_ok (2 ^ 32 - 2) in_i8 (Some (lcrrq_resource_types s))
       else lcrrq_resource_types s = []) \<and>
     tags_ok 0 (lcrrq_unknown_tagged_fields s)"

lemma ListConfigResourcesRequest_codec [coded_intros]:
  "sized_codec (\<lambda>s. ListConfigResourcesRequest_encode s version) (ListConfigResourcesRequest_decode version)
     (\<lambda>s. ListConfigResourcesRequest_compute_size s version) (ListConfigResourcesRequest_ok version)"
  unfolding ListConfigResourcesRequest_encode_def ListConfigResourcesRequest_decode_def ListConfigResourcesRequest_compute_size_def
  by (rule sized_codecI) (rule coded_intros | (clarsimp simp: ListConfigResourcesRequest_ok_def; fail))+

lemmas ListConfigResourcesRequest_coded [coded_intros] = sized_codec.codes [OF ListConfigResourcesRequest_codec]

section \<open>Alter client quotas request\<close>

definition EntityData_encode :: "entity_data \<Rightarrow> i16 \<Rightarrow> wire_error + bytes" where
  "EntityData_encode s version =
     (if version < 0 \<or> version > 1 then Inl UNSUPPORTED_VERSION
      else puts
        [if version \<ge> 1
          then CompactString_encode (Some (ed_entity_type s))
          else String_encode (Some (ed_entity_type s)),
         if version \<ge> 1
          then CompactString_encode (ed_entity_name s)
          else String_encode (ed_entity_name s),
         if version \<ge> 1 then put_tags [] 0 (ed_unknown_tagged_fields s) else Inr []])"

definition EntityData_compute_size :: "entity_data \<Rightarrow> i16 \<Rightarrow> wire_error + usize" where
  "EntityData_compute_size s version =
     sums
       [if version \<ge> 1
         then CompactString_compute_size (Some (ed_entity_type s))
         else String_compute_size (Some (ed_entity_type s)),
        if version \<ge> 1
         then CompactString_compute_size (ed_entity_name s)
         else String_compute_size (ed_entity_name s),
        if version \<ge> 1 then tags_size [] (ed_unknown_tagged_fields s) else Inr 0]"

definition EntityData_decode :: "i16 \<Rightarrow> entity_data decoder" where
  "EntityData_decode version =
     (if version < 0 \<or> version > 1 then refuse UNSUPPORTED_VERSION
      else
        get (if version \<ge> 1 then CompactString_required else String_required) (\<lambda>entity_type.
        get (if version \<ge> 1 then CompactString_decode else String_decode) (\<lambda>entity_name.
        get (if version \<ge> 1 then get_unknown_tags else give []) (\<lambda>unknown_tagged_fields.
        give \<lparr>ed_entity_type = entity_type, ed_entity_name = entity_name,
               ed_unknown_tagged_fields = unknown_tagged_fields\<rparr>))))"

definition EntityData_ok :: "i16 \<Rightarrow> entity_data \<Rightarrow> bool" where
  "EntityData_ok version s \<longleftrightarrow>
     \<not> (version < 0 \<or> version > 1) \<and>
     (if version \<ge> 1
       then string_ok (2 ^ 32 - 2) (Some (ed_entity_type s))
       else string_ok 32767 (Some (ed_entity_type s))) \<and>
     (if version \<ge> 1
       then string_ok (2 ^ 32 - 2) (ed_entity_name s)
       else string_ok 32767 (ed_entity_name s)) \<and>
     (if version \<ge> 1 then tags_ok 0 (ed_unknown_tagged_fields s) else ed_unknown_tagged_fields s = [])"

lemma EntityData_codec [coded_intros]:
  "sized_codec (\<lambda>s. EntityData_encode s version) (EntityData_decode version)
     (\<lambda>s. EntityData_compute_size s version) (EntityData_ok version)"
  unfolding EntityData_encode_def EntityData_decode_def EntityData_compute_size_def
  by (rule sized_codecI) (rule coded_intros | (clarsimp simp: EntityData_ok_def; fail))+

lemmas EntityData_coded [coded_intros] = sized_codec.codes [OF EntityData_codec]

definition OpData_encode :: "op_data \<Rightarrow> i16 \<Rightarrow> wire_error + bytes" where
  "OpData_encode s version =
     (if version < 0 \<or> version > 1 then Inl UNSUPPORTED_VERSION
      else puts
        [if version \<ge> 1 then CompactString_encode (Some (od_key s)) else String_encode (Some (od_key s)),
         Inr (Float64_encode (od_value s)),
         Inr (Boolean_encode (od_remove s)),
         if version \<ge> 1 then put_tags [] 0 (od_unknown_tagged_fields s) else Inr []])"

definition OpData_compute_size :: "op_data \<Rightarrow> i16 \<Rightarrow> wire_error + usize" where
  "OpData_compute_size s version =
     sums
       [if version \<ge> 1
         then CompactString_compute_size (Some (od_key s))
         else String_compute_size (Some (od_key s)),
        Inr 8,
        Inr 1,
        if version \<ge> 1 then tags_size [] (od_unknown_tagged_fields s) else Inr 0]"

definition OpData_decode :: "i16 \<Rightarrow> op_data decoder" where
  "OpData_decode version =
     (if version < 0 \<or> version > 1 then refuse UNSUPPORTED_VERSION
      else
        get (if version \<ge> 1 then CompactString_required else String_required) (\<lambda>key.
        get Float64_decode (\<lambda>value.
        get Boolean_decode (\<lambda>remove.
        get (if version \<ge> 1 then get_unknown_tags else give []) (\<lambda>unknown_tagged_fields.
        give \<lparr>od_key = key, od_value = value, od_remove = remove,
               od_unknown_tagged_fields = unknown_tagged_fields\<rparr>)))))"

definition OpData_ok :: "i16 \<Rightarrow> op_data \<Rightarrow> bool" where
  "OpData_ok version s \<longleftrightarrow>
     \<not> (version < 0 \<or> version > 1) \<and>
     (if version \<ge> 1
       then string_ok (2 ^ 32 - 2) (Some (od_key s))
       else string_ok 32767 (Some (od_key s))) \<and>
     (if version \<ge> 1 then tags_ok 0 (od_unknown_tagged_fields s) else od_unknown_tagged_fields s = [])"

lemma OpData_codec [coded_intros]:
  "sized_codec (\<lambda>s. OpData_encode s version) (OpData_decode version)
     (\<lambda>s. OpData_compute_size s version) (OpData_ok version)"
  unfolding OpData_encode_def OpData_decode_def OpData_compute_size_def
  by (rule sized_codecI) (rule coded_intros | (clarsimp simp: OpData_ok_def; fail))+

lemmas OpData_coded [coded_intros] = sized_codec.codes [OF OpData_codec]

definition EntryData_encode :: "entry_data \<Rightarrow> i16 \<Rightarrow> wire_error + bytes" where
  "EntryData_encode s version =
     (if version < 0 \<or> version > 1 then Inl UNSUPPORTED_VERSION
      else puts
        [if version \<ge> 1
          then CompactArray_encode (\<lambda>x. EntityData_encode x version) (Some (ed2_entity s))
          else Array_encode (\<lambda>x. EntityData_encode x version) (Some (ed2_entity s)),
         if version \<ge> 1
          then CompactArray_encode (\<lambda>x. OpData_encode x version) (Some (ed2_ops s))
          else Array_encode (\<lambda>x. OpData_encode x version) (Some (ed2_ops s)),
         if version \<ge> 1 then put_tags [] 0 (ed2_unknown_tagged_fields s) else Inr []])"

definition EntryData_compute_size :: "entry_data \<Rightarrow> i16 \<Rightarrow> wire_error + usize" where
  "EntryData_compute_size s version =
     sums
       [if version \<ge> 1
         then CompactArray_compute_size None (\<lambda>x. EntityData_compute_size x version) (Some (ed2_entity s))
         else Array_compute_size None (\<lambda>x. EntityData_compute_size x version) (Some (ed2_entity s)),
        if version \<ge> 1
         then CompactArray_compute_size None (\<lambda>x. OpData_compute_size x version) (Some (ed2_ops s))
         else Array_compute_size None (\<lambda>x. OpData_compute_size x version) (Some (ed2_ops s)),
        if version \<ge> 1 then tags_size [] (ed2_unknown_tagged_fields s) else Inr 0]"

definition EntryData_decode :: "i16 \<Rightarrow> entry_data decoder" where
  "EntryData_decode version =
     (if version < 0 \<or> version > 1 then refuse UNSUPPORTED_VERSION
      else
        get (if version \<ge> 1
              then CompactArray_required (EntityData_decode version)
              else Array_required (EntityData_decode version)) (\<lambda>entity.
        get (if version \<ge> 1
              then CompactArray_required (OpData_decode version)
              else Array_required (OpData_decode version)) (\<lambda>ops.
        get (if version \<ge> 1 then get_unknown_tags else give []) (\<lambda>unknown_tagged_fields.
        give \<lparr>ed2_entity = entity, ed2_ops = ops,
               ed2_unknown_tagged_fields = unknown_tagged_fields\<rparr>))))"

definition EntryData_ok :: "i16 \<Rightarrow> entry_data \<Rightarrow> bool" where
  "EntryData_ok version s \<longleftrightarrow>
     \<not> (version < 0 \<or> version > 1) \<and>
     (if version \<ge> 1
       then seq_ok (2 ^ 32 - 2) (EntityData_ok version) (Some (ed2_entity s))
       else seq_ok (2 ^ 31 - 1) (EntityData_ok version) (Some (ed2_entity s))) \<and>
     (if version \<ge> 1
       then seq_ok (2 ^ 32 - 2) (OpData_ok version) (Some (ed2_ops s))
       else seq_ok (2 ^ 31 - 1) (OpData_ok version) (Some (ed2_ops s))) \<and>
     (if version \<ge> 1 then tags_ok 0 (ed2_unknown_tagged_fields s) else ed2_unknown_tagged_fields s = [])"

lemma EntryData_codec [coded_intros]:
  "sized_codec (\<lambda>s. EntryData_encode s version) (EntryData_decode version)
     (\<lambda>s. EntryData_compute_size s version) (EntryData_ok version)"
  unfolding EntryData_encode_def EntryData_decode_def EntryData_compute_size_def
  by (rule sized_codecI) (rule coded_intros | (clarsimp simp: EntryData_ok_def; fail))+

lemmas EntryData_coded [coded_intros] = sized_codec.codes [OF EntryData_codec]

definition AlterClientQuotasRequest_encode :: "alter_client_quotas_request \<Rightarrow> i16 \<Rightarrow> wire_error + bytes" where
  "AlterClientQuotasRequest_encode s version =
     (if version < 0 \<or> version > 1 then Inl UNSUPPORTED_VERSION
      else puts
        [if version \<ge> 1
          then CompactArray_encode (\<lambda>x. EntryData_encode x version) (Some (acqrq_entries s))
          else Array_encode (\<lambda>x. EntryData_encode x version) (Some (acqrq_entries s)),
         Inr (Boolean_encode (acqrq_validate_only s)),
         if version \<ge> 1 then put_tags [] 0 (acqrq_unknown_tagged_fields s) else Inr []])"

definition AlterClientQuotasRequest_compute_size :: "alter_client_quotas_request \<Rightarrow> i16 \<Rightarrow> wire_error + usize" where
  "AlterClientQuotasRequest_compute_size s version =
     sums
       [if version \<ge> 1
         then CompactArray_compute_size None (\<lambda>x. EntryData_compute_size x version) (Some (acqrq_entries s))
         else Array_compute_size None (\<lambda>x. EntryData_compute_size x version) (Some (acqrq_entries s)),
        Inr 1,
        if version \<ge> 1 then tags_size [] (acqrq_unknown_tagged_fields s) else Inr 0]"

definition AlterClientQuotasRequest_decode :: "i16 \<Rightarrow> alter_client_quotas_request decoder" where
  "AlterClientQuotasRequest_decode version =
     (if version < 0 \<or> version > 1 then refuse UNSUPPORTED_VERSION
      else
        get (if version \<ge> 1
              then CompactArray_required (EntryData_decode version)
              else Array_required (EntryData_decode version)) (\<lambda>entries.
        get Boolean_decode (\<lambda>validate_only.
        get (if version \<ge> 1 then get_unknown_tags else give []) (\<lambda>unknown_tagged_fields.
        give \<lparr>acqrq_entries = entries, acqrq_validate_only = validate_only,
               acqrq_unknown_tagged_fields = unknown_tagged_fields\<rparr>))))"

definition AlterClientQuotasRequest_ok :: "i16 \<Rightarrow> alter_client_quotas_request \<Rightarrow> bool" where
  "AlterClientQuotasRequest_ok version s \<longleftrightarrow>
     \<not> (version < 0 \<or> version > 1) \<and>
     (if version \<ge> 1
       then seq_ok (2 ^ 32 - 2) (EntryData_ok version) (Some (acqrq_entries s))
       else seq_ok (2 ^ 31 - 1) (EntryData_ok version) (Some (acqrq_entries s))) \<and>
     (if version \<ge> 1 then tags_ok 0 (acqrq_unknown_tagged_fields s) else acqrq_unknown_tagged_fields s = [])"

lemma AlterClientQuotasRequest_codec [coded_intros]:
  "sized_codec (\<lambda>s. AlterClientQuotasRequest_encode s version) (AlterClientQuotasRequest_decode version)
     (\<lambda>s. AlterClientQuotasRequest_compute_size s version) (AlterClientQuotasRequest_ok version)"
  unfolding AlterClientQuotasRequest_encode_def AlterClientQuotasRequest_decode_def AlterClientQuotasRequest_compute_size_def
  by (rule sized_codecI) (rule coded_intros | (clarsimp simp: AlterClientQuotasRequest_ok_def; fail))+

lemmas AlterClientQuotasRequest_coded [coded_intros] = sized_codec.codes [OF AlterClientQuotasRequest_codec]

section \<open>Describe client quotas request\<close>

definition ComponentData_encode :: "component_data \<Rightarrow> i16 \<Rightarrow> wire_error + bytes" where
  "ComponentData_encode s version =
     (if version < 0 \<or> version > 1 then Inl UNSUPPORTED_VERSION
      else puts
        [if version \<ge> 1
          then CompactString_encode (Some (cd_entity_type s))
          else String_encode (Some (cd_entity_type s)),
         Inr (Int8_encode (cd_match_type s)),
         if version \<ge> 1 then CompactString_encode (cd_match s) else String_encode (cd_match s),
         if version \<ge> 1 then put_tags [] 0 (cd_unknown_tagged_fields s) else Inr []])"

definition ComponentData_compute_size :: "component_data \<Rightarrow> i16 \<Rightarrow> wire_error + usize" where
  "ComponentData_compute_size s version =
     sums
       [if version \<ge> 1
         then CompactString_compute_size (Some (cd_entity_type s))
         else String_compute_size (Some (cd_entity_type s)),
        Inr 1,
        if version \<ge> 1
         then CompactString_compute_size (cd_match s)
         else String_compute_size (cd_match s),
        if version \<ge> 1 then tags_size [] (cd_unknown_tagged_fields s) else Inr 0]"

definition ComponentData_decode :: "i16 \<Rightarrow> component_data decoder" where
  "ComponentData_decode version =
     (if version < 0 \<or> version > 1 then refuse UNSUPPORTED_VERSION
      else
        get (if version \<ge> 1 then CompactString_required else String_required) (\<lambda>entity_type.
        get Int8_decode (\<lambda>match_type.
        get (if version \<ge> 1 then CompactString_decode else String_decode) (\<lambda>match.
        get (if version \<ge> 1 then get_unknown_tags else give []) (\<lambda>unknown_tagged_fields.
        give \<lparr>cd_entity_type = entity_type, cd_match_type = match_type, cd_match = match,
               cd_unknown_tagged_fields = unknown_tagged_fields\<rparr>)))))"

definition ComponentData_ok :: "i16 \<Rightarrow> component_data \<Rightarrow> bool" where
  "ComponentData_ok version s \<longleftrightarrow>
     \<not> (version < 0 \<or> version > 1) \<and>
     (if version \<ge> 1
       then string_ok (2 ^ 32 - 2) (Some (cd_entity_type s))
       else string_ok 32767 (Some (cd_entity_type s))) \<and>
     in_i8 (cd_match_type s) \<and>
     (if version \<ge> 1 then string_ok (2 ^ 32 - 2) (cd_match s) else string_ok 32767 (cd_match s)) \<and>
     (if version \<ge> 1 then tags_ok 0 (cd_unknown_tagged_fields s) else cd_unknown_tagged_fields s = [])"

lemma ComponentData_codec [coded_intros]:
  "sized_codec (\<lambda>s. ComponentData_encode s version) (ComponentData_decode version)
     (\<lambda>s. ComponentData_compute_size s version) (ComponentData_ok version)"
  unfolding ComponentData_encode_def ComponentData_decode_def ComponentData_compute_size_def
  by (rule sized_codecI) (rule coded_intros | (clarsimp simp: ComponentData_ok_def; fail))+

lemmas ComponentData_coded [coded_intros] = sized_codec.codes [OF ComponentData_codec]

definition DescribeClientQuotasRequest_encode :: "describe_client_quotas_request \<Rightarrow> i16 \<Rightarrow> wire_error + bytes" where
  "DescribeClientQuotasRequest_encode s version =
     (if version < 0 \<or> version > 1 then Inl UNSUPPORTED_VERSION
      else puts
        [if version \<ge> 1
          then CompactArray_encode (\<lambda>x. ComponentData_encode x version) (Some (dcqrq_components s))
          else Array_encode (\<lambda>x. ComponentData_encode x version) (Some (dcqrq_components s)),
         Inr (Boolean_encode (dcqrq_strict s)),
         if version \<ge> 1 then put_tags [] 0 (dcqrq_unknown_tagged_fields s) else Inr []])"

definition DescribeClientQuotasRequest_compute_size :: "describe_client_quotas_request \<Rightarrow> i16 \<Rightarrow> wire_error + usize" where
  "DescribeClientQuotasRequest_compute_size s version =
     sums
       [if version \<ge> 1
         then CompactArray_compute_size None (\<lambda>x. ComponentData_compute_size x version) (Some (dcqrq_components s))
         else Array_compute_size None (\<lambda>x. ComponentData_compute_size x version) (Some (dcqrq_components s)),
        Inr 1,
        if version \<ge> 1 then tags_size [] (dcqrq_unknown_tagged_fields s) else Inr 0]"

definition DescribeClientQuotasRequest_decode :: "i16 \<Rightarrow> describe_client_quotas_request decoder" where
  "DescribeClientQuotasRequest_decode version =
     (if version < 0 \<or> version > 1 then refuse UNSUPPORTED_VERSION
      else
        get (if version \<ge> 1
              then CompactArray_required (ComponentData_decode version)
              else Array_required (ComponentData_decode version)) (\<lambda>components.
        get Boolean_decode (\<lambda>strict.
        get (if version \<ge> 1 then get_unknown_tags else give []) (\<lambda>unknown_tagged_fields.
        give \<lparr>dcqrq_components = components, dcqrq_strict = strict,
               dcqrq_unknown_tagged_fields = unknown_tagged_fields\<rparr>))))"

definition DescribeClientQuotasRequest_ok :: "i16 \<Rightarrow> describe_client_quotas_request \<Rightarrow> bool" where
  "DescribeClientQuotasRequest_ok version s \<longleftrightarrow>
     \<not> (version < 0 \<or> version > 1) \<and>
     (if version \<ge> 1
       then seq_ok (2 ^ 32 - 2) (ComponentData_ok version) (Some (dcqrq_components s))
       else seq_ok (2 ^ 31 - 1) (ComponentData_ok version) (Some (dcqrq_components s))) \<and>
     (if version \<ge> 1 then tags_ok 0 (dcqrq_unknown_tagged_fields s) else dcqrq_unknown_tagged_fields s = [])"

lemma DescribeClientQuotasRequest_codec [coded_intros]:
  "sized_codec (\<lambda>s. DescribeClientQuotasRequest_encode s version) (DescribeClientQuotasRequest_decode version)
     (\<lambda>s. DescribeClientQuotasRequest_compute_size s version) (DescribeClientQuotasRequest_ok version)"
  unfolding DescribeClientQuotasRequest_encode_def DescribeClientQuotasRequest_decode_def DescribeClientQuotasRequest_compute_size_def
  by (rule sized_codecI) (rule coded_intros | (clarsimp simp: DescribeClientQuotasRequest_ok_def; fail))+

lemmas DescribeClientQuotasRequest_coded [coded_intros] = sized_codec.codes [OF DescribeClientQuotasRequest_codec]

section \<open>Update features request\<close>

definition FeatureUpdateKey_encode :: "feature_update_key \<Rightarrow> i16 \<Rightarrow> wire_error + bytes" where
  "FeatureUpdateKey_encode s version =
     (if version < 0 \<or> version > 2 then Inl UNSUPPORTED_VERSION
      else puts
        [CompactString_encode (Some (fuk_feature s)),
         Inr (Int16_encode (fuk_max_version_level s)),
         if version = 0
          then Inr (Boolean_encode (fuk_allow_downgrade s))
          else unset [] (\<not> fuk_allow_downgrade s),
         if version \<ge> 1
          then Inr (Int8_encode (fuk_upgrade_type s))
          else unset [] (fuk_upgrade_type s = 1),
         put_tags [] 0 (fuk_unknown_tagged_fields s)])"

definition FeatureUpdateKey_compute_size :: "feature_update_key \<Rightarrow> i16 \<Rightarrow> wire_error + usize" where
  "FeatureUpdateKey_compute_size s version =
     sums
       [CompactString_compute_size (Some (fuk_feature s)),
        Inr 2,
        if version = 0 then Inr 1 else unset 0 (\<not> fuk_allow_downgrade s),
        if version \<ge> 1 then Inr 1 else unset 0 (fuk_upgrade_type s = 1),
        tags_size [] (fuk_unknown_tagged_fields s)]"

definition FeatureUpdateKey_decode :: "i16 \<Rightarrow> feature_update_key decoder" where
  "FeatureUpdateKey_decode version =
     (if version < 0 \<or> version > 2 then refuse UNSUPPORTED_VERSION
      else
        get CompactString_required (\<lambda>feature.
        get Int16_decode (\<lambda>max_version_level.
        get (if version = 0 then Boolean_decode else give False) (\<lambda>allow_downgrade.
        get (if version \<ge> 1 then Int8_decode else give 1) (\<lambda>upgrade_type.
        get get_unknown_tags (\<lambda>unknown_tagged_fields.
        give \<lparr>fuk_feature = feature, fuk_max_version_level = max_version_level,
               fuk_allow_downgrade = allow_downgrade, fuk_upgrade_type = upgrade_type,
               fuk_unknown_tagged_fields = unknown_tagged_fields\<rparr>))))))"

definition FeatureUpdateKey_ok :: "i16 \<Rightarrow> feature_update_key \<Rightarrow> bool" where
  "FeatureUpdateKey_ok version s \<longleftrightarrow>
     \<not> (version < 0 \<or> version > 2) \<and>
     string_ok (2 ^ 32 - 2) (Some (fuk_feature s)) \<and>
     in_i16 (fuk_max_version_level s) \<and>
     (if version = 0 then True else \<not> fuk_allow_downgrade s) \<and>
     (if version \<ge> 1 then in_i8 (fuk_upgrade_type s) else fuk_upgrade_type s = 1) \<and>
     tags_ok 0 (fuk_unknown_tagged_fields s)"

lemma FeatureUpdateKey_codec [coded_intros]:
  "sized_codec (\<lambda>s. FeatureUpdateKey_encode s version) (FeatureUpdateKey_decode version)
     (\<lambda>s. FeatureUpdateKey_compute_size s version) (FeatureUpdateKey_ok version)"
  unfolding FeatureUpdateKey_encode_def FeatureUpdateKey_decode_def FeatureUpdateKey_compute_size_def
  by (rule sized_codecI) (rule coded_intros | (simp add: FeatureUpdateKey_ok_def; fail))+

lemmas FeatureUpdateKey_coded [coded_intros] = sized_codec.codes [OF FeatureUpdateKey_codec]

definition UpdateFeaturesRequest_encode :: "update_features_request \<Rightarrow> i16 \<Rightarrow> wire_error + bytes" where
  "UpdateFeaturesRequest_encode s version =
     (if version < 0 \<or> version > 2 then Inl UNSUPPORTED_VERSION
      else puts
        [Inr (Int32_encode (ufrq_timeout_ms s)),
         CompactArray_encode (\<lambda>x. FeatureUpdateKey_encode x version) (Some (ufrq_feature_updates s)),
         if version \<ge> 1
          then Inr (Boolean_encode (ufrq_validate_only s))
          else unset [] (\<not> ufrq_validate_only s),
         put_tags [] 0 (ufrq_unknown_tagged_fields s)])"

definition UpdateFeaturesRequest_compute_size :: "update_features_request \<Rightarrow> i16 \<Rightarrow> wire_error + usize" where
  "UpdateFeaturesRequest_compute_size s version =
     sums
       [Inr 4,
        CompactArray_compute_size None (\<lambda>x. FeatureUpdateKey_compute_size x version) (Some (ufrq_feature_updates s)),
        if version \<ge> 1 then Inr 1 else unset 0 (\<not> ufrq_validate_only s),
        tags_size [] (ufrq_unknown_tagged_fields s)]"

definition UpdateFeaturesRequest_decode :: "i16 \<Rightarrow> update_features_request decoder" where
  "UpdateFeaturesRequest_decode version =
     (if version < 0 \<or> version > 2 then refuse UNSUPPORTED_VERSION
      else
        get Int32_decode (\<lambda>timeout_ms.
        get (CompactArray_required (FeatureUpdateKey_decode version)) (\<lambda>feature_updates.
        get (if version \<ge> 1 then Boolean_decode else give False) (\<lambda>validate_only.
        get get_unknown_tags (\<lambda>unknown_tagged_fields.
        give \<lparr>ufrq_timeout_ms = timeout_ms, ufrq_feature_updates = feature_updates,
               ufrq_validate_only = validate_only, ufrq_unknown_tagged_fields = unknown_tagged_fields\<rparr>)))))"

definition UpdateFeaturesRequest_ok :: "i16 \<Rightarrow> update_features_request \<Rightarrow> bool" where
  "UpdateFeaturesRequest_ok version s \<longleftrightarrow>
     \<not> (version < 0 \<or> version > 2) \<and>
     in_i32 (ufrq_timeout_ms s) \<and>
     seq_ok (2 ^ 32 - 2) (FeatureUpdateKey_ok version) (Some (ufrq_feature_updates s)) \<and>
     (if version \<ge> 1 then True else \<not> ufrq_validate_only s) \<and>
     tags_ok 0 (ufrq_unknown_tagged_fields s)"

lemma UpdateFeaturesRequest_codec [coded_intros]:
  "sized_codec (\<lambda>s. UpdateFeaturesRequest_encode s version) (UpdateFeaturesRequest_decode version)
     (\<lambda>s. UpdateFeaturesRequest_compute_size s version) (UpdateFeaturesRequest_ok version)"
  unfolding UpdateFeaturesRequest_encode_def UpdateFeaturesRequest_decode_def UpdateFeaturesRequest_compute_size_def
  by (rule sized_codecI) (rule coded_intros | (simp add: UpdateFeaturesRequest_ok_def; fail))+

lemmas UpdateFeaturesRequest_coded [coded_intros] = sized_codec.codes [OF UpdateFeaturesRequest_codec]

section \<open>Get telemetry subscriptions request\<close>

definition GetTelemetrySubscriptionsRequest_encode :: "get_telemetry_subscriptions_request \<Rightarrow> i16 \<Rightarrow> wire_error + bytes" where
  "GetTelemetrySubscriptionsRequest_encode s version =
     (if version \<noteq> 0 then Inl UNSUPPORTED_VERSION
      else puts
        [Inr (Uuid_encode (gtsrq_client_instance_id s)),
         put_tags [] 0 (gtsrq_unknown_tagged_fields s)])"

definition GetTelemetrySubscriptionsRequest_compute_size :: "get_telemetry_subscriptions_request \<Rightarrow> i16 \<Rightarrow> wire_error + usize" where
  "GetTelemetrySubscriptionsRequest_compute_size s version =
     sums
       [Inr 16,
        tags_size [] (gtsrq_unknown_tagged_fields s)]"

definition GetTelemetrySubscriptionsRequest_decode :: "i16 \<Rightarrow> get_telemetry_subscriptions_request decoder" where
  "GetTelemetrySubscriptionsRequest_decode version =
     (if version \<noteq> 0 then refuse UNSUPPORTED_VERSION
      else
        get Uuid_decode (\<lambda>client_instance_id.
        get get_unknown_tags (\<lambda>unknown_tagged_fields.
        give \<lparr>gtsrq_client_instance_id = client_instance_id,
               gtsrq_unknown_tagged_fields = unknown_tagged_fields\<rparr>)))"

definition GetTelemetrySubscriptionsRequest_ok :: "i16 \<Rightarrow> get_telemetry_subscriptions_request \<Rightarrow> bool" where
  "GetTelemetrySubscriptionsRequest_ok version s \<longleftrightarrow>
     \<not> (version \<noteq> 0) \<and>
     tags_ok 0 (gtsrq_unknown_tagged_fields s)"

lemma GetTelemetrySubscriptionsRequest_codec [coded_intros]:
  "sized_codec (\<lambda>s. GetTelemetrySubscriptionsRequest_encode s version) (GetTelemetrySubscriptionsRequest_decode version)
     (\<lambda>s. GetTelemetrySubscriptionsRequest_compute_size s version) (GetTelemetrySubscriptionsRequest_ok version)"
  unfolding GetTelemetrySubscriptionsRequest_encode_def GetTelemetrySubscriptionsRequest_decode_def GetTelemetrySubscriptionsRequest_compute_size_def
  by (rule sized_codecI) (rule coded_intros | (clarsimp simp: GetTelemetrySubscriptionsRequest_ok_def; fail))+

lemmas GetTelemetrySubscriptionsRequest_coded [coded_intros] = sized_codec.codes [OF GetTelemetrySubscriptionsRequest_codec]

section \<open>Push telemetry request\<close>

definition PushTelemetryRequest_encode :: "push_telemetry_request \<Rightarrow> i16 \<Rightarrow> wire_error + bytes" where
  "PushTelemetryRequest_encode s version =
     (if version \<noteq> 0 then Inl UNSUPPORTED_VERSION
      else puts
        [Inr (Uuid_encode (ptrq_client_instance_id s)),
         Inr (Int32_encode (ptrq_subscription_id s)),
         Inr (Boolean_encode (ptrq_terminating s)),
         Inr (Int8_encode (ptrq_compression_type s)),
         CompactBytes_encode (Some (ptrq_metrics s)),
         put_tags [] 0 (ptrq_unknown_tagged_fields s)])"

definition PushTelemetryRequest_compute_size :: "push_telemetry_request \<Rightarrow> i16 \<Rightarrow> wire_error + usize" where
  "PushTelemetryRequest_compute_size s version =
     sums
       [Inr 16,
        Inr 4,
        Inr 1,
        Inr 1,
        CompactBytes_compute_size (Some (ptrq_metrics s)),
        tags_size [] (ptrq_unknown_tagged_fields s)]"

definition PushTelemetryRequest_decode :: "i16 \<Rightarrow> push_telemetry_request decoder" where
  "PushTelemetryRequest_decode version =
     (if version \<noteq> 0 then refuse UNSUPPORTED_VERSION
      else
        get Uuid_decode (\<lambda>client_instance_id.
        get Int32_decode (\<lambda>subscription_id.
        get Boolean_decode (\<lambda>terminating.
        get Int8_decode (\<lambda>compression_type.
        get CompactBytes_required (\<lambda>metrics.
        get get_unknown_tags (\<lambda>unknown_tagged_fields.
        give \<lparr>ptrq_client_instance_id = client_instance_id,
               ptrq_subscription_id = subscription_id, ptrq_terminating = terminating,
               ptrq_compression_type = compression_type, ptrq_metrics = metrics,
               ptrq_unknown_tagged_fields = unknown_tagged_fields\<rparr>)))))))"

definition PushTelemetryRequest_ok :: "i16 \<Rightarrow> push_telemetry_request \<Rightarrow> bool" where
  "PushTelemetryRequest_ok version s \<longleftrightarrow>
     \<not> (version \<noteq> 0) \<and>
     in_i32 (ptrq_subscription_id s) \<and>
     in_i8 (ptrq_compression_type s) \<and>
     seq_ok (2 ^ 32 - 2) (\<lambda>_. True) (Some (ptrq_metrics s)) \<and>
     tags_ok 0 (ptrq_unknown_tagged_fields s)"

lemma PushTelemetryRequest_codec [coded_intros]:
  "sized_codec (\<lambda>s. PushTelemetryRequest_encode s version) (PushTelemetryRequest_decode version)
     (\<lambda>s. PushTelemetryRequest_compute_size s version) (PushTelemetryRequest_ok version)"
  unfolding PushTelemetryRequest_encode_def PushTelemetryRequest_decode_def PushTelemetryRequest_compute_size_def
  by (rule sized_codecI) (rule coded_intros | (clarsimp simp: PushTelemetryRequest_ok_def; fail))+

lemmas PushTelemetryRequest_coded [coded_intros] = sized_codec.codes [OF PushTelemetryRequest_codec]

section \<open>Bodies\<close>

text \<open>The variants of \<open>RequestKind\<close> (\<open>messages.rs\<close>) with these requests, and their codecs by API key. The match on the key is exhaustive; its last arm is the last key of the group.\<close>

datatype config_request =
  AlterConfigsRequest alter_configs_request
| IncrementalAlterConfigsRequest incremental_alter_configs_request
| DescribeClientQuotasRequest describe_client_quotas_request
| AlterClientQuotasRequest alter_client_quotas_request
| UpdateFeaturesRequest update_features_request
| GetTelemetrySubscriptionsRequest get_telemetry_subscriptions_request
| PushTelemetryRequest push_telemetry_request
| ListConfigResourcesRequest list_config_resources_request

fun config_request_key :: "config_request \<Rightarrow> i16" where
  "config_request_key (AlterConfigsRequest _) = 33"
| "config_request_key (IncrementalAlterConfigsRequest _) = 44"
| "config_request_key (DescribeClientQuotasRequest _) = 48"
| "config_request_key (AlterClientQuotasRequest _) = 49"
| "config_request_key (UpdateFeaturesRequest _) = 57"
| "config_request_key (GetTelemetrySubscriptionsRequest _) = 71"
| "config_request_key (PushTelemetryRequest _) = 72"
| "config_request_key (ListConfigResourcesRequest _) = 74"

fun config_request_encode :: "config_request \<Rightarrow> i16 \<Rightarrow> wire_error + bytes" where
  "config_request_encode (AlterConfigsRequest x) version = AlterConfigsRequest_encode x version"
| "config_request_encode (IncrementalAlterConfigsRequest x) version = IncrementalAlterConfigsRequest_encode x version"
| "config_request_encode (DescribeClientQuotasRequest x) version = DescribeClientQuotasRequest_encode x version"
| "config_request_encode (AlterClientQuotasRequest x) version = AlterClientQuotasRequest_encode x version"
| "config_request_encode (UpdateFeaturesRequest x) version = UpdateFeaturesRequest_encode x version"
| "config_request_encode (GetTelemetrySubscriptionsRequest x) version = GetTelemetrySubscriptionsRequest_encode x version"
| "config_request_encode (PushTelemetryRequest x) version = PushTelemetryRequest_encode x version"
| "config_request_encode (ListConfigResourcesRequest x) version = ListConfigResourcesRequest_encode x version"

definition config_request_decode :: "i16 \<Rightarrow> i16 \<Rightarrow> config_request decoder" where
  "config_request_decode key version =
     (if key = 33 then get (AlterConfigsRequest_decode version) (\<lambda>x. give (AlterConfigsRequest x))
      else if key = 44 then get (IncrementalAlterConfigsRequest_decode version) (\<lambda>x. give (IncrementalAlterConfigsRequest x))
      else if key = 48 then get (DescribeClientQuotasRequest_decode version) (\<lambda>x. give (DescribeClientQuotasRequest x))
      else if key = 49 then get (AlterClientQuotasRequest_decode version) (\<lambda>x. give (AlterClientQuotasRequest x))
      else if key = 57 then get (UpdateFeaturesRequest_decode version) (\<lambda>x. give (UpdateFeaturesRequest x))
      else if key = 71 then get (GetTelemetrySubscriptionsRequest_decode version) (\<lambda>x. give (GetTelemetrySubscriptionsRequest x))
      else if key = 72 then get (PushTelemetryRequest_decode version) (\<lambda>x. give (PushTelemetryRequest x))
      else get (ListConfigResourcesRequest_decode version) (\<lambda>x. give (ListConfigResourcesRequest x)))"

fun config_request_size :: "i16 \<Rightarrow> config_request \<Rightarrow> wire_error + usize" where
  "config_request_size version (AlterConfigsRequest x) = AlterConfigsRequest_compute_size x version"
| "config_request_size version (IncrementalAlterConfigsRequest x) = IncrementalAlterConfigsRequest_compute_size x version"
| "config_request_size version (DescribeClientQuotasRequest x) = DescribeClientQuotasRequest_compute_size x version"
| "config_request_size version (AlterClientQuotasRequest x) = AlterClientQuotasRequest_compute_size x version"
| "config_request_size version (UpdateFeaturesRequest x) = UpdateFeaturesRequest_compute_size x version"
| "config_request_size version (GetTelemetrySubscriptionsRequest x) = GetTelemetrySubscriptionsRequest_compute_size x version"
| "config_request_size version (PushTelemetryRequest x) = PushTelemetryRequest_compute_size x version"
| "config_request_size version (ListConfigResourcesRequest x) = ListConfigResourcesRequest_compute_size x version"

fun config_request_ok :: "i16 \<Rightarrow> config_request \<Rightarrow> bool" where
  "config_request_ok version (AlterConfigsRequest x) = AlterConfigsRequest_ok version x"
| "config_request_ok version (IncrementalAlterConfigsRequest x) = IncrementalAlterConfigsRequest_ok version x"
| "config_request_ok version (DescribeClientQuotasRequest x) = DescribeClientQuotasRequest_ok version x"
| "config_request_ok version (AlterClientQuotasRequest x) = AlterClientQuotasRequest_ok version x"
| "config_request_ok version (UpdateFeaturesRequest x) = UpdateFeaturesRequest_ok version x"
| "config_request_ok version (GetTelemetrySubscriptionsRequest x) = GetTelemetrySubscriptionsRequest_ok version x"
| "config_request_ok version (PushTelemetryRequest x) = PushTelemetryRequest_ok version x"
| "config_request_ok version (ListConfigResourcesRequest x) = ListConfigResourcesRequest_ok version x"

lemma config_request_coded:
  "config_request_ok version body \<Longrightarrow>
   coded (config_request_encode body version) (config_request_decode (config_request_key body) version) (config_request_size version body) body"
  by (cases body) (simp_all add: config_request_decode_def coded_tag_value
    AlterConfigsRequest_coded IncrementalAlterConfigsRequest_coded DescribeClientQuotasRequest_coded AlterClientQuotasRequest_coded UpdateFeaturesRequest_coded GetTelemetrySubscriptionsRequest_coded PushTelemetryRequest_coded ListConfigResourcesRequest_coded)

end
