(* ===== verification/Messages_Security.thy ===== *)
theory Messages_Security
  imports Prelude
begin

text \<open>
  Requests about access control, delegation tokens and authentication, which the broker does not serve
  (\<open>src/crates/kafka-protocol/src/messages/\<close>). Every message is a record with the fields of the Rust structure, and its
  \<open>_default\<close> is the value of \<open>Default::default()\<close>.
\<close>

section \<open>Create acls request\<close>

record acl_creation =
  ac2_resource_type :: i8
  ac2_resource_name :: string
  ac2_resource_pattern_type :: i8
  ac2_principal :: string
  ac2_host :: string
  ac2_operation :: i8
  ac2_permission_type :: i8
  ac2_unknown_tagged_fields :: "(i32, bytes) btree_map"

definition acl_creation_default :: acl_creation where
  "acl_creation_default =
     \<lparr>ac2_resource_type = 0, ac2_resource_name = [], ac2_resource_pattern_type = 3,
      ac2_principal = [], ac2_host = [], ac2_operation = 0, ac2_permission_type = 0,
      ac2_unknown_tagged_fields = []\<rparr>"

record create_acls_request =
  carq_creations :: "acl_creation list"
  carq_unknown_tagged_fields :: "(i32, bytes) btree_map"

definition create_acls_request_default :: create_acls_request where
  "create_acls_request_default =
     \<lparr>carq_creations = [], carq_unknown_tagged_fields = []\<rparr>"

section \<open>Delete acls request\<close>

record delete_acls_filter =
  daf_resource_type_filter :: i8
  daf_resource_name_filter :: "string option"
  daf_pattern_type_filter :: i8
  daf_principal_filter :: "string option"
  daf_host_filter :: "string option"
  daf_operation :: i8
  daf_permission_type :: i8
  daf_unknown_tagged_fields :: "(i32, bytes) btree_map"

definition delete_acls_filter_default :: delete_acls_filter where
  "delete_acls_filter_default =
     \<lparr>daf_resource_type_filter = 0, daf_resource_name_filter = Some [],
      daf_pattern_type_filter = 3, daf_principal_filter = Some [], daf_host_filter = Some [],
      daf_operation = 0, daf_permission_type = 0, daf_unknown_tagged_fields = []\<rparr>"

record delete_acls_request =
  darq_filters :: "delete_acls_filter list"
  darq_unknown_tagged_fields :: "(i32, bytes) btree_map"

definition delete_acls_request_default :: delete_acls_request where
  "delete_acls_request_default =
     \<lparr>darq_filters = [], darq_unknown_tagged_fields = []\<rparr>"

section \<open>Describe acls request\<close>

record describe_acls_request =
  darq2_resource_type_filter :: i8
  darq2_resource_name_filter :: "string option"
  darq2_pattern_type_filter :: i8
  darq2_principal_filter :: "string option"
  darq2_host_filter :: "string option"
  darq2_operation :: i8
  darq2_permission_type :: i8
  darq2_unknown_tagged_fields :: "(i32, bytes) btree_map"

definition describe_acls_request_default :: describe_acls_request where
  "describe_acls_request_default =
     \<lparr>darq2_resource_type_filter = 0, darq2_resource_name_filter = Some [],
      darq2_pattern_type_filter = 3, darq2_principal_filter = Some [], darq2_host_filter = Some [],
      darq2_operation = 0, darq2_permission_type = 0, darq2_unknown_tagged_fields = []\<rparr>"

section \<open>Create delegation token request\<close>

record creatable_renewers =
  cr_principal_type :: string
  cr_principal_name :: string
  cr_unknown_tagged_fields :: "(i32, bytes) btree_map"

definition creatable_renewers_default :: creatable_renewers where
  "creatable_renewers_default =
     \<lparr>cr_principal_type = [], cr_principal_name = [], cr_unknown_tagged_fields = []\<rparr>"

record create_delegation_token_request =
  cdtrq_owner_principal_type :: "string option"
  cdtrq_owner_principal_name :: "string option"
  cdtrq_renewers :: "creatable_renewers list"
  cdtrq_max_lifetime_ms :: i64
  cdtrq_unknown_tagged_fields :: "(i32, bytes) btree_map"

definition create_delegation_token_request_default :: create_delegation_token_request where
  "create_delegation_token_request_default =
     \<lparr>cdtrq_owner_principal_type = Some [], cdtrq_owner_principal_name = Some [],
      cdtrq_renewers = [], cdtrq_max_lifetime_ms = 0, cdtrq_unknown_tagged_fields = []\<rparr>"

section \<open>Describe delegation token request\<close>

record describe_delegation_token_owner =
  ddto_principal_type :: string
  ddto_principal_name :: string
  ddto_unknown_tagged_fields :: "(i32, bytes) btree_map"

definition describe_delegation_token_owner_default :: describe_delegation_token_owner where
  "describe_delegation_token_owner_default =
     \<lparr>ddto_principal_type = [], ddto_principal_name = [], ddto_unknown_tagged_fields = []\<rparr>"

record describe_delegation_token_request =
  ddtrq_owners :: "describe_delegation_token_owner list option"
  ddtrq_unknown_tagged_fields :: "(i32, bytes) btree_map"

definition describe_delegation_token_request_default :: describe_delegation_token_request where
  "describe_delegation_token_request_default =
     \<lparr>ddtrq_owners = Some [], ddtrq_unknown_tagged_fields = []\<rparr>"

section \<open>Expire delegation token request\<close>

record expire_delegation_token_request =
  edtrq_hmac :: bytes
  edtrq_expiry_time_period_ms :: i64
  edtrq_unknown_tagged_fields :: "(i32, bytes) btree_map"

definition expire_delegation_token_request_default :: expire_delegation_token_request where
  "expire_delegation_token_request_default =
     \<lparr>edtrq_hmac = [], edtrq_expiry_time_period_ms = 0, edtrq_unknown_tagged_fields = []\<rparr>"

section \<open>Renew delegation token request\<close>

record renew_delegation_token_request =
  rdtrq_hmac :: bytes
  rdtrq_renew_period_ms :: i64
  rdtrq_unknown_tagged_fields :: "(i32, bytes) btree_map"

definition renew_delegation_token_request_default :: renew_delegation_token_request where
  "renew_delegation_token_request_default =
     \<lparr>rdtrq_hmac = [], rdtrq_renew_period_ms = 0, rdtrq_unknown_tagged_fields = []\<rparr>"

section \<open>Sasl handshake request\<close>

record sasl_handshake_request =
  shrq_mechanism :: string

definition sasl_handshake_request_default :: sasl_handshake_request where
  "sasl_handshake_request_default =
     \<lparr>shrq_mechanism = []\<rparr>"

section \<open>Sasl authenticate request\<close>

record sasl_authenticate_request =
  sarq_auth_bytes :: bytes
  sarq_unknown_tagged_fields :: "(i32, bytes) btree_map"

definition sasl_authenticate_request_default :: sasl_authenticate_request where
  "sasl_authenticate_request_default =
     \<lparr>sarq_auth_bytes = [], sarq_unknown_tagged_fields = []\<rparr>"

section \<open>Alter user scram credentials request\<close>

record scram_credential_deletion =
  scd_name :: string
  scd_mechanism :: i8
  scd_unknown_tagged_fields :: "(i32, bytes) btree_map"

definition scram_credential_deletion_default :: scram_credential_deletion where
  "scram_credential_deletion_default =
     \<lparr>scd_name = [], scd_mechanism = 0, scd_unknown_tagged_fields = []\<rparr>"

record scram_credential_upsertion =
  scu_name :: string
  scu_mechanism :: i8
  scu_iterations :: i32
  scu_salt :: bytes
  scu_salted_password :: bytes
  scu_unknown_tagged_fields :: "(i32, bytes) btree_map"

definition scram_credential_upsertion_default :: scram_credential_upsertion where
  "scram_credential_upsertion_default =
     \<lparr>scu_name = [], scu_mechanism = 0, scu_iterations = 0, scu_salt = [],
      scu_salted_password = [], scu_unknown_tagged_fields = []\<rparr>"

record alter_user_scram_credentials_request =
  auscrq_deletions :: "scram_credential_deletion list"
  auscrq_upsertions :: "scram_credential_upsertion list"
  auscrq_unknown_tagged_fields :: "(i32, bytes) btree_map"

definition alter_user_scram_credentials_request_default :: alter_user_scram_credentials_request where
  "alter_user_scram_credentials_request_default =
     \<lparr>auscrq_deletions = [], auscrq_upsertions = [], auscrq_unknown_tagged_fields = []\<rparr>"

section \<open>Describe user scram credentials request\<close>

record user_name =
  un_name :: string
  un_unknown_tagged_fields :: "(i32, bytes) btree_map"

definition user_name_default :: user_name where
  "user_name_default =
     \<lparr>un_name = [], un_unknown_tagged_fields = []\<rparr>"

record describe_user_scram_credentials_request =
  duscrq_users :: "user_name list option"
  duscrq_unknown_tagged_fields :: "(i32, bytes) btree_map"

definition describe_user_scram_credentials_request_default :: describe_user_scram_credentials_request where
  "describe_user_scram_credentials_request_default =
     \<lparr>duscrq_users = Some [], duscrq_unknown_tagged_fields = []\<rparr>"

section \<open>Envelope request\<close>

record envelope_request =
  erq_request_data :: bytes
  erq_request_principal :: "bytes option"
  erq_client_host_address :: bytes
  erq_unknown_tagged_fields :: "(i32, bytes) btree_map"

definition envelope_request_default :: envelope_request where
  "envelope_request_default =
     \<lparr>erq_request_data = [], erq_request_principal = Some [], erq_client_host_address = [],
      erq_unknown_tagged_fields = []\<rparr>"

end
