(* ===== verification/Codec_Security.thy ===== *)
theory Codec_Security
  imports Codec_Config Messages_Security
begin

text \<open>
  The codecs of the requests about access control, delegation tokens and authentication
  (\<open>src/crates/kafka-protocol/src/messages/\<close>): the encoder, the size computation and the decoder of every structure,
  for every version of its schema, what a structure must satisfy to be sent in a version, and that it then comes back.
\<close>

section \<open>Create acls request\<close>

definition AclCreation_encode :: "acl_creation \<Rightarrow> i16 \<Rightarrow> wire_error + bytes" where
  "AclCreation_encode s version =
     (if version < 1 \<or> version > 3 then Inl UNSUPPORTED_VERSION
      else puts
        [Inr (Int8_encode (ac2_resource_type s)),
         if version \<ge> 2
          then CompactString_encode (Some (ac2_resource_name s))
          else String_encode (Some (ac2_resource_name s)),
         Inr (Int8_encode (ac2_resource_pattern_type s)),
         if version \<ge> 2
          then CompactString_encode (Some (ac2_principal s))
          else String_encode (Some (ac2_principal s)),
         if version \<ge> 2
          then CompactString_encode (Some (ac2_host s))
          else String_encode (Some (ac2_host s)),
         Inr (Int8_encode (ac2_operation s)),
         Inr (Int8_encode (ac2_permission_type s)),
         if version \<ge> 2 then put_tags [] 0 (ac2_unknown_tagged_fields s) else Inr []])"

definition AclCreation_compute_size :: "acl_creation \<Rightarrow> i16 \<Rightarrow> wire_error + usize" where
  "AclCreation_compute_size s version =
     sums
       [Inr 1,
        if version \<ge> 2
         then CompactString_compute_size (Some (ac2_resource_name s))
         else String_compute_size (Some (ac2_resource_name s)),
        Inr 1,
        if version \<ge> 2
         then CompactString_compute_size (Some (ac2_principal s))
         else String_compute_size (Some (ac2_principal s)),
        if version \<ge> 2
         then CompactString_compute_size (Some (ac2_host s))
         else String_compute_size (Some (ac2_host s)),
        Inr 1,
        Inr 1,
        if version \<ge> 2 then tags_size [] (ac2_unknown_tagged_fields s) else Inr 0]"

definition AclCreation_decode :: "i16 \<Rightarrow> acl_creation decoder" where
  "AclCreation_decode version =
     (if version < 1 \<or> version > 3 then refuse UNSUPPORTED_VERSION
      else
        get Int8_decode (\<lambda>resource_type.
        get (if version \<ge> 2 then CompactString_required else String_required) (\<lambda>resource_name.
        get Int8_decode (\<lambda>resource_pattern_type.
        get (if version \<ge> 2 then CompactString_required else String_required) (\<lambda>principal.
        get (if version \<ge> 2 then CompactString_required else String_required) (\<lambda>host.
        get Int8_decode (\<lambda>operation.
        get Int8_decode (\<lambda>permission_type.
        get (if version \<ge> 2 then get_unknown_tags else give []) (\<lambda>unknown_tagged_fields.
        give \<lparr>ac2_resource_type = resource_type, ac2_resource_name = resource_name,
               ac2_resource_pattern_type = resource_pattern_type, ac2_principal = principal,
               ac2_host = host, ac2_operation = operation, ac2_permission_type = permission_type,
               ac2_unknown_tagged_fields = unknown_tagged_fields\<rparr>)))))))))"

definition AclCreation_ok :: "i16 \<Rightarrow> acl_creation \<Rightarrow> bool" where
  "AclCreation_ok version s \<longleftrightarrow>
     \<not> (version < 1 \<or> version > 3) \<and>
     in_i8 (ac2_resource_type s) \<and>
     (if version \<ge> 2
       then string_ok (2 ^ 32 - 2) (Some (ac2_resource_name s))
       else string_ok 32767 (Some (ac2_resource_name s))) \<and>
     in_i8 (ac2_resource_pattern_type s) \<and>
     (if version \<ge> 2
       then string_ok (2 ^ 32 - 2) (Some (ac2_principal s))
       else string_ok 32767 (Some (ac2_principal s))) \<and>
     (if version \<ge> 2
       then string_ok (2 ^ 32 - 2) (Some (ac2_host s))
       else string_ok 32767 (Some (ac2_host s))) \<and>
     in_i8 (ac2_operation s) \<and>
     in_i8 (ac2_permission_type s) \<and>
     (if version \<ge> 2 then tags_ok 0 (ac2_unknown_tagged_fields s) else ac2_unknown_tagged_fields s = [])"

lemma AclCreation_codec [coded_intros]:
  "sized_codec (\<lambda>s. AclCreation_encode s version) (AclCreation_decode version)
     (\<lambda>s. AclCreation_compute_size s version) (AclCreation_ok version)"
  unfolding AclCreation_encode_def AclCreation_decode_def AclCreation_compute_size_def
  by (rule sized_codecI) (rule coded_intros | (simp add: AclCreation_ok_def; fail))+

lemmas AclCreation_coded [coded_intros] = sized_codec.codes [OF AclCreation_codec]

definition CreateAclsRequest_encode :: "create_acls_request \<Rightarrow> i16 \<Rightarrow> wire_error + bytes" where
  "CreateAclsRequest_encode s version =
     (if version < 1 \<or> version > 3 then Inl UNSUPPORTED_VERSION
      else puts
        [if version \<ge> 2
          then CompactArray_encode (\<lambda>x. AclCreation_encode x version) (Some (carq_creations s))
          else Array_encode (\<lambda>x. AclCreation_encode x version) (Some (carq_creations s)),
         if version \<ge> 2 then put_tags [] 0 (carq_unknown_tagged_fields s) else Inr []])"

definition CreateAclsRequest_compute_size :: "create_acls_request \<Rightarrow> i16 \<Rightarrow> wire_error + usize" where
  "CreateAclsRequest_compute_size s version =
     sums
       [if version \<ge> 2
         then CompactArray_compute_size None (\<lambda>x. AclCreation_compute_size x version) (Some (carq_creations s))
         else Array_compute_size None (\<lambda>x. AclCreation_compute_size x version) (Some (carq_creations s)),
        if version \<ge> 2 then tags_size [] (carq_unknown_tagged_fields s) else Inr 0]"

definition CreateAclsRequest_decode :: "i16 \<Rightarrow> create_acls_request decoder" where
  "CreateAclsRequest_decode version =
     (if version < 1 \<or> version > 3 then refuse UNSUPPORTED_VERSION
      else
        get (if version \<ge> 2
              then CompactArray_required (AclCreation_decode version)
              else Array_required (AclCreation_decode version)) (\<lambda>creations.
        get (if version \<ge> 2 then get_unknown_tags else give []) (\<lambda>unknown_tagged_fields.
        give \<lparr>carq_creations = creations, carq_unknown_tagged_fields = unknown_tagged_fields\<rparr>)))"

definition CreateAclsRequest_ok :: "i16 \<Rightarrow> create_acls_request \<Rightarrow> bool" where
  "CreateAclsRequest_ok version s \<longleftrightarrow>
     \<not> (version < 1 \<or> version > 3) \<and>
     (if version \<ge> 2
       then seq_ok (2 ^ 32 - 2) (AclCreation_ok version) (Some (carq_creations s))
       else seq_ok (2 ^ 31 - 1) (AclCreation_ok version) (Some (carq_creations s))) \<and>
     (if version \<ge> 2 then tags_ok 0 (carq_unknown_tagged_fields s) else carq_unknown_tagged_fields s = [])"

lemma CreateAclsRequest_codec [coded_intros]:
  "sized_codec (\<lambda>s. CreateAclsRequest_encode s version) (CreateAclsRequest_decode version)
     (\<lambda>s. CreateAclsRequest_compute_size s version) (CreateAclsRequest_ok version)"
  unfolding CreateAclsRequest_encode_def CreateAclsRequest_decode_def CreateAclsRequest_compute_size_def
  by (rule sized_codecI) (rule coded_intros | (simp add: CreateAclsRequest_ok_def; fail))+

lemmas CreateAclsRequest_coded [coded_intros] = sized_codec.codes [OF CreateAclsRequest_codec]

section \<open>Delete acls request\<close>

definition DeleteAclsFilter_encode :: "delete_acls_filter \<Rightarrow> i16 \<Rightarrow> wire_error + bytes" where
  "DeleteAclsFilter_encode s version =
     (if version < 1 \<or> version > 3 then Inl UNSUPPORTED_VERSION
      else puts
        [Inr (Int8_encode (daf_resource_type_filter s)),
         if version \<ge> 2
          then CompactString_encode (daf_resource_name_filter s)
          else String_encode (daf_resource_name_filter s),
         Inr (Int8_encode (daf_pattern_type_filter s)),
         if version \<ge> 2
          then CompactString_encode (daf_principal_filter s)
          else String_encode (daf_principal_filter s),
         if version \<ge> 2
          then CompactString_encode (daf_host_filter s)
          else String_encode (daf_host_filter s),
         Inr (Int8_encode (daf_operation s)),
         Inr (Int8_encode (daf_permission_type s)),
         if version \<ge> 2 then put_tags [] 0 (daf_unknown_tagged_fields s) else Inr []])"

definition DeleteAclsFilter_compute_size :: "delete_acls_filter \<Rightarrow> i16 \<Rightarrow> wire_error + usize" where
  "DeleteAclsFilter_compute_size s version =
     sums
       [Inr 1,
        if version \<ge> 2
         then CompactString_compute_size (daf_resource_name_filter s)
         else String_compute_size (daf_resource_name_filter s),
        Inr 1,
        if version \<ge> 2
         then CompactString_compute_size (daf_principal_filter s)
         else String_compute_size (daf_principal_filter s),
        if version \<ge> 2
         then CompactString_compute_size (daf_host_filter s)
         else String_compute_size (daf_host_filter s),
        Inr 1,
        Inr 1,
        if version \<ge> 2 then tags_size [] (daf_unknown_tagged_fields s) else Inr 0]"

definition DeleteAclsFilter_decode :: "i16 \<Rightarrow> delete_acls_filter decoder" where
  "DeleteAclsFilter_decode version =
     (if version < 1 \<or> version > 3 then refuse UNSUPPORTED_VERSION
      else
        get Int8_decode (\<lambda>resource_type_filter.
        get (if version \<ge> 2 then CompactString_decode else String_decode) (\<lambda>resource_name_filter.
        get Int8_decode (\<lambda>pattern_type_filter.
        get (if version \<ge> 2 then CompactString_decode else String_decode) (\<lambda>principal_filter.
        get (if version \<ge> 2 then CompactString_decode else String_decode) (\<lambda>host_filter.
        get Int8_decode (\<lambda>operation.
        get Int8_decode (\<lambda>permission_type.
        get (if version \<ge> 2 then get_unknown_tags else give []) (\<lambda>unknown_tagged_fields.
        give \<lparr>daf_resource_type_filter = resource_type_filter,
               daf_resource_name_filter = resource_name_filter,
               daf_pattern_type_filter = pattern_type_filter, daf_principal_filter = principal_filter,
               daf_host_filter = host_filter, daf_operation = operation,
               daf_permission_type = permission_type, daf_unknown_tagged_fields = unknown_tagged_fields\<rparr>)))))))))"

definition DeleteAclsFilter_ok :: "i16 \<Rightarrow> delete_acls_filter \<Rightarrow> bool" where
  "DeleteAclsFilter_ok version s \<longleftrightarrow>
     \<not> (version < 1 \<or> version > 3) \<and>
     in_i8 (daf_resource_type_filter s) \<and>
     (if version \<ge> 2
       then string_ok (2 ^ 32 - 2) (daf_resource_name_filter s)
       else string_ok 32767 (daf_resource_name_filter s)) \<and>
     in_i8 (daf_pattern_type_filter s) \<and>
     (if version \<ge> 2
       then string_ok (2 ^ 32 - 2) (daf_principal_filter s)
       else string_ok 32767 (daf_principal_filter s)) \<and>
     (if version \<ge> 2
       then string_ok (2 ^ 32 - 2) (daf_host_filter s)
       else string_ok 32767 (daf_host_filter s)) \<and>
     in_i8 (daf_operation s) \<and>
     in_i8 (daf_permission_type s) \<and>
     (if version \<ge> 2 then tags_ok 0 (daf_unknown_tagged_fields s) else daf_unknown_tagged_fields s = [])"

lemma DeleteAclsFilter_codec [coded_intros]:
  "sized_codec (\<lambda>s. DeleteAclsFilter_encode s version) (DeleteAclsFilter_decode version)
     (\<lambda>s. DeleteAclsFilter_compute_size s version) (DeleteAclsFilter_ok version)"
  unfolding DeleteAclsFilter_encode_def DeleteAclsFilter_decode_def DeleteAclsFilter_compute_size_def
  by (rule sized_codecI) (rule coded_intros | (simp add: DeleteAclsFilter_ok_def; fail))+

lemmas DeleteAclsFilter_coded [coded_intros] = sized_codec.codes [OF DeleteAclsFilter_codec]

definition DeleteAclsRequest_encode :: "delete_acls_request \<Rightarrow> i16 \<Rightarrow> wire_error + bytes" where
  "DeleteAclsRequest_encode s version =
     (if version < 1 \<or> version > 3 then Inl UNSUPPORTED_VERSION
      else puts
        [if version \<ge> 2
          then CompactArray_encode (\<lambda>x. DeleteAclsFilter_encode x version) (Some (darq_filters s))
          else Array_encode (\<lambda>x. DeleteAclsFilter_encode x version) (Some (darq_filters s)),
         if version \<ge> 2 then put_tags [] 0 (darq_unknown_tagged_fields s) else Inr []])"

definition DeleteAclsRequest_compute_size :: "delete_acls_request \<Rightarrow> i16 \<Rightarrow> wire_error + usize" where
  "DeleteAclsRequest_compute_size s version =
     sums
       [if version \<ge> 2
         then CompactArray_compute_size None (\<lambda>x. DeleteAclsFilter_compute_size x version) (Some (darq_filters s))
         else Array_compute_size None (\<lambda>x. DeleteAclsFilter_compute_size x version) (Some (darq_filters s)),
        if version \<ge> 2 then tags_size [] (darq_unknown_tagged_fields s) else Inr 0]"

definition DeleteAclsRequest_decode :: "i16 \<Rightarrow> delete_acls_request decoder" where
  "DeleteAclsRequest_decode version =
     (if version < 1 \<or> version > 3 then refuse UNSUPPORTED_VERSION
      else
        get (if version \<ge> 2
              then CompactArray_required (DeleteAclsFilter_decode version)
              else Array_required (DeleteAclsFilter_decode version)) (\<lambda>filters.
        get (if version \<ge> 2 then get_unknown_tags else give []) (\<lambda>unknown_tagged_fields.
        give \<lparr>darq_filters = filters, darq_unknown_tagged_fields = unknown_tagged_fields\<rparr>)))"

definition DeleteAclsRequest_ok :: "i16 \<Rightarrow> delete_acls_request \<Rightarrow> bool" where
  "DeleteAclsRequest_ok version s \<longleftrightarrow>
     \<not> (version < 1 \<or> version > 3) \<and>
     (if version \<ge> 2
       then seq_ok (2 ^ 32 - 2) (DeleteAclsFilter_ok version) (Some (darq_filters s))
       else seq_ok (2 ^ 31 - 1) (DeleteAclsFilter_ok version) (Some (darq_filters s))) \<and>
     (if version \<ge> 2 then tags_ok 0 (darq_unknown_tagged_fields s) else darq_unknown_tagged_fields s = [])"

lemma DeleteAclsRequest_codec [coded_intros]:
  "sized_codec (\<lambda>s. DeleteAclsRequest_encode s version) (DeleteAclsRequest_decode version)
     (\<lambda>s. DeleteAclsRequest_compute_size s version) (DeleteAclsRequest_ok version)"
  unfolding DeleteAclsRequest_encode_def DeleteAclsRequest_decode_def DeleteAclsRequest_compute_size_def
  by (rule sized_codecI) (rule coded_intros | (simp add: DeleteAclsRequest_ok_def; fail))+

lemmas DeleteAclsRequest_coded [coded_intros] = sized_codec.codes [OF DeleteAclsRequest_codec]

section \<open>Describe acls request\<close>

definition DescribeAclsRequest_encode :: "describe_acls_request \<Rightarrow> i16 \<Rightarrow> wire_error + bytes" where
  "DescribeAclsRequest_encode s version =
     (if version < 1 \<or> version > 3 then Inl UNSUPPORTED_VERSION
      else puts
        [Inr (Int8_encode (darq2_resource_type_filter s)),
         if version \<ge> 2
          then CompactString_encode (darq2_resource_name_filter s)
          else String_encode (darq2_resource_name_filter s),
         Inr (Int8_encode (darq2_pattern_type_filter s)),
         if version \<ge> 2
          then CompactString_encode (darq2_principal_filter s)
          else String_encode (darq2_principal_filter s),
         if version \<ge> 2
          then CompactString_encode (darq2_host_filter s)
          else String_encode (darq2_host_filter s),
         Inr (Int8_encode (darq2_operation s)),
         Inr (Int8_encode (darq2_permission_type s)),
         if version \<ge> 2 then put_tags [] 0 (darq2_unknown_tagged_fields s) else Inr []])"

definition DescribeAclsRequest_compute_size :: "describe_acls_request \<Rightarrow> i16 \<Rightarrow> wire_error + usize" where
  "DescribeAclsRequest_compute_size s version =
     sums
       [Inr 1,
        if version \<ge> 2
         then CompactString_compute_size (darq2_resource_name_filter s)
         else String_compute_size (darq2_resource_name_filter s),
        Inr 1,
        if version \<ge> 2
         then CompactString_compute_size (darq2_principal_filter s)
         else String_compute_size (darq2_principal_filter s),
        if version \<ge> 2
         then CompactString_compute_size (darq2_host_filter s)
         else String_compute_size (darq2_host_filter s),
        Inr 1,
        Inr 1,
        if version \<ge> 2 then tags_size [] (darq2_unknown_tagged_fields s) else Inr 0]"

definition DescribeAclsRequest_decode :: "i16 \<Rightarrow> describe_acls_request decoder" where
  "DescribeAclsRequest_decode version =
     (if version < 1 \<or> version > 3 then refuse UNSUPPORTED_VERSION
      else
        get Int8_decode (\<lambda>resource_type_filter.
        get (if version \<ge> 2 then CompactString_decode else String_decode) (\<lambda>resource_name_filter.
        get Int8_decode (\<lambda>pattern_type_filter.
        get (if version \<ge> 2 then CompactString_decode else String_decode) (\<lambda>principal_filter.
        get (if version \<ge> 2 then CompactString_decode else String_decode) (\<lambda>host_filter.
        get Int8_decode (\<lambda>operation.
        get Int8_decode (\<lambda>permission_type.
        get (if version \<ge> 2 then get_unknown_tags else give []) (\<lambda>unknown_tagged_fields.
        give \<lparr>darq2_resource_type_filter = resource_type_filter,
               darq2_resource_name_filter = resource_name_filter,
               darq2_pattern_type_filter = pattern_type_filter,
               darq2_principal_filter = principal_filter, darq2_host_filter = host_filter,
               darq2_operation = operation, darq2_permission_type = permission_type,
               darq2_unknown_tagged_fields = unknown_tagged_fields\<rparr>)))))))))"

definition DescribeAclsRequest_ok :: "i16 \<Rightarrow> describe_acls_request \<Rightarrow> bool" where
  "DescribeAclsRequest_ok version s \<longleftrightarrow>
     \<not> (version < 1 \<or> version > 3) \<and>
     in_i8 (darq2_resource_type_filter s) \<and>
     (if version \<ge> 2
       then string_ok (2 ^ 32 - 2) (darq2_resource_name_filter s)
       else string_ok 32767 (darq2_resource_name_filter s)) \<and>
     in_i8 (darq2_pattern_type_filter s) \<and>
     (if version \<ge> 2
       then string_ok (2 ^ 32 - 2) (darq2_principal_filter s)
       else string_ok 32767 (darq2_principal_filter s)) \<and>
     (if version \<ge> 2
       then string_ok (2 ^ 32 - 2) (darq2_host_filter s)
       else string_ok 32767 (darq2_host_filter s)) \<and>
     in_i8 (darq2_operation s) \<and>
     in_i8 (darq2_permission_type s) \<and>
     (if version \<ge> 2 then tags_ok 0 (darq2_unknown_tagged_fields s) else darq2_unknown_tagged_fields s = [])"

lemma DescribeAclsRequest_codec [coded_intros]:
  "sized_codec (\<lambda>s. DescribeAclsRequest_encode s version) (DescribeAclsRequest_decode version)
     (\<lambda>s. DescribeAclsRequest_compute_size s version) (DescribeAclsRequest_ok version)"
  unfolding DescribeAclsRequest_encode_def DescribeAclsRequest_decode_def DescribeAclsRequest_compute_size_def
  by (rule sized_codecI) (rule coded_intros | (simp add: DescribeAclsRequest_ok_def; fail))+

lemmas DescribeAclsRequest_coded [coded_intros] = sized_codec.codes [OF DescribeAclsRequest_codec]

section \<open>Create delegation token request\<close>

definition CreatableRenewers_encode :: "creatable_renewers \<Rightarrow> i16 \<Rightarrow> wire_error + bytes" where
  "CreatableRenewers_encode s version =
     (if version < 1 \<or> version > 3 then Inl UNSUPPORTED_VERSION
      else puts
        [if version \<ge> 2
          then CompactString_encode (Some (cr_principal_type s))
          else String_encode (Some (cr_principal_type s)),
         if version \<ge> 2
          then CompactString_encode (Some (cr_principal_name s))
          else String_encode (Some (cr_principal_name s)),
         if version \<ge> 2 then put_tags [] 0 (cr_unknown_tagged_fields s) else Inr []])"

definition CreatableRenewers_compute_size :: "creatable_renewers \<Rightarrow> i16 \<Rightarrow> wire_error + usize" where
  "CreatableRenewers_compute_size s version =
     sums
       [if version \<ge> 2
         then CompactString_compute_size (Some (cr_principal_type s))
         else String_compute_size (Some (cr_principal_type s)),
        if version \<ge> 2
         then CompactString_compute_size (Some (cr_principal_name s))
         else String_compute_size (Some (cr_principal_name s)),
        if version \<ge> 2 then tags_size [] (cr_unknown_tagged_fields s) else Inr 0]"

definition CreatableRenewers_decode :: "i16 \<Rightarrow> creatable_renewers decoder" where
  "CreatableRenewers_decode version =
     (if version < 1 \<or> version > 3 then refuse UNSUPPORTED_VERSION
      else
        get (if version \<ge> 2 then CompactString_required else String_required) (\<lambda>principal_type.
        get (if version \<ge> 2 then CompactString_required else String_required) (\<lambda>principal_name.
        get (if version \<ge> 2 then get_unknown_tags else give []) (\<lambda>unknown_tagged_fields.
        give \<lparr>cr_principal_type = principal_type, cr_principal_name = principal_name,
               cr_unknown_tagged_fields = unknown_tagged_fields\<rparr>))))"

definition CreatableRenewers_ok :: "i16 \<Rightarrow> creatable_renewers \<Rightarrow> bool" where
  "CreatableRenewers_ok version s \<longleftrightarrow>
     \<not> (version < 1 \<or> version > 3) \<and>
     (if version \<ge> 2
       then string_ok (2 ^ 32 - 2) (Some (cr_principal_type s))
       else string_ok 32767 (Some (cr_principal_type s))) \<and>
     (if version \<ge> 2
       then string_ok (2 ^ 32 - 2) (Some (cr_principal_name s))
       else string_ok 32767 (Some (cr_principal_name s))) \<and>
     (if version \<ge> 2 then tags_ok 0 (cr_unknown_tagged_fields s) else cr_unknown_tagged_fields s = [])"

lemma CreatableRenewers_codec [coded_intros]:
  "sized_codec (\<lambda>s. CreatableRenewers_encode s version) (CreatableRenewers_decode version)
     (\<lambda>s. CreatableRenewers_compute_size s version) (CreatableRenewers_ok version)"
  unfolding CreatableRenewers_encode_def CreatableRenewers_decode_def CreatableRenewers_compute_size_def
  by (rule sized_codecI) (rule coded_intros | (simp add: CreatableRenewers_ok_def; fail))+

lemmas CreatableRenewers_coded [coded_intros] = sized_codec.codes [OF CreatableRenewers_codec]

definition CreateDelegationTokenRequest_encode :: "create_delegation_token_request \<Rightarrow> i16 \<Rightarrow> wire_error + bytes" where
  "CreateDelegationTokenRequest_encode s version =
     (if version < 1 \<or> version > 3 then Inl UNSUPPORTED_VERSION
      else puts
        [if version \<ge> 3
          then CompactString_encode (cdtrq_owner_principal_type s)
          else unset [] (cdtrq_owner_principal_type s = Some []),
         if version \<ge> 3
          then CompactString_encode (cdtrq_owner_principal_name s)
          else unset [] (cdtrq_owner_principal_name s = Some []),
         if version \<ge> 2
          then CompactArray_encode (\<lambda>x. CreatableRenewers_encode x version) (Some (cdtrq_renewers s))
          else Array_encode (\<lambda>x. CreatableRenewers_encode x version) (Some (cdtrq_renewers s)),
         Inr (Int64_encode (cdtrq_max_lifetime_ms s)),
         if version \<ge> 2 then put_tags [] 0 (cdtrq_unknown_tagged_fields s) else Inr []])"

definition CreateDelegationTokenRequest_compute_size :: "create_delegation_token_request \<Rightarrow> i16 \<Rightarrow> wire_error + usize" where
  "CreateDelegationTokenRequest_compute_size s version =
     sums
       [if version \<ge> 3
         then CompactString_compute_size (cdtrq_owner_principal_type s)
         else unset 0 (cdtrq_owner_principal_type s = Some []),
        if version \<ge> 3
         then CompactString_compute_size (cdtrq_owner_principal_name s)
         else unset 0 (cdtrq_owner_principal_name s = Some []),
        if version \<ge> 2
         then CompactArray_compute_size None (\<lambda>x. CreatableRenewers_compute_size x version) (Some (cdtrq_renewers s))
         else Array_compute_size None (\<lambda>x. CreatableRenewers_compute_size x version) (Some (cdtrq_renewers s)),
        Inr 8,
        if version \<ge> 2 then tags_size [] (cdtrq_unknown_tagged_fields s) else Inr 0]"

definition CreateDelegationTokenRequest_decode :: "i16 \<Rightarrow> create_delegation_token_request decoder" where
  "CreateDelegationTokenRequest_decode version =
     (if version < 1 \<or> version > 3 then refuse UNSUPPORTED_VERSION
      else
        get (if version \<ge> 3 then CompactString_decode else give (Some [])) (\<lambda>owner_principal_type.
        get (if version \<ge> 3 then CompactString_decode else give (Some [])) (\<lambda>owner_principal_name.
        get (if version \<ge> 2
              then CompactArray_required (CreatableRenewers_decode version)
              else Array_required (CreatableRenewers_decode version)) (\<lambda>renewers.
        get Int64_decode (\<lambda>max_lifetime_ms.
        get (if version \<ge> 2 then get_unknown_tags else give []) (\<lambda>unknown_tagged_fields.
        give \<lparr>cdtrq_owner_principal_type = owner_principal_type,
               cdtrq_owner_principal_name = owner_principal_name, cdtrq_renewers = renewers,
               cdtrq_max_lifetime_ms = max_lifetime_ms,
               cdtrq_unknown_tagged_fields = unknown_tagged_fields\<rparr>))))))"

definition CreateDelegationTokenRequest_ok :: "i16 \<Rightarrow> create_delegation_token_request \<Rightarrow> bool" where
  "CreateDelegationTokenRequest_ok version s \<longleftrightarrow>
     \<not> (version < 1 \<or> version > 3) \<and>
     (if version \<ge> 3
       then string_ok (2 ^ 32 - 2) (cdtrq_owner_principal_type s)
       else cdtrq_owner_principal_type s = Some []) \<and>
     (if version \<ge> 3
       then string_ok (2 ^ 32 - 2) (cdtrq_owner_principal_name s)
       else cdtrq_owner_principal_name s = Some []) \<and>
     (if version \<ge> 2
       then seq_ok (2 ^ 32 - 2) (CreatableRenewers_ok version) (Some (cdtrq_renewers s))
       else seq_ok (2 ^ 31 - 1) (CreatableRenewers_ok version) (Some (cdtrq_renewers s))) \<and>
     in_i64 (cdtrq_max_lifetime_ms s) \<and>
     (if version \<ge> 2 then tags_ok 0 (cdtrq_unknown_tagged_fields s) else cdtrq_unknown_tagged_fields s = [])"

lemma CreateDelegationTokenRequest_codec [coded_intros]:
  "sized_codec (\<lambda>s. CreateDelegationTokenRequest_encode s version) (CreateDelegationTokenRequest_decode version)
     (\<lambda>s. CreateDelegationTokenRequest_compute_size s version) (CreateDelegationTokenRequest_ok version)"
  unfolding CreateDelegationTokenRequest_encode_def CreateDelegationTokenRequest_decode_def CreateDelegationTokenRequest_compute_size_def
  by (rule sized_codecI) (rule coded_intros | (clarsimp simp: CreateDelegationTokenRequest_ok_def; fail))+

lemmas CreateDelegationTokenRequest_coded [coded_intros] = sized_codec.codes [OF CreateDelegationTokenRequest_codec]

section \<open>Describe delegation token request\<close>

definition DescribeDelegationTokenOwner_encode :: "describe_delegation_token_owner \<Rightarrow> i16 \<Rightarrow> wire_error + bytes" where
  "DescribeDelegationTokenOwner_encode s version =
     (if version < 1 \<or> version > 3 then Inl UNSUPPORTED_VERSION
      else puts
        [if version \<ge> 2
          then CompactString_encode (Some (ddto_principal_type s))
          else String_encode (Some (ddto_principal_type s)),
         if version \<ge> 2
          then CompactString_encode (Some (ddto_principal_name s))
          else String_encode (Some (ddto_principal_name s)),
         if version \<ge> 2 then put_tags [] 0 (ddto_unknown_tagged_fields s) else Inr []])"

definition DescribeDelegationTokenOwner_compute_size :: "describe_delegation_token_owner \<Rightarrow> i16 \<Rightarrow> wire_error + usize" where
  "DescribeDelegationTokenOwner_compute_size s version =
     sums
       [if version \<ge> 2
         then CompactString_compute_size (Some (ddto_principal_type s))
         else String_compute_size (Some (ddto_principal_type s)),
        if version \<ge> 2
         then CompactString_compute_size (Some (ddto_principal_name s))
         else String_compute_size (Some (ddto_principal_name s)),
        if version \<ge> 2 then tags_size [] (ddto_unknown_tagged_fields s) else Inr 0]"

definition DescribeDelegationTokenOwner_decode :: "i16 \<Rightarrow> describe_delegation_token_owner decoder" where
  "DescribeDelegationTokenOwner_decode version =
     (if version < 1 \<or> version > 3 then refuse UNSUPPORTED_VERSION
      else
        get (if version \<ge> 2 then CompactString_required else String_required) (\<lambda>principal_type.
        get (if version \<ge> 2 then CompactString_required else String_required) (\<lambda>principal_name.
        get (if version \<ge> 2 then get_unknown_tags else give []) (\<lambda>unknown_tagged_fields.
        give \<lparr>ddto_principal_type = principal_type, ddto_principal_name = principal_name,
               ddto_unknown_tagged_fields = unknown_tagged_fields\<rparr>))))"

definition DescribeDelegationTokenOwner_ok :: "i16 \<Rightarrow> describe_delegation_token_owner \<Rightarrow> bool" where
  "DescribeDelegationTokenOwner_ok version s \<longleftrightarrow>
     \<not> (version < 1 \<or> version > 3) \<and>
     (if version \<ge> 2
       then string_ok (2 ^ 32 - 2) (Some (ddto_principal_type s))
       else string_ok 32767 (Some (ddto_principal_type s))) \<and>
     (if version \<ge> 2
       then string_ok (2 ^ 32 - 2) (Some (ddto_principal_name s))
       else string_ok 32767 (Some (ddto_principal_name s))) \<and>
     (if version \<ge> 2 then tags_ok 0 (ddto_unknown_tagged_fields s) else ddto_unknown_tagged_fields s = [])"

lemma DescribeDelegationTokenOwner_codec [coded_intros]:
  "sized_codec (\<lambda>s. DescribeDelegationTokenOwner_encode s version) (DescribeDelegationTokenOwner_decode version)
     (\<lambda>s. DescribeDelegationTokenOwner_compute_size s version) (DescribeDelegationTokenOwner_ok version)"
  unfolding DescribeDelegationTokenOwner_encode_def DescribeDelegationTokenOwner_decode_def DescribeDelegationTokenOwner_compute_size_def
  by (rule sized_codecI) (rule coded_intros | (simp add: DescribeDelegationTokenOwner_ok_def; fail))+

lemmas DescribeDelegationTokenOwner_coded [coded_intros] = sized_codec.codes [OF DescribeDelegationTokenOwner_codec]

definition DescribeDelegationTokenRequest_encode :: "describe_delegation_token_request \<Rightarrow> i16 \<Rightarrow> wire_error + bytes" where
  "DescribeDelegationTokenRequest_encode s version =
     (if version < 1 \<or> version > 3 then Inl UNSUPPORTED_VERSION
      else puts
        [if version \<ge> 2
          then CompactArray_encode (\<lambda>x. DescribeDelegationTokenOwner_encode x version) (ddtrq_owners s)
          else Array_encode (\<lambda>x. DescribeDelegationTokenOwner_encode x version) (ddtrq_owners s),
         if version \<ge> 2 then put_tags [] 0 (ddtrq_unknown_tagged_fields s) else Inr []])"

definition DescribeDelegationTokenRequest_compute_size :: "describe_delegation_token_request \<Rightarrow> i16 \<Rightarrow> wire_error + usize" where
  "DescribeDelegationTokenRequest_compute_size s version =
     sums
       [if version \<ge> 2
         then CompactArray_compute_size None (\<lambda>x. DescribeDelegationTokenOwner_compute_size x version) (ddtrq_owners s)
         else Array_compute_size None (\<lambda>x. DescribeDelegationTokenOwner_compute_size x version) (ddtrq_owners s),
        if version \<ge> 2 then tags_size [] (ddtrq_unknown_tagged_fields s) else Inr 0]"

definition DescribeDelegationTokenRequest_decode :: "i16 \<Rightarrow> describe_delegation_token_request decoder" where
  "DescribeDelegationTokenRequest_decode version =
     (if version < 1 \<or> version > 3 then refuse UNSUPPORTED_VERSION
      else
        get (if version \<ge> 2
              then CompactArray_decode (DescribeDelegationTokenOwner_decode version)
              else Array_decode (DescribeDelegationTokenOwner_decode version)) (\<lambda>owners.
        get (if version \<ge> 2 then get_unknown_tags else give []) (\<lambda>unknown_tagged_fields.
        give \<lparr>ddtrq_owners = owners, ddtrq_unknown_tagged_fields = unknown_tagged_fields\<rparr>)))"

definition DescribeDelegationTokenRequest_ok :: "i16 \<Rightarrow> describe_delegation_token_request \<Rightarrow> bool" where
  "DescribeDelegationTokenRequest_ok version s \<longleftrightarrow>
     \<not> (version < 1 \<or> version > 3) \<and>
     (if version \<ge> 2
       then seq_ok (2 ^ 32 - 2) (DescribeDelegationTokenOwner_ok version) (ddtrq_owners s)
       else seq_ok (2 ^ 31 - 1) (DescribeDelegationTokenOwner_ok version) (ddtrq_owners s)) \<and>
     (if version \<ge> 2 then tags_ok 0 (ddtrq_unknown_tagged_fields s) else ddtrq_unknown_tagged_fields s = [])"

lemma DescribeDelegationTokenRequest_codec [coded_intros]:
  "sized_codec (\<lambda>s. DescribeDelegationTokenRequest_encode s version) (DescribeDelegationTokenRequest_decode version)
     (\<lambda>s. DescribeDelegationTokenRequest_compute_size s version) (DescribeDelegationTokenRequest_ok version)"
  unfolding DescribeDelegationTokenRequest_encode_def DescribeDelegationTokenRequest_decode_def DescribeDelegationTokenRequest_compute_size_def
  by (rule sized_codecI) (rule coded_intros | (simp add: DescribeDelegationTokenRequest_ok_def; fail))+

lemmas DescribeDelegationTokenRequest_coded [coded_intros] = sized_codec.codes [OF DescribeDelegationTokenRequest_codec]

section \<open>Expire delegation token request\<close>

definition ExpireDelegationTokenRequest_encode :: "expire_delegation_token_request \<Rightarrow> i16 \<Rightarrow> wire_error + bytes" where
  "ExpireDelegationTokenRequest_encode s version =
     (if version < 1 \<or> version > 2 then Inl UNSUPPORTED_VERSION
      else puts
        [if version \<ge> 2
          then CompactBytes_encode (Some (edtrq_hmac s))
          else Bytes_encode (Some (edtrq_hmac s)),
         Inr (Int64_encode (edtrq_expiry_time_period_ms s)),
         if version \<ge> 2 then put_tags [] 0 (edtrq_unknown_tagged_fields s) else Inr []])"

definition ExpireDelegationTokenRequest_compute_size :: "expire_delegation_token_request \<Rightarrow> i16 \<Rightarrow> wire_error + usize" where
  "ExpireDelegationTokenRequest_compute_size s version =
     sums
       [if version \<ge> 2
         then CompactBytes_compute_size (Some (edtrq_hmac s))
         else Bytes_compute_size (Some (edtrq_hmac s)),
        Inr 8,
        if version \<ge> 2 then tags_size [] (edtrq_unknown_tagged_fields s) else Inr 0]"

definition ExpireDelegationTokenRequest_decode :: "i16 \<Rightarrow> expire_delegation_token_request decoder" where
  "ExpireDelegationTokenRequest_decode version =
     (if version < 1 \<or> version > 2 then refuse UNSUPPORTED_VERSION
      else
        get (if version \<ge> 2 then CompactBytes_required else Bytes_required) (\<lambda>hmac.
        get Int64_decode (\<lambda>expiry_time_period_ms.
        get (if version \<ge> 2 then get_unknown_tags else give []) (\<lambda>unknown_tagged_fields.
        give \<lparr>edtrq_hmac = hmac, edtrq_expiry_time_period_ms = expiry_time_period_ms,
               edtrq_unknown_tagged_fields = unknown_tagged_fields\<rparr>))))"

definition ExpireDelegationTokenRequest_ok :: "i16 \<Rightarrow> expire_delegation_token_request \<Rightarrow> bool" where
  "ExpireDelegationTokenRequest_ok version s \<longleftrightarrow>
     \<not> (version < 1 \<or> version > 2) \<and>
     (if version \<ge> 2
       then seq_ok (2 ^ 32 - 2) (\<lambda>_. True) (Some (edtrq_hmac s))
       else seq_ok (2 ^ 31 - 1) (\<lambda>_. True) (Some (edtrq_hmac s))) \<and>
     in_i64 (edtrq_expiry_time_period_ms s) \<and>
     (if version \<ge> 2 then tags_ok 0 (edtrq_unknown_tagged_fields s) else edtrq_unknown_tagged_fields s = [])"

lemma ExpireDelegationTokenRequest_codec [coded_intros]:
  "sized_codec (\<lambda>s. ExpireDelegationTokenRequest_encode s version) (ExpireDelegationTokenRequest_decode version)
     (\<lambda>s. ExpireDelegationTokenRequest_compute_size s version) (ExpireDelegationTokenRequest_ok version)"
  unfolding ExpireDelegationTokenRequest_encode_def ExpireDelegationTokenRequest_decode_def ExpireDelegationTokenRequest_compute_size_def
  by (rule sized_codecI) (rule coded_intros | (clarsimp simp: ExpireDelegationTokenRequest_ok_def; fail))+

lemmas ExpireDelegationTokenRequest_coded [coded_intros] = sized_codec.codes [OF ExpireDelegationTokenRequest_codec]

section \<open>Renew delegation token request\<close>

definition RenewDelegationTokenRequest_encode :: "renew_delegation_token_request \<Rightarrow> i16 \<Rightarrow> wire_error + bytes" where
  "RenewDelegationTokenRequest_encode s version =
     (if version < 1 \<or> version > 2 then Inl UNSUPPORTED_VERSION
      else puts
        [if version \<ge> 2
          then CompactBytes_encode (Some (rdtrq_hmac s))
          else Bytes_encode (Some (rdtrq_hmac s)),
         Inr (Int64_encode (rdtrq_renew_period_ms s)),
         if version \<ge> 2 then put_tags [] 0 (rdtrq_unknown_tagged_fields s) else Inr []])"

definition RenewDelegationTokenRequest_compute_size :: "renew_delegation_token_request \<Rightarrow> i16 \<Rightarrow> wire_error + usize" where
  "RenewDelegationTokenRequest_compute_size s version =
     sums
       [if version \<ge> 2
         then CompactBytes_compute_size (Some (rdtrq_hmac s))
         else Bytes_compute_size (Some (rdtrq_hmac s)),
        Inr 8,
        if version \<ge> 2 then tags_size [] (rdtrq_unknown_tagged_fields s) else Inr 0]"

definition RenewDelegationTokenRequest_decode :: "i16 \<Rightarrow> renew_delegation_token_request decoder" where
  "RenewDelegationTokenRequest_decode version =
     (if version < 1 \<or> version > 2 then refuse UNSUPPORTED_VERSION
      else
        get (if version \<ge> 2 then CompactBytes_required else Bytes_required) (\<lambda>hmac.
        get Int64_decode (\<lambda>renew_period_ms.
        get (if version \<ge> 2 then get_unknown_tags else give []) (\<lambda>unknown_tagged_fields.
        give \<lparr>rdtrq_hmac = hmac, rdtrq_renew_period_ms = renew_period_ms,
               rdtrq_unknown_tagged_fields = unknown_tagged_fields\<rparr>))))"

definition RenewDelegationTokenRequest_ok :: "i16 \<Rightarrow> renew_delegation_token_request \<Rightarrow> bool" where
  "RenewDelegationTokenRequest_ok version s \<longleftrightarrow>
     \<not> (version < 1 \<or> version > 2) \<and>
     (if version \<ge> 2
       then seq_ok (2 ^ 32 - 2) (\<lambda>_. True) (Some (rdtrq_hmac s))
       else seq_ok (2 ^ 31 - 1) (\<lambda>_. True) (Some (rdtrq_hmac s))) \<and>
     in_i64 (rdtrq_renew_period_ms s) \<and>
     (if version \<ge> 2 then tags_ok 0 (rdtrq_unknown_tagged_fields s) else rdtrq_unknown_tagged_fields s = [])"

lemma RenewDelegationTokenRequest_codec [coded_intros]:
  "sized_codec (\<lambda>s. RenewDelegationTokenRequest_encode s version) (RenewDelegationTokenRequest_decode version)
     (\<lambda>s. RenewDelegationTokenRequest_compute_size s version) (RenewDelegationTokenRequest_ok version)"
  unfolding RenewDelegationTokenRequest_encode_def RenewDelegationTokenRequest_decode_def RenewDelegationTokenRequest_compute_size_def
  by (rule sized_codecI) (rule coded_intros | (clarsimp simp: RenewDelegationTokenRequest_ok_def; fail))+

lemmas RenewDelegationTokenRequest_coded [coded_intros] = sized_codec.codes [OF RenewDelegationTokenRequest_codec]

section \<open>Sasl handshake request\<close>

definition SaslHandshakeRequest_encode :: "sasl_handshake_request \<Rightarrow> i16 \<Rightarrow> wire_error + bytes" where
  "SaslHandshakeRequest_encode s version =
     (if version < 0 \<or> version > 1 then Inl UNSUPPORTED_VERSION
      else puts
        [String_encode (Some (shrq_mechanism s))])"

definition SaslHandshakeRequest_compute_size :: "sasl_handshake_request \<Rightarrow> i16 \<Rightarrow> wire_error + usize" where
  "SaslHandshakeRequest_compute_size s version =
     sums
       [String_compute_size (Some (shrq_mechanism s))]"

definition SaslHandshakeRequest_decode :: "i16 \<Rightarrow> sasl_handshake_request decoder" where
  "SaslHandshakeRequest_decode version =
     (if version < 0 \<or> version > 1 then refuse UNSUPPORTED_VERSION
      else
        get String_required (\<lambda>mechanism.
        give \<lparr>shrq_mechanism = mechanism\<rparr>))"

definition SaslHandshakeRequest_ok :: "i16 \<Rightarrow> sasl_handshake_request \<Rightarrow> bool" where
  "SaslHandshakeRequest_ok version s \<longleftrightarrow>
     \<not> (version < 0 \<or> version > 1) \<and>
     string_ok 32767 (Some (shrq_mechanism s))"

lemma SaslHandshakeRequest_codec [coded_intros]:
  "sized_codec (\<lambda>s. SaslHandshakeRequest_encode s version) (SaslHandshakeRequest_decode version)
     (\<lambda>s. SaslHandshakeRequest_compute_size s version) (SaslHandshakeRequest_ok version)"
  unfolding SaslHandshakeRequest_encode_def SaslHandshakeRequest_decode_def SaslHandshakeRequest_compute_size_def
  by (rule sized_codecI) (rule coded_intros | (simp add: SaslHandshakeRequest_ok_def; fail))+

lemmas SaslHandshakeRequest_coded [coded_intros] = sized_codec.codes [OF SaslHandshakeRequest_codec]

section \<open>Sasl authenticate request\<close>

definition SaslAuthenticateRequest_encode :: "sasl_authenticate_request \<Rightarrow> i16 \<Rightarrow> wire_error + bytes" where
  "SaslAuthenticateRequest_encode s version =
     (if version < 0 \<or> version > 2 then Inl UNSUPPORTED_VERSION
      else puts
        [if version \<ge> 2
          then CompactBytes_encode (Some (sarq_auth_bytes s))
          else Bytes_encode (Some (sarq_auth_bytes s)),
         if version \<ge> 2 then put_tags [] 0 (sarq_unknown_tagged_fields s) else Inr []])"

definition SaslAuthenticateRequest_compute_size :: "sasl_authenticate_request \<Rightarrow> i16 \<Rightarrow> wire_error + usize" where
  "SaslAuthenticateRequest_compute_size s version =
     sums
       [if version \<ge> 2
         then CompactBytes_compute_size (Some (sarq_auth_bytes s))
         else Bytes_compute_size (Some (sarq_auth_bytes s)),
        if version \<ge> 2 then tags_size [] (sarq_unknown_tagged_fields s) else Inr 0]"

definition SaslAuthenticateRequest_decode :: "i16 \<Rightarrow> sasl_authenticate_request decoder" where
  "SaslAuthenticateRequest_decode version =
     (if version < 0 \<or> version > 2 then refuse UNSUPPORTED_VERSION
      else
        get (if version \<ge> 2 then CompactBytes_required else Bytes_required) (\<lambda>auth_bytes.
        get (if version \<ge> 2 then get_unknown_tags else give []) (\<lambda>unknown_tagged_fields.
        give \<lparr>sarq_auth_bytes = auth_bytes, sarq_unknown_tagged_fields = unknown_tagged_fields\<rparr>)))"

definition SaslAuthenticateRequest_ok :: "i16 \<Rightarrow> sasl_authenticate_request \<Rightarrow> bool" where
  "SaslAuthenticateRequest_ok version s \<longleftrightarrow>
     \<not> (version < 0 \<or> version > 2) \<and>
     (if version \<ge> 2
       then seq_ok (2 ^ 32 - 2) (\<lambda>_. True) (Some (sarq_auth_bytes s))
       else seq_ok (2 ^ 31 - 1) (\<lambda>_. True) (Some (sarq_auth_bytes s))) \<and>
     (if version \<ge> 2 then tags_ok 0 (sarq_unknown_tagged_fields s) else sarq_unknown_tagged_fields s = [])"

lemma SaslAuthenticateRequest_codec [coded_intros]:
  "sized_codec (\<lambda>s. SaslAuthenticateRequest_encode s version) (SaslAuthenticateRequest_decode version)
     (\<lambda>s. SaslAuthenticateRequest_compute_size s version) (SaslAuthenticateRequest_ok version)"
  unfolding SaslAuthenticateRequest_encode_def SaslAuthenticateRequest_decode_def SaslAuthenticateRequest_compute_size_def
  by (rule sized_codecI) (rule coded_intros | (clarsimp simp: SaslAuthenticateRequest_ok_def; fail))+

lemmas SaslAuthenticateRequest_coded [coded_intros] = sized_codec.codes [OF SaslAuthenticateRequest_codec]

section \<open>Alter user scram credentials request\<close>

definition ScramCredentialDeletion_encode :: "scram_credential_deletion \<Rightarrow> i16 \<Rightarrow> wire_error + bytes" where
  "ScramCredentialDeletion_encode s version =
     (if version \<noteq> 0 then Inl UNSUPPORTED_VERSION
      else puts
        [CompactString_encode (Some (scd_name s)),
         Inr (Int8_encode (scd_mechanism s)),
         put_tags [] 0 (scd_unknown_tagged_fields s)])"

definition ScramCredentialDeletion_compute_size :: "scram_credential_deletion \<Rightarrow> i16 \<Rightarrow> wire_error + usize" where
  "ScramCredentialDeletion_compute_size s version =
     sums
       [CompactString_compute_size (Some (scd_name s)),
        Inr 1,
        tags_size [] (scd_unknown_tagged_fields s)]"

definition ScramCredentialDeletion_decode :: "i16 \<Rightarrow> scram_credential_deletion decoder" where
  "ScramCredentialDeletion_decode version =
     (if version \<noteq> 0 then refuse UNSUPPORTED_VERSION
      else
        get CompactString_required (\<lambda>name.
        get Int8_decode (\<lambda>mechanism.
        get get_unknown_tags (\<lambda>unknown_tagged_fields.
        give \<lparr>scd_name = name, scd_mechanism = mechanism,
               scd_unknown_tagged_fields = unknown_tagged_fields\<rparr>))))"

definition ScramCredentialDeletion_ok :: "i16 \<Rightarrow> scram_credential_deletion \<Rightarrow> bool" where
  "ScramCredentialDeletion_ok version s \<longleftrightarrow>
     \<not> (version \<noteq> 0) \<and>
     string_ok (2 ^ 32 - 2) (Some (scd_name s)) \<and>
     in_i8 (scd_mechanism s) \<and>
     tags_ok 0 (scd_unknown_tagged_fields s)"

lemma ScramCredentialDeletion_codec [coded_intros]:
  "sized_codec (\<lambda>s. ScramCredentialDeletion_encode s version) (ScramCredentialDeletion_decode version)
     (\<lambda>s. ScramCredentialDeletion_compute_size s version) (ScramCredentialDeletion_ok version)"
  unfolding ScramCredentialDeletion_encode_def ScramCredentialDeletion_decode_def ScramCredentialDeletion_compute_size_def
  by (rule sized_codecI) (rule coded_intros | (clarsimp simp: ScramCredentialDeletion_ok_def; fail))+

lemmas ScramCredentialDeletion_coded [coded_intros] = sized_codec.codes [OF ScramCredentialDeletion_codec]

definition ScramCredentialUpsertion_encode :: "scram_credential_upsertion \<Rightarrow> i16 \<Rightarrow> wire_error + bytes" where
  "ScramCredentialUpsertion_encode s version =
     (if version \<noteq> 0 then Inl UNSUPPORTED_VERSION
      else puts
        [CompactString_encode (Some (scu_name s)),
         Inr (Int8_encode (scu_mechanism s)),
         Inr (Int32_encode (scu_iterations s)),
         CompactBytes_encode (Some (scu_salt s)),
         CompactBytes_encode (Some (scu_salted_password s)),
         put_tags [] 0 (scu_unknown_tagged_fields s)])"

definition ScramCredentialUpsertion_compute_size :: "scram_credential_upsertion \<Rightarrow> i16 \<Rightarrow> wire_error + usize" where
  "ScramCredentialUpsertion_compute_size s version =
     sums
       [CompactString_compute_size (Some (scu_name s)),
        Inr 1,
        Inr 4,
        CompactBytes_compute_size (Some (scu_salt s)),
        CompactBytes_compute_size (Some (scu_salted_password s)),
        tags_size [] (scu_unknown_tagged_fields s)]"

definition ScramCredentialUpsertion_decode :: "i16 \<Rightarrow> scram_credential_upsertion decoder" where
  "ScramCredentialUpsertion_decode version =
     (if version \<noteq> 0 then refuse UNSUPPORTED_VERSION
      else
        get CompactString_required (\<lambda>name.
        get Int8_decode (\<lambda>mechanism.
        get Int32_decode (\<lambda>iterations.
        get CompactBytes_required (\<lambda>salt.
        get CompactBytes_required (\<lambda>salted_password.
        get get_unknown_tags (\<lambda>unknown_tagged_fields.
        give \<lparr>scu_name = name, scu_mechanism = mechanism, scu_iterations = iterations,
               scu_salt = salt, scu_salted_password = salted_password,
               scu_unknown_tagged_fields = unknown_tagged_fields\<rparr>)))))))"

definition ScramCredentialUpsertion_ok :: "i16 \<Rightarrow> scram_credential_upsertion \<Rightarrow> bool" where
  "ScramCredentialUpsertion_ok version s \<longleftrightarrow>
     \<not> (version \<noteq> 0) \<and>
     string_ok (2 ^ 32 - 2) (Some (scu_name s)) \<and>
     in_i8 (scu_mechanism s) \<and>
     in_i32 (scu_iterations s) \<and>
     seq_ok (2 ^ 32 - 2) (\<lambda>_. True) (Some (scu_salt s)) \<and>
     seq_ok (2 ^ 32 - 2) (\<lambda>_. True) (Some (scu_salted_password s)) \<and>
     tags_ok 0 (scu_unknown_tagged_fields s)"

lemma ScramCredentialUpsertion_codec [coded_intros]:
  "sized_codec (\<lambda>s. ScramCredentialUpsertion_encode s version) (ScramCredentialUpsertion_decode version)
     (\<lambda>s. ScramCredentialUpsertion_compute_size s version) (ScramCredentialUpsertion_ok version)"
  unfolding ScramCredentialUpsertion_encode_def ScramCredentialUpsertion_decode_def ScramCredentialUpsertion_compute_size_def
  by (rule sized_codecI) (rule coded_intros | (clarsimp simp: ScramCredentialUpsertion_ok_def; fail))+

lemmas ScramCredentialUpsertion_coded [coded_intros] = sized_codec.codes [OF ScramCredentialUpsertion_codec]

definition AlterUserScramCredentialsRequest_encode :: "alter_user_scram_credentials_request \<Rightarrow> i16 \<Rightarrow> wire_error + bytes" where
  "AlterUserScramCredentialsRequest_encode s version =
     (if version \<noteq> 0 then Inl UNSUPPORTED_VERSION
      else puts
        [CompactArray_encode (\<lambda>x. ScramCredentialDeletion_encode x version) (Some (auscrq_deletions s)),
         CompactArray_encode (\<lambda>x. ScramCredentialUpsertion_encode x version) (Some (auscrq_upsertions s)),
         put_tags [] 0 (auscrq_unknown_tagged_fields s)])"

definition AlterUserScramCredentialsRequest_compute_size :: "alter_user_scram_credentials_request \<Rightarrow> i16 \<Rightarrow> wire_error + usize" where
  "AlterUserScramCredentialsRequest_compute_size s version =
     sums
       [CompactArray_compute_size None (\<lambda>x. ScramCredentialDeletion_compute_size x version) (Some (auscrq_deletions s)),
        CompactArray_compute_size None (\<lambda>x. ScramCredentialUpsertion_compute_size x version) (Some (auscrq_upsertions s)),
        tags_size [] (auscrq_unknown_tagged_fields s)]"

definition AlterUserScramCredentialsRequest_decode :: "i16 \<Rightarrow> alter_user_scram_credentials_request decoder" where
  "AlterUserScramCredentialsRequest_decode version =
     (if version \<noteq> 0 then refuse UNSUPPORTED_VERSION
      else
        get (CompactArray_required (ScramCredentialDeletion_decode version)) (\<lambda>deletions.
        get (CompactArray_required (ScramCredentialUpsertion_decode version)) (\<lambda>upsertions.
        get get_unknown_tags (\<lambda>unknown_tagged_fields.
        give \<lparr>auscrq_deletions = deletions, auscrq_upsertions = upsertions,
               auscrq_unknown_tagged_fields = unknown_tagged_fields\<rparr>))))"

definition AlterUserScramCredentialsRequest_ok :: "i16 \<Rightarrow> alter_user_scram_credentials_request \<Rightarrow> bool" where
  "AlterUserScramCredentialsRequest_ok version s \<longleftrightarrow>
     \<not> (version \<noteq> 0) \<and>
     seq_ok (2 ^ 32 - 2) (ScramCredentialDeletion_ok version) (Some (auscrq_deletions s)) \<and>
     seq_ok (2 ^ 32 - 2) (ScramCredentialUpsertion_ok version) (Some (auscrq_upsertions s)) \<and>
     tags_ok 0 (auscrq_unknown_tagged_fields s)"

lemma AlterUserScramCredentialsRequest_codec [coded_intros]:
  "sized_codec (\<lambda>s. AlterUserScramCredentialsRequest_encode s version) (AlterUserScramCredentialsRequest_decode version)
     (\<lambda>s. AlterUserScramCredentialsRequest_compute_size s version) (AlterUserScramCredentialsRequest_ok version)"
  unfolding AlterUserScramCredentialsRequest_encode_def AlterUserScramCredentialsRequest_decode_def AlterUserScramCredentialsRequest_compute_size_def
  by (rule sized_codecI) (rule coded_intros | (clarsimp simp: AlterUserScramCredentialsRequest_ok_def; fail))+

lemmas AlterUserScramCredentialsRequest_coded [coded_intros] = sized_codec.codes [OF AlterUserScramCredentialsRequest_codec]

section \<open>Describe user scram credentials request\<close>

definition UserName_encode :: "user_name \<Rightarrow> i16 \<Rightarrow> wire_error + bytes" where
  "UserName_encode s version =
     (if version \<noteq> 0 then Inl UNSUPPORTED_VERSION
      else puts
        [CompactString_encode (Some (un_name s)),
         put_tags [] 0 (un_unknown_tagged_fields s)])"

definition UserName_compute_size :: "user_name \<Rightarrow> i16 \<Rightarrow> wire_error + usize" where
  "UserName_compute_size s version =
     sums
       [CompactString_compute_size (Some (un_name s)),
        tags_size [] (un_unknown_tagged_fields s)]"

definition UserName_decode :: "i16 \<Rightarrow> user_name decoder" where
  "UserName_decode version =
     (if version \<noteq> 0 then refuse UNSUPPORTED_VERSION
      else
        get CompactString_required (\<lambda>name.
        get get_unknown_tags (\<lambda>unknown_tagged_fields.
        give \<lparr>un_name = name, un_unknown_tagged_fields = unknown_tagged_fields\<rparr>)))"

definition UserName_ok :: "i16 \<Rightarrow> user_name \<Rightarrow> bool" where
  "UserName_ok version s \<longleftrightarrow>
     \<not> (version \<noteq> 0) \<and>
     string_ok (2 ^ 32 - 2) (Some (un_name s)) \<and>
     tags_ok 0 (un_unknown_tagged_fields s)"

lemma UserName_codec [coded_intros]:
  "sized_codec (\<lambda>s. UserName_encode s version) (UserName_decode version)
     (\<lambda>s. UserName_compute_size s version) (UserName_ok version)"
  unfolding UserName_encode_def UserName_decode_def UserName_compute_size_def
  by (rule sized_codecI) (rule coded_intros | (clarsimp simp: UserName_ok_def; fail))+

lemmas UserName_coded [coded_intros] = sized_codec.codes [OF UserName_codec]

definition DescribeUserScramCredentialsRequest_encode :: "describe_user_scram_credentials_request \<Rightarrow> i16 \<Rightarrow> wire_error + bytes" where
  "DescribeUserScramCredentialsRequest_encode s version =
     (if version \<noteq> 0 then Inl UNSUPPORTED_VERSION
      else puts
        [CompactArray_encode (\<lambda>x. UserName_encode x version) (duscrq_users s),
         put_tags [] 0 (duscrq_unknown_tagged_fields s)])"

definition DescribeUserScramCredentialsRequest_compute_size :: "describe_user_scram_credentials_request \<Rightarrow> i16 \<Rightarrow> wire_error + usize" where
  "DescribeUserScramCredentialsRequest_compute_size s version =
     sums
       [CompactArray_compute_size None (\<lambda>x. UserName_compute_size x version) (duscrq_users s),
        tags_size [] (duscrq_unknown_tagged_fields s)]"

definition DescribeUserScramCredentialsRequest_decode :: "i16 \<Rightarrow> describe_user_scram_credentials_request decoder" where
  "DescribeUserScramCredentialsRequest_decode version =
     (if version \<noteq> 0 then refuse UNSUPPORTED_VERSION
      else
        get (CompactArray_decode (UserName_decode version)) (\<lambda>users.
        get get_unknown_tags (\<lambda>unknown_tagged_fields.
        give \<lparr>duscrq_users = users, duscrq_unknown_tagged_fields = unknown_tagged_fields\<rparr>)))"

definition DescribeUserScramCredentialsRequest_ok :: "i16 \<Rightarrow> describe_user_scram_credentials_request \<Rightarrow> bool" where
  "DescribeUserScramCredentialsRequest_ok version s \<longleftrightarrow>
     \<not> (version \<noteq> 0) \<and>
     seq_ok (2 ^ 32 - 2) (UserName_ok version) (duscrq_users s) \<and>
     tags_ok 0 (duscrq_unknown_tagged_fields s)"

lemma DescribeUserScramCredentialsRequest_codec [coded_intros]:
  "sized_codec (\<lambda>s. DescribeUserScramCredentialsRequest_encode s version) (DescribeUserScramCredentialsRequest_decode version)
     (\<lambda>s. DescribeUserScramCredentialsRequest_compute_size s version) (DescribeUserScramCredentialsRequest_ok version)"
  unfolding DescribeUserScramCredentialsRequest_encode_def DescribeUserScramCredentialsRequest_decode_def DescribeUserScramCredentialsRequest_compute_size_def
  by (rule sized_codecI) (rule coded_intros | (clarsimp simp: DescribeUserScramCredentialsRequest_ok_def; fail))+

lemmas DescribeUserScramCredentialsRequest_coded [coded_intros] = sized_codec.codes [OF DescribeUserScramCredentialsRequest_codec]

section \<open>Envelope request\<close>

definition EnvelopeRequest_encode :: "envelope_request \<Rightarrow> i16 \<Rightarrow> wire_error + bytes" where
  "EnvelopeRequest_encode s version =
     (if version \<noteq> 0 then Inl UNSUPPORTED_VERSION
      else puts
        [CompactBytes_encode (Some (erq_request_data s)),
         CompactBytes_encode (erq_request_principal s),
         CompactBytes_encode (Some (erq_client_host_address s)),
         put_tags [] 0 (erq_unknown_tagged_fields s)])"

definition EnvelopeRequest_compute_size :: "envelope_request \<Rightarrow> i16 \<Rightarrow> wire_error + usize" where
  "EnvelopeRequest_compute_size s version =
     sums
       [CompactBytes_compute_size (Some (erq_request_data s)),
        CompactBytes_compute_size (erq_request_principal s),
        CompactBytes_compute_size (Some (erq_client_host_address s)),
        tags_size [] (erq_unknown_tagged_fields s)]"

definition EnvelopeRequest_decode :: "i16 \<Rightarrow> envelope_request decoder" where
  "EnvelopeRequest_decode version =
     (if version \<noteq> 0 then refuse UNSUPPORTED_VERSION
      else
        get CompactBytes_required (\<lambda>request_data.
        get CompactBytes_decode (\<lambda>request_principal.
        get CompactBytes_required (\<lambda>client_host_address.
        get get_unknown_tags (\<lambda>unknown_tagged_fields.
        give \<lparr>erq_request_data = request_data, erq_request_principal = request_principal,
               erq_client_host_address = client_host_address,
               erq_unknown_tagged_fields = unknown_tagged_fields\<rparr>)))))"

definition EnvelopeRequest_ok :: "i16 \<Rightarrow> envelope_request \<Rightarrow> bool" where
  "EnvelopeRequest_ok version s \<longleftrightarrow>
     \<not> (version \<noteq> 0) \<and>
     seq_ok (2 ^ 32 - 2) (\<lambda>_. True) (Some (erq_request_data s)) \<and>
     seq_ok (2 ^ 32 - 2) (\<lambda>_. True) (erq_request_principal s) \<and>
     seq_ok (2 ^ 32 - 2) (\<lambda>_. True) (Some (erq_client_host_address s)) \<and>
     tags_ok 0 (erq_unknown_tagged_fields s)"

lemma EnvelopeRequest_codec [coded_intros]:
  "sized_codec (\<lambda>s. EnvelopeRequest_encode s version) (EnvelopeRequest_decode version)
     (\<lambda>s. EnvelopeRequest_compute_size s version) (EnvelopeRequest_ok version)"
  unfolding EnvelopeRequest_encode_def EnvelopeRequest_decode_def EnvelopeRequest_compute_size_def
  by (rule sized_codecI) (rule coded_intros | (clarsimp simp: EnvelopeRequest_ok_def; fail))+

lemmas EnvelopeRequest_coded [coded_intros] = sized_codec.codes [OF EnvelopeRequest_codec]

section \<open>Bodies\<close>

text \<open>The variants of \<open>RequestKind\<close> (\<open>messages.rs\<close>) with these requests, and their codecs by API key. The match on the key is exhaustive; its last arm is the last key of the group.\<close>

datatype security_request =
  SaslHandshakeRequest sasl_handshake_request
| DescribeAclsRequest describe_acls_request
| CreateAclsRequest create_acls_request
| DeleteAclsRequest delete_acls_request
| SaslAuthenticateRequest sasl_authenticate_request
| CreateDelegationTokenRequest create_delegation_token_request
| RenewDelegationTokenRequest renew_delegation_token_request
| ExpireDelegationTokenRequest expire_delegation_token_request
| DescribeDelegationTokenRequest describe_delegation_token_request
| DescribeUserScramCredentialsRequest describe_user_scram_credentials_request
| AlterUserScramCredentialsRequest alter_user_scram_credentials_request
| EnvelopeRequest envelope_request

fun security_request_key :: "security_request \<Rightarrow> i16" where
  "security_request_key (SaslHandshakeRequest _) = 17"
| "security_request_key (DescribeAclsRequest _) = 29"
| "security_request_key (CreateAclsRequest _) = 30"
| "security_request_key (DeleteAclsRequest _) = 31"
| "security_request_key (SaslAuthenticateRequest _) = 36"
| "security_request_key (CreateDelegationTokenRequest _) = 38"
| "security_request_key (RenewDelegationTokenRequest _) = 39"
| "security_request_key (ExpireDelegationTokenRequest _) = 40"
| "security_request_key (DescribeDelegationTokenRequest _) = 41"
| "security_request_key (DescribeUserScramCredentialsRequest _) = 50"
| "security_request_key (AlterUserScramCredentialsRequest _) = 51"
| "security_request_key (EnvelopeRequest _) = 58"

fun security_request_encode :: "security_request \<Rightarrow> i16 \<Rightarrow> wire_error + bytes" where
  "security_request_encode (SaslHandshakeRequest x) version = SaslHandshakeRequest_encode x version"
| "security_request_encode (DescribeAclsRequest x) version = DescribeAclsRequest_encode x version"
| "security_request_encode (CreateAclsRequest x) version = CreateAclsRequest_encode x version"
| "security_request_encode (DeleteAclsRequest x) version = DeleteAclsRequest_encode x version"
| "security_request_encode (SaslAuthenticateRequest x) version = SaslAuthenticateRequest_encode x version"
| "security_request_encode (CreateDelegationTokenRequest x) version = CreateDelegationTokenRequest_encode x version"
| "security_request_encode (RenewDelegationTokenRequest x) version = RenewDelegationTokenRequest_encode x version"
| "security_request_encode (ExpireDelegationTokenRequest x) version = ExpireDelegationTokenRequest_encode x version"
| "security_request_encode (DescribeDelegationTokenRequest x) version = DescribeDelegationTokenRequest_encode x version"
| "security_request_encode (DescribeUserScramCredentialsRequest x) version = DescribeUserScramCredentialsRequest_encode x version"
| "security_request_encode (AlterUserScramCredentialsRequest x) version = AlterUserScramCredentialsRequest_encode x version"
| "security_request_encode (EnvelopeRequest x) version = EnvelopeRequest_encode x version"

definition security_request_decode :: "i16 \<Rightarrow> i16 \<Rightarrow> security_request decoder" where
  "security_request_decode key version =
     (if key = 17 then get (SaslHandshakeRequest_decode version) (\<lambda>x. give (SaslHandshakeRequest x))
      else if key = 29 then get (DescribeAclsRequest_decode version) (\<lambda>x. give (DescribeAclsRequest x))
      else if key = 30 then get (CreateAclsRequest_decode version) (\<lambda>x. give (CreateAclsRequest x))
      else if key = 31 then get (DeleteAclsRequest_decode version) (\<lambda>x. give (DeleteAclsRequest x))
      else if key = 36 then get (SaslAuthenticateRequest_decode version) (\<lambda>x. give (SaslAuthenticateRequest x))
      else if key = 38 then get (CreateDelegationTokenRequest_decode version) (\<lambda>x. give (CreateDelegationTokenRequest x))
      else if key = 39 then get (RenewDelegationTokenRequest_decode version) (\<lambda>x. give (RenewDelegationTokenRequest x))
      else if key = 40 then get (ExpireDelegationTokenRequest_decode version) (\<lambda>x. give (ExpireDelegationTokenRequest x))
      else if key = 41 then get (DescribeDelegationTokenRequest_decode version) (\<lambda>x. give (DescribeDelegationTokenRequest x))
      else if key = 50 then get (DescribeUserScramCredentialsRequest_decode version) (\<lambda>x. give (DescribeUserScramCredentialsRequest x))
      else if key = 51 then get (AlterUserScramCredentialsRequest_decode version) (\<lambda>x. give (AlterUserScramCredentialsRequest x))
      else get (EnvelopeRequest_decode version) (\<lambda>x. give (EnvelopeRequest x)))"

fun security_request_size :: "i16 \<Rightarrow> security_request \<Rightarrow> wire_error + usize" where
  "security_request_size version (SaslHandshakeRequest x) = SaslHandshakeRequest_compute_size x version"
| "security_request_size version (DescribeAclsRequest x) = DescribeAclsRequest_compute_size x version"
| "security_request_size version (CreateAclsRequest x) = CreateAclsRequest_compute_size x version"
| "security_request_size version (DeleteAclsRequest x) = DeleteAclsRequest_compute_size x version"
| "security_request_size version (SaslAuthenticateRequest x) = SaslAuthenticateRequest_compute_size x version"
| "security_request_size version (CreateDelegationTokenRequest x) = CreateDelegationTokenRequest_compute_size x version"
| "security_request_size version (RenewDelegationTokenRequest x) = RenewDelegationTokenRequest_compute_size x version"
| "security_request_size version (ExpireDelegationTokenRequest x) = ExpireDelegationTokenRequest_compute_size x version"
| "security_request_size version (DescribeDelegationTokenRequest x) = DescribeDelegationTokenRequest_compute_size x version"
| "security_request_size version (DescribeUserScramCredentialsRequest x) = DescribeUserScramCredentialsRequest_compute_size x version"
| "security_request_size version (AlterUserScramCredentialsRequest x) = AlterUserScramCredentialsRequest_compute_size x version"
| "security_request_size version (EnvelopeRequest x) = EnvelopeRequest_compute_size x version"

fun security_request_ok :: "i16 \<Rightarrow> security_request \<Rightarrow> bool" where
  "security_request_ok version (SaslHandshakeRequest x) = SaslHandshakeRequest_ok version x"
| "security_request_ok version (DescribeAclsRequest x) = DescribeAclsRequest_ok version x"
| "security_request_ok version (CreateAclsRequest x) = CreateAclsRequest_ok version x"
| "security_request_ok version (DeleteAclsRequest x) = DeleteAclsRequest_ok version x"
| "security_request_ok version (SaslAuthenticateRequest x) = SaslAuthenticateRequest_ok version x"
| "security_request_ok version (CreateDelegationTokenRequest x) = CreateDelegationTokenRequest_ok version x"
| "security_request_ok version (RenewDelegationTokenRequest x) = RenewDelegationTokenRequest_ok version x"
| "security_request_ok version (ExpireDelegationTokenRequest x) = ExpireDelegationTokenRequest_ok version x"
| "security_request_ok version (DescribeDelegationTokenRequest x) = DescribeDelegationTokenRequest_ok version x"
| "security_request_ok version (DescribeUserScramCredentialsRequest x) = DescribeUserScramCredentialsRequest_ok version x"
| "security_request_ok version (AlterUserScramCredentialsRequest x) = AlterUserScramCredentialsRequest_ok version x"
| "security_request_ok version (EnvelopeRequest x) = EnvelopeRequest_ok version x"

lemma security_request_coded:
  "security_request_ok version body \<Longrightarrow>
   coded (security_request_encode body version) (security_request_decode (security_request_key body) version) (security_request_size version body) body"
  by (cases body) (simp_all add: security_request_decode_def coded_tag_value
    SaslHandshakeRequest_coded DescribeAclsRequest_coded CreateAclsRequest_coded DeleteAclsRequest_coded SaslAuthenticateRequest_coded CreateDelegationTokenRequest_coded RenewDelegationTokenRequest_coded ExpireDelegationTokenRequest_coded DescribeDelegationTokenRequest_coded DescribeUserScramCredentialsRequest_coded AlterUserScramCredentialsRequest_coded EnvelopeRequest_coded)

end
