(* ===== verification/Messages_Controller.thy ===== *)
theory Messages_Controller
  imports Prelude
begin

text \<open>
  Requests about brokers and their controller, which the broker does not serve
  (\<open>src/crates/kafka-protocol/src/messages/\<close>). Every message is a record with the fields of the Rust structure, and its
  \<open>_default\<close> is the value of \<open>Default::default()\<close>.
\<close>

section \<open>Alter partition request\<close>

record alter_partition_request_broker_state =
  aprqbs_broker_id :: i32
  aprqbs_broker_epoch :: i64
  aprqbs_unknown_tagged_fields :: "(i32, bytes) btree_map"

definition alter_partition_request_broker_state_default :: alter_partition_request_broker_state where
  "alter_partition_request_broker_state_default =
     \<lparr>aprqbs_broker_id = 0, aprqbs_broker_epoch = - 1, aprqbs_unknown_tagged_fields = []\<rparr>"

record alter_partition_request_partition_data =
  aprqpd_partition_index :: i32
  aprqpd_leader_epoch :: i32
  aprqpd_new_isr :: "i32 list"
  aprqpd_new_isr_with_epochs :: "alter_partition_request_broker_state list"
  aprqpd_leader_recovery_state :: i8
  aprqpd_partition_epoch :: i32
  aprqpd_unknown_tagged_fields :: "(i32, bytes) btree_map"

definition alter_partition_request_partition_data_default :: alter_partition_request_partition_data where
  "alter_partition_request_partition_data_default =
     \<lparr>aprqpd_partition_index = 0, aprqpd_leader_epoch = 0, aprqpd_new_isr = [],
      aprqpd_new_isr_with_epochs = [], aprqpd_leader_recovery_state = 0, aprqpd_partition_epoch = 0,
      aprqpd_unknown_tagged_fields = []\<rparr>"

record alter_partition_request_topic_data =
  aprqtd_topic_id :: uuid
  aprqtd_partitions :: "alter_partition_request_partition_data list"
  aprqtd_unknown_tagged_fields :: "(i32, bytes) btree_map"

definition alter_partition_request_topic_data_default :: alter_partition_request_topic_data where
  "alter_partition_request_topic_data_default =
     \<lparr>aprqtd_topic_id = nil_uuid, aprqtd_partitions = [],
      aprqtd_unknown_tagged_fields = []\<rparr>"

record alter_partition_request =
  aprq_broker_id :: i32
  aprq_broker_epoch :: i64
  aprq_topics :: "alter_partition_request_topic_data list"
  aprq_unknown_tagged_fields :: "(i32, bytes) btree_map"

definition alter_partition_request_default :: alter_partition_request where
  "alter_partition_request_default =
     \<lparr>aprq_broker_id = 0, aprq_broker_epoch = - 1, aprq_topics = [],
      aprq_unknown_tagged_fields = []\<rparr>"

section \<open>Assign replicas to dirs request\<close>

record assign_replicas_to_dirs_request_partition_data =
  artdrqpd_partition_index :: i32
  artdrqpd_unknown_tagged_fields :: "(i32, bytes) btree_map"

definition assign_replicas_to_dirs_request_partition_data_default :: assign_replicas_to_dirs_request_partition_data where
  "assign_replicas_to_dirs_request_partition_data_default =
     \<lparr>artdrqpd_partition_index = 0, artdrqpd_unknown_tagged_fields = []\<rparr>"

record assign_replicas_to_dirs_request_topic_data =
  artdrqtd_topic_id :: uuid
  artdrqtd_partitions :: "assign_replicas_to_dirs_request_partition_data list"
  artdrqtd_unknown_tagged_fields :: "(i32, bytes) btree_map"

definition assign_replicas_to_dirs_request_topic_data_default :: assign_replicas_to_dirs_request_topic_data where
  "assign_replicas_to_dirs_request_topic_data_default =
     \<lparr>artdrqtd_topic_id = nil_uuid, artdrqtd_partitions = [],
      artdrqtd_unknown_tagged_fields = []\<rparr>"

record directory_data =
  dd_id :: uuid
  dd_topics :: "assign_replicas_to_dirs_request_topic_data list"
  dd_unknown_tagged_fields :: "(i32, bytes) btree_map"

definition directory_data_default :: directory_data where
  "directory_data_default =
     \<lparr>dd_id = nil_uuid, dd_topics = [], dd_unknown_tagged_fields = []\<rparr>"

record assign_replicas_to_dirs_request =
  artdrq_broker_id :: i32
  artdrq_broker_epoch :: i64
  artdrq_directories :: "directory_data list"
  artdrq_unknown_tagged_fields :: "(i32, bytes) btree_map"

definition assign_replicas_to_dirs_request_default :: assign_replicas_to_dirs_request where
  "assign_replicas_to_dirs_request_default =
     \<lparr>artdrq_broker_id = 0, artdrq_broker_epoch = - 1, artdrq_directories = [],
      artdrq_unknown_tagged_fields = []\<rparr>"

section \<open>Broker heartbeat request\<close>

record broker_heartbeat_request =
  bhrq_broker_id :: i32
  bhrq_broker_epoch :: i64
  bhrq_current_metadata_offset :: i64
  bhrq_want_fence :: bool
  bhrq_want_shut_down :: bool
  bhrq_offline_log_dirs :: "uuid list"
  bhrq_cordoned_log_dirs :: "uuid list option"
  bhrq_unknown_tagged_fields :: "(i32, bytes) btree_map"

definition broker_heartbeat_request_default :: broker_heartbeat_request where
  "broker_heartbeat_request_default =
     \<lparr>bhrq_broker_id = 0, bhrq_broker_epoch = - 1, bhrq_current_metadata_offset = 0,
      bhrq_want_fence = False, bhrq_want_shut_down = False, bhrq_offline_log_dirs = [],
      bhrq_cordoned_log_dirs = None, bhrq_unknown_tagged_fields = []\<rparr>"

section \<open>Broker registration request\<close>

record broker_registration_request_listener =
  brrql_name :: string
  brrql_host :: string
  brrql_port :: u16
  brrql_security_protocol :: i16
  brrql_unknown_tagged_fields :: "(i32, bytes) btree_map"

definition broker_registration_request_listener_default :: broker_registration_request_listener where
  "broker_registration_request_listener_default =
     \<lparr>brrql_name = [], brrql_host = [], brrql_port = 0, brrql_security_protocol = 0,
      brrql_unknown_tagged_fields = []\<rparr>"

record broker_registration_request_feature =
  brrqf_name :: string
  brrqf_min_supported_version :: i16
  brrqf_max_supported_version :: i16
  brrqf_unknown_tagged_fields :: "(i32, bytes) btree_map"

definition broker_registration_request_feature_default :: broker_registration_request_feature where
  "broker_registration_request_feature_default =
     \<lparr>brrqf_name = [], brrqf_min_supported_version = 0, brrqf_max_supported_version = 0,
      brrqf_unknown_tagged_fields = []\<rparr>"

record broker_registration_request =
  brrq_broker_id :: i32
  brrq_cluster_id :: string
  brrq_incarnation_id :: uuid
  brrq_listeners :: "broker_registration_request_listener list"
  brrq_features :: "broker_registration_request_feature list"
  brrq_rack :: "string option"
  brrq_is_migrating_zk_broker :: bool
  brrq_log_dirs :: "uuid list"
  brrq_previous_broker_epoch :: i64
  brrq_unknown_tagged_fields :: "(i32, bytes) btree_map"

definition broker_registration_request_default :: broker_registration_request where
  "broker_registration_request_default =
     \<lparr>brrq_broker_id = 0, brrq_cluster_id = [], brrq_incarnation_id = nil_uuid,
      brrq_listeners = [], brrq_features = [], brrq_rack = Some [], brrq_is_migrating_zk_broker = False,
      brrq_log_dirs = [], brrq_previous_broker_epoch = - 1, brrq_unknown_tagged_fields = []\<rparr>"

section \<open>Controller registration request\<close>

record controller_registration_request_listener =
  crrql_name :: string
  crrql_host :: string
  crrql_port :: u16
  crrql_security_protocol :: i16
  crrql_unknown_tagged_fields :: "(i32, bytes) btree_map"

definition controller_registration_request_listener_default :: controller_registration_request_listener where
  "controller_registration_request_listener_default =
     \<lparr>crrql_name = [], crrql_host = [], crrql_port = 0, crrql_security_protocol = 0,
      crrql_unknown_tagged_fields = []\<rparr>"

record controller_registration_request_feature =
  crrqf_name :: string
  crrqf_min_supported_version :: i16
  crrqf_max_supported_version :: i16
  crrqf_unknown_tagged_fields :: "(i32, bytes) btree_map"

definition controller_registration_request_feature_default :: controller_registration_request_feature where
  "controller_registration_request_feature_default =
     \<lparr>crrqf_name = [], crrqf_min_supported_version = 0, crrqf_max_supported_version = 0,
      crrqf_unknown_tagged_fields = []\<rparr>"

record controller_registration_request =
  crrq_controller_id :: i32
  crrq_incarnation_id :: uuid
  crrq_zk_migration_ready :: bool
  crrq_listeners :: "controller_registration_request_listener list"
  crrq_features :: "controller_registration_request_feature list"
  crrq_unknown_tagged_fields :: "(i32, bytes) btree_map"

definition controller_registration_request_default :: controller_registration_request where
  "controller_registration_request_default =
     \<lparr>crrq_controller_id = 0, crrq_incarnation_id = nil_uuid, crrq_zk_migration_ready = False,
      crrq_listeners = [], crrq_features = [], crrq_unknown_tagged_fields = []\<rparr>"

section \<open>Unregister broker request\<close>

record unregister_broker_request =
  ubrq_broker_id :: i32
  ubrq_unknown_tagged_fields :: "(i32, bytes) btree_map"

definition unregister_broker_request_default :: unregister_broker_request where
  "unregister_broker_request_default =
     \<lparr>ubrq_broker_id = 0, ubrq_unknown_tagged_fields = []\<rparr>"

end
