(* ===== verification/Codec_Controller.thy ===== *)
theory Codec_Controller
  imports Wire_Rest Messages_Controller
begin

text \<open>
  The codecs of the requests about brokers and their controller
  (\<open>src/crates/kafka-protocol/src/messages/\<close>): the encoder, the size computation and the decoder of every structure,
  for every version of its schema, what a structure must satisfy to be sent in a version, and that it then comes back.
\<close>

section \<open>Alter partition request\<close>

definition AlterPartitionRequestBrokerState_encode :: "alter_partition_request_broker_state \<Rightarrow> i16 \<Rightarrow> wire_error + bytes" where
  "AlterPartitionRequestBrokerState_encode s version =
     (if version < 2 \<or> version > 3 then Inl UNSUPPORTED_VERSION
      else puts
        [if version \<ge> 3
          then Inr (Int32_encode (aprqbs_broker_id s))
          else unset [] (aprqbs_broker_id s = 0),
         if version \<ge> 3
          then Inr (Int64_encode (aprqbs_broker_epoch s))
          else unset [] (aprqbs_broker_epoch s = - 1),
         put_tags [] 0 (aprqbs_unknown_tagged_fields s)])"

definition AlterPartitionRequestBrokerState_compute_size :: "alter_partition_request_broker_state \<Rightarrow> i16 \<Rightarrow> wire_error + usize" where
  "AlterPartitionRequestBrokerState_compute_size s version =
     sums
       [if version \<ge> 3 then Inr 4 else unset 0 (aprqbs_broker_id s = 0),
        if version \<ge> 3 then Inr 8 else unset 0 (aprqbs_broker_epoch s = - 1),
        tags_size [] (aprqbs_unknown_tagged_fields s)]"

definition AlterPartitionRequestBrokerState_decode :: "i16 \<Rightarrow> alter_partition_request_broker_state decoder" where
  "AlterPartitionRequestBrokerState_decode version =
     (if version < 2 \<or> version > 3 then refuse UNSUPPORTED_VERSION
      else
        get (if version \<ge> 3 then Int32_decode else give 0) (\<lambda>broker_id.
        get (if version \<ge> 3 then Int64_decode else give (- 1)) (\<lambda>broker_epoch.
        get get_unknown_tags (\<lambda>unknown_tagged_fields.
        give \<lparr>aprqbs_broker_id = broker_id, aprqbs_broker_epoch = broker_epoch,
               aprqbs_unknown_tagged_fields = unknown_tagged_fields\<rparr>))))"

definition AlterPartitionRequestBrokerState_ok :: "i16 \<Rightarrow> alter_partition_request_broker_state \<Rightarrow> bool" where
  "AlterPartitionRequestBrokerState_ok version s \<longleftrightarrow>
     \<not> (version < 2 \<or> version > 3) \<and>
     (if version \<ge> 3 then in_i32 (aprqbs_broker_id s) else aprqbs_broker_id s = 0) \<and>
     (if version \<ge> 3 then in_i64 (aprqbs_broker_epoch s) else aprqbs_broker_epoch s = - 1) \<and>
     tags_ok 0 (aprqbs_unknown_tagged_fields s)"

lemma AlterPartitionRequestBrokerState_codec [coded_intros]:
  "sized_codec (\<lambda>s. AlterPartitionRequestBrokerState_encode s version) (AlterPartitionRequestBrokerState_decode version)
     (\<lambda>s. AlterPartitionRequestBrokerState_compute_size s version) (AlterPartitionRequestBrokerState_ok version)"
  unfolding AlterPartitionRequestBrokerState_encode_def AlterPartitionRequestBrokerState_decode_def AlterPartitionRequestBrokerState_compute_size_def
  by (rule sized_codecI) (rule coded_intros | (clarsimp simp: AlterPartitionRequestBrokerState_ok_def; fail))+

lemmas AlterPartitionRequestBrokerState_coded [coded_intros] = sized_codec.codes [OF AlterPartitionRequestBrokerState_codec]

definition AlterPartitionRequestPartitionData_encode :: "alter_partition_request_partition_data \<Rightarrow> i16 \<Rightarrow> wire_error + bytes" where
  "AlterPartitionRequestPartitionData_encode s version =
     (if version < 2 \<or> version > 3 then Inl UNSUPPORTED_VERSION
      else puts
        [Inr (Int32_encode (aprqpd_partition_index s)),
         Inr (Int32_encode (aprqpd_leader_epoch s)),
         if version = 2
          then CompactArray_encode (\<lambda>x. Inr (Int32_encode x)) (Some (aprqpd_new_isr s))
          else unset [] (aprqpd_new_isr s = []),
         if version \<ge> 3
          then CompactArray_encode (\<lambda>x. AlterPartitionRequestBrokerState_encode x version) (Some (aprqpd_new_isr_with_epochs s))
          else unset [] (aprqpd_new_isr_with_epochs s = []),
         Inr (Int8_encode (aprqpd_leader_recovery_state s)),
         Inr (Int32_encode (aprqpd_partition_epoch s)),
         put_tags [] 0 (aprqpd_unknown_tagged_fields s)])"

definition AlterPartitionRequestPartitionData_compute_size :: "alter_partition_request_partition_data \<Rightarrow> i16 \<Rightarrow> wire_error + usize" where
  "AlterPartitionRequestPartitionData_compute_size s version =
     sums
       [Inr 4,
        Inr 4,
        if version = 2
         then CompactArray_compute_size (Some 4) (\<lambda>_. Inr 4) (Some (aprqpd_new_isr s))
         else unset 0 (aprqpd_new_isr s = []),
        if version \<ge> 3
         then CompactArray_compute_size None (\<lambda>x. AlterPartitionRequestBrokerState_compute_size x version) (Some (aprqpd_new_isr_with_epochs s))
         else unset 0 (aprqpd_new_isr_with_epochs s = []),
        Inr 1,
        Inr 4,
        tags_size [] (aprqpd_unknown_tagged_fields s)]"

definition AlterPartitionRequestPartitionData_decode :: "i16 \<Rightarrow> alter_partition_request_partition_data decoder" where
  "AlterPartitionRequestPartitionData_decode version =
     (if version < 2 \<or> version > 3 then refuse UNSUPPORTED_VERSION
      else
        get Int32_decode (\<lambda>partition_index.
        get Int32_decode (\<lambda>leader_epoch.
        get (if version = 2 then CompactArray_required Int32_decode else give []) (\<lambda>new_isr.
        get (if version \<ge> 3
              then CompactArray_required (AlterPartitionRequestBrokerState_decode version)
              else give []) (\<lambda>new_isr_with_epochs.
        get Int8_decode (\<lambda>leader_recovery_state.
        get Int32_decode (\<lambda>partition_epoch.
        get get_unknown_tags (\<lambda>unknown_tagged_fields.
        give \<lparr>aprqpd_partition_index = partition_index, aprqpd_leader_epoch = leader_epoch,
               aprqpd_new_isr = new_isr, aprqpd_new_isr_with_epochs = new_isr_with_epochs,
               aprqpd_leader_recovery_state = leader_recovery_state,
               aprqpd_partition_epoch = partition_epoch,
               aprqpd_unknown_tagged_fields = unknown_tagged_fields\<rparr>))))))))"

definition AlterPartitionRequestPartitionData_ok :: "i16 \<Rightarrow> alter_partition_request_partition_data \<Rightarrow> bool" where
  "AlterPartitionRequestPartitionData_ok version s \<longleftrightarrow>
     \<not> (version < 2 \<or> version > 3) \<and>
     in_i32 (aprqpd_partition_index s) \<and>
     in_i32 (aprqpd_leader_epoch s) \<and>
     (if version = 2
       then seq_ok (2 ^ 32 - 2) in_i32 (Some (aprqpd_new_isr s))
       else aprqpd_new_isr s = []) \<and>
     (if version \<ge> 3
       then seq_ok (2 ^ 32 - 2) (AlterPartitionRequestBrokerState_ok version) (Some (aprqpd_new_isr_with_epochs s))
       else aprqpd_new_isr_with_epochs s = []) \<and>
     in_i8 (aprqpd_leader_recovery_state s) \<and>
     in_i32 (aprqpd_partition_epoch s) \<and>
     tags_ok 0 (aprqpd_unknown_tagged_fields s)"

lemma AlterPartitionRequestPartitionData_codec [coded_intros]:
  "sized_codec (\<lambda>s. AlterPartitionRequestPartitionData_encode s version) (AlterPartitionRequestPartitionData_decode version)
     (\<lambda>s. AlterPartitionRequestPartitionData_compute_size s version) (AlterPartitionRequestPartitionData_ok version)"
  unfolding AlterPartitionRequestPartitionData_encode_def AlterPartitionRequestPartitionData_decode_def AlterPartitionRequestPartitionData_compute_size_def
  by (rule sized_codecI) (rule coded_intros | (clarsimp simp: AlterPartitionRequestPartitionData_ok_def; fail))+

lemmas AlterPartitionRequestPartitionData_coded [coded_intros] = sized_codec.codes [OF AlterPartitionRequestPartitionData_codec]

definition AlterPartitionRequestTopicData_encode :: "alter_partition_request_topic_data \<Rightarrow> i16 \<Rightarrow> wire_error + bytes" where
  "AlterPartitionRequestTopicData_encode s version =
     (if version < 2 \<or> version > 3 then Inl UNSUPPORTED_VERSION
      else puts
        [Inr (Uuid_encode (aprqtd_topic_id s)),
         CompactArray_encode (\<lambda>x. AlterPartitionRequestPartitionData_encode x version) (Some (aprqtd_partitions s)),
         put_tags [] 0 (aprqtd_unknown_tagged_fields s)])"

definition AlterPartitionRequestTopicData_compute_size :: "alter_partition_request_topic_data \<Rightarrow> i16 \<Rightarrow> wire_error + usize" where
  "AlterPartitionRequestTopicData_compute_size s version =
     sums
       [Inr 16,
        CompactArray_compute_size None (\<lambda>x. AlterPartitionRequestPartitionData_compute_size x version) (Some (aprqtd_partitions s)),
        tags_size [] (aprqtd_unknown_tagged_fields s)]"

definition AlterPartitionRequestTopicData_decode :: "i16 \<Rightarrow> alter_partition_request_topic_data decoder" where
  "AlterPartitionRequestTopicData_decode version =
     (if version < 2 \<or> version > 3 then refuse UNSUPPORTED_VERSION
      else
        get Uuid_decode (\<lambda>topic_id.
        get (CompactArray_required (AlterPartitionRequestPartitionData_decode version)) (\<lambda>partitions.
        get get_unknown_tags (\<lambda>unknown_tagged_fields.
        give \<lparr>aprqtd_topic_id = topic_id, aprqtd_partitions = partitions,
               aprqtd_unknown_tagged_fields = unknown_tagged_fields\<rparr>))))"

definition AlterPartitionRequestTopicData_ok :: "i16 \<Rightarrow> alter_partition_request_topic_data \<Rightarrow> bool" where
  "AlterPartitionRequestTopicData_ok version s \<longleftrightarrow>
     \<not> (version < 2 \<or> version > 3) \<and>
     seq_ok (2 ^ 32 - 2) (AlterPartitionRequestPartitionData_ok version) (Some (aprqtd_partitions s)) \<and>
     tags_ok 0 (aprqtd_unknown_tagged_fields s)"

lemma AlterPartitionRequestTopicData_codec [coded_intros]:
  "sized_codec (\<lambda>s. AlterPartitionRequestTopicData_encode s version) (AlterPartitionRequestTopicData_decode version)
     (\<lambda>s. AlterPartitionRequestTopicData_compute_size s version) (AlterPartitionRequestTopicData_ok version)"
  unfolding AlterPartitionRequestTopicData_encode_def AlterPartitionRequestTopicData_decode_def AlterPartitionRequestTopicData_compute_size_def
  by (rule sized_codecI) (rule coded_intros | (simp add: AlterPartitionRequestTopicData_ok_def; fail))+

lemmas AlterPartitionRequestTopicData_coded [coded_intros] = sized_codec.codes [OF AlterPartitionRequestTopicData_codec]

definition AlterPartitionRequest_encode :: "alter_partition_request \<Rightarrow> i16 \<Rightarrow> wire_error + bytes" where
  "AlterPartitionRequest_encode s version =
     (if version < 2 \<or> version > 3 then Inl UNSUPPORTED_VERSION
      else puts
        [Inr (Int32_encode (aprq_broker_id s)),
         Inr (Int64_encode (aprq_broker_epoch s)),
         CompactArray_encode (\<lambda>x. AlterPartitionRequestTopicData_encode x version) (Some (aprq_topics s)),
         put_tags [] 0 (aprq_unknown_tagged_fields s)])"

definition AlterPartitionRequest_compute_size :: "alter_partition_request \<Rightarrow> i16 \<Rightarrow> wire_error + usize" where
  "AlterPartitionRequest_compute_size s version =
     sums
       [Inr 4,
        Inr 8,
        CompactArray_compute_size None (\<lambda>x. AlterPartitionRequestTopicData_compute_size x version) (Some (aprq_topics s)),
        tags_size [] (aprq_unknown_tagged_fields s)]"

definition AlterPartitionRequest_decode :: "i16 \<Rightarrow> alter_partition_request decoder" where
  "AlterPartitionRequest_decode version =
     (if version < 2 \<or> version > 3 then refuse UNSUPPORTED_VERSION
      else
        get Int32_decode (\<lambda>broker_id.
        get Int64_decode (\<lambda>broker_epoch.
        get (CompactArray_required (AlterPartitionRequestTopicData_decode version)) (\<lambda>topics.
        get get_unknown_tags (\<lambda>unknown_tagged_fields.
        give \<lparr>aprq_broker_id = broker_id, aprq_broker_epoch = broker_epoch,
               aprq_topics = topics, aprq_unknown_tagged_fields = unknown_tagged_fields\<rparr>)))))"

definition AlterPartitionRequest_ok :: "i16 \<Rightarrow> alter_partition_request \<Rightarrow> bool" where
  "AlterPartitionRequest_ok version s \<longleftrightarrow>
     \<not> (version < 2 \<or> version > 3) \<and>
     in_i32 (aprq_broker_id s) \<and>
     in_i64 (aprq_broker_epoch s) \<and>
     seq_ok (2 ^ 32 - 2) (AlterPartitionRequestTopicData_ok version) (Some (aprq_topics s)) \<and>
     tags_ok 0 (aprq_unknown_tagged_fields s)"

lemma AlterPartitionRequest_codec [coded_intros]:
  "sized_codec (\<lambda>s. AlterPartitionRequest_encode s version) (AlterPartitionRequest_decode version)
     (\<lambda>s. AlterPartitionRequest_compute_size s version) (AlterPartitionRequest_ok version)"
  unfolding AlterPartitionRequest_encode_def AlterPartitionRequest_decode_def AlterPartitionRequest_compute_size_def
  by (rule sized_codecI) (rule coded_intros | (simp add: AlterPartitionRequest_ok_def; fail))+

lemmas AlterPartitionRequest_coded [coded_intros] = sized_codec.codes [OF AlterPartitionRequest_codec]

section \<open>Assign replicas to dirs request\<close>

definition AssignReplicasToDirsRequestPartitionData_encode :: "assign_replicas_to_dirs_request_partition_data \<Rightarrow> i16 \<Rightarrow> wire_error + bytes" where
  "AssignReplicasToDirsRequestPartitionData_encode s version =
     (if version \<noteq> 0 then Inl UNSUPPORTED_VERSION
      else puts
        [Inr (Int32_encode (artdrqpd_partition_index s)),
         put_tags [] 0 (artdrqpd_unknown_tagged_fields s)])"

definition AssignReplicasToDirsRequestPartitionData_compute_size :: "assign_replicas_to_dirs_request_partition_data \<Rightarrow> i16 \<Rightarrow> wire_error + usize" where
  "AssignReplicasToDirsRequestPartitionData_compute_size s version =
     sums
       [Inr 4,
        tags_size [] (artdrqpd_unknown_tagged_fields s)]"

definition AssignReplicasToDirsRequestPartitionData_decode :: "i16 \<Rightarrow> assign_replicas_to_dirs_request_partition_data decoder" where
  "AssignReplicasToDirsRequestPartitionData_decode version =
     (if version \<noteq> 0 then refuse UNSUPPORTED_VERSION
      else
        get Int32_decode (\<lambda>partition_index.
        get get_unknown_tags (\<lambda>unknown_tagged_fields.
        give \<lparr>artdrqpd_partition_index = partition_index,
               artdrqpd_unknown_tagged_fields = unknown_tagged_fields\<rparr>)))"

definition AssignReplicasToDirsRequestPartitionData_ok :: "i16 \<Rightarrow> assign_replicas_to_dirs_request_partition_data \<Rightarrow> bool" where
  "AssignReplicasToDirsRequestPartitionData_ok version s \<longleftrightarrow>
     \<not> (version \<noteq> 0) \<and>
     in_i32 (artdrqpd_partition_index s) \<and>
     tags_ok 0 (artdrqpd_unknown_tagged_fields s)"

lemma AssignReplicasToDirsRequestPartitionData_codec [coded_intros]:
  "sized_codec (\<lambda>s. AssignReplicasToDirsRequestPartitionData_encode s version) (AssignReplicasToDirsRequestPartitionData_decode version)
     (\<lambda>s. AssignReplicasToDirsRequestPartitionData_compute_size s version) (AssignReplicasToDirsRequestPartitionData_ok version)"
  unfolding AssignReplicasToDirsRequestPartitionData_encode_def AssignReplicasToDirsRequestPartitionData_decode_def AssignReplicasToDirsRequestPartitionData_compute_size_def
  by (rule sized_codecI) (rule coded_intros | (clarsimp simp: AssignReplicasToDirsRequestPartitionData_ok_def; fail))+

lemmas AssignReplicasToDirsRequestPartitionData_coded [coded_intros] = sized_codec.codes [OF AssignReplicasToDirsRequestPartitionData_codec]

definition AssignReplicasToDirsRequestTopicData_encode :: "assign_replicas_to_dirs_request_topic_data \<Rightarrow> i16 \<Rightarrow> wire_error + bytes" where
  "AssignReplicasToDirsRequestTopicData_encode s version =
     (if version \<noteq> 0 then Inl UNSUPPORTED_VERSION
      else puts
        [Inr (Uuid_encode (artdrqtd_topic_id s)),
         CompactArray_encode (\<lambda>x. AssignReplicasToDirsRequestPartitionData_encode x version) (Some (artdrqtd_partitions s)),
         put_tags [] 0 (artdrqtd_unknown_tagged_fields s)])"

definition AssignReplicasToDirsRequestTopicData_compute_size :: "assign_replicas_to_dirs_request_topic_data \<Rightarrow> i16 \<Rightarrow> wire_error + usize" where
  "AssignReplicasToDirsRequestTopicData_compute_size s version =
     sums
       [Inr 16,
        CompactArray_compute_size None (\<lambda>x. AssignReplicasToDirsRequestPartitionData_compute_size x version) (Some (artdrqtd_partitions s)),
        tags_size [] (artdrqtd_unknown_tagged_fields s)]"

definition AssignReplicasToDirsRequestTopicData_decode :: "i16 \<Rightarrow> assign_replicas_to_dirs_request_topic_data decoder" where
  "AssignReplicasToDirsRequestTopicData_decode version =
     (if version \<noteq> 0 then refuse UNSUPPORTED_VERSION
      else
        get Uuid_decode (\<lambda>topic_id.
        get (CompactArray_required (AssignReplicasToDirsRequestPartitionData_decode version)) (\<lambda>partitions.
        get get_unknown_tags (\<lambda>unknown_tagged_fields.
        give \<lparr>artdrqtd_topic_id = topic_id, artdrqtd_partitions = partitions,
               artdrqtd_unknown_tagged_fields = unknown_tagged_fields\<rparr>))))"

definition AssignReplicasToDirsRequestTopicData_ok :: "i16 \<Rightarrow> assign_replicas_to_dirs_request_topic_data \<Rightarrow> bool" where
  "AssignReplicasToDirsRequestTopicData_ok version s \<longleftrightarrow>
     \<not> (version \<noteq> 0) \<and>
     seq_ok (2 ^ 32 - 2) (AssignReplicasToDirsRequestPartitionData_ok version) (Some (artdrqtd_partitions s)) \<and>
     tags_ok 0 (artdrqtd_unknown_tagged_fields s)"

lemma AssignReplicasToDirsRequestTopicData_codec [coded_intros]:
  "sized_codec (\<lambda>s. AssignReplicasToDirsRequestTopicData_encode s version) (AssignReplicasToDirsRequestTopicData_decode version)
     (\<lambda>s. AssignReplicasToDirsRequestTopicData_compute_size s version) (AssignReplicasToDirsRequestTopicData_ok version)"
  unfolding AssignReplicasToDirsRequestTopicData_encode_def AssignReplicasToDirsRequestTopicData_decode_def AssignReplicasToDirsRequestTopicData_compute_size_def
  by (rule sized_codecI) (rule coded_intros | (clarsimp simp: AssignReplicasToDirsRequestTopicData_ok_def; fail))+

lemmas AssignReplicasToDirsRequestTopicData_coded [coded_intros] = sized_codec.codes [OF AssignReplicasToDirsRequestTopicData_codec]

definition DirectoryData_encode :: "directory_data \<Rightarrow> i16 \<Rightarrow> wire_error + bytes" where
  "DirectoryData_encode s version =
     (if version \<noteq> 0 then Inl UNSUPPORTED_VERSION
      else puts
        [Inr (Uuid_encode (dd_id s)),
         CompactArray_encode (\<lambda>x. AssignReplicasToDirsRequestTopicData_encode x version) (Some (dd_topics s)),
         put_tags [] 0 (dd_unknown_tagged_fields s)])"

definition DirectoryData_compute_size :: "directory_data \<Rightarrow> i16 \<Rightarrow> wire_error + usize" where
  "DirectoryData_compute_size s version =
     sums
       [Inr 16,
        CompactArray_compute_size None (\<lambda>x. AssignReplicasToDirsRequestTopicData_compute_size x version) (Some (dd_topics s)),
        tags_size [] (dd_unknown_tagged_fields s)]"

definition DirectoryData_decode :: "i16 \<Rightarrow> directory_data decoder" where
  "DirectoryData_decode version =
     (if version \<noteq> 0 then refuse UNSUPPORTED_VERSION
      else
        get Uuid_decode (\<lambda>id.
        get (CompactArray_required (AssignReplicasToDirsRequestTopicData_decode version)) (\<lambda>topics.
        get get_unknown_tags (\<lambda>unknown_tagged_fields.
        give \<lparr>dd_id = id, dd_topics = topics, dd_unknown_tagged_fields = unknown_tagged_fields\<rparr>))))"

definition DirectoryData_ok :: "i16 \<Rightarrow> directory_data \<Rightarrow> bool" where
  "DirectoryData_ok version s \<longleftrightarrow>
     \<not> (version \<noteq> 0) \<and>
     seq_ok (2 ^ 32 - 2) (AssignReplicasToDirsRequestTopicData_ok version) (Some (dd_topics s)) \<and>
     tags_ok 0 (dd_unknown_tagged_fields s)"

lemma DirectoryData_codec [coded_intros]:
  "sized_codec (\<lambda>s. DirectoryData_encode s version) (DirectoryData_decode version)
     (\<lambda>s. DirectoryData_compute_size s version) (DirectoryData_ok version)"
  unfolding DirectoryData_encode_def DirectoryData_decode_def DirectoryData_compute_size_def
  by (rule sized_codecI) (rule coded_intros | (clarsimp simp: DirectoryData_ok_def; fail))+

lemmas DirectoryData_coded [coded_intros] = sized_codec.codes [OF DirectoryData_codec]

definition AssignReplicasToDirsRequest_encode :: "assign_replicas_to_dirs_request \<Rightarrow> i16 \<Rightarrow> wire_error + bytes" where
  "AssignReplicasToDirsRequest_encode s version =
     (if version \<noteq> 0 then Inl UNSUPPORTED_VERSION
      else puts
        [Inr (Int32_encode (artdrq_broker_id s)),
         Inr (Int64_encode (artdrq_broker_epoch s)),
         CompactArray_encode (\<lambda>x. DirectoryData_encode x version) (Some (artdrq_directories s)),
         put_tags [] 0 (artdrq_unknown_tagged_fields s)])"

definition AssignReplicasToDirsRequest_compute_size :: "assign_replicas_to_dirs_request \<Rightarrow> i16 \<Rightarrow> wire_error + usize" where
  "AssignReplicasToDirsRequest_compute_size s version =
     sums
       [Inr 4,
        Inr 8,
        CompactArray_compute_size None (\<lambda>x. DirectoryData_compute_size x version) (Some (artdrq_directories s)),
        tags_size [] (artdrq_unknown_tagged_fields s)]"

definition AssignReplicasToDirsRequest_decode :: "i16 \<Rightarrow> assign_replicas_to_dirs_request decoder" where
  "AssignReplicasToDirsRequest_decode version =
     (if version \<noteq> 0 then refuse UNSUPPORTED_VERSION
      else
        get Int32_decode (\<lambda>broker_id.
        get Int64_decode (\<lambda>broker_epoch.
        get (CompactArray_required (DirectoryData_decode version)) (\<lambda>directories.
        get get_unknown_tags (\<lambda>unknown_tagged_fields.
        give \<lparr>artdrq_broker_id = broker_id, artdrq_broker_epoch = broker_epoch,
               artdrq_directories = directories, artdrq_unknown_tagged_fields = unknown_tagged_fields\<rparr>)))))"

definition AssignReplicasToDirsRequest_ok :: "i16 \<Rightarrow> assign_replicas_to_dirs_request \<Rightarrow> bool" where
  "AssignReplicasToDirsRequest_ok version s \<longleftrightarrow>
     \<not> (version \<noteq> 0) \<and>
     in_i32 (artdrq_broker_id s) \<and>
     in_i64 (artdrq_broker_epoch s) \<and>
     seq_ok (2 ^ 32 - 2) (DirectoryData_ok version) (Some (artdrq_directories s)) \<and>
     tags_ok 0 (artdrq_unknown_tagged_fields s)"

lemma AssignReplicasToDirsRequest_codec [coded_intros]:
  "sized_codec (\<lambda>s. AssignReplicasToDirsRequest_encode s version) (AssignReplicasToDirsRequest_decode version)
     (\<lambda>s. AssignReplicasToDirsRequest_compute_size s version) (AssignReplicasToDirsRequest_ok version)"
  unfolding AssignReplicasToDirsRequest_encode_def AssignReplicasToDirsRequest_decode_def AssignReplicasToDirsRequest_compute_size_def
  by (rule sized_codecI) (rule coded_intros | (clarsimp simp: AssignReplicasToDirsRequest_ok_def; fail))+

lemmas AssignReplicasToDirsRequest_coded [coded_intros] = sized_codec.codes [OF AssignReplicasToDirsRequest_codec]

section \<open>Broker heartbeat request\<close>

definition BrokerHeartbeatRequest_encode :: "broker_heartbeat_request \<Rightarrow> i16 \<Rightarrow> wire_error + bytes" where
  "BrokerHeartbeatRequest_encode s version =
     (if version < 0 \<or> version > 2 then Inl UNSUPPORTED_VERSION
      else puts
        [Inr (Int32_encode (bhrq_broker_id s)),
         Inr (Int64_encode (bhrq_broker_epoch s)),
         Inr (Int64_encode (bhrq_current_metadata_offset s)),
         Inr (Boolean_encode (bhrq_want_fence s)),
         Inr (Boolean_encode (bhrq_want_shut_down s)),
         put_tags 
             [(version \<ge> 1 \<and> bhrq_offline_log_dirs s \<noteq> [], put_tag 0 (CompactArray_compute_size (Some 16) (\<lambda>_. Inr 16) (Some (bhrq_offline_log_dirs s))) (CompactArray_encode (\<lambda>x. Inr (Uuid_encode x)) (Some (bhrq_offline_log_dirs s)))),
              (version \<ge> 2 \<and> bhrq_cordoned_log_dirs s \<noteq> None, put_tag 1 (CompactArray_compute_size (Some 16) (\<lambda>_. Inr 16) (bhrq_cordoned_log_dirs s)) (CompactArray_encode (\<lambda>x. Inr (Uuid_encode x)) (bhrq_cordoned_log_dirs s)))] 2 (bhrq_unknown_tagged_fields s)])"

definition BrokerHeartbeatRequest_compute_size :: "broker_heartbeat_request \<Rightarrow> i16 \<Rightarrow> wire_error + usize" where
  "BrokerHeartbeatRequest_compute_size s version =
     sums
       [Inr 4,
        Inr 8,
        Inr 8,
        Inr 1,
        Inr 1,
        tags_size 
            [(version \<ge> 1 \<and> bhrq_offline_log_dirs s \<noteq> [], tag_size 0 (CompactArray_compute_size (Some 16) (\<lambda>_. Inr 16) (Some (bhrq_offline_log_dirs s)))),
             (version \<ge> 2 \<and> bhrq_cordoned_log_dirs s \<noteq> None, tag_size 1 (CompactArray_compute_size (Some 16) (\<lambda>_. Inr 16) (bhrq_cordoned_log_dirs s)))] (bhrq_unknown_tagged_fields s)]"

definition BrokerHeartbeatRequest_decode :: "i16 \<Rightarrow> broker_heartbeat_request decoder" where
  "BrokerHeartbeatRequest_decode version =
     (if version < 0 \<or> version > 2 then refuse UNSUPPORTED_VERSION
      else
        get Int32_decode (\<lambda>broker_id.
        get Int64_decode (\<lambda>broker_epoch.
        get Int64_decode (\<lambda>current_metadata_offset.
        get Boolean_decode (\<lambda>want_fence.
        get Boolean_decode (\<lambda>want_shut_down.
        get (get_tags (\<lambda>tag (offline_log_dirs, cordoned_log_dirs).
              if tag = 0 then Some (if version \<ge> 1 then get (CompactArray_required Uuid_decode) (\<lambda>x. give (x, cordoned_log_dirs))
                   else refuse (Bail ''Tag is not valid for version''))
              else if tag = 1 then Some (if version \<ge> 2 then get (CompactArray_decode Uuid_decode) (\<lambda>x. give (offline_log_dirs, x))
                   else refuse (Bail ''Tag is not valid for version''))
              else None) ([], None)) (\<lambda>((offline_log_dirs, cordoned_log_dirs), unknown_tagged_fields).
        give \<lparr>bhrq_broker_id = broker_id, bhrq_broker_epoch = broker_epoch,
               bhrq_current_metadata_offset = current_metadata_offset, bhrq_want_fence = want_fence,
               bhrq_want_shut_down = want_shut_down, bhrq_offline_log_dirs = offline_log_dirs,
               bhrq_cordoned_log_dirs = cordoned_log_dirs,
               bhrq_unknown_tagged_fields = unknown_tagged_fields\<rparr>)))))))"

definition BrokerHeartbeatRequest_ok :: "i16 \<Rightarrow> broker_heartbeat_request \<Rightarrow> bool" where
  "BrokerHeartbeatRequest_ok version s \<longleftrightarrow>
     \<not> (version < 0 \<or> version > 2) \<and>
     in_i32 (bhrq_broker_id s) \<and>
     in_i64 (bhrq_broker_epoch s) \<and>
     in_i64 (bhrq_current_metadata_offset s) \<and>
     (if version \<ge> 1 then seq_ok (2 ^ 32 - 2) (\<lambda>_. True) (Some (bhrq_offline_log_dirs s)) \<and> tag_fits (CompactArray_compute_size (Some 16) (\<lambda>_. Inr 16) (Some (bhrq_offline_log_dirs s))) else bhrq_offline_log_dirs s = []) \<and>
     (if version \<ge> 2 then seq_ok (2 ^ 32 - 2) (\<lambda>_. True) (bhrq_cordoned_log_dirs s) \<and> tag_fits (CompactArray_compute_size (Some 16) (\<lambda>_. Inr 16) (bhrq_cordoned_log_dirs s)) else bhrq_cordoned_log_dirs s = None) \<and>
     tags_ok 2 (bhrq_unknown_tagged_fields s)"

lemma BrokerHeartbeatRequest_codec [coded_intros]:
  "sized_codec (\<lambda>s. BrokerHeartbeatRequest_encode s version) (BrokerHeartbeatRequest_decode version)
     (\<lambda>s. BrokerHeartbeatRequest_compute_size s version) (BrokerHeartbeatRequest_ok version)"
  unfolding BrokerHeartbeatRequest_encode_def BrokerHeartbeatRequest_decode_def BrokerHeartbeatRequest_compute_size_def
  by (rule sized_codecI) (rule coded_intros | simp only: prod.case | (simp; fail) | (simp add: BrokerHeartbeatRequest_ok_def; fail)
    | (auto simp: BrokerHeartbeatRequest_ok_def split: if_splits; fail))+

lemmas BrokerHeartbeatRequest_coded [coded_intros] = sized_codec.codes [OF BrokerHeartbeatRequest_codec]

section \<open>Broker registration request\<close>

definition BrokerRegistrationRequestListener_encode :: "broker_registration_request_listener \<Rightarrow> i16 \<Rightarrow> wire_error + bytes" where
  "BrokerRegistrationRequestListener_encode s version =
     (if version < 0 \<or> version > 4 then Inl UNSUPPORTED_VERSION
      else puts
        [CompactString_encode (Some (brrql_name s)),
         CompactString_encode (Some (brrql_host s)),
         Inr (UInt16_encode (brrql_port s)),
         Inr (Int16_encode (brrql_security_protocol s)),
         put_tags [] 0 (brrql_unknown_tagged_fields s)])"

definition BrokerRegistrationRequestListener_compute_size :: "broker_registration_request_listener \<Rightarrow> i16 \<Rightarrow> wire_error + usize" where
  "BrokerRegistrationRequestListener_compute_size s version =
     sums
       [CompactString_compute_size (Some (brrql_name s)),
        CompactString_compute_size (Some (brrql_host s)),
        Inr 2,
        Inr 2,
        tags_size [] (brrql_unknown_tagged_fields s)]"

definition BrokerRegistrationRequestListener_decode :: "i16 \<Rightarrow> broker_registration_request_listener decoder" where
  "BrokerRegistrationRequestListener_decode version =
     (if version < 0 \<or> version > 4 then refuse UNSUPPORTED_VERSION
      else
        get CompactString_required (\<lambda>name.
        get CompactString_required (\<lambda>host.
        get UInt16_decode (\<lambda>port.
        get Int16_decode (\<lambda>security_protocol.
        get get_unknown_tags (\<lambda>unknown_tagged_fields.
        give \<lparr>brrql_name = name, brrql_host = host, brrql_port = port,
               brrql_security_protocol = security_protocol,
               brrql_unknown_tagged_fields = unknown_tagged_fields\<rparr>))))))"

definition BrokerRegistrationRequestListener_ok :: "i16 \<Rightarrow> broker_registration_request_listener \<Rightarrow> bool" where
  "BrokerRegistrationRequestListener_ok version s \<longleftrightarrow>
     \<not> (version < 0 \<or> version > 4) \<and>
     string_ok (2 ^ 32 - 2) (Some (brrql_name s)) \<and>
     string_ok (2 ^ 32 - 2) (Some (brrql_host s)) \<and>
     in_u16 (brrql_port s) \<and>
     in_i16 (brrql_security_protocol s) \<and>
     tags_ok 0 (brrql_unknown_tagged_fields s)"

lemma BrokerRegistrationRequestListener_codec [coded_intros]:
  "sized_codec (\<lambda>s. BrokerRegistrationRequestListener_encode s version) (BrokerRegistrationRequestListener_decode version)
     (\<lambda>s. BrokerRegistrationRequestListener_compute_size s version) (BrokerRegistrationRequestListener_ok version)"
  unfolding BrokerRegistrationRequestListener_encode_def BrokerRegistrationRequestListener_decode_def BrokerRegistrationRequestListener_compute_size_def
  by (rule sized_codecI) (rule coded_intros | (simp add: BrokerRegistrationRequestListener_ok_def; fail))+

lemmas BrokerRegistrationRequestListener_coded [coded_intros] = sized_codec.codes [OF BrokerRegistrationRequestListener_codec]

definition BrokerRegistrationRequestFeature_encode :: "broker_registration_request_feature \<Rightarrow> i16 \<Rightarrow> wire_error + bytes" where
  "BrokerRegistrationRequestFeature_encode s version =
     (if version < 0 \<or> version > 4 then Inl UNSUPPORTED_VERSION
      else puts
        [CompactString_encode (Some (brrqf_name s)),
         Inr (Int16_encode (brrqf_min_supported_version s)),
         Inr (Int16_encode (brrqf_max_supported_version s)),
         put_tags [] 0 (brrqf_unknown_tagged_fields s)])"

definition BrokerRegistrationRequestFeature_compute_size :: "broker_registration_request_feature \<Rightarrow> i16 \<Rightarrow> wire_error + usize" where
  "BrokerRegistrationRequestFeature_compute_size s version =
     sums
       [CompactString_compute_size (Some (brrqf_name s)),
        Inr 2,
        Inr 2,
        tags_size [] (brrqf_unknown_tagged_fields s)]"

definition BrokerRegistrationRequestFeature_decode :: "i16 \<Rightarrow> broker_registration_request_feature decoder" where
  "BrokerRegistrationRequestFeature_decode version =
     (if version < 0 \<or> version > 4 then refuse UNSUPPORTED_VERSION
      else
        get CompactString_required (\<lambda>name.
        get Int16_decode (\<lambda>min_supported_version.
        get Int16_decode (\<lambda>max_supported_version.
        get get_unknown_tags (\<lambda>unknown_tagged_fields.
        give \<lparr>brrqf_name = name, brrqf_min_supported_version = min_supported_version,
               brrqf_max_supported_version = max_supported_version,
               brrqf_unknown_tagged_fields = unknown_tagged_fields\<rparr>)))))"

definition BrokerRegistrationRequestFeature_ok :: "i16 \<Rightarrow> broker_registration_request_feature \<Rightarrow> bool" where
  "BrokerRegistrationRequestFeature_ok version s \<longleftrightarrow>
     \<not> (version < 0 \<or> version > 4) \<and>
     string_ok (2 ^ 32 - 2) (Some (brrqf_name s)) \<and>
     in_i16 (brrqf_min_supported_version s) \<and>
     in_i16 (brrqf_max_supported_version s) \<and>
     tags_ok 0 (brrqf_unknown_tagged_fields s)"

lemma BrokerRegistrationRequestFeature_codec [coded_intros]:
  "sized_codec (\<lambda>s. BrokerRegistrationRequestFeature_encode s version) (BrokerRegistrationRequestFeature_decode version)
     (\<lambda>s. BrokerRegistrationRequestFeature_compute_size s version) (BrokerRegistrationRequestFeature_ok version)"
  unfolding BrokerRegistrationRequestFeature_encode_def BrokerRegistrationRequestFeature_decode_def BrokerRegistrationRequestFeature_compute_size_def
  by (rule sized_codecI) (rule coded_intros | (simp add: BrokerRegistrationRequestFeature_ok_def; fail))+

lemmas BrokerRegistrationRequestFeature_coded [coded_intros] = sized_codec.codes [OF BrokerRegistrationRequestFeature_codec]

definition BrokerRegistrationRequest_encode :: "broker_registration_request \<Rightarrow> i16 \<Rightarrow> wire_error + bytes" where
  "BrokerRegistrationRequest_encode s version =
     (if version < 0 \<or> version > 4 then Inl UNSUPPORTED_VERSION
      else puts
        [Inr (Int32_encode (brrq_broker_id s)),
         CompactString_encode (Some (brrq_cluster_id s)),
         Inr (Uuid_encode (brrq_incarnation_id s)),
         CompactArray_encode (\<lambda>x. BrokerRegistrationRequestListener_encode x version) (Some (brrq_listeners s)),
         CompactArray_encode (\<lambda>x. BrokerRegistrationRequestFeature_encode x version) (Some (brrq_features s)),
         CompactString_encode (brrq_rack s),
         if version \<ge> 1
          then Inr (Boolean_encode (brrq_is_migrating_zk_broker s))
          else unset [] (\<not> brrq_is_migrating_zk_broker s),
         if version \<ge> 2
          then CompactArray_encode (\<lambda>x. Inr (Uuid_encode x)) (Some (brrq_log_dirs s))
          else Inr [],
         if version \<ge> 3 then Inr (Int64_encode (brrq_previous_broker_epoch s)) else Inr [],
         put_tags [] 0 (brrq_unknown_tagged_fields s)])"

definition BrokerRegistrationRequest_compute_size :: "broker_registration_request \<Rightarrow> i16 \<Rightarrow> wire_error + usize" where
  "BrokerRegistrationRequest_compute_size s version =
     sums
       [Inr 4,
        CompactString_compute_size (Some (brrq_cluster_id s)),
        Inr 16,
        CompactArray_compute_size None (\<lambda>x. BrokerRegistrationRequestListener_compute_size x version) (Some (brrq_listeners s)),
        CompactArray_compute_size None (\<lambda>x. BrokerRegistrationRequestFeature_compute_size x version) (Some (brrq_features s)),
        CompactString_compute_size (brrq_rack s),
        if version \<ge> 1 then Inr 1 else unset 0 (\<not> brrq_is_migrating_zk_broker s),
        if version \<ge> 2
         then CompactArray_compute_size (Some 16) (\<lambda>_. Inr 16) (Some (brrq_log_dirs s))
         else Inr 0,
        if version \<ge> 3 then Inr 8 else Inr 0,
        tags_size [] (brrq_unknown_tagged_fields s)]"

definition BrokerRegistrationRequest_decode :: "i16 \<Rightarrow> broker_registration_request decoder" where
  "BrokerRegistrationRequest_decode version =
     (if version < 0 \<or> version > 4 then refuse UNSUPPORTED_VERSION
      else
        get Int32_decode (\<lambda>broker_id.
        get CompactString_required (\<lambda>cluster_id.
        get Uuid_decode (\<lambda>incarnation_id.
        get (CompactArray_required (BrokerRegistrationRequestListener_decode version)) (\<lambda>listeners.
        get (CompactArray_required (BrokerRegistrationRequestFeature_decode version)) (\<lambda>features.
        get CompactString_decode (\<lambda>rack.
        get (if version \<ge> 1 then Boolean_decode else give False) (\<lambda>is_migrating_zk_broker.
        get (if version \<ge> 2 then CompactArray_required Uuid_decode else give []) (\<lambda>log_dirs.
        get (if version \<ge> 3 then Int64_decode else give (- 1)) (\<lambda>previous_broker_epoch.
        get get_unknown_tags (\<lambda>unknown_tagged_fields.
        give \<lparr>brrq_broker_id = broker_id, brrq_cluster_id = cluster_id,
               brrq_incarnation_id = incarnation_id, brrq_listeners = listeners,
               brrq_features = features, brrq_rack = rack,
               brrq_is_migrating_zk_broker = is_migrating_zk_broker, brrq_log_dirs = log_dirs,
               brrq_previous_broker_epoch = previous_broker_epoch,
               brrq_unknown_tagged_fields = unknown_tagged_fields\<rparr>)))))))))))"

definition BrokerRegistrationRequest_ok :: "i16 \<Rightarrow> broker_registration_request \<Rightarrow> bool" where
  "BrokerRegistrationRequest_ok version s \<longleftrightarrow>
     \<not> (version < 0 \<or> version > 4) \<and>
     in_i32 (brrq_broker_id s) \<and>
     string_ok (2 ^ 32 - 2) (Some (brrq_cluster_id s)) \<and>
     seq_ok (2 ^ 32 - 2) (BrokerRegistrationRequestListener_ok version) (Some (brrq_listeners s)) \<and>
     seq_ok (2 ^ 32 - 2) (BrokerRegistrationRequestFeature_ok version) (Some (brrq_features s)) \<and>
     string_ok (2 ^ 32 - 2) (brrq_rack s) \<and>
     (if version \<ge> 1 then True else \<not> brrq_is_migrating_zk_broker s) \<and>
     (if version \<ge> 2
       then seq_ok (2 ^ 32 - 2) (\<lambda>_. True) (Some (brrq_log_dirs s))
       else brrq_log_dirs s = []) \<and>
     (if version \<ge> 3 then in_i64 (brrq_previous_broker_epoch s) else brrq_previous_broker_epoch s = - 1) \<and>
     tags_ok 0 (brrq_unknown_tagged_fields s)"

lemma BrokerRegistrationRequest_codec [coded_intros]:
  "sized_codec (\<lambda>s. BrokerRegistrationRequest_encode s version) (BrokerRegistrationRequest_decode version)
     (\<lambda>s. BrokerRegistrationRequest_compute_size s version) (BrokerRegistrationRequest_ok version)"
  unfolding BrokerRegistrationRequest_encode_def BrokerRegistrationRequest_decode_def BrokerRegistrationRequest_compute_size_def
  by (rule sized_codecI) (rule coded_intros | (simp add: BrokerRegistrationRequest_ok_def; fail))+

lemmas BrokerRegistrationRequest_coded [coded_intros] = sized_codec.codes [OF BrokerRegistrationRequest_codec]

section \<open>Controller registration request\<close>

definition ControllerRegistrationRequestListener_encode :: "controller_registration_request_listener \<Rightarrow> i16 \<Rightarrow> wire_error + bytes" where
  "ControllerRegistrationRequestListener_encode s version =
     (if version \<noteq> 0 then Inl UNSUPPORTED_VERSION
      else puts
        [CompactString_encode (Some (crrql_name s)),
         CompactString_encode (Some (crrql_host s)),
         Inr (UInt16_encode (crrql_port s)),
         Inr (Int16_encode (crrql_security_protocol s)),
         put_tags [] 0 (crrql_unknown_tagged_fields s)])"

definition ControllerRegistrationRequestListener_compute_size :: "controller_registration_request_listener \<Rightarrow> i16 \<Rightarrow> wire_error + usize" where
  "ControllerRegistrationRequestListener_compute_size s version =
     sums
       [CompactString_compute_size (Some (crrql_name s)),
        CompactString_compute_size (Some (crrql_host s)),
        Inr 2,
        Inr 2,
        tags_size [] (crrql_unknown_tagged_fields s)]"

definition ControllerRegistrationRequestListener_decode :: "i16 \<Rightarrow> controller_registration_request_listener decoder" where
  "ControllerRegistrationRequestListener_decode version =
     (if version \<noteq> 0 then refuse UNSUPPORTED_VERSION
      else
        get CompactString_required (\<lambda>name.
        get CompactString_required (\<lambda>host.
        get UInt16_decode (\<lambda>port.
        get Int16_decode (\<lambda>security_protocol.
        get get_unknown_tags (\<lambda>unknown_tagged_fields.
        give \<lparr>crrql_name = name, crrql_host = host, crrql_port = port,
               crrql_security_protocol = security_protocol,
               crrql_unknown_tagged_fields = unknown_tagged_fields\<rparr>))))))"

definition ControllerRegistrationRequestListener_ok :: "i16 \<Rightarrow> controller_registration_request_listener \<Rightarrow> bool" where
  "ControllerRegistrationRequestListener_ok version s \<longleftrightarrow>
     \<not> (version \<noteq> 0) \<and>
     string_ok (2 ^ 32 - 2) (Some (crrql_name s)) \<and>
     string_ok (2 ^ 32 - 2) (Some (crrql_host s)) \<and>
     in_u16 (crrql_port s) \<and>
     in_i16 (crrql_security_protocol s) \<and>
     tags_ok 0 (crrql_unknown_tagged_fields s)"

lemma ControllerRegistrationRequestListener_codec [coded_intros]:
  "sized_codec (\<lambda>s. ControllerRegistrationRequestListener_encode s version) (ControllerRegistrationRequestListener_decode version)
     (\<lambda>s. ControllerRegistrationRequestListener_compute_size s version) (ControllerRegistrationRequestListener_ok version)"
  unfolding ControllerRegistrationRequestListener_encode_def ControllerRegistrationRequestListener_decode_def ControllerRegistrationRequestListener_compute_size_def
  by (rule sized_codecI) (rule coded_intros | (clarsimp simp: ControllerRegistrationRequestListener_ok_def; fail))+

lemmas ControllerRegistrationRequestListener_coded [coded_intros] = sized_codec.codes [OF ControllerRegistrationRequestListener_codec]

definition ControllerRegistrationRequestFeature_encode :: "controller_registration_request_feature \<Rightarrow> i16 \<Rightarrow> wire_error + bytes" where
  "ControllerRegistrationRequestFeature_encode s version =
     (if version \<noteq> 0 then Inl UNSUPPORTED_VERSION
      else puts
        [CompactString_encode (Some (crrqf_name s)),
         Inr (Int16_encode (crrqf_min_supported_version s)),
         Inr (Int16_encode (crrqf_max_supported_version s)),
         put_tags [] 0 (crrqf_unknown_tagged_fields s)])"

definition ControllerRegistrationRequestFeature_compute_size :: "controller_registration_request_feature \<Rightarrow> i16 \<Rightarrow> wire_error + usize" where
  "ControllerRegistrationRequestFeature_compute_size s version =
     sums
       [CompactString_compute_size (Some (crrqf_name s)),
        Inr 2,
        Inr 2,
        tags_size [] (crrqf_unknown_tagged_fields s)]"

definition ControllerRegistrationRequestFeature_decode :: "i16 \<Rightarrow> controller_registration_request_feature decoder" where
  "ControllerRegistrationRequestFeature_decode version =
     (if version \<noteq> 0 then refuse UNSUPPORTED_VERSION
      else
        get CompactString_required (\<lambda>name.
        get Int16_decode (\<lambda>min_supported_version.
        get Int16_decode (\<lambda>max_supported_version.
        get get_unknown_tags (\<lambda>unknown_tagged_fields.
        give \<lparr>crrqf_name = name, crrqf_min_supported_version = min_supported_version,
               crrqf_max_supported_version = max_supported_version,
               crrqf_unknown_tagged_fields = unknown_tagged_fields\<rparr>)))))"

definition ControllerRegistrationRequestFeature_ok :: "i16 \<Rightarrow> controller_registration_request_feature \<Rightarrow> bool" where
  "ControllerRegistrationRequestFeature_ok version s \<longleftrightarrow>
     \<not> (version \<noteq> 0) \<and>
     string_ok (2 ^ 32 - 2) (Some (crrqf_name s)) \<and>
     in_i16 (crrqf_min_supported_version s) \<and>
     in_i16 (crrqf_max_supported_version s) \<and>
     tags_ok 0 (crrqf_unknown_tagged_fields s)"

lemma ControllerRegistrationRequestFeature_codec [coded_intros]:
  "sized_codec (\<lambda>s. ControllerRegistrationRequestFeature_encode s version) (ControllerRegistrationRequestFeature_decode version)
     (\<lambda>s. ControllerRegistrationRequestFeature_compute_size s version) (ControllerRegistrationRequestFeature_ok version)"
  unfolding ControllerRegistrationRequestFeature_encode_def ControllerRegistrationRequestFeature_decode_def ControllerRegistrationRequestFeature_compute_size_def
  by (rule sized_codecI) (rule coded_intros | (clarsimp simp: ControllerRegistrationRequestFeature_ok_def; fail))+

lemmas ControllerRegistrationRequestFeature_coded [coded_intros] = sized_codec.codes [OF ControllerRegistrationRequestFeature_codec]

definition ControllerRegistrationRequest_encode :: "controller_registration_request \<Rightarrow> i16 \<Rightarrow> wire_error + bytes" where
  "ControllerRegistrationRequest_encode s version =
     (if version \<noteq> 0 then Inl UNSUPPORTED_VERSION
      else puts
        [Inr (Int32_encode (crrq_controller_id s)),
         Inr (Uuid_encode (crrq_incarnation_id s)),
         Inr (Boolean_encode (crrq_zk_migration_ready s)),
         CompactArray_encode (\<lambda>x. ControllerRegistrationRequestListener_encode x version) (Some (crrq_listeners s)),
         CompactArray_encode (\<lambda>x. ControllerRegistrationRequestFeature_encode x version) (Some (crrq_features s)),
         put_tags [] 0 (crrq_unknown_tagged_fields s)])"

definition ControllerRegistrationRequest_compute_size :: "controller_registration_request \<Rightarrow> i16 \<Rightarrow> wire_error + usize" where
  "ControllerRegistrationRequest_compute_size s version =
     sums
       [Inr 4,
        Inr 16,
        Inr 1,
        CompactArray_compute_size None (\<lambda>x. ControllerRegistrationRequestListener_compute_size x version) (Some (crrq_listeners s)),
        CompactArray_compute_size None (\<lambda>x. ControllerRegistrationRequestFeature_compute_size x version) (Some (crrq_features s)),
        tags_size [] (crrq_unknown_tagged_fields s)]"

definition ControllerRegistrationRequest_decode :: "i16 \<Rightarrow> controller_registration_request decoder" where
  "ControllerRegistrationRequest_decode version =
     (if version \<noteq> 0 then refuse UNSUPPORTED_VERSION
      else
        get Int32_decode (\<lambda>controller_id.
        get Uuid_decode (\<lambda>incarnation_id.
        get Boolean_decode (\<lambda>zk_migration_ready.
        get (CompactArray_required (ControllerRegistrationRequestListener_decode version)) (\<lambda>listeners.
        get (CompactArray_required (ControllerRegistrationRequestFeature_decode version)) (\<lambda>features.
        get get_unknown_tags (\<lambda>unknown_tagged_fields.
        give \<lparr>crrq_controller_id = controller_id, crrq_incarnation_id = incarnation_id,
               crrq_zk_migration_ready = zk_migration_ready, crrq_listeners = listeners,
               crrq_features = features, crrq_unknown_tagged_fields = unknown_tagged_fields\<rparr>)))))))"

definition ControllerRegistrationRequest_ok :: "i16 \<Rightarrow> controller_registration_request \<Rightarrow> bool" where
  "ControllerRegistrationRequest_ok version s \<longleftrightarrow>
     \<not> (version \<noteq> 0) \<and>
     in_i32 (crrq_controller_id s) \<and>
     seq_ok (2 ^ 32 - 2) (ControllerRegistrationRequestListener_ok version) (Some (crrq_listeners s)) \<and>
     seq_ok (2 ^ 32 - 2) (ControllerRegistrationRequestFeature_ok version) (Some (crrq_features s)) \<and>
     tags_ok 0 (crrq_unknown_tagged_fields s)"

lemma ControllerRegistrationRequest_codec [coded_intros]:
  "sized_codec (\<lambda>s. ControllerRegistrationRequest_encode s version) (ControllerRegistrationRequest_decode version)
     (\<lambda>s. ControllerRegistrationRequest_compute_size s version) (ControllerRegistrationRequest_ok version)"
  unfolding ControllerRegistrationRequest_encode_def ControllerRegistrationRequest_decode_def ControllerRegistrationRequest_compute_size_def
  by (rule sized_codecI) (rule coded_intros | (clarsimp simp: ControllerRegistrationRequest_ok_def; fail))+

lemmas ControllerRegistrationRequest_coded [coded_intros] = sized_codec.codes [OF ControllerRegistrationRequest_codec]

section \<open>Unregister broker request\<close>

definition UnregisterBrokerRequest_encode :: "unregister_broker_request \<Rightarrow> i16 \<Rightarrow> wire_error + bytes" where
  "UnregisterBrokerRequest_encode s version =
     (if version \<noteq> 0 then Inl UNSUPPORTED_VERSION
      else puts
        [Inr (Int32_encode (ubrq_broker_id s)),
         put_tags [] 0 (ubrq_unknown_tagged_fields s)])"

definition UnregisterBrokerRequest_compute_size :: "unregister_broker_request \<Rightarrow> i16 \<Rightarrow> wire_error + usize" where
  "UnregisterBrokerRequest_compute_size s version =
     sums
       [Inr 4,
        tags_size [] (ubrq_unknown_tagged_fields s)]"

definition UnregisterBrokerRequest_decode :: "i16 \<Rightarrow> unregister_broker_request decoder" where
  "UnregisterBrokerRequest_decode version =
     (if version \<noteq> 0 then refuse UNSUPPORTED_VERSION
      else
        get Int32_decode (\<lambda>broker_id.
        get get_unknown_tags (\<lambda>unknown_tagged_fields.
        give \<lparr>ubrq_broker_id = broker_id, ubrq_unknown_tagged_fields = unknown_tagged_fields\<rparr>)))"

definition UnregisterBrokerRequest_ok :: "i16 \<Rightarrow> unregister_broker_request \<Rightarrow> bool" where
  "UnregisterBrokerRequest_ok version s \<longleftrightarrow>
     \<not> (version \<noteq> 0) \<and>
     in_i32 (ubrq_broker_id s) \<and>
     tags_ok 0 (ubrq_unknown_tagged_fields s)"

lemma UnregisterBrokerRequest_codec [coded_intros]:
  "sized_codec (\<lambda>s. UnregisterBrokerRequest_encode s version) (UnregisterBrokerRequest_decode version)
     (\<lambda>s. UnregisterBrokerRequest_compute_size s version) (UnregisterBrokerRequest_ok version)"
  unfolding UnregisterBrokerRequest_encode_def UnregisterBrokerRequest_decode_def UnregisterBrokerRequest_compute_size_def
  by (rule sized_codecI) (rule coded_intros | (clarsimp simp: UnregisterBrokerRequest_ok_def; fail))+

lemmas UnregisterBrokerRequest_coded [coded_intros] = sized_codec.codes [OF UnregisterBrokerRequest_codec]

section \<open>Bodies\<close>

text \<open>The variants of \<open>RequestKind\<close> (\<open>messages.rs\<close>) with these requests, and their codecs by API key. The match on the key is exhaustive; its last arm is the last key of the group.\<close>

datatype controller_request =
  AlterPartitionRequest alter_partition_request
| BrokerRegistrationRequest broker_registration_request
| BrokerHeartbeatRequest broker_heartbeat_request
| UnregisterBrokerRequest unregister_broker_request
| ControllerRegistrationRequest controller_registration_request
| AssignReplicasToDirsRequest assign_replicas_to_dirs_request

fun controller_request_key :: "controller_request \<Rightarrow> i16" where
  "controller_request_key (AlterPartitionRequest _) = 56"
| "controller_request_key (BrokerRegistrationRequest _) = 62"
| "controller_request_key (BrokerHeartbeatRequest _) = 63"
| "controller_request_key (UnregisterBrokerRequest _) = 64"
| "controller_request_key (ControllerRegistrationRequest _) = 70"
| "controller_request_key (AssignReplicasToDirsRequest _) = 73"

fun controller_request_encode :: "controller_request \<Rightarrow> i16 \<Rightarrow> wire_error + bytes" where
  "controller_request_encode (AlterPartitionRequest x) version = AlterPartitionRequest_encode x version"
| "controller_request_encode (BrokerRegistrationRequest x) version = BrokerRegistrationRequest_encode x version"
| "controller_request_encode (BrokerHeartbeatRequest x) version = BrokerHeartbeatRequest_encode x version"
| "controller_request_encode (UnregisterBrokerRequest x) version = UnregisterBrokerRequest_encode x version"
| "controller_request_encode (ControllerRegistrationRequest x) version = ControllerRegistrationRequest_encode x version"
| "controller_request_encode (AssignReplicasToDirsRequest x) version = AssignReplicasToDirsRequest_encode x version"

definition controller_request_decode :: "i16 \<Rightarrow> i16 \<Rightarrow> controller_request decoder" where
  "controller_request_decode key version =
     (if key = 56 then get (AlterPartitionRequest_decode version) (\<lambda>x. give (AlterPartitionRequest x))
      else if key = 62 then get (BrokerRegistrationRequest_decode version) (\<lambda>x. give (BrokerRegistrationRequest x))
      else if key = 63 then get (BrokerHeartbeatRequest_decode version) (\<lambda>x. give (BrokerHeartbeatRequest x))
      else if key = 64 then get (UnregisterBrokerRequest_decode version) (\<lambda>x. give (UnregisterBrokerRequest x))
      else if key = 70 then get (ControllerRegistrationRequest_decode version) (\<lambda>x. give (ControllerRegistrationRequest x))
      else get (AssignReplicasToDirsRequest_decode version) (\<lambda>x. give (AssignReplicasToDirsRequest x)))"

fun controller_request_size :: "i16 \<Rightarrow> controller_request \<Rightarrow> wire_error + usize" where
  "controller_request_size version (AlterPartitionRequest x) = AlterPartitionRequest_compute_size x version"
| "controller_request_size version (BrokerRegistrationRequest x) = BrokerRegistrationRequest_compute_size x version"
| "controller_request_size version (BrokerHeartbeatRequest x) = BrokerHeartbeatRequest_compute_size x version"
| "controller_request_size version (UnregisterBrokerRequest x) = UnregisterBrokerRequest_compute_size x version"
| "controller_request_size version (ControllerRegistrationRequest x) = ControllerRegistrationRequest_compute_size x version"
| "controller_request_size version (AssignReplicasToDirsRequest x) = AssignReplicasToDirsRequest_compute_size x version"

fun controller_request_ok :: "i16 \<Rightarrow> controller_request \<Rightarrow> bool" where
  "controller_request_ok version (AlterPartitionRequest x) = AlterPartitionRequest_ok version x"
| "controller_request_ok version (BrokerRegistrationRequest x) = BrokerRegistrationRequest_ok version x"
| "controller_request_ok version (BrokerHeartbeatRequest x) = BrokerHeartbeatRequest_ok version x"
| "controller_request_ok version (UnregisterBrokerRequest x) = UnregisterBrokerRequest_ok version x"
| "controller_request_ok version (ControllerRegistrationRequest x) = ControllerRegistrationRequest_ok version x"
| "controller_request_ok version (AssignReplicasToDirsRequest x) = AssignReplicasToDirsRequest_ok version x"

lemma controller_request_coded:
  "controller_request_ok version body \<Longrightarrow>
   coded (controller_request_encode body version) (controller_request_decode (controller_request_key body) version) (controller_request_size version body) body"
  by (cases body) (simp_all add: controller_request_decode_def coded_tag_value
    AlterPartitionRequest_coded BrokerRegistrationRequest_coded BrokerHeartbeatRequest_coded UnregisterBrokerRequest_coded ControllerRegistrationRequest_coded AssignReplicasToDirsRequest_coded)

end
