(* ===== verification/Messages_Raft.thy ===== *)
theory Messages_Raft
  imports Prelude
begin

text \<open>
  Requests about the Raft quorum and its snapshots, which the broker does not serve
  (\<open>src/crates/kafka-protocol/src/messages/\<close>). Every message is a record with the fields of the Rust structure, and its
  \<open>_default\<close> is the value of \<open>Default::default()\<close>.
\<close>

section \<open>Vote request\<close>

record vote_request_partition_data =
  vrqpd_partition_index :: i32
  vrqpd_replica_epoch :: i32
  vrqpd_replica_id :: i32
  vrqpd_replica_directory_id :: uuid
  vrqpd_voter_directory_id :: uuid
  vrqpd_last_offset_epoch :: i32
  vrqpd_last_offset :: i64
  vrqpd_pre_vote :: bool
  vrqpd_unknown_tagged_fields :: "(i32, bytes) btree_map"

definition vote_request_partition_data_default :: vote_request_partition_data where
  "vote_request_partition_data_default =
     \<lparr>vrqpd_partition_index = 0, vrqpd_replica_epoch = 0, vrqpd_replica_id = 0,
      vrqpd_replica_directory_id = nil_uuid, vrqpd_voter_directory_id = nil_uuid,
      vrqpd_last_offset_epoch = 0, vrqpd_last_offset = 0, vrqpd_pre_vote = False,
      vrqpd_unknown_tagged_fields = []\<rparr>"

record vote_request_topic_data =
  vrqtd_topic_name :: string
  vrqtd_partitions :: "vote_request_partition_data list"
  vrqtd_unknown_tagged_fields :: "(i32, bytes) btree_map"

definition vote_request_topic_data_default :: vote_request_topic_data where
  "vote_request_topic_data_default =
     \<lparr>vrqtd_topic_name = [], vrqtd_partitions = [], vrqtd_unknown_tagged_fields = []\<rparr>"

record vote_request =
  vrq_cluster_id :: "string option"
  vrq_voter_id :: i32
  vrq_topics :: "vote_request_topic_data list"
  vrq_unknown_tagged_fields :: "(i32, bytes) btree_map"

definition vote_request_default :: vote_request where
  "vote_request_default =
     \<lparr>vrq_cluster_id = None, vrq_voter_id = - 1, vrq_topics = [],
      vrq_unknown_tagged_fields = []\<rparr>"

section \<open>Begin quorum epoch request\<close>

record begin_quorum_epoch_request_partition_data =
  bqerqpd_partition_index :: i32
  bqerqpd_voter_directory_id :: uuid
  bqerqpd_leader_id :: i32
  bqerqpd_leader_epoch :: i32
  bqerqpd_unknown_tagged_fields :: "(i32, bytes) btree_map"

definition begin_quorum_epoch_request_partition_data_default :: begin_quorum_epoch_request_partition_data where
  "begin_quorum_epoch_request_partition_data_default =
     \<lparr>bqerqpd_partition_index = 0, bqerqpd_voter_directory_id = nil_uuid, bqerqpd_leader_id = 0,
      bqerqpd_leader_epoch = 0, bqerqpd_unknown_tagged_fields = []\<rparr>"

record begin_quorum_epoch_request_topic_data =
  bqerqtd_topic_name :: string
  bqerqtd_partitions :: "begin_quorum_epoch_request_partition_data list"
  bqerqtd_unknown_tagged_fields :: "(i32, bytes) btree_map"

definition begin_quorum_epoch_request_topic_data_default :: begin_quorum_epoch_request_topic_data where
  "begin_quorum_epoch_request_topic_data_default =
     \<lparr>bqerqtd_topic_name = [], bqerqtd_partitions = [], bqerqtd_unknown_tagged_fields = []\<rparr>"

record begin_quorum_epoch_request_leader_endpoint =
  bqerqle_name :: string
  bqerqle_host :: string
  bqerqle_port :: u16
  bqerqle_unknown_tagged_fields :: "(i32, bytes) btree_map"

definition begin_quorum_epoch_request_leader_endpoint_default :: begin_quorum_epoch_request_leader_endpoint where
  "begin_quorum_epoch_request_leader_endpoint_default =
     \<lparr>bqerqle_name = [], bqerqle_host = [], bqerqle_port = 0,
      bqerqle_unknown_tagged_fields = []\<rparr>"

record begin_quorum_epoch_request =
  bqerq_cluster_id :: "string option"
  bqerq_voter_id :: i32
  bqerq_topics :: "begin_quorum_epoch_request_topic_data list"
  bqerq_leader_endpoints :: "begin_quorum_epoch_request_leader_endpoint list"
  bqerq_unknown_tagged_fields :: "(i32, bytes) btree_map"

definition begin_quorum_epoch_request_default :: begin_quorum_epoch_request where
  "begin_quorum_epoch_request_default =
     \<lparr>bqerq_cluster_id = None, bqerq_voter_id = - 1, bqerq_topics = [],
      bqerq_leader_endpoints = [], bqerq_unknown_tagged_fields = []\<rparr>"

section \<open>End quorum epoch request\<close>

record replica_info =
  ri_candidate_id :: i32
  ri_candidate_directory_id :: uuid
  ri_unknown_tagged_fields :: "(i32, bytes) btree_map"

definition replica_info_default :: replica_info where
  "replica_info_default =
     \<lparr>ri_candidate_id = 0, ri_candidate_directory_id = nil_uuid,
      ri_unknown_tagged_fields = []\<rparr>"

record end_quorum_epoch_request_partition_data =
  eqerqpd_partition_index :: i32
  eqerqpd_leader_id :: i32
  eqerqpd_leader_epoch :: i32
  eqerqpd_preferred_successors :: "i32 list"
  eqerqpd_preferred_candidates :: "replica_info list"
  eqerqpd_unknown_tagged_fields :: "(i32, bytes) btree_map"

definition end_quorum_epoch_request_partition_data_default :: end_quorum_epoch_request_partition_data where
  "end_quorum_epoch_request_partition_data_default =
     \<lparr>eqerqpd_partition_index = 0, eqerqpd_leader_id = 0, eqerqpd_leader_epoch = 0,
      eqerqpd_preferred_successors = [], eqerqpd_preferred_candidates = [],
      eqerqpd_unknown_tagged_fields = []\<rparr>"

record end_quorum_epoch_request_topic_data =
  eqerqtd_topic_name :: string
  eqerqtd_partitions :: "end_quorum_epoch_request_partition_data list"
  eqerqtd_unknown_tagged_fields :: "(i32, bytes) btree_map"

definition end_quorum_epoch_request_topic_data_default :: end_quorum_epoch_request_topic_data where
  "end_quorum_epoch_request_topic_data_default =
     \<lparr>eqerqtd_topic_name = [], eqerqtd_partitions = [], eqerqtd_unknown_tagged_fields = []\<rparr>"

record end_quorum_epoch_request_leader_endpoint =
  eqerqle_name :: string
  eqerqle_host :: string
  eqerqle_port :: u16
  eqerqle_unknown_tagged_fields :: "(i32, bytes) btree_map"

definition end_quorum_epoch_request_leader_endpoint_default :: end_quorum_epoch_request_leader_endpoint where
  "end_quorum_epoch_request_leader_endpoint_default =
     \<lparr>eqerqle_name = [], eqerqle_host = [], eqerqle_port = 0,
      eqerqle_unknown_tagged_fields = []\<rparr>"

record end_quorum_epoch_request =
  eqerq_cluster_id :: "string option"
  eqerq_topics :: "end_quorum_epoch_request_topic_data list"
  eqerq_leader_endpoints :: "end_quorum_epoch_request_leader_endpoint list"
  eqerq_unknown_tagged_fields :: "(i32, bytes) btree_map"

definition end_quorum_epoch_request_default :: end_quorum_epoch_request where
  "end_quorum_epoch_request_default =
     \<lparr>eqerq_cluster_id = None, eqerq_topics = [], eqerq_leader_endpoints = [],
      eqerq_unknown_tagged_fields = []\<rparr>"

section \<open>Describe quorum request\<close>

record describe_quorum_request_partition_data =
  dqrqpd_partition_index :: i32
  dqrqpd_unknown_tagged_fields :: "(i32, bytes) btree_map"

definition describe_quorum_request_partition_data_default :: describe_quorum_request_partition_data where
  "describe_quorum_request_partition_data_default =
     \<lparr>dqrqpd_partition_index = 0, dqrqpd_unknown_tagged_fields = []\<rparr>"

record describe_quorum_request_topic_data =
  dqrqtd_topic_name :: string
  dqrqtd_partitions :: "describe_quorum_request_partition_data list"
  dqrqtd_unknown_tagged_fields :: "(i32, bytes) btree_map"

definition describe_quorum_request_topic_data_default :: describe_quorum_request_topic_data where
  "describe_quorum_request_topic_data_default =
     \<lparr>dqrqtd_topic_name = [], dqrqtd_partitions = [], dqrqtd_unknown_tagged_fields = []\<rparr>"

record describe_quorum_request =
  dqrq_topics :: "describe_quorum_request_topic_data list"
  dqrq_unknown_tagged_fields :: "(i32, bytes) btree_map"

definition describe_quorum_request_default :: describe_quorum_request where
  "describe_quorum_request_default =
     \<lparr>dqrq_topics = [], dqrq_unknown_tagged_fields = []\<rparr>"

section \<open>Fetch snapshot request\<close>

record fetch_snapshot_request_snapshot_id =
  fsrqsi_end_offset :: i64
  fsrqsi_epoch :: i32
  fsrqsi_unknown_tagged_fields :: "(i32, bytes) btree_map"

definition fetch_snapshot_request_snapshot_id_default :: fetch_snapshot_request_snapshot_id where
  "fetch_snapshot_request_snapshot_id_default =
     \<lparr>fsrqsi_end_offset = 0, fsrqsi_epoch = 0, fsrqsi_unknown_tagged_fields = []\<rparr>"

record partition_snapshot =
  ps2_partition :: i32
  ps2_current_leader_epoch :: i32
  ps2_snapshot_id :: fetch_snapshot_request_snapshot_id
  ps2_position :: i64
  ps2_replica_directory_id :: uuid
  ps2_unknown_tagged_fields :: "(i32, bytes) btree_map"

definition partition_snapshot_default :: partition_snapshot where
  "partition_snapshot_default =
     \<lparr>ps2_partition = 0, ps2_current_leader_epoch = 0,
      ps2_snapshot_id = fetch_snapshot_request_snapshot_id_default, ps2_position = 0,
      ps2_replica_directory_id = nil_uuid, ps2_unknown_tagged_fields = []\<rparr>"

record topic_snapshot =
  ts_name :: string
  ts_partitions :: "partition_snapshot list"
  ts_unknown_tagged_fields :: "(i32, bytes) btree_map"

definition topic_snapshot_default :: topic_snapshot where
  "topic_snapshot_default =
     \<lparr>ts_name = [], ts_partitions = [], ts_unknown_tagged_fields = []\<rparr>"

record fetch_snapshot_request =
  fsrq_cluster_id :: "string option"
  fsrq_replica_id :: i32
  fsrq_max_bytes :: i32
  fsrq_topics :: "topic_snapshot list"
  fsrq_unknown_tagged_fields :: "(i32, bytes) btree_map"

definition fetch_snapshot_request_default :: fetch_snapshot_request where
  "fetch_snapshot_request_default =
     \<lparr>fsrq_cluster_id = None, fsrq_replica_id = - 1, fsrq_max_bytes = 2147483647,
      fsrq_topics = [], fsrq_unknown_tagged_fields = []\<rparr>"

section \<open>Add raft voter request\<close>

record add_raft_voter_request_listener =
  arvrql_name :: string
  arvrql_host :: string
  arvrql_port :: u16
  arvrql_unknown_tagged_fields :: "(i32, bytes) btree_map"

definition add_raft_voter_request_listener_default :: add_raft_voter_request_listener where
  "add_raft_voter_request_listener_default =
     \<lparr>arvrql_name = [], arvrql_host = [], arvrql_port = 0,
      arvrql_unknown_tagged_fields = []\<rparr>"

record add_raft_voter_request =
  arvrq_cluster_id :: "string option"
  arvrq_timeout_ms :: i32
  arvrq_voter_id :: i32
  arvrq_voter_directory_id :: uuid
  arvrq_listeners :: "add_raft_voter_request_listener list"
  arvrq_ack_when_committed :: bool
  arvrq_unknown_tagged_fields :: "(i32, bytes) btree_map"

definition add_raft_voter_request_default :: add_raft_voter_request where
  "add_raft_voter_request_default =
     \<lparr>arvrq_cluster_id = Some [], arvrq_timeout_ms = 0, arvrq_voter_id = 0,
      arvrq_voter_directory_id = nil_uuid, arvrq_listeners = [], arvrq_ack_when_committed = True,
      arvrq_unknown_tagged_fields = []\<rparr>"

section \<open>Remove raft voter request\<close>

record remove_raft_voter_request =
  rrvrq_cluster_id :: "string option"
  rrvrq_voter_id :: i32
  rrvrq_voter_directory_id :: uuid
  rrvrq_unknown_tagged_fields :: "(i32, bytes) btree_map"

definition remove_raft_voter_request_default :: remove_raft_voter_request where
  "remove_raft_voter_request_default =
     \<lparr>rrvrq_cluster_id = Some [], rrvrq_voter_id = 0, rrvrq_voter_directory_id = nil_uuid,
      rrvrq_unknown_tagged_fields = []\<rparr>"

section \<open>Update raft voter request\<close>

record kraft_version_feature =
  kvf_min_supported_version :: i16
  kvf_max_supported_version :: i16
  kvf_unknown_tagged_fields :: "(i32, bytes) btree_map"

definition kraft_version_feature_default :: kraft_version_feature where
  "kraft_version_feature_default =
     \<lparr>kvf_min_supported_version = 0, kvf_max_supported_version = 0,
      kvf_unknown_tagged_fields = []\<rparr>"

record update_raft_voter_request_listener =
  urvrql_name :: string
  urvrql_host :: string
  urvrql_port :: u16
  urvrql_unknown_tagged_fields :: "(i32, bytes) btree_map"

definition update_raft_voter_request_listener_default :: update_raft_voter_request_listener where
  "update_raft_voter_request_listener_default =
     \<lparr>urvrql_name = [], urvrql_host = [], urvrql_port = 0,
      urvrql_unknown_tagged_fields = []\<rparr>"

record update_raft_voter_request =
  urvrq_cluster_id :: "string option"
  urvrq_current_leader_epoch :: i32
  urvrq_voter_id :: i32
  urvrq_voter_directory_id :: uuid
  urvrq_listeners :: "update_raft_voter_request_listener list"
  urvrq_k_raft_version_feature :: kraft_version_feature
  urvrq_unknown_tagged_fields :: "(i32, bytes) btree_map"

definition update_raft_voter_request_default :: update_raft_voter_request where
  "update_raft_voter_request_default =
     \<lparr>urvrq_cluster_id = Some [], urvrq_current_leader_epoch = 0, urvrq_voter_id = 0,
      urvrq_voter_directory_id = nil_uuid, urvrq_listeners = [],
      urvrq_k_raft_version_feature = kraft_version_feature_default,
      urvrq_unknown_tagged_fields = []\<rparr>"

end
