(* ===== verification/Codec_Raft.thy ===== *)
theory Codec_Raft
  imports Codec_Controller Messages_Raft
begin

text \<open>
  The codecs of the requests about the Raft quorum and its snapshots
  (\<open>src/crates/kafka-protocol/src/messages/\<close>): the encoder, the size computation and the decoder of every structure,
  for every version of its schema, what a structure must satisfy to be sent in a version, and that it then comes back.
\<close>

section \<open>Vote request\<close>

definition VoteRequestPartitionData_encode :: "vote_request_partition_data \<Rightarrow> i16 \<Rightarrow> wire_error + bytes" where
  "VoteRequestPartitionData_encode s version =
     (if version < 0 \<or> version > 2 then Inl UNSUPPORTED_VERSION
      else puts
        [Inr (Int32_encode (vrqpd_partition_index s)),
         Inr (Int32_encode (vrqpd_replica_epoch s)),
         Inr (Int32_encode (vrqpd_replica_id s)),
         if version \<ge> 1 then Inr (Uuid_encode (vrqpd_replica_directory_id s)) else Inr [],
         if version \<ge> 1 then Inr (Uuid_encode (vrqpd_voter_directory_id s)) else Inr [],
         Inr (Int32_encode (vrqpd_last_offset_epoch s)),
         Inr (Int64_encode (vrqpd_last_offset s)),
         if version \<ge> 2 then Inr (Boolean_encode (vrqpd_pre_vote s)) else unset [] (\<not> vrqpd_pre_vote s),
         put_tags [] 0 (vrqpd_unknown_tagged_fields s)])"

definition VoteRequestPartitionData_compute_size :: "vote_request_partition_data \<Rightarrow> i16 \<Rightarrow> wire_error + usize" where
  "VoteRequestPartitionData_compute_size s version =
     sums
       [Inr 4,
        Inr 4,
        Inr 4,
        if version \<ge> 1 then Inr 16 else Inr 0,
        if version \<ge> 1 then Inr 16 else Inr 0,
        Inr 4,
        Inr 8,
        if version \<ge> 2 then Inr 1 else unset 0 (\<not> vrqpd_pre_vote s),
        tags_size [] (vrqpd_unknown_tagged_fields s)]"

definition VoteRequestPartitionData_decode :: "i16 \<Rightarrow> vote_request_partition_data decoder" where
  "VoteRequestPartitionData_decode version =
     (if version < 0 \<or> version > 2 then refuse UNSUPPORTED_VERSION
      else
        get Int32_decode (\<lambda>partition_index.
        get Int32_decode (\<lambda>replica_epoch.
        get Int32_decode (\<lambda>replica_id.
        get (if version \<ge> 1 then Uuid_decode else give nil_uuid) (\<lambda>replica_directory_id.
        get (if version \<ge> 1 then Uuid_decode else give nil_uuid) (\<lambda>voter_directory_id.
        get Int32_decode (\<lambda>last_offset_epoch.
        get Int64_decode (\<lambda>last_offset.
        get (if version \<ge> 2 then Boolean_decode else give False) (\<lambda>pre_vote.
        get get_unknown_tags (\<lambda>unknown_tagged_fields.
        give \<lparr>vrqpd_partition_index = partition_index, vrqpd_replica_epoch = replica_epoch,
               vrqpd_replica_id = replica_id, vrqpd_replica_directory_id = replica_directory_id,
               vrqpd_voter_directory_id = voter_directory_id,
               vrqpd_last_offset_epoch = last_offset_epoch, vrqpd_last_offset = last_offset,
               vrqpd_pre_vote = pre_vote, vrqpd_unknown_tagged_fields = unknown_tagged_fields\<rparr>))))))))))"

definition VoteRequestPartitionData_ok :: "i16 \<Rightarrow> vote_request_partition_data \<Rightarrow> bool" where
  "VoteRequestPartitionData_ok version s \<longleftrightarrow>
     \<not> (version < 0 \<or> version > 2) \<and>
     in_i32 (vrqpd_partition_index s) \<and>
     in_i32 (vrqpd_replica_epoch s) \<and>
     in_i32 (vrqpd_replica_id s) \<and>
     (if version \<ge> 1 then True else vrqpd_replica_directory_id s = nil_uuid) \<and>
     (if version \<ge> 1 then True else vrqpd_voter_directory_id s = nil_uuid) \<and>
     in_i32 (vrqpd_last_offset_epoch s) \<and>
     in_i64 (vrqpd_last_offset s) \<and>
     (if version \<ge> 2 then True else \<not> vrqpd_pre_vote s) \<and>
     tags_ok 0 (vrqpd_unknown_tagged_fields s)"

lemma VoteRequestPartitionData_codec [coded_intros]:
  "sized_codec (\<lambda>s. VoteRequestPartitionData_encode s version) (VoteRequestPartitionData_decode version)
     (\<lambda>s. VoteRequestPartitionData_compute_size s version) (VoteRequestPartitionData_ok version)"
  unfolding VoteRequestPartitionData_encode_def VoteRequestPartitionData_decode_def VoteRequestPartitionData_compute_size_def
  by (rule sized_codecI) (rule coded_intros | (clarsimp simp: VoteRequestPartitionData_ok_def; fail))+

lemmas VoteRequestPartitionData_coded [coded_intros] = sized_codec.codes [OF VoteRequestPartitionData_codec]

definition VoteRequestTopicData_encode :: "vote_request_topic_data \<Rightarrow> i16 \<Rightarrow> wire_error + bytes" where
  "VoteRequestTopicData_encode s version =
     (if version < 0 \<or> version > 2 then Inl UNSUPPORTED_VERSION
      else puts
        [CompactString_encode (Some (vrqtd_topic_name s)),
         CompactArray_encode (\<lambda>x. VoteRequestPartitionData_encode x version) (Some (vrqtd_partitions s)),
         put_tags [] 0 (vrqtd_unknown_tagged_fields s)])"

definition VoteRequestTopicData_compute_size :: "vote_request_topic_data \<Rightarrow> i16 \<Rightarrow> wire_error + usize" where
  "VoteRequestTopicData_compute_size s version =
     sums
       [CompactString_compute_size (Some (vrqtd_topic_name s)),
        CompactArray_compute_size None (\<lambda>x. VoteRequestPartitionData_compute_size x version) (Some (vrqtd_partitions s)),
        tags_size [] (vrqtd_unknown_tagged_fields s)]"

definition VoteRequestTopicData_decode :: "i16 \<Rightarrow> vote_request_topic_data decoder" where
  "VoteRequestTopicData_decode version =
     (if version < 0 \<or> version > 2 then refuse UNSUPPORTED_VERSION
      else
        get CompactString_required (\<lambda>topic_name.
        get (CompactArray_required (VoteRequestPartitionData_decode version)) (\<lambda>partitions.
        get get_unknown_tags (\<lambda>unknown_tagged_fields.
        give \<lparr>vrqtd_topic_name = topic_name, vrqtd_partitions = partitions,
               vrqtd_unknown_tagged_fields = unknown_tagged_fields\<rparr>))))"

definition VoteRequestTopicData_ok :: "i16 \<Rightarrow> vote_request_topic_data \<Rightarrow> bool" where
  "VoteRequestTopicData_ok version s \<longleftrightarrow>
     \<not> (version < 0 \<or> version > 2) \<and>
     string_ok (2 ^ 32 - 2) (Some (vrqtd_topic_name s)) \<and>
     seq_ok (2 ^ 32 - 2) (VoteRequestPartitionData_ok version) (Some (vrqtd_partitions s)) \<and>
     tags_ok 0 (vrqtd_unknown_tagged_fields s)"

lemma VoteRequestTopicData_codec [coded_intros]:
  "sized_codec (\<lambda>s. VoteRequestTopicData_encode s version) (VoteRequestTopicData_decode version)
     (\<lambda>s. VoteRequestTopicData_compute_size s version) (VoteRequestTopicData_ok version)"
  unfolding VoteRequestTopicData_encode_def VoteRequestTopicData_decode_def VoteRequestTopicData_compute_size_def
  by (rule sized_codecI) (rule coded_intros | (simp add: VoteRequestTopicData_ok_def; fail))+

lemmas VoteRequestTopicData_coded [coded_intros] = sized_codec.codes [OF VoteRequestTopicData_codec]

definition VoteRequest_encode :: "vote_request \<Rightarrow> i16 \<Rightarrow> wire_error + bytes" where
  "VoteRequest_encode s version =
     (if version < 0 \<or> version > 2 then Inl UNSUPPORTED_VERSION
      else puts
        [CompactString_encode (vrq_cluster_id s),
         if version \<ge> 1 then Inr (Int32_encode (vrq_voter_id s)) else Inr [],
         CompactArray_encode (\<lambda>x. VoteRequestTopicData_encode x version) (Some (vrq_topics s)),
         put_tags [] 0 (vrq_unknown_tagged_fields s)])"

definition VoteRequest_compute_size :: "vote_request \<Rightarrow> i16 \<Rightarrow> wire_error + usize" where
  "VoteRequest_compute_size s version =
     sums
       [CompactString_compute_size (vrq_cluster_id s),
        if version \<ge> 1 then Inr 4 else Inr 0,
        CompactArray_compute_size None (\<lambda>x. VoteRequestTopicData_compute_size x version) (Some (vrq_topics s)),
        tags_size [] (vrq_unknown_tagged_fields s)]"

definition VoteRequest_decode :: "i16 \<Rightarrow> vote_request decoder" where
  "VoteRequest_decode version =
     (if version < 0 \<or> version > 2 then refuse UNSUPPORTED_VERSION
      else
        get CompactString_decode (\<lambda>cluster_id.
        get (if version \<ge> 1 then Int32_decode else give (- 1)) (\<lambda>voter_id.
        get (CompactArray_required (VoteRequestTopicData_decode version)) (\<lambda>topics.
        get get_unknown_tags (\<lambda>unknown_tagged_fields.
        give \<lparr>vrq_cluster_id = cluster_id, vrq_voter_id = voter_id, vrq_topics = topics,
               vrq_unknown_tagged_fields = unknown_tagged_fields\<rparr>)))))"

definition VoteRequest_ok :: "i16 \<Rightarrow> vote_request \<Rightarrow> bool" where
  "VoteRequest_ok version s \<longleftrightarrow>
     \<not> (version < 0 \<or> version > 2) \<and>
     string_ok (2 ^ 32 - 2) (vrq_cluster_id s) \<and>
     (if version \<ge> 1 then in_i32 (vrq_voter_id s) else vrq_voter_id s = - 1) \<and>
     seq_ok (2 ^ 32 - 2) (VoteRequestTopicData_ok version) (Some (vrq_topics s)) \<and>
     tags_ok 0 (vrq_unknown_tagged_fields s)"

lemma VoteRequest_codec [coded_intros]:
  "sized_codec (\<lambda>s. VoteRequest_encode s version) (VoteRequest_decode version)
     (\<lambda>s. VoteRequest_compute_size s version) (VoteRequest_ok version)"
  unfolding VoteRequest_encode_def VoteRequest_decode_def VoteRequest_compute_size_def
  by (rule sized_codecI) (rule coded_intros | (simp add: VoteRequest_ok_def; fail))+

lemmas VoteRequest_coded [coded_intros] = sized_codec.codes [OF VoteRequest_codec]

section \<open>Begin quorum epoch request\<close>

definition BeginQuorumEpochRequestPartitionData_encode :: "begin_quorum_epoch_request_partition_data \<Rightarrow> i16 \<Rightarrow> wire_error + bytes" where
  "BeginQuorumEpochRequestPartitionData_encode s version =
     (if version < 0 \<or> version > 1 then Inl UNSUPPORTED_VERSION
      else puts
        [Inr (Int32_encode (bqerqpd_partition_index s)),
         if version \<ge> 1 then Inr (Uuid_encode (bqerqpd_voter_directory_id s)) else Inr [],
         Inr (Int32_encode (bqerqpd_leader_id s)),
         Inr (Int32_encode (bqerqpd_leader_epoch s)),
         if version \<ge> 1 then put_tags [] 0 (bqerqpd_unknown_tagged_fields s) else Inr []])"

definition BeginQuorumEpochRequestPartitionData_compute_size :: "begin_quorum_epoch_request_partition_data \<Rightarrow> i16 \<Rightarrow> wire_error + usize" where
  "BeginQuorumEpochRequestPartitionData_compute_size s version =
     sums
       [Inr 4,
        if version \<ge> 1 then Inr 16 else Inr 0,
        Inr 4,
        Inr 4,
        if version \<ge> 1 then tags_size [] (bqerqpd_unknown_tagged_fields s) else Inr 0]"

definition BeginQuorumEpochRequestPartitionData_decode :: "i16 \<Rightarrow> begin_quorum_epoch_request_partition_data decoder" where
  "BeginQuorumEpochRequestPartitionData_decode version =
     (if version < 0 \<or> version > 1 then refuse UNSUPPORTED_VERSION
      else
        get Int32_decode (\<lambda>partition_index.
        get (if version \<ge> 1 then Uuid_decode else give nil_uuid) (\<lambda>voter_directory_id.
        get Int32_decode (\<lambda>leader_id.
        get Int32_decode (\<lambda>leader_epoch.
        get (if version \<ge> 1 then get_unknown_tags else give []) (\<lambda>unknown_tagged_fields.
        give \<lparr>bqerqpd_partition_index = partition_index,
               bqerqpd_voter_directory_id = voter_directory_id, bqerqpd_leader_id = leader_id,
               bqerqpd_leader_epoch = leader_epoch,
               bqerqpd_unknown_tagged_fields = unknown_tagged_fields\<rparr>))))))"

definition BeginQuorumEpochRequestPartitionData_ok :: "i16 \<Rightarrow> begin_quorum_epoch_request_partition_data \<Rightarrow> bool" where
  "BeginQuorumEpochRequestPartitionData_ok version s \<longleftrightarrow>
     \<not> (version < 0 \<or> version > 1) \<and>
     in_i32 (bqerqpd_partition_index s) \<and>
     (if version \<ge> 1 then True else bqerqpd_voter_directory_id s = nil_uuid) \<and>
     in_i32 (bqerqpd_leader_id s) \<and>
     in_i32 (bqerqpd_leader_epoch s) \<and>
     (if version \<ge> 1 then tags_ok 0 (bqerqpd_unknown_tagged_fields s) else bqerqpd_unknown_tagged_fields s = [])"

lemma BeginQuorumEpochRequestPartitionData_codec [coded_intros]:
  "sized_codec (\<lambda>s. BeginQuorumEpochRequestPartitionData_encode s version) (BeginQuorumEpochRequestPartitionData_decode version)
     (\<lambda>s. BeginQuorumEpochRequestPartitionData_compute_size s version) (BeginQuorumEpochRequestPartitionData_ok version)"
  unfolding BeginQuorumEpochRequestPartitionData_encode_def BeginQuorumEpochRequestPartitionData_decode_def BeginQuorumEpochRequestPartitionData_compute_size_def
  by (rule sized_codecI) (rule coded_intros | (clarsimp simp: BeginQuorumEpochRequestPartitionData_ok_def; fail))+

lemmas BeginQuorumEpochRequestPartitionData_coded [coded_intros] = sized_codec.codes [OF BeginQuorumEpochRequestPartitionData_codec]

definition BeginQuorumEpochRequestTopicData_encode :: "begin_quorum_epoch_request_topic_data \<Rightarrow> i16 \<Rightarrow> wire_error + bytes" where
  "BeginQuorumEpochRequestTopicData_encode s version =
     (if version < 0 \<or> version > 1 then Inl UNSUPPORTED_VERSION
      else puts
        [if version \<ge> 1
          then CompactString_encode (Some (bqerqtd_topic_name s))
          else String_encode (Some (bqerqtd_topic_name s)),
         if version \<ge> 1
          then CompactArray_encode (\<lambda>x. BeginQuorumEpochRequestPartitionData_encode x version) (Some (bqerqtd_partitions s))
          else Array_encode (\<lambda>x. BeginQuorumEpochRequestPartitionData_encode x version) (Some (bqerqtd_partitions s)),
         if version \<ge> 1 then put_tags [] 0 (bqerqtd_unknown_tagged_fields s) else Inr []])"

definition BeginQuorumEpochRequestTopicData_compute_size :: "begin_quorum_epoch_request_topic_data \<Rightarrow> i16 \<Rightarrow> wire_error + usize" where
  "BeginQuorumEpochRequestTopicData_compute_size s version =
     sums
       [if version \<ge> 1
         then CompactString_compute_size (Some (bqerqtd_topic_name s))
         else String_compute_size (Some (bqerqtd_topic_name s)),
        if version \<ge> 1
         then CompactArray_compute_size None (\<lambda>x. BeginQuorumEpochRequestPartitionData_compute_size x version) (Some (bqerqtd_partitions s))
         else Array_compute_size None (\<lambda>x. BeginQuorumEpochRequestPartitionData_compute_size x version) (Some (bqerqtd_partitions s)),
        if version \<ge> 1 then tags_size [] (bqerqtd_unknown_tagged_fields s) else Inr 0]"

definition BeginQuorumEpochRequestTopicData_decode :: "i16 \<Rightarrow> begin_quorum_epoch_request_topic_data decoder" where
  "BeginQuorumEpochRequestTopicData_decode version =
     (if version < 0 \<or> version > 1 then refuse UNSUPPORTED_VERSION
      else
        get (if version \<ge> 1 then CompactString_required else String_required) (\<lambda>topic_name.
        get (if version \<ge> 1
              then CompactArray_required (BeginQuorumEpochRequestPartitionData_decode version)
              else Array_required (BeginQuorumEpochRequestPartitionData_decode version)) (\<lambda>partitions.
        get (if version \<ge> 1 then get_unknown_tags else give []) (\<lambda>unknown_tagged_fields.
        give \<lparr>bqerqtd_topic_name = topic_name, bqerqtd_partitions = partitions,
               bqerqtd_unknown_tagged_fields = unknown_tagged_fields\<rparr>))))"

definition BeginQuorumEpochRequestTopicData_ok :: "i16 \<Rightarrow> begin_quorum_epoch_request_topic_data \<Rightarrow> bool" where
  "BeginQuorumEpochRequestTopicData_ok version s \<longleftrightarrow>
     \<not> (version < 0 \<or> version > 1) \<and>
     (if version \<ge> 1
       then string_ok (2 ^ 32 - 2) (Some (bqerqtd_topic_name s))
       else string_ok 32767 (Some (bqerqtd_topic_name s))) \<and>
     (if version \<ge> 1
       then seq_ok (2 ^ 32 - 2) (BeginQuorumEpochRequestPartitionData_ok version) (Some (bqerqtd_partitions s))
       else seq_ok (2 ^ 31 - 1) (BeginQuorumEpochRequestPartitionData_ok version) (Some (bqerqtd_partitions s))) \<and>
     (if version \<ge> 1 then tags_ok 0 (bqerqtd_unknown_tagged_fields s) else bqerqtd_unknown_tagged_fields s = [])"

lemma BeginQuorumEpochRequestTopicData_codec [coded_intros]:
  "sized_codec (\<lambda>s. BeginQuorumEpochRequestTopicData_encode s version) (BeginQuorumEpochRequestTopicData_decode version)
     (\<lambda>s. BeginQuorumEpochRequestTopicData_compute_size s version) (BeginQuorumEpochRequestTopicData_ok version)"
  unfolding BeginQuorumEpochRequestTopicData_encode_def BeginQuorumEpochRequestTopicData_decode_def BeginQuorumEpochRequestTopicData_compute_size_def
  by (rule sized_codecI) (rule coded_intros | (clarsimp simp: BeginQuorumEpochRequestTopicData_ok_def; fail))+

lemmas BeginQuorumEpochRequestTopicData_coded [coded_intros] = sized_codec.codes [OF BeginQuorumEpochRequestTopicData_codec]

definition BeginQuorumEpochRequestLeaderEndpoint_encode :: "begin_quorum_epoch_request_leader_endpoint \<Rightarrow> i16 \<Rightarrow> wire_error + bytes" where
  "BeginQuorumEpochRequestLeaderEndpoint_encode s version =
     (if version < 0 \<or> version > 1 then Inl UNSUPPORTED_VERSION
      else puts
        [if version \<ge> 1
          then CompactString_encode (Some (bqerqle_name s))
          else unset [] (bqerqle_name s = []),
         if version \<ge> 1
          then CompactString_encode (Some (bqerqle_host s))
          else unset [] (bqerqle_host s = []),
         if version \<ge> 1 then Inr (UInt16_encode (bqerqle_port s)) else unset [] (bqerqle_port s = 0),
         if version \<ge> 1 then put_tags [] 0 (bqerqle_unknown_tagged_fields s) else Inr []])"

definition BeginQuorumEpochRequestLeaderEndpoint_compute_size :: "begin_quorum_epoch_request_leader_endpoint \<Rightarrow> i16 \<Rightarrow> wire_error + usize" where
  "BeginQuorumEpochRequestLeaderEndpoint_compute_size s version =
     sums
       [if version \<ge> 1
         then CompactString_compute_size (Some (bqerqle_name s))
         else unset 0 (bqerqle_name s = []),
        if version \<ge> 1
         then CompactString_compute_size (Some (bqerqle_host s))
         else unset 0 (bqerqle_host s = []),
        if version \<ge> 1 then Inr 2 else unset 0 (bqerqle_port s = 0),
        if version \<ge> 1 then tags_size [] (bqerqle_unknown_tagged_fields s) else Inr 0]"

definition BeginQuorumEpochRequestLeaderEndpoint_decode :: "i16 \<Rightarrow> begin_quorum_epoch_request_leader_endpoint decoder" where
  "BeginQuorumEpochRequestLeaderEndpoint_decode version =
     (if version < 0 \<or> version > 1 then refuse UNSUPPORTED_VERSION
      else
        get (if version \<ge> 1 then CompactString_required else give []) (\<lambda>name.
        get (if version \<ge> 1 then CompactString_required else give []) (\<lambda>host.
        get (if version \<ge> 1 then UInt16_decode else give 0) (\<lambda>port.
        get (if version \<ge> 1 then get_unknown_tags else give []) (\<lambda>unknown_tagged_fields.
        give \<lparr>bqerqle_name = name, bqerqle_host = host, bqerqle_port = port,
               bqerqle_unknown_tagged_fields = unknown_tagged_fields\<rparr>)))))"

definition BeginQuorumEpochRequestLeaderEndpoint_ok :: "i16 \<Rightarrow> begin_quorum_epoch_request_leader_endpoint \<Rightarrow> bool" where
  "BeginQuorumEpochRequestLeaderEndpoint_ok version s \<longleftrightarrow>
     \<not> (version < 0 \<or> version > 1) \<and>
     (if version \<ge> 1 then string_ok (2 ^ 32 - 2) (Some (bqerqle_name s)) else bqerqle_name s = []) \<and>
     (if version \<ge> 1 then string_ok (2 ^ 32 - 2) (Some (bqerqle_host s)) else bqerqle_host s = []) \<and>
     (if version \<ge> 1 then in_u16 (bqerqle_port s) else bqerqle_port s = 0) \<and>
     (if version \<ge> 1 then tags_ok 0 (bqerqle_unknown_tagged_fields s) else bqerqle_unknown_tagged_fields s = [])"

lemma BeginQuorumEpochRequestLeaderEndpoint_codec [coded_intros]:
  "sized_codec (\<lambda>s. BeginQuorumEpochRequestLeaderEndpoint_encode s version) (BeginQuorumEpochRequestLeaderEndpoint_decode version)
     (\<lambda>s. BeginQuorumEpochRequestLeaderEndpoint_compute_size s version) (BeginQuorumEpochRequestLeaderEndpoint_ok version)"
  unfolding BeginQuorumEpochRequestLeaderEndpoint_encode_def BeginQuorumEpochRequestLeaderEndpoint_decode_def BeginQuorumEpochRequestLeaderEndpoint_compute_size_def
  by (rule sized_codecI) (rule coded_intros | (clarsimp simp: BeginQuorumEpochRequestLeaderEndpoint_ok_def; fail))+

lemmas BeginQuorumEpochRequestLeaderEndpoint_coded [coded_intros] = sized_codec.codes [OF BeginQuorumEpochRequestLeaderEndpoint_codec]

definition BeginQuorumEpochRequest_encode :: "begin_quorum_epoch_request \<Rightarrow> i16 \<Rightarrow> wire_error + bytes" where
  "BeginQuorumEpochRequest_encode s version =
     (if version < 0 \<or> version > 1 then Inl UNSUPPORTED_VERSION
      else puts
        [if version \<ge> 1
          then CompactString_encode (bqerq_cluster_id s)
          else String_encode (bqerq_cluster_id s),
         if version \<ge> 1 then Inr (Int32_encode (bqerq_voter_id s)) else Inr [],
         if version \<ge> 1
          then CompactArray_encode (\<lambda>x. BeginQuorumEpochRequestTopicData_encode x version) (Some (bqerq_topics s))
          else Array_encode (\<lambda>x. BeginQuorumEpochRequestTopicData_encode x version) (Some (bqerq_topics s)),
         if version \<ge> 1
          then CompactArray_encode (\<lambda>x. BeginQuorumEpochRequestLeaderEndpoint_encode x version) (Some (bqerq_leader_endpoints s))
          else Inr [],
         if version \<ge> 1 then put_tags [] 0 (bqerq_unknown_tagged_fields s) else Inr []])"

definition BeginQuorumEpochRequest_compute_size :: "begin_quorum_epoch_request \<Rightarrow> i16 \<Rightarrow> wire_error + usize" where
  "BeginQuorumEpochRequest_compute_size s version =
     sums
       [if version \<ge> 1
         then CompactString_compute_size (bqerq_cluster_id s)
         else String_compute_size (bqerq_cluster_id s),
        if version \<ge> 1 then Inr 4 else Inr 0,
        if version \<ge> 1
         then CompactArray_compute_size None (\<lambda>x. BeginQuorumEpochRequestTopicData_compute_size x version) (Some (bqerq_topics s))
         else Array_compute_size None (\<lambda>x. BeginQuorumEpochRequestTopicData_compute_size x version) (Some (bqerq_topics s)),
        if version \<ge> 1
         then CompactArray_compute_size None (\<lambda>x. BeginQuorumEpochRequestLeaderEndpoint_compute_size x version) (Some (bqerq_leader_endpoints s))
         else Inr 0,
        if version \<ge> 1 then tags_size [] (bqerq_unknown_tagged_fields s) else Inr 0]"

definition BeginQuorumEpochRequest_decode :: "i16 \<Rightarrow> begin_quorum_epoch_request decoder" where
  "BeginQuorumEpochRequest_decode version =
     (if version < 0 \<or> version > 1 then refuse UNSUPPORTED_VERSION
      else
        get (if version \<ge> 1 then CompactString_decode else String_decode) (\<lambda>cluster_id.
        get (if version \<ge> 1 then Int32_decode else give (- 1)) (\<lambda>voter_id.
        get (if version \<ge> 1
              then CompactArray_required (BeginQuorumEpochRequestTopicData_decode version)
              else Array_required (BeginQuorumEpochRequestTopicData_decode version)) (\<lambda>topics.
        get (if version \<ge> 1
              then CompactArray_required (BeginQuorumEpochRequestLeaderEndpoint_decode version)
              else give []) (\<lambda>leader_endpoints.
        get (if version \<ge> 1 then get_unknown_tags else give []) (\<lambda>unknown_tagged_fields.
        give \<lparr>bqerq_cluster_id = cluster_id, bqerq_voter_id = voter_id, bqerq_topics = topics,
               bqerq_leader_endpoints = leader_endpoints,
               bqerq_unknown_tagged_fields = unknown_tagged_fields\<rparr>))))))"

definition BeginQuorumEpochRequest_ok :: "i16 \<Rightarrow> begin_quorum_epoch_request \<Rightarrow> bool" where
  "BeginQuorumEpochRequest_ok version s \<longleftrightarrow>
     \<not> (version < 0 \<or> version > 1) \<and>
     (if version \<ge> 1
       then string_ok (2 ^ 32 - 2) (bqerq_cluster_id s)
       else string_ok 32767 (bqerq_cluster_id s)) \<and>
     (if version \<ge> 1 then in_i32 (bqerq_voter_id s) else bqerq_voter_id s = - 1) \<and>
     (if version \<ge> 1
       then seq_ok (2 ^ 32 - 2) (BeginQuorumEpochRequestTopicData_ok version) (Some (bqerq_topics s))
       else seq_ok (2 ^ 31 - 1) (BeginQuorumEpochRequestTopicData_ok version) (Some (bqerq_topics s))) \<and>
     (if version \<ge> 1
       then seq_ok (2 ^ 32 - 2) (BeginQuorumEpochRequestLeaderEndpoint_ok version) (Some (bqerq_leader_endpoints s))
       else bqerq_leader_endpoints s = []) \<and>
     (if version \<ge> 1 then tags_ok 0 (bqerq_unknown_tagged_fields s) else bqerq_unknown_tagged_fields s = [])"

lemma BeginQuorumEpochRequest_codec [coded_intros]:
  "sized_codec (\<lambda>s. BeginQuorumEpochRequest_encode s version) (BeginQuorumEpochRequest_decode version)
     (\<lambda>s. BeginQuorumEpochRequest_compute_size s version) (BeginQuorumEpochRequest_ok version)"
  unfolding BeginQuorumEpochRequest_encode_def BeginQuorumEpochRequest_decode_def BeginQuorumEpochRequest_compute_size_def
  by (rule sized_codecI) (rule coded_intros | (clarsimp simp: BeginQuorumEpochRequest_ok_def; fail))+

lemmas BeginQuorumEpochRequest_coded [coded_intros] = sized_codec.codes [OF BeginQuorumEpochRequest_codec]

section \<open>End quorum epoch request\<close>

definition ReplicaInfo_encode :: "replica_info \<Rightarrow> i16 \<Rightarrow> wire_error + bytes" where
  "ReplicaInfo_encode s version =
     (if version < 0 \<or> version > 1 then Inl UNSUPPORTED_VERSION
      else puts
        [if version \<ge> 1
          then Inr (Int32_encode (ri_candidate_id s))
          else unset [] (ri_candidate_id s = 0),
         if version \<ge> 1
          then Inr (Uuid_encode (ri_candidate_directory_id s))
          else unset [] (ri_candidate_directory_id s = nil_uuid),
         if version \<ge> 1 then put_tags [] 0 (ri_unknown_tagged_fields s) else Inr []])"

definition ReplicaInfo_compute_size :: "replica_info \<Rightarrow> i16 \<Rightarrow> wire_error + usize" where
  "ReplicaInfo_compute_size s version =
     sums
       [if version \<ge> 1 then Inr 4 else unset 0 (ri_candidate_id s = 0),
        if version \<ge> 1 then Inr 16 else unset 0 (ri_candidate_directory_id s = nil_uuid),
        if version \<ge> 1 then tags_size [] (ri_unknown_tagged_fields s) else Inr 0]"

definition ReplicaInfo_decode :: "i16 \<Rightarrow> replica_info decoder" where
  "ReplicaInfo_decode version =
     (if version < 0 \<or> version > 1 then refuse UNSUPPORTED_VERSION
      else
        get (if version \<ge> 1 then Int32_decode else give 0) (\<lambda>candidate_id.
        get (if version \<ge> 1 then Uuid_decode else give nil_uuid) (\<lambda>candidate_directory_id.
        get (if version \<ge> 1 then get_unknown_tags else give []) (\<lambda>unknown_tagged_fields.
        give \<lparr>ri_candidate_id = candidate_id,
               ri_candidate_directory_id = candidate_directory_id,
               ri_unknown_tagged_fields = unknown_tagged_fields\<rparr>))))"

definition ReplicaInfo_ok :: "i16 \<Rightarrow> replica_info \<Rightarrow> bool" where
  "ReplicaInfo_ok version s \<longleftrightarrow>
     \<not> (version < 0 \<or> version > 1) \<and>
     (if version \<ge> 1 then in_i32 (ri_candidate_id s) else ri_candidate_id s = 0) \<and>
     (if version \<ge> 1 then True else ri_candidate_directory_id s = nil_uuid) \<and>
     (if version \<ge> 1 then tags_ok 0 (ri_unknown_tagged_fields s) else ri_unknown_tagged_fields s = [])"

lemma ReplicaInfo_codec [coded_intros]:
  "sized_codec (\<lambda>s. ReplicaInfo_encode s version) (ReplicaInfo_decode version)
     (\<lambda>s. ReplicaInfo_compute_size s version) (ReplicaInfo_ok version)"
  unfolding ReplicaInfo_encode_def ReplicaInfo_decode_def ReplicaInfo_compute_size_def
  by (rule sized_codecI) (rule coded_intros | (clarsimp simp: ReplicaInfo_ok_def; fail))+

lemmas ReplicaInfo_coded [coded_intros] = sized_codec.codes [OF ReplicaInfo_codec]

definition EndQuorumEpochRequestPartitionData_encode :: "end_quorum_epoch_request_partition_data \<Rightarrow> i16 \<Rightarrow> wire_error + bytes" where
  "EndQuorumEpochRequestPartitionData_encode s version =
     (if version < 0 \<or> version > 1 then Inl UNSUPPORTED_VERSION
      else puts
        [Inr (Int32_encode (eqerqpd_partition_index s)),
         Inr (Int32_encode (eqerqpd_leader_id s)),
         Inr (Int32_encode (eqerqpd_leader_epoch s)),
         if version = 0
          then Array_encode (\<lambda>x. Inr (Int32_encode x)) (Some (eqerqpd_preferred_successors s))
          else Inr [],
         if version \<ge> 1
          then CompactArray_encode (\<lambda>x. ReplicaInfo_encode x version) (Some (eqerqpd_preferred_candidates s))
          else Inr [],
         if version \<ge> 1 then put_tags [] 0 (eqerqpd_unknown_tagged_fields s) else Inr []])"

definition EndQuorumEpochRequestPartitionData_compute_size :: "end_quorum_epoch_request_partition_data \<Rightarrow> i16 \<Rightarrow> wire_error + usize" where
  "EndQuorumEpochRequestPartitionData_compute_size s version =
     sums
       [Inr 4,
        Inr 4,
        Inr 4,
        if version = 0
         then Array_compute_size (Some 4) (\<lambda>_. Inr 4) (Some (eqerqpd_preferred_successors s))
         else Inr 0,
        if version \<ge> 1
         then CompactArray_compute_size None (\<lambda>x. ReplicaInfo_compute_size x version) (Some (eqerqpd_preferred_candidates s))
         else Inr 0,
        if version \<ge> 1 then tags_size [] (eqerqpd_unknown_tagged_fields s) else Inr 0]"

definition EndQuorumEpochRequestPartitionData_decode :: "i16 \<Rightarrow> end_quorum_epoch_request_partition_data decoder" where
  "EndQuorumEpochRequestPartitionData_decode version =
     (if version < 0 \<or> version > 1 then refuse UNSUPPORTED_VERSION
      else
        get Int32_decode (\<lambda>partition_index.
        get Int32_decode (\<lambda>leader_id.
        get Int32_decode (\<lambda>leader_epoch.
        get (if version = 0 then Array_required Int32_decode else give []) (\<lambda>preferred_successors.
        get (if version \<ge> 1 then CompactArray_required (ReplicaInfo_decode version) else give []) (\<lambda>preferred_candidates.
        get (if version \<ge> 1 then get_unknown_tags else give []) (\<lambda>unknown_tagged_fields.
        give \<lparr>eqerqpd_partition_index = partition_index, eqerqpd_leader_id = leader_id,
               eqerqpd_leader_epoch = leader_epoch,
               eqerqpd_preferred_successors = preferred_successors,
               eqerqpd_preferred_candidates = preferred_candidates,
               eqerqpd_unknown_tagged_fields = unknown_tagged_fields\<rparr>)))))))"

definition EndQuorumEpochRequestPartitionData_ok :: "i16 \<Rightarrow> end_quorum_epoch_request_partition_data \<Rightarrow> bool" where
  "EndQuorumEpochRequestPartitionData_ok version s \<longleftrightarrow>
     \<not> (version < 0 \<or> version > 1) \<and>
     in_i32 (eqerqpd_partition_index s) \<and>
     in_i32 (eqerqpd_leader_id s) \<and>
     in_i32 (eqerqpd_leader_epoch s) \<and>
     (if version = 0
       then seq_ok (2 ^ 31 - 1) in_i32 (Some (eqerqpd_preferred_successors s))
       else eqerqpd_preferred_successors s = []) \<and>
     (if version \<ge> 1
       then seq_ok (2 ^ 32 - 2) (ReplicaInfo_ok version) (Some (eqerqpd_preferred_candidates s))
       else eqerqpd_preferred_candidates s = []) \<and>
     (if version \<ge> 1 then tags_ok 0 (eqerqpd_unknown_tagged_fields s) else eqerqpd_unknown_tagged_fields s = [])"

lemma EndQuorumEpochRequestPartitionData_codec [coded_intros]:
  "sized_codec (\<lambda>s. EndQuorumEpochRequestPartitionData_encode s version) (EndQuorumEpochRequestPartitionData_decode version)
     (\<lambda>s. EndQuorumEpochRequestPartitionData_compute_size s version) (EndQuorumEpochRequestPartitionData_ok version)"
  unfolding EndQuorumEpochRequestPartitionData_encode_def EndQuorumEpochRequestPartitionData_decode_def EndQuorumEpochRequestPartitionData_compute_size_def
  by (rule sized_codecI) (rule coded_intros | (clarsimp simp: EndQuorumEpochRequestPartitionData_ok_def; fail))+

lemmas EndQuorumEpochRequestPartitionData_coded [coded_intros] = sized_codec.codes [OF EndQuorumEpochRequestPartitionData_codec]

definition EndQuorumEpochRequestTopicData_encode :: "end_quorum_epoch_request_topic_data \<Rightarrow> i16 \<Rightarrow> wire_error + bytes" where
  "EndQuorumEpochRequestTopicData_encode s version =
     (if version < 0 \<or> version > 1 then Inl UNSUPPORTED_VERSION
      else puts
        [if version \<ge> 1
          then CompactString_encode (Some (eqerqtd_topic_name s))
          else String_encode (Some (eqerqtd_topic_name s)),
         if version \<ge> 1
          then CompactArray_encode (\<lambda>x. EndQuorumEpochRequestPartitionData_encode x version) (Some (eqerqtd_partitions s))
          else Array_encode (\<lambda>x. EndQuorumEpochRequestPartitionData_encode x version) (Some (eqerqtd_partitions s)),
         if version \<ge> 1 then put_tags [] 0 (eqerqtd_unknown_tagged_fields s) else Inr []])"

definition EndQuorumEpochRequestTopicData_compute_size :: "end_quorum_epoch_request_topic_data \<Rightarrow> i16 \<Rightarrow> wire_error + usize" where
  "EndQuorumEpochRequestTopicData_compute_size s version =
     sums
       [if version \<ge> 1
         then CompactString_compute_size (Some (eqerqtd_topic_name s))
         else String_compute_size (Some (eqerqtd_topic_name s)),
        if version \<ge> 1
         then CompactArray_compute_size None (\<lambda>x. EndQuorumEpochRequestPartitionData_compute_size x version) (Some (eqerqtd_partitions s))
         else Array_compute_size None (\<lambda>x. EndQuorumEpochRequestPartitionData_compute_size x version) (Some (eqerqtd_partitions s)),
        if version \<ge> 1 then tags_size [] (eqerqtd_unknown_tagged_fields s) else Inr 0]"

definition EndQuorumEpochRequestTopicData_decode :: "i16 \<Rightarrow> end_quorum_epoch_request_topic_data decoder" where
  "EndQuorumEpochRequestTopicData_decode version =
     (if version < 0 \<or> version > 1 then refuse UNSUPPORTED_VERSION
      else
        get (if version \<ge> 1 then CompactString_required else String_required) (\<lambda>topic_name.
        get (if version \<ge> 1
              then CompactArray_required (EndQuorumEpochRequestPartitionData_decode version)
              else Array_required (EndQuorumEpochRequestPartitionData_decode version)) (\<lambda>partitions.
        get (if version \<ge> 1 then get_unknown_tags else give []) (\<lambda>unknown_tagged_fields.
        give \<lparr>eqerqtd_topic_name = topic_name, eqerqtd_partitions = partitions,
               eqerqtd_unknown_tagged_fields = unknown_tagged_fields\<rparr>))))"

definition EndQuorumEpochRequestTopicData_ok :: "i16 \<Rightarrow> end_quorum_epoch_request_topic_data \<Rightarrow> bool" where
  "EndQuorumEpochRequestTopicData_ok version s \<longleftrightarrow>
     \<not> (version < 0 \<or> version > 1) \<and>
     (if version \<ge> 1
       then string_ok (2 ^ 32 - 2) (Some (eqerqtd_topic_name s))
       else string_ok 32767 (Some (eqerqtd_topic_name s))) \<and>
     (if version \<ge> 1
       then seq_ok (2 ^ 32 - 2) (EndQuorumEpochRequestPartitionData_ok version) (Some (eqerqtd_partitions s))
       else seq_ok (2 ^ 31 - 1) (EndQuorumEpochRequestPartitionData_ok version) (Some (eqerqtd_partitions s))) \<and>
     (if version \<ge> 1 then tags_ok 0 (eqerqtd_unknown_tagged_fields s) else eqerqtd_unknown_tagged_fields s = [])"

lemma EndQuorumEpochRequestTopicData_codec [coded_intros]:
  "sized_codec (\<lambda>s. EndQuorumEpochRequestTopicData_encode s version) (EndQuorumEpochRequestTopicData_decode version)
     (\<lambda>s. EndQuorumEpochRequestTopicData_compute_size s version) (EndQuorumEpochRequestTopicData_ok version)"
  unfolding EndQuorumEpochRequestTopicData_encode_def EndQuorumEpochRequestTopicData_decode_def EndQuorumEpochRequestTopicData_compute_size_def
  by (rule sized_codecI) (rule coded_intros | (clarsimp simp: EndQuorumEpochRequestTopicData_ok_def; fail))+

lemmas EndQuorumEpochRequestTopicData_coded [coded_intros] = sized_codec.codes [OF EndQuorumEpochRequestTopicData_codec]

definition EndQuorumEpochRequestLeaderEndpoint_encode :: "end_quorum_epoch_request_leader_endpoint \<Rightarrow> i16 \<Rightarrow> wire_error + bytes" where
  "EndQuorumEpochRequestLeaderEndpoint_encode s version =
     (if version < 0 \<or> version > 1 then Inl UNSUPPORTED_VERSION
      else puts
        [if version \<ge> 1
          then CompactString_encode (Some (eqerqle_name s))
          else unset [] (eqerqle_name s = []),
         if version \<ge> 1
          then CompactString_encode (Some (eqerqle_host s))
          else unset [] (eqerqle_host s = []),
         if version \<ge> 1 then Inr (UInt16_encode (eqerqle_port s)) else unset [] (eqerqle_port s = 0),
         if version \<ge> 1 then put_tags [] 0 (eqerqle_unknown_tagged_fields s) else Inr []])"

definition EndQuorumEpochRequestLeaderEndpoint_compute_size :: "end_quorum_epoch_request_leader_endpoint \<Rightarrow> i16 \<Rightarrow> wire_error + usize" where
  "EndQuorumEpochRequestLeaderEndpoint_compute_size s version =
     sums
       [if version \<ge> 1
         then CompactString_compute_size (Some (eqerqle_name s))
         else unset 0 (eqerqle_name s = []),
        if version \<ge> 1
         then CompactString_compute_size (Some (eqerqle_host s))
         else unset 0 (eqerqle_host s = []),
        if version \<ge> 1 then Inr 2 else unset 0 (eqerqle_port s = 0),
        if version \<ge> 1 then tags_size [] (eqerqle_unknown_tagged_fields s) else Inr 0]"

definition EndQuorumEpochRequestLeaderEndpoint_decode :: "i16 \<Rightarrow> end_quorum_epoch_request_leader_endpoint decoder" where
  "EndQuorumEpochRequestLeaderEndpoint_decode version =
     (if version < 0 \<or> version > 1 then refuse UNSUPPORTED_VERSION
      else
        get (if version \<ge> 1 then CompactString_required else give []) (\<lambda>name.
        get (if version \<ge> 1 then CompactString_required else give []) (\<lambda>host.
        get (if version \<ge> 1 then UInt16_decode else give 0) (\<lambda>port.
        get (if version \<ge> 1 then get_unknown_tags else give []) (\<lambda>unknown_tagged_fields.
        give \<lparr>eqerqle_name = name, eqerqle_host = host, eqerqle_port = port,
               eqerqle_unknown_tagged_fields = unknown_tagged_fields\<rparr>)))))"

definition EndQuorumEpochRequestLeaderEndpoint_ok :: "i16 \<Rightarrow> end_quorum_epoch_request_leader_endpoint \<Rightarrow> bool" where
  "EndQuorumEpochRequestLeaderEndpoint_ok version s \<longleftrightarrow>
     \<not> (version < 0 \<or> version > 1) \<and>
     (if version \<ge> 1 then string_ok (2 ^ 32 - 2) (Some (eqerqle_name s)) else eqerqle_name s = []) \<and>
     (if version \<ge> 1 then string_ok (2 ^ 32 - 2) (Some (eqerqle_host s)) else eqerqle_host s = []) \<and>
     (if version \<ge> 1 then in_u16 (eqerqle_port s) else eqerqle_port s = 0) \<and>
     (if version \<ge> 1 then tags_ok 0 (eqerqle_unknown_tagged_fields s) else eqerqle_unknown_tagged_fields s = [])"

lemma EndQuorumEpochRequestLeaderEndpoint_codec [coded_intros]:
  "sized_codec (\<lambda>s. EndQuorumEpochRequestLeaderEndpoint_encode s version) (EndQuorumEpochRequestLeaderEndpoint_decode version)
     (\<lambda>s. EndQuorumEpochRequestLeaderEndpoint_compute_size s version) (EndQuorumEpochRequestLeaderEndpoint_ok version)"
  unfolding EndQuorumEpochRequestLeaderEndpoint_encode_def EndQuorumEpochRequestLeaderEndpoint_decode_def EndQuorumEpochRequestLeaderEndpoint_compute_size_def
  by (rule sized_codecI) (rule coded_intros | (clarsimp simp: EndQuorumEpochRequestLeaderEndpoint_ok_def; fail))+

lemmas EndQuorumEpochRequestLeaderEndpoint_coded [coded_intros] = sized_codec.codes [OF EndQuorumEpochRequestLeaderEndpoint_codec]

definition EndQuorumEpochRequest_encode :: "end_quorum_epoch_request \<Rightarrow> i16 \<Rightarrow> wire_error + bytes" where
  "EndQuorumEpochRequest_encode s version =
     (if version < 0 \<or> version > 1 then Inl UNSUPPORTED_VERSION
      else puts
        [if version \<ge> 1
          then CompactString_encode (eqerq_cluster_id s)
          else String_encode (eqerq_cluster_id s),
         if version \<ge> 1
          then CompactArray_encode (\<lambda>x. EndQuorumEpochRequestTopicData_encode x version) (Some (eqerq_topics s))
          else Array_encode (\<lambda>x. EndQuorumEpochRequestTopicData_encode x version) (Some (eqerq_topics s)),
         if version \<ge> 1
          then CompactArray_encode (\<lambda>x. EndQuorumEpochRequestLeaderEndpoint_encode x version) (Some (eqerq_leader_endpoints s))
          else Inr [],
         if version \<ge> 1 then put_tags [] 0 (eqerq_unknown_tagged_fields s) else Inr []])"

definition EndQuorumEpochRequest_compute_size :: "end_quorum_epoch_request \<Rightarrow> i16 \<Rightarrow> wire_error + usize" where
  "EndQuorumEpochRequest_compute_size s version =
     sums
       [if version \<ge> 1
         then CompactString_compute_size (eqerq_cluster_id s)
         else String_compute_size (eqerq_cluster_id s),
        if version \<ge> 1
         then CompactArray_compute_size None (\<lambda>x. EndQuorumEpochRequestTopicData_compute_size x version) (Some (eqerq_topics s))
         else Array_compute_size None (\<lambda>x. EndQuorumEpochRequestTopicData_compute_size x version) (Some (eqerq_topics s)),
        if version \<ge> 1
         then CompactArray_compute_size None (\<lambda>x. EndQuorumEpochRequestLeaderEndpoint_compute_size x version) (Some (eqerq_leader_endpoints s))
         else Inr 0,
        if version \<ge> 1 then tags_size [] (eqerq_unknown_tagged_fields s) else Inr 0]"

definition EndQuorumEpochRequest_decode :: "i16 \<Rightarrow> end_quorum_epoch_request decoder" where
  "EndQuorumEpochRequest_decode version =
     (if version < 0 \<or> version > 1 then refuse UNSUPPORTED_VERSION
      else
        get (if version \<ge> 1 then CompactString_decode else String_decode) (\<lambda>cluster_id.
        get (if version \<ge> 1
              then CompactArray_required (EndQuorumEpochRequestTopicData_decode version)
              else Array_required (EndQuorumEpochRequestTopicData_decode version)) (\<lambda>topics.
        get (if version \<ge> 1
              then CompactArray_required (EndQuorumEpochRequestLeaderEndpoint_decode version)
              else give []) (\<lambda>leader_endpoints.
        get (if version \<ge> 1 then get_unknown_tags else give []) (\<lambda>unknown_tagged_fields.
        give \<lparr>eqerq_cluster_id = cluster_id, eqerq_topics = topics,
               eqerq_leader_endpoints = leader_endpoints,
               eqerq_unknown_tagged_fields = unknown_tagged_fields\<rparr>)))))"

definition EndQuorumEpochRequest_ok :: "i16 \<Rightarrow> end_quorum_epoch_request \<Rightarrow> bool" where
  "EndQuorumEpochRequest_ok version s \<longleftrightarrow>
     \<not> (version < 0 \<or> version > 1) \<and>
     (if version \<ge> 1
       then string_ok (2 ^ 32 - 2) (eqerq_cluster_id s)
       else string_ok 32767 (eqerq_cluster_id s)) \<and>
     (if version \<ge> 1
       then seq_ok (2 ^ 32 - 2) (EndQuorumEpochRequestTopicData_ok version) (Some (eqerq_topics s))
       else seq_ok (2 ^ 31 - 1) (EndQuorumEpochRequestTopicData_ok version) (Some (eqerq_topics s))) \<and>
     (if version \<ge> 1
       then seq_ok (2 ^ 32 - 2) (EndQuorumEpochRequestLeaderEndpoint_ok version) (Some (eqerq_leader_endpoints s))
       else eqerq_leader_endpoints s = []) \<and>
     (if version \<ge> 1 then tags_ok 0 (eqerq_unknown_tagged_fields s) else eqerq_unknown_tagged_fields s = [])"

lemma EndQuorumEpochRequest_codec [coded_intros]:
  "sized_codec (\<lambda>s. EndQuorumEpochRequest_encode s version) (EndQuorumEpochRequest_decode version)
     (\<lambda>s. EndQuorumEpochRequest_compute_size s version) (EndQuorumEpochRequest_ok version)"
  unfolding EndQuorumEpochRequest_encode_def EndQuorumEpochRequest_decode_def EndQuorumEpochRequest_compute_size_def
  by (rule sized_codecI) (rule coded_intros | (clarsimp simp: EndQuorumEpochRequest_ok_def; fail))+

lemmas EndQuorumEpochRequest_coded [coded_intros] = sized_codec.codes [OF EndQuorumEpochRequest_codec]

section \<open>Describe quorum request\<close>

definition DescribeQuorumRequestPartitionData_encode :: "describe_quorum_request_partition_data \<Rightarrow> i16 \<Rightarrow> wire_error + bytes" where
  "DescribeQuorumRequestPartitionData_encode s version =
     (if version < 0 \<or> version > 2 then Inl UNSUPPORTED_VERSION
      else puts
        [Inr (Int32_encode (dqrqpd_partition_index s)),
         put_tags [] 0 (dqrqpd_unknown_tagged_fields s)])"

definition DescribeQuorumRequestPartitionData_compute_size :: "describe_quorum_request_partition_data \<Rightarrow> i16 \<Rightarrow> wire_error + usize" where
  "DescribeQuorumRequestPartitionData_compute_size s version =
     sums
       [Inr 4,
        tags_size [] (dqrqpd_unknown_tagged_fields s)]"

definition DescribeQuorumRequestPartitionData_decode :: "i16 \<Rightarrow> describe_quorum_request_partition_data decoder" where
  "DescribeQuorumRequestPartitionData_decode version =
     (if version < 0 \<or> version > 2 then refuse UNSUPPORTED_VERSION
      else
        get Int32_decode (\<lambda>partition_index.
        get get_unknown_tags (\<lambda>unknown_tagged_fields.
        give \<lparr>dqrqpd_partition_index = partition_index,
               dqrqpd_unknown_tagged_fields = unknown_tagged_fields\<rparr>)))"

definition DescribeQuorumRequestPartitionData_ok :: "i16 \<Rightarrow> describe_quorum_request_partition_data \<Rightarrow> bool" where
  "DescribeQuorumRequestPartitionData_ok version s \<longleftrightarrow>
     \<not> (version < 0 \<or> version > 2) \<and>
     in_i32 (dqrqpd_partition_index s) \<and>
     tags_ok 0 (dqrqpd_unknown_tagged_fields s)"

lemma DescribeQuorumRequestPartitionData_codec [coded_intros]:
  "sized_codec (\<lambda>s. DescribeQuorumRequestPartitionData_encode s version) (DescribeQuorumRequestPartitionData_decode version)
     (\<lambda>s. DescribeQuorumRequestPartitionData_compute_size s version) (DescribeQuorumRequestPartitionData_ok version)"
  unfolding DescribeQuorumRequestPartitionData_encode_def DescribeQuorumRequestPartitionData_decode_def DescribeQuorumRequestPartitionData_compute_size_def
  by (rule sized_codecI) (rule coded_intros | (simp add: DescribeQuorumRequestPartitionData_ok_def; fail))+

lemmas DescribeQuorumRequestPartitionData_coded [coded_intros] = sized_codec.codes [OF DescribeQuorumRequestPartitionData_codec]

definition DescribeQuorumRequestTopicData_encode :: "describe_quorum_request_topic_data \<Rightarrow> i16 \<Rightarrow> wire_error + bytes" where
  "DescribeQuorumRequestTopicData_encode s version =
     (if version < 0 \<or> version > 2 then Inl UNSUPPORTED_VERSION
      else puts
        [CompactString_encode (Some (dqrqtd_topic_name s)),
         CompactArray_encode (\<lambda>x. DescribeQuorumRequestPartitionData_encode x version) (Some (dqrqtd_partitions s)),
         put_tags [] 0 (dqrqtd_unknown_tagged_fields s)])"

definition DescribeQuorumRequestTopicData_compute_size :: "describe_quorum_request_topic_data \<Rightarrow> i16 \<Rightarrow> wire_error + usize" where
  "DescribeQuorumRequestTopicData_compute_size s version =
     sums
       [CompactString_compute_size (Some (dqrqtd_topic_name s)),
        CompactArray_compute_size None (\<lambda>x. DescribeQuorumRequestPartitionData_compute_size x version) (Some (dqrqtd_partitions s)),
        tags_size [] (dqrqtd_unknown_tagged_fields s)]"

definition DescribeQuorumRequestTopicData_decode :: "i16 \<Rightarrow> describe_quorum_request_topic_data decoder" where
  "DescribeQuorumRequestTopicData_decode version =
     (if version < 0 \<or> version > 2 then refuse UNSUPPORTED_VERSION
      else
        get CompactString_required (\<lambda>topic_name.
        get (CompactArray_required (DescribeQuorumRequestPartitionData_decode version)) (\<lambda>partitions.
        get get_unknown_tags (\<lambda>unknown_tagged_fields.
        give \<lparr>dqrqtd_topic_name = topic_name, dqrqtd_partitions = partitions,
               dqrqtd_unknown_tagged_fields = unknown_tagged_fields\<rparr>))))"

definition DescribeQuorumRequestTopicData_ok :: "i16 \<Rightarrow> describe_quorum_request_topic_data \<Rightarrow> bool" where
  "DescribeQuorumRequestTopicData_ok version s \<longleftrightarrow>
     \<not> (version < 0 \<or> version > 2) \<and>
     string_ok (2 ^ 32 - 2) (Some (dqrqtd_topic_name s)) \<and>
     seq_ok (2 ^ 32 - 2) (DescribeQuorumRequestPartitionData_ok version) (Some (dqrqtd_partitions s)) \<and>
     tags_ok 0 (dqrqtd_unknown_tagged_fields s)"

lemma DescribeQuorumRequestTopicData_codec [coded_intros]:
  "sized_codec (\<lambda>s. DescribeQuorumRequestTopicData_encode s version) (DescribeQuorumRequestTopicData_decode version)
     (\<lambda>s. DescribeQuorumRequestTopicData_compute_size s version) (DescribeQuorumRequestTopicData_ok version)"
  unfolding DescribeQuorumRequestTopicData_encode_def DescribeQuorumRequestTopicData_decode_def DescribeQuorumRequestTopicData_compute_size_def
  by (rule sized_codecI) (rule coded_intros | (simp add: DescribeQuorumRequestTopicData_ok_def; fail))+

lemmas DescribeQuorumRequestTopicData_coded [coded_intros] = sized_codec.codes [OF DescribeQuorumRequestTopicData_codec]

definition DescribeQuorumRequest_encode :: "describe_quorum_request \<Rightarrow> i16 \<Rightarrow> wire_error + bytes" where
  "DescribeQuorumRequest_encode s version =
     (if version < 0 \<or> version > 2 then Inl UNSUPPORTED_VERSION
      else puts
        [CompactArray_encode (\<lambda>x. DescribeQuorumRequestTopicData_encode x version) (Some (dqrq_topics s)),
         put_tags [] 0 (dqrq_unknown_tagged_fields s)])"

definition DescribeQuorumRequest_compute_size :: "describe_quorum_request \<Rightarrow> i16 \<Rightarrow> wire_error + usize" where
  "DescribeQuorumRequest_compute_size s version =
     sums
       [CompactArray_compute_size None (\<lambda>x. DescribeQuorumRequestTopicData_compute_size x version) (Some (dqrq_topics s)),
        tags_size [] (dqrq_unknown_tagged_fields s)]"

definition DescribeQuorumRequest_decode :: "i16 \<Rightarrow> describe_quorum_request decoder" where
  "DescribeQuorumRequest_decode version =
     (if version < 0 \<or> version > 2 then refuse UNSUPPORTED_VERSION
      else
        get (CompactArray_required (DescribeQuorumRequestTopicData_decode version)) (\<lambda>topics.
        get get_unknown_tags (\<lambda>unknown_tagged_fields.
        give \<lparr>dqrq_topics = topics, dqrq_unknown_tagged_fields = unknown_tagged_fields\<rparr>)))"

definition DescribeQuorumRequest_ok :: "i16 \<Rightarrow> describe_quorum_request \<Rightarrow> bool" where
  "DescribeQuorumRequest_ok version s \<longleftrightarrow>
     \<not> (version < 0 \<or> version > 2) \<and>
     seq_ok (2 ^ 32 - 2) (DescribeQuorumRequestTopicData_ok version) (Some (dqrq_topics s)) \<and>
     tags_ok 0 (dqrq_unknown_tagged_fields s)"

lemma DescribeQuorumRequest_codec [coded_intros]:
  "sized_codec (\<lambda>s. DescribeQuorumRequest_encode s version) (DescribeQuorumRequest_decode version)
     (\<lambda>s. DescribeQuorumRequest_compute_size s version) (DescribeQuorumRequest_ok version)"
  unfolding DescribeQuorumRequest_encode_def DescribeQuorumRequest_decode_def DescribeQuorumRequest_compute_size_def
  by (rule sized_codecI) (rule coded_intros | (simp add: DescribeQuorumRequest_ok_def; fail))+

lemmas DescribeQuorumRequest_coded [coded_intros] = sized_codec.codes [OF DescribeQuorumRequest_codec]

section \<open>Fetch snapshot request\<close>

definition FetchSnapshotRequestSnapshotId_encode :: "fetch_snapshot_request_snapshot_id \<Rightarrow> i16 \<Rightarrow> wire_error + bytes" where
  "FetchSnapshotRequestSnapshotId_encode s version =
     (if version < 0 \<or> version > 1 then Inl UNSUPPORTED_VERSION
      else puts
        [Inr (Int64_encode (fsrqsi_end_offset s)),
         Inr (Int32_encode (fsrqsi_epoch s)),
         put_tags [] 0 (fsrqsi_unknown_tagged_fields s)])"

definition FetchSnapshotRequestSnapshotId_compute_size :: "fetch_snapshot_request_snapshot_id \<Rightarrow> i16 \<Rightarrow> wire_error + usize" where
  "FetchSnapshotRequestSnapshotId_compute_size s version =
     sums
       [Inr 8,
        Inr 4,
        tags_size [] (fsrqsi_unknown_tagged_fields s)]"

definition FetchSnapshotRequestSnapshotId_decode :: "i16 \<Rightarrow> fetch_snapshot_request_snapshot_id decoder" where
  "FetchSnapshotRequestSnapshotId_decode version =
     (if version < 0 \<or> version > 1 then refuse UNSUPPORTED_VERSION
      else
        get Int64_decode (\<lambda>end_offset.
        get Int32_decode (\<lambda>epoch.
        get get_unknown_tags (\<lambda>unknown_tagged_fields.
        give \<lparr>fsrqsi_end_offset = end_offset, fsrqsi_epoch = epoch,
               fsrqsi_unknown_tagged_fields = unknown_tagged_fields\<rparr>))))"

definition FetchSnapshotRequestSnapshotId_ok :: "i16 \<Rightarrow> fetch_snapshot_request_snapshot_id \<Rightarrow> bool" where
  "FetchSnapshotRequestSnapshotId_ok version s \<longleftrightarrow>
     \<not> (version < 0 \<or> version > 1) \<and>
     in_i64 (fsrqsi_end_offset s) \<and>
     in_i32 (fsrqsi_epoch s) \<and>
     tags_ok 0 (fsrqsi_unknown_tagged_fields s)"

lemma FetchSnapshotRequestSnapshotId_codec [coded_intros]:
  "sized_codec (\<lambda>s. FetchSnapshotRequestSnapshotId_encode s version) (FetchSnapshotRequestSnapshotId_decode version)
     (\<lambda>s. FetchSnapshotRequestSnapshotId_compute_size s version) (FetchSnapshotRequestSnapshotId_ok version)"
  unfolding FetchSnapshotRequestSnapshotId_encode_def FetchSnapshotRequestSnapshotId_decode_def FetchSnapshotRequestSnapshotId_compute_size_def
  by (rule sized_codecI) (rule coded_intros | (simp add: FetchSnapshotRequestSnapshotId_ok_def; fail))+

lemmas FetchSnapshotRequestSnapshotId_coded [coded_intros] = sized_codec.codes [OF FetchSnapshotRequestSnapshotId_codec]

definition PartitionSnapshot_encode :: "partition_snapshot \<Rightarrow> i16 \<Rightarrow> wire_error + bytes" where
  "PartitionSnapshot_encode s version =
     (if version < 0 \<or> version > 1 then Inl UNSUPPORTED_VERSION
      else puts
        [Inr (Int32_encode (ps2_partition s)),
         Inr (Int32_encode (ps2_current_leader_epoch s)),
         FetchSnapshotRequestSnapshotId_encode (ps2_snapshot_id s) version,
         Inr (Int64_encode (ps2_position s)),
         put_tags 
             [(version \<ge> 1 \<and> ps2_replica_directory_id s \<noteq> nil_uuid, put_tag 0 (Inr 16) (Inr (Uuid_encode (ps2_replica_directory_id s))))] 1 (ps2_unknown_tagged_fields s)])"

definition PartitionSnapshot_compute_size :: "partition_snapshot \<Rightarrow> i16 \<Rightarrow> wire_error + usize" where
  "PartitionSnapshot_compute_size s version =
     sums
       [Inr 4,
        Inr 4,
        FetchSnapshotRequestSnapshotId_compute_size (ps2_snapshot_id s) version,
        Inr 8,
        tags_size 
            [(version \<ge> 1 \<and> ps2_replica_directory_id s \<noteq> nil_uuid, tag_size 0 (Inr 16))] (ps2_unknown_tagged_fields s)]"

definition PartitionSnapshot_decode :: "i16 \<Rightarrow> partition_snapshot decoder" where
  "PartitionSnapshot_decode version =
     (if version < 0 \<or> version > 1 then refuse UNSUPPORTED_VERSION
      else
        get Int32_decode (\<lambda>partition.
        get Int32_decode (\<lambda>current_leader_epoch.
        get (FetchSnapshotRequestSnapshotId_decode version) (\<lambda>snapshot_id.
        get Int64_decode (\<lambda>position.
        get (get_tags (\<lambda>tag replica_directory_id.
              if tag = 0 then Some (if version \<ge> 1 then get Uuid_decode (\<lambda>x. give x)
                   else refuse (Bail ''Tag is not valid for version''))
              else None) nil_uuid) (\<lambda>(replica_directory_id, unknown_tagged_fields).
        give \<lparr>ps2_partition = partition, ps2_current_leader_epoch = current_leader_epoch,
               ps2_snapshot_id = snapshot_id, ps2_position = position,
               ps2_replica_directory_id = replica_directory_id,
               ps2_unknown_tagged_fields = unknown_tagged_fields\<rparr>))))))"

definition PartitionSnapshot_ok :: "i16 \<Rightarrow> partition_snapshot \<Rightarrow> bool" where
  "PartitionSnapshot_ok version s \<longleftrightarrow>
     \<not> (version < 0 \<or> version > 1) \<and>
     in_i32 (ps2_partition s) \<and>
     in_i32 (ps2_current_leader_epoch s) \<and>
     FetchSnapshotRequestSnapshotId_ok version (ps2_snapshot_id s) \<and>
     in_i64 (ps2_position s) \<and>
     (if version \<ge> 1 then True else ps2_replica_directory_id s = nil_uuid) \<and>
     tags_ok 1 (ps2_unknown_tagged_fields s)"

lemma PartitionSnapshot_codec [coded_intros]:
  "sized_codec (\<lambda>s. PartitionSnapshot_encode s version) (PartitionSnapshot_decode version)
     (\<lambda>s. PartitionSnapshot_compute_size s version) (PartitionSnapshot_ok version)"
  unfolding PartitionSnapshot_encode_def PartitionSnapshot_decode_def PartitionSnapshot_compute_size_def
  by (rule sized_codecI) (rule coded_intros | simp only: prod.case | (simp; fail) | (simp add: PartitionSnapshot_ok_def; fail)
    | (auto simp: PartitionSnapshot_ok_def split: if_splits; fail))+

lemmas PartitionSnapshot_coded [coded_intros] = sized_codec.codes [OF PartitionSnapshot_codec]

definition TopicSnapshot_encode :: "topic_snapshot \<Rightarrow> i16 \<Rightarrow> wire_error + bytes" where
  "TopicSnapshot_encode s version =
     (if version < 0 \<or> version > 1 then Inl UNSUPPORTED_VERSION
      else puts
        [CompactString_encode (Some (ts_name s)),
         CompactArray_encode (\<lambda>x. PartitionSnapshot_encode x version) (Some (ts_partitions s)),
         put_tags [] 0 (ts_unknown_tagged_fields s)])"

definition TopicSnapshot_compute_size :: "topic_snapshot \<Rightarrow> i16 \<Rightarrow> wire_error + usize" where
  "TopicSnapshot_compute_size s version =
     sums
       [CompactString_compute_size (Some (ts_name s)),
        CompactArray_compute_size None (\<lambda>x. PartitionSnapshot_compute_size x version) (Some (ts_partitions s)),
        tags_size [] (ts_unknown_tagged_fields s)]"

definition TopicSnapshot_decode :: "i16 \<Rightarrow> topic_snapshot decoder" where
  "TopicSnapshot_decode version =
     (if version < 0 \<or> version > 1 then refuse UNSUPPORTED_VERSION
      else
        get CompactString_required (\<lambda>name.
        get (CompactArray_required (PartitionSnapshot_decode version)) (\<lambda>partitions.
        get get_unknown_tags (\<lambda>unknown_tagged_fields.
        give \<lparr>ts_name = name, ts_partitions = partitions,
               ts_unknown_tagged_fields = unknown_tagged_fields\<rparr>))))"

definition TopicSnapshot_ok :: "i16 \<Rightarrow> topic_snapshot \<Rightarrow> bool" where
  "TopicSnapshot_ok version s \<longleftrightarrow>
     \<not> (version < 0 \<or> version > 1) \<and>
     string_ok (2 ^ 32 - 2) (Some (ts_name s)) \<and>
     seq_ok (2 ^ 32 - 2) (PartitionSnapshot_ok version) (Some (ts_partitions s)) \<and>
     tags_ok 0 (ts_unknown_tagged_fields s)"

lemma TopicSnapshot_codec [coded_intros]:
  "sized_codec (\<lambda>s. TopicSnapshot_encode s version) (TopicSnapshot_decode version)
     (\<lambda>s. TopicSnapshot_compute_size s version) (TopicSnapshot_ok version)"
  unfolding TopicSnapshot_encode_def TopicSnapshot_decode_def TopicSnapshot_compute_size_def
  by (rule sized_codecI) (rule coded_intros | (simp add: TopicSnapshot_ok_def; fail))+

lemmas TopicSnapshot_coded [coded_intros] = sized_codec.codes [OF TopicSnapshot_codec]

definition FetchSnapshotRequest_encode :: "fetch_snapshot_request \<Rightarrow> i16 \<Rightarrow> wire_error + bytes" where
  "FetchSnapshotRequest_encode s version =
     (if version < 0 \<or> version > 1 then Inl UNSUPPORTED_VERSION
      else puts
        [Inr (Int32_encode (fsrq_replica_id s)),
         Inr (Int32_encode (fsrq_max_bytes s)),
         CompactArray_encode (\<lambda>x. TopicSnapshot_encode x version) (Some (fsrq_topics s)),
         put_tags 
             [(fsrq_cluster_id s \<noteq> None, put_tag 0 (CompactString_compute_size (fsrq_cluster_id s)) (CompactString_encode (fsrq_cluster_id s)))] 1 (fsrq_unknown_tagged_fields s)])"

definition FetchSnapshotRequest_compute_size :: "fetch_snapshot_request \<Rightarrow> i16 \<Rightarrow> wire_error + usize" where
  "FetchSnapshotRequest_compute_size s version =
     sums
       [Inr 4,
        Inr 4,
        CompactArray_compute_size None (\<lambda>x. TopicSnapshot_compute_size x version) (Some (fsrq_topics s)),
        tags_size 
            [(fsrq_cluster_id s \<noteq> None, tag_size 0 (CompactString_compute_size (fsrq_cluster_id s)))] (fsrq_unknown_tagged_fields s)]"

definition FetchSnapshotRequest_decode :: "i16 \<Rightarrow> fetch_snapshot_request decoder" where
  "FetchSnapshotRequest_decode version =
     (if version < 0 \<or> version > 1 then refuse UNSUPPORTED_VERSION
      else
        get Int32_decode (\<lambda>replica_id.
        get Int32_decode (\<lambda>max_bytes.
        get (CompactArray_required (TopicSnapshot_decode version)) (\<lambda>topics.
        get (get_tags (\<lambda>tag cluster_id.
              if tag = 0 then Some (get CompactString_decode (\<lambda>x. give x))
              else None) None) (\<lambda>(cluster_id, unknown_tagged_fields).
        give \<lparr>fsrq_cluster_id = cluster_id, fsrq_replica_id = replica_id,
               fsrq_max_bytes = max_bytes, fsrq_topics = topics,
               fsrq_unknown_tagged_fields = unknown_tagged_fields\<rparr>)))))"

definition FetchSnapshotRequest_ok :: "i16 \<Rightarrow> fetch_snapshot_request \<Rightarrow> bool" where
  "FetchSnapshotRequest_ok version s \<longleftrightarrow>
     \<not> (version < 0 \<or> version > 1) \<and>
     in_i32 (fsrq_replica_id s) \<and>
     in_i32 (fsrq_max_bytes s) \<and>
     seq_ok (2 ^ 32 - 2) (TopicSnapshot_ok version) (Some (fsrq_topics s)) \<and>
     string_ok (2 ^ 32 - 2) (fsrq_cluster_id s) \<and> tag_fits (CompactString_compute_size (fsrq_cluster_id s)) \<and>
     tags_ok 1 (fsrq_unknown_tagged_fields s)"

lemma FetchSnapshotRequest_codec [coded_intros]:
  "sized_codec (\<lambda>s. FetchSnapshotRequest_encode s version) (FetchSnapshotRequest_decode version)
     (\<lambda>s. FetchSnapshotRequest_compute_size s version) (FetchSnapshotRequest_ok version)"
  unfolding FetchSnapshotRequest_encode_def FetchSnapshotRequest_decode_def FetchSnapshotRequest_compute_size_def
  by (rule sized_codecI) (rule coded_intros | simp only: prod.case | (simp add: FetchSnapshotRequest_ok_def; fail)
    | (auto simp: FetchSnapshotRequest_ok_def split: if_splits; fail))+

lemmas FetchSnapshotRequest_coded [coded_intros] = sized_codec.codes [OF FetchSnapshotRequest_codec]

section \<open>Add raft voter request\<close>

definition AddRaftVoterRequestListener_encode :: "add_raft_voter_request_listener \<Rightarrow> i16 \<Rightarrow> wire_error + bytes" where
  "AddRaftVoterRequestListener_encode s version =
     (if version < 0 \<or> version > 1 then Inl UNSUPPORTED_VERSION
      else puts
        [CompactString_encode (Some (arvrql_name s)),
         CompactString_encode (Some (arvrql_host s)),
         Inr (UInt16_encode (arvrql_port s)),
         put_tags [] 0 (arvrql_unknown_tagged_fields s)])"

definition AddRaftVoterRequestListener_compute_size :: "add_raft_voter_request_listener \<Rightarrow> i16 \<Rightarrow> wire_error + usize" where
  "AddRaftVoterRequestListener_compute_size s version =
     sums
       [CompactString_compute_size (Some (arvrql_name s)),
        CompactString_compute_size (Some (arvrql_host s)),
        Inr 2,
        tags_size [] (arvrql_unknown_tagged_fields s)]"

definition AddRaftVoterRequestListener_decode :: "i16 \<Rightarrow> add_raft_voter_request_listener decoder" where
  "AddRaftVoterRequestListener_decode version =
     (if version < 0 \<or> version > 1 then refuse UNSUPPORTED_VERSION
      else
        get CompactString_required (\<lambda>name.
        get CompactString_required (\<lambda>host.
        get UInt16_decode (\<lambda>port.
        get get_unknown_tags (\<lambda>unknown_tagged_fields.
        give \<lparr>arvrql_name = name, arvrql_host = host, arvrql_port = port,
               arvrql_unknown_tagged_fields = unknown_tagged_fields\<rparr>)))))"

definition AddRaftVoterRequestListener_ok :: "i16 \<Rightarrow> add_raft_voter_request_listener \<Rightarrow> bool" where
  "AddRaftVoterRequestListener_ok version s \<longleftrightarrow>
     \<not> (version < 0 \<or> version > 1) \<and>
     string_ok (2 ^ 32 - 2) (Some (arvrql_name s)) \<and>
     string_ok (2 ^ 32 - 2) (Some (arvrql_host s)) \<and>
     in_u16 (arvrql_port s) \<and>
     tags_ok 0 (arvrql_unknown_tagged_fields s)"

lemma AddRaftVoterRequestListener_codec [coded_intros]:
  "sized_codec (\<lambda>s. AddRaftVoterRequestListener_encode s version) (AddRaftVoterRequestListener_decode version)
     (\<lambda>s. AddRaftVoterRequestListener_compute_size s version) (AddRaftVoterRequestListener_ok version)"
  unfolding AddRaftVoterRequestListener_encode_def AddRaftVoterRequestListener_decode_def AddRaftVoterRequestListener_compute_size_def
  by (rule sized_codecI) (rule coded_intros | (simp add: AddRaftVoterRequestListener_ok_def; fail))+

lemmas AddRaftVoterRequestListener_coded [coded_intros] = sized_codec.codes [OF AddRaftVoterRequestListener_codec]

definition AddRaftVoterRequest_encode :: "add_raft_voter_request \<Rightarrow> i16 \<Rightarrow> wire_error + bytes" where
  "AddRaftVoterRequest_encode s version =
     (if version < 0 \<or> version > 1 then Inl UNSUPPORTED_VERSION
      else puts
        [CompactString_encode (arvrq_cluster_id s),
         Inr (Int32_encode (arvrq_timeout_ms s)),
         Inr (Int32_encode (arvrq_voter_id s)),
         Inr (Uuid_encode (arvrq_voter_directory_id s)),
         CompactArray_encode (\<lambda>x. AddRaftVoterRequestListener_encode x version) (Some (arvrq_listeners s)),
         if version \<ge> 1
          then Inr (Boolean_encode (arvrq_ack_when_committed s))
          else unset [] (arvrq_ack_when_committed s),
         put_tags [] 0 (arvrq_unknown_tagged_fields s)])"

definition AddRaftVoterRequest_compute_size :: "add_raft_voter_request \<Rightarrow> i16 \<Rightarrow> wire_error + usize" where
  "AddRaftVoterRequest_compute_size s version =
     sums
       [CompactString_compute_size (arvrq_cluster_id s),
        Inr 4,
        Inr 4,
        Inr 16,
        CompactArray_compute_size None (\<lambda>x. AddRaftVoterRequestListener_compute_size x version) (Some (arvrq_listeners s)),
        if version \<ge> 1 then Inr 1 else unset 0 (arvrq_ack_when_committed s),
        tags_size [] (arvrq_unknown_tagged_fields s)]"

definition AddRaftVoterRequest_decode :: "i16 \<Rightarrow> add_raft_voter_request decoder" where
  "AddRaftVoterRequest_decode version =
     (if version < 0 \<or> version > 1 then refuse UNSUPPORTED_VERSION
      else
        get CompactString_decode (\<lambda>cluster_id.
        get Int32_decode (\<lambda>timeout_ms.
        get Int32_decode (\<lambda>voter_id.
        get Uuid_decode (\<lambda>voter_directory_id.
        get (CompactArray_required (AddRaftVoterRequestListener_decode version)) (\<lambda>listeners.
        get (if version \<ge> 1 then Boolean_decode else give True) (\<lambda>ack_when_committed.
        get get_unknown_tags (\<lambda>unknown_tagged_fields.
        give \<lparr>arvrq_cluster_id = cluster_id, arvrq_timeout_ms = timeout_ms,
               arvrq_voter_id = voter_id, arvrq_voter_directory_id = voter_directory_id,
               arvrq_listeners = listeners, arvrq_ack_when_committed = ack_when_committed,
               arvrq_unknown_tagged_fields = unknown_tagged_fields\<rparr>))))))))"

definition AddRaftVoterRequest_ok :: "i16 \<Rightarrow> add_raft_voter_request \<Rightarrow> bool" where
  "AddRaftVoterRequest_ok version s \<longleftrightarrow>
     \<not> (version < 0 \<or> version > 1) \<and>
     string_ok (2 ^ 32 - 2) (arvrq_cluster_id s) \<and>
     in_i32 (arvrq_timeout_ms s) \<and>
     in_i32 (arvrq_voter_id s) \<and>
     seq_ok (2 ^ 32 - 2) (AddRaftVoterRequestListener_ok version) (Some (arvrq_listeners s)) \<and>
     (if version \<ge> 1 then True else arvrq_ack_when_committed s) \<and>
     tags_ok 0 (arvrq_unknown_tagged_fields s)"

lemma AddRaftVoterRequest_codec [coded_intros]:
  "sized_codec (\<lambda>s. AddRaftVoterRequest_encode s version) (AddRaftVoterRequest_decode version)
     (\<lambda>s. AddRaftVoterRequest_compute_size s version) (AddRaftVoterRequest_ok version)"
  unfolding AddRaftVoterRequest_encode_def AddRaftVoterRequest_decode_def AddRaftVoterRequest_compute_size_def
  by (rule sized_codecI) (rule coded_intros | (clarsimp simp: AddRaftVoterRequest_ok_def; fail))+

lemmas AddRaftVoterRequest_coded [coded_intros] = sized_codec.codes [OF AddRaftVoterRequest_codec]

section \<open>Remove raft voter request\<close>

definition RemoveRaftVoterRequest_encode :: "remove_raft_voter_request \<Rightarrow> i16 \<Rightarrow> wire_error + bytes" where
  "RemoveRaftVoterRequest_encode s version =
     (if version \<noteq> 0 then Inl UNSUPPORTED_VERSION
      else puts
        [CompactString_encode (rrvrq_cluster_id s),
         Inr (Int32_encode (rrvrq_voter_id s)),
         Inr (Uuid_encode (rrvrq_voter_directory_id s)),
         put_tags [] 0 (rrvrq_unknown_tagged_fields s)])"

definition RemoveRaftVoterRequest_compute_size :: "remove_raft_voter_request \<Rightarrow> i16 \<Rightarrow> wire_error + usize" where
  "RemoveRaftVoterRequest_compute_size s version =
     sums
       [CompactString_compute_size (rrvrq_cluster_id s),
        Inr 4,
        Inr 16,
        tags_size [] (rrvrq_unknown_tagged_fields s)]"

definition RemoveRaftVoterRequest_decode :: "i16 \<Rightarrow> remove_raft_voter_request decoder" where
  "RemoveRaftVoterRequest_decode version =
     (if version \<noteq> 0 then refuse UNSUPPORTED_VERSION
      else
        get CompactString_decode (\<lambda>cluster_id.
        get Int32_decode (\<lambda>voter_id.
        get Uuid_decode (\<lambda>voter_directory_id.
        get get_unknown_tags (\<lambda>unknown_tagged_fields.
        give \<lparr>rrvrq_cluster_id = cluster_id, rrvrq_voter_id = voter_id,
               rrvrq_voter_directory_id = voter_directory_id,
               rrvrq_unknown_tagged_fields = unknown_tagged_fields\<rparr>)))))"

definition RemoveRaftVoterRequest_ok :: "i16 \<Rightarrow> remove_raft_voter_request \<Rightarrow> bool" where
  "RemoveRaftVoterRequest_ok version s \<longleftrightarrow>
     \<not> (version \<noteq> 0) \<and>
     string_ok (2 ^ 32 - 2) (rrvrq_cluster_id s) \<and>
     in_i32 (rrvrq_voter_id s) \<and>
     tags_ok 0 (rrvrq_unknown_tagged_fields s)"

lemma RemoveRaftVoterRequest_codec [coded_intros]:
  "sized_codec (\<lambda>s. RemoveRaftVoterRequest_encode s version) (RemoveRaftVoterRequest_decode version)
     (\<lambda>s. RemoveRaftVoterRequest_compute_size s version) (RemoveRaftVoterRequest_ok version)"
  unfolding RemoveRaftVoterRequest_encode_def RemoveRaftVoterRequest_decode_def RemoveRaftVoterRequest_compute_size_def
  by (rule sized_codecI) (rule coded_intros | (clarsimp simp: RemoveRaftVoterRequest_ok_def; fail))+

lemmas RemoveRaftVoterRequest_coded [coded_intros] = sized_codec.codes [OF RemoveRaftVoterRequest_codec]

section \<open>Update raft voter request\<close>

definition KRaftVersionFeature_encode :: "kraft_version_feature \<Rightarrow> i16 \<Rightarrow> wire_error + bytes" where
  "KRaftVersionFeature_encode s version =
     (if version \<noteq> 0 then Inl UNSUPPORTED_VERSION
      else puts
        [Inr (Int16_encode (kvf_min_supported_version s)),
         Inr (Int16_encode (kvf_max_supported_version s)),
         put_tags [] 0 (kvf_unknown_tagged_fields s)])"

definition KRaftVersionFeature_compute_size :: "kraft_version_feature \<Rightarrow> i16 \<Rightarrow> wire_error + usize" where
  "KRaftVersionFeature_compute_size s version =
     sums
       [Inr 2,
        Inr 2,
        tags_size [] (kvf_unknown_tagged_fields s)]"

definition KRaftVersionFeature_decode :: "i16 \<Rightarrow> kraft_version_feature decoder" where
  "KRaftVersionFeature_decode version =
     (if version \<noteq> 0 then refuse UNSUPPORTED_VERSION
      else
        get Int16_decode (\<lambda>min_supported_version.
        get Int16_decode (\<lambda>max_supported_version.
        get get_unknown_tags (\<lambda>unknown_tagged_fields.
        give \<lparr>kvf_min_supported_version = min_supported_version,
               kvf_max_supported_version = max_supported_version,
               kvf_unknown_tagged_fields = unknown_tagged_fields\<rparr>))))"

definition KRaftVersionFeature_ok :: "i16 \<Rightarrow> kraft_version_feature \<Rightarrow> bool" where
  "KRaftVersionFeature_ok version s \<longleftrightarrow>
     \<not> (version \<noteq> 0) \<and>
     in_i16 (kvf_min_supported_version s) \<and>
     in_i16 (kvf_max_supported_version s) \<and>
     tags_ok 0 (kvf_unknown_tagged_fields s)"

lemma KRaftVersionFeature_codec [coded_intros]:
  "sized_codec (\<lambda>s. KRaftVersionFeature_encode s version) (KRaftVersionFeature_decode version)
     (\<lambda>s. KRaftVersionFeature_compute_size s version) (KRaftVersionFeature_ok version)"
  unfolding KRaftVersionFeature_encode_def KRaftVersionFeature_decode_def KRaftVersionFeature_compute_size_def
  by (rule sized_codecI) (rule coded_intros | (clarsimp simp: KRaftVersionFeature_ok_def; fail))+

lemmas KRaftVersionFeature_coded [coded_intros] = sized_codec.codes [OF KRaftVersionFeature_codec]

definition UpdateRaftVoterRequestListener_encode :: "update_raft_voter_request_listener \<Rightarrow> i16 \<Rightarrow> wire_error + bytes" where
  "UpdateRaftVoterRequestListener_encode s version =
     (if version \<noteq> 0 then Inl UNSUPPORTED_VERSION
      else puts
        [CompactString_encode (Some (urvrql_name s)),
         CompactString_encode (Some (urvrql_host s)),
         Inr (UInt16_encode (urvrql_port s)),
         put_tags [] 0 (urvrql_unknown_tagged_fields s)])"

definition UpdateRaftVoterRequestListener_compute_size :: "update_raft_voter_request_listener \<Rightarrow> i16 \<Rightarrow> wire_error + usize" where
  "UpdateRaftVoterRequestListener_compute_size s version =
     sums
       [CompactString_compute_size (Some (urvrql_name s)),
        CompactString_compute_size (Some (urvrql_host s)),
        Inr 2,
        tags_size [] (urvrql_unknown_tagged_fields s)]"

definition UpdateRaftVoterRequestListener_decode :: "i16 \<Rightarrow> update_raft_voter_request_listener decoder" where
  "UpdateRaftVoterRequestListener_decode version =
     (if version \<noteq> 0 then refuse UNSUPPORTED_VERSION
      else
        get CompactString_required (\<lambda>name.
        get CompactString_required (\<lambda>host.
        get UInt16_decode (\<lambda>port.
        get get_unknown_tags (\<lambda>unknown_tagged_fields.
        give \<lparr>urvrql_name = name, urvrql_host = host, urvrql_port = port,
               urvrql_unknown_tagged_fields = unknown_tagged_fields\<rparr>)))))"

definition UpdateRaftVoterRequestListener_ok :: "i16 \<Rightarrow> update_raft_voter_request_listener \<Rightarrow> bool" where
  "UpdateRaftVoterRequestListener_ok version s \<longleftrightarrow>
     \<not> (version \<noteq> 0) \<and>
     string_ok (2 ^ 32 - 2) (Some (urvrql_name s)) \<and>
     string_ok (2 ^ 32 - 2) (Some (urvrql_host s)) \<and>
     in_u16 (urvrql_port s) \<and>
     tags_ok 0 (urvrql_unknown_tagged_fields s)"

lemma UpdateRaftVoterRequestListener_codec [coded_intros]:
  "sized_codec (\<lambda>s. UpdateRaftVoterRequestListener_encode s version) (UpdateRaftVoterRequestListener_decode version)
     (\<lambda>s. UpdateRaftVoterRequestListener_compute_size s version) (UpdateRaftVoterRequestListener_ok version)"
  unfolding UpdateRaftVoterRequestListener_encode_def UpdateRaftVoterRequestListener_decode_def UpdateRaftVoterRequestListener_compute_size_def
  by (rule sized_codecI) (rule coded_intros | (clarsimp simp: UpdateRaftVoterRequestListener_ok_def; fail))+

lemmas UpdateRaftVoterRequestListener_coded [coded_intros] = sized_codec.codes [OF UpdateRaftVoterRequestListener_codec]

definition UpdateRaftVoterRequest_encode :: "update_raft_voter_request \<Rightarrow> i16 \<Rightarrow> wire_error + bytes" where
  "UpdateRaftVoterRequest_encode s version =
     (if version \<noteq> 0 then Inl UNSUPPORTED_VERSION
      else puts
        [CompactString_encode (urvrq_cluster_id s),
         Inr (Int32_encode (urvrq_current_leader_epoch s)),
         Inr (Int32_encode (urvrq_voter_id s)),
         Inr (Uuid_encode (urvrq_voter_directory_id s)),
         CompactArray_encode (\<lambda>x. UpdateRaftVoterRequestListener_encode x version) (Some (urvrq_listeners s)),
         KRaftVersionFeature_encode (urvrq_k_raft_version_feature s) version,
         put_tags [] 0 (urvrq_unknown_tagged_fields s)])"

definition UpdateRaftVoterRequest_compute_size :: "update_raft_voter_request \<Rightarrow> i16 \<Rightarrow> wire_error + usize" where
  "UpdateRaftVoterRequest_compute_size s version =
     sums
       [CompactString_compute_size (urvrq_cluster_id s),
        Inr 4,
        Inr 4,
        Inr 16,
        CompactArray_compute_size None (\<lambda>x. UpdateRaftVoterRequestListener_compute_size x version) (Some (urvrq_listeners s)),
        KRaftVersionFeature_compute_size (urvrq_k_raft_version_feature s) version,
        tags_size [] (urvrq_unknown_tagged_fields s)]"

definition UpdateRaftVoterRequest_decode :: "i16 \<Rightarrow> update_raft_voter_request decoder" where
  "UpdateRaftVoterRequest_decode version =
     (if version \<noteq> 0 then refuse UNSUPPORTED_VERSION
      else
        get CompactString_decode (\<lambda>cluster_id.
        get Int32_decode (\<lambda>current_leader_epoch.
        get Int32_decode (\<lambda>voter_id.
        get Uuid_decode (\<lambda>voter_directory_id.
        get (CompactArray_required (UpdateRaftVoterRequestListener_decode version)) (\<lambda>listeners.
        get (KRaftVersionFeature_decode version) (\<lambda>k_raft_version_feature.
        get get_unknown_tags (\<lambda>unknown_tagged_fields.
        give \<lparr>urvrq_cluster_id = cluster_id, urvrq_current_leader_epoch = current_leader_epoch,
               urvrq_voter_id = voter_id, urvrq_voter_directory_id = voter_directory_id,
               urvrq_listeners = listeners, urvrq_k_raft_version_feature = k_raft_version_feature,
               urvrq_unknown_tagged_fields = unknown_tagged_fields\<rparr>))))))))"

definition UpdateRaftVoterRequest_ok :: "i16 \<Rightarrow> update_raft_voter_request \<Rightarrow> bool" where
  "UpdateRaftVoterRequest_ok version s \<longleftrightarrow>
     \<not> (version \<noteq> 0) \<and>
     string_ok (2 ^ 32 - 2) (urvrq_cluster_id s) \<and>
     in_i32 (urvrq_current_leader_epoch s) \<and>
     in_i32 (urvrq_voter_id s) \<and>
     seq_ok (2 ^ 32 - 2) (UpdateRaftVoterRequestListener_ok version) (Some (urvrq_listeners s)) \<and>
     KRaftVersionFeature_ok version (urvrq_k_raft_version_feature s) \<and>
     tags_ok 0 (urvrq_unknown_tagged_fields s)"

lemma UpdateRaftVoterRequest_codec [coded_intros]:
  "sized_codec (\<lambda>s. UpdateRaftVoterRequest_encode s version) (UpdateRaftVoterRequest_decode version)
     (\<lambda>s. UpdateRaftVoterRequest_compute_size s version) (UpdateRaftVoterRequest_ok version)"
  unfolding UpdateRaftVoterRequest_encode_def UpdateRaftVoterRequest_decode_def UpdateRaftVoterRequest_compute_size_def
  by (rule sized_codecI) (rule coded_intros | (clarsimp simp: UpdateRaftVoterRequest_ok_def; fail))+

lemmas UpdateRaftVoterRequest_coded [coded_intros] = sized_codec.codes [OF UpdateRaftVoterRequest_codec]

section \<open>Bodies\<close>

text \<open>The variants of \<open>RequestKind\<close> (\<open>messages.rs\<close>) with these requests, and their codecs by API key. The match on the key is exhaustive; its last arm is the last key of the group.\<close>

datatype raft_request =
  VoteRequest vote_request
| BeginQuorumEpochRequest begin_quorum_epoch_request
| EndQuorumEpochRequest end_quorum_epoch_request
| DescribeQuorumRequest describe_quorum_request
| FetchSnapshotRequest fetch_snapshot_request
| AddRaftVoterRequest add_raft_voter_request
| RemoveRaftVoterRequest remove_raft_voter_request
| UpdateRaftVoterRequest update_raft_voter_request

fun raft_request_key :: "raft_request \<Rightarrow> i16" where
  "raft_request_key (VoteRequest _) = 52"
| "raft_request_key (BeginQuorumEpochRequest _) = 53"
| "raft_request_key (EndQuorumEpochRequest _) = 54"
| "raft_request_key (DescribeQuorumRequest _) = 55"
| "raft_request_key (FetchSnapshotRequest _) = 59"
| "raft_request_key (AddRaftVoterRequest _) = 80"
| "raft_request_key (RemoveRaftVoterRequest _) = 81"
| "raft_request_key (UpdateRaftVoterRequest _) = 82"

fun raft_request_encode :: "raft_request \<Rightarrow> i16 \<Rightarrow> wire_error + bytes" where
  "raft_request_encode (VoteRequest x) version = VoteRequest_encode x version"
| "raft_request_encode (BeginQuorumEpochRequest x) version = BeginQuorumEpochRequest_encode x version"
| "raft_request_encode (EndQuorumEpochRequest x) version = EndQuorumEpochRequest_encode x version"
| "raft_request_encode (DescribeQuorumRequest x) version = DescribeQuorumRequest_encode x version"
| "raft_request_encode (FetchSnapshotRequest x) version = FetchSnapshotRequest_encode x version"
| "raft_request_encode (AddRaftVoterRequest x) version = AddRaftVoterRequest_encode x version"
| "raft_request_encode (RemoveRaftVoterRequest x) version = RemoveRaftVoterRequest_encode x version"
| "raft_request_encode (UpdateRaftVoterRequest x) version = UpdateRaftVoterRequest_encode x version"

definition raft_request_decode :: "i16 \<Rightarrow> i16 \<Rightarrow> raft_request decoder" where
  "raft_request_decode key version =
     (if key = 52 then get (VoteRequest_decode version) (\<lambda>x. give (VoteRequest x))
      else if key = 53 then get (BeginQuorumEpochRequest_decode version) (\<lambda>x. give (BeginQuorumEpochRequest x))
      else if key = 54 then get (EndQuorumEpochRequest_decode version) (\<lambda>x. give (EndQuorumEpochRequest x))
      else if key = 55 then get (DescribeQuorumRequest_decode version) (\<lambda>x. give (DescribeQuorumRequest x))
      else if key = 59 then get (FetchSnapshotRequest_decode version) (\<lambda>x. give (FetchSnapshotRequest x))
      else if key = 80 then get (AddRaftVoterRequest_decode version) (\<lambda>x. give (AddRaftVoterRequest x))
      else if key = 81 then get (RemoveRaftVoterRequest_decode version) (\<lambda>x. give (RemoveRaftVoterRequest x))
      else get (UpdateRaftVoterRequest_decode version) (\<lambda>x. give (UpdateRaftVoterRequest x)))"

fun raft_request_size :: "i16 \<Rightarrow> raft_request \<Rightarrow> wire_error + usize" where
  "raft_request_size version (VoteRequest x) = VoteRequest_compute_size x version"
| "raft_request_size version (BeginQuorumEpochRequest x) = BeginQuorumEpochRequest_compute_size x version"
| "raft_request_size version (EndQuorumEpochRequest x) = EndQuorumEpochRequest_compute_size x version"
| "raft_request_size version (DescribeQuorumRequest x) = DescribeQuorumRequest_compute_size x version"
| "raft_request_size version (FetchSnapshotRequest x) = FetchSnapshotRequest_compute_size x version"
| "raft_request_size version (AddRaftVoterRequest x) = AddRaftVoterRequest_compute_size x version"
| "raft_request_size version (RemoveRaftVoterRequest x) = RemoveRaftVoterRequest_compute_size x version"
| "raft_request_size version (UpdateRaftVoterRequest x) = UpdateRaftVoterRequest_compute_size x version"

fun raft_request_ok :: "i16 \<Rightarrow> raft_request \<Rightarrow> bool" where
  "raft_request_ok version (VoteRequest x) = VoteRequest_ok version x"
| "raft_request_ok version (BeginQuorumEpochRequest x) = BeginQuorumEpochRequest_ok version x"
| "raft_request_ok version (EndQuorumEpochRequest x) = EndQuorumEpochRequest_ok version x"
| "raft_request_ok version (DescribeQuorumRequest x) = DescribeQuorumRequest_ok version x"
| "raft_request_ok version (FetchSnapshotRequest x) = FetchSnapshotRequest_ok version x"
| "raft_request_ok version (AddRaftVoterRequest x) = AddRaftVoterRequest_ok version x"
| "raft_request_ok version (RemoveRaftVoterRequest x) = RemoveRaftVoterRequest_ok version x"
| "raft_request_ok version (UpdateRaftVoterRequest x) = UpdateRaftVoterRequest_ok version x"

lemma raft_request_coded:
  "raft_request_ok version body \<Longrightarrow>
   coded (raft_request_encode body version) (raft_request_decode (raft_request_key body) version) (raft_request_size version body) body"
  by (cases body) (simp_all add: raft_request_decode_def coded_tag_value
    VoteRequest_coded BeginQuorumEpochRequest_coded EndQuorumEpochRequest_coded DescribeQuorumRequest_coded FetchSnapshotRequest_coded AddRaftVoterRequest_coded RemoveRaftVoterRequest_coded UpdateRaftVoterRequest_coded)

end
