(* ===== verification/Messages_Consumer.thy ===== *)
theory Messages_Consumer
  imports Prelude
begin

text \<open>
  Requests about the consumer and streams group protocols, which the broker does not serve
  (\<open>src/crates/kafka-protocol/src/messages/\<close>). Every message is a record with the fields of the Rust structure, and its
  \<open>_default\<close> is the value of \<open>Default::default()\<close>.
\<close>

section \<open>Consumer group describe request\<close>

record consumer_group_describe_request =
  cgdrq_group_ids :: "string list"
  cgdrq_include_authorized_operations :: bool
  cgdrq_unknown_tagged_fields :: "(i32, bytes) btree_map"

definition consumer_group_describe_request_default :: consumer_group_describe_request where
  "consumer_group_describe_request_default =
     \<lparr>cgdrq_group_ids = [], cgdrq_include_authorized_operations = False,
      cgdrq_unknown_tagged_fields = []\<rparr>"

section \<open>Consumer group heartbeat request\<close>

record consumer_group_heartbeat_request_topic_partitions =
  cghrqtp_topic_id :: uuid
  cghrqtp_partitions :: "i32 list"
  cghrqtp_unknown_tagged_fields :: "(i32, bytes) btree_map"

definition consumer_group_heartbeat_request_topic_partitions_default :: consumer_group_heartbeat_request_topic_partitions where
  "consumer_group_heartbeat_request_topic_partitions_default =
     \<lparr>cghrqtp_topic_id = nil_uuid, cghrqtp_partitions = [],
      cghrqtp_unknown_tagged_fields = []\<rparr>"

record consumer_group_heartbeat_request =
  cghrq_group_id :: string
  cghrq_member_id :: string
  cghrq_member_epoch :: i32
  cghrq_instance_id :: "string option"
  cghrq_rack_id :: "string option"
  cghrq_rebalance_timeout_ms :: i32
  cghrq_subscribed_topic_names :: "string list option"
  cghrq_subscribed_topic_regex :: "string option"
  cghrq_server_assignor :: "string option"
  cghrq_topic_partitions :: "consumer_group_heartbeat_request_topic_partitions list option"
  cghrq_unknown_tagged_fields :: "(i32, bytes) btree_map"

definition consumer_group_heartbeat_request_default :: consumer_group_heartbeat_request where
  "consumer_group_heartbeat_request_default =
     \<lparr>cghrq_group_id = [], cghrq_member_id = [], cghrq_member_epoch = 0, cghrq_instance_id = None,
      cghrq_rack_id = None, cghrq_rebalance_timeout_ms = - 1, cghrq_subscribed_topic_names = None,
      cghrq_subscribed_topic_regex = None, cghrq_server_assignor = None, cghrq_topic_partitions = None,
      cghrq_unknown_tagged_fields = []\<rparr>"

section \<open>Streams group describe request\<close>

record streams_group_describe_request =
  sgdrq_group_ids :: "string list"
  sgdrq_include_authorized_operations :: bool
  sgdrq_unknown_tagged_fields :: "(i32, bytes) btree_map"

definition streams_group_describe_request_default :: streams_group_describe_request where
  "streams_group_describe_request_default =
     \<lparr>sgdrq_group_ids = [], sgdrq_include_authorized_operations = False,
      sgdrq_unknown_tagged_fields = []\<rparr>"

section \<open>Streams group heartbeat request\<close>

record copartition_group =
  cg_source_topics :: "i16 list"
  cg_source_topic_regex :: "i16 list"
  cg_repartition_source_topics :: "i16 list"
  cg_unknown_tagged_fields :: "(i32, bytes) btree_map"

definition copartition_group_default :: copartition_group where
  "copartition_group_default =
     \<lparr>cg_source_topics = [], cg_source_topic_regex = [], cg_repartition_source_topics = [],
      cg_unknown_tagged_fields = []\<rparr>"

record streams_group_heartbeat_request_endpoint =
  sghrqe_host :: string
  sghrqe_port :: u16
  sghrqe_unknown_tagged_fields :: "(i32, bytes) btree_map"

definition streams_group_heartbeat_request_endpoint_default :: streams_group_heartbeat_request_endpoint where
  "streams_group_heartbeat_request_endpoint_default =
     \<lparr>sghrqe_host = [], sghrqe_port = 0, sghrqe_unknown_tagged_fields = []\<rparr>"

record key_value =
  kv_key :: string
  kv_value :: string
  kv_unknown_tagged_fields :: "(i32, bytes) btree_map"

definition key_value_default :: key_value where
  "key_value_default =
     \<lparr>kv_key = [], kv_value = [], kv_unknown_tagged_fields = []\<rparr>"

record streams_group_heartbeat_request_topic_info =
  sghrqti_name :: string
  sghrqti_partitions :: i32
  sghrqti_replication_factor :: i16
  sghrqti_topic_configs :: "key_value list"
  sghrqti_unknown_tagged_fields :: "(i32, bytes) btree_map"

definition streams_group_heartbeat_request_topic_info_default :: streams_group_heartbeat_request_topic_info where
  "streams_group_heartbeat_request_topic_info_default =
     \<lparr>sghrqti_name = [], sghrqti_partitions = 0, sghrqti_replication_factor = 0,
      sghrqti_topic_configs = [], sghrqti_unknown_tagged_fields = []\<rparr>"

record subtopology =
  s_subtopology_id :: string
  s_source_topics :: "string list"
  s_source_topic_regex :: "string list"
  s_state_changelog_topics :: "streams_group_heartbeat_request_topic_info list"
  s_repartition_sink_topics :: "string list"
  s_repartition_source_topics :: "streams_group_heartbeat_request_topic_info list"
  s_copartition_groups :: "copartition_group list"
  s_unknown_tagged_fields :: "(i32, bytes) btree_map"

definition subtopology_default :: subtopology where
  "subtopology_default =
     \<lparr>s_subtopology_id = [], s_source_topics = [], s_source_topic_regex = [],
      s_state_changelog_topics = [], s_repartition_sink_topics = [], s_repartition_source_topics = [],
      s_copartition_groups = [], s_unknown_tagged_fields = []\<rparr>"

record streams_group_heartbeat_request_topology =
  sghrqt_epoch :: i32
  sghrqt_subtopologies :: "subtopology list"
  sghrqt_unknown_tagged_fields :: "(i32, bytes) btree_map"

definition streams_group_heartbeat_request_topology_default :: streams_group_heartbeat_request_topology where
  "streams_group_heartbeat_request_topology_default =
     \<lparr>sghrqt_epoch = 0, sghrqt_subtopologies = [], sghrqt_unknown_tagged_fields = []\<rparr>"

record task_ids =
  ti_subtopology_id :: string
  ti_partitions :: "i32 list"
  ti_unknown_tagged_fields :: "(i32, bytes) btree_map"

definition task_ids_default :: task_ids where
  "task_ids_default =
     \<lparr>ti_subtopology_id = [], ti_partitions = [], ti_unknown_tagged_fields = []\<rparr>"

record task_offset =
  to_subtopology_id :: string
  to_partition :: i32
  to_offset :: i64
  to_unknown_tagged_fields :: "(i32, bytes) btree_map"

definition task_offset_default :: task_offset where
  "task_offset_default =
     \<lparr>to_subtopology_id = [], to_partition = 0, to_offset = 0,
      to_unknown_tagged_fields = []\<rparr>"

record streams_group_heartbeat_request =
  sghrq_group_id :: string
  sghrq_member_id :: string
  sghrq_member_epoch :: i32
  sghrq_endpoint_information_epoch :: i32
  sghrq_instance_id :: "string option"
  sghrq_rack_id :: "string option"
  sghrq_rebalance_timeout_ms :: i32
  sghrq_topology :: "streams_group_heartbeat_request_topology option"
  sghrq_active_tasks :: "task_ids list option"
  sghrq_standby_tasks :: "task_ids list option"
  sghrq_warmup_tasks :: "task_ids list option"
  sghrq_process_id :: "string option"
  sghrq_user_endpoint :: "streams_group_heartbeat_request_endpoint option"
  sghrq_client_tags :: "key_value list option"
  sghrq_task_offsets :: "task_offset list option"
  sghrq_task_end_offsets :: "task_offset list option"
  sghrq_shutdown_application :: bool
  sghrq_unknown_tagged_fields :: "(i32, bytes) btree_map"

definition streams_group_heartbeat_request_default :: streams_group_heartbeat_request where
  "streams_group_heartbeat_request_default =
     \<lparr>sghrq_group_id = [], sghrq_member_id = [], sghrq_member_epoch = 0,
      sghrq_endpoint_information_epoch = 0, sghrq_instance_id = None, sghrq_rack_id = None,
      sghrq_rebalance_timeout_ms = - 1, sghrq_topology = None, sghrq_active_tasks = None,
      sghrq_standby_tasks = None, sghrq_warmup_tasks = None, sghrq_process_id = None,
      sghrq_user_endpoint = None, sghrq_client_tags = None, sghrq_task_offsets = None,
      sghrq_task_end_offsets = None, sghrq_shutdown_application = False,
      sghrq_unknown_tagged_fields = []\<rparr>"

end
