(* ===== verification/Codec_Consumer.thy ===== *)
theory Codec_Consumer
  imports Codec_Raft Messages_Consumer
begin

text \<open>
  The codecs of the requests about the consumer and streams group protocols
  (\<open>src/crates/kafka-protocol/src/messages/\<close>): the encoder, the size computation and the decoder of every structure,
  for every version of its schema, what a structure must satisfy to be sent in a version, and that it then comes back.
\<close>

section \<open>Consumer group describe request\<close>

definition ConsumerGroupDescribeRequest_encode :: "consumer_group_describe_request \<Rightarrow> i16 \<Rightarrow> wire_error + bytes" where
  "ConsumerGroupDescribeRequest_encode s version =
     (if version < 0 \<or> version > 1 then Inl UNSUPPORTED_VERSION
      else puts
        [CompactArray_encode (\<lambda>x. CompactString_encode (Some x)) (Some (cgdrq_group_ids s)),
         Inr (Boolean_encode (cgdrq_include_authorized_operations s)),
         put_tags [] 0 (cgdrq_unknown_tagged_fields s)])"

definition ConsumerGroupDescribeRequest_compute_size :: "consumer_group_describe_request \<Rightarrow> i16 \<Rightarrow> wire_error + usize" where
  "ConsumerGroupDescribeRequest_compute_size s version =
     sums
       [CompactArray_compute_size None (\<lambda>x. CompactString_compute_size (Some x)) (Some (cgdrq_group_ids s)),
        Inr 1,
        tags_size [] (cgdrq_unknown_tagged_fields s)]"

definition ConsumerGroupDescribeRequest_decode :: "i16 \<Rightarrow> consumer_group_describe_request decoder" where
  "ConsumerGroupDescribeRequest_decode version =
     (if version < 0 \<or> version > 1 then refuse UNSUPPORTED_VERSION
      else
        get (CompactArray_required CompactString_required) (\<lambda>group_ids.
        get Boolean_decode (\<lambda>include_authorized_operations.
        get get_unknown_tags (\<lambda>unknown_tagged_fields.
        give \<lparr>cgdrq_group_ids = group_ids,
               cgdrq_include_authorized_operations = include_authorized_operations,
               cgdrq_unknown_tagged_fields = unknown_tagged_fields\<rparr>))))"

definition ConsumerGroupDescribeRequest_ok :: "i16 \<Rightarrow> consumer_group_describe_request \<Rightarrow> bool" where
  "ConsumerGroupDescribeRequest_ok version s \<longleftrightarrow>
     \<not> (version < 0 \<or> version > 1) \<and>
     seq_ok (2 ^ 32 - 2) (\<lambda>x. string_ok (2 ^ 32 - 2) (Some x)) (Some (cgdrq_group_ids s)) \<and>
     tags_ok 0 (cgdrq_unknown_tagged_fields s)"

lemma ConsumerGroupDescribeRequest_codec [coded_intros]:
  "sized_codec (\<lambda>s. ConsumerGroupDescribeRequest_encode s version) (ConsumerGroupDescribeRequest_decode version)
     (\<lambda>s. ConsumerGroupDescribeRequest_compute_size s version) (ConsumerGroupDescribeRequest_ok version)"
  unfolding ConsumerGroupDescribeRequest_encode_def ConsumerGroupDescribeRequest_decode_def ConsumerGroupDescribeRequest_compute_size_def
  by (rule sized_codecI) (rule coded_intros | (simp add: ConsumerGroupDescribeRequest_ok_def; fail))+

lemmas ConsumerGroupDescribeRequest_coded [coded_intros] = sized_codec.codes [OF ConsumerGroupDescribeRequest_codec]

section \<open>Consumer group heartbeat request\<close>

definition ConsumerGroupHeartbeatRequestTopicPartitions_encode :: "consumer_group_heartbeat_request_topic_partitions \<Rightarrow> i16 \<Rightarrow> wire_error + bytes" where
  "ConsumerGroupHeartbeatRequestTopicPartitions_encode s version =
     (if version < 0 \<or> version > 1 then Inl UNSUPPORTED_VERSION
      else puts
        [Inr (Uuid_encode (cghrqtp_topic_id s)),
         CompactArray_encode (\<lambda>x. Inr (Int32_encode x)) (Some (cghrqtp_partitions s)),
         put_tags [] 0 (cghrqtp_unknown_tagged_fields s)])"

definition ConsumerGroupHeartbeatRequestTopicPartitions_compute_size :: "consumer_group_heartbeat_request_topic_partitions \<Rightarrow> i16 \<Rightarrow> wire_error + usize" where
  "ConsumerGroupHeartbeatRequestTopicPartitions_compute_size s version =
     sums
       [Inr 16,
        CompactArray_compute_size (Some 4) (\<lambda>_. Inr 4) (Some (cghrqtp_partitions s)),
        tags_size [] (cghrqtp_unknown_tagged_fields s)]"

definition ConsumerGroupHeartbeatRequestTopicPartitions_decode :: "i16 \<Rightarrow> consumer_group_heartbeat_request_topic_partitions decoder" where
  "ConsumerGroupHeartbeatRequestTopicPartitions_decode version =
     (if version < 0 \<or> version > 1 then refuse UNSUPPORTED_VERSION
      else
        get Uuid_decode (\<lambda>topic_id.
        get (CompactArray_required Int32_decode) (\<lambda>partitions.
        get get_unknown_tags (\<lambda>unknown_tagged_fields.
        give \<lparr>cghrqtp_topic_id = topic_id, cghrqtp_partitions = partitions,
               cghrqtp_unknown_tagged_fields = unknown_tagged_fields\<rparr>))))"

definition ConsumerGroupHeartbeatRequestTopicPartitions_ok :: "i16 \<Rightarrow> consumer_group_heartbeat_request_topic_partitions \<Rightarrow> bool" where
  "ConsumerGroupHeartbeatRequestTopicPartitions_ok version s \<longleftrightarrow>
     \<not> (version < 0 \<or> version > 1) \<and>
     seq_ok (2 ^ 32 - 2) in_i32 (Some (cghrqtp_partitions s)) \<and>
     tags_ok 0 (cghrqtp_unknown_tagged_fields s)"

lemma ConsumerGroupHeartbeatRequestTopicPartitions_codec [coded_intros]:
  "sized_codec (\<lambda>s. ConsumerGroupHeartbeatRequestTopicPartitions_encode s version) (ConsumerGroupHeartbeatRequestTopicPartitions_decode version)
     (\<lambda>s. ConsumerGroupHeartbeatRequestTopicPartitions_compute_size s version) (ConsumerGroupHeartbeatRequestTopicPartitions_ok version)"
  unfolding ConsumerGroupHeartbeatRequestTopicPartitions_encode_def ConsumerGroupHeartbeatRequestTopicPartitions_decode_def ConsumerGroupHeartbeatRequestTopicPartitions_compute_size_def
  by (rule sized_codecI) (rule coded_intros | (simp add: ConsumerGroupHeartbeatRequestTopicPartitions_ok_def; fail))+

lemmas ConsumerGroupHeartbeatRequestTopicPartitions_coded [coded_intros] = sized_codec.codes [OF ConsumerGroupHeartbeatRequestTopicPartitions_codec]

definition ConsumerGroupHeartbeatRequest_encode :: "consumer_group_heartbeat_request \<Rightarrow> i16 \<Rightarrow> wire_error + bytes" where
  "ConsumerGroupHeartbeatRequest_encode s version =
     (if version < 0 \<or> version > 1 then Inl UNSUPPORTED_VERSION
      else puts
        [CompactString_encode (Some (cghrq_group_id s)),
         CompactString_encode (Some (cghrq_member_id s)),
         Inr (Int32_encode (cghrq_member_epoch s)),
         CompactString_encode (cghrq_instance_id s),
         CompactString_encode (cghrq_rack_id s),
         Inr (Int32_encode (cghrq_rebalance_timeout_ms s)),
         CompactArray_encode (\<lambda>x. CompactString_encode (Some x)) (cghrq_subscribed_topic_names s),
         if version \<ge> 1
          then CompactString_encode (cghrq_subscribed_topic_regex s)
          else unset [] (cghrq_subscribed_topic_regex s = None),
         CompactString_encode (cghrq_server_assignor s),
         CompactArray_encode (\<lambda>x. ConsumerGroupHeartbeatRequestTopicPartitions_encode x version) (cghrq_topic_partitions s),
         put_tags [] 0 (cghrq_unknown_tagged_fields s)])"

definition ConsumerGroupHeartbeatRequest_compute_size :: "consumer_group_heartbeat_request \<Rightarrow> i16 \<Rightarrow> wire_error + usize" where
  "ConsumerGroupHeartbeatRequest_compute_size s version =
     sums
       [CompactString_compute_size (Some (cghrq_group_id s)),
        CompactString_compute_size (Some (cghrq_member_id s)),
        Inr 4,
        CompactString_compute_size (cghrq_instance_id s),
        CompactString_compute_size (cghrq_rack_id s),
        Inr 4,
        CompactArray_compute_size None (\<lambda>x. CompactString_compute_size (Some x)) (cghrq_subscribed_topic_names s),
        if version \<ge> 1
         then CompactString_compute_size (cghrq_subscribed_topic_regex s)
         else unset 0 (cghrq_subscribed_topic_regex s = None),
        CompactString_compute_size (cghrq_server_assignor s),
        CompactArray_compute_size None (\<lambda>x. ConsumerGroupHeartbeatRequestTopicPartitions_compute_size x version) (cghrq_topic_partitions s),
        tags_size [] (cghrq_unknown_tagged_fields s)]"

definition ConsumerGroupHeartbeatRequest_decode :: "i16 \<Rightarrow> consumer_group_heartbeat_request decoder" where
  "ConsumerGroupHeartbeatRequest_decode version =
     (if version < 0 \<or> version > 1 then refuse UNSUPPORTED_VERSION
      else
        get CompactString_required (\<lambda>group_id.
        get CompactString_required (\<lambda>member_id.
        get Int32_decode (\<lambda>member_epoch.
        get CompactString_decode (\<lambda>instance_id.
        get CompactString_decode (\<lambda>rack_id.
        get Int32_decode (\<lambda>rebalance_timeout_ms.
        get (CompactArray_decode CompactString_required) (\<lambda>subscribed_topic_names.
        get (if version \<ge> 1 then CompactString_decode else give None) (\<lambda>subscribed_topic_regex.
        get CompactString_decode (\<lambda>server_assignor.
        get (CompactArray_decode (ConsumerGroupHeartbeatRequestTopicPartitions_decode version)) (\<lambda>topic_partitions.
        get get_unknown_tags (\<lambda>unknown_tagged_fields.
        give \<lparr>cghrq_group_id = group_id, cghrq_member_id = member_id,
               cghrq_member_epoch = member_epoch, cghrq_instance_id = instance_id,
               cghrq_rack_id = rack_id, cghrq_rebalance_timeout_ms = rebalance_timeout_ms,
               cghrq_subscribed_topic_names = subscribed_topic_names,
               cghrq_subscribed_topic_regex = subscribed_topic_regex,
               cghrq_server_assignor = server_assignor, cghrq_topic_partitions = topic_partitions,
               cghrq_unknown_tagged_fields = unknown_tagged_fields\<rparr>))))))))))))"

definition ConsumerGroupHeartbeatRequest_ok :: "i16 \<Rightarrow> consumer_group_heartbeat_request \<Rightarrow> bool" where
  "ConsumerGroupHeartbeatRequest_ok version s \<longleftrightarrow>
     \<not> (version < 0 \<or> version > 1) \<and>
     string_ok (2 ^ 32 - 2) (Some (cghrq_group_id s)) \<and>
     string_ok (2 ^ 32 - 2) (Some (cghrq_member_id s)) \<and>
     in_i32 (cghrq_member_epoch s) \<and>
     string_ok (2 ^ 32 - 2) (cghrq_instance_id s) \<and>
     string_ok (2 ^ 32 - 2) (cghrq_rack_id s) \<and>
     in_i32 (cghrq_rebalance_timeout_ms s) \<and>
     seq_ok (2 ^ 32 - 2) (\<lambda>x. string_ok (2 ^ 32 - 2) (Some x)) (cghrq_subscribed_topic_names s) \<and>
     (if version \<ge> 1
       then string_ok (2 ^ 32 - 2) (cghrq_subscribed_topic_regex s)
       else cghrq_subscribed_topic_regex s = None) \<and>
     string_ok (2 ^ 32 - 2) (cghrq_server_assignor s) \<and>
     seq_ok (2 ^ 32 - 2) (ConsumerGroupHeartbeatRequestTopicPartitions_ok version) (cghrq_topic_partitions s) \<and>
     tags_ok 0 (cghrq_unknown_tagged_fields s)"

lemma ConsumerGroupHeartbeatRequest_codec [coded_intros]:
  "sized_codec (\<lambda>s. ConsumerGroupHeartbeatRequest_encode s version) (ConsumerGroupHeartbeatRequest_decode version)
     (\<lambda>s. ConsumerGroupHeartbeatRequest_compute_size s version) (ConsumerGroupHeartbeatRequest_ok version)"
  unfolding ConsumerGroupHeartbeatRequest_encode_def ConsumerGroupHeartbeatRequest_decode_def ConsumerGroupHeartbeatRequest_compute_size_def
  by (rule sized_codecI) (rule coded_intros | (clarsimp simp: ConsumerGroupHeartbeatRequest_ok_def; fail))+

lemmas ConsumerGroupHeartbeatRequest_coded [coded_intros] = sized_codec.codes [OF ConsumerGroupHeartbeatRequest_codec]

section \<open>Streams group describe request\<close>

definition StreamsGroupDescribeRequest_encode :: "streams_group_describe_request \<Rightarrow> i16 \<Rightarrow> wire_error + bytes" where
  "StreamsGroupDescribeRequest_encode s version =
     (if version \<noteq> 0 then Inl UNSUPPORTED_VERSION
      else puts
        [CompactArray_encode (\<lambda>x. CompactString_encode (Some x)) (Some (sgdrq_group_ids s)),
         Inr (Boolean_encode (sgdrq_include_authorized_operations s)),
         put_tags [] 0 (sgdrq_unknown_tagged_fields s)])"

definition StreamsGroupDescribeRequest_compute_size :: "streams_group_describe_request \<Rightarrow> i16 \<Rightarrow> wire_error + usize" where
  "StreamsGroupDescribeRequest_compute_size s version =
     sums
       [CompactArray_compute_size None (\<lambda>x. CompactString_compute_size (Some x)) (Some (sgdrq_group_ids s)),
        Inr 1,
        tags_size [] (sgdrq_unknown_tagged_fields s)]"

definition StreamsGroupDescribeRequest_decode :: "i16 \<Rightarrow> streams_group_describe_request decoder" where
  "StreamsGroupDescribeRequest_decode version =
     (if version \<noteq> 0 then refuse UNSUPPORTED_VERSION
      else
        get (CompactArray_required CompactString_required) (\<lambda>group_ids.
        get Boolean_decode (\<lambda>include_authorized_operations.
        get get_unknown_tags (\<lambda>unknown_tagged_fields.
        give \<lparr>sgdrq_group_ids = group_ids,
               sgdrq_include_authorized_operations = include_authorized_operations,
               sgdrq_unknown_tagged_fields = unknown_tagged_fields\<rparr>))))"

definition StreamsGroupDescribeRequest_ok :: "i16 \<Rightarrow> streams_group_describe_request \<Rightarrow> bool" where
  "StreamsGroupDescribeRequest_ok version s \<longleftrightarrow>
     \<not> (version \<noteq> 0) \<and>
     seq_ok (2 ^ 32 - 2) (\<lambda>x. string_ok (2 ^ 32 - 2) (Some x)) (Some (sgdrq_group_ids s)) \<and>
     tags_ok 0 (sgdrq_unknown_tagged_fields s)"

lemma StreamsGroupDescribeRequest_codec [coded_intros]:
  "sized_codec (\<lambda>s. StreamsGroupDescribeRequest_encode s version) (StreamsGroupDescribeRequest_decode version)
     (\<lambda>s. StreamsGroupDescribeRequest_compute_size s version) (StreamsGroupDescribeRequest_ok version)"
  unfolding StreamsGroupDescribeRequest_encode_def StreamsGroupDescribeRequest_decode_def StreamsGroupDescribeRequest_compute_size_def
  by (rule sized_codecI) (rule coded_intros | (clarsimp simp: StreamsGroupDescribeRequest_ok_def; fail))+

lemmas StreamsGroupDescribeRequest_coded [coded_intros] = sized_codec.codes [OF StreamsGroupDescribeRequest_codec]

section \<open>Streams group heartbeat request\<close>

definition CopartitionGroup_encode :: "copartition_group \<Rightarrow> i16 \<Rightarrow> wire_error + bytes" where
  "CopartitionGroup_encode s version =
     (if version \<noteq> 0 then Inl UNSUPPORTED_VERSION
      else puts
        [CompactArray_encode (\<lambda>x. Inr (Int16_encode x)) (Some (cg_source_topics s)),
         CompactArray_encode (\<lambda>x. Inr (Int16_encode x)) (Some (cg_source_topic_regex s)),
         CompactArray_encode (\<lambda>x. Inr (Int16_encode x)) (Some (cg_repartition_source_topics s)),
         put_tags [] 0 (cg_unknown_tagged_fields s)])"

definition CopartitionGroup_compute_size :: "copartition_group \<Rightarrow> i16 \<Rightarrow> wire_error + usize" where
  "CopartitionGroup_compute_size s version =
     sums
       [CompactArray_compute_size (Some 2) (\<lambda>_. Inr 2) (Some (cg_source_topics s)),
        CompactArray_compute_size (Some 2) (\<lambda>_. Inr 2) (Some (cg_source_topic_regex s)),
        CompactArray_compute_size (Some 2) (\<lambda>_. Inr 2) (Some (cg_repartition_source_topics s)),
        tags_size [] (cg_unknown_tagged_fields s)]"

definition CopartitionGroup_decode :: "i16 \<Rightarrow> copartition_group decoder" where
  "CopartitionGroup_decode version =
     (if version \<noteq> 0 then refuse UNSUPPORTED_VERSION
      else
        get (CompactArray_required Int16_decode) (\<lambda>source_topics.
        get (CompactArray_required Int16_decode) (\<lambda>source_topic_regex.
        get (CompactArray_required Int16_decode) (\<lambda>repartition_source_topics.
        get get_unknown_tags (\<lambda>unknown_tagged_fields.
        give \<lparr>cg_source_topics = source_topics, cg_source_topic_regex = source_topic_regex,
               cg_repartition_source_topics = repartition_source_topics,
               cg_unknown_tagged_fields = unknown_tagged_fields\<rparr>)))))"

definition CopartitionGroup_ok :: "i16 \<Rightarrow> copartition_group \<Rightarrow> bool" where
  "CopartitionGroup_ok version s \<longleftrightarrow>
     \<not> (version \<noteq> 0) \<and>
     seq_ok (2 ^ 32 - 2) in_i16 (Some (cg_source_topics s)) \<and>
     seq_ok (2 ^ 32 - 2) in_i16 (Some (cg_source_topic_regex s)) \<and>
     seq_ok (2 ^ 32 - 2) in_i16 (Some (cg_repartition_source_topics s)) \<and>
     tags_ok 0 (cg_unknown_tagged_fields s)"

lemma CopartitionGroup_codec [coded_intros]:
  "sized_codec (\<lambda>s. CopartitionGroup_encode s version) (CopartitionGroup_decode version)
     (\<lambda>s. CopartitionGroup_compute_size s version) (CopartitionGroup_ok version)"
  unfolding CopartitionGroup_encode_def CopartitionGroup_decode_def CopartitionGroup_compute_size_def
  by (rule sized_codecI) (rule coded_intros | (clarsimp simp: CopartitionGroup_ok_def; fail))+

lemmas CopartitionGroup_coded [coded_intros] = sized_codec.codes [OF CopartitionGroup_codec]

definition StreamsGroupHeartbeatRequestEndpoint_encode :: "streams_group_heartbeat_request_endpoint \<Rightarrow> i16 \<Rightarrow> wire_error + bytes" where
  "StreamsGroupHeartbeatRequestEndpoint_encode s version =
     (if version \<noteq> 0 then Inl UNSUPPORTED_VERSION
      else puts
        [CompactString_encode (Some (sghrqe_host s)),
         Inr (UInt16_encode (sghrqe_port s)),
         put_tags [] 0 (sghrqe_unknown_tagged_fields s)])"

definition StreamsGroupHeartbeatRequestEndpoint_compute_size :: "streams_group_heartbeat_request_endpoint \<Rightarrow> i16 \<Rightarrow> wire_error + usize" where
  "StreamsGroupHeartbeatRequestEndpoint_compute_size s version =
     sums
       [CompactString_compute_size (Some (sghrqe_host s)),
        Inr 2,
        tags_size [] (sghrqe_unknown_tagged_fields s)]"

definition StreamsGroupHeartbeatRequestEndpoint_decode :: "i16 \<Rightarrow> streams_group_heartbeat_request_endpoint decoder" where
  "StreamsGroupHeartbeatRequestEndpoint_decode version =
     (if version \<noteq> 0 then refuse UNSUPPORTED_VERSION
      else
        get CompactString_required (\<lambda>host.
        get UInt16_decode (\<lambda>port.
        get get_unknown_tags (\<lambda>unknown_tagged_fields.
        give \<lparr>sghrqe_host = host, sghrqe_port = port,
               sghrqe_unknown_tagged_fields = unknown_tagged_fields\<rparr>))))"

definition StreamsGroupHeartbeatRequestEndpoint_ok :: "i16 \<Rightarrow> streams_group_heartbeat_request_endpoint \<Rightarrow> bool" where
  "StreamsGroupHeartbeatRequestEndpoint_ok version s \<longleftrightarrow>
     \<not> (version \<noteq> 0) \<and>
     string_ok (2 ^ 32 - 2) (Some (sghrqe_host s)) \<and>
     in_u16 (sghrqe_port s) \<and>
     tags_ok 0 (sghrqe_unknown_tagged_fields s)"

lemma StreamsGroupHeartbeatRequestEndpoint_codec [coded_intros]:
  "sized_codec (\<lambda>s. StreamsGroupHeartbeatRequestEndpoint_encode s version) (StreamsGroupHeartbeatRequestEndpoint_decode version)
     (\<lambda>s. StreamsGroupHeartbeatRequestEndpoint_compute_size s version) (StreamsGroupHeartbeatRequestEndpoint_ok version)"
  unfolding StreamsGroupHeartbeatRequestEndpoint_encode_def StreamsGroupHeartbeatRequestEndpoint_decode_def StreamsGroupHeartbeatRequestEndpoint_compute_size_def
  by (rule sized_codecI) (rule coded_intros | (clarsimp simp: StreamsGroupHeartbeatRequestEndpoint_ok_def; fail))+

lemmas StreamsGroupHeartbeatRequestEndpoint_coded [coded_intros] = sized_codec.codes [OF StreamsGroupHeartbeatRequestEndpoint_codec]

definition KeyValue_encode :: "key_value \<Rightarrow> i16 \<Rightarrow> wire_error + bytes" where
  "KeyValue_encode s version =
     (if version \<noteq> 0 then Inl UNSUPPORTED_VERSION
      else puts
        [CompactString_encode (Some (kv_key s)),
         CompactString_encode (Some (kv_value s)),
         put_tags [] 0 (kv_unknown_tagged_fields s)])"

definition KeyValue_compute_size :: "key_value \<Rightarrow> i16 \<Rightarrow> wire_error + usize" where
  "KeyValue_compute_size s version =
     sums
       [CompactString_compute_size (Some (kv_key s)),
        CompactString_compute_size (Some (kv_value s)),
        tags_size [] (kv_unknown_tagged_fields s)]"

definition KeyValue_decode :: "i16 \<Rightarrow> key_value decoder" where
  "KeyValue_decode version =
     (if version \<noteq> 0 then refuse UNSUPPORTED_VERSION
      else
        get CompactString_required (\<lambda>key.
        get CompactString_required (\<lambda>value.
        get get_unknown_tags (\<lambda>unknown_tagged_fields.
        give \<lparr>kv_key = key, kv_value = value, kv_unknown_tagged_fields = unknown_tagged_fields\<rparr>))))"

definition KeyValue_ok :: "i16 \<Rightarrow> key_value \<Rightarrow> bool" where
  "KeyValue_ok version s \<longleftrightarrow>
     \<not> (version \<noteq> 0) \<and>
     string_ok (2 ^ 32 - 2) (Some (kv_key s)) \<and>
     string_ok (2 ^ 32 - 2) (Some (kv_value s)) \<and>
     tags_ok 0 (kv_unknown_tagged_fields s)"

lemma KeyValue_codec [coded_intros]:
  "sized_codec (\<lambda>s. KeyValue_encode s version) (KeyValue_decode version)
     (\<lambda>s. KeyValue_compute_size s version) (KeyValue_ok version)"
  unfolding KeyValue_encode_def KeyValue_decode_def KeyValue_compute_size_def
  by (rule sized_codecI) (rule coded_intros | (clarsimp simp: KeyValue_ok_def; fail))+

lemmas KeyValue_coded [coded_intros] = sized_codec.codes [OF KeyValue_codec]

definition StreamsGroupHeartbeatRequestTopicInfo_encode :: "streams_group_heartbeat_request_topic_info \<Rightarrow> i16 \<Rightarrow> wire_error + bytes" where
  "StreamsGroupHeartbeatRequestTopicInfo_encode s version =
     (if version \<noteq> 0 then Inl UNSUPPORTED_VERSION
      else puts
        [CompactString_encode (Some (sghrqti_name s)),
         Inr (Int32_encode (sghrqti_partitions s)),
         Inr (Int16_encode (sghrqti_replication_factor s)),
         CompactArray_encode (\<lambda>x. KeyValue_encode x version) (Some (sghrqti_topic_configs s)),
         put_tags [] 0 (sghrqti_unknown_tagged_fields s)])"

definition StreamsGroupHeartbeatRequestTopicInfo_compute_size :: "streams_group_heartbeat_request_topic_info \<Rightarrow> i16 \<Rightarrow> wire_error + usize" where
  "StreamsGroupHeartbeatRequestTopicInfo_compute_size s version =
     sums
       [CompactString_compute_size (Some (sghrqti_name s)),
        Inr 4,
        Inr 2,
        CompactArray_compute_size None (\<lambda>x. KeyValue_compute_size x version) (Some (sghrqti_topic_configs s)),
        tags_size [] (sghrqti_unknown_tagged_fields s)]"

definition StreamsGroupHeartbeatRequestTopicInfo_decode :: "i16 \<Rightarrow> streams_group_heartbeat_request_topic_info decoder" where
  "StreamsGroupHeartbeatRequestTopicInfo_decode version =
     (if version \<noteq> 0 then refuse UNSUPPORTED_VERSION
      else
        get CompactString_required (\<lambda>name.
        get Int32_decode (\<lambda>partitions.
        get Int16_decode (\<lambda>replication_factor.
        get (CompactArray_required (KeyValue_decode version)) (\<lambda>topic_configs.
        get get_unknown_tags (\<lambda>unknown_tagged_fields.
        give \<lparr>sghrqti_name = name, sghrqti_partitions = partitions,
               sghrqti_replication_factor = replication_factor, sghrqti_topic_configs = topic_configs,
               sghrqti_unknown_tagged_fields = unknown_tagged_fields\<rparr>))))))"

definition StreamsGroupHeartbeatRequestTopicInfo_ok :: "i16 \<Rightarrow> streams_group_heartbeat_request_topic_info \<Rightarrow> bool" where
  "StreamsGroupHeartbeatRequestTopicInfo_ok version s \<longleftrightarrow>
     \<not> (version \<noteq> 0) \<and>
     string_ok (2 ^ 32 - 2) (Some (sghrqti_name s)) \<and>
     in_i32 (sghrqti_partitions s) \<and>
     in_i16 (sghrqti_replication_factor s) \<and>
     seq_ok (2 ^ 32 - 2) (KeyValue_ok version) (Some (sghrqti_topic_configs s)) \<and>
     tags_ok 0 (sghrqti_unknown_tagged_fields s)"

lemma StreamsGroupHeartbeatRequestTopicInfo_codec [coded_intros]:
  "sized_codec (\<lambda>s. StreamsGroupHeartbeatRequestTopicInfo_encode s version) (StreamsGroupHeartbeatRequestTopicInfo_decode version)
     (\<lambda>s. StreamsGroupHeartbeatRequestTopicInfo_compute_size s version) (StreamsGroupHeartbeatRequestTopicInfo_ok version)"
  unfolding StreamsGroupHeartbeatRequestTopicInfo_encode_def StreamsGroupHeartbeatRequestTopicInfo_decode_def StreamsGroupHeartbeatRequestTopicInfo_compute_size_def
  by (rule sized_codecI) (rule coded_intros | (clarsimp simp: StreamsGroupHeartbeatRequestTopicInfo_ok_def; fail))+

lemmas StreamsGroupHeartbeatRequestTopicInfo_coded [coded_intros] = sized_codec.codes [OF StreamsGroupHeartbeatRequestTopicInfo_codec]

definition Subtopology_encode :: "subtopology \<Rightarrow> i16 \<Rightarrow> wire_error + bytes" where
  "Subtopology_encode s version =
     (if version \<noteq> 0 then Inl UNSUPPORTED_VERSION
      else puts
        [CompactString_encode (Some (s_subtopology_id s)),
         CompactArray_encode (\<lambda>x. CompactString_encode (Some x)) (Some (s_source_topics s)),
         CompactArray_encode (\<lambda>x. CompactString_encode (Some x)) (Some (s_source_topic_regex s)),
         CompactArray_encode (\<lambda>x. StreamsGroupHeartbeatRequestTopicInfo_encode x version) (Some (s_state_changelog_topics s)),
         CompactArray_encode (\<lambda>x. CompactString_encode (Some x)) (Some (s_repartition_sink_topics s)),
         CompactArray_encode (\<lambda>x. StreamsGroupHeartbeatRequestTopicInfo_encode x version) (Some (s_repartition_source_topics s)),
         CompactArray_encode (\<lambda>x. CopartitionGroup_encode x version) (Some (s_copartition_groups s)),
         put_tags [] 0 (s_unknown_tagged_fields s)])"

definition Subtopology_compute_size :: "subtopology \<Rightarrow> i16 \<Rightarrow> wire_error + usize" where
  "Subtopology_compute_size s version =
     sums
       [CompactString_compute_size (Some (s_subtopology_id s)),
        CompactArray_compute_size None (\<lambda>x. CompactString_compute_size (Some x)) (Some (s_source_topics s)),
        CompactArray_compute_size None (\<lambda>x. CompactString_compute_size (Some x)) (Some (s_source_topic_regex s)),
        CompactArray_compute_size None (\<lambda>x. StreamsGroupHeartbeatRequestTopicInfo_compute_size x version) (Some (s_state_changelog_topics s)),
        CompactArray_compute_size None (\<lambda>x. CompactString_compute_size (Some x)) (Some (s_repartition_sink_topics s)),
        CompactArray_compute_size None (\<lambda>x. StreamsGroupHeartbeatRequestTopicInfo_compute_size x version) (Some (s_repartition_source_topics s)),
        CompactArray_compute_size None (\<lambda>x. CopartitionGroup_compute_size x version) (Some (s_copartition_groups s)),
        tags_size [] (s_unknown_tagged_fields s)]"

definition Subtopology_decode :: "i16 \<Rightarrow> subtopology decoder" where
  "Subtopology_decode version =
     (if version \<noteq> 0 then refuse UNSUPPORTED_VERSION
      else
        get CompactString_required (\<lambda>subtopology_id.
        get (CompactArray_required CompactString_required) (\<lambda>source_topics.
        get (CompactArray_required CompactString_required) (\<lambda>source_topic_regex.
        get (CompactArray_required (StreamsGroupHeartbeatRequestTopicInfo_decode version)) (\<lambda>state_changelog_topics.
        get (CompactArray_required CompactString_required) (\<lambda>repartition_sink_topics.
        get (CompactArray_required (StreamsGroupHeartbeatRequestTopicInfo_decode version)) (\<lambda>repartition_source_topics.
        get (CompactArray_required (CopartitionGroup_decode version)) (\<lambda>copartition_groups.
        get get_unknown_tags (\<lambda>unknown_tagged_fields.
        give \<lparr>s_subtopology_id = subtopology_id, s_source_topics = source_topics,
               s_source_topic_regex = source_topic_regex,
               s_state_changelog_topics = state_changelog_topics,
               s_repartition_sink_topics = repartition_sink_topics,
               s_repartition_source_topics = repartition_source_topics,
               s_copartition_groups = copartition_groups,
               s_unknown_tagged_fields = unknown_tagged_fields\<rparr>)))))))))"

definition Subtopology_ok :: "i16 \<Rightarrow> subtopology \<Rightarrow> bool" where
  "Subtopology_ok version s \<longleftrightarrow>
     \<not> (version \<noteq> 0) \<and>
     string_ok (2 ^ 32 - 2) (Some (s_subtopology_id s)) \<and>
     seq_ok (2 ^ 32 - 2) (\<lambda>x. string_ok (2 ^ 32 - 2) (Some x)) (Some (s_source_topics s)) \<and>
     seq_ok (2 ^ 32 - 2) (\<lambda>x. string_ok (2 ^ 32 - 2) (Some x)) (Some (s_source_topic_regex s)) \<and>
     seq_ok (2 ^ 32 - 2) (StreamsGroupHeartbeatRequestTopicInfo_ok version) (Some (s_state_changelog_topics s)) \<and>
     seq_ok (2 ^ 32 - 2) (\<lambda>x. string_ok (2 ^ 32 - 2) (Some x)) (Some (s_repartition_sink_topics s)) \<and>
     seq_ok (2 ^ 32 - 2) (StreamsGroupHeartbeatRequestTopicInfo_ok version) (Some (s_repartition_source_topics s)) \<and>
     seq_ok (2 ^ 32 - 2) (CopartitionGroup_ok version) (Some (s_copartition_groups s)) \<and>
     tags_ok 0 (s_unknown_tagged_fields s)"

lemma Subtopology_codec [coded_intros]:
  "sized_codec (\<lambda>s. Subtopology_encode s version) (Subtopology_decode version)
     (\<lambda>s. Subtopology_compute_size s version) (Subtopology_ok version)"
  unfolding Subtopology_encode_def Subtopology_decode_def Subtopology_compute_size_def
  by (rule sized_codecI) (rule coded_intros | (clarsimp simp: Subtopology_ok_def; fail))+

lemmas Subtopology_coded [coded_intros] = sized_codec.codes [OF Subtopology_codec]

definition StreamsGroupHeartbeatRequestTopology_encode :: "streams_group_heartbeat_request_topology \<Rightarrow> i16 \<Rightarrow> wire_error + bytes" where
  "StreamsGroupHeartbeatRequestTopology_encode s version =
     (if version \<noteq> 0 then Inl UNSUPPORTED_VERSION
      else puts
        [Inr (Int32_encode (sghrqt_epoch s)),
         CompactArray_encode (\<lambda>x. Subtopology_encode x version) (Some (sghrqt_subtopologies s)),
         put_tags [] 0 (sghrqt_unknown_tagged_fields s)])"

definition StreamsGroupHeartbeatRequestTopology_compute_size :: "streams_group_heartbeat_request_topology \<Rightarrow> i16 \<Rightarrow> wire_error + usize" where
  "StreamsGroupHeartbeatRequestTopology_compute_size s version =
     sums
       [Inr 4,
        CompactArray_compute_size None (\<lambda>x. Subtopology_compute_size x version) (Some (sghrqt_subtopologies s)),
        tags_size [] (sghrqt_unknown_tagged_fields s)]"

definition StreamsGroupHeartbeatRequestTopology_decode :: "i16 \<Rightarrow> streams_group_heartbeat_request_topology decoder" where
  "StreamsGroupHeartbeatRequestTopology_decode version =
     (if version \<noteq> 0 then refuse UNSUPPORTED_VERSION
      else
        get Int32_decode (\<lambda>epoch.
        get (CompactArray_required (Subtopology_decode version)) (\<lambda>subtopologies.
        get get_unknown_tags (\<lambda>unknown_tagged_fields.
        give \<lparr>sghrqt_epoch = epoch, sghrqt_subtopologies = subtopologies,
               sghrqt_unknown_tagged_fields = unknown_tagged_fields\<rparr>))))"

definition StreamsGroupHeartbeatRequestTopology_ok :: "i16 \<Rightarrow> streams_group_heartbeat_request_topology \<Rightarrow> bool" where
  "StreamsGroupHeartbeatRequestTopology_ok version s \<longleftrightarrow>
     \<not> (version \<noteq> 0) \<and>
     in_i32 (sghrqt_epoch s) \<and>
     seq_ok (2 ^ 32 - 2) (Subtopology_ok version) (Some (sghrqt_subtopologies s)) \<and>
     tags_ok 0 (sghrqt_unknown_tagged_fields s)"

lemma StreamsGroupHeartbeatRequestTopology_codec [coded_intros]:
  "sized_codec (\<lambda>s. StreamsGroupHeartbeatRequestTopology_encode s version) (StreamsGroupHeartbeatRequestTopology_decode version)
     (\<lambda>s. StreamsGroupHeartbeatRequestTopology_compute_size s version) (StreamsGroupHeartbeatRequestTopology_ok version)"
  unfolding StreamsGroupHeartbeatRequestTopology_encode_def StreamsGroupHeartbeatRequestTopology_decode_def StreamsGroupHeartbeatRequestTopology_compute_size_def
  by (rule sized_codecI) (rule coded_intros | (clarsimp simp: StreamsGroupHeartbeatRequestTopology_ok_def; fail))+

lemmas StreamsGroupHeartbeatRequestTopology_coded [coded_intros] = sized_codec.codes [OF StreamsGroupHeartbeatRequestTopology_codec]

definition TaskIds_encode :: "task_ids \<Rightarrow> i16 \<Rightarrow> wire_error + bytes" where
  "TaskIds_encode s version =
     (if version \<noteq> 0 then Inl UNSUPPORTED_VERSION
      else puts
        [CompactString_encode (Some (ti_subtopology_id s)),
         CompactArray_encode (\<lambda>x. Inr (Int32_encode x)) (Some (ti_partitions s)),
         put_tags [] 0 (ti_unknown_tagged_fields s)])"

definition TaskIds_compute_size :: "task_ids \<Rightarrow> i16 \<Rightarrow> wire_error + usize" where
  "TaskIds_compute_size s version =
     sums
       [CompactString_compute_size (Some (ti_subtopology_id s)),
        CompactArray_compute_size (Some 4) (\<lambda>_. Inr 4) (Some (ti_partitions s)),
        tags_size [] (ti_unknown_tagged_fields s)]"

definition TaskIds_decode :: "i16 \<Rightarrow> task_ids decoder" where
  "TaskIds_decode version =
     (if version \<noteq> 0 then refuse UNSUPPORTED_VERSION
      else
        get CompactString_required (\<lambda>subtopology_id.
        get (CompactArray_required Int32_decode) (\<lambda>partitions.
        get get_unknown_tags (\<lambda>unknown_tagged_fields.
        give \<lparr>ti_subtopology_id = subtopology_id, ti_partitions = partitions,
               ti_unknown_tagged_fields = unknown_tagged_fields\<rparr>))))"

definition TaskIds_ok :: "i16 \<Rightarrow> task_ids \<Rightarrow> bool" where
  "TaskIds_ok version s \<longleftrightarrow>
     \<not> (version \<noteq> 0) \<and>
     string_ok (2 ^ 32 - 2) (Some (ti_subtopology_id s)) \<and>
     seq_ok (2 ^ 32 - 2) in_i32 (Some (ti_partitions s)) \<and>
     tags_ok 0 (ti_unknown_tagged_fields s)"

lemma TaskIds_codec [coded_intros]:
  "sized_codec (\<lambda>s. TaskIds_encode s version) (TaskIds_decode version)
     (\<lambda>s. TaskIds_compute_size s version) (TaskIds_ok version)"
  unfolding TaskIds_encode_def TaskIds_decode_def TaskIds_compute_size_def
  by (rule sized_codecI) (rule coded_intros | (clarsimp simp: TaskIds_ok_def; fail))+

lemmas TaskIds_coded [coded_intros] = sized_codec.codes [OF TaskIds_codec]

definition TaskOffset_encode :: "task_offset \<Rightarrow> i16 \<Rightarrow> wire_error + bytes" where
  "TaskOffset_encode s version =
     (if version \<noteq> 0 then Inl UNSUPPORTED_VERSION
      else puts
        [CompactString_encode (Some (to_subtopology_id s)),
         Inr (Int32_encode (to_partition s)),
         Inr (Int64_encode (to_offset s)),
         put_tags [] 0 (to_unknown_tagged_fields s)])"

definition TaskOffset_compute_size :: "task_offset \<Rightarrow> i16 \<Rightarrow> wire_error + usize" where
  "TaskOffset_compute_size s version =
     sums
       [CompactString_compute_size (Some (to_subtopology_id s)),
        Inr 4,
        Inr 8,
        tags_size [] (to_unknown_tagged_fields s)]"

definition TaskOffset_decode :: "i16 \<Rightarrow> task_offset decoder" where
  "TaskOffset_decode version =
     (if version \<noteq> 0 then refuse UNSUPPORTED_VERSION
      else
        get CompactString_required (\<lambda>subtopology_id.
        get Int32_decode (\<lambda>partition.
        get Int64_decode (\<lambda>offset.
        get get_unknown_tags (\<lambda>unknown_tagged_fields.
        give \<lparr>to_subtopology_id = subtopology_id, to_partition = partition, to_offset = offset,
               to_unknown_tagged_fields = unknown_tagged_fields\<rparr>)))))"

definition TaskOffset_ok :: "i16 \<Rightarrow> task_offset \<Rightarrow> bool" where
  "TaskOffset_ok version s \<longleftrightarrow>
     \<not> (version \<noteq> 0) \<and>
     string_ok (2 ^ 32 - 2) (Some (to_subtopology_id s)) \<and>
     in_i32 (to_partition s) \<and>
     in_i64 (to_offset s) \<and>
     tags_ok 0 (to_unknown_tagged_fields s)"

lemma TaskOffset_codec [coded_intros]:
  "sized_codec (\<lambda>s. TaskOffset_encode s version) (TaskOffset_decode version)
     (\<lambda>s. TaskOffset_compute_size s version) (TaskOffset_ok version)"
  unfolding TaskOffset_encode_def TaskOffset_decode_def TaskOffset_compute_size_def
  by (rule sized_codecI) (rule coded_intros | (clarsimp simp: TaskOffset_ok_def; fail))+

lemmas TaskOffset_coded [coded_intros] = sized_codec.codes [OF TaskOffset_codec]

definition StreamsGroupHeartbeatRequest_encode :: "streams_group_heartbeat_request \<Rightarrow> i16 \<Rightarrow> wire_error + bytes" where
  "StreamsGroupHeartbeatRequest_encode s version =
     (if version \<noteq> 0 then Inl UNSUPPORTED_VERSION
      else puts
        [CompactString_encode (Some (sghrq_group_id s)),
         CompactString_encode (Some (sghrq_member_id s)),
         Inr (Int32_encode (sghrq_member_epoch s)),
         Inr (Int32_encode (sghrq_endpoint_information_epoch s)),
         CompactString_encode (sghrq_instance_id s),
         CompactString_encode (sghrq_rack_id s),
         Inr (Int32_encode (sghrq_rebalance_timeout_ms s)),
         OptionStruct_encode (\<lambda>x. StreamsGroupHeartbeatRequestTopology_encode x version) (sghrq_topology s),
         CompactArray_encode (\<lambda>x. TaskIds_encode x version) (sghrq_active_tasks s),
         CompactArray_encode (\<lambda>x. TaskIds_encode x version) (sghrq_standby_tasks s),
         CompactArray_encode (\<lambda>x. TaskIds_encode x version) (sghrq_warmup_tasks s),
         CompactString_encode (sghrq_process_id s),
         OptionStruct_encode (\<lambda>x. StreamsGroupHeartbeatRequestEndpoint_encode x version) (sghrq_user_endpoint s),
         CompactArray_encode (\<lambda>x. KeyValue_encode x version) (sghrq_client_tags s),
         CompactArray_encode (\<lambda>x. TaskOffset_encode x version) (sghrq_task_offsets s),
         CompactArray_encode (\<lambda>x. TaskOffset_encode x version) (sghrq_task_end_offsets s),
         Inr (Boolean_encode (sghrq_shutdown_application s)),
         put_tags [] 0 (sghrq_unknown_tagged_fields s)])"

definition StreamsGroupHeartbeatRequest_compute_size :: "streams_group_heartbeat_request \<Rightarrow> i16 \<Rightarrow> wire_error + usize" where
  "StreamsGroupHeartbeatRequest_compute_size s version =
     sums
       [CompactString_compute_size (Some (sghrq_group_id s)),
        CompactString_compute_size (Some (sghrq_member_id s)),
        Inr 4,
        Inr 4,
        CompactString_compute_size (sghrq_instance_id s),
        CompactString_compute_size (sghrq_rack_id s),
        Inr 4,
        OptionStruct_compute_size (\<lambda>x. StreamsGroupHeartbeatRequestTopology_compute_size x version) (sghrq_topology s),
        CompactArray_compute_size None (\<lambda>x. TaskIds_compute_size x version) (sghrq_active_tasks s),
        CompactArray_compute_size None (\<lambda>x. TaskIds_compute_size x version) (sghrq_standby_tasks s),
        CompactArray_compute_size None (\<lambda>x. TaskIds_compute_size x version) (sghrq_warmup_tasks s),
        CompactString_compute_size (sghrq_process_id s),
        OptionStruct_compute_size (\<lambda>x. StreamsGroupHeartbeatRequestEndpoint_compute_size x version) (sghrq_user_endpoint s),
        CompactArray_compute_size None (\<lambda>x. KeyValue_compute_size x version) (sghrq_client_tags s),
        CompactArray_compute_size None (\<lambda>x. TaskOffset_compute_size x version) (sghrq_task_offsets s),
        CompactArray_compute_size None (\<lambda>x. TaskOffset_compute_size x version) (sghrq_task_end_offsets s),
        Inr 1,
        tags_size [] (sghrq_unknown_tagged_fields s)]"

definition StreamsGroupHeartbeatRequest_decode :: "i16 \<Rightarrow> streams_group_heartbeat_request decoder" where
  "StreamsGroupHeartbeatRequest_decode version =
     (if version \<noteq> 0 then refuse UNSUPPORTED_VERSION
      else
        get CompactString_required (\<lambda>group_id.
        get CompactString_required (\<lambda>member_id.
        get Int32_decode (\<lambda>member_epoch.
        get Int32_decode (\<lambda>endpoint_information_epoch.
        get CompactString_decode (\<lambda>instance_id.
        get CompactString_decode (\<lambda>rack_id.
        get Int32_decode (\<lambda>rebalance_timeout_ms.
        get (OptionStruct_decode (StreamsGroupHeartbeatRequestTopology_decode version)) (\<lambda>topology.
        get (CompactArray_decode (TaskIds_decode version)) (\<lambda>active_tasks.
        get (CompactArray_decode (TaskIds_decode version)) (\<lambda>standby_tasks.
        get (CompactArray_decode (TaskIds_decode version)) (\<lambda>warmup_tasks.
        get CompactString_decode (\<lambda>process_id.
        get (OptionStruct_decode (StreamsGroupHeartbeatRequestEndpoint_decode version)) (\<lambda>user_endpoint.
        get (CompactArray_decode (KeyValue_decode version)) (\<lambda>client_tags.
        get (CompactArray_decode (TaskOffset_decode version)) (\<lambda>task_offsets.
        get (CompactArray_decode (TaskOffset_decode version)) (\<lambda>task_end_offsets.
        get Boolean_decode (\<lambda>shutdown_application.
        get get_unknown_tags (\<lambda>unknown_tagged_fields.
        give \<lparr>sghrq_group_id = group_id, sghrq_member_id = member_id,
               sghrq_member_epoch = member_epoch,
               sghrq_endpoint_information_epoch = endpoint_information_epoch,
               sghrq_instance_id = instance_id, sghrq_rack_id = rack_id,
               sghrq_rebalance_timeout_ms = rebalance_timeout_ms, sghrq_topology = topology,
               sghrq_active_tasks = active_tasks, sghrq_standby_tasks = standby_tasks,
               sghrq_warmup_tasks = warmup_tasks, sghrq_process_id = process_id,
               sghrq_user_endpoint = user_endpoint, sghrq_client_tags = client_tags,
               sghrq_task_offsets = task_offsets, sghrq_task_end_offsets = task_end_offsets,
               sghrq_shutdown_application = shutdown_application,
               sghrq_unknown_tagged_fields = unknown_tagged_fields\<rparr>)))))))))))))))))))"

definition StreamsGroupHeartbeatRequest_ok :: "i16 \<Rightarrow> streams_group_heartbeat_request \<Rightarrow> bool" where
  "StreamsGroupHeartbeatRequest_ok version s \<longleftrightarrow>
     \<not> (version \<noteq> 0) \<and>
     string_ok (2 ^ 32 - 2) (Some (sghrq_group_id s)) \<and>
     string_ok (2 ^ 32 - 2) (Some (sghrq_member_id s)) \<and>
     in_i32 (sghrq_member_epoch s) \<and>
     in_i32 (sghrq_endpoint_information_epoch s) \<and>
     string_ok (2 ^ 32 - 2) (sghrq_instance_id s) \<and>
     string_ok (2 ^ 32 - 2) (sghrq_rack_id s) \<and>
     in_i32 (sghrq_rebalance_timeout_ms s) \<and>
     (case sghrq_topology s of None \<Rightarrow> True | Some x \<Rightarrow> StreamsGroupHeartbeatRequestTopology_ok version x) \<and>
     seq_ok (2 ^ 32 - 2) (TaskIds_ok version) (sghrq_active_tasks s) \<and>
     seq_ok (2 ^ 32 - 2) (TaskIds_ok version) (sghrq_standby_tasks s) \<and>
     seq_ok (2 ^ 32 - 2) (TaskIds_ok version) (sghrq_warmup_tasks s) \<and>
     string_ok (2 ^ 32 - 2) (sghrq_process_id s) \<and>
     (case sghrq_user_endpoint s of None \<Rightarrow> True | Some x \<Rightarrow> StreamsGroupHeartbeatRequestEndpoint_ok version x) \<and>
     seq_ok (2 ^ 32 - 2) (KeyValue_ok version) (sghrq_client_tags s) \<and>
     seq_ok (2 ^ 32 - 2) (TaskOffset_ok version) (sghrq_task_offsets s) \<and>
     seq_ok (2 ^ 32 - 2) (TaskOffset_ok version) (sghrq_task_end_offsets s) \<and>
     tags_ok 0 (sghrq_unknown_tagged_fields s)"

lemma StreamsGroupHeartbeatRequest_codec [coded_intros]:
  "sized_codec (\<lambda>s. StreamsGroupHeartbeatRequest_encode s version) (StreamsGroupHeartbeatRequest_decode version)
     (\<lambda>s. StreamsGroupHeartbeatRequest_compute_size s version) (StreamsGroupHeartbeatRequest_ok version)"
  unfolding StreamsGroupHeartbeatRequest_encode_def StreamsGroupHeartbeatRequest_decode_def StreamsGroupHeartbeatRequest_compute_size_def
  by (rule sized_codecI) (rule coded_intros | (clarsimp simp: StreamsGroupHeartbeatRequest_ok_def; fail))+

lemmas StreamsGroupHeartbeatRequest_coded [coded_intros] = sized_codec.codes [OF StreamsGroupHeartbeatRequest_codec]

section \<open>Bodies\<close>

text \<open>The variants of \<open>RequestKind\<close> (\<open>messages.rs\<close>) with these requests, and their codecs by API key. The match on the key is exhaustive; its last arm is the last key of the group.\<close>

datatype consumer_request =
  ConsumerGroupHeartbeatRequest consumer_group_heartbeat_request
| ConsumerGroupDescribeRequest consumer_group_describe_request
| StreamsGroupHeartbeatRequest streams_group_heartbeat_request
| StreamsGroupDescribeRequest streams_group_describe_request

fun consumer_request_key :: "consumer_request \<Rightarrow> i16" where
  "consumer_request_key (ConsumerGroupHeartbeatRequest _) = 68"
| "consumer_request_key (ConsumerGroupDescribeRequest _) = 69"
| "consumer_request_key (StreamsGroupHeartbeatRequest _) = 88"
| "consumer_request_key (StreamsGroupDescribeRequest _) = 89"

fun consumer_request_encode :: "consumer_request \<Rightarrow> i16 \<Rightarrow> wire_error + bytes" where
  "consumer_request_encode (ConsumerGroupHeartbeatRequest x) version = ConsumerGroupHeartbeatRequest_encode x version"
| "consumer_request_encode (ConsumerGroupDescribeRequest x) version = ConsumerGroupDescribeRequest_encode x version"
| "consumer_request_encode (StreamsGroupHeartbeatRequest x) version = StreamsGroupHeartbeatRequest_encode x version"
| "consumer_request_encode (StreamsGroupDescribeRequest x) version = StreamsGroupDescribeRequest_encode x version"

definition consumer_request_decode :: "i16 \<Rightarrow> i16 \<Rightarrow> consumer_request decoder" where
  "consumer_request_decode key version =
     (if key = 68 then get (ConsumerGroupHeartbeatRequest_decode version) (\<lambda>x. give (ConsumerGroupHeartbeatRequest x))
      else if key = 69 then get (ConsumerGroupDescribeRequest_decode version) (\<lambda>x. give (ConsumerGroupDescribeRequest x))
      else if key = 88 then get (StreamsGroupHeartbeatRequest_decode version) (\<lambda>x. give (StreamsGroupHeartbeatRequest x))
      else get (StreamsGroupDescribeRequest_decode version) (\<lambda>x. give (StreamsGroupDescribeRequest x)))"

fun consumer_request_size :: "i16 \<Rightarrow> consumer_request \<Rightarrow> wire_error + usize" where
  "consumer_request_size version (ConsumerGroupHeartbeatRequest x) = ConsumerGroupHeartbeatRequest_compute_size x version"
| "consumer_request_size version (ConsumerGroupDescribeRequest x) = ConsumerGroupDescribeRequest_compute_size x version"
| "consumer_request_size version (StreamsGroupHeartbeatRequest x) = StreamsGroupHeartbeatRequest_compute_size x version"
| "consumer_request_size version (StreamsGroupDescribeRequest x) = StreamsGroupDescribeRequest_compute_size x version"

fun consumer_request_ok :: "i16 \<Rightarrow> consumer_request \<Rightarrow> bool" where
  "consumer_request_ok version (ConsumerGroupHeartbeatRequest x) = ConsumerGroupHeartbeatRequest_ok version x"
| "consumer_request_ok version (ConsumerGroupDescribeRequest x) = ConsumerGroupDescribeRequest_ok version x"
| "consumer_request_ok version (StreamsGroupHeartbeatRequest x) = StreamsGroupHeartbeatRequest_ok version x"
| "consumer_request_ok version (StreamsGroupDescribeRequest x) = StreamsGroupDescribeRequest_ok version x"

lemma consumer_request_coded:
  "consumer_request_ok version body \<Longrightarrow>
   coded (consumer_request_encode body version) (consumer_request_decode (consumer_request_key body) version) (consumer_request_size version body) body"
  by (cases body) (simp_all add: consumer_request_decode_def coded_tag_value
    ConsumerGroupHeartbeatRequest_coded ConsumerGroupDescribeRequest_coded StreamsGroupHeartbeatRequest_coded StreamsGroupDescribeRequest_coded)

end
