(* ===== verification/Messages_Share.thy ===== *)
theory Messages_Share
  imports Prelude
begin

text \<open>
  Requests about share groups, which the broker does not serve
  (\<open>src/crates/kafka-protocol/src/messages/\<close>). Every message is a record with the fields of the Rust structure, and its
  \<open>_default\<close> is the value of \<open>Default::default()\<close>.
\<close>

section \<open>Share group describe request\<close>

record share_group_describe_request =
  sgdrq2_group_ids :: "string list"
  sgdrq2_include_authorized_operations :: bool
  sgdrq2_unknown_tagged_fields :: "(i32, bytes) btree_map"

definition share_group_describe_request_default :: share_group_describe_request where
  "share_group_describe_request_default =
     \<lparr>sgdrq2_group_ids = [], sgdrq2_include_authorized_operations = False,
      sgdrq2_unknown_tagged_fields = []\<rparr>"

section \<open>Share group heartbeat request\<close>

record share_group_heartbeat_request =
  sghrq2_group_id :: string
  sghrq2_member_id :: string
  sghrq2_member_epoch :: i32
  sghrq2_rack_id :: "string option"
  sghrq2_subscribed_topic_names :: "string list option"
  sghrq2_unknown_tagged_fields :: "(i32, bytes) btree_map"

definition share_group_heartbeat_request_default :: share_group_heartbeat_request where
  "share_group_heartbeat_request_default =
     \<lparr>sghrq2_group_id = [], sghrq2_member_id = [], sghrq2_member_epoch = 0, sghrq2_rack_id = None,
      sghrq2_subscribed_topic_names = None, sghrq2_unknown_tagged_fields = []\<rparr>"

section \<open>Share fetch request\<close>

record share_fetch_request_acknowledgement_batch =
  sfrqab_first_offset :: i64
  sfrqab_last_offset :: i64
  sfrqab_acknowledge_types :: "i8 list"
  sfrqab_unknown_tagged_fields :: "(i32, bytes) btree_map"

definition share_fetch_request_acknowledgement_batch_default :: share_fetch_request_acknowledgement_batch where
  "share_fetch_request_acknowledgement_batch_default =
     \<lparr>sfrqab_first_offset = 0, sfrqab_last_offset = 0, sfrqab_acknowledge_types = [],
      sfrqab_unknown_tagged_fields = []\<rparr>"

record share_fetch_request_fetch_partition =
  sfrqfp_partition_index :: i32
  sfrqfp_partition_max_bytes :: i32
  sfrqfp_acknowledgement_batches :: "share_fetch_request_acknowledgement_batch list"
  sfrqfp_unknown_tagged_fields :: "(i32, bytes) btree_map"

definition share_fetch_request_fetch_partition_default :: share_fetch_request_fetch_partition where
  "share_fetch_request_fetch_partition_default =
     \<lparr>sfrqfp_partition_index = 0, sfrqfp_partition_max_bytes = 0,
      sfrqfp_acknowledgement_batches = [], sfrqfp_unknown_tagged_fields = []\<rparr>"

record share_fetch_request_fetch_topic =
  sfrqft_topic_id :: uuid
  sfrqft_partitions :: "share_fetch_request_fetch_partition list"
  sfrqft_unknown_tagged_fields :: "(i32, bytes) btree_map"

definition share_fetch_request_fetch_topic_default :: share_fetch_request_fetch_topic where
  "share_fetch_request_fetch_topic_default =
     \<lparr>sfrqft_topic_id = nil_uuid, sfrqft_partitions = [],
      sfrqft_unknown_tagged_fields = []\<rparr>"

record share_fetch_request_forgotten_topic =
  sfrqft2_topic_id :: uuid
  sfrqft2_partitions :: "i32 list"
  sfrqft2_unknown_tagged_fields :: "(i32, bytes) btree_map"

definition share_fetch_request_forgotten_topic_default :: share_fetch_request_forgotten_topic where
  "share_fetch_request_forgotten_topic_default =
     \<lparr>sfrqft2_topic_id = nil_uuid, sfrqft2_partitions = [],
      sfrqft2_unknown_tagged_fields = []\<rparr>"

record share_fetch_request =
  sfrq_group_id :: "string option"
  sfrq_member_id :: "string option"
  sfrq_share_session_epoch :: i32
  sfrq_max_wait_ms :: i32
  sfrq_min_bytes :: i32
  sfrq_max_bytes :: i32
  sfrq_max_records :: i32
  sfrq_batch_size :: i32
  sfrq_share_acquire_mode :: i8
  sfrq_is_renew_ack :: bool
  sfrq_topics :: "share_fetch_request_fetch_topic list"
  sfrq_forgotten_topics_data :: "share_fetch_request_forgotten_topic list"
  sfrq_unknown_tagged_fields :: "(i32, bytes) btree_map"

definition share_fetch_request_default :: share_fetch_request where
  "share_fetch_request_default =
     \<lparr>sfrq_group_id = None, sfrq_member_id = Some [], sfrq_share_session_epoch = 0,
      sfrq_max_wait_ms = 0, sfrq_min_bytes = 0, sfrq_max_bytes = 2147483647, sfrq_max_records = 0,
      sfrq_batch_size = 0, sfrq_share_acquire_mode = 0, sfrq_is_renew_ack = False, sfrq_topics = [],
      sfrq_forgotten_topics_data = [], sfrq_unknown_tagged_fields = []\<rparr>"

section \<open>Share acknowledge request\<close>

record share_acknowledge_request_acknowledgement_batch =
  sarqab_first_offset :: i64
  sarqab_last_offset :: i64
  sarqab_acknowledge_types :: "i8 list"
  sarqab_unknown_tagged_fields :: "(i32, bytes) btree_map"

definition share_acknowledge_request_acknowledgement_batch_default :: share_acknowledge_request_acknowledgement_batch where
  "share_acknowledge_request_acknowledgement_batch_default =
     \<lparr>sarqab_first_offset = 0, sarqab_last_offset = 0, sarqab_acknowledge_types = [],
      sarqab_unknown_tagged_fields = []\<rparr>"

record acknowledge_partition =
  ap_partition_index :: i32
  ap_acknowledgement_batches :: "share_acknowledge_request_acknowledgement_batch list"
  ap_unknown_tagged_fields :: "(i32, bytes) btree_map"

definition acknowledge_partition_default :: acknowledge_partition where
  "acknowledge_partition_default =
     \<lparr>ap_partition_index = 0, ap_acknowledgement_batches = [],
      ap_unknown_tagged_fields = []\<rparr>"

record acknowledge_topic =
  at_topic_id :: uuid
  at_partitions :: "acknowledge_partition list"
  at_unknown_tagged_fields :: "(i32, bytes) btree_map"

definition acknowledge_topic_default :: acknowledge_topic where
  "acknowledge_topic_default =
     \<lparr>at_topic_id = nil_uuid, at_partitions = [], at_unknown_tagged_fields = []\<rparr>"

record share_acknowledge_request =
  sarq2_group_id :: "string option"
  sarq2_member_id :: "string option"
  sarq2_share_session_epoch :: i32
  sarq2_is_renew_ack :: bool
  sarq2_topics :: "acknowledge_topic list"
  sarq2_unknown_tagged_fields :: "(i32, bytes) btree_map"

definition share_acknowledge_request_default :: share_acknowledge_request where
  "share_acknowledge_request_default =
     \<lparr>sarq2_group_id = None, sarq2_member_id = Some [], sarq2_share_session_epoch = 0,
      sarq2_is_renew_ack = False, sarq2_topics = [], sarq2_unknown_tagged_fields = []\<rparr>"

section \<open>Alter share group offsets request\<close>

record alter_share_group_offsets_request_partition =
  asgorqp_partition_index :: i32
  asgorqp_start_offset :: i64
  asgorqp_unknown_tagged_fields :: "(i32, bytes) btree_map"

definition alter_share_group_offsets_request_partition_default :: alter_share_group_offsets_request_partition where
  "alter_share_group_offsets_request_partition_default =
     \<lparr>asgorqp_partition_index = 0, asgorqp_start_offset = 0,
      asgorqp_unknown_tagged_fields = []\<rparr>"

record alter_share_group_offsets_request_topic =
  asgorqt_topic_name :: string
  asgorqt_partitions :: "alter_share_group_offsets_request_partition list"
  asgorqt_unknown_tagged_fields :: "(i32, bytes) btree_map"

definition alter_share_group_offsets_request_topic_default :: alter_share_group_offsets_request_topic where
  "alter_share_group_offsets_request_topic_default =
     \<lparr>asgorqt_topic_name = [], asgorqt_partitions = [], asgorqt_unknown_tagged_fields = []\<rparr>"

record alter_share_group_offsets_request =
  asgorq_group_id :: string
  asgorq_topics :: "alter_share_group_offsets_request_topic list"
  asgorq_unknown_tagged_fields :: "(i32, bytes) btree_map"

definition alter_share_group_offsets_request_default :: alter_share_group_offsets_request where
  "alter_share_group_offsets_request_default =
     \<lparr>asgorq_group_id = [], asgorq_topics = [], asgorq_unknown_tagged_fields = []\<rparr>"

section \<open>Delete share group offsets request\<close>

record delete_share_group_offsets_request_topic =
  dsgorqt_topic_name :: string
  dsgorqt_unknown_tagged_fields :: "(i32, bytes) btree_map"

definition delete_share_group_offsets_request_topic_default :: delete_share_group_offsets_request_topic where
  "delete_share_group_offsets_request_topic_default =
     \<lparr>dsgorqt_topic_name = [], dsgorqt_unknown_tagged_fields = []\<rparr>"

record delete_share_group_offsets_request =
  dsgorq_group_id :: string
  dsgorq_topics :: "delete_share_group_offsets_request_topic list"
  dsgorq_unknown_tagged_fields :: "(i32, bytes) btree_map"

definition delete_share_group_offsets_request_default :: delete_share_group_offsets_request where
  "delete_share_group_offsets_request_default =
     \<lparr>dsgorq_group_id = [], dsgorq_topics = [], dsgorq_unknown_tagged_fields = []\<rparr>"

section \<open>Describe share group offsets request\<close>

record describe_share_group_offsets_request_topic =
  dsgorqt2_topic_name :: string
  dsgorqt2_partitions :: "i32 list"
  dsgorqt2_unknown_tagged_fields :: "(i32, bytes) btree_map"

definition describe_share_group_offsets_request_topic_default :: describe_share_group_offsets_request_topic where
  "describe_share_group_offsets_request_topic_default =
     \<lparr>dsgorqt2_topic_name = [], dsgorqt2_partitions = [],
      dsgorqt2_unknown_tagged_fields = []\<rparr>"

record describe_share_group_offsets_request_group =
  dsgorqg_group_id :: string
  dsgorqg_topics :: "describe_share_group_offsets_request_topic list option"
  dsgorqg_unknown_tagged_fields :: "(i32, bytes) btree_map"

definition describe_share_group_offsets_request_group_default :: describe_share_group_offsets_request_group where
  "describe_share_group_offsets_request_group_default =
     \<lparr>dsgorqg_group_id = [], dsgorqg_topics = Some [], dsgorqg_unknown_tagged_fields = []\<rparr>"

record describe_share_group_offsets_request =
  dsgorq2_groups :: "describe_share_group_offsets_request_group list"
  dsgorq2_unknown_tagged_fields :: "(i32, bytes) btree_map"

definition describe_share_group_offsets_request_default :: describe_share_group_offsets_request where
  "describe_share_group_offsets_request_default =
     \<lparr>dsgorq2_groups = [], dsgorq2_unknown_tagged_fields = []\<rparr>"

section \<open>Initialize share group state request\<close>

record initialize_share_group_state_request_partition_data =
  isgsrqpd_partition :: i32
  isgsrqpd_state_epoch :: i32
  isgsrqpd_start_offset :: i64
  isgsrqpd_unknown_tagged_fields :: "(i32, bytes) btree_map"

definition initialize_share_group_state_request_partition_data_default :: initialize_share_group_state_request_partition_data where
  "initialize_share_group_state_request_partition_data_default =
     \<lparr>isgsrqpd_partition = 0, isgsrqpd_state_epoch = 0, isgsrqpd_start_offset = 0,
      isgsrqpd_unknown_tagged_fields = []\<rparr>"

record initialize_state_data =
  isd_topic_id :: uuid
  isd_partitions :: "initialize_share_group_state_request_partition_data list"
  isd_unknown_tagged_fields :: "(i32, bytes) btree_map"

definition initialize_state_data_default :: initialize_state_data where
  "initialize_state_data_default =
     \<lparr>isd_topic_id = nil_uuid, isd_partitions = [], isd_unknown_tagged_fields = []\<rparr>"

record initialize_share_group_state_request =
  isgsrq_group_id :: string
  isgsrq_topics :: "initialize_state_data list"
  isgsrq_unknown_tagged_fields :: "(i32, bytes) btree_map"

definition initialize_share_group_state_request_default :: initialize_share_group_state_request where
  "initialize_share_group_state_request_default =
     \<lparr>isgsrq_group_id = [], isgsrq_topics = [], isgsrq_unknown_tagged_fields = []\<rparr>"

section \<open>Read share group state request\<close>

record read_share_group_state_request_partition_data =
  rsgsrqpd_partition :: i32
  rsgsrqpd_leader_epoch :: i32
  rsgsrqpd_unknown_tagged_fields :: "(i32, bytes) btree_map"

definition read_share_group_state_request_partition_data_default :: read_share_group_state_request_partition_data where
  "read_share_group_state_request_partition_data_default =
     \<lparr>rsgsrqpd_partition = 0, rsgsrqpd_leader_epoch = 0,
      rsgsrqpd_unknown_tagged_fields = []\<rparr>"

record read_state_data =
  rsd_topic_id :: uuid
  rsd_partitions :: "read_share_group_state_request_partition_data list"
  rsd_unknown_tagged_fields :: "(i32, bytes) btree_map"

definition read_state_data_default :: read_state_data where
  "read_state_data_default =
     \<lparr>rsd_topic_id = nil_uuid, rsd_partitions = [], rsd_unknown_tagged_fields = []\<rparr>"

record read_share_group_state_request =
  rsgsrq_group_id :: string
  rsgsrq_topics :: "read_state_data list"
  rsgsrq_unknown_tagged_fields :: "(i32, bytes) btree_map"

definition read_share_group_state_request_default :: read_share_group_state_request where
  "read_share_group_state_request_default =
     \<lparr>rsgsrq_group_id = [], rsgsrq_topics = [], rsgsrq_unknown_tagged_fields = []\<rparr>"

section \<open>Read share group state summary request\<close>

record read_share_group_state_summary_request_partition_data =
  rsgssrqpd_partition :: i32
  rsgssrqpd_leader_epoch :: i32
  rsgssrqpd_unknown_tagged_fields :: "(i32, bytes) btree_map"

definition read_share_group_state_summary_request_partition_data_default :: read_share_group_state_summary_request_partition_data where
  "read_share_group_state_summary_request_partition_data_default =
     \<lparr>rsgssrqpd_partition = 0, rsgssrqpd_leader_epoch = 0,
      rsgssrqpd_unknown_tagged_fields = []\<rparr>"

record read_state_summary_data =
  rssd_topic_id :: uuid
  rssd_partitions :: "read_share_group_state_summary_request_partition_data list"
  rssd_unknown_tagged_fields :: "(i32, bytes) btree_map"

definition read_state_summary_data_default :: read_state_summary_data where
  "read_state_summary_data_default =
     \<lparr>rssd_topic_id = nil_uuid, rssd_partitions = [], rssd_unknown_tagged_fields = []\<rparr>"

record read_share_group_state_summary_request =
  rsgssrq_group_id :: string
  rsgssrq_topics :: "read_state_summary_data list"
  rsgssrq_unknown_tagged_fields :: "(i32, bytes) btree_map"

definition read_share_group_state_summary_request_default :: read_share_group_state_summary_request where
  "read_share_group_state_summary_request_default =
     \<lparr>rsgssrq_group_id = [], rsgssrq_topics = [], rsgssrq_unknown_tagged_fields = []\<rparr>"

section \<open>Write share group state request\<close>

record state_batch =
  sb2_first_offset :: i64
  sb2_last_offset :: i64
  sb2_delivery_state :: i8
  sb2_delivery_count :: i16
  sb2_unknown_tagged_fields :: "(i32, bytes) btree_map"

definition state_batch_default :: state_batch where
  "state_batch_default =
     \<lparr>sb2_first_offset = 0, sb2_last_offset = 0, sb2_delivery_state = 0, sb2_delivery_count = 0,
      sb2_unknown_tagged_fields = []\<rparr>"

record write_share_group_state_request_partition_data =
  wsgsrqpd_partition :: i32
  wsgsrqpd_state_epoch :: i32
  wsgsrqpd_leader_epoch :: i32
  wsgsrqpd_start_offset :: i64
  wsgsrqpd_delivery_complete_count :: i32
  wsgsrqpd_state_batches :: "state_batch list"
  wsgsrqpd_unknown_tagged_fields :: "(i32, bytes) btree_map"

definition write_share_group_state_request_partition_data_default :: write_share_group_state_request_partition_data where
  "write_share_group_state_request_partition_data_default =
     \<lparr>wsgsrqpd_partition = 0, wsgsrqpd_state_epoch = 0, wsgsrqpd_leader_epoch = 0,
      wsgsrqpd_start_offset = 0, wsgsrqpd_delivery_complete_count = - 1, wsgsrqpd_state_batches = [],
      wsgsrqpd_unknown_tagged_fields = []\<rparr>"

record write_state_data =
  wsd_topic_id :: uuid
  wsd_partitions :: "write_share_group_state_request_partition_data list"
  wsd_unknown_tagged_fields :: "(i32, bytes) btree_map"

definition write_state_data_default :: write_state_data where
  "write_state_data_default =
     \<lparr>wsd_topic_id = nil_uuid, wsd_partitions = [], wsd_unknown_tagged_fields = []\<rparr>"

record write_share_group_state_request =
  wsgsrq_group_id :: string
  wsgsrq_topics :: "write_state_data list"
  wsgsrq_unknown_tagged_fields :: "(i32, bytes) btree_map"

definition write_share_group_state_request_default :: write_share_group_state_request where
  "write_share_group_state_request_default =
     \<lparr>wsgsrq_group_id = [], wsgsrq_topics = [], wsgsrq_unknown_tagged_fields = []\<rparr>"

section \<open>Delete share group state request\<close>

record delete_share_group_state_request_partition_data =
  dsgsrqpd_partition :: i32
  dsgsrqpd_unknown_tagged_fields :: "(i32, bytes) btree_map"

definition delete_share_group_state_request_partition_data_default :: delete_share_group_state_request_partition_data where
  "delete_share_group_state_request_partition_data_default =
     \<lparr>dsgsrqpd_partition = 0, dsgsrqpd_unknown_tagged_fields = []\<rparr>"

record delete_state_data =
  dsd_topic_id :: uuid
  dsd_partitions :: "delete_share_group_state_request_partition_data list"
  dsd_unknown_tagged_fields :: "(i32, bytes) btree_map"

definition delete_state_data_default :: delete_state_data where
  "delete_state_data_default =
     \<lparr>dsd_topic_id = nil_uuid, dsd_partitions = [], dsd_unknown_tagged_fields = []\<rparr>"

record delete_share_group_state_request =
  dsgsrq_group_id :: string
  dsgsrq_topics :: "delete_state_data list"
  dsgsrq_unknown_tagged_fields :: "(i32, bytes) btree_map"

definition delete_share_group_state_request_default :: delete_share_group_state_request where
  "delete_share_group_state_request_default =
     \<lparr>dsgsrq_group_id = [], dsgsrq_topics = [], dsgsrq_unknown_tagged_fields = []\<rparr>"

end
