(* ===== verification/Codec_Share.thy ===== *)
theory Codec_Share
  imports Codec_Consumer Messages_Share
begin

text \<open>
  The codecs of the requests about share groups
  (\<open>src/crates/kafka-protocol/src/messages/\<close>): the encoder, the size computation and the decoder of every structure,
  for every version of its schema, what a structure must satisfy to be sent in a version, and that it then comes back.
\<close>

section \<open>Share group describe request\<close>

definition ShareGroupDescribeRequest_encode :: "share_group_describe_request \<Rightarrow> i16 \<Rightarrow> wire_error + bytes" where
  "ShareGroupDescribeRequest_encode s version =
     (if version \<noteq> 1 then Inl UNSUPPORTED_VERSION
      else puts
        [CompactArray_encode (\<lambda>x. CompactString_encode (Some x)) (Some (sgdrq2_group_ids s)),
         Inr (Boolean_encode (sgdrq2_include_authorized_operations s)),
         put_tags [] 0 (sgdrq2_unknown_tagged_fields s)])"

definition ShareGroupDescribeRequest_compute_size :: "share_group_describe_request \<Rightarrow> i16 \<Rightarrow> wire_error + usize" where
  "ShareGroupDescribeRequest_compute_size s version =
     sums
       [CompactArray_compute_size None (\<lambda>x. CompactString_compute_size (Some x)) (Some (sgdrq2_group_ids s)),
        Inr 1,
        tags_size [] (sgdrq2_unknown_tagged_fields s)]"

definition ShareGroupDescribeRequest_decode :: "i16 \<Rightarrow> share_group_describe_request decoder" where
  "ShareGroupDescribeRequest_decode version =
     (if version \<noteq> 1 then refuse UNSUPPORTED_VERSION
      else
        get (CompactArray_required CompactString_required) (\<lambda>group_ids.
        get Boolean_decode (\<lambda>include_authorized_operations.
        get get_unknown_tags (\<lambda>unknown_tagged_fields.
        give \<lparr>sgdrq2_group_ids = group_ids,
               sgdrq2_include_authorized_operations = include_authorized_operations,
               sgdrq2_unknown_tagged_fields = unknown_tagged_fields\<rparr>))))"

definition ShareGroupDescribeRequest_ok :: "i16 \<Rightarrow> share_group_describe_request \<Rightarrow> bool" where
  "ShareGroupDescribeRequest_ok version s \<longleftrightarrow>
     \<not> (version \<noteq> 1) \<and>
     seq_ok (2 ^ 32 - 2) (\<lambda>x. string_ok (2 ^ 32 - 2) (Some x)) (Some (sgdrq2_group_ids s)) \<and>
     tags_ok 0 (sgdrq2_unknown_tagged_fields s)"

lemma ShareGroupDescribeRequest_codec [coded_intros]:
  "sized_codec (\<lambda>s. ShareGroupDescribeRequest_encode s version) (ShareGroupDescribeRequest_decode version)
     (\<lambda>s. ShareGroupDescribeRequest_compute_size s version) (ShareGroupDescribeRequest_ok version)"
  unfolding ShareGroupDescribeRequest_encode_def ShareGroupDescribeRequest_decode_def ShareGroupDescribeRequest_compute_size_def
  by (rule sized_codecI) (rule coded_intros | (clarsimp simp: ShareGroupDescribeRequest_ok_def; fail))+

lemmas ShareGroupDescribeRequest_coded [coded_intros] = sized_codec.codes [OF ShareGroupDescribeRequest_codec]

section \<open>Share group heartbeat request\<close>

definition ShareGroupHeartbeatRequest_encode :: "share_group_heartbeat_request \<Rightarrow> i16 \<Rightarrow> wire_error + bytes" where
  "ShareGroupHeartbeatRequest_encode s version =
     (if version \<noteq> 1 then Inl UNSUPPORTED_VERSION
      else puts
        [CompactString_encode (Some (sghrq2_group_id s)),
         CompactString_encode (Some (sghrq2_member_id s)),
         Inr (Int32_encode (sghrq2_member_epoch s)),
         CompactString_encode (sghrq2_rack_id s),
         CompactArray_encode (\<lambda>x. CompactString_encode (Some x)) (sghrq2_subscribed_topic_names s),
         put_tags [] 0 (sghrq2_unknown_tagged_fields s)])"

definition ShareGroupHeartbeatRequest_compute_size :: "share_group_heartbeat_request \<Rightarrow> i16 \<Rightarrow> wire_error + usize" where
  "ShareGroupHeartbeatRequest_compute_size s version =
     sums
       [CompactString_compute_size (Some (sghrq2_group_id s)),
        CompactString_compute_size (Some (sghrq2_member_id s)),
        Inr 4,
        CompactString_compute_size (sghrq2_rack_id s),
        CompactArray_compute_size None (\<lambda>x. CompactString_compute_size (Some x)) (sghrq2_subscribed_topic_names s),
        tags_size [] (sghrq2_unknown_tagged_fields s)]"

definition ShareGroupHeartbeatRequest_decode :: "i16 \<Rightarrow> share_group_heartbeat_request decoder" where
  "ShareGroupHeartbeatRequest_decode version =
     (if version \<noteq> 1 then refuse UNSUPPORTED_VERSION
      else
        get CompactString_required (\<lambda>group_id.
        get CompactString_required (\<lambda>member_id.
        get Int32_decode (\<lambda>member_epoch.
        get CompactString_decode (\<lambda>rack_id.
        get (CompactArray_decode CompactString_required) (\<lambda>subscribed_topic_names.
        get get_unknown_tags (\<lambda>unknown_tagged_fields.
        give \<lparr>sghrq2_group_id = group_id, sghrq2_member_id = member_id,
               sghrq2_member_epoch = member_epoch, sghrq2_rack_id = rack_id,
               sghrq2_subscribed_topic_names = subscribed_topic_names,
               sghrq2_unknown_tagged_fields = unknown_tagged_fields\<rparr>)))))))"

definition ShareGroupHeartbeatRequest_ok :: "i16 \<Rightarrow> share_group_heartbeat_request \<Rightarrow> bool" where
  "ShareGroupHeartbeatRequest_ok version s \<longleftrightarrow>
     \<not> (version \<noteq> 1) \<and>
     string_ok (2 ^ 32 - 2) (Some (sghrq2_group_id s)) \<and>
     string_ok (2 ^ 32 - 2) (Some (sghrq2_member_id s)) \<and>
     in_i32 (sghrq2_member_epoch s) \<and>
     string_ok (2 ^ 32 - 2) (sghrq2_rack_id s) \<and>
     seq_ok (2 ^ 32 - 2) (\<lambda>x. string_ok (2 ^ 32 - 2) (Some x)) (sghrq2_subscribed_topic_names s) \<and>
     tags_ok 0 (sghrq2_unknown_tagged_fields s)"

lemma ShareGroupHeartbeatRequest_codec [coded_intros]:
  "sized_codec (\<lambda>s. ShareGroupHeartbeatRequest_encode s version) (ShareGroupHeartbeatRequest_decode version)
     (\<lambda>s. ShareGroupHeartbeatRequest_compute_size s version) (ShareGroupHeartbeatRequest_ok version)"
  unfolding ShareGroupHeartbeatRequest_encode_def ShareGroupHeartbeatRequest_decode_def ShareGroupHeartbeatRequest_compute_size_def
  by (rule sized_codecI) (rule coded_intros | (clarsimp simp: ShareGroupHeartbeatRequest_ok_def; fail))+

lemmas ShareGroupHeartbeatRequest_coded [coded_intros] = sized_codec.codes [OF ShareGroupHeartbeatRequest_codec]

section \<open>Share fetch request\<close>

definition ShareFetchRequestAcknowledgementBatch_encode :: "share_fetch_request_acknowledgement_batch \<Rightarrow> i16 \<Rightarrow> wire_error + bytes" where
  "ShareFetchRequestAcknowledgementBatch_encode s version =
     (if version < 1 \<or> version > 2 then Inl UNSUPPORTED_VERSION
      else puts
        [Inr (Int64_encode (sfrqab_first_offset s)),
         Inr (Int64_encode (sfrqab_last_offset s)),
         CompactArray_encode (\<lambda>x. Inr (Int8_encode x)) (Some (sfrqab_acknowledge_types s)),
         put_tags [] 0 (sfrqab_unknown_tagged_fields s)])"

definition ShareFetchRequestAcknowledgementBatch_compute_size :: "share_fetch_request_acknowledgement_batch \<Rightarrow> i16 \<Rightarrow> wire_error + usize" where
  "ShareFetchRequestAcknowledgementBatch_compute_size s version =
     sums
       [Inr 8,
        Inr 8,
        CompactArray_compute_size (Some 1) (\<lambda>_. Inr 1) (Some (sfrqab_acknowledge_types s)),
        tags_size [] (sfrqab_unknown_tagged_fields s)]"

definition ShareFetchRequestAcknowledgementBatch_decode :: "i16 \<Rightarrow> share_fetch_request_acknowledgement_batch decoder" where
  "ShareFetchRequestAcknowledgementBatch_decode version =
     (if version < 1 \<or> version > 2 then refuse UNSUPPORTED_VERSION
      else
        get Int64_decode (\<lambda>first_offset.
        get Int64_decode (\<lambda>last_offset.
        get (CompactArray_required Int8_decode) (\<lambda>acknowledge_types.
        get get_unknown_tags (\<lambda>unknown_tagged_fields.
        give \<lparr>sfrqab_first_offset = first_offset, sfrqab_last_offset = last_offset,
               sfrqab_acknowledge_types = acknowledge_types,
               sfrqab_unknown_tagged_fields = unknown_tagged_fields\<rparr>)))))"

definition ShareFetchRequestAcknowledgementBatch_ok :: "i16 \<Rightarrow> share_fetch_request_acknowledgement_batch \<Rightarrow> bool" where
  "ShareFetchRequestAcknowledgementBatch_ok version s \<longleftrightarrow>
     \<not> (version < 1 \<or> version > 2) \<and>
     in_i64 (sfrqab_first_offset s) \<and>
     in_i64 (sfrqab_last_offset s) \<and>
     seq_ok (2 ^ 32 - 2) in_i8 (Some (sfrqab_acknowledge_types s)) \<and>
     tags_ok 0 (sfrqab_unknown_tagged_fields s)"

lemma ShareFetchRequestAcknowledgementBatch_codec [coded_intros]:
  "sized_codec (\<lambda>s. ShareFetchRequestAcknowledgementBatch_encode s version) (ShareFetchRequestAcknowledgementBatch_decode version)
     (\<lambda>s. ShareFetchRequestAcknowledgementBatch_compute_size s version) (ShareFetchRequestAcknowledgementBatch_ok version)"
  unfolding ShareFetchRequestAcknowledgementBatch_encode_def ShareFetchRequestAcknowledgementBatch_decode_def ShareFetchRequestAcknowledgementBatch_compute_size_def
  by (rule sized_codecI) (rule coded_intros | (simp add: ShareFetchRequestAcknowledgementBatch_ok_def; fail))+

lemmas ShareFetchRequestAcknowledgementBatch_coded [coded_intros] = sized_codec.codes [OF ShareFetchRequestAcknowledgementBatch_codec]

definition ShareFetchRequestFetchPartition_encode :: "share_fetch_request_fetch_partition \<Rightarrow> i16 \<Rightarrow> wire_error + bytes" where
  "ShareFetchRequestFetchPartition_encode s version =
     (if version < 1 \<or> version > 2 then Inl UNSUPPORTED_VERSION
      else puts
        [Inr (Int32_encode (sfrqfp_partition_index s)),
         CompactArray_encode (\<lambda>x. ShareFetchRequestAcknowledgementBatch_encode x version) (Some (sfrqfp_acknowledgement_batches s)),
         put_tags [] 0 (sfrqfp_unknown_tagged_fields s)])"

definition ShareFetchRequestFetchPartition_compute_size :: "share_fetch_request_fetch_partition \<Rightarrow> i16 \<Rightarrow> wire_error + usize" where
  "ShareFetchRequestFetchPartition_compute_size s version =
     sums
       [Inr 4,
        CompactArray_compute_size None (\<lambda>x. ShareFetchRequestAcknowledgementBatch_compute_size x version) (Some (sfrqfp_acknowledgement_batches s)),
        tags_size [] (sfrqfp_unknown_tagged_fields s)]"

definition ShareFetchRequestFetchPartition_decode :: "i16 \<Rightarrow> share_fetch_request_fetch_partition decoder" where
  "ShareFetchRequestFetchPartition_decode version =
     (if version < 1 \<or> version > 2 then refuse UNSUPPORTED_VERSION
      else
        get Int32_decode (\<lambda>partition_index.
        get (CompactArray_required (ShareFetchRequestAcknowledgementBatch_decode version)) (\<lambda>acknowledgement_batches.
        get get_unknown_tags (\<lambda>unknown_tagged_fields.
        give \<lparr>sfrqfp_partition_index = partition_index, sfrqfp_partition_max_bytes = 0,
               sfrqfp_acknowledgement_batches = acknowledgement_batches,
               sfrqfp_unknown_tagged_fields = unknown_tagged_fields\<rparr>))))"

definition ShareFetchRequestFetchPartition_ok :: "i16 \<Rightarrow> share_fetch_request_fetch_partition \<Rightarrow> bool" where
  "ShareFetchRequestFetchPartition_ok version s \<longleftrightarrow>
     \<not> (version < 1 \<or> version > 2) \<and>
     in_i32 (sfrqfp_partition_index s) \<and>
     seq_ok (2 ^ 32 - 2) (ShareFetchRequestAcknowledgementBatch_ok version) (Some (sfrqfp_acknowledgement_batches s)) \<and>
     sfrqfp_partition_max_bytes s = 0 \<and>
     tags_ok 0 (sfrqfp_unknown_tagged_fields s)"

lemma ShareFetchRequestFetchPartition_codec [coded_intros]:
  "sized_codec (\<lambda>s. ShareFetchRequestFetchPartition_encode s version) (ShareFetchRequestFetchPartition_decode version)
     (\<lambda>s. ShareFetchRequestFetchPartition_compute_size s version) (ShareFetchRequestFetchPartition_ok version)"
  unfolding ShareFetchRequestFetchPartition_encode_def ShareFetchRequestFetchPartition_decode_def ShareFetchRequestFetchPartition_compute_size_def
  by (rule sized_codecI) (rule coded_intros | (simp add: ShareFetchRequestFetchPartition_ok_def; fail))+

lemmas ShareFetchRequestFetchPartition_coded [coded_intros] = sized_codec.codes [OF ShareFetchRequestFetchPartition_codec]

definition ShareFetchRequestFetchTopic_encode :: "share_fetch_request_fetch_topic \<Rightarrow> i16 \<Rightarrow> wire_error + bytes" where
  "ShareFetchRequestFetchTopic_encode s version =
     (if version < 1 \<or> version > 2 then Inl UNSUPPORTED_VERSION
      else puts
        [Inr (Uuid_encode (sfrqft_topic_id s)),
         CompactArray_encode (\<lambda>x. ShareFetchRequestFetchPartition_encode x version) (Some (sfrqft_partitions s)),
         put_tags [] 0 (sfrqft_unknown_tagged_fields s)])"

definition ShareFetchRequestFetchTopic_compute_size :: "share_fetch_request_fetch_topic \<Rightarrow> i16 \<Rightarrow> wire_error + usize" where
  "ShareFetchRequestFetchTopic_compute_size s version =
     sums
       [Inr 16,
        CompactArray_compute_size None (\<lambda>x. ShareFetchRequestFetchPartition_compute_size x version) (Some (sfrqft_partitions s)),
        tags_size [] (sfrqft_unknown_tagged_fields s)]"

definition ShareFetchRequestFetchTopic_decode :: "i16 \<Rightarrow> share_fetch_request_fetch_topic decoder" where
  "ShareFetchRequestFetchTopic_decode version =
     (if version < 1 \<or> version > 2 then refuse UNSUPPORTED_VERSION
      else
        get Uuid_decode (\<lambda>topic_id.
        get (CompactArray_required (ShareFetchRequestFetchPartition_decode version)) (\<lambda>partitions.
        get get_unknown_tags (\<lambda>unknown_tagged_fields.
        give \<lparr>sfrqft_topic_id = topic_id, sfrqft_partitions = partitions,
               sfrqft_unknown_tagged_fields = unknown_tagged_fields\<rparr>))))"

definition ShareFetchRequestFetchTopic_ok :: "i16 \<Rightarrow> share_fetch_request_fetch_topic \<Rightarrow> bool" where
  "ShareFetchRequestFetchTopic_ok version s \<longleftrightarrow>
     \<not> (version < 1 \<or> version > 2) \<and>
     seq_ok (2 ^ 32 - 2) (ShareFetchRequestFetchPartition_ok version) (Some (sfrqft_partitions s)) \<and>
     tags_ok 0 (sfrqft_unknown_tagged_fields s)"

lemma ShareFetchRequestFetchTopic_codec [coded_intros]:
  "sized_codec (\<lambda>s. ShareFetchRequestFetchTopic_encode s version) (ShareFetchRequestFetchTopic_decode version)
     (\<lambda>s. ShareFetchRequestFetchTopic_compute_size s version) (ShareFetchRequestFetchTopic_ok version)"
  unfolding ShareFetchRequestFetchTopic_encode_def ShareFetchRequestFetchTopic_decode_def ShareFetchRequestFetchTopic_compute_size_def
  by (rule sized_codecI) (rule coded_intros | (simp add: ShareFetchRequestFetchTopic_ok_def; fail))+

lemmas ShareFetchRequestFetchTopic_coded [coded_intros] = sized_codec.codes [OF ShareFetchRequestFetchTopic_codec]

definition ShareFetchRequestForgottenTopic_encode :: "share_fetch_request_forgotten_topic \<Rightarrow> i16 \<Rightarrow> wire_error + bytes" where
  "ShareFetchRequestForgottenTopic_encode s version =
     (if version < 1 \<or> version > 2 then Inl UNSUPPORTED_VERSION
      else puts
        [Inr (Uuid_encode (sfrqft2_topic_id s)),
         CompactArray_encode (\<lambda>x. Inr (Int32_encode x)) (Some (sfrqft2_partitions s)),
         put_tags [] 0 (sfrqft2_unknown_tagged_fields s)])"

definition ShareFetchRequestForgottenTopic_compute_size :: "share_fetch_request_forgotten_topic \<Rightarrow> i16 \<Rightarrow> wire_error + usize" where
  "ShareFetchRequestForgottenTopic_compute_size s version =
     sums
       [Inr 16,
        CompactArray_compute_size (Some 4) (\<lambda>_. Inr 4) (Some (sfrqft2_partitions s)),
        tags_size [] (sfrqft2_unknown_tagged_fields s)]"

definition ShareFetchRequestForgottenTopic_decode :: "i16 \<Rightarrow> share_fetch_request_forgotten_topic decoder" where
  "ShareFetchRequestForgottenTopic_decode version =
     (if version < 1 \<or> version > 2 then refuse UNSUPPORTED_VERSION
      else
        get Uuid_decode (\<lambda>topic_id.
        get (CompactArray_required Int32_decode) (\<lambda>partitions.
        get get_unknown_tags (\<lambda>unknown_tagged_fields.
        give \<lparr>sfrqft2_topic_id = topic_id, sfrqft2_partitions = partitions,
               sfrqft2_unknown_tagged_fields = unknown_tagged_fields\<rparr>))))"

definition ShareFetchRequestForgottenTopic_ok :: "i16 \<Rightarrow> share_fetch_request_forgotten_topic \<Rightarrow> bool" where
  "ShareFetchRequestForgottenTopic_ok version s \<longleftrightarrow>
     \<not> (version < 1 \<or> version > 2) \<and>
     seq_ok (2 ^ 32 - 2) in_i32 (Some (sfrqft2_partitions s)) \<and>
     tags_ok 0 (sfrqft2_unknown_tagged_fields s)"

lemma ShareFetchRequestForgottenTopic_codec [coded_intros]:
  "sized_codec (\<lambda>s. ShareFetchRequestForgottenTopic_encode s version) (ShareFetchRequestForgottenTopic_decode version)
     (\<lambda>s. ShareFetchRequestForgottenTopic_compute_size s version) (ShareFetchRequestForgottenTopic_ok version)"
  unfolding ShareFetchRequestForgottenTopic_encode_def ShareFetchRequestForgottenTopic_decode_def ShareFetchRequestForgottenTopic_compute_size_def
  by (rule sized_codecI) (rule coded_intros | (simp add: ShareFetchRequestForgottenTopic_ok_def; fail))+

lemmas ShareFetchRequestForgottenTopic_coded [coded_intros] = sized_codec.codes [OF ShareFetchRequestForgottenTopic_codec]

definition ShareFetchRequest_encode :: "share_fetch_request \<Rightarrow> i16 \<Rightarrow> wire_error + bytes" where
  "ShareFetchRequest_encode s version =
     (if version < 1 \<or> version > 2 then Inl UNSUPPORTED_VERSION
      else puts
        [CompactString_encode (sfrq_group_id s),
         CompactString_encode (sfrq_member_id s),
         Inr (Int32_encode (sfrq_share_session_epoch s)),
         Inr (Int32_encode (sfrq_max_wait_ms s)),
         Inr (Int32_encode (sfrq_min_bytes s)),
         Inr (Int32_encode (sfrq_max_bytes s)),
         Inr (Int32_encode (sfrq_max_records s)),
         Inr (Int32_encode (sfrq_batch_size s)),
         if version \<ge> 2 then Inr (Int8_encode (sfrq_share_acquire_mode s)) else Inr [],
         if version \<ge> 2
          then Inr (Boolean_encode (sfrq_is_renew_ack s))
          else unset [] (\<not> sfrq_is_renew_ack s),
         CompactArray_encode (\<lambda>x. ShareFetchRequestFetchTopic_encode x version) (Some (sfrq_topics s)),
         CompactArray_encode (\<lambda>x. ShareFetchRequestForgottenTopic_encode x version) (Some (sfrq_forgotten_topics_data s)),
         put_tags [] 0 (sfrq_unknown_tagged_fields s)])"

definition ShareFetchRequest_compute_size :: "share_fetch_request \<Rightarrow> i16 \<Rightarrow> wire_error + usize" where
  "ShareFetchRequest_compute_size s version =
     sums
       [CompactString_compute_size (sfrq_group_id s),
        CompactString_compute_size (sfrq_member_id s),
        Inr 4,
        Inr 4,
        Inr 4,
        Inr 4,
        Inr 4,
        Inr 4,
        if version \<ge> 2 then Inr 1 else Inr 0,
        if version \<ge> 2 then Inr 1 else unset 0 (\<not> sfrq_is_renew_ack s),
        CompactArray_compute_size None (\<lambda>x. ShareFetchRequestFetchTopic_compute_size x version) (Some (sfrq_topics s)),
        CompactArray_compute_size None (\<lambda>x. ShareFetchRequestForgottenTopic_compute_size x version) (Some (sfrq_forgotten_topics_data s)),
        tags_size [] (sfrq_unknown_tagged_fields s)]"

definition ShareFetchRequest_decode :: "i16 \<Rightarrow> share_fetch_request decoder" where
  "ShareFetchRequest_decode version =
     (if version < 1 \<or> version > 2 then refuse UNSUPPORTED_VERSION
      else
        get CompactString_decode (\<lambda>group_id.
        get CompactString_decode (\<lambda>member_id.
        get Int32_decode (\<lambda>share_session_epoch.
        get Int32_decode (\<lambda>max_wait_ms.
        get Int32_decode (\<lambda>min_bytes.
        get Int32_decode (\<lambda>max_bytes.
        get Int32_decode (\<lambda>max_records.
        get Int32_decode (\<lambda>batch_size.
        get (if version \<ge> 2 then Int8_decode else give 0) (\<lambda>share_acquire_mode.
        get (if version \<ge> 2 then Boolean_decode else give False) (\<lambda>is_renew_ack.
        get (CompactArray_required (ShareFetchRequestFetchTopic_decode version)) (\<lambda>topics.
        get (CompactArray_required (ShareFetchRequestForgottenTopic_decode version)) (\<lambda>forgotten_topics_data.
        get get_unknown_tags (\<lambda>unknown_tagged_fields.
        give \<lparr>sfrq_group_id = group_id, sfrq_member_id = member_id,
               sfrq_share_session_epoch = share_session_epoch, sfrq_max_wait_ms = max_wait_ms,
               sfrq_min_bytes = min_bytes, sfrq_max_bytes = max_bytes, sfrq_max_records = max_records,
               sfrq_batch_size = batch_size, sfrq_share_acquire_mode = share_acquire_mode,
               sfrq_is_renew_ack = is_renew_ack, sfrq_topics = topics,
               sfrq_forgotten_topics_data = forgotten_topics_data,
               sfrq_unknown_tagged_fields = unknown_tagged_fields\<rparr>))))))))))))))"

definition ShareFetchRequest_ok :: "i16 \<Rightarrow> share_fetch_request \<Rightarrow> bool" where
  "ShareFetchRequest_ok version s \<longleftrightarrow>
     \<not> (version < 1 \<or> version > 2) \<and>
     string_ok (2 ^ 32 - 2) (sfrq_group_id s) \<and>
     string_ok (2 ^ 32 - 2) (sfrq_member_id s) \<and>
     in_i32 (sfrq_share_session_epoch s) \<and>
     in_i32 (sfrq_max_wait_ms s) \<and>
     in_i32 (sfrq_min_bytes s) \<and>
     in_i32 (sfrq_max_bytes s) \<and>
     in_i32 (sfrq_max_records s) \<and>
     in_i32 (sfrq_batch_size s) \<and>
     (if version \<ge> 2 then in_i8 (sfrq_share_acquire_mode s) else sfrq_share_acquire_mode s = 0) \<and>
     (if version \<ge> 2 then True else \<not> sfrq_is_renew_ack s) \<and>
     seq_ok (2 ^ 32 - 2) (ShareFetchRequestFetchTopic_ok version) (Some (sfrq_topics s)) \<and>
     seq_ok (2 ^ 32 - 2) (ShareFetchRequestForgottenTopic_ok version) (Some (sfrq_forgotten_topics_data s)) \<and>
     tags_ok 0 (sfrq_unknown_tagged_fields s)"

lemma ShareFetchRequest_codec [coded_intros]:
  "sized_codec (\<lambda>s. ShareFetchRequest_encode s version) (ShareFetchRequest_decode version)
     (\<lambda>s. ShareFetchRequest_compute_size s version) (ShareFetchRequest_ok version)"
  unfolding ShareFetchRequest_encode_def ShareFetchRequest_decode_def ShareFetchRequest_compute_size_def
  by (rule sized_codecI) (rule coded_intros | (clarsimp simp: ShareFetchRequest_ok_def; fail))+

lemmas ShareFetchRequest_coded [coded_intros] = sized_codec.codes [OF ShareFetchRequest_codec]

section \<open>Share acknowledge request\<close>

definition ShareAcknowledgeRequestAcknowledgementBatch_encode :: "share_acknowledge_request_acknowledgement_batch \<Rightarrow> i16 \<Rightarrow> wire_error + bytes" where
  "ShareAcknowledgeRequestAcknowledgementBatch_encode s version =
     (if version < 1 \<or> version > 2 then Inl UNSUPPORTED_VERSION
      else puts
        [Inr (Int64_encode (sarqab_first_offset s)),
         Inr (Int64_encode (sarqab_last_offset s)),
         CompactArray_encode (\<lambda>x. Inr (Int8_encode x)) (Some (sarqab_acknowledge_types s)),
         put_tags [] 0 (sarqab_unknown_tagged_fields s)])"

definition ShareAcknowledgeRequestAcknowledgementBatch_compute_size :: "share_acknowledge_request_acknowledgement_batch \<Rightarrow> i16 \<Rightarrow> wire_error + usize" where
  "ShareAcknowledgeRequestAcknowledgementBatch_compute_size s version =
     sums
       [Inr 8,
        Inr 8,
        CompactArray_compute_size (Some 1) (\<lambda>_. Inr 1) (Some (sarqab_acknowledge_types s)),
        tags_size [] (sarqab_unknown_tagged_fields s)]"

definition ShareAcknowledgeRequestAcknowledgementBatch_decode :: "i16 \<Rightarrow> share_acknowledge_request_acknowledgement_batch decoder" where
  "ShareAcknowledgeRequestAcknowledgementBatch_decode version =
     (if version < 1 \<or> version > 2 then refuse UNSUPPORTED_VERSION
      else
        get Int64_decode (\<lambda>first_offset.
        get Int64_decode (\<lambda>last_offset.
        get (CompactArray_required Int8_decode) (\<lambda>acknowledge_types.
        get get_unknown_tags (\<lambda>unknown_tagged_fields.
        give \<lparr>sarqab_first_offset = first_offset, sarqab_last_offset = last_offset,
               sarqab_acknowledge_types = acknowledge_types,
               sarqab_unknown_tagged_fields = unknown_tagged_fields\<rparr>)))))"

definition ShareAcknowledgeRequestAcknowledgementBatch_ok :: "i16 \<Rightarrow> share_acknowledge_request_acknowledgement_batch \<Rightarrow> bool" where
  "ShareAcknowledgeRequestAcknowledgementBatch_ok version s \<longleftrightarrow>
     \<not> (version < 1 \<or> version > 2) \<and>
     in_i64 (sarqab_first_offset s) \<and>
     in_i64 (sarqab_last_offset s) \<and>
     seq_ok (2 ^ 32 - 2) in_i8 (Some (sarqab_acknowledge_types s)) \<and>
     tags_ok 0 (sarqab_unknown_tagged_fields s)"

lemma ShareAcknowledgeRequestAcknowledgementBatch_codec [coded_intros]:
  "sized_codec (\<lambda>s. ShareAcknowledgeRequestAcknowledgementBatch_encode s version) (ShareAcknowledgeRequestAcknowledgementBatch_decode version)
     (\<lambda>s. ShareAcknowledgeRequestAcknowledgementBatch_compute_size s version) (ShareAcknowledgeRequestAcknowledgementBatch_ok version)"
  unfolding ShareAcknowledgeRequestAcknowledgementBatch_encode_def ShareAcknowledgeRequestAcknowledgementBatch_decode_def ShareAcknowledgeRequestAcknowledgementBatch_compute_size_def
  by (rule sized_codecI) (rule coded_intros | (simp add: ShareAcknowledgeRequestAcknowledgementBatch_ok_def; fail))+

lemmas ShareAcknowledgeRequestAcknowledgementBatch_coded [coded_intros] = sized_codec.codes [OF ShareAcknowledgeRequestAcknowledgementBatch_codec]

definition AcknowledgePartition_encode :: "acknowledge_partition \<Rightarrow> i16 \<Rightarrow> wire_error + bytes" where
  "AcknowledgePartition_encode s version =
     (if version < 1 \<or> version > 2 then Inl UNSUPPORTED_VERSION
      else puts
        [Inr (Int32_encode (ap_partition_index s)),
         CompactArray_encode (\<lambda>x. ShareAcknowledgeRequestAcknowledgementBatch_encode x version) (Some (ap_acknowledgement_batches s)),
         put_tags [] 0 (ap_unknown_tagged_fields s)])"

definition AcknowledgePartition_compute_size :: "acknowledge_partition \<Rightarrow> i16 \<Rightarrow> wire_error + usize" where
  "AcknowledgePartition_compute_size s version =
     sums
       [Inr 4,
        CompactArray_compute_size None (\<lambda>x. ShareAcknowledgeRequestAcknowledgementBatch_compute_size x version) (Some (ap_acknowledgement_batches s)),
        tags_size [] (ap_unknown_tagged_fields s)]"

definition AcknowledgePartition_decode :: "i16 \<Rightarrow> acknowledge_partition decoder" where
  "AcknowledgePartition_decode version =
     (if version < 1 \<or> version > 2 then refuse UNSUPPORTED_VERSION
      else
        get Int32_decode (\<lambda>partition_index.
        get (CompactArray_required (ShareAcknowledgeRequestAcknowledgementBatch_decode version)) (\<lambda>acknowledgement_batches.
        get get_unknown_tags (\<lambda>unknown_tagged_fields.
        give \<lparr>ap_partition_index = partition_index,
               ap_acknowledgement_batches = acknowledgement_batches,
               ap_unknown_tagged_fields = unknown_tagged_fields\<rparr>))))"

definition AcknowledgePartition_ok :: "i16 \<Rightarrow> acknowledge_partition \<Rightarrow> bool" where
  "AcknowledgePartition_ok version s \<longleftrightarrow>
     \<not> (version < 1 \<or> version > 2) \<and>
     in_i32 (ap_partition_index s) \<and>
     seq_ok (2 ^ 32 - 2) (ShareAcknowledgeRequestAcknowledgementBatch_ok version) (Some (ap_acknowledgement_batches s)) \<and>
     tags_ok 0 (ap_unknown_tagged_fields s)"

lemma AcknowledgePartition_codec [coded_intros]:
  "sized_codec (\<lambda>s. AcknowledgePartition_encode s version) (AcknowledgePartition_decode version)
     (\<lambda>s. AcknowledgePartition_compute_size s version) (AcknowledgePartition_ok version)"
  unfolding AcknowledgePartition_encode_def AcknowledgePartition_decode_def AcknowledgePartition_compute_size_def
  by (rule sized_codecI) (rule coded_intros | (simp add: AcknowledgePartition_ok_def; fail))+

lemmas AcknowledgePartition_coded [coded_intros] = sized_codec.codes [OF AcknowledgePartition_codec]

definition AcknowledgeTopic_encode :: "acknowledge_topic \<Rightarrow> i16 \<Rightarrow> wire_error + bytes" where
  "AcknowledgeTopic_encode s version =
     (if version < 1 \<or> version > 2 then Inl UNSUPPORTED_VERSION
      else puts
        [Inr (Uuid_encode (at_topic_id s)),
         CompactArray_encode (\<lambda>x. AcknowledgePartition_encode x version) (Some (at_partitions s)),
         put_tags [] 0 (at_unknown_tagged_fields s)])"

definition AcknowledgeTopic_compute_size :: "acknowledge_topic \<Rightarrow> i16 \<Rightarrow> wire_error + usize" where
  "AcknowledgeTopic_compute_size s version =
     sums
       [Inr 16,
        CompactArray_compute_size None (\<lambda>x. AcknowledgePartition_compute_size x version) (Some (at_partitions s)),
        tags_size [] (at_unknown_tagged_fields s)]"

definition AcknowledgeTopic_decode :: "i16 \<Rightarrow> acknowledge_topic decoder" where
  "AcknowledgeTopic_decode version =
     (if version < 1 \<or> version > 2 then refuse UNSUPPORTED_VERSION
      else
        get Uuid_decode (\<lambda>topic_id.
        get (CompactArray_required (AcknowledgePartition_decode version)) (\<lambda>partitions.
        get get_unknown_tags (\<lambda>unknown_tagged_fields.
        give \<lparr>at_topic_id = topic_id, at_partitions = partitions,
               at_unknown_tagged_fields = unknown_tagged_fields\<rparr>))))"

definition AcknowledgeTopic_ok :: "i16 \<Rightarrow> acknowledge_topic \<Rightarrow> bool" where
  "AcknowledgeTopic_ok version s \<longleftrightarrow>
     \<not> (version < 1 \<or> version > 2) \<and>
     seq_ok (2 ^ 32 - 2) (AcknowledgePartition_ok version) (Some (at_partitions s)) \<and>
     tags_ok 0 (at_unknown_tagged_fields s)"

lemma AcknowledgeTopic_codec [coded_intros]:
  "sized_codec (\<lambda>s. AcknowledgeTopic_encode s version) (AcknowledgeTopic_decode version)
     (\<lambda>s. AcknowledgeTopic_compute_size s version) (AcknowledgeTopic_ok version)"
  unfolding AcknowledgeTopic_encode_def AcknowledgeTopic_decode_def AcknowledgeTopic_compute_size_def
  by (rule sized_codecI) (rule coded_intros | (simp add: AcknowledgeTopic_ok_def; fail))+

lemmas AcknowledgeTopic_coded [coded_intros] = sized_codec.codes [OF AcknowledgeTopic_codec]

definition ShareAcknowledgeRequest_encode :: "share_acknowledge_request \<Rightarrow> i16 \<Rightarrow> wire_error + bytes" where
  "ShareAcknowledgeRequest_encode s version =
     (if version < 1 \<or> version > 2 then Inl UNSUPPORTED_VERSION
      else puts
        [CompactString_encode (sarq2_group_id s),
         CompactString_encode (sarq2_member_id s),
         Inr (Int32_encode (sarq2_share_session_epoch s)),
         if version \<ge> 2
          then Inr (Boolean_encode (sarq2_is_renew_ack s))
          else unset [] (\<not> sarq2_is_renew_ack s),
         CompactArray_encode (\<lambda>x. AcknowledgeTopic_encode x version) (Some (sarq2_topics s)),
         put_tags [] 0 (sarq2_unknown_tagged_fields s)])"

definition ShareAcknowledgeRequest_compute_size :: "share_acknowledge_request \<Rightarrow> i16 \<Rightarrow> wire_error + usize" where
  "ShareAcknowledgeRequest_compute_size s version =
     sums
       [CompactString_compute_size (sarq2_group_id s),
        CompactString_compute_size (sarq2_member_id s),
        Inr 4,
        if version \<ge> 2 then Inr 1 else unset 0 (\<not> sarq2_is_renew_ack s),
        CompactArray_compute_size None (\<lambda>x. AcknowledgeTopic_compute_size x version) (Some (sarq2_topics s)),
        tags_size [] (sarq2_unknown_tagged_fields s)]"

definition ShareAcknowledgeRequest_decode :: "i16 \<Rightarrow> share_acknowledge_request decoder" where
  "ShareAcknowledgeRequest_decode version =
     (if version < 1 \<or> version > 2 then refuse UNSUPPORTED_VERSION
      else
        get CompactString_decode (\<lambda>group_id.
        get CompactString_decode (\<lambda>member_id.
        get Int32_decode (\<lambda>share_session_epoch.
        get (if version \<ge> 2 then Boolean_decode else give False) (\<lambda>is_renew_ack.
        get (CompactArray_required (AcknowledgeTopic_decode version)) (\<lambda>topics.
        get get_unknown_tags (\<lambda>unknown_tagged_fields.
        give \<lparr>sarq2_group_id = group_id, sarq2_member_id = member_id,
               sarq2_share_session_epoch = share_session_epoch, sarq2_is_renew_ack = is_renew_ack,
               sarq2_topics = topics, sarq2_unknown_tagged_fields = unknown_tagged_fields\<rparr>)))))))"

definition ShareAcknowledgeRequest_ok :: "i16 \<Rightarrow> share_acknowledge_request \<Rightarrow> bool" where
  "ShareAcknowledgeRequest_ok version s \<longleftrightarrow>
     \<not> (version < 1 \<or> version > 2) \<and>
     string_ok (2 ^ 32 - 2) (sarq2_group_id s) \<and>
     string_ok (2 ^ 32 - 2) (sarq2_member_id s) \<and>
     in_i32 (sarq2_share_session_epoch s) \<and>
     (if version \<ge> 2 then True else \<not> sarq2_is_renew_ack s) \<and>
     seq_ok (2 ^ 32 - 2) (AcknowledgeTopic_ok version) (Some (sarq2_topics s)) \<and>
     tags_ok 0 (sarq2_unknown_tagged_fields s)"

lemma ShareAcknowledgeRequest_codec [coded_intros]:
  "sized_codec (\<lambda>s. ShareAcknowledgeRequest_encode s version) (ShareAcknowledgeRequest_decode version)
     (\<lambda>s. ShareAcknowledgeRequest_compute_size s version) (ShareAcknowledgeRequest_ok version)"
  unfolding ShareAcknowledgeRequest_encode_def ShareAcknowledgeRequest_decode_def ShareAcknowledgeRequest_compute_size_def
  by (rule sized_codecI) (rule coded_intros | (clarsimp simp: ShareAcknowledgeRequest_ok_def; fail))+

lemmas ShareAcknowledgeRequest_coded [coded_intros] = sized_codec.codes [OF ShareAcknowledgeRequest_codec]

section \<open>Alter share group offsets request\<close>

definition AlterShareGroupOffsetsRequestPartition_encode :: "alter_share_group_offsets_request_partition \<Rightarrow> i16 \<Rightarrow> wire_error + bytes" where
  "AlterShareGroupOffsetsRequestPartition_encode s version =
     (if version \<noteq> 0 then Inl UNSUPPORTED_VERSION
      else puts
        [Inr (Int32_encode (asgorqp_partition_index s)),
         Inr (Int64_encode (asgorqp_start_offset s)),
         put_tags [] 0 (asgorqp_unknown_tagged_fields s)])"

definition AlterShareGroupOffsetsRequestPartition_compute_size :: "alter_share_group_offsets_request_partition \<Rightarrow> i16 \<Rightarrow> wire_error + usize" where
  "AlterShareGroupOffsetsRequestPartition_compute_size s version =
     sums
       [Inr 4,
        Inr 8,
        tags_size [] (asgorqp_unknown_tagged_fields s)]"

definition AlterShareGroupOffsetsRequestPartition_decode :: "i16 \<Rightarrow> alter_share_group_offsets_request_partition decoder" where
  "AlterShareGroupOffsetsRequestPartition_decode version =
     (if version \<noteq> 0 then refuse UNSUPPORTED_VERSION
      else
        get Int32_decode (\<lambda>partition_index.
        get Int64_decode (\<lambda>start_offset.
        get get_unknown_tags (\<lambda>unknown_tagged_fields.
        give \<lparr>asgorqp_partition_index = partition_index, asgorqp_start_offset = start_offset,
               asgorqp_unknown_tagged_fields = unknown_tagged_fields\<rparr>))))"

definition AlterShareGroupOffsetsRequestPartition_ok :: "i16 \<Rightarrow> alter_share_group_offsets_request_partition \<Rightarrow> bool" where
  "AlterShareGroupOffsetsRequestPartition_ok version s \<longleftrightarrow>
     \<not> (version \<noteq> 0) \<and>
     in_i32 (asgorqp_partition_index s) \<and>
     in_i64 (asgorqp_start_offset s) \<and>
     tags_ok 0 (asgorqp_unknown_tagged_fields s)"

lemma AlterShareGroupOffsetsRequestPartition_codec [coded_intros]:
  "sized_codec (\<lambda>s. AlterShareGroupOffsetsRequestPartition_encode s version) (AlterShareGroupOffsetsRequestPartition_decode version)
     (\<lambda>s. AlterShareGroupOffsetsRequestPartition_compute_size s version) (AlterShareGroupOffsetsRequestPartition_ok version)"
  unfolding AlterShareGroupOffsetsRequestPartition_encode_def AlterShareGroupOffsetsRequestPartition_decode_def AlterShareGroupOffsetsRequestPartition_compute_size_def
  by (rule sized_codecI) (rule coded_intros | (clarsimp simp: AlterShareGroupOffsetsRequestPartition_ok_def; fail))+

lemmas AlterShareGroupOffsetsRequestPartition_coded [coded_intros] = sized_codec.codes [OF AlterShareGroupOffsetsRequestPartition_codec]

definition AlterShareGroupOffsetsRequestTopic_encode :: "alter_share_group_offsets_request_topic \<Rightarrow> i16 \<Rightarrow> wire_error + bytes" where
  "AlterShareGroupOffsetsRequestTopic_encode s version =
     (if version \<noteq> 0 then Inl UNSUPPORTED_VERSION
      else puts
        [CompactString_encode (Some (asgorqt_topic_name s)),
         CompactArray_encode (\<lambda>x. AlterShareGroupOffsetsRequestPartition_encode x version) (Some (asgorqt_partitions s)),
         put_tags [] 0 (asgorqt_unknown_tagged_fields s)])"

definition AlterShareGroupOffsetsRequestTopic_compute_size :: "alter_share_group_offsets_request_topic \<Rightarrow> i16 \<Rightarrow> wire_error + usize" where
  "AlterShareGroupOffsetsRequestTopic_compute_size s version =
     sums
       [CompactString_compute_size (Some (asgorqt_topic_name s)),
        CompactArray_compute_size None (\<lambda>x. AlterShareGroupOffsetsRequestPartition_compute_size x version) (Some (asgorqt_partitions s)),
        tags_size [] (asgorqt_unknown_tagged_fields s)]"

definition AlterShareGroupOffsetsRequestTopic_decode :: "i16 \<Rightarrow> alter_share_group_offsets_request_topic decoder" where
  "AlterShareGroupOffsetsRequestTopic_decode version =
     (if version \<noteq> 0 then refuse UNSUPPORTED_VERSION
      else
        get CompactString_required (\<lambda>topic_name.
        get (CompactArray_required (AlterShareGroupOffsetsRequestPartition_decode version)) (\<lambda>partitions.
        get get_unknown_tags (\<lambda>unknown_tagged_fields.
        give \<lparr>asgorqt_topic_name = topic_name, asgorqt_partitions = partitions,
               asgorqt_unknown_tagged_fields = unknown_tagged_fields\<rparr>))))"

definition AlterShareGroupOffsetsRequestTopic_ok :: "i16 \<Rightarrow> alter_share_group_offsets_request_topic \<Rightarrow> bool" where
  "AlterShareGroupOffsetsRequestTopic_ok version s \<longleftrightarrow>
     \<not> (version \<noteq> 0) \<and>
     string_ok (2 ^ 32 - 2) (Some (asgorqt_topic_name s)) \<and>
     seq_ok (2 ^ 32 - 2) (AlterShareGroupOffsetsRequestPartition_ok version) (Some (asgorqt_partitions s)) \<and>
     tags_ok 0 (asgorqt_unknown_tagged_fields s)"

lemma AlterShareGroupOffsetsRequestTopic_codec [coded_intros]:
  "sized_codec (\<lambda>s. AlterShareGroupOffsetsRequestTopic_encode s version) (AlterShareGroupOffsetsRequestTopic_decode version)
     (\<lambda>s. AlterShareGroupOffsetsRequestTopic_compute_size s version) (AlterShareGroupOffsetsRequestTopic_ok version)"
  unfolding AlterShareGroupOffsetsRequestTopic_encode_def AlterShareGroupOffsetsRequestTopic_decode_def AlterShareGroupOffsetsRequestTopic_compute_size_def
  by (rule sized_codecI) (rule coded_intros | (clarsimp simp: AlterShareGroupOffsetsRequestTopic_ok_def; fail))+

lemmas AlterShareGroupOffsetsRequestTopic_coded [coded_intros] = sized_codec.codes [OF AlterShareGroupOffsetsRequestTopic_codec]

definition AlterShareGroupOffsetsRequest_encode :: "alter_share_group_offsets_request \<Rightarrow> i16 \<Rightarrow> wire_error + bytes" where
  "AlterShareGroupOffsetsRequest_encode s version =
     (if version \<noteq> 0 then Inl UNSUPPORTED_VERSION
      else puts
        [CompactString_encode (Some (asgorq_group_id s)),
         CompactArray_encode (\<lambda>x. AlterShareGroupOffsetsRequestTopic_encode x version) (Some (asgorq_topics s)),
         put_tags [] 0 (asgorq_unknown_tagged_fields s)])"

definition AlterShareGroupOffsetsRequest_compute_size :: "alter_share_group_offsets_request \<Rightarrow> i16 \<Rightarrow> wire_error + usize" where
  "AlterShareGroupOffsetsRequest_compute_size s version =
     sums
       [CompactString_compute_size (Some (asgorq_group_id s)),
        CompactArray_compute_size None (\<lambda>x. AlterShareGroupOffsetsRequestTopic_compute_size x version) (Some (asgorq_topics s)),
        tags_size [] (asgorq_unknown_tagged_fields s)]"

definition AlterShareGroupOffsetsRequest_decode :: "i16 \<Rightarrow> alter_share_group_offsets_request decoder" where
  "AlterShareGroupOffsetsRequest_decode version =
     (if version \<noteq> 0 then refuse UNSUPPORTED_VERSION
      else
        get CompactString_required (\<lambda>group_id.
        get (CompactArray_required (AlterShareGroupOffsetsRequestTopic_decode version)) (\<lambda>topics.
        get get_unknown_tags (\<lambda>unknown_tagged_fields.
        give \<lparr>asgorq_group_id = group_id, asgorq_topics = topics,
               asgorq_unknown_tagged_fields = unknown_tagged_fields\<rparr>))))"

definition AlterShareGroupOffsetsRequest_ok :: "i16 \<Rightarrow> alter_share_group_offsets_request \<Rightarrow> bool" where
  "AlterShareGroupOffsetsRequest_ok version s \<longleftrightarrow>
     \<not> (version \<noteq> 0) \<and>
     string_ok (2 ^ 32 - 2) (Some (asgorq_group_id s)) \<and>
     seq_ok (2 ^ 32 - 2) (AlterShareGroupOffsetsRequestTopic_ok version) (Some (asgorq_topics s)) \<and>
     tags_ok 0 (asgorq_unknown_tagged_fields s)"

lemma AlterShareGroupOffsetsRequest_codec [coded_intros]:
  "sized_codec (\<lambda>s. AlterShareGroupOffsetsRequest_encode s version) (AlterShareGroupOffsetsRequest_decode version)
     (\<lambda>s. AlterShareGroupOffsetsRequest_compute_size s version) (AlterShareGroupOffsetsRequest_ok version)"
  unfolding AlterShareGroupOffsetsRequest_encode_def AlterShareGroupOffsetsRequest_decode_def AlterShareGroupOffsetsRequest_compute_size_def
  by (rule sized_codecI) (rule coded_intros | (clarsimp simp: AlterShareGroupOffsetsRequest_ok_def; fail))+

lemmas AlterShareGroupOffsetsRequest_coded [coded_intros] = sized_codec.codes [OF AlterShareGroupOffsetsRequest_codec]

section \<open>Delete share group offsets request\<close>

definition DeleteShareGroupOffsetsRequestTopic_encode :: "delete_share_group_offsets_request_topic \<Rightarrow> i16 \<Rightarrow> wire_error + bytes" where
  "DeleteShareGroupOffsetsRequestTopic_encode s version =
     (if version \<noteq> 0 then Inl UNSUPPORTED_VERSION
      else puts
        [CompactString_encode (Some (dsgorqt_topic_name s)),
         put_tags [] 0 (dsgorqt_unknown_tagged_fields s)])"

definition DeleteShareGroupOffsetsRequestTopic_compute_size :: "delete_share_group_offsets_request_topic \<Rightarrow> i16 \<Rightarrow> wire_error + usize" where
  "DeleteShareGroupOffsetsRequestTopic_compute_size s version =
     sums
       [CompactString_compute_size (Some (dsgorqt_topic_name s)),
        tags_size [] (dsgorqt_unknown_tagged_fields s)]"

definition DeleteShareGroupOffsetsRequestTopic_decode :: "i16 \<Rightarrow> delete_share_group_offsets_request_topic decoder" where
  "DeleteShareGroupOffsetsRequestTopic_decode version =
     (if version \<noteq> 0 then refuse UNSUPPORTED_VERSION
      else
        get CompactString_required (\<lambda>topic_name.
        get get_unknown_tags (\<lambda>unknown_tagged_fields.
        give \<lparr>dsgorqt_topic_name = topic_name,
               dsgorqt_unknown_tagged_fields = unknown_tagged_fields\<rparr>)))"

definition DeleteShareGroupOffsetsRequestTopic_ok :: "i16 \<Rightarrow> delete_share_group_offsets_request_topic \<Rightarrow> bool" where
  "DeleteShareGroupOffsetsRequestTopic_ok version s \<longleftrightarrow>
     \<not> (version \<noteq> 0) \<and>
     string_ok (2 ^ 32 - 2) (Some (dsgorqt_topic_name s)) \<and>
     tags_ok 0 (dsgorqt_unknown_tagged_fields s)"

lemma DeleteShareGroupOffsetsRequestTopic_codec [coded_intros]:
  "sized_codec (\<lambda>s. DeleteShareGroupOffsetsRequestTopic_encode s version) (DeleteShareGroupOffsetsRequestTopic_decode version)
     (\<lambda>s. DeleteShareGroupOffsetsRequestTopic_compute_size s version) (DeleteShareGroupOffsetsRequestTopic_ok version)"
  unfolding DeleteShareGroupOffsetsRequestTopic_encode_def DeleteShareGroupOffsetsRequestTopic_decode_def DeleteShareGroupOffsetsRequestTopic_compute_size_def
  by (rule sized_codecI) (rule coded_intros | (clarsimp simp: DeleteShareGroupOffsetsRequestTopic_ok_def; fail))+

lemmas DeleteShareGroupOffsetsRequestTopic_coded [coded_intros] = sized_codec.codes [OF DeleteShareGroupOffsetsRequestTopic_codec]

definition DeleteShareGroupOffsetsRequest_encode :: "delete_share_group_offsets_request \<Rightarrow> i16 \<Rightarrow> wire_error + bytes" where
  "DeleteShareGroupOffsetsRequest_encode s version =
     (if version \<noteq> 0 then Inl UNSUPPORTED_VERSION
      else puts
        [CompactString_encode (Some (dsgorq_group_id s)),
         CompactArray_encode (\<lambda>x. DeleteShareGroupOffsetsRequestTopic_encode x version) (Some (dsgorq_topics s)),
         put_tags [] 0 (dsgorq_unknown_tagged_fields s)])"

definition DeleteShareGroupOffsetsRequest_compute_size :: "delete_share_group_offsets_request \<Rightarrow> i16 \<Rightarrow> wire_error + usize" where
  "DeleteShareGroupOffsetsRequest_compute_size s version =
     sums
       [CompactString_compute_size (Some (dsgorq_group_id s)),
        CompactArray_compute_size None (\<lambda>x. DeleteShareGroupOffsetsRequestTopic_compute_size x version) (Some (dsgorq_topics s)),
        tags_size [] (dsgorq_unknown_tagged_fields s)]"

definition DeleteShareGroupOffsetsRequest_decode :: "i16 \<Rightarrow> delete_share_group_offsets_request decoder" where
  "DeleteShareGroupOffsetsRequest_decode version =
     (if version \<noteq> 0 then refuse UNSUPPORTED_VERSION
      else
        get CompactString_required (\<lambda>group_id.
        get (CompactArray_required (DeleteShareGroupOffsetsRequestTopic_decode version)) (\<lambda>topics.
        get get_unknown_tags (\<lambda>unknown_tagged_fields.
        give \<lparr>dsgorq_group_id = group_id, dsgorq_topics = topics,
               dsgorq_unknown_tagged_fields = unknown_tagged_fields\<rparr>))))"

definition DeleteShareGroupOffsetsRequest_ok :: "i16 \<Rightarrow> delete_share_group_offsets_request \<Rightarrow> bool" where
  "DeleteShareGroupOffsetsRequest_ok version s \<longleftrightarrow>
     \<not> (version \<noteq> 0) \<and>
     string_ok (2 ^ 32 - 2) (Some (dsgorq_group_id s)) \<and>
     seq_ok (2 ^ 32 - 2) (DeleteShareGroupOffsetsRequestTopic_ok version) (Some (dsgorq_topics s)) \<and>
     tags_ok 0 (dsgorq_unknown_tagged_fields s)"

lemma DeleteShareGroupOffsetsRequest_codec [coded_intros]:
  "sized_codec (\<lambda>s. DeleteShareGroupOffsetsRequest_encode s version) (DeleteShareGroupOffsetsRequest_decode version)
     (\<lambda>s. DeleteShareGroupOffsetsRequest_compute_size s version) (DeleteShareGroupOffsetsRequest_ok version)"
  unfolding DeleteShareGroupOffsetsRequest_encode_def DeleteShareGroupOffsetsRequest_decode_def DeleteShareGroupOffsetsRequest_compute_size_def
  by (rule sized_codecI) (rule coded_intros | (clarsimp simp: DeleteShareGroupOffsetsRequest_ok_def; fail))+

lemmas DeleteShareGroupOffsetsRequest_coded [coded_intros] = sized_codec.codes [OF DeleteShareGroupOffsetsRequest_codec]

section \<open>Describe share group offsets request\<close>

definition DescribeShareGroupOffsetsRequestTopic_encode :: "describe_share_group_offsets_request_topic \<Rightarrow> i16 \<Rightarrow> wire_error + bytes" where
  "DescribeShareGroupOffsetsRequestTopic_encode s version =
     (if version < 0 \<or> version > 1 then Inl UNSUPPORTED_VERSION
      else puts
        [CompactString_encode (Some (dsgorqt2_topic_name s)),
         CompactArray_encode (\<lambda>x. Inr (Int32_encode x)) (Some (dsgorqt2_partitions s)),
         put_tags [] 0 (dsgorqt2_unknown_tagged_fields s)])"

definition DescribeShareGroupOffsetsRequestTopic_compute_size :: "describe_share_group_offsets_request_topic \<Rightarrow> i16 \<Rightarrow> wire_error + usize" where
  "DescribeShareGroupOffsetsRequestTopic_compute_size s version =
     sums
       [CompactString_compute_size (Some (dsgorqt2_topic_name s)),
        CompactArray_compute_size (Some 4) (\<lambda>_. Inr 4) (Some (dsgorqt2_partitions s)),
        tags_size [] (dsgorqt2_unknown_tagged_fields s)]"

definition DescribeShareGroupOffsetsRequestTopic_decode :: "i16 \<Rightarrow> describe_share_group_offsets_request_topic decoder" where
  "DescribeShareGroupOffsetsRequestTopic_decode version =
     (if version < 0 \<or> version > 1 then refuse UNSUPPORTED_VERSION
      else
        get CompactString_required (\<lambda>topic_name.
        get (CompactArray_required Int32_decode) (\<lambda>partitions.
        get get_unknown_tags (\<lambda>unknown_tagged_fields.
        give \<lparr>dsgorqt2_topic_name = topic_name, dsgorqt2_partitions = partitions,
               dsgorqt2_unknown_tagged_fields = unknown_tagged_fields\<rparr>))))"

definition DescribeShareGroupOffsetsRequestTopic_ok :: "i16 \<Rightarrow> describe_share_group_offsets_request_topic \<Rightarrow> bool" where
  "DescribeShareGroupOffsetsRequestTopic_ok version s \<longleftrightarrow>
     \<not> (version < 0 \<or> version > 1) \<and>
     string_ok (2 ^ 32 - 2) (Some (dsgorqt2_topic_name s)) \<and>
     seq_ok (2 ^ 32 - 2) in_i32 (Some (dsgorqt2_partitions s)) \<and>
     tags_ok 0 (dsgorqt2_unknown_tagged_fields s)"

lemma DescribeShareGroupOffsetsRequestTopic_codec [coded_intros]:
  "sized_codec (\<lambda>s. DescribeShareGroupOffsetsRequestTopic_encode s version) (DescribeShareGroupOffsetsRequestTopic_decode version)
     (\<lambda>s. DescribeShareGroupOffsetsRequestTopic_compute_size s version) (DescribeShareGroupOffsetsRequestTopic_ok version)"
  unfolding DescribeShareGroupOffsetsRequestTopic_encode_def DescribeShareGroupOffsetsRequestTopic_decode_def DescribeShareGroupOffsetsRequestTopic_compute_size_def
  by (rule sized_codecI) (rule coded_intros | (simp add: DescribeShareGroupOffsetsRequestTopic_ok_def; fail))+

lemmas DescribeShareGroupOffsetsRequestTopic_coded [coded_intros] = sized_codec.codes [OF DescribeShareGroupOffsetsRequestTopic_codec]

definition DescribeShareGroupOffsetsRequestGroup_encode :: "describe_share_group_offsets_request_group \<Rightarrow> i16 \<Rightarrow> wire_error + bytes" where
  "DescribeShareGroupOffsetsRequestGroup_encode s version =
     (if version < 0 \<or> version > 1 then Inl UNSUPPORTED_VERSION
      else puts
        [CompactString_encode (Some (dsgorqg_group_id s)),
         CompactArray_encode (\<lambda>x. DescribeShareGroupOffsetsRequestTopic_encode x version) (dsgorqg_topics s),
         put_tags [] 0 (dsgorqg_unknown_tagged_fields s)])"

definition DescribeShareGroupOffsetsRequestGroup_compute_size :: "describe_share_group_offsets_request_group \<Rightarrow> i16 \<Rightarrow> wire_error + usize" where
  "DescribeShareGroupOffsetsRequestGroup_compute_size s version =
     sums
       [CompactString_compute_size (Some (dsgorqg_group_id s)),
        CompactArray_compute_size None (\<lambda>x. DescribeShareGroupOffsetsRequestTopic_compute_size x version) (dsgorqg_topics s),
        tags_size [] (dsgorqg_unknown_tagged_fields s)]"

definition DescribeShareGroupOffsetsRequestGroup_decode :: "i16 \<Rightarrow> describe_share_group_offsets_request_group decoder" where
  "DescribeShareGroupOffsetsRequestGroup_decode version =
     (if version < 0 \<or> version > 1 then refuse UNSUPPORTED_VERSION
      else
        get CompactString_required (\<lambda>group_id.
        get (CompactArray_decode (DescribeShareGroupOffsetsRequestTopic_decode version)) (\<lambda>topics.
        get get_unknown_tags (\<lambda>unknown_tagged_fields.
        give \<lparr>dsgorqg_group_id = group_id, dsgorqg_topics = topics,
               dsgorqg_unknown_tagged_fields = unknown_tagged_fields\<rparr>))))"

definition DescribeShareGroupOffsetsRequestGroup_ok :: "i16 \<Rightarrow> describe_share_group_offsets_request_group \<Rightarrow> bool" where
  "DescribeShareGroupOffsetsRequestGroup_ok version s \<longleftrightarrow>
     \<not> (version < 0 \<or> version > 1) \<and>
     string_ok (2 ^ 32 - 2) (Some (dsgorqg_group_id s)) \<and>
     seq_ok (2 ^ 32 - 2) (DescribeShareGroupOffsetsRequestTopic_ok version) (dsgorqg_topics s) \<and>
     tags_ok 0 (dsgorqg_unknown_tagged_fields s)"

lemma DescribeShareGroupOffsetsRequestGroup_codec [coded_intros]:
  "sized_codec (\<lambda>s. DescribeShareGroupOffsetsRequestGroup_encode s version) (DescribeShareGroupOffsetsRequestGroup_decode version)
     (\<lambda>s. DescribeShareGroupOffsetsRequestGroup_compute_size s version) (DescribeShareGroupOffsetsRequestGroup_ok version)"
  unfolding DescribeShareGroupOffsetsRequestGroup_encode_def DescribeShareGroupOffsetsRequestGroup_decode_def DescribeShareGroupOffsetsRequestGroup_compute_size_def
  by (rule sized_codecI) (rule coded_intros | (simp add: DescribeShareGroupOffsetsRequestGroup_ok_def; fail))+

lemmas DescribeShareGroupOffsetsRequestGroup_coded [coded_intros] = sized_codec.codes [OF DescribeShareGroupOffsetsRequestGroup_codec]

definition DescribeShareGroupOffsetsRequest_encode :: "describe_share_group_offsets_request \<Rightarrow> i16 \<Rightarrow> wire_error + bytes" where
  "DescribeShareGroupOffsetsRequest_encode s version =
     (if version < 0 \<or> version > 1 then Inl UNSUPPORTED_VERSION
      else puts
        [CompactArray_encode (\<lambda>x. DescribeShareGroupOffsetsRequestGroup_encode x version) (Some (dsgorq2_groups s)),
         put_tags [] 0 (dsgorq2_unknown_tagged_fields s)])"

definition DescribeShareGroupOffsetsRequest_compute_size :: "describe_share_group_offsets_request \<Rightarrow> i16 \<Rightarrow> wire_error + usize" where
  "DescribeShareGroupOffsetsRequest_compute_size s version =
     sums
       [CompactArray_compute_size None (\<lambda>x. DescribeShareGroupOffsetsRequestGroup_compute_size x version) (Some (dsgorq2_groups s)),
        tags_size [] (dsgorq2_unknown_tagged_fields s)]"

definition DescribeShareGroupOffsetsRequest_decode :: "i16 \<Rightarrow> describe_share_group_offsets_request decoder" where
  "DescribeShareGroupOffsetsRequest_decode version =
     (if version < 0 \<or> version > 1 then refuse UNSUPPORTED_VERSION
      else
        get (CompactArray_required (DescribeShareGroupOffsetsRequestGroup_decode version)) (\<lambda>groups.
        get get_unknown_tags (\<lambda>unknown_tagged_fields.
        give \<lparr>dsgorq2_groups = groups, dsgorq2_unknown_tagged_fields = unknown_tagged_fields\<rparr>)))"

definition DescribeShareGroupOffsetsRequest_ok :: "i16 \<Rightarrow> describe_share_group_offsets_request \<Rightarrow> bool" where
  "DescribeShareGroupOffsetsRequest_ok version s \<longleftrightarrow>
     \<not> (version < 0 \<or> version > 1) \<and>
     seq_ok (2 ^ 32 - 2) (DescribeShareGroupOffsetsRequestGroup_ok version) (Some (dsgorq2_groups s)) \<and>
     tags_ok 0 (dsgorq2_unknown_tagged_fields s)"

lemma DescribeShareGroupOffsetsRequest_codec [coded_intros]:
  "sized_codec (\<lambda>s. DescribeShareGroupOffsetsRequest_encode s version) (DescribeShareGroupOffsetsRequest_decode version)
     (\<lambda>s. DescribeShareGroupOffsetsRequest_compute_size s version) (DescribeShareGroupOffsetsRequest_ok version)"
  unfolding DescribeShareGroupOffsetsRequest_encode_def DescribeShareGroupOffsetsRequest_decode_def DescribeShareGroupOffsetsRequest_compute_size_def
  by (rule sized_codecI) (rule coded_intros | (simp add: DescribeShareGroupOffsetsRequest_ok_def; fail))+

lemmas DescribeShareGroupOffsetsRequest_coded [coded_intros] = sized_codec.codes [OF DescribeShareGroupOffsetsRequest_codec]

section \<open>Initialize share group state request\<close>

definition InitializeShareGroupStateRequestPartitionData_encode :: "initialize_share_group_state_request_partition_data \<Rightarrow> i16 \<Rightarrow> wire_error + bytes" where
  "InitializeShareGroupStateRequestPartitionData_encode s version =
     (if version \<noteq> 0 then Inl UNSUPPORTED_VERSION
      else puts
        [Inr (Int32_encode (isgsrqpd_partition s)),
         Inr (Int32_encode (isgsrqpd_state_epoch s)),
         Inr (Int64_encode (isgsrqpd_start_offset s)),
         put_tags [] 0 (isgsrqpd_unknown_tagged_fields s)])"

definition InitializeShareGroupStateRequestPartitionData_compute_size :: "initialize_share_group_state_request_partition_data \<Rightarrow> i16 \<Rightarrow> wire_error + usize" where
  "InitializeShareGroupStateRequestPartitionData_compute_size s version =
     sums
       [Inr 4,
        Inr 4,
        Inr 8,
        tags_size [] (isgsrqpd_unknown_tagged_fields s)]"

definition InitializeShareGroupStateRequestPartitionData_decode :: "i16 \<Rightarrow> initialize_share_group_state_request_partition_data decoder" where
  "InitializeShareGroupStateRequestPartitionData_decode version =
     (if version \<noteq> 0 then refuse UNSUPPORTED_VERSION
      else
        get Int32_decode (\<lambda>partition.
        get Int32_decode (\<lambda>state_epoch.
        get Int64_decode (\<lambda>start_offset.
        get get_unknown_tags (\<lambda>unknown_tagged_fields.
        give \<lparr>isgsrqpd_partition = partition, isgsrqpd_state_epoch = state_epoch,
               isgsrqpd_start_offset = start_offset,
               isgsrqpd_unknown_tagged_fields = unknown_tagged_fields\<rparr>)))))"

definition InitializeShareGroupStateRequestPartitionData_ok :: "i16 \<Rightarrow> initialize_share_group_state_request_partition_data \<Rightarrow> bool" where
  "InitializeShareGroupStateRequestPartitionData_ok version s \<longleftrightarrow>
     \<not> (version \<noteq> 0) \<and>
     in_i32 (isgsrqpd_partition s) \<and>
     in_i32 (isgsrqpd_state_epoch s) \<and>
     in_i64 (isgsrqpd_start_offset s) \<and>
     tags_ok 0 (isgsrqpd_unknown_tagged_fields s)"

lemma InitializeShareGroupStateRequestPartitionData_codec [coded_intros]:
  "sized_codec (\<lambda>s. InitializeShareGroupStateRequestPartitionData_encode s version) (InitializeShareGroupStateRequestPartitionData_decode version)
     (\<lambda>s. InitializeShareGroupStateRequestPartitionData_compute_size s version) (InitializeShareGroupStateRequestPartitionData_ok version)"
  unfolding InitializeShareGroupStateRequestPartitionData_encode_def InitializeShareGroupStateRequestPartitionData_decode_def InitializeShareGroupStateRequestPartitionData_compute_size_def
  by (rule sized_codecI) (rule coded_intros | (clarsimp simp: InitializeShareGroupStateRequestPartitionData_ok_def; fail))+

lemmas InitializeShareGroupStateRequestPartitionData_coded [coded_intros] = sized_codec.codes [OF InitializeShareGroupStateRequestPartitionData_codec]

definition InitializeStateData_encode :: "initialize_state_data \<Rightarrow> i16 \<Rightarrow> wire_error + bytes" where
  "InitializeStateData_encode s version =
     (if version \<noteq> 0 then Inl UNSUPPORTED_VERSION
      else puts
        [Inr (Uuid_encode (isd_topic_id s)),
         CompactArray_encode (\<lambda>x. InitializeShareGroupStateRequestPartitionData_encode x version) (Some (isd_partitions s)),
         put_tags [] 0 (isd_unknown_tagged_fields s)])"

definition InitializeStateData_compute_size :: "initialize_state_data \<Rightarrow> i16 \<Rightarrow> wire_error + usize" where
  "InitializeStateData_compute_size s version =
     sums
       [Inr 16,
        CompactArray_compute_size None (\<lambda>x. InitializeShareGroupStateRequestPartitionData_compute_size x version) (Some (isd_partitions s)),
        tags_size [] (isd_unknown_tagged_fields s)]"

definition InitializeStateData_decode :: "i16 \<Rightarrow> initialize_state_data decoder" where
  "InitializeStateData_decode version =
     (if version \<noteq> 0 then refuse UNSUPPORTED_VERSION
      else
        get Uuid_decode (\<lambda>topic_id.
        get (CompactArray_required (InitializeShareGroupStateRequestPartitionData_decode version)) (\<lambda>partitions.
        get get_unknown_tags (\<lambda>unknown_tagged_fields.
        give \<lparr>isd_topic_id = topic_id, isd_partitions = partitions,
               isd_unknown_tagged_fields = unknown_tagged_fields\<rparr>))))"

definition InitializeStateData_ok :: "i16 \<Rightarrow> initialize_state_data \<Rightarrow> bool" where
  "InitializeStateData_ok version s \<longleftrightarrow>
     \<not> (version \<noteq> 0) \<and>
     seq_ok (2 ^ 32 - 2) (InitializeShareGroupStateRequestPartitionData_ok version) (Some (isd_partitions s)) \<and>
     tags_ok 0 (isd_unknown_tagged_fields s)"

lemma InitializeStateData_codec [coded_intros]:
  "sized_codec (\<lambda>s. InitializeStateData_encode s version) (InitializeStateData_decode version)
     (\<lambda>s. InitializeStateData_compute_size s version) (InitializeStateData_ok version)"
  unfolding InitializeStateData_encode_def InitializeStateData_decode_def InitializeStateData_compute_size_def
  by (rule sized_codecI) (rule coded_intros | (clarsimp simp: InitializeStateData_ok_def; fail))+

lemmas InitializeStateData_coded [coded_intros] = sized_codec.codes [OF InitializeStateData_codec]

definition InitializeShareGroupStateRequest_encode :: "initialize_share_group_state_request \<Rightarrow> i16 \<Rightarrow> wire_error + bytes" where
  "InitializeShareGroupStateRequest_encode s version =
     (if version \<noteq> 0 then Inl UNSUPPORTED_VERSION
      else puts
        [CompactString_encode (Some (isgsrq_group_id s)),
         CompactArray_encode (\<lambda>x. InitializeStateData_encode x version) (Some (isgsrq_topics s)),
         put_tags [] 0 (isgsrq_unknown_tagged_fields s)])"

definition InitializeShareGroupStateRequest_compute_size :: "initialize_share_group_state_request \<Rightarrow> i16 \<Rightarrow> wire_error + usize" where
  "InitializeShareGroupStateRequest_compute_size s version =
     sums
       [CompactString_compute_size (Some (isgsrq_group_id s)),
        CompactArray_compute_size None (\<lambda>x. InitializeStateData_compute_size x version) (Some (isgsrq_topics s)),
        tags_size [] (isgsrq_unknown_tagged_fields s)]"

definition InitializeShareGroupStateRequest_decode :: "i16 \<Rightarrow> initialize_share_group_state_request decoder" where
  "InitializeShareGroupStateRequest_decode version =
     (if version \<noteq> 0 then refuse UNSUPPORTED_VERSION
      else
        get CompactString_required (\<lambda>group_id.
        get (CompactArray_required (InitializeStateData_decode version)) (\<lambda>topics.
        get get_unknown_tags (\<lambda>unknown_tagged_fields.
        give \<lparr>isgsrq_group_id = group_id, isgsrq_topics = topics,
               isgsrq_unknown_tagged_fields = unknown_tagged_fields\<rparr>))))"

definition InitializeShareGroupStateRequest_ok :: "i16 \<Rightarrow> initialize_share_group_state_request \<Rightarrow> bool" where
  "InitializeShareGroupStateRequest_ok version s \<longleftrightarrow>
     \<not> (version \<noteq> 0) \<and>
     string_ok (2 ^ 32 - 2) (Some (isgsrq_group_id s)) \<and>
     seq_ok (2 ^ 32 - 2) (InitializeStateData_ok version) (Some (isgsrq_topics s)) \<and>
     tags_ok 0 (isgsrq_unknown_tagged_fields s)"

lemma InitializeShareGroupStateRequest_codec [coded_intros]:
  "sized_codec (\<lambda>s. InitializeShareGroupStateRequest_encode s version) (InitializeShareGroupStateRequest_decode version)
     (\<lambda>s. InitializeShareGroupStateRequest_compute_size s version) (InitializeShareGroupStateRequest_ok version)"
  unfolding InitializeShareGroupStateRequest_encode_def InitializeShareGroupStateRequest_decode_def InitializeShareGroupStateRequest_compute_size_def
  by (rule sized_codecI) (rule coded_intros | (clarsimp simp: InitializeShareGroupStateRequest_ok_def; fail))+

lemmas InitializeShareGroupStateRequest_coded [coded_intros] = sized_codec.codes [OF InitializeShareGroupStateRequest_codec]

section \<open>Read share group state request\<close>

definition ReadShareGroupStateRequestPartitionData_encode :: "read_share_group_state_request_partition_data \<Rightarrow> i16 \<Rightarrow> wire_error + bytes" where
  "ReadShareGroupStateRequestPartitionData_encode s version =
     (if version \<noteq> 0 then Inl UNSUPPORTED_VERSION
      else puts
        [Inr (Int32_encode (rsgsrqpd_partition s)),
         Inr (Int32_encode (rsgsrqpd_leader_epoch s)),
         put_tags [] 0 (rsgsrqpd_unknown_tagged_fields s)])"

definition ReadShareGroupStateRequestPartitionData_compute_size :: "read_share_group_state_request_partition_data \<Rightarrow> i16 \<Rightarrow> wire_error + usize" where
  "ReadShareGroupStateRequestPartitionData_compute_size s version =
     sums
       [Inr 4,
        Inr 4,
        tags_size [] (rsgsrqpd_unknown_tagged_fields s)]"

definition ReadShareGroupStateRequestPartitionData_decode :: "i16 \<Rightarrow> read_share_group_state_request_partition_data decoder" where
  "ReadShareGroupStateRequestPartitionData_decode version =
     (if version \<noteq> 0 then refuse UNSUPPORTED_VERSION
      else
        get Int32_decode (\<lambda>partition.
        get Int32_decode (\<lambda>leader_epoch.
        get get_unknown_tags (\<lambda>unknown_tagged_fields.
        give \<lparr>rsgsrqpd_partition = partition, rsgsrqpd_leader_epoch = leader_epoch,
               rsgsrqpd_unknown_tagged_fields = unknown_tagged_fields\<rparr>))))"

definition ReadShareGroupStateRequestPartitionData_ok :: "i16 \<Rightarrow> read_share_group_state_request_partition_data \<Rightarrow> bool" where
  "ReadShareGroupStateRequestPartitionData_ok version s \<longleftrightarrow>
     \<not> (version \<noteq> 0) \<and>
     in_i32 (rsgsrqpd_partition s) \<and>
     in_i32 (rsgsrqpd_leader_epoch s) \<and>
     tags_ok 0 (rsgsrqpd_unknown_tagged_fields s)"

lemma ReadShareGroupStateRequestPartitionData_codec [coded_intros]:
  "sized_codec (\<lambda>s. ReadShareGroupStateRequestPartitionData_encode s version) (ReadShareGroupStateRequestPartitionData_decode version)
     (\<lambda>s. ReadShareGroupStateRequestPartitionData_compute_size s version) (ReadShareGroupStateRequestPartitionData_ok version)"
  unfolding ReadShareGroupStateRequestPartitionData_encode_def ReadShareGroupStateRequestPartitionData_decode_def ReadShareGroupStateRequestPartitionData_compute_size_def
  by (rule sized_codecI) (rule coded_intros | (clarsimp simp: ReadShareGroupStateRequestPartitionData_ok_def; fail))+

lemmas ReadShareGroupStateRequestPartitionData_coded [coded_intros] = sized_codec.codes [OF ReadShareGroupStateRequestPartitionData_codec]

definition ReadStateData_encode :: "read_state_data \<Rightarrow> i16 \<Rightarrow> wire_error + bytes" where
  "ReadStateData_encode s version =
     (if version \<noteq> 0 then Inl UNSUPPORTED_VERSION
      else puts
        [Inr (Uuid_encode (rsd_topic_id s)),
         CompactArray_encode (\<lambda>x. ReadShareGroupStateRequestPartitionData_encode x version) (Some (rsd_partitions s)),
         put_tags [] 0 (rsd_unknown_tagged_fields s)])"

definition ReadStateData_compute_size :: "read_state_data \<Rightarrow> i16 \<Rightarrow> wire_error + usize" where
  "ReadStateData_compute_size s version =
     sums
       [Inr 16,
        CompactArray_compute_size None (\<lambda>x. ReadShareGroupStateRequestPartitionData_compute_size x version) (Some (rsd_partitions s)),
        tags_size [] (rsd_unknown_tagged_fields s)]"

definition ReadStateData_decode :: "i16 \<Rightarrow> read_state_data decoder" where
  "ReadStateData_decode version =
     (if version \<noteq> 0 then refuse UNSUPPORTED_VERSION
      else
        get Uuid_decode (\<lambda>topic_id.
        get (CompactArray_required (ReadShareGroupStateRequestPartitionData_decode version)) (\<lambda>partitions.
        get get_unknown_tags (\<lambda>unknown_tagged_fields.
        give \<lparr>rsd_topic_id = topic_id, rsd_partitions = partitions,
               rsd_unknown_tagged_fields = unknown_tagged_fields\<rparr>))))"

definition ReadStateData_ok :: "i16 \<Rightarrow> read_state_data \<Rightarrow> bool" where
  "ReadStateData_ok version s \<longleftrightarrow>
     \<not> (version \<noteq> 0) \<and>
     seq_ok (2 ^ 32 - 2) (ReadShareGroupStateRequestPartitionData_ok version) (Some (rsd_partitions s)) \<and>
     tags_ok 0 (rsd_unknown_tagged_fields s)"

lemma ReadStateData_codec [coded_intros]:
  "sized_codec (\<lambda>s. ReadStateData_encode s version) (ReadStateData_decode version)
     (\<lambda>s. ReadStateData_compute_size s version) (ReadStateData_ok version)"
  unfolding ReadStateData_encode_def ReadStateData_decode_def ReadStateData_compute_size_def
  by (rule sized_codecI) (rule coded_intros | (clarsimp simp: ReadStateData_ok_def; fail))+

lemmas ReadStateData_coded [coded_intros] = sized_codec.codes [OF ReadStateData_codec]

definition ReadShareGroupStateRequest_encode :: "read_share_group_state_request \<Rightarrow> i16 \<Rightarrow> wire_error + bytes" where
  "ReadShareGroupStateRequest_encode s version =
     (if version \<noteq> 0 then Inl UNSUPPORTED_VERSION
      else puts
        [CompactString_encode (Some (rsgsrq_group_id s)),
         CompactArray_encode (\<lambda>x. ReadStateData_encode x version) (Some (rsgsrq_topics s)),
         put_tags [] 0 (rsgsrq_unknown_tagged_fields s)])"

definition ReadShareGroupStateRequest_compute_size :: "read_share_group_state_request \<Rightarrow> i16 \<Rightarrow> wire_error + usize" where
  "ReadShareGroupStateRequest_compute_size s version =
     sums
       [CompactString_compute_size (Some (rsgsrq_group_id s)),
        CompactArray_compute_size None (\<lambda>x. ReadStateData_compute_size x version) (Some (rsgsrq_topics s)),
        tags_size [] (rsgsrq_unknown_tagged_fields s)]"

definition ReadShareGroupStateRequest_decode :: "i16 \<Rightarrow> read_share_group_state_request decoder" where
  "ReadShareGroupStateRequest_decode version =
     (if version \<noteq> 0 then refuse UNSUPPORTED_VERSION
      else
        get CompactString_required (\<lambda>group_id.
        get (CompactArray_required (ReadStateData_decode version)) (\<lambda>topics.
        get get_unknown_tags (\<lambda>unknown_tagged_fields.
        give \<lparr>rsgsrq_group_id = group_id, rsgsrq_topics = topics,
               rsgsrq_unknown_tagged_fields = unknown_tagged_fields\<rparr>))))"

definition ReadShareGroupStateRequest_ok :: "i16 \<Rightarrow> read_share_group_state_request \<Rightarrow> bool" where
  "ReadShareGroupStateRequest_ok version s \<longleftrightarrow>
     \<not> (version \<noteq> 0) \<and>
     string_ok (2 ^ 32 - 2) (Some (rsgsrq_group_id s)) \<and>
     seq_ok (2 ^ 32 - 2) (ReadStateData_ok version) (Some (rsgsrq_topics s)) \<and>
     tags_ok 0 (rsgsrq_unknown_tagged_fields s)"

lemma ReadShareGroupStateRequest_codec [coded_intros]:
  "sized_codec (\<lambda>s. ReadShareGroupStateRequest_encode s version) (ReadShareGroupStateRequest_decode version)
     (\<lambda>s. ReadShareGroupStateRequest_compute_size s version) (ReadShareGroupStateRequest_ok version)"
  unfolding ReadShareGroupStateRequest_encode_def ReadShareGroupStateRequest_decode_def ReadShareGroupStateRequest_compute_size_def
  by (rule sized_codecI) (rule coded_intros | (clarsimp simp: ReadShareGroupStateRequest_ok_def; fail))+

lemmas ReadShareGroupStateRequest_coded [coded_intros] = sized_codec.codes [OF ReadShareGroupStateRequest_codec]

section \<open>Read share group state summary request\<close>

definition ReadShareGroupStateSummaryRequestPartitionData_encode :: "read_share_group_state_summary_request_partition_data \<Rightarrow> i16 \<Rightarrow> wire_error + bytes" where
  "ReadShareGroupStateSummaryRequestPartitionData_encode s version =
     (if version < 0 \<or> version > 1 then Inl UNSUPPORTED_VERSION
      else puts
        [Inr (Int32_encode (rsgssrqpd_partition s)),
         Inr (Int32_encode (rsgssrqpd_leader_epoch s)),
         put_tags [] 0 (rsgssrqpd_unknown_tagged_fields s)])"

definition ReadShareGroupStateSummaryRequestPartitionData_compute_size :: "read_share_group_state_summary_request_partition_data \<Rightarrow> i16 \<Rightarrow> wire_error + usize" where
  "ReadShareGroupStateSummaryRequestPartitionData_compute_size s version =
     sums
       [Inr 4,
        Inr 4,
        tags_size [] (rsgssrqpd_unknown_tagged_fields s)]"

definition ReadShareGroupStateSummaryRequestPartitionData_decode :: "i16 \<Rightarrow> read_share_group_state_summary_request_partition_data decoder" where
  "ReadShareGroupStateSummaryRequestPartitionData_decode version =
     (if version < 0 \<or> version > 1 then refuse UNSUPPORTED_VERSION
      else
        get Int32_decode (\<lambda>partition.
        get Int32_decode (\<lambda>leader_epoch.
        get get_unknown_tags (\<lambda>unknown_tagged_fields.
        give \<lparr>rsgssrqpd_partition = partition, rsgssrqpd_leader_epoch = leader_epoch,
               rsgssrqpd_unknown_tagged_fields = unknown_tagged_fields\<rparr>))))"

definition ReadShareGroupStateSummaryRequestPartitionData_ok :: "i16 \<Rightarrow> read_share_group_state_summary_request_partition_data \<Rightarrow> bool" where
  "ReadShareGroupStateSummaryRequestPartitionData_ok version s \<longleftrightarrow>
     \<not> (version < 0 \<or> version > 1) \<and>
     in_i32 (rsgssrqpd_partition s) \<and>
     in_i32 (rsgssrqpd_leader_epoch s) \<and>
     tags_ok 0 (rsgssrqpd_unknown_tagged_fields s)"

lemma ReadShareGroupStateSummaryRequestPartitionData_codec [coded_intros]:
  "sized_codec (\<lambda>s. ReadShareGroupStateSummaryRequestPartitionData_encode s version) (ReadShareGroupStateSummaryRequestPartitionData_decode version)
     (\<lambda>s. ReadShareGroupStateSummaryRequestPartitionData_compute_size s version) (ReadShareGroupStateSummaryRequestPartitionData_ok version)"
  unfolding ReadShareGroupStateSummaryRequestPartitionData_encode_def ReadShareGroupStateSummaryRequestPartitionData_decode_def ReadShareGroupStateSummaryRequestPartitionData_compute_size_def
  by (rule sized_codecI) (rule coded_intros | (simp add: ReadShareGroupStateSummaryRequestPartitionData_ok_def; fail))+

lemmas ReadShareGroupStateSummaryRequestPartitionData_coded [coded_intros] = sized_codec.codes [OF ReadShareGroupStateSummaryRequestPartitionData_codec]

definition ReadStateSummaryData_encode :: "read_state_summary_data \<Rightarrow> i16 \<Rightarrow> wire_error + bytes" where
  "ReadStateSummaryData_encode s version =
     (if version < 0 \<or> version > 1 then Inl UNSUPPORTED_VERSION
      else puts
        [Inr (Uuid_encode (rssd_topic_id s)),
         CompactArray_encode (\<lambda>x. ReadShareGroupStateSummaryRequestPartitionData_encode x version) (Some (rssd_partitions s)),
         put_tags [] 0 (rssd_unknown_tagged_fields s)])"

definition ReadStateSummaryData_compute_size :: "read_state_summary_data \<Rightarrow> i16 \<Rightarrow> wire_error + usize" where
  "ReadStateSummaryData_compute_size s version =
     sums
       [Inr 16,
        CompactArray_compute_size None (\<lambda>x. ReadShareGroupStateSummaryRequestPartitionData_compute_size x version) (Some (rssd_partitions s)),
        tags_size [] (rssd_unknown_tagged_fields s)]"

definition ReadStateSummaryData_decode :: "i16 \<Rightarrow> read_state_summary_data decoder" where
  "ReadStateSummaryData_decode version =
     (if version < 0 \<or> version > 1 then refuse UNSUPPORTED_VERSION
      else
        get Uuid_decode (\<lambda>topic_id.
        get (CompactArray_required (ReadShareGroupStateSummaryRequestPartitionData_decode version)) (\<lambda>partitions.
        get get_unknown_tags (\<lambda>unknown_tagged_fields.
        give \<lparr>rssd_topic_id = topic_id, rssd_partitions = partitions,
               rssd_unknown_tagged_fields = unknown_tagged_fields\<rparr>))))"

definition ReadStateSummaryData_ok :: "i16 \<Rightarrow> read_state_summary_data \<Rightarrow> bool" where
  "ReadStateSummaryData_ok version s \<longleftrightarrow>
     \<not> (version < 0 \<or> version > 1) \<and>
     seq_ok (2 ^ 32 - 2) (ReadShareGroupStateSummaryRequestPartitionData_ok version) (Some (rssd_partitions s)) \<and>
     tags_ok 0 (rssd_unknown_tagged_fields s)"

lemma ReadStateSummaryData_codec [coded_intros]:
  "sized_codec (\<lambda>s. ReadStateSummaryData_encode s version) (ReadStateSummaryData_decode version)
     (\<lambda>s. ReadStateSummaryData_compute_size s version) (ReadStateSummaryData_ok version)"
  unfolding ReadStateSummaryData_encode_def ReadStateSummaryData_decode_def ReadStateSummaryData_compute_size_def
  by (rule sized_codecI) (rule coded_intros | (simp add: ReadStateSummaryData_ok_def; fail))+

lemmas ReadStateSummaryData_coded [coded_intros] = sized_codec.codes [OF ReadStateSummaryData_codec]

definition ReadShareGroupStateSummaryRequest_encode :: "read_share_group_state_summary_request \<Rightarrow> i16 \<Rightarrow> wire_error + bytes" where
  "ReadShareGroupStateSummaryRequest_encode s version =
     (if version < 0 \<or> version > 1 then Inl UNSUPPORTED_VERSION
      else puts
        [CompactString_encode (Some (rsgssrq_group_id s)),
         CompactArray_encode (\<lambda>x. ReadStateSummaryData_encode x version) (Some (rsgssrq_topics s)),
         put_tags [] 0 (rsgssrq_unknown_tagged_fields s)])"

definition ReadShareGroupStateSummaryRequest_compute_size :: "read_share_group_state_summary_request \<Rightarrow> i16 \<Rightarrow> wire_error + usize" where
  "ReadShareGroupStateSummaryRequest_compute_size s version =
     sums
       [CompactString_compute_size (Some (rsgssrq_group_id s)),
        CompactArray_compute_size None (\<lambda>x. ReadStateSummaryData_compute_size x version) (Some (rsgssrq_topics s)),
        tags_size [] (rsgssrq_unknown_tagged_fields s)]"

definition ReadShareGroupStateSummaryRequest_decode :: "i16 \<Rightarrow> read_share_group_state_summary_request decoder" where
  "ReadShareGroupStateSummaryRequest_decode version =
     (if version < 0 \<or> version > 1 then refuse UNSUPPORTED_VERSION
      else
        get CompactString_required (\<lambda>group_id.
        get (CompactArray_required (ReadStateSummaryData_decode version)) (\<lambda>topics.
        get get_unknown_tags (\<lambda>unknown_tagged_fields.
        give \<lparr>rsgssrq_group_id = group_id, rsgssrq_topics = topics,
               rsgssrq_unknown_tagged_fields = unknown_tagged_fields\<rparr>))))"

definition ReadShareGroupStateSummaryRequest_ok :: "i16 \<Rightarrow> read_share_group_state_summary_request \<Rightarrow> bool" where
  "ReadShareGroupStateSummaryRequest_ok version s \<longleftrightarrow>
     \<not> (version < 0 \<or> version > 1) \<and>
     string_ok (2 ^ 32 - 2) (Some (rsgssrq_group_id s)) \<and>
     seq_ok (2 ^ 32 - 2) (ReadStateSummaryData_ok version) (Some (rsgssrq_topics s)) \<and>
     tags_ok 0 (rsgssrq_unknown_tagged_fields s)"

lemma ReadShareGroupStateSummaryRequest_codec [coded_intros]:
  "sized_codec (\<lambda>s. ReadShareGroupStateSummaryRequest_encode s version) (ReadShareGroupStateSummaryRequest_decode version)
     (\<lambda>s. ReadShareGroupStateSummaryRequest_compute_size s version) (ReadShareGroupStateSummaryRequest_ok version)"
  unfolding ReadShareGroupStateSummaryRequest_encode_def ReadShareGroupStateSummaryRequest_decode_def ReadShareGroupStateSummaryRequest_compute_size_def
  by (rule sized_codecI) (rule coded_intros | (simp add: ReadShareGroupStateSummaryRequest_ok_def; fail))+

lemmas ReadShareGroupStateSummaryRequest_coded [coded_intros] = sized_codec.codes [OF ReadShareGroupStateSummaryRequest_codec]

section \<open>Write share group state request\<close>

definition StateBatch_encode :: "state_batch \<Rightarrow> i16 \<Rightarrow> wire_error + bytes" where
  "StateBatch_encode s version =
     (if version < 0 \<or> version > 1 then Inl UNSUPPORTED_VERSION
      else puts
        [Inr (Int64_encode (sb2_first_offset s)),
         Inr (Int64_encode (sb2_last_offset s)),
         Inr (Int8_encode (sb2_delivery_state s)),
         Inr (Int16_encode (sb2_delivery_count s)),
         put_tags [] 0 (sb2_unknown_tagged_fields s)])"

definition StateBatch_compute_size :: "state_batch \<Rightarrow> i16 \<Rightarrow> wire_error + usize" where
  "StateBatch_compute_size s version =
     sums
       [Inr 8,
        Inr 8,
        Inr 1,
        Inr 2,
        tags_size [] (sb2_unknown_tagged_fields s)]"

definition StateBatch_decode :: "i16 \<Rightarrow> state_batch decoder" where
  "StateBatch_decode version =
     (if version < 0 \<or> version > 1 then refuse UNSUPPORTED_VERSION
      else
        get Int64_decode (\<lambda>first_offset.
        get Int64_decode (\<lambda>last_offset.
        get Int8_decode (\<lambda>delivery_state.
        get Int16_decode (\<lambda>delivery_count.
        get get_unknown_tags (\<lambda>unknown_tagged_fields.
        give \<lparr>sb2_first_offset = first_offset, sb2_last_offset = last_offset,
               sb2_delivery_state = delivery_state, sb2_delivery_count = delivery_count,
               sb2_unknown_tagged_fields = unknown_tagged_fields\<rparr>))))))"

definition StateBatch_ok :: "i16 \<Rightarrow> state_batch \<Rightarrow> bool" where
  "StateBatch_ok version s \<longleftrightarrow>
     \<not> (version < 0 \<or> version > 1) \<and>
     in_i64 (sb2_first_offset s) \<and>
     in_i64 (sb2_last_offset s) \<and>
     in_i8 (sb2_delivery_state s) \<and>
     in_i16 (sb2_delivery_count s) \<and>
     tags_ok 0 (sb2_unknown_tagged_fields s)"

lemma StateBatch_codec [coded_intros]:
  "sized_codec (\<lambda>s. StateBatch_encode s version) (StateBatch_decode version)
     (\<lambda>s. StateBatch_compute_size s version) (StateBatch_ok version)"
  unfolding StateBatch_encode_def StateBatch_decode_def StateBatch_compute_size_def
  by (rule sized_codecI) (rule coded_intros | (simp add: StateBatch_ok_def; fail))+

lemmas StateBatch_coded [coded_intros] = sized_codec.codes [OF StateBatch_codec]

definition WriteShareGroupStateRequestPartitionData_encode :: "write_share_group_state_request_partition_data \<Rightarrow> i16 \<Rightarrow> wire_error + bytes" where
  "WriteShareGroupStateRequestPartitionData_encode s version =
     (if version < 0 \<or> version > 1 then Inl UNSUPPORTED_VERSION
      else puts
        [Inr (Int32_encode (wsgsrqpd_partition s)),
         Inr (Int32_encode (wsgsrqpd_state_epoch s)),
         Inr (Int32_encode (wsgsrqpd_leader_epoch s)),
         Inr (Int64_encode (wsgsrqpd_start_offset s)),
         if version \<ge> 1 then Inr (Int32_encode (wsgsrqpd_delivery_complete_count s)) else Inr [],
         CompactArray_encode (\<lambda>x. StateBatch_encode x version) (Some (wsgsrqpd_state_batches s)),
         put_tags [] 0 (wsgsrqpd_unknown_tagged_fields s)])"

definition WriteShareGroupStateRequestPartitionData_compute_size :: "write_share_group_state_request_partition_data \<Rightarrow> i16 \<Rightarrow> wire_error + usize" where
  "WriteShareGroupStateRequestPartitionData_compute_size s version =
     sums
       [Inr 4,
        Inr 4,
        Inr 4,
        Inr 8,
        if version \<ge> 1 then Inr 4 else Inr 0,
        CompactArray_compute_size None (\<lambda>x. StateBatch_compute_size x version) (Some (wsgsrqpd_state_batches s)),
        tags_size [] (wsgsrqpd_unknown_tagged_fields s)]"

definition WriteShareGroupStateRequestPartitionData_decode :: "i16 \<Rightarrow> write_share_group_state_request_partition_data decoder" where
  "WriteShareGroupStateRequestPartitionData_decode version =
     (if version < 0 \<or> version > 1 then refuse UNSUPPORTED_VERSION
      else
        get Int32_decode (\<lambda>partition.
        get Int32_decode (\<lambda>state_epoch.
        get Int32_decode (\<lambda>leader_epoch.
        get Int64_decode (\<lambda>start_offset.
        get (if version \<ge> 1 then Int32_decode else give (- 1)) (\<lambda>delivery_complete_count.
        get (CompactArray_required (StateBatch_decode version)) (\<lambda>state_batches.
        get get_unknown_tags (\<lambda>unknown_tagged_fields.
        give \<lparr>wsgsrqpd_partition = partition, wsgsrqpd_state_epoch = state_epoch,
               wsgsrqpd_leader_epoch = leader_epoch, wsgsrqpd_start_offset = start_offset,
               wsgsrqpd_delivery_complete_count = delivery_complete_count,
               wsgsrqpd_state_batches = state_batches,
               wsgsrqpd_unknown_tagged_fields = unknown_tagged_fields\<rparr>))))))))"

definition WriteShareGroupStateRequestPartitionData_ok :: "i16 \<Rightarrow> write_share_group_state_request_partition_data \<Rightarrow> bool" where
  "WriteShareGroupStateRequestPartitionData_ok version s \<longleftrightarrow>
     \<not> (version < 0 \<or> version > 1) \<and>
     in_i32 (wsgsrqpd_partition s) \<and>
     in_i32 (wsgsrqpd_state_epoch s) \<and>
     in_i32 (wsgsrqpd_leader_epoch s) \<and>
     in_i64 (wsgsrqpd_start_offset s) \<and>
     (if version \<ge> 1
       then in_i32 (wsgsrqpd_delivery_complete_count s)
       else wsgsrqpd_delivery_complete_count s = - 1) \<and>
     seq_ok (2 ^ 32 - 2) (StateBatch_ok version) (Some (wsgsrqpd_state_batches s)) \<and>
     tags_ok 0 (wsgsrqpd_unknown_tagged_fields s)"

lemma WriteShareGroupStateRequestPartitionData_codec [coded_intros]:
  "sized_codec (\<lambda>s. WriteShareGroupStateRequestPartitionData_encode s version) (WriteShareGroupStateRequestPartitionData_decode version)
     (\<lambda>s. WriteShareGroupStateRequestPartitionData_compute_size s version) (WriteShareGroupStateRequestPartitionData_ok version)"
  unfolding WriteShareGroupStateRequestPartitionData_encode_def WriteShareGroupStateRequestPartitionData_decode_def WriteShareGroupStateRequestPartitionData_compute_size_def
  by (rule sized_codecI) (rule coded_intros | (clarsimp simp: WriteShareGroupStateRequestPartitionData_ok_def; fail))+

lemmas WriteShareGroupStateRequestPartitionData_coded [coded_intros] = sized_codec.codes [OF WriteShareGroupStateRequestPartitionData_codec]

definition WriteStateData_encode :: "write_state_data \<Rightarrow> i16 \<Rightarrow> wire_error + bytes" where
  "WriteStateData_encode s version =
     (if version < 0 \<or> version > 1 then Inl UNSUPPORTED_VERSION
      else puts
        [Inr (Uuid_encode (wsd_topic_id s)),
         CompactArray_encode (\<lambda>x. WriteShareGroupStateRequestPartitionData_encode x version) (Some (wsd_partitions s)),
         put_tags [] 0 (wsd_unknown_tagged_fields s)])"

definition WriteStateData_compute_size :: "write_state_data \<Rightarrow> i16 \<Rightarrow> wire_error + usize" where
  "WriteStateData_compute_size s version =
     sums
       [Inr 16,
        CompactArray_compute_size None (\<lambda>x. WriteShareGroupStateRequestPartitionData_compute_size x version) (Some (wsd_partitions s)),
        tags_size [] (wsd_unknown_tagged_fields s)]"

definition WriteStateData_decode :: "i16 \<Rightarrow> write_state_data decoder" where
  "WriteStateData_decode version =
     (if version < 0 \<or> version > 1 then refuse UNSUPPORTED_VERSION
      else
        get Uuid_decode (\<lambda>topic_id.
        get (CompactArray_required (WriteShareGroupStateRequestPartitionData_decode version)) (\<lambda>partitions.
        get get_unknown_tags (\<lambda>unknown_tagged_fields.
        give \<lparr>wsd_topic_id = topic_id, wsd_partitions = partitions,
               wsd_unknown_tagged_fields = unknown_tagged_fields\<rparr>))))"

definition WriteStateData_ok :: "i16 \<Rightarrow> write_state_data \<Rightarrow> bool" where
  "WriteStateData_ok version s \<longleftrightarrow>
     \<not> (version < 0 \<or> version > 1) \<and>
     seq_ok (2 ^ 32 - 2) (WriteShareGroupStateRequestPartitionData_ok version) (Some (wsd_partitions s)) \<and>
     tags_ok 0 (wsd_unknown_tagged_fields s)"

lemma WriteStateData_codec [coded_intros]:
  "sized_codec (\<lambda>s. WriteStateData_encode s version) (WriteStateData_decode version)
     (\<lambda>s. WriteStateData_compute_size s version) (WriteStateData_ok version)"
  unfolding WriteStateData_encode_def WriteStateData_decode_def WriteStateData_compute_size_def
  by (rule sized_codecI) (rule coded_intros | (simp add: WriteStateData_ok_def; fail))+

lemmas WriteStateData_coded [coded_intros] = sized_codec.codes [OF WriteStateData_codec]

definition WriteShareGroupStateRequest_encode :: "write_share_group_state_request \<Rightarrow> i16 \<Rightarrow> wire_error + bytes" where
  "WriteShareGroupStateRequest_encode s version =
     (if version < 0 \<or> version > 1 then Inl UNSUPPORTED_VERSION
      else puts
        [CompactString_encode (Some (wsgsrq_group_id s)),
         CompactArray_encode (\<lambda>x. WriteStateData_encode x version) (Some (wsgsrq_topics s)),
         put_tags [] 0 (wsgsrq_unknown_tagged_fields s)])"

definition WriteShareGroupStateRequest_compute_size :: "write_share_group_state_request \<Rightarrow> i16 \<Rightarrow> wire_error + usize" where
  "WriteShareGroupStateRequest_compute_size s version =
     sums
       [CompactString_compute_size (Some (wsgsrq_group_id s)),
        CompactArray_compute_size None (\<lambda>x. WriteStateData_compute_size x version) (Some (wsgsrq_topics s)),
        tags_size [] (wsgsrq_unknown_tagged_fields s)]"

definition WriteShareGroupStateRequest_decode :: "i16 \<Rightarrow> write_share_group_state_request decoder" where
  "WriteShareGroupStateRequest_decode version =
     (if version < 0 \<or> version > 1 then refuse UNSUPPORTED_VERSION
      else
        get CompactString_required (\<lambda>group_id.
        get (CompactArray_required (WriteStateData_decode version)) (\<lambda>topics.
        get get_unknown_tags (\<lambda>unknown_tagged_fields.
        give \<lparr>wsgsrq_group_id = group_id, wsgsrq_topics = topics,
               wsgsrq_unknown_tagged_fields = unknown_tagged_fields\<rparr>))))"

definition WriteShareGroupStateRequest_ok :: "i16 \<Rightarrow> write_share_group_state_request \<Rightarrow> bool" where
  "WriteShareGroupStateRequest_ok version s \<longleftrightarrow>
     \<not> (version < 0 \<or> version > 1) \<and>
     string_ok (2 ^ 32 - 2) (Some (wsgsrq_group_id s)) \<and>
     seq_ok (2 ^ 32 - 2) (WriteStateData_ok version) (Some (wsgsrq_topics s)) \<and>
     tags_ok 0 (wsgsrq_unknown_tagged_fields s)"

lemma WriteShareGroupStateRequest_codec [coded_intros]:
  "sized_codec (\<lambda>s. WriteShareGroupStateRequest_encode s version) (WriteShareGroupStateRequest_decode version)
     (\<lambda>s. WriteShareGroupStateRequest_compute_size s version) (WriteShareGroupStateRequest_ok version)"
  unfolding WriteShareGroupStateRequest_encode_def WriteShareGroupStateRequest_decode_def WriteShareGroupStateRequest_compute_size_def
  by (rule sized_codecI) (rule coded_intros | (simp add: WriteShareGroupStateRequest_ok_def; fail))+

lemmas WriteShareGroupStateRequest_coded [coded_intros] = sized_codec.codes [OF WriteShareGroupStateRequest_codec]

section \<open>Delete share group state request\<close>

definition DeleteShareGroupStateRequestPartitionData_encode :: "delete_share_group_state_request_partition_data \<Rightarrow> i16 \<Rightarrow> wire_error + bytes" where
  "DeleteShareGroupStateRequestPartitionData_encode s version =
     (if version \<noteq> 0 then Inl UNSUPPORTED_VERSION
      else puts
        [Inr (Int32_encode (dsgsrqpd_partition s)),
         put_tags [] 0 (dsgsrqpd_unknown_tagged_fields s)])"

definition DeleteShareGroupStateRequestPartitionData_compute_size :: "delete_share_group_state_request_partition_data \<Rightarrow> i16 \<Rightarrow> wire_error + usize" where
  "DeleteShareGroupStateRequestPartitionData_compute_size s version =
     sums
       [Inr 4,
        tags_size [] (dsgsrqpd_unknown_tagged_fields s)]"

definition DeleteShareGroupStateRequestPartitionData_decode :: "i16 \<Rightarrow> delete_share_group_state_request_partition_data decoder" where
  "DeleteShareGroupStateRequestPartitionData_decode version =
     (if version \<noteq> 0 then refuse UNSUPPORTED_VERSION
      else
        get Int32_decode (\<lambda>partition.
        get get_unknown_tags (\<lambda>unknown_tagged_fields.
        give \<lparr>dsgsrqpd_partition = partition,
               dsgsrqpd_unknown_tagged_fields = unknown_tagged_fields\<rparr>)))"

definition DeleteShareGroupStateRequestPartitionData_ok :: "i16 \<Rightarrow> delete_share_group_state_request_partition_data \<Rightarrow> bool" where
  "DeleteShareGroupStateRequestPartitionData_ok version s \<longleftrightarrow>
     \<not> (version \<noteq> 0) \<and>
     in_i32 (dsgsrqpd_partition s) \<and>
     tags_ok 0 (dsgsrqpd_unknown_tagged_fields s)"

lemma DeleteShareGroupStateRequestPartitionData_codec [coded_intros]:
  "sized_codec (\<lambda>s. DeleteShareGroupStateRequestPartitionData_encode s version) (DeleteShareGroupStateRequestPartitionData_decode version)
     (\<lambda>s. DeleteShareGroupStateRequestPartitionData_compute_size s version) (DeleteShareGroupStateRequestPartitionData_ok version)"
  unfolding DeleteShareGroupStateRequestPartitionData_encode_def DeleteShareGroupStateRequestPartitionData_decode_def DeleteShareGroupStateRequestPartitionData_compute_size_def
  by (rule sized_codecI) (rule coded_intros | (clarsimp simp: DeleteShareGroupStateRequestPartitionData_ok_def; fail))+

lemmas DeleteShareGroupStateRequestPartitionData_coded [coded_intros] = sized_codec.codes [OF DeleteShareGroupStateRequestPartitionData_codec]

definition DeleteStateData_encode :: "delete_state_data \<Rightarrow> i16 \<Rightarrow> wire_error + bytes" where
  "DeleteStateData_encode s version =
     (if version \<noteq> 0 then Inl UNSUPPORTED_VERSION
      else puts
        [Inr (Uuid_encode (dsd_topic_id s)),
         CompactArray_encode (\<lambda>x. DeleteShareGroupStateRequestPartitionData_encode x version) (Some (dsd_partitions s)),
         put_tags [] 0 (dsd_unknown_tagged_fields s)])"

definition DeleteStateData_compute_size :: "delete_state_data \<Rightarrow> i16 \<Rightarrow> wire_error + usize" where
  "DeleteStateData_compute_size s version =
     sums
       [Inr 16,
        CompactArray_compute_size None (\<lambda>x. DeleteShareGroupStateRequestPartitionData_compute_size x version) (Some (dsd_partitions s)),
        tags_size [] (dsd_unknown_tagged_fields s)]"

definition DeleteStateData_decode :: "i16 \<Rightarrow> delete_state_data decoder" where
  "DeleteStateData_decode version =
     (if version \<noteq> 0 then refuse UNSUPPORTED_VERSION
      else
        get Uuid_decode (\<lambda>topic_id.
        get (CompactArray_required (DeleteShareGroupStateRequestPartitionData_decode version)) (\<lambda>partitions.
        get get_unknown_tags (\<lambda>unknown_tagged_fields.
        give \<lparr>dsd_topic_id = topic_id, dsd_partitions = partitions,
               dsd_unknown_tagged_fields = unknown_tagged_fields\<rparr>))))"

definition DeleteStateData_ok :: "i16 \<Rightarrow> delete_state_data \<Rightarrow> bool" where
  "DeleteStateData_ok version s \<longleftrightarrow>
     \<not> (version \<noteq> 0) \<and>
     seq_ok (2 ^ 32 - 2) (DeleteShareGroupStateRequestPartitionData_ok version) (Some (dsd_partitions s)) \<and>
     tags_ok 0 (dsd_unknown_tagged_fields s)"

lemma DeleteStateData_codec [coded_intros]:
  "sized_codec (\<lambda>s. DeleteStateData_encode s version) (DeleteStateData_decode version)
     (\<lambda>s. DeleteStateData_compute_size s version) (DeleteStateData_ok version)"
  unfolding DeleteStateData_encode_def DeleteStateData_decode_def DeleteStateData_compute_size_def
  by (rule sized_codecI) (rule coded_intros | (clarsimp simp: DeleteStateData_ok_def; fail))+

lemmas DeleteStateData_coded [coded_intros] = sized_codec.codes [OF DeleteStateData_codec]

definition DeleteShareGroupStateRequest_encode :: "delete_share_group_state_request \<Rightarrow> i16 \<Rightarrow> wire_error + bytes" where
  "DeleteShareGroupStateRequest_encode s version =
     (if version \<noteq> 0 then Inl UNSUPPORTED_VERSION
      else puts
        [CompactString_encode (Some (dsgsrq_group_id s)),
         CompactArray_encode (\<lambda>x. DeleteStateData_encode x version) (Some (dsgsrq_topics s)),
         put_tags [] 0 (dsgsrq_unknown_tagged_fields s)])"

definition DeleteShareGroupStateRequest_compute_size :: "delete_share_group_state_request \<Rightarrow> i16 \<Rightarrow> wire_error + usize" where
  "DeleteShareGroupStateRequest_compute_size s version =
     sums
       [CompactString_compute_size (Some (dsgsrq_group_id s)),
        CompactArray_compute_size None (\<lambda>x. DeleteStateData_compute_size x version) (Some (dsgsrq_topics s)),
        tags_size [] (dsgsrq_unknown_tagged_fields s)]"

definition DeleteShareGroupStateRequest_decode :: "i16 \<Rightarrow> delete_share_group_state_request decoder" where
  "DeleteShareGroupStateRequest_decode version =
     (if version \<noteq> 0 then refuse UNSUPPORTED_VERSION
      else
        get CompactString_required (\<lambda>group_id.
        get (CompactArray_required (DeleteStateData_decode version)) (\<lambda>topics.
        get get_unknown_tags (\<lambda>unknown_tagged_fields.
        give \<lparr>dsgsrq_group_id = group_id, dsgsrq_topics = topics,
               dsgsrq_unknown_tagged_fields = unknown_tagged_fields\<rparr>))))"

definition DeleteShareGroupStateRequest_ok :: "i16 \<Rightarrow> delete_share_group_state_request \<Rightarrow> bool" where
  "DeleteShareGroupStateRequest_ok version s \<longleftrightarrow>
     \<not> (version \<noteq> 0) \<and>
     string_ok (2 ^ 32 - 2) (Some (dsgsrq_group_id s)) \<and>
     seq_ok (2 ^ 32 - 2) (DeleteStateData_ok version) (Some (dsgsrq_topics s)) \<and>
     tags_ok 0 (dsgsrq_unknown_tagged_fields s)"

lemma DeleteShareGroupStateRequest_codec [coded_intros]:
  "sized_codec (\<lambda>s. DeleteShareGroupStateRequest_encode s version) (DeleteShareGroupStateRequest_decode version)
     (\<lambda>s. DeleteShareGroupStateRequest_compute_size s version) (DeleteShareGroupStateRequest_ok version)"
  unfolding DeleteShareGroupStateRequest_encode_def DeleteShareGroupStateRequest_decode_def DeleteShareGroupStateRequest_compute_size_def
  by (rule sized_codecI) (rule coded_intros | (clarsimp simp: DeleteShareGroupStateRequest_ok_def; fail))+

lemmas DeleteShareGroupStateRequest_coded [coded_intros] = sized_codec.codes [OF DeleteShareGroupStateRequest_codec]

section \<open>Bodies\<close>

text \<open>The variants of \<open>RequestKind\<close> (\<open>messages.rs\<close>) with these requests, and their codecs by API key. The match on the key is exhaustive; its last arm is the last key of the group.\<close>

datatype share_request =
  ShareGroupHeartbeatRequest share_group_heartbeat_request
| ShareGroupDescribeRequest share_group_describe_request
| ShareFetchRequest share_fetch_request
| ShareAcknowledgeRequest share_acknowledge_request
| InitializeShareGroupStateRequest initialize_share_group_state_request
| ReadShareGroupStateRequest read_share_group_state_request
| WriteShareGroupStateRequest write_share_group_state_request
| DeleteShareGroupStateRequest delete_share_group_state_request
| ReadShareGroupStateSummaryRequest read_share_group_state_summary_request
| DescribeShareGroupOffsetsRequest describe_share_group_offsets_request
| AlterShareGroupOffsetsRequest alter_share_group_offsets_request
| DeleteShareGroupOffsetsRequest delete_share_group_offsets_request

fun share_request_key :: "share_request \<Rightarrow> i16" where
  "share_request_key (ShareGroupHeartbeatRequest _) = 76"
| "share_request_key (ShareGroupDescribeRequest _) = 77"
| "share_request_key (ShareFetchRequest _) = 78"
| "share_request_key (ShareAcknowledgeRequest _) = 79"
| "share_request_key (InitializeShareGroupStateRequest _) = 83"
| "share_request_key (ReadShareGroupStateRequest _) = 84"
| "share_request_key (WriteShareGroupStateRequest _) = 85"
| "share_request_key (DeleteShareGroupStateRequest _) = 86"
| "share_request_key (ReadShareGroupStateSummaryRequest _) = 87"
| "share_request_key (DescribeShareGroupOffsetsRequest _) = 90"
| "share_request_key (AlterShareGroupOffsetsRequest _) = 91"
| "share_request_key (DeleteShareGroupOffsetsRequest _) = 92"

fun share_request_encode :: "share_request \<Rightarrow> i16 \<Rightarrow> wire_error + bytes" where
  "share_request_encode (ShareGroupHeartbeatRequest x) version = ShareGroupHeartbeatRequest_encode x version"
| "share_request_encode (ShareGroupDescribeRequest x) version = ShareGroupDescribeRequest_encode x version"
| "share_request_encode (ShareFetchRequest x) version = ShareFetchRequest_encode x version"
| "share_request_encode (ShareAcknowledgeRequest x) version = ShareAcknowledgeRequest_encode x version"
| "share_request_encode (InitializeShareGroupStateRequest x) version = InitializeShareGroupStateRequest_encode x version"
| "share_request_encode (ReadShareGroupStateRequest x) version = ReadShareGroupStateRequest_encode x version"
| "share_request_encode (WriteShareGroupStateRequest x) version = WriteShareGroupStateRequest_encode x version"
| "share_request_encode (DeleteShareGroupStateRequest x) version = DeleteShareGroupStateRequest_encode x version"
| "share_request_encode (ReadShareGroupStateSummaryRequest x) version = ReadShareGroupStateSummaryRequest_encode x version"
| "share_request_encode (DescribeShareGroupOffsetsRequest x) version = DescribeShareGroupOffsetsRequest_encode x version"
| "share_request_encode (AlterShareGroupOffsetsRequest x) version = AlterShareGroupOffsetsRequest_encode x version"
| "share_request_encode (DeleteShareGroupOffsetsRequest x) version = DeleteShareGroupOffsetsRequest_encode x version"

definition share_request_decode :: "i16 \<Rightarrow> i16 \<Rightarrow> share_request decoder" where
  "share_request_decode key version =
     (if key = 76 then get (ShareGroupHeartbeatRequest_decode version) (\<lambda>x. give (ShareGroupHeartbeatRequest x))
      else if key = 77 then get (ShareGroupDescribeRequest_decode version) (\<lambda>x. give (ShareGroupDescribeRequest x))
      else if key = 78 then get (ShareFetchRequest_decode version) (\<lambda>x. give (ShareFetchRequest x))
      else if key = 79 then get (ShareAcknowledgeRequest_decode version) (\<lambda>x. give (ShareAcknowledgeRequest x))
      else if key = 83 then get (InitializeShareGroupStateRequest_decode version) (\<lambda>x. give (InitializeShareGroupStateRequest x))
      else if key = 84 then get (ReadShareGroupStateRequest_decode version) (\<lambda>x. give (ReadShareGroupStateRequest x))
      else if key = 85 then get (WriteShareGroupStateRequest_decode version) (\<lambda>x. give (WriteShareGroupStateRequest x))
      else if key = 86 then get (DeleteShareGroupStateRequest_decode version) (\<lambda>x. give (DeleteShareGroupStateRequest x))
      else if key = 87 then get (ReadShareGroupStateSummaryRequest_decode version) (\<lambda>x. give (ReadShareGroupStateSummaryRequest x))
      else if key = 90 then get (DescribeShareGroupOffsetsRequest_decode version) (\<lambda>x. give (DescribeShareGroupOffsetsRequest x))
      else if key = 91 then get (AlterShareGroupOffsetsRequest_decode version) (\<lambda>x. give (AlterShareGroupOffsetsRequest x))
      else get (DeleteShareGroupOffsetsRequest_decode version) (\<lambda>x. give (DeleteShareGroupOffsetsRequest x)))"

fun share_request_size :: "i16 \<Rightarrow> share_request \<Rightarrow> wire_error + usize" where
  "share_request_size version (ShareGroupHeartbeatRequest x) = ShareGroupHeartbeatRequest_compute_size x version"
| "share_request_size version (ShareGroupDescribeRequest x) = ShareGroupDescribeRequest_compute_size x version"
| "share_request_size version (ShareFetchRequest x) = ShareFetchRequest_compute_size x version"
| "share_request_size version (ShareAcknowledgeRequest x) = ShareAcknowledgeRequest_compute_size x version"
| "share_request_size version (InitializeShareGroupStateRequest x) = InitializeShareGroupStateRequest_compute_size x version"
| "share_request_size version (ReadShareGroupStateRequest x) = ReadShareGroupStateRequest_compute_size x version"
| "share_request_size version (WriteShareGroupStateRequest x) = WriteShareGroupStateRequest_compute_size x version"
| "share_request_size version (DeleteShareGroupStateRequest x) = DeleteShareGroupStateRequest_compute_size x version"
| "share_request_size version (ReadShareGroupStateSummaryRequest x) = ReadShareGroupStateSummaryRequest_compute_size x version"
| "share_request_size version (DescribeShareGroupOffsetsRequest x) = DescribeShareGroupOffsetsRequest_compute_size x version"
| "share_request_size version (AlterShareGroupOffsetsRequest x) = AlterShareGroupOffsetsRequest_compute_size x version"
| "share_request_size version (DeleteShareGroupOffsetsRequest x) = DeleteShareGroupOffsetsRequest_compute_size x version"

fun share_request_ok :: "i16 \<Rightarrow> share_request \<Rightarrow> bool" where
  "share_request_ok version (ShareGroupHeartbeatRequest x) = ShareGroupHeartbeatRequest_ok version x"
| "share_request_ok version (ShareGroupDescribeRequest x) = ShareGroupDescribeRequest_ok version x"
| "share_request_ok version (ShareFetchRequest x) = ShareFetchRequest_ok version x"
| "share_request_ok version (ShareAcknowledgeRequest x) = ShareAcknowledgeRequest_ok version x"
| "share_request_ok version (InitializeShareGroupStateRequest x) = InitializeShareGroupStateRequest_ok version x"
| "share_request_ok version (ReadShareGroupStateRequest x) = ReadShareGroupStateRequest_ok version x"
| "share_request_ok version (WriteShareGroupStateRequest x) = WriteShareGroupStateRequest_ok version x"
| "share_request_ok version (DeleteShareGroupStateRequest x) = DeleteShareGroupStateRequest_ok version x"
| "share_request_ok version (ReadShareGroupStateSummaryRequest x) = ReadShareGroupStateSummaryRequest_ok version x"
| "share_request_ok version (DescribeShareGroupOffsetsRequest x) = DescribeShareGroupOffsetsRequest_ok version x"
| "share_request_ok version (AlterShareGroupOffsetsRequest x) = AlterShareGroupOffsetsRequest_ok version x"
| "share_request_ok version (DeleteShareGroupOffsetsRequest x) = DeleteShareGroupOffsetsRequest_ok version x"

lemma share_request_coded:
  "share_request_ok version body \<Longrightarrow>
   coded (share_request_encode body version) (share_request_decode (share_request_key body) version) (share_request_size version body) body"
  by (cases body) (simp_all add: share_request_decode_def coded_tag_value
    ShareGroupHeartbeatRequest_coded ShareGroupDescribeRequest_coded ShareFetchRequest_coded ShareAcknowledgeRequest_coded InitializeShareGroupStateRequest_coded ReadShareGroupStateRequest_coded WriteShareGroupStateRequest_coded DeleteShareGroupStateRequest_coded ReadShareGroupStateSummaryRequest_coded DescribeShareGroupOffsetsRequest_coded AlterShareGroupOffsetsRequest_coded DeleteShareGroupOffsetsRequest_coded)

end
