(* ===== verification/Other_Kinds.thy ===== *)
theory Other_Kinds
  imports Kinds Codec_Security Codec_Share
begin

text \<open>
  The bodies of the requests the broker does not serve: the other variants of \<open>RequestKind\<close>
  (\<open>src/crates/kafka-protocol/src/messages.rs\<close>), grouped as the theories of their codecs are, and the decoder
  that \<open>Kinds\<close> takes as a parameter.
\<close>

section \<open>Bodies and their codecs\<close>

datatype other_request = TxnRequest txn_request | AdminRequest admin_request | ConfigRequest config_request | SecurityRequest security_request | ControllerRequest controller_request | RaftRequest raft_request | ConsumerRequest consumer_request | ShareRequest share_request

fun other_request_key :: "other_request \<Rightarrow> api_key" where
  "other_request_key (TxnRequest x) = txn_request_key x"
| "other_request_key (AdminRequest x) = admin_request_key x"
| "other_request_key (ConfigRequest x) = config_request_key x"
| "other_request_key (SecurityRequest x) = security_request_key x"
| "other_request_key (ControllerRequest x) = controller_request_key x"
| "other_request_key (RaftRequest x) = raft_request_key x"
| "other_request_key (ConsumerRequest x) = consumer_request_key x"
| "other_request_key (ShareRequest x) = share_request_key x"

fun other_request_encode :: "other_request \<Rightarrow> i16 \<Rightarrow> wire_error + bytes" where
  "other_request_encode (TxnRequest x) version = txn_request_encode x version"
| "other_request_encode (AdminRequest x) version = admin_request_encode x version"
| "other_request_encode (ConfigRequest x) version = config_request_encode x version"
| "other_request_encode (SecurityRequest x) version = security_request_encode x version"
| "other_request_encode (ControllerRequest x) version = controller_request_encode x version"
| "other_request_encode (RaftRequest x) version = raft_request_encode x version"
| "other_request_encode (ConsumerRequest x) version = consumer_request_encode x version"
| "other_request_encode (ShareRequest x) version = share_request_encode x version"

definition other_request_decode :: "api_key \<Rightarrow> i16 \<Rightarrow> other_request decoder" where
  "other_request_decode key version =
     (if key \<in> {24, 25, 26, 27, 28, 61, 65, 66, 67}
      then get (txn_request_decode key version) (\<lambda>x. give (TxnRequest x))
      else if key \<in> {20, 21, 23, 34, 35, 37, 42, 43, 45, 46, 47}
      then get (admin_request_decode key version) (\<lambda>x. give (AdminRequest x))
      else if key \<in> {33, 44, 48, 49, 57, 71, 72, 74}
      then get (config_request_decode key version) (\<lambda>x. give (ConfigRequest x))
      else if key \<in> {17, 29, 30, 31, 36, 38, 39, 40, 41, 50, 51, 58}
      then get (security_request_decode key version) (\<lambda>x. give (SecurityRequest x))
      else if key \<in> {56, 62, 63, 64, 70, 73}
      then get (controller_request_decode key version) (\<lambda>x. give (ControllerRequest x))
      else if key \<in> {52, 53, 54, 55, 59, 80, 81, 82}
      then get (raft_request_decode key version) (\<lambda>x. give (RaftRequest x))
      else if key \<in> {68, 69, 88, 89}
      then get (consumer_request_decode key version) (\<lambda>x. give (ConsumerRequest x))
      else get (share_request_decode key version) (\<lambda>x. give (ShareRequest x)))"

fun other_request_size :: "i16 \<Rightarrow> other_request \<Rightarrow> wire_error + usize" where
  "other_request_size version (TxnRequest x) = txn_request_size version x"
| "other_request_size version (AdminRequest x) = admin_request_size version x"
| "other_request_size version (ConfigRequest x) = config_request_size version x"
| "other_request_size version (SecurityRequest x) = security_request_size version x"
| "other_request_size version (ControllerRequest x) = controller_request_size version x"
| "other_request_size version (RaftRequest x) = raft_request_size version x"
| "other_request_size version (ConsumerRequest x) = consumer_request_size version x"
| "other_request_size version (ShareRequest x) = share_request_size version x"

fun other_request_ok :: "i16 \<Rightarrow> other_request \<Rightarrow> bool" where
  "other_request_ok version (TxnRequest x) = txn_request_ok version x"
| "other_request_ok version (AdminRequest x) = admin_request_ok version x"
| "other_request_ok version (ConfigRequest x) = config_request_ok version x"
| "other_request_ok version (SecurityRequest x) = security_request_ok version x"
| "other_request_ok version (ControllerRequest x) = controller_request_ok version x"
| "other_request_ok version (RaftRequest x) = raft_request_ok version x"
| "other_request_ok version (ConsumerRequest x) = consumer_request_ok version x"
| "other_request_ok version (ShareRequest x) = share_request_ok version x"

section \<open>Round trip\<close>

lemma other_request_decode_key:
  "other_request_decode (txn_request_key x0) version =
     get (txn_request_decode (txn_request_key x0) version) (\<lambda>x. give (TxnRequest x))"
  "other_request_decode (admin_request_key x1) version =
     get (admin_request_decode (admin_request_key x1) version) (\<lambda>x. give (AdminRequest x))"
  "other_request_decode (config_request_key x2) version =
     get (config_request_decode (config_request_key x2) version) (\<lambda>x. give (ConfigRequest x))"
  "other_request_decode (security_request_key x3) version =
     get (security_request_decode (security_request_key x3) version) (\<lambda>x. give (SecurityRequest x))"
  "other_request_decode (controller_request_key x4) version =
     get (controller_request_decode (controller_request_key x4) version) (\<lambda>x. give (ControllerRequest x))"
  "other_request_decode (raft_request_key x5) version =
     get (raft_request_decode (raft_request_key x5) version) (\<lambda>x. give (RaftRequest x))"
  "other_request_decode (consumer_request_key x6) version =
     get (consumer_request_decode (consumer_request_key x6) version) (\<lambda>x. give (ConsumerRequest x))"
  "other_request_decode (share_request_key x7) version =
     get (share_request_decode (share_request_key x7) version) (\<lambda>x. give (ShareRequest x))"
  subgoal
    by (cases x0) (simp_all add: other_request_decode_def)
  subgoal
    by (cases x1) (simp_all add: other_request_decode_def)
  subgoal
    by (cases x2) (simp_all add: other_request_decode_def)
  subgoal
    by (cases x3) (simp_all add: other_request_decode_def)
  subgoal
    by (cases x4) (simp_all add: other_request_decode_def)
  subgoal
    by (cases x5) (simp_all add: other_request_decode_def)
  subgoal
    by (cases x6) (simp_all add: other_request_decode_def)
  subgoal
    by (cases x7) (simp_all add: other_request_decode_def)
  done

lemma other_request_coded:
  assumes "other_request_ok version body"
  shows "coded (other_request_encode body version) (other_request_decode (other_request_key body) version) (other_request_size version body) body"
  using assms by (cases body) (simp_all add: other_request_decode_key coded_tag_value txn_request_coded admin_request_coded config_request_coded security_request_coded controller_request_coded raft_request_coded consumer_request_coded share_request_coded)

text \<open>The decoder for the bodies outside the capability table: the broker needs to know only whether it succeeds.\<close>

definition crate_decode :: other_decode where
  "crate_decode key version = get (other_request_decode key version) (\<lambda>_. give ())"

lemma other_request_unserved:
  "other_request_key request \<notin> {0, 1, 2, 3, 8, 9, 10, 11, 12, 13, 14, 15, 16, 18, 19, 22, 32, 60, 75}"
proof (cases request)
  case (TxnRequest x)
  then show ?thesis by (cases x) simp_all
next
  case (AdminRequest x)
  then show ?thesis by (cases x) simp_all
next
  case (ConfigRequest x)
  then show ?thesis by (cases x) simp_all
next
  case (SecurityRequest x)
  then show ?thesis by (cases x) simp_all
next
  case (ControllerRequest x)
  then show ?thesis by (cases x) simp_all
next
  case (RaftRequest x)
  then show ?thesis by (cases x) simp_all
next
  case (ConsumerRequest x)
  then show ?thesis by (cases x) simp_all
next
  case (ShareRequest x)
  then show ?thesis by (cases x) simp_all
qed

lemma RequestKind_decode_unserved:
  assumes "other_request_decode (other_request_key request) version buf = Inr (request, rest)"
  shows "RequestKind_decode crate_decode (other_request_key request) version buf =
    Inr (OtherRequest (other_request_key request), rest)"
  using other_request_unserved [of request] assms
  by (simp add: RequestKind_decode_def crate_decode_def get_def give_def)

text \<open>
  C36: the requests the broker does not serve come back as well. Whatever the request and the version of its
  schema, if it fits the version it is encoded without error, in exactly as many bytes as its size computation
  announces, and decoding those bytes by its API key returns the same request and leaves what follows; the
  decoder of the broker accepts the bytes and keeps only the key.
\<close>

theorem other_requests_round_trip:
  assumes "other_request_ok version request"
  shows "\<exists>bs. other_request_encode request version = Inr bs \<and> other_request_size version request = Inr (length bs) \<and>
    other_request_decode (other_request_key request) version (bs @ rest) = Inr (request, rest) \<and>
    RequestKind_decode crate_decode (other_request_key request) version (bs @ rest) =
      Inr (OtherRequest (other_request_key request), rest)"
  using other_request_coded [OF assms] RequestKind_decode_unserved by (fastforce simp: coded_def)

definition sample_vote :: other_request where
  "sample_vote = RaftRequest (VoteRequest (vote_request_default\<lparr>vrq_voter_id := 3\<rparr>))"

lemma sample_vote_ok: "other_request_ok 2 sample_vote"
  by (simp add: sample_vote_def VoteRequest_ok_def vote_request_default_def seq_ok_def string_ok_def in_i32_def)

theorem other_requests_round_trip_witness:
  "\<exists>bs. other_request_encode sample_vote 2 = Inr bs \<and>
     other_request_decode 52 2 (bs @ [9]) = Inr (sample_vote, [9]) \<and>
     RequestKind_decode crate_decode 52 2 (bs @ [9]) = Inr (OtherRequest 52, [9])"
proof -
  have "other_request_key sample_vote = 52" by (simp add: sample_vote_def)
  with other_requests_round_trip [OF sample_vote_ok, of "[9]"] show ?thesis by auto
qed

end
