(* ===== verification/Unserved.thy ===== *)
theory Unserved
  imports Connection Other_Kinds
begin

text \<open>
  What becomes of a request the broker does not serve, with the decoder of the protocol crate in the place of the
  parameter of \<open>RequestKind_decode\<close>: it is decoded, and the connection ends.
\<close>

lemma unserved_request_decoded:
  assumes "k = other_request_key request" and "other_request_ok v request" and "other_request_encode request v = Inr bb"
    and "api_key_try_from k = Some k" and "valid_versions k = (lo, hi)" and "lo \<le> v" and "v \<le> hi"
    and "request_header_ok (request_header_version k v) h" and "rh_request_api_key h = k" and "rh_request_api_version h = v"
    and "RequestHeader_encode h (request_header_version k v) = Inr hb"
  shows "decode_frame crate_decode (hb @ bb) = Inr (Request \<lparr>dr_header = h, dr_api_key = k, dr_body = OtherRequest k\<rparr>)"
proof -
  have "RequestHeader_decode (request_header_version k v) (hb @ rest) = Inr (h, rest)" for rest
    using sized_codec.codes [OF request_header_codec assms(8)] assms(11) by (auto simp: coded_def)
  moreover have "other_request_decode k v bb = Inr (request, [])"
    using other_request_coded [OF assms(2)] assms(1,3) by (auto simp: coded_def) (metis append_Nil2)
  then have "RequestKind_decode crate_decode k v bb = Inr (OtherRequest k, [])"
    using RequestKind_decode_unserved assms(1) by simp
  moreover have "in_i16 (rh_request_api_key h)" "in_i16 (rh_request_api_version h)" "in_i32 (rh_correlation_id h)"
    using assms(8) by (simp_all add: request_header_ok_def)
  note prefix_of_header [OF assms(11) this]
  moreover have "k \<noteq> ApiVersions_key" using other_request_unserved [of request] assms(1) by simp
  ultimately show ?thesis using assms(4-7,9,10) by (simp add: decode_frame_def)
qed

text \<open>
  A request for an API outside the capability table, whichever of the seventy and in whichever version of its schema, is
  understood, changes nothing and is not answered: the connection ends with an error that names it.
\<close>

theorem unserved_request_closes:
  assumes "k = other_request_key request" and "other_request_ok v request" and "other_request_encode request v = Inr bb"
    and "api_key_try_from k = Some k" and "valid_versions k = (lo, hi)" and "lo \<le> v" and "v \<le> hi"
    and "request_header_ok (request_header_version k v) h" and "rh_request_api_key h = k" and "rh_request_api_version h = v"
    and "RequestHeader_encode h (request_header_version k v) = Inr hb"
    and "read_frame (cn_in c) = Inr (Some (hb @ bb), s)"
  shows "handle_one crate_decode other_enc crc advertised ck c b =
    Inr (Finished (Inl (RouteFailed (UnsupportedApi k v (rh_correlation_id h)))), c\<lparr>cn_in := s\<rparr>, b)"
proof -
  note decoded = unserved_request_decoded [OF assms(1-11)]
  have "capability k = None" using decoded_request_kind(3) [OF decoded] by force
  with decoded assms(10,12) show ?thesis by (simp add: handle_one_def route_def)
qed

end
