(* ===== verification/Group_Offsets.thy ===== *)
theory Group_Offsets
  imports Group_Handlers
begin

text \<open>
  What OffsetCommit and OffsetFetch promise together (\<open>src/src/kafka/offset_commit.rs\<close>,
  \<open>offset_fetch.rs\<close>): the answer to a fetch is a function of the offsets the group has stored, and
  the offsets stored are those of the last accepted commit, whatever the broker does in between.
\<close>

section \<open>The answer to a fetch\<close>

text \<open>The offset a group has stored for a partition; a group that does not exist has none.\<close>

definition committed_in :: "broker_state \<Rightarrow> string \<Rightarrow> topic_partition \<Rightarrow> stored_offset option" where
  "committed_in b i tp =
     (case find_group (bs_groups b) i of None \<Rightarrow> None | Some g \<Rightarrow> map_of (g_committed_offsets g) tp)"

definition offset_answer :: "stored_offset option \<Rightarrow> i32 \<Rightarrow> offset_fetch_response_partition" where
  "offset_answer stored p =
     offset_fetch_response_partition_default
       \<lparr>ofrsp_partition_index := p,
        ofrsp_committed_offset := (case stored of None \<Rightarrow> - 1 | Some s \<Rightarrow> so_offset s),
        ofrsp_committed_leader_epoch := - 1,
        ofrsp_metadata := Option.bind stored so_metadata, ofrsp_error_code := 0\<rparr>"

definition requested_pairs :: "offset_fetch_request_topic list \<Rightarrow> topic_partition list" where
  "requested_pairs topics =
     concat (map (\<lambda>t. map (\<lambda>p. (ofrqt_name t, p)) (ofrqt_partition_indexes t)) topics)"

text \<open>
  One topic per requested name, in name order, with one partition per request of that name,
  reporting what is stored: in index order when the group exists, in the order of the request when
  it does not.
\<close>

definition offset_fetch_answer ::
  "bool \<Rightarrow> (topic_partition \<Rightarrow> stored_offset option) \<Rightarrow> topic_partition list \<Rightarrow> offset_fetch_response" where
  "offset_fetch_answer exists stored requested =
     offset_fetch_response_default
       \<lparr>ofrs_throttle_time_ms := 0, ofrs_error_code := 0,
        ofrs_topics :=
          map (\<lambda>name. offset_fetch_response_topic_default
                 \<lparr>ofrst_name := name,
                  ofrst_partitions :=
                    map (\<lambda>p. offset_answer (stored (name, p)) p)
                      ((if exists then sort else id)
                         (map snd (filter (\<lambda>tp. fst tp = name) requested)))\<rparr>)
            (sorted_list_of_set (fst ` set requested))\<rparr>"

section \<open>Grouping by topic\<close>

definition collect_by_topic ::
  "fetched_offset list \<Rightarrow> (string, offset_fetch_response_partition list) btree_map" where
  "collect_by_topic os =
     fold (\<lambda>f topics. bt_insert (fo_topic f)
       ((case map_of topics (fo_topic f) of None \<Rightarrow> [] | Some ps \<Rightarrow> ps) @ [fetched_partition f]) topics) os []"

lemma collect_by_topic_spec:
  "bt_ok (collect_by_topic os) \<and> keys (collect_by_topic os) = fo_topic ` set os \<and>
   map_of (collect_by_topic os) k =
     (let ps = map fetched_partition (filter (\<lambda>f. fo_topic f = k) os) in if ps = [] then None else Some ps)"
proof (induction os arbitrary: k rule: rev_induct)
  case Nil
  show ?case by (simp add: collect_by_topic_def bt_ok_def)
next
  case (snoc f os)
  have "collect_by_topic (os @ [f]) = bt_insert (fo_topic f)
      (map fetched_partition (filter (\<lambda>f'. fo_topic f' = fo_topic f) os) @ [fetched_partition f])
      (collect_by_topic os)"
    using snoc [of "fo_topic f"] by (simp add: collect_by_topic_def Let_def split: if_splits)
  with snoc [of k] show ?case by (auto simp: Let_def)
qed

lemma bt_ok_tabulate:
  assumes "bt_ok m"
  shows "m = map (\<lambda>k. (k, the (map_of m k))) (sorted_list_of_set (keys m))"
proof -
  have "sorted_list_of_set (keys m) = map fst m"
    using assms by (simp add: bt_ok_def strict_sorted_iff sorted_list_of_set.idem_if_sorted_distinct
        flip: set_map)
  moreover have "map (\<lambda>k. (k, the (map_of m k))) (map fst m) = m"
    using bt_ok_distinct [OF assms] by (auto intro!: map_idI)
  ultimately show ?thesis by simp
qed

lemma group_by_topic_eq:
  "group_by_topic os =
   map (\<lambda>name. offset_fetch_response_topic_default
      \<lparr>ofrst_name := name, ofrst_partitions := map fetched_partition (filter (\<lambda>f. fo_topic f = name) os)\<rparr>)
     (sorted_list_of_set (fo_topic ` set os))"
proof -
  have "bt_ok (collect_by_topic os)" and k: "keys (collect_by_topic os) = fo_topic ` set os"
    using collect_by_topic_spec by blast+
  from bt_ok_tabulate [OF this(1)] have tab: "collect_by_topic os =
      map (\<lambda>k. (k, the (map_of (collect_by_topic os) k))) (sorted_list_of_set (fo_topic ` set os))"
    by (simp only: k)
  have "the (map_of (collect_by_topic os) name) =
      map fetched_partition (filter (\<lambda>f. fo_topic f = name) os)" if "name \<in> fo_topic ` set os" for name
    using that collect_by_topic_spec [of os name] by (auto simp: Let_def filter_empty_conv)
  then have "collect_by_topic os = map (\<lambda>k. (k, map fetched_partition (filter (\<lambda>f. fo_topic f = k) os)))
      (sorted_list_of_set (fo_topic ` set os))"
    by (subst tab) simp
  then show ?thesis
    by (simp add: group_by_topic_def flip: collect_by_topic_def)
qed

lemma insort_key_map: "insort_key f (g x) (map g xs) = map g (insort_key (\<lambda>x. f (g x)) x xs)"
  by (induction xs) simp_all

lemma sort_key_map: "sort_key f (map g xs) = map g (sort_key (\<lambda>x. f (g x)) xs)"
  by (induction xs) (simp_all add: insort_key_map)

lemma map_sort_key_injective: "map f (sort_key f xs) = sort (map f xs)"
  using sort_key_map [of "\<lambda>x. x" f xs] by simp

definition fetched_from :: "(topic_partition \<Rightarrow> stored_offset option) \<Rightarrow> topic_partition \<Rightarrow> fetched_offset" where
  "fetched_from stored tp =
     \<lparr>fo_topic = fst tp, fo_partition = snd tp, fo_offset = map_option so_offset (stored tp),
      fo_metadata = Option.bind (stored tp) so_metadata\<rparr>"

lemma fetched_from_fields [simp]:
  "fo_topic (fetched_from stored tp) = fst tp"
  "fo_partition (fetched_from stored tp) = snd tp"
  "fetched_partition (fetched_from stored (t, p)) = offset_answer (stored (t, p)) p"
  by (simp_all add: fetched_from_def fetched_partition_def offset_answer_def split: option.split)

lemma answer_of_fetched:
  assumes "\<And>tp. tp \<in> set tps \<Longrightarrow> fst tp = name"
  shows "map (\<lambda>tp. fetched_partition (fetched_from stored tp)) tps =
    map (\<lambda>p. offset_answer (stored (name, p)) p) (map snd tps)"
  using assms by (auto simp: comp_def)

lemma filter_sort_topics:
  "map fetched_partition (filter (\<lambda>f. fo_topic f = name)
     (sort_key fo_topic (sort_key fo_partition (map (fetched_from stored) requested)))) =
   map (\<lambda>p. offset_answer (stored (name, p)) p)
     (sort (map snd (filter (\<lambda>tp. fst tp = name) requested)))"
proof -
  let ?mine = "filter (\<lambda>tp. fst tp = name) requested"
  have "filter (\<lambda>f. fo_topic f = name) (sort_key fo_topic (sort_key fo_partition (map (fetched_from stored) requested))) =
      sort_key fo_partition (map (fetched_from stored) ?mine)"
    by (simp add: sort_key_stable filter_sort filter_map comp_def)
  also have "\<dots> = map (fetched_from stored) (sort_key snd ?mine)"
    by (simp add: sort_key_map)
  finally have "map fetched_partition (filter (\<lambda>f. fo_topic f = name)
     (sort_key fo_topic (sort_key fo_partition (map (fetched_from stored) requested)))) =
     map (\<lambda>tp. fetched_partition (fetched_from stored tp)) (sort_key snd ?mine)" by (simp add: comp_def)
  also have "\<dots> = map (\<lambda>p. offset_answer (stored (name, p)) p) (map snd (sort_key snd ?mine))"
    by (rule answer_of_fetched) simp
  finally show ?thesis by (simp only: map_sort_key_injective)
qed

lemma fetch_offsets_none:
  "find_group (bs_groups b) i = None \<Longrightarrow>
   fetch_offsets i (Some requested) (bs_groups b) = map (fetched_from (committed_in b i)) requested"
  by (simp add: fetch_offsets_def fetch_section_def committed_in_def fetched_from_def case_prod_unfold)

lemma fetch_offsets_some:
  assumes "find_group (bs_groups b) i = Some g"
  shows "fetch_offsets i (Some requested) (bs_groups b) =
    sort_key fo_topic (sort_key fo_partition (map (fetched_from (committed_in b i)) requested))"
proof -
  have "fetched_from (committed_in b i) = (\<lambda>(topic, p).
      let stored = map_of (g_committed_offsets g) (topic, p)
      in \<lparr>fo_topic = topic, fo_partition = p, fo_offset = map_option so_offset stored,
          fo_metadata = Option.bind stored so_metadata\<rparr>)"
    by (rule ext) (simp add: fetched_from_def committed_in_def assms Let_def case_prod_unfold)
  then show ?thesis by (simp add: fetch_offsets_def fetch_section_def assms)
qed

lemma offset_fetch_respond_eq:
  assumes "ofrq_topics request = Some topics"
  shows "offset_fetch_respond request b =
    offset_fetch_answer (find_group (bs_groups b) (ofrq_group_id request) \<noteq> None)
      (committed_in b (ofrq_group_id request)) (requested_pairs topics)"
proof -
  let ?i = "ofrq_group_id request" and ?r = "requested_pairs topics"
  have topics: "ofrs_topics (offset_fetch_answer (find_group (bs_groups b) ?i \<noteq> None) (committed_in b ?i) ?r) =
      group_by_topic (fetch_offsets ?i (Some ?r) (bs_groups b))"
  proof (cases "find_group (bs_groups b) ?i")
    case None
    then show ?thesis
      by (simp add: offset_fetch_answer_def group_by_topic_eq fetch_offsets_none image_image filter_map comp_def
          answer_of_fetched)
  next
    case (Some g)
    then show ?thesis
      by (simp add: offset_fetch_answer_def group_by_topic_eq fetch_offsets_some filter_sort_topics image_image)
  qed
  show ?thesis
    using topics assms by (simp add: offset_fetch_respond_def offset_fetch_answer_def requested_pairs_def)
qed

section \<open>Offsets stay until the next commit\<close>

definition commits_to :: "string \<Rightarrow> broker_op \<Rightarrow> bool" where
  "commits_to i op \<longleftrightarrow> (case op of GroupOp j gop \<Rightarrow> j = i \<and> is_commit gop | _ \<Rightarrow> False)"

lemma committed_in_cong:
  "find_group (bs_groups b') i = find_group (bs_groups b) i \<Longrightarrow> committed_in b' i = committed_in b i"
  by (simp add: committed_in_def fun_eq_iff)

lemma committed_in_exec:
  assumes "\<not> commits_to i op"
  shows "committed_in (exec_broker crc op b) i = committed_in b i"
proof (cases op)
  case (GroupOp j gop)
  show ?thesis
  proof (cases "find_group (bs_groups b) j")
    case (Some g)
    have "g_committed_offsets (exec_group gop g) = g_committed_offsets g" if "j = i"
      using committed_run [of "[gop]" g] assms GroupOp that by (simp add: commits_to_def)
    with GroupOp Some show ?thesis
      by (auto simp: exec_broker_def committed_in_def fun_eq_iff)
  qed (simp add: GroupOp exec_broker_def)
next
  case (OpenGroup j)
  then show ?thesis
    by (auto simp: exec_broker_def committed_in_def group_or_insert_def group_new_def fun_eq_iff
        split: option.split)
qed (auto simp: exec_broker_def notify_append_def find_group_def join_settle_def intro!: committed_in_cong)

lemma committed_in_steps:
  "list_all (\<lambda>op. \<not> commits_to i op) ops \<Longrightarrow> committed_in (broker_steps crc ops b) i = committed_in b i"
  by (induction ops arbitrary: b) (simp_all add: broker_steps_def committed_in_exec)

lemma group_exists_steps:
  "find_group (bs_groups b) i \<noteq> None \<Longrightarrow> find_group (bs_groups (broker_steps crc ops b)) i \<noteq> None"
proof (induction ops arbitrary: b)
  case (Cons op ops)
  have "find_group (bs_groups (exec_broker crc op b)) i \<noteq> None"
    using Cons.prems
    by (cases op) (auto simp: exec_broker_def notify_append_def group_or_insert_def join_settle_def
        find_group_def put_group_def update_conv' split: option.split)
  with Cons.IH show ?case by (simp add: broker_steps_def)
qed (simp add: broker_steps_def)

lemma code_nonzero: "code (group_response_error e) \<noteq> 0"
  by (cases e) (simp_all add: group_response_error_def)

lemma result_code_zero [simp]: "(result_code r = 0) = (\<not> isl r)"
  using code_nonzero by (cases r) (simp_all add: result_code_def)

lemma commit_section_offsets:
  assumes "commit_section n i os ck g = (r, g1)"
  shows "map_of (g_committed_offsets g1) tp =
    (case (if \<not> isl r then last_commit os tp else None) of
      None \<Rightarrow> map_of (g_committed_offsets g) tp
    | Some c \<Rightarrow> Some \<lparr>so_offset = oc_offset c, so_metadata = oc_metadata c\<rparr>)"
proof (cases "validate_member_and_generation (expire_stale_members ck None g) n i")
  case (Inl e)
  then have "commit_section n i os ck g = (Inl e, expire_stale_members ck None g)"
    by (simp add: commit_section_def)
  with assms show ?thesis by auto
next
  case (Inr u)
  show ?thesis
  proof (cases "g_state (expire_stale_members ck None g) = Stable")
    case True
    with assms Inr have "r = Inr ()" "g_committed_offsets g1 =
        fold (\<lambda>c. AList.update (oc_topic c, oc_partition c)
          \<lparr>so_offset = oc_offset c, so_metadata = oc_metadata c\<rparr>) os (g_committed_offsets g)"
      by (simp_all add: commit_section_def) (auto simp: Inr)
    then show ?thesis by (simp add: map_of_commits)
  next
    case False
    with assms Inr show ?thesis by (auto simp: commit_section_def)
  qed
qed

text \<open>The error code an OffsetCommit request is answered with, the same for every partition.\<close>

definition commit_code :: "offset_commit_request \<Rightarrow> clock \<Rightarrow> broker_state \<Rightarrow> i16" where
  "commit_code request ck b =
     (if ocrq_group_instance_id request \<noteq> None then code (Error ''UnsupportedVersion'')
      else result_code (fst (commit_offsets (ocrq_group_id request)
             (ocrq_generation_id_or_member_epoch request) (ocrq_member_id request) (commits_of request) ck
             (bs_groups b))))"

lemma offset_commit_stored:
  "committed_in (snd (offset_commit_respond request ck b)) (ocrq_group_id request) tp =
     (case (if commit_code request ck b = 0 then last_commit (commits_of request) tp else None) of
        None \<Rightarrow> committed_in b (ocrq_group_id request) tp
      | Some c \<Rightarrow> Some \<lparr>so_offset = oc_offset c, so_metadata = oc_metadata c\<rparr>)"
proof (cases "ocrq_group_instance_id request")
  case None
  let ?i = "ocrq_group_id request"
  let ?body = "commit_section (ocrq_generation_id_or_member_epoch request) (ocrq_member_id request)
    (commits_of request) ck"
  show ?thesis
  proof (cases "find_group (bs_groups b) ?i")
    case no: None
    have "commit_code request ck b \<noteq> 0"
      using None no by (simp add: commit_code_def commit_offsets_def on_group_def)
    with None no show ?thesis
      by (simp add: offset_commit_respond_def commit_offsets_def on_group_def)
  next
    case (Some g)
    obtain r g1 where run: "?body g = (r, g1)" by fastforce
    have code: "commit_code request ck b = 0 \<longleftrightarrow> \<not> isl r"
      using None Some run by (simp add: commit_code_def commit_offsets_def on_group_def)
    have before: "committed_in b ?i tp = map_of (g_committed_offsets g) tp"
      using Some by (simp add: committed_in_def)
    have "committed_in (snd (offset_commit_respond request ck b)) ?i tp = map_of (g_committed_offsets g1) tp"
      using None Some run
      by (simp add: offset_commit_respond_def commit_offsets_def on_group_def committed_in_def)
    then show ?thesis
      by (simp only: commit_section_offsets [OF run] code before)
  qed
next
  case (Some inst)
  then have "commit_code request ck b \<noteq> 0" by (simp add: commit_code_def)
  with Some show ?thesis by (simp add: offset_commit_respond_def)
qed

text \<open>
  C26: offsets committed through the OffsetCommit handler come back through the OffsetFetch handler.
  The commit answers every partition of the request, in order, with one and the same code. When it
  is 0, a later fetch for the same group reports the last offset and metadata the request gave
  for each partition it named; for every other partition, and for all of them when the code is not
  0, it reports what was stored before. This holds for every state the broker reaches without
  another commit to the group: joins, leaves, expiries, rebalances, traffic of other groups. The
  answer lists the requested names once, in order, and every requested partition under its name.
\<close>

theorem commit_then_fetch:
  assumes "offset_commit_respond request ck b = (response, b1)"
    and "b2 = broker_steps crc ops b1" and "list_all (\<lambda>op. \<not> commits_to (ocrq_group_id request) op) ops"
    and "ofrq_group_id fetch = ocrq_group_id request" and "ofrq_topics fetch = Some topics"
  shows "\<exists>error_code.
    map (\<lambda>t. (ocrst_name t, map (\<lambda>p. (ocrsp_partition_index p, ocrsp_error_code p)) (ocrst_partitions t)))
        (ocrs_topics response) =
      map (\<lambda>t. (ocrqt_name t, map (\<lambda>p. (ocrqp_partition_index p, error_code)) (ocrqt_partitions t)))
        (ocrq_topics request) \<and>
    offset_fetch_respond fetch b2 =
      offset_fetch_answer (find_group (bs_groups b2) (ocrq_group_id request) \<noteq> None)
        (\<lambda>tp. case (if error_code = 0 then last_commit (commits_of request) tp else None) of
           None \<Rightarrow> committed_in b (ocrq_group_id request) tp
         | Some c \<Rightarrow> Some \<lparr>so_offset = oc_offset c, so_metadata = oc_metadata c\<rparr>)
        (requested_pairs topics)"
proof (rule exI [of _ "commit_code request ck b"], rule conjI)
  have "response = fst (offset_commit_respond request ck b)" using assms(1) by simp
  then show "map (\<lambda>t. (ocrst_name t, map (\<lambda>p. (ocrsp_partition_index p, ocrsp_error_code p)) (ocrst_partitions t)))
        (ocrs_topics response) =
      map (\<lambda>t. (ocrqt_name t, map (\<lambda>p. (ocrqp_partition_index p, commit_code request ck b)) (ocrqt_partitions t)))
        (ocrq_topics request)"
    by (simp add: offset_commit_respond_def commit_code_def case_prod_unfold Let_def comp_def)
  have "committed_in b2 (ocrq_group_id request) = committed_in b1 (ocrq_group_id request)"
    unfolding assms(2) by (rule committed_in_steps [OF assms(3)])
  also have "\<dots> = (\<lambda>tp. case (if commit_code request ck b = 0 then last_commit (commits_of request) tp else None) of
           None \<Rightarrow> committed_in b (ocrq_group_id request) tp
         | Some c \<Rightarrow> Some \<lparr>so_offset = oc_offset c, so_metadata = oc_metadata c\<rparr>)"
    using offset_commit_stored [of request ck b] assms(1) by (intro ext) simp
  finally show "offset_fetch_respond fetch b2 =
      offset_fetch_answer (find_group (bs_groups b2) (ocrq_group_id request) \<noteq> None)
        (\<lambda>tp. case (if commit_code request ck b = 0 then last_commit (commits_of request) tp else None) of
           None \<Rightarrow> committed_in b (ocrq_group_id request) tp
         | Some c \<Rightarrow> Some \<lparr>so_offset = oc_offset c, so_metadata = oc_metadata c\<rparr>)
        (requested_pairs topics)"
    by (simp add: offset_fetch_respond_eq [OF assms(5)] assms(4))
qed

definition sample_groups :: broker_state where
  "sample_groups = (broker_new 1 True False 1 [])
     \<lparr>bs_groups := put_group ''g'' sample_stable coordinator_new\<rparr>"

definition sample_commit :: offset_commit_request where
  "sample_commit = offset_commit_request_default
     \<lparr>ocrq_group_id := ''g'', ocrq_generation_id_or_member_epoch := 2, ocrq_member_id := ''a'',
      ocrq_topics := [offset_commit_request_topic_default
        \<lparr>ocrqt_name := ''t'', ocrqt_partitions := [offset_commit_request_partition_default
          \<lparr>ocrqp_partition_index := 0, ocrqp_committed_offset := 42\<rparr>]\<rparr>]\<rparr>"

definition sample_offset_fetch :: offset_fetch_request where
  "sample_offset_fetch = offset_fetch_request_default
     \<lparr>ofrq_group_id := ''g'', ofrq_topics := Some [offset_fetch_request_topic_default
        \<lparr>ofrqt_name := ''t'', ofrqt_partition_indexes := [0]\<rparr>]\<rparr>"

theorem commit_then_fetch_witness:
  "map (\<lambda>t. map ofrsp_committed_offset (ofrst_partitions t))
     (ofrs_topics (offset_fetch_respond sample_offset_fetch
       (broker_steps (\<lambda>_. 0) [GroupOp ''g'' (Leave ''a'' (at_time 9))]
          (snd (offset_commit_respond sample_commit (at_time 5) sample_groups))))) = [[42]]"
proof -
  let ?ops = "[GroupOp ''g'' (Leave ''a'' (at_time 9))]"
  have req: "ocrq_group_id sample_commit = ''g''"
    "commits_of sample_commit =
      [\<lparr>oc_topic = ''t'', oc_partition = 0, oc_offset = 42, oc_metadata = ocrqp_committed_metadata
        offset_commit_request_partition_default\<rparr>]"
    by (simp_all add: sample_commit_def commits_of_def)
  have shape: "map (\<lambda>t. map ocrsp_error_code (ocrst_partitions t))
      (ocrs_topics (fst (offset_commit_respond sample_commit (at_time 5) sample_groups))) = [[0]]"
    by code_simp
  have fetch: "ofrq_group_id sample_offset_fetch = ocrq_group_id sample_commit"
    "ofrq_topics sample_offset_fetch = Some [offset_fetch_request_topic_default
        \<lparr>ofrqt_name := ''t'', ofrqt_partition_indexes := [0]\<rparr>]"
    by (simp_all add: sample_commit_def sample_offset_fetch_def)
  have quiet: "list_all (\<lambda>op. \<not> commits_to (ocrq_group_id sample_commit) op) ?ops"
    by (simp add: commits_to_def is_commit_def)
  obtain response b1 where run: "offset_commit_respond sample_commit (at_time 5) sample_groups = (response, b1)"
    by fastforce
  from commit_then_fetch [OF run refl quiet fetch, of "\<lambda>_. 0"] obtain error_code where
    codes: "map (\<lambda>t. (ocrst_name t, map (\<lambda>p. (ocrsp_partition_index p, ocrsp_error_code p)) (ocrst_partitions t)))
        (ocrs_topics response) =
      map (\<lambda>t. (ocrqt_name t, map (\<lambda>p. (ocrqp_partition_index p, error_code)) (ocrqt_partitions t)))
        (ocrq_topics sample_commit)" and
    answer: "offset_fetch_respond sample_offset_fetch (broker_steps (\<lambda>_. 0) ?ops b1) =
      offset_fetch_answer (find_group (bs_groups (broker_steps (\<lambda>_. 0) ?ops b1)) (ocrq_group_id sample_commit) \<noteq> None)
        (\<lambda>tp. case (if error_code = 0 then last_commit (commits_of sample_commit) tp else None) of
           None \<Rightarrow> committed_in sample_groups (ocrq_group_id sample_commit) tp
         | Some c \<Rightarrow> Some \<lparr>so_offset = oc_offset c, so_metadata = oc_metadata c\<rparr>)
        (requested_pairs [offset_fetch_request_topic_default
        \<lparr>ofrqt_name := ''t'', ofrqt_partition_indexes := [0]\<rparr>])"
    by blast
  have "error_code = 0"
    using codes shape run by (auto simp: sample_commit_def)
  with answer run show ?thesis
    by (simp add: req offset_fetch_answer_def requested_pairs_def last_commit_def offset_answer_def)
qed

end
