(* ===== verification/Records.thy ===== *)
theory Records
  imports Message_Codec Batch
begin

unbundle bit_operations_syntax

text \<open>
  Records and record batches (\<open>crates/kafka-protocol/src/records.rs\<close>): how a client encodes records into
  batches and decodes the batches it fetched. Additions and subtractions of 64-bit integers wrap, as in a release
  build. The compression algorithms are those of other crates and exist only under a cargo feature: the
  parameters \<open>compressors\<close> and \<open>decompressors\<close> give the enabled ones, none of them in the build of the
  broker.
\<close>

section \<open>Sizes of variable-length integers\<close>

definition UnsignedVarLong_compute_size :: "nat \<Rightarrow> usize" where
  "UnsignedVarLong_compute_size v =
     (if v \<le> 0x7f then 1 else if v \<le> 0x3fff then 2 else if v \<le> 0x1fffff then 3
      else if v \<le> 0xfffffff then 4 else if v \<le> 0x7ffffffff then 5 else if v \<le> 0x3ffffffffff then 6
      else if v \<le> 0x1ffffffffffff then 7 else if v \<le> 0xffffffffffffff then 8
      else if v \<le> 0x7fffffffffffffff then 9 else 10)"

definition VarInt_compute_size :: "i32 \<Rightarrow> usize" where
  "VarInt_compute_size v = UnsignedVarInt_compute_size (zigzag 32 v)"

definition VarLong_compute_size :: "i64 \<Rightarrow> usize" where
  "VarLong_compute_size v = UnsignedVarLong_compute_size (zigzag 64 v)"

definition UInt32_encode :: "nat \<Rightarrow> bytes" where
  "UInt32_encode n = be_bytes 4 (int n)"

section \<open>Records\<close>

record kafka_record =
  rec_transactional :: bool
  rec_control :: bool
  rec_delete_horizon :: bool
  rec_partition_leader_epoch :: i32
  rec_producer_id :: i64
  rec_producer_epoch :: i16
  rec_timestamp_type :: timestamp_type
  rec_offset :: i64
  rec_sequence :: i32
  rec_timestamp :: i64
  rec_key :: "bytes option"
  rec_value :: "bytes option"
  rec_headers :: "(string \<times> bytes option) list"

record record_encode_options =
  eo_version :: i8
  eo_compression :: compression

record record_set =
  rs_compression :: compression
  rs_version :: i8
  rs_records :: "kafka_record list"

definition NO_PARTITION_LEADER_EPOCH :: i32 where
  "NO_PARTITION_LEADER_EPOCH = - 1"

definition NO_TIMESTAMP :: i64 where
  "NO_TIMESTAMP = - 1"

text \<open>A key, a value or a header value: its length, \<open>-1\<close> if there is none, and its bytes.\<close>

definition put_var_bytes :: "string \<Rightarrow> bytes option \<Rightarrow> wire_error + bytes" where
  "put_var_bytes what v =
     (case v of
        Some k \<Rightarrow>
          if int (length k) > i32_max then Inl (Bail (what @ '' was too large to encode''))
          else Inr (VarInt_encode (int (length k)) @ k)
      | None \<Rightarrow> Inr (VarInt_encode (- 1)))"

definition var_bytes_size :: "string \<Rightarrow> bytes option \<Rightarrow> wire_error + usize" where
  "var_bytes_size what v =
     (case v of
        Some k \<Rightarrow>
          if int (length k) > i32_max then Inl (Bail (what @ '' was too large to encode''))
          else Inr (VarInt_compute_size (int (length k)) + length k)
      | None \<Rightarrow> Inr (VarInt_compute_size (- 1)))"

definition get_var_bytes :: "string \<Rightarrow> bytes option decoder" where
  "get_var_bytes what =
     get VarInt_decode (\<lambda>len.
     if len < - 1 then refuse (Bail (''Unexpected negative '' @ what @ '' length''))
     else if len = - 1 then give None
     else get (try_get_bytes (nat len)) (\<lambda>bs. give (Some bs)))"

definition offset_delta :: "i64 \<Rightarrow> kafka_record \<Rightarrow> wire_error + i32" where
  "offset_delta min_offset r =
     (let delta = wrap_i64 (rec_offset r - min_offset)
      in if delta > i32_max \<or> delta < i32_min then Inl (Bail ''Timestamps within batch are too far apart'')
         else Inr delta)"

fun put_headers :: "(string \<times> bytes option) list \<Rightarrow> wire_error + bytes" where
  "put_headers [] = Inr []"
| "put_headers ((k, v) # headers) =
     (if int (length k) > i32_max then Inl (Bail ''Record header key was too large to encode'')
      else puts [Inr (VarInt_encode (int (length k))), Inr (str_bytes k),
                 put_var_bytes ''Record header value'' v, put_headers headers])"

fun headers_size :: "(string \<times> bytes option) list \<Rightarrow> wire_error + usize" where
  "headers_size [] = Inr 0"
| "headers_size ((k, v) # headers) =
     (if int (length k) > i32_max then Inl (Bail ''Record header key was too large to encode'')
      else sums [Inr (VarInt_compute_size (int (length k))), Inr (length k),
                 var_bytes_size ''Record header value'' v, headers_size headers])"

text \<open>The loop over the headers; a repeated key replaces the value in its first place, as in an \<open>IndexMap\<close>.\<close>

fun get_headers :: "nat \<Rightarrow> (string \<times> bytes option) list \<Rightarrow> (string \<times> bytes option) list decoder" where
  "get_headers 0 headers = give headers"
| "get_headers (Suc n) headers =
     get VarInt_decode (\<lambda>key_len.
     if key_len < 0 then refuse (Bail ''Unexpected negative record header key length'')
     else
       get (try_get_bytes (nat key_len)) (\<lambda>bs.
       get (\<lambda>buf. try_bind (StrBytes_try_from bs) (\<lambda>key. Inr (key, buf))) (\<lambda>key.
       get (get_var_bytes ''record header value'') (\<lambda>v.
       get_headers n (AList.update key v headers)))))"

definition record_compute_size :: "kafka_record \<Rightarrow> i64 \<Rightarrow> i64 \<Rightarrow> wire_error + usize" where
  "record_compute_size r min_offset min_timestamp =
     sums
       [Inr 1,
        Inr (VarLong_compute_size (wrap_i64 (rec_timestamp r - min_timestamp))),
        try_bind (offset_delta min_offset r) (\<lambda>delta. Inr (VarInt_compute_size delta)),
        var_bytes_size ''Record key'' (rec_key r),
        var_bytes_size ''Record value'' (rec_value r),
        if int (length (rec_headers r)) > i32_max then Inl (Bail ''Too many record headers encode'')
        else Inr (VarInt_compute_size (int (length (rec_headers r)))),
        headers_size (rec_headers r)]"

definition record_fields :: "kafka_record \<Rightarrow> i64 \<Rightarrow> i64 \<Rightarrow> (wire_error + bytes) list" where
  "record_fields r min_offset min_timestamp =
     [Inr (Int8_encode 0),
      Inr (VarLong_encode (wrap_i64 (rec_timestamp r - min_timestamp))),
      try_bind (offset_delta min_offset r) (\<lambda>delta. Inr (VarInt_encode delta)),
      put_var_bytes ''Record key'' (rec_key r),
      put_var_bytes ''Record value'' (rec_value r),
      if int (length (rec_headers r)) > i32_max then Inl (Bail ''Too many record headers encode'')
      else Inr (VarInt_encode (int (length (rec_headers r)))),
      put_headers (rec_headers r)]"

definition record_encode :: "kafka_record \<Rightarrow> i64 \<Rightarrow> i64 \<Rightarrow> wire_error + bytes" where
  "record_encode r min_offset min_timestamp =
     try_bind (record_compute_size r min_offset min_timestamp) (\<lambda>size.
     if int size > i32_max then Inl (Bail ''Record was too large to encode'')
     else puts (Inr (VarInt_encode (int size)) # record_fields r min_offset min_timestamp))"

definition record_body_decode :: "batch_decode_info \<Rightarrow> kafka_record decoder" where
  "record_body_decode info =
     get Int8_decode (\<lambda>_.
     get VarLong_decode (\<lambda>timestamp_delta.
     get VarInt_decode (\<lambda>delta.
     get (get_var_bytes ''record key'') (\<lambda>key.
     get (get_var_bytes ''record value'') (\<lambda>val.
     get VarInt_decode (\<lambda>num_headers.
     if num_headers < 0 then refuse (Bail ''Unexpected negative record header count'')
     else
       get (get_headers (nat num_headers) []) (\<lambda>headers.
       give \<lparr>rec_transactional = bi_transactional info, rec_control = bi_control info,
             rec_delete_horizon = bi_delete_horizon info,
             rec_partition_leader_epoch = bi_partition_leader_epoch info,
             rec_producer_id = bi_producer_id info, rec_producer_epoch = bi_producer_epoch info,
             rec_timestamp_type = bi_timestamp_type info,
             rec_offset = wrap_i64 (bi_min_offset info + delta),
             rec_sequence = wrap_i32 (bi_base_sequence info + delta),
             rec_timestamp = wrap_i64 (bi_min_timestamp info + timestamp_delta),
             rec_key = key, rec_value = val, rec_headers = headers\<rparr>)))))))"

text \<open>The fields are read from a buffer of the announced size; what they leave of it is dropped.\<close>

definition record_decode :: "batch_decode_info \<Rightarrow> kafka_record decoder" where
  "record_decode info =
     get VarInt_decode (\<lambda>size.
     if size < 0 then refuse (Bail ''Unexpected negative record size'')
     else
       get (try_get_bytes (nat size)) (\<lambda>inner.
       \<lambda>buf. try_bind (record_body_decode info inner) (\<lambda>(r, _). Inr (r, buf))))"

section \<open>Encoding batches\<close>

fun compression_code :: "compression \<Rightarrow> i16" where
  "compression_code Uncompressed = 0"
| "compression_code Gzip = 1"
| "compression_code Snappy = 2"
| "compression_code Lz4 = 3"
| "compression_code Zstd = 4"

type_synonym compressor = "bytes \<Rightarrow> wire_error + bytes"

text \<open>A function for the record bytes: the caller's own, none for uncompressed records, or one of the enabled ones.\<close>

definition codec_for ::
  "(compression \<Rightarrow> compressor option) \<Rightarrow> (compression \<Rightarrow> compressor) option \<Rightarrow> compression \<Rightarrow> compressor" where
  "codec_for enabled custom c bs =
     (case custom of
        Some f \<Rightarrow> f c bs
      | None \<Rightarrow>
          if c = Uncompressed then Inr bs
          else case enabled c of
                 Some f \<Rightarrow> f bs
               | None \<Rightarrow> Inl (Bail ''Support is not enabled as a cargo feature''))"

definition same_batch :: "kafka_record \<Rightarrow> kafka_record \<Rightarrow> bool" where
  "same_batch first r \<longleftrightarrow>
     rec_transactional r = rec_transactional first \<and> rec_control r = rec_control first \<and>
     rec_delete_horizon r = rec_delete_horizon first \<and>
     rec_partition_leader_epoch r = rec_partition_leader_epoch first \<and>
     rec_producer_id r = rec_producer_id first \<and> rec_producer_epoch r = rec_producer_epoch first \<and>
     wrap_i32 (wrap_i32 (rec_offset r) - rec_sequence r) =
       wrap_i32 (wrap_i32 (rec_offset first) - rec_sequence first)"

definition encode_new_records :: "kafka_record list \<Rightarrow> i64 \<Rightarrow> i64 \<Rightarrow> wire_error + bytes" where
  "encode_new_records records min_offset min_timestamp =
     puts (map (\<lambda>r. record_encode r min_offset min_timestamp) records)"

definition batch_attributes :: "compression \<Rightarrow> kafka_record \<Rightarrow> i16" where
  "batch_attributes c first =
     (let attributes = compression_code c;
          attributes = (if rec_transactional first then attributes OR 16 else attributes);
          attributes = (if rec_control first then attributes OR 32 else attributes)
      in if rec_delete_horizon first then attributes OR 64 else attributes)"

text \<open>
  The bytes of the batch the first records make, and the records left over; \<open>None\<close> when there is no record. The
  length and the checksum stand in front of what they are computed from.
\<close>

definition encode_new_batch ::
  "(bytes \<Rightarrow> nat) \<Rightarrow> (compression \<Rightarrow> compressor option) \<Rightarrow> (compression \<Rightarrow> compressor) option \<Rightarrow>
   record_encode_options \<Rightarrow> kafka_record list \<Rightarrow> wire_error + (bytes \<times> kafka_record list) option" where
  "encode_new_batch crc enabled custom options records =
     (case records of
        [] \<Rightarrow> Inr None
      | first # others \<Rightarrow>
          let num_records = length (takeWhile (same_batch first) others) + 1;
              batch = take num_records records;
              min_offset = Min (rec_offset ` set batch);
              max_offset = Max (rec_offset ` set batch);
              min_timestamp = Min (rec_timestamp ` set batch);
              max_timestamp = Max (rec_timestamp ` set batch);
              base_sequence = wrap_i32 (rec_sequence first - wrap_i32 (wrap_i64 (rec_offset first - min_offset)))
          in if int num_records > i32_max then Inl (Bail ''Too many records to encode in one batch'')
             else
               try_bind (encode_new_records batch min_offset min_timestamp) (\<lambda>record_buf.
               try_bind (codec_for enabled custom (eo_compression options) record_buf) (\<lambda>compressed.
               let content =
                     Int16_encode (batch_attributes (eo_compression options) first) @
                     Int32_encode (wrap_i32 (wrap_i64 (max_offset - min_offset))) @ Int64_encode min_timestamp @
                     Int64_encode max_timestamp @ Int64_encode (rec_producer_id first) @
                     Int16_encode (rec_producer_epoch first) @ Int32_encode base_sequence @
                     Int32_encode (int num_records) @ compressed;
                   batch_size = int (length content) + 9
               in if batch_size > i32_max then Inl (Bail ''Record batch was too large to encode'')
                  else
                    Inr (Some
                      (Int64_encode min_offset @ Int32_encode batch_size @
                       Int32_encode (rec_partition_leader_epoch first) @ Int8_encode (eo_version options) @
                       UInt32_encode (crc content) @ content,
                       drop num_records records)))))"

lemma encode_new_batch_shrinks:
  "encode_new_batch crc enabled custom options records = Inr (Some (bs, rest)) \<Longrightarrow> length rest < length records"
  by (auto simp: encode_new_batch_def Let_def try_bind_Inr split: list.splits if_splits)

function encode_new ::
  "(bytes \<Rightarrow> nat) \<Rightarrow> (compression \<Rightarrow> compressor option) \<Rightarrow> (compression \<Rightarrow> compressor) option \<Rightarrow>
   record_encode_options \<Rightarrow> kafka_record list \<Rightarrow> wire_error + bytes" where
  "encode_new crc enabled custom options records =
     (case encode_new_batch crc enabled custom options records of
        Inl e \<Rightarrow> Inl e
      | Inr None \<Rightarrow> Inr []
      | Inr (Some (bs, rest)) \<Rightarrow> try_bind (encode_new crc enabled custom options rest) (\<lambda>bs'. Inr (bs @ bs')))"
  by pat_completeness auto
termination
  by (relation "measure (\<lambda>(crc, enabled, custom, options, records). length records)")
    (auto dest: encode_new_batch_shrinks)

declare encode_new.simps [simp del]

definition encode_with_custom_compression ::
  "(bytes \<Rightarrow> nat) \<Rightarrow> (compression \<Rightarrow> compressor option) \<Rightarrow> record_encode_options \<Rightarrow>
   (compression \<Rightarrow> compressor) option \<Rightarrow> kafka_record list \<Rightarrow> wire_error + bytes" where
  "encode_with_custom_compression crc enabled options custom records =
     (if eo_version options \<in> {0, 1} then Inl (Bail ''message sets are unsupported'')
      else if eo_version options = 2 then encode_new crc enabled custom options records
      else Inl (Bail ''Unknown record batch version''))"

definition record_batch_encode ::
  "(bytes \<Rightarrow> nat) \<Rightarrow> (compression \<Rightarrow> compressor option) \<Rightarrow> record_encode_options \<Rightarrow> kafka_record list \<Rightarrow>
   wire_error + bytes" where
  "record_batch_encode crc enabled options records =
     encode_with_custom_compression crc enabled options None records"

section \<open>Decoding batches\<close>

definition decode_new_batch ::
  "(bytes \<Rightarrow> nat) \<Rightarrow> (compression \<Rightarrow> compressor option) \<Rightarrow> (compression \<Rightarrow> compressor) option \<Rightarrow> i8 \<Rightarrow>
   (compression \<times> kafka_record list) decoder" where
  "decode_new_batch crc enabled custom version buf =
     try_bind (decode_batch_header_inner crc version buf) (\<lambda>((info, records_buf), rest).
     try_bind (codec_for enabled custom (bi_compression info) records_buf) (\<lambda>plain.
     try_bind (decode_items (record_decode info) (nat (bi_record_count info)) plain) (\<lambda>(records, _).
     Inr ((bi_compression info, records), rest))))"

definition decode_with_custom_compression ::
  "(bytes \<Rightarrow> nat) \<Rightarrow> (compression \<Rightarrow> compressor option) \<Rightarrow> (compression \<Rightarrow> compressor) option \<Rightarrow>
   record_set decoder" where
  "decode_with_custom_compression crc enabled custom buf =
     try_bind (try_peek_bytes MAGIC_BYTE_OFFSET (MAGIC_BYTE_OFFSET + 1) buf) (\<lambda>peeked.
     let version = sint (hd peeked)
     in if version \<in> {0, 1} then Inl (Bail ''message sets are unsupported'')
        else if version = 2
        then try_bind (decode_new_batch crc enabled custom version buf) (\<lambda>((c, records), rest).
             Inr (\<lparr>rs_compression = c, rs_version = version, rs_records = records\<rparr>, rest))
        else Inl (Bail ''Unknown record batch version''))"

definition record_batch_decode ::
  "(bytes \<Rightarrow> nat) \<Rightarrow> (compression \<Rightarrow> compressor option) \<Rightarrow> record_set decoder" where
  "record_batch_decode crc enabled = decode_with_custom_compression crc enabled None"

lemma record_batch_decode_consumes:
  "record_batch_decode crc enabled buf = Inr (s, rest) \<Longrightarrow> length rest < length buf"
  by (auto simp: record_batch_decode_def decode_with_custom_compression_def decode_new_batch_def try_bind_Inr
      Let_def dest!: decode_batch_header_inner_consumes split: if_splits)

function decode_all ::
  "(bytes \<Rightarrow> nat) \<Rightarrow> (compression \<Rightarrow> compressor option) \<Rightarrow> bytes \<Rightarrow> wire_error + record_set list" where
  "decode_all crc enabled buf =
     (if buf = [] then Inr []
      else case record_batch_decode crc enabled buf of
             Inl e \<Rightarrow> Inl e
           | Inr (s, rest) \<Rightarrow> try_bind (decode_all crc enabled rest) (\<lambda>sets. Inr (s # sets)))"
  by pat_completeness auto
termination
  by (relation "measure (\<lambda>(crc, enabled, buf). length buf)") (auto dest: record_batch_decode_consumes)

declare decode_all.simps [simp del]

section \<open>A record round trips\<close>

lemma uvar_encode_length:
  "v < 2 ^ (7 * Suc n) \<Longrightarrow> n = 0 \<or> 2 ^ (7 * n) \<le> v \<Longrightarrow> length (uvar_encode v) = Suc n"
proof (induction n arbitrary: v)
  case 0
  then show ?case by (subst length_uvar_encode) simp
next
  case (Suc n)
  have "(2::nat) ^ 7 \<le> 2 ^ (7 * Suc n)" by (rule power_increasing) simp_all
  with Suc.prems have "\<not> v < 128" by simp
  moreover have "v div 128 < 2 ^ (7 * Suc n)"
    using Suc.prems(1) by (simp add: div_less_iff_less_mult power_add mult.commute)
  moreover have "n = 0 \<or> 2 ^ (7 * n) \<le> v div 128"
    using Suc.prems(2) by (simp add: less_eq_div_iff_mult_less_eq power_add mult.commute)
  ultimately show ?case using Suc.IH [of "v div 128"] by (subst length_uvar_encode) simp
qed

lemma uvar_encode_long_size:
  assumes "v < 2 ^ 64"
  shows "length (uvar_encode v) = UnsignedVarLong_compute_size v"
  using assms uvar_encode_length [of v 0] uvar_encode_length [of v 1] uvar_encode_length [of v 2]
    uvar_encode_length [of v 3] uvar_encode_length [of v 4] uvar_encode_length [of v 5] uvar_encode_length [of v 6]
    uvar_encode_length [of v 7] uvar_encode_length [of v 8] uvar_encode_length [of v 9]
  by (simp add: UnsignedVarLong_compute_size_def)

lemma coded_var_int [coded_intros]:
  assumes "in_i32 v"
  shows "coded (Inr (VarInt_encode v)) VarInt_decode (Inr (VarInt_compute_size v)) v"
proof -
  have "zigzag 32 v < 2 ^ 32" using assms zigzag_less [of 32 v] by (simp add: in_i32_def)
  from uvar_encode_size [OF this] have "length (VarInt_encode v) = VarInt_compute_size v"
    by (simp add: VarInt_compute_size_def VarInt_encode_def UnsignedVarInt_encode_def)
  then show ?thesis by (simp add: coded_def varint.dec_enc assms)
qed

lemma coded_var_long [coded_intros]:
  assumes "in_i64 v"
  shows "coded (Inr (VarLong_encode v)) VarLong_decode (Inr (VarLong_compute_size v)) v"
proof -
  have "zigzag 64 v < 2 ^ 64" using assms zigzag_less [of 64 v] by (simp add: in_i64_def)
  from uvar_encode_long_size [OF this] have "length (VarLong_encode v) = VarLong_compute_size v"
    by (simp add: VarLong_compute_size_def VarLong_encode_def UnsignedVarLong_encode_def)
  then show ?thesis by (simp add: coded_def varlong.dec_enc assms)
qed

lemma coded_raw_bytes: "coded (Inr bs) (try_get_bytes (length bs)) (Inr (length bs)) bs"
  by (simp add: coded_def try_get_bytes_Inr)

definition var_bytes_ok :: "bytes option \<Rightarrow> bool" where
  "var_bytes_ok v \<longleftrightarrow> (case v of None \<Rightarrow> True | Some bs \<Rightarrow> int (length bs) \<le> i32_max)"

lemma coded_var_bytes [coded_intros]:
  assumes "var_bytes_ok v"
  shows "coded (put_var_bytes what v) (get_var_bytes what') (var_bytes_size what v) v"
proof (cases v)
  case None
  have "coded (Inr (VarInt_encode (- 1))) VarInt_decode (Inr (VarInt_compute_size (- 1))) (- 1)"
    by (rule coded_var_int) (simp add: in_i32_def)
  with None show ?thesis
    by (auto simp: coded_def put_var_bytes_def var_bytes_size_def get_var_bytes_def get_def give_def)
next
  case (Some bs)
  with assms have len: "int (length bs) \<le> i32_max" by (simp add: var_bytes_ok_def)
  then have "coded (Inr (VarInt_encode (int (length bs)))) VarInt_decode
      (Inr (VarInt_compute_size (int (length bs)))) (int (length bs))"
    by (intro coded_var_int) (simp add: in_i32_def i32_max_def)
  with Some len coded_raw_bytes [of bs] show ?thesis
    by (auto simp: coded_def put_var_bytes_def var_bytes_size_def get_var_bytes_def get_def give_def)
qed

definition headers_ok :: "(string \<times> bytes option) list \<Rightarrow> bool" where
  "headers_ok headers \<longleftrightarrow>
     distinct (map fst headers) \<and> int (length headers) \<le> i32_max \<and>
     list_all (\<lambda>(k, v). int (length k) \<le> i32_max \<and> utf8_valid (str_bytes k) \<and> var_bytes_ok v) headers"

lemma update_new: "k \<notin> fst ` set xs \<Longrightarrow> AList.update k v xs = xs @ [(k, v)]"
  by (induction xs) auto

lemma coded_headers:
  assumes "list_all (\<lambda>(k, v). int (length k) \<le> i32_max \<and> utf8_valid (str_bytes k) \<and> var_bytes_ok v) headers"
    and "distinct (map fst (acc @ headers))"
  shows "coded (put_headers headers) (get_headers (length headers) acc) (headers_size headers) (acc @ headers)"
  using assms
proof (induction headers arbitrary: acc)
  case Nil
  then show ?case by (simp add: coded_def give_def)
next
  case (Cons h headers)
  obtain k v where h: "h = (k, v)" by fastforce
  with Cons.prems have ok: "int (length k) \<le> i32_max" "utf8_valid (str_bytes k)" "var_bytes_ok v" by auto
  have upd: "AList.update k v acc = acc @ [(k, v)]" using Cons.prems h by (intro update_new) auto
  have rest: "coded (put_headers headers) (get_headers (length headers) (acc @ [(k, v)])) (headers_size headers)
      (acc @ h # headers)"
    using Cons.IH [of "acc @ [(k, v)]"] Cons.prems h by auto
  have len: "coded (Inr (VarInt_encode (int (length k)))) VarInt_decode (Inr (VarInt_compute_size (int (length k))))
      (int (length k))"
    using ok by (intro coded_var_int) (simp add: in_i32_def i32_max_def)
  have key: "coded (Inr (str_bytes k)) (try_get_bytes (length k)) (Inr (length k)) (str_bytes k)"
    using coded_raw_bytes [of "str_bytes k"] by simp
  have str: "StrBytes_try_from (str_bytes k) = Inr k" using ok by (simp add: StrBytes_try_from_def)
  note val = coded_var_bytes [OF ok(3), of "''Record header value''" "''record header value''"]
  show ?case
    using rest len key val ok(1)
    by (auto simp: h coded_def get_def upd str)
qed

definition record_ok :: "kafka_record \<Rightarrow> bool" where
  "record_ok r \<longleftrightarrow>
     in_i32 (rec_partition_leader_epoch r) \<and> in_i64 (rec_producer_id r) \<and> in_i16 (rec_producer_epoch r) \<and>
     in_i64 (rec_offset r) \<and> in_i32 (rec_sequence r) \<and> in_i64 (rec_timestamp r) \<and>
     var_bytes_ok (rec_key r) \<and> var_bytes_ok (rec_value r) \<and> headers_ok (rec_headers r)"

text \<open>What the header of a batch says about its records; offset and sequence follow from the distance to the first.\<close>

definition in_batch :: "batch_decode_info \<Rightarrow> kafka_record \<Rightarrow> bool" where
  "in_batch info r \<longleftrightarrow>
     bi_transactional info = rec_transactional r \<and> bi_control info = rec_control r \<and>
     bi_delete_horizon info = rec_delete_horizon r \<and>
     bi_partition_leader_epoch info = rec_partition_leader_epoch r \<and>
     bi_producer_id info = rec_producer_id r \<and> bi_producer_epoch info = rec_producer_epoch r"

definition placed :: "batch_decode_info \<Rightarrow> i32 \<Rightarrow> kafka_record \<Rightarrow> kafka_record" where
  "placed info delta r =
     r\<lparr>rec_timestamp_type := bi_timestamp_type info, rec_offset := wrap_i64 (bi_min_offset info + delta),
       rec_sequence := wrap_i32 (bi_base_sequence info + delta)\<rparr>"

lemma wrap_cong: "(x::int) mod 2 ^ w = y mod 2 ^ w \<Longrightarrow> wrap w x = wrap w y"
  by (metis wrap_mod)

lemma wrap_mod_eq: "wrap w x mod 2 ^ w = x mod 2 ^ w"
  by (simp only: wrap_def mod_diff_left_eq add_diff_cancel_right')

lemma wrap_add_right: "wrap w (m + wrap w x) = wrap w (m + x)"
  by (rule wrap_cong) (metis mod_add_right_eq wrap_mod_eq)

lemma wrap_diff_right: "wrap w (m - wrap w x) = wrap w (m - x)"
  by (rule wrap_cong) (metis mod_diff_right_eq wrap_mod_eq)

lemma wrap_diff_left: "wrap w (wrap w x - m) = wrap w (x - m)"
  by (rule wrap_cong) (metis mod_diff_left_eq wrap_mod_eq)

lemmas wrap_arith = wrap_add_right wrap_diff_right wrap_diff_left

lemma offset_delta_Inr: "offset_delta m r = Inr d \<longleftrightarrow> d = wrap_i64 (rec_offset r - m) \<and> in_i32 d"
  by (auto simp: offset_delta_def Let_def in_i32_def i32_max_def i32_min_def)

lemma coded_count [coded_intros]:
  "coded e d z x \<Longrightarrow> coded e (if int n < 0 then refuse m else d) z x"
  by simp

lemma record_fields_coded:
  assumes ok: "record_ok r" and info: "in_batch info r" "bi_min_timestamp info = t" and d: "offset_delta m r = Inr d"
  shows "coded (puts (record_fields r m t)) (record_body_decode info) (record_compute_size r m t) (placed info d r)"
proof -
  have headers [coded_intros]: "coded (put_headers (rec_headers r)) (get_headers (nat (int (length (rec_headers r)))) [])
      (headers_size (rec_headers r)) (rec_headers r)"
    using coded_headers [of "rec_headers r" "[]"] ok by (simp add: record_ok_def headers_ok_def)
  have len: "int (length (rec_headers r)) \<le> i32_max" using ok by (simp add: record_ok_def headers_ok_def)
  have ts: "wrap_i64 (t + wrap_i64 (rec_timestamp r - t)) = rec_timestamp r"
    using ok by (simp add: wrap_arith wrap_i64_id record_ok_def)
  have in_len: "in_i32 (int (length (rec_headers r)))" using len by (simp add: in_i32_def i32_max_def)
  have d32: "in_i32 d" using d by (auto simp: offset_delta_Inr)
  have "coded (puts
      [Inr (Int8_encode 0), Inr (VarLong_encode (wrap_i64 (rec_timestamp r - t))), Inr (VarInt_encode d),
       put_var_bytes ''Record key'' (rec_key r), put_var_bytes ''Record value'' (rec_value r),
       Inr (VarInt_encode (int (length (rec_headers r)))), put_headers (rec_headers r)])
     (record_body_decode info)
     (sums [Inr 1, Inr (VarLong_compute_size (wrap_i64 (rec_timestamp r - t))), Inr (VarInt_compute_size d),
       var_bytes_size ''Record key'' (rec_key r), var_bytes_size ''Record value'' (rec_value r),
       Inr (VarInt_compute_size (int (length (rec_headers r)))), headers_size (rec_headers r)]) (placed info d r)"
    unfolding record_body_decode_def
    by (rule coded_intros headers in_i64_wrap in_len d32
        | (use ok info ts d in \<open>simp add: in_i8_def record_ok_def offset_delta_Inr in_batch_def placed_def\<close>; fail))+
  with d len show ?thesis by (simp add: record_fields_def record_compute_size_def not_less)
qed

lemma record_coded:
  assumes "record_ok r" and "in_batch info r" and "bi_min_timestamp info = t" and "record_encode r m t = Inr bs"
  shows "in_i32 (wrap_i64 (rec_offset r - m))"
    and "record_decode info (bs @ rest) = Inr (placed info (wrap_i64 (rec_offset r - m)) r, rest)"
proof -
  let ?d = "wrap_i64 (rec_offset r - m)"
  from assms(4) obtain n where size: "record_compute_size r m t = Inr n" "int n \<le> i32_max"
    and bs: "puts (Inr (VarInt_encode (int n)) # record_fields r m t) = Inr bs"
    by (auto simp: record_encode_def try_bind_Inr split: if_splits)
  then have d: "offset_delta m r = Inr ?d" "in_i32 ?d"
    by (auto simp: record_compute_size_def try_bind_Inr offset_delta_Inr)
  from record_fields_coded [OF assms(1-3) d(1)] size obtain fields where
    fields: "puts (record_fields r m t) = Inr fields" "n = length fields"
      "\<And>rest. record_body_decode info (fields @ rest) = Inr (placed info ?d r, rest)"
    by (auto simp: coded_def)
  have "in_i32 (int n)" using size(2) by (simp add: in_i32_def i32_max_def)
  then have "VarInt_decode (VarInt_encode (int n) @ x) = Inr (int n, x)" for x by (rule varint.dec_enc)
  moreover have "try_get_bytes n (fields @ rest) = Inr (fields, rest)" by (simp add: fields(2) try_get_bytes_Inr)
  ultimately show "record_decode info (bs @ rest) = Inr (placed info ?d r, rest)"
    using bs fields(1) fields(3) [of "[]"] by (auto simp: record_decode_def get_def)
  show "in_i32 ?d" by (rule d)
qed

lemma records_coded:
  assumes "list_all record_ok rs" and "list_all (in_batch info) rs" and "bi_min_timestamp info = t"
    and "encode_new_records rs m t = Inr bs"
  shows "list_all (\<lambda>r. in_i32 (wrap_i64 (rec_offset r - m))) rs \<and>
    decode_items (record_decode info) (length rs) (bs @ rest) =
      Inr (map (\<lambda>r. placed info (wrap_i64 (rec_offset r - m)) r) rs, rest)"
  using assms
proof (induction rs arbitrary: bs)
  case (Cons r rs)
  then obtain b bs' where b: "record_encode r m t = Inr b" "encode_new_records rs m t = Inr bs'" "bs = b @ bs'"
    by (auto simp: encode_new_records_def try_bind_Inr)
  with Cons record_coded [OF _ _ assms(3) b(1)] show ?case by auto
qed (simp add: encode_new_records_def)

section \<open>Batches round trip\<close>

lemma batch_attributes_bits:
  "compression_of (batch_attributes c first) = Inr c" "in_i16 (batch_attributes c first)"
  "\<not> bit (batch_attributes c first) 3" "bit (batch_attributes c first) 4 = rec_transactional first"
  "bit (batch_attributes c first) 5 = rec_control first" "bit (batch_attributes c first) 6 = rec_delete_horizon first"
  by (cases c; cases "rec_transactional first"; cases "rec_control first"; cases "rec_delete_horizon first";
      simp add: batch_attributes_def compression_of_def in_i16_def)+

lemma wrap_64_32: "wrap_i64 x mod 2 ^ 32 = x mod 2 ^ 32"
proof -
  have "wrap_i64 x mod 2 ^ 64 mod 2 ^ 32 = x mod 2 ^ 64 mod 2 ^ 32" by (simp only: wrap_mod_eq)
  then show ?thesis by (simp add: mod_mod_cancel)
qed

lemma wrap_i32_of_i64:
  "wrap_i32 (m + wrap_i64 x) = wrap_i32 (m + x)" "wrap_i32 (wrap_i64 x) = wrap_i32 x"
  by (rule wrap_cong, metis mod_add_right_eq wrap_64_32) (rule wrap_cong, rule wrap_64_32)

text \<open>The sequence numbers of a batch follow from its first one, all modulo \<open>2^32\<close>.\<close>

lemma sequence_placed:
  assumes "same_batch first r" and "in_i32 (rec_sequence r)"
  shows "wrap_i32 (wrap_i32 (rec_sequence first - wrap_i32 (wrap_i64 (rec_offset first - m))) +
      wrap_i64 (rec_offset r - m)) = rec_sequence r"
proof -
  let ?f = "rec_offset first - rec_sequence first"
  have same: "wrap_i32 (rec_offset r - rec_sequence r) = wrap_i32 ?f"
    using assms(1) by (simp add: same_batch_def wrap_arith)
  have "wrap_i32 (wrap_i32 (rec_sequence first - wrap_i32 (wrap_i64 (rec_offset first - m))) + wrap_i64 (rec_offset r - m)) =
      wrap_i32 ((rec_offset r - m) + wrap_i32 (rec_sequence first - (rec_offset first - m)))"
    by (simp only: wrap_i32_of_i64 wrap_arith add.commute)
  also have "\<dots> = wrap_i32 (rec_offset r - ?f)" by (simp only: wrap_arith) (simp add: algebra_simps)
  also have "\<dots> = wrap_i32 (rec_offset r - wrap_i32 ?f)" by (simp add: wrap_arith)
  also have "\<dots> = wrap_i32 (rec_sequence r)" unfolding same [symmetric] by (simp add: wrap_arith)
  finally show ?thesis using assms(2) by (simp add: wrap_i32_id)
qed

text \<open>One batch: its bytes field by field, and the records they decode to wherever the batch is stored.\<close>

definition stored_at :: "i64 \<Rightarrow> i64 \<Rightarrow> kafka_record \<Rightarrow> kafka_record" where
  "stored_at m base r =
     r\<lparr>rec_timestamp_type := Creation, rec_offset := wrap_i64 (base + wrap_i64 (rec_offset r - m))\<rparr>"

lemma Min_Max_image:
  assumes "xs \<noteq> []"
  shows "\<exists>x \<in> set xs. Min (f ` set xs) = f x" and "\<exists>x \<in> set xs. Max (f ` set xs) = f x"
proof -
  have "Min (f ` set xs) \<in> f ` set xs" "Max (f ` set xs) \<in> f ` set xs"
    using assms by (auto intro!: Min_in Max_in)
  then show "\<exists>x \<in> set xs. Min (f ` set xs) = f x" "\<exists>x \<in> set xs. Max (f ` set xs) = f x" by blast+
qed

lemma encode_new_batch_Some:
  assumes ok: "list_all record_ok records" and version: "eo_version options = 2"
    and enc: "encode_new_batch crc enabled custom options records = Inr (Some (bs, rest))"
  obtains first batch m t0 t1 sq record_buf compressed where "records = batch @ rest" "batch \<noteq> []" "hd batch = first"
    "list_all (same_batch first) batch" "m = Min (rec_offset ` set batch)"
    "in_i64 m" "in_i64 t0" "in_i64 t1" "int (length batch) \<le> i32_max"
    "sq = wrap_i32 (rec_sequence first - wrap_i32 (wrap_i64 (rec_offset first - m)))"
    "encode_new_records batch m t0 = Inr record_buf"
    "codec_for enabled custom (eo_compression options) record_buf = Inr compressed"
    "bs = batch_frame crc m (rec_partition_leader_epoch first)
      (batch_content (batch_attributes (eo_compression options) first)
        (wrap_i32 (wrap_i64 (Max (rec_offset ` set batch) - m))) t0 t1 (rec_producer_id first)
        (rec_producer_epoch first) sq (int (length batch)) compressed)"
    "int (length compressed) + 49 \<le> i32_max"
proof (cases records)
  case Nil
  with enc show thesis by (simp add: encode_new_batch_def)
next
  case (Cons first others)
  let ?n = "length (takeWhile (same_batch first) others) + 1"
  let ?batch = "take ?n records"
  have batch: "?batch = first # takeWhile (same_batch first) others"
    by (simp add: Cons takeWhile_eq_take [symmetric])
  have len: "length ?batch = ?n" by (simp only: batch) simp
  have sub: "set ?batch \<subseteq> set records" by (rule set_take_subset)
  have "?batch \<noteq> []" by (simp only: batch) simp
  note mins = Min_Max_image(1) [OF this, of rec_offset] Min_Max_image [OF this, of rec_timestamp]
  have range: "in_i64 (Min (rec_offset ` set ?batch))" "in_i64 (Min (rec_timestamp ` set ?batch))"
    "in_i64 (Max (rec_timestamp ` set ?batch))"
    using mins sub ok by (auto simp: list_all_iff record_ok_def)
  from enc obtain record_buf compressed where
    r: "int ?n \<le> i32_max"
      "encode_new_records ?batch (Min (rec_offset ` set ?batch)) (Min (rec_timestamp ` set ?batch)) = Inr record_buf"
      "codec_for enabled custom (eo_compression options) record_buf = Inr compressed"
      "int (length compressed) + 49 \<le> i32_max" "rest = drop ?n records"
    and bs: "bs = batch_frame crc (Min (rec_offset ` set ?batch)) (rec_partition_leader_epoch first)
      (batch_content (batch_attributes (eo_compression options) first)
        (wrap_i32 (wrap_i64 (Max (rec_offset ` set ?batch) - Min (rec_offset ` set ?batch))))
        (Min (rec_timestamp ` set ?batch)) (Max (rec_timestamp ` set ?batch)) (rec_producer_id first)
        (rec_producer_epoch first)
        (wrap_i32 (rec_sequence first - wrap_i32 (wrap_i64 (rec_offset first - Min (rec_offset ` set ?batch)))))
        (int ?n) compressed)"
    unfolding encode_new_batch_def Cons list.case Let_def
    by (auto simp: try_bind_Inr version batch_frame_def batch_content_def int_codec_defs UInt32_encode_def
        simp del: be_bytes.simps take_Suc_Cons split: if_splits)
  show thesis
  proof (rule that)
    show "records = ?batch @ rest" by (simp add: r(5))
    show "list_all (same_batch first) ?batch"
      unfolding batch by (auto simp: list_all_iff same_batch_def dest: set_takeWhileD)
    show "hd ?batch = first" by (simp only: batch) simp
    show "int (length ?batch) \<le> i32_max" using r(1) by (simp only: len)
    show "bs = batch_frame crc (Min (rec_offset ` set ?batch)) (rec_partition_leader_epoch first)
      (batch_content (batch_attributes (eo_compression options) first)
        (wrap_i32 (wrap_i64 (Max (rec_offset ` set ?batch) - Min (rec_offset ` set ?batch))))
        (Min (rec_timestamp ` set ?batch)) (Max (rec_timestamp ` set ?batch)) (rec_producer_id first)
        (rec_producer_epoch first)
        (wrap_i32 (rec_sequence first - wrap_i32 (wrap_i64 (rec_offset first - Min (rec_offset ` set ?batch)))))
        (int (length ?batch)) compressed)"
      using bs by (simp only: len)
  qed (rule r range refl \<open>?batch \<noteq> []\<close>)+
qed

lemma encode_new_batch_decodes:
  assumes ok: "list_all record_ok records" and version: "eo_version options = 2" and crc: "\<And>x. crc x < 2 ^ 32"
    and enc: "encode_new_batch crc enabled custom options records = Inr (Some (bs, rest))"
  obtains batch m info record_buf compressed where "records = batch @ rest" "batch \<noteq> []"
    "m = Min (rec_offset ` set batch)"
    "\<And>tail. decode_batch_header_inner crc 2 (bs @ tail) = Inr ((info, compressed), tail)"
    "bi_compression info = eo_compression options" "bi_record_count info = int (length batch)" "bi_min_offset info = m"
    "codec_for enabled custom (eo_compression options) record_buf = Inr compressed"
    "\<And>base. decode_items (record_decode (info\<lparr>bi_min_offset := base\<rparr>)) (length batch) record_buf =
      Inr (map (stored_at m base) batch, [])"
    "17 \<le> length bs" "bs ! 16 = 2"
proof -
  from encode_new_batch_Some [OF ok version enc] obtain first batch m t0 t1 sq record_buf compressed where
    b: "records = batch @ rest" "batch \<noteq> []" "hd batch = first" "list_all (same_batch first) batch"
      "m = Min (rec_offset ` set batch)" "in_i64 m" "in_i64 t0" "in_i64 t1" "int (length batch) \<le> i32_max"
    and sq: "sq = wrap_i32 (rec_sequence first - wrap_i32 (wrap_i64 (rec_offset first - m)))"
    and buf: "encode_new_records batch m t0 = Inr record_buf"
      "codec_for enabled custom (eo_compression options) record_buf = Inr compressed"
    and bs: "bs = batch_frame crc m (rec_partition_leader_epoch first)
      (batch_content (batch_attributes (eo_compression options) first)
        (wrap_i32 (wrap_i64 (Max (rec_offset ` set batch) - m))) t0 t1 (rec_producer_id first)
        (rec_producer_epoch first) sq (int (length batch)) compressed)"
    and len: "int (length compressed) + 49 \<le> i32_max" by metis
  have first: "record_ok first" using ok b(1-3) by (cases batch) auto
  define info where "info = \<lparr>bi_record_count = int (length batch), bi_timestamp_type = Creation, bi_min_offset = m,
      bi_min_timestamp = t0, bi_base_sequence = sq, bi_transactional = rec_transactional first,
      bi_control = rec_control first, bi_delete_horizon = rec_delete_horizon first,
      bi_partition_leader_epoch = rec_partition_leader_epoch first, bi_producer_id = rec_producer_id first,
      bi_producer_epoch = rec_producer_epoch first, bi_compression = eo_compression options, bi_version = 2\<rparr>"
  have "decode_batch_header_inner crc 2 (bs @ tail) = Inr ((info, compressed), tail)" for tail
  proof -
    have "in_i32 (int (length batch))" "in_i32 (int (40 + length compressed) + 9)"
      using b(9) len by (simp_all add: in_i32_def i32_max_def)
    then show ?thesis
      using decode_batch_frame [OF refl, of m "rec_partition_leader_epoch first"
          "batch_attributes (eo_compression options) first" "wrap_i32 (wrap_i64 (Max (rec_offset ` set batch) - m))"
          t0 t1 "rec_producer_id first" "rec_producer_epoch first" sq "int (length batch)" compressed crc
          "eo_compression options" tail] first b(6-8) crc
      by (simp add: bs info_def batch_attributes_bits record_ok_def sq)
  qed
  moreover have "decode_items (record_decode (info\<lparr>bi_min_offset := base\<rparr>)) (length batch) record_buf =
      Inr (map (stored_at m base) batch, [])" for base
  proof -
    have rs: "list_all record_ok batch" "list_all (in_batch (info\<lparr>bi_min_offset := base\<rparr>)) batch"
      using ok b(1,4) by (auto simp: list_all_iff in_batch_def info_def same_batch_def)
    from records_coded [OF rs _ buf(1), of "[]"] have
      "decode_items (record_decode (info\<lparr>bi_min_offset := base\<rparr>)) (length batch) record_buf =
        Inr (map (\<lambda>r. placed (info\<lparr>bi_min_offset := base\<rparr>) (wrap_i64 (rec_offset r - m)) r) batch, [])"
      by (simp add: info_def)
    moreover have "placed (info\<lparr>bi_min_offset := base\<rparr>) (wrap_i64 (rec_offset r - m)) r = stored_at m base r"
      if "r \<in> set batch" for r
    proof -
      have "same_batch first r" "in_i32 (rec_sequence r)" using that b(4) rs(1) by (auto simp: list_all_iff record_ok_def)
      from sequence_placed [OF this, of m] show ?thesis by (simp add: placed_def stored_at_def info_def sq)
    qed
    ultimately show ?thesis by simp
  qed
  moreover have "17 \<le> length bs" by (simp add: bs)
  moreover have "bs ! 16 = 2" by (simp add: bs batch_frame_def nth_append numeral_eq_Suc)
  ultimately show thesis using b(1,2,5) buf(2) by (intro that [of batch m info compressed record_buf]) (simp_all add: info_def)
qed

lemma stored_at_origin: "record_ok r \<Longrightarrow> stored_at m m r = r\<lparr>rec_timestamp_type := Creation\<rparr>"
  by (simp add: stored_at_def wrap_arith wrap_i64_id record_ok_def)

lemma peek_magic:
  assumes "17 \<le> length bs" and "bs ! 16 = 2"
  shows "try_peek_bytes MAGIC_BYTE_OFFSET (MAGIC_BYTE_OFFSET + 1) (bs @ tail) = Inr [2]"
  using assms by (simp add: try_peek_bytes_def slice_def MAGIC_BYTE_OFFSET_def take_Suc hd_drop_conv_nth nth_append)

lemma encode_new_batch_reads:
  assumes "encode_new_batch crc compressors None options records = Inr (Some (bs, rest))" and "list_all record_ok records"
    and "eo_version options = 2" and "\<And>x. crc x < 2 ^ 32"
    and inverse: "\<And>plain packed. codec_for compressors None (eo_compression options) plain = Inr packed \<Longrightarrow>
      codec_for decompressors None (eo_compression options) packed = Inr plain"
  obtains batch where "records = batch @ rest" "batch \<noteq> []" "bs \<noteq> []"
    "\<And>more. record_batch_decode crc decompressors (bs @ more) =
      Inr (\<lparr>rs_compression = eo_compression options, rs_version = 2,
            rs_records = map (\<lambda>r. r\<lparr>rec_timestamp_type := Creation\<rparr>) batch\<rparr>, more)"
proof -
  from encode_new_batch_decodes [OF assms(2-4,1)] obtain batch m info record_buf compressed where
    b: "records = batch @ rest" "batch \<noteq> []" "\<And>tail. decode_batch_header_inner crc 2 (bs @ tail) = Inr ((info, compressed), tail)"
      "bi_compression info = eo_compression options" "bi_record_count info = int (length batch)" "bi_min_offset info = m"
      "codec_for compressors None (eo_compression options) record_buf = Inr compressed"
      "\<And>base. decode_items (record_decode (info\<lparr>bi_min_offset := base\<rparr>)) (length batch) record_buf =
        Inr (map (stored_at m base) batch, [])" "17 \<le> length bs" "bs ! 16 = 2" by metis
  have ok: "list_all record_ok batch" using assms(2) b(1) by simp
  have "info\<lparr>bi_min_offset := m\<rparr> = info" using b(6) by (cases info) simp
  then have "decode_items (record_decode info) (length batch) record_buf =
      Inr (map (\<lambda>r. r\<lparr>rec_timestamp_type := Creation\<rparr>) batch, [])"
    using b(8) [of m] ok by (simp add: stored_at_origin list_all_iff cong: map_cong)
  moreover note peek_magic [OF b(9,10)]
  ultimately show thesis
    using b(1-5,9) inverse [OF b(7)]
    by (intro that [of batch])
      (auto simp: record_batch_decode_def decode_with_custom_compression_def decode_new_batch_def)
qed

lemma encode_new_decodes:
  assumes "encode_new crc compressors None options records = Inr bytes" and "list_all record_ok records"
    and version: "eo_version options = 2" and crc: "\<And>x. crc x < 2 ^ 32"
    and inverse: "\<And>plain packed. codec_for compressors None (eo_compression options) plain = Inr packed \<Longrightarrow>
      codec_for decompressors None (eo_compression options) packed = Inr plain"
  shows "\<exists>sets. decode_all crc decompressors bytes = Inr sets \<and>
    concat (map rs_records sets) = map (\<lambda>r. r\<lparr>rec_timestamp_type := Creation\<rparr>) records \<and>
    list_all (\<lambda>s. rs_compression s = eo_compression options \<and> rs_version s = 2 \<and> rs_records s \<noteq> []) sets"
  using assms(1,2)
proof (induction records arbitrary: bytes rule: length_induct)
  case (1 records)
  from 1(2) consider (none) "encode_new_batch crc compressors None options records = Inr None" "bytes = []"
    | (some) bs rest more where "encode_new_batch crc compressors None options records = Inr (Some (bs, rest))"
      "encode_new crc compressors None options rest = Inr more" "bytes = bs @ more"
    by (auto simp: encode_new.simps [of _ _ _ _ records] try_bind_Inr split: sum.splits option.splits)
  then show ?case
  proof cases
    case none
    then have "records = []"
      by (auto simp: encode_new_batch_def Let_def try_bind_Inr split: list.splits if_splits)
    with none show ?thesis by (simp add: decode_all.simps)
  next
    case some
    from encode_new_batch_reads [OF some(1) 1(3) version crc inverse] obtain batch where
      b: "records = batch @ rest" "batch \<noteq> []" "bs \<noteq> []"
        "record_batch_decode crc decompressors (bs @ more) =
          Inr (\<lparr>rs_compression = eo_compression options, rs_version = 2,
                rs_records = map (\<lambda>r. r\<lparr>rec_timestamp_type := Creation\<rparr>) batch\<rparr>, more)" by metis
    from 1(3) b(1) have ok: "list_all record_ok rest" by simp
    obtain sets where "decode_all crc decompressors more = Inr sets"
      "concat (map rs_records sets) = map (\<lambda>r. r\<lparr>rec_timestamp_type := Creation\<rparr>) rest"
      "list_all (\<lambda>s. rs_compression s = eo_compression options \<and> rs_version s = 2 \<and> rs_records s \<noteq> []) sets"
      using 1(1) encode_new_batch_shrinks [OF some(1)] some(2) ok by blast
    with b show ?thesis by (simp add: decode_all.simps [of _ _ "bs @ more"] some(3))
  qed
qed

text \<open>
  C32: what a client encodes it decodes again. Records that fit their types, with distinct UTF-8 header keys, are
  encoded into batches, each as long as consecutive records share the properties a batch has once, and
  decoding all of the bytes returns exactly these records in order, with their offsets, sequence numbers, timestamps,
  keys, values and headers, in whichever compression, if decompressing undoes it. Only the kind of
  the timestamp is lost: it always comes back as that of creation, for the encoder does not write it.
\<close>

theorem records_round_trip:
  assumes "list_all record_ok records" and "\<And>x. crc x < 2 ^ 32"
    and "record_batch_encode crc compressors options records = Inr bytes"
    and "\<And>plain packed. codec_for compressors None (eo_compression options) plain = Inr packed \<Longrightarrow>
      codec_for decompressors None (eo_compression options) packed = Inr plain"
  shows "\<exists>sets. decode_all crc decompressors bytes = Inr sets \<and>
    concat (map rs_records sets) = map (\<lambda>r. r\<lparr>rec_timestamp_type := Creation\<rparr>) records \<and>
    list_all (\<lambda>s. rs_compression s = eo_compression options \<and> rs_version s = 2 \<and> rs_records s \<noteq> []) sets"
proof -
  from assms(3) have "encode_new crc compressors None options records = Inr bytes" "eo_version options = 2"
    by (auto simp: record_batch_encode_def encode_with_custom_compression_def split: if_splits)
  with assms show ?thesis by (intro encode_new_decodes)
qed

definition sample_record :: "i64 \<Rightarrow> kafka_record" where
  "sample_record i =
     \<lparr>rec_transactional = False, rec_control = False, rec_delete_horizon = False,
      rec_partition_leader_epoch = NO_PARTITION_LEADER_EPOCH, rec_producer_id = NO_PRODUCER_ID,
      rec_producer_epoch = NO_PRODUCER_EPOCH, rec_timestamp_type = LogAppend, rec_offset = i, rec_sequence = i,
      rec_timestamp = 1000 - i, rec_key = Some [1], rec_value = None, rec_headers = [(''h'', Some [7])]\<rparr>"

lemma sample_records_encode:
  "\<exists>bytes. record_batch_encode (\<lambda>_. 5) (\<lambda>_. None) \<lparr>eo_version = 2, eo_compression = Uncompressed\<rparr>
     [sample_record 0, sample_record 1] = Inr bytes"
proof -
  have "\<not> isl (record_batch_encode (\<lambda>_. 5) (\<lambda>_. None) \<lparr>eo_version = 2, eo_compression = Uncompressed\<rparr>
     [sample_record 0, sample_record 1])"
    by code_simp
  then show ?thesis by (metis sum.collapse(2))
qed

theorem records_round_trip_witness:
  "\<exists>bytes sets. record_batch_encode (\<lambda>_. 5) (\<lambda>_. None) \<lparr>eo_version = 2, eo_compression = Uncompressed\<rparr>
      [sample_record 0, sample_record 1] = Inr bytes \<and>
    decode_all (\<lambda>_. 5) (\<lambda>_. None) bytes = Inr sets \<and>
    concat (map rs_records sets) =
      [(sample_record 0)\<lparr>rec_timestamp_type := Creation\<rparr>, (sample_record 1)\<lparr>rec_timestamp_type := Creation\<rparr>]"
proof -
  obtain bytes where enc: "record_batch_encode (\<lambda>_. 5) (\<lambda>_. None) \<lparr>eo_version = 2, eo_compression = Uncompressed\<rparr>
      [sample_record 0, sample_record 1] = Inr bytes"
    using sample_records_encode by blast
  have "list_all record_ok [sample_record 0, sample_record 1]" by code_simp
  from records_round_trip [OF this _ enc, where decompressors = "\<lambda>_. None"] enc show ?thesis
    by (fastforce simp: codec_for_def)
qed

end
