(* ===== verification/Record_Path.thy ===== *)
theory Record_Path
  imports Records Fetch
begin

text \<open>
  The path of a record through the broker: encoded by a producing client with \<open>RecordBatchEncoder\<close>, stored by
  the Produce handler, returned by the Fetch handler and decoded by a consuming client with
  \<open>RecordBatchDecoder\<close>. It joins the client's side of \<open>records.rs\<close> to the broker's, which reads batch headers only and
  overwrites nothing of a batch but its offset.
\<close>

section \<open>One batch of records\<close>

text \<open>The records a producer sends in one batch: consecutive offsets, and one set of batch properties.\<close>

definition one_batch :: "kafka_record list \<Rightarrow> bool" where
  "one_batch records \<longleftrightarrow>
     records \<noteq> [] \<and> list_all record_ok records \<and> list_all (same_batch (hd records)) records \<and>
     map rec_offset records = [rec_offset (hd records) .. rec_offset (hd records) + int (length records) - 1]"

lemma one_batch_encodes:
  assumes "record_batch_encode crc compressors options records = Inr bytes" and "one_batch records"
  shows "encode_new_batch crc compressors None options records = Inr (Some (bytes, []))" "eo_version options = 2"
proof -
  show version: "eo_version options = 2"
    using assms(1) by (auto simp: record_batch_encode_def encode_with_custom_compression_def split: if_splits)
  have "records \<noteq> []" and all: "takeWhile (same_batch (hd records)) (tl records) = tl records"
    using assms(2) by (auto simp: one_batch_def list_all_iff takeWhile_eq_all_conv dest: list.set_sel(2))
  have rest: "rest = []" if "encode_new_batch crc compressors None options records = Inr (Some (bs, rest))" for bs rest
    using that \<open>records \<noteq> []\<close> arg_cong [OF all, of length]
    by (cases records) (auto simp: encode_new_batch_def Let_def try_bind_Inr split: if_splits)
  have "encode_new_batch crc compressors None options records \<noteq> Inr None"
    using \<open>records \<noteq> []\<close> by (cases records) (auto simp: encode_new_batch_def Let_def try_bind_Inr split: if_splits)
  then show "encode_new_batch crc compressors None options records = Inr (Some (bytes, []))"
    using assms(1) version rest
    by (auto simp: record_batch_encode_def encode_with_custom_compression_def encode_new.simps [of _ _ _ _ records]
        encode_new.simps [of _ _ _ _ "[]"] encode_new_batch_def [of _ _ _ _ "[]"] try_bind_Inr
        split: sum.splits option.splits)
qed

lemma consecutive_Min:
  assumes "xs \<noteq> []" and "map f xs = [m .. m + int (length xs) - 1]"
  shows "Min (f ` set xs) = (m::int)"
proof -
  have "f ` set xs = {m .. m + int (length xs) - 1}" using assms(2) by (metis set_map set_upto)
  moreover have "m \<le> m + int (length xs) - 1" using assms(1) by (cases xs) auto
  ultimately show ?thesis by (simp add: Min_eq_iff)
qed

text \<open>The length field of an encoded batch describes the whole record set.\<close>

lemma one_batch_length:
  assumes "encode_new_batch crc compressors None options records = Inr (Some (bytes, rest))"
    and "list_all record_ok records" and "eo_version options = 2"
  shows "i32_at 8 bytes = int (length bytes) - 12"
proof -
  obtain off le content where
    b: "bytes = batch_frame crc off le content" "int (length content) + 9 \<le> i32_max"
    by (rule encode_new_batch_Some [OF assms(2,3,1)]) simp
  then have "in_i32 (int (length content) + 9)" by (simp add: in_i32_def i32_max_def)
  with b show ?thesis
    by (simp add: batch_frame_def i32_at_skip i32_at_be_bytes del: be_bytes.simps)
qed

text \<open>
  The bytes of one batch with another offset stamped on them, as the log keeps them, decode into the records at
  consecutive offsets from there.
\<close>

lemma one_batch_restamped:
  assumes enc: "record_batch_encode crc compressors options records = Inr bytes" and one: "one_batch records"
    and crc: "\<And>x. crc x < 2 ^ 32" and base: "0 \<le> base" "in_i64 (base + int (length records) - 1)"
    and inverse: "\<And>plain packed. codec_for compressors None (eo_compression options) plain = Inr packed \<Longrightarrow>
      codec_for decompressors None (eo_compression options) packed = Inr plain"
  shows "record_batch_decode crc decompressors (be_bytes 8 base @ drop 8 bytes @ rest) =
    Inr (\<lparr>rs_compression = eo_compression options, rs_version = 2,
          rs_records = map2 (\<lambda>off r. r\<lparr>rec_timestamp_type := Creation, rec_offset := off\<rparr>)
            [base .. base + int (length records) - 1] records\<rparr>, rest)"
proof -
  let ?m = "rec_offset (hd records)" and ?bs = "be_bytes 8 base @ drop 8 bytes"
  note batch = one_batch_encodes [OF enc one]
  have "int (length records) \<ge> 1" using one by (cases records) (auto simp: one_batch_def)
  then have base64: "in_i64 base" using base by (simp add: in_i64_def)
  have ok: "list_all record_ok records" "records \<noteq> []" using one by (simp_all add: one_batch_def)
  from encode_new_batch_decodes [OF ok(1) batch(2) crc batch(1)] obtain m info record_buf compressed where
    b: "m = Min (rec_offset ` set records)" "decode_batch_header_inner crc 2 bytes = Inr ((info, compressed), [])"
      "bi_compression info = eo_compression options" "bi_record_count info = int (length records)"
      "codec_for compressors None (eo_compression options) record_buf = Inr compressed"
      "decode_items (record_decode (info\<lparr>bi_min_offset := base\<rparr>)) (length records) record_buf =
        Inr (map (stored_at m base) records, [])" "17 \<le> length bytes" "bytes ! 16 = 2"
    by (metis append_Nil2)
  have "m = ?m" using b(1) consecutive_Min [OF ok(2)] one by (simp add: one_batch_def)
  have "decode_batch_header_inner crc 2 (?bs @ rest) = Inr ((info\<lparr>bi_min_offset := base\<rparr>, compressed), rest)"
    using decode_header_append [OF decode_header_restamp [OF b(2) base64], of rest] by simp
  moreover have "17 \<le> length ?bs" "?bs ! 16 = 2" using b(7,8) by (simp_all add: nth_append)
  note peek_magic [OF this, of rest]
  moreover have "map (stored_at m base) records = map2 (\<lambda>off r. r\<lparr>rec_timestamp_type := Creation, rec_offset := off\<rparr>)
      [base .. base + int (length records) - 1] records"
  proof (rule nth_equalityI)
    fix i assume i: "i < length (map (stored_at m base) records)"
    then have "rec_offset (records ! i) = ?m + int i"
      using one by (simp add: one_batch_def) (metis (no_types, lifting) nth_map nth_upto add_diff_cancel_left' less_imp_of_nat_less zle_diff1_eq add_left_mono add_diff_eq)
    moreover have "in_i64 (base + int i)" "in_i64 (int i)" using base i by (auto simp: in_i64_def)
    ultimately show "map (stored_at m base) records ! i =
      map2 (\<lambda>off r. r\<lparr>rec_timestamp_type := Creation, rec_offset := off\<rparr>) [base .. base + int (length records) - 1] records ! i"
      using i \<open>m = ?m\<close> by (simp add: stored_at_def wrap_i64_id nth_upto)
  qed simp
  ultimately show ?thesis
    using b(3-6) inverse [OF b(5)]
    by (simp add: record_batch_decode_def decode_with_custom_compression_def decode_new_batch_def)
qed

lemma one_batch_long:
  assumes "record_batch_encode crc compressors options records = Inr bytes" and "one_batch records"
    and "\<And>x. crc x < 2 ^ 32"
  shows "17 \<le> length bytes"
proof -
  note batch = one_batch_encodes [OF assms(1,2)]
  have "list_all record_ok records" using assms(2) by (simp add: one_batch_def)
  from encode_new_batch_decodes [OF this batch(2) assms(3) batch(1)] show ?thesis by (metis append_Nil2)
qed

text \<open>A batch the broker accepted is accepted whole, with as many records as were encoded.\<close>

lemma one_batch_accepted:
  assumes enc: "record_batch_encode crc compressors options records = Inr bytes" and one: "one_batch records"
    and crc: "\<And>x. crc x < 2 ^ 32" and sent: "ppd_records request = Some bytes"
    and run: "produce_partition crc topic request b = Inr (r, b')" and ack: "pprs_error_code r = 0"
  shows "\<exists>v. validate_record_set crc bytes = Inr [v] \<and> vb_bytes v = bytes \<and> vb_record_count v = int (length records)"
proof -
  note batch = one_batch_encodes [OF enc one]
  have ok: "list_all record_ok records" using one by (simp add: one_batch_def)
  obtain vs where "validate_record_set crc bytes = Inr vs"
  proof (cases crc topic request b rule: produce_partition_cases)
    case (refused e)
    with run ack show thesis by auto
  next
    case (stored log records' producer result log')
    then show thesis using sent that by (cases rule: log_append_outcome [of crc bytes log]) auto
  qed
  moreover from this validate_single_batch one_batch_length [OF batch(1) ok batch(2)] obtain v where
    v: "vs = [v]" "vb_bytes v = bytes" by blast
  ultimately have valid: "validate_record_set crc bytes = Inr [v]" by simp
  from validated_batch_holds [OF this, of v] obtain info compressed where
    "decode_batch_header_inner crc 2 bytes = Inr ((info, compressed), [])" "bi_record_count info = vb_record_count v"
    by (auto simp: holds_batch_def v)
  moreover obtain info' compressed' where
    "decode_batch_header_inner crc 2 bytes = Inr ((info', compressed'), [])" "bi_record_count info' = int (length records)"
    by (rule encode_new_batch_decodes [OF ok batch(2) crc batch(1)]) (metis append_Nil2)
  ultimately show ?thesis using valid v by auto
qed

text \<open>
  C19: a consumer gets the records a producer sent. A producer encodes the records of one batch, in any compression that
  can be undone, and sends the bytes to a partition, where Produce acknowledges them at a base offset. Any later Fetch
  request that names the partition at one of their offsets, at any place of the request and whatever other
  tasks do between the reads of its partitions, is answered without error there. If no record data precedes the
  partition in the response, under every byte limit, or if the batch fits what the data before it leaves of
  the limit of the request, the first batch of the partition's data decodes into the very
  records, keys, values, headers, timestamps and sequences included, at consecutive offsets from the acknowledged one;
  otherwise the partition is left empty for the next request.
\<close>

theorem produced_records_are_consumed:
  assumes "broker_ok crc b" and "\<And>x. crc x < 2 ^ 32" and "one_batch records"
    and "record_batch_encode crc compressors options records = Inr bytes"
    and "\<And>plain packed. codec_for compressors None (eo_compression options) plain = Inr packed \<Longrightarrow>
      codec_for decompressors None (eo_compression options) packed = Inr plain"
    and "ppd_records request = Some bytes"
    and "produce_partition crc topic request b = Inr (r, b')" and "pprs_error_code r = 0"
    and "\<And>k. reaches crc b' (reads k)" and "in_i32 (frq_max_bytes fetches)"
    and "requested_at fetches i j topic fetch" and "fpart_partition fetch = ppd_index request"
    and "pprs_base_offset r \<le> fpart_fetch_offset fetch"
    and "fpart_fetch_offset fetch < pprs_base_offset r + int (length records)"
  shows "let snap = fetch_snapshot fetches reads; p = answer_at snap i j; base = pprs_base_offset r
    in pdata_error_code p = 0 \<and>
       (if bytes_before snap i j = 0 \<or> bytes_before snap i j + length bytes \<le> or_zero (frq_max_bytes fetches)
        then \<exists>data sent rest. pdata_records p = Some data \<and>
          record_batch_decode crc decompressors data = Inr (sent, rest) \<and>
          rs_compression sent = eo_compression options \<and>
          rs_records sent = map2 (\<lambda>off r. r\<lparr>rec_timestamp_type := Creation, rec_offset := off\<rparr>)
            [base .. base + int (length records) - 1] records
        else pdata_records p = Some [])"
proof -
  let ?base = "pprs_base_offset r" and ?snap = "fetch_snapshot fetches reads"
  let ?p = "answer_at ?snap i j" and ?n = "bytes_before ?snap i j" and ?mx = "or_zero (frq_max_bytes fetches)"
  from one_batch_accepted [OF assms(4,3,2,6,7,8)] obtain v where
    v: "validate_record_set crc bytes = Inr [v]" "vb_bytes v = bytes" "vb_record_count v = int (length records)"
    by blast
  have n: "abs_records [v] = batch_records bytes (int (length records))" by (simp add: abs_records_def v)
  have last: "in_i64 (?base + int (length records) - 1)"
    using acknowledged_offsets_fit [OF assms(1,7,8,6) v(1)] assms(3) by (auto simp: n one_batch_def batch_records_def)
  have off: "fpart_fetch_offset fetch < ?base + int (length (abs_records [v]))" using assms(14) by (simp add: n)
  obtain batch :: stored_batch and rest where
    b: "pdata_error_code ?p = 0"
      "pdata_records ?p = Some (if ?n = 0 \<or> ?n + length (sb_bytes batch) \<le> ?mx then sb_bytes batch @ rest else [])"
      "(drop 8 (sb_bytes batch), nat (fpart_fetch_offset fetch - sb_base_offset batch)) =
        abs_records [v] ! nat (fpart_fetch_offset fetch - ?base)"
      "sb_bytes batch = be_bytes 8 (sb_base_offset batch) @ drop 8 (sb_bytes batch)" "0 \<le> sb_base_offset batch"
      "sb_base_offset batch \<le> fpart_fetch_offset fetch"
    by (rule produced_answered [where snap = ?snap, OF assms(1,7,8,6) v(1) assms(9-13) off refl]) (rule that)
  have "nat (fpart_fetch_offset fetch - ?base) < length records" using assms(13,14) by linarith
  with b(3) have same: "drop 8 (sb_bytes batch) = drop 8 bytes" "sb_base_offset batch = ?base"
    using b(6) assms(13) by (auto simp: n batch_records_def eq_nat_nat_iff)
  then have data: "sb_bytes batch @ rest = be_bytes 8 ?base @ drop 8 bytes @ rest" "0 \<le> ?base"
    using b(4,5) by (metis append.assoc)+
  have "length (sb_bytes batch) = 8 + length (drop 8 bytes)"
    using b(4) same by (metis length_append length_be_bytes)
  then have "length (sb_bytes batch) = length bytes" using one_batch_long [OF assms(4,3,2)] by simp
  with b(1,2) one_batch_restamped [OF assms(4,3,2) data(2) last assms(5), of rest] show ?thesis
    by (simp add: Let_def data(1))
qed

section \<open>Records without a producer identity\<close>

text \<open>Records a producer that is not idempotent sends; clients number them from 0 or leave the sequence at -1.\<close>

definition plain_records :: "kafka_record list \<Rightarrow> bool" where
  "plain_records records \<longleftrightarrow>
     \<not> rec_transactional (hd records) \<and> \<not> rec_control (hd records) \<and> rec_producer_id (hd records) = NO_PRODUCER_ID \<and>
     rec_producer_epoch (hd records) = NO_PRODUCER_EPOCH \<and> rec_sequence (hd records) \<in> {NO_SEQUENCE, 0}"

lemma consecutive_Max:
  assumes "xs \<noteq> []" and "map f xs = [m .. m + int (length xs) - 1]"
  shows "Max (f ` set xs) = (m::int) + int (length xs) - 1"
proof -
  have "f ` set xs = {m .. m + int (length xs) - 1}" using assms(2) by (metis set_map set_upto)
  moreover have "m \<le> m + int (length xs) - 1" using assms(1) by (cases xs) auto
  ultimately show ?thesis by (simp add: Max_eq_iff)
qed

lemma plain_records_valid:
  assumes enc: "record_batch_encode crc compressors options records = Inr bytes" and one: "one_batch records"
    and plain: "plain_records records" and crc: "\<And>x. crc x < 2 ^ 32"
  shows "\<exists>v. validate_record_set crc bytes = Inr [v] \<and> producer_of v = None \<and> vb_record_count v = int (length records)
    \<and> in_i32 (int (length records))"
proof -
  note batch = one_batch_encodes [OF enc one]
  have ok: "list_all record_ok records" and ne: "records \<noteq> []"
    and upto: "map rec_offset records = [rec_offset (hd records) .. rec_offset (hd records) + int (length records) - 1]"
    using one by (simp_all add: one_batch_def)
  have hd: "record_ok (hd records)" using ok ne by (cases records) auto
  from encode_new_batch_Some [OF ok batch(2,1)] obtain first m t0 t1 sq compressed where
    b: "hd records = first" "m = Min (rec_offset ` set records)" "in_i64 m" "in_i64 t0" "in_i64 t1"
      "int (length records) \<le> i32_max" "sq = wrap_i32 (rec_sequence first - wrap_i32 (wrap_i64 (rec_offset first - m)))"
      "bytes = batch_frame crc m (rec_partition_leader_epoch first)
        (batch_content (batch_attributes (eo_compression options) first)
          (wrap_i32 (wrap_i64 (Max (rec_offset ` set records) - m))) t0 t1 (rec_producer_id first)
          (rec_producer_epoch first) sq (int (length records)) compressed)"
      "int (length compressed) + 49 \<le> i32_max"
    by (metis append_Nil2)
  have n: "0 < int (length records)" "in_i32 (int (length records))" "in_i32 (int (length records) - 1)"
    "in_i64 (int (length records) - 1)"
    using ne b(6) by (auto simp: in_i32_def in_i64_def i32_max_def)
  have zero: "wrap_i64 0 = 0" "wrap_i32 0 = 0" by (simp_all add: wrap_i64_id wrap_i32_id in_i64_def in_i32_def)
  have "m = rec_offset first" using consecutive_Min [OF ne upto] b(1,2) by simp
  then have "sq = rec_sequence first"
    and delta: "wrap_i32 (wrap_i64 (Max (rec_offset ` set records) - m)) = int (length records) - 1"
    using consecutive_Max [OF ne upto] b(1,7) n hd by (simp_all add: wrap_i64_id wrap_i32_id record_ok_def zero)
  then show ?thesis
    using validate_one_batch [OF refl b(8) [unfolded delta], of "eo_compression options"] b(1,3-5,9) n hd plain crc
    by (auto simp: record_ok_def plain_records_def batch_attributes_bits producer_of_def NO_PRODUCER_ID_def
        NO_PRODUCER_EPOCH_def NO_SEQUENCE_def in_i32_def i32_max_def)
qed

lemma plain_records_appended:
  assumes "record_batch_encode crc compressors options records = Inr bytes" and "one_batch records"
    and "plain_records records" and "\<And>x. crc x < 2 ^ 32" and "in_i64 (next_offset log + int (length records))"
  obtains log' where "record_set_producer crc bytes = Inr None"
    "log_append crc bytes log = (Inr \<lparr>ar_base_offset = next_offset log,
      ar_last_offset = wrap_i64 (next_offset log + int (length records) - 1),
      ar_record_count = int (length records), ar_appended = True\<rparr>, log')"
proof -
  from plain_records_valid [OF assms(1-4)] obtain v where
    v: "validate_record_set crc bytes = Inr [v]" "producer_of v = None" "vb_record_count v = int (length records)"
      "in_i32 (int (length records))"
    by blast
  then have "log_append crc bytes log = append_validated log [v] (int (length records)) None"
    by (simp add: log_append_def admit_def checked_add_i32_def)
  moreover have "record_set_producer crc bytes = Inr None" using v by (simp add: record_set_producer_def)
  ultimately show thesis using append_validated_stored [OF assms(5), of "[v]" None] that by metis
qed

text \<open>
  C33: the broker takes what its clients encode. Records of one batch without a producer identity are acknowledged by
  every partition that exists and has offsets left for them, at the end of its log.
\<close>

theorem plain_records_acknowledged:
  assumes "record_batch_encode crc compressors options records = Inr bytes" and "one_batch records"
    and "plain_records records" and "\<And>x. crc x < 2 ^ 32" and "ppd_records request = Some bytes"
    and "catalog_partition (bs_topics b) topic (ppd_index request) = Some log"
    and "in_i64 (next_offset log + int (length records))"
  shows "\<exists>r b'. produce_partition crc topic request b = Inr (r, b') \<and>
    pprs_error_code r = 0 \<and> pprs_base_offset r = next_offset log"
  by (rule plain_records_appended [OF assms(1-4,7)])
    (simp add: assms(5,6) produce_partition_eq check_producer_def partition_produce_response_default_def Let_def)

section \<open>A concrete record path\<close>

definition path_bytes :: bytes where
  "path_bytes =
     (case record_batch_encode (\<lambda>_. 5) (\<lambda>_. None) \<lparr>eo_version = 2, eo_compression = Uncompressed\<rparr>
        [sample_record 0, sample_record 1] of
        Inr bs \<Rightarrow> bs | Inl _ \<Rightarrow> [])"

definition path_request :: partition_produce_data where
  "path_request = partition_produce_data_default\<lparr>ppd_records := Some path_bytes\<rparr>"

definition path_broker :: broker_state where
  "path_broker = broker_steps (\<lambda>_. 5) [CatalogOp (CreateExplicit ''t'' 1 1 [5])] (broker_new 1 True True 1 [9])"

text \<open>A consumer that allows a single byte.\<close>

definition path_fetch :: fetch_request where
  "path_fetch =
     fetch_request_default
       \<lparr>frq_max_bytes := 1,
        frq_topics :=
          [fetch_topic_default
             \<lparr>ftopic_topic := ''t'',
              ftopic_partitions := [fetch_partition_default\<lparr>fpart_fetch_offset := 1\<rparr>]\<rparr>]\<rparr>"

lemma path_broker_ok: "broker_ok (\<lambda>_. 5) path_broker"
  unfolding path_broker_def broker_steps_def by (rule broker.run_inv) (simp add: broker_ok_new)

lemma path_encoded:
  "record_batch_encode (\<lambda>_. 5) (\<lambda>_. None) \<lparr>eo_version = 2, eo_compression = Uncompressed\<rparr>
     [sample_record 0, sample_record 1] = Inr path_bytes"
  using sample_records_encode by (auto simp: path_bytes_def)

lemma path_partition: "catalog_partition (bs_topics path_broker) ''t'' 0 = Some log_default"
  by code_simp

lemma path_records: "one_batch [sample_record 0, sample_record 1]" "plain_records [sample_record 0, sample_record 1]"
  by code_simp+

lemma path_produced:
  "\<exists>r b'. produce_partition (\<lambda>_. 5) ''t'' path_request path_broker = Inr (r, b') \<and>
     pprs_error_code r = 0 \<and> pprs_base_offset r = 0"
  by (rule plain_records_appended [OF path_encoded path_records, of log_default])
    (simp_all add: path_partition path_request_def partition_produce_data_default_def log_default_def in_i64_def
      produce_partition_eq check_producer_def partition_produce_response_default_def Let_def)

theorem plain_records_acknowledged_witness:
  "\<exists>r b'. produce_partition (\<lambda>_. 5) ''t'' path_request path_broker = Inr (r, b') \<and> pprs_base_offset r = 0"
  using plain_records_acknowledged [OF path_encoded path_records, of path_request path_broker "''t''" log_default]
  by (auto simp: path_partition path_request_def partition_produce_data_default_def log_default_def in_i64_def)

theorem produced_records_are_consumed_witness:
  "\<exists>b' data sent rest.
     pdata_records (answer_at (fetch_snapshot path_fetch (\<lambda>_. b')) 0 0) = Some data \<and>
     record_batch_decode (\<lambda>_. 5) (\<lambda>_. None) data = Inr (sent, rest) \<and>
     rs_records sent =
       [(sample_record 0)\<lparr>rec_timestamp_type := Creation\<rparr>, (sample_record 1)\<lparr>rec_timestamp_type := Creation\<rparr>]"
proof -
  obtain r b' where run: "produce_partition (\<lambda>_. 5) ''t'' path_request path_broker = Inr (r, b')"
    "pprs_error_code r = 0" "pprs_base_offset r = 0"
    using path_produced by blast
  have "map2 (\<lambda>off r. r\<lparr>rec_timestamp_type := Creation, rec_offset := off\<rparr>) [0..1] [sample_record 0, sample_record 1] =
      [(sample_record 0)\<lparr>rec_timestamp_type := Creation\<rparr>, (sample_record 1)\<lparr>rec_timestamp_type := Creation\<rparr>]"
    by (simp add: sample_record_def upto.simps)
  moreover have "requested_at path_fetch 0 0 ''t'' (fetch_partition_default\<lparr>fpart_fetch_offset := 1\<rparr>)"
    "in_i32 (frq_max_bytes path_fetch)"
    by (simp_all add: requested_at_def path_fetch_def in_i32_def)
  moreover have "bytes_before (fetch_snapshot path_fetch (\<lambda>_. b')) 0 0 = 0" by (simp add: bytes_before_def payloads_def)
  ultimately show ?thesis
    using produced_records_are_consumed [OF path_broker_ok _ path_records(1) path_encoded _ _ run(1,2) reaches_refl,
      where decompressors = "\<lambda>_. None" and fetches = path_fetch and i = 0 and j = 0
        and fetch = "fetch_partition_default\<lparr>fpart_fetch_offset := 1\<rparr>"] run(3)
    by (auto simp: path_request_def codec_for_def Let_def fetch_partition_default_def
        partition_produce_data_default_def)
qed

end
