(* ===== verification/Text.thy ===== *)
theory Text
  imports Errors
begin

text \<open>
  The string operations of the Rust standard library that the configuration and the schema registry
  use, on strings of UTF-8 bytes: trimming of Unicode white space, integer parsing and splitting.
\<close>

section \<open>White space\<close>

text \<open>The bytes of the white-space character a string starts with, none for another character.\<close>

fun space_length :: "nat list \<Rightarrow> nat" where
  "space_length (a # rest) =
     (if a \<in> {9, 10, 11, 12, 13, 32} then 1
      else case rest of
             [] \<Rightarrow> 0
           | b # rest' \<Rightarrow>
               if a = 0xC2 \<and> b \<in> {0x85, 0xA0} then 2
               else (case rest' of
                       [] \<Rightarrow> 0
                     | c # _ \<Rightarrow>
                         if a = 0xE1 \<and> b = 0x9A \<and> c = 0x80 then 3
                         else if a = 0xE2 \<and> b = 0x80 \<and> (0x80 \<le> c \<and> c \<le> 0x8A \<or> c \<in> {0xA8, 0xA9, 0xAF}) then 3
                         else if a = 0xE2 \<and> b = 0x81 \<and> c = 0x9F then 3
                         else if a = 0xE3 \<and> b = 0x80 \<and> c = 0x80 then 3
                         else 0))"
| "space_length [] = 0"

definition char_codes :: "string \<Rightarrow> nat list" where
  "char_codes = map of_char"

function trim_start :: "string \<Rightarrow> string" where
  "trim_start s =
     (let n = space_length (char_codes s) in if n = 0 \<or> s = [] then s else trim_start (drop n s))"
  by pat_completeness auto
termination
  by (relation "measure length") auto

declare trim_start.simps [simp del]

fun trim_end :: "string \<Rightarrow> string" where
  "trim_end [] = []"
| "trim_end (c # s) = (if trim_start (c # s) = [] then [] else c # trim_end s)"

definition trim :: "string \<Rightarrow> string" where
  "trim s = trim_end (trim_start s)"

text \<open>Trimming twice is trimming once.\<close>

lemma space_length_codes_append:
  "space_length x \<noteq> 0 \<Longrightarrow> space_length (x @ q) = space_length x \<and> space_length x \<le> length x"
  by (cases x; cases "tl x"; cases "tl (tl x)") (auto simp del: insert_iff split: if_split_asm)

lemma space_length_append:
  "space_length (char_codes x) \<noteq> 0 \<Longrightarrow>
   space_length (char_codes (x @ q)) = space_length (char_codes x) \<and> space_length (char_codes x) \<le> length x"
  using space_length_codes_append [of "char_codes x" "char_codes q"] by (simp add: char_codes_def)

lemma trim_start_stops: "space_length (char_codes s) = 0 \<Longrightarrow> trim_start s = s"
  by (simp add: trim_start.simps)

lemma trim_start_starts: "space_length (char_codes (trim_start s)) = 0"
proof (induction s rule: trim_start.induct)
  case (1 s)
  show ?case
  proof (cases "space_length (char_codes s) = 0 \<or> s = []")
    case True
    then show ?thesis by (subst trim_start.simps) (auto simp: char_codes_def)
  next
    case False
    then show ?thesis using 1 by (subst trim_start.simps) auto
  qed
qed

lemma trim_start_append: "trim_start x = [] \<Longrightarrow> trim_start (x @ q) = trim_start q"
proof (induction x rule: trim_start.induct)
  case (1 x)
  show ?case
  proof (cases "space_length (char_codes x) = 0 \<or> x = []")
    case True
    then show ?thesis using 1(2) by (subst (asm) trim_start.simps) auto
  next
    case False
    let ?n = "space_length (char_codes x)"
    have "trim_start (drop ?n x) = []" using False 1(2) by (subst (asm) trim_start.simps) auto
    then have "trim_start (drop ?n x @ q) = trim_start q" using 1(1) False by auto
    then show ?thesis using False space_length_append [of x q] by (subst trim_start.simps) auto
  qed
qed

lemma trim_end_cut: "\<exists>q. s = trim_end s @ q \<and> trim_start q = []"
proof (induction s)
  case Nil
  then show ?case by (simp add: trim_start.simps)
next
  case (Cons c s)
  then obtain q where "s = trim_end s @ q" "trim_start q = []" by blast
  then show ?case by (auto intro: exI [of _ q])
qed

lemma trim_end_idem: "trim_end (trim_end s) = trim_end s"
proof (induction s)
  case (Cons c s)
  obtain q where q: "s = trim_end s @ q" "trim_start q = []" using trim_end_cut by blast
  have "trim_start (c # s) = []" if "trim_start (c # trim_end s) = []"
    using trim_start_append [OF that, of q] q by simp
  with Cons show ?case by auto
qed simp

lemma trim_idem: "trim (trim s) = trim s"
proof -
  obtain q where q: "trim_start s = trim_end (trim_start s) @ q" using trim_end_cut by blast
  have "space_length (char_codes (trim_end (trim_start s))) = 0"
    using space_length_append [of "trim_end (trim_start s)" q] trim_start_starts [of s] q by force
  then show ?thesis by (simp add: trim_def trim_start_stops trim_end_idem)
qed

section \<open>Integers\<close>

definition digits :: "string \<Rightarrow> nat option" where
  "digits s =
     (if s \<noteq> [] \<and> list_all (\<lambda>c. 48 \<le> (of_char c :: nat) \<and> (of_char c :: nat) \<le> 57) s then Some (parse_nat s)
      else None)"

definition parse_i32 :: "string \<Rightarrow> i32 option" where
  "parse_i32 s =
     (case (case s of
              [] \<Rightarrow> None
            | c # d \<Rightarrow>
                if c = CHR ''-'' then map_option (\<lambda>n. - int n) (digits d)
                else if c = CHR ''+'' then map_option int (digits d)
                else map_option int (digits s)) of
        None \<Rightarrow> None
      | Some i \<Rightarrow> if in_i32 i then Some i else None)"

definition parse_u16 :: "string \<Rightarrow> nat option" where
  "parse_u16 s =
     (case (case s of [] \<Rightarrow> None | c # d \<Rightarrow> digits (if c = CHR ''+'' then d else s)) of
        None \<Rightarrow> None
      | Some n \<Rightarrow> if n < 2 ^ 16 then Some n else None)"

lemma digits_show_nat [simp]: "digits (show_nat n) = Some n"
proof -
  have "show_nat n \<noteq> []" by (subst show_nat.simps) auto
  with show_nat_digits show ?thesis by (auto simp: digits_def list_all_iff)
qed

lemma show_nat_no_sign:
  "show_nat n = c # s \<Longrightarrow> c \<noteq> CHR ''-'' \<and> c \<noteq> CHR ''+''"
  using show_nat_digits [of c n] by auto

lemma parse_show_i32: "0 \<le> i \<Longrightarrow> in_i32 i \<Longrightarrow> parse_i32 (show_int i) = Some i"
  using digits_show_nat [of "nat i"] show_nat_no_sign [of "nat i"]
  by (cases "show_nat (nat i)") (auto simp: parse_i32_def show_int_def digits_def split: if_splits)

lemma parse_show_u16: "n < 2 ^ 16 \<Longrightarrow> parse_u16 (show_nat n) = Some n"
  using digits_show_nat [of n] show_nat_no_sign [of n]
  by (cases "show_nat n") (auto simp: parse_u16_def digits_def split: if_splits)

section \<open>Splitting\<close>

text \<open>\<open>split_once\<close>, \<open>rsplit_once\<close> of one character and of a string, and \<open>split\<close>.\<close>

fun split_once :: "char \<Rightarrow> string \<Rightarrow> (string \<times> string) option" where
  "split_once c [] = None"
| "split_once c (x # s) = (if x = c then Some ([], s) else map_option (\<lambda>(a, b). (x # a, b)) (split_once c s))"

fun rsplit_once :: "string \<Rightarrow> string \<Rightarrow> (string \<times> string) option" where
  "rsplit_once sep [] = (if sep = [] then Some ([], []) else None)"
| "rsplit_once sep (x # s) =
     (case rsplit_once sep s of
        Some (a, b) \<Rightarrow> Some (x # a, b)
      | None \<Rightarrow> if take (length sep) (x # s) = sep then Some ([], drop (length sep) (x # s)) else None)"

fun split :: "char \<Rightarrow> string \<Rightarrow> string list" where
  "split c [] = [[]]"
| "split c (x # s) =
     (if x = c then [] # split c s
      else case split c s of [] \<Rightarrow> [[x]] | part # parts \<Rightarrow> (x # part) # parts)"

lemma rsplit_once_absent: "c \<notin> set s \<Longrightarrow> rsplit_once [c] s = None"
  by (induction s) auto

lemma rsplit_once_char: "c \<notin> set b \<Longrightarrow> rsplit_once [c] (a @ c # b) = Some (a, b)"
  by (induction a) (auto simp: rsplit_once_absent)

lemma rsplit_once_absent2: "c \<notin> set s \<Longrightarrow> rsplit_once [c, d] s = None"
  by (induction s) auto

lemma rsplit_once_pair:
  assumes "d \<notin> set b" and "c \<noteq> d"
  shows "rsplit_once [c, d] (a @ c # d # b) = Some (a, b)"
proof -
  have none: "rsplit_once [c, d] s = None" if "d \<notin> set s" for s
  proof (use that in \<open>induction s\<close>)
    case (Cons x s)
    then show ?case by (cases s) auto
  qed simp
  have "rsplit_once [c, d] (d # b) = None" using assms none [of b] by auto
  then have "rsplit_once [c, d] (c # d # b) = Some ([], b)" by simp
  then show ?thesis by (induction a) auto
qed

end
