(* ===== verification/Schema_Registry.thy ===== *)
theory Schema_Registry
  imports Text
begin

text \<open>
  The schema registry (\<open>src/src/schema_registry.rs\<close>): the store of schemas and subjects, and the HTTP
  handlers over it. \<open>apache_avro::Schema::parse_str\<close> is the parameter \<open>avro\<close>, which tells whether a text is
  a schema. What the HTTP framework hands to a handler is its argument: the path segments, and
  the decoded body or the text of its rejection.
\<close>

section \<open>The store\<close>

record registered_schema =
  rg_subject :: string
  rg_version :: i32
  rg_id :: i32
  rg_schema :: string

record registry_store =
  st_next_schema_id :: i32
  st_schemas_by_text :: "(string, i32) hash_map"
  st_schemas_by_id :: "(i32, string) hash_map"
  st_subjects :: "(string, registered_schema list) btree_map"

datatype registry_error = SubjectNotFound | VersionNotFound | SchemaNotFound

definition registry_new :: registry_store where
  "registry_new =
     \<lparr>st_next_schema_id = 1, st_schemas_by_text = [], st_schemas_by_id = [], st_subjects = []\<rparr>"

definition schema_id :: "string \<Rightarrow> registry_store \<Rightarrow> (i32 \<times> registry_store) run" where
  "schema_id schema store =
     (case map_of (st_schemas_by_text store) schema of
        Some i \<Rightarrow> Inr (i, store)
      | None \<Rightarrow>
          let i = st_next_schema_id store
          in try_bind (expect ''schema ID space exhausted'' (checked_add_i32 i 1)) (\<lambda>n.
             Inr (i, store\<lparr>st_next_schema_id := n,
                           st_schemas_by_text := AList.update schema i (st_schemas_by_text store),
                           st_schemas_by_id := AList.update i schema (st_schemas_by_id store)\<rparr>)))"

definition subject_versions :: "string \<Rightarrow> registry_store \<Rightarrow> registered_schema list" where
  "subject_versions subject store =
     (case map_of (st_subjects store) subject of None \<Rightarrow> [] | Some versions \<Rightarrow> versions)"

definition register :: "string \<Rightarrow> string \<Rightarrow> registry_store \<Rightarrow> (registered_schema \<times> registry_store) run" where
  "register subject schema store =
     (case Option.bind (map_of (st_subjects store) subject) (find (\<lambda>v. rg_schema v = schema)) of
        Some existing \<Rightarrow> Inr (existing, store)
      | None \<Rightarrow>
          try_bind (schema_id schema store) (\<lambda>(i, store').
          let versions = subject_versions subject store'
          in try_bind (expect ''subject version space exhausted'' (i32_try_from (length versions + 1))) (\<lambda>version.
             let registered = \<lparr>rg_subject = subject, rg_version = version, rg_id = i, rg_schema = schema\<rparr>
             in Inr (registered,
                     store'\<lparr>st_subjects := bt_insert subject (versions @ [registered]) (st_subjects store')\<rparr>))))"

definition subjects :: "registry_store \<Rightarrow> string list" where
  "subjects store = map fst (st_subjects store)"

definition versions :: "string \<Rightarrow> registry_store \<Rightarrow> registry_error + i32 list" where
  "versions subject store =
     (case map_of (st_subjects store) subject of
        None \<Rightarrow> Inl SubjectNotFound
      | Some vs \<Rightarrow> Inr (map rg_version vs))"

definition lookup :: "string \<Rightarrow> string \<Rightarrow> registry_store \<Rightarrow> registry_error + registered_schema" where
  "lookup subject schema store =
     (case map_of (st_subjects store) subject of
        None \<Rightarrow> Inl SubjectNotFound
      | Some vs \<Rightarrow> (case find (\<lambda>v. rg_schema v = schema) vs of None \<Rightarrow> Inl SchemaNotFound | Some r \<Rightarrow> Inr r))"

definition version_of :: "string \<Rightarrow> i32 \<Rightarrow> registry_store \<Rightarrow> registry_error + registered_schema" where
  "version_of subject version store =
     (case map_of (st_subjects store) subject of
        None \<Rightarrow> Inl SubjectNotFound
      | Some vs \<Rightarrow> (case find (\<lambda>v. rg_version v = version) vs of None \<Rightarrow> Inl VersionNotFound | Some r \<Rightarrow> Inr r))"

definition latest :: "string \<Rightarrow> registry_store \<Rightarrow> registry_error + registered_schema" where
  "latest subject store =
     (case map_of (st_subjects store) subject of
        None \<Rightarrow> Inl SubjectNotFound
      | Some vs \<Rightarrow> if vs = [] then Inl SubjectNotFound else Inr (last vs))"

definition schema_by_id :: "i32 \<Rightarrow> registry_store \<Rightarrow> registry_error + string" where
  "schema_by_id i store =
     (case map_of (st_schemas_by_id store) i of None \<Rightarrow> Inl SchemaNotFound | Some schema \<Rightarrow> Inr schema)"

definition schema_versions_by_id :: "i32 \<Rightarrow> registry_store \<Rightarrow> registry_error + registered_schema list" where
  "schema_versions_by_id i store =
     (if map_of (st_schemas_by_id store) i = None then Inl SchemaNotFound
      else Inr (concat (map (filter (\<lambda>v. rg_id v = i) \<circ> snd) (st_subjects store))))"

section \<open>HTTP handlers\<close>

record http_error =
  he_status :: nat
  he_error_code :: i32
  he_message :: string

definition subject_not_found :: "string \<Rightarrow> http_error" where
  "subject_not_found subject =
     \<lparr>he_status = 404, he_error_code = 40401, he_message = ''Subject '' @ [CHR 0x27] @ subject @ [CHR 0x27] @ '' not found''\<rparr>"

definition version_not_found :: "i32 \<Rightarrow> http_error" where
  "version_not_found version =
     \<lparr>he_status = 404, he_error_code = 40402, he_message = ''Version '' @ show_int version @ '' not found''\<rparr>"

definition schema_not_found :: "string \<Rightarrow> http_error" where
  "schema_not_found description = \<lparr>he_status = 404, he_error_code = 40403, he_message = description\<rparr>"

definition invalid_schema :: "string \<Rightarrow> http_error" where
  "invalid_schema message = \<lparr>he_status = 422, he_error_code = 42201, he_message = message\<rparr>"

definition invalid_version :: "string \<Rightarrow> http_error" where
  "invalid_version version =
     \<lparr>he_status = 422, he_error_code = 42202, he_message = ''Invalid version '' @ [CHR 0x27] @ version @ [CHR 0x27]\<rparr>"

definition into_response :: "http_error \<Rightarrow> nat \<times> i32 \<times> string" where
  "into_response e = (he_status e, he_error_code e, he_message e)"

record registered_schema_response =
  rr_subject :: string
  rr_version :: i32
  rr_id :: i32
  rr_schema :: string
  rr_schema_type :: string

definition registered_schema_response_from :: "registered_schema \<Rightarrow> registered_schema_response" where
  "registered_schema_response_from r =
     \<lparr>rr_subject = rg_subject r, rr_version = rg_version r, rr_id = rg_id r, rr_schema = rg_schema r,
      rr_schema_type = ''AVRO''\<rparr>"

record schema_response =
  sr_schema :: string
  sr_schema_type :: string

record subject_version_response =
  sv_subject :: string
  sv_version :: i32

record 'v schema_request =
  sq_schema :: string
  sq_schema_type :: "string option"
  sq_references :: "'v list"

definition validate_schema :: "(string \<Rightarrow> bool) \<Rightarrow> 'v schema_request \<Rightarrow> http_error + string" where
  "validate_schema avro request =
     (if trim (sq_schema request) = [] then Inl (invalid_schema ''Schema must not be empty'')
      else if sq_schema_type request \<notin> {None, Some ''AVRO''}
      then Inl (invalid_schema (''Unsupported schema type '' @ [CHR 0x27] @ the (sq_schema_type request) @ [CHR 0x27]))
      else if sq_references request \<noteq> [] then Inl (invalid_schema ''Schema references are not supported'')
      else if \<not> avro (sq_schema request) then Inl (invalid_schema ''Invalid Avro schema'')
      else Inr (sq_schema request))"

definition checked_body :: "(string \<Rightarrow> bool) \<Rightarrow> string + 'v schema_request \<Rightarrow> http_error + string" where
  "checked_body avro request =
     (case request of Inl rejection \<Rightarrow> Inl (invalid_schema rejection) | Inr body \<Rightarrow> validate_schema avro body)"

definition list_subjects :: "registry_store \<Rightarrow> string list" where
  "list_subjects store = subjects store"

definition register_schema ::
  "(string \<Rightarrow> bool) \<Rightarrow> string \<Rightarrow> string + 'v schema_request \<Rightarrow> registry_store \<Rightarrow>
   ((http_error + i32) \<times> registry_store) run" where
  "register_schema avro subject request store =
     (case checked_body avro request of
        Inl e \<Rightarrow> Inr (Inl e, store)
      | Inr schema \<Rightarrow>
          try_bind (register subject schema store) (\<lambda>(registered, store'). Inr (Inr (rg_id registered), store')))"

definition lookup_schema ::
  "(string \<Rightarrow> bool) \<Rightarrow> string \<Rightarrow> string + 'v schema_request \<Rightarrow> registry_store \<Rightarrow>
   (http_error + registered_schema_response) run" where
  "lookup_schema avro subject request store =
     (case checked_body avro request of
        Inl e \<Rightarrow> Inr (Inl e)
      | Inr schema \<Rightarrow>
          (case lookup subject schema store of
             Inr registered \<Rightarrow> Inr (Inr (registered_schema_response_from registered))
           | Inl SubjectNotFound \<Rightarrow> Inr (Inl (subject_not_found subject))
           | Inl SchemaNotFound \<Rightarrow>
               Inr (Inl (schema_not_found (''Schema not found under subject '' @ [CHR 0x27] @ subject @ [CHR 0x27])))
           | Inl VersionNotFound \<Rightarrow> Inl (Panic ''lookup does not return version errors'')))"

definition list_versions :: "string \<Rightarrow> registry_store \<Rightarrow> http_error + i32 list" where
  "list_versions subject store =
     (case versions subject store of Inl _ \<Rightarrow> Inl (subject_not_found subject) | Inr vs \<Rightarrow> Inr vs)"

definition get_subject_version ::
  "string \<Rightarrow> string \<Rightarrow> registry_store \<Rightarrow> (http_error + registered_schema_response) run" where
  "get_subject_version subject version store =
     (case (if version = ''latest'' then Inr (latest subject store)
            else case parse_i32 version of
                   None \<Rightarrow> Inl (invalid_version version)
                 | Some parsed \<Rightarrow>
                     if parsed > 0 then Inr (version_of subject parsed store) else Inl (invalid_version version)) of
        Inl e \<Rightarrow> Inr (Inl e)
      | Inr (Inr registered) \<Rightarrow> Inr (Inr (registered_schema_response_from registered))
      | Inr (Inl SubjectNotFound) \<Rightarrow> Inr (Inl (subject_not_found subject))
      | Inr (Inl VersionNotFound) \<Rightarrow>
          try_bind (expect ''numeric version was validated above'' (parse_i32 version)) (\<lambda>v.
          Inr (Inl (version_not_found v)))
      | Inr (Inl SchemaNotFound) \<Rightarrow> Inl (Panic ''version reads do not return schema errors''))"

definition schema_missing :: "string \<Rightarrow> http_error" where
  "schema_missing i = schema_not_found (''Schema '' @ i @ '' not found'')"

definition path_id :: "string \<Rightarrow> http_error + i32" where
  "path_id i =
     (case parse_i32 i of
        None \<Rightarrow> Inl (schema_missing i)
      | Some n \<Rightarrow> if n > 0 then Inr n else Inl (schema_missing i))"

definition get_schema_by_id :: "string \<Rightarrow> registry_store \<Rightarrow> http_error + schema_response" where
  "get_schema_by_id i store =
     (case path_id i of
        Inl e \<Rightarrow> Inl e
      | Inr n \<Rightarrow>
          (case schema_by_id n store of
             Inl _ \<Rightarrow> Inl (schema_missing (show_int n))
           | Inr schema \<Rightarrow> Inr \<lparr>sr_schema = schema, sr_schema_type = ''AVRO''\<rparr>))"

definition get_schema_versions_by_id ::
  "string \<Rightarrow> registry_store \<Rightarrow> http_error + subject_version_response list" where
  "get_schema_versions_by_id i store =
     (case path_id i of
        Inl e \<Rightarrow> Inl e
      | Inr n \<Rightarrow>
          (case schema_versions_by_id n store of
             Inl _ \<Rightarrow> Inl (schema_missing (show_int n))
           | Inr vs \<Rightarrow> Inr (map (\<lambda>v. \<lparr>sv_subject = rg_subject v, sv_version = rg_version v\<rparr>) vs)))"

definition get_global_config :: string where
  "get_global_config = ''NONE''"

definition get_subject_config :: "string \<Rightarrow> registry_store \<Rightarrow> http_error + string" where
  "get_subject_config subject store =
     (case versions subject store of Inl _ \<Rightarrow> Inl (subject_not_found subject) | Inr _ \<Rightarrow> Inr ''NONE'')"

section \<open>The store stays consistent\<close>

text \<open>
  The identifiers given out are exactly those below the next one, each of one text; the versions of a subject count
  from one, in order, each with its own text under the identifier of that text.
\<close>

definition versions_ok :: "registry_store \<Rightarrow> string \<Rightarrow> registered_schema list \<Rightarrow> bool" where
  "versions_ok store subject vs \<longleftrightarrow>
     vs \<noteq> [] \<and> distinct (map rg_schema vs) \<and> int (length vs) \<le> i32_max \<and>
     (\<forall>n < length vs. rg_subject (vs ! n) = subject \<and> rg_version (vs ! n) = int n + 1 \<and>
        map_of (st_schemas_by_text store) (rg_schema (vs ! n)) = Some (rg_id (vs ! n)))"

definition registry_ok :: "registry_store \<Rightarrow> bool" where
  "registry_ok store \<longleftrightarrow>
     1 \<le> st_next_schema_id store \<and> st_next_schema_id store \<le> i32_max \<and>
     hm_ok (st_schemas_by_text store) \<and> hm_ok (st_schemas_by_id store) \<and> bt_ok (st_subjects store) \<and>
     (\<forall>i. map_of (st_schemas_by_id store) i \<noteq> None \<longleftrightarrow> 1 \<le> i \<and> i < st_next_schema_id store) \<and>
     (\<forall>t i. map_of (st_schemas_by_text store) t = Some i \<longleftrightarrow> map_of (st_schemas_by_id store) i = Some t) \<and>
     (\<forall>subject vs. map_of (st_subjects store) subject = Some vs \<longrightarrow> versions_ok store subject vs)"

lemma registry_ok_new: "registry_ok registry_new"
  by (simp add: registry_ok_def registry_new_def i32_max_def bt_ok_def)

lemma registry_okD:
  assumes "registry_ok store" and "map_of (st_subjects store) subject = Some vs"
  shows "versions_ok store subject vs"
  using assms by (simp add: registry_ok_def)

lemma versions_ok_member:
  assumes "versions_ok store subject vs" and "v \<in> set vs"
  shows "rg_subject v = subject" and "1 \<le> rg_version v" and "in_i32 (rg_version v)"
    and "map_of (st_schemas_by_text store) (rg_schema v) = Some (rg_id v)"
proof -
  from assms(2) obtain n where n: "n < length vs" "v = vs ! n" by (auto simp: in_set_conv_nth)
  with assms(1) show "rg_subject v = subject" "map_of (st_schemas_by_text store) (rg_schema v) = Some (rg_id v)"
    by (simp_all add: versions_ok_def)
  have "rg_version v = int n + 1" "int (length vs) \<le> i32_max" using assms(1) n by (simp_all add: versions_ok_def)
  with n(1) show "1 \<le> rg_version v" "in_i32 (rg_version v)" by (simp_all add: in_i32_def i32_max_def)
qed

text \<open>What giving out an identifier does.\<close>

lemma schema_id_Inr:
  assumes "registry_ok store" and "schema_id schema store = Inr (i, store')"
  shows "registry_ok store'" and "st_subjects store' = st_subjects store"
    and "map_of (st_schemas_by_text store') schema = Some i"
    and "\<And>t j. map_of (st_schemas_by_text store) t = Some j \<Longrightarrow> map_of (st_schemas_by_text store') t = Some j"
proof -
  let ?n = "st_next_schema_id store"
  show same: "st_subjects store' = st_subjects store" "map_of (st_schemas_by_text store') schema = Some i"
    using assms(2) by (auto simp: schema_id_def Let_def update_conv' try_bind_Inr split: option.splits)
  show kept: "map_of (st_schemas_by_text store') t = Some j" if "map_of (st_schemas_by_text store) t = Some j" for t j
    using assms(2) that by (auto simp: schema_id_def Let_def update_conv' try_bind_Inr split: option.splits)
  show "registry_ok store'"
  proof (cases "map_of (st_schemas_by_text store) schema")
    case (Some j)
    with assms show ?thesis by (simp add: schema_id_def)
  next
    case None
    then have store': "store' = store\<lparr>st_next_schema_id := ?n + 1,
        st_schemas_by_text := AList.update schema ?n (st_schemas_by_text store),
        st_schemas_by_id := AList.update ?n schema (st_schemas_by_id store)\<rparr>" and "?n + 1 \<le> i32_max"
      using assms(2) by (auto simp: schema_id_def Let_def try_bind_Inr checked_add_i32_Some in_i32_def i32_max_def)
    have fresh: "map_of (st_schemas_by_id store) ?n = None" using assms(1) by (auto simp: registry_ok_def)
    have texts: "map_of (st_schemas_by_text store') = (map_of (st_schemas_by_text store))(schema \<mapsto> ?n)"
      "map_of (st_schemas_by_id store') = (map_of (st_schemas_by_id store))(?n \<mapsto> schema)"
      by (simp_all add: store' update_conv')
    have inverse: "map_of (st_schemas_by_text store') t = Some j \<longleftrightarrow> map_of (st_schemas_by_id store') j = Some t" for t j
    proof -
      have "map_of (st_schemas_by_text store) t = Some j \<longleftrightarrow> map_of (st_schemas_by_id store) j = Some t"
        "map_of (st_schemas_by_text store) schema = Some j \<longleftrightarrow> map_of (st_schemas_by_id store) j = Some schema"
        using assms(1) by (simp_all add: registry_ok_def)
      with None fresh show ?thesis by (cases "t = schema"; cases "j = ?n") (auto simp: texts)
    qed
    moreover have "map_of (st_schemas_by_id store') j \<noteq> None \<longleftrightarrow> 1 \<le> j \<and> j < ?n + 1" for j
      using assms(1) unfolding texts registry_ok_def by auto
    moreover have "versions_ok store' subject vs" if "map_of (st_subjects store) subject = Some vs" for subject vs
      using registry_okD [OF assms(1) that] kept by (simp add: versions_ok_def)
    moreover have "hm_ok (st_schemas_by_text store') \<and> hm_ok (st_schemas_by_id store') \<and> bt_ok (st_subjects store')"
      using assms(1) by (simp add: store' registry_ok_def)
    ultimately show ?thesis
      using \<open>?n + 1 \<le> i32_max\<close> assms(1) same by (simp add: registry_ok_def store')
  qed
qed

lemma find_distinct:
  "distinct (map f xs) \<Longrightarrow> x \<in> set xs \<Longrightarrow> find (\<lambda>y. f y = f x) xs = Some x"
  by (induction xs) (auto simp: rev_image_eqI)

lemma versions_distinct:
  assumes "versions_ok store subject vs"
  shows "distinct (map rg_version vs)"
proof -
  have "map rg_version vs = map (\<lambda>n. int n + 1) [0..<length vs]"
    using assms by (intro nth_equalityI) (simp_all add: versions_ok_def)
  then show ?thesis by (simp add: distinct_map inj_on_def)
qed

lemma versions_ok_snoc:
  assumes "vs = [] \<or> versions_ok store subject vs" and "schema \<notin> rg_schema ` set vs"
    and "int (length vs) + 1 \<le> i32_max" and "map_of (st_schemas_by_text store) schema = Some i"
  shows "versions_ok store subject
    (vs @ [\<lparr>rg_subject = subject, rg_version = int (length vs) + 1, rg_id = i, rg_schema = schema\<rparr>])"
  using assms by (auto simp: versions_ok_def nth_append less_Suc_eq)

lemma register_cases:
  assumes "registry_ok store" and "register subject schema store = Inr (r, store')"
  obtains (old) vs where "map_of (st_subjects store) subject = Some vs" "find (\<lambda>v. rg_schema v = schema) vs = Some r"
      "store' = store"
    | (added) i s1 where "schema_id schema store = Inr (i, s1)"
      "schema \<notin> rg_schema ` set (subject_versions subject store)"
      "int (length (subject_versions subject store)) + 1 \<le> i32_max"
      "r = \<lparr>rg_subject = subject, rg_version = int (length (subject_versions subject store)) + 1, rg_id = i,
            rg_schema = schema\<rparr>"
      "store' = s1\<lparr>st_subjects := bt_insert subject (subject_versions subject store @ [r]) (st_subjects store)\<rparr>"
proof (cases "Option.bind (map_of (st_subjects store) subject) (find (\<lambda>v. rg_schema v = schema))")
  case (Some v)
  with assms(2) have "v = r" "store' = store" by (simp_all add: register_def)
  with Some old show thesis by (auto simp: bind_eq_Some_conv)
next
  case None
  then have new: "schema \<notin> rg_schema ` set (subject_versions subject store)"
    by (cases "map_of (st_subjects store) subject") (auto simp: subject_versions_def find_None_iff)
  from None assms(2) obtain i s1 where s1: "schema_id schema store = Inr (i, s1)" by (auto simp: register_def try_bind_Inr)
  note same = schema_id_Inr(2) [OF assms(1) s1]
  then have vs: "subject_versions subject s1 = subject_versions subject store" by (simp add: subject_versions_def)
  show thesis
    using assms(2) None s1 same
    by (intro added [OF s1 new]) (auto simp: register_def vs Let_def try_bind_Inr i32_try_from_def split: if_splits)
qed

text \<open>What a registration does: it returns an entry of the subject with the text, and only adds.\<close>

lemma register_Inr:
  assumes ok: "registry_ok store" and reg: "register subject schema store = Inr (r, store')"
  shows "registry_ok store'" and "rg_schema r = schema"
    and "\<exists>vs. map_of (st_subjects store') subject = Some vs \<and> r \<in> set vs"
    and "\<And>s vs. map_of (st_subjects store) s = Some vs \<Longrightarrow> \<exists>more. map_of (st_subjects store') s = Some (vs @ more)"
    and "\<And>t j. map_of (st_schemas_by_text store) t = Some j \<Longrightarrow> map_of (st_schemas_by_text store') t = Some j"
proof -
  have "registry_ok store' \<and> rg_schema r = schema \<and> (\<exists>vs. map_of (st_subjects store') subject = Some vs \<and> r \<in> set vs) \<and>
    (\<forall>s vs. map_of (st_subjects store) s = Some vs \<longrightarrow> (\<exists>more. map_of (st_subjects store') s = Some (vs @ more))) \<and>
    (\<forall>t j. map_of (st_schemas_by_text store) t = Some j \<longrightarrow> map_of (st_schemas_by_text store') t = Some j)"
    using ok reg
  proof (cases rule: register_cases)
    case (old vs)
    with ok show ?thesis by (auto simp: find_Some_iff intro!: exI [of _ "[]"])
  next
    case (added i s1)
    let ?vs = "subject_versions subject store"
    note id = schema_id_Inr [OF ok added(1)]
    have "?vs = [] \<or> versions_ok s1 subject ?vs"
      using registry_okD [OF id(1)] id(2) by (auto simp: subject_versions_def split: option.split)
    from versions_ok_snoc [OF this added(2,3) id(3)] have "versions_ok store' subject (?vs @ [r])"
      by (simp add: added(4,5) versions_ok_def)
    moreover have "versions_ok store' s ws" if "map_of (st_subjects store) s = Some ws" for s ws
      using registry_okD [OF id(1)] that id(2) by (simp add: added(5) versions_ok_def)
    ultimately have "registry_ok store'"
      using id(1,2) by (simp add: registry_ok_def added(5))
    then show ?thesis
      using id(4) by (auto simp: added(4,5) subject_versions_def split: option.split)
  qed
  then show "registry_ok store'" "rg_schema r = schema"
    "\<exists>vs. map_of (st_subjects store') subject = Some vs \<and> r \<in> set vs"
    "\<And>s vs. map_of (st_subjects store) s = Some vs \<Longrightarrow> \<exists>more. map_of (st_subjects store') s = Some (vs @ more)"
    "\<And>t j. map_of (st_schemas_by_text store) t = Some j \<Longrightarrow> map_of (st_schemas_by_text store') t = Some j"
    by blast+
qed

text \<open>
  The store after a registration. The lock of the runtime is not poisoned by a panic: one that ran out of
  versions leaves the identifier it had given out behind, one that ran out of identifiers leaves nothing.
\<close>

definition registry_step :: "string \<times> string \<Rightarrow> registry_store \<Rightarrow> registry_store" where
  "registry_step r store =
     (case register (fst r) (snd r) store of
        Inr (_, store') \<Rightarrow> store'
      | Inl _ \<Rightarrow> (case schema_id (snd r) store of Inl _ \<Rightarrow> store | Inr (_, store') \<Rightarrow> store'))"

definition entry_at :: "registry_store \<Rightarrow> string \<times> nat \<Rightarrow> registered_schema option" where
  "entry_at store k =
     (case map_of (st_subjects store) (fst k) of
        None \<Rightarrow> None
      | Some vs \<Rightarrow> if snd k < length vs then Some (vs ! snd k) else None)"

interpretation schemas: registry registry_step registry_ok entry_at
proof unfold_locales
  show "registry_ok (registry_step r store)" if "registry_ok store" for r store
    using register_Inr(1) [OF that] schema_id_Inr(1) [OF that]
    by (auto simp: registry_step_def that split: sum.split)
  show "entry_at (registry_step r store) k = Some v" if ok: "registry_ok store" and k: "entry_at store k = Some v"
    for r store k v
  proof (cases "register (fst r) (snd r) store")
    case (Inr p)
    then obtain x store' where reg: "register (fst r) (snd r) store = Inr (x, store')" by (cases p) simp
    from k obtain vs where "map_of (st_subjects store) (fst k) = Some vs" "snd k < length vs" "v = vs ! snd k"
      by (auto simp: entry_at_def split: option.splits if_splits)
    moreover from register_Inr(4) [OF ok reg this(1)] obtain more where
      "map_of (st_subjects store') (fst k) = Some (vs @ more)" by blast
    ultimately show ?thesis by (simp add: registry_step_def reg entry_at_def nth_append)
  next
    case (Inl e)
    then have "st_subjects (registry_step r store) = st_subjects store"
      using schema_id_Inr(2) [OF ok] by (auto simp: registry_step_def split: sum.split)
    with k show ?thesis by (simp add: entry_at_def)
  qed
qed

text \<open>Every way to find an entry of a consistent store.\<close>

lemma entry_found:
  assumes ok: "registry_ok store" and vs: "map_of (st_subjects store) subject = Some vs" and r: "r \<in> set vs"
  shows "lookup subject (rg_schema r) store = Inr r" and "version_of subject (rg_version r) store = Inr r"
    and "schema_by_id (rg_id r) store = Inr (rg_schema r)" and "register subject (rg_schema r) store = Inr (r, store)"
    and "1 \<le> rg_id r" and "in_i32 (rg_id r)" and "1 \<le> rg_version r" and "in_i32 (rg_version r)"
proof -
  have v: "versions_ok store subject vs" by (rule registry_okD [OF ok vs])
  have s: "find (\<lambda>v. rg_schema v = rg_schema r) vs = Some r" using v r by (intro find_distinct) (simp_all add: versions_ok_def)
  then show "lookup subject (rg_schema r) store = Inr r" "register subject (rg_schema r) store = Inr (r, store)"
    by (simp_all add: lookup_def register_def vs)
  show "version_of subject (rg_version r) store = Inr r"
    using find_distinct [OF versions_distinct [OF v] r] by (simp add: version_of_def vs)
  note m = versions_ok_member [OF v r]
  then have i: "map_of (st_schemas_by_id store) (rg_id r) = Some (rg_schema r)" using ok by (simp add: registry_ok_def)
  then show "schema_by_id (rg_id r) store = Inr (rg_schema r)" by (simp add: schema_by_id_def)
  have "1 \<le> rg_id r \<and> rg_id r < st_next_schema_id store" using ok i unfolding registry_ok_def by blast
  moreover have "st_next_schema_id store \<le> i32_max" using ok by (simp add: registry_ok_def)
  ultimately show "1 \<le> rg_id r" "in_i32 (rg_id r)" by (simp_all add: in_i32_def i32_max_def)
  show "1 \<le> rg_version r" "in_i32 (rg_version r)" by (rule m)+
qed

lemma registered_stays:
  assumes ok: "registry_ok store" and reg: "register subject schema store = Inr (r, store')"
  shows "\<exists>vs. map_of (st_subjects (fold registry_step rs store')) subject = Some vs \<and> r \<in> set vs"
proof -
  note new = register_Inr [OF ok reg]
  from new(3) obtain vs n where "map_of (st_subjects store') subject = Some vs" "n < length vs" "r = vs ! n"
    by (auto simp: in_set_conv_nth)
  then have "entry_at store' (subject, n) = Some r" by (simp add: entry_at_def)
  from schemas.run_find [OF new(1) this, of rs] show ?thesis
    by (auto simp: entry_at_def split: option.splits if_splits)
qed

text \<open>
  C38: a registered schema is served for good. Once a registration over HTTP has answered with an identifier, every
  later state of the registry, whatever is registered in between, returns its text under that identifier, finds
  it in the subject under one version number, both by its text and by that number, lists that version, and answers the
  same registration again with the same identifier, without a change; another subject
  that registers the text shares the identifier. None of these requests panics.
\<close>

theorem registered_schema_is_served:
  assumes "registry_ok store" and "register_schema avro subject request store = Inr (Inr i, store')"
    and "later = fold registry_step rs store'"
  shows "\<exists>schema r. checked_body avro request = Inr schema \<and> rg_id r = i \<and> rg_schema r = schema \<and>
    get_schema_by_id (show_int i) later = Inr \<lparr>sr_schema = schema, sr_schema_type = ''AVRO''\<rparr> \<and>
    lookup_schema avro subject request later = Inr (Inr (registered_schema_response_from r)) \<and>
    get_subject_version subject (show_int (rg_version r)) later = Inr (Inr (registered_schema_response_from r)) \<and>
    (\<exists>vs. list_versions subject later = Inr vs \<and> rg_version r \<in> set vs) \<and>
    register_schema avro subject request later = Inr (Inr i, later) \<and>
    (\<forall>other j later'. register_schema avro other request later = Inr (Inr j, later') \<longrightarrow> j = i)"
proof -
  from assms(2) obtain schema r where schema: "checked_body avro request = Inr schema"
    and reg: "register subject schema store = Inr (r, store')" and r: "rg_id r = i"
    by (auto simp: register_schema_def try_bind_Inr split: sum.splits)
  note new = register_Inr [OF assms(1) reg]
  have ok: "registry_ok later" unfolding assms(3) by (rule schemas.run_inv [OF new(1)])
  from registered_stays [OF assms(1) reg] obtain vs where vs: "map_of (st_subjects later) subject = Some vs" "r \<in> set vs"
    by (auto simp: assms(3))
  note found = entry_found [OF ok vs, unfolded new(2) r]
  have number: "parse_i32 (show_int i) = Some i" "parse_i32 (show_int (rg_version r)) = Some (rg_version r)"
    using found(5-8) by (simp_all add: parse_show_i32)
  have "show_int (rg_version r) \<noteq> ''latest''"
    using number(2) by (auto simp: parse_i32_def digits_def)
  with found number have "get_subject_version subject (show_int (rg_version r)) later = Inr (Inr (registered_schema_response_from r))"
    by (simp add: get_subject_version_def)
  moreover have "j = i" if "register_schema avro other request later = Inr (Inr j, later')" for other j later'
  proof -
    from that schema obtain q where q: "register other schema later = Inr (q, later')" "rg_id q = j"
      by (auto simp: register_schema_def try_bind_Inr)
    note n = register_Inr [OF ok q(1)]
    from n(3) obtain ws where ws: "map_of (st_subjects later') other = Some ws" "q \<in> set ws" by blast
    have "map_of (st_schemas_by_text later) schema = Some i"
      using versions_ok_member(4) [OF registry_okD [OF ok vs(1)] vs(2)] by (simp add: new(2) r)
    then have "map_of (st_schemas_by_text later') schema = Some i" by (rule n(5))
    with versions_ok_member(4) [OF registry_okD [OF n(1) ws(1)] ws(2)] show ?thesis by (simp add: n(2) q(2))
  qed
  ultimately show ?thesis
    using found number schema vs
    by (intro exI [of _ schema] exI [of _ r])
      (auto simp: new(2) r get_schema_by_id_def path_id_def lookup_schema_def list_versions_def versions_def
        register_schema_def)
qed

definition sample_schema :: "unit schema_request" where
  "sample_schema = \<lparr>sq_schema = ''int'', sq_schema_type = None, sq_references = []\<rparr>"

theorem registered_schema_is_served_witness:
  "get_schema_by_id (show_int 1)
     (fold registry_step [(''s'', ''string''), (''t'', ''int'')]
        (snd (projr (register_schema (\<lambda>_. True) ''s'' (Inr sample_schema) registry_new)))) =
   Inr \<lparr>sr_schema = ''int'', sr_schema_type = ''AVRO''\<rparr>"
proof -
  let ?store = "snd (projr (register_schema (\<lambda>_. True) ''s'' (Inr sample_schema) registry_new))"
  have reg: "register_schema (\<lambda>_. True) ''s'' (Inr sample_schema) registry_new = Inr (Inr 1, ?store)"
    and body: "checked_body (\<lambda>_. True) (Inr sample_schema) = Inr ''int''"
    by code_simp+
  from registered_schema_is_served [OF registry_ok_new reg refl, of "[(''s'', ''string''), (''t'', ''int'')]"] body
  show ?thesis by auto
qed

end
