(* ===== verification/Configuration.thy ===== *)
theory Configuration
  imports Text Discovery
begin

text \<open>
  The configuration (\<open>src/src/config.rs\<close>): advertised addresses and listeners as they are written on the command
  line, and the configuration made from it. Parsing the flags themselves is done by the \<open>clap\<close>
  crate; a socket address literal is read by the parameter \<open>parse_socket\<close>.
\<close>

section \<open>Advertised addresses\<close>

type_synonym config_error = string

definition quoted :: "string \<Rightarrow> string" where
  "quoted s = [CHR 0x27] @ s @ [CHR 0x27]"

definition invalid_advertised_address :: "string \<Rightarrow> string \<Rightarrow> config_error" where
  "invalid_advertised_address value reason = ''invalid Kafka advertised address '' @ quoted value @ '': '' @ reason"

definition address_new :: "string \<Rightarrow> nat \<Rightarrow> config_error + advertised_address" where
  "address_new host port =
     (let host = trim host
      in if host = [] then Inl ''advertised host must not be empty''
         else if port = 0 then Inl ''advertised port must be greater than zero''
         else Inr \<lparr>aa_host = host, aa_port = port\<rparr>)"

definition show_address :: "advertised_address \<Rightarrow> string" where
  "show_address a =
     (if CHR '':'' \<in> set (aa_host a) then ''['' @ aa_host a @ '']:'' @ show_nat (aa_port a)
      else aa_host a @ '':'' @ show_nat (aa_port a))"

definition split_address :: "string \<Rightarrow> (string \<times> string) option" where
  "split_address value =
     (case value of
        c # rest \<Rightarrow>
          if c = CHR ''['' then rsplit_once '']:'' rest
          else (case rsplit_once '':'' value of
                  None \<Rightarrow> None
                | Some (host, port) \<Rightarrow> if CHR '':'' \<in> set host then None else Some (host, port))
      | [] \<Rightarrow> None)"

definition parse_address :: "string \<Rightarrow> config_error + advertised_address" where
  "parse_address value =
     (case split_address value of
        None \<Rightarrow> Inl (invalid_advertised_address value ''expected host:port'')
      | Some (host, port) \<Rightarrow>
          (case parse_u16 port of
             None \<Rightarrow> Inl (invalid_advertised_address value ''port must be an integer from 1 to 65535'')
           | Some n \<Rightarrow>
               (case address_new host n of
                  Inl message \<Rightarrow> Inl (invalid_advertised_address value message)
                | Inr a \<Rightarrow> Inr a)))"

section \<open>Listeners\<close>

record 'a kafka_listener =
  kl_listen :: 'a
  kl_advertised :: "advertised_address option"

definition invalid_listener :: "string \<Rightarrow> string \<Rightarrow> config_error" where
  "invalid_listener value reason = ''invalid Kafka listener '' @ quoted value @ '': '' @ reason"

definition duplicate_listener_field :: "string \<Rightarrow> string \<Rightarrow> config_error" where
  "duplicate_listener_field value field =
     ''invalid Kafka listener '' @ quoted value @ '': '' @ field @ '' is set more than once''"

text \<open>One turn of the loop over the fields, with what has been set so far.\<close>

definition listener_field ::
  "(string \<Rightarrow> 'a option) \<Rightarrow> string \<Rightarrow> string \<Rightarrow> 'a option \<times> advertised_address option \<Rightarrow>
   config_error + ('a option \<times> advertised_address option)" where
  "listener_field parse_socket value field set_fields =
     (let field = trim field; (listen, advertised) = set_fields
      in case split_once CHR ''='' field of
           None \<Rightarrow>
             Inl (invalid_listener value (''expected listen=<host:port> fields, got '' @ quoted field))
         | Some (key, raw) \<Rightarrow>
             let raw = trim raw; key = trim key
             in if key = ''listen''
                then if listen \<noteq> None then Inl (duplicate_listener_field value ''listen'')
                     else (case parse_socket raw of
                             None \<Rightarrow> Inl (invalid_listener value
                               (''listen '' @ quoted raw @ '' must be an address literal host:port''))
                           | Some a \<Rightarrow> Inr (Some a, advertised))
                else if key = ''advertised''
                then if advertised \<noteq> None then Inl (duplicate_listener_field value ''advertised'')
                     else (case parse_address raw of Inl e \<Rightarrow> Inl e | Inr a \<Rightarrow> Inr (listen, Some a))
                else Inl (invalid_listener value
                       (''unknown field '' @ quoted key @ '', expected listen or advertised'')))"

fun listener_fields ::
  "(string \<Rightarrow> 'a option) \<Rightarrow> string \<Rightarrow> string list \<Rightarrow> 'a option \<times> advertised_address option \<Rightarrow>
   config_error + ('a option \<times> advertised_address option)" where
  "listener_fields parse_socket value [] set_fields = Inr set_fields"
| "listener_fields parse_socket value (field # rest) set_fields =
     try_bind (listener_field parse_socket value field set_fields) (listener_fields parse_socket value rest)"

definition parse_listener :: "(string \<Rightarrow> 'a option) \<Rightarrow> string \<Rightarrow> config_error + 'a kafka_listener" where
  "parse_listener parse_socket value =
     try_bind (listener_fields parse_socket value (split CHR '','' value) (None, None)) (\<lambda>(listen, advertised).
     case listen of
       None \<Rightarrow> Inl (invalid_listener value ''missing required listen field'')
     | Some l \<Rightarrow> Inr \<lparr>kl_listen = l, kl_advertised = advertised\<rparr>)"

section \<open>The configuration\<close>

datatype log_level = Error_Level | Warn_Level | Info_Level | Debug_Level | Trace_Level

record 'a cli =
  cli_kafka_listener :: "'a kafka_listener list"
  cli_kafka_listen :: 'a
  cli_kafka_advertised_address :: "advertised_address option"
  cli_schema_registry_listen :: 'a
  cli_auto_create_topics :: bool
  cli_force_auto_create_topics :: bool
  cli_default_partitions :: nat
  cli_log_level :: log_level
  cli_quiet :: bool

record 'a config =
  cf_broker_id :: i32
  cf_kafka_listeners :: "'a kafka_listener list"
  cf_schema_registry_listen :: 'a
  cf_auto_create_topics :: bool
  cf_force_auto_create_topics :: bool
  cf_default_partitions :: nat
  cf_log_level :: log_level
  cf_quiet :: bool

definition config_from :: "'a cli \<Rightarrow> 'a config run" where
  "config_from c =
     (let listeners =
        (if cli_kafka_listener c = []
         then [\<lparr>kl_listen = cli_kafka_listen c, kl_advertised = cli_kafka_advertised_address c\<rparr>]
         else cli_kafka_listener c)
      in try_bind (expect ''clap rejects a zero partition count''
             (if cli_default_partitions c = 0 then None else Some (cli_default_partitions c))) (\<lambda>n.
         Inr \<lparr>cf_broker_id = 1, cf_kafka_listeners = listeners,
              cf_schema_registry_listen = cli_schema_registry_listen c,
              cf_auto_create_topics = cli_auto_create_topics c,
              cf_force_auto_create_topics = cli_force_auto_create_topics c, cf_default_partitions = n,
              cf_log_level = cli_log_level c, cf_quiet = cli_quiet c\<rparr>))"

section \<open>Addresses round trip\<close>

text \<open>The address the broker prints parses back to itself.\<close>

lemma address_new_ok:
  assumes "address_new host port = Inr a"
  shows "aa_host a \<noteq> [] \<and> trim (aa_host a) = aa_host a \<and> aa_port a = port \<and> 0 < port"
  using assms by (auto simp: address_new_def Let_def trim_idem split: if_splits)

lemma show_nat_no_colon: "CHR '':'' \<notin> set (show_nat n)"
  using show_nat_digits [of "CHR '':''" n] by auto

lemma split_show_address:
  assumes "aa_host a \<noteq> []" and "hd (aa_host a) = CHR ''['' \<longrightarrow> CHR '':'' \<in> set (aa_host a)"
  shows "split_address (show_address a) = Some (aa_host a, show_nat (aa_port a))"
proof (cases "CHR '':'' \<in> set (aa_host a)")
  case True
  have "rsplit_once '']:'' (aa_host a @ '']:'' @ show_nat (aa_port a)) = Some (aa_host a, show_nat (aa_port a))"
    using rsplit_once_pair [OF show_nat_no_colon] by simp
  with True show ?thesis by (simp add: split_address_def show_address_def)
next
  case False
  obtain c h where h: "aa_host a = c # h" using assms by (cases "aa_host a") auto
  have "rsplit_once '':'' (aa_host a @ '':'' @ show_nat (aa_port a)) = Some (aa_host a, show_nat (aa_port a))"
    using rsplit_once_char [OF show_nat_no_colon] by simp
  with False h assms show ?thesis by (auto simp: split_address_def show_address_def)
qed

theorem address_round_trip:
  assumes "address_new host port = Inr a" and "port < 2 ^ 16"
    and "hd (aa_host a) = CHR ''['' \<longrightarrow> CHR '':'' \<in> set (aa_host a)"
  shows "parse_address (show_address a) = Inr a"
proof -
  note a = address_new_ok [OF assms(1)]
  have "parse_address (show_address a) = (case address_new (aa_host a) (aa_port a) of
      Inl message \<Rightarrow> Inl (invalid_advertised_address (show_address a) message) | Inr a \<Rightarrow> Inr a)"
    using a assms by (simp add: parse_address_def split_show_address parse_show_u16)
  with a show ?thesis by (simp add: address_new_def Let_def)
qed

text \<open>A duplicate field is refused whatever the rest of the listener says, and a listener needs \<open>listen\<close>.\<close>

lemma listener_fields_keep_listen:
  assumes "listener_fields parse_socket value parts (l, a) = Inr (l', a')"
  shows "(l \<noteq> None \<longrightarrow> l' = l) \<and> (a \<noteq> None \<longrightarrow> a' = a)"
  using assms
proof (induction parts arbitrary: l a)
  case (Cons field rest)
  then obtain l1 a1 where one: "listener_field parse_socket value field (l, a) = Inr (l1, a1)"
    and rest: "listener_fields parse_socket value rest (l1, a1) = Inr (l', a')"
    by (auto simp: try_bind_def split: sum.splits)
  have "(l \<noteq> None \<longrightarrow> l1 = l) \<and> (a \<noteq> None \<longrightarrow> a1 = a)"
    using one by (auto simp: listener_field_def Let_def split: option.splits if_splits sum.splits)
  with Cons.IH [OF rest] show ?case by auto
qed simp

end
