(* ===== verification/Spec2Isabelle.thy ===== *)
theory Spec2Isabelle
  imports Serving Unserved Group_Offsets Record_Path Schema_Registry Configuration
begin

text \<open>
  A verification development for memkafka, an in-memory Kafka broker with a schema registry.

  \<^bold>\<open>The program.\<close> A client opens a connection and sends length-prefixed frames (\<open>src/src/kafka/frame.rs\<close>). The
  connection (\<open>connection.rs\<close>) decodes a frame into a header and a body (\<open>codec.rs\<close>, with the generated messages and
  wire types of \<open>src/crates/kafka-protocol/src\<close>), the router (\<open>request_router.rs\<close>) looks its API key and version up in
  the capability table (\<open>capabilities.rs\<close>), an unsupported version is answered by \<open>error_response.rs\<close>, and the
  dispatcher (\<open>dispatcher.rs\<close>) hands a supported request to the handler of its API. The handlers work on the broker
  state (\<open>src/src/broker/mod.rs\<close>): the topic catalog (\<open>topics.rs\<close>) with a log for each partition (\<open>partition.rs\<close>), the
  producer coordinator (\<open>producers.rs\<close>), the consumer group coordinator (\<open>groups.rs\<close>) and a notification for
  appends. Beside the broker a schema registry (\<open>src/src/schema_registry.rs\<close>) answers over HTTP. The process is set up
  from a configuration (\<open>src/src/config.rs\<close>).

  \<^bold>\<open>How code is modelled.\<close> A struct is a record with a prefix on its fields, an enum a datatype, a critical section
  under one lock a function on the locked state. Code that may panic returns the type \<open>run\<close> of \<open>Prelude\<close>, whose
  left values are panics and exhausted draws; code with a \<open>Result\<close> returns a sum with the error on the left. Integers
  are \<open>int\<close> or \<open>nat\<close> with the bounds of their Rust type as predicates (\<open>in_i32\<close>) and the checked, saturating, wrapping
  and casting operations written out. A \<open>HashMap\<close> is an association list, in any order; a \<open>BTreeMap\<close> is a sorted one.
  A string is the list of its UTF-8 bytes. A request that waits is not one function: it is a
  first section and a section that runs again at each wake-up (\<open>join_poll\<close>, \<open>sync_poll\<close>), or a step relation between broker and
  handler (\<open>fetch_step\<close>), so that theorems quantify over every interleaving with other requests and over time. A pass
  of Fetch reads the broker anew for each partition. Producing to a partition is a task with one turn for each time it
  touches the broker (\<open>produce_turn\<close>), the append and the notification being two of them, and
  \<open>produce_partition\<close> is that task run to its end. The definition of any other handler composes its sections without
  interruption; what others do in between is covered where it matters, by theorems that quantify over all
  states the critical sections reach (\<open>reaches\<close>) and by the loop of \<open>Serving\<close>.

  \<^bold>\<open>Parameters.\<close> Code of other crates is an argument: \<open>crc\<close> is the CRC-32C of a byte string; the draws of
  \<open>Uuid::new_v4\<close> are a list in the broker state (\<open>bs_draws\<close>), with \<open>fresh_draws\<close> as the hypothesis that enough
  identifiers are left which are neither nil nor in use; \<open>avro\<close> tells whether a text is an Avro schema; \<open>parse_socket\<close>
  reads a socket address; \<open>other_encode\<close> and \<open>other_decode\<close> stand for the codecs of the messages the broker does
  not serve, the theorems hold for all of them, and \<open>crate_decode\<close> is the decoder of the protocol crate; \<open>compressors\<close>
  and \<open>decompressors\<close> give the compression algorithms a client enables. The clock is an argument of every section that
  reads it, a function of the number of the section where a handler runs several. What a socket delivers is a list of pieces of any size and failures.

  \<^bold>\<open>Theories.\<close>

  \<^item> \<open>Prelude\<close>: integers, panics, maps, and the locales \<open>guarded_ops\<close> (operations that keep an invariant, hence all
    sequences of them) and \<open>registry\<close> (operations that also keep every entry found), which the components interpret.

  \<^item> \<open>Wire\<close>, \<open>Wire_Types\<close>, \<open>Message_Codec\<close>: \<open>protocol/types.rs\<close>, \<open>buf.rs\<close> and \<open>protocol/mod.rs\<close>. The locales \<open>wire_codec\<close>,
    \<open>fallible_codec\<close> and \<open>sized_codec\<close> state that a decoder undoes its encoder whatever follows, and that the encoder writes as
    many bytes as the size computation announces; they are interpreted on every primitive type and closed under
    arrays, optional structures and tagged fields by the rules collected in \<open>coded_intros\<close>.

  \<^item> \<open>Messages_Log\<close>, \<open>Messages_Cluster\<close>, \<open>Messages_Group\<close>: the 103 structures of the served messages
    (\<open>src/crates/kafka-protocol/src/messages\<close>) with their defaults. \<open>Codec_Log\<close>, \<open>Codec_Topics\<close>, \<open>Codec_Cluster\<close>,
    \<open>Codec_Members\<close>, \<open>Codec_Groups\<close>: their encoders, size computations and decoders in every version, each with the domain
    on which it round-trips. \<open>Kinds\<close>: request and response bodies by API key. \<open>Codec\<close>: headers, frames, responses.

  \<^item> \<open>Wire_Rest\<close>, and a theory \<open>Messages_\<close> and one \<open>Codec_\<close> each for \<open>Txn\<close>, \<open>Admin\<close>, \<open>Config\<close>, \<open>Security\<close>, \<open>Controller\<close>,
    \<open>Raft\<close>, \<open>Consumer\<close> and \<open>Share\<close>: in the same way the 168 structures of the 70 requests the broker does not serve, for it
    decodes them all the same. \<open>Other_Kinds\<close>: their variants of \<open>RequestKind\<close>, and with \<open>crate_decode\<close> the code for the
    parameter \<open>other_decode\<close>. \<open>Unserved\<close>: such a request is decoded, changes nothing and ends the connection.

  \<^item> \<open>Batch\<close>, \<open>Records\<close>: \<open>records.rs\<close>, the batch headers the broker reads, and the records and batches its clients encode and
    decode, with the theorem that decoding returns what was encoded. \<open>Partition\<close>, \<open>Partition_Props\<close>: the partition log, its
    invariant, its refinement of an append-only list of records (locale \<open>offset_log\<close>), idempotent retries,
    contiguous sequences and what a fetch returns.

  \<^item> \<open>Producers\<close>, \<open>Topics\<close>: producer identities and the topic catalog, with their invariants.

  \<^item> \<open>Group_Coordinator\<close>, \<open>Group_Props\<close>, \<open>Group_Theorems\<close>: the sections of \<open>groups.rs\<close>, the invariant of a group under
    any interleaving, and what follows for members, generations, assignments, deadlines and offsets.

  \<^item> \<open>Errors\<close>: the table of error codes. \<open>Api_Keys\<close>, \<open>Capabilities\<close>: the tables of API keys and of supported versions.

  \<^item> \<open>Broker\<close>: the coordinators side by side, the relation \<open>reaches\<close> between states of a running broker, its invariant
    \<open>broker_ok\<close> and the bound \<open>counts_ok\<close> on partition counts.

  \<^item> \<open>Produce\<close>, \<open>Fetch\<close>, \<open>Discovery\<close>, \<open>Topic_Pages\<close>, \<open>Group_Handlers\<close>, \<open>Group_Offsets\<close>: the handlers of
    \<open>src/src/kafka\<close>, one definition per function, and what they promise together: acknowledged records are fetched, a
    waiting fetch misses no append and ends, metadata and topic creation answer as asked, pages list everything once,
    committed offsets are read back. The theorems on Fetch speak of the whole response, with the place of a partition in
    the request and the data before it, and of a broker that changes while it is read. \<open>Record_Path\<close>: a record from the encoder of a producer through Produce, the log and
    Fetch to the decoder of a consumer.

  \<^item> \<open>Error_Response\<close>, \<open>Router\<close>, \<open>Frames\<close>, \<open>Connection\<close>: from the bytes of a frame to the bytes of the
    response. \<open>Serving\<close>: the loop of a connection, interleaved with everything else that works on the broker, with
    handlers that are interrupted between their sections, answers written in pieces, and a shutdown that may fall
    anywhere; its theorem spans all the others: whatever the interleaving, answers come in the order of the
    requests, and the handlers as defined are runs of that loop.

  \<^item> \<open>Text\<close>, \<open>Schema_Registry\<close>, \<open>Configuration\<close>: string operations, the registry with its handlers, and the configuration.

  \<^bold>\<open>Bounds and fuel.\<close> No operation of the model runs on fuel: loops are structural or have a measure, and
  the only open-ended ones, waiting and drawing identifiers, are step relations and lists of draws. Fuel occurs only in two
  clients that the theorems quantify over, \<open>read_frames\<close> and \<open>follow_pages\<close>, which read frames or follow cursors: the
  theorems give an amount that is enough. The count of \<open>uvar_loop\<close> is not fuel but the five or ten rounds
  of the source. \<open>counts_ok\<close> keeps partition counts representable as \<open>i32\<close>; it holds for every broker
  configured with at most \<open>2^31\<close> default partitions, and a theorem of \<open>Discovery\<close> shows that a larger
  configured count does panic.

  \<^bold>\<open>Not modelled.\<close> The listeners, signals, shutdown and log output (\<open>server.rs\<close>, \<open>main.rs\<close>, \<open>logging.rs\<close>)
  are input and output of the runtime; that a connection can be shut down at any point is part of \<open>Serving\<close>. A
  decoder's allocation of as much memory as a length prefix announces is not modelled. The responses of
  the APIs outside the capability table and the records of Kafka's own topics are generated code that the broker neither
  encodes nor decodes. The compression codecs (\<open>compression/\<close>) wrap other crates and are parameters of the record
  batches; the broker never calls them, for it stores batches as they come. URL routing, content types and JSON of the
  registry belong to axum and serde. The code generator (\<open>protocol_codegen\<close>) and \<open>manifest_json\<close> of \<open>capabilities.rs\<close> are build-time tools.
\<close>

end
